(* ===== verification/GoPrelude.thy ===== *)
theory GoPrelude
  imports Main "HOL-Library.AList" "HOL-Library.Multiset" "HOL-Library.Word"
begin

text \<open>
  The conventions every component shares: Go's error values and \<^verbatim>\<open>errors.Is\<close>, results that are
  a value, an error or a panic, Go maps as association lists with distinct keys, and machine
  integers. A Go map has no fixed iteration order: an operation that ranges over a map it built
  takes the runtime's order as an argument \<open>ord\<close>, a function that permutes the entries
  (\<open>range_order\<close>); a map handed in from outside is the list of its entries in whatever order.
\<close>

named_theorems go_simps \<open>unfolding rules for the Go conventions: results, maps, loops\<close>

section \<open>Machine integers\<close>

type_synonym uint8 = "8 word"
type_synonym uint16 = "16 word"
type_synonym uint32 = "32 word"
type_synonym uint64 = "64 word"
type_synonym int32 = "32 word"
type_synonym goint = "64 word"

lemma goint_fits: "- (2 ^ 63) \<le> k \<Longrightarrow> k < 2 ^ 63 \<Longrightarrow> sint (word_of_int k :: goint) = k"
  by (simp add: signed_of_int signed_take_bit_int_eq_self)

text \<open>Go's division of signed integers truncates towards zero.\<close>

definition go_div :: "int \<Rightarrow> int \<Rightarrow> int" where
  "go_div a b = sgn a * sgn b * (\<bar>a\<bar> div \<bar>b\<bar>)"

lemma go_div_nonneg: "0 \<le> a \<Longrightarrow> 0 < b \<Longrightarrow> go_div a b = a div b"
  by (simp add: go_div_def sgn_if)

section \<open>Errors\<close>

text \<open>
  \<^verbatim>\<open>errors.New\<close> is \<open>NewError\<close>; \<^verbatim>\<open>fmt.Errorf\<close> keeps its format and its textual
  arguments, as \<open>Wrapf\<close> when an error is wrapped with \<^verbatim>\<open>%w\<close> and as \<open>Flatf\<close> when an error is only
  printed (\<^verbatim>\<open>%s\<close>, \<^verbatim>\<open>%v\<close>), which hides it from \<^verbatim>\<open>errors.Is\<close>. \<open>ErrNoData\<close> is the package's
  sentinel, \<open>ErrNotExist\<close> and \<open>ErrPermission\<close> those of \<^verbatim>\<open>os\<close>; \<open>OSError\<close> and \<open>ExtError\<close> are every other
  error of the operating system or of a third-party package, by its message.
\<close>

datatype error =
    ErrNoData
  | ErrNotExist
  | ErrPermission
  | OSError string
  | ExtError string
  | ErrSyntax string
  | ErrRange string
  | ErrTooLong
  | NewError string
  | Errorf string "string list"
  | Wrapf string "string list" error
  | Flatf string "string list" error

fun errors_Is :: "error \<Rightarrow> error \<Rightarrow> bool" where
  "errors_Is (Wrapf f xs e) t = (Wrapf f xs e = t \<or> errors_Is e t)"
| "errors_Is e t = (e = t)"

lemma errors_Is_refl [simp]: "errors_Is e e"
  by (cases e) simp_all

text \<open>\<^verbatim>\<open>errors.Unwrap\<close> takes one layer off an error, if it wraps another.\<close>

fun errors_Unwrap :: "error \<Rightarrow> error option" where
  "errors_Unwrap (Wrapf f xs e) = Some e"
| "errors_Unwrap e = None"

text \<open>\<^verbatim>\<open>os.IsNotExist\<close> does not look inside an error wrapped by \<^verbatim>\<open>fmt.Errorf\<close>.\<close>

definition os_IsNotExist :: "error \<Rightarrow> bool" where
  "os_IsNotExist e \<longleftrightarrow> e = ErrNotExist"


section \<open>Results\<close>

datatype 'a res = Ok 'a | Err error | Panic string

fun bind_res :: "'a res \<Rightarrow> ('a \<Rightarrow> 'b res) \<Rightarrow> 'b res" where
  "bind_res (Ok x) f = f x"
| "bind_res (Err e) f = Err e"
| "bind_res (Panic p) f = Panic p"

fun map_err :: "(error \<Rightarrow> error) \<Rightarrow> 'a res \<Rightarrow> 'a res" where
  "map_err f (Ok x) = Ok x"
| "map_err f (Err e) = Err (f e)"
| "map_err f (Panic p) = Panic p"

fun panics :: "'a res \<Rightarrow> bool" where
  "panics (Panic p) = True"
| "panics (Ok x) = False"
| "panics (Err e) = False"

lemma bind_res_Ok_iff [go_simps]:
  "bind_res r f = Ok y \<longleftrightarrow> (\<exists>x. r = Ok x \<and> f x = Ok y)"
  by (cases r) simp_all

lemma bind_res_Panic_iff [go_simps]:
  "bind_res r f = Panic p \<longleftrightarrow> r = Panic p \<or> (\<exists>x. r = Ok x \<and> f x = Panic p)"
  by (cases r) auto


lemma bind_res_assoc: "bind_res (bind_res r f) g = bind_res r (\<lambda>x. bind_res (f x) g)"
  by (cases r) simp_all

lemma map_err_Ok_iff [simp]: "map_err f r = Ok x \<longleftrightarrow> r = Ok x"
  by (cases r) simp_all

lemma map_err_Err_iff [simp]: "map_err f r = Err e \<longleftrightarrow> (\<exists>e'. r = Err e' \<and> e = f e')"
  by (cases r) auto

lemma map_err_Panic_iff [simp]: "map_err f r = Panic p \<longleftrightarrow> r = Panic p"
  by (cases r) simp_all


lemma panics_map_err [simp]: "panics (map_err f r) = panics r"
  by (cases r) simp_all

lemma panics_bind_res:
  "panics (bind_res r f) \<longleftrightarrow> panics r \<or> (\<exists>x. r = Ok x \<and> panics (f x))"
  by (cases r) simp_all


text \<open>Indexing a slice: out of range panics.\<close>

definition idx :: "'a list \<Rightarrow> nat \<Rightarrow> 'a res" where
  "idx xs i = (if i < length xs then Ok (xs ! i) else Panic ''index out of range'')"

lemma idx_Ok [simp]: "i < length xs \<Longrightarrow> idx xs i = Ok (xs ! i)"
  by (simp add: idx_def)

text \<open>A loop that stops at the first iteration that does not finish normally.\<close>

fun fold_res :: "('a \<Rightarrow> 's \<Rightarrow> 's res) \<Rightarrow> 'a list \<Rightarrow> 's \<Rightarrow> 's res" where
  "fold_res f [] s = Ok s"
| "fold_res f (x # xs) s = bind_res (f x s) (fold_res f xs)"

lemma fold_res_append:
  "fold_res f (xs @ ys) s = bind_res (fold_res f xs s) (fold_res f ys)"
proof (induction xs arbitrary: s)
  case (Cons x xs)
  then show ?case by (cases "f x s") simp_all
qed simp

text \<open>An invariant of the body is an invariant of the loop.\<close>

lemma fold_res_invariant:
  assumes "\<And>x s t. x \<in> set xs \<Longrightarrow> P s \<Longrightarrow> f x s = Ok t \<Longrightarrow> P t"
    and "P s" and "fold_res f xs s = Ok t"
  shows "P t"
  using assms
proof (induction xs arbitrary: s)
  case (Cons x xs)
  then obtain u where "f x s = Ok u" "fold_res f xs u = Ok t"
    by (auto simp: go_simps)
  with Cons show ?case by (meson list.set_intros)
qed simp

lemma fold_res_no_panic:
  assumes "\<And>x s. x \<in> set xs \<Longrightarrow> \<not> panics (f x s)"
  shows "\<not> panics (fold_res f xs s)"
  using assms
proof (induction xs arbitrary: s)
  case (Cons x xs)
  then have "\<not> panics (f x s)" by simp
  with Cons show ?case by (cases "f x s") simp_all
qed simp

text \<open>
  A loop whose body appends to a list succeeds exactly when every iteration does, and its result
  is the concatenation of what the iterations append.
\<close>

lemma fold_res_collect:
  assumes "\<And>x acc. step x acc = bind_res (g x) (\<lambda>ys. Ok (acc @ ys))"
  shows "fold_res step xs acc = Ok r \<longleftrightarrow> (\<exists>yss. list_all2 (\<lambda>x ys. g x = Ok ys) xs yss \<and> r = acc @ concat yss)"
proof (induction xs arbitrary: acc)
  case (Cons x xs)
  show ?case
  proof (cases "g x")
    case (Ok ys)
    have "fold_res step (x # xs) acc = Ok r \<longleftrightarrow> (\<exists>yss. list_all2 (\<lambda>x ys. g x = Ok ys) xs yss \<and> r = (acc @ ys) @ concat yss)"
      using Ok Cons.IH [of "acc @ ys"] assms [of x acc] by simp
    also have "\<dots> \<longleftrightarrow> (\<exists>yss. list_all2 (\<lambda>x ys. g x = Ok ys) (x # xs) yss \<and> r = acc @ concat yss)"
    proof
      assume "\<exists>yss. list_all2 (\<lambda>x ys. g x = Ok ys) xs yss \<and> r = (acc @ ys) @ concat yss"
      then obtain yss where "list_all2 (\<lambda>x ys. g x = Ok ys) xs yss" "r = (acc @ ys) @ concat yss" by blast
      with Ok show "\<exists>yss. list_all2 (\<lambda>x ys. g x = Ok ys) (x # xs) yss \<and> r = acc @ concat yss"
        by (intro exI [of _ "ys # yss"]) simp
    qed (use Ok in \<open>auto simp: list_all2_Cons1\<close>)
    finally show ?thesis .
  qed (simp_all add: assms list_all2_Cons1)
qed auto

section \<open>Maps\<close>

type_synonym ('k, 'v) gomap = "('k \<times> 'v) list"

abbreviation map_get :: "('k, 'v) gomap \<Rightarrow> 'k \<Rightarrow> 'v option" where
  "map_get \<equiv> map_of"

abbreviation map_put :: "'k \<Rightarrow> 'v \<Rightarrow> ('k, 'v) gomap \<Rightarrow> ('k, 'v) gomap" where
  "map_put \<equiv> AList.update"

abbreviation map_del :: "'k \<Rightarrow> ('k, 'v) gomap \<Rightarrow> ('k, 'v) gomap" where
  "map_del \<equiv> AList.delete"

abbreviation wf_map :: "('k, 'v) gomap \<Rightarrow> bool" where
  "wf_map m \<equiv> distinct (map fst m)"

text \<open>Indexing a map whose key is missing gives the zero value.\<close>

definition map_get_z :: "'v \<Rightarrow> ('k, 'v) gomap \<Rightarrow> 'k \<Rightarrow> 'v" where
  "map_get_z z m k = (case map_get m k of None \<Rightarrow> z | Some v \<Rightarrow> v)"

text \<open>\<^verbatim>\<open>maps.Copy(dst, src)\<close>\<close>

definition map_copy :: "('k, 'v) gomap \<Rightarrow> ('k, 'v) gomap \<Rightarrow> ('k, 'v) gomap" where
  "map_copy dst src = fold (\<lambda>(k, v). map_put k v) src dst"

lemma map_get_put [simp]: "map_get (map_put k v m) = (map_get m)(k \<mapsto> v)"
  by (rule update_conv')

lemma map_get_del [simp]: "map_get (map_del k m) = (map_get m)(k := None)"
  by (simp add: delete_conv')

lemma wf_map_put [simp]: "wf_map m \<Longrightarrow> wf_map (map_put k v m)"
  by (rule distinct_update)

lemma wf_map_del [simp]: "wf_map m \<Longrightarrow> wf_map (map_del k m)"
  by (simp add: distinct_delete)

lemma keys_map_put: "fst ` set (map_put k v m) = insert k (fst ` set m)"
  by (induction m) auto

lemma map_put_mem: "x \<in> set (map_put k v m) \<Longrightarrow> x = (k, v) \<or> x \<in> set m"
  by (induction m) (auto split: if_splits)


lemma wf_map_copy: "wf_map dst \<Longrightarrow> wf_map (map_copy dst src)"
  unfolding map_copy_def
  by (induction src arbitrary: dst) (auto split: prod.splits)

lemma map_get_copy: "wf_map src \<Longrightarrow> map_get (map_copy dst src) = map_get dst ++ map_get src"
  unfolding map_copy_def
proof (induction src arbitrary: dst)
  case (Cons kv src)
  obtain k v where "kv = (k, v)" by fastforce
  moreover have "map_get src k = None" using Cons.prems calculation by (simp add: map_of_eq_None_iff)
  ultimately show ?case using Cons by (auto simp: map_add_def split: option.splits)
qed simp


lemma map_of_eq_iff_mem: "wf_map m \<Longrightarrow> map_get m k = Some v \<longleftrightarrow> (k, v) \<in> set m"
  by (rule map_of_eq_Some_iff)

text \<open>\<^verbatim>\<open>m[k]++\<close>, and what a loop of increments counts.\<close>

definition map_incr :: "'k \<Rightarrow> ('k, 'v :: semiring_1) gomap \<Rightarrow> ('k, 'v) gomap" where
  "map_incr k m = map_put k (map_get_z 0 m k + 1) m"

lemma map_get_incr: "map_get (map_incr k m) = (map_get m)(k \<mapsto> map_get_z 0 m k + 1)"
  by (simp add: map_incr_def)

lemma fold_map_incr_get_z: "map_get_z 0 (fold map_incr ks m) k = map_get_z 0 m k + of_nat (count_list ks k)"
  by (induction ks arbitrary: m) (auto simp: map_get_z_def map_get_incr algebra_simps)

lemma fold_map_incr_dom: "dom (map_get (fold map_incr ks m)) = set ks \<union> dom (map_get m)"
  by (induction ks arbitrary: m) (auto simp: map_get_incr)

lemma fold_map_incr_get:
  "map_get (fold map_incr ks ([] :: ('k, 'v :: semiring_1) gomap)) k = (if k \<in> set ks then Some (of_nat (count_list ks k)) else None)"
proof -
  let ?m = "fold map_incr ks ([] :: ('k, 'v) gomap)"
  have z: "map_get_z 0 ?m k = of_nat (count_list ks k)" by (simp add: fold_map_incr_get_z) (simp add: map_get_z_def)
  have "map_get ?m k \<noteq> None \<longleftrightarrow> k \<in> set ks"
    using fold_map_incr_dom [of ks "[] :: ('k, 'v) gomap"] by (simp only: domIff [symmetric]) simp
  with z show ?thesis by (auto simp: map_get_z_def)
qed

lemma wf_fold_map_incr: "wf_map m \<Longrightarrow> wf_map (fold map_incr ks m)"
  by (induction ks arbitrary: m) (simp_all add: map_incr_def)

definition range_order :: "('a list \<Rightarrow> 'a list) \<Rightarrow> bool" where
  "range_order ord \<longleftrightarrow> (\<forall>xs. mset (ord xs) = mset xs)"

lemma range_order_set [simp]: "range_order ord \<Longrightarrow> set (ord xs) = set xs"
  by (metis range_order_def set_mset_mset)

lemma range_order_distinct [simp]: "range_order ord \<Longrightarrow> distinct (ord xs) = distinct xs"
  by (metis range_order_def mset_eq_imp_distinct_iff)

lemma range_order_id [simp]: "range_order (\<lambda>xs. xs)"
  by (simp add: range_order_def)

lemma range_order_rev: "range_order rev"
  by (simp add: range_order_def)

lemma range_order_mset: "range_order ord \<Longrightarrow> mset (ord xs) = mset xs"
  by (simp add: range_order_def)

lemma range_order_keys:
  assumes "range_order ord"
  shows "wf_map (ord m) = wf_map m"
  using range_order_mset [OF assms, of m]
  by (metis mset_eq_imp_distinct_iff mset_map)

section \<open>Lists\<close>

lemma concat_map_singleton [simp]: "concat (map (\<lambda>x. [f x]) xs) = map f xs"
  by (induction xs) simp_all

lemma mset_concat_map_perm:
  "mset xs = mset ys \<Longrightarrow> mset (concat (map f xs)) = mset (concat (map f ys))"
  by (simp add: mset_concat flip: mset_map) (metis mset_map sum_mset_sum_list)

end
