(* ===== verification/GoFloat.thy ===== *)
theory GoFloat
  imports Complex_Main
begin

text \<open>
  Go's \<^verbatim>\<open>float64\<close>: IEEE-754 binary64 with rounding to nearest, ties to even. A finite
  value is kept as the rational it denotes, so arithmetic is exact rational arithmetic followed
  by one rounding, which is how the standard defines it. Every metric value of the exporter is a
  \<^verbatim>\<open>float64\<close>; the lemmas say when a conversion from an integer counter loses nothing.
\<close>

section \<open>Binary64 values and rounding\<close>

datatype float64 = NaN | Inf bool | NegZero | Fin rat

fun bitlen :: "int \<Rightarrow> int" where
  "bitlen n = (if n \<le> 0 then 0 else 1 + bitlen (n div 2))"

declare bitlen.simps [simp del]

definition pow2 :: "int \<Rightarrow> rat" where
  "pow2 e = (if 0 \<le> e then 2 ^ nat e else 1 / 2 ^ nat (- e))"

definition floor_log2 :: "rat \<Rightarrow> int" where
  "floor_log2 a =
     (let (p, q) = quotient_of a; k = bitlen p - bitlen q
      in if pow2 k \<le> a then k else k - 1)"

definition round_half_even :: "rat \<Rightarrow> int" where
  "round_half_even x =
     (let f = \<lfloor>x\<rfloor>; d = x - of_int f
      in if d < 1 / 2 then f else if 1 / 2 < d then f + 1
         else if even f then f else f + 1)"

text \<open>
  A positive rational is rounded to a multiple of the unit in the last place of its binade;
  below the normal range the unit stays at \<open>pow2 (- 1074)\<close>.
\<close>

definition ulp_exp :: "rat \<Rightarrow> int" where
  "ulp_exp a = max (floor_log2 a) (- 1022) - 52"

definition round_pos :: "rat \<Rightarrow> rat" where
  "round_pos a = of_int (round_half_even (a / pow2 (ulp_exp a))) * pow2 (ulp_exp a)"

definition round64 :: "rat \<Rightarrow> float64" where
  "round64 r =
     (if r = 0 then Fin 0
      else let v = round_pos \<bar>r\<bar>
           in if v = 0 then (if r < 0 then NegZero else Fin 0)
              else if pow2 1024 \<le> v then Inf (r < 0)
              else Fin (if r < 0 then - v else v))"

definition f64_of_int :: "int \<Rightarrow> float64" where
  "f64_of_int n = round64 (of_int n)"

definition f64_of_nat :: "nat \<Rightarrow> float64" where
  "f64_of_nat n = f64_of_int (int n)"

section \<open>Arithmetic and comparison\<close>

fun f64_negative :: "float64 \<Rightarrow> bool" where
  "f64_negative NaN = False"
| "f64_negative (Inf s) = s"
| "f64_negative NegZero = True"
| "f64_negative (Fin r) = (r < 0)"

fun f64_rat :: "float64 \<Rightarrow> rat" where
  "f64_rat (Fin r) = r"
| "f64_rat _ = 0"

definition f64_zero :: "bool \<Rightarrow> float64" where
  "f64_zero neg = (if neg then NegZero else Fin 0)"

fun f64_neg :: "float64 \<Rightarrow> float64" where
  "f64_neg NaN = NaN"
| "f64_neg (Inf s) = Inf (\<not> s)"
| "f64_neg NegZero = Fin 0"
| "f64_neg (Fin r) = (if r = 0 then NegZero else Fin (- r))"

fun f64_add :: "float64 \<Rightarrow> float64 \<Rightarrow> float64" where
  "f64_add NaN y = NaN"
| "f64_add x NaN = NaN"
| "f64_add (Inf s) (Inf t) = (if s = t then Inf s else NaN)"
| "f64_add (Inf s) y = Inf s"
| "f64_add x (Inf t) = Inf t"
| "f64_add NegZero NegZero = NegZero"
| "f64_add x y = round64 (f64_rat x + f64_rat y)"

definition f64_sub :: "float64 \<Rightarrow> float64 \<Rightarrow> float64" where
  "f64_sub x y = f64_add x (f64_neg y)"

definition f64_mul :: "float64 \<Rightarrow> float64 \<Rightarrow> float64" where
  "f64_mul x y =
     (let s = (f64_negative x \<noteq> f64_negative y) in
      case (x, y) of
        (NaN, _) \<Rightarrow> NaN
      | (_, NaN) \<Rightarrow> NaN
      | (Inf _, Inf _) \<Rightarrow> Inf s
      | (Inf _, z) \<Rightarrow> (if f64_rat z = 0 then NaN else Inf s)
      | (z, Inf _) \<Rightarrow> (if f64_rat z = 0 then NaN else Inf s)
      | _ \<Rightarrow> (let p = f64_rat x * f64_rat y in if p = 0 then f64_zero s else round64 p))"

definition f64_div :: "float64 \<Rightarrow> float64 \<Rightarrow> float64" where
  "f64_div x y =
     (let s = (f64_negative x \<noteq> f64_negative y) in
      case (x, y) of
        (NaN, _) \<Rightarrow> NaN
      | (_, NaN) \<Rightarrow> NaN
      | (Inf _, Inf _) \<Rightarrow> NaN
      | (Inf _, _) \<Rightarrow> Inf s
      | (_, Inf _) \<Rightarrow> f64_zero s
      | _ \<Rightarrow> (if f64_rat y = 0 then (if f64_rat x = 0 then NaN else Inf s)
             else if f64_rat x = 0 then f64_zero s else round64 (f64_rat x / f64_rat y)))"

text \<open>Comparisons are false as soon as one side is a NaN, and the two zeros are equal.\<close>

fun f64_le :: "float64 \<Rightarrow> float64 \<Rightarrow> bool" where
  "f64_le NaN y = False"
| "f64_le x NaN = False"
| "f64_le (Inf True) y = True"
| "f64_le x (Inf False) = True"
| "f64_le (Inf False) y = False"
| "f64_le x (Inf True) = False"
| "f64_le x y = (f64_rat x \<le> f64_rat y)"

definition f64_eq :: "float64 \<Rightarrow> float64 \<Rightarrow> bool" where
  "f64_eq x y \<longleftrightarrow> f64_le x y \<and> f64_le y x"

definition f64_lt :: "float64 \<Rightarrow> float64 \<Rightarrow> bool" where
  "f64_lt x y \<longleftrightarrow> f64_le x y \<and> \<not> f64_le y x"

section \<open>Powers of two and the binary logarithm\<close>

lemma pow2_powi: "pow2 e = 2 powi e"
  by (simp add: pow2_def power_int_def inverse_eq_divide power_divide)

lemma pow2_pos [simp]: "0 < pow2 e"
  by (simp add: pow2_powi)

lemma pow2_nonzero [simp]: "pow2 e \<noteq> 0"
  by (simp add: pow2_powi)

lemma pow2_add: "pow2 (a + b) = pow2 a * pow2 b"
  by (simp add: pow2_powi power_int_add)

lemma pow2_strict_mono: "a < b \<Longrightarrow> pow2 a < pow2 b"
proof -
  assume "a < b"
  then have "1 < pow2 (b - a)" by (simp add: pow2_def one_less_power)
  then have "pow2 a * 1 < pow2 a * pow2 (b - a)" by (simp only: mult_less_cancel_left_pos pow2_pos)
  then show ?thesis by (simp flip: pow2_add)
qed

lemma pow2_less_iff [simp]: "pow2 a < pow2 b \<longleftrightarrow> a < b"
  by (metis linorder_neq_iff order_less_asym pow2_strict_mono)

lemma pow2_le_iff [simp]: "pow2 a \<le> pow2 b \<longleftrightarrow> a \<le> b"
  by (meson not_le pow2_less_iff)

lemma pow2_nat: "0 \<le> e \<Longrightarrow> pow2 e = 2 ^ nat e"
  by (simp add: pow2_def)

lemma bitlen_nonneg [simp]: "0 \<le> bitlen n"
  by (induction n rule: bitlen.induct) (simp add: bitlen.simps)

lemma bitlen_bounds:
  assumes "0 < n"
  shows "2 ^ nat (bitlen n - 1) \<le> n \<and> n < 2 ^ nat (bitlen n)"
  using assms
proof (induction n rule: bitlen.induct)
  case (1 n)
  show ?case
  proof (cases "n = 1")
    case True
    then show ?thesis by (simp add: bitlen.simps [of 1] bitlen.simps [of 0])
  next
    case False
    with 1 have half: "0 < n div 2" by simp
    let ?k = "bitlen (n div 2)"
    from 1 half have IH: "2 ^ nat (?k - 1) \<le> n div 2" "n div 2 < 2 ^ nat ?k" by auto
    have pos: "1 \<le> ?k" using half by (simp add: bitlen.simps [of "n div 2"])
    have "(2::int) ^ nat ?k = 2 * 2 ^ nat (?k - 1)"
      using pos by (metis Suc_nat_eq_nat_zadd1 add.commute diff_add_cancel diff_ge_0_iff_ge power_Suc)
    moreover have "(2::int) ^ nat (1 + ?k) = 2 * 2 ^ nat ?k"
      using pos by (simp add: nat_add_distrib)
    ultimately have "2 ^ nat ?k \<le> n \<and> n < 2 ^ nat (1 + ?k)" using IH by linarith
    then show ?thesis using 1(2) by (simp add: bitlen.simps [of n])
  qed
qed

lemma bitlen_pow2:
  assumes "0 < p"
  shows "pow2 (bitlen p - 1) \<le> of_int p" and "of_int p < pow2 (bitlen p)"
proof -
  have "1 \<le> bitlen p" using assms by (simp add: bitlen.simps [of p])
  moreover have "of_int (2 ^ nat (bitlen p - 1)) \<le> (of_int p :: rat)"
    "of_int p < (of_int (2 ^ nat (bitlen p)) :: rat)"
    using bitlen_bounds [OF assms] by (simp_all only: of_int_le_iff of_int_less_iff)
  ultimately show "pow2 (bitlen p - 1) \<le> of_int p" and "of_int p < pow2 (bitlen p)"
    by (simp_all add: pow2_nat)
qed

lemma floor_log2_bounds:
  assumes "0 < a"
  shows "pow2 (floor_log2 a) \<le> a \<and> a < pow2 (floor_log2 a + 1)"
proof -
  obtain p q where pq: "quotient_of a = (p, q)" by (cases "quotient_of a")
  have q: "0 < q" using pq by (rule quotient_of_denom_pos)
  have a: "a = of_int p / of_int q" using pq by (rule quotient_of_div)
  have p: "0 < p" using assms q by (simp add: a zero_less_divide_iff)
  note bp = bitlen_pow2
  let ?k = "bitlen p - bitlen q"
  have "a < pow2 (?k + 1)"
  proof -
    have "of_int p < pow2 (bitlen p)" using bp(2) [OF p] .
    also have "\<dots> = pow2 (?k + 1) * pow2 (bitlen q - 1)" by (simp flip: pow2_add)
    also have "\<dots> \<le> pow2 (?k + 1) * of_int q" using bp(1) [OF q] by simp
    finally show ?thesis using q by (simp add: a pos_divide_less_eq)
  qed
  moreover have "pow2 (?k - 1) \<le> a"
  proof -
    have "pow2 (?k - 1) * of_int q \<le> pow2 (?k - 1) * pow2 (bitlen q)" using bp(2) [OF q] by simp
    also have "\<dots> = pow2 (bitlen p - 1)" by (simp flip: pow2_add)
    also have "\<dots> \<le> of_int p" using bp(1) [OF p] .
    finally show ?thesis using q by (simp add: a pos_le_divide_eq)
  qed
  ultimately show ?thesis by (auto simp: floor_log2_def pq Let_def)
qed

lemma round_half_even_int [simp]: "round_half_even (of_int n) = n"
  by (simp add: round_half_even_def)

lemma round_half_even_near: "\<bar>of_int (round_half_even x) - x\<bar> \<le> 1 / 2"
  using floor_correct [of x] by (auto simp: round_half_even_def Let_def abs_le_iff)

lemma round_half_even_bounds: "\<lfloor>x\<rfloor> \<le> round_half_even x \<and> round_half_even x \<le> \<lfloor>x\<rfloor> + 1"
  by (simp add: round_half_even_def Let_def)

lemma round_half_even_mono:
  assumes "x \<le> y"
  shows "round_half_even x \<le> round_half_even y"
proof (cases "\<lfloor>x\<rfloor> = \<lfloor>y\<rfloor>")
  case True
  with assms show ?thesis by (auto simp: round_half_even_def Let_def)
next
  case False
  with assms have "\<lfloor>x\<rfloor> + 1 \<le> \<lfloor>y\<rfloor>" using floor_mono [of x y] by linarith
  with round_half_even_bounds [of x] round_half_even_bounds [of y] show ?thesis by linarith
qed

section \<open>Rounding is monotone and exact on small integers\<close>

lemma round_pos_exact: "a / pow2 (ulp_exp a) = of_int m \<Longrightarrow> round_pos a = a"
  by (metis nonzero_eq_divide_eq pow2_nonzero round_half_even_int round_pos_def)

lemma pow2_divide: "pow2 a / pow2 b = pow2 (a - b)"
  by (metis diff_add_cancel nonzero_mult_div_cancel_right pow2_add pow2_nonzero)

lemma round_half_even_pow2: "0 \<le> k \<Longrightarrow> of_int (round_half_even (pow2 k)) = pow2 k"
  by (metis of_int_numeral of_int_power pow2_nat round_half_even_int)

text \<open>A rounded value stays within its binade, whose upper end is the next power of two.\<close>

lemma round_pos_binade:
  assumes "1 \<le> a"
  shows "pow2 (floor_log2 a) \<le> round_pos a \<and> round_pos a \<le> pow2 (floor_log2 a + 1)"
proof -
  define e where "e = floor_log2 a"
  have lo: "pow2 e \<le> a" and hi: "a < pow2 (e + 1)"
    using floor_log2_bounds [of a] assms by (auto simp: e_def)
  have "pow2 0 < pow2 (e + 1)" using assms hi by (simp add: pow2_def [of 0])
  then have u: "ulp_exp a = e - 52" by (simp add: ulp_exp_def e_def)
  have "round_half_even (pow2 52) \<le> round_half_even (a / pow2 (e - 52))"
    using lo by (intro round_half_even_mono) (simp add: pos_le_divide_eq flip: pow2_add)
  then have 1: "pow2 52 \<le> of_int (round_half_even (a / pow2 (e - 52)))"
    using round_half_even_pow2 [of 52] by (metis of_int_le_iff zero_le_numeral)
  have "round_half_even (a / pow2 (e - 52)) \<le> round_half_even (pow2 53)"
    using hi by (intro round_half_even_mono) (simp add: pos_divide_le_eq add.commute flip: pow2_add)
  then have 2: "of_int (round_half_even (a / pow2 (e - 52))) \<le> pow2 53"
    using round_half_even_pow2 [of 53] by (metis of_int_le_iff zero_le_numeral)
  from 1 have "pow2 52 * pow2 (e - 52) \<le> round_pos a"
    by (simp only: round_pos_def u mult_le_cancel_right_pos pow2_pos)
  moreover from 2 have "round_pos a \<le> pow2 53 * pow2 (e - 52)"
    by (simp only: round_pos_def u mult_le_cancel_right_pos pow2_pos)
  ultimately show ?thesis by (simp add: e_def algebra_simps flip: pow2_add)
qed

lemma round_pos_mono:
  assumes "1 \<le> a" and "a \<le> b"
  shows "round_pos a \<le> round_pos b"
proof (cases "floor_log2 a = floor_log2 b")
  case True
  then have "ulp_exp a = ulp_exp b" by (simp add: ulp_exp_def)
  with assms show ?thesis
    by (simp add: round_pos_def divide_right_mono round_half_even_mono less_imp_le)
next
  case False
  have "pow2 (floor_log2 a) < pow2 (floor_log2 b + 1)"
    using floor_log2_bounds [of a] floor_log2_bounds [of b] assms by linarith
  with False have "floor_log2 a + 1 \<le> floor_log2 b" by simp
  then have "pow2 (floor_log2 a + 1) \<le> pow2 (floor_log2 b)" by (simp only: pow2_le_iff)
  with round_pos_binade [of a] round_pos_binade [of b] assms show ?thesis by linarith
qed

lemma round64_zero [simp]: "round64 0 = Fin 0"
  by (simp add: round64_def)

lemma round_pos_ge_1: "1 \<le> a \<Longrightarrow> 1 \<le> round_pos a"
proof -
  assume a: "1 \<le> a"
  have "1 / pow2 (ulp_exp 1) = of_int (2 ^ 52)" by code_simp
  then have "round_pos 1 = 1" by (rule round_pos_exact)
  with round_pos_mono [OF order_refl a] show ?thesis by simp
qed

lemma round64_ge_1:
  "1 \<le> r \<Longrightarrow> round64 r = (if pow2 1024 \<le> round_pos r then Inf False else Fin (round_pos r))"
  using round_pos_ge_1 [of r] by (auto simp: round64_def Let_def)

lemma f64_of_nat_mono:
  assumes "m \<le> n"
  shows "f64_le (f64_of_nat m) (f64_of_nat n)"
proof (cases "m = 0")
  case True
  then show ?thesis
    using round64_ge_1 [of "of_nat n"] round_pos_ge_1 [of "of_nat n"]
    by (cases "n = 0") (auto simp: f64_of_nat_def f64_of_int_def)
next
  case False
  with assms have "1 \<le> (of_nat m :: rat)" "1 \<le> (of_nat n :: rat)" "(of_nat m :: rat) \<le> of_nat n"
    by simp_all
  with round_pos_mono [of "of_nat m" "of_nat n"] show ?thesis
    by (auto simp: f64_of_nat_def f64_of_int_def round64_ge_1)
qed

lemma f64_of_nat_nonneg: "f64_le (Fin 0) (f64_of_nat n)"
  using f64_of_nat_mono [of 0 n] by (simp add: f64_of_nat_def f64_of_int_def)

lemma round_pos_int:
  assumes "0 < k" and "k \<le> 2 ^ 53"
  shows "round_pos (of_int k) = of_int k"
proof -
  define a :: rat where "a = of_int k"
  define e where "e = floor_log2 a"
  have a1: "1 \<le> a" using assms(1) by (simp add: a_def)
  have aM: "a \<le> pow2 53"
  proof -
    have "(of_int k :: rat) \<le> of_int (2 ^ 53)" using assms(2) by (simp only: of_int_le_iff)
    then show ?thesis by (simp add: a_def pow2_def)
  qed
  have lo: "pow2 e \<le> a" and hi: "a < pow2 (e + 1)"
    using floor_log2_bounds [of a] a1 by (auto simp: e_def)
  have "pow2 0 < pow2 (e + 1)" using a1 hi by (simp add: pow2_def [of 0])
  then have u: "ulp_exp a = e - 52" by (simp add: ulp_exp_def e_def)
  have e53: "e \<le> 53" using order_trans [OF lo aM] by (simp only: pow2_le_iff)
  have "\<exists>m. a / pow2 (e - 52) = of_int m"
  proof (cases "e = 53")
    case True
    with lo aM have "a = pow2 53" by simp
    then have "a / pow2 (e - 52) = of_int (2 ^ 52)" using True by (simp add: pow2_def)
    then show ?thesis by blast
  next
    case False
    have "pow2 (e - 52) * pow2 (52 - e) = 1" by (simp add: pow2_def [of 0] flip: pow2_add)
    then have "a / pow2 (e - 52) = a * pow2 (52 - e)"
      by (metis mult.assoc mult.right_neutral nonzero_mult_div_cancel_left pow2_nonzero times_divide_eq_right)
    also have "\<dots> = of_int (k * 2 ^ nat (52 - e))"
      using False e53 by (simp add: a_def pow2_nat)
    finally show ?thesis by blast
  qed
  then obtain m where "a / pow2 (ulp_exp a) = of_int m" by (auto simp: u)
  then show ?thesis unfolding a_def by (rule round_pos_exact)
qed

lemma f64_of_int_exact:
  assumes "\<bar>n\<bar> \<le> 2 ^ 53"
  shows "f64_of_int n = Fin (of_int n)"
proof (cases "n = 0")
  case False
  then have r: "round_pos (of_int \<bar>n\<bar>) = of_int \<bar>n\<bar>" using assms by (intro round_pos_int) auto
  have "(of_int \<bar>n\<bar> :: rat) \<le> of_int (2 ^ 53)" using assms by (simp only: of_int_le_iff)
  also have "\<dots> < pow2 1024" by (simp add: pow2_nat power_strict_increasing)
  finally have "of_int \<bar>n\<bar> < pow2 1024" .
  with False r show ?thesis by (auto simp: f64_of_int_def round64_def Let_def)
qed (simp add: f64_of_int_def)

lemma f64_of_nat_exact: "n \<le> 2 ^ 53 \<Longrightarrow> f64_of_nat n = Fin (of_nat n)"
  using f64_of_int_exact [of "int n"] by (simp add: f64_of_nat_def)

lemma round64_mono_ge_1:
  assumes "a = 0 \<or> 1 \<le> a" "b = 0 \<or> 1 \<le> b" "a \<le> b"
  shows "f64_le (round64 a) (round64 b)"
proof (cases "a = 0")
  case True
  then show ?thesis using assms(2) round_pos_ge_1 [of b] by (auto simp: round64_ge_1)
next
  case False
  then have "1 \<le> a" "1 \<le> b" using assms by auto
  then show ?thesis using round_pos_mono [of a b] assms(3) by (auto simp: round64_ge_1)
qed

lemma f64_of_nat_fin:
  assumes "n < 2 ^ 64"
  obtains r where "f64_of_nat n = Fin r" "r = 0 \<or> 1 \<le> r"
proof (cases "n = 0")
  case True
  then show ?thesis using that [of 0] by (simp add: f64_of_nat_def f64_of_int_def)
next
  case False
  let ?a = "of_nat n :: rat"
  have 1: "1 \<le> ?a" using False by simp
  have "pow2 (floor_log2 ?a) \<le> ?a" using floor_log2_bounds [of ?a] 1 by simp
  also have "?a < of_nat (2 ^ 64)" using assms by (simp only: of_nat_less_iff)
  also have "of_nat (2 ^ 64) = pow2 64" by (simp add: pow2_def)
  finally have "floor_log2 ?a + 1 \<le> 64" by simp
  then have "pow2 (floor_log2 ?a + 1) \<le> pow2 64" by (simp only: pow2_le_iff)
  moreover have "pow2 64 < pow2 1024" by simp
  ultimately have "round_pos ?a < pow2 1024" using round_pos_binade [of ?a] 1 by linarith
  then show ?thesis using that [of "round_pos ?a"] round64_ge_1 [OF 1] round_pos_ge_1 [OF 1]
    by (simp add: f64_of_nat_def f64_of_int_def)
qed

lemma f64_mul_mono:
  assumes "m \<le> n" "n < 2 ^ 64" "k < 2 ^ 64"
  shows "f64_le (f64_mul (f64_of_nat m) (f64_of_nat k)) (f64_mul (f64_of_nat n) (f64_of_nat k))"
proof -
  obtain a where a: "f64_of_nat m = Fin a" "a = 0 \<or> 1 \<le> a" using f64_of_nat_fin [of m] assms by auto
  obtain b where b: "f64_of_nat n = Fin b" "b = 0 \<or> 1 \<le> b" using f64_of_nat_fin [of n] assms by auto
  obtain c where c: "f64_of_nat k = Fin c" "c = 0 \<or> 1 \<le> c" using f64_of_nat_fin [of k] assms by auto
  have ab: "a \<le> b" using f64_of_nat_mono [OF assms(1)] a b by simp
  have mul: "f64_mul (Fin x) (Fin c) = round64 (x * c)" if "x = 0 \<or> 1 \<le> x" for x
    using that c(2) by (auto simp: f64_mul_def f64_zero_def)
  have prod: "x * c = 0 \<or> 1 \<le> x * c" if "x = 0 \<or> 1 \<le> x" for x
    using that c(2) mult_mono [of 1 x 1 c] by auto
  have "0 \<le> c" using c(2) by auto
  then have "a * c \<le> b * c" using ab by (rule mult_right_mono [rotated])
  then show ?thesis using a b c mul prod round64_mono_ge_1 by simp
qed

end
