(* ===== verification/GoStrings.thy ===== *)
theory GoStrings
  imports GoPrelude GoFloat "HOL-Library.Sublist"
begin

text \<open>
  The parts of Go's \<^verbatim>\<open>strings\<close>, \<^verbatim>\<open>strconv\<close>, \<^verbatim>\<open>bufio\<close> and \<^verbatim>\<open>path/filepath\<close> the collectors use.
  A Go string is its bytes, so \<open>string\<close> (a list of characters) is the byte sequence. White space is
  \<^verbatim>\<open>unicode.IsSpace\<close>, with the multi-byte spaces in their UTF-8 encoding. \<^verbatim>\<open>bufio.Scanner\<close> refuses a
  line of 65536 bytes or more.
\<close>

section \<open>White space\<close>

definition byte :: "char \<Rightarrow> nat" where
  "byte c = of_char c"

definition ascii_space :: "char \<Rightarrow> bool" where
  "ascii_space c \<longleftrightarrow> byte c = 32 \<or> (9 \<le> byte c \<and> byte c \<le> 13)"

definition space2 :: "char \<Rightarrow> char \<Rightarrow> bool" where
  "space2 c d \<longleftrightarrow> byte c = 194 \<and> (byte d = 133 \<or> byte d = 160)"

definition space3 :: "char \<Rightarrow> char \<Rightarrow> char \<Rightarrow> bool" where
  "space3 c d e \<longleftrightarrow>
     (byte c = 225 \<and> byte d = 154 \<and> byte e = 128) \<or>
     (byte c = 226 \<and> byte d = 128 \<and> (128 \<le> byte e \<and> byte e \<le> 138 \<or> byte e = 168 \<or> byte e = 169 \<or> byte e = 175)) \<or>
     (byte c = 226 \<and> byte d = 129 \<and> byte e = 159) \<or>
     (byte c = 227 \<and> byte d = 128 \<and> byte e = 128)"

text \<open>The width in bytes of the white-space rune a string starts with, 0 when it starts with none.\<close>

fun space_width :: "string \<Rightarrow> nat" where
  "space_width (c # d # e # cs) =
     (if ascii_space c then 1 else if space2 c d then 2 else if space3 c d e then 3 else 0)"
| "space_width [c, d] = (if ascii_space c then 1 else if space2 c d then 2 else 0)"
| "space_width [c] = (if ascii_space c then 1 else 0)"
| "space_width [] = 0"

fun last_space_width :: "string \<Rightarrow> nat" where
  "last_space_width (e # d # c # cs) =
     (if ascii_space e then 1 else if space2 d e then 2 else if space3 c d e then 3 else 0)"
| "last_space_width [d, c] = (if ascii_space d then 1 else if space2 c d then 2 else 0)"
| "last_space_width [c] = (if ascii_space c then 1 else 0)"
| "last_space_width [] = 0"

fun trim_left_space :: "string \<Rightarrow> string" where
  "trim_left_space [] = []"
| "trim_left_space (c # cs) =
     (let w = space_width (c # cs) in if w = 0 then c # cs else trim_left_space (drop (w - 1) cs))"

text \<open>The right end is trimmed on the reversed string.\<close>

fun trim_rev_space :: "string \<Rightarrow> string" where
  "trim_rev_space [] = []"
| "trim_rev_space (c # cs) =
     (let w = last_space_width (c # cs) in if w = 0 then c # cs else trim_rev_space (drop (w - 1) cs))"

definition TrimSpace :: "string \<Rightarrow> string" where
  "TrimSpace s = rev (trim_rev_space (rev (trim_left_space s)))"

fun fields_go :: "string \<Rightarrow> string \<Rightarrow> string list" where
  "fields_go cur [] = (if cur = [] then [] else [rev cur])"
| "fields_go cur (c # cs) =
     (let w = space_width (c # cs) in
      if w = 0 then fields_go (c # cur) cs
      else (if cur = [] then [] else [rev cur]) @ fields_go [] (drop (w - 1) cs))"

definition Fields :: "string \<Rightarrow> string list" where
  "Fields s = fields_go [] s"

section \<open>UTF-8\<close>

definition cont_byte :: "char \<Rightarrow> bool" where
  "cont_byte c \<longleftrightarrow> 128 \<le> byte c \<and> byte c \<le> 191"

text \<open>
  The width of the well-formed rune a string starts with; 0 when the first byte starts none, in
  which case Go takes that single byte as one invalid rune.
\<close>

definition rune2 :: "char \<Rightarrow> char \<Rightarrow> bool" where
  "rune2 a b \<longleftrightarrow> 194 \<le> byte a \<and> byte a \<le> 223 \<and> cont_byte b"

definition rune3 :: "char \<Rightarrow> char \<Rightarrow> char \<Rightarrow> bool" where
  "rune3 a b c \<longleftrightarrow>
     224 \<le> byte a \<and> byte a \<le> 239 \<and> cont_byte b \<and> cont_byte c \<and>
     (byte a = 224 \<longrightarrow> 160 \<le> byte b) \<and> (byte a = 237 \<longrightarrow> byte b \<le> 159)"

definition rune4 :: "char \<Rightarrow> char \<Rightarrow> char \<Rightarrow> char \<Rightarrow> bool" where
  "rune4 a b c d \<longleftrightarrow>
     240 \<le> byte a \<and> byte a \<le> 244 \<and> cont_byte b \<and> cont_byte c \<and> cont_byte d \<and>
     (byte a = 240 \<longrightarrow> 144 \<le> byte b) \<and> (byte a = 244 \<longrightarrow> byte b \<le> 143)"

fun rune_width :: "string \<Rightarrow> nat" where
  "rune_width [] = 0"
| "rune_width (a # s) =
     (if byte a < 128 then 1
      else case s of
             [] \<Rightarrow> 0
           | b # s' \<Rightarrow>
               if rune2 a b then 2
               else (case s' of
                       [] \<Rightarrow> 0
                     | c # s'' \<Rightarrow>
                         if rune3 a b c then 3
                         else (case s'' of [] \<Rightarrow> 0 | d # _ \<Rightarrow> if rune4 a b c d then 4 else 0)))"

text \<open>A string as its runes, each as its bytes; an invalid byte is a rune of its own.\<close>

fun runes :: "string \<Rightarrow> string list" where
  "runes [] = []"
| "runes (c # cs) =
     (let w = rune_width (c # cs) in (c # take (w - 1) cs) # runes (drop (w - 1) cs))"

text \<open>\<^verbatim>\<open>strings.ToValidUTF8\<close>: every maximal run of invalid bytes becomes one replacement.\<close>

fun to_valid_go :: "bool \<Rightarrow> string \<Rightarrow> string \<Rightarrow> string" where
  "to_valid_go bad rep [] = []"
| "to_valid_go bad rep (c # cs) =
     (let w = rune_width (c # cs) in
      if w = 0 then (if bad then [] else rep) @ to_valid_go True rep cs
      else (c # take (w - 1) cs) @ to_valid_go False rep (drop (w - 1) cs))"

definition ToValidUTF8 :: "string \<Rightarrow> string \<Rightarrow> string" where
  "ToValidUTF8 s rep = to_valid_go False rep s"

fun valid_utf8 :: "string \<Rightarrow> bool" where
  "valid_utf8 [] = True"
| "valid_utf8 (c # cs) =
     (let w = rune_width (c # cs) in w \<noteq> 0 \<and> valid_utf8 (drop (w - 1) cs))"

text \<open>U+FFFD, the replacement the exporter uses.\<close>

definition rune_error :: string where
  "rune_error = [CHR 0xEF, CHR 0xBF, CHR 0xBD]"

lemma concat_runes [simp]: "concat (runes s) = s"
  by (induction s rule: runes.induct) (simp_all add: Let_def)

lemma runes_ascii: "(\<And>c. c \<in> set s \<Longrightarrow> byte c < 128) \<Longrightarrow> runes s = map (\<lambda>c. [c]) s"
  by (induction s) simp_all

section \<open>Searching, splitting, joining\<close>

definition HasPrefix :: "string \<Rightarrow> string \<Rightarrow> bool" where
  "HasPrefix s p = prefix p s"

definition HasSuffix :: "string \<Rightarrow> string \<Rightarrow> bool" where
  "HasSuffix s p = prefix (rev p) (rev s)"

definition TrimPrefix :: "string \<Rightarrow> string \<Rightarrow> string" where
  "TrimPrefix s p = (if HasPrefix s p then drop (length p) s else s)"

definition TrimSuffix :: "string \<Rightarrow> string \<Rightarrow> string" where
  "TrimSuffix s p = (if HasSuffix s p then take (length s - length p) s else s)"

fun Cut :: "string \<Rightarrow> string \<Rightarrow> (string \<times> string) option" where
  "Cut [] sep = (if sep = [] then Some ([], []) else None)"
| "Cut (c # cs) sep =
     (if prefix sep (c # cs) then Some ([], drop (length sep) (c # cs))
      else map_option (apfst ((#) c)) (Cut cs sep))"

definition Contains :: "string \<Rightarrow> string \<Rightarrow> bool" where
  "Contains s sub \<longleftrightarrow> Cut s sub \<noteq> None"

text \<open>\<^verbatim>\<open>strings.Split\<close> for a separator of one byte, and \<^verbatim>\<open>strings.SplitN(s, sep, 2)\<close>.\<close>

fun Split :: "string \<Rightarrow> char \<Rightarrow> string list" where
  "Split [] sep = [[]]"
| "Split (c # cs) sep =
     (if c = sep then [] # Split cs sep
      else (case Split cs sep of [] \<Rightarrow> [[c]] | w # ws \<Rightarrow> (c # w) # ws))"

definition SplitN2 :: "string \<Rightarrow> string \<Rightarrow> string list" where
  "SplitN2 s sep = (case Cut s sep of None \<Rightarrow> [s] | Some (a, b) \<Rightarrow> [a, b])"

fun Join :: "string list \<Rightarrow> string \<Rightarrow> string" where
  "Join [] sep = []"
| "Join [s] sep = s"
| "Join (s # t # ss) sep = s @ sep @ Join (t # ss) sep"

fun ReplaceAll :: "string \<Rightarrow> string \<Rightarrow> string \<Rightarrow> string" where
  "ReplaceAll [] old new = []"
| "ReplaceAll (c # cs) old new =
     (if old \<noteq> [] \<and> prefix old (c # cs) then new @ ReplaceAll (drop (length old - 1) cs) old new
      else c # ReplaceAll cs old new)"

definition TrimLeft :: "string \<Rightarrow> char set \<Rightarrow> string" where
  "TrimLeft s cutset = dropWhile (\<lambda>c. c \<in> cutset) s"

definition TrimRight :: "string \<Rightarrow> char set \<Rightarrow> string" where
  "TrimRight s cutset = rev (dropWhile (\<lambda>c. c \<in> cutset) (rev s))"

definition Trim :: "string \<Rightarrow> char set \<Rightarrow> string" where
  "Trim s cutset = TrimRight (TrimLeft s cutset) cutset"

lemma Split_not_Nil [simp]: "Split s sep \<noteq> []"
  by (cases s) (auto split: list.splits)

lemma Split_Join: "Join (Split s sep) [sep] = s"
proof (induction s)
  case (Cons c cs)
  then show ?case
    by (cases "Split cs sep"; cases "tl (Split cs sep)") auto
qed simp

lemma Split_no_sep: "w \<in> set (Split s sep) \<Longrightarrow> sep \<notin> set w"
  by (induction s arbitrary: w) (fastforce split: if_splits list.splits)+

lemma Split_word: "sep \<notin> set w \<Longrightarrow> Split (w @ sep # s) sep = w # Split s sep"
  by (induction w) auto

lemma Split_single: "sep \<notin> set w \<Longrightarrow> Split w sep = [w]"
  by (induction w) auto

lemma Join_Split: "ws \<noteq> [] \<Longrightarrow> list_all (\<lambda>w. sep \<notin> set w) ws \<Longrightarrow> Split (Join ws [sep]) sep = ws"
  by (induction ws "[sep]" rule: Join.induct) (auto simp: Split_word Split_single)


lemma Contains_char: "Contains s [c] \<longleftrightarrow> c \<in> set s"
  by (induction s) (auto simp: Contains_def)

lemma Cut_Some_append: "Cut s sep = Some (a, b) \<Longrightarrow> s = a @ sep @ b"
proof (induction s arbitrary: a)
  case (Cons c cs)
  then show ?case
    by (auto split: if_splits simp: prefix_def)
qed (simp split: if_splits)

section \<open>Lines\<close>

definition nl :: char where "nl = CHR 0x0A"

definition drop_cr :: "string \<Rightarrow> string" where
  "drop_cr l = (if l \<noteq> [] \<and> last l = CHR 0x0D then butlast l else l)"

definition raw_lines :: "string \<Rightarrow> string list" where
  "raw_lines s = (let ls = Split s nl in if last ls = [] then butlast ls else ls)"

text \<open>The lines \<^verbatim>\<open>Scan\<close> delivers, and what \<^verbatim>\<open>Err\<close> returns afterwards.\<close>

definition maxLine :: int where "maxLine = 65536"

definition scan_lines :: "string \<Rightarrow> string list" where
  "scan_lines s = map drop_cr (takeWhile (\<lambda>l. int (length l) < maxLine) (raw_lines s))"

definition scan_err :: "string \<Rightarrow> error option" where
  "scan_err s = (if list_all (\<lambda>l. int (length l) < maxLine) (raw_lines s) then None else Some ErrTooLong)"

text \<open>The words of \<^verbatim>\<open>bufio.ScanWords\<close>, with the same limit on a word.\<close>

definition scan_words :: "string \<Rightarrow> string list" where
  "scan_words s = takeWhile (\<lambda>w. int (length w) < maxLine) (Fields s)"

definition scan_words_err :: "string \<Rightarrow> error option" where
  "scan_words_err s = (if list_all (\<lambda>w. int (length w) < maxLine) (Fields s) then None else Some ErrTooLong)"

definition ok_or :: "'a \<Rightarrow> error option \<Rightarrow> 'a res" where
  "ok_or x e = (case e of None \<Rightarrow> Ok x | Some e' \<Rightarrow> Err e')"

lemma ok_or_simps [simp]: "ok_or x None = Ok x" "ok_or x (Some e) = Err e"
  by (simp_all add: ok_or_def)

section \<open>Numbers\<close>

definition dec_digit :: "nat \<Rightarrow> char" where
  "dec_digit d = char_of (48 + d)"

fun FormatUint :: "nat \<Rightarrow> string" where
  "FormatUint n = (if n < 10 then [dec_digit n] else FormatUint (n div 10) @ [dec_digit (n mod 10)])"

declare FormatUint.simps [simp del]

definition Itoa :: "int \<Rightarrow> string" where
  "Itoa i = (if i < 0 then CHR ''-'' # FormatUint (nat (- i)) else FormatUint (nat i))"

definition is_digit :: "char \<Rightarrow> bool" where
  "is_digit c \<longleftrightarrow> 48 \<le> byte c \<and> byte c \<le> 57"

definition lower :: "char \<Rightarrow> char" where
  "lower c = (if 65 \<le> byte c \<and> byte c \<le> 90 then char_of (byte c + 32) else c)"

text \<open>The value of a digit in any base up to 36.\<close>

definition digit_val :: "char \<Rightarrow> int option" where
  "digit_val c =
     (if is_digit c then Some (int (byte c) - 48)
      else if 97 \<le> byte (lower c) \<and> byte (lower c) \<le> 122 then Some (int (byte (lower c)) - 87)
      else None)"

fun parse_uint_loop :: "int \<Rightarrow> int \<Rightarrow> string \<Rightarrow> int \<Rightarrow> string \<Rightarrow> int res" where
  "parse_uint_loop base mx s0 n [] = Ok n"
| "parse_uint_loop base mx s0 n (c # cs) =
     (case digit_val c of
        None \<Rightarrow> Err (ErrSyntax s0)
      | Some d \<Rightarrow>
          if base \<le> d then Err (ErrSyntax s0)
          else if mx < n * base + d then Err (ErrRange s0)
          else parse_uint_loop base mx s0 (n * base + d) cs)"

text \<open>\<^verbatim>\<open>strconv.ParseUint(s, base, bits)\<close> and \<^verbatim>\<open>strconv.ParseInt\<close> for a fixed base.\<close>

definition ParseUint :: "string \<Rightarrow> int \<Rightarrow> nat \<Rightarrow> int res" where
  "ParseUint s base bits =
     (if s = [] then Err (ErrSyntax s) else parse_uint_loop base (2 ^ bits - 1) s 0 s)"

definition ParseInt :: "string \<Rightarrow> int \<Rightarrow> nat \<Rightarrow> int res" where
  "ParseInt s base bits =
     (if s = [] then Err (ErrSyntax s)
      else let neg = (hd s = CHR ''-'');
               body = (if neg \<or> hd s = CHR ''+'' then tl s else s)
           in bind_res (map_err (\<lambda>e. case e of ErrRange _ \<Rightarrow> ErrRange s | _ \<Rightarrow> ErrSyntax s) (ParseUint body base bits))
                (\<lambda>un. if \<not> neg \<and> 2 ^ (bits - 1) \<le> un then Err (ErrRange s)
                       else if neg \<and> 2 ^ (bits - 1) < un then Err (ErrRange s)
                       else Ok (if neg then - un else un)))"

definition Atoi :: "string \<Rightarrow> int res" where
  "Atoi s = ParseInt s 10 64"

lemma parse_uint_loop_bound:
  "0 \<le> n \<Longrightarrow> n \<le> mx \<Longrightarrow> 0 \<le> base \<Longrightarrow> parse_uint_loop base mx s0 n cs = Ok r \<Longrightarrow> 0 \<le> r \<and> r \<le> mx"
proof (induction cs arbitrary: n)
  case (Cons c cs)
  from Cons.prems obtain d where d: "digit_val c = Some d" "n * base + d \<le> mx"
    "parse_uint_loop base mx s0 (n * base + d) cs = Ok r"
    by (auto split: option.splits if_splits)
  have "0 \<le> d" using d(1) by (auto simp: digit_val_def is_digit_def split: if_splits)
  then have "0 \<le> n * base + d" using Cons.prems by simp
  from Cons.IH [OF this d(2) Cons.prems(3) d(3)] show ?case .
qed simp

lemma ParseUint_bound: "ParseUint s 10 bits = Ok n \<Longrightarrow> 0 \<le> n \<and> n < 2 ^ bits"
  using parse_uint_loop_bound [of 0 "2 ^ bits - 1" 10 s s n]
  by (simp add: ParseUint_def split: if_splits)

lemma ParseUint_no_panic: "\<not> panics (ParseUint s base bits)"
proof -
  have "\<not> panics (parse_uint_loop base mx s0 n cs)" for mx s0 n cs
    by (induction cs arbitrary: n) (auto split: option.splits)
  then show ?thesis by (simp add: ParseUint_def)
qed

subsection \<open>ParseFloat\<close>

text \<open>
  The scanner of \<^verbatim>\<open>strconv.readFloat\<close>: mantissa digits with at most one point, underscores
  skipped; it returns whether a digit was seen, the digits as an integer, how many of them follow
  the point, and what is left.
\<close>

fun mant_loop :: "bool \<Rightarrow> bool \<Rightarrow> bool \<Rightarrow> int \<Rightarrow> nat \<Rightarrow> string \<Rightarrow> bool \<times> int \<times> nat \<times> string" where
  "mant_loop hex dot saw m k [] = (saw, m, k, [])"
| "mant_loop hex dot saw m k (c # cs) =
     (if c = CHR ''_'' then mant_loop hex dot saw m k cs
      else if c = CHR ''.'' then
        (if dot then (saw, m, k, c # cs) else mant_loop hex True saw m k cs)
      else case digit_val c of
             Some d \<Rightarrow>
               if is_digit c \<or> (hex \<and> d < 16)
               then mant_loop hex dot True (m * (if hex then 16 else 10) + d) (if dot then Suc k else k) cs
               else (saw, m, k, c # cs)
           | None \<Rightarrow> (saw, m, k, c # cs))"

fun exp_loop :: "int \<Rightarrow> string \<Rightarrow> int \<times> string" where
  "exp_loop e [] = (e, [])"
| "exp_loop e (c # cs) =
     (if c = CHR ''_'' then exp_loop e cs
      else if is_digit c then exp_loop (if e < 10000 then e * 10 + (int (byte c) - 48) else e) cs
      else (e, c # cs))"

text \<open>The exponent part: \<open>None\<close> when it is malformed.\<close>

definition read_exp :: "bool \<Rightarrow> string \<Rightarrow> (int \<times> string) option" where
  "read_exp hex s =
     (case s of
        c # cs \<Rightarrow>
          if lower c = (if hex then CHR ''p'' else CHR ''e'') then
            (let neg = (cs \<noteq> [] \<and> hd cs = CHR ''-'');
                 ds = (if neg \<or> (cs \<noteq> [] \<and> hd cs = CHR ''+'') then tl cs else cs)
             in if ds = [] \<or> \<not> is_digit (hd ds) then None
                else let (e, rest) = exp_loop 0 ds in Some (if neg then - e else e, rest))
          else if hex then None else Some (0, s)
      | [] \<Rightarrow> if hex then None else Some (0, []))"

fun underscore_loop :: "bool \<Rightarrow> nat \<Rightarrow> string \<Rightarrow> bool" where
  \<comment> \<open>the state is 0 at the start, 1 after a digit, 2 after an underscore, 3 after anything else\<close>
  "underscore_loop hex saw [] = (saw \<noteq> 2)"
| "underscore_loop hex saw (c # cs) =
     (if is_digit c \<or> (hex \<and> (case digit_val c of Some d \<Rightarrow> d < 16 | None \<Rightarrow> False))
      then underscore_loop hex 1 cs
      else if c = CHR ''_'' then (if saw = 1 then underscore_loop hex 2 cs else False)
      else if saw = 2 then False
      else underscore_loop hex 3 cs)"

definition strip_sign :: "string \<Rightarrow> string" where
  "strip_sign s = (if s \<noteq> [] \<and> (hd s = CHR ''+'' \<or> hd s = CHR ''-'') then tl s else s)"

definition base_prefix :: "string \<Rightarrow> bool" where
  "base_prefix s \<longleftrightarrow> 2 \<le> length s \<and> s ! 0 = CHR ''0'' \<and> lower (s ! 1) \<in> {CHR ''b'', CHR ''o'', CHR ''x''}"

definition underscoreOK :: "string \<Rightarrow> bool" where
  "underscoreOK s =
     (let t = strip_sign s in
      if base_prefix t then underscore_loop (lower (t ! 1) = CHR ''x'') 1 (drop 2 t)
      else underscore_loop False 0 t)"

definition special_float :: "string \<Rightarrow> float64 option" where
  "special_float s =
     (let l = map lower s in
      if l = ''nan'' then Some NaN
      else if map lower (strip_sign s) = ''inf'' \<or> map lower (strip_sign s) = ''infinity''
      then Some (Inf (hd s = CHR ''-''))
      else None)"

definition scale_pow :: "rat \<Rightarrow> int \<Rightarrow> rat" where
  "scale_pow b e = (if 0 \<le> e then b ^ nat e else 1 / b ^ nat (- e))"

definition float_value :: "bool \<Rightarrow> bool \<Rightarrow> int \<Rightarrow> nat \<Rightarrow> int \<Rightarrow> float64" where
  "float_value neg hex m k e =
     (let v = of_int m * (if hex then scale_pow 2 (e - 4 * int k) else scale_pow 10 (e - int k))
      in if m = 0 then f64_zero neg else round64 (if neg then - v else v))"

definition ParseFloat :: "string \<Rightarrow> float64 res" where
  "ParseFloat s =
     (case special_float s of
        Some f \<Rightarrow> Ok f
      | None \<Rightarrow>
          let neg = (s \<noteq> [] \<and> hd s = CHR ''-''); t = strip_sign s;
              hex = (2 < length t \<and> t ! 0 = CHR ''0'' \<and> lower (t ! 1) = CHR ''x'');
              (saw, m, k, rest) = mant_loop hex False False 0 0 (if hex then drop 2 t else t)
          in if \<not> saw then Err (ErrSyntax s)
             else case read_exp hex rest of
                    None \<Rightarrow> Err (ErrSyntax s)
                  | Some (e, rest') \<Rightarrow>
                      if rest' \<noteq> [] \<or> (CHR ''_'' \<in> set s \<and> \<not> underscoreOK s) then Err (ErrSyntax s)
                      else (case float_value neg hex m k e of Inf n \<Rightarrow> Err (ErrRange s) | f \<Rightarrow> Ok f))"

lemma ParseFloat_no_panic [simp]: "\<not> panics (ParseFloat s)"
  by (simp add: ParseFloat_def Let_def split: option.splits prod.splits float64.splits)

section \<open>Paths\<close>

fun clean_comps :: "bool \<Rightarrow> string list \<Rightarrow> string list \<Rightarrow> string list" where
  \<comment> \<open>the stack holds the components kept so far, last first\<close>
  "clean_comps rooted stk [] = rev stk"
| "clean_comps rooted stk (c # cs) =
     (if c = [] \<or> c = ''.'' then clean_comps rooted stk cs
      else if c = ''..'' then
        (case stk of
           [] \<Rightarrow> clean_comps rooted (if rooted then [] else [''..'']) cs
         | t # ts \<Rightarrow> if t = ''..'' then clean_comps rooted (''..'' # stk) cs else clean_comps rooted ts cs)
      else clean_comps rooted (c # stk) cs)"

definition Clean :: "string \<Rightarrow> string" where
  "Clean p =
     (let rooted = (p \<noteq> [] \<and> hd p = CHR ''/'');
          body = Join (clean_comps rooted [] (Split p (CHR ''/''))) ''/''
      in if rooted then CHR ''/'' # body else if body = [] then ''.'' else body)"

fun filepath_Join :: "string list \<Rightarrow> string" where
  "filepath_Join [] = []"
| "filepath_Join (e # es) = (if e = [] then filepath_Join es else Clean (Join (e # es) ''/''))"

text \<open>\<^verbatim>\<open>filepath.Split\<close> and \<^verbatim>\<open>filepath.Base\<close>\<close>

definition path_file :: "string \<Rightarrow> string" where
  "path_file p = rev (takeWhile (\<lambda>c. c \<noteq> CHR ''/'') (rev p))"

definition path_dir :: "string \<Rightarrow> string" where
  "path_dir p = rev (dropWhile (\<lambda>c. c \<noteq> CHR ''/'') (rev p))"

definition filepath_Base :: "string \<Rightarrow> string" where
  "filepath_Base p =
     (if p = [] then ''.''
      else let q = path_file (TrimRight p {CHR ''/''}) in if q = [] then ''/'' else q)"

end
