(* ===== verification/GoRegexp.thy ===== *)
theory GoRegexp
  imports GoStrings
begin

text \<open>
  Go's \<^verbatim>\<open>regexp\<close> for the syntax the exporter and its flags use: literals, \<^verbatim>\<open>.\<close>, bracket classes of
  ASCII ranges, \<^verbatim>\<open>\d \w \s\<close> and their complements, \<^verbatim>\<open>^\<close> and \<^verbatim>\<open>$\<close>, capturing and \<^verbatim>\<open>(?:)\<close> groups, alternation,
  and the greedy and lazy repetitions. Anything else (flags, named groups, counted repetitions,
  Unicode and POSIX classes, word boundaries) is outside the modelled syntax and does not compile.

  Matching works on runes. \<open>rms\<close> lists the ways a pattern can match at a position in the order Go
  prefers them, each as the input that is left and the captured groups; the first is Go's
  leftmost-first match. \<open>re_match\<close> is the declarative meaning of a pattern, and \<open>rms_iff_re_match\<close>
  says that the matcher finds exactly the matches there are.
\<close>

section \<open>Patterns\<close>

datatype regexp =
    REmpty
  | RLit string
  | RAny
  | RClass bool "(char \<times> char) list"
  | RBegin
  | REnd
  | RSeq regexp regexp
  | RAlt regexp regexp
  | RStar bool regexp
  | RGroup nat regexp

definition rplus :: "bool \<Rightarrow> regexp \<Rightarrow> regexp" where
  "rplus greedy r = RSeq r (RStar greedy r)"

definition ropt :: "bool \<Rightarrow> regexp \<Rightarrow> regexp" where
  "ropt greedy r = (if greedy then RAlt r REmpty else RAlt REmpty r)"

definition in_ranges :: "string \<Rightarrow> (char \<times> char) list \<Rightarrow> bool" where
  "in_ranges x rs =
     (case x of [c] \<Rightarrow> list_ex (\<lambda>(lo, hi). byte lo \<le> byte c \<and> byte c \<le> byte hi) rs | _ \<Rightarrow> False)"

section \<open>The matcher\<close>

type_synonym caps = "(nat \<times> string) list"

function rms :: "nat \<Rightarrow> regexp \<Rightarrow> string list \<Rightarrow> caps \<Rightarrow> (string list \<times> caps) list" where
  "rms n REmpty s g = [(s, g)]"
| "rms n (RLit x) s g = (case s of [] \<Rightarrow> [] | y # ys \<Rightarrow> if y = x then [(ys, g)] else [])"
| "rms n RAny s g = (case s of [] \<Rightarrow> [] | y # ys \<Rightarrow> if y = [nl] then [] else [(ys, g)])"
| "rms n (RClass neg rs) s g =
     (case s of [] \<Rightarrow> [] | y # ys \<Rightarrow> if in_ranges y rs \<noteq> neg then [(ys, g)] else [])"
| "rms n RBegin s g = (if length s = n then [(s, g)] else [])"
| "rms n REnd s g = (if s = [] then [(s, g)] else [])"
| "rms n (RSeq a b) s g = concat (map (\<lambda>(s', g'). rms n b s' g') (rms n a s g))"
| "rms n (RAlt a b) s g = rms n a s g @ rms n b s g"
| "rms n (RStar greedy a) s g =
     (let more = concat (map (\<lambda>(s', g'). if length s' < length s then rms n (RStar greedy a) s' g' else [])
                           (rms n a s g))
      in if greedy then more @ [(s, g)] else (s, g) # more)"
| "rms n (RGroup i a) s g =
     map (\<lambda>(s', g'). (s', (i, concat (take (length s - length s') s)) # g')) (rms n a s g)"
  by pat_completeness auto
termination
  by (relation "measures [\<lambda>(n, r, s, g). size r, \<lambda>(n, r, s, g). length s]") auto

declare rms.simps(9) [simp del]

text \<open>Membership for repetitions: none, or one iteration that consumes input and then the rest.\<close>

lemma rms_star_mem:
  "x \<in> set (rms n (RStar gr a) s g) \<longleftrightarrow>
     x = (s, g) \<or> (\<exists>t h. (t, h) \<in> set (rms n a s g) \<and> length t < length s \<and> x \<in> set (rms n (RStar gr a) t h))"
  by (subst rms.simps(9)) (auto simp: Let_def split: if_splits)

fun search :: "nat \<Rightarrow> regexp \<Rightarrow> string list \<Rightarrow> (string list \<times> string list \<times> caps) option" where
  "search n r [] = (case rms n r [] [] of [] \<Rightarrow> None | (s', g) # _ \<Rightarrow> Some ([], s', g))"
| "search n r (y # ys) =
     (case rms n r (y # ys) [] of [] \<Rightarrow> search n r ys | (s', g) # _ \<Rightarrow> Some (y # ys, s', g))"

definition MatchString :: "regexp \<Rightarrow> string \<Rightarrow> bool" where
  "MatchString r s = (let t = runes s in search (length t) r t \<noteq> None)"

text \<open>\<^verbatim>\<open>FindString\<close>: the matched text, empty when there is no match.\<close>

definition FindString :: "regexp \<Rightarrow> string \<Rightarrow> string" where
  "FindString r s =
     (let t = runes s in
      case search (length t) r t of
        None \<Rightarrow> []
      | Some (u, v, _) \<Rightarrow> concat (take (length u - length v) u))"

text \<open>\<^verbatim>\<open>FindStringSubmatch\<close>: the captured groups, \<open>None\<close> for no match.\<close>

definition FindStringSubmatch :: "regexp \<Rightarrow> string \<Rightarrow> caps option" where
  "FindStringSubmatch r s =
     (let t = runes s in map_option (\<lambda>(_, _, g). g) (search (length t) r t))"

definition submatch :: "caps \<Rightarrow> nat \<Rightarrow> string" where
  "submatch g i = (case map_of g i of None \<Rightarrow> [] | Some x \<Rightarrow> x)"

lemma rms_length: "(s', g') \<in> set (rms n r s g) \<Longrightarrow> length s' \<le> length s"
proof (induction n r s g arbitrary: s' g' rule: rms.induct)
  case (7 n a b s g)
  then show ?case by fastforce
next
  case (9 n greedy a s g)
  from "9.prems" consider "s' = s" |
    t h where "(t, h) \<in> set (rms n a s g)" "length t < length s"
      "(s', g') \<in> set (rms n (RStar greedy a) t h)"
    by (subst (asm) rms_star_mem) auto
  then show ?case
  proof cases
    case (2 t h)
    with "9.IH"(2) [of "(t, h)" t h s' g'] show ?thesis by simp
  qed simp
qed (auto split: list.splits if_splits)

lemma search_length: "search n r s = Some (u, v, g) \<Longrightarrow> length v \<le> length u \<and> length u \<le> length s"
proof (induction s)
  case (Cons y ys)
  then show ?case
    using rms_length [of v g n r "y # ys" "[]"]
    by (cases "rms n r (y # ys) []") auto
next
  case Nil
  then show ?case using rms_length [of v g n r "[]" "[]"] by (auto split: list.splits)
qed

text \<open>
  \<^verbatim>\<open>ReplaceAllString\<close> for patterns that match no empty string: the runes before a match are kept,
  the match is replaced by \<open>repl\<close> of its groups, and the scan goes on after it. The total length
  \<open>n\<close> stays that of the whole input.
\<close>

function replace_loop :: "nat \<Rightarrow> regexp \<Rightarrow> (caps \<Rightarrow> string) \<Rightarrow> string list \<Rightarrow> string" where
  "replace_loop n r repl s =
     (case search n r s of
        None \<Rightarrow> concat s
      | Some (u, v, g) \<Rightarrow>
          if length v < length u
          then concat (take (length s - length u) s) @ repl g @ replace_loop n r repl v
          else concat s)"
  by pat_completeness auto
termination
  by (relation "measure (\<lambda>(n, r, repl, s). length s)") (auto dest: search_length)

declare replace_loop.simps [simp del]

definition ReplaceAllString :: "regexp \<Rightarrow> string \<Rightarrow> (caps \<Rightarrow> string) \<Rightarrow> string" where
  "ReplaceAllString r s repl = (let t = runes s in replace_loop (length t) r repl t)"

section \<open>What a pattern means\<close>

inductive re_match :: "nat \<Rightarrow> regexp \<Rightarrow> string list \<Rightarrow> string list \<Rightarrow> bool" where
  m_empty: "re_match n REmpty s s"
| m_lit: "re_match n (RLit x) (x # s) s"
| m_any: "y \<noteq> [nl] \<Longrightarrow> re_match n RAny (y # s) s"
| m_class: "in_ranges y rs \<noteq> neg \<Longrightarrow> re_match n (RClass neg rs) (y # s) s"
| m_begin: "length s = n \<Longrightarrow> re_match n RBegin s s"
| m_end: "re_match n REnd [] []"
| m_seq: "re_match n a s t \<Longrightarrow> re_match n b t u \<Longrightarrow> re_match n (RSeq a b) s u"
| m_alt1: "re_match n a s t \<Longrightarrow> re_match n (RAlt a b) s t"
| m_alt2: "re_match n b s t \<Longrightarrow> re_match n (RAlt a b) s t"
| m_star0: "re_match n (RStar gr a) s s"
| m_star: "re_match n a s t \<Longrightarrow> re_match n (RStar gr a) t u \<Longrightarrow> re_match n (RStar gr a) s u"
| m_group: "re_match n a s t \<Longrightarrow> re_match n (RGroup i a) s t"

text \<open>A string matches when the pattern matches from one of its positions.\<close>

definition matches :: "regexp \<Rightarrow> string \<Rightarrow> bool" where
  "matches r s \<longleftrightarrow> (\<exists>i \<le> length (runes s). \<exists>t. re_match (length (runes s)) r (drop i (runes s)) t)"

lemma re_match_length: "re_match n r s t \<Longrightarrow> length t \<le> length s"
  by (induction rule: re_match.induct) auto

lemma re_match_suffix: "re_match n r s t \<Longrightarrow> t = s \<or> length t < length s"
  by (induction rule: re_match.induct) auto

lemma rms_sound: "(s', g') \<in> set (rms n r s g) \<Longrightarrow> re_match n r s s'"
proof (induction n r s g arbitrary: s' g' rule: rms.induct)
  case (9 n greedy a s g)
  from "9.prems" consider "s' = s" |
    t h where "(t, h) \<in> set (rms n a s g)" "length t < length s"
      "(s', g') \<in> set (rms n (RStar greedy a) t h)"
    by (subst (asm) rms_star_mem) auto
  then show ?case
  proof cases
    case (2 t h)
    with "9.IH"(1) [of t h] "9.IH"(2) [of "(t, h)" t h s' g'] show ?thesis
      by (auto intro: m_star)
  qed (simp add: m_star0)
next
  case (7 n a b s g)
  from "7.prems" obtain t h where "(t, h) \<in> set (rms n a s g)" "(s', g') \<in> set (rms n b t h)" by auto
  with 7 show ?case by (blast intro: m_seq)
qed (auto split: list.splits if_splits intro: re_match.intros)

lemma rms_complete: "re_match n r s t \<Longrightarrow> \<exists>g'. (t, g') \<in> set (rms n r s g)"
proof (induction arbitrary: g rule: re_match.induct)
  case (m_seq n a s t b u)
  from m_seq.IH(1) obtain h where "(t, h) \<in> set (rms n a s g)" by blast
  moreover from m_seq.IH(2) obtain g' where "(u, g') \<in> set (rms n b t h)" by blast
  ultimately show ?case by (auto intro!: bexI [of _ "(t, h)"])
next
  case (m_star n a s t gr u)
  show ?case
  proof (cases "t = s")
    case True
    with m_star.IH(2) show ?thesis by blast
  next
    case False
    with m_star.hyps(1) have less: "length t < length s" by (auto dest: re_match_suffix)
    from m_star.IH(1) obtain h where h: "(t, h) \<in> set (rms n a s g)" by blast
    from m_star.IH(2) obtain g' where "(u, g') \<in> set (rms n (RStar gr a) t h)" by blast
    with less h show ?thesis by (subst rms_star_mem) blast
  qed
next
  case (m_alt1 n a s t b)
  then show ?case by (metis UnCI rms.simps(8) set_append)
next
  case (m_alt2 n b s t a)
  then show ?case by (metis UnCI rms.simps(8) set_append)
next
  case (m_group n a s t i)
  then obtain g' where "(t, g') \<in> set (rms n a s g)" by blast
  then show ?case by force
next
  case (m_star0 n gr a s)
  show ?case by (subst rms_star_mem) blast
qed auto

lemma rms_iff_re_match: "(\<exists>g'. (t, g') \<in> set (rms n r s g)) \<longleftrightarrow> re_match n r s t"
  using rms_sound rms_complete by blast

lemma search_None_iff:
  "search n r s = None \<longleftrightarrow> (\<forall>i \<le> length s. \<forall>t. \<not> re_match n r (drop i s) t)"
proof (induction s)
  case Nil
  show ?case
    by (cases "rms n r [] []") (auto simp flip: rms_iff_re_match [where g = "[]"] split: list.splits)
next
  case (Cons y ys)
  have "rms n r (y # ys) [] = [] \<longleftrightarrow> (\<forall>t. \<not> re_match n r (y # ys) t)"
    by (auto simp flip: rms_iff_re_match [where g = "[]"]) (metis list.set_intros(1) neq_Nil_conv surj_pair)
  moreover have "(\<forall>i \<le> length (y # ys). \<forall>t. \<not> re_match n r (drop i (y # ys)) t) \<longleftrightarrow>
      (\<forall>t. \<not> re_match n r (y # ys) t) \<and> (\<forall>i \<le> length ys. \<forall>t. \<not> re_match n r (drop i ys) t)"
    by (metis (no_types, lifting) Suc_le_mono drop0 drop_Suc_Cons length_Cons not0_implies_Suc zero_le)
  ultimately show ?case
    using Cons by (cases "rms n r (y # ys) []") (simp_all split: prod.splits)
qed

lemma MatchString_iff_matches: "MatchString r s \<longleftrightarrow> matches r s"
  by (simp only: MatchString_def matches_def Let_def search_None_iff) blast

section \<open>The preferred match\<close>

text \<open>The matcher lists matches by preference; these lemmas give the first one.\<close>

lemma rms_seq_hd:
  assumes "rms n a s g = (t, h) # r" "rms n b t h = y # r'"
  shows "\<exists>q. rms n (RSeq a b) s g = y # q"
  using assms by simp

lemma rms_star_class_hd:
  assumes "list_all (\<lambda>y. in_ranges y rs \<noteq> neg) a" "b = [] \<or> in_ranges (hd b) rs = neg"
  shows "\<exists>r. rms n (RStar True (RClass neg rs)) (a @ b) g = (b, g) # r"
  using assms(1)
proof (induction a)
  case Nil
  show ?case using assms(2) by (subst rms.simps(9)) (cases b; auto)
next
  case (Cons y a)
  then obtain r where "rms n (RStar True (RClass neg rs)) (a @ b) g = (b, g) # r" by auto
  with Cons.prems show ?case by (subst rms.simps(9)) (simp add: Let_def)
qed

lemma rms_star_any_hd:
  assumes "list_all (\<lambda>y. y \<noteq> [nl]) a"
  shows "\<exists>r. rms n (RStar True RAny) a g = ([], g) # r"
  using assms
proof (induction a)
  case Nil
  show ?case by (subst rms.simps(9)) auto
next
  case (Cons y a)
  then obtain r where "rms n (RStar True RAny) a g = ([], g) # r" by auto
  with Cons.prems show ?case by (subst rms.simps(9)) (simp add: Let_def)
qed

lemma rms_plus_class_hd:
  assumes "a \<noteq> []" "list_all (\<lambda>y. in_ranges y rs \<noteq> neg) a" "b = [] \<or> in_ranges (hd b) rs = neg"
  shows "\<exists>r. rms n (rplus True (RClass neg rs)) (a @ b) g = (b, g) # r"
proof -
  obtain y a' where a: "a = y # a'" using assms(1) by (cases a) auto
  then show ?thesis using assms rms_star_class_hd [of rs neg a' b n g] by (auto simp: rplus_def)
qed

lemma rms_plus_any_hd:
  assumes "a \<noteq> []" "list_all (\<lambda>y. y \<noteq> [nl]) a"
  shows "\<exists>r. rms n (rplus True RAny) a g = ([], g) # r"
proof -
  obtain y a' where a: "a = y # a'" using assms(1) by (cases a) auto
  then show ?thesis using assms rms_star_any_hd [of a' n g] by (auto simp: rplus_def)
qed

lemma rms_group_hd:
  assumes "rms n a s g = (t, h) # r"
  shows "\<exists>q. rms n (RGroup i a) s g = (t, (i, concat (take (length s - length t) s)) # h) # q"
  using assms by simp

lemma rms_opt_hd: "rms n a s g = x # r \<Longrightarrow> \<exists>q. rms n (ropt True a) s g = x # q"
  by (simp add: ropt_def)

lemma search_hd: "rms n r s [] = (t, g) # q \<Longrightarrow> search n r s = Some (s, t, g)"
  by (cases s) simp_all

section \<open>Compiling a pattern\<close>

definition class_digit :: "(char \<times> char) list" where
  "class_digit = [(CHR ''0'', CHR ''9'')]"

definition class_word :: "(char \<times> char) list" where
  "class_word = [(CHR ''0'', CHR ''9''), (CHR ''A'', CHR ''Z''), (CHR ''_'', CHR ''_''), (CHR ''a'', CHR ''z'')]"

definition class_space :: "(char \<times> char) list" where
  "class_space = [(CHR 0x09, CHR 0x0A), (CHR 0x0C, CHR 0x0D), (CHR '' '', CHR '' '')]"

text \<open>ASCII punctuation: what a backslash may quote.\<close>

definition is_punct :: "char \<Rightarrow> bool" where
  "is_punct c \<longleftrightarrow> byte c < 128 \<and> 32 < byte c \<and> byte c \<noteq> 127 \<and> \<not> is_digit c \<and>
     \<not> (97 \<le> byte (lower c) \<and> byte (lower c) \<le> 122)"

definition parse_escape :: "char \<Rightarrow> regexp option" where
  "parse_escape c =
     (if c = CHR ''d'' then Some (RClass False class_digit)
      else if c = CHR ''D'' then Some (RClass True class_digit)
      else if c = CHR ''w'' then Some (RClass False class_word)
      else if c = CHR ''W'' then Some (RClass True class_word)
      else if c = CHR ''s'' then Some (RClass False class_space)
      else if c = CHR ''S'' then Some (RClass True class_space)
      else if c = CHR ''A'' then Some RBegin
      else if c = CHR ''z'' then Some REnd
      else if c = CHR ''n'' then Some (RLit [nl])
      else if c = CHR ''t'' then Some (RLit [CHR 0x09])
      else if is_punct c then Some (RLit [c])
      else None)"

text \<open>
  The inside of a bracket class after \<^verbatim>\<open>[\<close> or \<^verbatim>\<open>[^\<close>; a \<^verbatim>\<open>]\<close> in first position is a literal. The flag
  says whether an item has been read.
\<close>

fun parse_class :: "bool \<Rightarrow> (char \<times> char) list \<Rightarrow> string \<Rightarrow> ((char \<times> char) list \<times> string) option" where
  "parse_class first acc [] = None"
| "parse_class first acc (c # s) =
     (if c = CHR '']'' \<and> \<not> first then Some (rev acc, s)
      else if c = CHR 0x5C then
        (case s of
           [] \<Rightarrow> None
         | d # s' \<Rightarrow>
             (case parse_escape d of
                Some (RClass False rs) \<Rightarrow> parse_class False (rev rs @ acc) s'
              | Some (RLit [x]) \<Rightarrow> parse_class False ((x, x) # acc) s'
              | _ \<Rightarrow> None))
      else if 128 \<le> byte c \<or> (c = CHR ''['' \<and> s \<noteq> [] \<and> hd s = CHR '':'') then None
      else (case s of
              d # e # s' \<Rightarrow>
                if d = CHR ''-'' \<and> e \<noteq> CHR '']'' then
                  (if e = CHR 0x5C \<or> 128 \<le> byte e \<or> byte e < byte c then None
                   else parse_class False ((c, e) # acc) s')
                else parse_class False ((c, c) # acc) s
            | _ \<Rightarrow> parse_class False ((c, c) # acc) s))"

text \<open>A repetition operator after an atom, greedy unless a \<^verbatim>\<open>?\<close> follows; a second one is an error.\<close>

definition parse_rep :: "regexp \<Rightarrow> string \<Rightarrow> (regexp \<times> string) option" where
  "parse_rep r s =
     (case s of
        [] \<Rightarrow> Some (r, [])
      | c # s' \<Rightarrow>
          if c = CHR ''*'' \<or> c = CHR ''+'' \<or> c = CHR ''?'' then
            (let lazy = (s' \<noteq> [] \<and> hd s' = CHR ''?''); rest = (if lazy then tl s' else s');
                 r' = (if c = CHR ''*'' then RStar (\<not> lazy) r
                       else if c = CHR ''+'' then rplus (\<not> lazy) r else ropt (\<not> lazy) r)
             in if rest \<noteq> [] \<and> hd rest \<in> {CHR ''*'', CHR ''+'', CHR ''?'', CHR 0x7B} then None
                else Some (r', rest))
          else if c = CHR 0x7B then None
          else Some (r, s))"

text \<open>
  Recursive descent over the pattern; the fuel bounds the depth of the calls. A group adds three
  calls for its two parentheses and everything else at most one for each of its bytes, so twice the
  length of the pattern and the calls at its end are enough; a pattern that would need more has an
  unmatched parenthesis and is an error anyway. The number is the next capturing group's index.
\<close>

fun parse_alt :: "nat \<Rightarrow> nat \<Rightarrow> string \<Rightarrow> (regexp \<times> nat \<times> string) option"
  and parse_seq :: "nat \<Rightarrow> nat \<Rightarrow> string \<Rightarrow> (regexp \<times> nat \<times> string) option"
  and parse_atom :: "nat \<Rightarrow> nat \<Rightarrow> string \<Rightarrow> (regexp \<times> nat \<times> string) option" where
  "parse_alt 0 k s = None"
| "parse_alt (Suc f) k s =
     (case parse_seq f k s of
        None \<Rightarrow> None
      | Some (r, k', s') \<Rightarrow>
          if s' \<noteq> [] \<and> hd s' = CHR ''|'' then
            (case parse_alt f k' (tl s') of
               None \<Rightarrow> None
             | Some (r', k'', s'') \<Rightarrow> Some (RAlt r r', k'', s''))
          else Some (r, k', s'))"
| "parse_seq 0 k s = None"
| "parse_seq (Suc f) k s =
     (if s = [] \<or> hd s = CHR ''|'' \<or> hd s = CHR '')'' then Some (REmpty, k, s)
      else case parse_atom f k s of
             None \<Rightarrow> None
           | Some (a, k', s') \<Rightarrow>
               (case parse_rep a s' of
                  None \<Rightarrow> None
                | Some (a', s'') \<Rightarrow>
                    (case parse_seq f k' s'' of
                       None \<Rightarrow> None
                     | Some (b, k'', s''') \<Rightarrow> Some (if b = REmpty then a' else RSeq a' b, k'', s'''))))"
| "parse_atom 0 k s = None"
| "parse_atom (Suc f) k s =
     (case s of
        [] \<Rightarrow> None
      | c # s' \<Rightarrow>
          if c = CHR ''('' then
            (let nc = prefix ''?:'' s'; body = (if nc then drop 2 s' else s') in
             if \<not> nc \<and> s' \<noteq> [] \<and> hd s' = CHR ''?'' then None
             else case parse_alt f (if nc then k else Suc k) body of
                    None \<Rightarrow> None
                  | Some (r, k', t) \<Rightarrow>
                      if t \<noteq> [] \<and> hd t = CHR '')'' then Some (if nc then r else RGroup k r, k', tl t)
                      else None)
          else if c = CHR ''['' then
            (let neg = (s' \<noteq> [] \<and> hd s' = CHR ''^'') in
             case parse_class True [] (if neg then tl s' else s') of
               None \<Rightarrow> None
             | Some (rs, t) \<Rightarrow> Some (RClass neg rs, k, t))
          else if c = CHR ''.'' then Some (RAny, k, s')
          else if c = CHR ''^'' then Some (RBegin, k, s')
          else if c = CHR ''$'' then Some (REnd, k, s')
          else if c = CHR 0x5C then
            (case s' of [] \<Rightarrow> None | d # t \<Rightarrow> map_option (\<lambda>r. (r, k, t)) (parse_escape d))
          else if c \<in> {CHR ''*'', CHR ''+'', CHR ''?'', CHR '')'', CHR ''|''} then None
          else let w = rune_width s in
               if w = 0 then None else Some (RLit (take w s), k, drop w s))"

definition Compile :: "string \<Rightarrow> regexp res" where
  "Compile p =
     (case parse_alt (2 * length p + 3) 1 p of
        Some (r, _, []) \<Rightarrow> Ok r
      | _ \<Rightarrow> Err (ExtError ''error parsing regexp''))"

definition MustCompile :: "string \<Rightarrow> regexp res" where
  "MustCompile p = (case Compile p of Ok r \<Rightarrow> Ok r | _ \<Rightarrow> Panic ''regexp: Compile'')"

end
