(* ===== verification/Metrics.thy ===== *)
theory Metrics
  imports GoRegexp
begin

text \<open>
  What a collector produces, from \<^verbatim>\<open>collector/collector.go\<close>. The Prometheus client library is not
  part of the repository: a descriptor and a metric are the arguments the source passes to its
  constructors (\<open>NewDesc\<close>, \<open>BuildFQName\<close>, \<open>MustNewConstMetric\<close>). \<^verbatim>\<open>MustNewConstMetric\<close> panics unless the
  descriptor is valid, there is one label value for each variable label, and every label value is
  valid UTF-8: a metric that passes is \<open>constructible\<close>. Which descriptors are valid is up to the library
  and a parameter, \<open>validDesc\<close>. The number of label values is \<open>labels_ok\<close>, and the locale
  \<open>collector_contract\<close> is the contract that every metric a collector sends satisfies it.

  An \<^verbatim>\<open>Update(ch)\<close> call that comes to an end is an \<open>upd\<close>: the list of metrics it sends on the channel
  and how it ends, normally, with an error, or with a panic of its own. A \<open>run\<close> may also never end. \<open>execute\<close>
  constructs the metrics of a run one after the other and panics at the first that is not constructible.
\<close>

section \<open>Descriptors and metrics\<close>

datatype valueType = CounterValue | GaugeValue | UntypedValue

datatype fqname = BuildFQName string string string | FQName string

text \<open>A descriptor is made with variable labels and, in \<open>NewDescConst\<close>, constant labels with their values.\<close>

datatype desc =
    NewDesc (desc_fq: fqname) (desc_help: string) (desc_labels: "string list")
  | NewDescConst (desc_fq: fqname) (desc_help: string) (desc_labels: "string list") "(string \<times> string) list"

fun constLabels :: "desc \<Rightarrow> (string \<times> string) list" where
  "constLabels (NewDesc fq help ls) = []"
| "constLabels (NewDescConst fq help ls cs) = cs"

datatype metric =
    MustNewConstMetric desc valueType float64 "string list"
  | MustNewConstSummary desc uint64 float64 "(float64 \<times> float64) list" "string list"
  | MustNewConstHistogram desc uint64 float64 "(float64 \<times> uint64) list" "string list"

fun metric_desc :: "metric \<Rightarrow> desc" where
  "metric_desc (MustNewConstMetric d t v ls) = d"
| "metric_desc (MustNewConstSummary d c s q ls) = d"
| "metric_desc (MustNewConstHistogram d c s b ls) = d"

fun metric_labels :: "metric \<Rightarrow> string list" where
  "metric_labels (MustNewConstMetric d t v ls) = ls"
| "metric_labels (MustNewConstSummary d c s q ls) = ls"
| "metric_labels (MustNewConstHistogram d c s b ls) = ls"

definition labels_ok :: "metric \<Rightarrow> bool" where
  "labels_ok m \<longleftrightarrow> length (metric_labels m) = length (desc_labels (metric_desc m))"

text \<open>What the library accepts, and the part of it that is about texts rather than the number of labels.\<close>

definition text_ok :: "(desc \<Rightarrow> bool) \<Rightarrow> metric \<Rightarrow> bool" where
  "text_ok validDesc m \<longleftrightarrow> validDesc (metric_desc m) \<and> list_all valid_utf8 (metric_labels m)"

definition constructible :: "(desc \<Rightarrow> bool) \<Rightarrow> metric \<Rightarrow> bool" where
  "constructible validDesc m \<longleftrightarrow> labels_ok m \<and> text_ok validDesc m"

text \<open>What the registry tells two samples apart by: the name and the label values.\<close>

definition sample_id :: "metric \<Rightarrow> fqname \<times> string list" where
  "sample_id m = (desc_fq (metric_desc m), map snd (constLabels (metric_desc m)) @ metric_labels m)"

definition namespace :: string where
  "namespace = ''node''"

definition scrapeDurationDesc :: desc where
  "scrapeDurationDesc =
     NewDesc (BuildFQName namespace ''scrape'' ''collector_duration_seconds'')
       ''node_exporter: Duration of a collector scrape.'' [''collector'']"

definition scrapeSuccessDesc :: desc where
  "scrapeSuccessDesc =
     NewDesc (BuildFQName namespace ''scrape'' ''collector_success'')
       ''node_exporter: Whether a collector succeeded.'' [''collector'']"

record typedDesc =
  td_desc :: desc
  td_valueType :: valueType

definition mustNewConstMetric :: "typedDesc \<Rightarrow> float64 \<Rightarrow> string list \<Rightarrow> metric" where
  "mustNewConstMetric d v labels = MustNewConstMetric (td_desc d) (td_valueType d) v labels"

definition IsNoDataError :: "error \<Rightarrow> bool" where
  "IsNoDataError err \<longleftrightarrow> err = ErrNoData"

text \<open>
  \<^verbatim>\<open>pushMetric\<close> takes a value of any type and sends one metric for the integer types it knows,
  none for a nil pointer and none for any other type.
\<close>

datatype anyval =
    AnyU8 uint8 | AnyU16 uint16 | AnyU32 uint32 | AnyU64 uint64 | AnyI64 "64 word"
  | PtrU8 "uint8 option" | PtrU16 "uint16 option" | PtrU32 "uint32 option" | PtrU64 "uint64 option"
  | PtrI64 "64 word option"
  | AnyOther

fun any_float :: "anyval \<Rightarrow> float64 option" where
  "any_float (AnyU8 v) = Some (f64_of_nat (unat v))"
| "any_float (AnyU16 v) = Some (f64_of_nat (unat v))"
| "any_float (AnyU32 v) = Some (f64_of_nat (unat v))"
| "any_float (AnyU64 v) = Some (f64_of_nat (unat v))"
| "any_float (AnyI64 v) = Some (f64_of_int (sint v))"
| "any_float (PtrU8 p) = map_option (\<lambda>v. f64_of_nat (unat v)) p"
| "any_float (PtrU16 p) = map_option (\<lambda>v. f64_of_nat (unat v)) p"
| "any_float (PtrU32 p) = map_option (\<lambda>v. f64_of_nat (unat v)) p"
| "any_float (PtrU64 p) = map_option (\<lambda>v. f64_of_nat (unat v)) p"
| "any_float (PtrI64 p) = map_option (\<lambda>v. f64_of_int (sint v)) p"
| "any_float AnyOther = None"

definition pushMetric :: "desc \<Rightarrow> anyval \<Rightarrow> valueType \<Rightarrow> string list \<Rightarrow> metric list" where
  "pushMetric fieldDesc v valueType labelValues =
     (case any_float v of
        None \<Rightarrow> []
      | Some fVal \<Rightarrow> [MustNewConstMetric fieldDesc valueType fVal labelValues])"

text \<open>\<^verbatim>\<open>time.Duration.Seconds\<close>, on nanoseconds; the division truncates towards zero.\<close>

definition duration_Seconds :: "int \<Rightarrow> float64" where
  "duration_Seconds d =
     (let s = sgn d * (\<bar>d\<bar> div 1000000000)
      in f64_add (f64_of_int s) (f64_div (f64_of_int (d - s * 1000000000)) (Fin 1000000000)))"

section \<open>Update calls\<close>

type_synonym upd = "metric list \<times> unit res"

definition emit :: "metric list \<Rightarrow> upd" where
  "emit ms = (ms, Ok ())"

definition fail :: "error \<Rightarrow> upd" where
  "fail e = ([], Err e)"

text \<open>Sequential composition stops as soon as the first part has not ended normally.\<close>

fun seq :: "upd \<Rightarrow> upd \<Rightarrow> upd" where
  "seq (ms, Ok u) (ms', r) = (ms @ ms', r)"
| "seq (ms, Err e) v = (ms, Err e)"
| "seq (ms, Panic p) v = (ms, Panic p)"

text \<open>\<^verbatim>\<open>x, err := call(); if err != nil { return err }\<close>\<close>

fun with_res :: "'a res \<Rightarrow> ('a \<Rightarrow> upd) \<Rightarrow> upd" where
  "with_res (Ok x) f = f x"
| "with_res (Err e) f = ([], Err e)"
| "with_res (Panic p) f = ([], Panic p)"

text \<open>A \<^verbatim>\<open>for range\<close> loop whose body may return.\<close>

fun foreach :: "('a \<Rightarrow> upd) \<Rightarrow> 'a list \<Rightarrow> upd" where
  "foreach f [] = emit []"
| "foreach f (x # xs) = seq (f x) (foreach f xs)"

definition upd_ok :: "upd \<Rightarrow> bool" where
  "upd_ok u \<longleftrightarrow> list_all labels_ok (fst u)"

lemma fst_emit [simp]: "fst (emit ms) = ms" "snd (emit ms) = Ok ()"
  by (simp_all add: emit_def)

lemma fst_fail [simp]: "fst (fail e) = []" "snd (fail e) = Err e"
  by (simp_all add: fail_def)

lemma seq_emit [simp]: "seq (emit ms) u = (ms @ fst u, snd u)"
  by (cases u) (simp add: emit_def)

lemma seq_assoc: "seq (seq a b) c = seq a (seq b c)"
  by (cases a; cases b; cases c; cases "snd a"; cases "snd b") auto

lemma fst_seq_subset: "set (fst (seq u v)) \<subseteq> set (fst u) \<union> set (fst v)"
  by (cases u; cases v; cases "snd u") auto

lemma snd_seq_Ok_iff [simp]: "snd (seq u v) = Ok () \<longleftrightarrow> snd u = Ok () \<and> snd v = Ok ()"
  by (cases u; cases v; cases "snd u") auto

lemma fst_seq_Ok: "snd u = Ok () \<Longrightarrow> fst (seq u v) = fst u @ fst v"
  by (cases u; cases v) auto

lemma panics_seq: "panics (snd (seq u v)) \<Longrightarrow> panics (snd u) \<or> panics (snd v)"
  by (cases u; cases v; cases "snd u") auto

lemma panics_with_res: "panics (snd (with_res r f)) \<longleftrightarrow> panics r \<or> (\<exists>x. r = Ok x \<and> panics (snd (f x)))"
  by (cases r) auto

lemma upd_ok_emit [simp]: "upd_ok (emit ms) \<longleftrightarrow> list_all labels_ok ms"
  by (simp add: upd_ok_def)

lemma upd_ok_fail [simp]: "upd_ok (fail e)"
  by (simp add: upd_ok_def)

lemma upd_ok_seq [intro]: "upd_ok u \<Longrightarrow> upd_ok v \<Longrightarrow> upd_ok (seq u v)"
  by (cases u; cases v; cases "snd u") (auto simp: upd_ok_def)

lemma upd_ok_with_res [intro]: "(\<And>x. r = Ok x \<Longrightarrow> upd_ok (f x)) \<Longrightarrow> upd_ok (with_res r f)"
  by (cases r) (simp_all add: upd_ok_def)

lemma upd_ok_foreach [intro]: "(\<And>x. x \<in> set xs \<Longrightarrow> upd_ok (f x)) \<Longrightarrow> upd_ok (foreach f xs)"
  by (induction xs) auto

lemma panics_foreach: "panics (snd (foreach f xs)) \<Longrightarrow> \<exists>x \<in> set xs. panics (snd (f x))"
  by (induction xs) (auto dest: panics_seq)

lemma snd_foreach_Ok_iff: "snd (foreach f xs) = Ok () \<longleftrightarrow> (\<forall>x \<in> set xs. snd (f x) = Ok ())"
  by (induction xs) simp_all

text \<open>A loop whose iterations all end normally sends the concatenation of what they send.\<close>

lemma foreach_Ok:
  "(\<And>x. x \<in> set xs \<Longrightarrow> snd (f x) = Ok ()) \<Longrightarrow> foreach f xs = emit (concat (map (\<lambda>x. fst (f x)) xs))"
proof (induction xs)
  case (Cons x xs)
  then have "snd (f x) = Ok ()" "foreach f xs = emit (concat (map (\<lambda>x. fst (f x)) xs))" by auto
  then show ?case by (cases "f x") (simp add: emit_def)
qed simp

lemma fst_foreach_Ok: "snd (foreach f xs) = Ok () \<Longrightarrow> fst (foreach f xs) = concat (map (\<lambda>x. fst (f x)) xs)"
  using foreach_Ok [of xs f] by (simp add: snd_foreach_Ok_iff)

lemma fst_foreach2_Ok:
  assumes "snd (foreach (\<lambda>(a, b). foreach (f a b) (g a b)) xs) = Ok ()"
  shows "fst (foreach (\<lambda>(a, b). foreach (f a b) (g a b)) xs) = concat (map (\<lambda>(a, b). concat (map (\<lambda>y. fst (f a b y)) (g a b))) xs)"
proof -
  have "fst (case x of (a, b) \<Rightarrow> foreach (f a b) (g a b)) = (case x of (a, b) \<Rightarrow> concat (map (\<lambda>y. fst (f a b y)) (g a b)))"
    if "x \<in> set xs" for x
    using assms that by (cases x) (auto simp: snd_foreach_Ok_iff intro!: fst_foreach_Ok)
  then show ?thesis using fst_foreach_Ok [OF assms] by (simp cong: map_cong)
qed


lemma foreach_emit: "foreach (\<lambda>x. emit (f x)) xs = emit (concat (map f xs))"
  by (subst foreach_Ok) simp_all

lemma foreach_append: "foreach f (xs @ ys) = seq (foreach f xs) (foreach f ys)"
  by (induction xs) (simp_all add: seq_assoc)

lemma labels_ok_const [simp]:
  "labels_ok (MustNewConstMetric d t v ls) \<longleftrightarrow> length ls = length (desc_labels d)"
  by (simp add: labels_ok_def)

lemma labels_ok_typed [simp]:
  "labels_ok (mustNewConstMetric d v ls) \<longleftrightarrow> length ls = length (desc_labels (td_desc d))"
  by (simp add: mustNewConstMetric_def)

lemma pushMetric_labels_ok:
  "length ls = length (desc_labels d) \<Longrightarrow> list_all labels_ok (pushMetric d v t ls)"
  by (simp add: pushMetric_def split: option.splits)

section \<open>Tables of descriptions\<close>

text \<open>
  Descriptors made from a table of names and help texts. The names of a part of a long table are given by their places, which
  is quicker to check than comparing strings; for the same reason a look-up by hand looks at the keys only.
\<close>

lemma map_get_table: "map_get (map (\<lambda>(name, help). (name, f name help)) tbl) k = map_option (f k) (map_get tbl k)"
  by (induction tbl) auto

lemma map_get_Cons: "map_get ((a, b) # tbl) k = (if a = k then Some b else map_get tbl k)"
  by simp

lemma map_get_weak_cong: "k = k' \<Longrightarrow> map_get tbl k = map_get tbl k'"
  by simp

lemma desc_table:
  "n \<in> set (map fst tbl) \<Longrightarrow> \<exists>h. map_get (map (\<lambda>(name, help). (name, D name help)) tbl) n = Some (D n h)"
  by (induction tbl) auto

lemma nth_names: "ns = map ((!) (map fst tbl)) js \<Longrightarrow> list_all (\<lambda>i. i < length tbl) js \<Longrightarrow> set ns \<subseteq> set (map fst tbl)"
  by (auto simp: list_all_iff)

section \<open>The contract of a collector\<close>

text \<open>
  \<open>pre\<close> is what the collector needs of the data it reads. A \<open>safe_collector_contract\<close> moreover never panics
  on it, so its goroutine cannot take the process down.
\<close>

locale collector_contract =
  fixes Update :: "'e \<Rightarrow> upd"
    and pre :: "'e \<Rightarrow> bool"
  assumes update_labels: "pre e \<Longrightarrow> upd_ok (Update e)"

locale safe_collector_contract = collector_contract +
  assumes update_no_panic: "pre e \<Longrightarrow> \<not> panics (snd (Update e))"

text \<open>
  Both parts of the contract at once, as one predicate on what an update does that its statements compose.
\<close>

definition sound :: "upd \<Rightarrow> bool" where
  "sound u \<longleftrightarrow> upd_ok u \<and> \<not> panics (snd u)"

lemma sound_emit [intro]: "(\<And>m. m \<in> set ms \<Longrightarrow> labels_ok m) \<Longrightarrow> sound (emit ms)"
  by (simp add: sound_def list_all_iff)

lemma sound_emit_concat [intro]: "(\<And>x. x \<in> set xs \<Longrightarrow> list_all labels_ok (f x)) \<Longrightarrow> sound (emit (concat (map f xs)))"
  by (auto simp: sound_def upd_ok_emit list_all_iff)


lemma sound_fail [simp, intro]: "sound (fail e)"
  by (simp add: sound_def)

lemma sound_seq [intro]: "sound u \<Longrightarrow> sound v \<Longrightarrow> sound (seq u v)"
  by (auto simp: sound_def dest: panics_seq)

lemma sound_with_res [intro]: "\<not> panics r \<Longrightarrow> (\<And>x. r = Ok x \<Longrightarrow> sound (f x)) \<Longrightarrow> sound (with_res r f)"
  by (cases r) (auto simp: sound_def upd_ok_def)

lemma sound_foreach [intro]: "(\<And>x. x \<in> set xs \<Longrightarrow> sound (f x)) \<Longrightarrow> sound (foreach f xs)"
  by (induction xs) auto

lemma sound_Ok [simp]: "sound (ms, Ok ()) \<longleftrightarrow> list_all labels_ok ms"
  by (simp add: sound_def upd_ok_def)

lemma sound_Err [simp]: "sound (ms, Err e) \<longleftrightarrow> list_all labels_ok ms"
  by (simp add: sound_def upd_ok_def)

lemma sound_emit_seq [simp]: "sound (ms @ fst u, snd u) \<longleftrightarrow> list_all labels_ok ms \<and> sound u"
  by (auto simp: sound_def upd_ok_def)


lemma sound_emit_one [simp]: "sound (m # fst u, snd u) \<longleftrightarrow> labels_ok m \<and> sound u"
  using sound_emit_seq [of "[m]" u] by simp


lemmas sound_intros = sound_emit sound_fail sound_seq sound_with_res sound_foreach

lemma safe_contractI: "(\<And>e. pre e \<Longrightarrow> sound (U e)) \<Longrightarrow> safe_collector_contract U pre"
  by unfold_locales (simp_all add: sound_def)


section \<open>Running a collector\<close>

text \<open>
  A run of \<^verbatim>\<open>Update\<close>: the metrics it sends, and its result, \<open>None\<close> when it never comes back after them.
\<close>

type_synonym run = "metric list \<times> unit res option"

definition returns :: "upd \<Rightarrow> run" where
  "returns u = (fst u, Some (snd u))"

text \<open>A metric is constructed just before it is sent; the first that cannot be constructed is a panic.\<close>

definition construct :: "(desc \<Rightarrow> bool) \<Rightarrow> run \<Rightarrow> run" where
  "construct validDesc r =
     (if list_all (constructible validDesc) (fst r) then r
      else (takeWhile (constructible validDesc) (fst r), Some (Panic ''MustNewConstMetric'')))"

text \<open>
  \<^verbatim>\<open>execute\<close> runs \<^verbatim>\<open>Update\<close> and reports how long it took and whether it succeeded; the duration in
  seconds comes from the clock. A panic leaves the goroutine at once, and a call that does not come back
  keeps it for ever.
\<close>

definition execute :: "(desc \<Rightarrow> bool) \<Rightarrow> string \<Rightarrow> run \<Rightarrow> float64 \<Rightarrow> run" where
  "execute validDesc name r duration =
     (case construct validDesc r of
        (ms, None) \<Rightarrow> (ms, None)
      | (ms, Some (Panic p)) \<Rightarrow> (ms, Some (Panic p))
      | (ms, Some err) \<Rightarrow>
          let success = (case err of Ok _ \<Rightarrow> Fin 1 | _ \<Rightarrow> Fin 0);
              (ms', e) = construct validDesc
                ([MustNewConstMetric scrapeDurationDesc GaugeValue duration [name],
                  MustNewConstMetric scrapeSuccessDesc GaugeValue success [name]], Some (Ok ()))
          in (ms @ ms', e))"

text \<open>The two metrics a collector is accounted for with.\<close>

definition scrape_metrics :: "string \<Rightarrow> float64 \<Rightarrow> unit res \<Rightarrow> metric list" where
  "scrape_metrics name d err =
     [MustNewConstMetric scrapeDurationDesc GaugeValue d [name],
      MustNewConstMetric scrapeSuccessDesc GaugeValue (if err = Ok () then Fin 1 else Fin 0) [name]]"

lemma scrape_metrics_labels [simp]: "list_all labels_ok (scrape_metrics name d err)"
  by (simp add: scrape_metrics_def scrapeDurationDesc_def scrapeSuccessDesc_def)

lemma returns_simps [simp]: "fst (returns u) = fst u" "snd (returns u) = Some (snd u)"
  by (simp_all add: returns_def)

lemma construct_all [simp]: "list_all (constructible vd) (fst (construct vd r))"
  by (auto simp: construct_def list_all_iff dest: set_takeWhileD)

lemma construct_id: "list_all (constructible vd) (fst r) \<Longrightarrow> construct vd r = r"
  by (simp add: construct_def)

lemma construct_cut:
  "\<not> list_all (constructible vd) (fst r) \<Longrightarrow> construct vd r = (takeWhile (constructible vd) (fst r), Some (Panic ''MustNewConstMetric''))"
  by (simp add: construct_def)

lemma execute_constructible: "list_all (constructible vd) (fst (execute vd n r d))"
  using construct_all [of vd r]
  by (auto simp: execute_def Let_def case_prod_beta split: prod.splits option.splits res.splits)

text \<open>The four ways \<^verbatim>\<open>execute\<close> goes.\<close>

lemma execute_cut: "\<not> list_all (constructible vd) (fst r) \<Longrightarrow> panics (the (snd (execute vd n r d))) \<and> snd (execute vd n r d) \<noteq> None"
  by (simp add: execute_def construct_cut)

lemma execute_hangs: "list_all (constructible vd) ms \<Longrightarrow> execute vd n (ms, None) d = (ms, None)"
  by (simp add: execute_def construct_id)

lemma execute_panics: "list_all (constructible vd) ms \<Longrightarrow> execute vd n (ms, Some (Panic p)) d = (ms, Some (Panic p))"
  by (simp add: execute_def construct_id)

lemma execute_returns:
  assumes "list_all (constructible vd) ms" "\<not> panics e"
  shows "execute vd n (ms, Some e) d =
    (ms @ fst (construct vd (scrape_metrics n d e, Some (Ok ()))), snd (construct vd (scrape_metrics n d e, Some (Ok ()))))"
  using assms by (cases e) (simp_all add: execute_def construct_id scrape_metrics_def case_prod_beta Let_def)

text \<open>\<^verbatim>\<open>execute\<close> comes back exactly when \<^verbatim>\<open>Update\<close> does and every metric can be constructed, and then sends them all.\<close>

lemma execute_back:
  assumes "snd (execute vd n r d) = Some x" "\<not> panics x"
  obtains e where "snd r = Some e" "\<not> panics e" "list_all (constructible vd) (fst r @ scrape_metrics n d e)"
    "execute vd n r d = (fst r @ scrape_metrics n d e, Some (Ok ()))"
proof -
  obtain ms o' where r: "r = (ms, o')" by fastforce
  have ok: "list_all (constructible vd) ms" using execute_cut [of vd r n d] assms by (auto simp: r)
  then obtain e where e: "o' = Some e" "\<not> panics e"
    using assms by (cases o'; cases "the o'") (auto simp: r execute_hangs execute_panics)
  have "list_all (constructible vd) (scrape_metrics n d e)"
    using assms by (auto simp: r e execute_returns [OF ok e(2)] construct_def split: if_splits)
  then show ?thesis using that [of e] ok e by (simp add: r execute_returns construct_id)
qed

lemma execute_None_iff: "snd (execute vd n r d) = None \<longleftrightarrow> snd r = None \<and> list_all (constructible vd) (fst r)"
proof (cases "list_all (constructible vd) (fst r)")
  case True
  then show ?thesis
    by (cases r; cases "snd r"; cases "the (snd r)") (auto simp: execute_hangs execute_panics execute_returns construct_def)
qed (use execute_cut [of vd r n d] in auto)

lemma execute_Panic:
  assumes "snd (execute vd n r d) = Some (Panic p)"
  shows "(\<exists>q. snd r = Some (Panic q)) \<or> \<not> list_all (constructible vd) (fst r) \<or>
    (\<exists>e. snd r = Some e \<and> \<not> list_all (constructible vd) (scrape_metrics n d e))"
  using assms
  by (cases r; cases "snd r"; cases "the (snd r)"; cases "list_all (constructible vd) (fst r)")
    (auto simp: execute_hangs execute_returns construct_def split: if_splits)

context collector_contract
begin

text \<open>What the contract leaves for a panic of the library: an invalid descriptor or a text that is not UTF-8.\<close>

lemma constructible_iff: "pre e \<Longrightarrow> m \<in> set (fst (Update e)) \<Longrightarrow> constructible vd m \<longleftrightarrow> text_ok vd m"
  using update_labels [of e] by (auto simp: upd_ok_def list_all_iff constructible_def)

end

context safe_collector_contract
begin

text \<open>A safe collector is always accounted for: its last two metrics are the scrape metrics.\<close>

lemma execute_accounts:
  assumes "pre e" "list_all (text_ok vd) (fst (Update e) @ scrape_metrics name d (snd (Update e)))"
  shows "execute vd name (returns (Update e)) d = (fst (Update e) @ scrape_metrics name d (snd (Update e)), Some (Ok ()))"
proof -
  have "list_all (constructible vd) (fst (Update e))" "list_all (constructible vd) (scrape_metrics name d (snd (Update e)))"
    using assms(2) constructible_iff [OF assms(1)] scrape_metrics_labels [of name d "snd (Update e)"]
    by (auto simp: list_all_iff constructible_def)
  then show ?thesis using update_no_panic [OF assms(1)] by (simp add: returns_def execute_returns construct_id)
qed

end

text \<open>
  A collector that keeps something between scrapes. The state it starts with satisfies an invariant, every update keeps it
  and is sound from any state that satisfies it: so is every update of any sequence of scrapes.
\<close>

locale stateful_collector =
  fixes Step :: "'e \<Rightarrow> 's \<Rightarrow> 's \<times> upd"
    and env_ok :: "'e \<Rightarrow> bool"
    and inv :: "'s \<Rightarrow> bool"
  assumes step_inv: "inv s \<Longrightarrow> env_ok e \<Longrightarrow> inv (fst (Step e s))"
    and step_sound: "inv s \<Longrightarrow> env_ok e \<Longrightarrow> sound (snd (Step e s))"

sublocale stateful_collector \<subseteq> single: safe_collector_contract "\<lambda>(e, s). snd (Step e s)" "\<lambda>(e, s). env_ok e \<and> inv s"
  by (rule safe_contractI) (auto simp: step_sound)

primrec scrapes :: "('e \<Rightarrow> 's \<Rightarrow> 's \<times> upd) \<Rightarrow> 'e list \<Rightarrow> 's \<Rightarrow> 's \<times> upd list" where
  "scrapes st [] s = (s, [])"
| "scrapes st (e # es) s = (let (s1, u) = st e s; (s2, us) = scrapes st es s1 in (s2, u # us))"

context stateful_collector
begin

lemma scrapes_sound:
  "inv s \<Longrightarrow> list_all env_ok es \<Longrightarrow> inv (fst (scrapes Step es s)) \<and> list_all sound (snd (scrapes Step es s))"
proof (induction es arbitrary: s)
  case (Cons e es)
  then show ?case using step_inv [of s e] step_sound [of s e] Cons.IH [of "fst (Step e s)"] by (simp add: case_prod_beta Let_def)
qed simp

end

end
