(* ===== verification/Goroutines.thy ===== *)
theory Goroutines
  imports Metrics
begin

text \<open>
  Goroutines that share a channel and a \<^verbatim>\<open>sync.WaitGroup\<close>, the way \<^verbatim>\<open>NodeCollector.Collect\<close> and the systemd
  collector use them: every goroutine is counted in the group before it starts, sends metrics on the channel,
  and calls \<^verbatim>\<open>Done\<close> at its end; the caller waits until the count is zero. A pool of goroutines is a step relation
  (\<open>go_step\<close>): they interleave in any order, one of them may never come to its end, and a panic in any of them ends the
  process. The receiver of the channel takes every metric. \<open>go_wait\<close> runs a pool under a scheduler until nothing can move;
  every run of the step relation is one of some scheduler.
\<close>

section \<open>Pools\<close>

text \<open>
  \<open>todo\<close> is what a goroutine still has to send, \<open>ending\<close> its result, \<open>None\<close> when it never ends. \<open>chan\<close> is what the channel
  has received, each metric with the index of its sender.
\<close>

record goroutine =
  todo :: "metric list"
  ending :: "unit res option"
  finished :: bool

record collecting =
  routines :: "goroutine list"
  wg :: nat
  chan :: "(nat \<times> metric) list"
  crashed :: bool

definition go_run :: "run \<Rightarrow> goroutine" where
  "go_run r = \<lparr>todo = fst r, ending = snd r, finished = False\<rparr>"

definition go_all :: "run list \<Rightarrow> collecting" where
  "go_all rs = \<lparr>routines = map go_run rs, wg = length rs, chan = [], crashed = False\<rparr>"

inductive go_step :: "collecting \<Rightarrow> collecting \<Rightarrow> bool" where
  send: "\<lbrakk>\<not> crashed s; i < length (routines s); todo (routines s ! i) = m # ms\<rbrakk> \<Longrightarrow>
     go_step s (s\<lparr>routines := (routines s)[i := (routines s ! i)\<lparr>todo := ms\<rparr>], chan := chan s @ [(i, m)]\<rparr>)"
| finish: "\<lbrakk>\<not> crashed s; i < length (routines s); todo (routines s ! i) = []; ending (routines s ! i) = Some r; \<not> panics r;
      \<not> finished (routines s ! i)\<rbrakk> \<Longrightarrow>
     go_step s (s\<lparr>routines := (routines s)[i := (routines s ! i)\<lparr>finished := True\<rparr>], wg := wg s - 1\<rparr>)"
| crash: "\<lbrakk>\<not> crashed s; i < length (routines s); todo (routines s ! i) = []; ending (routines s ! i) = Some (Panic p)\<rbrakk> \<Longrightarrow>
     go_step s (s\<lparr>crashed := True\<rparr>)"

inductive_cases go_stepE: "go_step s t"

text \<open>What goroutine \<open>i\<close> has sent so far.\<close>

definition sends :: "nat \<Rightarrow> collecting \<Rightarrow> metric list" where
  "sends i s = map snd (filter (\<lambda>x. fst x = i) (chan s))"

section \<open>The invariant\<close>

text \<open>
  What a goroutine has sent followed by what it still has to send is what its run sends, only goroutines of the pool send,
  and the wait group counts the unfinished ones.
\<close>

definition ends_well :: "unit res option \<Rightarrow> bool" where
  "ends_well e \<longleftrightarrow> (case e of None \<Rightarrow> False | Some r \<Rightarrow> \<not> panics r)"

lemma ends_well_simps [simp]: "\<not> ends_well None" "ends_well (Some r) \<longleftrightarrow> \<not> panics r"
  by (simp_all add: ends_well_def)

lemma ends_well_iff: "ends_well e \<longleftrightarrow> (\<exists>r. e = Some r \<and> \<not> panics r)"
  by (cases e) simp_all

definition routine_inv :: "run list \<Rightarrow> collecting \<Rightarrow> nat \<Rightarrow> bool" where
  "routine_inv rs s i \<longleftrightarrow>
     sends i s @ todo (routines s ! i) = fst (rs ! i) \<and> ending (routines s ! i) = snd (rs ! i) \<and>
     (finished (routines s ! i) \<longrightarrow> todo (routines s ! i) = [] \<and> ends_well (ending (routines s ! i)))"

definition pool_inv :: "run list \<Rightarrow> collecting \<Rightarrow> bool" where
  "pool_inv rs s \<longleftrightarrow>
     length (routines s) = length rs \<and> (\<forall>i < length rs. routine_inv rs s i) \<and>
     fst ` set (chan s) \<subseteq> {..<length rs} \<and>
     wg s = length (filter (\<lambda>g. \<not> finished g) (routines s))"

lemma pool_inv_start: "pool_inv rs (go_all rs)"
  by (simp add: pool_inv_def routine_inv_def go_all_def go_run_def sends_def filter_map comp_def)

lemma length_filter_update:
  "i < length xs \<Longrightarrow> P (xs ! i) \<Longrightarrow> \<not> P y \<Longrightarrow> length (filter P xs) = Suc (length (filter P (xs[i := y])))"
proof (induction xs arbitrary: i)
  case (Cons x xs)
  then show ?case by (cases i) simp_all
qed simp

lemma filter_update_same: "P y = P (xs ! i) \<Longrightarrow> length (filter P (xs[i := y])) = length (filter P xs)"
proof (induction xs arbitrary: i)
  case (Cons x xs)
  then show ?case by (cases i) simp_all
qed simp

lemma pool_inv_step: "go_step s t \<Longrightarrow> pool_inv rs s \<Longrightarrow> pool_inv rs t"
proof (induction rule: go_step.induct)
  case (send s i m ms)
  then show ?case
    by (auto simp: pool_inv_def routine_inv_def sends_def nth_list_update filter_update_same)
next
  case (finish s i r)
  then show ?case
    using length_filter_update [of i "routines s" "\<lambda>g. \<not> finished g" "(routines s ! i)\<lparr>finished := True\<rparr>"]
    by (auto simp: pool_inv_def routine_inv_def sends_def nth_list_update)
next
  case (crash s i p)
  then show ?case by (auto simp: pool_inv_def routine_inv_def sends_def)
qed

lemma pool_inv_reachable: "go_step\<^sup>*\<^sup>* (go_all rs) s \<Longrightarrow> pool_inv rs s"
  by (induction rule: rtranclp_induct) (simp_all add: pool_inv_start pool_inv_step)

section \<open>Returning\<close>

text \<open>When the count is zero every goroutine has come to its end and sent everything.\<close>

lemma pool_done:
  assumes "pool_inv rs s" "wg s = 0" "i < length rs"
  shows "sends i s = fst (rs ! i) \<and> ends_well (snd (rs ! i))"
proof -
  have "finished (routines s ! i)" using assms by (auto simp: pool_inv_def filter_empty_conv)
  moreover have "routine_inv rs s i" using assms by (simp add: pool_inv_def)
  ultimately show ?thesis by (auto simp: routine_inv_def)
qed

lemma pool_sent:
  assumes "pool_inv rs s" "(i, m) \<in> set (chan s)"
  shows "i < length rs" "m \<in> set (fst (rs ! i))"
proof -
  show i: "i < length rs" using assms by (force simp: pool_inv_def)
  have "m \<in> set (sends i s)" using assms(2) by (force simp: sends_def)
  moreover have "routine_inv rs s i" using assms(1) i by (simp add: pool_inv_def)
  ultimately show "m \<in> set (fst (rs ! i))" unfolding routine_inv_def by (metis UnI1 set_append)
qed

text \<open>All that was sent, whoever sent it: each goroutine's metrics in its own order.\<close>

lemma mset_by_sender:
  "fst ` set xs \<subseteq> {..<n} \<Longrightarrow> mset (map snd xs) = mset (concat (map (\<lambda>i. map snd (filter (\<lambda>x. fst x = i) xs)) [0..<n]))"
proof (induction xs)
  case (Cons x xs)
  have "mset (concat (map (\<lambda>i. map snd (filter (\<lambda>y. fst y = i) (x # xs))) js)) =
      (if fst x \<in> set js then {#snd x#} else {#}) + mset (concat (map (\<lambda>i. map snd (filter (\<lambda>y. fst y = i) xs)) js))"
    if "distinct js" for js
    using that by (induction js) auto
  from this [of "[0..<n]"] Cons show ?case by simp
qed simp

lemma sends_subseq: "subseq (sends i s) (map snd (chan s))"
  by (simp add: sends_def subseq_map)

lemma pool_all_sent:
  assumes "pool_inv rs s" "wg s = 0"
  shows "mset (map snd (chan s)) = mset (concat (map fst rs)) \<and> (\<forall>r \<in> set rs. subseq (fst r) (map snd (chan s)))"
proof -
  have "map (\<lambda>i. sends i s) [0..<length rs] = map fst rs"
    using pool_done [OF assms] by (intro nth_equalityI) simp_all
  moreover have "mset (map snd (chan s)) = mset (concat (map (\<lambda>i. sends i s) [0..<length rs]))"
    using assms(1) mset_by_sender [of "chan s" "length rs"] by (simp add: pool_inv_def sends_def)
  ultimately show ?thesis using pool_done [OF assms] sends_subseq [of _ s] by (metis in_set_conv_nth)
qed

section \<open>Termination and progress\<close>

text \<open>The measure that every step lowers.\<close>

definition work :: "collecting \<Rightarrow> nat" where
  "work s = (\<Sum>g \<leftarrow> routines s. length (todo g) + of_bool (\<not> finished g)) + of_bool (\<not> crashed s)"

lemma sum_list_update_less:
  "i < length xs \<Longrightarrow> f y < (f (xs ! i) :: nat) \<Longrightarrow> sum_list (map f (xs[i := y])) < sum_list (map f xs)"
proof (induction xs arbitrary: i)
  case (Cons x xs)
  then show ?case by (cases i) auto
qed simp

lemma go_step_work: "go_step s t \<Longrightarrow> work t < work s"
proof (induction rule: go_step.induct)
  case (send s i m ms)
  then have "sum_list (map (\<lambda>g. length (todo g) + of_bool (\<not> finished g)) ((routines s)[i := (routines s ! i)\<lparr>todo := ms\<rparr>]))
      < sum_list (map (\<lambda>g. length (todo g) + of_bool (\<not> finished g)) (routines s))"
    by (intro sum_list_update_less) simp_all
  then show ?case by (simp add: work_def)
next
  case (finish s i r)
  then have "sum_list (map (\<lambda>g. length (todo g) + of_bool (\<not> finished g)) ((routines s)[i := (routines s ! i)\<lparr>finished := True\<rparr>]))
      < sum_list (map (\<lambda>g. length (todo g) + of_bool (\<not> finished g)) (routines s))"
    by (intro sum_list_update_less) simp_all
  then show ?case by (simp add: work_def)
qed (simp add: work_def)

lemma go_steps_work: "(go_step ^^ k) s t \<Longrightarrow> k + work t \<le> work s"
proof (induction k arbitrary: t)
  case (Suc k)
  then obtain u where "(go_step ^^ k) s u" "go_step u t" by auto
  with Suc.IH [of u] go_step_work [of u t] show ?case by linarith
qed simp

lemma work_go_all: "work (go_all rs) = (\<Sum>r \<leftarrow> rs. length (fst r) + 1) + 1"
  by (simp add: work_def go_all_def go_run_def comp_def)

text \<open>A run of the pool always gets to a state where nothing can move.\<close>

lemma pool_ends: "\<exists>t. go_step\<^sup>*\<^sup>* s t \<and> (\<nexists>u. go_step t u)"
proof (induction s rule: measure_induct_rule [of work])
  case (less s)
  show ?case
  proof (cases "\<exists>u. go_step s u")
    case True
    then obtain u where u: "go_step s u" by blast
    with less go_step_work obtain t where "go_step\<^sup>*\<^sup>* u t" "\<nexists>v. go_step t v" by blast
    with u show ?thesis by (blast intro: converse_rtranclp_into_rtranclp)
  qed blast
qed

text \<open>
  In such a state the process has crashed, or every goroutine that comes to an end has ended without a panic: the wait
  group counts those that never do.
\<close>

lemma stuck_routine:
  assumes "pool_inv rs s" "\<nexists>t. go_step s t" "\<not> crashed s" "i < length rs"
  shows "todo (routines s ! i) = []" "\<not> finished (routines s ! i) \<longleftrightarrow> snd (rs ! i) = None" "snd (rs ! i) \<noteq> Some (Panic p)"
proof -
  have i: "i < length (routines s)" and I: "routine_inv rs s i" using assms by (simp_all add: pool_inv_def)
  then have e: "ending (routines s ! i) = snd (rs ! i)" by (simp add: routine_inv_def)
  show t: "todo (routines s ! i) = []"
    using go_step.send [OF assms(3) i] assms(2) by (cases "todo (routines s ! i)") blast+
  show "snd (rs ! i) \<noteq> Some (Panic p)" using crash [OF assms(3) i t] assms(2) e by auto
  have "\<not> panics r" if "snd (rs ! i) = Some r" for r
    using that crash [OF assms(3) i t] assms(2) e by (cases r) auto
  then show "\<not> finished (routines s ! i) \<longleftrightarrow> snd (rs ! i) = None"
    using finish [OF assms(3) i t] assms(2) e I by (cases "snd (rs ! i)") (auto simp: routine_inv_def)
qed

lemma pool_stuck:
  assumes "pool_inv rs s" "\<nexists>t. go_step s t" "\<not> crashed s"
  shows "wg s = length (filter (\<lambda>r. snd r = None) rs)"
proof -
  have len: "length (routines s) = length rs" using assms(1) by (simp add: pool_inv_def)
  then have "map (\<lambda>g. \<not> finished g) (routines s) = map (\<lambda>r. snd r = None) rs"
    using stuck_routine(2) [OF assms] by (intro nth_equalityI) simp_all
  moreover have "length (filter P xs) = length (filter (\<lambda>b. b) (map P xs))" for P and xs :: "'b list"
    by (induction xs) simp_all
  ultimately show ?thesis using assms(1) by (metis pool_inv_def)
qed

lemma pool_stuck_no_panic: "pool_inv rs s \<Longrightarrow> \<nexists>t. go_step s t \<Longrightarrow> \<not> crashed s \<Longrightarrow> r \<in> set rs \<Longrightarrow> snd r \<noteq> Some (Panic p)"
  using stuck_routine(3) by (metis in_set_conv_nth)

lemma pool_crash:
  "go_step\<^sup>*\<^sup>* (go_all rs) s \<Longrightarrow> crashed s \<Longrightarrow> \<exists>r \<in> set rs. \<exists>p. snd r = Some (Panic p)"
proof (induction rule: rtranclp_induct)
  case base
  then show ?case by (simp add: go_all_def)
next
  case (step s t)
  from step.hyps(2) show ?case
  proof (cases rule: go_step.cases)
    case (crash i p)
    have "pool_inv rs s" by (rule pool_inv_reachable [OF step.hyps(1)])
    then have "i < length rs" "snd (rs ! i) = Some (Panic p)" using crash by (auto simp: pool_inv_def routine_inv_def)
    then show ?thesis using nth_mem by blast
  qed (use step in auto)
qed

section \<open>Schedulers\<close>

text \<open>
  A scheduler picks one of the goroutines that can move. Running a pool under it ends because every step lowers the work
  left.
\<close>

type_synonym scheduler = "collecting \<Rightarrow> nat"

definition can_move :: "collecting \<Rightarrow> nat \<Rightarrow> bool" where
  "can_move s i \<longleftrightarrow> \<not> crashed s \<and> i < length (routines s) \<and>
     (todo (routines s ! i) \<noteq> [] \<or>
      (case ending (routines s ! i) of None \<Rightarrow> False | Some r \<Rightarrow> panics r \<or> \<not> finished (routines s ! i)))"

definition advance :: "collecting \<Rightarrow> nat \<Rightarrow> collecting" where
  "advance s i =
     (case todo (routines s ! i) of
        m # ms \<Rightarrow> s\<lparr>routines := (routines s)[i := (routines s ! i)\<lparr>todo := ms\<rparr>], chan := chan s @ [(i, m)]\<rparr>
      | [] \<Rightarrow>
          if panics (the (ending (routines s ! i))) then s\<lparr>crashed := True\<rparr>
          else s\<lparr>routines := (routines s)[i := (routines s ! i)\<lparr>finished := True\<rparr>], wg := wg s - 1\<rparr>)"

lemma go_step_iff: "go_step s t \<longleftrightarrow> (\<exists>i. can_move s i \<and> t = advance s i)"
proof
  show "go_step s t \<Longrightarrow> \<exists>i. can_move s i \<and> t = advance s i"
    by (induction rule: go_step.induct) (auto simp: can_move_def advance_def)
next
  assume "\<exists>i. can_move s i \<and> t = advance s i"
  then obtain i where i: "can_move s i" "t = advance s i" by blast
  show "go_step s t"
  proof (cases "todo (routines s ! i)")
    case (Cons m ms)
    then show ?thesis using i send [of s i m ms] by (simp add: can_move_def advance_def)
  next
    case Nil
    then obtain r where r: "ending (routines s ! i) = Some r" "panics r \<or> \<not> finished (routines s ! i)"
      using i(1) by (auto simp: can_move_def split: option.splits)
    then show ?thesis
      using i Nil finish [of s i r] crash [of s i] by (cases r) (auto simp: can_move_def advance_def)
  qed
qed

definition enabled_routines :: "collecting \<Rightarrow> nat list" where
  "enabled_routines s = filter (can_move s) [0..<length (routines s)]"

lemma set_enabled_routines: "set (enabled_routines s) = {i. can_move s i}"
  by (auto simp: enabled_routines_def can_move_def)

definition scheduled :: "scheduler \<Rightarrow> collecting \<Rightarrow> collecting" where
  "scheduled sched s = advance s (enabled_routines s ! (sched s mod length (enabled_routines s)))"

lemma scheduled_step: "enabled_routines s \<noteq> [] \<Longrightarrow> go_step s (scheduled sched s)"
  using nth_mem [of "sched s mod length (enabled_routines s)" "enabled_routines s"]
  by (auto simp: go_step_iff scheduled_def set_enabled_routines)

function go_wait :: "scheduler \<Rightarrow> collecting \<Rightarrow> collecting" where
  "go_wait sched s = (if enabled_routines s = [] then s else go_wait sched (scheduled sched s))"
  by pat_completeness auto
termination by (relation "measure (work \<circ> snd)") (simp_all add: go_step_work scheduled_step)

declare go_wait.simps [simp del]

lemma enabled_Nil_iff: "enabled_routines s = [] \<longleftrightarrow> (\<nexists>t. go_step s t)"
  by (auto simp: go_step_iff set_enabled_routines simp flip: set_empty)

lemma go_wait_run: "go_step\<^sup>*\<^sup>* s (go_wait sched s) \<and> (\<nexists>t. go_step (go_wait sched s) t)"
proof (induction sched s rule: go_wait.induct)
  case (1 sched s)
  show ?case
  proof (cases "enabled_routines s = []")
    case True
    then show ?thesis by (simp add: go_wait.simps [of sched s] enabled_Nil_iff)
  next
    case False
    with 1 have "go_step\<^sup>*\<^sup>* (scheduled sched s) (go_wait sched s)" "\<nexists>t. go_step (go_wait sched s) t"
      by (simp_all add: go_wait.simps [of sched s])
    then show ?thesis using scheduled_step [OF False] by (blast intro: converse_rtranclp_into_rtranclp)
  qed
qed

lemma go_wait_cong: "(\<And>t. work t \<le> work s \<Longrightarrow> sched t = sched' t) \<Longrightarrow> go_wait sched s = go_wait sched' s"
proof (induction sched s rule: go_wait.induct)
  case (1 sched s)
  show ?case
  proof (cases "enabled_routines s = []")
    case False
    have "scheduled sched s = scheduled sched' s" using 1(2) [of s] by (simp add: scheduled_def)
    moreover have "go_wait sched (scheduled sched s) = go_wait sched' (scheduled sched s)"
      by (rule 1(1) [OF False 1(2)]) (use go_step_work [OF scheduled_step [OF False]] in \<open>simp add: le_trans less_imp_le\<close>)
    ultimately show ?thesis using False by (simp add: go_wait.simps [of _ s])
  qed (simp add: go_wait.simps)
qed

text \<open>Every run that gets to where nothing can move is the one of some scheduler: nothing is lost by scheduling.\<close>

lemma go_wait_complete: "go_step\<^sup>*\<^sup>* s t \<Longrightarrow> \<nexists>u. go_step t u \<Longrightarrow> \<exists>sched. go_wait sched s = t"
proof (induction rule: converse_rtranclp_induct)
  case base
  then show ?case by (simp add: go_wait.simps enabled_Nil_iff)
next
  case (step s u)
  then obtain sched where sched: "go_wait sched u = t" by blast
  obtain i where i: "i \<in> set (enabled_routines s)" "u = advance s i"
    using step.hyps(1) by (auto simp: go_step_iff set_enabled_routines)
  then obtain k where k: "k < length (enabled_routines s)" "enabled_routines s ! k = i" by (auto simp: in_set_conv_nth)
  let ?sched = "sched(s := k)"
  have "scheduled ?sched s = u" using k i(2) by (simp add: scheduled_def)
  moreover have "go_wait ?sched u = go_wait sched u"
    by (rule go_wait_cong) (use go_step_work [OF step.hyps(1)] in auto)
  moreover have "enabled_routines s \<noteq> []" using k by auto
  ultimately have "go_wait ?sched s = t" using sched by (simp add: go_wait.simps [of ?sched s])
  then show ?case by blast
qed

end
