(* ===== verification/Registry.thy ===== *)
theory Registry
  imports Goroutines
begin

text \<open>
  The collector registry of \<^verbatim>\<open>collector/collector.go\<close>: the package-level maps, registration, the
  command-line flags that enable and disable collectors, \<^verbatim>\<open>NewNodeCollector\<close> with its cache of
  initiated collectors, and \<^verbatim>\<open>Collect\<close>, which runs every collector in a goroutine of its own.

  A factory is a function of the world it runs in (flags, file systems), so that two calls may
  differ. Creation runs under \<^verbatim>\<open>initiatedCollectorsMtx\<close>, so a call is one atomic step. \<open>Collect\<close> is a pool of goroutines
  (\<open>go_step\<close>) that share the channel and interleave in any order.
\<close>

section \<open>State\<close>

record ('w, 'c) registry =
  factories :: "(string, 'w \<Rightarrow> 'c res) gomap"
  initiatedCollectors :: "(string, 'c) gomap"
  collectorState :: "(string, bool) gomap"
  forcedCollectors :: "(string, bool) gomap"

definition init_registry :: "('w, 'c) registry" where
  "init_registry = \<lparr>factories = [], initiatedCollectors = [], collectorState = [], forcedCollectors = []\<rparr>"

text \<open>The flag registered for a collector holds its default until the command line is parsed.\<close>

definition registerCollector ::
  "string \<Rightarrow> bool \<Rightarrow> ('w \<Rightarrow> 'c res) \<Rightarrow> ('w, 'c) registry \<Rightarrow> ('w, 'c) registry" where
  "registerCollector collector isDefaultEnabled factory st =
     st\<lparr>collectorState := map_put collector isDefaultEnabled (collectorState st),
        factories := map_put collector factory (factories st)\<rparr>"

definition collectorFlagAction :: "string \<Rightarrow> ('w, 'c) registry \<Rightarrow> ('w, 'c) registry" where
  "collectorFlagAction collector st =
     st\<lparr>forcedCollectors := map_put collector True (forcedCollectors st)\<rparr>"

definition DisableDefaultCollectors :: "('w, 'c) registry \<Rightarrow> ('w, 'c) registry" where
  "DisableDefaultCollectors st =
     st\<lparr>collectorState :=
          map (\<lambda>(c, enabled). (c, if map_get (forcedCollectors st) c = None then False else enabled))
            (collectorState st)\<rparr>"

text \<open>A \<^verbatim>\<open>--collector.<name>\<close> or \<^verbatim>\<open>--no-collector.<name>\<close> on the command line: the parser stores the value and runs the action.\<close>

definition set_flag :: "string \<Rightarrow> bool \<Rightarrow> ('w, 'c) registry \<Rightarrow> ('w, 'c) registry" where
  "set_flag collector v st =
     collectorFlagAction collector (st\<lparr>collectorState := map_put collector v (collectorState st)\<rparr>)"

section \<open>NewNodeCollector\<close>

type_synonym 'c nodeCollector = "(string, 'c) gomap"

text \<open>The first loop: every filter names a collector that exists and is enabled.\<close>

fun check_filters :: "(string, bool) gomap \<Rightarrow> string list \<Rightarrow> unit res" where
  "check_filters cs [] = Ok ()"
| "check_filters cs (fltr # filters) =
     (case map_get cs fltr of
        None \<Rightarrow> Err (Errorf ''missing collector: %s'' [fltr])
      | Some enabled \<Rightarrow>
          if \<not> enabled then Err (Errorf ''disabled collector: %s'' [fltr])
          else check_filters cs filters)"

text \<open>
  The second loop, over the entries of \<^verbatim>\<open>collectorState\<close> in the order the runtime gives: a cached
  collector is reused, a new one is created and cached.
\<close>

fun build_collectors ::
  "(string, 'w \<Rightarrow> 'c res) gomap \<Rightarrow> 'w \<Rightarrow> string list \<Rightarrow> (string \<times> bool) list \<Rightarrow> 'c nodeCollector \<Rightarrow>
     (string, 'c) gomap \<Rightarrow> (string, 'c) gomap \<times> 'c nodeCollector res" where
  "build_collectors fs w f [] collectors cache = (cache, Ok collectors)"
| "build_collectors fs w f ((key, enabled) # es) collectors cache =
     (if \<not> enabled \<or> (f \<noteq> [] \<and> key \<notin> set f) then build_collectors fs w f es collectors cache
      else case map_get cache key of
             Some collector \<Rightarrow> build_collectors fs w f es (map_put key collector collectors) cache
           | None \<Rightarrow>
               (case map_get fs key of
                  None \<Rightarrow> (cache, Panic ''call of nil function'')
                | Some factory \<Rightarrow>
                    (case factory w of
                       Err e \<Rightarrow> (cache, Err e)
                     | Panic p \<Rightarrow> (cache, Panic p)
                     | Ok collector \<Rightarrow>
                         build_collectors fs w f es (map_put key collector collectors)
                           (map_put key collector cache))))"

definition NewNodeCollector ::
  "((string \<times> bool) list \<Rightarrow> (string \<times> bool) list) \<Rightarrow> 'w \<Rightarrow> string list \<Rightarrow> ('w, 'c) registry \<Rightarrow>
     ('w, 'c) registry \<times> 'c nodeCollector res" where
  "NewNodeCollector ord w filters st =
     (case check_filters (collectorState st) filters of
        Err e \<Rightarrow> (st, Err e)
      | Panic p \<Rightarrow> (st, Panic p)
      | Ok _ \<Rightarrow>
          let (cache, r) = build_collectors (factories st) w filters (ord (collectorState st)) []
                             (initiatedCollectors st)
          in (st\<lparr>initiatedCollectors := cache\<rparr>, r))"

section \<open>Well-formed registries\<close>

text \<open>
  What registration keeps: maps have distinct keys, and every collector with a flag has a factory,
  so the nil function is never called.
\<close>

definition wf_registry :: "('w, 'c) registry \<Rightarrow> bool" where
  "wf_registry st \<longleftrightarrow>
     wf_map (factories st) \<and> wf_map (initiatedCollectors st) \<and> wf_map (collectorState st) \<and>
     fst ` set (collectorState st) \<subseteq> fst ` set (factories st)"

lemma wf_registry_init: "wf_registry init_registry"
  by (simp add: wf_registry_def init_registry_def)

lemma wf_registry_register: "wf_registry st \<Longrightarrow> wf_registry (registerCollector c b f st)"
  by (auto simp: wf_registry_def registerCollector_def keys_map_put)

lemma fst_disable [simp]: "map fst (collectorState (DisableDefaultCollectors st)) = map fst (collectorState st)"
  by (simp add: DisableDefaultCollectors_def comp_def case_prod_beta)

lemma wf_registry_disable: "wf_registry st \<Longrightarrow> wf_registry (DisableDefaultCollectors st)"
  by (simp add: wf_registry_def flip: set_map) (simp add: DisableDefaultCollectors_def)

lemma wf_registry_flag:
  "wf_registry st \<Longrightarrow> c \<in> fst ` set (collectorState st) \<Longrightarrow> wf_registry (set_flag c v st)"
  by (auto simp: wf_registry_def set_flag_def collectorFlagAction_def keys_map_put)

section \<open>Lemmas on creation\<close>

lemma check_filters_Ok_iff:
  "check_filters cs fs = Ok () \<longleftrightarrow> (\<forall>f \<in> set fs. map_get cs f = Some True)"
  by (induction fs) (auto split: option.splits)

lemma check_filters_no_panic [simp]: "\<not> panics (check_filters cs fs)"
  by (induction fs) (auto split: option.splits)

text \<open>What is wrong with a filter, and the error that says so.\<close>

definition bad_filter :: "(string, bool) gomap \<Rightarrow> string \<Rightarrow> error \<Rightarrow> bool" where
  "bad_filter cs f e \<longleftrightarrow>
     map_get cs f = None \<and> e = Errorf ''missing collector: %s'' [f] \<or>
     map_get cs f = Some False \<and> e = Errorf ''disabled collector: %s'' [f]"

lemma check_filters_first_bad:
  "check_filters cs fs = Err e \<Longrightarrow>
     \<exists>pre f post. fs = pre @ f # post \<and> (\<forall>g \<in> set pre. map_get cs g = Some True) \<and>
       bad_filter cs f e"
proof (induction fs)
  case (Cons g fs)
  show ?case
  proof (cases "map_get cs g = Some True")
    case True
    with Cons.prems have "check_filters cs fs = Err e" by simp
    from Cons.IH [OF this] obtain pre f post where
      "fs = pre @ f # post" "\<forall>g \<in> set pre. map_get cs g = Some True" "bad_filter cs f e"
      by blast
    with True show ?thesis by (intro exI [of _ "g # pre"] exI [of _ f] exI [of _ post]) simp
  next
    case False
    with Cons.prems have "bad_filter cs g e" by (auto simp: bad_filter_def split: option.splits if_splits)
    then show ?thesis by (intro exI [of _ "[]"] exI [of _ g] exI [of _ fs]) simp
  qed
qed simp

text \<open>The entries the second loop takes.\<close>

definition selected :: "string list \<Rightarrow> (string \<times> bool) list \<Rightarrow> string set" where
  "selected f es = {k. (k, True) \<in> set es \<and> (f = [] \<or> k \<in> set f)}"

lemma selected_Nil [simp]: "selected f [] = {}"
  by (simp add: selected_def)

lemma selected_skip: "\<not> b \<or> (f \<noteq> [] \<and> k \<notin> set f) \<Longrightarrow> selected f ((k, b) # es) = selected f es"
  by (auto simp: selected_def)

lemma selected_take:
  "\<not> (\<not> b \<or> (f \<noteq> [] \<and> k \<notin> set f)) \<Longrightarrow> selected f ((k, b) # es) = insert k (selected f es)"
  by (auto simp: selected_def)

text \<open>One iteration of the second loop: the entry is skipped, reused from the cache, created, or the call fails.\<close>

lemma build_collectors_cases:
  assumes "build_collectors fs w f ((k, b) # es) cs cache = (cache', r)"
  obtains (skip) "\<not> b \<or> (f \<noteq> [] \<and> k \<notin> set f)" "build_collectors fs w f es cs cache = (cache', r)"
  | (reuse) c where "\<not> (\<not> b \<or> (f \<noteq> [] \<and> k \<notin> set f))" "map_get cache k = Some c"
      "build_collectors fs w f es (map_put k c cs) cache = (cache', r)"
  | (create) g c where "\<not> (\<not> b \<or> (f \<noteq> [] \<and> k \<notin> set f))" "map_get cache k = None" "map_get fs k = Some g" "g w = Ok c"
      "build_collectors fs w f es (map_put k c cs) (map_put k c cache) = (cache', r)"
  | (failed) "cache' = cache" "\<nexists>x. r = Ok x" "map_get cache k = None" "panics r \<Longrightarrow> map_get fs k = None \<or> (\<exists>g p. map_get fs k = Some g \<and> g w = Panic p)"
proof (cases "\<not> b \<or> (f \<noteq> [] \<and> k \<notin> set f)")
  case True
  then show ?thesis using assms skip by simp
next
  case taken: False
  note step = assms [unfolded build_collectors.simps if_not_P [OF taken]]
  show ?thesis
  proof (cases "map_get cache k")
    case None
    show ?thesis
    proof (cases "map_get fs k")
      case None
      then show ?thesis using step \<open>map_get cache k = None\<close> by (intro failed) auto
    next
      case (Some g)
      then show ?thesis using step \<open>map_get cache k = None\<close> create [OF taken] failed
        by (cases "g w") auto
    qed
  next
    case (Some c)
    then show ?thesis using step reuse [OF taken] by simp
  qed
qed

text \<open>The cache only grows: a collector once created is the one every later call uses.\<close>

lemma build_collectors_cache:
  "build_collectors fs w f es cs cache = (cache', r) \<Longrightarrow> map_get cache k = Some c \<Longrightarrow>
     map_get cache' k = Some c"
proof (induction es arbitrary: cs cache)
  case (Cons e es)
  obtain k' b where e: "e = (k', b)" by fastforce
  from Cons.prems(1) [unfolded e] show ?case
  proof (cases rule: build_collectors_cases)
    case (create g c')
    then show ?thesis using Cons.IH [OF create(5)] Cons.prems(2) by (cases "k = k'") simp_all
  qed (use Cons in auto)
qed simp

lemma build_collectors_wf:
  "build_collectors fs w f es cs cache = (cache', r) \<Longrightarrow> wf_map cache \<Longrightarrow> wf_map cache'"
proof (induction es arbitrary: cs cache)
  case (Cons e es)
  obtain k' b where e: "e = (k', b)" by fastforce
  from Cons.prems(1) [unfolded e] show ?case
  proof (cases rule: build_collectors_cases)
    case (create g c)
    show ?thesis by (rule Cons.IH [OF create(5)]) (simp add: Cons.prems(2))
  qed (use Cons.IH Cons.prems(2) in simp_all)
qed simp

text \<open>The result holds the entries taken, and each of them is the cached one.\<close>

lemma build_collectors_Ok:
  "build_collectors fs w f es cs cache = (cache', Ok cs') \<Longrightarrow>
   (\<And>k c. map_get cs k = Some c \<Longrightarrow> map_get cache k = Some c) \<Longrightarrow>
     fst ` set cs' = fst ` set cs \<union> selected f es \<and>
     (\<forall>k c. map_get cs' k = Some c \<longrightarrow> map_get cache' k = Some c)"
proof (induction es arbitrary: cs cache)
  case (Cons e es)
  obtain k b where e: "e = (k, b)" by fastforce
  from Cons.prems(1) [unfolded e] show ?case
  proof (cases rule: build_collectors_cases)
    case skip
    then show ?thesis using Cons.IH [OF skip(2) Cons.prems(2)] e by (simp add: selected_skip)
  next
    case (reuse c)
    have "map_get (map_put k c cs) x = Some d \<Longrightarrow> map_get cache x = Some d" for x d
      using reuse(2) Cons.prems(2) by (cases "x = k") simp_all
    from Cons.IH [OF reuse(3) this] show ?thesis using reuse(1) e by (simp add: selected_take keys_map_put)
  next
    case (create g c)
    have "map_get (map_put k c cs) x = Some d \<Longrightarrow> map_get (map_put k c cache) x = Some d" for x d
      using Cons.prems(2) by (cases "x = k") simp_all
    from Cons.IH [OF create(5) this] show ?thesis using create(1) e by (simp add: selected_take keys_map_put)
  next
    case failed
    then show ?thesis by simp
  qed
qed simp

text \<open>With a factory for every flag, the loop panics only if a factory does.\<close>

lemma build_collectors_no_panic:
  assumes "\<And>k g. map_get fs k = Some g \<Longrightarrow> \<not> panics (g w)"
  shows "fst ` set es \<subseteq> fst ` set fs \<Longrightarrow> build_collectors fs w f es cs cache = (cache', r) \<Longrightarrow> \<not> panics r"
proof (induction es arbitrary: cs cache)
  case (Cons e es)
  obtain k b where e: "e = (k, b)" by fastforce
  have sub: "fst ` set es \<subseteq> fst ` set fs" using Cons.prems(1) by simp
  from Cons.prems(2) [unfolded e] show ?case
  proof (cases rule: build_collectors_cases)
    case failed
    have "map_get fs k \<noteq> None" using Cons.prems(1) e by (simp add: map_of_eq_None_iff)
    then show ?thesis using failed(4) assms by force
  qed (use Cons.IH sub in blast)+
qed auto

text \<open>The loop succeeds when every factory it has to call does.\<close>

lemma build_collectors_total:
  assumes "\<And>k. k \<in> selected f es \<Longrightarrow> map_get cache k \<noteq> None \<or> (\<exists>g c. map_get fs k = Some g \<and> g w = Ok c)"
  shows "\<exists>cs'. snd (build_collectors fs w f es cs cache) = Ok cs'"
  using assms
proof (induction es arbitrary: cs cache)
  case (Cons e es)
  obtain k b where e: "e = (k, b)" by fastforce
  show ?case
  proof (cases "\<not> b \<or> (f \<noteq> [] \<and> k \<notin> set f)")
    case True
    then show ?thesis using Cons by (auto simp: e selected_skip)
  next
    case False
    note taken = Cons.prems [unfolded e selected_take [OF False]]
    show ?thesis
    proof (cases "map_get cache k")
      case None
      with taken [of k] obtain g c where "map_get fs k = Some g" "g w = Ok c" by auto
      moreover have "\<exists>cs'. snd (build_collectors fs w f es (map_put k c cs) (map_put k c cache)) = Ok cs'"
        by (rule Cons.IH) (use taken in auto)
      ultimately show ?thesis using None
        unfolding e build_collectors.simps if_not_P [OF False] by simp
    next
      case (Some c)
      moreover have "\<exists>cs'. snd (build_collectors fs w f es (map_put k c cs) cache) = Ok cs'"
        by (rule Cons.IH) (use taken in auto)
      ultimately show ?thesis
        unfolding e build_collectors.simps if_not_P [OF False] by simp
    qed
  qed
qed simp

section \<open>Collect\<close>

text \<open>
  \<^verbatim>\<open>Collect\<close> starts a goroutine for every collector and waits for all of them. A goroutine runs
  \<^verbatim>\<open>execute\<close> and then \<^verbatim>\<open>wg.Done()\<close>.
\<close>

definition Collect :: "(desc \<Rightarrow> bool) \<Rightarrow> (string \<times> run \<times> float64) list \<Rightarrow> collecting" where
  "Collect validDesc us = go_all (map (\<lambda>(name, r, d). execute validDesc name r d) us)"

lemma Collect_inv:
  "go_step\<^sup>*\<^sup>* (Collect vd us) s \<Longrightarrow> pool_inv (map (\<lambda>(name, r, d). execute vd name r d) us) s"
  unfolding Collect_def by (rule pool_inv_reachable)

text \<open>What a goroutine that panics has met: a panic of its collector, or a metric that cannot be constructed.\<close>

definition faulty :: "(desc \<Rightarrow> bool) \<Rightarrow> string \<times> run \<times> float64 \<Rightarrow> bool" where
  "faulty validDesc = (\<lambda>(name, r, d).
     (\<exists>p. snd r = Some (Panic p)) \<or> \<not> list_all (constructible validDesc) (fst r) \<or>
     (\<exists>e. snd r = Some e \<and> \<not> list_all (constructible validDesc) (scrape_metrics name d e)))"

lemma faulty_iff: "faulty vd (name, r, d) \<longleftrightarrow> (\<exists>p. snd (execute vd name r d) = Some (Panic p))"
proof (cases "snd (execute vd name r d)")
  case None
  then have "snd r = None \<and> list_all (constructible vd) (fst r)" by (simp only: execute_None_iff)
  then show ?thesis using None by (simp add: faulty_def)
next
  case (Some x)
  show ?thesis
  proof (cases "panics x")
    case True
    then obtain p where p: "x = Panic p" by (cases x) simp_all
    have "faulty vd (name, r, d)" unfolding faulty_def prod.case by (rule execute_Panic [OF Some [unfolded p]])
    then show ?thesis using Some p by blast
  next
    case False
    from execute_back [OF Some False] obtain e where "snd r = Some e" "\<not> panics e"
      "list_all (constructible vd) (fst r @ scrape_metrics name d e)" .
    then have "\<not> faulty vd (name, r, d)" by (auto simp: faulty_def)
    then show ?thesis using Some False by auto
  qed
qed

lemma Collect_stuck:
  assumes "go_step\<^sup>*\<^sup>* (Collect vd us) s" "\<nexists>t. go_step s t"
  shows "crashed s \<longleftrightarrow> (\<exists>u \<in> set us. faulty vd u)"
    and "\<not> crashed s \<Longrightarrow> wg s = length (filter (\<lambda>(name, r, d). snd r = None) us)"
proof -
  let ?x = "\<lambda>(name, r, d). execute vd name r d"
  note I = Collect_inv [OF assms(1)]
  have f: "faulty vd u \<longleftrightarrow> (\<exists>p. snd (?x u) = Some (Panic p))" for u
    by (cases u) (simp only: faulty_iff prod.case)
  have "\<forall>u \<in> set us. \<forall>p. snd (?x u) \<noteq> Some (Panic p)" if "\<not> crashed s"
    using pool_stuck_no_panic [OF I assms(2) that] by simp
  moreover have "\<exists>u \<in> set us. \<exists>p. snd (?x u) = Some (Panic p)" if "crashed s"
    using pool_crash [OF assms(1) [unfolded Collect_def] that] by simp
  ultimately show c: "crashed s \<longleftrightarrow> (\<exists>u \<in> set us. faulty vd u)" unfolding f by blast
  assume n: "\<not> crashed s"
  have "snd (?x u) = None \<longleftrightarrow> (case u of (name, r, d) \<Rightarrow> snd r = None)" if "u \<in> set us" for u
  proof (cases u)
    case (fields name r d)
    then show ?thesis using c n that by (auto simp: execute_None_iff faulty_def)
  qed
  then have "filter (\<lambda>u. snd (?x u) = None) us = filter (\<lambda>(name, r, d). snd r = None) us" by (simp cong: filter_cong)
  then show "wg s = length (filter (\<lambda>(name, r, d). snd r = None) us)"
    using pool_stuck [OF I assms(2) n] by (simp add: filter_map comp_def)
qed

section \<open>Properties\<close>

lemma NewNodeCollector_Ok_unfold:
  assumes "NewNodeCollector ord w filters st = (st', Ok cs)"
  obtains cache where "build_collectors (factories st) w filters (ord (collectorState st)) [] (initiatedCollectors st) = (cache, Ok cs)"
    "st' = st\<lparr>initiatedCollectors := cache\<rparr>" "check_filters (collectorState st) filters = Ok ()"
  using assms by (auto simp: NewNodeCollector_def split: res.splits prod.splits)

lemma selected_ord:
  "range_order ord \<Longrightarrow> wf_registry st \<Longrightarrow> selected f (ord (collectorState st)) =
     {k. map_get (collectorState st) k = Some True \<and> (f = [] \<or> k \<in> set f)}"
  by (simp add: selected_def wf_registry_def map_of_eq_iff_mem)

lemma NewNodeCollector_cache:
  assumes "NewNodeCollector ord w filters st = (st', r)" "map_get (initiatedCollectors st) k = Some c"
  shows "map_get (initiatedCollectors st') k = Some c"
  using assms by (auto simp: NewNodeCollector_def dest: build_collectors_cache split: res.splits prod.splits)

text \<open>A registry with two collectors enabled by default and one disabled, for the examples.\<close>

definition demo_registry :: "(unit, nat) registry" where
  "demo_registry =
     registerCollector ''cpu'' True (\<lambda>_. Ok 1)
       (registerCollector ''perf'' False (\<lambda>_. Ok 2) (registerCollector ''time'' True (\<lambda>_. Ok 3) init_registry))"

lemma wf_demo_registry: "wf_registry demo_registry"
  by (simp add: demo_registry_def wf_registry_register wf_registry_init)

text \<open>
  C1: For whatever order the runtime iterates the map of flags in, a node collector that is created
  holds exactly the enabled collectors, restricted to the filters when there are any; each of them is
  the instance kept in the cache of initiated collectors.
\<close>

theorem NewNodeCollector_selects:
  assumes "range_order ord" "wf_registry st" "NewNodeCollector ord w filters st = (st', Ok cs)"
  shows "fst ` set cs = {k. map_get (collectorState st) k = Some True \<and> (filters = [] \<or> k \<in> set filters)} \<and>
    (\<forall>k c. map_get cs k = Some c \<longrightarrow> map_get (initiatedCollectors st') k = Some c)"
proof -
  from assms(3) obtain cache where
    b: "build_collectors (factories st) w filters (ord (collectorState st)) [] (initiatedCollectors st) = (cache, Ok cs)"
    and st': "st' = st\<lparr>initiatedCollectors := cache\<rparr>" by (rule NewNodeCollector_Ok_unfold)
  show ?thesis
    using build_collectors_Ok [OF b] selected_ord [OF assms(1,2)] st' by simp
qed

theorem NewNodeCollector_selects_witness:
  "snd (NewNodeCollector rev () [''cpu''] demo_registry) = Ok [(''cpu'', 1)] \<and>
   {''cpu''} = {k. map_get (collectorState demo_registry) k = Some True \<and> ([''cpu''] = [] \<or> k \<in> set [''cpu''])}"
proof -
  have run: "snd (NewNodeCollector rev () [''cpu''] demo_registry) = Ok [(''cpu'', 1)]" by code_simp
  then have "NewNodeCollector rev () [''cpu''] demo_registry =
      (fst (NewNodeCollector rev () [''cpu''] demo_registry), Ok [(''cpu'', 1)])"
    by (simp add: prod_eq_iff)
  from NewNodeCollector_selects [OF range_order_rev wf_demo_registry this] run show ?thesis by simp
qed

text \<open>
  C2: \<^verbatim>\<open>NewNodeCollector\<close> fails before it creates anything when a filter is unknown or disabled: the
  error names the first such filter and the registry is unchanged.
\<close>

theorem NewNodeCollector_rejects:
  assumes "\<not> (\<forall>f \<in> set filters. map_get (collectorState st) f = Some True)"
  shows "\<exists>pre f post e. filters = pre @ f # post \<and> (\<forall>g \<in> set pre. map_get (collectorState st) g = Some True) \<and>
     bad_filter (collectorState st) f e \<and> NewNodeCollector ord w filters st = (st, Err e)"
proof -
  have "check_filters (collectorState st) filters \<noteq> Ok ()" using assms by (simp add: check_filters_Ok_iff)
  then obtain e where e: "check_filters (collectorState st) filters = Err e"
    using check_filters_no_panic [of "collectorState st" filters]
    by (cases "check_filters (collectorState st) filters") auto
  then have "NewNodeCollector ord w filters st = (st, Err e)" by (simp add: NewNodeCollector_def)
  with check_filters_first_bad [OF e] show ?thesis by blast
qed

theorem NewNodeCollector_rejects_witness:
  "\<exists>pre f post e. [''cpu'', ''perf'', ''nope''] = pre @ f # post \<and>
     (\<forall>g \<in> set pre. map_get (collectorState demo_registry) g = Some True) \<and>
     bad_filter (collectorState demo_registry) f e \<and>
     NewNodeCollector rev () [''cpu'', ''perf'', ''nope''] demo_registry = (demo_registry, Err e)"
  by (rule NewNodeCollector_rejects)
    (simp add: demo_registry_def registerCollector_def init_registry_def)

text \<open>
  C3: Creation succeeds when every filter names an enabled collector and every factory that has to run does: the factories
  of disabled collectors, of those the filters leave out and of those that were created before are not called. The order of
  iteration does not matter.
\<close>

theorem NewNodeCollector_total:
  assumes "range_order ord" "wf_registry st"
    and "\<forall>f \<in> set filters. map_get (collectorState st) f = Some True"
    and "\<forall>k g. map_get (collectorState st) k = Some True \<longrightarrow> (filters = [] \<or> k \<in> set filters) \<longrightarrow>
      map_get (initiatedCollectors st) k = None \<longrightarrow> map_get (factories st) k = Some g \<longrightarrow> (\<exists>c. g w = Ok c)"
  shows "\<exists>st' cs. NewNodeCollector ord w filters st = (st', Ok cs)"
proof -
  have "\<exists>cs. snd (build_collectors (factories st) w filters (ord (collectorState st)) [] (initiatedCollectors st)) = Ok cs"
  proof (rule build_collectors_total)
    fix k assume "k \<in> selected filters (ord (collectorState st))"
    then have k: "map_get (collectorState st) k = Some True" "filters = [] \<or> k \<in> set filters"
      using selected_ord [OF assms(1,2)] by simp_all
    then have "k \<in> fst ` set (collectorState st)" by (force dest: map_of_SomeD)
    then have "k \<in> fst ` set (factories st)" using assms(2) by (auto simp: wf_registry_def)
    then obtain g where "map_get (factories st) k = Some g" by (metis map_of_eq_None_iff option.exhaust)
    then show "map_get (initiatedCollectors st) k \<noteq> None \<or> (\<exists>g c. map_get (factories st) k = Some g \<and> g w = Ok c)"
      using assms(4) k by blast
  qed
  moreover have "check_filters (collectorState st) filters = Ok ()" using assms(3) by (simp add: check_filters_Ok_iff)
  ultimately show ?thesis by (auto simp: NewNodeCollector_def case_prod_beta Let_def)
qed

text \<open>A registry where the factory of one collector fails and another collector was created before its factory stopped working.\<close>

definition broken_registry :: "(unit, nat) registry" where
  "broken_registry =
     (registerCollector ''cpu'' True (\<lambda>_. Err ErrNotExist)
       (registerCollector ''perf'' False (\<lambda>_. Err ErrNotExist)
         (registerCollector ''time'' True (\<lambda>_. Err ErrNotExist) (registerCollector ''uname'' True (\<lambda>_. Ok 7) init_registry))))
     \<lparr>initiatedCollectors := [(''time'', 3)]\<rparr>"

theorem NewNodeCollector_total_witness:
  "(\<exists>st' cs. NewNodeCollector rev () [''time'', ''uname''] broken_registry = (st', Ok cs)) \<and>
   (\<nexists>st' cs. NewNodeCollector rev () [] broken_registry = (st', Ok cs))"
proof
  have "wf_registry broken_registry"
    by (auto simp: wf_registry_def broken_registry_def registerCollector_def init_registry_def)
  then show "\<exists>st' cs. NewNodeCollector rev () [''time'', ''uname''] broken_registry = (st', Ok cs)"
    by (rule NewNodeCollector_total [OF range_order_rev])
      (auto simp: broken_registry_def registerCollector_def init_registry_def split: if_splits)
  show "\<nexists>st' cs. NewNodeCollector rev () [] broken_registry = (st', Ok cs)"
    by (simp add: NewNodeCollector_def broken_registry_def registerCollector_def init_registry_def)
qed

text \<open>
  A collector is created once: two scrapes, with whatever filters and in whatever world, that
  both include a collector use the same instance of it (its state carries over between scrapes).
\<close>

theorem NewNodeCollector_reuses:
  assumes "range_order ord" "wf_registry st" "NewNodeCollector ord w fs st = (st1, Ok cs1)"
    and "range_order ord'" "NewNodeCollector ord' w' fs' st1 = (st2, Ok cs2)"
    and "map_get cs1 k = Some c1" "map_get cs2 k = Some c2"
  shows "c1 = c2"
proof -
  obtain cache where
    b: "build_collectors (factories st) w fs (ord (collectorState st)) [] (initiatedCollectors st) = (cache, Ok cs1)"
    and st1: "st1 = st\<lparr>initiatedCollectors := cache\<rparr>" using assms(3) by (rule NewNodeCollector_Ok_unfold)
  obtain cache' where
    b': "build_collectors (factories st1) w' fs' (ord' (collectorState st1)) [] (initiatedCollectors st1) = (cache', Ok cs2)"
    and st2: "st2 = st1\<lparr>initiatedCollectors := cache'\<rparr>" using assms(5) by (rule NewNodeCollector_Ok_unfold)
  have "map_get (initiatedCollectors st1) k = Some c1" using build_collectors_Ok [OF b] assms(6) st1 by simp
  from NewNodeCollector_cache [OF assms(5) this] build_collectors_Ok [OF b'] assms(7) st2
  show ?thesis by simp
qed

definition clock_registry :: "(nat, nat) registry" where
  "clock_registry = registerCollector ''cpu'' True (\<lambda>w. Ok w) init_registry"

theorem NewNodeCollector_reuses_witness:
  "\<exists>st1 st2 c1 c2. NewNodeCollector rev 5 [] clock_registry = (st1, Ok [(''cpu'', c1)]) \<and>
     NewNodeCollector rev 9 [''cpu''] st1 = (st2, Ok [(''cpu'', c2)]) \<and> c1 = c2"
proof -
  have wf: "wf_registry clock_registry" by (simp add: clock_registry_def wf_registry_register wf_registry_init)
  have 1: "NewNodeCollector rev 5 [] clock_registry =
      (clock_registry\<lparr>initiatedCollectors := [(''cpu'', 5)]\<rparr>, Ok [(''cpu'', 5)])"
    by (simp add: NewNodeCollector_def clock_registry_def registerCollector_def init_registry_def)
  have 2: "NewNodeCollector rev 9 [''cpu''] (clock_registry\<lparr>initiatedCollectors := [(''cpu'', 5)]\<rparr>) =
      (clock_registry\<lparr>initiatedCollectors := [(''cpu'', 5)]\<rparr>, Ok [(''cpu'', 5)])"
    by (simp add: NewNodeCollector_def clock_registry_def registerCollector_def init_registry_def)
  have "(5::nat) = 5"
    by (rule NewNodeCollector_reuses [OF range_order_rev wf 1 range_order_rev 2, of "''cpu''"]) simp_all
  with 1 2 show ?thesis by blast
qed

text \<open>
  After \<^verbatim>\<open>DisableDefaultCollectors\<close> a collector is enabled exactly when it was enabled and its
  flag was given on the command line.
\<close>

theorem DisableDefaultCollectors_spec:
  "map_get (collectorState (DisableDefaultCollectors st)) c =
     map_option (\<lambda>enabled. enabled \<and> map_get (forcedCollectors st) c \<noteq> None) (map_get (collectorState st) c)"
proof -
  have "map_get (map (\<lambda>(c, enabled). (c, if map_get forced c = None then False else enabled)) cs) c =
      map_option (\<lambda>enabled. enabled \<and> map_get forced c \<noteq> None) (map_get cs c)" for forced :: "(string, bool) gomap" and cs
    by (induction cs) (auto split: if_splits)
  then show ?thesis by (simp add: DisableDefaultCollectors_def)
qed

text \<open>
  C4: When \<^verbatim>\<open>Collect\<close> returns (the wait group is at zero), every collector's update has come to an end without a panic, each
  goroutine has sent the collector's metrics in order and completely, ending with the duration and the success of its
  collector, every metric could be constructed, and nothing else is on the channel, for every interleaving of the goroutines.
\<close>

theorem Collect_complete:
  assumes "go_step\<^sup>*\<^sup>* (Collect vd us) s" "wg s = 0"
  shows "(\<forall>i name r d. i < length us \<longrightarrow> us ! i = (name, r, d) \<longrightarrow>
      (\<exists>e. snd r = Some e \<and> \<not> panics e \<and> list_all (constructible vd) (sends i s) \<and>
        sends i s = fst r @ [MustNewConstMetric scrapeDurationDesc GaugeValue d [name],
          MustNewConstMetric scrapeSuccessDesc GaugeValue (if e = Ok () then Fin 1 else Fin 0) [name]])) \<and>
    (\<forall>(i, m) \<in> set (chan s). i < length us)"
proof -
  note I = Collect_inv [OF assms(1)]
  have "\<exists>e. snd r = Some e \<and> \<not> panics e \<and> list_all (constructible vd) (sends i s) \<and> sends i s = fst r @ scrape_metrics name d e"
    if i: "i < length us" "us ! i = (name, r, d)" for i name r d
  proof -
    have sent: "sends i s = fst (execute vd name r d)" and "ends_well (snd (execute vd name r d))"
      using pool_done [OF I assms(2), of i] i by simp_all
    then obtain x where "snd (execute vd name r d) = Some x" "\<not> panics x" by (auto simp: ends_well_iff)
    from execute_back [OF this] show ?thesis using sent by (metis fst_conv)
  qed
  moreover have "\<forall>(i, m) \<in> set (chan s). i < length us" using pool_sent(1) [OF I] by auto
  ultimately show ?thesis by (simp add: scrape_metrics_def)
qed

text \<open>A library that takes every descriptor with distinct variable labels.\<close>

definition distinct_labels :: "desc \<Rightarrow> bool" where
  "distinct_labels d \<longleftrightarrow> distinct (desc_labels d)"

definition time_run :: "string \<times> run \<times> float64" where
  "time_run = (''time'', returns ([], Err ErrNoData), Fin 2)"

lemma Collect_time: "Collect distinct_labels [time_run] = go_all [(scrape_metrics ''time'' (Fin 2) (Err ErrNoData), Some (Ok ()))]"
proof -
  have "list_all (constructible distinct_labels) (scrape_metrics ''time'' (Fin 2) (Err ErrNoData))"
    by code_simp
  then show ?thesis by (simp add: Collect_def time_run_def returns_def execute_returns construct_id)
qed

lemma Collect_one:
  "go_step\<^sup>*\<^sup>* (Collect distinct_labels [time_run])
     \<lparr>routines = [\<lparr>todo = [], ending = Some (Ok ()), finished = True\<rparr>], wg = 0,
       chan = [(0, MustNewConstMetric scrapeDurationDesc GaugeValue (Fin 2) [''time'']),
               (0, MustNewConstMetric scrapeSuccessDesc GaugeValue (Fin 0) [''time''])], crashed = False\<rparr>"
proof -
  let ?d = "MustNewConstMetric scrapeDurationDesc GaugeValue (Fin 2) [''time'']"
  let ?s = "MustNewConstMetric scrapeSuccessDesc GaugeValue (Fin 0) [''time'']"
  let ?st = "\<lambda>t w c f. \<lparr>routines = [\<lparr>todo = t, ending = Some (Ok ()), finished = f\<rparr>], wg = w, chan = c, crashed = False\<rparr>"
  have "Collect distinct_labels [time_run] = ?st [?d, ?s] 1 [] False"
    by (simp add: Collect_time go_all_def go_run_def scrape_metrics_def)
  moreover have "go_step (?st [?d, ?s] 1 [] False) (?st [?s] 1 [(0, ?d)] False)"
    using send [of "?st [?d, ?s] 1 [] False" 0 ?d "[?s]"] by simp
  moreover have "go_step (?st [?s] 1 [(0, ?d)] False) (?st [] 1 [(0, ?d), (0, ?s)] False)"
    using send [of "?st [?s] 1 [(0, ?d)] False" 0 ?s "[]"] by simp
  moreover have "go_step (?st [] 1 [(0, ?d), (0, ?s)] False) (?st [] 0 [(0, ?d), (0, ?s)] True)"
    using finish [of "?st [] 1 [(0, ?d), (0, ?s)] False" 0 "Ok ()"] by simp
  ultimately show ?thesis
    by (simp add: converse_rtranclp_into_rtranclp [OF _ converse_rtranclp_into_rtranclp [OF _ r_into_rtranclp]])
qed

theorem Collect_complete_witness:
  "sends 0 \<lparr>routines = [\<lparr>todo = [], ending = Some (Ok ()), finished = True\<rparr>], wg = 0,
       chan = [(0, MustNewConstMetric scrapeDurationDesc GaugeValue (Fin 2) [''time'']),
               (0, MustNewConstMetric scrapeSuccessDesc GaugeValue (Fin 0) [''time''])], crashed = False\<rparr>
   = [MustNewConstMetric scrapeDurationDesc GaugeValue (Fin 2) [''time''],
      MustNewConstMetric scrapeSuccessDesc GaugeValue (Fin 0) [''time'']]"
  using Collect_complete [OF Collect_one] by (simp add: time_run_def returns_def)

text \<open>
  C5: A scrape takes a bounded number of steps, and where nothing can move any more either the process has crashed, which is
  exactly when some collector panicked or sent a metric that cannot be constructed, or the wait group counts the
  collectors whose update never comes back: \<^verbatim>\<open>Collect\<close> returns if all of them do, and blocks for ever if one does not.
\<close>

theorem Collect_terminates:
  assumes "(go_step ^^ n) (Collect vd us) s"
  shows "n \<le> (\<Sum>(name, r, d) \<leftarrow> us. length (fst (execute vd name r d)) + 1) + 1 \<and>
    ((\<nexists>t. go_step s t) \<longrightarrow>
       (crashed s \<longleftrightarrow> (\<exists>(name, r, d) \<in> set us. (\<exists>p. snd r = Some (Panic p)) \<or> \<not> list_all (constructible vd) (fst r) \<or>
          (\<exists>e. snd r = Some e \<and> \<not> list_all (constructible vd) (scrape_metrics name d e)))) \<and>
       (\<not> crashed s \<longrightarrow> wg s = length (filter (\<lambda>(name, r, d). snd r = None) us)))"
proof -
  have run: "go_step\<^sup>*\<^sup>* (Collect vd us) s" using assms by (rule relpowp_imp_rtranclp)
  have "work (Collect vd us) = (\<Sum>(name, r, d) \<leftarrow> us. length (fst (execute vd name r d)) + 1) + 1"
    by (simp add: Collect_def work_go_all comp_def case_prod_unfold)
  then show ?thesis using go_steps_work [OF assms] Collect_stuck [OF run] by (simp add: faulty_def)
qed

text \<open>One collector comes back, another sends a metric and then hangs: the scrape gets stuck with one goroutine to wait for.\<close>

definition hanging_run :: "string \<times> run \<times> float64" where
  "hanging_run = (''btrfs'', ([MustNewConstMetric scrapeDurationDesc GaugeValue (Fin 1) [''sda'']], None), Fin 5)"

theorem Collect_terminates_witness:
  "\<exists>n s. (go_step ^^ n) (Collect distinct_labels [time_run, hanging_run]) s \<and> (\<nexists>t. go_step s t) \<and> \<not> crashed s \<and> wg s = 1 \<and> n \<le> 6"
proof -
  obtain s where s: "go_step\<^sup>*\<^sup>* (Collect distinct_labels [time_run, hanging_run]) s" "\<nexists>t. go_step s t" using pool_ends by blast
  obtain n where n: "(go_step ^^ n) (Collect distinct_labels [time_run, hanging_run]) s" using rtranclp_imp_relpowp [OF s(1)] by blast
  have ok: "list_all (constructible distinct_labels) (scrape_metrics ''time'' (Fin 2) (Err ErrNoData))"
    "list_all (constructible distinct_labels) [MustNewConstMetric scrapeDurationDesc GaugeValue (Fin 1) [''sda'']]"
    by code_simp+
  have "length (fst (execute distinct_labels ''time'' (returns ([], Err ErrNoData)) (Fin 2))) = 2"
    "length (fst (execute distinct_labels ''btrfs'' (fst (snd hanging_run)) (Fin 5))) = 1"
    using ok by (simp_all add: returns_def hanging_run_def execute_returns execute_hangs construct_id) (simp add: scrape_metrics_def)
  then have "n \<le> 6" "\<not> crashed s" "wg s = 1"
    using Collect_terminates [OF n] s(2) ok by (auto simp: time_run_def hanging_run_def)
  with n s(2) show ?thesis by blast
qed

end
