(* ===== verification/Handler.thy ===== *)
theory Handler
  imports Registry "HOL-Library.List_Lexorder" "HOL-Library.Char_ord"
begin

text \<open>
  The metrics endpoint of \<^verbatim>\<open>node_exporter.go\<close>: the handler with its list of enabled collectors,
  \<^verbatim>\<open>newHandler\<close>, \<^verbatim>\<open>ServeHTTP\<close> with the \<^verbatim>\<open>collect[]\<close> and \<^verbatim>\<open>exclude[]\<close> queries, \<^verbatim>\<open>innerHandler\<close>, and the factory
  in \<^verbatim>\<open>main\<close>. A request is the two lists of query values. The Prometheus registry and its HTTP
  handler are third-party code: \<open>register\<close> is the call that adds the node collector to a fresh
  registry, and an \<open>httpHandler\<close> records what the handler was built from.
\<close>

section \<open>State and operations\<close>

record 'c httpHandler =
  hh_nodeCollector :: "'c nodeCollector"
  hh_exporterMetrics :: bool
  hh_maxRequests :: int
  hh_instrumented :: bool

record 'c handler =
  unfilteredHandler :: "'c httpHandler"
  enabledCollectors :: "string list"
  includeExporterMetrics :: bool
  maxRequests :: int

text \<open>What the runtime and the libraries contribute to a call: map orders, the world of the factories, registration.\<close>

record ('w, 'c) runtime =
  state_order :: "(string \<times> bool) list \<Rightarrow> (string \<times> bool) list"
  collectors_order :: "'c nodeCollector \<Rightarrow> 'c nodeCollector"
  rt_world :: 'w
  rt_register :: "'c nodeCollector \<Rightarrow> unit res"

datatype 'c response = Served "'c httpHandler" | StatusBadRequest error

definition innerHandler ::
  "('w, 'c) runtime \<Rightarrow> 'c handler \<Rightarrow> string list \<Rightarrow> ('w, 'c) registry \<Rightarrow>
     'c handler \<times> ('w, 'c) registry \<times> 'c httpHandler res" where
  "innerHandler rt h filters st =
     (case NewNodeCollector (state_order rt) (rt_world rt) filters st of
        (st', Err e) \<Rightarrow> (h, st', Err (Flatf ''couldn't create collector: %s'' [] e))
      | (st', Panic p) \<Rightarrow> (h, st', Panic p)
      | (st', Ok nc) \<Rightarrow>
          let h' = (if filters = []
                    then h\<lparr>enabledCollectors := sort (enabledCollectors h @ map fst (collectors_order rt nc))\<rparr>
                    else h)
          in (case rt_register rt nc of
                Err e \<Rightarrow> (h', st', Err (Flatf ''couldn't register node collector: %s'' [] e))
              | Panic p \<Rightarrow> (h', st', Panic p)
              | Ok _ \<Rightarrow>
                  (h', st', Ok \<lparr>hh_nodeCollector = nc, hh_exporterMetrics = includeExporterMetrics h,
                     hh_maxRequests = maxRequests h, hh_instrumented = includeExporterMetrics h\<rparr>)))"

text \<open>The handler before its inner handler exists; \<^verbatim>\<open>newHandler\<close> panics when that cannot be built.\<close>

definition newHandler ::
  "('w, 'c) runtime \<Rightarrow> bool \<Rightarrow> int \<Rightarrow> ('w, 'c) registry \<Rightarrow> ('w, 'c) registry \<times> 'c handler res" where
  "newHandler rt includeMetrics maxReqs st =
     (let h = \<lparr>unfilteredHandler = \<lparr>hh_nodeCollector = [], hh_exporterMetrics = False, hh_maxRequests = 0,
                 hh_instrumented = False\<rparr>,
               enabledCollectors = [], includeExporterMetrics = includeMetrics, maxRequests = maxReqs\<rparr>
      in case innerHandler rt h [] st of
           (h', st', Ok ih) \<Rightarrow> (st', Ok (h'\<lparr>unfilteredHandler := ih\<rparr>))
         | (h', st', Err e) \<Rightarrow> (st', Panic ''Couldn't create metrics handler'')
         | (h', st', Panic p) \<Rightarrow> (st', Panic p))"

definition ServeHTTP ::
  "('w, 'c) runtime \<Rightarrow> string list \<Rightarrow> string list \<Rightarrow> 'c handler \<Rightarrow> ('w, 'c) registry \<Rightarrow>
     'c handler \<times> ('w, 'c) registry \<times> 'c response res" where
  "ServeHTTP rt collects excludes h st =
     (if collects = [] \<and> excludes = [] then (h, st, Ok (Served (unfilteredHandler h)))
      else if collects \<noteq> [] \<and> excludes \<noteq> [] then
        (h, st, Ok (StatusBadRequest (NewError ''Combined collect and exclude queries are not allowed.'')))
      else let filters = (if excludes \<noteq> [] then filter (\<lambda>c. c \<notin> set excludes) (enabledCollectors h) else collects)
           in case innerHandler rt h filters st of
                (h', st', Err e) \<Rightarrow>
                  (h', st', Ok (StatusBadRequest (Flatf ''Couldn't create filtered metrics handler: %s'' [] e)))
              | (h', st', Panic p) \<Rightarrow> (h', st', Panic p)
              | (h', st', Ok filteredHandler) \<Rightarrow> (h', st', Ok (Served filteredHandler)))"

definition metricsHandlerFactory ::
  "('w, 'c) runtime \<Rightarrow> bool \<Rightarrow> bool \<Rightarrow> int \<Rightarrow> ('w, 'c) registry \<Rightarrow> ('w, 'c) registry \<times> 'c handler res" where
  "metricsHandlerFactory rt disableDefaultCollectors disableExporterMetrics maxReqs st =
     newHandler rt (\<not> disableExporterMetrics) maxReqs
       (if disableDefaultCollectors then DisableDefaultCollectors st else st)"

section \<open>The invariant\<close>

definition enabled :: "('w, 'c) registry \<Rightarrow> string set" where
  "enabled st = {k. map_get (collectorState st) k = Some True}"

definition served :: "'c httpHandler \<Rightarrow> string set" where
  "served hh = fst ` set (hh_nodeCollector hh)"

definition rt_ok :: "('w, 'c) runtime \<Rightarrow> bool" where
  "rt_ok rt \<longleftrightarrow> range_order (state_order rt) \<and> range_order (collectors_order rt)"

text \<open>
  Between requests the handler lists the enabled collectors in order, and the prepared handler
  serves them.
\<close>

definition handler_inv :: "'c handler \<Rightarrow> ('w, 'c) registry \<Rightarrow> bool" where
  "handler_inv h st \<longleftrightarrow>
     wf_registry st \<and> set (enabledCollectors h) = enabled st \<and> sorted (enabledCollectors h) \<and>
     served (unfilteredHandler h) = enabled st"

lemma NewNodeCollector_state:
  assumes "NewNodeCollector ord w fs st = (st', r)"
  shows "collectorState st' = collectorState st" "wf_registry st \<Longrightarrow> wf_registry st'"
proof -
  obtain cache where st': "st' = st\<lparr>initiatedCollectors := cache\<rparr>"
    and wf: "wf_map (initiatedCollectors st) \<longrightarrow> wf_map cache"
    using assms that [of "initiatedCollectors st"]
    by (auto simp: NewNodeCollector_def dest: build_collectors_wf split: res.splits prod.splits)
  then show "collectorState st' = collectorState st" "wf_registry st \<Longrightarrow> wf_registry st'"
    by (simp_all add: wf_registry_def)
qed

lemma NewNodeCollector_keys:
  assumes "range_order ord" "wf_registry st" "NewNodeCollector ord w fs st = (st', Ok nc)"
  shows "fst ` set nc = {k \<in> enabled st. fs = [] \<or> k \<in> set fs}"
proof -
  from assms(3) obtain cache where
    "build_collectors (factories st) w fs (ord (collectorState st)) [] (initiatedCollectors st) = (cache, Ok nc)"
    by (rule NewNodeCollector_Ok_unfold)
  from build_collectors_Ok [OF this] selected_ord [OF assms(1,2)] show ?thesis by (auto simp: enabled_def)
qed

lemma NewNodeCollector_filters_enabled:
  "NewNodeCollector ord w fs st = (st', Ok nc) \<Longrightarrow> set fs \<subseteq> enabled st"
  by (elim NewNodeCollector_Ok_unfold) (auto simp: check_filters_Ok_iff enabled_def)

text \<open>One call of \<^verbatim>\<open>innerHandler\<close>: what it serves, and that it keeps the list of enabled collectors.\<close>

lemma innerHandler_state:
  assumes "innerHandler rt h fs st = (h', st', r)"
  shows "collectorState st' = collectorState st" "wf_registry st \<Longrightarrow> wf_registry st'"
    "unfilteredHandler h' = unfilteredHandler h" "fs \<noteq> [] \<Longrightarrow> h' = h"
proof -
  obtain st1 r1 where n: "NewNodeCollector (state_order rt) (rt_world rt) fs st = (st1, r1)" by fastforce
  with assms have "st' = st1" "unfilteredHandler h' = unfilteredHandler h" "fs \<noteq> [] \<longrightarrow> h' = h"
    by (auto simp: innerHandler_def Let_def split: res.splits if_splits)
  with NewNodeCollector_state [OF n] show "collectorState st' = collectorState st" "wf_registry st \<Longrightarrow> wf_registry st'"
    "unfilteredHandler h' = unfilteredHandler h" "fs \<noteq> [] \<Longrightarrow> h' = h" by simp_all
qed

lemma innerHandler_served:
  assumes "rt_ok rt" "wf_registry st" "innerHandler rt h fs st = (h', st', Ok hh)"
  shows "served hh = {k \<in> enabled st. fs = [] \<or> k \<in> set fs}" "set fs \<subseteq> enabled st"
    "hh_exporterMetrics hh = includeExporterMetrics h" "hh_maxRequests hh = maxRequests h"
proof -
  obtain st1 nc where n: "NewNodeCollector (state_order rt) (rt_world rt) fs st = (st1, Ok nc)"
    and hh: "hh_nodeCollector hh = nc" "hh_exporterMetrics hh = includeExporterMetrics h"
      "hh_maxRequests hh = maxRequests h"
    using assms(3) by (auto simp: innerHandler_def Let_def split: res.splits prod.splits)
  from NewNodeCollector_keys [OF _ assms(2) n] NewNodeCollector_filters_enabled [OF n] hh assms(1)
  show "served hh = {k \<in> enabled st. fs = [] \<or> k \<in> set fs}" "set fs \<subseteq> enabled st"
    "hh_exporterMetrics hh = includeExporterMetrics h" "hh_maxRequests hh = maxRequests h"
    by (simp_all add: served_def rt_ok_def)
qed

lemma innerHandler_enabled:
  assumes "rt_ok rt" "wf_registry st" "innerHandler rt h [] st = (h', st', r)"
    and "set (enabledCollectors h) \<subseteq> enabled st" "sorted (enabledCollectors h)"
  shows "set (enabledCollectors h') \<subseteq> enabled st" "sorted (enabledCollectors h')"
    "set (enabledCollectors h) \<subseteq> set (enabledCollectors h')" "r = Ok hh \<Longrightarrow> set (enabledCollectors h') = enabled st"
proof -
  obtain st1 r1 where n: "NewNodeCollector (state_order rt) (rt_world rt) [] st = (st1, r1)" by fastforce
  have keys: "fst ` set nc = enabled st" if "r1 = Ok nc" for nc
    using NewNodeCollector_keys [OF _ assms(2) n [unfolded that]] assms(1) by (simp add: rt_ok_def)
  have ord: "set (collectors_order rt nc) = set nc" for nc using assms(1) by (simp add: rt_ok_def)
  show "set (enabledCollectors h') \<subseteq> enabled st" "sorted (enabledCollectors h')"
    "set (enabledCollectors h) \<subseteq> set (enabledCollectors h')"
    using assms(3-5) n keys ord by (auto simp: innerHandler_def Let_def split: res.splits)
  show "set (enabledCollectors h') = enabled st" if "r = Ok hh"
    using assms(3-5) n keys ord that by (auto simp: innerHandler_def Let_def split: res.splits)
qed

text \<open>The handler made at start-up satisfies the invariant, and every request keeps it.\<close>

lemma newHandler_inv:
  assumes "rt_ok rt" "wf_registry st" "newHandler rt im mr st = (st', Ok h)"
  shows "handler_inv h st'"
proof -
  obtain h0 h1 hh where i: "innerHandler rt h0 [] st = (h1, st', Ok hh)" "enabledCollectors h0 = []"
    and h: "h = h1\<lparr>unfilteredHandler := hh\<rparr>"
    using assms(3) by (auto simp: newHandler_def Let_def split: prod.splits res.splits)
  have "enabled st' = enabled st" "wf_registry st'"
    using innerHandler_state [OF i(1)] assms(2) by (simp_all add: enabled_def)
  then show ?thesis
    using innerHandler_served(1) [OF assms(1,2) i(1)] innerHandler_enabled [OF assms(1,2) i(1)] i(2) h
    by (simp add: handler_inv_def)
qed

lemma factory_inv:
  assumes "rt_ok rt" "wf_registry st" "metricsHandlerFactory rt dd de mr st = (st', Ok h)"
  shows "handler_inv h st'"
  by (rule newHandler_inv [OF assms(1) _ assms(3) [unfolded metricsHandlerFactory_def]])
    (simp add: assms(2) wf_registry_disable)


lemma ServeHTTP_cases:
  assumes "ServeHTTP rt cs es h st = (h', st', r)"
  obtains (unfiltered) "cs = []" "es = []" "h' = h" "st' = st" "r = Ok (Served (unfilteredHandler h))"
  | (combined) "cs \<noteq> []" "es \<noteq> []" "h' = h" "st' = st"
      "r = Ok (StatusBadRequest (NewError ''Combined collect and exclude queries are not allowed.''))"
  | (filtered) r' where "cs = [] \<longleftrightarrow> es \<noteq> []"
      "innerHandler rt h (if es \<noteq> [] then filter (\<lambda>c. c \<notin> set es) (enabledCollectors h) else cs) st = (h', st', r')"
      "r = (case r' of Ok hh \<Rightarrow> Ok (Served hh) | Panic p \<Rightarrow> Panic p
            | Err e \<Rightarrow> Ok (StatusBadRequest (Flatf ''Couldn't create filtered metrics handler: %s'' [] e)))"
proof (cases "cs = []"; cases "es = []")
  assume "cs = []" "es = []"
  then show ?thesis using assms unfiltered by (auto simp: ServeHTTP_def)
next
  assume "cs \<noteq> []" "es \<noteq> []"
  then show ?thesis using assms combined by (auto simp: ServeHTTP_def)
next
  assume "cs = []" "es \<noteq> []"
  then show ?thesis using assms filtered by (auto simp: ServeHTTP_def Let_def split: prod.splits res.splits)
next
  assume "cs \<noteq> []" "es = []"
  then show ?thesis using assms filtered by (auto simp: ServeHTTP_def Let_def split: prod.splits res.splits)
qed

lemma ServeHTTP_inv:
  assumes "rt_ok rt" "handler_inv h st" "ServeHTTP rt cs es h st = (h', st', r)"
  shows "handler_inv h' st'"
  using assms(3)
proof (cases rule: ServeHTTP_cases)
  case (filtered r')
  let ?fs = "if es \<noteq> [] then filter (\<lambda>c. c \<notin> set es) (enabledCollectors h) else cs"
  note st = innerHandler_state [OF filtered(2)]
  have en: "enabled st' = enabled st" using st(1) by (simp add: enabled_def)
  show ?thesis
  proof (cases "?fs = []")
    case True
    have h: "wf_registry st" "set (enabledCollectors h) = enabled st" "sorted (enabledCollectors h)"
      "served (unfilteredHandler h) = enabled st" using assms(2) by (simp_all add: handler_inv_def)
    note e = innerHandler_enabled [OF assms(1) h(1) filtered(2) [unfolded True] _ h(3)]
    have "set (enabledCollectors h') = enabled st" using e(1,3) h(2) by blast
    then show ?thesis using e(2) h st(2,3) en by (simp add: handler_inv_def)
  next
    case False
    then show ?thesis using st en assms(2) by (simp add: handler_inv_def)
  qed
qed (use assms in simp_all)

text \<open>
  The states of the endpoint over its life: the factory makes the handler once, from a registry the
  command line has set up, and requests follow in any number, each under its own runtime.
\<close>

inductive endpoint :: "'c handler \<Rightarrow> ('w, 'c) registry \<Rightarrow> bool" where
  start: "\<lbrakk>rt_ok rt; wf_registry st; metricsHandlerFactory rt dd de mr st = (st', Ok h)\<rbrakk> \<Longrightarrow> endpoint h st'"
| request: "\<lbrakk>endpoint h st; rt_ok rt; ServeHTTP rt cs es h st = (h', st', r)\<rbrakk> \<Longrightarrow> endpoint h' st'"

section \<open>Properties\<close>

text \<open>
  C8: At every point of the endpoint's life, after any sequence of requests (failed ones included),
  the handler lists exactly the enabled collectors in sorted order, and the unfiltered handler serves
  them.
\<close>

theorem endpoint_invariant:
  assumes "endpoint h st"
  shows "handler_inv h st"
  using assms
proof (induction rule: endpoint.induct)
  case (start rt st dd de mr st' h)
  then show ?case by (rule factory_inv)
next
  case (request h st rt cs es h' st' r)
  then show ?case using ServeHTTP_inv by blast
qed

definition demo_runtime :: "(unit, nat) runtime" where
  "demo_runtime = \<lparr>state_order = rev, collectors_order = rev, rt_world = (), rt_register = (\<lambda>_. Ok ())\<rparr>"

definition demo_handler :: "nat handler" where
  "demo_handler = (case snd (metricsHandlerFactory demo_runtime False False 40 demo_registry) of Ok h \<Rightarrow> h)"

definition demo_state :: "(unit, nat) registry" where
  "demo_state = fst (metricsHandlerFactory demo_runtime False False 40 demo_registry)"

lemma rt_ok_demo: "rt_ok demo_runtime"
  by (simp add: rt_ok_def demo_runtime_def range_order_rev)

lemma demo_start: "metricsHandlerFactory demo_runtime False False 40 demo_registry = (demo_state, Ok demo_handler)"
proof -
  have "case snd (metricsHandlerFactory demo_runtime False False 40 demo_registry) of Ok h \<Rightarrow> True | _ \<Rightarrow> False"
    by code_simp
  then show ?thesis by (simp add: demo_state_def demo_handler_def prod_eq_iff split: res.splits)
qed

lemma demo_endpoint: "endpoint demo_handler demo_state"
  by (rule start [OF rt_ok_demo wf_demo_registry demo_start])

theorem endpoint_invariant_witness: "handler_inv demo_handler demo_state"
  by (rule endpoint_invariant [OF demo_endpoint])

text \<open>
  C9: A request that is served, and that does not exclude every enabled collector, gets exactly what it asked for: every enabled
  collector without a query, the collectors of \<^verbatim>\<open>collect[]\<close>, and with \<^verbatim>\<open>exclude[]\<close> the enabled ones less those excluded. A
  request whose \<^verbatim>\<open>exclude[]\<close> names all of them is served with all of them instead (see below).
\<close>

theorem ServeHTTP_serves:
  assumes "rt_ok rt" "handler_inv h st" "ServeHTTP rt collects excludes h st = (h', st', Ok (Served hh))"
    and "excludes = [] \<or> \<not> enabled st \<subseteq> set excludes"
  shows "served hh = (if collects \<noteq> [] then set collects else enabled st - set excludes)"
  using assms(3)
proof (cases rule: ServeHTTP_cases)
  case unfiltered
  then show ?thesis using assms(2) by (simp add: handler_inv_def)
next
  case (filtered r')
  let ?fs = "if excludes \<noteq> [] then filter (\<lambda>c. c \<notin> set excludes) (enabledCollectors h) else collects"
  have r': "r' = Ok hh" using filtered(3) by (auto split: res.splits)
  have wf: "wf_registry st" and en: "set (enabledCollectors h) = enabled st" using assms(2) by (simp_all add: handler_inv_def)
  have "?fs \<noteq> []" using assms(4) filtered(1) en by (auto simp: filter_empty_conv)
  moreover note innerHandler_served(1,2) [OF assms(1) wf filtered(2) [unfolded r']]
  ultimately show ?thesis using filtered(1) en by (auto split: if_splits)
qed auto

theorem ServeHTTP_serves_witness:
  "\<exists>h st hh. ServeHTTP demo_runtime [] [''cpu''] demo_handler demo_state = (h, st, Ok (Served hh)) \<and>
     served hh = enabled demo_state - {''cpu''} \<and> ''time'' \<in> enabled demo_state"
proof -
  have "case ServeHTTP demo_runtime [] [''cpu''] demo_handler demo_state of (h, st, Ok (Served hh)) \<Rightarrow> True | _ \<Rightarrow> False"
    unfolding demo_handler_def demo_state_def by code_simp
  then obtain h st hh where s: "ServeHTTP demo_runtime [] [''cpu''] demo_handler demo_state = (h, st, Ok (Served hh))"
    by (auto split: prod.splits res.splits response.splits)
  have time: "''time'' \<in> enabled demo_state" unfolding enabled_def demo_state_def by code_simp
  have "handler_inv demo_handler demo_state" by (rule factory_inv [OF rt_ok_demo wf_demo_registry demo_start])
  from ServeHTTP_serves [OF rt_ok_demo this s] time s show ?thesis by auto
qed

text \<open>
  C11: Excluding every enabled collector serves every enabled collector: the filter list is then
  empty, which \<^verbatim>\<open>innerHandler\<close> takes for a request without filters, and it appends the collectors to
  the handler's list once more.
\<close>

theorem ServeHTTP_exclude_all:
  assumes "rt_ok rt" "handler_inv h st" "excludes \<noteq> []" "enabled st \<subseteq> set excludes"
    and "ServeHTTP rt [] excludes h st = (h', st', Ok (Served hh))"
  shows "served hh = enabled st \<and> length (enabledCollectors h') = length (enabledCollectors h) + length (hh_nodeCollector hh)"
proof -
  have wf: "wf_registry st" and en: "set (enabledCollectors h) = enabled st" using assms(2) by (simp_all add: handler_inv_def)
  have f: "filter (\<lambda>c. c \<notin> set excludes) (enabledCollectors h) = []"
    using assms(4) en by (auto simp: filter_empty_conv)
  have i: "innerHandler rt h [] st = (h', st', Ok hh)"
    using assms(3,5) f by (auto simp: ServeHTTP_def Let_def split: prod.splits res.splits)
  have "length (collectors_order rt nc) = length nc" for nc
    using assms(1) by (metis rt_ok_def range_order_mset size_mset)
  then show ?thesis using innerHandler_served(1) [OF assms(1) wf i] i
    by (auto simp: innerHandler_def Let_def split: prod.splits res.splits)
qed

theorem ServeHTTP_exclude_all_witness:
  "\<exists>h st hh. ServeHTTP demo_runtime [] [''cpu'', ''time''] demo_handler demo_state = (h, st, Ok (Served hh)) \<and>
     served hh = enabled demo_state \<and>
     length (enabledCollectors h) = length (enabledCollectors demo_handler) + length (hh_nodeCollector hh)"
proof -
  have "case ServeHTTP demo_runtime [] [''cpu'', ''time''] demo_handler demo_state of (h, st, Ok (Served hh)) \<Rightarrow> True | _ \<Rightarrow> False"
    unfolding demo_handler_def demo_state_def by code_simp
  then obtain h st hh where s: "ServeHTTP demo_runtime [] [''cpu'', ''time''] demo_handler demo_state = (h, st, Ok (Served hh))"
    by (auto split: prod.splits res.splits response.splits)
  have "list_all (\<lambda>(k, b). b \<longrightarrow> k \<in> set [''cpu'', ''time'']) (collectorState demo_state)"
    unfolding demo_state_def by code_simp
  then have sub: "enabled demo_state \<subseteq> set [''cpu'', ''time'']"
    by (auto simp: enabled_def list_all_iff dest!: map_of_SomeD)
  have "handler_inv demo_handler demo_state" by (rule factory_inv [OF rt_ok_demo wf_demo_registry demo_start])
  from ServeHTTP_exclude_all [OF rt_ok_demo this _ sub s] s show ?thesis by blast
qed

text \<open>
  C10: A request with both kinds of query, or that collects an unknown or disabled collector, is
  answered with a bad request and changes neither the handler nor the registry.
\<close>

theorem ServeHTTP_bad_request:
  assumes "collects \<noteq> []" "excludes \<noteq> [] \<or> \<not> set collects \<subseteq> enabled st"
  shows "\<exists>e. ServeHTTP rt collects excludes h st = (h, st, Ok (StatusBadRequest e))"
proof (cases "excludes = []")
  case True
  with assms(2) have "check_filters (collectorState st) collects \<noteq> Ok ()"
    by (auto simp: check_filters_Ok_iff enabled_def)
  then obtain e where "NewNodeCollector (state_order rt) (rt_world rt) collects st = (st, Err e)"
    using check_filters_no_panic [of "collectorState st" collects]
    by (cases "check_filters (collectorState st) collects") (auto simp: NewNodeCollector_def)
  then show ?thesis using assms(1) True by (simp add: ServeHTTP_def innerHandler_def Let_def)
qed (use assms(1) in \<open>simp add: ServeHTTP_def\<close>)

theorem ServeHTTP_bad_request_witness:
  "\<exists>e. ServeHTTP demo_runtime [''perf''] [] demo_handler demo_state = (demo_handler, demo_state, Ok (StatusBadRequest e))"
proof (rule ServeHTTP_bad_request)
  have "map_get (collectorState demo_state) ''perf'' \<noteq> Some True" unfolding demo_state_def by code_simp
  then show "[] \<noteq> ([] :: string list) \<or> \<not> set [''perf''] \<subseteq> enabled demo_state" by (simp add: enabled_def)
qed simp

end
