(* ===== verification/Helpers.thy ===== *)
theory Helpers
  imports Metrics
begin

text \<open>
  The helpers the collectors share: \<^verbatim>\<open>helper.go\<close>, \<^verbatim>\<open>helper_linux.go\<close>, \<^verbatim>\<open>utils.go\<close>, \<^verbatim>\<open>paths.go\<close> and
  \<^verbatim>\<open>device_filter.go\<close>. The file system is a function from paths to contents or an error; the path
  flags are fields of \<open>paths\<close>.
\<close>

section \<open>Reading numbers\<close>

definition readUintFromFile :: "(string \<Rightarrow> string res) \<Rightarrow> string \<Rightarrow> int res" where
  "readUintFromFile readFile path =
     bind_res (readFile path) (\<lambda>data. ParseUint (TrimSpace data) 10 64)"

lemma byte_dec_digit: "d < 10 \<Longrightarrow> byte (dec_digit d) = 48 + d"
  by (simp add: byte_def dec_digit_def)

lemma digit_val_dec_digit: "d < 10 \<Longrightarrow> digit_val (dec_digit d) = Some (int d)"
  by (simp add: digit_val_def is_digit_def byte_dec_digit)

lemma parse_uint_loop_append:
  "parse_uint_loop base mx s0 n (xs @ ys) =
     bind_res (parse_uint_loop base mx s0 n xs) (\<lambda>m. parse_uint_loop base mx s0 m ys)"
proof (induction xs arbitrary: n)
  case (Cons x xs)
  then show ?case by (cases "digit_val x") simp_all
qed simp

lemma parse_FormatUint: "int n \<le> mx \<Longrightarrow> parse_uint_loop 10 mx s0 0 (FormatUint n) = Ok (int n)"
proof (induction n rule: FormatUint.induct)
  case (1 n)
  show ?case
  proof (cases "n < 10")
    case True
    then show ?thesis using "1.prems" by (subst FormatUint.simps) (simp add: digit_val_dec_digit)
  next
    case False
    have "int (n div 10) \<le> mx" using "1.prems" by linarith
    with False "1.IH" have "parse_uint_loop 10 mx s0 0 (FormatUint (n div 10)) = Ok (int (n div 10))" by simp
    moreover have "int (n div 10) * 10 + int (n mod 10) = int n"
      by (metis div_mult_mod_eq of_nat_add of_nat_mult of_nat_numeral)
    ultimately show ?thesis
      using False "1.prems" by (subst FormatUint.simps) (simp add: parse_uint_loop_append digit_val_dec_digit)
  qed
qed

lemma FormatUint_not_Nil [simp]: "FormatUint n \<noteq> []"
  by (subst FormatUint.simps) simp

lemma FormatUint_digits: "c \<in> set (FormatUint n) \<Longrightarrow> is_digit c"
proof (induction n rule: FormatUint.induct)
  case (1 n)
  show ?case
  proof (cases "n < 10")
    case True
    with "1.prems" show ?thesis by (subst (asm) FormatUint.simps) (simp add: is_digit_def byte_dec_digit)
  next
    case False
    with "1.prems" "1.IH" show ?thesis
      by (subst (asm) FormatUint.simps) (auto simp: is_digit_def byte_dec_digit)
  qed
qed

lemma ParseUint_FormatUint: "n < 2 ^ bits \<Longrightarrow> ParseUint (FormatUint n) 10 bits = Ok (int n)"
proof -
  assume "n < 2 ^ bits"
  then have "int n < 2 ^ bits" by (metis of_nat_less_iff of_nat_numeral of_nat_power)
  then show ?thesis by (simp add: ParseUint_def parse_FormatUint)
qed

lemma ParseInt_FormatUint: "n < 2 ^ 63 \<Longrightarrow> ParseInt (FormatUint n) 10 64 = Ok (int n)"
proof -
  assume n: "n < 2 ^ 63"
  have d: "is_digit (hd (FormatUint n))" by (rule FormatUint_digits [of _ n]) simp
  then have "hd (FormatUint n) \<noteq> CHR ''-''" "hd (FormatUint n) \<noteq> CHR ''+''" by (auto simp: is_digit_def byte_def)
  moreover have "ParseUint (FormatUint n) 10 64 = Ok (int n)" using n by (intro ParseUint_FormatUint) simp
  moreover have "int n < 2 ^ 63" using n by (metis of_nat_less_iff of_nat_numeral of_nat_power)
  ultimately show ?thesis by (simp add: ParseInt_def Let_def)
qed

lemma Atoi_FormatUint: "n < 2 ^ 63 \<Longrightarrow> Atoi (FormatUint n) = Ok (int n)"
  by (simp add: Atoi_def ParseInt_FormatUint)

lemma FormatUint_inj: "FormatUint m = FormatUint n \<longleftrightarrow> m = n"
proof
  assume eq: "FormatUint m = FormatUint n"
  have "m < 2 ^ (m + n)" "n < 2 ^ (m + n)"
    by (rule less_le_trans [OF less_exp], simp)+
  then have "ParseUint (FormatUint m) 10 (m + n) = Ok (int m)" "ParseUint (FormatUint n) 10 (m + n) = Ok (int n)"
    using ParseUint_FormatUint by blast+
  with eq show "m = n" by (metis of_nat_eq_iff res.inject(1))
qed simp

lemma Itoa_inj: "Itoa i = Itoa j \<longleftrightarrow> i = j"
proof
  assume eq: "Itoa i = Itoa j"
  have digit: "is_digit (hd (FormatUint n))" for n
    by (rule FormatUint_digits [of _ n]) (simp add: hd_in_set)
  have minus: "CHR ''-'' # s \<noteq> FormatUint n" for s n
  proof
    assume "CHR ''-'' # s = FormatUint n"
    then have "is_digit (CHR ''-'')" using digit [of n] by (metis list.sel(1))
    then show False by (simp add: is_digit_def byte_def)
  qed
  show "i = j" using eq minus minus [symmetric] by (auto simp: Itoa_def FormatUint_inj split: if_splits)
qed simp

lemma mant_loop_digits:
  "list_all is_digit xs \<Longrightarrow> mant_loop False False saw m k (xs @ ys) =
     mant_loop False False (saw \<or> xs \<noteq> []) (fold (\<lambda>c n. n * 10 + (int (byte c) - 48)) xs m) k ys"
proof (induction xs arbitrary: saw m)
  case (Cons c xs)
  then have "is_digit c" by simp
  then have "c \<noteq> CHR ''_''" "c \<noteq> CHR ''.''" "digit_val c = Some (int (byte c) - 48)" by (auto simp: is_digit_def byte_def digit_val_def)
  then show ?case using Cons by simp
qed simp

lemma fold_FormatUint: "fold (\<lambda>c m. m * 10 + (int (byte c) - 48)) (FormatUint n) 0 = int n"
proof (induction n rule: FormatUint.induct)
  case (1 n)
  show ?case
  proof (cases "n < 10")
    case True
    then show ?thesis by (subst FormatUint.simps) (simp add: byte_dec_digit)
  next
    case False
    have "int (n div 10) * 10 + int (n mod 10) = int n"
      by (metis div_mult_mod_eq of_nat_add of_nat_mult of_nat_numeral)
    then show ?thesis using False 1 by (subst FormatUint.simps) (simp add: byte_dec_digit)
  qed
qed

text \<open>Reading a decimal number as a \<^verbatim>\<open>float64\<close> gives the float nearest to it, like converting the integer.\<close>

lemma ParseFloat_FormatUint:
  assumes "n < 2 ^ 64"
  shows "ParseFloat (FormatUint n) = Ok (f64_of_nat n)"
proof -
  obtain c cs where s: "FormatUint n = c # cs" by (cases "FormatUint n") auto
  have digs: "list_all is_digit (FormatUint n)" using FormatUint_digits by (auto simp: list_all_iff)
  have c: "is_digit c" "lower c = c" "c \<notin> {CHR ''n'', CHR ''i'', CHR ''+'', CHR ''-''}"
    using digs by (auto simp: s is_digit_def lower_def byte_def)
  have sp: "special_float (FormatUint n) = None" using c by (auto simp: special_float_def s strip_sign_def)
  have st: "strip_sign (FormatUint n) = FormatUint n" "(hd (FormatUint n) = CHR ''-'') = False" using c by (simp_all add: s strip_sign_def)
  have hex: "(2 < length (FormatUint n) \<and> FormatUint n ! 0 = CHR ''0'' \<and> lower (FormatUint n ! 1) = CHR ''x'') = False"
  proof -
    have "lower (FormatUint n ! 1) \<noteq> CHR ''x''" if "2 < length (FormatUint n)"
    proof -
      have "is_digit (FormatUint n ! 1)" using digs that by (auto simp: list_all_iff)
      then show ?thesis by (auto simp: is_digit_def lower_def byte_def)
    qed
    then show ?thesis by blast
  qed
  have m: "mant_loop False False False 0 0 (FormatUint n) = (True, int n, 0, [])"
    using mant_loop_digits [OF digs, of False 0 0 "[]"] by (simp add: fold_FormatUint)
  have u: "(CHR ''_'' \<in> set (FormatUint n)) = False" using digs by (auto simp: list_all_iff is_digit_def byte_def)
  have v: "float_value False False (int n) 0 0 = f64_of_nat n"
    by (simp add: float_value_def scale_pow_def f64_zero_def f64_of_nat_def f64_of_int_def Let_def)
  obtain r where r: "f64_of_nat n = Fin r" using f64_of_nat_fin [OF assms] by blast
  show ?thesis
    unfolding ParseFloat_def Let_def sp st hex option.case simp_thms if_False m prod.case read_exp_def list.case u v r float64.case ..
qed

lemma trim_left_space_digit: "is_digit c \<Longrightarrow> trim_left_space (c # cs) = c # cs"
  by (cases cs; cases "tl cs") (auto simp: is_digit_def ascii_space_def space2_def space3_def)

lemma trim_rev_space_digit: "is_digit c \<Longrightarrow> trim_rev_space (c # cs) = c # cs"
  by (cases cs; cases "tl cs") (auto simp: is_digit_def ascii_space_def space2_def space3_def)

lemma trim_rev_space_ascii: "ascii_space c \<Longrightarrow> trim_rev_space (c # cs) = trim_rev_space cs"
  by (cases cs; cases "tl cs") auto

lemma TrimSpace_digits_nl:
  assumes "s \<noteq> []" "\<And>c. c \<in> set s \<Longrightarrow> is_digit c"
  shows "TrimSpace (s @ [nl]) = s"
proof -
  obtain c cs where s: "s = c # cs" using assms(1) by (cases s) auto
  obtain d ds where r: "rev s = d # ds" using assms(1) by (cases "rev s") auto
  have "d \<in> set s" using r by (metis list.set_intros(1) set_rev)
  then have "is_digit c" "is_digit d" using assms(2) s by auto
  then have "trim_left_space (s @ [nl]) = s @ [nl]" "trim_rev_space (nl # rev s) = rev s"
    using trim_left_space_digit [of c "cs @ [nl]"] trim_rev_space_digit [of d ds]
      trim_rev_space_ascii [of nl "rev s"] s r
    by (simp_all add: ascii_space_def nl_def byte_def del: trim_left_space.simps trim_rev_space.simps)
  then show ?thesis by (simp add: TrimSpace_def)
qed

lemma readUintFromFile_no_panic: "\<not> panics (rd f) \<Longrightarrow> \<not> panics (readUintFromFile rd f)"
  by (auto simp: readUintFromFile_def panics_bind_res ParseUint_no_panic)

lemma readUintFromFile_printed:
  assumes "n < 2 ^ 64" "readFile path = Ok (FormatUint n @ [nl])"
  shows "readUintFromFile readFile path = Ok (int n)"
  using assms TrimSpace_digits_nl [of "FormatUint n"] FormatUint_digits ParseUint_FormatUint [OF assms(1)]
  by (simp add: readUintFromFile_def)

text \<open>A negative number is not one for the reader of unsigned numbers.\<close>

lemma readUintFromFile_negative:
  assumes "readFile path = Ok (CHR ''-'' # FormatUint n @ [nl])"
  shows "readUintFromFile readFile path = Err (ErrSyntax (CHR ''-'' # FormatUint n))"
proof -
  obtain d ds where r: "rev (FormatUint n) = d # ds" by (cases "rev (FormatUint n)") auto
  then have "is_digit d" using FormatUint_digits by (metis list.set_intros(1) set_rev)
  then have "trim_rev_space (nl # rev (FormatUint n) @ ''-'') = rev (FormatUint n) @ ''-''"
    using trim_rev_space_digit [of d "ds @ ''-''"] trim_rev_space_ascii [of nl "rev (FormatUint n) @ ''-''"] r
    by (simp add: ascii_space_def nl_def byte_def del: trim_rev_space.simps)
  moreover have "trim_left_space (CHR ''-'' # s) = CHR ''-'' # s" for s
    by (cases s; cases "tl s") (auto simp: ascii_space_def space2_def space3_def byte_def)
  ultimately have "TrimSpace (CHR ''-'' # FormatUint n @ [nl]) = CHR ''-'' # FormatUint n" by (simp add: TrimSpace_def)
  then show ?thesis using assms by (simp add: readUintFromFile_def ParseUint_def digit_val_def byte_def lower_def is_digit_def)
qed


lemma f64_add_nat:
  assumes "a + b \<le> 2 ^ 53"
  shows "f64_add (Fin (of_nat a)) (Fin (of_nat b)) = Fin (of_nat (a + b))"
  using f64_of_int_exact [of "int (a + b)"] assms by (simp add: f64_of_int_def)

text \<open>\<^verbatim>\<open>m[k]++\<close> on a map of floats counts exactly up to \<open>2 ^ 53\<close>.\<close>

definition float_incr :: "'k \<Rightarrow> ('k, float64) gomap \<Rightarrow> ('k, float64) gomap" where
  "float_incr k m = map_put k (f64_add (map_get_z (Fin 0) m k) (Fin 1)) m"

lemma float_incr_get: "map_get (float_incr k m) = (map_get m)(k \<mapsto> f64_add (map_get_z (Fin 0) m k) (Fin 1))"
  by (simp add: float_incr_def)

lemma fold_float_incr:
  assumes "\<And>k. map_get_z (Fin 0) m k = Fin (of_nat (g k))" "\<And>k. g k + length ks \<le> 2 ^ 53"
  shows "map_get_z (Fin 0) (fold float_incr ks m) k = Fin (of_nat (g k + count_list ks k))"
  using assms
proof (induction ks arbitrary: m g)
  case (Cons x ks)
  have one: "f64_add (Fin (of_nat (g x))) (Fin 1) = Fin (of_nat (g x + 1))"
    using f64_add_nat [of "g x" 1] Cons.prems(2) [of x] by simp
  have "map_get_z (Fin 0) (float_incr x m) k = Fin (of_nat ((g(x := g x + 1)) k))" for k
    using Cons.prems(1) [of x] Cons.prems(1) [of k] one by (simp add: map_get_z_def float_incr_get)
  moreover have "(g(x := g x + 1)) k + length ks \<le> 2 ^ 53" for k using Cons.prems(2) [of k] Cons.prems(2) [of x] by auto
  ultimately have "map_get_z (Fin 0) (fold float_incr ks (float_incr x m)) k = Fin (of_nat ((g(x := g x + 1)) k + count_list ks k))"
    by (rule Cons.IH)
  then show ?case by simp
qed simp

lemma fold_float_incr_dom: "dom (map_get (fold float_incr ks m)) = set ks \<union> dom (map_get m)"
  by (induction ks arbitrary: m) (auto simp: float_incr_get)

lemma wf_fold_float_incr: "wf_map m \<Longrightarrow> wf_map (fold float_incr ks m)"
  by (induction ks arbitrary: m) (simp_all add: float_incr_def)

section \<open>Names of metrics\<close>

definition compiled :: "string \<Rightarrow> regexp" where
  "compiled p = (case MustCompile p of Ok r \<Rightarrow> r | _ \<Rightarrow> REmpty)"

definition metricNameRegex :: regexp where
  "metricNameRegex = compiled ''_*[^0-9A-Za-z_]+_*''"

definition SanitizeMetricName :: "string \<Rightarrow> string" where
  "SanitizeMetricName metricName = ReplaceAllString metricNameRegex metricName (\<lambda>_. ''_'')"

text \<open>
  \<^verbatim>\<open>strings.ToLower\<close> on a rune. Two runes outside ASCII have an ASCII lower case, the Kelvin sign and
  the dotted capital I; the lower case of every other one is again outside ASCII, and the pattern
  below replaces it like the rune itself.
\<close>

definition lower_rune :: "string \<Rightarrow> string" where
  "lower_rune x =
     (if x = [CHR 0xE2, CHR 0x84, CHR 0xAA] then ''k''
      else if x = [CHR 0xC4, CHR 0xB0] then ''i''
      else map lower x)"

definition hwmonInvalidMetricChars :: regexp where
  "hwmonInvalidMetricChars = compiled ''[^a-z0-9:_]''"

definition cleanMetricName :: "string \<Rightarrow> string" where
  "cleanMetricName name =
     (let lowered = concat (map lower_rune (runes name));
          replaced = ReplaceAllString hwmonInvalidMetricChars lowered (\<lambda>_. ''_'')
      in Trim replaced {CHR ''_''})"

section \<open>Values and labels\<close>

definition SafeDereference :: "'a \<Rightarrow> 'a option list \<Rightarrow> 'a list" where
  "SafeDereference zeroValue s = map (\<lambda>v. case v of Some x \<Rightarrow> x | None \<Rightarrow> zeroValue) s"

definition SafeBytesToString :: "string \<Rightarrow> string" where
  "SafeBytesToString b =
     (let s = (case Cut b [CHR 0x00] of None \<Rightarrow> b | Some (before, _) \<Rightarrow> before)
      in ToValidUTF8 s rune_error)"

section \<open>Paths\<close>

record paths =
  procPath :: string
  sysPath :: string
  rootfsPath :: string
  udevDataPath :: string

definition procFilePath :: "paths \<Rightarrow> string \<Rightarrow> string" where
  "procFilePath p name = filepath_Join [procPath p, name]"

definition sysFilePath :: "paths \<Rightarrow> string \<Rightarrow> string" where
  "sysFilePath p name = filepath_Join [sysPath p, name]"

definition rootfsFilePath :: "paths \<Rightarrow> string \<Rightarrow> string" where
  "rootfsFilePath p name = filepath_Join [rootfsPath p, name]"

definition udevDataFilePath :: "paths \<Rightarrow> string \<Rightarrow> string" where
  "udevDataFilePath p name = filepath_Join [udevDataPath p, name]"

definition rootfsStripPrefix :: "paths \<Rightarrow> string \<Rightarrow> string" where
  "rootfsStripPrefix p path =
     (if rootfsPath p = ''/'' then path
      else let stripped = TrimPrefix path (rootfsPath p)
           in if stripped = [] then ''/'' else stripped)"

definition default_paths :: paths where
  "default_paths = \<lparr>procPath = ''/proc'', sysPath = ''/sys'', rootfsPath = ''/'', udevDataPath = ''/run/udev/data''\<rparr>"

section \<open>Device filters\<close>

record deviceFilter =
  ignorePattern :: "regexp option"
  acceptPattern :: "regexp option"

definition pattern_opt :: "string \<Rightarrow> regexp option res" where
  "pattern_opt p = (if p \<noteq> [] then bind_res (MustCompile p) (\<lambda>r. Ok (Some r)) else Ok None)"

definition newDeviceFilter :: "string \<Rightarrow> string \<Rightarrow> deviceFilter res" where
  "newDeviceFilter ignoredP acceptP =
     bind_res (pattern_opt ignoredP) (\<lambda>i.
     bind_res (pattern_opt acceptP) (\<lambda>a.
     Ok \<lparr>ignorePattern = i, acceptPattern = a\<rparr>))"

definition ignored :: "deviceFilter \<Rightarrow> string \<Rightarrow> bool" where
  "ignored f name \<longleftrightarrow>
     (case ignorePattern f of None \<Rightarrow> False | Some r \<Rightarrow> MatchString r name) \<or>
     (case acceptPattern f of None \<Rightarrow> False | Some r \<Rightarrow> \<not> MatchString r name)"

text \<open>The meaning of a pattern flag: the declarative match of the pattern it compiles to.\<close>

definition pattern_matches :: "string \<Rightarrow> string \<Rightarrow> bool" where
  "pattern_matches p name \<longleftrightarrow> (case Compile p of Ok r \<Rightarrow> matches r name | _ \<Rightarrow> False)"

text \<open>
  The interface of a device filter, as the collectors that list devices use it: a filter is built
  from an exclude and an include pattern, and its verdict is that of the patterns.
\<close>

locale device_filtering =
  fixes mk :: "string \<Rightarrow> string \<Rightarrow> 'f res"
    and skip :: "'f \<Rightarrow> string \<Rightarrow> bool"
    and pat :: "string \<Rightarrow> string \<Rightarrow> bool"
  assumes skip_iff: "mk excl incl = Ok f \<Longrightarrow>
      skip f name \<longleftrightarrow> (excl \<noteq> [] \<and> pat excl name) \<or> (incl \<noteq> [] \<and> \<not> pat incl name)"
    and mk_no_err: "mk excl incl \<noteq> Err e"
begin

lemma skip_none: "mk [] [] = Ok f \<Longrightarrow> \<not> skip f name"
  using skip_iff by blast

lemma skip_include_only: "mk [] incl = Ok f \<Longrightarrow> incl \<noteq> [] \<Longrightarrow> skip f name \<longleftrightarrow> \<not> pat incl name"
  using skip_iff by blast

text \<open>Filtering a list of devices keeps those that neither pattern rules out, in order.\<close>

lemma kept_devices:
  "mk excl incl = Ok f \<Longrightarrow>
     filter (\<lambda>d. \<not> skip f (nm d)) ds =
       filter (\<lambda>d. (excl = [] \<or> \<not> pat excl (nm d)) \<and> (incl = [] \<or> pat incl (nm d))) ds"
  by (rule filter_cong) (auto simp: skip_iff)

end

lemma pattern_opt_Ok:
  "pattern_opt p = Ok x \<longleftrightarrow> (p = [] \<and> x = None) \<or> (p \<noteq> [] \<and> (\<exists>r. Compile p = Ok r \<and> x = Some r))"
  by (auto simp: pattern_opt_def MustCompile_def split: res.splits)

lemma newDeviceFilter_ignored:
  "newDeviceFilter excl incl = Ok f \<Longrightarrow>
     ignored f name \<longleftrightarrow> (excl \<noteq> [] \<and> pattern_matches excl name) \<or> (incl \<noteq> [] \<and> \<not> pattern_matches incl name)"
  by (auto simp: newDeviceFilter_def ignored_def pattern_matches_def pattern_opt_Ok
      MatchString_iff_matches go_simps)

lemma newDeviceFilter_no_err: "newDeviceFilter excl incl \<noteq> Err e"
  by (auto simp: newDeviceFilter_def pattern_opt_def MustCompile_def split: res.splits)

interpretation dev: device_filtering newDeviceFilter ignored pattern_matches
  by unfold_locales (simp_all add: newDeviceFilter_ignored newDeviceFilter_no_err)

section \<open>What replacement leaves behind\<close>

text \<open>The runes a search passes over are runes the pattern cannot start at.\<close>

lemma search_skips:
  assumes "\<And>y ys. \<not> good y \<Longrightarrow> rms n r (y # ys) [] \<noteq> []"
  shows "search n r s = None \<Longrightarrow> list_all good s"
    and "search n r s = Some (u, v, g) \<Longrightarrow>
      \<exists>pre. s = pre @ u \<and> list_all good pre \<and> (v, g) \<in> set (rms n r u [])"
proof (induction s)
  case (Cons y ys)
  {
    case 1
    then show ?case using Cons.IH(1) assms [of y ys] by (auto split: list.splits)
  next
    case 2
    show ?case
    proof (cases "rms n r (y # ys) []")
      case Nil
      with 2 Cons.IH(2) obtain pre where "ys = pre @ u" "list_all good pre" "(v, g) \<in> set (rms n r u [])"
        by auto
      moreover have "good y" using assms Nil by blast
      ultimately show ?thesis by (intro exI [of _ "y # pre"]) simp
    next
      case (Cons x xs)
      with 2 show ?thesis by (intro exI [of _ "[]"]) auto
    qed
  }
qed (auto split: list.splits)

text \<open>
  A pattern that starts at every rune that is not good and never matches the empty string, replaced
  by a constant, leaves good runes and the replacement.
\<close>

lemma replace_loop_pieces:
  assumes start: "\<And>y ys. \<not> good y \<Longrightarrow> rms n r (y # ys) [] \<noteq> []"
    and eats: "\<And>u v g. (v, g) \<in> set (rms n r u []) \<Longrightarrow> length v < length u"
  shows "\<exists>xs. replace_loop n r (\<lambda>_. rep) s = concat xs \<and> (\<forall>x \<in> set xs. good x \<or> x = rep)"
proof (induction s rule: length_induct)
  case (1 s)
  show ?case
  proof (cases "search n r s")
    case None
    then have "replace_loop n r (\<lambda>_. rep) s = concat s" by (subst replace_loop.simps) simp
    moreover have "list_all good s" using search_skips(1) [OF start None] .
    ultimately show ?thesis by (metis list_all_iff)
  next
    case (Some x)
    obtain u v g where x: "x = (u, v, g)" by (cases x)
    from search_skips(2) [OF start Some [unfolded x]] obtain pre where
      pre: "s = pre @ u" "list_all good pre" "(v, g) \<in> set (rms n r u [])" by blast
    have vu: "length v < length u" using eats pre(3) .
    with 1 pre(1) obtain xs where
      xs: "replace_loop n r (\<lambda>_. rep) v = concat xs" "\<forall>x \<in> set xs. good x \<or> x = rep" by force
    have "replace_loop n r (\<lambda>_. rep) s = concat (pre @ rep # xs)"
      using Some x vu pre(1) xs(1) by (subst replace_loop.simps) simp
    then show ?thesis using pre(2) xs(2)
      by (intro exI [of _ "pre @ rep # xs"]) (auto simp: list_all_iff)
  qed
qed

text \<open>Both patterns of the exporter are of that kind.\<close>

definition name_class :: "(char \<times> char) list" where
  "name_class = [(CHR ''0'', CHR ''9''), (CHR ''A'', CHR ''Z''), (CHR ''a'', CHR ''z''), (CHR ''_'', CHR ''_'')]"

definition hwmon_class :: "(char \<times> char) list" where
  "hwmon_class = [(CHR ''a'', CHR ''z''), (CHR ''0'', CHR ''9''), (CHR '':'', CHR '':''), (CHR ''_'', CHR ''_'')]"

lemma metricNameRegex_eq:
  "metricNameRegex =
     RSeq (RStar True (RLit ''_'')) (RSeq (rplus True (RClass True name_class)) (RStar True (RLit ''_'')))"
  unfolding metricNameRegex_def compiled_def by code_simp

lemma hwmonInvalidMetricChars_eq: "hwmonInvalidMetricChars = RClass True hwmon_class"
  unfolding hwmonInvalidMetricChars_def compiled_def by code_simp

inductive_cases re_match_seqE: "re_match n (RSeq a b) s t"
inductive_cases re_match_classE: "re_match n (RClass neg rs) s t"

lemma rms_nonempty_iff: "rms n r s g \<noteq> [] \<longleftrightarrow> (\<exists>t. re_match n r s t)"
  using rms_iff_re_match [of _ n r s g] by (metis all_not_in_conv prod.exhaust set_empty)

lemma metricNameRegex_starts: "\<not> in_ranges y name_class \<Longrightarrow> rms n metricNameRegex (y # ys) [] \<noteq> []"
  unfolding rms_nonempty_iff metricNameRegex_eq rplus_def
  by (intro exI [of _ ys] m_seq [OF m_star0] m_seq [OF m_seq [OF m_class m_star0] m_star0]) simp

lemma metricNameRegex_eats: "(v, g) \<in> set (rms n metricNameRegex u []) \<Longrightarrow> length v < length u"
  by (auto simp: metricNameRegex_eq rplus_def dest!: rms_sound elim!: re_match_seqE re_match_classE
      dest!: re_match_length)

lemma hwmon_starts: "\<not> in_ranges y hwmon_class \<Longrightarrow> rms n hwmonInvalidMetricChars (y # ys) [] \<noteq> []"
  by (simp add: hwmonInvalidMetricChars_eq)

lemma hwmon_eats: "(v, g) \<in> set (rms n hwmonInvalidMetricChars u []) \<Longrightarrow> length v < length u"
  by (auto simp: hwmonInvalidMetricChars_eq split: list.splits if_splits)

lemma in_ranges_chars: "in_ranges x rs \<Longrightarrow> \<exists>c. x = [c] \<and> (\<exists>(lo, hi) \<in> set rs. byte lo \<le> byte c \<and> byte c \<le> byte hi)"
  by (auto simp: in_ranges_def list_ex_iff split: list.splits)

lemma ReplaceAllString_charset:
  assumes "\<And>n y ys. \<not> in_ranges y cls \<Longrightarrow> rms n r (y # ys) [] \<noteq> []"
    and "\<And>n u v g. (v, g) \<in> set (rms n r u []) \<Longrightarrow> length v < length u"
    and "in_ranges [x] cls"
  shows "\<forall>c \<in> set (ReplaceAllString r s (\<lambda>_. [x])). in_ranges [c] cls"
proof -
  have "\<exists>xs. replace_loop (length (runes s)) r (\<lambda>_. [x]) (runes s) = concat xs \<and>
      (\<forall>y \<in> set xs. in_ranges y cls \<or> y = [x])"
    by (rule replace_loop_pieces) (fact assms(1), fact assms(2))
  then obtain xs where "ReplaceAllString r s (\<lambda>_. [x]) = concat xs" "\<forall>y \<in> set xs. in_ranges y cls \<or> y = [x]"
    by (auto simp: ReplaceAllString_def Let_def)
  then show ?thesis using assms(3) in_ranges_chars by fastforce
qed


lemma dropWhile_head: "dropWhile P xs = x # ys \<Longrightarrow> \<not> P x"
  by (metis dropWhile_eq_Cons_conv)

lemma Trim_subset: "c \<in> set (Trim s cs) \<Longrightarrow> c \<in> set s"
  by (auto simp: Trim_def TrimRight_def TrimLeft_def dest!: set_dropWhileD)

lemma Trim_last: "Trim s cs = t @ [c] \<Longrightarrow> c \<notin> cs"
  unfolding Trim_def TrimRight_def by (metis dropWhile_head rev_eq_Cons_iff rev_rev_ident)

lemma Trim_hd: "Trim s cs = c # t \<Longrightarrow> c \<notin> cs"
proof -
  assume a: "Trim s cs = c # t"
  obtain zs where "TrimLeft s cs = Trim s cs @ zs"
    unfolding Trim_def TrimRight_def
    by (metis rev_append rev_rev_ident takeWhile_dropWhile_id)
  with a show ?thesis unfolding TrimLeft_def by (metis append_Cons dropWhile_head)
qed


section \<open>Valid UTF-8\<close>

lemma rune_width_prefix:
  "rune_width s \<noteq> 0 \<Longrightarrow> rune_width (take (rune_width s) s @ t) = rune_width s"
  by (cases s rule: rune_width.cases) (auto split: list.splits if_splits)

lemma valid_utf8_rune:
  assumes "rune_width (c # cs) \<noteq> 0" "valid_utf8 t"
  shows "valid_utf8 ((c # take (rune_width (c # cs) - 1) cs) @ t)"
proof -
  let ?w = "rune_width (c # cs)"
  have "take ?w (c # cs) = c # take (?w - 1) cs" using assms(1) by (cases ?w) auto
  then have w: "rune_width (c # take (?w - 1) cs @ t) = ?w"
    using rune_width_prefix [OF assms(1), of t] by simp
  have "?w - 1 \<le> length cs" by (cases cs) (auto split: list.splits if_splits)
  then show ?thesis using w assms by (simp add: Let_def)
qed

lemma to_valid_go_valid: "valid_utf8 rep \<Longrightarrow> (\<And>t. valid_utf8 t \<Longrightarrow> valid_utf8 (rep @ t)) \<Longrightarrow> valid_utf8 (to_valid_go bad rep s)"
proof (induction bad rep s rule: to_valid_go.induct)
  case (2 bad rep c cs)
  show ?case
  proof (cases "rune_width (c # cs) = 0")
    case True
    then show ?thesis using 2 by (simp add: Let_def)
  next
    case False
    then have "valid_utf8 (to_valid_go False rep (drop (rune_width (c # cs) - 1) cs))" using 2 by simp
    from valid_utf8_rune [OF False this] False show ?thesis
      by (simp only: to_valid_go.simps Let_def if_False)
  qed
qed simp

lemma valid_rune_error: "valid_utf8 t \<Longrightarrow> valid_utf8 (rune_error @ t)"
  by (simp add: rune_error_def rune2_def rune3_def byte_def cont_byte_def)

lemma to_valid_go_set: "set (to_valid_go bad rep s) \<subseteq> set s \<union> set rep"
proof (induction bad rep s rule: to_valid_go.induct)
  case (2 bad rep c cs)
  then show ?case
    using set_drop_subset [of "rune_width (c # cs) - 1" cs] set_take_subset [of "rune_width (c # cs) - 1" cs]
    by (cases "rune_width (c # cs) = 0") (auto simp: Let_def simp del: rune_width.simps)
qed simp

lemma Cut_char: "Cut s [c] = None \<Longrightarrow> c \<notin> set s" "Cut s [c] = Some (a, b) \<Longrightarrow> c \<notin> set a"
  by (induction s arbitrary: a b) (auto split: if_splits option.splits)

text \<open>On valid text nothing is replaced.\<close>

lemma to_valid_go_id: "valid_utf8 s \<Longrightarrow> to_valid_go bad rep s = s"
  by (induction bad rep s rule: to_valid_go.induct) (auto simp: Let_def)

section \<open>Properties\<close>

text \<open>
  C27: \<^verbatim>\<open>readUintFromFile\<close> reads back every 64-bit number the kernel prints, with its final newline.
\<close>

theorem readUintFromFile_roundtrip:
  assumes "n < 2 ^ 64" "readFile path = Ok (FormatUint n @ [nl])"
  shows "readUintFromFile readFile path = Ok (int n)"
  using assms by (rule readUintFromFile_printed)

theorem readUintFromFile_roundtrip_witness:
  "readUintFromFile (\<lambda>_. Ok (FormatUint 42 @ [nl])) ''/sys/x'' = Ok (int 42)"
  by (rule readUintFromFile_roundtrip) simp_all

text \<open>
  C36: What \<^verbatim>\<open>SanitizeMetricName\<close> returns consists of ASCII letters, digits and underscores only,
  whatever bytes it is given.
\<close>

theorem SanitizeMetricName_charset:
  "list_all (\<lambda>c. in_ranges [c] name_class) (SanitizeMetricName s)"
  unfolding SanitizeMetricName_def list_all_iff
  by (rule ReplaceAllString_charset [OF metricNameRegex_starts metricNameRegex_eats])
    (simp_all add: in_ranges_def name_class_def byte_def)

text \<open>
  C??: What \<^verbatim>\<open>cleanMetricName\<close> returns consists of lower-case ASCII letters, digits, colons and
  underscores, and neither starts nor ends with an underscore.
\<close>

theorem cleanMetricName_charset:
  "list_all (\<lambda>c. in_ranges [c] hwmon_class) (cleanMetricName s) \<and>
   (\<nexists>t. cleanMetricName s = CHR ''_'' # t) \<and> (\<nexists>t. cleanMetricName s = t @ ''_'')"
proof -
  define rep where "rep = ReplaceAllString hwmonInvalidMetricChars (concat (map lower_rune (runes s))) (\<lambda>_. ''_'')"
  have rep: "\<forall>c \<in> set rep. in_ranges [c] hwmon_class"
    unfolding rep_def by (rule ReplaceAllString_charset [OF hwmon_starts hwmon_eats])
      (simp_all add: in_ranges_def hwmon_class_def byte_def)
  have eq: "cleanMetricName s = Trim rep {CHR ''_''}" by (simp add: cleanMetricName_def rep_def Let_def)
  show ?thesis unfolding eq list_all_iff using rep by (intro conjI) (auto dest: Trim_subset Trim_hd Trim_last)
qed

text \<open>
  C40: A label value made by \<^verbatim>\<open>SafeBytesToString\<close> is valid UTF-8 without a null byte; bytes that
  already are such a string are kept as they are.
\<close>

theorem SafeBytesToString_safe:
  "valid_utf8 (SafeBytesToString b) \<and> CHR 0x00 \<notin> set (SafeBytesToString b) \<and>
   (valid_utf8 b \<and> CHR 0x00 \<notin> set b \<longrightarrow> SafeBytesToString b = b)"
proof -
  define s where "s = (case Cut b [CHR 0x00] of None \<Rightarrow> b | Some (before, _) \<Rightarrow> before)"
  have s: "CHR 0x00 \<notin> set s" using Cut_char [of b "CHR 0x00"] by (auto simp: s_def split: option.splits)
  have eq: "SafeBytesToString b = to_valid_go False rune_error s"
    by (simp add: SafeBytesToString_def s_def ToValidUTF8_def)
  have "valid_utf8 (to_valid_go False rune_error s)"
    using valid_rune_error [of "[]"] valid_rune_error by (intro to_valid_go_valid) simp_all
  moreover have "CHR 0x00 \<notin> set (to_valid_go False rune_error s)"
    using to_valid_go_set [of False rune_error s] s by (auto simp: rune_error_def)
  moreover have "SafeBytesToString b = b" if "valid_utf8 b" "CHR 0x00 \<notin> set b"
  proof -
    have "s = b" using that(2) Cut_Some_append [of b "[CHR 0x00]"] by (auto simp: s_def split: option.splits)
    then show ?thesis using eq to_valid_go_id [OF that(1)] by simp
  qed
  ultimately show ?thesis using eq by metis
qed

theorem SafeBytesToString_safe_witness:
  "SafeBytesToString ''eth0'' = ''eth0''"
  using SafeBytesToString_safe [of "''eth0''"] by (simp add: byte_def)

end
