(* ===== verification/Cpu.thy ===== *)
theory Cpu
  imports Registry Helpers
begin

text \<open>
  The CPU collector: \<^verbatim>\<open>cpu_common.go\<close> and \<^verbatim>\<open>cpu_linux.go\<close>. Its state is the cache of per-CPU counters
  that keeps them from running backwards. What procfs and sysfs return is data of the environment
  \<open>cpuEnv\<close>; the orders in which the runtime iterates maps are there too.
\<close>

section \<open>Data and descriptors\<close>

record CPUStat =
  User :: float64
  Nice :: float64
  System :: float64
  Idle :: float64
  Iowait :: float64
  IRQ :: float64
  SoftIRQ :: float64
  Steal :: float64
  Guest :: float64
  GuestNice :: float64

definition zeroCPUStat :: CPUStat where
  "zeroCPUStat = \<lparr>User = Fin 0, Nice = Fin 0, System = Fin 0, Idle = Fin 0, Iowait = Fin 0, IRQ = Fin 0,
     SoftIRQ = Fin 0, Steal = Fin 0, Guest = Fin 0, GuestNice = Fin 0\<rparr>"

record CPUInfo =
  PhysicalID :: string
  CoreID :: string
  Processor :: uint64
  VendorID :: string
  CPUFamily :: string
  Model :: string
  ModelName :: string
  Microcode :: string
  Stepping :: string
  CacheSize :: string
  CPUMHz :: float64
  Flags :: "string list"
  Bugs :: "string list"

record sysCPU =
  Number :: string
  Online :: "bool res"

record cpuFlags =
  enableCPUGuest :: bool
  enableCPUInfo :: bool
  flagsInclude :: string
  bugsInclude :: string
  useCPUFreqPrefix :: bool

record cpuCollector =
  cpuStats :: "(int, CPUStat) gomap"
  isolatedCpus :: "uint16 list option"
  cpuFlagsIncludeRegexp :: "regexp option"
  cpuBugsIncludeRegexp :: "regexp option"

record cpuEnv =
  procfs_NewFS :: "unit res"
  sysfs_NewFS :: "unit res"
  sysfs_IsolatedCPUs :: "uint16 list res"
  procfs_CPUInfo :: "CPUInfo list res"
  procfs_Stat_CPU :: "(int, CPUStat) gomap res"
  sysfs_CPUs :: "sysCPU list res"
  cpu_glob :: "string list res"
  cpu_readFile :: "string \<Rightarrow> string res"
  cpufreq_state :: "bool option"
  ord_stats :: "(int \<times> CPUStat) list \<Rightarrow> (int \<times> CPUStat) list"
  ord_packages :: "(int \<times> int) list \<Rightarrow> (int \<times> int) list"
  ord_cores :: "(int \<times> (int, int) gomap) list \<Rightarrow> (int \<times> (int, int) gomap) list"

definition jumpBackSeconds :: float64 where
  "jumpBackSeconds = Fin 3"

definition cpuCollectorSubsystem :: string where
  "cpuCollectorSubsystem = ''cpu''"

definition cpu_desc :: "string \<Rightarrow> string \<Rightarrow> string list \<Rightarrow> desc" where
  "cpu_desc name help labels = NewDesc (BuildFQName namespace cpuCollectorSubsystem name) help labels"

definition nodeCPUSecondsDesc :: desc where
  "nodeCPUSecondsDesc = cpu_desc ''seconds_total'' ''Seconds the CPUs spent in each mode.'' [''cpu'', ''mode'']"

definition cpuInfoDesc :: desc where
  "cpuInfoDesc = cpu_desc ''info'' ''CPU information from /proc/cpuinfo.''
     [''package'', ''core'', ''cpu'', ''vendor'', ''family'', ''model'', ''model_name'', ''microcode'', ''stepping'', ''cachesize'']"

definition cpuFrequencyHzDesc :: desc where
  "cpuFrequencyHzDesc = cpu_desc ''frequency_hertz'' ''CPU frequency in hertz from /proc/cpuinfo.''
     [''package'', ''core'', ''cpu'']"

definition cpuFlagsInfoDesc :: desc where
  "cpuFlagsInfoDesc = cpu_desc ''flag_info''
     ''The `flags` field of CPU information from /proc/cpuinfo taken from the first core.'' [''flag'']"

definition cpuBugsInfoDesc :: desc where
  "cpuBugsInfoDesc = cpu_desc ''bug_info''
     ''The `bugs` field of CPU information from /proc/cpuinfo taken from the first core.'' [''bug'']"

definition cpuGuestDesc :: desc where
  "cpuGuestDesc = cpu_desc ''guest_seconds_total'' ''Seconds the CPUs spent in guests (VMs) for each mode.'' [''cpu'', ''mode'']"

definition cpuCoreThrottleDesc :: desc where
  "cpuCoreThrottleDesc = cpu_desc ''core_throttles_total''
     ''Number of times this CPU core has been throttled.'' [''package'', ''core'']"

definition cpuPackageThrottleDesc :: desc where
  "cpuPackageThrottleDesc = cpu_desc ''package_throttles_total''
     ''Number of times this CPU package has been throttled.'' [''package'']"

definition cpuIsolatedDesc :: desc where
  "cpuIsolatedDesc = cpu_desc ''isolated''
     ''Whether each core is isolated, information from /sys/devices/system/cpu/isolated.'' [''cpu'']"

definition cpuOnlineDesc :: desc where
  "cpuOnlineDesc = cpu_desc ''online'' ''CPUs that are online and being scheduled.'' [''cpu'']"

lemmas cpu_desc_defs = cpu_desc_def nodeCPUSecondsDesc_def cpuInfoDesc_def cpuFrequencyHzDesc_def
  cpuFlagsInfoDesc_def cpuBugsInfoDesc_def cpuGuestDesc_def cpuCoreThrottleDesc_def
  cpuPackageThrottleDesc_def cpuIsolatedDesc_def cpuOnlineDesc_def

section \<open>Creation\<close>

text \<open>The flags are package state: giving an include pattern turns \<^verbatim>\<open>--collector.cpu.info\<close> on.\<close>

definition include_regexp :: "string \<Rightarrow> regexp option res" where
  "include_regexp p = (if p \<noteq> [] then bind_res (Compile p) (\<lambda>r. Ok (Some r)) else Ok None)"

definition compileIncludeFlags :: "cpuFlags \<Rightarrow> cpuCollector \<Rightarrow> cpuFlags \<times> cpuCollector res" where
  "compileIncludeFlags fl c =
     ((if (flagsInclude fl \<noteq> [] \<or> bugsInclude fl \<noteq> []) \<and> \<not> enableCPUInfo fl then fl\<lparr>enableCPUInfo := True\<rparr> else fl),
      bind_res (include_regexp (flagsInclude fl)) (\<lambda>f.
      bind_res (include_regexp (bugsInclude fl)) (\<lambda>b.
      Ok (c\<lparr>cpuFlagsIncludeRegexp := f, cpuBugsIncludeRegexp := b\<rparr>))))"

definition NewCPUCollector :: "cpuEnv \<Rightarrow> cpuFlags \<Rightarrow> cpuFlags \<times> cpuCollector res" where
  "NewCPUCollector env fl =
     (let base = bind_res (map_err (Wrapf ''failed to open procfs: %w'' []) (procfs_NewFS env)) (\<lambda>_.
            bind_res (map_err (Wrapf ''failed to open sysfs: %w'' []) (sysfs_NewFS env)) (\<lambda>_.
            case sysfs_IsolatedCPUs env of
              Ok isolcpus \<Rightarrow> Ok (Some isolcpus)
            | Panic p \<Rightarrow> Panic p
            | Err e \<Rightarrow> if os_IsNotExist e then Ok None
                       else Err (Wrapf ''unable to get isolated cpus: %w'' [] e)))
      in case base of
           Err e \<Rightarrow> (fl, Err e)
         | Panic p \<Rightarrow> (fl, Panic p)
         | Ok isolcpus \<Rightarrow>
             let (fl', r) = compileIncludeFlags fl \<lparr>cpuStats = [], isolatedCpus = isolcpus,
                   cpuFlagsIncludeRegexp = None, cpuBugsIncludeRegexp = None\<rparr>
             in (fl', map_err (Wrapf ''fail to compile --collector.cpu.info.flags-include and --collector.cpu.info.bugs-include, the values of them must be regular expressions: %w'' []) r))"

section \<open>The cache of counters\<close>

definition forward :: "float64 \<Rightarrow> float64 \<Rightarrow> float64" where
  "forward old new = (if f64_le old new then new else old)"

definition jumped_back :: "CPUStat \<Rightarrow> CPUStat \<Rightarrow> bool" where
  "jumped_back old n \<longleftrightarrow> f64_le jumpBackSeconds (f64_sub (Idle old) (Idle n))"

definition mergeCPUStat :: "CPUStat \<Rightarrow> CPUStat \<Rightarrow> CPUStat" where
  "mergeCPUStat cached n =
     (let s = (if jumped_back cached n then zeroCPUStat else cached)
      in \<lparr>User = forward (User s) (User n), Nice = forward (Nice s) (Nice n),
          System = forward (System s) (System n), Idle = forward (Idle s) (Idle n),
          Iowait = forward (Iowait s) (Iowait n), IRQ = forward (IRQ s) (IRQ n),
          SoftIRQ = forward (SoftIRQ s) (SoftIRQ n), Steal = forward (Steal s) (Steal n),
          Guest = forward (Guest s) (Guest n), GuestNice = forward (GuestNice s) (GuestNice n)\<rparr>)"

definition merge_all :: "(int, CPUStat) gomap \<Rightarrow> (int, CPUStat) gomap \<Rightarrow> (int, CPUStat) gomap" where
  "merge_all newStats cache =
     fold (\<lambda>(i, n) c. map_put i (mergeCPUStat (map_get_z zeroCPUStat c i) n) c) newStats cache"

definition updateCPUStats :: "(int, CPUStat) gomap \<Rightarrow> (int, CPUStat) gomap \<Rightarrow> (int, CPUStat) gomap" where
  "updateCPUStats newStats cache =
     (let cache' = merge_all newStats cache
      in if length newStats \<noteq> length cache'
         then filter (\<lambda>(key, _). key \<in> set (map fst newStats)) cache'
         else cache')"

section \<open>Update\<close>

definition stat_metrics :: "bool \<Rightarrow> int \<times> CPUStat \<Rightarrow> metric list" where
  "stat_metrics guest = (\<lambda>(cpuID, s).
     let cpuNum = Itoa cpuID;
         m = (\<lambda>v mode. MustNewConstMetric nodeCPUSecondsDesc CounterValue v [cpuNum, mode])
     in [m (User s) ''user'', m (Nice s) ''nice'', m (System s) ''system'', m (Idle s) ''idle'',
         m (Iowait s) ''iowait'', m (IRQ s) ''irq'', m (SoftIRQ s) ''softirq'', m (Steal s) ''steal''] @
        (if guest
         then [MustNewConstMetric cpuGuestDesc CounterValue (Guest s) [cpuNum, ''user''],
               MustNewConstMetric cpuGuestDesc CounterValue (GuestNice s) [cpuNum, ''nice'']]
         else []))"

definition updateStat :: "cpuEnv \<Rightarrow> cpuFlags \<Rightarrow> cpuCollector \<Rightarrow> cpuCollector \<times> upd" where
  "updateStat env fl c =
     (case procfs_Stat_CPU env of
        Err e \<Rightarrow> (c, fail e)
      | Panic p \<Rightarrow> (c, ([], Panic p))
      | Ok stats \<Rightarrow>
          let c' = c\<lparr>cpuStats := updateCPUStats stats (cpuStats c)\<rparr>
          in (c', emit (concat (map (stat_metrics (enableCPUGuest fl)) (ord_stats env (cpuStats c'))))))"

definition updateFieldInfo :: "string list \<Rightarrow> regexp option \<Rightarrow> desc \<Rightarrow> metric list" where
  "updateFieldInfo valueList filt d =
     (case filt of
        None \<Rightarrow> []
      | Some r \<Rightarrow> map (\<lambda>val. MustNewConstMetric d GaugeValue (Fin 1) [val]) (filter (MatchString r) valueList))"

definition updateInfo :: "cpuEnv \<Rightarrow> cpuFlags \<Rightarrow> cpuCollector \<Rightarrow> upd" where
  "updateInfo env fl c =
     with_res (procfs_CPUInfo env) (\<lambda>info.
       emit (map (\<lambda>cpu. MustNewConstMetric cpuInfoDesc GaugeValue (Fin 1)
                [PhysicalID cpu, CoreID cpu, Itoa (sint (Processor cpu)), VendorID cpu, CPUFamily cpu, Model cpu,
                 ModelName cpu, Microcode cpu, Stepping cpu, CacheSize cpu]) info @
             (case cpufreq_state env of
                None \<Rightarrow> []
              | Some cpuFreqEnabled \<Rightarrow>
                  if \<not> cpuFreqEnabled \<or> useCPUFreqPrefix fl
                  then map (\<lambda>cpu. MustNewConstMetric cpuFrequencyHzDesc GaugeValue (f64_mul (CPUMHz cpu) (Fin 1000000))
                         [PhysicalID cpu, CoreID cpu, Itoa (sint (Processor cpu))]) info
                  else []) @
             (case info of
                [] \<Rightarrow> []
              | cpu # _ \<Rightarrow> updateFieldInfo (Flags cpu) (cpuFlagsIncludeRegexp c) cpuFlagsInfoDesc @
                           updateFieldInfo (Bugs cpu) (cpuBugsIncludeRegexp c) cpuBugsInfoDesc)))"

definition updateIsolated :: "uint16 list \<Rightarrow> metric list" where
  "updateIsolated cpus = map (\<lambda>cpu. MustNewConstMetric cpuIsolatedDesc GaugeValue (Fin 1) [Itoa (uint cpu)]) cpus"

definition updateOnline :: "cpuEnv \<Rightarrow> upd" where
  "updateOnline env =
     with_res (sysfs_CPUs env) (\<lambda>cpus.
     with_res (idx cpus 0) (\<lambda>cpu0.
       if (case Online cpu0 of Err e \<Rightarrow> errors_Is e ErrNotExist | _ \<Rightarrow> False) then emit []
       else emit (map (\<lambda>cpu. MustNewConstMetric cpuOnlineDesc GaugeValue
                        (case Online cpu of Ok True \<Rightarrow> Fin 1 | _ \<Rightarrow> Fin 0) [Number cpu]) cpus)))"

text \<open>
  Thermal throttling: one pass over the CPU directories fills both maps, reading a package's or a
  core's count only as long as it is missing.
\<close>

type_synonym throttles = "(int, int) gomap \<times> (int, (int, int) gomap) gomap"

definition add_count :: "int res \<Rightarrow> int \<Rightarrow> (int, int) gomap \<Rightarrow> (int, int) gomap" where
  "add_count rd k m =
     (if map_get m k \<noteq> None then m else case rd of Ok v \<Rightarrow> map_put k v m | _ \<Rightarrow> m)"

definition throttle_step :: "(string \<Rightarrow> string res) \<Rightarrow> string \<Rightarrow> throttles \<Rightarrow> throttles" where
  "throttle_step readFile cpu = (\<lambda>(pt, pct).
     (case readUintFromFile readFile (filepath_Join [cpu, ''topology'', ''physical_package_id'']) of
        Ok pkg \<Rightarrow>
          (case readUintFromFile readFile (filepath_Join [cpu, ''topology'', ''core_id'']) of
             Ok core \<Rightarrow>
               let cores = map_get_z [] pct pkg;
                   cores' = add_count (readUintFromFile readFile (filepath_Join [cpu, ''thermal_throttle'', ''core_throttle_count''])) core cores
               in (add_count (readUintFromFile readFile (filepath_Join [cpu, ''thermal_throttle'', ''package_throttle_count''])) pkg pt,
                   map_put pkg cores' pct)
           | _ \<Rightarrow> (pt, pct))
      | _ \<Rightarrow> (pt, pct)))"

definition updateThermalThrottle :: "cpuEnv \<Rightarrow> upd" where
  "updateThermalThrottle env =
     with_res (cpu_glob env) (\<lambda>cpus.
       let (pt, pct) = fold (throttle_step (cpu_readFile env)) cpus ([], [])
       in emit (map (\<lambda>(pkg, n). MustNewConstMetric cpuPackageThrottleDesc CounterValue (f64_of_int n)
                   [FormatUint (nat pkg)]) (ord_packages env pt) @
                concat (map (\<lambda>(pkg, cores).
                   map (\<lambda>(core, n). MustNewConstMetric cpuCoreThrottleDesc CounterValue (f64_of_int n)
                       [FormatUint (nat pkg), FormatUint (nat core)]) (ord_packages env cores)) (ord_cores env pct))))"

definition cpu_Update :: "cpuEnv \<Rightarrow> cpuFlags \<Rightarrow> cpuCollector \<Rightarrow> cpuCollector \<times> upd" where
  "cpu_Update env fl c =
     (let info = (if enableCPUInfo fl then updateInfo env fl c else emit []);
          st = (case snd info of Ok _ \<Rightarrow> updateStat env fl c | _ \<Rightarrow> (c, emit []))
      in (fst st,
          seq info (seq (snd st) (seq (emit (case isolatedCpus c of None \<Rightarrow> [] | Some cpus \<Rightarrow> updateIsolated cpus))
            (seq (updateThermalThrottle env) (updateOnline env))))))"

section \<open>Lemmas on the cache\<close>

lemma merge_all_Cons:
  "merge_all ((i, n) # ns) cache = merge_all ns (map_put i (mergeCPUStat (map_get_z zeroCPUStat cache i) n) cache)"
  by (simp add: merge_all_def)

lemma merge_all_get:
  "wf_map ns \<Longrightarrow> map_get (merge_all ns cache) i =
     (case map_get ns i of
        None \<Rightarrow> map_get cache i
      | Some n \<Rightarrow> Some (mergeCPUStat (map_get_z zeroCPUStat cache i) n))"
proof (induction ns arbitrary: cache)
  case (Cons e ns)
  obtain j n where e: "e = (j, n)" by fastforce
  have "map_get ns j = None" using Cons.prems e by (simp add: map_of_eq_None_iff)
  then show ?case using Cons e
    by (cases "i = j") (auto simp: merge_all_Cons map_get_z_def split: option.splits)
qed (simp add: merge_all_def)

lemma merge_all_wf: "wf_map cache \<Longrightarrow> wf_map (merge_all ns cache)"
proof (induction ns arbitrary: cache)
  case (Cons e ns)
  then show ?case by (cases e) (simp add: merge_all_Cons)
qed (simp add: merge_all_def)

lemma merge_all_keys: "fst ` set (merge_all ns cache) = fst ` set ns \<union> fst ` set cache"
proof (induction ns arbitrary: cache)
  case (Cons e ns)
  then show ?case by (cases e) (auto simp: merge_all_Cons keys_map_put)
qed (simp add: merge_all_def)

lemma length_card_keys: "wf_map m \<Longrightarrow> length m = card (fst ` set m)"
  by (metis distinct_card length_map set_map)

text \<open>When the sizes agree there is nothing to remove: the keys are those of the new statistics.\<close>

lemma updateCPUStats_keys:
  assumes "wf_map ns" "wf_map cache"
  shows "fst ` set (updateCPUStats ns cache) = fst ` set ns" "wf_map (updateCPUStats ns cache)"
proof -
  let ?m = "merge_all ns cache"
  have keys: "fst ` set ?m = fst ` set ns \<union> fst ` set cache" by (rule merge_all_keys)
  have "fst ` set (filter (\<lambda>(key, _). key \<in> set (map fst ns)) m) = fst ` set m \<inter> fst ` set ns"
    for m :: "(int, CPUStat) gomap" by (auto simp: rev_image_eqI)
  then have "fst ` set (filter (\<lambda>(key, _). key \<in> set (map fst ns)) ?m) = fst ` set ns"
    using keys by auto
  moreover have "fst ` set ?m = fst ` set ns" if "length ns = length ?m"
  proof (rule card_subset_eq [symmetric])
    show "card (fst ` set ns) = card (fst ` set ?m)"
      using that assms merge_all_wf length_card_keys by metis
  qed (auto simp: keys)
  ultimately show "fst ` set (updateCPUStats ns cache) = fst ` set ns"
    by (simp add: updateCPUStats_def Let_def)
  show "wf_map (updateCPUStats ns cache)"
    using merge_all_wf [OF assms(2), of ns] by (simp add: updateCPUStats_def Let_def distinct_map_filter)
qed

lemma updateCPUStats_get:
  assumes "wf_map ns" "wf_map cache" "map_get ns i = Some n"
  shows "map_get (updateCPUStats ns cache) i = Some (mergeCPUStat (map_get_z zeroCPUStat cache i) n)"
proof -
  have i: "i \<in> set (map fst ns)" using assms(3) by (force dest: map_of_SomeD)
  have "map_get (filter (\<lambda>(key, _). key \<in> set (map fst ns)) m) i = map_get m i" for m :: "(int, CPUStat) gomap"
    using i by (induction m) (auto simp del: set_map)
  then show ?thesis using merge_all_get [OF assms(1), of cache i] assms(3)
    by (simp add: updateCPUStats_def Let_def)
qed

lemma f64_le_refl: "x \<noteq> NaN \<Longrightarrow> f64_le x x"
proof (cases x)
  case (Inf b)
  then show ?thesis by (cases b) simp_all
qed simp_all

lemma forward_ge: "old \<noteq> NaN \<Longrightarrow> f64_le old (forward old new)"
  by (simp add: forward_def f64_le_refl)

text \<open>A predicate on the modes of a CPU, and a relation between two readings, mode by mode.\<close>

definition stat_all :: "(float64 \<Rightarrow> bool) \<Rightarrow> CPUStat \<Rightarrow> bool" where
  "stat_all P s \<longleftrightarrow> P (User s) \<and> P (Nice s) \<and> P (System s) \<and> P (Idle s) \<and> P (Iowait s) \<and> P (IRQ s) \<and>
     P (SoftIRQ s) \<and> P (Steal s) \<and> P (Guest s) \<and> P (GuestNice s)"

definition stat_le :: "CPUStat \<Rightarrow> CPUStat \<Rightarrow> bool" where
  "stat_le s t \<longleftrightarrow> f64_le (User s) (User t) \<and> f64_le (Nice s) (Nice t) \<and> f64_le (System s) (System t) \<and>
     f64_le (Idle s) (Idle t) \<and> f64_le (Iowait s) (Iowait t) \<and> f64_le (IRQ s) (IRQ t) \<and>
     f64_le (SoftIRQ s) (SoftIRQ t) \<and> f64_le (Steal s) (Steal t) \<and> f64_le (Guest s) (Guest t) \<and>
     f64_le (GuestNice s) (GuestNice t)"

lemma mergeCPUStat_ge: "stat_all (\<lambda>x. x \<noteq> NaN) old \<Longrightarrow> \<not> jumped_back old n \<Longrightarrow> stat_le old (mergeCPUStat old n)"
  by (simp add: stat_all_def stat_le_def mergeCPUStat_def forward_ge)

lemma mergeCPUStat_exact: "stat_le old n \<Longrightarrow> \<not> jumped_back old n \<Longrightarrow> mergeCPUStat old n = n"
  by (simp add: stat_le_def mergeCPUStat_def forward_def)

lemma mergeCPUStat_reset:
  "jumped_back old n \<Longrightarrow> stat_all (f64_le (Fin 0)) n \<Longrightarrow> mergeCPUStat old n = n"
  by (simp add: stat_all_def mergeCPUStat_def forward_def zeroCPUStat_def)

section \<open>The contract\<close>

text \<open>What the collector needs: the runtime iterates maps completely, and some CPU is listed.\<close>

definition cpu_pre :: "cpuEnv \<times> cpuFlags \<times> cpuCollector \<Rightarrow> bool" where
  "cpu_pre = (\<lambda>(env, fl, c). sysfs_CPUs env \<noteq> Ok [] \<and> \<not> panics (sysfs_CPUs env) \<and> \<not> panics (procfs_CPUInfo env) \<and>
     \<not> panics (procfs_Stat_CPU env) \<and> \<not> panics (cpu_glob env))"

lemma stat_metrics_ok: "list_all labels_ok (stat_metrics g e)"
  by (cases e) (simp add: stat_metrics_def Let_def cpu_desc_defs)

lemma updateFieldInfo_ok: "length (desc_labels d) = 1 \<Longrightarrow> list_all labels_ok (updateFieldInfo vs f d)"
  by (auto simp: updateFieldInfo_def list_all_iff split: option.splits)

lemma updateInfo_ok: "upd_ok (updateInfo env fl c)"
  unfolding updateInfo_def
  by (intro upd_ok_with_res) (auto simp: list_all_iff cpu_desc_defs updateFieldInfo_def split: option.splits list.splits if_splits)

lemma updateStat_ok: "upd_ok (snd (updateStat env fl c))"
  using stat_metrics_ok by (auto simp: updateStat_def Let_def list_all_iff upd_ok_def split: res.splits)

lemma updateThermalThrottle_ok: "upd_ok (updateThermalThrottle env)"
  unfolding updateThermalThrottle_def
  by (intro upd_ok_with_res) (auto simp: list_all_iff cpu_desc_defs Let_def split: prod.splits)

lemma updateOnline_ok: "upd_ok (updateOnline env)"
  unfolding updateOnline_def
  by (intro upd_ok_with_res) (auto simp: list_all_iff cpu_desc_defs split: res.splits)

lemma cpu_Update_ok: "upd_ok (snd (cpu_Update env fl c))"
  unfolding cpu_Update_def Let_def snd_conv
proof (intro upd_ok_seq)
  show "upd_ok (if enableCPUInfo fl then updateInfo env fl c else emit [])" by (simp add: updateInfo_ok)
  show "upd_ok (snd (case snd (if enableCPUInfo fl then updateInfo env fl c else emit []) of
      Ok _ \<Rightarrow> updateStat env fl c | _ \<Rightarrow> (c, emit [])))" by (simp add: updateStat_ok split: res.splits)
  show "upd_ok (emit (case isolatedCpus c of None \<Rightarrow> [] | Some cpus \<Rightarrow> updateIsolated cpus))"
    by (auto simp: updateIsolated_def list_all_iff cpu_desc_defs split: option.splits)
qed (rule updateThermalThrottle_ok updateOnline_ok)+

lemma cpu_Update_no_panic: "cpu_pre (env, fl, c) \<Longrightarrow> \<not> panics (snd (snd (cpu_Update env fl c)))"
proof -
  assume pre: "cpu_pre (env, fl, c)"
  have "\<not> panics (snd (updateInfo env fl c))" "\<not> panics (snd (snd (updateStat env fl c)))"
    "\<not> panics (snd (updateThermalThrottle env))" "\<not> panics (snd (updateOnline env))"
    using pre by (auto simp: cpu_pre_def updateInfo_def updateStat_def updateThermalThrottle_def updateOnline_def
        panics_with_res Let_def idx_def split: res.splits prod.splits if_splits)
  then show ?thesis
    by (auto simp: cpu_Update_def Let_def dest!: panics_seq split: res.splits if_splits)
qed

interpretation cpu: safe_collector_contract "\<lambda>(env, fl, c). snd (cpu_Update env fl c)" cpu_pre
  by unfold_locales (auto simp: cpu_Update_ok cpu_Update_no_panic)

section \<open>Properties\<close>

text \<open>
  C12: A counter of a CPU never runs backwards between two scrapes, unless its idle counter has
  fallen by three seconds or more (a hotplug event).
\<close>

theorem updateCPUStats_monotone:
  assumes "wf_map newStats" "wf_map cache" "map_get newStats i = Some n" "map_get cache i = Some old"
    and "stat_all (\<lambda>x. x \<noteq> NaN) old" "\<not> jumped_back old n"
  shows "\<exists>s. map_get (updateCPUStats newStats cache) i = Some s \<and> stat_le old s"
  using updateCPUStats_get [OF assms(1-3)] mergeCPUStat_ge [OF assms(5,6)] assms(4)
  by (simp add: map_get_z_def)

definition demo_stat :: "rat \<Rightarrow> rat \<Rightarrow> CPUStat" where
  "demo_stat idle user = zeroCPUStat\<lparr>Idle := Fin idle, User := Fin user\<rparr>"

theorem updateCPUStats_monotone_witness:
  "\<exists>s. map_get (updateCPUStats [(0, demo_stat 9 7)] [(0, demo_stat 10 5), (1, demo_stat 1 1)]) 0 = Some s \<and>
     stat_le (demo_stat 10 5) s"
proof (rule updateCPUStats_monotone)
  show "map_get [(0, demo_stat 9 7)] 0 = Some (demo_stat 9 7)" by simp
  show "map_get [(0, demo_stat 10 5), (1, demo_stat 1 1)] 0 = Some (demo_stat 10 5)" by simp
  show "stat_all (\<lambda>x. x \<noteq> NaN) (demo_stat 10 5)" by (simp add: demo_stat_def stat_all_def zeroCPUStat_def)
  show "\<not> jumped_back (demo_stat 10 5) (demo_stat 9 7)"
    using f64_of_int_exact [of 1] by (simp add: jumped_back_def demo_stat_def jumpBackSeconds_def f64_sub_def f64_of_int_def)
qed simp_all

text \<open>
  After an update the cache holds exactly the CPUs of the new reading: CPUs that went offline
  are dropped, new ones are added, whatever the sizes of the two maps.
\<close>

theorem updateCPUStats_online:
  assumes "wf_map newStats" "wf_map cache"
  shows "fst ` set (updateCPUStats newStats cache) = fst ` set newStats \<and> wf_map (updateCPUStats newStats cache)"
  using updateCPUStats_keys [OF assms] by simp

theorem updateCPUStats_online_witness:
  "fst ` set (updateCPUStats [(2, demo_stat 9 7)] [(0, demo_stat 10 5)]) = fst ` set [(2, demo_stat 9 7)] \<and>
   wf_map (updateCPUStats [(2, demo_stat 9 7)] [(0, demo_stat 10 5)])"
  by (rule updateCPUStats_online) simp_all

text \<open>
  A CPU whose reading did not go backwards, and a CPU that was reset because its idle counter
  jumped back, are reported with the new reading as it is.
\<close>

theorem updateCPUStats_exact:
  assumes "wf_map newStats" "wf_map cache" "map_get newStats i = Some n"
    and "stat_all (f64_le (Fin 0)) n"
    and "case map_get cache i of None \<Rightarrow> True | Some old \<Rightarrow> jumped_back old n \<or> stat_le old n"
  shows "map_get (updateCPUStats newStats cache) i = Some n"
proof -
  have zero: "stat_le zeroCPUStat n" using assms(4) by (simp add: stat_le_def stat_all_def zeroCPUStat_def)
  have "mergeCPUStat (map_get_z zeroCPUStat cache i) n = n"
  proof (cases "jumped_back (map_get_z zeroCPUStat cache i) n")
    case True
    then show ?thesis by (rule mergeCPUStat_reset [OF _ assms(4)])
  next
    case False
    then show ?thesis using mergeCPUStat_exact [OF _ False] zero assms(5)
      by (auto simp: map_get_z_def split: option.splits)
  qed
  then show ?thesis using updateCPUStats_get [OF assms(1-3)] by simp
qed

theorem updateCPUStats_exact_witness:
  "map_get (updateCPUStats [(0, demo_stat 2 1)] [(0, demo_stat 10 5)]) 0 = Some (demo_stat 2 1)"
proof (rule updateCPUStats_exact)
  show "stat_all (f64_le (Fin 0)) (demo_stat 2 1)" by (simp add: demo_stat_def stat_all_def zeroCPUStat_def)
  show "case map_get [(0, demo_stat 10 5)] 0 of None \<Rightarrow> True
      | Some old \<Rightarrow> jumped_back old (demo_stat 2 1) \<or> stat_le old (demo_stat 2 1)"
    using f64_of_int_exact [of 8] by (simp add: jumped_back_def demo_stat_def jumpBackSeconds_def f64_sub_def f64_of_int_def)
qed simp_all

text \<open>
  C36: One call of \<^verbatim>\<open>updateStat\<close> never sends two samples with the same name and labels: the seconds and the guest seconds of
  the CPUs are distinct, when procfs lists no CPU twice. (The other samples of a scrape, such as those of the flags and bugs of
  the CPUs, are not covered: a flag that is listed twice is sent twice.)
\<close>

theorem updateStat_distinct:
  assumes "range_order (ord_stats env)" "wf_map (cpuStats c)" "procfs_Stat_CPU env = Ok stats" "wf_map stats"
  shows "distinct (map sample_id (fst (snd (updateStat env fl c))))"
proof -
  let ?cs = "ord_stats env (updateCPUStats stats (cpuStats c))"
  have wf: "wf_map ?cs" using updateCPUStats_keys(2) [OF assms(4,2)] range_order_keys [OF assms(1)] by blast
  have ids: "map sample_id (stat_metrics g (i, s)) =
      map (\<lambda>m. (desc_fq nodeCPUSecondsDesc, [Itoa i, m]))
        [''user'', ''nice'', ''system'', ''idle'', ''iowait'', ''irq'', ''softirq'', ''steal''] @
      (if g then map (\<lambda>m. (desc_fq cpuGuestDesc, [Itoa i, m])) [''user'', ''nice''] else [])" for g i s
    by (simp add: stat_metrics_def sample_id_def Let_def cpu_desc_def nodeCPUSecondsDesc_def cpuGuestDesc_def)
  have "distinct (map sample_id (concat (map (stat_metrics g) cs)))" if "wf_map cs" for g and cs :: "(int \<times> CPUStat) list"
    using that
  proof (induction cs)
    case (Cons e cs)
    obtain i s where e: "e = (i, s)" by fastforce
    have "set (map sample_id (stat_metrics g e)) \<inter> set (map sample_id (concat (map (stat_metrics g) cs))) = {}"
    proof -
      have "snd x ! 0 = Itoa (fst e)" if "x \<in> set (map sample_id (stat_metrics g e))" for x e
        using that by (cases e) (auto simp: ids split: if_splits)
      moreover have "\<exists>e \<in> set cs. x \<in> set (map sample_id (stat_metrics g e))"
        if "x \<in> set (map sample_id (concat (map (stat_metrics g) cs)))" for x
        using that by auto
      moreover have "fst e' \<noteq> fst e" if "e' \<in> set cs" for e'
        using that Cons.prems by (metis distinct.simps(2) image_eqI list.simps(9) list.set_map)
      ultimately show ?thesis by (metis Itoa_inj disjoint_iff)
    qed
    moreover have "distinct (map sample_id (stat_metrics g e))"
      unfolding e ids by (simp add: cpu_desc_defs)
    ultimately show ?case using Cons by simp
  qed simp
  from this [OF wf] show ?thesis using assms(3) by (simp add: updateStat_def Let_def)
qed

definition demo_cpu_env :: cpuEnv where
  "demo_cpu_env = \<lparr>procfs_NewFS = Ok (), sysfs_NewFS = Ok (), sysfs_IsolatedCPUs = Ok [], procfs_CPUInfo = Ok [],
     procfs_Stat_CPU = Ok [(0, demo_stat 4 2), (1, demo_stat 3 1)], sysfs_CPUs = Ok [\<lparr>Number = ''0'', Online = Ok True\<rparr>],
     cpu_glob = Ok [], cpu_readFile = (\<lambda>_. Err ErrNotExist), cpufreq_state = None,
     ord_stats = rev, ord_packages = rev, ord_cores = rev\<rparr>"

theorem updateStat_distinct_witness:
  "distinct (map sample_id (fst (snd (updateStat demo_cpu_env
     \<lparr>enableCPUGuest = True, enableCPUInfo = False, flagsInclude = [], bugsInclude = [], useCPUFreqPrefix = False\<rparr>
     \<lparr>cpuStats = [], isolatedCpus = None, cpuFlagsIncludeRegexp = None, cpuBugsIncludeRegexp = None\<rparr>))))"
  by (rule updateStat_distinct [where stats = "[(0, demo_stat 4 2), (1, demo_stat 3 1)]"])
    (simp_all add: demo_cpu_env_def range_order_rev)

text \<open>The throttle count one CPU directory gives for a package, if it belongs to it and has one.\<close>

definition package_reading :: "(string \<Rightarrow> string res) \<Rightarrow> int \<Rightarrow> string \<Rightarrow> int option" where
  "package_reading rd pkg cpu =
     (case (readUintFromFile rd (filepath_Join [cpu, ''topology'', ''physical_package_id'']),
            readUintFromFile rd (filepath_Join [cpu, ''topology'', ''core_id'']),
            readUintFromFile rd (filepath_Join [cpu, ''thermal_throttle'', ''package_throttle_count''])) of
        (Ok p, Ok _, Ok v) \<Rightarrow> if p = pkg then Some v else None
      | _ \<Rightarrow> None)"

text \<open>
  The throttle count of a package is that of the first CPU directory of the package that has
  one, and a package without any has no sample.
\<close>

theorem packageThrottles_first:
  "map_get (fst (fold (throttle_step rd) cpus ([], []))) pkg =
     (case filter (\<lambda>cpu. package_reading rd pkg cpu \<noteq> None) cpus of
        [] \<Rightarrow> None
      | cpu # _ \<Rightarrow> package_reading rd pkg cpu)"
proof -
  have step: "map_get (fst (throttle_step rd cpu t)) pkg =
      (case map_get (fst t) pkg of Some v \<Rightarrow> Some v | None \<Rightarrow> package_reading rd pkg cpu)" for cpu t
  proof (cases t; cases "readUintFromFile rd (filepath_Join [cpu, ''topology'', ''physical_package_id''])";
      cases "readUintFromFile rd (filepath_Join [cpu, ''topology'', ''core_id''])";
      cases "readUintFromFile rd (filepath_Join [cpu, ''thermal_throttle'', ''package_throttle_count''])")
  qed (simp_all add: throttle_step_def package_reading_def add_count_def Let_def split: option.splits)
  have "map_get (fst (fold (throttle_step rd) cpus t)) pkg =
     (case map_get (fst t) pkg of
        Some v \<Rightarrow> Some v
      | None \<Rightarrow> (case filter (\<lambda>cpu. package_reading rd pkg cpu \<noteq> None) cpus of
                  [] \<Rightarrow> None | cpu # _ \<Rightarrow> package_reading rd pkg cpu))" for t
    by (induction cpus arbitrary: t) (auto simp: step split: option.splits)
  from this [of "([], [])"] show ?thesis by simp
qed

end
