(* ===== verification/Netdev.thy ===== *)
theory Netdev
  imports Helpers
begin

text \<open>
  The network device collector: \<^verbatim>\<open>netdev_common.go\<close> and \<^verbatim>\<open>netdev_linux.go\<close>. Counters are 64-bit words and
  wrap around. The messages of netlink, the lines of \<^verbatim>\<open>/proc/net/dev\<close> and the interfaces of the host are
  data of the environment; the text forms of addresses are two functions of it.
\<close>

section \<open>Statistics\<close>

text \<open>The counters of a link, at 64 and at 32 bits.\<close>

record 'n LinkStats =
  RXPackets :: 'n
  TXPackets :: 'n
  RXBytes :: 'n
  TXBytes :: 'n
  RXErrors :: 'n
  TXErrors :: 'n
  RXDropped :: 'n
  TXDropped :: 'n
  Multicast :: 'n
  Collisions :: 'n
  RXLengthErrors :: 'n
  RXOverErrors :: 'n
  RXCRCErrors :: 'n
  RXFrameErrors :: 'n
  RXFIFOErrors :: 'n
  RXMissedErrors :: 'n
  TXAbortedErrors :: 'n
  TXCarrierErrors :: 'n
  TXFIFOErrors :: 'n
  TXHeartbeatErrors :: 'n
  TXWindowErrors :: 'n
  RXCompressed :: 'n
  TXCompressed :: 'n
  RXNoHandler :: 'n

record linkAttributes =
  la_Name :: string
  la_Stats64 :: "uint64 LinkStats option"
  la_Stats :: "uint32 LinkStats option"

record NetDevLine =
  nd_Name :: string
  RxBytes :: uint64
  RxPackets :: uint64
  RxErrors :: uint64
  RxDropped :: uint64
  RxFIFO :: uint64
  RxFrame :: uint64
  RxCompressed :: uint64
  RxMulticast :: uint64
  TxBytes :: uint64
  TxPackets :: uint64
  TxErrors :: uint64
  TxDropped :: uint64
  TxFIFO :: uint64
  TxCollisions :: uint64
  TxCarrier :: uint64
  TxCompressed :: uint64

type_synonym devStats = "(string, uint64) gomap"
type_synonym netDevStats = "(string, devStats) gomap"

definition widen :: "uint32 LinkStats \<Rightarrow> uint64 LinkStats" where
  "widen s = \<lparr>RXPackets = ucast (RXPackets s), TXPackets = ucast (TXPackets s),
     RXBytes = ucast (RXBytes s), TXBytes = ucast (TXBytes s),
     RXErrors = ucast (RXErrors s), TXErrors = ucast (TXErrors s),
     RXDropped = ucast (RXDropped s), TXDropped = ucast (TXDropped s),
     Multicast = ucast (Multicast s), Collisions = ucast (Collisions s),
     RXLengthErrors = ucast (RXLengthErrors s), RXOverErrors = ucast (RXOverErrors s),
     RXCRCErrors = ucast (RXCRCErrors s), RXFrameErrors = ucast (RXFrameErrors s),
     RXFIFOErrors = ucast (RXFIFOErrors s), RXMissedErrors = ucast (RXMissedErrors s),
     TXAbortedErrors = ucast (TXAbortedErrors s), TXCarrierErrors = ucast (TXCarrierErrors s),
     TXFIFOErrors = ucast (TXFIFOErrors s), TXHeartbeatErrors = ucast (TXHeartbeatErrors s),
     TXWindowErrors = ucast (TXWindowErrors s), RXCompressed = ucast (RXCompressed s),
     TXCompressed = ucast (TXCompressed s), RXNoHandler = ucast (RXNoHandler s)\<rparr>"

definition netlink_metrics :: "uint64 LinkStats \<Rightarrow> devStats" where
  "netlink_metrics s =
     [(''receive_packets'', RXPackets s), (''transmit_packets'', TXPackets s),
      (''receive_bytes'', RXBytes s), (''transmit_bytes'', TXBytes s),
      (''receive_errors'', RXErrors s), (''transmit_errors'', TXErrors s),
      (''receive_dropped'', RXDropped s), (''transmit_dropped'', TXDropped s),
      (''multicast'', Multicast s), (''collisions'', Collisions s),
      (''receive_length_errors'', RXLengthErrors s), (''receive_over_errors'', RXOverErrors s),
      (''receive_crc_errors'', RXCRCErrors s), (''receive_frame_errors'', RXFrameErrors s),
      (''receive_fifo_errors'', RXFIFOErrors s), (''receive_missed_errors'', RXMissedErrors s),
      (''transmit_aborted_errors'', TXAbortedErrors s), (''transmit_carrier_errors'', TXCarrierErrors s),
      (''transmit_fifo_errors'', TXFIFOErrors s), (''transmit_heartbeat_errors'', TXHeartbeatErrors s),
      (''transmit_window_errors'', TXWindowErrors s),
      (''receive_compressed'', RXCompressed s), (''transmit_compressed'', TXCompressed s),
      (''receive_nohandler'', RXNoHandler s)]"

definition link_stats :: "linkAttributes \<Rightarrow> uint64 LinkStats option" where
  "link_stats a =
     (case la_Stats64 a of
        Some s \<Rightarrow> Some s
      | None \<Rightarrow> (case la_Stats a of Some s \<Rightarrow> Some (widen s) | None \<Rightarrow> None))"

definition parse_link :: "deviceFilter \<Rightarrow> linkAttributes option \<Rightarrow> netDevStats \<Rightarrow> netDevStats" where
  "parse_link f msg metrics =
     (case msg of
        None \<Rightarrow> metrics
      | Some a \<Rightarrow>
          if ignored f (la_Name a) then metrics
          else case link_stats a of
                 None \<Rightarrow> metrics
               | Some stats \<Rightarrow> map_put (la_Name a) (netlink_metrics stats) metrics)"

definition parseNetlinkStats :: "linkAttributes option list \<Rightarrow> deviceFilter \<Rightarrow> netDevStats" where
  "parseNetlinkStats links f = fold (parse_link f) links []"

definition proc_metrics :: "NetDevLine \<Rightarrow> devStats" where
  "proc_metrics s =
     [(''receive_bytes'', RxBytes s), (''receive_packets'', RxPackets s), (''receive_errors'', RxErrors s),
      (''receive_dropped'', RxDropped s), (''receive_fifo'', RxFIFO s), (''receive_frame'', RxFrame s),
      (''receive_compressed'', RxCompressed s), (''receive_multicast'', RxMulticast s),
      (''transmit_bytes'', TxBytes s), (''transmit_packets'', TxPackets s), (''transmit_errors'', TxErrors s),
      (''transmit_dropped'', TxDropped s), (''transmit_fifo'', TxFIFO s), (''transmit_colls'', TxCollisions s),
      (''transmit_carrier'', TxCarrier s), (''transmit_compressed'', TxCompressed s)]"

text \<open>The legacy names: entries are popped, summed up at 64 bits and stored under another key.\<close>

definition pop :: "devStats \<Rightarrow> string \<Rightarrow> uint64 option \<times> devStats" where
  "pop m key = (map_get m key, map_del key m)"

definition popz :: "devStats \<Rightarrow> string \<Rightarrow> uint64 \<times> devStats" where
  "popz m key = (case map_get m key of Some v \<Rightarrow> (v, map_del key m) | None \<Rightarrow> (0, m))"

fun popz_add :: "string list \<Rightarrow> uint64 \<Rightarrow> devStats \<Rightarrow> uint64 \<times> devStats" where
  "popz_add [] v m = (v, m)"
| "popz_add (k # ks) v m = (let (z, m') = popz m k in popz_add ks (v + z) m')"

definition move :: "string \<Rightarrow> string list \<Rightarrow> string \<Rightarrow> devStats \<Rightarrow> devStats" where
  "move from extra to m =
     (case pop m from of
        (None, m') \<Rightarrow> m'
      | (Some metric, m') \<Rightarrow> let (v, m'') = popz_add extra metric m' in map_put to v m'')"

definition legacy :: "devStats \<Rightarrow> devStats" where
  "legacy metrics =
     (move ''transmit_carrier_errors'' [''transmit_aborted_errors'', ''transmit_heartbeat_errors'', ''transmit_window_errors''] ''transmit_carrier'' \<circ>
      move ''collisions'' [] ''transmit_colls'' \<circ>
      move ''multicast'' [] ''receive_multicast'' \<circ>
      move ''transmit_fifo_errors'' [] ''transmit_fifo'' \<circ>
      move ''transmit_dropped'' [] ''transmit_drop'' \<circ>
      move ''transmit_errors'' [] ''transmit_errs'' \<circ>
      move ''multicast'' [] ''receive_multicast'' \<circ>
      move ''receive_frame_errors'' [''receive_length_errors'', ''receive_over_errors'', ''receive_crc_errors''] ''receive_frame'' \<circ>
      move ''receive_fifo_errors'' [] ''receive_fifo'' \<circ>
      move ''receive_dropped'' [''receive_missed_errors''] ''receive_drop'' \<circ>
      move ''receive_errors'' [] ''receive_errs'') metrics"

section \<open>Addresses\<close>

text \<open>\<^verbatim>\<open>net.IP\<close>: four or sixteen bytes, and an IPv4 address may be mapped into sixteen.\<close>

type_synonym IP = "uint8 list"

definition To4 :: "IP \<Rightarrow> IP option" where
  "To4 ip =
     (if length ip = 4 then Some ip
      else if length ip = 16 \<and> take 12 ip = replicate 10 0 @ [255, 255] then Some (drop 12 ip)
      else None)"

definition ip_byte :: "IP \<Rightarrow> nat \<Rightarrow> uint8" where
  "ip_byte ip i = (if i < length ip then ip ! i else 0)"

definition IsLoopback :: "IP \<Rightarrow> bool" where
  "IsLoopback ip \<longleftrightarrow> (case To4 ip of Some ip4 \<Rightarrow> ip_byte ip4 0 = 127 | None \<Rightarrow> ip = replicate 15 0 @ [1])"

definition IsLinkLocalUnicast :: "IP \<Rightarrow> bool" where
  "IsLinkLocalUnicast ip \<longleftrightarrow>
     (case To4 ip of
        Some ip4 \<Rightarrow> ip_byte ip4 0 = 169 \<and> ip_byte ip4 1 = 254
      | None \<Rightarrow> length ip = 16 \<and> ip_byte ip 0 = 254 \<and> and (ip_byte ip 1) 192 = 128)"

definition IsLinkLocalMulticast :: "IP \<Rightarrow> bool" where
  "IsLinkLocalMulticast ip \<longleftrightarrow>
     (case To4 ip of
        Some ip4 \<Rightarrow> ip_byte ip4 0 = 224 \<and> ip_byte ip4 1 = 0 \<and> ip_byte ip4 2 = 0
      | None \<Rightarrow> length ip = 16 \<and> ip_byte ip 0 = 255 \<and> and (ip_byte ip 1) 15 = 2)"

definition IsInterfaceLocalMulticast :: "IP \<Rightarrow> bool" where
  "IsInterfaceLocalMulticast ip \<longleftrightarrow> length ip = 16 \<and> ip_byte ip 0 = 255 \<and> and (ip_byte ip 1) 15 = 1"

definition IsMulticast :: "IP \<Rightarrow> bool" where
  "IsMulticast ip \<longleftrightarrow>
     (case To4 ip of
        Some ip4 \<Rightarrow> and (ip_byte ip4 0) 240 = 224
      | None \<Rightarrow> length ip = 16 \<and> ip_byte ip 0 = 255)"

definition IsGlobalUnicast :: "IP \<Rightarrow> bool" where
  "IsGlobalUnicast ip \<longleftrightarrow>
     (length ip = 4 \<or> length ip = 16) \<and> To4 ip \<noteq> Some [255, 255, 255, 255] \<and>
     To4 ip \<noteq> Some [0, 0, 0, 0] \<and> ip \<noteq> replicate 16 0 \<and>
     \<not> IsLoopback ip \<and> \<not> IsMulticast ip \<and> \<not> IsLinkLocalUnicast ip"

definition scope :: "IP \<Rightarrow> string" where
  "scope ip =
     (if IsLoopback ip \<or> IsLinkLocalUnicast ip \<or> IsLinkLocalMulticast ip then ''link-local''
      else if IsInterfaceLocalMulticast ip then ''interface-local''
      else if IsGlobalUnicast ip then ''global''
      else [])"

record addrInfo =
  ai_device :: string
  ai_addr :: string
  ai_scope :: string
  ai_netmask :: string

record netInterface =
  ifs_Name :: string
  ifs_Addrs :: "string list"

record netText =
  ParseCIDR :: "string \<Rightarrow> (IP \<times> int) res"
  ip_String :: "IP \<Rightarrow> string"

definition getAddrsInfo :: "netText \<Rightarrow> netInterface list \<Rightarrow> deviceFilter \<Rightarrow> addrInfo list" where
  "getAddrsInfo nt interfaces f =
     concat (map (\<lambda>ifs.
       concat (map (\<lambda>addr.
         case ParseCIDR nt addr of
           Ok (ip, ones) \<Rightarrow> [\<lparr>ai_device = ifs_Name ifs, ai_addr = ip_String nt ip, ai_scope = scope ip, ai_netmask = Itoa ones\<rparr>]
         | _ \<Rightarrow> []) (ifs_Addrs ifs)))
       (filter (\<lambda>ifs. \<not> ignored f (ifs_Name ifs)) interfaces))"

section \<open>The collector\<close>

record netdevFlags =
  netdevDeviceInclude :: string
  oldNetdevDeviceInclude :: string
  netdevDeviceExclude :: string
  oldNetdevDeviceExclude :: string
  netdevAddressInfo :: bool
  netdevDetailedMetrics :: bool
  netDevNetlink :: bool
  netdevLabelIfAlias :: bool

record netdevEnv =
  rtnetlink_Links :: "linkAttributes option list res"
  nd_procfs_NewFS :: "unit res"
  procfs_NetDev :: "NetDevLine list res"
  nd_sysfs_NewFS :: "unit res"
  sysfs_NetClass :: "(string, string) gomap res"
  net_Interfaces :: "netInterface list res"
  nd_text :: netText
  ord_devices :: "(string \<times> devStats) list \<Rightarrow> (string \<times> devStats) list"
  ord_keys :: "(string \<times> uint64) list \<Rightarrow> (string \<times> uint64) list"

record netDevCollector =
  nd_filter :: deviceFilter
  metricDescs :: "(string, desc) gomap"

definition merge_flag :: "string \<Rightarrow> string \<Rightarrow> string \<Rightarrow> string res" where
  "merge_flag old new msg =
     (if old \<noteq> [] then (if new = [] then Ok old else Err (NewError msg)) else Ok new)"

text \<open>The deprecated flags are merged into the current ones, which are package state.\<close>

definition NewNetDevCollector :: "netdevFlags \<Rightarrow> netdevFlags \<times> netDevCollector res" where
  "NewNetDevCollector fl =
     (case merge_flag (oldNetdevDeviceInclude fl) (netdevDeviceInclude fl)
             ''--collector.netdev.device-whitelist and --collector.netdev.device-include are mutually exclusive'' of
        Err e \<Rightarrow> (fl, Err e)
      | Panic p \<Rightarrow> (fl, Panic p)
      | Ok incl \<Rightarrow>
          (let fl1 = fl\<lparr>netdevDeviceInclude := incl\<rparr> in
           case merge_flag (oldNetdevDeviceExclude fl1) (netdevDeviceExclude fl1)
                  ''--collector.netdev.device-blacklist and --collector.netdev.device-exclude are mutually exclusive'' of
             Err e \<Rightarrow> (fl1, Err e)
           | Panic p \<Rightarrow> (fl1, Panic p)
           | Ok excl \<Rightarrow>
               (fl1\<lparr>netdevDeviceExclude := excl\<rparr>,
                if excl \<noteq> [] \<and> incl \<noteq> [] then Err (NewError ''device-exclude & device-include are mutually exclusive'')
                else bind_res (newDeviceFilter excl incl) (\<lambda>f. Ok \<lparr>nd_filter = f, metricDescs = []\<rparr>))))"

definition netlinkStats :: "netdevEnv \<Rightarrow> deviceFilter \<Rightarrow> netDevStats res" where
  "netlinkStats env f = bind_res (rtnetlink_Links env) (\<lambda>links. Ok (parseNetlinkStats links f))"

definition procNetDevStats :: "netdevEnv \<Rightarrow> deviceFilter \<Rightarrow> netDevStats res" where
  "procNetDevStats env f =
     bind_res (map_err (Wrapf ''failed to open procfs: %w'' []) (nd_procfs_NewFS env)) (\<lambda>_.
     bind_res (map_err (Wrapf ''failed to parse /proc/net/dev: %w'' []) (procfs_NetDev env)) (\<lambda>netDev.
     Ok (fold (\<lambda>s m. if ignored f (nd_Name s) then m else map_put (nd_Name s) (proc_metrics s) m) netDev [])))"

definition getNetDevStats :: "netdevEnv \<Rightarrow> netdevFlags \<Rightarrow> deviceFilter \<Rightarrow> netDevStats res" where
  "getNetDevStats env fl f = (if netDevNetlink fl then netlinkStats env f else procNetDevStats env f)"

definition getNetDevLabels :: "netdevEnv \<Rightarrow> netdevFlags \<Rightarrow> (string, (string, string) gomap) gomap res" where
  "getNetDevLabels env fl =
     (if \<not> netdevLabelIfAlias fl then Ok []
      else bind_res (nd_sysfs_NewFS env) (\<lambda>_.
           bind_res (sysfs_NetClass env) (\<lambda>interfaces.
           Ok (fold (\<lambda>(iface, ifAlias) m. map_put iface [(''ifalias'', ifAlias)] m) interfaces []))))"

definition metricDesc :: "string \<Rightarrow> string list \<Rightarrow> netDevCollector \<Rightarrow> netDevCollector \<times> desc" where
  "metricDesc key labels c =
     (case map_get (metricDescs c) key of
        Some d \<Rightarrow> (c, d)
      | None \<Rightarrow>
          let d = NewDesc (BuildFQName namespace ''network'' (key @ ''_total''))
                    (''Network device statistic '' @ key @ ''.'') labels
          in (c\<lparr>metricDescs := map_put key d (metricDescs c)\<rparr>, d))"

fun send_keys :: "string list \<Rightarrow> string list \<Rightarrow> (string \<times> uint64) list \<Rightarrow> netDevCollector \<Rightarrow> netDevCollector \<times> metric list" where
  "send_keys labels labelValues [] c = (c, [])"
| "send_keys labels labelValues ((key, v) # kvs) c =
     (let (c1, d) = metricDesc key labels c;
          (c2, ms) = send_keys labels labelValues kvs c1
      in (c2, MustNewConstMetric d CounterValue (f64_of_nat (unat v)) labelValues # ms))"

fun send_devices ::
  "netdevEnv \<Rightarrow> netdevFlags \<Rightarrow> (string, (string, string) gomap) gomap \<Rightarrow> (string \<times> devStats) list \<Rightarrow>
     netDevCollector \<Rightarrow> netDevCollector \<times> metric list" where
  "send_devices env fl netDevLabels [] c = (c, [])"
| "send_devices env fl netDevLabels ((dev, stats) # ds) c =
     (let stats' = (if \<not> netdevDetailedMetrics fl then legacy stats else stats);
          devLabels = map_get_z [] netDevLabels dev;
          (c1, ms) = send_keys (''device'' # map fst devLabels) (dev # map snd devLabels) (ord_keys env stats') c;
          (c2, ms') = send_devices env fl netDevLabels ds c1
      in (c2, ms @ ms'))"

definition netAddressDesc :: desc where
  "netAddressDesc = NewDesc (BuildFQName namespace ''network_address'' ''info'') ''node network address by device''
     [''device'', ''address'', ''netmask'', ''scope'']"

definition netdev_addresses :: "netdevEnv \<Rightarrow> netdevFlags \<Rightarrow> netDevCollector \<Rightarrow> upd" where
  "netdev_addresses env fl c =
     (if netdevAddressInfo fl
      then with_res (map_err (Wrapf ''could not get network interfaces: %w'' []) (net_Interfaces env)) (\<lambda>interfaces.
           emit (map (\<lambda>a. MustNewConstMetric netAddressDesc GaugeValue (Fin 1) [ai_device a, ai_addr a, ai_netmask a, ai_scope a])
                   (getAddrsInfo (nd_text env) interfaces (nd_filter c))))
      else emit [])"

definition netdev_Update :: "netdevEnv \<Rightarrow> netdevFlags \<Rightarrow> netDevCollector \<Rightarrow> netDevCollector \<times> upd" where
  "netdev_Update env fl c =
     (case map_err (Wrapf ''couldn't get netstats: %w'' []) (getNetDevStats env fl (nd_filter c)) of
        Err e \<Rightarrow> (c, fail e)
      | Panic p \<Rightarrow> (c, ([], Panic p))
      | Ok netDev \<Rightarrow>
          (case map_err (Wrapf ''couldn't get netdev labels: %w'' []) (getNetDevLabels env fl) of
             Err e \<Rightarrow> (c, fail e)
           | Panic p \<Rightarrow> (c, ([], Panic p))
           | Ok netDevLabels \<Rightarrow>
               let (c', ms) = send_devices env fl netDevLabels (ord_devices env netDev) c
               in (c', seq (emit ms) (netdev_addresses env fl c))))"

section \<open>Lemmas\<close>

lemma netlink_legacy:
  "legacy (netlink_metrics s) =
     [(''receive_packets'', RXPackets s), (''transmit_packets'', TXPackets s), (''receive_bytes'', RXBytes s),
      (''transmit_bytes'', TXBytes s), (''receive_compressed'', RXCompressed s), (''transmit_compressed'', TXCompressed s),
      (''receive_nohandler'', RXNoHandler s), (''receive_errs'', RXErrors s),
      (''receive_drop'', RXDropped s + RXMissedErrors s), (''receive_fifo'', RXFIFOErrors s),
      (''receive_frame'', RXFrameErrors s + RXLengthErrors s + RXOverErrors s + RXCRCErrors s),
      (''receive_multicast'', Multicast s), (''transmit_errs'', TXErrors s), (''transmit_drop'', TXDropped s),
      (''transmit_fifo'', TXFIFOErrors s), (''transmit_colls'', Collisions s),
      (''transmit_carrier'', TXCarrierErrors s + TXAbortedErrors s + TXHeartbeatErrors s + TXWindowErrors s)]"
  by (simp add: legacy_def netlink_metrics_def move_def pop_def popz_def)

lemma proc_legacy:
  "legacy (proc_metrics s) =
     [(''receive_bytes'', RxBytes s), (''receive_packets'', RxPackets s), (''receive_fifo'', RxFIFO s),
      (''receive_frame'', RxFrame s), (''receive_compressed'', RxCompressed s), (''receive_multicast'', RxMulticast s),
      (''transmit_bytes'', TxBytes s), (''transmit_packets'', TxPackets s), (''transmit_fifo'', TxFIFO s),
      (''transmit_colls'', TxCollisions s), (''transmit_carrier'', TxCarrier s), (''transmit_compressed'', TxCompressed s),
      (''receive_errs'', RxErrors s), (''receive_drop'', RxDropped s), (''transmit_errs'', TxErrors s),
      (''transmit_drop'', TxDropped s)]"
  by (simp add: legacy_def proc_metrics_def move_def pop_def popz_def)

text \<open>The descriptor cache only grows, and after a loop it holds the descriptor each metric used.\<close>

definition cache_le :: "netDevCollector \<Rightarrow> netDevCollector \<Rightarrow> bool" where
  "cache_le c c' \<longleftrightarrow> nd_filter c' = nd_filter c \<and> (\<forall>k d. map_get (metricDescs c) k = Some d \<longrightarrow> map_get (metricDescs c') k = Some d)"

lemma cache_le_refl [simp]: "cache_le c c"
  by (simp add: cache_le_def)

lemma cache_le_trans: "cache_le a b \<Longrightarrow> cache_le b c \<Longrightarrow> cache_le a c"
  by (simp add: cache_le_def)

lemma metricDesc_spec:
  "metricDesc key labels c = (c', d) \<Longrightarrow> cache_le c c' \<and> map_get (metricDescs c') key = Some d"
  by (auto simp: metricDesc_def cache_le_def Let_def split: option.splits)

definition key_metric :: "netDevCollector \<Rightarrow> string list \<Rightarrow> string \<times> uint64 \<Rightarrow> metric" where
  "key_metric c lvs = (\<lambda>(key, v).
     MustNewConstMetric (the (map_get (metricDescs c) key)) CounterValue (f64_of_nat (unat v)) lvs)"

lemma send_keys_spec:
  "send_keys labels lvs kvs c = (c', ms) \<Longrightarrow>
     cache_le c c' \<and> fst ` set kvs \<subseteq> dom (map_get (metricDescs c')) \<and>
     (\<forall>c''. cache_le c' c'' \<longrightarrow> ms = map (key_metric c'' lvs) kvs)"
proof (induction kvs arbitrary: c c' ms)
  case (Cons kv kvs)
  obtain key v where kv: "kv = (key, v)" by fastforce
  obtain c1 d where 1: "metricDesc key labels c = (c1, d)" by fastforce
  obtain ms' where 2: "send_keys labels lvs kvs c1 = (c', ms')"
    and ms: "ms = MustNewConstMetric d CounterValue (f64_of_nat (unat v)) lvs # ms'"
    using Cons.prems kv 1 by (auto simp: Let_def split: prod.splits)
  from Cons.IH [OF 2] metricDesc_spec [OF 1] kv ms show ?case
    by (auto simp: key_metric_def cache_le_def)
qed simp

definition dev_stats :: "netdevFlags \<Rightarrow> devStats \<Rightarrow> devStats" where
  "dev_stats fl stats = (if netdevDetailedMetrics fl then stats else legacy stats)"

definition dev_metrics ::
  "netdevEnv \<Rightarrow> netdevFlags \<Rightarrow> (string, (string, string) gomap) gomap \<Rightarrow> netDevCollector \<Rightarrow> string \<times> devStats \<Rightarrow> metric list" where
  "dev_metrics env fl labs c = (\<lambda>(dev, stats).
     map (key_metric c (dev # map snd (map_get_z [] labs dev))) (ord_keys env (dev_stats fl stats)))"

lemma send_devices_Cons:
  "send_devices env fl labs ((dev, stats) # ds) c =
     (let (c1, ms) = send_keys (''device'' # map fst (map_get_z [] labs dev)) (dev # map snd (map_get_z [] labs dev))
                       (ord_keys env (dev_stats fl stats)) c;
          (c2, ms') = send_devices env fl labs ds c1
      in (c2, ms @ ms'))"
  by (simp add: dev_stats_def Let_def)


lemma send_devices_spec:
  "send_devices env fl labs ds c = (c', ms) \<Longrightarrow>
     cache_le c c' \<and> (\<forall>(dev, stats) \<in> set ds. fst ` set (ord_keys env (dev_stats fl stats)) \<subseteq> dom (map_get (metricDescs c'))) \<and>
     (\<forall>c''. cache_le c' c'' \<longrightarrow> ms = concat (map (dev_metrics env fl labs c'') ds))"
proof (induction ds arbitrary: c c' ms)
  case (Cons d ds)
  obtain dev stats where d: "d = (dev, stats)" by fastforce
  let ?dl = "map_get_z [] labs dev"
  obtain c1 ms1 where 1: "send_keys (''device'' # map fst ?dl) (dev # map snd ?dl) (ord_keys env (dev_stats fl stats)) c = (c1, ms1)"
    by fastforce
  obtain c2 ms2 where 2: "send_devices env fl labs ds c1 = (c2, ms2)" by fastforce
  have "(c2, ms1 @ ms2) = (c', ms)"
    using Cons.prems unfolding d send_devices_Cons 1 Let_def prod.case 2 .
  then have ms: "ms = ms1 @ ms2" and 2: "send_devices env fl labs ds c1 = (c', ms2)" using 2 by simp_all
  note s1 = send_keys_spec [OF 1, THEN conjunct1] send_keys_spec [OF 1, THEN conjunct2, THEN conjunct1]
    send_keys_spec [OF 1, THEN conjunct2, THEN conjunct2, rule_format]
  note s2 = Cons.IH [OF 2, THEN conjunct1] Cons.IH [OF 2, THEN conjunct2, THEN conjunct1]
    Cons.IH [OF 2, THEN conjunct2, THEN conjunct2, rule_format]
  have "cache_le c c'" by (rule cache_le_trans [OF s1(1) s2(1)])
  moreover have "dom (map_get (metricDescs c1)) \<subseteq> dom (map_get (metricDescs c'))"
    using s2(1) by (auto simp: cache_le_def)
  then have "fst ` set (ord_keys env (dev_stats fl stats)) \<subseteq> dom (map_get (metricDescs c'))"
    using s1(2) by (rule subset_trans [rotated])
  moreover have "ms = concat (map (dev_metrics env fl labs c'') (d # ds))" if "cache_le c' c''" for c''
    using s1(3) [OF cache_le_trans [OF s2(1) that]] s2(3) [OF that] ms d by (simp add: dev_metrics_def)
  ultimately show ?case using s2(2) d by simp
qed simp

section \<open>The contract\<close>

text \<open>
  A descriptor is cached by its key alone, so every device has to come with the same label names:
  all cached descriptors have as many labels as the flags ask for.
\<close>

definition label_count :: "netdevFlags \<Rightarrow> nat" where
  "label_count fl = (if netdevLabelIfAlias fl then 2 else 1)"

definition descs_have :: "nat \<Rightarrow> netDevCollector \<Rightarrow> bool" where
  "descs_have n c \<longleftrightarrow> (\<forall>k d. map_get (metricDescs c) k = Some d \<longrightarrow> length (desc_labels d) = n)"

lemma metricDesc_labels:
  assumes "metricDesc key labels c = (c', d)" "descs_have n c" "length labels = n"
  shows "descs_have n c'" "length (desc_labels d) = n"
  using assms by (auto simp: metricDesc_def descs_have_def Let_def split: option.splits if_splits)

lemma send_keys_labels:
  "send_keys labels lvs kvs c = (c', ms) \<Longrightarrow> descs_have n c \<Longrightarrow> length labels = n \<Longrightarrow> length lvs = n \<Longrightarrow>
     descs_have n c' \<and> list_all labels_ok ms"
proof (induction kvs arbitrary: c c' ms)
  case (Cons kv kvs)
  obtain key v where kv: "kv = (key, v)" by fastforce
  obtain c1 d where 1: "metricDesc key labels c = (c1, d)" by fastforce
  obtain ms' where 2: "send_keys labels lvs kvs c1 = (c', ms')"
    and ms: "ms = MustNewConstMetric d CounterValue (f64_of_nat (unat v)) lvs # ms'"
    using Cons.prems(1) kv 1 by (auto simp: Let_def split: prod.splits)
  from metricDesc_labels [OF 1 Cons.prems(2,3)] Cons.IH [OF 2] Cons.prems(3,4) ms show ?case by simp
qed simp

lemma send_devices_labels:
  "send_devices env fl labs ds c = (c', ms) \<Longrightarrow> descs_have n c \<Longrightarrow>
   (\<And>dev stats. (dev, stats) \<in> set ds \<Longrightarrow> Suc (length (map_get_z [] labs dev)) = n) \<Longrightarrow>
     descs_have n c' \<and> list_all labels_ok ms"
proof (induction ds arbitrary: c c' ms)
  case (Cons d ds)
  obtain dev stats where d: "d = (dev, stats)" by fastforce
  let ?dl = "map_get_z [] labs dev"
  obtain c1 ms1 where 1: "send_keys (''device'' # map fst ?dl) (dev # map snd ?dl) (ord_keys env (dev_stats fl stats)) c = (c1, ms1)"
    by fastforce
  obtain c2 ms2 where 2: "send_devices env fl labs ds c1 = (c2, ms2)" by fastforce
  have eq: "(c2, ms1 @ ms2) = (c', ms)"
    using Cons.prems(1) unfolding d send_devices_Cons 1 Let_def prod.case 2 .
  have "Suc (length ?dl) = n" by (rule Cons.prems(3) [of dev stats]) (simp add: d)
  then have 3: "descs_have n c1 \<and> list_all labels_ok ms1" by (intro send_keys_labels [OF 1 Cons.prems(2)]) simp_all
  have "descs_have n c2 \<and> list_all labels_ok ms2"
    by (rule Cons.IH [OF 2]) (use 3 Cons.prems(3) in auto)
  with 3 eq show ?case by auto
qed simp

lemma ifalias_labels:
  "length (map_get_z [] (fold (\<lambda>(iface, ifAlias) m. map_put iface [(''ifalias'', ifAlias)] m) ifs m) dev) =
     (if dev \<in> fst ` set ifs then 1 else length (map_get_z [] m dev))"
proof (induction ifs arbitrary: m)
  case (Cons i ifs)
  then show ?case by (cases i) (auto simp: map_get_z_def)
qed simp

definition netdev_pre :: "netdevEnv \<times> netdevFlags \<times> netDevCollector \<Rightarrow> bool" where
  "netdev_pre = (\<lambda>(env, fl, c).
     descs_have (label_count fl) c \<and> range_order (ord_devices env) \<and>
     (\<forall>netDev ifs. netdevLabelIfAlias fl \<and> getNetDevStats env fl (nd_filter c) = Ok netDev \<and> sysfs_NetClass env = Ok ifs \<longrightarrow>
        fst ` set netDev \<subseteq> fst ` set ifs) \<and>
     \<not> panics (rtnetlink_Links env) \<and> \<not> panics (nd_procfs_NewFS env) \<and> \<not> panics (procfs_NetDev env) \<and>
     \<not> panics (nd_sysfs_NewFS env) \<and> \<not> panics (sysfs_NetClass env) \<and> \<not> panics (net_Interfaces env))"

lemma getNetDevLabels_count:
  assumes "netdev_pre (env, fl, c)" "getNetDevStats env fl (nd_filter c) = Ok netDev" "getNetDevLabels env fl = Ok labs"
    and "dev \<in> fst ` set netDev"
  shows "Suc (length (map_get_z [] labs dev)) = label_count fl"
proof (cases "netdevLabelIfAlias fl")
  case True
  then obtain ifs where ifs: "sysfs_NetClass env = Ok ifs"
    and labs: "labs = fold (\<lambda>(iface, ifAlias) m. map_put iface [(''ifalias'', ifAlias)] m) ifs []"
    using assms(3) by (auto simp: getNetDevLabels_def go_simps)
  have "dev \<in> fst ` set ifs" using assms(1,2,4) True ifs by (auto simp: netdev_pre_def)
  then show ?thesis using True by (simp add: labs ifalias_labels label_count_def)
next
  case False
  then show ?thesis using assms(3) by (simp add: getNetDevLabels_def label_count_def map_get_z_def)
qed

lemma netdev_addresses_ok: "upd_ok (netdev_addresses env fl c)"
  unfolding netdev_addresses_def
  by (auto intro!: upd_ok_with_res simp: list_all_iff netAddressDesc_def)

lemma netdev_Update_Ok_unfold:
  assumes "getNetDevStats env fl (nd_filter c) = Ok netDev" "getNetDevLabels env fl = Ok labs"
    and "send_devices env fl labs (ord_devices env netDev) c = (c', ms)"
  shows "netdev_Update env fl c = (c', seq (emit ms) (netdev_addresses env fl c))"
  using assms by (simp add: netdev_Update_def)

lemma netdev_stats_no_panic:
  "netdev_pre (env, fl, c) \<Longrightarrow> \<not> panics (getNetDevStats env fl f)"
  "netdev_pre (env, fl, c) \<Longrightarrow> \<not> panics (getNetDevLabels env fl)"
  "netdev_pre (env, fl, c) \<Longrightarrow> \<not> panics (snd (netdev_addresses env fl c))"
  by (auto simp: netdev_pre_def getNetDevStats_def netlinkStats_def procNetDevStats_def getNetDevLabels_def
      netdev_addresses_def panics_bind_res panics_with_res)

text \<open>Every update keeps the cache in step with the flags and sends well-formed metrics only.\<close>

lemma netdev_Update_ok:
  assumes "netdev_pre (env, fl, c)"
  shows "descs_have (label_count fl) (fst (netdev_Update env fl c)) \<and> upd_ok (snd (netdev_Update env fl c)) \<and>
    \<not> panics (snd (snd (netdev_Update env fl c)))"
proof -
  have d: "descs_have (label_count fl) c" using assms by (simp add: netdev_pre_def)
  consider (go) netDev labs where "getNetDevStats env fl (nd_filter c) = Ok netDev" "getNetDevLabels env fl = Ok labs"
    | (stop) e where "netdev_Update env fl c = (c, fail e)"
    using netdev_stats_no_panic(1) [OF assms, of "nd_filter c"] netdev_stats_no_panic(2) [OF assms]
    by (cases "getNetDevStats env fl (nd_filter c)"; cases "getNetDevLabels env fl") (auto simp: netdev_Update_def)
  then show ?thesis
  proof cases
    case go
    obtain c' ms where s: "send_devices env fl labs (ord_devices env netDev) c = (c', ms)" by fastforce
    have ord: "set (ord_devices env netDev) = set netDev" using assms by (simp add: netdev_pre_def)
    have n: "Suc (length (map_get_z [] labs dev)) = label_count fl" if "(dev, st) \<in> set (ord_devices env netDev)" for dev st
      using getNetDevLabels_count [OF assms go, of dev] that ord by force
    have "descs_have (label_count fl) c' \<and> list_all labels_ok ms"
      by (rule send_devices_labels [OF s d n])
    then show ?thesis
      using netdev_addresses_ok [of env fl c] netdev_stats_no_panic(3) [OF assms] netdev_Update_Ok_unfold [OF go s]
      by (simp add: upd_ok_def)
  next
    case stop
    then show ?thesis using d by simp
  qed
qed

interpretation netdev: safe_collector_contract "\<lambda>(env, fl, c). snd (netdev_Update env fl c)" netdev_pre
  by unfold_locales (use netdev_Update_ok in auto)

text \<open>Between scrapes the collector keeps its descriptors in step with the labels and never changes its filter.\<close>

lemma send_devices_filter: "nd_filter (fst (send_devices env fl labs ds c)) = nd_filter c"
proof -
  have k: "nd_filter (fst (send_keys labels lvs kvs c)) = nd_filter c" for labels lvs kvs c
    by (induction kvs arbitrary: c) (auto simp: metricDesc_def case_prod_beta Let_def split: option.splits)
  show ?thesis by (induction ds arbitrary: c) (auto simp: k case_prod_beta Let_def)
qed

lemma netdev_Update_filter: "nd_filter (fst (netdev_Update env fl c)) = nd_filter c"
  by (auto simp: netdev_Update_def send_devices_filter case_prod_beta Let_def split: res.splits)

interpretation netdev_state: stateful_collector "\<lambda>env. netdev_Update env fl"
  "\<lambda>env. \<forall>c. descs_have (label_count fl) c \<longrightarrow> nd_filter c = f \<longrightarrow> netdev_pre (env, fl, c)"
  "\<lambda>c. descs_have (label_count fl) c \<and> nd_filter c = f" for fl f
  by unfold_locales (use netdev_Update_ok in \<open>auto simp: netdev_Update_filter sound_def\<close>)


section \<open>Properties\<close>

text \<open>One renaming step on the map: the source and the extra counters are gone, and their sum is under the new name.\<close>

definition moved :: "(string \<Rightarrow> uint64 option) \<Rightarrow> string \<Rightarrow> string list \<Rightarrow> string \<Rightarrow> string \<Rightarrow> uint64 option" where
  "moved g from extra to k =
     (case g from of
        None \<Rightarrow> g k
      | Some v \<Rightarrow>
          if k = to then Some (v + (\<Sum>x \<leftarrow> extra. case g x of None \<Rightarrow> 0 | Some z \<Rightarrow> z))
          else if k = from \<or> k \<in> set extra then None else g k)"

lemma popz_add_get:
  assumes "distinct ks"
  shows "fst (popz_add ks v m) = v + (\<Sum>x \<leftarrow> ks. case map_get m x of None \<Rightarrow> 0 | Some z \<Rightarrow> z) \<and>
    map_get (snd (popz_add ks v m)) k = (if k \<in> set ks then None else map_get m k)"
  using assms
proof (induction ks arbitrary: v m)
  case (Cons x ks)
  have "(\<Sum>y \<leftarrow> ks. case map_get (map_del x m) y of None \<Rightarrow> 0 | Some z \<Rightarrow> z) = (\<Sum>y \<leftarrow> ks. case map_get m y of None \<Rightarrow> (0 :: uint64) | Some z \<Rightarrow> z)"
    using Cons.prems by (intro arg_cong [where f = sum_list] map_cong) auto
  then show ?case using Cons by (auto simp: popz_def case_prod_beta Let_def split: option.splits)
qed simp

lemma move_get:
  assumes "distinct (from # extra)" "to \<notin> set (from # extra)"
  shows "map_get (move from extra to m) = moved (map_get m) from extra to"
proof
  fix k
  have sum: "(\<Sum>y \<leftarrow> extra. case map_get (map_del from m) y of None \<Rightarrow> 0 | Some z \<Rightarrow> z) = (\<Sum>y \<leftarrow> extra. case map_get m y of None \<Rightarrow> (0 :: uint64) | Some z \<Rightarrow> z)"
    using assms(1) by (intro arg_cong [where f = sum_list] map_cong) auto
  have "map_get (map_put to (fst (popz_add extra v (map_del from m))) (snd (popz_add extra v (map_del from m)))) k =
      (if k = to then Some (v + (\<Sum>y \<leftarrow> extra. case map_get m y of None \<Rightarrow> 0 | Some z \<Rightarrow> z))
       else if k = from \<or> k \<in> set extra then None else map_get m k)" for v
    using popz_add_get [of extra v "map_del from m" k] assms sum by auto
  then show "map_get (move from extra to m) k = moved (map_get m) from extra to k"
    by (auto simp: move_def moved_def pop_def case_prod_beta Let_def split: option.splits)
qed

text \<open>A step concerns its own names only.\<close>

lemma moved_other: "k \<noteq> from \<Longrightarrow> k \<noteq> to \<Longrightarrow> k \<notin> set extra \<Longrightarrow> moved g from extra to k = g k"
  by (simp add: moved_def split: option.split)

lemma moved_from: "from \<noteq> to \<Longrightarrow> moved g from extra to from = None"
  by (simp add: moved_def split: option.split)

lemma moved_extra: "k \<in> set extra \<Longrightarrow> k \<noteq> from \<Longrightarrow> k \<noteq> to \<Longrightarrow> moved g from extra to k = (if g from = None then g k else None)"
  by (simp add: moved_def split: option.split)

lemma moved_to:
  "moved g from extra to to = (if g from = None then g to
     else Some (the (g from) + (\<Sum>x \<leftarrow> extra. case g x of None \<Rightarrow> 0 | Some z \<Rightarrow> z)))"
  by (simp add: moved_def split: option.split)

lemmas moved_at = moved_other moved_from moved_extra moved_to

lemma legacy_get:
  "map_get (legacy m) =
     (\<lambda>k. moved (moved (moved (moved (moved (moved (moved (moved (moved (moved (moved (map_get m)
        ''receive_errors'' [] ''receive_errs'')
        ''receive_dropped'' [''receive_missed_errors''] ''receive_drop'')
        ''receive_fifo_errors'' [] ''receive_fifo'')
        ''receive_frame_errors'' [''receive_length_errors'', ''receive_over_errors'', ''receive_crc_errors''] ''receive_frame'')
        ''multicast'' [] ''receive_multicast'')
        ''transmit_errors'' [] ''transmit_errs'')
        ''transmit_dropped'' [] ''transmit_drop'')
        ''transmit_fifo_errors'' [] ''transmit_fifo'')
        ''multicast'' [] ''receive_multicast'')
        ''collisions'' [] ''transmit_colls'')
        ''transmit_carrier_errors'' [''transmit_aborted_errors'', ''transmit_heartbeat_errors'', ''transmit_window_errors''] ''transmit_carrier'' k)"
  unfolding legacy_def comp_def by (simp add: move_get)

definition legacy_changed :: "string list" where
  "legacy_changed =
     [''receive_errs'', ''receive_drop'', ''receive_fifo'', ''receive_frame'', ''receive_multicast'', ''transmit_errs'', ''transmit_drop'', ''transmit_fifo'',
      ''transmit_colls'', ''transmit_carrier'', ''receive_errors'', ''receive_dropped'', ''receive_fifo_errors'', ''receive_frame_errors'', ''multicast'',
      ''transmit_errors'', ''transmit_dropped'', ''transmit_fifo_errors'', ''collisions'', ''transmit_carrier_errors'', ''receive_missed_errors'',
      ''receive_length_errors'', ''receive_over_errors'', ''receive_crc_errors'', ''transmit_aborted_errors'', ''transmit_heartbeat_errors'',
      ''transmit_window_errors'']"

lemma legacy_other: "k \<notin> set legacy_changed \<Longrightarrow> map_get (legacy m) k = map_get m k"
  by (simp add: legacy_get legacy_changed_def moved_other)

text \<open>
  C30: The legacy names, for any statistics of a device: each legacy counter is the counter it replaces, with the ones the
  kernel folds into it added at 64 bits (a receive drop counts the missed packets, a frame error the length, overrun and CRC
  errors, a carrier error the aborted, heartbeat and window errors); a counter that is not there leaves its legacy name as
  it was; the replaced names are gone, those folded in are gone when what they belong to was there, and every other counter
  is untouched.
\<close>

theorem legacy_exact:
  fixes m :: devStats
  defines "g \<equiv> map_get m"
  defines "z \<equiv> \<lambda>k. case g k of None \<Rightarrow> 0 | Some v \<Rightarrow> v"
  shows "map_get (legacy m) = (\<lambda>k.
    if k = ''receive_errs'' then (if g ''receive_errors'' = None then g k else Some (z ''receive_errors''))
    else if k = ''receive_drop'' then (if g ''receive_dropped'' = None then g k else Some (z ''receive_dropped'' + z ''receive_missed_errors''))
    else if k = ''receive_fifo'' then (if g ''receive_fifo_errors'' = None then g k else Some (z ''receive_fifo_errors''))
    else if k = ''receive_frame'' then (if g ''receive_frame_errors'' = None then g k
      else Some (z ''receive_frame_errors'' + z ''receive_length_errors'' + z ''receive_over_errors'' + z ''receive_crc_errors''))
    else if k = ''receive_multicast'' then (if g ''multicast'' = None then g k else Some (z ''multicast''))
    else if k = ''transmit_errs'' then (if g ''transmit_errors'' = None then g k else Some (z ''transmit_errors''))
    else if k = ''transmit_drop'' then (if g ''transmit_dropped'' = None then g k else Some (z ''transmit_dropped''))
    else if k = ''transmit_fifo'' then (if g ''transmit_fifo_errors'' = None then g k else Some (z ''transmit_fifo_errors''))
    else if k = ''transmit_colls'' then (if g ''collisions'' = None then g k else Some (z ''collisions''))
    else if k = ''transmit_carrier'' then (if g ''transmit_carrier_errors'' = None then g k
      else Some (z ''transmit_carrier_errors'' + z ''transmit_aborted_errors'' + z ''transmit_heartbeat_errors'' + z ''transmit_window_errors''))
    else if k \<in> {''receive_errors'', ''receive_dropped'', ''receive_fifo_errors'', ''receive_frame_errors'', ''multicast'', ''transmit_errors'',
      ''transmit_dropped'', ''transmit_fifo_errors'', ''collisions'', ''transmit_carrier_errors''} then None
    else if k = ''receive_missed_errors'' then (if g ''receive_dropped'' = None then g k else None)
    else if k \<in> {''receive_length_errors'', ''receive_over_errors'', ''receive_crc_errors''} then (if g ''receive_frame_errors'' = None then g k else None)
    else if k \<in> {''transmit_aborted_errors'', ''transmit_heartbeat_errors'', ''transmit_window_errors''}
      then (if g ''transmit_carrier_errors'' = None then g k else None)
    else g k)"
proof (rule ext, goal_cases)
  case (1 k)
  show ?case
  proof (cases "k \<in> set legacy_changed")
    case True
    then show ?thesis
      unfolding g_def z_def legacy_changed_def list.set insert_iff empty_iff
      by (elim disjE FalseE; hypsubst) (simp_all add: legacy_get moved_at split: option.split)
  next
    case False
    show ?thesis using False unfolding legacy_other [OF False] by (simp add: g_def legacy_changed_def)
  qed
qed

theorem legacy_exact_witness:
  "map (map_get (legacy [(''receive_dropped'', 5), (''receive_missed_errors'', - 1), (''receive_length_errors'', 3), (''receive_nohandler'', 4)]))
     [''receive_drop'', ''receive_dropped'', ''receive_missed_errors'', ''receive_length_errors'', ''receive_nohandler'', ''receive_errs''] =
   [Some 4, None, None, Some 3, Some 4, None]"
  by (simp add: legacy_exact)

text \<open>The messages that count for a device: those with attributes and statistics of a device not ignored.\<close>

definition reports :: "deviceFilter \<Rightarrow> string \<Rightarrow> linkAttributes option \<Rightarrow> bool" where
  "reports f name msg \<longleftrightarrow>
     (case msg of None \<Rightarrow> False | Some a \<Rightarrow> la_Name a = name \<and> \<not> ignored f name \<and> link_stats a \<noteq> None)"

text \<open>
  The statistics of a device are those of the last netlink message about it that has any, its
  64-bit counters or else the widened 32-bit ones; ignored devices and devices without statistics do
  not appear.
\<close>

theorem parseNetlinkStats_get:
  "map_get (parseNetlinkStats links f) name =
     (case rev (filter (reports f name) links) of
        Some a # _ \<Rightarrow> map_option netlink_metrics (link_stats a)
      | _ \<Rightarrow> None)"
proof (induction links rule: rev_induct)
  case (snoc msg links)
  have "map_get (parse_link f msg m) name =
      (if reports f name msg then map_option netlink_metrics (link_stats (the msg)) else map_get m name)" for m
    by (auto simp: parse_link_def reports_def split: option.splits)
  moreover have "reports f name msg \<Longrightarrow> \<exists>a. msg = Some a" by (simp add: reports_def split: option.splits)
  ultimately show ?case using snoc by (auto simp: parseNetlinkStats_def)
qed (simp add: parseNetlinkStats_def)

text \<open>
  Falling back on 32-bit statistics keeps every counter's value.
\<close>

theorem widen_exact:
  "map (\<lambda>(k, v). (k, unat v)) (netlink_metrics (widen s)) =
     [(''receive_packets'', unat (RXPackets s)), (''transmit_packets'', unat (TXPackets s)),
      (''receive_bytes'', unat (RXBytes s)), (''transmit_bytes'', unat (TXBytes s)),
      (''receive_errors'', unat (RXErrors s)), (''transmit_errors'', unat (TXErrors s)),
      (''receive_dropped'', unat (RXDropped s)), (''transmit_dropped'', unat (TXDropped s)),
      (''multicast'', unat (Multicast s)), (''collisions'', unat (Collisions s)),
      (''receive_length_errors'', unat (RXLengthErrors s)), (''receive_over_errors'', unat (RXOverErrors s)),
      (''receive_crc_errors'', unat (RXCRCErrors s)), (''receive_frame_errors'', unat (RXFrameErrors s)),
      (''receive_fifo_errors'', unat (RXFIFOErrors s)), (''receive_missed_errors'', unat (RXMissedErrors s)),
      (''transmit_aborted_errors'', unat (TXAbortedErrors s)), (''transmit_carrier_errors'', unat (TXCarrierErrors s)),
      (''transmit_fifo_errors'', unat (TXFIFOErrors s)), (''transmit_heartbeat_errors'', unat (TXHeartbeatErrors s)),
      (''transmit_window_errors'', unat (TXWindowErrors s)),
      (''receive_compressed'', unat (RXCompressed s)), (''transmit_compressed'', unat (TXCompressed s)),
      (''receive_nohandler'', unat (RXNoHandler s))]"
proof -
  have "unat (ucast w :: uint64) = unat w" for w :: uint32
    using unsigned_less [of w, where ?'a = nat] by (simp add: unsigned_ucast_eq take_bit_nat_eq_self)
  then show ?thesis by (simp add: netlink_metrics_def widen_def)
qed

text \<open>
  A successful scrape sends one counter for every device and counter, in the order the runtime
  iterates them, with the descriptor its key has in the cache; the cache only grows.
\<close>

theorem netdev_Update_sends:
  assumes "getNetDevStats env fl (nd_filter c) = Ok netDev" "getNetDevLabels env fl = Ok labs"
    and "netdevAddressInfo fl = False"
  shows "\<exists>c'. netdev_Update env fl c = (c', emit (concat (map (dev_metrics env fl labs c') (ord_devices env netDev)))) \<and>
     cache_le c c'"
proof -
  obtain c' ms where s: "send_devices env fl labs (ord_devices env netDev) c = (c', ms)" by fastforce
  from netdev_Update_Ok_unfold [OF assms(1,2) s] send_devices_spec [OF s] assms(3) show ?thesis
    by (intro exI [of _ c']) (simp add: netdev_addresses_def emit_def)
qed

definition demo_link :: "string \<Rightarrow> linkAttributes option" where
  "demo_link name = Some \<lparr>la_Name = name, la_Stats64 = None, la_Stats = Some \<lparr>RXPackets = 1, TXPackets = 2, RXBytes = 3, TXBytes = 4,
     RXErrors = 0, TXErrors = 0, RXDropped = 5, TXDropped = 0, Multicast = 0, Collisions = 0, RXLengthErrors = 0,
     RXOverErrors = 0, RXCRCErrors = 0, RXFrameErrors = 0, RXFIFOErrors = 0, RXMissedErrors = 6, TXAbortedErrors = 0,
     TXCarrierErrors = 0, TXFIFOErrors = 0, TXHeartbeatErrors = 0, TXWindowErrors = 0, RXCompressed = 0,
     TXCompressed = 0, RXNoHandler = 0\<rparr>\<rparr>"

definition demo_netdev_env :: netdevEnv where
  "demo_netdev_env = \<lparr>rtnetlink_Links = Ok [demo_link ''lo'', demo_link ''eth0''], nd_procfs_NewFS = Ok (), procfs_NetDev = Ok [],
     nd_sysfs_NewFS = Ok (), sysfs_NetClass = Ok [(''eth0'', ''uplink'')], net_Interfaces = Ok [],
     nd_text = \<lparr>ParseCIDR = (\<lambda>s. Err (ExtError s)), ip_String = (\<lambda>_. [])\<rparr>, ord_devices = rev, ord_keys = rev\<rparr>"

definition demo_netdev_flags :: "bool \<Rightarrow> netdevFlags" where
  "demo_netdev_flags alias = \<lparr>netdevDeviceInclude = [], oldNetdevDeviceInclude = [], netdevDeviceExclude = [],
     oldNetdevDeviceExclude = [], netdevAddressInfo = False, netdevDetailedMetrics = False, netDevNetlink = True,
     netdevLabelIfAlias = alias\<rparr>"

definition demo_netdev :: netDevCollector where
  "demo_netdev = \<lparr>nd_filter = \<lparr>ignorePattern = None, acceptPattern = None\<rparr>, metricDescs = []\<rparr>"

lemma demo_getNetDevStats:
  "getNetDevStats demo_netdev_env (demo_netdev_flags alias) (nd_filter demo_netdev) =
     Ok [(''lo'', netlink_metrics (the (link_stats (the (demo_link []))))),
         (''eth0'', netlink_metrics (the (link_stats (the (demo_link [])))))]"
  by (simp add: getNetDevStats_def netlinkStats_def demo_netdev_env_def demo_netdev_flags_def demo_netdev_def
      parseNetlinkStats_def parse_link_def ignored_def demo_link_def link_stats_def)

theorem netdev_Update_sends_witness:
  "\<exists>netDev c'. netdev_Update demo_netdev_env (demo_netdev_flags False) demo_netdev =
      (c', emit (concat (map (dev_metrics demo_netdev_env (demo_netdev_flags False) [] c') (ord_devices demo_netdev_env netDev)))) \<and>
     cache_le demo_netdev c'"
proof -
  have "getNetDevLabels demo_netdev_env (demo_netdev_flags False) = Ok []"
    by (simp add: getNetDevLabels_def demo_netdev_flags_def)
  from netdev_Update_sends [OF demo_getNetDevStats this] show ?thesis by (auto simp: demo_netdev_flags_def)
qed

text \<open>
  With the alias label on, a device that netlink lists and sysfs does not know (one that
  appeared in between) shares its descriptors with the devices that have an alias: one of the two
  gets a metric whose label values do not fit its descriptor, for which \<^verbatim>\<open>MustNewConstMetric\<close> panics.
\<close>

theorem netdev_alias_mismatch:
  assumes "getNetDevStats env fl (nd_filter c) = Ok netDev" "getNetDevLabels env fl = Ok labs"
    and "range_order (ord_devices env)" "range_order (ord_keys env)"
    and "(d1, s1) \<in> set netDev" "(d2, s2) \<in> set netDev"
    and "map_get labs d1 = Some [(''ifalias'', a)]" "map_get labs d2 = None"
    and "(key, v1) \<in> set (dev_stats fl s1)" "(key, v2) \<in> set (dev_stats fl s2)"
  shows "\<not> upd_ok (snd (netdev_Update env fl c))"
proof -
  obtain c' ms where s: "send_devices env fl labs (ord_devices env netDev) c = (c', ms)" by fastforce
  have ms: "ms = concat (map (dev_metrics env fl labs c') (ord_devices env netDev))"
    using send_devices_spec [OF s] by simp
  let ?m = "\<lambda>d v. key_metric c' (d # map snd (map_get_z [] labs d)) (key, v)"
  have "?m d v \<in> set ms" if "(d, st) \<in> set netDev" "(key, v) \<in> set (dev_stats fl st)" for d st v
    using that assms(3,4) by (auto simp: ms dev_metrics_def)
  then have "?m d1 v1 \<in> set ms" "?m d2 v2 \<in> set ms" using assms(5,6,9,10) by blast+
  moreover have "\<not> (labels_ok (?m d1 v1) \<and> labels_ok (?m d2 v2))"
    using assms(7,8) by (simp add: key_metric_def map_get_z_def)
  ultimately have "\<not> list_all labels_ok ms" by (auto simp: list_all_iff)
  then show ?thesis using netdev_Update_Ok_unfold [OF assms(1,2) s] by (simp add: upd_ok_def)
qed

theorem netdev_alias_mismatch_witness:
  "\<not> upd_ok (snd (netdev_Update demo_netdev_env (demo_netdev_flags True) demo_netdev))"
proof -
  have labs: "getNetDevLabels demo_netdev_env (demo_netdev_flags True) = Ok [(''eth0'', [(''ifalias'', ''uplink'')])]"
    by (simp add: getNetDevLabels_def demo_netdev_env_def demo_netdev_flags_def)
  have ord: "range_order (ord_devices demo_netdev_env)" "range_order (ord_keys demo_netdev_env)"
    by (simp_all add: demo_netdev_env_def range_order_def)
  let ?s = "netlink_metrics (the (link_stats (the (demo_link []))))"
  have key: "(''receive_bytes'', RXBytes (the (link_stats (the (demo_link []))))) \<in> set (dev_stats (demo_netdev_flags True) ?s)"
    by (simp add: dev_stats_def demo_netdev_flags_def netlink_legacy)
  show ?thesis
    by (rule netdev_alias_mismatch [OF demo_getNetDevStats labs ord, of "''eth0''" _ "''lo''", OF _ _ _ _ key key]) simp_all
qed

text \<open>The pattern a pair of flags gives.\<close>

definition effective :: "string \<Rightarrow> string \<Rightarrow> string" where
  "effective new old = (if new = [] then old else new)"

text \<open>
  The device flags of the collector are exclusive: creation succeeds only when the deprecated
  and the current spelling are not both given and at most one of exclude and include is, and then the
  filter ignores exactly what the given pattern says.
\<close>

theorem NewNetDevCollector_filters:
  assumes "snd (NewNetDevCollector fl) = Ok c"
  shows "\<exists>excl incl.
     excl = effective (netdevDeviceExclude fl) (oldNetdevDeviceExclude fl) \<and>
     incl = effective (netdevDeviceInclude fl) (oldNetdevDeviceInclude fl) \<and>
     (netdevDeviceExclude fl = [] \<or> oldNetdevDeviceExclude fl = []) \<and>
     (netdevDeviceInclude fl = [] \<or> oldNetdevDeviceInclude fl = []) \<and> (excl = [] \<or> incl = []) \<and>
     (\<forall>name. ignored (nd_filter c) name \<longleftrightarrow>
        (excl \<noteq> [] \<and> pattern_matches excl name) \<or> (incl \<noteq> [] \<and> \<not> pattern_matches incl name))"
proof -
  obtain incl excl f where
    i: "merge_flag (oldNetdevDeviceInclude fl) (netdevDeviceInclude fl)
      ''--collector.netdev.device-whitelist and --collector.netdev.device-include are mutually exclusive'' = Ok incl"
    and e: "merge_flag (oldNetdevDeviceExclude fl) (netdevDeviceExclude fl)
      ''--collector.netdev.device-blacklist and --collector.netdev.device-exclude are mutually exclusive'' = Ok excl"
    and x: "excl = [] \<or> incl = []" and f: "newDeviceFilter excl incl = Ok f" "nd_filter c = f"
    using assms by (auto simp: NewNetDevCollector_def Let_def go_simps split: res.splits if_splits)
  have m: "r = effective new old \<and> (new = [] \<or> old = [])" if "merge_flag old new msg = Ok r" for old new msg r
    using that by (auto simp: merge_flag_def effective_def split: if_splits)
  show ?thesis
    using x m [OF i] m [OF e] dev.skip_iff [OF f(1)] f(2) by blast
qed

theorem NewNetDevCollector_filters_witness:
  "\<exists>c. snd (NewNetDevCollector ((demo_netdev_flags False)\<lparr>oldNetdevDeviceExclude := ''lo''\<rparr>)) = Ok c \<and>
     (\<forall>name. ignored (nd_filter c) name \<longleftrightarrow> pattern_matches ''lo'' name)"
proof -
  have "case snd (NewNetDevCollector ((demo_netdev_flags False)\<lparr>oldNetdevDeviceExclude := ''lo''\<rparr>)) of Ok c \<Rightarrow> True | _ \<Rightarrow> False"
    by code_simp
  then obtain c where c: "snd (NewNetDevCollector ((demo_netdev_flags False)\<lparr>oldNetdevDeviceExclude := ''lo''\<rparr>)) = Ok c"
    by (auto split: res.splits)
  from NewNetDevCollector_filters [OF c] c show ?thesis by (simp add: demo_netdev_flags_def effective_def)
qed

text \<open>What the chosen source reports last about a device; a netlink message counts when it has attributes and statistics.\<close>

definition last_report :: "netdevEnv \<Rightarrow> netdevFlags \<Rightarrow> string \<Rightarrow> devStats option" where
  "last_report env fl name =
     (if netDevNetlink fl then
        (case rtnetlink_Links env of
           Ok links \<Rightarrow>
             (case rev (filter (\<lambda>msg. case msg of None \<Rightarrow> False | Some a \<Rightarrow> la_Name a = name \<and> link_stats a \<noteq> None) links) of
                Some a # _ \<Rightarrow> map_option netlink_metrics (link_stats a)
              | _ \<Rightarrow> None)
         | _ \<Rightarrow> None)
      else
        (case procfs_NetDev env of
           Ok ls \<Rightarrow> (case rev (filter (\<lambda>l. nd_Name l = name) ls) of l # _ \<Rightarrow> Some (proc_metrics l) | [] \<Rightarrow> None)
         | _ \<Rightarrow> None))"

lemma proc_stats_get:
  "map_get (fold (\<lambda>s m. if ignored f (nd_Name s) then m else map_put (nd_Name s) (proc_metrics s) m) ls []) name =
     (if ignored f name then None else case rev (filter (\<lambda>l. nd_Name l = name) ls) of l # _ \<Rightarrow> Some (proc_metrics l) | [] \<Rightarrow> None)"
  by (induction ls rule: rev_induct) auto

lemma getNetDevStats_get:
  assumes "getNetDevStats env fl f = Ok netDev"
  shows "map_get netDev name = (if ignored f name then None else last_report env fl name)"
proof (cases "netDevNetlink fl")
  case True
  then obtain links where l: "rtnetlink_Links env = Ok links" "netDev = parseNetlinkStats links f"
    using assms by (auto simp: getNetDevStats_def netlinkStats_def go_simps)
  have "reports f name = (\<lambda>msg. \<not> ignored f name \<and> (case msg of None \<Rightarrow> False | Some a \<Rightarrow> la_Name a = name \<and> link_stats a \<noteq> None))"
    by (auto simp: reports_def fun_eq_iff split: option.split)
  then show ?thesis using True by (simp add: l parseNetlinkStats_get last_report_def del: not_None_eq)
next
  case False
  then obtain ls where "procfs_NetDev env = Ok ls"
    "netDev = fold (\<lambda>s m. if ignored f (nd_Name s) then m else map_put (nd_Name s) (proc_metrics s) m) ls []"
    using assms by (auto simp: getNetDevStats_def procNetDevStats_def go_simps)
  then show ?thesis using False by (simp add: proc_stats_get last_report_def)
qed

text \<open>
  C31: From the flags to the devices: a network collector is only created when at most one of the exclude and the include
  pattern is given, each under its current or its deprecated name but not both; the devices of a scrape are then exactly
  those that the source (netlink or procfs) reports and the given pattern leaves in, each with the statistics of the last
  report about it. A name is left out by an exclude pattern that matches it or an include pattern that does not.
\<close>

theorem netdev_devices:
  assumes "NewNetDevCollector fl = (fl', Ok c)" "getNetDevStats env fl (nd_filter c) = Ok netDev"
  shows "\<exists>excl incl.
     excl = (if netdevDeviceExclude fl = [] then oldNetdevDeviceExclude fl else netdevDeviceExclude fl) \<and>
     incl = (if netdevDeviceInclude fl = [] then oldNetdevDeviceInclude fl else netdevDeviceInclude fl) \<and>
     (netdevDeviceExclude fl = [] \<or> oldNetdevDeviceExclude fl = []) \<and>
     (netdevDeviceInclude fl = [] \<or> oldNetdevDeviceInclude fl = []) \<and> (excl = [] \<or> incl = []) \<and>
     (\<forall>name. map_get netDev name =
        (if excl \<noteq> [] \<and> pattern_matches excl name \<or> incl \<noteq> [] \<and> \<not> pattern_matches incl name then None
         else last_report env fl name))"
  using NewNetDevCollector_filters [of fl c] assms(1) getNetDevStats_get [OF assms(2)]
  by (simp add: effective_def)

theorem netdev_devices_witness:
  "\<exists>c netDev. snd (NewNetDevCollector ((demo_netdev_flags False)\<lparr>oldNetdevDeviceExclude := ''lo''\<rparr>)) = Ok c \<and>
     getNetDevStats demo_netdev_env ((demo_netdev_flags False)\<lparr>oldNetdevDeviceExclude := ''lo''\<rparr>) (nd_filter c) = Ok netDev \<and>
     map_get netDev ''lo'' = None \<and> map_get netDev ''eth0'' \<noteq> None"
proof -
  let ?fl = "(demo_netdev_flags False)\<lparr>oldNetdevDeviceExclude := ''lo''\<rparr>"
  have "case snd (NewNetDevCollector ?fl) of Ok c \<Rightarrow> True | _ \<Rightarrow> False" by code_simp
  then obtain fl' c where c: "NewNetDevCollector ?fl = (fl', Ok c)" by (cases "NewNetDevCollector ?fl") (auto split: res.splits)
  obtain netDev where n: "getNetDevStats demo_netdev_env ?fl (nd_filter c) = Ok netDev"
    by (simp add: getNetDevStats_def netlinkStats_def demo_netdev_flags_def demo_netdev_env_def)
  have "case Compile ''lo'' of Ok x \<Rightarrow> MatchString x ''lo'' \<and> \<not> MatchString x ''eth0'' | _ \<Rightarrow> False" by code_simp
  then have p: "pattern_matches ''lo'' ''lo''" "\<not> pattern_matches ''lo'' ''eth0''"
    by (auto simp: pattern_matches_def MatchString_iff_matches split: res.splits)
  have r: "last_report demo_netdev_env ?fl ''eth0'' \<noteq> None"
    by (simp add: last_report_def demo_netdev_env_def demo_netdev_flags_def demo_link_def link_stats_def)
  have f: "netdevDeviceExclude ?fl = []" "oldNetdevDeviceExclude ?fl = ''lo''" "netdevDeviceInclude ?fl = []" "oldNetdevDeviceInclude ?fl = []"
    by (simp_all add: demo_netdev_flags_def)
  from netdev_devices [OF c n] have "map_get netDev ''lo'' = None" "map_get netDev ''eth0'' = last_report demo_netdev_env ?fl ''eth0''"
    by (simp_all add: f p)
  with c n r show ?thesis by (metis snd_conv)
qed

end
