(* ===== verification/Filesystem.thy ===== *)
theory Filesystem
  imports Registry Helpers
begin

text \<open>
  The file system collector: \<^verbatim>\<open>filesystem_common.go\<close> and \<^verbatim>\<open>filesystem_linux.go\<close>. Mount tables and \<^verbatim>\<open>statfs\<close>
  are functions of the environment. \<^verbatim>\<open>GetStats\<close> collects what its workers deliver in the order it
  arrives, which is an argument. The watchers that mark a mount point as stuck are a step relation
  of their own: calls of \<^verbatim>\<open>statfs\<close> on one side, timers on the other, both under one mutex.
\<close>

section \<open>Data\<close>

record filesystemLabels =
  device :: string
  mountPoint :: string
  fsType :: string
  mountOptions :: string
  superOptions :: string
  l_deviceError :: string
  major :: string
  minor :: string

record filesystemStats =
  fs_labels :: filesystemLabels
  fs_size :: float64
  fs_free :: float64
  fs_avail :: float64
  fs_files :: float64
  filesFree :: float64
  purgeable :: float64
  fs_ro :: float64
  deviceError :: float64

record MountInfo =
  MajorMinorVer :: string
  MountPoint :: string
  Source :: string
  FSType :: string
  Options :: "(string, string) gomap"
  SuperOptions :: "(string, string) gomap"

record Statfs_t =
  Blocks :: uint64
  Bsize :: "64 word"
  Bfree :: uint64
  Bavail :: uint64
  Files :: uint64
  Ffree :: uint64

record filesystemFlags =
  mountPointsExcludeSet :: bool
  mountPointsExclude :: string
  oldMountPointsExcluded :: string
  mountPointsInclude :: string
  fsTypesExcludeSet :: bool
  fsTypesExclude :: string
  oldFSTypesExcluded :: string
  fsTypesInclude :: string

record filesystemCollector =
  mountPointFilter :: deviceFilter
  fsTypeFilter :: deviceFilter

section \<open>Filters\<close>

text \<open>
  Both filters follow one scheme: the deprecated flag stands in for an exclude flag that was not
  given, an include flag clears the default exclude pattern, and the two exclude each other. The
  result is the exclude flag as it is left behind, and the filter.
\<close>

definition filter_flags :: "string \<Rightarrow> bool \<Rightarrow> string \<Rightarrow> string \<Rightarrow> string \<Rightarrow> string \<Rightarrow> string \<times> deviceFilter res" where
  "filter_flags old exclSet excl incl oldMsg bothMsg =
     (if old \<noteq> [] \<and> exclSet then (excl, Err (NewError oldMsg))
      else let excl1 = (if old \<noteq> [] then old else excl);
               excl2 = (if incl \<noteq> [] \<and> \<not> exclSet then [] else excl1)
           in (excl2, if excl2 \<noteq> [] \<and> incl \<noteq> [] then Err (NewError bothMsg) else newDeviceFilter excl2 incl))"

definition newMountPointsFilter :: "filesystemFlags \<Rightarrow> filesystemFlags \<times> deviceFilter res" where
  "newMountPointsFilter fl =
     (let (excl, r) = filter_flags (oldMountPointsExcluded fl) (mountPointsExcludeSet fl) (mountPointsExclude fl) (mountPointsInclude fl)
        ''--collector.filesystem.ignored-mount-points and --collector.filesystem.mount-points-exclude are mutually exclusive''
        ''--collector.filesystem.mount-points-exclude and --collector.filesystem.mount-points-include are mutually exclusive''
      in (fl\<lparr>mountPointsExclude := excl\<rparr>, r))"

definition newFSTypeFilter :: "filesystemFlags \<Rightarrow> filesystemFlags \<times> deviceFilter res" where
  "newFSTypeFilter fl =
     (let (excl, r) = filter_flags (oldFSTypesExcluded fl) (fsTypesExcludeSet fl) (fsTypesExclude fl) (fsTypesInclude fl)
        ''--collector.filesystem.ignored-fs-types and --collector.filesystem.fs-types-exclude are mutually exclusive''
        ''--collector.filesystem.fs-types-exclude and --collector.filesystem.fs-types-include are mutually exclusive''
      in (fl\<lparr>fsTypesExclude := excl\<rparr>, r))"

definition NewFilesystemCollector :: "filesystemFlags \<Rightarrow> filesystemFlags \<times> filesystemCollector res" where
  "NewFilesystemCollector fl =
     (case newMountPointsFilter fl of
        (fl1, Err e) \<Rightarrow> (fl1, Err (Wrapf ''unable to parse mount points filter flags: %w'' [] e))
      | (fl1, Panic p) \<Rightarrow> (fl1, Panic p)
      | (fl1, Ok mf) \<Rightarrow>
          (case newFSTypeFilter fl1 of
             (fl2, Err e) \<Rightarrow> (fl2, Err (Wrapf ''unable to parse fs types filter flags: %w'' [] e))
           | (fl2, Panic p) \<Rightarrow> (fl2, Panic p)
           | (fl2, Ok tf) \<Rightarrow> (fl2, Ok \<lparr>mountPointFilter = mf, fsTypeFilter = tf\<rparr>)))"

definition defMountPointsExcluded :: string where
  "defMountPointsExcluded = ''^/(dev|proc|run/credentials/.+|sys|var/lib/docker/.+|var/lib/containers/storage/.+)($|/)''"

definition defFSTypesExcluded :: string where
  "defFSTypesExcluded = ''^(autofs|binfmt_misc|bpf|cgroup2?|configfs|debugfs|devpts|devtmpfs|fusectl|hugetlbfs|iso9660|mqueue|nsfs|overlay|proc|procfs|pstore|rpc_pipefs|securityfs|selinuxfs|squashfs|erofs|sysfs|tracefs)$''"

section \<open>The mount table\<close>

text \<open>\<^verbatim>\<open>fmt.Sscanf\<close> with \<^verbatim>\<open>%d\<close>: blanks are skipped, a newline is an error, then an optional sign and digits.\<close>

fun scan_space :: "string \<Rightarrow> string res" where
  "scan_space [] = Ok []"
| "scan_space (c # cs) =
     (if c = nl then Err (NewError ''unexpected newline'')
      else let w = space_width (c # cs) in if w = 0 then Ok (c # cs) else scan_space (drop (w - 1) cs))"

definition scan_int :: "string \<Rightarrow> (int \<times> string) res" where
  "scan_int s =
     bind_res (scan_space s) (\<lambda>t.
       if t = [] then Err (NewError ''unexpected EOF'')
       else let sgn = (if hd t = CHR ''+'' \<or> hd t = CHR ''-'' then [hd t] else []);
                body = drop (length sgn) t;
                digits = takeWhile is_digit body
            in if digits = [] then Err (NewError ''expected integer'')
               else bind_res (ParseInt (sgn @ digits) 10 64) (\<lambda>n. Ok (n, drop (length digits) body)))"

definition Sscanf_major_minor :: "string \<Rightarrow> (int \<times> int) res" where
  "Sscanf_major_minor s =
     bind_res (scan_int s) (\<lambda>(ma, t).
       case t of
         [] \<Rightarrow> Err (NewError ''unexpected EOF'')
       | c # u \<Rightarrow> if c = CHR '':'' then bind_res (scan_int u) (\<lambda>(mi, _). Ok (ma, mi))
                  else Err (NewError ''input does not match format''))"

definition mountOptionsString :: "((string \<times> string) list \<Rightarrow> (string \<times> string) list) \<Rightarrow> (string, string) gomap \<Rightarrow> string" where
  "mountOptionsString ord m = Join (map (\<lambda>(k, v). if v = [] then k else k @ ''='' @ v) (ord m)) '',''"

definition unescape_mount :: "string \<Rightarrow> string" where
  "unescape_mount mp = ReplaceAll (ReplaceAll mp [CHR 0x5C, CHR ''0'', CHR ''4'', CHR ''0''] '' '') [CHR 0x5C, CHR ''0'', CHR ''1'', CHR ''1''] [CHR 0x09]"

definition parse_mount ::
  "paths \<Rightarrow> ((string \<times> string) list \<Rightarrow> (string \<times> string) list) \<Rightarrow> MountInfo \<Rightarrow> filesystemLabels res" where
  "parse_mount p ord m =
     (case Sscanf_major_minor (MajorMinorVer m) of
        Ok (ma, mi) \<Rightarrow>
          Ok \<lparr>device = ToValidUTF8 (Source m) rune_error,
              mountPoint = ToValidUTF8 (rootfsStripPrefix p (unescape_mount (MountPoint m))) rune_error,
              fsType = ToValidUTF8 (FSType m) rune_error,
              mountOptions = mountOptionsString ord (Options m),
              superOptions = mountOptionsString ord (SuperOptions m),
              l_deviceError = [],
              major = Itoa ma, minor = Itoa mi\<rparr>
      | Err _ \<Rightarrow> Err (Errorf ''malformed mount point MajorMinorVer: %q'' [MajorMinorVer m])
      | Panic s \<Rightarrow> Panic s)"

fun parseFilesystemLabels ::
  "paths \<Rightarrow> ((string \<times> string) list \<Rightarrow> (string \<times> string) list) \<Rightarrow> MountInfo list \<Rightarrow> filesystemLabels list res" where
  "parseFilesystemLabels p ord [] = Ok []"
| "parseFilesystemLabels p ord (m # ms) =
     bind_res (parse_mount p ord m) (\<lambda>l. bind_res (parseFilesystemLabels p ord ms) (\<lambda>ls. Ok (l # ls)))"

record filesystemEnv =
  fs_paths :: paths
  fs_NewFS :: "unit res"
  GetProcMounts1 :: "MountInfo list res"
  GetMounts :: "MountInfo list res"
  Statfs :: "string \<Rightarrow> Statfs_t + string"
  ord_options :: "(string \<times> string) list \<Rightarrow> (string \<times> string) list"
  arrival :: "filesystemStats list \<Rightarrow> filesystemStats list"

definition mountPointDetails :: "filesystemEnv \<Rightarrow> filesystemLabels list res" where
  "mountPointDetails env =
     bind_res (map_err (Wrapf ''failed to open procfs: %w'' []) (fs_NewFS env)) (\<lambda>_.
     bind_res (case GetProcMounts1 env of
                 Err e \<Rightarrow> if errors_Is e ErrNotExist then GetMounts env else Err e
               | r \<Rightarrow> r) (\<lambda>mountInfo.
     parseFilesystemLabels (fs_paths env) (ord_options env) mountInfo))"

section \<open>Statistics of a mount point\<close>

definition isFilesystemReadOnly :: "filesystemLabels \<Rightarrow> bool" where
  "isFilesystemReadOnly l =
     (let mo = Split (mountOptions l) (CHR '',''); so = Split (superOptions l) (CHR '','')
      in ''ro'' \<in> set mo \<or> ''ro'' \<in> set so \<or> ''emergency_ro'' \<in> set so)"

definition zeroStats :: "filesystemLabels \<Rightarrow> filesystemStats" where
  "zeroStats l = \<lparr>fs_labels = l, fs_size = Fin 0, fs_free = Fin 0, fs_avail = Fin 0, fs_files = Fin 0, filesFree = Fin 0,
     purgeable = Fin 0, fs_ro = Fin 0, deviceError = Fin 0\<rparr>"

definition stuckStats :: "filesystemLabels \<Rightarrow> filesystemStats" where
  "stuckStats l = (zeroStats (l\<lparr>l_deviceError := ''mountpoint timeout''\<rparr>))\<lparr>deviceError := Fin 1\<rparr>"

definition processStat :: "filesystemEnv \<Rightarrow> filesystemLabels \<Rightarrow> filesystemStats" where
  "processStat env l =
     (let ro = (if isFilesystemReadOnly l then Fin 1 else Fin 0);
          l' = l\<lparr>mountOptions := [], superOptions := []\<rparr>
      in case Statfs env (rootfsFilePath (fs_paths env) (mountPoint l)) of
           Inr err \<Rightarrow> (zeroStats (l'\<lparr>l_deviceError := err\<rparr>))\<lparr>deviceError := Fin 1, fs_ro := ro\<rparr>
         | Inl buf \<Rightarrow>
             let bsize = f64_of_int (sint (Bsize buf))
             in (zeroStats l')\<lparr>fs_size := f64_mul (f64_of_nat (unat (Blocks buf))) bsize,
                 fs_free := f64_mul (f64_of_nat (unat (Bfree buf))) bsize,
                 fs_avail := f64_mul (f64_of_nat (unat (Bavail buf))) bsize,
                 fs_files := f64_of_nat (unat (Files buf)),
                 filesFree := f64_of_nat (unat (Ffree buf)),
                 fs_ro := ro\<rparr>)"

text \<open>
  One call of \<^verbatim>\<open>GetStats\<close>, with the mount points that are stuck at the time: the labels that pass the
  filters are reported as stuck or handed to the workers, and the results arrive in some order.
\<close>

definition passes :: "filesystemCollector \<Rightarrow> filesystemLabels \<Rightarrow> bool" where
  "passes c l \<longleftrightarrow> \<not> ignored (mountPointFilter c) (mountPoint l) \<and> \<not> ignored (fsTypeFilter c) (fsType l)"

definition GetStats :: "filesystemEnv \<Rightarrow> filesystemCollector \<Rightarrow> string set \<Rightarrow> filesystemStats list res" where
  "GetStats env c stuckMounts =
     bind_res (mountPointDetails env) (\<lambda>mps.
       Ok (arrival env (map (\<lambda>l. if mountPoint l \<in> stuckMounts then stuckStats l else processStat env l)
             (filter (passes c) mps))))"

section \<open>Update\<close>

definition filesystemLabelNames :: "string list" where
  "filesystemLabelNames = [''device'', ''mountpoint'', ''fstype'', ''device_error'']"

definition fs_desc :: "string \<Rightarrow> string \<Rightarrow> desc" where
  "fs_desc name help = NewDesc (BuildFQName namespace ''filesystem'' name) help filesystemLabelNames"

definition mountInfoDesc :: desc where
  "mountInfoDesc = NewDesc (BuildFQName namespace ''filesystem'' ''mount_info'') ''Filesystem mount information.''
     [''device'', ''major'', ''minor'', ''mountpoint'']"

definition label_values :: "filesystemLabels \<Rightarrow> string list" where
  "label_values l = [device l, mountPoint l, fsType l, l_deviceError l]"

definition fs_metrics :: "filesystemStats \<Rightarrow> metric list" where
  "fs_metrics s =
     (let l = fs_labels s;
          g = (\<lambda>name help v. MustNewConstMetric (fs_desc name help) GaugeValue v (label_values l))
      in [g ''device_error'' ''Whether an error occurred while getting statistics for the given device.'' (deviceError s),
          g ''readonly'' ''Filesystem read-only status.'' (fs_ro s)] @
         (if f64_lt (Fin 0) (deviceError s) then []
          else [g ''size_bytes'' ''Filesystem size in bytes.'' (fs_size s),
                g ''free_bytes'' ''Filesystem free space in bytes.'' (fs_free s),
                g ''avail_bytes'' ''Filesystem space available to non-root users in bytes.'' (fs_avail s),
                g ''files'' ''Filesystem total file nodes.'' (fs_files s),
                g ''files_free'' ''Filesystem total free file nodes.'' (filesFree s),
                MustNewConstMetric mountInfoDesc GaugeValue (Fin 1) [device l, major l, minor l, mountPoint l]] @
               (if f64_le (Fin 0) (purgeable s)
                then [g ''purgeable_bytes'' ''Filesystem space available including purgeable space (MacOS specific).'' (purgeable s)]
                else [])))"

fun send_stats :: "filesystemLabels list \<Rightarrow> filesystemStats list \<Rightarrow> metric list" where
  "send_stats seen [] = []"
| "send_stats seen (s # ss) =
     (if fs_labels s \<in> set seen then send_stats seen ss
      else fs_metrics s @ send_stats (fs_labels s # seen) ss)"

definition fs_Update :: "filesystemEnv \<Rightarrow> filesystemCollector \<Rightarrow> string set \<Rightarrow> upd" where
  "fs_Update env c stuckMounts = with_res (GetStats env c stuckMounts) (\<lambda>stats. emit (send_stats [] stats))"

section \<open>Stuck mount points\<close>

text \<open>
  A call is one run of \<^verbatim>\<open>processStat\<close> on a mount point together with its watcher. The watcher waits
  for the success channel or the timer; when the timer wins it takes the mutex and marks the mount
  point, unless the channel has been closed meanwhile. The return of \<^verbatim>\<open>statfs\<close> closes the channel and
  removes the mark, also under the mutex. \<open>pending\<close> holds the labels the feeding loop has let through
  and no worker has taken yet.
\<close>

datatype watcher = Waiting | TimedOut | WDone

record statCall =
  sc_mount :: string
  sc_returned :: bool
  sc_watcher :: watcher

record mountState =
  stuckMounts :: "string set"
  pending :: "string list"
  calls :: "statCall list"

definition init_mounts :: mountState where
  "init_mounts = \<lparr>stuckMounts = {}, pending = [], calls = []\<rparr>"

inductive mount_step :: "mountState \<Rightarrow> mountState \<Rightarrow> bool" where
  feed: "mp \<notin> stuckMounts s \<Longrightarrow> mount_step s (s\<lparr>pending := pending s @ [mp]\<rparr>)"
| begin_call: "pending s = mp # mps \<Longrightarrow>
    mount_step s (s\<lparr>pending := mps, calls := calls s @ [\<lparr>sc_mount = mp, sc_returned = False, sc_watcher = Waiting\<rparr>]\<rparr>)"
| success: "\<lbrakk>i < length (calls s); sc_watcher (calls s ! i) = Waiting; sc_returned (calls s ! i)\<rbrakk> \<Longrightarrow>
    mount_step s (s\<lparr>calls := (calls s)[i := (calls s ! i)\<lparr>sc_watcher := WDone\<rparr>]\<rparr>)"
| timer: "\<lbrakk>i < length (calls s); sc_watcher (calls s ! i) = Waiting\<rbrakk> \<Longrightarrow>
    mount_step s (s\<lparr>calls := (calls s)[i := (calls s ! i)\<lparr>sc_watcher := TimedOut\<rparr>]\<rparr>)"
| mark: "\<lbrakk>i < length (calls s); sc_watcher (calls s ! i) = TimedOut\<rbrakk> \<Longrightarrow>
    mount_step s (s\<lparr>calls := (calls s)[i := (calls s ! i)\<lparr>sc_watcher := WDone\<rparr>],
      stuckMounts := (if sc_returned (calls s ! i) then stuckMounts s else insert (sc_mount (calls s ! i)) (stuckMounts s))\<rparr>)"
| return_call: "\<lbrakk>i < length (calls s); \<not> sc_returned (calls s ! i)\<rbrakk> \<Longrightarrow>
    mount_step s (s\<lparr>calls := (calls s)[i := (calls s ! i)\<lparr>sc_returned := True\<rparr>],
      stuckMounts := stuckMounts s - {sc_mount (calls s ! i)}\<rparr>)"

text \<open>A call that hangs: its watcher has given up and \<^verbatim>\<open>statfs\<close> has not returned.\<close>

definition hung :: "string \<Rightarrow> statCall \<Rightarrow> bool" where
  "hung mp c \<longleftrightarrow> sc_mount c = mp \<and> \<not> sc_returned c \<and> sc_watcher c = WDone"

definition mounts_inv :: "mountState \<Rightarrow> bool" where
  "mounts_inv s \<longleftrightarrow> (\<forall>mp \<in> stuckMounts s. \<exists>c \<in> set (calls s). hung mp c)"

lemma hung_update:
  assumes "i < length cs" "\<exists>c \<in> set cs. hung mp c" "hung mp (cs ! i) \<Longrightarrow> hung mp y"
  shows "\<exists>c \<in> set (cs[i := y]). hung mp c"
proof -
  obtain j where j: "j < length cs" "hung mp (cs ! j)" using assms(2) by (auto simp: in_set_conv_nth)
  then have "hung mp (cs[i := y] ! j)" using assms(1,3) by (cases "i = j") auto
  then show ?thesis using j(1) by (metis length_list_update nth_mem)
qed

lemma hung_update_all:
  assumes "mounts_inv s" "i < length (calls s)" "S \<subseteq> stuckMounts s" "\<And>mp. mp \<in> S \<Longrightarrow> hung mp (calls s ! i) \<Longrightarrow> hung mp y"
  shows "\<forall>mp \<in> S. \<exists>c \<in> set ((calls s)[i := y]). hung mp c"
  using assms by (auto simp: mounts_inv_def intro!: hung_update)

lemma mounts_inv_step: "mount_step s t \<Longrightarrow> mounts_inv s \<Longrightarrow> mounts_inv t"
proof (induction rule: mount_step.induct)
  case (success i s)
  then show ?case using hung_update_all [of s i "stuckMounts s"] by (simp add: mounts_inv_def hung_def)
next
  case (timer i s)
  then show ?case using hung_update_all [of s i "stuckMounts s"] by (simp add: mounts_inv_def hung_def)
next
  case (mark i s)
  let ?y = "(calls s ! i)\<lparr>sc_watcher := WDone\<rparr>"
  have "\<forall>mp \<in> stuckMounts s. \<exists>c \<in> set ((calls s)[i := ?y]). hung mp c"
    using mark by (intro hung_update_all) (auto simp: hung_def)
  moreover have "hung (sc_mount (calls s ! i)) ?y" if "\<not> sc_returned (calls s ! i)"
    using that by (simp add: hung_def)
  moreover have "?y \<in> set ((calls s)[i := ?y])" using mark by (simp add: set_update_memI)
  ultimately show ?case by (auto simp: mounts_inv_def)
next
  case (return_call i s)
  then show ?case using hung_update_all [of s i "stuckMounts s - {sc_mount (calls s ! i)}"]
    by (simp add: mounts_inv_def hung_def)
qed (auto simp: mounts_inv_def)

lemma mounts_inv_reachable: "mount_step\<^sup>*\<^sup>* init_mounts s \<Longrightarrow> mounts_inv s"
  by (induction rule: rtranclp_induct) (simp_all add: mounts_inv_step, simp add: mounts_inv_def init_mounts_def)

section \<open>Lemmas on the mount table\<close>

lemma Split_append_sep: "sep \<notin> set w \<Longrightarrow> Split (w @ sep # s) sep = w # Split s sep"
  by (induction w) auto

lemma Split_no_sep_id: "sep \<notin> set w \<Longrightarrow> Split w sep = [w]"
  by (induction w) auto

lemma Split_of_Join: "ws \<noteq> [] \<Longrightarrow> (\<And>w. w \<in> set ws \<Longrightarrow> sep \<notin> set w) \<Longrightarrow> Split (Join ws [sep]) sep = ws"
proof (induction ws rule: induct_list012)
  case (3 w v ws)
  then have "Split (Join (v # ws) [sep]) sep = v # ws" by simp
  with "3.prems"(2) show ?case by (simp add: Split_append_sep)
qed (simp_all add: Split_no_sep_id)

definition no_comma :: "(string, string) gomap \<Rightarrow> bool" where
  "no_comma m \<longleftrightarrow> (\<forall>(k, v) \<in> set m. CHR '','' \<notin> set k \<and> CHR '','' \<notin> set v)"

text \<open>An option without \<^verbatim>\<open>=\<close> is found in the option string exactly when it is in the map without a value.\<close>

lemma option_in_string:
  assumes "range_order ord" "no_comma m" "opt \<noteq> []" "CHR ''='' \<notin> set opt"
  shows "opt \<in> set (Split (mountOptionsString ord m) (CHR '','')) \<longleftrightarrow> (opt, []) \<in> set m"
proof (cases "m = []")
  case True
  then have "ord m = []" using range_order_mset [OF assms(1), of "[] :: (string \<times> string) list"] by simp
  then show ?thesis using True assms(3) by (simp add: mountOptionsString_def)
next
  case False
  let ?ws = "map (\<lambda>(k, v). if v = [] then k else k @ ''='' @ v) (ord m)"
  have set: "set (ord m) = set m" using assms(1) by simp
  have "?ws \<noteq> []" using False set by auto
  moreover have "CHR '','' \<notin> set w" if "w \<in> set ?ws" for w
    using that set assms(2) by (fastforce simp: no_comma_def split: if_splits)
  ultimately have "Split (mountOptionsString ord m) (CHR '','') = ?ws"
    unfolding mountOptionsString_def by (intro Split_of_Join)
  moreover have "opt \<in> set ?ws \<longleftrightarrow> (opt, []) \<in> set m"
    using assms(4) set by (force split: if_splits)
  ultimately show ?thesis by simp
qed

section \<open>The contract\<close>

lemma fs_metrics_ok: "list_all labels_ok (fs_metrics s)"
  by (simp add: fs_metrics_def Let_def fs_desc_def filesystemLabelNames_def label_values_def mountInfoDesc_def)

lemma send_stats_subset: "x \<in> set (send_stats seen ss) \<Longrightarrow> \<exists>s \<in> set ss. x \<in> set (fs_metrics s)"
  by (induction ss arbitrary: seen) (auto split: if_splits)

lemma parse_mount_no_panic: "\<not> panics (parse_mount p ord m)"
proof -
  have 1: "\<not> panics (scan_space s)" for s by (induction s rule: scan_space.induct) (auto simp: Let_def)
  have 2: "\<not> panics (ParseInt s 10 64)" for s
    by (auto simp: ParseInt_def Let_def panics_bind_res ParseUint_no_panic)
  have 3: "\<not> panics (scan_int s)" for s
    using 1 2 by (auto simp: scan_int_def Let_def panics_bind_res)
  have "\<not> panics (Sscanf_major_minor s)" for s
    using 3 by (auto simp: Sscanf_major_minor_def panics_bind_res split: list.splits)
  then show ?thesis by (auto simp: parse_mount_def split: res.splits) (metis panics.simps(1))
qed

lemma parseFilesystemLabels_no_panic: "\<not> panics (parseFilesystemLabels p ord ms)"
  by (induction ms) (auto simp: panics_bind_res parse_mount_no_panic)

definition fs_pre :: "filesystemEnv \<times> filesystemCollector \<times> string set \<Rightarrow> bool" where
  "fs_pre = (\<lambda>(env, c, stuck). \<not> panics (fs_NewFS env) \<and> \<not> panics (GetProcMounts1 env) \<and> \<not> panics (GetMounts env))"

interpretation fs: safe_collector_contract "\<lambda>(env, c, stuck). fs_Update env c stuck" fs_pre
proof unfold_locales
  fix e assume pre: "fs_pre e"
  obtain env c stuck where e: "e = (env, c, stuck)" by (cases e)
  have "list_all labels_ok (send_stats [] stats)" for stats
    using send_stats_subset [of _ "[]" stats] fs_metrics_ok by (auto simp: list_all_iff)
  then show "upd_ok (case e of (env, c, stuck) \<Rightarrow> fs_Update env c stuck)"
    unfolding e by (auto simp: fs_Update_def intro!: upd_ok_with_res)
  show "\<not> panics (snd (case e of (env, c, stuck) \<Rightarrow> fs_Update env c stuck))"
    using pre parseFilesystemLabels_no_panic unfolding e
    by (auto simp: fs_pre_def fs_Update_def panics_with_res GetStats_def mountPointDetails_def panics_bind_res
        split: res.splits if_splits)
qed

section \<open>Properties\<close>

text \<open>
  C13: Under every interleaving of calls, timers and returns, a mount point is marked as stuck only
  while a \<^verbatim>\<open>statfs\<close> call on it hangs after its watcher gave up; once every call has returned nothing is
  marked, so no mount point stays excluded for ever.
\<close>

theorem stuckMounts_hanging:
  assumes "mount_step\<^sup>*\<^sup>* init_mounts s"
  shows "(mp \<in> stuckMounts s \<longrightarrow> (\<exists>c \<in> set (calls s). hung mp c)) \<and>
    (list_all sc_returned (calls s) \<longrightarrow> stuckMounts s = {})"
  using mounts_inv_reachable [OF assms] by (auto simp: mounts_inv_def hung_def list_all_iff)

lemma demo_stuck:
  "mount_step\<^sup>*\<^sup>* init_mounts \<lparr>stuckMounts = {''/nfs''}, pending = [],
     calls = [\<lparr>sc_mount = ''/nfs'', sc_returned = False, sc_watcher = WDone\<rparr>]\<rparr>"
proof -
  let ?c = "\<lambda>w. \<lparr>sc_mount = ''/nfs'', sc_returned = False, sc_watcher = w\<rparr>"
  let ?s = "\<lambda>st p cs. \<lparr>stuckMounts = st, pending = p, calls = cs\<rparr>"
  have "mount_step init_mounts (?s {} [''/nfs''] [])"
    using feed [of "''/nfs''" init_mounts] by (simp add: init_mounts_def)
  moreover have "mount_step (?s {} [''/nfs''] []) (?s {} [] [?c Waiting])"
    using begin_call [of "?s {} [''/nfs''] []"] by simp
  moreover have "mount_step (?s {} [] [?c Waiting]) (?s {} [] [?c TimedOut])"
    using timer [of 0 "?s {} [] [?c Waiting]"] by simp
  moreover have "mount_step (?s {} [] [?c TimedOut]) (?s {''/nfs''} [] [?c WDone])"
    using mark [of 0 "?s {} [] [?c TimedOut]"] by simp
  ultimately show ?thesis
    by (meson converse_rtranclp_into_rtranclp r_into_rtranclp)
qed

theorem stuckMounts_hanging_witness:
  "\<exists>c \<in> set [\<lparr>sc_mount = ''/nfs'', sc_returned = False, sc_watcher = WDone\<rparr>]. hung ''/nfs'' c"
  using stuckMounts_hanging [OF demo_stuck, of "''/nfs''"] by simp

text \<open>
  C21: A mount is reported read-only exactly when \<^verbatim>\<open>ro\<close> is among its mount or super block options or
  \<^verbatim>\<open>emergency_ro\<close> among the latter, in whatever order the runtime joins the options into a string.
\<close>

theorem readOnly_options:
  assumes "range_order ord" "no_comma (Options m)" "no_comma (SuperOptions m)" "parse_mount p ord m = Ok l"
  shows "isFilesystemReadOnly l \<longleftrightarrow>
    (''ro'', []) \<in> set (Options m) \<or> (''ro'', []) \<in> set (SuperOptions m) \<or> (''emergency_ro'', []) \<in> set (SuperOptions m)"
proof -
  have "mountOptions l = mountOptionsString ord (Options m)" "superOptions l = mountOptionsString ord (SuperOptions m)"
    using assms(4) by (auto simp: parse_mount_def split: res.splits)
  then show ?thesis using option_in_string [OF assms(1)] assms(2,3) by (simp add: isFilesystemReadOnly_def Let_def)
qed

definition demo_mount :: "string \<Rightarrow> MountInfo" where
  "demo_mount ver = \<lparr>MajorMinorVer = ver, MountPoint = ''/data'', Source = ''tmpfs'', FSType = ''tmpfs'',
     Options = [(''rw'', [])], SuperOptions = [(''mode'', ''755''), (''ro'', [])]\<rparr>"

theorem readOnly_options_witness:
  "\<exists>l. parse_mount default_paths rev (demo_mount ''0:42'') = Ok l \<and> isFilesystemReadOnly l"
proof -
  have "case parse_mount default_paths rev (demo_mount ''0:42'') of Ok l \<Rightarrow> True | _ \<Rightarrow> False" by code_simp
  then obtain l where l: "parse_mount default_paths rev (demo_mount ''0:42'') = Ok l" by (auto split: res.splits)
  from readOnly_options [OF range_order_rev _ _ l] l show ?thesis by (auto simp: demo_mount_def no_comma_def)
qed

definition mount_values :: "filesystemLabels \<Rightarrow> string list" where
  "mount_values l = [device l, major l, minor l, mountPoint l]"

lemma fs_metrics_ids:
  assumes "x \<in> set (fs_metrics s)"
  shows "desc_fq (metric_desc x) = BuildFQName namespace ''filesystem'' ''mount_info'' \<and> metric_labels x = mount_values (fs_labels s) \<or>
    desc_fq (metric_desc x) \<noteq> BuildFQName namespace ''filesystem'' ''mount_info'' \<and> metric_labels x = label_values (fs_labels s)"
  using assms by (auto simp: fs_metrics_def Let_def fs_desc_def mountInfoDesc_def mount_values_def split: if_splits)

lemma fs_metrics_const: "x \<in> set (fs_metrics s) \<Longrightarrow> constLabels (metric_desc x) = []"
  by (auto simp: fs_metrics_def Let_def fs_desc_def mountInfoDesc_def split: if_splits)

lemma fs_metrics_distinct: "distinct (map sample_id (fs_metrics s))"
  by (simp add: fs_metrics_def Let_def sample_id_def fs_desc_def mountInfoDesc_def)

lemma send_stats_mem:
  "x \<in> set (send_stats seen ss) \<Longrightarrow> \<exists>s \<in> set ss. fs_labels s \<notin> set seen \<and> x \<in> set (fs_metrics s)"
  by (induction ss arbitrary: seen) (fastforce split: if_splits)+

lemma send_stats_all:
  "s \<in> set ss \<Longrightarrow> fs_labels s \<notin> set seen \<Longrightarrow> \<exists>t \<in> set ss. fs_labels t = fs_labels s \<and> set (fs_metrics t) \<subseteq> set (send_stats seen ss)"
proof (induction ss arbitrary: seen)
  case (Cons u ss)
  show ?case
  proof (cases "fs_labels u = fs_labels s")
    case True
    then show ?thesis using Cons.prems by (intro bexI [of _ u]) auto
  next
    case False
    then have "s \<in> set ss" using Cons.prems by auto
    show ?thesis
    proof (cases "fs_labels u \<in> set seen")
      case True
      then show ?thesis using Cons.IH [OF \<open>s \<in> set ss\<close> Cons.prems(2)] by auto
    next
      case new: False
      have "fs_labels s \<notin> set (fs_labels u # seen)" using False Cons.prems(2) by auto
      from Cons.IH [OF \<open>s \<in> set ss\<close> this] obtain t where "t \<in> set ss" "fs_labels t = fs_labels s"
        "set (fs_metrics t) \<subseteq> set (send_stats (fs_labels u # seen) ss)" by blast
      then show ?thesis using new by (intro bexI [of _ t]) auto
    qed
  qed
qed simp

text \<open>
  When no two different label sets look the same in the exported labels, a scrape sends no
  sample twice, however many mounts share a label set.
\<close>

theorem send_stats_distinct:
  assumes "\<forall>s \<in> set stats. \<forall>t \<in> set stats.
     label_values (fs_labels s) = label_values (fs_labels t) \<or> mount_values (fs_labels s) = mount_values (fs_labels t) \<longrightarrow>
     fs_labels s = fs_labels t"
  shows "distinct (map sample_id (send_stats [] stats))"
proof -
  have "distinct (map sample_id (send_stats seen ss))" if "set ss \<subseteq> set stats" for seen ss
    using that
  proof (induction ss arbitrary: seen)
    case (Cons s ss)
    have "sample_id x \<noteq> sample_id y" if xy: "x \<in> set (fs_metrics s)" "y \<in> set (send_stats (fs_labels s # seen) ss)" for x y
    proof
      assume id: "sample_id x = sample_id y"
      obtain t where t: "t \<in> set ss" "fs_labels t \<noteq> fs_labels s" "y \<in> set (fs_metrics t)"
        using send_stats_mem [OF xy(2)] by auto
      have "label_values (fs_labels s) = label_values (fs_labels t) \<or> mount_values (fs_labels s) = mount_values (fs_labels t)"
        using id fs_metrics_ids [OF xy(1)] fs_metrics_ids [OF t(3)] by (auto simp: sample_id_def fs_metrics_const [OF xy(1)] fs_metrics_const [OF t(3)])
      moreover have "s \<in> set stats" "t \<in> set stats" using Cons.prems t(1) by auto
      ultimately show False using t(2) assms by metis
    qed
    then have "sample_id ` set (fs_metrics s) \<inter> sample_id ` set (send_stats (fs_labels s # seen) ss) = {}" by blast
    then show ?case using Cons fs_metrics_distinct [of s] by simp
  qed simp
  then show ?thesis by blast
qed

theorem send_stats_distinct_witness:
  "distinct (map sample_id (send_stats [] [zeroStats \<lparr>device = ''sda1'', mountPoint = ''/'', fsType = ''ext4'', mountOptions = [],
     superOptions = [], l_deviceError = [], major = ''8'', minor = ''1''\<rparr>]))"
  by (rule send_stats_distinct) simp

lemma fs_metrics_readonly:
  "(BuildFQName namespace ''filesystem'' ''readonly'', label_values (fs_labels s)) \<in> sample_id ` set (fs_metrics s)"
  by (auto simp: fs_metrics_def Let_def sample_id_def fs_desc_def image_iff)

lemma send_stats_twice:
  "s \<in> set ss \<Longrightarrow> t \<in> set ss \<Longrightarrow> fs_labels s \<noteq> fs_labels t \<Longrightarrow> label_values (fs_labels s) = label_values (fs_labels t) \<Longrightarrow>
     fs_labels s \<notin> set seen \<Longrightarrow> fs_labels t \<notin> set seen \<Longrightarrow> \<not> distinct (map sample_id (send_stats seen ss))"
proof (induction ss arbitrary: seen)
  case (Cons u ss)
  let ?id = "(BuildFQName namespace ''filesystem'' ''readonly'', label_values (fs_labels s))"
  have both: "\<not> distinct (map sample_id (send_stats seen (u # ss)))"
    if u: "fs_labels u = fs_labels a" "label_values (fs_labels a) = label_values (fs_labels s)"
      and b: "b \<in> set ss" "fs_labels b \<noteq> fs_labels a" "label_values (fs_labels b) = label_values (fs_labels s)"
        "fs_labels b \<notin> set seen" "fs_labels a \<notin> set seen" for a b
  proof -
    obtain v where v: "fs_labels v = fs_labels b" "set (fs_metrics v) \<subseteq> set (send_stats (fs_labels u # seen) ss)"
      using send_stats_all [OF b(1), of "fs_labels u # seen"] u b by auto
    have "?id \<in> sample_id ` set (fs_metrics u)" "?id \<in> sample_id ` set (send_stats (fs_labels u # seen) ss)"
      using fs_metrics_readonly [of u] fs_metrics_readonly [of v] u b(3) v by auto
    moreover have "send_stats seen (u # ss) = fs_metrics u @ send_stats (fs_labels u # seen) ss" using u b(5) by simp
    ultimately show ?thesis by (metis (no_types, lifting) disjoint_iff distinct_append map_append set_map)
  qed
  consider "fs_labels u = fs_labels s" | "fs_labels u = fs_labels t" | "fs_labels u \<noteq> fs_labels s" "fs_labels u \<noteq> fs_labels t"
    by blast
  then show ?case
  proof cases
    case 1
    then have "t \<in> set ss" using Cons.prems by auto
    then show ?thesis
      by (rule both [OF 1 refl _ Cons.prems(3) [symmetric] Cons.prems(4) [symmetric] Cons.prems(6,5)])
  next
    case 2
    then have "s \<in> set ss" using Cons.prems by auto
    then show ?thesis
      by (rule both [OF 2 Cons.prems(4) [symmetric] _ Cons.prems(3) refl Cons.prems(5,6)])
  next
    case 3
    then have "s \<in> set ss" "t \<in> set ss" using Cons.prems by auto
    then have "\<not> distinct (map sample_id (send_stats seen' ss))"
      if "seen' = seen \<or> seen' = fs_labels u # seen" for seen'
      using Cons.IH [of seen'] that 3 Cons.prems(3-6) by auto
    then show ?thesis by auto
  qed
qed simp

text \<open>
  Two mounts of one device at one mount point with different device numbers (or, when both are
  stuck, with different options) have the same exported labels and different keys, so the check for
  duplicates lets both through and a sample is sent twice.
\<close>

theorem send_stats_duplicate:
  assumes "s \<in> set stats" "t \<in> set stats" "fs_labels s \<noteq> fs_labels t"
    and "label_values (fs_labels s) = label_values (fs_labels t)"
  shows "\<not> distinct (map sample_id (send_stats [] stats))"
  using send_stats_twice [OF assms] by simp

definition demo_tmpfs :: "string \<Rightarrow> filesystemStats" where
  "demo_tmpfs mi = zeroStats \<lparr>device = ''tmpfs'', mountPoint = ''/mnt'', fsType = ''tmpfs'', mountOptions = [],
     superOptions = [], l_deviceError = [], major = ''0'', minor = mi\<rparr>"

theorem send_stats_duplicate_witness:
  "\<not> distinct (map sample_id (send_stats [] [demo_tmpfs ''41'', demo_tmpfs ''42'']))"
  by (rule send_stats_duplicate [of "demo_tmpfs ''41''" _ "demo_tmpfs ''42''"])
    (simp_all add: demo_tmpfs_def zeroStats_def label_values_def)

lemma scan_space_digit: "is_digit c \<Longrightarrow> scan_space (c # cs) = Ok (c # cs)"
  using trim_left_space_digit [of c cs]
  by (cases cs; cases "tl cs") (auto simp: is_digit_def ascii_space_def space2_def space3_def nl_def byte_def)

lemma scan_int_FormatUint:
  assumes "n < 2 ^ 63" "case rest of [] \<Rightarrow> True | c # _ \<Rightarrow> \<not> is_digit c"
  shows "scan_int (FormatUint n @ rest) = Ok (int n, rest)"
proof -
  obtain c cs where c: "FormatUint n = c # cs" by (cases "FormatUint n") simp_all
  have d: "is_digit c" using FormatUint_digits [of c n] c by simp
  then have s: "scan_space (FormatUint n @ rest) = Ok (FormatUint n @ rest)" using scan_space_digit c by simp
  have sgn: "c \<noteq> CHR ''+''" "c \<noteq> CHR ''-''" using d by (auto simp: is_digit_def byte_def)
  have "takeWhile is_digit (FormatUint n @ rest) = FormatUint n"
  proof -
    have "takeWhile is_digit rest = []" using assms(2) by (cases rest) simp_all
    then show ?thesis using FormatUint_digits by (subst takeWhile_append2) auto
  qed
  then show ?thesis using s sgn c ParseInt_FormatUint [OF assms(1)] by (simp add: scan_int_def Let_def)
qed

text \<open>
  The device numbers of a mount survive parsing and printing, and its exported labels are valid
  UTF-8 whatever bytes the mount table holds.
\<close>

theorem parse_mount_labels:
  assumes "a < 2 ^ 63" "b < 2 ^ 63" "MajorMinorVer m = FormatUint a @ '':'' @ FormatUint b"
  shows "\<exists>l. parse_mount p ord m = Ok l \<and> major l = FormatUint a \<and> minor l = FormatUint b \<and>
    list_all valid_utf8 (label_values l)"
proof -
  have "scan_int (FormatUint a @ '':'' @ FormatUint b) = Ok (int a, '':'' @ FormatUint b)"
    by (rule scan_int_FormatUint [OF assms(1)]) (simp add: is_digit_def byte_def)
  moreover have "scan_int (FormatUint b @ []) = Ok (int b, [])" by (rule scan_int_FormatUint [OF assms(2)]) simp
  ultimately have "Sscanf_major_minor (MajorMinorVer m) = Ok (int a, int b)"
    by (simp add: assms(3) Sscanf_major_minor_def)
  moreover have "valid_utf8 (ToValidUTF8 s rune_error)" for s
    unfolding ToValidUTF8_def using valid_rune_error [of "[]"] valid_rune_error by (intro to_valid_go_valid) simp_all
  ultimately show ?thesis by (simp add: parse_mount_def label_values_def Itoa_def)
qed

theorem parse_mount_labels_witness:
  "\<exists>l. parse_mount default_paths rev (demo_mount (FormatUint 8 @ '':'' @ FormatUint 17)) = Ok l \<and>
     major l = FormatUint 8 \<and> minor l = FormatUint 17 \<and> list_all valid_utf8 (label_values l)"
  by (rule parse_mount_labels) (simp_all add: demo_mount_def)

text \<open>
  C39: What the kernel orders stays ordered in the export: when a file system has no more available
  than free and no more free than total blocks, the exported byte counts compare the same way, in spite
  of rounding.
\<close>

theorem processStat_ordered:
  assumes "Statfs env (rootfsFilePath (fs_paths env) (mountPoint l)) = Inl buf"
    and "Bavail buf \<le> Bfree buf" "Bfree buf \<le> Blocks buf" "0 \<le> sint (Bsize buf)"
  shows "f64_le (fs_avail (processStat env l)) (fs_free (processStat env l)) \<and>
    f64_le (fs_free (processStat env l)) (fs_size (processStat env l))"
proof -
  have lt: "unat w < 2 ^ 64" for w :: uint64 using unsigned_less [of w, where ?'a = nat] by simp
  have bs: "f64_of_int (sint (Bsize buf)) = f64_of_nat (nat (sint (Bsize buf)))" using assms(4) by (simp add: f64_of_nat_def)
  have "sint (Bsize buf) < 2 ^ 63" using sint_less [of "Bsize buf"] by simp
  then have n: "nat (sint (Bsize buf)) < 2 ^ 64" by simp
  have "unat (Bavail buf) \<le> unat (Bfree buf)" "unat (Bfree buf) \<le> unat (Blocks buf)"
    using assms(2,3) by (simp_all add: word_le_nat_alt)
  then show ?thesis using f64_mul_mono [OF _ lt n] assms(1) bs by (simp add: processStat_def Let_def)
qed

definition demo_fs_env :: filesystemEnv where
  "demo_fs_env = \<lparr>fs_paths = default_paths, fs_NewFS = Ok (), GetProcMounts1 = Ok [demo_mount ''0:42''], GetMounts = Ok [],
     Statfs = (\<lambda>_. Inl \<lparr>Blocks = 100, Bsize = 4096, Bfree = 50, Bavail = 40, Files = 10, Ffree = 5\<rparr>),
     ord_options = rev, arrival = rev\<rparr>"

theorem processStat_ordered_witness:
  "f64_le (fs_avail (processStat demo_fs_env (fs_labels (demo_tmpfs [])))) (fs_free (processStat demo_fs_env (fs_labels (demo_tmpfs [])))) \<and>
   f64_le (fs_free (processStat demo_fs_env (fs_labels (demo_tmpfs [])))) (fs_size (processStat demo_fs_env (fs_labels (demo_tmpfs []))))"
  by (rule processStat_ordered) (simp add: demo_fs_env_def, simp_all)

text \<open>
  An include pattern replaces the default exclude pattern, and giving both an exclude and an
  include pattern is an error; this holds for mount points and for file system types alike.
\<close>

theorem filter_flags_spec:
  "snd (filter_flags old exclSet excl incl oldMsg bothMsg) =
     (if old \<noteq> [] \<and> exclSet then Err (NewError oldMsg)
      else if incl \<noteq> [] then (if exclSet \<and> excl \<noteq> [] then Err (NewError bothMsg) else newDeviceFilter [] incl)
      else newDeviceFilter (if old \<noteq> [] then old else excl) [])"
  by (auto simp: filter_flags_def Let_def)

end
