(* ===== verification/Diskstats.thy ===== *)
theory Diskstats
  imports Helpers
begin

text \<open>
  The disk statistics collector: \<^verbatim>\<open>diskstats_common.go\<close> and \<^verbatim>\<open>diskstats_linux.go\<close>. The lines of
  \<^verbatim>\<open>/proc/diskstats\<close> and the rotational attribute come from the blockdevice package and are data of the
  environment; the udev database is read and parsed here.
\<close>

section \<open>Data\<close>

record Diskstat =
  MajorNumber :: uint32
  MinorNumber :: uint32
  DeviceName :: string
  ReadIOs :: uint64
  ReadMerges :: uint64
  ReadSectors :: uint64
  ReadTicks :: uint64
  WriteIOs :: uint64
  WriteMerges :: uint64
  WriteSectors :: uint64
  WriteTicks :: uint64
  IOsInProgress :: uint64
  IOsTotalTicks :: uint64
  WeightedIOTicks :: uint64
  DiscardIOs :: uint64
  DiscardMerges :: uint64
  DiscardSectors :: uint64
  DiscardTicks :: uint64
  FlushRequestsCompleted :: uint64
  TimeSpentFlushing :: uint64
  IoStatsCount :: int

type_synonym udevInfo = "(string, string) gomap"

record diskstatsFlags =
  diskstatsDeviceExcludeSet :: bool
  diskstatsDeviceExclude :: string
  oldDiskstatsDeviceExclude :: string
  diskstatsDeviceInclude :: string

record diskstatsEnv =
  ds_paths :: paths
  blockdevice_NewFS :: "unit res"
  ProcDiskstats :: "Diskstat list res"
  SysBlockDeviceRotational :: "string \<Rightarrow> uint64 res"
  ds_readFile :: "string \<Rightarrow> string res"
  udev_isDir :: bool
  ord_ata :: "(string \<times> typedDesc) list \<Rightarrow> (string \<times> typedDesc) list"

record diskstatsCollector =
  ds_filter :: deviceFilter
  ds_udev :: bool

section \<open>Descriptors\<close>

definition diskSubsystem :: string where
  "diskSubsystem = ''disk''"

definition disk_desc :: "string \<Rightarrow> string \<Rightarrow> string list \<Rightarrow> valueType \<Rightarrow> typedDesc" where
  "disk_desc name help labels vt =
     \<lparr>td_desc = NewDesc (BuildFQName namespace diskSubsystem name) help labels, td_valueType = vt\<rparr>"

definition secondsPerTick :: float64 where
  "secondsPerTick = round64 (1 / 1000)"

definition unixSectorSize :: float64 where
  "unixSectorSize = Fin 512"

definition diskstatsDefaultIgnoredDevices :: string where
  "diskstatsDefaultIgnoredDevices =
     ''^(z?ram|loop|fd|(h|s|v|xv)d[a-z]|nvme'' @ [CHR 0x5C] @ ''d+n'' @ [CHR 0x5C] @ ''d+p)'' @ [CHR 0x5C] @ ''d+$''"

definition disk_infoDesc :: typedDesc where
  "disk_infoDesc = disk_desc ''info'' ''Info of /sys/block/<block_device>.''
     [''device'', ''major'', ''minor'', ''path'', ''wwn'', ''model'', ''serial'', ''revision'', ''rotational''] GaugeValue"

definition disk_descs :: "typedDesc list" where
  "disk_descs =
     [disk_desc ''reads_completed_total'' ''The total number of reads completed successfully.'' [''device''] CounterValue,
      disk_desc ''reads_merged_total'' ''The total number of reads merged.'' [''device''] CounterValue,
      disk_desc ''read_bytes_total'' ''The total number of bytes read successfully.'' [''device''] CounterValue,
      disk_desc ''read_time_seconds_total'' ''The total number of seconds spent by all reads.'' [''device''] CounterValue,
      disk_desc ''writes_completed_total'' ''The total number of writes completed successfully.'' [''device''] CounterValue,
      disk_desc ''writes_merged_total'' ''The number of writes merged.'' [''device''] CounterValue,
      disk_desc ''written_bytes_total'' ''The total number of bytes written successfully.'' [''device''] CounterValue,
      disk_desc ''write_time_seconds_total'' ''This is the total number of seconds spent by all writes.'' [''device''] CounterValue,
      disk_desc ''io_now'' ''The number of I/Os currently in progress.'' [''device''] GaugeValue,
      disk_desc ''io_time_seconds_total'' ''Total seconds spent doing I/Os.'' [''device''] CounterValue,
      disk_desc ''io_time_weighted_seconds_total'' ''The weighted # of seconds spent doing I/Os.'' [''device''] CounterValue,
      disk_desc ''discards_completed_total'' ''The total number of discards completed successfully.'' [''device''] CounterValue,
      disk_desc ''discards_merged_total'' ''The total number of discards merged.'' [''device''] CounterValue,
      disk_desc ''discarded_sectors_total'' ''The total number of sectors discarded successfully.'' [''device''] CounterValue,
      disk_desc ''discard_time_seconds_total'' ''This is the total number of seconds spent by all discards.'' [''device''] CounterValue,
      disk_desc ''flush_requests_total'' ''The total number of flush requests completed successfully'' [''device''] CounterValue,
      disk_desc ''flush_requests_time_seconds_total'' ''This is the total number of seconds spent by all flush requests.'' [''device''] CounterValue]"

definition filesystemInfoDesc :: typedDesc where
  "filesystemInfoDesc = disk_desc ''filesystem_info'' ''Info about disk filesystem.''
     [''device'', ''type'', ''usage'', ''uuid'', ''version''] GaugeValue"

definition deviceMapperInfoDesc :: typedDesc where
  "deviceMapperInfoDesc = disk_desc ''device_mapper_info'' ''Info about disk device mapper.''
     [''device'', ''name'', ''uuid'', ''vg_name'', ''lv_name'', ''lv_layer''] GaugeValue"

definition ataDescs :: "(string, typedDesc) gomap" where
  "ataDescs =
     [(''ID_ATA_WRITE_CACHE'', disk_desc ''ata_write_cache'' ''ATA disk has a write cache.'' [''device''] GaugeValue),
      (''ID_ATA_WRITE_CACHE_ENABLED'', disk_desc ''ata_write_cache_enabled'' ''ATA disk has its write cache enabled.'' [''device''] GaugeValue),
      (''ID_ATA_ROTATION_RATE_RPM'', disk_desc ''ata_rotation_rate_rpm'' ''ATA disk rotation rate in RPMs (0 for SSDs).'' [''device''] GaugeValue)]"

lemmas disk_desc_defs = disk_infoDesc_def disk_descs_def filesystemInfoDesc_def deviceMapperInfoDesc_def ataDescs_def disk_desc_def

section \<open>Creation\<close>

definition newDiskstatsDeviceFilter :: "diskstatsFlags \<Rightarrow> diskstatsFlags \<times> deviceFilter res" where
  "newDiskstatsDeviceFilter fl =
     (if oldDiskstatsDeviceExclude fl \<noteq> [] \<and> diskstatsDeviceExcludeSet fl then
        (fl, Err (NewError ''--collector.diskstats.ignored-devices and --collector.diskstats.device-exclude are mutually exclusive''))
      else let fl1 = (if oldDiskstatsDeviceExclude fl \<noteq> [] then fl\<lparr>diskstatsDeviceExclude := oldDiskstatsDeviceExclude fl\<rparr> else fl)
           in if diskstatsDeviceInclude fl1 \<noteq> [] \<and> diskstatsDeviceExcludeSet fl1 \<and> diskstatsDeviceExclude fl1 \<noteq> [] then
                (fl1, Err (NewError ''device-exclude & device-include are mutually exclusive''))
              else let fl2 = (if diskstatsDeviceInclude fl1 \<noteq> [] then fl1\<lparr>diskstatsDeviceExclude := []\<rparr> else fl1)
                   in (fl2, newDeviceFilter (diskstatsDeviceExclude fl2) (diskstatsDeviceInclude fl2)))"

definition NewDiskstatsCollector :: "diskstatsEnv \<Rightarrow> diskstatsFlags \<Rightarrow> diskstatsFlags \<times> diskstatsCollector res" where
  "NewDiskstatsCollector env fl =
     (case map_err (Wrapf ''failed to open sysfs: %w'' []) (blockdevice_NewFS env) of
        Err e \<Rightarrow> (fl, Err e)
      | Panic p \<Rightarrow> (fl, Panic p)
      | Ok _ \<Rightarrow>
          let (fl', r) = newDiskstatsDeviceFilter fl
          in (fl', bind_res (map_err (Wrapf ''failed to parse device filter flags: %w'' []) r)
                     (\<lambda>f. Ok \<lparr>ds_filter = f, ds_udev = udev_isDir env\<rparr>)))"

section \<open>udev\<close>

definition udev_line :: "string \<Rightarrow> udevInfo \<Rightarrow> udevInfo" where
  "udev_line line info =
     (if \<not> HasPrefix line ''E:'' then info
      else case Cut (TrimPrefix line ''E:'') ''='' of
             None \<Rightarrow> info
           | Some (name, v) \<Rightarrow> map_put name v info)"

definition getUdevDeviceProperties :: "diskstatsEnv \<Rightarrow> uint32 \<Rightarrow> uint32 \<Rightarrow> udevInfo res" where
  "getUdevDeviceProperties env maj mnr =
     bind_res (ds_readFile env (udevDataFilePath (ds_paths env)
         (''b'' @ FormatUint (unat maj) @ '':'' @ FormatUint (unat mnr)))) (\<lambda>data.
       Ok (fold udev_line (scan_lines data) []))"

section \<open>Update\<close>

definition rotationalLabel :: "diskstatsEnv \<Rightarrow> string \<Rightarrow> string" where
  "rotationalLabel env dev =
     (case SysBlockDeviceRotational env dev of Ok rot \<Rightarrow> if rot = 1 then ''1'' else ''0'' | _ \<Rightarrow> ''0'')"

definition disk_values :: "Diskstat \<Rightarrow> float64 list" where
  "disk_values s =
     (let n = (\<lambda>w :: uint64. f64_of_nat (unat w));
          sectors = (\<lambda>w :: uint64. f64_mul (f64_of_nat (unat w)) unixSectorSize);
          secs = (\<lambda>w :: uint64. f64_mul (f64_of_nat (unat w)) secondsPerTick)
      in [n (ReadIOs s), n (ReadMerges s), sectors (ReadSectors s), secs (ReadTicks s),
          n (WriteIOs s), n (WriteMerges s), sectors (WriteSectors s), secs (WriteTicks s),
          n (IOsInProgress s), secs (IOsTotalTicks s), secs (WeightedIOTicks s),
          n (DiscardIOs s), n (DiscardMerges s), n (DiscardSectors s), secs (DiscardTicks s),
          n (FlushRequestsCompleted s), secs (TimeSpentFlushing s)])"

text \<open>The loop over the values: it stops at the number of fields the line had, and indexes the descriptors.\<close>

fun send_values :: "string \<Rightarrow> int \<Rightarrow> nat \<Rightarrow> float64 list \<Rightarrow> upd" where
  "send_values dev statCount i [] = emit []"
| "send_values dev statCount i (v # vs) =
     (if statCount \<le> int i then emit []
      else with_res (idx disk_descs i) (\<lambda>d.
        seq (emit [mustNewConstMetric d v [dev]]) (send_values dev statCount (Suc i) vs)))"

definition disk_serial :: "udevInfo \<Rightarrow> string" where
  "disk_serial info =
     (let s1 = map_get_z [] info ''SCSI_IDENT_SERIAL'';
          s2 = (if s1 = [] then map_get_z [] info ''ID_SERIAL_SHORT'' else s1)
      in if s2 = [] then map_get_z [] info ''ID_SERIAL'' else s2)"

definition ata_metrics :: "diskstatsEnv \<Rightarrow> string \<Rightarrow> udevInfo \<Rightarrow> metric list" where
  "ata_metrics env dev info =
     (if map_get_z [] info ''ID_ATA'' = [] then []
      else concat (map (\<lambda>(attr, d).
             case map_get info attr of
               None \<Rightarrow> []
             | Some str \<Rightarrow> (case ParseFloat str of Ok v \<Rightarrow> [mustNewConstMetric d v [dev]] | _ \<Rightarrow> []))
           (ord_ata env ataDescs)))"

definition disk_device :: "diskstatsEnv \<Rightarrow> diskstatsCollector \<Rightarrow> Diskstat \<Rightarrow> upd" where
  "disk_device env c s =
     (let dev = DeviceName s in
      if ignored (ds_filter c) dev then emit []
      else let info = (if ds_udev c
                       then case getUdevDeviceProperties env (MajorNumber s) (MinorNumber s) of Ok i \<Rightarrow> i | _ \<Rightarrow> []
                       else []);
               get = map_get_z [] info
           in seq (emit [mustNewConstMetric disk_infoDesc (Fin 1)
                     [dev, FormatUint (unat (MajorNumber s)), FormatUint (unat (MinorNumber s)), get ''ID_PATH'',
                      get ''ID_WWN'', get ''ID_MODEL'', disk_serial info, get ''ID_REVISION'', rotationalLabel env dev]])
              (seq (send_values dev (IoStatsCount s - 3) 0 (disk_values s))
              (emit ((if get ''ID_FS_TYPE'' \<noteq> []
                      then [mustNewConstMetric filesystemInfoDesc (Fin 1)
                              [dev, get ''ID_FS_TYPE'', get ''ID_FS_USAGE'', get ''ID_FS_UUID'', get ''ID_FS_VERSION'']]
                      else []) @
                     (if get ''DM_NAME'' \<noteq> []
                      then [mustNewConstMetric deviceMapperInfoDesc (Fin 1)
                              [dev, get ''DM_NAME'', get ''DM_UUID'', get ''DM_VG_NAME'', get ''DM_LV_NAME'', get ''DM_LV_LAYER'']]
                      else []) @
                     ata_metrics env dev info))))"

definition disk_Update :: "diskstatsEnv \<Rightarrow> diskstatsCollector \<Rightarrow> upd" where
  "disk_Update env c =
     with_res (map_err (Wrapf ''couldn't get diskstats: %w'' []) (ProcDiskstats env)) (\<lambda>diskStats.
       foreach (disk_device env c) diskStats)"

section \<open>Lemmas\<close>

definition value_metrics :: "string \<Rightarrow> typedDesc list \<Rightarrow> float64 list \<Rightarrow> metric list" where
  "value_metrics dev ds vs = map (\<lambda>(d, v). mustNewConstMetric d v [dev]) (zip ds vs)"

lemma send_values_spec:
  "i + length vs \<le> length disk_descs \<Longrightarrow>
     send_values dev n i vs = emit (value_metrics dev (drop i disk_descs) (take (nat (n - int i)) vs))"
proof (induction vs arbitrary: i)
  case (Cons v vs)
  show ?case
  proof (cases "n \<le> int i")
    case False
    have i: "i < length disk_descs" using Cons.prems by simp
    have "nat (n - int i) = Suc (nat (n - int (Suc i)))" using False by simp
    then have "value_metrics dev (drop i disk_descs) (take (nat (n - int i)) (v # vs)) =
        mustNewConstMetric (disk_descs ! i) v [dev] # value_metrics dev (drop (Suc i) disk_descs) (take (nat (n - int (Suc i))) vs)"
      using Cons_nth_drop_Suc [OF i, symmetric] by (simp add: value_metrics_def)
    then show ?thesis using False i Cons.IH [of "Suc i"] Cons.prems by (simp add: emit_def)
  qed (simp add: value_metrics_def)
qed (simp add: value_metrics_def)

lemma length_disk_descs [simp]: "length disk_descs = 17"
  by (simp add: disk_descs_def)

lemma length_disk_values [simp]: "length (disk_values s) = 17"
  by (simp add: disk_values_def Let_def)

lemma disk_descs_labels: "d \<in> set disk_descs \<Longrightarrow> length (desc_labels (td_desc d)) = 1"
  by (auto simp: disk_desc_defs)

lemma value_metrics_ok: "set ds \<subseteq> set disk_descs \<Longrightarrow> list_all labels_ok (value_metrics dev ds vs)"
  by (auto simp: value_metrics_def list_all_iff disk_descs_labels dest!: set_zip_leftD)

lemma disk_device_Ok:
  "disk_device env c s = emit (fst (disk_device env c s))"
  using send_values_spec [of 0 "disk_values s"]
  by (simp add: disk_device_def Let_def) (simp add: emit_def)

lemma ata_metrics_ok: "range_order (ord_ata env) \<Longrightarrow> list_all labels_ok (ata_metrics env dev info)"
  by (auto simp: ata_metrics_def list_all_iff disk_desc_defs split: option.splits res.splits)

lemma disk_device_labels: "range_order (ord_ata env) \<Longrightarrow> upd_ok (disk_device env c s)"
  using send_values_spec [of 0 "disk_values s"] value_metrics_ok [of disk_descs] ata_metrics_ok
  by (simp add: disk_device_def Let_def upd_ok_def)
    (simp add: disk_infoDesc_def filesystemInfoDesc_def deviceMapperInfoDesc_def disk_desc_def)

section \<open>The contract\<close>

definition disk_pre :: "diskstatsEnv \<times> diskstatsCollector \<Rightarrow> bool" where
  "disk_pre = (\<lambda>(env, c). \<not> panics (ProcDiskstats env) \<and> range_order (ord_ata env))"

lemma disk_Update_eq:
  assumes "ProcDiskstats env = Ok ds"
  shows "disk_Update env c = emit (concat (map (\<lambda>s. fst (disk_device env c s)) ds))"
proof -
  have "snd (disk_device env c s) = Ok ()" for s by (metis disk_device_Ok fst_emit(2))
  then have "foreach (disk_device env c) ds = emit (concat (map (\<lambda>s. fst (disk_device env c s)) ds))"
    by (intro foreach_Ok)
  then show ?thesis using assms by (simp add: disk_Update_def)
qed

interpretation disk: safe_collector_contract "\<lambda>(env, c). disk_Update env c" disk_pre
proof unfold_locales
  fix e assume pre: "disk_pre e"
  obtain env c where e: "e = (env, c)" by (cases e)
  then show "upd_ok (case e of (env, c) \<Rightarrow> disk_Update env c)"
    using pre disk_device_labels by (auto simp: disk_pre_def disk_Update_def intro!: upd_ok_with_res upd_ok_foreach)
  have "\<not> panics (snd (disk_device env c s))" for s by (metis disk_device_Ok fst_emit(2) panics.simps(2))
  then show "\<not> panics (snd (case e of (env, c) \<Rightarrow> disk_Update env c))"
    using pre e by (auto simp: disk_pre_def disk_Update_def panics_with_res dest!: panics_foreach)
qed

section \<open>Properties\<close>

text \<open>
  A device reports as many statistics as its line in the kernel's table has, at most the
  seventeen the collector knows, each under its own descriptor; no index is out of range.
\<close>

theorem send_values_count:
  "send_values dev (IoStatsCount s - 3) 0 (disk_values s) =
     emit (value_metrics dev disk_descs (take (nat (IoStatsCount s - 3)) (disk_values s)))"
  using send_values_spec [of 0 "disk_values s" dev "IoStatsCount s - 3"] by simp

text \<open>The property line \<^verbatim>\<open>E:name=value\<close>, split at the first equals sign.\<close>

definition udev_property :: "string \<Rightarrow> (string \<times> string) option" where
  "udev_property line = (if HasPrefix line ''E:'' then Cut (drop 2 line) ''='' else None)"

text \<open>
  A udev property has the value of the last line that sets it, and lines that are not
  properties are ignored.
\<close>

theorem getUdevDeviceProperties_get:
  assumes "getUdevDeviceProperties env maj mnr = Ok info"
  shows "\<exists>data. ds_readFile env (udevDataFilePath (ds_paths env) (''b'' @ FormatUint (unat maj) @ '':'' @ FormatUint (unat mnr))) = Ok data \<and>
    map_get info name = map_get (rev (List.map_filter udev_property (scan_lines data))) name"
proof -
  have "map_get (fold udev_line ls []) name = map_get (rev (List.map_filter udev_property ls)) name" for ls
  proof (induction ls rule: rev_induct)
    case (snoc l ls)
    have "udev_line l m = (case udev_property l of None \<Rightarrow> m | Some (k, v) \<Rightarrow> map_put k v m)" for m
      by (auto simp: udev_line_def udev_property_def TrimPrefix_def numeral_2_eq_2 split: option.splits)
    then show ?case using snoc by (auto simp: map_filter_def split: option.splits)
  qed simp
  then show ?thesis using assms by (auto simp: getUdevDeviceProperties_def go_simps)
qed

theorem getUdevDeviceProperties_get_witness:
  "\<exists>info data. getUdevDeviceProperties \<lparr>ds_paths = default_paths, blockdevice_NewFS = Ok (), ProcDiskstats = Ok [],
       SysBlockDeviceRotational = (\<lambda>_. Ok 1), ds_readFile = (\<lambda>_. Ok ''E:ID_MODEL=a=b''), udev_isDir = True, ord_ata = rev\<rparr> 8 0 = Ok info \<and>
     map_get info ''ID_MODEL'' = map_get (rev (List.map_filter udev_property (scan_lines data))) ''ID_MODEL''"
proof -
  let ?env = "\<lparr>ds_paths = default_paths, blockdevice_NewFS = Ok (), ProcDiskstats = Ok [],
       SysBlockDeviceRotational = (\<lambda>_. Ok 1), ds_readFile = (\<lambda>_. Ok ''E:ID_MODEL=a=b''), udev_isDir = True, ord_ata = rev\<rparr>"
  obtain info where i: "getUdevDeviceProperties ?env 8 0 = Ok info" by (simp add: getUdevDeviceProperties_def)
  from getUdevDeviceProperties_get [OF i, of "''ID_MODEL''"] i show ?thesis by blast
qed

text \<open>
  A scrape that reads the table sends the metrics of the devices the filter keeps, in the order
  of the table, and nothing for the others.
\<close>

theorem disk_Update_devices:
  assumes "ProcDiskstats env = Ok ds" "newDeviceFilter excl incl = Ok (ds_filter c)"
  shows "disk_Update env c = emit (concat (map (\<lambda>s. fst (disk_device env c s))
    (filter (\<lambda>s. (excl = [] \<or> \<not> pattern_matches excl (DeviceName s)) \<and> (incl = [] \<or> pattern_matches incl (DeviceName s))) ds)))"
proof -
  have "concat (map (\<lambda>s. fst (disk_device env c s)) ds) =
      concat (map (\<lambda>s. fst (disk_device env c s)) (filter (\<lambda>s. \<not> ignored (ds_filter c) (DeviceName s)) ds))"
    by (induction ds) (simp_all add: disk_device_def Let_def)
  then show ?thesis using disk_Update_eq [OF assms(1)] dev.kept_devices [OF assms(2), of DeviceName ds] by simp
qed

definition demo_disk :: "string \<Rightarrow> Diskstat" where
  "demo_disk name = \<lparr>MajorNumber = 8, MinorNumber = 0, DeviceName = name, ReadIOs = 1, ReadMerges = 2, ReadSectors = 3, ReadTicks = 4,
     WriteIOs = 5, WriteMerges = 6, WriteSectors = 7, WriteTicks = 8, IOsInProgress = 0, IOsTotalTicks = 9, WeightedIOTicks = 10,
     DiscardIOs = 0, DiscardMerges = 0, DiscardSectors = 0, DiscardTicks = 0, FlushRequestsCompleted = 0, TimeSpentFlushing = 0,
     IoStatsCount = 14\<rparr>"

definition demo_disk_env :: diskstatsEnv where
  "demo_disk_env = \<lparr>ds_paths = default_paths, blockdevice_NewFS = Ok (), ProcDiskstats = Ok [demo_disk ''sda'', demo_disk ''loop0''],
     SysBlockDeviceRotational = (\<lambda>_. Ok 1), ds_readFile = (\<lambda>_. Err ErrNotExist), udev_isDir = True, ord_ata = rev\<rparr>"

theorem disk_Update_devices_witness:
  "\<exists>f. newDeviceFilter ''^loop'' [] = Ok f \<and>
     disk_Update demo_disk_env \<lparr>ds_filter = f, ds_udev = False\<rparr> =
       emit (concat (map (\<lambda>s. fst (disk_device demo_disk_env \<lparr>ds_filter = f, ds_udev = False\<rparr> s))
         (filter (\<lambda>s. \<not> pattern_matches ''^loop'' (DeviceName s)) [demo_disk ''sda'', demo_disk ''loop0''])))"
proof -
  have "case newDeviceFilter ''^loop'' [] of Ok f \<Rightarrow> True | _ \<Rightarrow> False" by code_simp
  then obtain f where f: "newDeviceFilter ''^loop'' [] = Ok f" by (auto split: res.splits)
  have ds: "ProcDiskstats demo_disk_env = Ok [demo_disk ''sda'', demo_disk ''loop0'']" by (simp add: demo_disk_env_def)
  show ?thesis
    using f disk_Update_devices [OF ds, of "''^loop''" "[]" "\<lparr>ds_filter = f, ds_udev = False\<rparr>"] by simp
qed

end
