(* ===== verification/Memory.thy ===== *)
theory Memory
  imports Helpers
begin

text \<open>
  The memory collectors: \<^verbatim>\<open>meminfo.go\<close>, \<^verbatim>\<open>meminfo_linux.go\<close> and \<^verbatim>\<open>meminfo_numa_linux.go\<close>. The struct procfs
  returns for \<^verbatim>\<open>/proc/meminfo\<close> has one optional counter for each field and is a map from field names;
  the NUMA files are parsed here.
\<close>

section \<open>meminfo\<close>

text \<open>The metrics and the field of \<^verbatim>\<open>procfs.Meminfo\<close> each is read from, in the order of the source.\<close>

definition meminfo_fields :: "(string \<times> string) list" where
  "meminfo_fields =
     [(''Active_bytes'', ''ActiveBytes''), (''Active_anon_bytes'', ''ActiveAnonBytes''),
      (''Active_file_bytes'', ''ActiveFileBytes''), (''AnonHugePages_bytes'', ''AnonHugePagesBytes''),
      (''AnonPages_bytes'', ''AnonPagesBytes''), (''Bounce_bytes'', ''BounceBytes''),
      (''Buffers_bytes'', ''BuffersBytes''), (''Cached_bytes'', ''CachedBytes''),
      (''CmaFree_bytes'', ''CmaFreeBytes''), (''CmaTotal_bytes'', ''CmaTotalBytes''),
      (''CommitLimit_bytes'', ''CommitLimitBytes''), (''Committed_AS_bytes'', ''CommittedASBytes''),
      (''DirectMap1G_bytes'', ''DirectMap1GBytes''), (''DirectMap2M_bytes'', ''DirectMap2MBytes''),
      (''DirectMap4k_bytes'', ''DirectMap4kBytes''), (''Dirty_bytes'', ''DirtyBytes''),
      (''HardwareCorrupted_bytes'', ''HardwareCorruptedBytes''), (''Hugepagesize_bytes'', ''HugepagesizeBytes''),
      (''Inactive_bytes'', ''InactiveBytes''), (''Inactive_anon_bytes'', ''InactiveAnonBytes''),
      (''Inactive_file_bytes'', ''InactiveFileBytes''), (''KernelStack_bytes'', ''KernelStackBytes''),
      (''Mapped_bytes'', ''MappedBytes''), (''MemAvailable_bytes'', ''MemAvailableBytes''),
      (''MemFree_bytes'', ''MemFreeBytes''), (''MemTotal_bytes'', ''MemTotalBytes''),
      (''Mlocked_bytes'', ''MlockedBytes''), (''NFS_Unstable_bytes'', ''NFSUnstableBytes''),
      (''PageTables_bytes'', ''PageTablesBytes''), (''Percpu_bytes'', ''PercpuBytes''),
      (''SReclaimable_bytes'', ''SReclaimableBytes''), (''SUnreclaim_bytes'', ''SUnreclaimBytes''),
      (''Shmem_bytes'', ''ShmemBytes''), (''ShmemHugePages_bytes'', ''ShmemHugePagesBytes''),
      (''ShmemPmdMapped_bytes'', ''ShmemPmdMappedBytes''), (''Slab_bytes'', ''SlabBytes''),
      (''SwapCached_bytes'', ''SwapCachedBytes''), (''SwapFree_bytes'', ''SwapFreeBytes''),
      (''SwapTotal_bytes'', ''SwapTotalBytes''), (''Unevictable_bytes'', ''UnevictableBytes''),
      (''VmallocChunk_bytes'', ''VmallocChunkBytes''), (''VmallocTotal_bytes'', ''VmallocTotalBytes''),
      (''VmallocUsed_bytes'', ''VmallocUsedBytes''), (''Writeback_bytes'', ''WritebackBytes''),
      (''WritebackTmp_bytes'', ''WritebackTmpBytes''), (''Zswap_bytes'', ''ZswapBytes''),
      (''Zswapped_bytes'', ''ZswappedBytes''), (''HugePages_Free'', ''HugePagesFree''),
      (''HugePages_Rsvd'', ''HugePagesRsvd''), (''HugePages_Surp'', ''HugePagesSurp''),
      (''HugePages_Total'', ''HugePagesTotal'')]"

type_synonym Meminfo = "string \<Rightarrow> uint64 option"

fun put_fields :: "Meminfo \<Rightarrow> (string \<times> string) list \<Rightarrow> (string, float64) gomap \<Rightarrow> (string, float64) gomap" where
  "put_fields meminfo [] metrics = metrics"
| "put_fields meminfo ((name, field) # fs) metrics =
     put_fields meminfo fs
       (case meminfo field of None \<Rightarrow> metrics | Some v \<Rightarrow> map_put name (f64_of_nat (unat v)) metrics)"

definition getMemInfo :: "Meminfo res \<Rightarrow> (string, float64) gomap res" where
  "getMemInfo fs_Meminfo =
     bind_res (map_err (Wrapf ''failed to get memory info: %w'' []) fs_Meminfo) (\<lambda>meminfo.
       Ok (put_fields meminfo meminfo_fields []))"

definition NewMeminfoCollector :: "unit res \<Rightarrow> unit res" where
  "NewMeminfoCollector procfs_NewFS = map_err (Wrapf ''failed to open procfs: %w'' []) procfs_NewFS"

definition meminfo_desc :: "string \<Rightarrow> desc" where
  "meminfo_desc k = NewDesc (BuildFQName namespace ''memory'' k) (''Memory information field '' @ k @ ''.'') []"

definition meminfo_metric :: "string \<times> float64 \<Rightarrow> metric" where
  "meminfo_metric = (\<lambda>(k, v).
     MustNewConstMetric (meminfo_desc k) (if HasSuffix k ''_total'' then CounterValue else GaugeValue) v [])"

definition meminfo_Update :: "((string \<times> float64) list \<Rightarrow> (string \<times> float64) list) \<Rightarrow> Meminfo res \<Rightarrow> upd" where
  "meminfo_Update ord fs_Meminfo =
     with_res (map_err (Wrapf ''couldn't get meminfo: %w'' []) (getMemInfo fs_Meminfo)) (\<lambda>memInfo.
       emit (map meminfo_metric (ord memInfo)))"

section \<open>meminfo of NUMA nodes\<close>

record meminfoMetric =
  metricName :: string
  metricType :: valueType
  numaNode :: string
  mm_value :: float64

definition meminfoNodeRE :: regexp where
  "meminfoNodeRE = compiled ''.*devices/system/node/node([0-9]*)''"

definition parenRE :: regexp where
  "parenRE = compiled ([CHR 0x5C] @ ''((.*)'' @ [CHR 0x5C] @ '')'')"

definition parse_numa_line :: "string \<Rightarrow> meminfoMetric list \<Rightarrow> meminfoMetric list res" where
  "parse_numa_line raw memInfo =
     (let line = TrimSpace raw in
      if line = [] then Ok memInfo
      else let parts = Fields line in
           bind_res (idx parts 3) (\<lambda>p3.
           bind_res (map_err (Wrapf ''invalid value in meminfo: %w'' []) (ParseFloat p3)) (\<lambda>fv.
           bind_res (if length parts = 4 then Ok fv
                     else if length parts = 5 \<and> parts ! 4 = ''kB'' then Ok (f64_mul fv (Fin 1024))
                     else Err (Errorf ''invalid line in meminfo: %s'' [line])) (\<lambda>fv'.
           let metric = ReplaceAllString parenRE (TrimRight (parts ! 2) {CHR '':''}) (\<lambda>caps. ''_'' @ submatch caps 1)
           in Ok (memInfo @ [\<lparr>metricName = metric, metricType = GaugeValue, numaNode = parts ! 1, mm_value = fv'\<rparr>])))))"

definition parseMemInfoNuma :: "string \<Rightarrow> meminfoMetric list res" where
  "parseMemInfoNuma r =
     bind_res (fold_res parse_numa_line (scan_lines r) []) (\<lambda>memInfo. ok_or memInfo (scan_err r))"

definition parse_numastat_line :: "string \<Rightarrow> string \<Rightarrow> meminfoMetric list \<Rightarrow> meminfoMetric list res" where
  "parse_numastat_line nodeNumber raw numaStat =
     (let line = TrimSpace raw in
      if line = [] then Ok numaStat
      else let parts = Fields line in
           if length parts \<noteq> 2 then Err (Errorf ''line scan did not return 2 fields: %s'' [line])
           else bind_res (map_err (Wrapf ''invalid value in numastat: %w'' []) (ParseFloat (parts ! 1))) (\<lambda>fv.
                Ok (numaStat @ [\<lparr>metricName = parts ! 0 @ ''_total'', metricType = CounterValue, numaNode = nodeNumber, mm_value = fv\<rparr>])))"

definition parseMemInfoNumaStat :: "string \<Rightarrow> string \<Rightarrow> meminfoMetric list res" where
  "parseMemInfoNumaStat r nodeNumber =
     bind_res (fold_res (parse_numastat_line nodeNumber) (scan_lines r) []) (\<lambda>numaStat. ok_or numaStat (scan_err r))"

record numaEnv =
  numa_glob :: "string list res"
  numa_readFile :: "string \<Rightarrow> string res"

definition numa_node :: "numaEnv \<Rightarrow> string \<Rightarrow> meminfoMetric list \<Rightarrow> meminfoMetric list res" where
  "numa_node env node metrics =
     bind_res (numa_readFile env (filepath_Join [node, ''meminfo''])) (\<lambda>meminfoFile.
     bind_res (parseMemInfoNuma meminfoFile) (\<lambda>numaInfo.
     bind_res (numa_readFile env (filepath_Join [node, ''numastat''])) (\<lambda>numastatFile.
     case FindStringSubmatch meminfoNodeRE node of
       None \<Rightarrow> Err (Errorf ''device node string didn't match regexp: %s'' [node])
     | Some caps \<Rightarrow>
         bind_res (parseMemInfoNumaStat numastatFile (submatch caps 1)) (\<lambda>numaStat.
         Ok (metrics @ numaInfo @ numaStat)))))"

definition getMemInfoNuma :: "numaEnv \<Rightarrow> meminfoMetric list res" where
  "getMemInfoNuma env = bind_res (numa_glob env) (\<lambda>nodes. fold_res (numa_node env) nodes [])"

definition numa_desc :: "string \<Rightarrow> desc" where
  "numa_desc name = NewDesc (BuildFQName namespace ''memory_numa'' name) (''Memory information field '' @ name @ ''.'') [''node'']"

fun numa_send :: "meminfoMetric list \<Rightarrow> (string, desc) gomap \<Rightarrow> (string, desc) gomap \<times> metric list" where
  "numa_send [] descs = (descs, [])"
| "numa_send (v # vs) descs =
     (let (d, descs1) = (case map_get descs (metricName v) of
                           Some d \<Rightarrow> (d, descs)
                         | None \<Rightarrow> (numa_desc (metricName v), map_put (metricName v) (numa_desc (metricName v)) descs));
          (descs2, ms) = numa_send vs descs1
      in (descs2, MustNewConstMetric d (metricType v) (mm_value v) [numaNode v] # ms))"

definition numa_Update :: "numaEnv \<Rightarrow> (string, desc) gomap \<Rightarrow> (string, desc) gomap \<times> upd" where
  "numa_Update env descs =
     (case map_err (Wrapf ''couldn't get NUMA meminfo: %w'' []) (getMemInfoNuma env) of
        Err e \<Rightarrow> (descs, fail e)
      | Panic p \<Rightarrow> (descs, ([], Panic p))
      | Ok metrics \<Rightarrow> let (descs', ms) = numa_send metrics descs in (descs', emit ms))"

section \<open>Lemmas\<close>

lemma put_fields_get:
  "distinct (map fst fs) \<Longrightarrow>
     map_get (put_fields m fs acc) name =
       (case map_get fs name of
          None \<Rightarrow> map_get acc name
        | Some field \<Rightarrow> (case m field of None \<Rightarrow> map_get acc name | Some v \<Rightarrow> Some (f64_of_nat (unat v))))"
proof (induction fs arbitrary: acc)
  case (Cons f fs)
  obtain n field where f: "f = (n, field)" by fastforce
  have "map_get fs n = None" using Cons.prems f by (simp add: map_of_eq_None_iff)
  then show ?case using Cons f by (auto split: option.splits)
qed simp

lemma meminfo_fields_distinct: "distinct (map fst meminfo_fields)"
  by code_simp

lemma meminfo_fields_no_total: "list_all (\<lambda>(n, _). \<not> HasSuffix n ''_total'') meminfo_fields"
  by code_simp

lemma put_fields_keys: "fst ` set (put_fields m fs acc) \<subseteq> fst ` set fs \<union> fst ` set acc"
proof (induction fs arbitrary: acc)
  case (Cons f fs)
  obtain n field where f: "f = (n, field)" by fastforce
  define acc' where "acc' = (case m field of None \<Rightarrow> acc | Some v \<Rightarrow> map_put n (f64_of_nat (unat v)) acc)"
  have "fst ` set acc' \<subseteq> insert n (fst ` set acc)" by (auto simp: acc'_def keys_map_put split: option.splits)
  moreover have "put_fields m (f # fs) acc = put_fields m fs acc'" by (simp add: f acc'_def)
  moreover have "fst ` set (put_fields m fs acc') \<subseteq> fst ` set fs \<union> fst ` set acc'" by (rule Cons)
  ultimately have "fst ` set (put_fields m (f # fs) acc) \<subseteq> fst ` set fs \<union> insert n (fst ` set acc)" by (simp only:) blast
  then show ?case using f by auto
qed simp

text \<open>The descriptors of the NUMA collector are cached by name, which determines them.\<close>

definition numa_inv :: "(string, desc) gomap \<Rightarrow> bool" where
  "numa_inv descs \<longleftrightarrow> (\<forall>k d. map_get descs k = Some d \<longrightarrow> d = numa_desc k)"

lemma numa_send_spec:
  "numa_inv descs \<Longrightarrow> numa_send vs descs = (descs', ms) \<Longrightarrow>
     numa_inv descs' \<and> ms = map (\<lambda>v. MustNewConstMetric (numa_desc (metricName v)) (metricType v) (mm_value v) [numaNode v]) vs"
proof (induction vs arbitrary: descs descs' ms)
  case (Cons v vs)
  define descs1 where "descs1 = (if map_get descs (metricName v) = None then map_put (metricName v) (numa_desc (metricName v)) descs else descs)"
  have 1: "numa_inv descs1" using Cons.prems(1) by (auto simp: numa_inv_def descs1_def)
  obtain d2 ms2 where 2: "numa_send vs descs1 = (d2, ms2)" by fastforce
  have "(d2, MustNewConstMetric (numa_desc (metricName v)) (metricType v) (mm_value v) [numaNode v] # ms2) = (descs', ms)"
    using Cons.prems 2 by (auto simp: Let_def descs1_def numa_inv_def split: option.splits)
  with Cons.IH [OF 1 2] show ?case by auto
qed simp

definition numa_items :: "string \<Rightarrow> meminfoMetric list res" where
  "numa_items raw = parse_numa_line raw []"

lemma parse_numa_line_collect: "parse_numa_line raw acc = bind_res (numa_items raw) (\<lambda>ys. Ok (acc @ ys))"
  unfolding numa_items_def parse_numa_line_def Let_def
  by (cases "idx (Fields (TrimSpace raw)) 3"; cases "ParseFloat (Fields (TrimSpace raw) ! 3)")
    (auto simp: idx_def split: if_splits)

lemma numa_items_Ok:
  "numa_items raw = Ok ys \<Longrightarrow> length ys = (if TrimSpace raw = [] then 0 else 1)"
  by (auto simp: numa_items_def parse_numa_line_def Let_def go_simps split: if_splits)

section \<open>The contracts\<close>

definition meminfo_pre :: "((string \<times> float64) list \<Rightarrow> (string \<times> float64) list) \<times> Meminfo res \<Rightarrow> bool" where
  "meminfo_pre = (\<lambda>(ord, m). \<not> panics m)"

interpretation meminfo: safe_collector_contract "\<lambda>(ord, m). meminfo_Update ord m" meminfo_pre
  by unfold_locales
    (auto simp: meminfo_Update_def meminfo_pre_def meminfo_metric_def meminfo_desc_def list_all_iff getMemInfo_def panics_with_res panics_bind_res
      intro!: upd_ok_with_res)

interpretation numa: collector_contract "\<lambda>(env, descs). snd (numa_Update env descs)" "\<lambda>(env, descs). numa_inv descs"
proof unfold_locales
  fix e assume pre: "case e of (env :: numaEnv, descs) \<Rightarrow> numa_inv descs"
  obtain env descs where e: "e = (env, descs)" by (cases e)
  have "list_all labels_ok (snd (numa_send vs descs))" for vs
    using numa_send_spec [of descs vs] pre e by (cases "numa_send vs descs") (simp add: list_all_iff numa_desc_def)
  then show "upd_ok (case e of (env, descs) \<Rightarrow> snd (numa_Update env descs))"
    unfolding e by (auto simp: numa_Update_def upd_ok_def case_prod_beta split: res.splits)
qed

section \<open>Properties\<close>

text \<open>
  The memory metrics are exactly the fields the kernel reported, each under the name the
  collector gives it and with its value, and every one of them is a gauge.
\<close>

theorem meminfo_Update_exact:
  assumes "range_order ord"
  shows "\<exists>metrics. getMemInfo (Ok m) = Ok metrics \<and>
    meminfo_Update ord (Ok m) = emit (map (\<lambda>(k, v). MustNewConstMetric (meminfo_desc k) GaugeValue v []) (ord metrics)) \<and>
    (\<forall>name. map_get metrics name = Option.bind (map_get meminfo_fields name) (\<lambda>field. map_option (\<lambda>v. f64_of_nat (unat v)) (m field)))"
proof -
  let ?ms = "put_fields m meminfo_fields []"
  have "\<not> HasSuffix (fst kv) ''_total''" if "kv \<in> set (ord ?ms)" for kv
  proof -
    have "fst kv \<in> fst ` set meminfo_fields" using that put_fields_keys [of m meminfo_fields "[]"] assms by auto
    then show ?thesis using meminfo_fields_no_total by (auto simp: list_all_iff)
  qed
  then have "map meminfo_metric (ord ?ms) = map (\<lambda>(k, v). MustNewConstMetric (meminfo_desc k) GaugeValue v []) (ord ?ms)"
    by (auto simp: meminfo_metric_def)
  moreover have "map_get ?ms name = Option.bind (map_get meminfo_fields name) (\<lambda>field. map_option (\<lambda>v. f64_of_nat (unat v)) (m field))" for name
    by (simp add: put_fields_get [OF meminfo_fields_distinct] split: option.splits)
  ultimately show ?thesis
    by (intro exI [of _ ?ms]) (simp add: getMemInfo_def meminfo_Update_def del: map_eq_conv)
qed

theorem meminfo_Update_exact_witness:
  "\<exists>metrics. getMemInfo (Ok (\<lambda>f. if f = ''MemFreeBytes'' then Some 4096 else None)) = Ok metrics \<and>
     map_get metrics ''MemFree_bytes'' = Some (f64_of_nat (unat (4096 :: uint64)))"
proof -
  have f: "map_get meminfo_fields ''MemFree_bytes'' = Some ''MemFreeBytes''" by code_simp
  obtain metrics where "getMemInfo (Ok (\<lambda>f. if f = ''MemFreeBytes'' then Some 4096 else None)) = Ok metrics"
    "map_get metrics ''MemFree_bytes'' = Option.bind (map_get meminfo_fields ''MemFree_bytes'')
       (\<lambda>field. map_option (\<lambda>v. f64_of_nat (unat v)) (if field = ''MemFreeBytes'' then Some (4096 :: uint64) else None))"
    using meminfo_Update_exact [OF range_order_rev, of "\<lambda>f. if f = ''MemFreeBytes'' then Some 4096 else None"] by blast
  with f show ?thesis by simp
qed

text \<open>
  Every line of a NUMA node's memory file that is not blank gives one metric; the file is
  accepted only when all of them are well formed and no line was too long to be read.
\<close>

theorem parseMemInfoNuma_complete:
  assumes "parseMemInfoNuma r = Ok ms"
  shows "length ms = length (filter (\<lambda>l. TrimSpace l \<noteq> []) (scan_lines r)) \<and> scan_err r = None"
proof -
  obtain yss where yss: "list_all2 (\<lambda>x ys. numa_items x = Ok ys) (scan_lines r) yss" "ms = concat yss" "scan_err r = None"
    using assms fold_res_collect [of parse_numa_line numa_items "scan_lines r" "[]", OF parse_numa_line_collect]
    by (auto simp: parseMemInfoNuma_def go_simps ok_or_def split: option.splits)
  have "list_all2 (\<lambda>x ys. numa_items x = Ok ys) ls yss \<Longrightarrow> length (concat yss) = length (filter (\<lambda>l. TrimSpace l \<noteq> []) ls)" for ls yss
    by (induction rule: list_all2_induct) (auto dest: numa_items_Ok split: if_splits)
  with yss show ?thesis by simp
qed

theorem parseMemInfoNuma_complete_witness:
  "\<exists>ms. parseMemInfoNuma ''Node 0 HugePages_Free: 0'' = Ok ms \<and>
     length ms = length (filter (\<lambda>l. TrimSpace l \<noteq> []) (scan_lines ''Node 0 HugePages_Free: 0''))"
proof -
  have "case parseMemInfoNuma ''Node 0 HugePages_Free: 0'' of Ok ms \<Rightarrow> True | _ \<Rightarrow> False" by code_simp
  then obtain ms where ms: "parseMemInfoNuma ''Node 0 HugePages_Free: 0'' = Ok ms" by (auto split: res.splits)
  from parseMemInfoNuma_complete [OF ms] ms show ?thesis by blast
qed

end
