(* ===== verification/ProcFiles.thy ===== *)
theory ProcFiles
  imports Helpers
begin

text \<open>
  The collectors that read one small file or one procfs structure: \<^verbatim>\<open>loadavg.go\<close> and \<^verbatim>\<open>loadavg_linux.go\<close>,
  \<^verbatim>\<open>filefd_linux.go\<close>, \<^verbatim>\<open>vmstat_linux.go\<close>, \<^verbatim>\<open>time.go\<close> and \<^verbatim>\<open>time_linux.go\<close>, \<^verbatim>\<open>stat_linux.go\<close>. Files are contents
  or errors of the environment; the clock and the procfs structures are arguments.
\<close>

section \<open>Load average\<close>

definition loadavg_metric :: "typedDesc list" where
  "loadavg_metric =
     [\<lparr>td_desc = NewDesc (FQName (namespace @ ''_load1'')) ''1m load average.'' [], td_valueType = GaugeValue\<rparr>,
      \<lparr>td_desc = NewDesc (FQName (namespace @ ''_load5'')) ''5m load average.'' [], td_valueType = GaugeValue\<rparr>,
      \<lparr>td_desc = NewDesc (FQName (namespace @ ''_load15'')) ''15m load average.'' [], td_valueType = GaugeValue\<rparr>]"

definition parse_load_part :: "string \<Rightarrow> float64 list \<Rightarrow> float64 list res" where
  "parse_load_part load loads =
     bind_res (map_err (Wrapf ''could not parse load '%s': %w'' [load]) (ParseFloat load)) (\<lambda>v. Ok (loads @ [v]))"

definition parseLoad :: "paths \<Rightarrow> string \<Rightarrow> float64 list res" where
  "parseLoad p data =
     (let parts = Fields data in
      if length parts < 3 then Err (Errorf ''unexpected content in %s'' [procFilePath p ''loadavg''])
      else fold_res parse_load_part (take 3 parts) [])"

definition getLoad :: "paths \<Rightarrow> (string \<Rightarrow> string res) \<Rightarrow> float64 list res" where
  "getLoad p readFile = bind_res (readFile (procFilePath p ''loadavg'')) (parseLoad p)"

fun send_loads :: "nat \<Rightarrow> float64 list \<Rightarrow> upd" where
  "send_loads i [] = emit []"
| "send_loads i (load # loads) =
     with_res (idx loadavg_metric i) (\<lambda>d. seq (emit [mustNewConstMetric d load []]) (send_loads (Suc i) loads))"

definition loadavg_Update :: "paths \<Rightarrow> (string \<Rightarrow> string res) \<Rightarrow> upd" where
  "loadavg_Update p readFile =
     with_res (map_err (Wrapf ''couldn't get load: %w'' []) (getLoad p readFile)) (send_loads 0)"

section \<open>File descriptors\<close>

definition parseFileFDStats :: "(string \<Rightarrow> string res) \<Rightarrow> string \<Rightarrow> (string, string) gomap res" where
  "parseFileFDStats readFile filename =
     bind_res (readFile filename) (\<lambda>content.
       let parts = Split (TrimSpace content) (CHR 0x09) in
       if length parts < 3 then Err (Errorf ''unexpected number of file stats in %q'' [filename])
       else Ok [(''allocated'', parts ! 0), (''maximum'', parts ! 2)])"

definition filefd_metric :: "string \<times> string \<Rightarrow> upd" where
  "filefd_metric = (\<lambda>(name, v).
     with_res (map_err (Wrapf ''invalid value %s in file-nr: %w'' [v]) (ParseFloat v)) (\<lambda>x.
       emit [MustNewConstMetric (NewDesc (BuildFQName namespace ''filefd'' name) (''File descriptor statistics: '' @ name @ ''.'') [])
               GaugeValue x []]))"

definition filefd_Update ::
  "((string \<times> string) list \<Rightarrow> (string \<times> string) list) \<Rightarrow> paths \<Rightarrow> (string \<Rightarrow> string res) \<Rightarrow> upd" where
  "filefd_Update ord p readFile =
     with_res (map_err (Wrapf ''couldn't get file-nr: %w'' []) (parseFileFDStats readFile (procFilePath p ''sys/fs/file-nr''))) (\<lambda>m.
       foreach filefd_metric (ord m))"

section \<open>vmstat\<close>

definition NewvmStatCollector :: "string \<Rightarrow> regexp res" where
  "NewvmStatCollector vmStatFields = MustCompile vmStatFields"

definition defVmStatFields :: string where
  "defVmStatFields = ''^(oom_kill|pgpg|pswp|pg.*fault).*''"

definition vmstat_desc :: "string \<Rightarrow> desc" where
  "vmstat_desc name = NewDesc (BuildFQName namespace ''vmstat'' name) (''/proc/vmstat information field '' @ name @ ''.'') []"

definition vmstat_line :: "regexp \<Rightarrow> string \<Rightarrow> upd" where
  "vmstat_line fieldPattern text =
     (let parts = Fields text in
      with_res (idx parts 1) (\<lambda>p1.
      with_res (ParseFloat p1) (\<lambda>v.
        if \<not> MatchString fieldPattern (parts ! 0) then emit []
        else emit [MustNewConstMetric (vmstat_desc (parts ! 0)) UntypedValue v []])))"

definition vmstat_Update :: "regexp \<Rightarrow> paths \<Rightarrow> (string \<Rightarrow> string res) \<Rightarrow> upd" where
  "vmstat_Update fieldPattern p readFile =
     with_res (readFile (procFilePath p ''vmstat'')) (\<lambda>file.
       seq (foreach (vmstat_line fieldPattern) (scan_lines file))
         (with_res (ok_or () (scan_err file)) (\<lambda>_. emit [])))"

section \<open>Time\<close>

record clockSource =
  Available :: "string list"
  Current :: string

record timeEnv =
  UnixNano :: int
  zoneName :: string
  zoneOffset :: int
  time_sysfs_NewFS :: "unit res"
  ClockSources :: "clockSource list res"

definition time_desc :: "string \<Rightarrow> string \<Rightarrow> string list \<Rightarrow> typedDesc" where
  "time_desc name help labels =
     \<lparr>td_desc = NewDesc (BuildFQName namespace ''time'' name) help labels, td_valueType = GaugeValue\<rparr>"

definition time_now :: typedDesc where
  "time_now = time_desc ''seconds'' ''System time in seconds since epoch (1970).'' []"

definition time_zone :: typedDesc where
  "time_zone = time_desc ''zone_offset_seconds'' ''System time zone offset in seconds.'' [''time_zone'']"

definition clocksourcesAvailable :: typedDesc where
  "clocksourcesAvailable = time_desc ''clocksource_available_info''
     ''Available clocksources read from '/sys/devices/system/clocksource'.'' [''device'', ''clocksource'']"

definition clocksourceCurrent :: typedDesc where
  "clocksourceCurrent = time_desc ''clocksource_current_info''
     ''Current clocksource read from '/sys/devices/system/clocksource'.'' [''device'', ''clocksource'']"

definition time_update :: "timeEnv \<Rightarrow> upd" where
  "time_update env =
     with_res (map_err (Wrapf ''failed to open procfs: %w'' []) (time_sysfs_NewFS env)) (\<lambda>_.
     with_res (map_err (Wrapf ''couldn't get clocksources: %w'' []) (ClockSources env)) (\<lambda>clocksources.
       emit (concat (map (\<lambda>(i, clocksource).
           map (\<lambda>cs. mustNewConstMetric clocksourcesAvailable (Fin 1) [Itoa i, cs]) (Available clocksource) @
           [mustNewConstMetric clocksourceCurrent (Fin 1) [Itoa i, Current clocksource]])
         (zip (map int [0..<length clocksources]) clocksources)))))"

definition time_Update :: "timeEnv \<Rightarrow> upd" where
  "time_Update env =
     seq (emit [mustNewConstMetric time_now (f64_div (f64_of_int (UnixNano env)) (Fin 1000000000)) [],
                mustNewConstMetric time_zone (f64_of_int (zoneOffset env)) [zoneName env]])
       (time_update env)"

section \<open>stat\<close>

record SoftIRQStat =
  Hi :: uint64
  Timer :: uint64
  NetTx :: uint64
  NetRx :: uint64
  Block :: uint64
  BlockIoPoll :: uint64
  Tasklet :: uint64
  Sched :: uint64
  Hrtimer :: uint64
  Rcu :: uint64

record Stat =
  IRQTotal :: uint64
  ContextSwitches :: uint64
  ProcessCreated :: uint64
  BootTime :: uint64
  ProcessesRunning :: uint64
  ProcessesBlocked :: uint64
  SoftIRQStats :: SoftIRQStat

definition stat_desc :: "string \<Rightarrow> string \<Rightarrow> string list \<Rightarrow> desc" where
  "stat_desc name help labels = NewDesc (BuildFQName namespace [] name) help labels"

definition NewStatCollector :: "unit res \<Rightarrow> unit res" where
  "NewStatCollector procfs_NewFS = map_err (Wrapf ''failed to open procfs: %w'' []) procfs_NewFS"

definition stat_Update :: "bool \<Rightarrow> Stat res \<Rightarrow> upd" where
  "stat_Update statSoftirqFlag fs_Stat =
     with_res fs_Stat (\<lambda>stats.
       let n = (\<lambda>w :: uint64. f64_of_nat (unat w)); si = SoftIRQStats stats in
       emit ([MustNewConstMetric (stat_desc ''intr_total'' ''Total number of interrupts serviced.'' []) CounterValue (n (IRQTotal stats)) [],
              MustNewConstMetric (stat_desc ''context_switches_total'' ''Total number of context switches.'' []) CounterValue (n (ContextSwitches stats)) [],
              MustNewConstMetric (stat_desc ''forks_total'' ''Total number of forks.'' []) CounterValue (n (ProcessCreated stats)) [],
              MustNewConstMetric (stat_desc ''boot_time_seconds'' ''Node boot time, in unixtime.'' []) GaugeValue (n (BootTime stats)) [],
              MustNewConstMetric (stat_desc ''procs_running'' ''Number of processes in runnable state.'' []) GaugeValue (n (ProcessesRunning stats)) [],
              MustNewConstMetric (stat_desc ''procs_blocked'' ''Number of processes blocked waiting for I/O to complete.'' []) GaugeValue (n (ProcessesBlocked stats)) []] @
             (if statSoftirqFlag
              then map (\<lambda>(name, v). MustNewConstMetric (stat_desc ''softirqs_total'' ''Number of softirq calls.'' [''vector'']) CounterValue (n v) [name])
                     [(''hi'', Hi si), (''timer'', Timer si), (''net_tx'', NetTx si), (''net_rx'', NetRx si), (''block'', Block si),
                      (''block_iopoll'', BlockIoPoll si), (''tasklet'', Tasklet si), (''sched'', Sched si), (''hrtimer'', Hrtimer si), (''rcu'', Rcu si)]
              else [])))"

section \<open>Lemmas\<close>

lemma send_loads_spec:
  "i + length vs \<le> 3 \<Longrightarrow> send_loads i vs = emit (map (\<lambda>(d, v). mustNewConstMetric d v []) (zip (drop i loadavg_metric) vs))"
proof (induction vs arbitrary: i)
  case (Cons v vs)
  have len: "length loadavg_metric = 3" by (simp add: loadavg_metric_def)
  have i: "i < length loadavg_metric" using Cons.prems len by simp
  show ?case using Cons.IH [of "Suc i"] Cons.prems i Cons_nth_drop_Suc [OF i, symmetric] by (simp add: emit_def)
qed simp

lemma parse_load_collect: "parse_load_part x acc = bind_res (bind_res (map_err (Wrapf ''could not parse load '%s': %w'' [x]) (ParseFloat x)) (\<lambda>v. Ok [v])) (\<lambda>ys. Ok (acc @ ys))"
  by (simp add: parse_load_part_def bind_res_assoc)

lemma parseLoad_Ok:
  assumes "parseLoad p data = Ok loads"
  shows "length loads = 3 \<and> (\<exists>a b c rest. Fields data = a # b # c # rest \<and> map ParseFloat [a, b, c] = map Ok loads)"
proof -
  have three: "3 \<le> length (Fields data)" and f: "fold_res parse_load_part (take 3 (Fields data)) [] = Ok loads"
    using assms by (auto simp: parseLoad_def Let_def split: if_splits)
  obtain a b c rest where parts: "Fields data = a # b # c # rest"
    using three by (auto simp: numeral_3_eq_3 Suc_le_length_iff)
  have "map ParseFloat [a, b, c] = map Ok loads"
    using f parts fold_res_collect [of parse_load_part, OF parse_load_collect, of "[a, b, c]" "[]" loads]
    by (auto simp: list_all2_Cons1 go_simps numeral_3_eq_3)
  then show ?thesis using parts by (metis length_map list.size(3,4) numeral_3_eq_3 One_nat_def add.right_neutral add_Suc_right)
qed

section \<open>The contracts\<close>

lemma loadavg_labels: "d \<in> set loadavg_metric \<Longrightarrow> desc_labels (td_desc d) = []"
  by (auto simp: loadavg_metric_def)

lemma getLoad_length: "getLoad p rd = Ok loads \<Longrightarrow> length loads = 3"
  by (auto simp: getLoad_def go_simps dest: parseLoad_Ok)

definition file_pre :: "paths \<times> (string \<Rightarrow> string res) \<Rightarrow> bool" where
  "file_pre = (\<lambda>(p, rd). \<forall>f. \<not> panics (rd f))"

interpretation loadavg: safe_collector_contract "\<lambda>(p, rd). loadavg_Update p rd" file_pre
proof unfold_locales
  fix e assume pre: "file_pre e"
  obtain p rd where e: "e = (p, rd)" by (cases e)
  have loads: "send_loads 0 loads = emit (map (\<lambda>(d, v). mustNewConstMetric d v []) (zip loadavg_metric loads))"
    if "getLoad p rd = Ok loads" for loads
    using send_loads_spec [of 0 loads] getLoad_length [OF that] by simp
  show "upd_ok (case e of (p, rd) \<Rightarrow> loadavg_Update p rd)"
    unfolding e loadavg_Update_def
    by (auto simp: loads list_all_iff loadavg_labels dest!: set_zip_leftD intro!: upd_ok_with_res)
  have "\<not> panics (parseLoad p data)" for data
    by (auto simp: parseLoad_def Let_def parse_load_part_def panics_bind_res intro!: fold_res_no_panic)
  then show "\<not> panics (snd (case e of (p, rd) \<Rightarrow> loadavg_Update p rd))"
    using pre by (auto simp: e file_pre_def loadavg_Update_def getLoad_def panics_with_res panics_bind_res go_simps loads [unfolded getLoad_def])
qed

interpretation filefd: safe_collector_contract "\<lambda>(p, rd). filefd_Update ord p rd" file_pre for ord
proof unfold_locales
  fix e assume pre: "file_pre e"
  obtain p rd where e: "e = (p, rd)" by (cases e)
  show "upd_ok (case e of (p, rd) \<Rightarrow> filefd_Update ord p rd)"
    unfolding e filefd_Update_def by (auto simp: filefd_metric_def intro!: upd_ok_with_res upd_ok_foreach)
  show "\<not> panics (snd (case e of (p, rd) \<Rightarrow> filefd_Update ord p rd))"
    using pre by (auto simp: e file_pre_def filefd_Update_def parseFileFDStats_def filefd_metric_def panics_with_res panics_bind_res Let_def
        dest!: panics_foreach)
qed

interpretation vmstat: collector_contract "\<lambda>(p, rd). vmstat_Update re p rd" file_pre for re
  by unfold_locales
    (auto simp: vmstat_Update_def vmstat_line_def vmstat_desc_def Let_def intro!: upd_ok_with_res upd_ok_seq upd_ok_foreach)

definition time_pre :: "timeEnv \<Rightarrow> bool" where
  "time_pre env \<longleftrightarrow> \<not> panics (time_sysfs_NewFS env) \<and> \<not> panics (ClockSources env)"

lemmas time_desc_defs = time_now_def time_zone_def clocksourcesAvailable_def clocksourceCurrent_def time_desc_def

interpretation time: safe_collector_contract time_Update time_pre
proof unfold_locales
  fix env assume pre: "time_pre env"
  have "upd_ok (time_update env)"
    unfolding time_update_def by (auto simp: list_all_iff time_desc_defs intro!: upd_ok_with_res)
  then show "upd_ok (time_Update env)" by (simp add: time_Update_def upd_ok_def time_desc_defs)
  show "\<not> panics (snd (time_Update env))"
    using pre by (auto simp: time_pre_def time_Update_def time_update_def panics_with_res)
qed

interpretation stat: safe_collector_contract "\<lambda>(fl, st). stat_Update fl st" "\<lambda>(fl :: bool, st). \<not> panics st"
  by unfold_locales
    (auto simp: stat_Update_def stat_desc_def Let_def panics_with_res intro!: upd_ok_with_res)

section \<open>Properties\<close>

text \<open>
  The load averages exported are the first three fields of the kernel's file, in order, as
  one, five and fifteen minute gauges.
\<close>

theorem loadavg_Update_sends:
  assumes "readFile (procFilePath p ''loadavg'') = Ok data" "Fields data = a # b # c # rest"
    and "ParseFloat a = Ok x" "ParseFloat b = Ok y" "ParseFloat c = Ok z"
  shows "loadavg_Update p readFile =
    emit [MustNewConstMetric (NewDesc (FQName ''node_load1'') ''1m load average.'' []) GaugeValue x [],
          MustNewConstMetric (NewDesc (FQName ''node_load5'') ''5m load average.'' []) GaugeValue y [],
          MustNewConstMetric (NewDesc (FQName ''node_load15'') ''15m load average.'' []) GaugeValue z []]"
proof -
  have "getLoad p readFile = Ok [x, y, z]"
    using assms by (simp add: getLoad_def parseLoad_def parse_load_part_def Let_def numeral_3_eq_3)
  then show ?thesis
    using send_loads_spec [of 0 "[x, y, z]"]
    by (simp add: loadavg_Update_def loadavg_metric_def mustNewConstMetric_def namespace_def)
qed

theorem loadavg_Update_sends_witness:
  "loadavg_Update default_paths (\<lambda>_. Ok ''0 0 0 1/2 3'') =
    emit [MustNewConstMetric (NewDesc (FQName ''node_load1'') ''1m load average.'' []) GaugeValue (Fin 0) [],
          MustNewConstMetric (NewDesc (FQName ''node_load5'') ''5m load average.'' []) GaugeValue (Fin 0) [],
          MustNewConstMetric (NewDesc (FQName ''node_load15'') ''15m load average.'' []) GaugeValue (Fin 0) []]"
proof -
  have "Fields ''0 0 0 1/2 3'' = ''0'' # ''0'' # ''0'' # [''1/2'', ''3'']" "ParseFloat ''0'' = Ok (Fin 0)" by code_simp+
  then show ?thesis by (intro loadavg_Update_sends) simp_all
qed

text \<open>A line of \<^verbatim>\<open>/proc/vmstat\<close>: the name of a counter and its value.\<close>

definition vm_sample :: "string \<Rightarrow> (string \<times> float64) option" where
  "vm_sample l =
     (case Fields l of
        k # v # _ \<Rightarrow> (case ParseFloat v of Ok x \<Rightarrow> Some (k, x) | _ \<Rightarrow> None)
      | _ \<Rightarrow> None)"

lemma vmstat_line_sample:
  "vm_sample l = Some (k, x) \<Longrightarrow>
     vmstat_line re l = emit (if matches re k then [MustNewConstMetric (vmstat_desc k) UntypedValue x []] else [])"
  by (auto simp: vm_sample_def vmstat_line_def Let_def idx_def MatchString_iff_matches split: list.splits res.splits)

text \<open>
  C40: When every line of \<^verbatim>\<open>/proc/vmstat\<close> is a name and a number, the collector sends exactly the
  counters whose name matches the pattern, in the order of the file.
\<close>

theorem vmstat_Update_sends:
  assumes "readFile (procFilePath p ''vmstat'') = Ok file" "scan_err file = None"
    and "\<forall>l \<in> set (scan_lines file). vm_sample l \<noteq> None"
  shows "vmstat_Update re p readFile =
    emit (map (\<lambda>(k, x). MustNewConstMetric (vmstat_desc k) UntypedValue x [])
      (filter (\<lambda>(k, x). matches re k) (map (\<lambda>l. the (vm_sample l)) (scan_lines file))))"
proof -
  have "foreach (vmstat_line re) ls = emit (map (\<lambda>(k, x). MustNewConstMetric (vmstat_desc k) UntypedValue x [])
      (filter (\<lambda>(k, x). matches re k) (map (\<lambda>l. the (vm_sample l)) ls)))"
    if "\<forall>l \<in> set ls. vm_sample l \<noteq> None" for ls
    using that
  proof (induction ls)
    case (Cons l ls)
    then obtain k x where "vm_sample l = Some (k, x)" by auto
    then show ?case using Cons vmstat_line_sample [of l k x re] by (simp add: emit_def)
  qed simp
  from this [OF assms(3)] show ?thesis using assms(1,2) by (simp add: vmstat_Update_def emit_def)
qed

theorem vmstat_Update_sends_witness:
  "\<exists>re. NewvmStatCollector defVmStatFields = Ok re \<and>
     vmstat_Update re default_paths (\<lambda>_. Ok ''pgpgin 0'') =
       emit (map (\<lambda>(k, x). MustNewConstMetric (vmstat_desc k) UntypedValue x []) (filter (\<lambda>(k, x). matches re k) [(''pgpgin'', Fin 0)]))"
proof -
  have "case NewvmStatCollector defVmStatFields of Ok re \<Rightarrow> True | _ \<Rightarrow> False" by code_simp
  then obtain re where re: "NewvmStatCollector defVmStatFields = Ok re" by (auto split: res.splits)
  have "scan_lines ''pgpgin 0'' = [''pgpgin 0'']" "scan_err ''pgpgin 0'' = None" "vm_sample ''pgpgin 0'' = Some (''pgpgin'', Fin 0)"
    by code_simp+
  then show ?thesis
    using re vmstat_Update_sends [of "\<lambda>_. Ok ''pgpgin 0''" default_paths "''pgpgin 0''" re] by (intro exI [of _ re]) simp
qed

text \<open>
  C??: A line of \<^verbatim>\<open>/proc/vmstat\<close> with fewer than two fields ends the process: the value is read by
  index without a check.
\<close>

theorem vmstat_short_line_panics:
  assumes "readFile (procFilePath p ''vmstat'') = Ok file" "scan_lines file = pre @ l # post"
    and "\<forall>k \<in> set pre. vm_sample k \<noteq> None" "length (Fields l) < 2"
  shows "panics (snd (vmstat_Update re p readFile))"
proof -
  have "snd (vmstat_line re k) = Ok ()" if "k \<in> set pre" for k
    using assms(3) that vmstat_line_sample by fastforce
  then have pre: "foreach (vmstat_line re) pre = emit (concat (map (\<lambda>k. fst (vmstat_line re k)) pre))"
    by (intro foreach_Ok)
  have "vmstat_line re l = ([], Panic ''index out of range'')"
    using assms(4) by (simp add: vmstat_line_def Let_def idx_def)
  then show ?thesis
    using assms(1,2) pre by (simp add: vmstat_Update_def foreach_append)
qed

theorem vmstat_short_line_panics_witness:
  "panics (snd (vmstat_Update RAny default_paths (\<lambda>_. Ok ''pgpgin'')))"
proof -
  have "scan_lines ''pgpgin'' = [] @ ''pgpgin'' # []" "Fields ''pgpgin'' = [''pgpgin'']" by code_simp+
  then show ?thesis
    by (intro vmstat_short_line_panics [where pre = "[]" and l = "''pgpgin''" and post = "[]"]) simp_all
qed

end
