(* ===== verification/Netstat.thy ===== *)
theory Netstat
  imports Helpers
begin

text \<open>
  The protocol statistics collectors: \<^verbatim>\<open>netstat_linux.go\<close>, which parses \<^verbatim>\<open>/proc/net/netstat\<close>, \<^verbatim>\<open>snmp\<close> and
  \<^verbatim>\<open>snmp6\<close>, and \<^verbatim>\<open>sockstat_linux.go\<close> on the structures procfs returns.
\<close>

section \<open>netstat\<close>

type_synonym protoStats = "(string, string) gomap"
type_synonym netStats = "(string, protoStats) gomap"

definition defNetStatFields :: string where
  "defNetStatFields = ''^(.*_(InErrors|InErrs)|Ip_Forwarding|Ip(6|Ext)_(InOctets|OutOctets)|Icmp6?_(InMsgs|OutMsgs)|TcpExt_(Listen.*|Syncookies.*|TCPSynRetrans|TCPTimeouts|TCPOFOQueue|TCPRcvQDrop)|Tcp_(ActiveOpens|InSegs|OutSegs|OutRsts|PassiveOpens|RetransSegs|CurrEstab)|Udp6?_(InDatagrams|OutDatagrams|NoPorts|RcvbufErrors|SndbufErrors))$''"

definition NewNetStatCollector :: "string \<Rightarrow> regexp res" where
  "NewNetStatCollector netStatFields = MustCompile netStatFields"

text \<open>A pair of lines: the names and, on the next line, the values; cutting the colon off an empty first field panics.\<close>

definition parse_net_pair :: "string \<Rightarrow> string \<Rightarrow> string \<Rightarrow> netStats \<Rightarrow> netStats res" where
  "parse_net_pair fileName nameLine valueLine stats =
     (let nameParts = Split nameLine (CHR '' ''); valueParts = Split valueLine (CHR '' '') in
      if nameParts ! 0 = [] then Panic ''slice bounds out of range''
      else let protocol = butlast (nameParts ! 0) in
           if length nameParts \<noteq> length valueParts
           then Err (Errorf ''mismatch field count mismatch in %s: %s'' [fileName, protocol])
           else Ok (map_put protocol (map_copy [] (zip (tl nameParts) (tl valueParts))) stats))"

fun parse_net_lines :: "string \<Rightarrow> string list \<Rightarrow> netStats \<Rightarrow> netStats res" where
  "parse_net_lines fileName [] stats = Ok stats"
| "parse_net_lines fileName [n] stats = parse_net_pair fileName n [] stats"
| "parse_net_lines fileName (n # v # ls) stats =
     bind_res (parse_net_pair fileName n v stats) (parse_net_lines fileName ls)"

definition parseNetStats :: "string \<Rightarrow> string \<Rightarrow> netStats res" where
  "parseNetStats r fileName =
     bind_res (parse_net_lines fileName (scan_lines r) []) (\<lambda>stats. ok_or stats (scan_err r))"

definition getNetStats :: "(string \<Rightarrow> string res) \<Rightarrow> string \<Rightarrow> netStats res" where
  "getNetStats readFile fileName = bind_res (readFile fileName) (\<lambda>file. parseNetStats file fileName)"

definition parse_snmp6_line :: "string \<Rightarrow> netStats \<Rightarrow> netStats" where
  "parse_snmp6_line text stats =
     (case Fields text of
        k # v # _ \<Rightarrow>
          (case Cut k ''6'' of
             None \<Rightarrow> stats
           | Some (before, name) \<Rightarrow>
               let protocol = before @ ''6''
               in map_put protocol (map_put name v (map_get_z [] stats protocol)) stats)
      | _ \<Rightarrow> stats)"

definition parseSNMP6Stats :: "string \<Rightarrow> netStats res" where
  "parseSNMP6Stats r = ok_or (fold parse_snmp6_line (scan_lines r) []) (scan_err r)"

definition getSNMP6Stats :: "(string \<Rightarrow> string res) \<Rightarrow> string \<Rightarrow> netStats res" where
  "getSNMP6Stats readFile fileName =
     (case readFile fileName of
        Err e \<Rightarrow> if errors_Is e ErrNotExist then Ok [] else Err e
      | Panic p \<Rightarrow> Panic p
      | Ok file \<Rightarrow> parseSNMP6Stats file)"

record netstatOrder =
  ord_protocols :: "(string \<times> protoStats) list \<Rightarrow> (string \<times> protoStats) list"
  ord_names :: "(string \<times> string) list \<Rightarrow> (string \<times> string) list"

definition netstat_desc :: "string \<Rightarrow> string \<Rightarrow> desc" where
  "netstat_desc protocol name =
     NewDesc (BuildFQName namespace ''netstat'' (protocol @ ''_'' @ name)) (''Statistic '' @ protocol @ name @ ''.'') []"

definition netstat_value :: "regexp \<Rightarrow> string \<Rightarrow> string \<times> string \<Rightarrow> upd" where
  "netstat_value fieldPattern protocol = (\<lambda>(name, v).
     with_res (map_err (Wrapf ''invalid value %s in netstats: %w'' [v]) (ParseFloat v)) (\<lambda>x.
       if \<not> MatchString fieldPattern (protocol @ ''_'' @ name) then emit []
       else emit [MustNewConstMetric (netstat_desc protocol name) UntypedValue x []]))"

definition netstat_merged :: "paths \<Rightarrow> (string \<Rightarrow> string res) \<Rightarrow> netStats res" where
  "netstat_merged p readFile =
     bind_res (map_err (Wrapf ''couldn't get netstats: %w'' []) (getNetStats readFile (procFilePath p ''net/netstat''))) (\<lambda>netStats.
     bind_res (map_err (Wrapf ''couldn't get SNMP stats: %w'' []) (getNetStats readFile (procFilePath p ''net/snmp''))) (\<lambda>snmpStats.
     bind_res (map_err (Wrapf ''couldn't get SNMP6 stats: %w'' []) (getSNMP6Stats readFile (procFilePath p ''net/snmp6''))) (\<lambda>snmp6Stats.
     Ok (map_copy (map_copy netStats snmpStats) snmp6Stats))))"

definition netstat_Update :: "netstatOrder \<Rightarrow> regexp \<Rightarrow> paths \<Rightarrow> (string \<Rightarrow> string res) \<Rightarrow> upd" where
  "netstat_Update ord fieldPattern p readFile =
     with_res (netstat_merged p readFile) (\<lambda>stats.
       foreach (\<lambda>(protocol, ps). foreach (netstat_value fieldPattern protocol) (ord_names ord ps)) (ord_protocols ord stats))"

section \<open>sockstat\<close>

text \<open>The counters are machine integers; the size in bytes is computed at 64 bits.\<close>


record sockProtocol =
  Protocol :: string
  InUse :: goint
  Orphan :: "goint option"
  TW :: "goint option"
  Alloc :: "goint option"
  Mem :: "goint option"
  Memory :: "goint option"

record NetSockstat =
  Used :: "goint option"
  Protocols :: "sockProtocol list"

record sockstatEnv =
  ss_NewFS :: "unit res"
  NetSockstat4 :: "NetSockstat res"
  NetSockstat6 :: "NetSockstat res"
  pageSize :: goint

definition sock_pairs :: "goint \<Rightarrow> sockProtocol \<Rightarrow> (string \<times> goint option) list" where
  "sock_pairs page p =
     [(''inuse'', Some (InUse p)), (''orphan'', Orphan p), (''tw'', TW p), (''alloc'', Alloc p), (''mem'', Mem p), (''memory'', Memory p)] @
     (case Mem p of None \<Rightarrow> [] | Some m \<Rightarrow> [(''mem_bytes'', Some (m * page))])"

definition sock_desc :: "string \<Rightarrow> string \<Rightarrow> desc" where
  "sock_desc proto name =
     NewDesc (BuildFQName namespace ''sockstat'' (proto @ ''_'' @ name)) (''Number of '' @ proto @ '' sockets in state '' @ name @ ''.'') []"

definition sockstat_update :: "goint \<Rightarrow> bool \<Rightarrow> NetSockstat option \<Rightarrow> metric list" where
  "sockstat_update page isIPv6 s =
     (case s of
        None \<Rightarrow> []
      | Some st \<Rightarrow>
          (case Used st of
             Some u \<Rightarrow> if isIPv6 then []
                       else [MustNewConstMetric (NewDesc (BuildFQName namespace ''sockstat'' ''sockets_used'') ''Number of IPv4 sockets in use.'' [])
                               GaugeValue (f64_of_int (sint u)) []]
           | None \<Rightarrow> []) @
          concat (map (\<lambda>p. concat (map (\<lambda>(name, v).
              case v of
                None \<Rightarrow> []
              | Some x \<Rightarrow> [MustNewConstMetric (sock_desc (Protocol p) name) GaugeValue (f64_of_int (sint x)) []])
            (sock_pairs page p))) (Protocols st)))"

definition optional_sockstat :: "string \<Rightarrow> NetSockstat res \<Rightarrow> NetSockstat option res" where
  "optional_sockstat msg r =
     (case r of
        Ok s \<Rightarrow> Ok (Some s)
      | Err e \<Rightarrow> if errors_Is e ErrNotExist then Ok None else Err (Wrapf msg [] e)
      | Panic p \<Rightarrow> Panic p)"

definition sockstat_Update :: "sockstatEnv \<Rightarrow> upd" where
  "sockstat_Update env =
     with_res (map_err (Wrapf ''failed to open procfs: %w'' []) (ss_NewFS env)) (\<lambda>_.
     with_res (optional_sockstat ''failed to get IPv4 sockstat data: %w'' (NetSockstat4 env)) (\<lambda>stat4.
     with_res (optional_sockstat ''failed to get IPv6 sockstat data: %w'' (NetSockstat6 env)) (\<lambda>stat6.
       emit (sockstat_update (pageSize env) False stat4 @ sockstat_update (pageSize env) True stat6))))"

section \<open>The contracts\<close>

interpretation netstat: collector_contract "\<lambda>(ord, p, rd). netstat_Update ord re p rd" "\<lambda>_. True" for re
  by unfold_locales
    (auto simp: netstat_Update_def netstat_value_def netstat_desc_def intro!: upd_ok_with_res upd_ok_foreach)

definition sockstat_pre :: "sockstatEnv \<Rightarrow> bool" where
  "sockstat_pre env \<longleftrightarrow> \<not> panics (ss_NewFS env) \<and> \<not> panics (NetSockstat4 env) \<and> \<not> panics (NetSockstat6 env)"

lemma sockstat_update_ok: "list_all labels_ok (sockstat_update page v6 s)"
  by (auto simp: sockstat_update_def sock_desc_def list_all_iff split: option.splits if_splits)

lemma panics_optional_sockstat: "panics (optional_sockstat msg r) = panics r"
  by (auto simp: optional_sockstat_def split: res.splits)

interpretation sockstat: safe_collector_contract sockstat_Update sockstat_pre
proof unfold_locales
  show "upd_ok (sockstat_Update env)" for env
    unfolding sockstat_Update_def by (intro upd_ok_with_res) (simp add: sockstat_update_ok)
  show "\<not> panics (snd (sockstat_Update env))" if "sockstat_pre env" for env
    using that by (auto simp: sockstat_Update_def sockstat_pre_def panics_with_res panics_optional_sockstat)
qed

section \<open>The printed form of the statistics\<close>

text \<open>The kernel prints, for each protocol, a line of names and a line of values, both headed by the protocol.\<close>

fun net_lines :: "(string \<times> (string \<times> string) list) list \<Rightarrow> string list" where
  "net_lines [] = []"
| "net_lines ((p, kvs) # ps) =
     Join ((p @ '':'') # map fst kvs) '' '' # Join ((p @ '':'') # map snd kvs) '' '' # net_lines ps"

definition printable :: "string \<times> (string \<times> string) list \<Rightarrow> bool" where
  "printable = (\<lambda>(p, kvs). CHR '' '' \<notin> set p \<and> wf_map kvs \<and>
     list_all (\<lambda>(k, v). CHR '' '' \<notin> set k \<and> CHR '' '' \<notin> set v) kvs)"

lemma parse_net_pair_printed:
  assumes "printable (p, kvs)"
  shows "parse_net_pair f (Join ((p @ '':'') # map fst kvs) '' '') (Join ((p @ '':'') # map snd kvs) '' '') stats =
    Ok (map_put p (map_copy [] kvs) stats)"
proof -
  have "list_all (\<lambda>w. CHR '' '' \<notin> set w) ((p @ '':'') # map fst kvs)" "list_all (\<lambda>w. CHR '' '' \<notin> set w) ((p @ '':'') # map snd kvs)"
    using assms by (auto simp: printable_def list_all_iff)
  then have "Split (Join ((p @ '':'') # map fst kvs) '' '') (CHR '' '') = (p @ '':'') # map fst kvs"
    "Split (Join ((p @ '':'') # map snd kvs) '' '') (CHR '' '') = (p @ '':'') # map snd kvs"
    by (simp_all only: Join_Split list.distinct not_False_eq_True)
  then show ?thesis by (simp add: parse_net_pair_def Let_def zip_map_fst_snd)
qed

lemma parse_net_lines_printed:
  "list_all printable ps \<Longrightarrow>
     parse_net_lines f (net_lines ps) stats = Ok (map_copy stats (map (\<lambda>(p, kvs). (p, map_copy [] kvs)) ps))"
  by (induction ps arbitrary: stats rule: net_lines.induct) (simp_all add: parse_net_pair_printed map_copy_def)

definition netstat_sample :: "regexp \<Rightarrow> string \<Rightarrow> string \<times> string \<Rightarrow> metric list" where
  "netstat_sample re protocol = (\<lambda>(name, v).
     if MatchString re (protocol @ ''_'' @ name)
     then (case ParseFloat v of Ok x \<Rightarrow> [MustNewConstMetric (netstat_desc protocol name) UntypedValue x []] | _ \<Rightarrow> [])
     else [])"

lemma netstat_value_Ok: "snd (netstat_value re protocol kv) = Ok () \<Longrightarrow> fst (netstat_value re protocol kv) = netstat_sample re protocol kv"
  by (cases kv; cases "ParseFloat (snd kv)") (auto simp: netstat_value_def netstat_sample_def)

section \<open>Properties\<close>

text \<open>
  C37: Parsing what the kernel prints gives it back: every protocol of the file is in the result
  with exactly its names and values, and no other protocol is.
\<close>

theorem parseNetStats_roundtrip:
  assumes "scan_lines r = net_lines ps" "scan_err r = None" "list_all printable ps" "wf_map ps"
  shows "\<exists>stats. parseNetStats r f = Ok stats \<and>
    (\<forall>p. map_option map_get (map_get stats p) = map_option map_get (map_get ps p))"
proof -
  let ?g = "\<lambda>(p, kvs). (p, map_copy [] kvs)"
  have copied: "map_get (map_copy [] (map ?g ps)) = map_get (map ?g ps)"
    using assms(4) map_get_copy [of "map ?g ps" "[]"] by (simp add: case_prod_beta comp_def)
  have "map_get (map ?g ps) p = map_option (map_copy []) (map_get ps p)" for p
    by (induction ps) auto
  moreover have "map_get (map_copy [] kvs) = map_get kvs" if "map_get ps p = Some kvs" for p kvs
    using assms(3) map_of_SomeD [OF that] by (auto simp: map_get_copy printable_def list_all_iff)
  ultimately have "map_option map_get (map_get (map_copy [] (map ?g ps)) p) = map_option map_get (map_get ps p)" for p
    by (cases "map_get ps p") (simp_all add: copied)
  then show ?thesis using assms by (simp add: parseNetStats_def parse_net_lines_printed)
qed

theorem parseNetStats_roundtrip_witness:
  "\<exists>stats. parseNetStats (''Udp: InErrors'' @ [nl] @ ''Udp: 7'' @ [nl]) ''snmp'' = Ok stats \<and>
     map_option map_get (map_get stats ''Udp'') = Some [''InErrors'' \<mapsto> ''7'']"
proof -
  have "scan_lines (''Udp: InErrors'' @ [nl] @ ''Udp: 7'' @ [nl]) = net_lines [(''Udp'', [(''InErrors'', ''7'')])]"
    "scan_err (''Udp: InErrors'' @ [nl] @ ''Udp: 7'' @ [nl]) = None"
    "list_all printable [(''Udp'', [(''InErrors'', ''7'')])]" "wf_map [(''Udp'', [(''InErrors'', ''7'')])]"
    by code_simp+
  then obtain stats where r: "parseNetStats (''Udp: InErrors'' @ [nl] @ ''Udp: 7'' @ [nl]) ''snmp'' = Ok stats"
    and s: "map_option map_get (map_get stats ''Udp'') = map_option map_get (map_get [(''Udp'', [(''InErrors'', ''7'')])] ''Udp'')"
    using parseNetStats_roundtrip by blast
  have "map_option map_get (map_get [(''Udp'', [(''InErrors'', ''7'')])] ''Udp'') = Some [''InErrors'' \<mapsto> ''7'']" by simp
  with r s show ?thesis by (intro exI [of _ stats]) (simp only: conj_absorb simp_thms)
qed

text \<open>
  When the collector ends normally, every value it read is a number, and it has sent one
  metric for exactly the statistics whose name matches the field pattern.
\<close>

theorem netstat_Update_selected:
  assumes "snd (netstat_Update ord re p readFile) = Ok ()"
  shows "\<exists>stats. netstat_merged p readFile = Ok stats \<and>
    fst (netstat_Update ord re p readFile) =
      concat (map (\<lambda>(protocol, ps). concat (map (netstat_sample re protocol) (ord_names ord ps))) (ord_protocols ord stats))"
proof (cases "netstat_merged p readFile")
  case (Ok stats)
  let ?f = "\<lambda>(protocol, ps). foreach (netstat_value re protocol) (ord_names ord ps)"
  have all: "snd (?f x) = Ok ()" if "x \<in> set (ord_protocols ord stats)" for x
    using assms Ok that by (auto simp: netstat_Update_def snd_foreach_Ok_iff)
  then have "fst (?f x) = (case x of (protocol, ps) \<Rightarrow> concat (map (netstat_sample re protocol) (ord_names ord ps)))"
    if "x \<in> set (ord_protocols ord stats)" for x
    using that by (cases x) (auto simp: snd_foreach_Ok_iff foreach_Ok netstat_value_Ok intro!: arg_cong [where f = concat])
  moreover have "foreach ?f (ord_protocols ord stats) = emit (concat (map (\<lambda>x. fst (?f x)) (ord_protocols ord stats)))"
    using all by (rule foreach_Ok)
  ultimately show ?thesis using Ok by (auto simp: netstat_Update_def intro!: arg_cong [where f = concat])
qed (use assms in \<open>simp_all add: netstat_Update_def\<close>)

theorem netstat_Update_selected_witness:
  "snd (netstat_Update \<lparr>ord_protocols = rev, ord_names = rev\<rparr> (compiled ''^Udp_'') default_paths
       (\<lambda>f. if f = ''/proc/net/snmp'' then Ok (''Udp: InErrors'' @ [nl] @ ''Udp: 0'' @ [nl]) else Ok [])) = Ok () \<and>
   fst (netstat_Update \<lparr>ord_protocols = rev, ord_names = rev\<rparr> (compiled ''^Udp_'') default_paths
       (\<lambda>f. if f = ''/proc/net/snmp'' then Ok (''Udp: InErrors'' @ [nl] @ ''Udp: 0'' @ [nl]) else Ok [])) =
     [MustNewConstMetric (netstat_desc ''Udp'' ''InErrors'') UntypedValue (Fin 0) []]"
proof -
  let ?rd = "\<lambda>f. if f = ''/proc/net/snmp'' then Ok (''Udp: InErrors'' @ [nl] @ ''Udp: 0'' @ [nl]) else Ok []"
  let ?ord = "\<lparr>ord_protocols = rev, ord_names = rev\<rparr>"
  have ok: "snd (netstat_Update ?ord (compiled ''^Udp_'') default_paths ?rd) = Ok ()" by code_simp
  have m: "netstat_merged default_paths ?rd = Ok [(''Udp'', [(''InErrors'', ''0'')])]" by code_simp
  have s: "netstat_sample (compiled ''^Udp_'') ''Udp'' (''InErrors'', ''0'') =
      [MustNewConstMetric (netstat_desc ''Udp'' ''InErrors'') UntypedValue (Fin 0) []]" by code_simp
  from netstat_Update_selected [OF ok] ok m s show ?thesis by simp
qed

end
