(* ===== verification/Textfile.thy ===== *)
theory Textfile
  imports Helpers "HOL-Library.List_Lexorder" "HOL-Library.Char_ord"
begin

text \<open>
  The textfile collector, \<^verbatim>\<open>textfile.go\<close>: it merges the metric families of the \<^verbatim>\<open>.prom\<close> files of the
  configured directories, checks that their help texts agree, and exports them. The families are
  values of the Prometheus client model, whose generated getters return the zero value for a nil
  pointer. The operating system and the text parser are the environment \<open>tfEnv\<close>; a map ranged over
  several times takes one order for each time.
\<close>

section \<open>Metric families\<close>

datatype metricType = COUNTER | GAUGE | SUMMARY | UNTYPED | HISTOGRAM | GAUGE_HISTOGRAM

record dtoSummary =
  s_SampleCount :: "uint64 option"
  s_SampleSum :: "float64 option"
  s_Quantile :: "(float64 option \<times> float64 option) list"

record dtoHistogram =
  h_SampleCount :: "uint64 option"
  h_SampleSum :: "float64 option"
  h_Bucket :: "(float64 option \<times> uint64 option) list"

record dtoMetric =
  m_Label :: "(string option \<times> string option) list"
  m_Gauge :: "float64 option option"
  m_Counter :: "float64 option option"
  m_Untyped :: "float64 option option"
  m_Summary :: "dtoSummary option"
  m_Histogram :: "dtoHistogram option"
  m_TimestampMs :: "int option"

record MetricFamily =
  mf_Name :: "string option"
  mf_Help :: "string option"
  mf_Type :: "metricType option"
  mf_Metric :: "dtoMetric list"

definition getter :: "'a \<Rightarrow> 'a option \<Rightarrow> 'a" where
  "getter z p = (case p of None \<Rightarrow> z | Some v \<Rightarrow> v)"

definition deref :: "'a option \<Rightarrow> 'a res" where
  "deref p = (case p of None \<Rightarrow> Panic ''nil pointer dereference'' | Some v \<Rightarrow> Ok v)"

text \<open>A Go map with \<^verbatim>\<open>float64\<close> keys: a NaN is never equal to a key, the two zeros are.\<close>

definition same_key :: "float64 \<Rightarrow> float64 \<Rightarrow> bool" where
  "same_key a b \<longleftrightarrow> a \<noteq> NaN \<and> (a = b \<or> (a \<in> {NegZero, Fin 0} \<and> b \<in> {NegZero, Fin 0}))"

fun f64_put :: "float64 \<Rightarrow> 'v \<Rightarrow> (float64 \<times> 'v) list \<Rightarrow> (float64 \<times> 'v) list" where
  "f64_put k v [] = [(k, v)]"
| "f64_put k v ((k', v') # m) = (if same_key k k' then (k, v) # m else (k', v') # f64_put k v m)"

section \<open>Conversion\<close>

definition label_name :: "string option \<times> string option \<Rightarrow> string" where
  "label_name l = getter [] (fst l)"

definition label_value :: "string option \<times> string option \<Rightarrow> string" where
  "label_value l = getter [] (snd l)"

definition allLabelNames :: "dtoMetric list \<Rightarrow> string list" where
  "allLabelNames ms = fold (\<lambda>k ks. if k \<in> set ks then ks else ks @ [k]) (concat (map (\<lambda>m. map label_name (m_Label m)) ms)) []"

text \<open>The label names and values of one metric: its own, then the family's other names with empty values.\<close>

fun add_missing :: "string list \<Rightarrow> string list \<times> string list \<Rightarrow> string list \<times> string list" where
  "add_missing [] nv = nv"
| "add_missing (k # ks) (names, vals) =
     add_missing ks (if k \<in> set names then (names, vals) else (names @ [k], vals @ [[]]))"

definition metric_label_pairs :: "(string list \<Rightarrow> string list) \<Rightarrow> string list \<Rightarrow> dtoMetric \<Rightarrow> string list \<times> string list" where
  "metric_label_pairs ord allNames m =
     add_missing (ord allNames) (map label_name (m_Label m), map label_value (m_Label m))"

definition family_desc :: "MetricFamily \<Rightarrow> string list \<Rightarrow> desc res" where
  "family_desc mf names = bind_res (deref (mf_Name mf)) (\<lambda>n. Ok (NewDesc (FQName n) (getter [] (mf_Help mf)) names))"

definition simple_metric :: "MetricFamily \<Rightarrow> string list \<Rightarrow> string list \<Rightarrow> valueType \<Rightarrow> float64 option option \<Rightarrow> upd" where
  "simple_metric mf names vals valType v =
     with_res (family_desc mf names) (\<lambda>d.
       emit [MustNewConstMetric d valType (getter (Fin 0) (getter None v)) vals])"

definition convert_metric :: "(string list \<Rightarrow> string list) \<Rightarrow> MetricFamily \<Rightarrow> dtoMetric \<Rightarrow> upd" where
  "convert_metric ord mf m =
     (let (names, vals) = metric_label_pairs ord (allLabelNames (mf_Metric mf)) m in
      case getter COUNTER (mf_Type mf) of
        COUNTER \<Rightarrow> simple_metric mf names vals CounterValue (m_Counter m)
      | GAUGE \<Rightarrow> simple_metric mf names vals GaugeValue (m_Gauge m)
      | UNTYPED \<Rightarrow> simple_metric mf names vals UntypedValue (m_Untyped m)
      | SUMMARY \<Rightarrow>
          with_res (deref (m_Summary m)) (\<lambda>s.
          with_res (family_desc mf names) (\<lambda>d.
            emit [MustNewConstSummary d (getter 0 (s_SampleCount s)) (getter (Fin 0) (s_SampleSum s))
                    (fold (\<lambda>(q, v). f64_put (getter (Fin 0) q) (getter (Fin 0) v)) (s_Quantile s) []) vals]))
      | HISTOGRAM \<Rightarrow>
          with_res (deref (m_Histogram m)) (\<lambda>h.
          with_res (family_desc mf names) (\<lambda>d.
            emit [MustNewConstHistogram d (getter 0 (h_SampleCount h)) (getter (Fin 0) (h_SampleSum h))
                    (fold (\<lambda>(b, c). f64_put (getter (Fin 0) b) (getter 0 c)) (h_Bucket h) []) vals]))
      | GAUGE_HISTOGRAM \<Rightarrow> ([], Panic ''unknown metric type''))"

definition convertMetricFamily :: "(nat \<Rightarrow> string list \<Rightarrow> string list) \<Rightarrow> MetricFamily \<Rightarrow> upd" where
  "convertMetricFamily ord mf =
     foreach (\<lambda>(i, m). convert_metric (ord i) mf m) (zip [0..<length (mf_Metric mf)] (mf_Metric mf))"

section \<open>Files\<close>

record tfEnv =
  Glob :: "string \<Rightarrow> string list res"
  ReadDir :: "string \<Rightarrow> string list \<times> error option"
  tf_Open :: "string \<Rightarrow> string res"
  TextToMetricFamilies :: "string \<Rightarrow> MetricFamily list res"
  ModTime :: "string \<Rightarrow> int res"

record tfOrder =
  ord_labels :: "nat \<Rightarrow> nat \<Rightarrow> string list \<Rightarrow> string list"
  ord_mtimes :: "string list \<Rightarrow> string list"

record textFileCollector =
  tf_paths :: "string list"
  tf_mtime :: "float64 option"

definition NewTextFileCollector :: "string list \<Rightarrow> textFileCollector" where
  "NewTextFileCollector textFileDirectories = \<lparr>tf_paths = textFileDirectories, tf_mtime = None\<rparr>"

definition hasTimestamps :: "MetricFamily list \<Rightarrow> bool" where
  "hasTimestamps parsedFamilies \<longleftrightarrow> list_ex (\<lambda>mf. list_ex (\<lambda>m. m_TimestampMs m \<noteq> None) (mf_Metric mf)) parsedFamilies"

text \<open>
  The modification time, in nanoseconds, when the file was read, its families, and the error. A
  panic of the parser is a panic of the call.
\<close>

definition processFile :: "tfEnv \<Rightarrow> string \<Rightarrow> string \<Rightarrow> (int option \<times> MetricFamily list \<times> error option) res" where
  "processFile env dir name =
     (let path = filepath_Join [dir, name] in
      case tf_Open env path of
        Panic p \<Rightarrow> Panic p
      | Err e \<Rightarrow> Ok (None, [], Some (Wrapf ''failed to open textfile data file %q: %w'' [path] e))
      | Ok f \<Rightarrow>
          (case TextToMetricFamilies env f of
             Panic p \<Rightarrow> Panic p
           | Err e \<Rightarrow> Ok (None, [], Some (Wrapf ''failed to parse textfile data from %q: %w'' [path] e))
           | Ok families \<Rightarrow>
               if hasTimestamps families
               then Ok (None, [], Some (Errorf ''textfile %q contains unsupported client-side timestamps, skipping entire file'' [path]))
               else (case ModTime env path of
                       Panic p \<Rightarrow> Panic p
                     | Err e \<Rightarrow> Ok (None, families, Some (Wrapf ''failed to stat %q: %w'' [path] e))
                     | Ok t \<Rightarrow> Ok (Some t, families, None))))"

section \<open>Merging\<close>

record tfState =
  errored :: bool
  parsedFamilies :: "MetricFamily list"
  metricsNamesToFiles :: "(string, string list) gomap"
  metricsNamesToHelpTexts :: "(string, string \<times> string) gomap"
  mtimes :: "(string, int) gomap"

definition tf_init :: tfState where
  "tf_init = \<lparr>errored = False, parsedFamilies = [], metricsNamesToFiles = [], metricsNamesToHelpTexts = [], mtimes = []\<rparr>"

text \<open>The family is kept: its help text and its file are recorded.\<close>

definition keep_family :: "string \<Rightarrow> string \<Rightarrow> MetricFamily \<Rightarrow> tfState \<Rightarrow> tfState" where
  "keep_family file n mf st =
     st\<lparr>metricsNamesToHelpTexts :=
          (case mf_Help mf of None \<Rightarrow> metricsNamesToHelpTexts st | Some h \<Rightarrow> map_put n (h, []) (metricsNamesToHelpTexts st)),
        metricsNamesToFiles := map_put n (map_get_z [] (metricsNamesToFiles st) n @ [file]) (metricsNamesToFiles st),
        parsedFamilies := parsedFamilies st @ [mf]\<rparr>"

definition merge_family :: "string \<Rightarrow> MetricFamily \<Rightarrow> tfState \<Rightarrow> tfState res" where
  "merge_family file mf st =
     bind_res (deref (mf_Name mf)) (\<lambda>n.
     case map_get (metricsNamesToHelpTexts st) n of
       Some (h0, h1) \<Rightarrow>
         if (case mf_Help mf of None \<Rightarrow> False | Some h \<Rightarrow> h0 \<noteq> h) \<or> h1 \<noteq> []
         then bind_res (deref (mf_Help mf)) (\<lambda>h.
              bind_res (idx (map_get_z [] (metricsNamesToFiles st) n) 0) (\<lambda>_.
              Ok (st\<lparr>metricsNamesToHelpTexts := map_put n (h0, h) (metricsNamesToHelpTexts st), errored := True\<rparr>)))
         else Ok (keep_family file n mf st)
     | None \<Rightarrow> Ok (keep_family file n mf st))"

definition merge_file :: "tfEnv \<Rightarrow> string \<Rightarrow> string \<Rightarrow> tfState \<Rightarrow> tfState res" where
  "merge_file env path f st =
     (let metricsFilePath = filepath_Join [path, f] in
      if \<not> HasSuffix f ''.prom'' then Ok st
      else bind_res (processFile env path f) (\<lambda>(mtime, families, err).
           bind_res (fold_res (merge_family metricsFilePath) families st) (\<lambda>st'.
           if err \<noteq> None then Ok (st'\<lparr>errored := True\<rparr>)
           else bind_res (deref mtime) (\<lambda>t. Ok (st'\<lparr>mtimes := map_put metricsFilePath t (mtimes st')\<rparr>)))))"

definition merge_dir :: "tfEnv \<Rightarrow> string \<Rightarrow> tfState \<Rightarrow> tfState res" where
  "merge_dir env path st =
     (let (files, err) = ReadDir env path in
      fold_res (merge_file env path) files (if err \<noteq> None \<and> path \<noteq> [] then st\<lparr>errored := True\<rparr> else st))"

definition expand_paths :: "tfEnv \<Rightarrow> string list \<Rightarrow> string list" where
  "expand_paths env globs = concat (map (\<lambda>g. case Glob env g of Ok (p # ps) \<Rightarrow> p # ps | _ \<Rightarrow> [g]) globs)"

text \<open>The families without help text get one that names their files, the first one's for all of a name.\<close>

fun fill_help :: "(string, string list) gomap \<Rightarrow> MetricFamily list \<Rightarrow> (string, string) gomap \<Rightarrow> MetricFamily list res" where
  "fill_help files [] mfHelp = Ok []"
| "fill_help files (mf # mfs) mfHelp =
     (case mf_Help mf of
        Some h \<Rightarrow> bind_res (fill_help files mfs mfHelp) (\<lambda>ys. Ok (mf # ys))
      | None \<Rightarrow>
          bind_res (deref (mf_Name mf)) (\<lambda>n.
          case map_get mfHelp n of
            Some help \<Rightarrow> bind_res (fill_help files mfs mfHelp) (\<lambda>ys. Ok (mf\<lparr>mf_Help := Some help\<rparr> # ys))
          | None \<Rightarrow>
              let help = ''Metric read from '' @ Join (map_get_z [] files n) '', ''
              in bind_res (fill_help files mfs (map_put n help mfHelp)) (\<lambda>ys. Ok (mf\<lparr>mf_Help := Some help\<rparr> # ys))))"

definition mtimeDesc :: desc where
  "mtimeDesc = NewDesc (FQName ''node_textfile_mtime_seconds'') ''Unixtime mtime of textfiles successfully read.'' [''file'']"

definition scrapeErrorDesc :: desc where
  "scrapeErrorDesc =
     NewDesc (FQName ''node_textfile_scrape_error'') ''1 if there was an error opening or reading a file, 0 otherwise'' []"

text \<open>Go's integer division truncates towards zero.\<close>

definition quot_int :: "int \<Rightarrow> int \<Rightarrow> int" where
  "quot_int a b = sgn a * sgn b * (\<bar>a\<bar> div \<bar>b\<bar>)"

definition exportMTimes :: "tfOrder \<Rightarrow> textFileCollector \<Rightarrow> (string, int) gomap \<Rightarrow> metric list" where
  "exportMTimes ord c mts =
     (if mts = [] then []
      else map (\<lambda>path. MustNewConstMetric mtimeDesc GaugeValue
             (case tf_mtime c of Some t \<Rightarrow> t | None \<Rightarrow> f64_of_int (quot_int (map_get_z 0 mts path) 1000000000)) [path])
           (sort (ord_mtimes ord (map fst mts))))"

definition textfile_Update :: "tfOrder \<Rightarrow> tfEnv \<Rightarrow> textFileCollector \<Rightarrow> upd" where
  "textfile_Update ord env c =
     with_res (fold_res (merge_dir env) (expand_paths env (tf_paths c)) tf_init) (\<lambda>st.
     with_res (fill_help (metricsNamesToFiles st) (parsedFamilies st) []) (\<lambda>mfs.
       seq (foreach (\<lambda>(i, mf). convertMetricFamily (ord_labels ord i) mf) (zip [0..<length mfs] mfs))
         (emit (exportMTimes ord c (mtimes st) @
           [MustNewConstMetric scrapeErrorDesc GaugeValue (if errored st then Fin 1 else Fin 0) []]))))"

section \<open>Labels\<close>

lemma add_missing_spec:
  assumes "add_missing ks (names, vals) = (names', vals')"
  shows "\<exists>extra. names' = names @ extra \<and> vals' = vals @ replicate (length extra) [] \<and>
    distinct extra \<and> set extra = set ks - set names"
  using assms
proof (induction ks arbitrary: names vals)
  case (Cons k ks)
  show ?case
  proof (cases "k \<in> set names")
    case True
    with Cons.IH [of names vals] Cons.prems show ?thesis by (auto simp: insert_Diff_if)
  next
    case False
    then obtain extra where "names' = (names @ [k]) @ extra" "vals' = (vals @ [[]]) @ replicate (length extra) []"
      "distinct extra" "set extra = set ks - set (names @ [k])"
      using Cons.IH [of "names @ [k]" "vals @ [[]]"] Cons.prems by auto
    with False show ?thesis by (intro exI [of _ "k # extra"]) auto
  qed
qed simp

lemma fold_collect_set:
  "set (fold (\<lambda>k ks. if k \<in> set ks then ks else ks @ [k]) xs acc) = set acc \<union> set xs"
  by (induction xs arbitrary: acc) auto

lemma allLabelNames_set: "set (allLabelNames ms) = (\<Union>m \<in> set ms. label_name ` set (m_Label m))"
  unfolding allLabelNames_def fold_collect_set by auto

text \<open>A sample carries its metric's own labels and, empty, the other label names of the family.\<close>

definition sample_of :: "MetricFamily \<Rightarrow> dtoMetric \<Rightarrow> metric \<Rightarrow> bool" where
  "sample_of mf m s \<longleftrightarrow>
     (\<exists>extra. desc_labels (metric_desc s) = map label_name (m_Label m) @ extra \<and>
        metric_labels s = map label_value (m_Label m) @ replicate (length extra) [] \<and>
        distinct extra \<and> set extra = set (allLabelNames (mf_Metric mf)) - label_name ` set (m_Label m))"

lemma sample_of_labels_ok: "sample_of mf m s \<Longrightarrow> labels_ok s"
  by (auto simp: sample_of_def labels_ok_def)

lemma family_desc_Ok: "family_desc mf names = Ok d \<longleftrightarrow> (\<exists>n. mf_Name mf = Some n \<and> d = NewDesc (FQName n) (getter [] (mf_Help mf)) names)"
  by (auto simp: family_desc_def deref_def split: option.splits)

lemma convert_metric_samples:
  assumes "range_order ord"
  shows "list_all (sample_of mf m) (fst (convert_metric ord mf m))"
    and "snd (convert_metric ord mf m) = Ok () \<Longrightarrow> length (fst (convert_metric ord mf m)) = 1"
proof -
  obtain names vals where nv: "metric_label_pairs ord (allLabelNames (mf_Metric mf)) m = (names, vals)" by fastforce
  from add_missing_spec [OF nv [unfolded metric_label_pairs_def]]
  have s: "desc_labels (metric_desc s) = names \<Longrightarrow> metric_labels s = vals \<Longrightarrow> sample_of mf m s" for s
    using assms by (simp add: sample_of_def)
  show "list_all (sample_of mf m) (fst (convert_metric ord mf m))"
    by (cases "mf_Name mf"; cases "m_Summary m"; cases "m_Histogram m"; cases "getter COUNTER (mf_Type mf)")
      (auto simp: convert_metric_def simple_metric_def nv deref_def family_desc_def intro!: s)
  show "snd (convert_metric ord mf m) = Ok () \<Longrightarrow> length (fst (convert_metric ord mf m)) = 1"
    by (cases "family_desc mf names"; cases "m_Summary m"; cases "m_Histogram m"; cases "getter COUNTER (mf_Type mf)")
      (auto simp: convert_metric_def simple_metric_def nv deref_def)
qed

lemma fst_foreach_all: "(\<And>x. x \<in> set xs \<Longrightarrow> list_all P (fst (f x))) \<Longrightarrow> list_all P (fst (foreach f xs))"
proof (induction xs)
  case (Cons x xs)
  then show ?case using fst_seq_subset [of "f x" "foreach f xs"] by (auto simp: list_all_iff)
qed simp

lemma convertMetricFamily_ok:
  "(\<And>i. range_order (ord i)) \<Longrightarrow> list_all labels_ok (fst (convertMetricFamily ord mf))"
  unfolding convertMetricFamily_def
  by (rule fst_foreach_all) (auto simp: list_all_iff dest!: bspec [OF convert_metric_samples(1) [unfolded list_all_iff]] intro: sample_of_labels_ok)

section \<open>Merging\<close>

text \<open>
  A loop that keeps going only forwards: when the state after it satisfies \<open>P\<close> then so did every
  state before, every iteration did \<open>Q\<close>, and the list \<open>g\<close> has grown by what the iterations add.
\<close>

lemma fold_res_backwards:
  assumes step: "\<And>x s s'. x \<in> set xs \<Longrightarrow> f x s = Ok s' \<Longrightarrow> P s' \<Longrightarrow> P s \<and> Q x \<and> g s' = g s @ h x"
    and run: "fold_res f xs s = Ok s'" "P s'"
  shows "P s \<and> list_all Q xs \<and> g s' = g s @ concat (map h xs)"
  using assms
proof (induction xs arbitrary: s)
  case (Cons x xs)
  then obtain u where u: "f x s = Ok u" "fold_res f xs u = Ok s'" by (auto simp: go_simps)
  have "P u \<and> list_all Q xs \<and> g s' = g u @ concat (map h xs)"
    using Cons.IH [of u] Cons.prems u by (meson list.set_intros(2))
  with Cons.prems(1) [of x s u] u show ?case by simp
qed simp

text \<open>A family is kept, or set aside because its help text differs or an earlier one did.\<close>

lemma merge_family_cases:
  assumes "merge_family file mf st = Ok st'"
  obtains (kept) n where "mf_Name mf = Some n" "st' = keep_family file n mf st"
      "\<And>h0 h1. map_get (metricsNamesToHelpTexts st) n = Some (h0, h1) \<Longrightarrow> h1 = [] \<and> mf_Help mf \<in> {None, Some h0}"
    | (aside) n h0 h1 h where "mf_Name mf = Some n" "map_get (metricsNamesToHelpTexts st) n = Some (h0, h1)"
      "mf_Help mf = Some h" "h \<noteq> h0 \<or> h1 \<noteq> []"
      "st' = st\<lparr>metricsNamesToHelpTexts := map_put n (h0, h) (metricsNamesToHelpTexts st), errored := True\<rparr>"
proof -
  obtain n where n: "mf_Name mf = Some n" using assms by (auto simp: merge_family_def deref_def split: option.splits)
  show thesis
  proof (cases "map_get (metricsNamesToHelpTexts st) n")
    case None
    with assms n kept show thesis by (simp add: merge_family_def deref_def)
  next
    case (Some hs)
    obtain h0 h1 where hs: "hs = (h0, h1)" by fastforce
    with Some assms n kept aside show thesis
      by (cases "mf_Help mf") (auto simp: merge_family_def deref_def go_simps split: if_splits)
  qed
qed

lemma merge_family_kept:
  assumes "merge_family file mf st = Ok st'" "\<not> errored st'"
  shows "\<not> errored st \<and> parsedFamilies st' = parsedFamilies st @ [mf] \<and> mtimes st' = mtimes st"
  using assms(1) by (cases rule: merge_family_cases) (use assms(2) in \<open>auto simp: keep_family_def\<close>)

definition file_families :: "tfEnv \<Rightarrow> string \<Rightarrow> string \<Rightarrow> MetricFamily list" where
  "file_families env dir f =
     (if HasSuffix f ''.prom'' then (case processFile env dir f of Ok (_, fams, _) \<Rightarrow> fams | _ \<Rightarrow> []) else [])"

text \<open>A file that is not a metrics file, or one that was read, parsed and dated.\<close>

definition file_read :: "tfEnv \<Rightarrow> string \<Rightarrow> string \<Rightarrow> bool" where
  "file_read env dir f \<longleftrightarrow>
     \<not> HasSuffix f ''.prom'' \<or> (case processFile env dir f of Ok (Some _, _, None) \<Rightarrow> True | _ \<Rightarrow> False)"

lemma merge_families_kept:
  assumes "fold_res (merge_family file) fams st = Ok st'" "\<not> errored st'"
  shows "\<not> errored st \<and> parsedFamilies st' = parsedFamilies st @ fams"
  using fold_res_backwards [where P = "\<lambda>s. \<not> errored s" and Q = "\<lambda>_. True" and g = parsedFamilies and h = "\<lambda>mf. [mf]", OF _ assms]
    merge_family_kept by auto

lemma merge_file_kept:
  assumes "merge_file env path f st = Ok st'" "\<not> errored st'"
  shows "\<not> errored st \<and> file_read env path f \<and> parsedFamilies st' = parsedFamilies st @ file_families env path f"
proof (cases "HasSuffix f ''.prom''")
  case True
  with assms obtain mtime fams err u where p: "processFile env path f = Ok (mtime, fams, err)"
    and u: "fold_res (merge_family (filepath_Join [path, f])) fams st = Ok u" and e: "err = None" "\<not> errored u" "parsedFamilies st' = parsedFamilies u"
    and t: "mtime \<noteq> None"
    by (auto simp: merge_file_def Let_def go_simps deref_def split: if_splits option.splits)
  from merge_families_kept [OF u e(2)] True p e t show ?thesis by (auto simp: file_families_def file_read_def)
qed (use assms in \<open>auto simp: merge_file_def file_families_def file_read_def Let_def\<close>)

definition dir_read :: "tfEnv \<Rightarrow> string \<Rightarrow> bool" where
  "dir_read env path \<longleftrightarrow>
     (snd (ReadDir env path) = None \<or> path = []) \<and> list_all (file_read env path) (fst (ReadDir env path))"

lemma merge_dir_kept:
  assumes "merge_dir env path st = Ok st'" "\<not> errored st'"
  shows "\<not> errored st \<and> dir_read env path \<and>
    parsedFamilies st' = parsedFamilies st @ concat (map (file_families env path) (fst (ReadDir env path)))"
proof -
  obtain files err where r: "ReadDir env path = (files, err)" by fastforce
  let ?st = "if err \<noteq> None \<and> path \<noteq> [] then st\<lparr>errored := True\<rparr> else st"
  have "fold_res (merge_file env path) files ?st = Ok st'" using assms(1) r by (simp add: merge_dir_def)
  then have "\<not> errored ?st \<and> list_all (file_read env path) files \<and>
      parsedFamilies st' = parsedFamilies ?st @ concat (map (file_families env path) files)"
    using assms(2) merge_file_kept
    by (rule_tac fold_res_backwards [where P = "\<lambda>s. \<not> errored s" and g = parsedFamilies]) auto
  with r show ?thesis by (auto simp: dir_read_def split: if_splits)
qed

lemma merge_all_kept:
  assumes "fold_res (merge_dir env) paths tf_init = Ok st" "\<not> errored st"
  shows "list_all (dir_read env) paths \<and>
    parsedFamilies st = concat (map (\<lambda>p. concat (map (file_families env p) (fst (ReadDir env p)))) paths)"
  using fold_res_backwards [where P = "\<lambda>s. \<not> errored s" and g = parsedFamilies and Q = "dir_read env", OF _ assms]
    merge_dir_kept by (simp add: tf_init_def)

section \<open>Consistent help texts\<close>

text \<open>
  The help text recorded for a name is that of every kept family of the name that has one, and a
  name with a recorded help text has a file.
\<close>

definition help_inv :: "tfState \<Rightarrow> bool" where
  "help_inv st \<longleftrightarrow>
     list_all (\<lambda>mf. mf_Name mf \<noteq> None \<and>
       (mf_Help mf \<noteq> None \<longrightarrow> map_option fst (map_get (metricsNamesToHelpTexts st) (the (mf_Name mf))) = mf_Help mf)) (parsedFamilies st) \<and>
     (\<forall>n. map_get (metricsNamesToHelpTexts st) n \<noteq> None \<longrightarrow> map_get_z [] (metricsNamesToFiles st) n \<noteq> [])"

lemma help_inv_init: "help_inv tf_init"
  by (simp add: help_inv_def tf_init_def)

lemma help_inv_keep:
  assumes inv: "help_inv st" and n: "mf_Name mf = Some n"
    and ok: "\<And>h0 h1. map_get (metricsNamesToHelpTexts st) n = Some (h0, h1) \<Longrightarrow> h1 = [] \<and> mf_Help mf \<in> {None, Some h0}"
  shows "help_inv (keep_family file n mf st)"
proof (cases "mf_Help mf")
  case None
  with inv n show ?thesis by (auto simp: help_inv_def keep_family_def map_get_z_def)
next
  case (Some h)
  have same: "h' = h" if "mf' \<in> set (parsedFamilies st)" "mf_Name mf' = Some n" "mf_Help mf' = Some h'" for mf' h'
    using inv that ok Some by (fastforce simp: help_inv_def list_all_iff)
  with inv n Some show ?thesis
    by (auto simp: help_inv_def keep_family_def map_get_z_def list_all_iff)
qed

lemma help_inv_merge_family: "help_inv st \<Longrightarrow> merge_family file mf st = Ok st' \<Longrightarrow> help_inv st'"
proof (erule merge_family_cases)
  fix n h0 h1 h
  assume "help_inv st" "map_get (metricsNamesToHelpTexts st) n = Some (h0, h1)"
    "st' = st\<lparr>metricsNamesToHelpTexts := map_put n (h0, h) (metricsNamesToHelpTexts st), errored := True\<rparr>"
  then show "help_inv st'" by (auto simp: help_inv_def list_all_iff)
qed (auto intro: help_inv_keep)

lemma help_inv_merge_file: "help_inv st \<Longrightarrow> merge_file env path f st = Ok st' \<Longrightarrow> help_inv st'"
proof (cases "HasSuffix f ''.prom''")
  case True
  assume inv: "help_inv st" and m: "merge_file env path f st = Ok st'"
  obtain fams u where u: "fold_res (merge_family (filepath_Join [path, f])) fams st = Ok u"
    and st': "help_inv u \<Longrightarrow> help_inv st'"
    using m True by (auto simp: merge_file_def Let_def go_simps help_inv_def split: if_splits)
  have "help_inv u" by (rule fold_res_invariant [where P = help_inv, OF _ inv u]) (rule help_inv_merge_family)
  then show ?thesis by (rule st')
qed (simp add: merge_file_def Let_def)

lemma help_inv_merge_dir: "help_inv st \<Longrightarrow> merge_dir env path st = Ok st' \<Longrightarrow> help_inv st'"
proof -
  assume inv: "help_inv st" and m: "merge_dir env path st = Ok st'"
  obtain files err where r: "ReadDir env path = (files, err)" by fastforce
  let ?st = "if err \<noteq> None \<and> path \<noteq> [] then st\<lparr>errored := True\<rparr> else st"
  have "help_inv ?st" using inv by (simp add: help_inv_def)
  moreover have "fold_res (merge_file env path) files ?st = Ok st'" using m r by (simp add: merge_dir_def)
  ultimately show ?thesis by (rule fold_res_invariant [where P = help_inv, rotated]) (rule help_inv_merge_file)
qed

lemma help_inv_merge_all: "fold_res (merge_dir env) paths tf_init = Ok st \<Longrightarrow> help_inv st"
  by (rule fold_res_invariant [where P = help_inv, OF _ help_inv_init]) (rule help_inv_merge_dir)

section \<open>The contracts\<close>

definition tf_pre :: "tfOrder \<times> tfEnv \<times> textFileCollector \<Rightarrow> bool" where
  "tf_pre = (\<lambda>(ord, env, c). \<forall>i j. range_order (ord_labels ord i j))"

lemma exportMTimes_ok: "list_all labels_ok (exportMTimes ord c mts)"
  by (auto simp: exportMTimes_def mtimeDesc_def list_all_iff)

interpretation textfile: collector_contract "\<lambda>(ord, env, c). textfile_Update ord env c" tf_pre
proof unfold_locales
  fix e assume pre: "tf_pre e"
  obtain ord env c where e: "e = (ord, env, c)" by (cases e)
  have conv: "upd_ok (convertMetricFamily (ord_labels ord i) mf)" for i mf
    using pre convertMetricFamily_ok by (simp add: e tf_pre_def upd_ok_def)
  show "upd_ok (case e of (ord, env, c) \<Rightarrow> textfile_Update ord env c)"
    unfolding e prod.case textfile_Update_def
    by (intro upd_ok_with_res upd_ok_seq upd_ok_foreach) (auto simp: conv exportMTimes_ok scrapeErrorDesc_def)
qed

text \<open>
  The families the parser gives are safe to merge and convert when they have a name, a help text
  and a payload that fits their type.
\<close>

definition safe_family :: "MetricFamily \<Rightarrow> bool" where
  "safe_family mf \<longleftrightarrow> mf_Name mf \<noteq> None \<and> mf_Help mf \<noteq> None \<and> getter COUNTER (mf_Type mf) \<noteq> GAUGE_HISTOGRAM \<and>
     (getter COUNTER (mf_Type mf) = SUMMARY \<longrightarrow> list_all (\<lambda>m. m_Summary m \<noteq> None) (mf_Metric mf)) \<and>
     (getter COUNTER (mf_Type mf) = HISTOGRAM \<longrightarrow> list_all (\<lambda>m. m_Histogram m \<noteq> None) (mf_Metric mf))"

definition safe_env :: "tfEnv \<Rightarrow> bool" where
  "safe_env env \<longleftrightarrow> (\<forall>f. \<not> panics (tf_Open env f) \<and> \<not> panics (ModTime env f) \<and> \<not> panics (TextToMetricFamilies env f)) \<and>
     (\<forall>f fams. TextToMetricFamilies env f = Ok fams \<longrightarrow> list_all safe_family fams)"

lemma fold_res_safe:
  assumes "\<And>x s. x \<in> set xs \<Longrightarrow> P s \<Longrightarrow> \<exists>t. f x s = Ok t \<and> P t" and "P s"
  shows "\<exists>t. fold_res f xs s = Ok t \<and> P t"
  using assms
proof (induction xs arbitrary: s)
  case (Cons x xs)
  then obtain t where "f x s = Ok t" "P t" by (meson list.set_intros(1))
  with Cons.IH [of t] Cons.prems(1) show ?case by simp
qed simp

definition safe_state :: "tfState \<Rightarrow> bool" where
  "safe_state st \<longleftrightarrow> help_inv st \<and> list_all safe_family (parsedFamilies st)"

lemma merge_family_safe:
  assumes "safe_family mf" "safe_state st"
  shows "\<exists>st'. merge_family file mf st = Ok st' \<and> safe_state st'"
proof -
  obtain n h where nh: "mf_Name mf = Some n" "mf_Help mf = Some h" using assms(1) by (auto simp: safe_family_def)
  have "\<exists>st'. merge_family file mf st = Ok st'"
    using assms(2) nh by (auto simp: merge_family_def deref_def idx_def safe_state_def help_inv_def split: option.splits)
  then obtain st' where st': "merge_family file mf st = Ok st'" by blast
  moreover have "list_all safe_family (parsedFamilies st')"
    using st' by (cases rule: merge_family_cases) (use assms in \<open>auto simp: keep_family_def safe_state_def\<close>)
  ultimately show ?thesis using help_inv_merge_family assms(2) by (auto simp: safe_state_def)
qed

lemma processFile_safe:
  assumes "safe_env env"
  shows "\<exists>mtime fams err. processFile env dir f = Ok (mtime, fams, err) \<and> list_all safe_family fams \<and> (err = None \<longrightarrow> mtime \<noteq> None)"
proof -
  have np: "\<not> panics (tf_Open env f)" "\<not> panics (ModTime env f)" "\<not> panics (TextToMetricFamilies env f)"
    and safe: "TextToMetricFamilies env f = Ok fams \<Longrightarrow> list_all safe_family fams" for f fams
    using assms by (auto simp: safe_env_def)
  show ?thesis
  proof (cases "tf_Open env (filepath_Join [dir, f])")
    case (Ok data)
    then show ?thesis
      using np(2) [of "filepath_Join [dir, f]"] np(3) [of data] safe [of data]
      by (cases "TextToMetricFamilies env data"; cases "ModTime env (filepath_Join [dir, f])")
        (simp_all add: processFile_def Let_def)
  next
    case (Panic p)
    then show ?thesis using np(1) [of "filepath_Join [dir, f]"] by simp
  qed (simp add: processFile_def Let_def)
qed

lemma merge_file_safe:
  assumes "safe_env env" "safe_state st"
  shows "\<exists>st'. merge_file env path f st = Ok st' \<and> safe_state st'"
proof -
  obtain mtime fams err where p: "processFile env path f = Ok (mtime, fams, err)" "list_all safe_family fams" "err = None \<longrightarrow> mtime \<noteq> None"
    using processFile_safe [OF assms(1)] by blast
  obtain u where u: "fold_res (merge_family (filepath_Join [path, f])) fams st = Ok u" "safe_state u"
    using fold_res_safe [where P = safe_state and f = "merge_family (filepath_Join [path, f])" and xs = fams, OF _ assms(2)]
      merge_family_safe p(2) by (auto simp: list_all_iff)
  then show ?thesis using p assms(2) by (auto simp: merge_file_def Let_def deref_def safe_state_def help_inv_def)
qed

lemma merge_dir_safe:
  assumes "safe_env env" "safe_state st"
  shows "\<exists>st'. merge_dir env path st = Ok st' \<and> safe_state st'"
proof -
  have "safe_state (st\<lparr>errored := True\<rparr>)" using assms(2) by (simp add: safe_state_def help_inv_def)
  then have "\<exists>st'. fold_res (merge_file env path) files (if b then st\<lparr>errored := True\<rparr> else st) = Ok st' \<and> safe_state st'" for files b
    using assms(2) by (intro fold_res_safe merge_file_safe [OF assms(1)]) simp_all
  then show ?thesis unfolding merge_dir_def Let_def case_prod_beta .
qed

text \<open>Filling in help texts changes nothing else and keeps the texts that are there.\<close>

definition helped :: "MetricFamily \<Rightarrow> MetricFamily \<Rightarrow> bool" where
  "helped mf mf' \<longleftrightarrow> mf' = mf\<lparr>mf_Help := mf_Help mf'\<rparr> \<and> mf_Help mf' \<noteq> None \<and> (mf_Help mf \<noteq> None \<longrightarrow> mf_Help mf' = mf_Help mf)"

lemma fill_help_helped: "fill_help files mfs m = Ok mfs' \<Longrightarrow> list_all2 helped mfs mfs'"
proof (induction mfs arbitrary: m mfs')
  case (Cons mf mfs)
  then show ?case
    by (cases "mf_Help mf") (auto simp: helped_def go_simps Let_def split: option.splits)
qed simp

lemma fill_help_id: "list_all (\<lambda>mf. mf_Help mf \<noteq> None) mfs \<Longrightarrow> fill_help files mfs m = Ok mfs"
  by (induction mfs) auto

lemma convert_metric_safe:
  "safe_family mf \<Longrightarrow> m \<in> set (mf_Metric mf) \<Longrightarrow> \<not> panics (snd (convert_metric ord mf m))"
  by (cases "getter COUNTER (mf_Type mf)")
    (auto simp: convert_metric_def safe_family_def simple_metric_def family_desc_def deref_def list_all_iff case_prod_beta)

lemma convertMetricFamily_safe: "safe_family mf \<Longrightarrow> \<not> panics (snd (convertMetricFamily ord mf))"
  unfolding convertMetricFamily_def
  by (auto dest!: panics_foreach set_zip_rightD simp: convert_metric_safe)

interpretation textfile_safe: safe_collector_contract "\<lambda>(ord, env, c). textfile_Update ord env c" "\<lambda>e. tf_pre e \<and> safe_env (fst (snd e))"
proof unfold_locales
  fix e assume pre: "tf_pre e \<and> safe_env (fst (snd e))"
  then show "upd_ok (case e of (ord, env, c) \<Rightarrow> textfile_Update ord env c)" using textfile.update_labels by blast
  obtain ord env c where e: "e = (ord, env, c)" by (cases e)
  have "safe_state tf_init" using help_inv_init by (simp add: safe_state_def tf_init_def)
  then obtain st where st: "fold_res (merge_dir env) (expand_paths env (tf_paths c)) tf_init = Ok st" "safe_state st"
    using fold_res_safe [where P = safe_state and f = "merge_dir env", OF merge_dir_safe] pre e by fastforce
  then have "list_all (\<lambda>mf. mf_Help mf \<noteq> None) (parsedFamilies st)" by (auto simp: safe_state_def safe_family_def list_all_iff)
  then have "fill_help (metricsNamesToFiles st) (parsedFamilies st) [] = Ok (parsedFamilies st)" by (rule fill_help_id)
  moreover have "\<not> panics (snd (foreach (\<lambda>(i, mf). convertMetricFamily (ord_labels ord i) mf)
      (zip [0..<length (parsedFamilies st)] (parsedFamilies st))))"
    using st(2) by (auto dest!: panics_foreach set_zip_rightD simp: safe_state_def list_all_iff convertMetricFamily_safe)
  ultimately show "\<not> panics (snd (case e of (ord, env, c) \<Rightarrow> textfile_Update ord env c))"
    by (auto simp: e textfile_Update_def st dest!: panics_seq)
qed

section \<open>Properties\<close>

text \<open>
  C14: No silent loss: when a scrape ends with a scrape error of zero, every directory and every
  metrics file in it was read without error, and every family of every file is exported, with its
  own help text if it has one.
\<close>

theorem textfile_complete:
  assumes "snd (textfile_Update ord env c) = Ok ()"
    and "last (fst (textfile_Update ord env c)) = MustNewConstMetric scrapeErrorDesc GaugeValue (Fin 0) []"
  shows "list_all (dir_read env) (expand_paths env (tf_paths c)) \<and>
    (\<exists>mfs mts. list_all2 helped (concat (map (\<lambda>p. concat (map (file_families env p) (fst (ReadDir env p)))) (expand_paths env (tf_paths c)))) mfs \<and>
       fst (textfile_Update ord env c) =
         concat (map (\<lambda>(i, mf). fst (convertMetricFamily (ord_labels ord i) mf)) (zip [0..<length mfs] mfs)) @
         exportMTimes ord c mts @ [MustNewConstMetric scrapeErrorDesc GaugeValue (Fin 0) []])"
proof -
  obtain st where st: "fold_res (merge_dir env) (expand_paths env (tf_paths c)) tf_init = Ok st"
    using assms(1) by (cases "fold_res (merge_dir env) (expand_paths env (tf_paths c)) tf_init") (auto simp: textfile_Update_def)
  obtain mfs where mfs: "fill_help (metricsNamesToFiles st) (parsedFamilies st) [] = Ok mfs"
    using assms(1) st by (cases "fill_help (metricsNamesToFiles st) (parsedFamilies st) []") (auto simp: textfile_Update_def)
  let ?each = "foreach (\<lambda>(i, mf). convertMetricFamily (ord_labels ord i) mf) (zip [0..<length mfs] mfs)"
  have u: "textfile_Update ord env c = seq ?each (emit (exportMTimes ord c (mtimes st) @
      [MustNewConstMetric scrapeErrorDesc GaugeValue (if errored st then Fin 1 else Fin 0) []]))"
    by (simp add: textfile_Update_def st mfs)
  have each: "snd ?each = Ok ()" using assms(1) by (simp add: u)
  have "\<not> errored st" using assms(2) each by (simp add: u fst_seq_Ok split: if_splits)
  moreover have "?each = emit (concat (map (\<lambda>(i, mf). fst (convertMetricFamily (ord_labels ord i) mf)) (zip [0..<length mfs] mfs)))"
  proof -
    have "(\<lambda>x. fst (case x of (i, mf) \<Rightarrow> convertMetricFamily (ord_labels ord i) mf)) = (\<lambda>(i, mf). fst (convertMetricFamily (ord_labels ord i) mf))"
      by (simp add: fun_eq_iff)
    with each foreach_Ok [of "zip [0..<length mfs] mfs" "\<lambda>(i, mf). convertMetricFamily (ord_labels ord i) mf"]
    show ?thesis by (simp only: snd_foreach_Ok_iff)
  qed
  ultimately show ?thesis
    using merge_all_kept [OF st] fill_help_helped [OF mfs] by (auto simp: u emit_def)
qed

definition demo_family :: "string option \<Rightarrow> MetricFamily" where
  "demo_family help = \<lparr>mf_Name = Some ''x'', mf_Help = help, mf_Type = Some GAUGE,
     mf_Metric = [\<lparr>m_Label = [(Some ''a'', Some ''1'')], m_Gauge = Some (Some (Fin 0)), m_Counter = None, m_Untyped = None,
       m_Summary = None, m_Histogram = None, m_TimestampMs = None\<rparr>]\<rparr>"

text \<open>A directory whose files hold, in their first character, which help text their one family has.\<close>

definition demo_tf_env :: "string list \<Rightarrow> tfEnv" where
  "demo_tf_env files = \<lparr>Glob = (\<lambda>g. Ok [g]), ReadDir = (\<lambda>_. (files, None)), tf_Open = (\<lambda>f. Ok f),
     TextToMetricFamilies = (\<lambda>f. Ok [demo_family (if f = ''/d/1.prom'' then Some ''A'' else if f = ''/d/2.prom'' then Some ''B'' else None)]),
     ModTime = (\<lambda>_. Ok 0)\<rparr>"

definition demo_tf_order :: tfOrder where
  "demo_tf_order = \<lparr>ord_labels = (\<lambda>_ _. rev), ord_mtimes = rev\<rparr>"

theorem textfile_complete_witness:
  "list_all (dir_read (demo_tf_env [''1.prom''])) (expand_paths (demo_tf_env [''1.prom'']) [''/d''])"
proof -
  let ?u = "textfile_Update demo_tf_order (demo_tf_env [''1.prom'']) (NewTextFileCollector [''/d''])"
  have "snd ?u = Ok ()" "last (fst ?u) = MustNewConstMetric scrapeErrorDesc GaugeValue (Fin 0) []" by code_simp+
  from textfile_complete [OF this] show ?thesis by (simp add: NewTextFileCollector_def)
qed

text \<open>
  C16: Families that bring their own help text agree: of two exported families with the same
  name and a help text each, from whatever files, the texts are equal.
\<close>

theorem textfile_help_consistent:
  assumes "fold_res (merge_dir env) paths tf_init = Ok st"
    and "mf \<in> set (parsedFamilies st)" "mf' \<in> set (parsedFamilies st)" "mf_Name mf = mf_Name mf'"
    and "mf_Help mf = Some h" "mf_Help mf' = Some h'"
  shows "h = h'"
proof -
  have inv: "help_inv st" by (rule help_inv_merge_all [OF assms(1)])
  have "map_option fst (map_get (metricsNamesToHelpTexts st) (the (mf_Name mf))) = Some h"
    "map_option fst (map_get (metricsNamesToHelpTexts st) (the (mf_Name mf'))) = Some h'"
    using inv assms(2,3,5,6) by (auto simp: help_inv_def list_all_iff)
  then show ?thesis using assms(4) by simp
qed

theorem textfile_help_consistent_witness:
  "\<exists>st h h'. fold_res (merge_dir (demo_tf_env [''1.prom'', ''2.prom''])) [''/d''] tf_init = Ok st \<and>
     map mf_Help (parsedFamilies st) = [Some h] \<and> mf_Help (last (parsedFamilies st)) = Some h' \<and> h = h'"
proof -
  let ?r = "fold_res (merge_dir (demo_tf_env [''1.prom'', ''2.prom''])) [''/d''] tf_init"
  have "case ?r of Ok st \<Rightarrow> map mf_Help (parsedFamilies st) = [Some ''A''] | _ \<Rightarrow> False" by code_simp
  then obtain st where st: "?r = Ok st" and h: "map mf_Help (parsedFamilies st) = [Some ''A'']" by (auto split: res.splits)
  then obtain mf where mf: "parsedFamilies st = [mf]" "mf_Help mf = Some ''A''" by auto
  have "''A'' = ''A''" by (rule textfile_help_consistent [OF st, of mf mf]) (simp_all add: mf)
  with st h mf show ?thesis by (intro exI [of _ st] exI [of _ "''A''"]) simp
qed

text \<open>
  Every sample of a family has the same label names: those of its metric with their values,
  and every other name used anywhere in the family with the empty value; each metric gives one
  sample, in the order of the file.
\<close>

theorem convertMetricFamily_labels:
  assumes "\<And>i. range_order (ord i)" "snd (convertMetricFamily ord mf) = Ok ()"
  shows "list_all2 (sample_of mf) (mf_Metric mf) (fst (convertMetricFamily ord mf))"
proof -
  let ?f = "\<lambda>(i, m). convert_metric (ord i) mf m"
  have gen: "list_all2 (sample_of mf) (map snd ims) (fst (foreach ?f ims))" if "snd (foreach ?f ims) = Ok ()" for ims
    using that
  proof (induction ims)
    case (Cons im ims)
    obtain i m where im: "im = (i, m)" by fastforce
    have ok: "snd (convert_metric (ord i) mf m) = Ok ()" using Cons.prems im by simp
    then obtain s where s: "fst (convert_metric (ord i) mf m) = [s]" "sample_of mf m s"
      using convert_metric_samples [OF assms(1) [of i], of mf m] by (auto simp: length_Suc_conv)
    have "list_all2 (sample_of mf) (map snd ims) (fst (foreach ?f ims))" using Cons by simp
    with s show ?case by (simp add: im fst_seq_Ok [OF ok])
  qed simp
  show ?thesis using gen [of "zip [0..<length (mf_Metric mf)] (mf_Metric mf)"] assms(2) by (simp add: convertMetricFamily_def)
qed

theorem convertMetricFamily_labels_witness:
  "list_all2 (sample_of (demo_family None)) (mf_Metric (demo_family None)) (fst (convertMetricFamily (\<lambda>_. rev) (demo_family None)))"
  by (rule convertMetricFamily_labels) (simp add: range_order_rev, code_simp)

text \<open>
  The families of the files in the order they are merged, and the help texts a name has among them. A name is in trouble when
  two of its help texts differ.
\<close>

definition tf_families :: "tfEnv \<Rightarrow> string list \<Rightarrow> MetricFamily list" where
  "tf_families env paths = concat (map (\<lambda>d. concat (map (file_families env d) (fst (ReadDir env d)))) paths)"

definition has_help :: "string \<Rightarrow> string \<Rightarrow> MetricFamily list \<Rightarrow> bool" where
  "has_help n h fams \<longleftrightarrow> (\<exists>mf \<in> set fams. mf_Name mf = Some n \<and> mf_Help mf = Some h)"

definition disputed :: "string \<Rightarrow> MetricFamily list \<Rightarrow> bool" where
  "disputed n fams \<longleftrightarrow> (\<exists>h h'. has_help n h fams \<and> has_help n h' fams \<and> h \<noteq> h') \<and> \<not> has_help n [] fams"

text \<open>A family without help text after a dispute is what the merge does not survive.\<close>

definition fatal :: "string \<Rightarrow> MetricFamily list \<Rightarrow> bool" where
  "fatal n fams \<longleftrightarrow> (\<exists>xs mf ys. fams = xs @ mf # ys \<and> disputed n xs \<and> mf_Name mf = Some n \<and> mf_Help mf = None)"

definition texts_inv :: "string \<Rightarrow> MetricFamily list \<Rightarrow> tfState \<Rightarrow> bool" where
  "texts_inv n fams st \<longleftrightarrow> \<not> fatal n fams \<and>
     (\<not> has_help n [] fams \<longrightarrow> (\<forall>h. has_help n h fams \<longrightarrow>
        (\<exists>h0 h1. map_get (metricsNamesToHelpTexts st) n = Some (h0, h1) \<and> (h1 = [] \<longrightarrow> h = h0))))"

lemma has_help_snoc: "has_help n h (fams @ [mf]) \<longleftrightarrow> has_help n h fams \<or> mf_Name mf = Some n \<and> mf_Help mf = Some h"
  by (auto simp: has_help_def)

lemma fatal_snoc: "fatal n (fams @ [mf]) \<longleftrightarrow> fatal n fams \<or> disputed n fams \<and> mf_Name mf = Some n \<and> mf_Help mf = None"
proof
  assume "fatal n (fams @ [mf])"
  then obtain xs m ys where s: "fams @ [mf] = xs @ m # ys" "disputed n xs" "mf_Name m = Some n" "mf_Help m = None"
    by (auto simp: fatal_def)
  then show "fatal n fams \<or> disputed n fams \<and> mf_Name mf = Some n \<and> mf_Help mf = None"
    by (cases ys rule: rev_cases) (auto simp: fatal_def)
next
  assume "fatal n fams \<or> disputed n fams \<and> mf_Name mf = Some n \<and> mf_Help mf = None"
  then show "fatal n (fams @ [mf])" unfolding fatal_def by (metis append.assoc append_Cons)
qed

lemma texts_inv_merge_family:
  assumes inv: "texts_inv n fams st" and m: "merge_family file mf st = Ok st'"
  shows "texts_inv n (fams @ [mf]) st'"
  using m
proof (cases rule: merge_family_cases)
  case (kept n')
  have same: "h = h0 \<and> h1 = []" if "n' = n" "map_get (metricsNamesToHelpTexts st) n = Some (h0, h1)" "\<not> has_help n [] fams" "has_help n h fams" for h h0 h1
    using that kept(3) inv by (auto simp: texts_inv_def)
  have "\<not> (disputed n fams \<and> n' = n)"
    using inv same by (fastforce simp: disputed_def texts_inv_def)
  then have "\<not> fatal n (fams @ [mf])" using inv kept(1) by (auto simp: fatal_snoc texts_inv_def)
  moreover have "\<exists>h0 h1. map_get (metricsNamesToHelpTexts st') n = Some (h0, h1) \<and> (h1 = [] \<longrightarrow> h = h0)"
    if e: "\<not> has_help n [] (fams @ [mf])" and h: "has_help n h (fams @ [mf])" for h
  proof (cases "n' = n \<and> mf_Help mf \<noteq> None")
    case True
    then obtain h' where h': "n' = n" "mf_Help mf = Some h'" by auto
    have "h = h'" if hh: "has_help n h fams"
    proof -
      obtain h0 h1 where g: "map_get (metricsNamesToHelpTexts st) n = Some (h0, h1)"
        using inv hh e by (auto simp: texts_inv_def has_help_snoc)
      then show ?thesis using same [OF h'(1) g] hh e kept(3) [of h0 h1] h' by (auto simp: has_help_snoc)
    qed
    then show ?thesis using h h' kept by (auto simp: keep_family_def has_help_snoc)
  next
    case False
    then have "map_get (metricsNamesToHelpTexts st') n = map_get (metricsNamesToHelpTexts st) n"
      using kept(2) by (cases "mf_Help mf") (auto simp: keep_family_def)
    moreover have "has_help n h fams" using h False kept(1) by (auto simp: has_help_snoc)
    ultimately show ?thesis using inv e by (simp add: texts_inv_def has_help_snoc)
  qed
  ultimately show ?thesis by (simp add: texts_inv_def)
next
  case (aside n' h0 h1 h)
  then have "\<not> fatal n (fams @ [mf])" using inv by (auto simp: fatal_snoc texts_inv_def)
  moreover have "\<exists>h0 h1. map_get (metricsNamesToHelpTexts st') n = Some (h0, h1) \<and> (h1 = [] \<longrightarrow> k = h0)"
    if "\<not> has_help n [] (fams @ [mf])" "has_help n k (fams @ [mf])" for k
    using that aside inv by (cases "n' = n") (auto simp: texts_inv_def has_help_snoc)
  ultimately show ?thesis by (simp add: texts_inv_def)
qed

text \<open>A loop whose iterations each account for a piece of a trace accounts for the whole trace.\<close>

lemma fold_res_trace:
  assumes "\<And>x A s t. P A s \<Longrightarrow> f x s = Ok t \<Longrightarrow> P (A @ g x) t" "P A s" "fold_res f xs s = Ok t"
  shows "P (A @ concat (map g xs)) t"
  using assms(2,3)
proof (induction xs arbitrary: A s)
  case (Cons x xs)
  then obtain u where u: "f x s = Ok u" "fold_res f xs u = Ok t" by (auto simp: go_simps)
  then show ?case using Cons.IH [OF assms(1) [OF Cons.prems(1) u(1)] u(2)] by simp
qed simp

lemma texts_inv_merge_file: "texts_inv n fams st \<Longrightarrow> merge_file env path f st = Ok st' \<Longrightarrow> texts_inv n (fams @ file_families env path f) st'"
proof (cases "HasSuffix f ''.prom''")
  case True
  assume inv: "texts_inv n fams st" and m: "merge_file env path f st = Ok st'"
  obtain mt new err u where p: "processFile env path f = Ok (mt, new, err)"
    and u: "fold_res (merge_family (filepath_Join [path, f])) new st = Ok u"
    and st': "texts_inv n (fams @ new) u \<Longrightarrow> texts_inv n (fams @ new) st'"
    using m True by (auto simp: merge_file_def Let_def go_simps texts_inv_def split: if_splits)
  have "texts_inv n (fams @ concat (map (\<lambda>mf. [mf]) new)) u"
    by (rule fold_res_trace [where P = "texts_inv n", OF texts_inv_merge_family inv u])
  then show ?thesis using st' True p by (simp add: file_families_def)
qed (simp add: merge_file_def file_families_def Let_def)

lemma texts_inv_merge_dir:
  "texts_inv n fams st \<Longrightarrow> merge_dir env d st = Ok st' \<Longrightarrow> texts_inv n (fams @ concat (map (file_families env d) (fst (ReadDir env d)))) st'"
proof -
  assume inv: "texts_inv n fams st" and m: "merge_dir env d st = Ok st'"
  obtain files err where r: "ReadDir env d = (files, err)" by fastforce
  let ?st = "if err \<noteq> None \<and> d \<noteq> [] then st\<lparr>errored := True\<rparr> else st"
  have "texts_inv n fams ?st" using inv by (simp add: texts_inv_def)
  moreover have "fold_res (merge_file env d) files ?st = Ok st'" using m r by (simp add: merge_dir_def)
  ultimately show ?thesis
    using fold_res_trace [where P = "texts_inv n" and f = "merge_file env d" and g = "file_families env d", OF texts_inv_merge_file] r by simp
qed

lemma texts_inv_merge_all:
  assumes "fold_res (merge_dir env) paths tf_init = Ok st"
  shows "texts_inv n (tf_families env paths) st"
proof -
  have "texts_inv n [] tf_init" by (simp add: texts_inv_def has_help_def fatal_def)
  from fold_res_trace [where P = "texts_inv n", OF texts_inv_merge_dir this assms] show ?thesis by (simp add: tf_families_def)
qed

text \<open>Merging ends normally or with a panic: what cannot be read is set aside.\<close>

lemma merge_all_no_err: "fold_res (merge_dir env) paths st \<noteq> Err e"
proof -
  have fold: "fold_res f xs s \<noteq> Err e" if "\<And>x s. f x s \<noteq> Err e" for f :: "'x \<Rightarrow> tfState \<Rightarrow> tfState res" and xs s
    using that
  proof (induction xs arbitrary: s)
    case (Cons x xs)
    then show ?case using Cons.prems [of x s] by (cases "f x s") auto
  qed simp
  have fam: "merge_family fl mf st \<noteq> Err e" for fl mf st
    by (auto simp: merge_family_def deref_def idx_def go_simps split: option.splits)
  have proc: "processFile env d f \<noteq> Err e" for d f
    by (simp add: processFile_def Let_def del: filepath_Join.simps split: res.split)
  have "merge_file env d f st \<noteq> Err e" for d f st
  proof (cases "processFile env d f")
    case (Ok r)
    obtain mt fams err where r: "r = (mt, fams, err)" by (cases r)
    have "fold_res (merge_family (filepath_Join [d, f])) fams st \<noteq> Err e" by (rule fold) (rule fam)
    then show ?thesis
      by (cases "fold_res (merge_family (filepath_Join [d, f])) fams st")
        (auto simp: merge_file_def Let_def Ok r deref_def simp del: filepath_Join.simps split: option.splits)
  qed (use proc [of d f] in \<open>auto simp: merge_file_def Let_def simp del: filepath_Join.simps\<close>)
  then have "fold_res (merge_file env d) files st \<noteq> Err e" for d files st by (intro fold)
  then have "merge_dir env d st \<noteq> Err e" for d st by (simp add: merge_dir_def Let_def split: prod.splits)
  then show ?thesis by (intro fold)
qed

text \<open>
  C15: A metric that appears with two different help texts, none of its texts before that being empty, and later, in whatever
  file of whatever directory, once without help text crashes the collector, and with it the process: after a disagreement the
  code reads the help text of every further family of the name without checking that there is one.
\<close>

theorem textfile_help_panics:
  assumes "tf_families env (expand_paths env (tf_paths c)) = xs @ mf # ys" "mf_Name mf = Some n" "mf_Help mf = None"
    and "mf1 \<in> set xs" "mf_Name mf1 = Some n" "mf_Help mf1 = Some h1" "mf2 \<in> set xs" "mf_Name mf2 = Some n" "mf_Help mf2 = Some h2" "h1 \<noteq> h2"
    and "\<forall>m \<in> set xs. mf_Name m = Some n \<longrightarrow> mf_Help m \<noteq> Some []"
  shows "panics (snd (textfile_Update ord env c))"
proof -
  have "fatal n (tf_families env (expand_paths env (tf_paths c)))"
    unfolding fatal_def disputed_def has_help_def using assms by blast
  then have "fold_res (merge_dir env) (expand_paths env (tf_paths c)) tf_init \<noteq> Ok st" for st
    using texts_inv_merge_all [of env _ st n] by (auto simp: texts_inv_def)
  then obtain p where "fold_res (merge_dir env) (expand_paths env (tf_paths c)) tf_init = Panic p"
    using merge_all_no_err by (metis res.exhaust)
  then show ?thesis by (simp add: textfile_Update_def)
qed

theorem textfile_help_panics_witness:
  "panics (snd (textfile_Update demo_tf_order (demo_tf_env [''1.prom'', ''2.prom'', ''README'', ''2.prom'', ''3.prom'']) (NewTextFileCollector [''/d''])))"
proof -
  let ?env = "demo_tf_env [''1.prom'', ''2.prom'', ''README'', ''2.prom'', ''3.prom'']"
  have "tf_families ?env (expand_paths ?env (tf_paths (NewTextFileCollector [''/d'']))) =
      [demo_family (Some ''A''), demo_family (Some ''B''), demo_family (Some ''B'')] @ demo_family None # []"
    by code_simp
  from textfile_help_panics [OF this, of "''x''" "demo_family (Some ''A'')" "''A''" "demo_family (Some ''B'')" "''B''"]
  show ?thesis by (simp add: demo_family_def)
qed

end
