(* ===== verification/Irq.thy ===== *)
theory Irq
  imports Helpers
begin

text \<open>
  The interrupt collectors: \<^verbatim>\<open>interrupts_common.go\<close> and \<^verbatim>\<open>interrupts_linux.go\<close>, which parse
  \<^verbatim>\<open>/proc/interrupts\<close>, and \<^verbatim>\<open>softirqs_common.go\<close> and \<^verbatim>\<open>softirqs_linux.go\<close> on the structure procfs returns.
\<close>

section \<open>interrupts\<close>

record interruptFlags =
  interruptsInclude :: string
  interruptsExclude :: string
  interruptsIncludeZeros :: bool

record interruptsCollector =
  nameFilter :: deviceFilter
  includeZeros :: bool

definition interruptLabelNames :: "string list" where
  "interruptLabelNames = [''cpu'', ''type'', ''info'', ''devices'']"

definition interrupts_desc :: typedDesc where
  "interrupts_desc =
     \<lparr>td_desc = NewDesc (FQName (namespace @ ''_interrupts_total'')) ''Interrupt details.'' interruptLabelNames,
      td_valueType = CounterValue\<rparr>"

definition NewInterruptsCollector :: "interruptFlags \<Rightarrow> interruptsCollector res" where
  "NewInterruptsCollector fl =
     bind_res (newDeviceFilter (interruptsExclude fl) (interruptsInclude fl)) (\<lambda>f.
       Ok \<lparr>nameFilter = f, includeZeros = interruptsIncludeZeros fl\<rparr>)"

record interrupt =
  info :: string
  devices :: string
  irq_values :: "string list"

definition parse_interrupt_line :: "nat \<Rightarrow> string \<Rightarrow> (string, interrupt) gomap \<Rightarrow> (string, interrupt) gomap" where
  "parse_interrupt_line cpuNum text interrupts =
     (case SplitN2 text '':'' of
        g0 # g1 # _ \<Rightarrow>
          let parts = Fields g1 in
          if length parts < cpuNum + 1 then interrupts
          else let intName = TrimLeft g0 {CHR '' ''};
                   intr = (case Atoi intName of
                             Ok _ \<Rightarrow> \<lparr>info = parts ! cpuNum, devices = Join (drop (cpuNum + 1) parts) '' '', irq_values = take cpuNum parts\<rparr>
                           | _ \<Rightarrow> \<lparr>info = Join (drop cpuNum parts) '' '', devices = [], irq_values = take cpuNum parts\<rparr>)
               in map_put intName intr interrupts
      | _ \<Rightarrow> interrupts)"

definition parseInterrupts :: "string \<Rightarrow> (string, interrupt) gomap res" where
  "parseInterrupts r =
     (case scan_lines r of
        [] \<Rightarrow> Err (NewError ''interrupts empty'')
      | header # ls \<Rightarrow>
          ok_or (fold (parse_interrupt_line (length (Fields header))) ls []) (scan_err r))"

definition getInterrupts :: "paths \<Rightarrow> (string \<Rightarrow> string res) \<Rightarrow> (string, interrupt) gomap res" where
  "getInterrupts p readFile = bind_res (readFile (procFilePath p ''interrupts'')) parseInterrupts"

definition filter_name :: "string \<Rightarrow> interrupt \<Rightarrow> string" where
  "filter_name name i = name @ '';'' @ info i @ '';'' @ devices i"

definition interrupt_value :: "interruptsCollector \<Rightarrow> string \<Rightarrow> interrupt \<Rightarrow> nat \<times> string \<Rightarrow> upd" where
  "interrupt_value c name i = (\<lambda>(cpuNo, v).
     if ignored (nameFilter c) (filter_name name i) then emit []
     else with_res (map_err (Wrapf ''invalid value %s in interrupts: %w'' [v]) (ParseFloat v)) (\<lambda>fv.
       if \<not> includeZeros c \<and> fv \<in> {Fin 0, NegZero} then emit []
       else emit [mustNewConstMetric interrupts_desc fv [Itoa (int cpuNo), name, info i, devices i]]))"

definition interrupts_Update ::
  "((string \<times> interrupt) list \<Rightarrow> (string \<times> interrupt) list) \<Rightarrow> interruptsCollector \<Rightarrow> paths \<Rightarrow> (string \<Rightarrow> string res) \<Rightarrow> upd" where
  "interrupts_Update ord c p readFile =
     with_res (map_err (Wrapf ''couldn't get interrupts: %w'' []) (getInterrupts p readFile)) (\<lambda>interrupts.
       foreach (\<lambda>(name, i). foreach (interrupt_value c name i) (zip [0..<length (irq_values i)] (irq_values i))) (ord interrupts))"

section \<open>softirqs\<close>

record Softirqs =
  sq_Hi :: "uint64 list"
  sq_Timer :: "uint64 list"
  sq_NetTx :: "uint64 list"
  sq_NetRx :: "uint64 list"
  sq_Block :: "uint64 list"
  sq_IRQPoll :: "uint64 list"
  sq_Tasklet :: "uint64 list"
  sq_Sched :: "uint64 list"
  sq_HRTimer :: "uint64 list"
  sq_RCU :: "uint64 list"

definition softirqLabelNames :: "string list" where
  "softirqLabelNames = [''cpu'', ''type'']"

definition softirqs_desc :: typedDesc where
  "softirqs_desc =
     \<lparr>td_desc = NewDesc (FQName (namespace @ ''_softirqs_functions_total'')) ''Softirq counts per CPU.'' softirqLabelNames,
      td_valueType = CounterValue\<rparr>"

definition NewSoftirqsCollector :: "unit res \<Rightarrow> unit res" where
  "NewSoftirqsCollector procfs_NewFS = map_err (Wrapf ''failed to open procfs: %w'' []) procfs_NewFS"

definition softirq_column :: "string \<Rightarrow> uint64 list \<Rightarrow> metric list" where
  "softirq_column name vs =
     map (\<lambda>(cpuNo, v). mustNewConstMetric softirqs_desc (f64_of_nat (unat v)) [Itoa (int cpuNo), name]) (zip [0..<length vs] vs)"

definition softirqs_Update :: "Softirqs res \<Rightarrow> upd" where
  "softirqs_Update fs_Softirqs =
     with_res (map_err (Wrapf ''couldn't get softirqs: %w'' []) fs_Softirqs) (\<lambda>s.
       emit (softirq_column ''HI'' (sq_Hi s) @ softirq_column ''TIMER'' (sq_Timer s) @ softirq_column ''NET_TX'' (sq_NetTx s) @
             softirq_column ''NET_RX'' (sq_NetRx s) @ softirq_column ''BLOCK'' (sq_Block s) @ softirq_column ''IRQ_POLL'' (sq_IRQPoll s) @
             softirq_column ''TASKLET'' (sq_Tasklet s) @ softirq_column ''SCHED'' (sq_Sched s) @ softirq_column ''HRTIMER'' (sq_HRTimer s) @
             softirq_column ''RCU'' (sq_RCU s)))"

section \<open>The contracts\<close>

lemma getInterrupts_no_panic: "\<not> panics (readFile (procFilePath p ''interrupts'')) \<Longrightarrow> \<not> panics (getInterrupts p readFile)"
  by (auto simp: getInterrupts_def parseInterrupts_def panics_bind_res ok_or_def split: list.splits option.splits)

interpretation interrupts: safe_collector_contract "\<lambda>(c, p, rd). interrupts_Update ord c p rd"
  "\<lambda>(c, p, rd). \<not> panics (rd (procFilePath p ''interrupts''))" for ord
proof unfold_locales
  fix e :: "interruptsCollector \<times> paths \<times> (string \<Rightarrow> string res)"
  assume pre: "case e of (c, p, rd) \<Rightarrow> \<not> panics (rd (procFilePath p ''interrupts''))"
  obtain c p rd where e: "e = (c, p, rd)" by (cases e)
  show "upd_ok (case e of (c, p, rd) \<Rightarrow> interrupts_Update ord c p rd)"
    unfolding e interrupts_Update_def
    by (auto simp: interrupt_value_def interrupts_desc_def interruptLabelNames_def intro!: upd_ok_with_res upd_ok_foreach)
  show "\<not> panics (snd (case e of (c, p, rd) \<Rightarrow> interrupts_Update ord c p rd))"
    using pre getInterrupts_no_panic [of rd p]
    by (auto simp: e interrupts_Update_def panics_with_res interrupt_value_def dest!: panics_foreach split: if_splits)
qed

interpretation softirqs: safe_collector_contract softirqs_Update "\<lambda>s. \<not> panics s"
  by unfold_locales
    (auto simp: softirqs_Update_def softirq_column_def softirqs_desc_def softirqLabelNames_def list_all_iff panics_with_res
      intro!: upd_ok_with_res)

section \<open>Lemmas\<close>

definition columns_ok :: "nat \<Rightarrow> (string, interrupt) gomap \<Rightarrow> bool" where
  "columns_ok n m \<longleftrightarrow> wf_map m \<and> list_all (\<lambda>(_, i). length (irq_values i) = n) m"

lemma columns_ok_put: "columns_ok n m \<Longrightarrow> length (irq_values i) = n \<Longrightarrow> columns_ok n (map_put k i m)"
  by (auto simp: columns_ok_def list_all_iff dest!: map_put_mem)

lemma parse_interrupt_line_ok: "columns_ok n m \<Longrightarrow> columns_ok n (parse_interrupt_line n text m)"
  unfolding parse_interrupt_line_def
  by (auto simp: Let_def intro!: columns_ok_put split: list.splits res.splits)

lemma parseInterrupts_columns:
  assumes "parseInterrupts r = Ok m"
  shows "\<exists>header ls. scan_lines r = header # ls \<and> columns_ok (length (Fields header)) m"
proof -
  obtain header ls where h: "scan_lines r = header # ls" "m = fold (parse_interrupt_line (length (Fields header))) ls []"
    using assms by (auto simp: parseInterrupts_def ok_or_def split: list.splits option.splits)
  have "columns_ok n (fold (parse_interrupt_line n) ls m)" if "columns_ok n m" for n m
    using that by (induction ls arbitrary: m) (auto simp: parse_interrupt_line_ok)
  then show ?thesis using h by (simp add: columns_ok_def)
qed

section \<open>Properties\<close>

text \<open>
  A scrape of the interrupts that succeeds sends, for every interrupt the filter keeps, one
  sample for each CPU column of the header (zeros left out when asked), with the number in that
  column, and nothing else; no column is read past the end of a line.
\<close>

theorem interrupts_Update_sends:
  assumes "snd (interrupts_Update ord c p rd) = Ok ()"
  shows "\<exists>header ls m. (\<exists>data. rd (procFilePath p ''interrupts'') = Ok data \<and> scan_lines data = header # ls) \<and>
    list_all (\<lambda>(_, i). length (irq_values i) = length (Fields header)) m \<and> wf_map m \<and>
    fst (interrupts_Update ord c p rd) =
      concat (map (\<lambda>(name, i). concat (map (\<lambda>y. fst (interrupt_value c name i y))
        (zip [0..<length (irq_values i)] (irq_values i)))) (ord m))"
proof -
  obtain data m where f: "rd (procFilePath p ''interrupts'') = Ok data" "parseInterrupts data = Ok m"
    using assms by (cases "rd (procFilePath p ''interrupts'')"; cases "getInterrupts p rd")
      (auto simp: interrupts_Update_def getInterrupts_def)
  obtain header ls where h: "scan_lines data = header # ls" "columns_ok (length (Fields header)) m"
    using parseInterrupts_columns [OF f(2)] by blast
  have u: "interrupts_Update ord c p rd =
      foreach (\<lambda>(name, i). foreach (interrupt_value c name i) (zip [0..<length (irq_values i)] (irq_values i))) (ord m)"
    using f by (simp add: interrupts_Update_def getInterrupts_def)
  show ?thesis using f h fst_foreach2_Ok [OF assms [unfolded u]] u by (auto simp: columns_ok_def)
qed

definition demo_interrupts :: string where
  "demo_interrupts = ''CPU0 CPU1'' @ [nl] @ '' 1: 0 0 IO-APIC i8042'' @ [nl] @ ''ERR: 0'' @ [nl]"

theorem interrupts_Update_sends_witness:
  "\<exists>header ls. scan_lines demo_interrupts = header # ls \<and>
     fst (interrupts_Update rev \<lparr>nameFilter = \<lparr>ignorePattern = None, acceptPattern = None\<rparr>, includeZeros = True\<rparr> default_paths (\<lambda>_. Ok demo_interrupts)) =
       map (\<lambda>cpu. mustNewConstMetric interrupts_desc (Fin 0) [cpu, ''1'', ''IO-APIC'', ''i8042'']) [''0'', ''1'']"
proof -
  let ?u = "interrupts_Update rev \<lparr>nameFilter = \<lparr>ignorePattern = None, acceptPattern = None\<rparr>, includeZeros = True\<rparr> default_paths (\<lambda>_. Ok demo_interrupts)"
  have "snd ?u = Ok ()" by code_simp
  from interrupts_Update_sends [OF this] obtain header ls where "scan_lines demo_interrupts = header # ls" by auto
  moreover have "fst ?u = map (\<lambda>cpu. mustNewConstMetric interrupts_desc (Fin 0) [cpu, ''1'', ''IO-APIC'', ''i8042'']) [''0'', ''1'']"
    by code_simp
  ultimately show ?thesis by blast
qed

end
