(* ===== verification/OsRelease.thy ===== *)
theory OsRelease
  imports Helpers
begin

text \<open>
  The operating system release collector, \<^verbatim>\<open>os_release.go\<close>. The collector keeps what it last read
  and rereads the files at every scrape. The file system, the environment file parser and the XML
  decoder are the environment \<open>osEnv\<close>; \<^verbatim>\<open>time.Parse\<close> for the layout \<^verbatim>\<open>2006-01-02\<close> is written out.
\<close>

section \<open>Dates\<close>

definition leap :: "int \<Rightarrow> bool" where
  "leap y \<longleftrightarrow> y mod 4 = 0 \<and> (y mod 100 \<noteq> 0 \<or> y mod 400 = 0)"

definition daysIn :: "int \<Rightarrow> int \<Rightarrow> int" where
  "daysIn m y = (if m = 2 \<and> leap y then 29 else [31, 28, 31, 30, 31, 30, 31, 31, 30, 31, 30, 31] ! nat (m - 1))"

text \<open>Days from the beginning of year 1 to the beginning of a year, and of a month within the year.\<close>

definition year_start :: "int \<Rightarrow> int" where
  "year_start y = 365 * (y - 1) + (y - 1) div 4 - (y - 1) div 100 + (y - 1) div 400"

fun month_start :: "int \<Rightarrow> nat \<Rightarrow> int" where
  "month_start y 0 = 0"
| "month_start y (Suc m) = month_start y m + daysIn (int m + 1) y"

definition date_unix :: "int \<Rightarrow> int \<Rightarrow> int \<Rightarrow> int" where
  "date_unix y m d = (year_start y + month_start y (nat (m - 1)) + (d - 1) - 719162) * 86400"

definition digits_val :: "string \<Rightarrow> int option" where
  "digits_val s = (if s \<noteq> [] \<and> list_all is_digit s then Some (fold (\<lambda>c n. 10 * n + int (byte c) - 48) s 0) else None)"

text \<open>\<^verbatim>\<open>time.Parse(time.DateOnly, s)\<close>, as seconds since 1970; a failed call returns the zero time.\<close>

definition parse_DateOnly :: "string \<Rightarrow> int res" where
  "parse_DateOnly s =
     (if length s = 10 \<and> s ! 4 = CHR ''-'' \<and> s ! 7 = CHR ''-'' then
        (case (digits_val (take 4 s), digits_val (take 2 (drop 5 s)), digits_val (drop 8 s)) of
           (Some y, Some m, Some d) \<Rightarrow>
             if 1 \<le> m \<and> m \<le> 12 \<and> 1 \<le> d \<and> d \<le> daysIn m y then Ok (date_unix y m d) else Err (ErrSyntax s)
         | _ \<Rightarrow> Err (ErrSyntax s))
      else Err (ErrSyntax s))"

definition zero_time :: int where
  "zero_time = date_unix 1 1 1"

section \<open>The collector\<close>

definition etcOSRelease :: string where "etcOSRelease = ''/etc/os-release''"
definition usrLibOSRelease :: string where "usrLibOSRelease = ''/usr/lib/os-release''"
definition systemVersionPlist :: string where "systemVersionPlist = ''/System/Library/CoreServices/SystemVersion.plist''"

definition versionRegex :: regexp where
  "versionRegex = compiled (''^[0-9]+'' @ [CHR 0x5C] @ ''.?[0-9]*'')"

record osRelease =
  os_Name :: string
  os_ID :: string
  os_IDLike :: string
  os_PrettyName :: string
  os_Variant :: string
  os_VariantID :: string
  os_Version :: string
  os_VersionID :: string
  os_VersionCodename :: string
  os_BuildID :: string
  os_ImageID :: string
  os_ImageVersion :: string
  os_SupportEnd :: string

record osReleaseCollector =
  oc_os :: "osRelease option"
  osReleaseFilenames :: "string list"
  oc_version :: float64
  supportEnd :: int

record osEnv =
  os_readFile :: "string \<Rightarrow> string res"
  envparse_Parse :: "string \<Rightarrow> (string, string) gomap \<times> error option"
  xml_Unmarshal :: "string \<Rightarrow> (string list \<times> string list) res"

definition osInfoDesc :: desc where
  "osInfoDesc = NewDesc (BuildFQName namespace ''os'' ''info'')
     (''A metric with a constant '1' value labeled by build_id, id, id_like, image_id, image_version, '' @
      ''name, pretty_name, variant, variant_id, version, version_codename, version_id.'')
     [''build_id'', ''id'', ''id_like'', ''image_id'', ''image_version'', ''name'', ''pretty_name'',
      ''variant'', ''variant_id'', ''version'', ''version_codename'', ''version_id'']"

definition osVersionDesc :: desc where
  "osVersionDesc = NewDesc (BuildFQName namespace ''os'' ''version'') ''Metric containing the major.minor part of the OS version.''
     [''id'', ''id_like'', ''name'']"

definition osSupportEndDesc :: desc where
  "osSupportEndDesc = NewDesc (BuildFQName namespace ''os'' ''support_end_timestamp_seconds'')
     ''Metric containing the end-of-life date timestamp of the OS.'' []"

definition NewOSCollector :: osReleaseCollector where
  "NewOSCollector = \<lparr>oc_os = None, osReleaseFilenames = [etcOSRelease, usrLibOSRelease, systemVersionPlist],
     oc_version = Fin 0, supportEnd = zero_time\<rparr>"

definition parseOSRelease :: "osEnv \<Rightarrow> string \<Rightarrow> osRelease \<times> error option" where
  "parseOSRelease env r =
     (let (m, err) = envparse_Parse env r; e = map_get_z [] m in
      (\<lparr>os_Name = e ''NAME'', os_ID = e ''ID'', os_IDLike = e ''ID_LIKE'', os_PrettyName = e ''PRETTY_NAME'',
        os_Variant = e ''VARIANT'', os_VariantID = e ''VARIANT_ID'', os_Version = e ''VERSION'', os_VersionID = e ''VERSION_ID'',
        os_VersionCodename = e ''VERSION_CODENAME'', os_BuildID = e ''BUILD_ID'', os_ImageID = e ''IMAGE_ID'',
        os_ImageVersion = e ''IMAGE_VERSION'', os_SupportEnd = e ''SUPPORT_END''\<rparr>, err))"

definition emptyOSRelease :: osRelease where
  "emptyOSRelease = \<lparr>os_Name = [], os_ID = [], os_IDLike = [], os_PrettyName = [], os_Variant = [], os_VariantID = [],
     os_Version = [], os_VersionID = [], os_VersionCodename = [], os_BuildID = [], os_ImageID = [], os_ImageVersion = [], os_SupportEnd = []\<rparr>"

text \<open>Each key of the property list takes the string with its own index; a missing string is a panic.\<close>

fun plist_keys :: "nat \<Rightarrow> string list \<Rightarrow> string list \<Rightarrow> string \<times> string \<times> string \<Rightarrow> (string \<times> string \<times> string) res" where
  "plist_keys i [] strs acc = Ok acc"
| "plist_keys i (k # ks) strs (versionID, versionName, buildID) =
     (if k = ''ProductVersion'' then bind_res (idx strs i) (\<lambda>s. plist_keys (Suc i) ks strs (s, versionName, buildID))
      else if k = ''ProductName'' then bind_res (idx strs i) (\<lambda>s. plist_keys (Suc i) ks strs (versionID, s, buildID))
      else if k = ''ProductBuildVersion'' then bind_res (idx strs i) (\<lambda>s. plist_keys (Suc i) ks strs (versionID, versionName, s))
      else plist_keys (Suc i) ks strs (versionID, versionName, buildID))"

definition getMacosProductVersion :: "osEnv \<Rightarrow> string \<Rightarrow> (osRelease \<times> error option) res" where
  "getMacosProductVersion env filename =
     (let bytePlist = (case os_readFile env filename of Ok b \<Rightarrow> b | _ \<Rightarrow> []) in
      case xml_Unmarshal env bytePlist of
        Panic p \<Rightarrow> Panic p
      | Err e \<Rightarrow> Ok (emptyOSRelease, Some e)
      | Ok (ks, strs) \<Rightarrow>
          bind_res (plist_keys 0 ks strs ([], [], [])) (\<lambda>(versionID, versionName, buildID).
            Ok (emptyOSRelease\<lparr>os_Name := versionName, os_Version := versionID, os_VersionID := versionID, os_BuildID := buildID\<rparr>, None)))"

text \<open>
  What \<^verbatim>\<open>strconv.ParseFloat\<close> returns beside an error: infinity when out of range, zero otherwise.
\<close>

definition parse_version :: "string \<Rightarrow> float64 \<times> error option" where
  "parse_version s =
     (case ParseFloat s of
        Ok v \<Rightarrow> (v, None)
      | Err (ErrRange x) \<Rightarrow> (Inf False, Some (ErrRange x))
      | Err e \<Rightarrow> (Fin 0, Some e)
      | Panic p \<Rightarrow> (Fin 0, None))"

text \<open>The version and the end of support are taken from the release just stored.\<close>

definition update_dates :: "osRelease \<Rightarrow> osReleaseCollector \<Rightarrow> osReleaseCollector \<times> unit res" where
  "update_dates rel c =
     (let majorMinor = FindString versionRegex (os_VersionID rel);
          (v, verr) = (if majorMinor \<noteq> [] then parse_version majorMinor else (Fin 0, None));
          c1 = c\<lparr>oc_version := v\<rparr>
      in case verr of
           Some e \<Rightarrow> (c1, Err e)
         | None \<Rightarrow>
             if os_SupportEnd rel = [] then (c1, Ok ())
             else (case parse_DateOnly (os_SupportEnd rel) of
                     Ok t \<Rightarrow> (c1\<lparr>supportEnd := t\<rparr>, Ok ())
                   | Err e \<Rightarrow> (c1\<lparr>supportEnd := zero_time\<rparr>, Err e)
                   | Panic p \<Rightarrow> (c1, Panic p)))"

definition UpdateStruct :: "osEnv \<Rightarrow> osReleaseCollector \<Rightarrow> string \<Rightarrow> osReleaseCollector \<times> unit res" where
  "UpdateStruct env c path =
     (case os_readFile env path of
        Err e \<Rightarrow> (c, Err e)
      | Panic p \<Rightarrow> (c, Panic p)
      | Ok releaseFile \<Rightarrow>
          (case (if Contains path ''SystemVersion.plist'' then getMacosProductVersion env path else Ok (parseOSRelease env releaseFile)) of
             Panic p \<Rightarrow> (c, Panic p)
           | Err e \<Rightarrow> (c, Err e)
           | Ok (rel, Some e) \<Rightarrow> (c\<lparr>oc_os := Some rel\<rparr>, Err e)
           | Ok (rel, None) \<Rightarrow> update_dates rel (c\<lparr>oc_os := Some rel\<rparr>)))"

text \<open>The files are tried in order until one is read; only a missing file lets the next one be tried.\<close>

fun try_files :: "osEnv \<Rightarrow> string \<Rightarrow> string list \<Rightarrow> osReleaseCollector \<Rightarrow> osReleaseCollector \<times> unit res" where
  "try_files env rootfs [] c = (c, Ok ())"
| "try_files env rootfs (path # ps) c =
     (case UpdateStruct env c (rootfs @ path) of
        (c', Ok _) \<Rightarrow> (c', Ok ())
      | (c', Panic p) \<Rightarrow> (c', Panic p)
      | (c', Err e) \<Rightarrow>
          if errors_Is e ErrNotExist then (if ps = [] then (c', Err ErrNoData) else try_files env rootfs ps c')
          else (c', Err e))"

definition os_metrics :: "osReleaseCollector \<Rightarrow> upd" where
  "os_metrics c =
     (case oc_os c of
        None \<Rightarrow> ([], Panic ''nil pointer dereference'')
      | Some o_ \<Rightarrow>
          emit ([MustNewConstMetric osInfoDesc GaugeValue (Fin 1)
                   [os_BuildID o_, os_ID o_, os_IDLike o_, os_ImageID o_, os_ImageVersion o_, os_Name o_, os_PrettyName o_,
                    os_Variant o_, os_VariantID o_, os_Version o_, os_VersionCodename o_, os_VersionID o_]] @
                (if f64_lt (Fin 0) (oc_version c)
                 then [MustNewConstMetric osVersionDesc GaugeValue (oc_version c) [os_ID o_, os_IDLike o_, os_Name o_]] else []) @
                (if os_SupportEnd o_ \<noteq> []
                 then [MustNewConstMetric osSupportEndDesc GaugeValue (f64_of_int (supportEnd c)) []] else [])))"

definition os_Update :: "osEnv \<Rightarrow> paths \<Rightarrow> osReleaseCollector \<Rightarrow> osReleaseCollector \<times> upd" where
  "os_Update env p c =
     (case try_files env (rootfsPath p) (osReleaseFilenames c) c of
        (c', Ok _) \<Rightarrow> (c', os_metrics c')
      | (c', Err e) \<Rightarrow> (c', fail e)
      | (c', Panic q) \<Rightarrow> (c', ([], Panic q)))"

section \<open>Lemmas\<close>

lemma div_step:
  assumes "0 < k"
  shows "(y :: int) div k = (y - 1) div k + (if y mod k = 0 then 1 else 0)"
proof -
  define q r where "q = (y - 1) div k" and "r = (y - 1) mod k"
  have y: "y = k * q + (r + 1)" and r: "0 \<le> r" "r < k"
    using assms mult_div_mod_eq [of k "y - 1"] by (auto simp: q_def r_def)
  show ?thesis
  proof (cases "r + 1 = k")
    case True
    then have "y = k * (q + 1)" using y by (simp add: algebra_simps)
    then show ?thesis using assms unfolding q_def [symmetric] by simp
  next
    case False
    then have r': "0 \<le> r + 1" "r + 1 < k" using r by auto
    have "y div k = q" by (rule int_div_pos_eq [OF y r'])
    moreover have "y mod k = r + 1" by (rule int_mod_pos_eq [OF y r'])
    ultimately show ?thesis using r(1) unfolding q_def [symmetric] by simp
  qed
qed

lemma year_start_step: "year_start (y + 1) = year_start y + 365 + (if leap y then 1 else 0)"
proof -
  define P Q R where pqr: "P \<longleftrightarrow> y mod 4 = 0" "Q \<longleftrightarrow> y mod 100 = 0" "R \<longleftrightarrow> y mod 400 = 0"
  have 1: "R \<Longrightarrow> Q" "Q \<Longrightarrow> P"
    by (auto simp: pqr mod_eq_0_iff_dvd elim!: dvd_trans [rotated])
  define a b c where abc: "a = (y - 1) div 4" "b = (y - 1) div 100" "c = (y - 1) div 400"
  define a' b' c' where abc': "a' = y div 4" "b' = y div 100" "c' = y div 400"
  have "a' = a + (if P then 1 else 0)" "b' = b + (if Q then 1 else 0)" "c' = c + (if R then 1 else 0)"
    unfolding abc abc' pqr by (rule div_step, simp)+
  moreover have "year_start (y + 1) = 365 * y + a' - b' + c'" unfolding year_start_def abc' add_diff_cancel_right' ..
  moreover have "year_start y = 365 * (y - 1) + a - b + c" unfolding year_start_def abc ..
  ultimately show ?thesis using 1 unfolding leap_def pqr [symmetric] by (cases P; cases Q; cases R) simp_all
qed

lemma month_start_year: "month_start y 12 = 365 + (if leap y then 1 else 0)"
  by (simp add: eval_nat_numeral daysIn_def)

lemma year_start_mono: "y < y' \<Longrightarrow> year_start y + month_start y 12 \<le> year_start y'"
proof (induction "nat (y' - y)" arbitrary: y')
  case (Suc n)
  show ?case
  proof (cases "y' = y + 1")
    case True
    then show ?thesis by (simp add: year_start_step month_start_year)
  next
    case False
    then have "year_start y + month_start y 12 \<le> year_start (y' - 1)" using Suc by simp
    moreover have "year_start (y' - 1) \<le> year_start y'" using year_start_step [of "y' - 1"] by simp
    ultimately show ?thesis by simp
  qed
qed simp

lemma daysIn_pos: "1 \<le> m \<Longrightarrow> m \<le> 12 \<Longrightarrow> 28 \<le> daysIn m y"
proof -
  assume "1 \<le> m" "m \<le> 12"
  then have "m \<in> set [1..12]" by simp
  also have "[1..12] = [1, 2, 3, 4, 5, 6, 7, 8, 9, 10, 11, 12]" by (simp add: upto.simps)
  finally have "m \<in> set [1, 2, 3, 4, 5, 6, 7, 8, 9, 10, 11, 12]" .
  then show ?thesis by (auto simp: daysIn_def)
qed

lemma month_start_mono: "m < m' \<Longrightarrow> m' \<le> 12 \<Longrightarrow> month_start y m + daysIn (int m + 1) y \<le> month_start y m'"
proof (induction m')
  case (Suc n)
  show ?case
  proof (cases "m = n")
    case False
    then show ?thesis using Suc daysIn_pos [of "int n + 1" y] by simp
  qed simp
qed simp

definition valid_date :: "int \<times> int \<times> int \<Rightarrow> bool" where
  "valid_date = (\<lambda>(y, m, d). 1 \<le> m \<and> m \<le> 12 \<and> 1 \<le> d \<and> d \<le> daysIn m y)"

lemma day_of_year:
  assumes "valid_date (y, m, d)"
  shows "0 \<le> month_start y (nat (m - 1)) + (d - 1)" "month_start y (nat (m - 1)) + (d - 1) < month_start y 12"
    "m < m' \<Longrightarrow> m' \<le> 12 \<Longrightarrow> month_start y (nat (m - 1)) + (d - 1) < month_start y (nat (m' - 1))"
proof -
  have v: "1 \<le> m" "m \<le> 12" "1 \<le> d" "d \<le> daysIn m y" using assms by (auto simp: valid_date_def)
  have "0 \<le> month_start y n" if "n \<le> 12" for n
    using that month_start_mono [of 0 n y] daysIn_pos [of 1 y] by (cases n) auto
  from this [of "nat (m - 1)"] show "0 \<le> month_start y (nat (m - 1)) + (d - 1)" using v by simp
  have step: "month_start y (nat (m - 1)) + (d - 1) < month_start y n" if "nat (m - 1) < n" "n \<le> 12" for n
    using month_start_mono [OF that, of y] v by simp
  show "month_start y (nat (m - 1)) + (d - 1) < month_start y 12" using v by (intro step) auto
  show "m < m' \<Longrightarrow> m' \<le> 12 \<Longrightarrow> month_start y (nat (m - 1)) + (d - 1) < month_start y (nat (m' - 1))"
    using v by (intro step) auto
qed

lemma date_unix_mono:
  assumes "valid_date (y, m, d)" "valid_date (y', m', d')" "y < y' \<or> y = y' \<and> (m < m' \<or> m = m' \<and> d < d')"
  shows "date_unix y m d < date_unix y' m' d'"
proof -
  let ?day = "\<lambda>y m d. year_start y + month_start y (nat (m - 1)) + (d - 1)"
  have "?day y m d < ?day y' m' d'"
    using assms(3)
  proof (elim disjE conjE)
    assume "y < y'"
    from year_start_mono [OF this] day_of_year(2) [OF assms(1)] day_of_year(1) [OF assms(2)] show ?thesis by simp
  next
    assume "y = y'" "m < m'"
    moreover have "m' \<le> 12" "1 \<le> d'" using assms(2) by (auto simp: valid_date_def)
    ultimately show ?thesis using day_of_year(3) [OF assms(1), of m'] by simp
  qed simp
  then show ?thesis unfolding date_unix_def by simp
qed

text \<open>The release is stored before a scrape that succeeds sends anything.\<close>

lemma UpdateStruct_Ok:
  assumes "UpdateStruct env c path = (c', Ok ())"
  shows "oc_os c' \<noteq> None \<and> osReleaseFilenames c' = osReleaseFilenames c"
  using assms by (auto simp: UpdateStruct_def update_dates_def Let_def split: res.splits option.splits prod.splits if_splits)

text \<open>Two collectors agree on what is exported: the release, the version, and the date if there is one.\<close>

definition same_export :: "osReleaseCollector \<Rightarrow> osReleaseCollector \<Rightarrow> bool" where
  "same_export c d \<longleftrightarrow> oc_os c = oc_os d \<and> oc_os c \<noteq> None \<and> oc_version c = oc_version d \<and>
     (os_SupportEnd (the (oc_os c)) \<noteq> [] \<longrightarrow> supportEnd c = supportEnd d)"

lemma update_dates_same:
  "oc_os c = Some rel \<Longrightarrow> oc_os d = Some rel \<Longrightarrow>
     snd (update_dates rel c) = snd (update_dates rel d) \<and>
     (snd (update_dates rel c) = Ok () \<longrightarrow> same_export (fst (update_dates rel c)) (fst (update_dates rel d)))"
  by (cases "parse_version (FindString versionRegex (os_VersionID rel))"; cases "parse_DateOnly (os_SupportEnd rel)")
    (simp_all add: update_dates_def Let_def same_export_def split: option.splits)

lemma UpdateStruct_same:
  "snd (UpdateStruct env c path) = snd (UpdateStruct env d path) \<and>
     (snd (UpdateStruct env c path) = Ok () \<longrightarrow> same_export (fst (UpdateStruct env c path)) (fst (UpdateStruct env d path)))"
proof (cases "os_readFile env path")
  case (Ok data)
  let ?r = "if Contains path ''SystemVersion.plist'' then getMacosProductVersion env path else Ok (parseOSRelease env data)"
  show ?thesis
  proof (cases ?r)
    case (Ok re)
    obtain rel err where re: "re = (rel, err)" by (cases re)
    have "UpdateStruct env x path = (case err of Some e \<Rightarrow> (x\<lparr>oc_os := Some rel\<rparr>, Err e) | None \<Rightarrow> update_dates rel (x\<lparr>oc_os := Some rel\<rparr>))" for x
      unfolding UpdateStruct_def \<open>os_readFile env path = Ok data\<close> res.case Ok re prod.case ..
    then show ?thesis using update_dates_same [of "c\<lparr>oc_os := Some rel\<rparr>" rel "d\<lparr>oc_os := Some rel\<rparr>"] by (cases err) simp_all
  qed (simp_all only: UpdateStruct_def \<open>os_readFile env path = Ok data\<close> res.case snd_conv res.distinct simp_thms)
qed (simp_all add: UpdateStruct_def)

lemma try_files_same:
  assumes "paths \<noteq> []"
  shows "snd (try_files env rootfs paths c) = snd (try_files env rootfs paths d) \<and>
    (snd (try_files env rootfs paths c) = Ok () \<longrightarrow>
       same_export (fst (try_files env rootfs paths c)) (fst (try_files env rootfs paths d)))"
  using assms
proof (induction paths arbitrary: c d)
  case (Cons path ps)
  obtain c1 r where c1: "UpdateStruct env c (rootfs @ path) = (c1, r)" by fastforce
  obtain d1 where d1: "UpdateStruct env d (rootfs @ path) = (d1, r)"
    using UpdateStruct_same [of env c "rootfs @ path" d] c1 by (cases "UpdateStruct env d (rootfs @ path)") simp
  show ?case
  proof (cases r)
    case (Ok u)
    then show ?thesis using UpdateStruct_same [of env c "rootfs @ path" d] c1 d1 by simp
  next
    case (Err e)
    then show ?thesis using Cons.IH [of c1 d1] c1 d1 by (cases "ps = []"; cases "errors_Is e ErrNotExist") simp_all
  qed (simp add: c1 d1)
qed simp

lemma os_metrics_same: "same_export c d \<Longrightarrow> os_metrics c = os_metrics d"
  by (cases "oc_os d") (simp_all add: same_export_def os_metrics_def)

section \<open>The contract\<close>

text \<open>A property list gives every key a string, as the format asks for.\<close>

definition os_pre :: "osEnv \<times> paths \<times> osReleaseCollector \<Rightarrow> bool" where
  "os_pre = (\<lambda>(env, p, c). osReleaseFilenames c \<noteq> [] \<and> (\<forall>f. \<not> panics (os_readFile env f)) \<and>
     (\<forall>b. \<not> panics (xml_Unmarshal env b) \<and> (\<forall>ks strs. xml_Unmarshal env b = Ok (ks, strs) \<longrightarrow> length ks \<le> length strs)))"

lemma plist_keys_no_panic: "i + length ks \<le> length strs \<Longrightarrow> \<not> panics (plist_keys i ks strs acc)"
  by (induction i ks strs acc rule: plist_keys.induct) (auto simp: idx_def)

lemma UpdateStruct_no_panic:
  assumes "os_pre (env, p, c)"
  shows "\<not> panics (snd (UpdateStruct env d path))"
proof -
  have x: "\<not> panics (xml_Unmarshal env b)" "xml_Unmarshal env b = Ok (ks, strs) \<Longrightarrow> \<not> panics (plist_keys 0 ks strs ([], [], []))" for b ks strs
    using assms plist_keys_no_panic [of 0 ks strs] by (auto simp: os_pre_def)
  have mac: "\<not> panics (getMacosProductVersion env f)" for f
  proof -
    let ?b = "case os_readFile env f of Ok b \<Rightarrow> b | _ \<Rightarrow> []"
    show ?thesis
      using x(1) [of ?b] x(2) [of ?b]
      by (cases "xml_Unmarshal env ?b") (auto simp: getMacosProductVersion_def Let_def panics_bind_res)
  qed
  have dates: "\<not> panics (snd (update_dates rel d))" for rel d
    by (auto simp: update_dates_def parse_DateOnly_def Let_def split: res.splits option.splits prod.splits if_splits)
  have f: "\<not> panics (os_readFile env path)" using assms by (simp add: os_pre_def)
  show ?thesis
    unfolding UpdateStruct_def
    using f mac [of path] dates by (auto split: res.splits prod.splits option.splits if_splits)
qed

lemma try_files_no_panic: "os_pre (env, p, c) \<Longrightarrow> \<not> panics (snd (try_files env rootfs ps d))"
proof (induction ps arbitrary: d)
  case (Cons path ps)
  then show ?case using UpdateStruct_no_panic [OF Cons.prems, of d "rootfs @ path"] by (auto split: res.splits prod.splits)
qed simp

lemma os_metrics_ok: "upd_ok (os_metrics c)"
  by (simp add: os_metrics_def osInfoDesc_def osVersionDesc_def osSupportEndDesc_def upd_ok_def split: option.splits)

interpretation os_release: safe_collector_contract "\<lambda>(env, p, c). snd (os_Update env p c)" os_pre
proof unfold_locales
  fix e assume pre: "os_pre e"
  obtain env p c where e: "e = (env, p, c)" by (cases e)
  have ne: "osReleaseFilenames c \<noteq> []" using pre by (simp add: e os_pre_def)
  let ?t = "try_files env (rootfsPath p) (osReleaseFilenames c) c"
  show "upd_ok (case e of (env, p, c) \<Rightarrow> snd (os_Update env p c))"
    by (auto simp: e os_Update_def os_metrics_ok upd_ok_def [of "([], _)"] split: res.splits prod.splits)
  have "oc_os (fst ?t) \<noteq> None" if "snd ?t = Ok ()"
    using try_files_same [OF ne, of env "rootfsPath p" c c] that by (simp add: same_export_def)
  moreover have "\<not> panics (snd ?t)" using try_files_no_panic pre by (simp add: e)
  ultimately show "\<not> panics (snd (case e of (env, p, c) \<Rightarrow> snd (os_Update env p c)))"
    by (auto simp: e os_Update_def os_metrics_def split: res.splits prod.splits option.splits)
qed

lemma UpdateStruct_filenames: "osReleaseFilenames (fst (UpdateStruct env c path)) = osReleaseFilenames c"
proof -
  have "osReleaseFilenames (fst (update_dates rel d)) = osReleaseFilenames d" for rel d
    by (auto simp: update_dates_def Let_def split: res.splits option.splits prod.splits)
  then show ?thesis by (auto simp: UpdateStruct_def split: res.splits prod.splits option.splits)
qed

lemma try_files_filenames: "osReleaseFilenames (fst (try_files env rootfs ps c)) = osReleaseFilenames c"
proof (induction ps arbitrary: c)
  case (Cons path ps)
  then show ?case using UpdateStruct_filenames [of env c "rootfs @ path"] by (auto split: res.splits prod.splits)
qed simp

interpretation os_state: stateful_collector "\<lambda>(env, p). os_Update env p" "\<lambda>(env, p). os_pre (env, p, NewOSCollector)"
  "\<lambda>c. osReleaseFilenames c \<noteq> []"
proof unfold_locales
  fix c :: osReleaseCollector and e
  assume inv: "osReleaseFilenames c \<noteq> []" and "case e of (env, p) \<Rightarrow> os_pre (env, p, NewOSCollector)"
  then obtain env p where e: "e = (env, p)" and pre: "os_pre (env, p, c)" by (cases e) (auto simp: os_pre_def)
  show "osReleaseFilenames (fst ((case e of (env, p) \<Rightarrow> os_Update env p) c)) \<noteq> []"
    using inv try_files_filenames [of env "rootfsPath p" "osReleaseFilenames c" c] by (auto simp: e os_Update_def split: res.splits prod.splits)
  show "sound (snd ((case e of (env, p) \<Rightarrow> os_Update env p) c))"
    using os_release.update_labels [of "(env, p, c)"] os_release.update_no_panic [of "(env, p, c)"] pre by (simp add: e sound_def)
qed


section \<open>Properties\<close>

text \<open>
  C32: What a scrape of the release information sends depends only on the files as they are now:
  whatever an earlier scrape, successful or not, left in the collector, the result is that of a
  collector that reads for the first time.
\<close>

theorem os_Update_stateless:
  assumes "osReleaseFilenames c = osReleaseFilenames NewOSCollector"
  shows "snd (os_Update env p c) = snd (os_Update env p NewOSCollector)"
proof -
  let ?c = "try_files env (rootfsPath p) (osReleaseFilenames c) c"
  let ?d = "try_files env (rootfsPath p) (osReleaseFilenames NewOSCollector) NewOSCollector"
  have "osReleaseFilenames c \<noteq> []" by (simp add: assms NewOSCollector_def)
  then have "snd ?c = snd ?d \<and> (snd ?c = Ok () \<longrightarrow> same_export (fst ?c) (fst ?d))"
    using try_files_same [of "osReleaseFilenames c"] assms by metis
  then show ?thesis
    by (cases ?c; cases ?d; cases "snd ?c") (auto simp: os_Update_def dest: os_metrics_same)
qed

definition demo_os_env :: osEnv where
  "demo_os_env = \<lparr>os_readFile = (\<lambda>f. if f = ''/etc/os-release'' then Ok ''ID=x'' else Err ErrNotExist),
     envparse_Parse = (\<lambda>s. ([(''ID'', drop 3 s)], None)), xml_Unmarshal = (\<lambda>_. Ok ([], []))\<rparr>"

theorem os_Update_stateless_witness:
  "snd (os_Update demo_os_env default_paths (fst (os_Update demo_os_env default_paths NewOSCollector))) =
     snd (os_Update demo_os_env default_paths NewOSCollector)"
  by (rule os_Update_stateless) code_simp

end
