(* ===== verification/Processes.thy ===== *)
theory Processes
  imports Helpers
begin

text \<open>
  The process collector, \<^verbatim>\<open>processes_linux.go\<close>: it counts processes and threads by state. The process
  list and the status files are the environment; a process or a thread may vanish between being
  listed and being read. The counters are 32-bit machine integers, as in the source.
\<close>


record ProcStat =
  State :: string
  NumThreads :: goint

record procEnv =
  proc_NewFS :: "unit res"
  AllProcs :: "int list res"
  proc_Stat :: "int \<Rightarrow> ProcStat res"
  task_NewFS :: "string \<Rightarrow> unit res"
  task_AllProcs :: "string \<Rightarrow> int list res"
  task_Stat :: "string \<Rightarrow> int \<Rightarrow> ProcStat res"
  err_text :: "error \<Rightarrow> string"
  proc_readFile :: "string \<Rightarrow> string res"

record procOrder =
  ord_states :: "(string \<times> int32) list \<Rightarrow> (string \<times> int32) list"
  ord_threads :: "(string \<times> int32) list \<Rightarrow> (string \<times> int32) list"

definition proc_desc :: "string \<Rightarrow> string \<Rightarrow> string list \<Rightarrow> desc" where
  "proc_desc name help labels = NewDesc (BuildFQName namespace ''processes'' name) help labels"

definition threadAlloc :: desc where "threadAlloc = proc_desc ''threads'' ''Allocated threads in system'' []"
definition threadLimit :: desc where "threadLimit = proc_desc ''max_threads'' ''Limit of threads in the system'' []"
definition threadsState :: desc where "threadsState = proc_desc ''threads_state'' ''Number of threads in each state.'' [''thread_state'']"
definition procsState :: desc where "procsState = proc_desc ''state'' ''Number of processes in each state.'' [''state'']"
definition pidUsed :: desc where "pidUsed = proc_desc ''pids'' ''Number of PIDs'' []"
definition pidMax :: desc where "pidMax = proc_desc ''max_processes'' ''Number of max PIDs limit'' []"

lemmas proc_desc_defs = proc_desc_def threadAlloc_def threadLimit_def threadsState_def procsState_def pidUsed_def pidMax_def

definition NewProcessStatCollector :: "procEnv \<Rightarrow> unit res" where
  "NewProcessStatCollector env = map_err (Wrapf ''failed to open procfs: %w'' []) (proc_NewFS env)"

text \<open>The text of \<^verbatim>\<open>syscall.ESRCH\<close>.\<close>

definition isIgnoredError :: "procEnv \<Rightarrow> error \<Rightarrow> bool" where
  "isIgnoredError env err \<longleftrightarrow> errors_Is err ErrNotExist \<or> Contains (err_text env err) ''no such process''"

definition incr :: "string \<Rightarrow> (string, int32) gomap \<Rightarrow> (string, int32) gomap" where
  "incr k m = map_put k (map_get_z 0 m k + 1) m"

definition thread_step :: "procEnv \<Rightarrow> string \<Rightarrow> int \<Rightarrow> ProcStat \<Rightarrow> int \<Rightarrow> (string, int32) gomap \<Rightarrow> (string, int32) gomap res" where
  "thread_step env dir pid pidStat tid threadStates =
     (if pid = tid then Ok (incr (State pidStat) threadStates)
      else (case task_Stat env dir tid of
              Err e \<Rightarrow> if isIgnoredError env e then Ok threadStates
                       else Err (Wrapf ''error reading stat for pid:%d thread:%d err:%w'' [Itoa pid, Itoa tid] e)
            | Panic p \<Rightarrow> Panic p
            | Ok threadStat \<Rightarrow> Ok (incr (State threadStat) threadStates)))"

definition getThreadStates :: "procEnv \<Rightarrow> paths \<Rightarrow> int \<Rightarrow> ProcStat \<Rightarrow> (string, int32) gomap \<Rightarrow> (string, int32) gomap res" where
  "getThreadStates env p pid pidStat threadStates =
     (let dir = procFilePath p (filepath_Join [Itoa pid, ''task'']) in
      case task_NewFS env dir of
        Err e \<Rightarrow> if isIgnoredError env e then Ok threadStates else Err (Wrapf ''error reading task for pid %d: %w'' [Itoa pid] e)
      | Panic q \<Rightarrow> Panic q
      | Ok _ \<Rightarrow>
          (case task_AllProcs env dir of
             Err e \<Rightarrow> if isIgnoredError env e then Ok threadStates else Err (Wrapf ''unable to list all threads for pid: %d %w'' [Itoa pid] e)
           | Panic q \<Rightarrow> Panic q
           | Ok ts \<Rightarrow> fold_res (thread_step env dir pid pidStat) ts threadStates))"

record procCounts =
  pc_pids :: goint
  pc_states :: "(string, int32) gomap"
  pc_threads :: goint
  pc_threadStates :: "(string, int32) gomap"

definition pid_step :: "procEnv \<Rightarrow> paths \<Rightarrow> int \<Rightarrow> procCounts \<Rightarrow> procCounts res" where
  "pid_step env p pid c =
     (case proc_Stat env pid of
        Err e \<Rightarrow> if isIgnoredError env e then Ok c else Err (Wrapf ''error reading stat for pid %d: %w'' [Itoa pid] e)
      | Panic q \<Rightarrow> Panic q
      | Ok stat \<Rightarrow>
          bind_res (getThreadStates env p pid stat (pc_threadStates c)) (\<lambda>ts.
            Ok \<lparr>pc_pids = pc_pids c + 1, pc_states = incr (State stat) (pc_states c),
                pc_threads = pc_threads c + NumThreads stat, pc_threadStates = ts\<rparr>))"

definition getAllocatedThreads :: "procEnv \<Rightarrow> paths \<Rightarrow> procCounts res" where
  "getAllocatedThreads env p =
     bind_res (map_err (Wrapf ''unable to list all processes: %w'' []) (AllProcs env)) (\<lambda>pids.
       fold_res (pid_step env p) pids \<lparr>pc_pids = 0, pc_states = [], pc_threads = 0, pc_threadStates = []\<rparr>)"

definition int_metric :: "desc \<Rightarrow> int \<Rightarrow> string list \<Rightarrow> metric" where
  "int_metric d n ls = MustNewConstMetric d GaugeValue (f64_of_int n) ls"

definition proc_Update :: "procOrder \<Rightarrow> procEnv \<Rightarrow> paths \<Rightarrow> upd" where
  "proc_Update ord env p =
     with_res (map_err (Wrapf ''unable to retrieve number of allocated threads: %w'' []) (getAllocatedThreads env p)) (\<lambda>c.
     seq (emit [int_metric threadAlloc (sint (pc_threads c)) []])
       (with_res (map_err (Wrapf ''unable to retrieve limit number of threads: %w'' [])
          (readUintFromFile (proc_readFile env) (procFilePath p ''sys/kernel/threads-max''))) (\<lambda>maxThreads.
        seq (emit (int_metric threadLimit maxThreads [] #
              map (\<lambda>(s, n). int_metric procsState (sint n) [s]) (ord_states ord (pc_states c)) @
              map (\<lambda>(s, n). int_metric threadsState (sint n) [s]) (ord_threads ord (pc_threadStates c))))
          (with_res (map_err (Wrapf ''unable to retrieve limit number of maximum pids allowed: %w'' [])
             (readUintFromFile (proc_readFile env) (procFilePath p ''sys/kernel/pid_max''))) (\<lambda>pidM.
           emit [int_metric pidUsed (sint (pc_pids c)) [], int_metric pidMax pidM []])))))"

section \<open>Lemmas\<close>

text \<open>Counting adds one to the total of the counters.\<close>

lemma sum_map_put:
  "wf_map m \<Longrightarrow> sum_list (map snd (map_put k v m)) = sum_list (map snd m) - map_get_z 0 m k + (v :: int32)"
proof (induction m)
  case (Cons kv m)
  have "map_get m (fst kv) = None" using Cons.prems by (simp add: map_of_eq_None_iff)
  with Cons show ?case by (cases kv) (auto simp: map_get_z_def algebra_simps split: option.splits)
qed (simp add: map_get_z_def)

lemma incr_total: "wf_map m \<Longrightarrow> sum_list (map snd (incr k m)) = sum_list (map snd m) + 1 \<and> wf_map (incr k m)"
  unfolding incr_def by (subst sum_map_put) simp_all

definition readable :: "procEnv \<Rightarrow> int \<Rightarrow> bool" where
  "readable env pid \<longleftrightarrow> (case proc_Stat env pid of Ok _ \<Rightarrow> True | _ \<Rightarrow> False)"

lemma pid_steps_total:
  assumes "fold_res (pid_step env p) pids c = Ok c'" "wf_map (pc_states c)"
  shows "wf_map (pc_states c') \<and> pc_pids c' = pc_pids c + of_nat (length (filter (readable env) pids)) \<and>
    sum_list (map snd (pc_states c')) = sum_list (map snd (pc_states c)) + of_nat (length (filter (readable env) pids)) \<and>
    pc_threads c' = pc_threads c + sum_list (map (\<lambda>pid. case proc_Stat env pid of Ok s \<Rightarrow> NumThreads s | _ \<Rightarrow> 0) pids)"
  using assms
proof (induction pids arbitrary: c)
  case (Cons pid pids)
  obtain d where d: "pid_step env p pid c = Ok d" "fold_res (pid_step env p) pids d = Ok c'" using Cons.prems(1) by (auto simp: go_simps)
  show ?case
  proof (cases "proc_Stat env pid")
    case (Ok s)
    then obtain ts where "d = \<lparr>pc_pids = pc_pids c + 1, pc_states = incr (State s) (pc_states c),
        pc_threads = pc_threads c + NumThreads s, pc_threadStates = ts\<rparr>"
      using d(1) by (auto simp: pid_step_def go_simps)
    then show ?thesis
      using Cons.IH [OF d(2)] incr_total [OF Cons.prems(2), of "State s"] Ok by (simp add: readable_def algebra_simps)
  next
    case (Err e)
    then have "d = c" using d(1) by (auto simp: pid_step_def split: if_splits)
    then show ?thesis using Cons.IH [OF d(2)] Cons.prems(2) Err by (simp add: readable_def)
  qed (use d(1) in \<open>simp add: pid_step_def\<close>)
qed simp

section \<open>The contract\<close>

definition proc_pre :: "procOrder \<times> procEnv \<times> paths \<Rightarrow> bool" where
  "proc_pre = (\<lambda>(ord, env, p). \<not> panics (AllProcs env) \<and> (\<forall>pid. \<not> panics (proc_Stat env pid)) \<and>
     (\<forall>d. \<not> panics (task_NewFS env d) \<and> \<not> panics (task_AllProcs env d) \<and> (\<forall>t. \<not> panics (task_Stat env d t))) \<and>
     (\<forall>f. \<not> panics (proc_readFile env f)))"

lemma proc_no_panic:
  assumes "proc_pre (ord, env, p)"
  shows "\<not> panics (getAllocatedThreads env p)"
proof -
  have np: "\<not> panics (AllProcs env)" "\<not> panics (proc_Stat env pid)" "\<not> panics (task_NewFS env d)" "\<not> panics (task_AllProcs env d)"
    "\<not> panics (task_Stat env d t)" for pid d t
    using assms by (auto simp: proc_pre_def)
  have t: "\<not> panics (thread_step env d pid st tid m)" for d pid st tid m
    using np(5) [of d tid] by (cases "task_Stat env d tid") (auto simp: thread_step_def)
  have g: "\<not> panics (getThreadStates env p pid st m)" for pid st m
    using np(3) [of "procFilePath p (filepath_Join [Itoa pid, ''task''])"] np(4) [of "procFilePath p (filepath_Join [Itoa pid, ''task''])"]
    by (cases "task_NewFS env (procFilePath p (filepath_Join [Itoa pid, ''task'']))";
        cases "task_AllProcs env (procFilePath p (filepath_Join [Itoa pid, ''task'']))")
      (auto simp: getThreadStates_def Let_def fold_res_no_panic t simp del: filepath_Join.simps)
  have "\<not> panics (pid_step env p pid c)" for pid c
    using np(2) [of pid] g by (cases "proc_Stat env pid") (auto simp: pid_step_def panics_bind_res)
  then show ?thesis using np(1) by (auto simp: getAllocatedThreads_def panics_bind_res fold_res_no_panic)
qed

interpretation processes: safe_collector_contract "\<lambda>(ord, env, p). proc_Update ord env p" proc_pre
proof unfold_locales
  fix e assume pre: "proc_pre e"
  obtain ord env p where e: "e = (ord, env, p)" by (cases e)
  show "upd_ok (case e of (ord, env, p) \<Rightarrow> proc_Update ord env p)"
    unfolding e prod.case proc_Update_def
    by (intro upd_ok_with_res upd_ok_seq) (auto simp: int_metric_def proc_desc_defs list_all_iff)
  have "\<not> panics (readUintFromFile (proc_readFile env) f)" for f
    using pre by (auto simp: e proc_pre_def readUintFromFile_def panics_bind_res ParseUint_no_panic)
  then show "\<not> panics (snd (case e of (ord, env, p) \<Rightarrow> proc_Update ord env p))"
    using pre proc_no_panic [of ord env p] by (auto simp: e proc_Update_def panics_with_res dest!: panics_seq)
qed

section \<open>Properties\<close>

text \<open>
  C33: The process counts add up: every process whose status could be read is counted once, the
  counts by state sum to that number (modulo the width of a counter), and the thread count is the
  sum over those processes; processes that vanish are left out.
\<close>

theorem getAllocatedThreads_total:
  assumes "getAllocatedThreads env p = Ok c" "AllProcs env = Ok pids"
  shows "pc_pids c = of_nat (length (filter (readable env) pids)) \<and>
    sum_list (map snd (pc_states c)) = of_nat (length (filter (readable env) pids)) \<and>
    pc_threads c = sum_list (map (\<lambda>pid. case proc_Stat env pid of Ok s \<Rightarrow> NumThreads s | _ \<Rightarrow> 0) pids)"
  using assms pid_steps_total [of env p pids "\<lparr>pc_pids = 0, pc_states = [], pc_threads = 0, pc_threadStates = []\<rparr>" c]
  by (simp add: getAllocatedThreads_def)

definition demo_proc_env :: procEnv where
  "demo_proc_env = \<lparr>proc_NewFS = Ok (), AllProcs = Ok [1, 2, 3],
     proc_Stat = (\<lambda>pid. if pid = 2 then Err ErrNotExist else Ok \<lparr>State = ''S'', NumThreads = 4\<rparr>),
     task_NewFS = (\<lambda>_. Ok ()), task_AllProcs = (\<lambda>_. Ok [1]), task_Stat = (\<lambda>_ _. Err ErrNotExist),
     err_text = (\<lambda>_. []), proc_readFile = (\<lambda>_. Ok ''7'')\<rparr>"

theorem getAllocatedThreads_total_witness:
  "\<exists>c. getAllocatedThreads demo_proc_env default_paths = Ok c \<and> pc_pids c = 2 \<and> sum_list (map snd (pc_states c)) = 2 \<and> pc_threads c = 8"
proof -
  have "case getAllocatedThreads demo_proc_env default_paths of Ok c \<Rightarrow> True | _ \<Rightarrow> False" by code_simp
  then obtain c where c: "getAllocatedThreads demo_proc_env default_paths = Ok c" by (auto split: res.splits)
  have "AllProcs demo_proc_env = Ok [1, 2, 3]" by (simp add: demo_proc_env_def)
  from getAllocatedThreads_total [OF c this] show ?thesis using c by (simp add: readable_def demo_proc_env_def)
qed

end
