(* ===== verification/Hwmon.thy ===== *)
theory Hwmon
  imports Helpers
begin

text \<open>
  The hardware monitor collector, \<^verbatim>\<open>hwmon_linux.go\<close>: it names every chip under \<^verbatim>\<open>/sys/class/hwmon\<close>,
  collects the sensor files by sensor and element, and exports one metric for each element in the
  unit of its sensor type. The file system is the environment; the orders in which the sensor maps
  are ranged over are arguments. The labels of a sensor are a slice that one branch appends to in
  place, so they are state that the loop over the elements carries along.
\<close>

section \<open>Names\<close>

record hwmonFlags =
  collectorHWmonChipInclude :: string
  collectorHWmonChipExclude :: string
  collectorHWmonSensorInclude :: string
  collectorHWmonSensorExclude :: string

record hwMonCollector =
  hw_deviceFilter :: deviceFilter
  hw_sensorFilter :: deviceFilter

definition NewHwMonCollector :: "hwmonFlags \<Rightarrow> hwMonCollector res" where
  "NewHwMonCollector fl =
     bind_res (newDeviceFilter (collectorHWmonChipExclude fl) (collectorHWmonChipInclude fl)) (\<lambda>d.
     bind_res (newDeviceFilter (collectorHWmonSensorExclude fl) (collectorHWmonSensorInclude fl)) (\<lambda>s.
       Ok \<lparr>hw_deviceFilter = d, hw_sensorFilter = s\<rparr>))"

text \<open>The groups named type, id and property are the first, the second and the fourth.\<close>

definition hwmonFilenameFormat :: regexp where
  "hwmonFilenameFormat = compiled ''^([^0-9]+)([0-9]*)?(_(.+))?$''"

definition hwmonLabelDesc :: "string list" where
  "hwmonLabelDesc = [''chip'', ''sensor'']"

definition hwmonSensorTypes :: "string list" where
  "hwmonSensorTypes = [''vrm'', ''beep_enable'', ''update_interval'', ''in'', ''cpu'', ''fan'', ''pwm'', ''temp'', ''curr'',
     ''power'', ''energy'', ''humidity'', ''intrusion'', ''freq'']"

definition explodeSensorFilename :: "string \<Rightarrow> bool \<times> string \<times> int \<times> string" where
  "explodeSensorFilename filename =
     (case FindStringSubmatch hwmonFilenameFormat filename of
        None \<Rightarrow> (False, [], 0, [])
      | Some g \<Rightarrow>
          let sensorType = submatch g 1; num = submatch g 2 in
          if num = [] then (True, sensorType, 0, submatch g 4)
          else (case Atoi num of
                  Ok n \<Rightarrow> (True, sensorType, n, submatch g 4)
                | _ \<Rightarrow> (False, sensorType, 0, [])))"

section \<open>Sensor data\<close>

record hwmonEnv =
  hw_ReadDir :: "string \<Rightarrow> string list res"
  hw_Open :: "string \<Rightarrow> unit res"
  unix_Read :: "string \<Rightarrow> nat \<Rightarrow> string res"
  hw_ReadFile :: "string \<Rightarrow> string res"
  hw_exists :: "string \<Rightarrow> bool"
  EvalSymlinks :: "string \<Rightarrow> string res"
  lstat_symlink :: "string \<Rightarrow> bool res"
  lstat_IsDir :: "string \<Rightarrow> bool"
  stat_IsDir :: "string \<Rightarrow> bool res"

type_synonym sensorData = "(string, string) gomap"

record hwmonOrder =
  ord_sensors :: "(string \<times> sensorData) list \<Rightarrow> (string \<times> sensorData) list"
  ord_elements :: "string \<Rightarrow> (string \<times> string) list \<Rightarrow> (string \<times> string) list"

text \<open>One read system call into a buffer of 128 bytes.\<close>

definition sysReadFile :: "hwmonEnv \<Rightarrow> string \<Rightarrow> string res" where
  "sysReadFile env f = bind_res (hw_Open env f) (\<lambda>_. bind_res (unix_Read env f 128) (\<lambda>b. Ok (take 128 b)))"

definition addValueFile :: "hwmonEnv \<Rightarrow> (string, sensorData) gomap \<Rightarrow> string \<Rightarrow> string \<Rightarrow> string \<Rightarrow> (string, sensorData) gomap" where
  "addValueFile env data sensor prop f =
     (case sysReadFile env f of
        Ok raw \<Rightarrow> map_put sensor (map_put prop (Trim raw {nl}) (map_get_z [] data sensor)) data
      | _ \<Rightarrow> data)"

definition collect_file :: "hwmonEnv \<Rightarrow> string \<Rightarrow> string \<Rightarrow> (string, sensorData) gomap \<Rightarrow> (string, sensorData) gomap" where
  "collect_file env dir filename data =
     (case explodeSensorFilename filename of
        (ok, sensorType, sensorNum, sensorProperty) \<Rightarrow>
          if ok \<and> sensorType \<in> set hwmonSensorTypes
          then addValueFile env data (sensorType @ Itoa sensorNum) sensorProperty (filepath_Join [dir, filename])
          else data)"

definition collectSensorData :: "hwmonEnv \<Rightarrow> string \<Rightarrow> (string, sensorData) gomap \<Rightarrow> (string, sensorData) gomap res" where
  "collectSensorData env dir data =
     bind_res (hw_ReadDir env dir) (\<lambda>files. Ok (fold (collect_file env dir) files data))"

definition hwmonHumanReadableChipName :: "hwmonEnv \<Rightarrow> string \<Rightarrow> string res" where
  "hwmonHumanReadableChipName env dir =
     bind_res (hw_ReadFile env (filepath_Join [dir, ''name''])) (\<lambda>sysnameRaw.
       let cleanName = cleanMetricName sysnameRaw in
       if sysnameRaw \<noteq> [] \<and> cleanName \<noteq> [] then Ok cleanName
       else Err (NewError (''Could not derive a human-readable chip type for '' @ dir)))"

section \<open>Metrics of a sensor\<close>

definition hw_metric :: "string \<Rightarrow> string \<Rightarrow> valueType \<Rightarrow> float64 \<Rightarrow> string list \<Rightarrow> metric" where
  "hw_metric name help t v labels = MustNewConstMetric (NewDesc (FQName name) help hwmonLabelDesc) t v labels"

definition milli :: "float64 \<Rightarrow> float64" where
  "milli v = f64_mul v (round64 (1 / 1000))"

definition micro :: "float64 \<Rightarrow> float64" where
  "micro v = f64_div v (Fin 1000000)"

definition element_name :: "string \<Rightarrow> sensorData \<Rightarrow> string \<Rightarrow> string" where
  "element_name sensorType sd element =
     (let pre = ''node_hwmon_'' @ sensorType in
      if element = ''input'' then (if map_get sd [] \<noteq> None then pre @ ''_input'' else pre)
      else if element \<noteq> [] then pre @ ''_'' @ cleanMetricName element
      else pre)"

text \<open>The branches of the loop over the elements that send one metric with the sensor's labels.\<close>

definition plain_metric :: "string \<Rightarrow> string \<Rightarrow> string \<Rightarrow> float64 \<Rightarrow> string list \<Rightarrow> metric" where
  "plain_metric sensorType element name v labels =
     (if element = ''fault'' \<or> element = ''alarm''
      then hw_metric name (''Hardware sensor '' @ element @ '' status ('' @ sensorType @ '')'') GaugeValue v labels
      else if element = ''beep''
      then hw_metric (name @ ''_enabled'') ''Hardware monitor sensor has beeping enabled'' GaugeValue v labels
      else if sensorType = ''in'' \<or> sensorType = ''cpu''
      then hw_metric (name @ ''_volts'') (''Hardware monitor for voltage ('' @ element @ '')'') GaugeValue (milli v) labels
      else if sensorType = ''temp'' \<and> element \<noteq> ''type''
      then hw_metric (name @ ''_celsius'') (''Hardware monitor for temperature ('' @ (if element = [] then ''input'' else element) @ '')'')
             GaugeValue (milli v) labels
      else if sensorType = ''curr''
      then hw_metric (name @ ''_amps'') (''Hardware monitor for current ('' @ element @ '')'') GaugeValue (milli v) labels
      else if sensorType = ''energy''
      then hw_metric (name @ ''_joule_total'') (''Hardware monitor for joules used so far ('' @ element @ '')'') CounterValue (micro v) labels
      else if sensorType = ''power'' \<and> element = ''accuracy''
      then hw_metric name ''Hardware monitor power meter accuracy, as a ratio'' GaugeValue (micro v) labels
      else if sensorType = ''power'' \<and> (element = ''average_interval'' \<or> element = ''average_interval_min'' \<or> element = ''average_interval_max'')
      then hw_metric (name @ ''_seconds'') (''Hardware monitor power usage update interval ('' @ element @ '')'') GaugeValue (milli v) labels
      else if sensorType = ''power''
      then hw_metric (name @ ''_watt'') (''Hardware monitor for power usage in watts ('' @ element @ '')'') GaugeValue (micro v) labels
      else if sensorType = ''humidity''
      then hw_metric name (''Hardware monitor for humidity, as a ratio (multiply with 100.0 to get the humidity as a percentage) ('' @ element @ '')'')
             GaugeValue (micro v) labels
      else if sensorType = ''fan'' \<and> (element = ''input'' \<or> element = ''min'' \<or> element = ''max'' \<or> element = ''target'')
      then hw_metric (name @ ''_rpm'') (''Hardware monitor for fan revolutions per minute ('' @ element @ '')'') GaugeValue v labels
      else hw_metric name (''Hardware monitor '' @ sensorType @ '' element '' @ element) GaugeValue v labels)"

text \<open>
  One element: the metrics sent, and the labels afterwards. \<^verbatim>\<open>append(labels[:len(labels)-1], l)\<close> has
  room for one string, so it overwrites the last label of the slice the loop goes on using.
\<close>

definition hw_element :: "string \<Rightarrow> sensorData \<Rightarrow> string \<times> string \<Rightarrow> string list \<Rightarrow> string list \<times> metric list" where
  "hw_element sensorType sd = (\<lambda>(element, v) labels.
     if element = ''label'' then (labels, [])
     else let name = element_name sensorType sd element in
          (case ParseFloat v of
             Ok pv \<Rightarrow>
               if sensorType = ''freq'' \<and> element = ''input''
               then (case map_get sd ''label'' of
                       Some label \<Rightarrow>
                         let labels' = butlast labels @ [cleanMetricName label]
                         in (labels', [hw_metric (name @ ''_freq_mhz'') ''Hardware monitor for GPU frequency in MHz'' GaugeValue (micro pv) labels'])
                     | None \<Rightarrow> (labels, []))
               else (labels, [plain_metric sensorType element name pv labels])
           | _ \<Rightarrow> (labels, [])))"

fun hw_elements :: "string \<Rightarrow> sensorData \<Rightarrow> (string \<times> string) list \<Rightarrow> string list \<Rightarrow> metric list" where
  "hw_elements sensorType sd [] labels = []"
| "hw_elements sensorType sd (e # es) labels =
     (let (labels', ms) = hw_element sensorType sd e labels in ms @ hw_elements sensorType sd es labels')"

definition hw_single :: "string \<Rightarrow> string \<Rightarrow> (float64 \<Rightarrow> float64) \<Rightarrow> sensorData \<Rightarrow> string list \<Rightarrow> metric list" where
  "hw_single name help f sd labels =
     (case ParseFloat (map_get_z [] sd []) of
        Ok v \<Rightarrow> [hw_metric name help GaugeValue (f v) labels]
      | _ \<Rightarrow> [])"

definition hw_sensor :: "hwmonOrder \<Rightarrow> hwMonCollector \<Rightarrow> string \<Rightarrow> string \<times> sensorData \<Rightarrow> metric list" where
  "hw_sensor ord c hwmonName = (\<lambda>(sensor, sd).
     if ignored (hw_sensorFilter c) (hwmonName @ '';'' @ sensor) then []
     else case explodeSensorFilename sensor of (_, sensorType, _, _) \<Rightarrow>
       let labels = [hwmonName, sensor] in
       (case map_get sd ''label'' of
          None \<Rightarrow> []
        | Some labelText \<Rightarrow>
            [MustNewConstMetric (NewDesc (FQName ''node_hwmon_sensor_label'') ''Label for given chip and sensor'' [''chip'', ''sensor'', ''label''])
               GaugeValue (Fin 1) [hwmonName, sensor, ToValidUTF8 labelText rune_error]]) @
       (if sensorType = ''beep_enable''
        then [hw_metric ''node_hwmon_beep_enabled'' ''Hardware beep enabled'' GaugeValue (if map_get_z [] sd [] = ''1'' then Fin 1 else Fin 0) labels]
        else if sensorType = ''vrm''
        then hw_single ''node_hwmon_voltage_regulator_version'' ''Hardware voltage regulator'' (\<lambda>v. v) sd labels
        else if sensorType = ''update_interval''
        then hw_single ''node_hwmon_update_interval_seconds'' ''Hardware monitor update interval'' milli sd labels
        else hw_elements sensorType sd (ord_elements ord sensor sd) labels))"

definition hwmon_data :: "hwmonEnv \<Rightarrow> string \<Rightarrow> (string, sensorData) gomap res" where
  "hwmon_data env dir =
     bind_res (collectSensorData env dir []) (\<lambda>data.
       if hw_exists env (filepath_Join [dir, ''device'']) then collectSensorData env (filepath_Join [dir, ''device'']) data
       else Ok data)"

definition updateHwmon :: "hwmonOrder \<Rightarrow> hwmonEnv \<Rightarrow> hwMonCollector \<Rightarrow> string \<Rightarrow> string \<Rightarrow> upd" where
  "updateHwmon ord env c dir hwmonName =
     with_res (hwmon_data env dir) (\<lambda>data.
       emit ((case hwmonHumanReadableChipName env dir of
                Ok chip \<Rightarrow>
                  [MustNewConstMetric (NewDesc (FQName ''node_hwmon_chip_names'') ''Annotation metric for human-readable chip names'' [''chip'', ''chip_name''])
                     GaugeValue (Fin 1) [hwmonName, chip]]
              | _ \<Rightarrow> []) @
             concat (map (hw_sensor ord c hwmonName) (ord_sensors ord data))))"

section \<open>Chip names\<close>

definition device_name :: "string \<Rightarrow> string" where
  "device_name devicePath =
     (let devName = cleanMetricName (path_file devicePath);
          devType = cleanMetricName (path_file (TrimRight (path_dir devicePath) {CHR ''/''}))
      in if devType \<noteq> [] \<and> devName \<noteq> [] then devType @ ''_'' @ devName else devName)"

definition hwmon_name :: "hwmonEnv \<Rightarrow> string \<Rightarrow> string res" where
  "hwmon_name env dir =
     (let byDevice = (case EvalSymlinks env (filepath_Join [dir, ''device'']) of Ok p \<Rightarrow> device_name p | _ \<Rightarrow> []);
          byName = (case hw_ReadFile env (filepath_Join [dir, ''name'']) of Ok raw \<Rightarrow> cleanMetricName raw | _ \<Rightarrow> [])
      in if byDevice \<noteq> [] then Ok byDevice
         else if byName \<noteq> [] then Ok byName
         else bind_res (EvalSymlinks env dir) (\<lambda>realDir.
              let cleanName = cleanMetricName (path_file realDir) in
              if cleanName \<noteq> [] then Ok cleanName
              else Err (NewError (''Could not derive a monitoring name for '' @ dir))))"

record hwmonEntry =
  he_dir :: string
  he_baseName :: string
  he_nameFile :: string

definition is_hwmon_dir :: "hwmonEnv \<Rightarrow> string \<Rightarrow> bool" where
  "is_hwmon_dir env path =
     (case lstat_symlink env path of
        Ok symlink \<Rightarrow> if symlink then stat_IsDir env path = Ok True else lstat_IsDir env path
      | _ \<Rightarrow> False)"

definition hwmon_entry :: "hwmonEnv \<Rightarrow> string \<Rightarrow> hwmonEntry list" where
  "hwmon_entry env path =
     (if \<not> is_hwmon_dir env path then []
      else case hwmon_name env path of
             Ok baseName \<Rightarrow>
               [\<lparr>he_dir = path, he_baseName = baseName,
                 he_nameFile = (case hw_ReadFile env (filepath_Join [path, ''name'']) of Ok raw \<Rightarrow> TrimSpace raw | _ \<Rightarrow> [])\<rparr>]
           | _ \<Rightarrow> [])"

text \<open>The counters of the two maps, read after the first pass.\<close>

definition chipCounts :: "hwmonEntry list \<Rightarrow> string \<Rightarrow> nat" where
  "chipCounts es b = length (filter (\<lambda>e. he_baseName e = b) es)"

definition name_key :: "hwmonEntry \<Rightarrow> string" where
  "name_key e = he_baseName e @ [CHR 0x00] @ he_nameFile e"

definition nameCounts :: "hwmonEntry list \<Rightarrow> string \<Rightarrow> nat" where
  "nameCounts es k = length (filter (\<lambda>e. name_key e = k) es)"

definition chipName :: "hwmonEntry list \<Rightarrow> hwmonEntry \<Rightarrow> string" where
  "chipName es e =
     (if chipCounts es (he_baseName e) > 1 then
        let suffix0 = cleanMetricName (he_nameFile e);
            suff = (if suffix0 = [] \<or> nameCounts es (name_key e) > 1 then cleanMetricName (filepath_Base (he_dir e)) else suffix0)
        in he_baseName e @ ''_'' @ suff
      else he_baseName e)"

text \<open>Every chip is tried; the last error is what the scrape returns.\<close>

fun hwmon_chips :: "hwmonOrder \<Rightarrow> hwmonEnv \<Rightarrow> hwMonCollector \<Rightarrow> hwmonEntry list \<Rightarrow> hwmonEntry list \<Rightarrow> unit res \<Rightarrow> upd" where
  "hwmon_chips ord env c es [] lastErr = ([], lastErr)"
| "hwmon_chips ord env c es (e # rest) lastErr =
     (if ignored (hw_deviceFilter c) (chipName es e) then hwmon_chips ord env c es rest lastErr
      else case updateHwmon ord env c (he_dir e) (chipName es e) of
             (ms, Panic p) \<Rightarrow> (ms, Panic p)
           | (ms, Err x) \<Rightarrow> (let (ms', r) = hwmon_chips ord env c es rest (Err x) in (ms @ ms', r))
           | (ms, Ok _) \<Rightarrow> (let (ms', r) = hwmon_chips ord env c es rest lastErr in (ms @ ms', r)))"

definition hwmon_Update :: "hwmonOrder \<Rightarrow> hwmonEnv \<Rightarrow> paths \<Rightarrow> hwMonCollector \<Rightarrow> upd" where
  "hwmon_Update ord env p c =
     (let hwmonPathName = filepath_Join [sysFilePath p ''class'', ''hwmon''] in
      case hw_ReadDir env hwmonPathName of
        Err e \<Rightarrow> if errors_Is e ErrNotExist then fail ErrNoData else fail e
      | Panic q \<Rightarrow> ([], Panic q)
      | Ok files \<Rightarrow>
          let es = concat (map (\<lambda>f. hwmon_entry env (filepath_Join [hwmonPathName, f])) files)
          in hwmon_chips ord env c es es (Ok ()))"

section \<open>The preferred match of a sensor file name\<close>

lemma hwmonFilenameFormat_eq:
  "hwmonFilenameFormat =
     RSeq RBegin (RSeq (RGroup 1 (rplus True (RClass True [(CHR ''0'', CHR ''9'')])))
       (RSeq (ropt True (RGroup 2 (RStar True (RClass False [(CHR ''0'', CHR ''9'')]))))
         (RSeq (ropt True (RGroup 3 (RSeq (RLit ''_'') (RGroup 4 (rplus True RAny))))) REnd)))"
  by code_simp

lemma rms_begin_all: "rms (length s) RBegin s g = (s, g) # []"
  by simp

lemma in_digits: "in_ranges [c] [(CHR ''0'', CHR ''9'')] \<longleftrightarrow> is_digit c"
  by (simp add: in_ranges_def is_digit_def byte_def)

lemma prop_match:
  assumes "list_all (\<lambda>c. c \<noteq> nl) p"
  shows "\<exists>h q. rms m (RSeq (ropt True (RGroup 3 (RSeq (RLit ''_'') (RGroup 4 (rplus True RAny))))) REnd)
     (if p = [] then [] else map (\<lambda>c. [c]) (CHR ''_'' # p)) g = ([], h) # q \<and>
     submatch h 1 = submatch g 1 \<and> submatch h 2 = submatch g 2 \<and> (map_of g 4 = None \<longrightarrow> submatch h 4 = p)"
proof (cases "p = []")
  case False
  have "list_all (\<lambda>y. y \<noteq> [nl]) (map (\<lambda>c. [c]) p)" using assms by (simp add: list_all_iff)
  then obtain r where r: "rms m (rplus True RAny) (map (\<lambda>c. [c]) p) g = ([], g) # r"
    using rms_plus_any_hd False by fastforce
  let ?h = "(3, ''_'' @ p) # (4, p) # g"
  have "\<exists>q. rms m (RSeq (ropt True (RGroup 3 (RSeq (RLit ''_'') (RGroup 4 (rplus True RAny))))) REnd)
     (map (\<lambda>c. [c]) (CHR ''_'' # p)) g = ([], ?h) # q"
    using r by (simp add: ropt_def)
  then show ?thesis using False by (auto simp: submatch_def)
qed (simp add: ropt_def submatch_def)

section \<open>The contract\<close>

lemma plain_metric_labels: "metric_labels (plain_metric st el name v ls) = ls \<and> desc_labels (metric_desc (plain_metric st el name v ls)) = hwmonLabelDesc"
  by (simp add: plain_metric_def hw_metric_def)

lemma hw_element_labels:
  assumes "hw_element st sd e labels = (labels', ms)" "length labels = 2"
  shows "length labels' = 2 \<and> list_all labels_ok ms"
  using assms
  by (cases e; cases "ParseFloat (snd e)"; cases "map_get sd ''label''")
    (auto simp: hw_element_def hw_metric_def hwmonLabelDesc_def Let_def labels_ok_def plain_metric_labels split: if_splits)

lemma hw_elements_ok: "length labels = 2 \<Longrightarrow> list_all labels_ok (hw_elements st sd es labels)"
proof (induction es arbitrary: labels)
  case (Cons e es)
  obtain labels' ms where h: "hw_element st sd e labels = (labels', ms)" by fastforce
  from hw_element_labels [OF h Cons.prems] Cons.IH [of labels'] h show ?case by simp
qed simp

lemma hw_sensor_ok: "list_all labels_ok (hw_sensor ord c n s)"
  by (cases s)
    (auto simp: hw_sensor_def Let_def hw_single_def hw_metric_def hwmonLabelDesc_def hw_elements_ok split: option.splits prod.splits res.splits)

lemma updateHwmon_ok: "upd_ok (updateHwmon ord env c dir n)"
  unfolding updateHwmon_def
  by (intro upd_ok_with_res) (auto simp: list_all_iff hw_sensor_ok [unfolded list_all_iff, rule_format] split: res.splits)

lemma hwmon_chips_ok: "upd_ok (hwmon_chips ord env c es rest r)"
proof (induction rest arbitrary: r)
  case (Cons e rest)
  show ?case
    using Cons [of "snd (updateHwmon ord env c (he_dir e) (chipName es e))"] Cons [of r] updateHwmon_ok [of ord env c "he_dir e" "chipName es e"]
    by (cases "updateHwmon ord env c (he_dir e) (chipName es e)"; cases "snd (updateHwmon ord env c (he_dir e) (chipName es e))")
      (auto simp: upd_ok_def split: prod.splits)
qed (simp add: upd_ok_def)

definition hwmon_pre :: "hwmonOrder \<times> hwmonEnv \<times> paths \<times> hwMonCollector \<Rightarrow> bool" where
  "hwmon_pre = (\<lambda>(ord, env, p, c). \<forall>d. \<not> panics (hw_ReadDir env d))"

lemma updateHwmon_no_panic: "(\<And>d. \<not> panics (hw_ReadDir env d)) \<Longrightarrow> \<not> panics (snd (updateHwmon ord env c dir n))"
  by (simp add: updateHwmon_def hwmon_data_def collectSensorData_def panics_with_res panics_bind_res)

lemma hwmon_chips_no_panic:
  assumes "\<And>d. \<not> panics (hw_ReadDir env d)"
  shows "\<not> panics r \<Longrightarrow> \<not> panics (snd (hwmon_chips ord env c es rest r))"
proof (induction rest arbitrary: r)
  case (Cons e rest)
  show ?case
    using Cons.IH [of "snd (updateHwmon ord env c (he_dir e) (chipName es e))"] Cons.IH [OF Cons.prems]
      updateHwmon_no_panic [OF assms, of ord c "he_dir e" "chipName es e"]
    by (cases "updateHwmon ord env c (he_dir e) (chipName es e)"; cases "snd (updateHwmon ord env c (he_dir e) (chipName es e))")
      (auto split: prod.splits)
qed simp

interpretation hwmon: safe_collector_contract "\<lambda>(ord, env, p, c). hwmon_Update ord env p c" hwmon_pre
proof unfold_locales
  fix e assume pre: "hwmon_pre e"
  obtain ord env p c where e: "e = (ord, env, p, c)" by (cases e)
  show "upd_ok (case e of (ord, env, p, c) \<Rightarrow> hwmon_Update ord env p c)"
    by (simp add: e hwmon_Update_def Let_def hwmon_chips_ok upd_ok_def [of "([], _)"] del: filepath_Join.simps split: res.splits)
  have d: "\<not> panics (hw_ReadDir env d)" for d using pre by (simp add: e hwmon_pre_def)
  show "\<not> panics (snd (case e of (ord, env, p, c) \<Rightarrow> hwmon_Update ord env p c))"
    using d [of "filepath_Join [sysFilePath p ''class'', ''hwmon'']"]
    by (cases "hw_ReadDir env (filepath_Join [sysFilePath p ''class'', ''hwmon''])")
      (simp_all add: e hwmon_Update_def Let_def hwmon_chips_no_panic d del: filepath_Join.simps)
qed

section \<open>Properties\<close>

text \<open>
  The labels of a frequency sensor depend on the order in which the runtime iterates its
  elements: an element that comes after the input is exported under the cleaned label text instead
  of the sensor's name, one that comes before it under the sensor's name.
\<close>

theorem hwmon_freq_label_leaks:
  assumes "map_get sd ''label'' = Some label" "ParseFloat v = Ok x" "ParseFloat w = Ok y" "element \<notin> {''label'', ''input''}"
  shows "map metric_labels (hw_elements ''freq'' sd [(''input'', v), (element, w)] [chip, sensor]) =
      [[chip, cleanMetricName label], [chip, cleanMetricName label]] \<and>
    map metric_labels (hw_elements ''freq'' sd [(element, w), (''input'', v)] [chip, sensor]) =
      [[chip, sensor], [chip, cleanMetricName label]]"
  using assms by (simp add: hw_element_def Let_def plain_metric_labels hw_metric_def)

theorem hwmon_freq_label_leaks_witness:
  "map metric_labels (hw_elements ''freq'' [(''label'', ''sclk''), (''input'', ''0''), (''max'', ''0'')] [(''input'', ''0''), (''max'', ''0'')] [''pci'', ''freq1'']) =
      [[''pci'', ''sclk''], [''pci'', ''sclk'']] \<and>
    map metric_labels (hw_elements ''freq'' [(''label'', ''sclk''), (''input'', ''0''), (''max'', ''0'')] [(''max'', ''0''), (''input'', ''0'')] [''pci'', ''freq1'']) =
      [[''pci'', ''freq1''], [''pci'', ''sclk'']]"
proof -
  have z: "ParseFloat ''0'' = Ok (Fin 0)" "cleanMetricName ''sclk'' = ''sclk''" by code_simp+
  have "map_get [(''label'', ''sclk''), (''input'', ''0''), (''max'', ''0'')] ''label'' = Some ''sclk''" "''max'' \<notin> {''label'', ''input''}" by simp_all
  from hwmon_freq_label_leaks [OF this(1) z(1) z(1) this(2), of "''pci''" "''freq1''"] show ?thesis by (simp only: z)
qed

text \<open>
  The second pass is meant to give every chip its own label; two chips of one device whose
  name files differ only in characters that cleaning maps together (upper and lower case, blanks
  and dashes) still get the same one, and with it the same samples.
\<close>

theorem hwmon_chip_collision:
  assumes "e1 \<in> set es" "e2 \<in> set es" "e1 \<noteq> e2" "he_baseName e1 = he_baseName e2"
    and "nameCounts es (name_key e1) = 1" "nameCounts es (name_key e2) = 1"
    and "cleanMetricName (he_nameFile e1) = cleanMetricName (he_nameFile e2)" "cleanMetricName (he_nameFile e1) \<noteq> []"
  shows "chipName es e1 = chipName es e2"
  using assms by (simp add: chipName_def Let_def)

theorem hwmon_chip_collision_witness:
  "chipName [\<lparr>he_dir = ''/sys/class/hwmon/hwmon1'', he_baseName = ''wmi'', he_nameFile = ''ASUS''\<rparr>,
             \<lparr>he_dir = ''/sys/class/hwmon/hwmon2'', he_baseName = ''wmi'', he_nameFile = ''asus''\<rparr>]
     \<lparr>he_dir = ''/sys/class/hwmon/hwmon1'', he_baseName = ''wmi'', he_nameFile = ''ASUS''\<rparr> =
   chipName [\<lparr>he_dir = ''/sys/class/hwmon/hwmon1'', he_baseName = ''wmi'', he_nameFile = ''ASUS''\<rparr>,
             \<lparr>he_dir = ''/sys/class/hwmon/hwmon2'', he_baseName = ''wmi'', he_nameFile = ''asus''\<rparr>]
     \<lparr>he_dir = ''/sys/class/hwmon/hwmon2'', he_baseName = ''wmi'', he_nameFile = ''asus''\<rparr>"
proof (rule hwmon_chip_collision)
  show "cleanMetricName (he_nameFile \<lparr>he_dir = ''/sys/class/hwmon/hwmon1'', he_baseName = ''wmi'', he_nameFile = ''ASUS''\<rparr>) =
      cleanMetricName (he_nameFile \<lparr>he_dir = ''/sys/class/hwmon/hwmon2'', he_baseName = ''wmi'', he_nameFile = ''asus''\<rparr>)"
    "cleanMetricName (he_nameFile \<lparr>he_dir = ''/sys/class/hwmon/hwmon1'', he_baseName = ''wmi'', he_nameFile = ''ASUS''\<rparr>) \<noteq> []"
    by code_simp+
qed (simp_all add: nameCounts_def name_key_def)

text \<open>
  When the cleaned names tell the chips of one device apart, no base name is another one with a
  suffix, and the directories clean to different names, every chip has its own label.
\<close>

definition tells_apart :: "hwmonEntry \<Rightarrow> hwmonEntry \<Rightarrow> bool" where
  "tells_apart e f \<longleftrightarrow>
     cleanMetricName (filepath_Base (he_dir e)) \<noteq> cleanMetricName (filepath_Base (he_dir f)) \<and>
     cleanMetricName (he_nameFile e) \<noteq> cleanMetricName (filepath_Base (he_dir f)) \<and>
     cleanMetricName (filepath_Base (he_dir e)) \<noteq> cleanMetricName (he_nameFile f) \<and>
     (he_nameFile e \<noteq> he_nameFile f \<longrightarrow> cleanMetricName (he_nameFile e) \<noteq> cleanMetricName (he_nameFile f) \<or> cleanMetricName (he_nameFile e) = []) \<and>
     (he_baseName e \<noteq> he_baseName f \<longrightarrow> \<not> prefix (he_baseName e @ ''_'') (he_baseName f) \<and> \<not> prefix (he_baseName f @ ''_'') (he_baseName e))"

lemma nameCounts_two: "e \<in> set es \<Longrightarrow> f \<in> set es \<Longrightarrow> e \<noteq> f \<Longrightarrow> name_key e = name_key f \<Longrightarrow> nameCounts es (name_key e) > 1"
  and chipCounts_two: "e \<in> set es \<Longrightarrow> f \<in> set es \<Longrightarrow> e \<noteq> f \<Longrightarrow> he_baseName e = he_baseName f \<Longrightarrow> chipCounts es (he_baseName e) > 1"
proof -
  have two: "length (filter P es) > 1" if "e \<in> set es" "f \<in> set es" "e \<noteq> f" "P e" "P f" for P
  proof -
    have "card {e, f} \<le> card (set (filter P es))" using that by (intro card_mono) auto
    also have "\<dots> \<le> length (filter P es)" by (rule card_length)
    finally show ?thesis using that(3) by simp
  qed
  show "e \<in> set es \<Longrightarrow> f \<in> set es \<Longrightarrow> e \<noteq> f \<Longrightarrow> name_key e = name_key f \<Longrightarrow> nameCounts es (name_key e) > 1"
    unfolding nameCounts_def by (rule two) auto
  show "e \<in> set es \<Longrightarrow> f \<in> set es \<Longrightarrow> e \<noteq> f \<Longrightarrow> he_baseName e = he_baseName f \<Longrightarrow> chipCounts es (he_baseName e) > 1"
    unfolding chipCounts_def by (rule two) auto
qed

lemma prefix_cases: "a @ s = b @ t \<Longrightarrow> prefix a b \<or> prefix b a"
  by (auto simp: append_eq_append_conv2 prefix_def)

lemma chipName_shape: "chipName es e = he_baseName e \<or> (\<exists>s. chipName es e = he_baseName e @ ''_'' @ s)"
  by (auto simp: chipName_def Let_def)

lemma chipName_base:
  assumes "tells_apart e f" "chipName es e = chipName es f"
  shows "he_baseName e = he_baseName f"
proof (rule ccontr)
  assume ne: "he_baseName e \<noteq> he_baseName f"
  then have np: "\<not> prefix (he_baseName e @ ''_'') (he_baseName f)" "\<not> prefix (he_baseName f @ ''_'') (he_baseName e)"
    using assms(1) by (auto simp: tells_apart_def)
  from chipName_shape [of es e] chipName_shape [of es f] show False
  proof (elim disjE exE)
    fix s t assume "chipName es e = he_baseName e @ ''_'' @ s" "chipName es f = he_baseName f @ ''_'' @ t"
    then have eq: "(he_baseName e @ ''_'') @ s = (he_baseName f @ ''_'') @ t" using assms(2) by simp
    from prefix_cases [OF eq] ne np show False by (auto simp: prefix_snoc)
  qed (use assms(2) ne np in \<open>auto simp: prefix_def dest: sym\<close>)
qed

text \<open>
  When cleaning tells the chips apart (no two directories, name files or base names run
  together), every chip gets a label of its own.
\<close>

theorem hwmon_chip_unique:
  assumes "e \<in> set es" "f \<in> set es" "e \<noteq> f" "tells_apart e f"
  shows "chipName es e \<noteq> chipName es f"
proof
  assume eq: "chipName es e = chipName es f"
  have base: "he_baseName e = he_baseName f" by (rule chipName_base [OF assms(4) eq])
  have two: "chipCounts es (he_baseName e) > 1" by (rule chipCounts_two [OF assms(1-3) base])
  let ?suff = "\<lambda>e. if cleanMetricName (he_nameFile e) = [] \<or> nameCounts es (name_key e) > 1
     then cleanMetricName (filepath_Base (he_dir e)) else cleanMetricName (he_nameFile e)"
  have suff: "?suff e = ?suff f" using eq base two by (simp add: chipName_def Let_def)
  show False
  proof (cases "he_nameFile e = he_nameFile f")
    case True
    then have "name_key e = name_key f" using base by (simp add: name_key_def)
    then have "nameCounts es (name_key e) > 1" "nameCounts es (name_key f) > 1"
      using nameCounts_two [OF assms(1-3)] by simp_all
    then show False using suff assms(4) by (simp add: tells_apart_def)
  next
    case False
    then show False using suff assms(4) by (auto simp: tells_apart_def split: if_splits)
  qed
qed

theorem hwmon_chip_unique_witness:
  "chipName [\<lparr>he_dir = ''/h/hwmon1'', he_baseName = ''wmi'', he_nameFile = ''fan''\<rparr>, \<lparr>he_dir = ''/h/hwmon2'', he_baseName = ''wmi'', he_nameFile = ''temp''\<rparr>]
     \<lparr>he_dir = ''/h/hwmon1'', he_baseName = ''wmi'', he_nameFile = ''fan''\<rparr> \<noteq>
   chipName [\<lparr>he_dir = ''/h/hwmon1'', he_baseName = ''wmi'', he_nameFile = ''fan''\<rparr>, \<lparr>he_dir = ''/h/hwmon2'', he_baseName = ''wmi'', he_nameFile = ''temp''\<rparr>]
     \<lparr>he_dir = ''/h/hwmon2'', he_baseName = ''wmi'', he_nameFile = ''temp''\<rparr>"
proof (rule hwmon_chip_unique)
  show "tells_apart \<lparr>he_dir = ''/h/hwmon1'', he_baseName = ''wmi'', he_nameFile = ''fan''\<rparr> \<lparr>he_dir = ''/h/hwmon2'', he_baseName = ''wmi'', he_nameFile = ''temp''\<rparr>"
    by code_simp
qed simp_all

text \<open>
  The name of a sensor file is taken apart as it is put together: a type without digits, the
  sensor's number and, after an underscore, the property give back exactly these three.
\<close>

theorem explodeSensorFilename_roundtrip:
  assumes t: "t \<noteq> []" "list_all (\<lambda>c. byte c < 128 \<and> \<not> is_digit c) t" and n: "n < 2 ^ 63"
    and p: "list_all (\<lambda>c. byte c < 128 \<and> c \<noteq> nl) p"
  shows "explodeSensorFilename (t @ FormatUint n @ (if p = [] then [] else CHR ''_'' # p)) = (True, t, int n, p)"
proof -
  let ?w = "\<lambda>s :: string. map (\<lambda>c. [c]) s"
  let ?d = "FormatUint n" and ?u = "if p = [] then [] else CHR ''_'' # p"
  let ?s = "t @ ?d @ ?u" and ?P = "if p = [] then [] else ?w (CHR ''_'' # p)"
  let ?m = "length (runes ?s)"
  have digs: "list_all is_digit ?d" using FormatUint_digits by (auto simp: list_all_iff)
  have "byte c < 128" if "c \<in> set ?s" for c
    using that t(2) p digs by (auto simp: list_all_iff is_digit_def byte_def split: if_splits)
  then have runes: "runes ?s = ?w t @ (?w ?d @ ?P)" by (subst runes_ascii) (auto split: if_splits)
  have hd_d: "in_ranges (hd (?w ?d @ ?P)) [(CHR ''0'', CHR ''9'')]"
    using digs by (cases ?d) (auto simp: in_digits)
  obtain r1 where r1: "rms ?m (rplus True (RClass True [(CHR ''0'', CHR ''9'')])) (?w t @ (?w ?d @ ?P)) [] = (?w ?d @ ?P, []) # r1"
    using rms_plus_class_hd [of "?w t" "[(CHR ''0'', CHR ''9'')]" True "?w ?d @ ?P" ?m "[]"] t hd_d
    by (auto simp: list_all_iff in_digits)
  have "list_all (\<lambda>y. in_ranges y [(CHR ''0'', CHR ''9'')] \<noteq> False) (?w ?d)" using digs by (simp add: list_all_iff in_digits)
  moreover have "?P = [] \<or> in_ranges (hd ?P) [(CHR ''0'', CHR ''9'')] = False" by (simp add: in_digits is_digit_def byte_def)
  ultimately obtain r2 where r2: "rms ?m (RStar True (RClass False [(CHR ''0'', CHR ''9'')])) (?w ?d @ ?P) [(1, t)] = (?P, [(1, t)]) # r2"
    using rms_star_class_hd by blast
  obtain h q where q: "rms ?m (RSeq (ropt True (RGroup 3 (RSeq (RLit ''_'') (RGroup 4 (rplus True RAny))))) REnd) ?P [(2, ?d), (1, t)] = ([], h) # q"
    and h: "submatch h 1 = t" "submatch h 2 = ?d" "submatch h 4 = p"
    using prop_match [of p ?m "[(2, ?d), (1, t)]"] p by (auto simp: list_all_iff submatch_def)
  have g1: "\<exists>r. rms ?m (RGroup 1 (rplus True (RClass True [(CHR ''0'', CHR ''9'')]))) (?w t @ (?w ?d @ ?P)) [] = (?w ?d @ ?P, [(1, t)]) # r"
    using rms_group_hd [OF r1] by simp
  have g2: "\<exists>r. rms ?m (ropt True (RGroup 2 (RStar True (RClass False [(CHR ''0'', CHR ''9'')])))) (?w ?d @ ?P) [(1, t)] = (?P, [(2, ?d), (1, t)]) # r"
    using rms_group_hd [OF r2] rms_opt_hd by fastforce
  have "\<exists>r. rms ?m hwmonFilenameFormat (?w t @ (?w ?d @ ?P)) [] = ([], h) # r"
    using g1 g2 q unfolding hwmonFilenameFormat_eq runes
    by (meson rms_seq_hd rms_begin_all)
  then have "FindStringSubmatch hwmonFilenameFormat ?s = Some h"
    unfolding FindStringSubmatch_def Let_def runes using search_hd by fastforce
  then show ?thesis by (simp add: explodeSensorFilename_def h h(1) [unfolded One_nat_def] Atoi_FormatUint [OF n])
qed

theorem explodeSensorFilename_roundtrip_witness:
  "explodeSensorFilename ''temp12_crit_alarm'' = (True, ''temp'', 12, ''crit_alarm'')"
proof -
  have "list_all (\<lambda>c. byte c < 128 \<and> \<not> is_digit c) ''temp''" "list_all (\<lambda>c. byte c < 128 \<and> c \<noteq> nl) ''crit_alarm''" by code_simp+
  moreover have "FormatUint 12 = ''12''" by code_simp
  ultimately show ?thesis using explodeSensorFilename_roundtrip [of "''temp''" 12 "''crit_alarm''"] by simp
qed

end
