(* ===== verification/Zfs.thy ===== *)
theory Zfs
  imports Helpers
begin

text \<open>
  The ZFS collector of Linux, \<^verbatim>\<open>zfs_linux.go\<close>: the kstat files of the module and of each pool. A file
  is its contents or the error of opening it; globs are part of the environment. The handlers the
  parsers call send one metric each, so a parser is the list of metrics it sends and how it ends.
\<close>

definition kstatDataInt64 :: string where "kstatDataInt64 = ''3''"
definition kstatDataUint64 :: string where "kstatDataUint64 = ''4''"

definition errZFSNotAvailable :: error where
  "errZFSNotAvailable = NewError ''ZFS / ZFS statistics are not available''"

definition zfsPoolStatesName :: "string list" where
  "zfsPoolStatesName = [''online'', ''degraded'', ''faulted'', ''offline'', ''removed'', ''unavail'', ''suspended'']"

record zfsCollector =
  linuxProcpathBase :: string
  linuxZpoolIoPath :: string
  linuxZpoolObjsetPath :: string
  linuxZpoolStatePath :: string
  linuxPathMap :: "(string, string) gomap"

definition NewZFSCollector :: zfsCollector where
  "NewZFSCollector = \<lparr>linuxProcpathBase = ''spl/kstat/zfs'', linuxZpoolIoPath = ''/*/io'', linuxZpoolObjsetPath = ''/*/objset-*'',
     linuxZpoolStatePath = ''/*/state'',
     linuxPathMap = [(''zfs_abd'', ''abdstats''), (''zfs_arc'', ''arcstats''), (''zfs_dbuf'', ''dbufstats''), (''zfs_dmu_tx'', ''dmu_tx''),
       (''zfs_dnode'', ''dnodestats''), (''zfs_fm'', ''fm''), (''zfs_vdev_cache'', ''vdev_cache_stats''), (''zfs_vdev_mirror'', ''vdev_mirror_stats''),
       (''zfs_xuio'', ''xuio_stats''), (''zfs_zfetch'', ''zfetchstats''), (''zfs_zil'', ''zil'')]\<rparr>"

record zfsEnv =
  zfs_Open :: "string \<Rightarrow> string res"
  zfs_Glob :: "string \<Rightarrow> string list res"

section \<open>Metrics\<close>

definition sysctl_metricName :: "string \<Rightarrow> string" where
  "sysctl_metricName s = ReplaceAll (last (Split s (CHR ''.''))) ''-'' ''_''"

definition constSysctlMetric :: "string \<Rightarrow> string \<Rightarrow> float64 \<Rightarrow> metric" where
  "constSysctlMetric subsystem sysctl v =
     MustNewConstMetric (NewDesc (BuildFQName namespace subsystem (sysctl_metricName sysctl)) sysctl []) UntypedValue v []"

definition constPoolMetric :: "string \<Rightarrow> string \<Rightarrow> int \<Rightarrow> metric" where
  "constPoolMetric poolName sysctl v =
     MustNewConstMetric (NewDesc (BuildFQName namespace ''zfs_zpool'' (sysctl_metricName sysctl)) sysctl [''zpool'']) UntypedValue (f64_of_int v) [poolName]"

definition constPoolObjsetMetric :: "string \<Rightarrow> string \<Rightarrow> string \<Rightarrow> int \<Rightarrow> metric" where
  "constPoolObjsetMetric poolName datasetName sysctl v =
     MustNewConstMetric (NewDesc (BuildFQName namespace ''zfs_zpool_dataset'' (sysctl_metricName sysctl)) sysctl [''zpool'', ''dataset''])
       UntypedValue (f64_of_int v) [poolName, datasetName]"

definition constPoolStateMetric :: "string \<Rightarrow> string \<Rightarrow> int \<Rightarrow> metric" where
  "constPoolStateMetric poolName stateName isActive =
     MustNewConstMetric (NewDesc (BuildFQName namespace ''zfs_zpool'' ''state'') ''kstat.zfs.misc.state'' [''zpool'', ''state''])
       GaugeValue (f64_of_int isActive) [poolName, stateName]"

section \<open>Parsers\<close>

definition is_header :: "string list \<Rightarrow> bool" where
  "is_header parts \<longleftrightarrow> parts = [''name'', ''type'', ''data'']"

definition kstat_value :: "string \<Rightarrow> string \<Rightarrow> string list \<Rightarrow> upd" where
  "kstat_value subsystem fmtExt parts =
     (let key = ''kstat.zfs.misc.'' @ fmtExt @ ''.'' @ parts ! 0 in
      if parts ! 1 = kstatDataUint64
      then with_res (map_err (Wrapf ''could not parse expected unsigned integer value for %q: %w'' [key]) (ParseUint (parts ! 2) 10 64)) (\<lambda>v.
             emit [constSysctlMetric subsystem key (f64_of_int v)])
      else if parts ! 1 = kstatDataInt64
      then with_res (map_err (Wrapf ''could not parse expected signed integer value for %q: %w'' [key]) (ParseInt (parts ! 2) 10 64)) (\<lambda>v.
             emit [constSysctlMetric subsystem key (f64_of_int v)])
      else emit [])"

fun kstat_lines :: "string \<Rightarrow> string \<Rightarrow> bool \<Rightarrow> string list \<Rightarrow> error option \<Rightarrow> upd" where
  "kstat_lines subsystem fmtExt parseLine [] e =
     (if \<not> parseLine then fail (Errorf ''did not parse a single %q metric'' [fmtExt])
      else with_res (ok_or () e) (\<lambda>_. emit []))"
| "kstat_lines subsystem fmtExt parseLine (text # ls) e =
     (let parts = Fields text in
      if \<not> parseLine \<and> is_header parts then kstat_lines subsystem fmtExt True ls e
      else if \<not> parseLine \<or> length parts < 3 then kstat_lines subsystem fmtExt parseLine ls e
      else seq (kstat_value subsystem fmtExt parts) (kstat_lines subsystem fmtExt parseLine ls e))"

definition parseProcfsFile :: "string \<Rightarrow> string \<Rightarrow> string \<Rightarrow> upd" where
  "parseProcfsFile subsystem reader fmtExt = kstat_lines subsystem fmtExt False (scan_lines reader) (scan_err reader)"

text \<open>Every column of the header takes the column of the line with the same index, which may be missing.\<close>

definition pool_field :: "string \<Rightarrow> string \<Rightarrow> string list \<Rightarrow> nat \<times> string \<Rightarrow> upd" where
  "pool_field zpoolName zpoolFile line = (\<lambda>(i, field).
     let key = ''kstat.zfs.misc.'' @ zpoolFile @ ''.'' @ field in
     with_res (idx line i) (\<lambda>x.
     with_res (map_err (Wrapf ''could not parse expected integer value for %q: %w'' [key]) (ParseUint x 10 64)) (\<lambda>v.
       emit [constPoolMetric zpoolName key v])))"

definition pool_line :: "string \<Rightarrow> string list \<Rightarrow> string list \<Rightarrow> upd" where
  "pool_line zpoolPath flds line =
     (let els = Split zpoolPath (CHR ''/''); n = length els in
      if n < 2 then fail (Errorf ''zpool path did not return at least two elements'' [])
      else foreach (pool_field (els ! (n - 2)) (els ! (n - 1)) line) (zip [0..<length flds] flds))"

fun pool_lines :: "string \<Rightarrow> string list option \<Rightarrow> string list \<Rightarrow> error option \<Rightarrow> upd" where
  "pool_lines zpoolPath flds [] e = with_res (ok_or () e) (\<lambda>_. emit [])"
| "pool_lines zpoolPath flds (text # ls) e =
     (let line = Fields text in
      case flds of
        None \<Rightarrow> pool_lines zpoolPath (if 12 \<le> length line \<and> hd line = ''nread'' then Some line else None) ls e
      | Some fs \<Rightarrow> seq (pool_line zpoolPath fs line) (pool_lines zpoolPath flds ls e))"

definition parsePoolProcfsFile :: "string \<Rightarrow> string \<Rightarrow> upd" where
  "parsePoolProcfsFile reader zpoolPath = pool_lines zpoolPath None (scan_lines reader) (scan_err reader)"

text \<open>\<^verbatim>\<open>line[strings.Index(line, sub):]\<close> for a \<open>sub\<close> that occurs in the line.\<close>

definition from_index :: "string \<Rightarrow> string \<Rightarrow> string" where
  "from_index line sub = (case Cut line sub of Some (a, b) \<Rightarrow> drop (length a) line | None \<Rightarrow> line)"

definition pool_of_path :: "string \<Rightarrow> string res" where
  "pool_of_path zpoolPath =
     (let els = Split zpoolPath (CHR ''/'') in
      if length els < 2 then Panic ''index out of range'' else Ok (els ! (length els - 2)))"

fun objset_lines :: "string \<Rightarrow> bool \<Rightarrow> string \<Rightarrow> string \<Rightarrow> string list \<Rightarrow> error option \<Rightarrow> upd" where
  "objset_lines zpoolPath parseLine zpoolName datasetName [] e =
     (if \<not> parseLine then fail (Errorf ''did not parse a single %s %s metric'' [zpoolName, datasetName])
      else with_res (ok_or () e) (\<lambda>_. emit []))"
| "objset_lines zpoolPath parseLine zpoolName datasetName (line # ls) e =
     (let parts = Fields line in
      if \<not> parseLine \<and> is_header parts then objset_lines zpoolPath True zpoolName datasetName ls e
      else if \<not> parseLine \<or> length parts < 3 then objset_lines zpoolPath parseLine zpoolName datasetName ls e
      else if parts ! 0 = ''dataset_name''
      then with_res (pool_of_path zpoolPath) (\<lambda>z. objset_lines zpoolPath parseLine z (from_index line (parts ! 2)) ls e)
      else if parts ! 1 = kstatDataUint64
      then let key = ''kstat.zfs.misc.objset.'' @ parts ! 0 in
           (case ParseUint (parts ! 2) 10 64 of
              Ok v \<Rightarrow> seq (emit [constPoolObjsetMetric zpoolName datasetName key v]) (objset_lines zpoolPath parseLine zpoolName datasetName ls e)
            | _ \<Rightarrow> fail (Errorf ''could not parse expected integer value for %q'' [key]))
      else objset_lines zpoolPath parseLine zpoolName datasetName ls e)"

definition parsePoolObjsetFile :: "string \<Rightarrow> string \<Rightarrow> upd" where
  "parsePoolObjsetFile reader zpoolPath = objset_lines zpoolPath False [] [] (scan_lines reader) (scan_err reader)"

text \<open>The first line, empty when there is none; an error of the scanner only when that line was too long.\<close>

definition first_line :: "string \<Rightarrow> string res" where
  "first_line reader =
     (case raw_lines reader of
        [] \<Rightarrow> Ok []
      | l # _ \<Rightarrow> if int (length l) < maxLine then Ok (drop_cr l) else Err ErrTooLong)"

definition ToLower :: "string \<Rightarrow> string" where
  "ToLower s = concat (map lower_rune (runes s))"

definition parsePoolStateFile :: "string \<Rightarrow> string \<Rightarrow> upd" where
  "parsePoolStateFile reader zpoolPath =
     with_res (first_line reader) (\<lambda>l.
       let els = Split zpoolPath (CHR ''/'') in
       if length els < 2 then fail (Errorf ''zpool path did not return at least two elements'' [])
       else emit (map (\<lambda>stateName. constPoolStateMetric (els ! (length els - 2)) stateName (if ToLower l = stateName then 1 else 0)) zfsPoolStatesName))"

section \<open>Update\<close>

definition openProcFile :: "zfsEnv \<Rightarrow> paths \<Rightarrow> string \<Rightarrow> string res" where
  "openProcFile env p path = map_err (\<lambda>_. errZFSNotAvailable) (zfs_Open env (procFilePath p path))"

definition updateZfsStats :: "zfsEnv \<Rightarrow> paths \<Rightarrow> zfsCollector \<Rightarrow> string \<times> string \<Rightarrow> upd" where
  "updateZfsStats env p c = (\<lambda>(subsystem, ext).
     with_res (openProcFile env p (filepath_Join [linuxProcpathBase c, ext])) (\<lambda>data. parseProcfsFile subsystem data ext))"

definition zfs_files :: "zfsEnv \<Rightarrow> paths \<Rightarrow> string \<Rightarrow> (string \<Rightarrow> string \<Rightarrow> upd) \<Rightarrow> upd" where
  "zfs_files env p pat parse =
     with_res (zfs_Glob env (procFilePath p pat)) (\<lambda>paths.
       foreach (\<lambda>zpoolPath. with_res (map_err (\<lambda>_. errZFSNotAvailable) (zfs_Open env zpoolPath)) (\<lambda>data. parse data zpoolPath)) paths)"

definition updatePoolStats :: "zfsEnv \<Rightarrow> paths \<Rightarrow> zfsCollector \<Rightarrow> upd" where
  "updatePoolStats env p c =
     seq (zfs_files env p (filepath_Join [linuxProcpathBase c, linuxZpoolIoPath c]) parsePoolProcfsFile)
       (seq (zfs_files env p (filepath_Join [linuxProcpathBase c, linuxZpoolObjsetPath c]) parsePoolObjsetFile)
         (zfs_files env p (filepath_Join [linuxProcpathBase c, linuxZpoolStatePath c]) parsePoolStateFile))"

text \<open>A subsystem whose file is missing is passed over; any other error ends the scrape.\<close>

definition zfs_subsystem :: "zfsEnv \<Rightarrow> paths \<Rightarrow> zfsCollector \<Rightarrow> string \<times> string \<Rightarrow> upd" where
  "zfs_subsystem env p c s =
     (case updateZfsStats env p c s of
        (ms, Err e) \<Rightarrow> if e = errZFSNotAvailable then (ms, Ok ()) else (ms, Err e)
      | u \<Rightarrow> u)"

definition zfs_Update :: "((string \<times> string) list \<Rightarrow> (string \<times> string) list) \<Rightarrow> zfsEnv \<Rightarrow> paths \<Rightarrow> zfsCollector \<Rightarrow> upd" where
  "zfs_Update ord env p c =
     (case openProcFile env p (linuxProcpathBase c) of
        Err _ \<Rightarrow> fail ErrNoData
      | Panic q \<Rightarrow> ([], Panic q)
      | Ok _ \<Rightarrow> seq (foreach (zfs_subsystem env p c) (ord (linuxPathMap c))) (updatePoolStats env p c))"

section \<open>The contract\<close>

lemmas zfs_metric_defs = constSysctlMetric_def constPoolMetric_def constPoolObjsetMetric_def constPoolStateMetric_def

lemma kstat_lines_ok: "upd_ok (kstat_lines sub ext b ls e)"
  by (induction sub ext b ls e rule: kstat_lines.induct)
    (auto simp: Let_def kstat_value_def zfs_metric_defs intro!: upd_ok_seq upd_ok_with_res)

lemma pool_lines_ok: "upd_ok (pool_lines path flds ls e)"
  by (induction path flds ls e rule: pool_lines.induct)
    (auto simp: Let_def pool_line_def pool_field_def zfs_metric_defs intro!: upd_ok_seq upd_ok_with_res upd_ok_foreach split: option.splits)

lemma objset_lines_ok: "upd_ok (objset_lines path b z d ls e)"
  by (induction path b z d ls e rule: objset_lines.induct)
    (auto simp: Let_def zfs_metric_defs upd_ok_def intro!: upd_ok_with_res [unfolded upd_ok_def] split: res.splits)

lemma parsePoolStateFile_ok: "upd_ok (parsePoolStateFile r path)"
  unfolding parsePoolStateFile_def Let_def
  by (intro upd_ok_with_res) (simp add: zfs_metric_defs list_all_iff)

lemmas zfs_parse_ok = kstat_lines_ok pool_lines_ok objset_lines_ok parsePoolStateFile_ok

lemma zfs_files_ok: "(\<And>r path. upd_ok (parse r path)) \<Longrightarrow> upd_ok (zfs_files env p pat parse)"
  unfolding zfs_files_def by (intro upd_ok_with_res upd_ok_foreach)

lemma zfs_subsystem_ok: "upd_ok (zfs_subsystem env p c s)"
proof -
  have "upd_ok (updateZfsStats env p c s)"
    by (cases s) (auto simp: updateZfsStats_def parseProcfsFile_def zfs_parse_ok intro!: upd_ok_with_res)
  then show ?thesis by (auto simp: zfs_subsystem_def upd_ok_def split: prod.splits res.splits)
qed

interpretation zfs: collector_contract "\<lambda>(ord, env, p, c). zfs_Update ord env p c" "\<lambda>_. True"
proof unfold_locales
  fix e :: "((string \<times> string) list \<Rightarrow> (string \<times> string) list) \<times> zfsEnv \<times> paths \<times> zfsCollector"
  obtain ord env p c where e: "e = (ord, env, p, c)" by (cases e)
  have "upd_ok (updatePoolStats env p c)"
    unfolding updatePoolStats_def
    by (intro upd_ok_seq zfs_files_ok) (simp_all add: parsePoolProcfsFile_def parsePoolObjsetFile_def zfs_parse_ok)
  then have "upd_ok (seq (foreach (zfs_subsystem env p c) (ord (linuxPathMap c))) (updatePoolStats env p c))"
    by (intro upd_ok_seq upd_ok_foreach zfs_subsystem_ok)
  then show "upd_ok (case e of (ord, env, p, c) \<Rightarrow> zfs_Update ord env p c)"
    by (auto simp: e zfs_Update_def upd_ok_def [of "([], _)"] split: res.splits)
qed

section \<open>Properties\<close>

text \<open>
  A pool is reported in at most one of the known states: the one its state file names, in
  whatever case, and in none when the file names another.
\<close>

theorem parsePoolStateFile_onehot:
  assumes "first_line r = Ok l" "path = dir @ ''/'' @ pool @ ''/state''" "CHR ''/'' \<notin> set pool"
  shows "parsePoolStateFile r path =
    emit (map (\<lambda>s. constPoolStateMetric pool s (if s = ToLower l then 1 else 0)) zfsPoolStatesName) \<and>
    length (filter (\<lambda>s. s = ToLower l) zfsPoolStatesName) = (if ToLower l \<in> set zfsPoolStatesName then 1 else 0)"
proof -
  have app: "Split (a @ CHR ''/'' # b) (CHR ''/'') = Split a (CHR ''/'') @ Split b (CHR ''/'')" for a b
    by (induction a) (auto split: list.splits)
  have "Split path (CHR ''/'') = Split dir (CHR ''/'') @ [pool, ''state'']"
    using assms(3) by (simp add: assms(2) app Split_single)
  then have "parsePoolStateFile r path = emit (map (\<lambda>s. constPoolStateMetric pool s (if s = ToLower l then 1 else 0)) zfsPoolStatesName)"
    by (simp add: parsePoolStateFile_def Let_def nth_append assms(1) eq_commute [of "ToLower l"])
  moreover have "distinct zfsPoolStatesName" by (simp add: zfsPoolStatesName_def)
  then have "length (filter (\<lambda>s. s = ToLower l) zfsPoolStatesName) = (if ToLower l \<in> set zfsPoolStatesName then 1 else 0)"
    by (simp add: distinct_length_filter)
  ultimately show ?thesis by blast
qed

theorem parsePoolStateFile_onehot_witness:
  "parsePoolStateFile ''ONLINE'' ''/p/tank/state'' =
    emit (map (\<lambda>s. constPoolStateMetric ''tank'' s (if s = ''online'' then 1 else 0)) zfsPoolStatesName)"
proof -
  have l: "first_line ''ONLINE'' = Ok ''ONLINE''" "ToLower ''ONLINE'' = ''online''" by code_simp+
  from parsePoolStateFile_onehot [OF l(1), of "''/p/tank/state''" "''/p''" "''tank''"] show ?thesis by (simp add: l(2) del: map_eq_conv)
qed

text \<open>
  C39: The dataset's name is cut out of the line at the first place where its first word occurs,
  which for a name that occurs in \<^verbatim>\<open>dataset_name\<close> (a pool called \<^verbatim>\<open>data\<close>, say) is the word \<^verbatim>\<open>dataset_name\<close>
  itself: the whole line is exported as the name.
\<close>

theorem objset_dataset_name_wrong:
  assumes "prefix name ''dataset_name''" "line = ''dataset_name'' @ rest" "Fields line = [''dataset_name'', ''7'', name]"
    and "pool_of_path path = Ok z"
  shows "objset_lines path True z0 d0 (line # ls) e = objset_lines path True z line ls e"
proof -
  have "prefix name line" unfolding assms(2) by (rule prefix_prefix [OF assms(1)])
  then have "from_index line name = line" using assms(2) by (simp add: from_index_def)
  then show ?thesis using assms(3,4) by (simp add: Let_def is_header_def)
qed

theorem objset_dataset_name_wrong_witness:
  "objset_lines ''/p/data/objset-1'' True [] [] [''dataset_name 7 data''] None =
   objset_lines ''/p/data/objset-1'' True ''data'' ''dataset_name 7 data'' [] None"
proof (rule objset_dataset_name_wrong)
  show "Fields ''dataset_name 7 data'' = [''dataset_name'', ''7'', ''data'']" "pool_of_path ''/p/data/objset-1'' = Ok ''data''"
    "prefix ''data'' ''dataset_name''" by code_simp+
  show "''dataset_name 7 data'' = ''dataset_name'' @ '' 7 data''" by simp
qed

end
