(* ===== verification/Ethtool.thy ===== *)
theory Ethtool
  imports Helpers "HOL-Library.List_Lexorder" "HOL-Library.Char_ord"
begin

unbundle bit_operations_syntax

text \<open>
  The ethtool collector, \<^verbatim>\<open>ethtool_linux.go\<close>: link capabilities from a bit mask, driver information,
  and the statistics of each device, whose names are sanitised and checked for clashes. The ethtool
  library and sysfs are the environment, and so are the bit numbers of the kernel's link modes, by
  the name of their constant. Maps ranged over take the runtime's order as an argument.
\<close>

section \<open>State and environment\<close>

record EthtoolCmd =
  Supported :: uint32
  Advertising :: uint32
  Autoneg :: uint8

record DrvInfo =
  BusInfo :: string
  Driver :: string
  EromVersion :: string
  FwVersion :: string
  DrvVersion :: string

record ethtoolEnv =
  eth_sysfs_NewFS :: "unit res"
  eth_NewEthtool :: "unit res"
  NetClassDevices :: "string list res"
  LinkInfo :: "string \<Rightarrow> EthtoolCmd res"
  DriverInfo :: "string \<Rightarrow> DrvInfo res"
  eth_Stats :: "string \<Rightarrow> (string, uint64) gomap \<times> error option"
  mode_bit :: "string \<Rightarrow> nat"

type_synonym speedRow = "string \<times> int \<times> string \<times> string"

record ethtoolOrder =
  ord_speeds :: "speedRow list \<Rightarrow> speedRow list"
  ord_ports :: "(string \<times> string) list \<Rightarrow> (string \<times> string) list"
  ord_ethstats :: "(string \<times> uint64) list \<Rightarrow> (string \<times> uint64) list"
  ord_keys :: "string list \<Rightarrow> string list"

record ethtoolFlags =
  ethtoolDeviceInclude :: string
  ethtoolDeviceExclude :: string
  ethtoolIncludedMetrics :: string

record ethtoolCollector =
  eth_entries :: "(string, desc) gomap"
  eth_deviceFilter :: deviceFilter
  metricsPattern :: regexp

definition ethtoolReceivedRegex :: regexp where
  "ethtoolReceivedRegex = compiled ''(^|_)rx(_|$)''"

definition ethtoolTransmitRegex :: regexp where
  "ethtoolTransmitRegex = compiled ''(^|_)tx(_|$)''"

definition ethtool_entries :: "(string, desc) gomap" where
  "ethtool_entries =
     [(''rx_bytes'', NewDesc (BuildFQName namespace ''ethtool'' ''received_bytes_total'') ''Network interface bytes received'' [''device'']),
      (''rx_dropped'', NewDesc (BuildFQName namespace ''ethtool'' ''received_dropped_total'') ''Number of received frames dropped'' [''device'']),
      (''rx_errors'', NewDesc (BuildFQName namespace ''ethtool'' ''received_errors_total'') ''Number of received frames with errors'' [''device'']),
      (''rx_packets'', NewDesc (BuildFQName namespace ''ethtool'' ''received_packets_total'') ''Network interface packets received'' [''device'']),
      (''tx_bytes'', NewDesc (BuildFQName namespace ''ethtool'' ''transmitted_bytes_total'') ''Network interface bytes sent'' [''device'']),
      (''tx_errors'', NewDesc (BuildFQName namespace ''ethtool'' ''transmitted_errors_total'') ''Number of sent frames with errors'' [''device'']),
      (''tx_packets'', NewDesc (BuildFQName namespace ''ethtool'' ''transmitted_packets_total'') ''Network interface packets sent'' [''device'']),
      (''supported_port'', NewDesc (BuildFQName namespace ''network'' ''supported_port_info'') ''Type of ports or PHYs supported by network device'' [''device'', ''type'']),
      (''supported_speed'', NewDesc (BuildFQName namespace ''network'' ''supported_speed_bytes'') ''Combination of speeds and features supported by network device'' [''device'', ''duplex'', ''mode'']),
      (''supported_autonegotiate'', NewDesc (BuildFQName namespace ''network'' ''autonegotiate_supported'') ''If this port device supports autonegotiate'' [''device'']),
      (''supported_pause'', NewDesc (BuildFQName namespace ''network'' ''pause_supported'') ''If this port device supports pause frames'' [''device'']),
      (''supported_asymmetricpause'', NewDesc (BuildFQName namespace ''network'' ''asymmetricpause_supported'') ''If this port device supports asymmetric pause frames'' [''device'']),
      (''advertised_speed'', NewDesc (BuildFQName namespace ''network'' ''advertised_speed_bytes'') ''Combination of speeds and features offered by network device'' [''device'', ''duplex'', ''mode'']),
      (''advertised_autonegotiate'', NewDesc (BuildFQName namespace ''network'' ''autonegotiate_advertised'') ''If this port device offers autonegotiate'' [''device'']),
      (''advertised_pause'', NewDesc (BuildFQName namespace ''network'' ''pause_advertised'') ''If this port device offers pause capability'' [''device'']),
      (''advertised_asymmetricpause'', NewDesc (BuildFQName namespace ''network'' ''asymmetricpause_advertised'') ''If this port device offers asymmetric pause capability'' [''device'']),
      (''autonegotiate'', NewDesc (BuildFQName namespace ''network'' ''autonegotiate'') ''If this port is using autonegotiate'' [''device''])]"

definition eth_infoDesc :: desc where
  "eth_infoDesc = NewDesc (BuildFQName namespace ''ethtool'' ''info'')
     ''A metric with a constant '1' value labeled by bus_info, device, driver, expansion_rom_version, firmware_version, version.''
     [''bus_info'', ''device'', ''driver'', ''expansion_rom_version'', ''firmware_version'', ''version'']"

definition makeEthtoolCollector :: "ethtoolEnv \<Rightarrow> ethtoolFlags \<Rightarrow> ethtoolCollector res" where
  "makeEthtoolCollector env fl =
     bind_res (map_err (Wrapf ''failed to open sysfs: %w'' []) (eth_sysfs_NewFS env)) (\<lambda>_.
     bind_res (map_err (Wrapf ''failed to initialize ethtool library: %w'' []) (eth_NewEthtool env)) (\<lambda>_.
     bind_res (newDeviceFilter (ethtoolDeviceExclude fl) (ethtoolDeviceInclude fl)) (\<lambda>f.
     bind_res (MustCompile (ethtoolIncludedMetrics fl)) (\<lambda>re.
       Ok \<lparr>eth_entries = ethtool_entries, eth_deviceFilter = f, metricsPattern = re\<rparr>))))"

section \<open>Names\<close>

text \<open>The name is handed to \<^verbatim>\<open>BuildFQName\<close> with the fixed namespace and subsystem; it stands for the full name.\<close>

definition ethtoolName :: "string \<Rightarrow> string" where
  "ethtoolName metric =
     (let n0 = TrimLeft (map lower (SanitizeMetricName metric)) {CHR ''_''};
          n1 = ReplaceAllString ethtoolReceivedRegex n0 (\<lambda>g. submatch g 1 @ ''received'' @ submatch g 2)
      in ReplaceAllString ethtoolTransmitRegex n1 (\<lambda>g. submatch g 1 @ ''transmitted'' @ submatch g 2))"

definition buildEthtoolFQName :: "string \<Rightarrow> fqname" where
  "buildEthtoolFQName metric = BuildFQName namespace ''ethtool'' (ethtoolName metric)"

section \<open>Link modes\<close>

text \<open>
  \<^verbatim>\<open>linkModes&(1<<bit) != 0\<close> at 32 bits: a shift by 32 or more gives zero.
\<close>

definition has_mode :: "ethtoolEnv \<Rightarrow> uint32 \<Rightarrow> string \<Rightarrow> bool" where
  "has_mode env linkModes mode \<longleftrightarrow> linkModes AND push_bit (mode_bit env mode) 1 \<noteq> 0"

text \<open>\<^verbatim>\<open>c.entry(key)\<close>: a missing entry is a nil descriptor, for which building a metric panics.\<close>

definition with_entry :: "ethtoolCollector \<Rightarrow> string \<Rightarrow> (desc \<Rightarrow> upd) \<Rightarrow> upd" where
  "with_entry c key f =
     (case map_get (eth_entries c) key of None \<Rightarrow> ([], Panic ''nil pointer dereference'') | Some d \<Rightarrow> f d)"

definition eth_gauge :: "ethtoolCollector \<Rightarrow> string \<Rightarrow> float64 \<Rightarrow> string list \<Rightarrow> upd" where
  "eth_gauge c key v labels = with_entry c key (\<lambda>d. emit [MustNewConstMetric d GaugeValue v labels])"

definition bool_value :: "bool \<Rightarrow> float64" where
  "bool_value b = (if b then Fin 1 else Fin 0)"

definition updatePortCapabilities :: "ethtoolEnv \<Rightarrow> ethtoolCollector \<Rightarrow> string \<Rightarrow> string \<Rightarrow> uint32 \<Rightarrow> upd" where
  "updatePortCapabilities env c pre device linkModes =
     seq (eth_gauge c (pre @ ''_autonegotiate'') (bool_value (has_mode env linkModes ''ETHTOOL_LINK_MODE_Autoneg_BIT'')) [device])
       (seq (eth_gauge c (pre @ ''_pause'') (bool_value (has_mode env linkModes ''ETHTOOL_LINK_MODE_Pause_BIT'')) [device])
         (eth_gauge c (pre @ ''_asymmetricpause'') (bool_value (has_mode env linkModes ''ETHTOOL_LINK_MODE_Asym_Pause_BIT'')) [device]))"

definition portTypes :: "(string \<times> string) list" where
  "portTypes = [(''TP'', ''ETHTOOL_LINK_MODE_TP_BIT''), (''AUI'', ''ETHTOOL_LINK_MODE_AUI_BIT''), (''MII'', ''ETHTOOL_LINK_MODE_MII_BIT''),
     (''FIBRE'', ''ETHTOOL_LINK_MODE_FIBRE_BIT''), (''BNC'', ''ETHTOOL_LINK_MODE_BNC_BIT''), (''Backplane'', ''ETHTOOL_LINK_MODE_Backplane_BIT'')]"

definition updatePortInfo :: "ethtoolOrder \<Rightarrow> ethtoolEnv \<Rightarrow> ethtoolCollector \<Rightarrow> string \<Rightarrow> uint32 \<Rightarrow> upd" where
  "updatePortInfo ord env c device linkModes =
     foreach (\<lambda>(name, bit). if has_mode env linkModes bit then eth_gauge c ''supported_port'' (Fin 1) [device, name] else emit [])
       (ord_ports ord portTypes)"

definition linkSpeeds :: "speedRow list" where
  "linkSpeeds =
     [(''ETHTOOL_LINK_MODE_10baseT_Half_BIT'', 10, ''half'', ''T''),
      (''ETHTOOL_LINK_MODE_10baseT_Full_BIT'', 10, ''full'', ''T''),
      (''ETHTOOL_LINK_MODE_100baseT_Half_BIT'', 100, ''half'', ''T''),
      (''ETHTOOL_LINK_MODE_100baseT_Full_BIT'', 100, ''full'', ''T''),
      (''ETHTOOL_LINK_MODE_1000baseT_Half_BIT'', 1000, ''half'', ''T''),
      (''ETHTOOL_LINK_MODE_1000baseT_Full_BIT'', 1000, ''full'', ''T''),
      (''ETHTOOL_LINK_MODE_10000baseT_Full_BIT'', 10000, ''full'', ''T''),
      (''ETHTOOL_LINK_MODE_2500baseT_Full_BIT'', 2500, ''full'', ''T''),
      (''ETHTOOL_LINK_MODE_1000baseKX_Full_BIT'', 1000, ''full'', ''KX''),
      (''ETHTOOL_LINK_MODE_10000baseKX4_Full_BIT'', 10000, ''full'', ''KX4''),
      (''ETHTOOL_LINK_MODE_10000baseKR_Full_BIT'', 10000, ''full'', ''KR''),
      (''ETHTOOL_LINK_MODE_10000baseR_FEC_BIT'', 10000, ''full'', ''R_FEC''),
      (''ETHTOOL_LINK_MODE_20000baseMLD2_Full_BIT'', 20000, ''full'', ''MLD2''),
      (''ETHTOOL_LINK_MODE_20000baseKR2_Full_BIT'', 20000, ''full'', ''KR2''),
      (''ETHTOOL_LINK_MODE_40000baseKR4_Full_BIT'', 40000, ''full'', ''KR4''),
      (''ETHTOOL_LINK_MODE_40000baseCR4_Full_BIT'', 40000, ''full'', ''CR4''),
      (''ETHTOOL_LINK_MODE_40000baseSR4_Full_BIT'', 40000, ''full'', ''SR4''),
      (''ETHTOOL_LINK_MODE_40000baseLR4_Full_BIT'', 40000, ''full'', ''LR4''),
      (''ETHTOOL_LINK_MODE_56000baseKR4_Full_BIT'', 56000, ''full'', ''KR4''),
      (''ETHTOOL_LINK_MODE_56000baseCR4_Full_BIT'', 56000, ''full'', ''CR4''),
      (''ETHTOOL_LINK_MODE_56000baseSR4_Full_BIT'', 56000, ''full'', ''SR4''),
      (''ETHTOOL_LINK_MODE_56000baseLR4_Full_BIT'', 56000, ''full'', ''LR4''),
      (''ETHTOOL_LINK_MODE_25000baseCR_Full_BIT'', 25000, ''full'', ''CR''),
      (''ETHTOOL_LINK_MODE_25000baseKR_Full_BIT'', 25000, ''full'', ''KR''),
      (''ETHTOOL_LINK_MODE_25000baseSR_Full_BIT'', 25000, ''full'', ''SR''),
      (''ETHTOOL_LINK_MODE_50000baseCR2_Full_BIT'', 50000, ''full'', ''CR2''),
      (''ETHTOOL_LINK_MODE_50000baseKR2_Full_BIT'', 50000, ''full'', ''KR2''),
      (''ETHTOOL_LINK_MODE_100000baseKR4_Full_BIT'', 100000, ''full'', ''KR4''),
      (''ETHTOOL_LINK_MODE_100000baseSR4_Full_BIT'', 100000, ''full'', ''SR4''),
      (''ETHTOOL_LINK_MODE_100000baseCR4_Full_BIT'', 100000, ''full'', ''CR4''),
      (''ETHTOOL_LINK_MODE_100000baseLR4_ER4_Full_BIT'', 100000, ''full'', ''R4_ER4''),
      (''ETHTOOL_LINK_MODE_50000baseSR2_Full_BIT'', 50000, ''full'', ''SR2''),
      (''ETHTOOL_LINK_MODE_1000baseX_Full_BIT'', 1000, ''full'', ''X''),
      (''ETHTOOL_LINK_MODE_10000baseCR_Full_BIT'', 10000, ''full'', ''CR''),
      (''ETHTOOL_LINK_MODE_10000baseSR_Full_BIT'', 10000, ''full'', ''SR''),
      (''ETHTOOL_LINK_MODE_10000baseLR_Full_BIT'', 10000, ''full'', ''LR''),
      (''ETHTOOL_LINK_MODE_10000baseLRM_Full_BIT'', 10000, ''full'', ''LRM''),
      (''ETHTOOL_LINK_MODE_10000baseER_Full_BIT'', 10000, ''full'', ''ER''),
      (''ETHTOOL_LINK_MODE_5000baseT_Full_BIT'', 5000, ''full'', ''T''),
      (''ETHTOOL_LINK_MODE_50000baseKR_Full_BIT'', 50000, ''full'', ''KR''),
      (''ETHTOOL_LINK_MODE_50000baseSR_Full_BIT'', 50000, ''full'', ''SR''),
      (''ETHTOOL_LINK_MODE_50000baseCR_Full_BIT'', 50000, ''full'', ''CR''),
      (''ETHTOOL_LINK_MODE_50000baseLR_ER_FR_Full_BIT'', 50000, ''full'', ''LR_ER_FR''),
      (''ETHTOOL_LINK_MODE_50000baseDR_Full_BIT'', 50000, ''full'', ''DR''),
      (''ETHTOOL_LINK_MODE_100000baseKR2_Full_BIT'', 100000, ''full'', ''KR2''),
      (''ETHTOOL_LINK_MODE_100000baseSR2_Full_BIT'', 100000, ''full'', ''SR2''),
      (''ETHTOOL_LINK_MODE_100000baseCR2_Full_BIT'', 100000, ''full'', ''CR2''),
      (''ETHTOOL_LINK_MODE_100000baseLR2_ER2_FR2_Full_BIT'', 100000, ''full'', ''LR2_ER2_FR2''),
      (''ETHTOOL_LINK_MODE_100000baseDR2_Full_BIT'', 100000, ''full'', ''DR2''),
      (''ETHTOOL_LINK_MODE_200000baseKR4_Full_BIT'', 200000, ''full'', ''KR4''),
      (''ETHTOOL_LINK_MODE_200000baseSR4_Full_BIT'', 200000, ''full'', ''SR4''),
      (''ETHTOOL_LINK_MODE_200000baseLR4_ER4_FR4_Full_BIT'', 200000, ''full'', ''LR4_ER4_FR4''),
      (''ETHTOOL_LINK_MODE_200000baseDR4_Full_BIT'', 200000, ''full'', ''DR4''),
      (''ETHTOOL_LINK_MODE_200000baseCR4_Full_BIT'', 200000, ''full'', ''CR4''),
      (''ETHTOOL_LINK_MODE_100baseT1_Full_BIT'', 100, ''full'', ''T1''),
      (''ETHTOOL_LINK_MODE_1000baseT1_Full_BIT'', 1000, ''full'', ''T1''),
      (''ETHTOOL_LINK_MODE_400000baseKR8_Full_BIT'', 400000, ''full'', ''KR8''),
      (''ETHTOOL_LINK_MODE_400000baseSR8_Full_BIT'', 400000, ''full'', ''SR8''),
      (''ETHTOOL_LINK_MODE_400000baseLR8_ER8_FR8_Full_BIT'', 400000, ''full'', ''LR8_ER8_FR8''),
      (''ETHTOOL_LINK_MODE_400000baseDR8_Full_BIT'', 400000, ''full'', ''DR8''),
      (''ETHTOOL_LINK_MODE_400000baseCR8_Full_BIT'', 400000, ''full'', ''CR8''),
      (''ETHTOOL_LINK_MODE_100000baseKR_Full_BIT'', 100000, ''full'', ''KR''),
      (''ETHTOOL_LINK_MODE_100000baseSR_Full_BIT'', 100000, ''full'', ''SR''),
      (''ETHTOOL_LINK_MODE_100000baseLR_ER_FR_Full_BIT'', 100000, ''full'', ''LR_ER_FR''),
      (''ETHTOOL_LINK_MODE_100000baseCR_Full_BIT'', 100000, ''full'', ''CR''),
      (''ETHTOOL_LINK_MODE_100000baseDR_Full_BIT'', 100000, ''full'', ''DR''),
      (''ETHTOOL_LINK_MODE_200000baseKR2_Full_BIT'', 200000, ''full'', ''KR2''),
      (''ETHTOOL_LINK_MODE_200000baseSR2_Full_BIT'', 200000, ''full'', ''SR2''),
      (''ETHTOOL_LINK_MODE_200000baseLR2_ER2_FR2_Full_BIT'', 200000, ''full'', ''LR2_ER2_FR2''),
      (''ETHTOOL_LINK_MODE_200000baseDR2_Full_BIT'', 200000, ''full'', ''DR2''),
      (''ETHTOOL_LINK_MODE_200000baseCR2_Full_BIT'', 200000, ''full'', ''CR2''),
      (''ETHTOOL_LINK_MODE_400000baseKR4_Full_BIT'', 400000, ''full'', ''KR4''),
      (''ETHTOOL_LINK_MODE_400000baseSR4_Full_BIT'', 400000, ''full'', ''SR4''),
      (''ETHTOOL_LINK_MODE_400000baseLR4_ER4_FR4_Full_BIT'', 400000, ''full'', ''LR4_ER4_FR4''),
      (''ETHTOOL_LINK_MODE_400000baseDR4_Full_BIT'', 400000, ''full'', ''DR4''),
      (''ETHTOOL_LINK_MODE_400000baseCR4_Full_BIT'', 400000, ''full'', ''CR4''),
      (''ETHTOOL_LINK_MODE_100baseFX_Half_BIT'', 100, ''half'', ''FX''),
      (''ETHTOOL_LINK_MODE_100baseFX_Full_BIT'', 100, ''full'', ''FX'')]"

definition updateSpeeds :: "ethtoolOrder \<Rightarrow> ethtoolEnv \<Rightarrow> ethtoolCollector \<Rightarrow> string \<Rightarrow> string \<Rightarrow> uint32 \<Rightarrow> upd" where
  "updateSpeeds ord env c pre device linkModes =
     foreach (\<lambda>(bit, speed, duplex, phy).
         if has_mode env linkModes bit
         then eth_gauge c (pre @ ''_speed'') (f64_mul (f64_of_int speed) (Fin 125000)) [device, duplex, Itoa speed @ ''base'' @ phy]
         else emit [])
       (ord_speeds ord linkSpeeds)"

section \<open>Statistics\<close>

text \<open>
  A clash of names is remembered by an empty entry, so that a third statistic of the name does not
  bring it back.
\<close>

definition stat_step :: "ethtoolCollector \<Rightarrow> string \<times> uint64 \<Rightarrow> (string, string) gomap \<times> (string, uint64) gomap \<Rightarrow> (string, string) gomap \<times> (string, uint64) gomap" where
  "stat_step c = (\<lambda>(metric, v) (metricFQNames, renamedStats).
     let name = SanitizeMetricName metric in
     if \<not> MatchString (metricsPattern c) name then (metricFQNames, renamedStats)
     else let fq = ethtoolName name in
          (case map_get metricFQNames fq of
             Some _ \<Rightarrow> (map_put fq [] metricFQNames, renamedStats)
           | None \<Rightarrow> (map_put fq name metricFQNames, map_put name v renamedStats)))"

definition stat_names :: "ethtoolOrder \<Rightarrow> ethtoolCollector \<Rightarrow> (string, uint64) gomap \<Rightarrow> (string, string) gomap \<times> (string, uint64) gomap" where
  "stat_names ord c stats = fold (stat_step c) (ord_ethstats ord stats) ([], [])"

definition entryWithCreate :: "string \<Rightarrow> string \<Rightarrow> ethtoolCollector \<Rightarrow> ethtoolCollector \<times> desc" where
  "entryWithCreate key fq c =
     (case map_get (eth_entries c) key of
        Some d \<Rightarrow> (c, d)
      | None \<Rightarrow>
          let d = NewDesc (BuildFQName namespace ''ethtool'' fq) (''Network interface '' @ key) [''device'']
          in (c\<lparr>eth_entries := map_put key d (eth_entries c)\<rparr>, d))"

fun send_keys_eth :: "string \<Rightarrow> (string, string) gomap \<Rightarrow> (string, uint64) gomap \<Rightarrow> string list \<Rightarrow> ethtoolCollector \<Rightarrow> ethtoolCollector \<times> metric list" where
  "send_keys_eth device fqs renamed [] c = (c, [])"
| "send_keys_eth device fqs renamed (fq # ks) c =
     (let metric = map_get_z [] fqs fq in
      if metric = [] then send_keys_eth device fqs renamed ks c
      else let (c1, d) = entryWithCreate metric fq c;
               (c2, ms) = send_keys_eth device fqs renamed ks c1
           in (c2, MustNewConstMetric d UntypedValue (f64_of_nat (unat (map_get_z 0 renamed metric))) [device] # ms))"

definition eth_stats :: "ethtoolOrder \<Rightarrow> string \<Rightarrow> (string, uint64) gomap \<Rightarrow> ethtoolCollector \<Rightarrow> ethtoolCollector \<times> metric list" where
  "eth_stats ord device stats c =
     (let (fqs, renamed) = stat_names ord c stats
      in send_keys_eth device fqs renamed (sort (ord_keys ord (map fst fqs))) c)"

section \<open>Update\<close>

definition eth_link :: "ethtoolOrder \<Rightarrow> ethtoolEnv \<Rightarrow> ethtoolCollector \<Rightarrow> string \<Rightarrow> upd" where
  "eth_link ord env c device =
     (case LinkInfo env device of
        Ok li \<Rightarrow>
          seq (updateSpeeds ord env c ''supported'' device (Supported li))
          (seq (updatePortInfo ord env c device (Supported li))
          (seq (updatePortCapabilities env c ''supported'' device (Supported li))
          (seq (updateSpeeds ord env c ''advertised'' device (Advertising li))
          (seq (updatePortCapabilities env c ''advertised'' device (Advertising li))
            (eth_gauge c ''autonegotiate'' (f64_of_nat (unat (Autoneg li))) [device])))))
      | Err _ \<Rightarrow> emit []
      | Panic p \<Rightarrow> ([], Panic p))"

definition eth_driver :: "ethtoolEnv \<Rightarrow> string \<Rightarrow> upd" where
  "eth_driver env device =
     (case DriverInfo env device of
        Ok d \<Rightarrow> emit [MustNewConstMetric eth_infoDesc GaugeValue (Fin 1) [BusInfo d, device, Driver d, EromVersion d, FwVersion d, DrvVersion d]]
      | Err _ \<Rightarrow> emit []
      | Panic p \<Rightarrow> ([], Panic p))"

fun eth_devices :: "ethtoolOrder \<Rightarrow> ethtoolEnv \<Rightarrow> string list \<Rightarrow> ethtoolCollector \<Rightarrow> ethtoolCollector \<times> upd" where
  "eth_devices ord env [] c = (c, emit [])"
| "eth_devices ord env (device # ds) c =
     (if ignored (eth_deviceFilter c) device then eth_devices ord env ds c
      else let pre = seq (eth_link ord env c device) (eth_driver env device) in
           (case snd pre of
              Ok _ \<Rightarrow>
                let (c1, ms) = (if fst (eth_Stats env device) = [] then (c, []) else eth_stats ord device (fst (eth_Stats env device)) c);
                    (c2, u) = eth_devices ord env ds c1
                in (c2, seq pre (seq (emit ms) u))
            | _ \<Rightarrow> (c, pre)))"

definition eth_Update :: "ethtoolOrder \<Rightarrow> ethtoolEnv \<Rightarrow> ethtoolCollector \<Rightarrow> ethtoolCollector \<times> upd" where
  "eth_Update ord env c =
     (case NetClassDevices env of
        Err e \<Rightarrow> (c, if errors_Is e ErrNotExist \<or> errors_Is e ErrPermission then fail ErrNoData
                      else fail (Wrapf ''could not get net class info: %w'' [] e))
      | Panic p \<Rightarrow> (c, ([], Panic p))
      | Ok netClass \<Rightarrow>
          if netClass = [] then (c, fail (Errorf ''no network devices found'' []))
          else eth_devices ord env netClass c)"

section \<open>Clashes of names\<close>

text \<open>The statistics the pattern selects that get a given name.\<close>

definition named :: "ethtoolCollector \<Rightarrow> string \<Rightarrow> string \<times> uint64 \<Rightarrow> bool" where
  "named c fq = (\<lambda>(m, v). MatchString (metricsPattern c) (SanitizeMetricName m) \<and> ethtoolName (SanitizeMetricName m) = fq)"

lemma stat_step_other: "\<not> MatchString (metricsPattern c) (SanitizeMetricName m) \<Longrightarrow> stat_step c (m, v) FR = FR"
  by (cases FR) (simp add: stat_step_def)

lemma stat_fold:
  assumes "fold (stat_step c) xs ([], []) = (F, R)"
  shows "wf_map F \<and>
    (\<forall>fq. map_get F fq = (case filter (named c fq) xs of [] \<Rightarrow> None | [(m, v)] \<Rightarrow> Some (SanitizeMetricName m) | _ \<Rightarrow> Some [])) \<and>
    (\<forall>fq m v. filter (named c fq) xs = [(m, v)] \<longrightarrow> map_get R (SanitizeMetricName m) = Some v)"
  using assms
proof (induction xs arbitrary: F R rule: rev_induct)
  case (snoc x xs)
  obtain m v where x: "x = (m, v)" by fastforce
  obtain F0 R0 where 0: "fold (stat_step c) xs ([], []) = (F0, R0)" by fastforce
  note IH = snoc.IH [OF 0]
  let ?name = "SanitizeMetricName m"
  let ?fq = "ethtoolName ?name"
  show ?case
  proof (cases "MatchString (metricsPattern c) ?name")
    case False
    then have "F = F0" "R = R0" using snoc.prems 0 x by (simp_all add: stat_step_other)
    moreover have "filter (named c fq) (xs @ [x]) = filter (named c fq) xs" for fq using False x by (simp add: named_def)
    ultimately show ?thesis using IH by simp
  next
    case True
    have here: "filter (named c fq) (xs @ [x]) = filter (named c fq) xs @ (if fq = ?fq then [x] else [])" for fq
      using True x by (auto simp: named_def)
    show ?thesis
    proof (cases "filter (named c ?fq) xs")
      case Nil
      then have "map_get F0 ?fq = None" using IH by simp
      then have FR: "F = map_put ?fq ?name F0" "R = map_put ?name v R0"
        using snoc.prems 0 x True by (simp_all add: stat_step_def Let_def)
      have R: "map_get R (SanitizeMetricName m') = Some v'" if "filter (named c fq) (xs @ [x]) = [(m', v')]" for fq m' v'
      proof (cases "fq = ?fq")
        case False
        then have "filter (named c fq) xs = [(m', v')]" using that here by simp
        moreover from this have "(m', v') \<in> set (filter (named c fq) xs)" by simp
        then have "SanitizeMetricName m' \<noteq> ?name" using False by (auto simp: named_def)
        ultimately show ?thesis using IH FR by simp
      qed (use that here Nil x FR in simp)
      moreover have "map_get F fq = (case filter (named c fq) (xs @ [x]) of [] \<Rightarrow> None | [(m, v)] \<Rightarrow> Some (SanitizeMetricName m) | _ \<Rightarrow> Some [])" for fq
        unfolding here using IH FR Nil x by (cases "fq = ?fq") simp_all
      ultimately show ?thesis using IH FR(1) by simp
    next
      case (Cons y ys)
      then obtain z where "map_get F0 ?fq = Some z" using IH by (cases ys; cases y) auto
      then have FR: "F = map_put ?fq [] F0" "R = R0"
        using snoc.prems 0 x True by (simp_all add: stat_step_def Let_def)
      have "map_get F fq = (case filter (named c fq) (xs @ [x]) of [] \<Rightarrow> None | [(m, v)] \<Rightarrow> Some (SanitizeMetricName m) | _ \<Rightarrow> Some [])" for fq
        unfolding here using IH FR Cons by (cases "fq = ?fq"; cases y; cases ys) simp_all
      moreover have "map_get R (SanitizeMetricName m') = Some v'" if "filter (named c fq) (xs @ [x]) = [(m', v')]" for fq m' v'
        using that IH FR Cons unfolding here by (cases "fq = ?fq") simp_all
      ultimately show ?thesis using IH FR(1) by simp
    qed
  qed
qed simp

text \<open>A statistic is exported when it is the only selected one with its name, and has a name at all.\<close>

definition exported :: "ethtoolCollector \<Rightarrow> (string, uint64) gomap \<Rightarrow> string \<Rightarrow> bool" where
  "exported c stats fq \<longleftrightarrow> (\<exists>m v. filter (named c fq) stats = [(m, v)] \<and> SanitizeMetricName m \<noteq> [])"

definition eth_desc :: "ethtoolCollector \<Rightarrow> string \<Rightarrow> string \<Rightarrow> desc" where
  "eth_desc c key fq =
     (case map_get (eth_entries c) key of
        Some d \<Rightarrow> d
      | None \<Rightarrow> NewDesc (BuildFQName namespace ''ethtool'' fq) (''Network interface '' @ key) [''device''])"

lemma send_keys_eth_spec:
  assumes "send_keys_eth device F R ks c = (c', ms)" "distinct ks"
    and "\<And>fq. fq \<in> set ks \<Longrightarrow> map_get_z [] F fq \<noteq> [] \<Longrightarrow> ethtoolName (map_get_z [] F fq) = fq"
  shows "ms = map (\<lambda>fq. let n = map_get_z [] F fq in
      MustNewConstMetric (eth_desc c n fq) UntypedValue (f64_of_nat (unat (map_get_z 0 R n))) [device])
    (filter (\<lambda>fq. map_get_z [] F fq \<noteq> []) ks)"
  using assms
proof (induction ks arbitrary: c c' ms)
  case (Cons fq ks)
  let ?n = "map_get_z [] F fq"
  show ?case
  proof (cases "?n = []")
    case False
    obtain c1 d where 1: "entryWithCreate ?n fq c = (c1, d)" by fastforce
    obtain ms1 where 2: "send_keys_eth device F R ks c1 = (c', ms1)"
      and ms: "ms = MustNewConstMetric d UntypedValue (f64_of_nat (unat (map_get_z 0 R ?n))) [device] # ms1"
      using Cons.prems(1) False 1 by (auto simp: Let_def split: prod.splits)
    have d: "d = eth_desc c ?n fq" using 1 by (auto simp: entryWithCreate_def eth_desc_def Let_def split: option.splits)
    have "eth_desc c1 (map_get_z [] F fq') fq' = eth_desc c (map_get_z [] F fq') fq'"
      if "fq' \<in> set ks" "map_get_z [] F fq' \<noteq> []" for fq'
    proof -
      have "map_get_z [] F fq' \<noteq> ?n" using that False Cons.prems(2,3) by (metis distinct.simps(2) list.set_intros(1,2))
      then show ?thesis using 1 by (auto simp: entryWithCreate_def eth_desc_def Let_def split: option.splits)
    qed
    with Cons.IH [OF 2] Cons.prems(2,3) ms d False show ?thesis by (simp add: Let_def cong: map_cong)
  qed (use Cons in \<open>simp add: Let_def\<close>)
qed simp

lemma perm_filter_singleton: "mset xs = mset ys \<Longrightarrow> filter P xs = [x] \<longleftrightarrow> filter P ys = [x]"
proof -
  have "filter P xs = [x]" if "mset xs = mset ys" "filter P ys = [x]" for xs ys
  proof -
    have "mset (filter P xs) = mset (filter P ys)" using that(1) by simp
    then show ?thesis unfolding that(2) by (simp del: mset_filter)
  qed
  then show "mset xs = mset ys \<Longrightarrow> filter P xs = [x] \<longleftrightarrow> filter P ys = [x]" by metis
qed

lemma stat_names_get:
  assumes "range_order (ord_ethstats ord)" "stat_names ord c stats = (F, R)"
  shows "wf_map F"
    and "map_get_z [] F fq \<noteq> [] \<longleftrightarrow> exported c stats fq"
    and "filter (named c fq) stats = [(m, v)] \<Longrightarrow> map_get_z [] F fq = SanitizeMetricName m \<and> map_get_z 0 R (SanitizeMetricName m) = v"
    and "exported c stats fq \<Longrightarrow> fq \<in> fst ` set F"
proof -
  let ?xs = "ord_ethstats ord stats"
  note s = stat_fold [OF assms(2) [unfolded stat_names_def]]
  have single: "filter (named c fq) ?xs = [q] \<longleftrightarrow> filter (named c fq) stats = [q]" for fq q
    using assms(1) by (intro perm_filter_singleton range_order_mset)
  have F: "map_get F fq = (case filter (named c fq) ?xs of [] \<Rightarrow> None | [(m, v)] \<Rightarrow> Some (SanitizeMetricName m) | _ \<Rightarrow> Some [])" for fq
    using s by blast
  show "wf_map F" using s by blast
  show *: "map_get_z [] F fq = SanitizeMetricName m \<and> map_get_z 0 R (SanitizeMetricName m) = v" if "filter (named c fq) stats = [(m, v)]" for fq m v
    using that s F [of fq] unfolding single [symmetric] by (simp add: map_get_z_def)
  have "exported c stats fq" if "map_get_z [] F fq \<noteq> []" for fq
  proof -
    from that have "\<exists>m v. filter (named c fq) ?xs = [(m, v)]"
      using F [of fq] by (auto simp: map_get_z_def split: option.splits list.splits prod.splits)
    then obtain m v where "filter (named c fq) stats = [(m, v)]" unfolding single by blast
    with * [OF this] that show ?thesis by (auto simp: exported_def)
  qed
  moreover have "map_get_z [] F fq \<noteq> []" if "exported c stats fq" for fq using that * by (auto simp: exported_def)
  ultimately show ex: "map_get_z [] F fq \<noteq> [] \<longleftrightarrow> exported c stats fq" for fq by blast
  show "fq \<in> fst ` set F" if "exported c stats fq" for fq
    using ex [of fq] that by (auto simp: map_get_z_def dom_map_of_conv_image_fst [symmetric] split: option.splits)
qed

section \<open>Link modes as bits\<close>

text \<open>A mode is reported exactly when its bit is set; modes beyond the 32 bits of the mask never are.\<close>

lemma has_mode_bit: "has_mode env w mode \<longleftrightarrow> mode_bit env mode < 32 \<and> bit w (mode_bit env mode)"
  using bit_imp_le_length [of w "mode_bit env mode"] by (auto simp: has_mode_def and_exp_eq_0_iff_not_bit)

section \<open>The contract\<close>

text \<open>
  The entries of the link information keep their labels, every other entry has the device label
  only, and the driver has no statistic with the name of a link entry that has more labels.
\<close>

definition wide_keys :: "string list" where
  "wide_keys = [''supported_port'', ''supported_speed'', ''advertised_speed'']"

definition entries_ok :: "(string, desc) gomap \<Rightarrow> bool" where
  "entries_ok m \<longleftrightarrow>
     (\<forall>(k, d) \<in> set ethtool_entries. map_get m k = Some d) \<and>
     (\<forall>k d. map_get m k = Some d \<longrightarrow> k \<notin> set wide_keys \<longrightarrow> length (desc_labels d) = 1)"

lemma entries_ok_initial: "entries_ok ethtool_entries"
  unfolding entries_ok_def
proof (intro conjI allI impI ballI)
  have d: "distinct (map fst ethtool_entries)" by code_simp
  show "case kd of (k, d) \<Rightarrow> map_get ethtool_entries k = Some d" if "kd \<in> set ethtool_entries" for kd
    using that map_of_is_SomeI [OF d] by auto
  have "list_all (\<lambda>(k, d). k \<notin> set wide_keys \<longrightarrow> length (desc_labels d) = 1) ethtool_entries" by code_simp
  then show "length (desc_labels d) = 1" if "map_get ethtool_entries k = Some d" "k \<notin> set wide_keys" for k d
    using that d by (auto simp: list_all_iff)
qed

text \<open>An update that ends normally and sends only metrics with fitting labels.\<close>

definition good :: "upd \<Rightarrow> bool" where
  "good u \<longleftrightarrow> upd_ok u \<and> snd u = Ok ()"

lemma good_intros [intro]:
  "good u \<Longrightarrow> good v \<Longrightarrow> good (seq u v)" "list_all labels_ok ms \<Longrightarrow> good (emit ms)" "(\<And>x. x \<in> set xs \<Longrightarrow> good (f x)) \<Longrightarrow> good (foreach f xs)"
  by (auto simp: good_def snd_foreach_Ok_iff)

definition link_labels :: "string \<Rightarrow> nat option" where
  "link_labels key = map_option (\<lambda>d. length (desc_labels d)) (map_get ethtool_entries key)"

lemma eth_gauge_good:
  assumes "entries_ok (eth_entries c)" "link_labels key = Some (length labels)"
  shows "good (eth_gauge c key v labels)"
proof -
  obtain d where d: "map_get ethtool_entries key = Some d" "length (desc_labels d) = length labels"
    using assms(2) by (auto simp: link_labels_def)
  have "map_get (eth_entries c) key = Some d" using assms(1) map_of_SomeD [OF d(1)] by (auto simp: entries_ok_def)
  with d(2) show ?thesis by (simp add: eth_gauge_def with_entry_def good_def)
qed

lemma link_labels_simps:
  "link_labels ''supported_port'' = Some 2" "link_labels ''autonegotiate'' = Some 1"
  "pre = ''supported'' \<or> pre = ''advertised'' \<Longrightarrow> link_labels (pre @ ''_speed'') = Some 3"
  "pre = ''supported'' \<or> pre = ''advertised'' \<Longrightarrow> link_labels (pre @ ''_autonegotiate'') = Some 1"
  "pre = ''supported'' \<or> pre = ''advertised'' \<Longrightarrow> link_labels (pre @ ''_pause'') = Some 1"
  "pre = ''supported'' \<or> pre = ''advertised'' \<Longrightarrow> link_labels (pre @ ''_asymmetricpause'') = Some 1"
  by (auto simp: link_labels_def ethtool_entries_def)

lemma eth_link_good:
  assumes e: "entries_ok (eth_entries c)" and np: "\<not> panics (LinkInfo env device)"
  shows "good (eth_link ord env c device)"
proof -
  have speeds: "good (updateSpeeds ord env c pre device w)" if "pre = ''supported'' \<or> pre = ''advertised''" for pre w
    unfolding updateSpeeds_def using e link_labels_simps(3) [OF that]
    by (auto intro!: good_intros eth_gauge_good)
  have ports: "good (updatePortInfo ord env c device w)" for w
    unfolding updatePortInfo_def using e link_labels_simps(1) by (auto intro!: good_intros eth_gauge_good)
  have caps: "good (updatePortCapabilities env c pre device w)" if "pre = ''supported'' \<or> pre = ''advertised''" for pre w
    unfolding updatePortCapabilities_def using e link_labels_simps(4-6) [OF that] by (intro good_intros eth_gauge_good) simp_all
  have auto: "good (eth_gauge c ''autonegotiate'' v [device])" for v using e link_labels_simps(2) by (intro eth_gauge_good) simp_all
  show ?thesis
    using np speeds ports caps auto by (cases "LinkInfo env device") (auto simp: eth_link_def intro!: good_intros)
qed

lemma eth_driver_good: "\<not> panics (DriverInfo env device) \<Longrightarrow> good (eth_driver env device)"
  by (cases "DriverInfo env device") (auto simp: eth_driver_def eth_infoDesc_def intro!: good_intros)

lemma entryWithCreate_ok:
  assumes "entries_ok (eth_entries c)" "key \<notin> set wide_keys" "entryWithCreate key fq c = (c', d)"
  shows "entries_ok (eth_entries c') \<and> length (desc_labels d) = 1 \<and> eth_deviceFilter c' = eth_deviceFilter c"
proof (cases "map_get (eth_entries c) key")
  case None
  let ?d = "NewDesc (BuildFQName namespace ''ethtool'' fq) (''Network interface '' @ key) [''device'']"
  have "entries_ok (map_put key ?d (eth_entries c))"
    using assms(1) None by (fastforce simp: entries_ok_def)
  then show ?thesis using assms(3) None by (auto simp: entryWithCreate_def Let_def)
qed (use assms in \<open>auto simp: entryWithCreate_def entries_ok_def\<close>)

lemma send_keys_eth_ok:
  assumes "entries_ok (eth_entries c)" "\<And>fq. fq \<in> set ks \<Longrightarrow> map_get_z [] F fq \<notin> set wide_keys" "send_keys_eth device F R ks c = (c', ms)"
  shows "entries_ok (eth_entries c') \<and> list_all labels_ok ms \<and> eth_deviceFilter c' = eth_deviceFilter c"
  using assms
proof (induction ks arbitrary: c c' ms)
  case (Cons fq ks)
  obtain c1 d where 1: "entryWithCreate (map_get_z [] F fq) fq c = (c1, d)" by fastforce
  obtain c2 ms2 where 2: "send_keys_eth device F R ks c1 = (c2, ms2)" by fastforce
  have "entries_ok (eth_entries c1) \<and> length (desc_labels d) = 1 \<and> eth_deviceFilter c1 = eth_deviceFilter c"
    using entryWithCreate_ok [OF Cons.prems(1) _ 1] Cons.prems(2) by simp
  then show ?case
    using Cons.IH [OF _ _ 2] Cons.IH [OF Cons.prems(1), of c' ms] Cons.prems 1 2 by (auto simp: Let_def split: if_splits)
qed simp

definition eth_pre :: "ethtoolOrder \<times> ethtoolEnv \<times> ethtoolCollector \<Rightarrow> bool" where
  "eth_pre = (\<lambda>(ord, env, c). entries_ok (eth_entries c) \<and> range_order (ord_ethstats ord) \<and> \<not> panics (NetClassDevices env) \<and>
     (\<forall>d. \<not> panics (LinkInfo env d) \<and> \<not> panics (DriverInfo env d) \<and>
        (\<forall>(m, v) \<in> set (fst (eth_Stats env d)). SanitizeMetricName m \<notin> set wide_keys)))"

lemma eth_stats_ok:
  assumes "entries_ok (eth_entries c)" "range_order (ord_ethstats ord)" "\<forall>(m, v) \<in> set stats. SanitizeMetricName m \<notin> set wide_keys"
    and "eth_stats ord device stats c = (c', ms)"
  shows "entries_ok (eth_entries c') \<and> list_all labels_ok ms"
proof -
  obtain F R where FR: "stat_names ord c stats = (F, R)" by fastforce
  have "map_get_z [] F fq \<notin> set wide_keys" for fq
  proof (cases "exported c stats fq")
    case True
    then obtain m v where mv: "filter (named c fq) stats = [(m, v)]" by (auto simp: exported_def)
    then have "(m, v) \<in> set (filter (named c fq) stats)" by simp
    then have "(m, v) \<in> set stats" by simp
    with assms(3) stat_names_get(3) [OF assms(2) FR mv] show ?thesis by auto
  next
    case False
    then have "map_get_z [] F fq = []" using stat_names_get(2) [OF assms(2) FR] by blast
    then show ?thesis by (simp add: wide_keys_def)
  qed
  then show ?thesis using send_keys_eth_ok [OF assms(1), of _ F] assms(4) FR by (auto simp: eth_stats_def)
qed

lemma eth_devices_good: "eth_pre (ord, env, c) \<Longrightarrow>
    good (snd (eth_devices ord env ds c)) \<and> entries_ok (eth_entries (fst (eth_devices ord env ds c)))"
proof (induction ds arbitrary: c)
  case (Cons d ds)
  have pre: "entries_ok (eth_entries c)" "range_order (ord_ethstats ord)" "\<not> panics (LinkInfo env d)" "\<not> panics (DriverInfo env d)"
    "\<forall>(m, v) \<in> set (fst (eth_Stats env d)). SanitizeMetricName m \<notin> set wide_keys"
    using Cons.prems by (auto simp: eth_pre_def)
  let ?pre = "seq (eth_link ord env c d) (eth_driver env d)"
  have g: "good ?pre" using eth_link_good [OF pre(1,3)] eth_driver_good [OF pre(4)] by (rule good_intros)
  obtain c1 ms where 1: "(if fst (eth_Stats env d) = [] then (c, []) else eth_stats ord d (fst (eth_Stats env d)) c) = (c1, ms)" by fastforce
  have 2: "entries_ok (eth_entries c1) \<and> list_all labels_ok ms"
    using 1 pre(1) eth_stats_ok [OF pre(1,2,5)] by (auto split: if_splits)
  then have "eth_pre (ord, env, c1)" using Cons.prems by (simp add: eth_pre_def)
  note IH = Cons.IH [OF this]
  then have "good (seq (emit ms) (snd (eth_devices ord env ds c1)))"
    using 2 by (intro good_intros(1,2)) simp_all
  with g have "good (seq ?pre (seq (emit ms) (snd (eth_devices ord env ds c1))))" by (rule good_intros(1))
  moreover have "eth_devices ord env (d # ds) c = (fst (eth_devices ord env ds c1), seq ?pre (seq (emit ms) (snd (eth_devices ord env ds c1))))"
    if "\<not> ignored (eth_deviceFilter c) d"
  proof -
    define P where "P = ?pre"
    have "snd P = Ok ()" using g by (simp add: P_def good_def)
    then show ?thesis unfolding eth_devices.simps 1 P_def [symmetric] Let_def using that by (simp add: case_prod_beta)
  qed
  ultimately show ?case using Cons.IH [OF Cons.prems] IH by (cases "ignored (eth_deviceFilter c) d") auto
qed (simp add: good_def eth_pre_def)

interpretation ethtool: safe_collector_contract "\<lambda>(ord, env, c). snd (eth_Update ord env c)" eth_pre
proof unfold_locales
  fix e assume pre: "eth_pre e"
  obtain ord env c where e: "e = (ord, env, c)" by (cases e)
  have g: "good (snd (eth_devices ord env ds c))" for ds using eth_devices_good pre e by blast
  have np: "\<not> panics (NetClassDevices env)" using pre by (simp add: e eth_pre_def)
  show "upd_ok (case e of (ord, env, c) \<Rightarrow> snd (eth_Update ord env c))"
    "\<not> panics (snd (case e of (ord, env, c) \<Rightarrow> snd (eth_Update ord env c)))"
    using g np by (cases "NetClassDevices env"; simp add: e eth_Update_def good_def)+
qed

interpretation ethtool_state: stateful_collector "\<lambda>(ord, env). eth_Update ord env"
  "\<lambda>(ord, env). \<forall>c. entries_ok (eth_entries c) \<longrightarrow> eth_pre (ord, env, c)" "\<lambda>c. entries_ok (eth_entries c)"
proof unfold_locales
  fix c :: ethtoolCollector and e
  assume inv: "entries_ok (eth_entries c)" and "case e of (ord, env) \<Rightarrow> \<forall>c. entries_ok (eth_entries c) \<longrightarrow> eth_pre (ord, env, c)"
  then obtain ord env where e: "e = (ord, env)" and pre: "eth_pre (ord, env, c)" by (cases e) auto
  show "entries_ok (eth_entries (fst ((case e of (ord, env) \<Rightarrow> eth_Update ord env) c)))"
    using eth_devices_good [OF pre] inv by (simp add: e eth_Update_def split: res.splits)
  show "sound (snd ((case e of (ord, env) \<Rightarrow> eth_Update ord env) c))"
    using ethtool.update_labels [of "(ord, env, c)"] ethtool.update_no_panic [of "(ord, env, c)"] pre by (simp add: e sound_def)
qed

section \<open>Properties\<close>

text \<open>
  C20: Statistics whose names become the same by sanitising are all dropped, whatever order the
  runtime iterates them in: what is exported is one sample for each name that exactly one selected
  statistic has, with that statistic's value, sorted by name.
\<close>

theorem ethtool_stats_unique:
  assumes "range_order (ord_ethstats ord)" "range_order (ord_keys ord)" "eth_stats ord device stats c = (c', ms)"
  shows "\<exists>fqs. sorted fqs \<and> distinct fqs \<and> set fqs = {fq. exported c stats fq} \<and>
    list_all2 (\<lambda>fq s. \<exists>m v. filter (named c fq) stats = [(m, v)] \<and>
      s = MustNewConstMetric (eth_desc c (SanitizeMetricName m) fq) UntypedValue (f64_of_nat (unat v)) [device]) fqs ms"
proof -
  obtain F R where FR: "stat_names ord c stats = (F, R)" by fastforce
  note F = stat_names_get [OF assms(1) FR]
  let ?ks = "sort (ord_keys ord (map fst F))"
  let ?fqs = "filter (\<lambda>fq. map_get_z [] F fq \<noteq> []) ?ks"
  have dist: "distinct ?ks" using F(1) assms(2) by simp
  have name: "ethtoolName (map_get_z [] F fq) = fq" if ne: "map_get_z [] F fq \<noteq> []" for fq
  proof -
    obtain m v where mv: "filter (named c fq) stats = [(m, v)]" using ne F(2) by (auto simp: exported_def)
    have "(m, v) \<in> set (filter (named c fq) stats)" by (simp add: mv)
    then show ?thesis using F(3) [OF mv] by (simp add: named_def)
  qed
  have "ms = map (\<lambda>fq. let n = map_get_z [] F fq in
      MustNewConstMetric (eth_desc c n fq) UntypedValue (f64_of_nat (unat (map_get_z 0 R n))) [device]) ?fqs"
    using assms(3) FR by (intro send_keys_eth_spec [OF _ dist]) (auto simp: eth_stats_def name)
  moreover have "\<exists>m v. filter (named c fq) stats = [(m, v)] \<and> map_get_z [] F fq = SanitizeMetricName m \<and>
      map_get_z 0 R (SanitizeMetricName m) = v" if "fq \<in> set ?fqs" for fq
    using that F(2) F(3) by (auto simp: exported_def)
  ultimately have "list_all2 (\<lambda>fq s. \<exists>m v. filter (named c fq) stats = [(m, v)] \<and>
      s = MustNewConstMetric (eth_desc c (SanitizeMetricName m) fq) UntypedValue (f64_of_nat (unat v)) [device]) ?fqs ms"
    by (fastforce simp: list_all2_map2 Let_def intro: list.rel_refl_strong)
  moreover have "set ?fqs = {fq. exported c stats fq}" using F(2,4) assms(2) by auto
  moreover have "sorted ?fqs" "distinct ?fqs" using dist by (simp_all add: sorted_filter [where f = id, simplified])
  ultimately show ?thesis by blast
qed

definition demo_ethtool :: ethtoolCollector where
  "demo_ethtool = \<lparr>eth_entries = ethtool_entries, eth_deviceFilter = \<lparr>ignorePattern = None, acceptPattern = None\<rparr>, metricsPattern = compiled ''.*''\<rparr>"

definition demo_eth_order :: ethtoolOrder where
  "demo_eth_order = \<lparr>ord_speeds = rev, ord_ports = rev, ord_ethstats = rev, ord_keys = rev\<rparr>"

theorem ethtool_stats_unique_witness:
  "\<exists>fqs. sorted fqs \<and> set fqs = {fq. exported demo_ethtool [(''a-b'', 0), (''a_b'', 0), (''rx'', 0)] fq} \<and>
     length fqs = length (snd (eth_stats demo_eth_order ''eth0'' [(''a-b'', 0), (''a_b'', 0), (''rx'', 0)] demo_ethtool))"
proof -
  let ?r = "eth_stats demo_eth_order ''eth0'' [(''a-b'', 0), (''a_b'', 0), (''rx'', 0)] demo_ethtool"
  have r: "?r = (fst ?r, snd ?r)" by simp
  have ord: "range_order (ord_ethstats demo_eth_order)" "range_order (ord_keys demo_eth_order)"
    by (simp_all add: demo_eth_order_def range_order_rev)
  from ethtool_stats_unique [OF ord r] show ?thesis by (meson list_all2_lengthD)
qed

end
