(* ===== verification/Tcpstat.thy ===== *)
theory Tcpstat
  imports Helpers
begin

text \<open>
  The TCP state collector, \<^verbatim>\<open>tcpstat_linux.go\<close>, which asks the kernel for its sockets over netlink and
  counts them by state. The netlink connection is the environment. The source casts structures to
  and from byte arrays in memory; they are laid out here field by field for a little-endian machine.
  A message shorter than the structure is read past its end, into memory that is an argument.
\<close>

section \<open>States\<close>

definition tcpStates :: "(int \<times> string) list" where
  "tcpStates =
     [(1, ''established''), (2, ''syn_sent''), (3, ''syn_recv''), (4, ''fin_wait1''), (5, ''fin_wait2''), (6, ''time_wait''), (7, ''close''),
      (8, ''close_wait''), (9, ''last_ack''), (10, ''listen''), (11, ''closing''), (12, ''rx_queued_bytes''), (13, ''tx_queued_bytes'')]"

definition tcpRxQueuedBytes :: int where "tcpRxQueuedBytes = 12"
definition tcpTxQueuedBytes :: int where "tcpTxQueuedBytes = 13"

definition state_String :: "int \<Rightarrow> string" where
  "state_String st = map_get_z ''unknown'' tcpStates st"

definition tcp_desc :: typedDesc where
  "tcp_desc = \<lparr>td_desc = NewDesc (BuildFQName namespace ''tcp'' ''connection_states'') ''Number of connection states.'' [''state''],
     td_valueType = GaugeValue\<rparr>"

section \<open>Messages\<close>

record InetDiagSockID =
  SourcePort :: "uint8 list"
  DestPort :: "uint8 list"
  SourceIP :: "uint8 list"
  DestIP :: "uint8 list"
  Interface :: uint32
  Cookie :: "uint32 \<times> uint32"

record InetDiagReqV2 =
  rq_Family :: uint8
  rq_Protocol :: uint8
  rq_Ext :: uint8
  rq_Pad :: uint8
  rq_States :: uint32
  rq_ID :: InetDiagSockID

definition zeroSockID :: InetDiagSockID where
  "zeroSockID = \<lparr>SourcePort = replicate 2 0, DestPort = replicate 2 0, SourceIP = replicate 16 0, DestIP = replicate 16 0,
     Interface = 0, Cookie = (0, 0)\<rparr>"

definition le32 :: "uint32 \<Rightarrow> uint8 list" where
  "le32 w = map (\<lambda>i. ucast (drop_bit (8 * i) w)) [0..<4]"

definition of_le32 :: "uint8 list \<Rightarrow> uint32" where
  "of_le32 bs = foldr (\<lambda>b w. ucast b + push_bit 8 w) bs 0"

definition sockid_bytes :: "InetDiagSockID \<Rightarrow> uint8 list" where
  "sockid_bytes i = SourcePort i @ DestPort i @ SourceIP i @ DestIP i @ le32 (Interface i) @ le32 (fst (Cookie i)) @ le32 (snd (Cookie i))"

definition sizeOfDiagRequest :: nat where
  "sizeOfDiagRequest = 0x38"

definition Serialize :: "InetDiagReqV2 \<Rightarrow> uint8 list" where
  "Serialize req = take sizeOfDiagRequest
     ([rq_Family req, rq_Protocol req, rq_Ext req, rq_Pad req] @ le32 (rq_States req) @ sockid_bytes (rq_ID req))"

record InetDiagMsg =
  dm_Family :: uint8
  dm_State :: uint8
  dm_RQueue :: uint32
  dm_WQueue :: uint32

definition parseInetDiagMsg :: "uint8 list \<Rightarrow> uint8 list \<Rightarrow> InetDiagMsg res" where
  "parseInetDiagMsg mem b =
     (if b = [] then Panic ''index out of range''
      else let m = b @ mem in
           Ok \<lparr>dm_Family = m ! 0, dm_State = m ! 1,
               dm_RQueue = of_le32 (take 4 (drop 56 m)), dm_WQueue = of_le32 (take 4 (drop 60 m))\<rparr>)"

section \<open>Statistics\<close>

record tcpEnv =
  nl_Dial :: "unit res"
  nl_Execute :: "nat \<Rightarrow> nat \<Rightarrow> uint8 list \<Rightarrow> uint8 list list res"
  memory_after :: "uint8 list"
  has_tcp6 :: "string \<Rightarrow> bool"

definition AF_INET :: uint8 where "AF_INET = 2"
definition AF_INET6 :: uint8 where "AF_INET6 = 10"

definition add_stat :: "int \<Rightarrow> float64 \<Rightarrow> (int, float64) gomap \<Rightarrow> (int, float64) gomap" where
  "add_stat k v m = map_put k (f64_add (map_get_z (Fin 0) m k) v) m"

definition tcp_msg :: "uint8 list \<Rightarrow> uint8 list \<Rightarrow> (int, float64) gomap \<Rightarrow> (int, float64) gomap res" where
  "tcp_msg mem data tcpStats =
     bind_res (parseInetDiagMsg mem data) (\<lambda>msg.
       Ok (add_stat (int (unat (dm_State msg))) (Fin 1)
            (add_stat tcpRxQueuedBytes (f64_of_nat (unat (dm_RQueue msg)))
              (add_stat tcpTxQueuedBytes (f64_of_nat (unat (dm_WQueue msg))) tcpStats))))"

definition parseTCPStats :: "uint8 list \<Rightarrow> uint8 list list \<Rightarrow> (int, float64) gomap res" where
  "parseTCPStats mem msgs = fold_res (tcp_msg mem) msgs []"

definition diag_request :: "uint8 \<Rightarrow> InetDiagReqV2" where
  "diag_request family = \<lparr>rq_Family = family, rq_Protocol = 6, rq_Ext = 2, rq_Pad = 0, rq_States = 0xFFF, rq_ID = zeroSockID\<rparr>"

definition getTCPStats :: "tcpEnv \<Rightarrow> uint8 \<Rightarrow> (int, float64) gomap res" where
  "getTCPStats env family =
     bind_res (map_err (Wrapf ''couldn't connect netlink: %w'' []) (nl_Dial env)) (\<lambda>_.
     bind_res (nl_Execute env 20 0x301 (Serialize (diag_request family))) (parseTCPStats (memory_after env)))"

record tcpOrder =
  ord_tcp6 :: "(int \<times> float64) list \<Rightarrow> (int \<times> float64) list"
  ord_tcp :: "(int \<times> float64) list \<Rightarrow> (int \<times> float64) list"

definition tcp_merged :: "tcpOrder \<Rightarrow> tcpEnv \<Rightarrow> paths \<Rightarrow> (int, float64) gomap res" where
  "tcp_merged ord env p =
     bind_res (map_err (Wrapf ''couldn't get tcpstats: %w'' []) (getTCPStats env AF_INET)) (\<lambda>tcpStats.
       if has_tcp6 env (procFilePath p ''net/tcp6'')
       then bind_res (map_err (Wrapf ''couldn't get tcp6stats: %w'' []) (getTCPStats env AF_INET6)) (\<lambda>tcp6Stats.
              Ok (fold (\<lambda>(st, v). add_stat st v) (ord_tcp6 ord tcp6Stats) tcpStats))
       else Ok tcpStats)"

definition tcp_Update :: "tcpOrder \<Rightarrow> tcpEnv \<Rightarrow> paths \<Rightarrow> upd" where
  "tcp_Update ord env p =
     with_res (tcp_merged ord env p) (\<lambda>tcpStats.
       emit (map (\<lambda>(st, v). mustNewConstMetric tcp_desc v [state_String st]) (ord_tcp ord tcpStats)))"

section \<open>Lemmas\<close>

lemma length_le32 [simp]: "length (le32 w) = 4"
  by (simp add: le32_def)

lemma le32_roundtrip: "of_le32 (le32 w) = w"
proof -
  have "of_le32 (le32 w) = ucast (ucast w :: uint8) + push_bit 8 (ucast (ucast (drop_bit 8 w) :: uint8) +
      push_bit 8 (ucast (ucast (drop_bit 16 w) :: uint8) + push_bit 8 (ucast (ucast (drop_bit 24 w) :: uint8))))"
    by (simp add: of_le32_def le32_def eval_nat_numeral)
  also have "\<dots> = w"
  proof (rule bit_word_eqI)
    fix n assume "n < LENGTH(32)"
    then consider "n < 8" | "8 \<le> n" "n < 16" | "16 \<le> n" "n < 24" | "24 \<le> n" "n < 32" by force
    then show "bit (ucast (ucast w :: uint8) + push_bit 8 (ucast (ucast (drop_bit 8 w) :: uint8) +
      push_bit 8 (ucast (ucast (drop_bit 16 w) :: uint8) + push_bit 8 (ucast (ucast (drop_bit 24 w) :: uint8)))) :: uint32) n = bit w n"
      by cases (auto simp: disjunctive_add bit_simps)
  qed
  finally show ?thesis .
qed

text \<open>The messages of a state, and what a map of statistics says about it.\<close>

definition msg_state :: "uint8 list \<Rightarrow> int" where
  "msg_state data = int (unat (data ! 1))"

definition whole_msg :: "uint8 list \<Rightarrow> bool" where
  "whole_msg data \<longleftrightarrow> 72 \<le> length data \<and> msg_state data \<in> {1..11}"

definition counts :: "(int, float64) gomap \<Rightarrow> int \<Rightarrow> nat \<Rightarrow> bool" where
  "counts m s n \<longleftrightarrow> map_get m s = (if n = 0 then None else Some (Fin (of_nat n)))"

lemma tcp_msg_counts:
  assumes "whole_msg data" "tcp_msg mem data m = Ok m'" "s \<in> {1..11}" "counts m s n" "n < 2 ^ 53"
  shows "counts m' s (if msg_state data = s then Suc n else n)"
proof -
  have d: "data \<noteq> []" "(data @ mem) ! 1 = data ! 1" using assms(1) by (auto simp: whole_msg_def nth_append)
  have s: "s \<noteq> tcpRxQueuedBytes" "s \<noteq> tcpTxQueuedBytes" using assms(3) by (auto simp: tcpRxQueuedBytes_def tcpTxQueuedBytes_def)
  have m': "map_get m' s = (if msg_state data = s then Some (f64_add (map_get_z (Fin 0) m s) (Fin 1)) else map_get m s)"
    using assms(2) d s by (auto simp: tcp_msg_def parseInetDiagMsg_def add_stat_def Let_def msg_state_def map_get_z_def)
  have "f64_add (map_get_z (Fin 0) m s) (Fin 1) = Fin (of_nat (Suc n))"
    using assms(4,5) f64_add_nat [of n 1] by (auto simp: counts_def map_get_z_def split: if_splits)
  then show ?thesis using m' assms(4) by (auto simp: counts_def)
qed

lemma parseTCPStats_Ok:
  assumes "list_all whole_msg msgs"
  shows "\<exists>m'. fold_res (tcp_msg mem) msgs m = Ok m'"
  using assms
proof (induction msgs arbitrary: m)
  case (Cons d msgs)
  then obtain u where "tcp_msg mem d m = Ok u" by (cases d) (auto simp: tcp_msg_def parseInetDiagMsg_def whole_msg_def Let_def)
  with Cons show ?case by (simp add: go_simps)
qed simp


lemma parseTCPStats_counts:
  assumes "list_all whole_msg msgs" "fold_res (tcp_msg mem) msgs m = Ok m'" "s \<in> {1..11}" "counts m s n" "n + length msgs \<le> 2 ^ 53"
  shows "counts m' s (n + length (filter (\<lambda>d. msg_state d = s) msgs))"
  using assms
proof (induction msgs arbitrary: m n)
  case (Cons d msgs)
  obtain u where u: "tcp_msg mem d m = Ok u" "fold_res (tcp_msg mem) msgs u = Ok m'" using Cons.prems(2) by (auto simp: go_simps)
  have "counts u s (if msg_state d = s then Suc n else n)" using Cons.prems u by (intro tcp_msg_counts) auto
  from Cons.IH [OF _ u(2) Cons.prems(3) this] Cons.prems show ?case by auto
qed simp

section \<open>The contract\<close>

definition tcp_pre :: "tcpOrder \<times> tcpEnv \<times> paths \<Rightarrow> bool" where
  "tcp_pre = (\<lambda>(ord, env, p). \<not> panics (nl_Dial env) \<and>
     (\<forall>t f d. \<not> panics (nl_Execute env t f d) \<and> (\<forall>msgs. nl_Execute env t f d = Ok msgs \<longrightarrow> [] \<notin> set msgs)))"

interpretation tcpstat: safe_collector_contract "\<lambda>(ord, env, p). tcp_Update ord env p" tcp_pre
proof unfold_locales
  fix e assume pre: "tcp_pre e"
  obtain ord env p where e: "e = (ord, env, p)" by (cases e)
  show "upd_ok (case e of (ord, env, p) \<Rightarrow> tcp_Update ord env p)"
    unfolding e prod.case tcp_Update_def by (intro upd_ok_with_res) (auto simp: tcp_desc_def list_all_iff)
  have msgs: "\<not> panics (parseTCPStats (memory_after env) msgs)" if "[] \<notin> set msgs" for msgs
    unfolding parseTCPStats_def
  proof (rule fold_res_no_panic)
    show "\<not> panics (tcp_msg (memory_after env) d m)" if "d \<in> set msgs" for d m
      using that \<open>[] \<notin> set msgs\<close> by (cases d) (auto simp: tcp_msg_def parseInetDiagMsg_def Let_def)
  qed
  have "\<not> panics (getTCPStats env f)" for f
    using pre msgs by (auto simp: e tcp_pre_def getTCPStats_def panics_bind_res)
  then show "\<not> panics (snd (case e of (ord, env, p) \<Rightarrow> tcp_Update ord env p))"
    by (auto simp: e tcp_Update_def tcp_merged_def panics_with_res panics_bind_res split: if_splits)
qed

section \<open>Properties\<close>

text \<open>
  C19: The count exported for a TCP state is the number of sockets the kernel listed in it: with
  whole messages in one of the eleven states, fewer than \<open>2 ^ 53\<close> of them, the count is exact, and
  a state without sockets has no entry.
\<close>

theorem parseTCPStats_exact:
  assumes "list_all whole_msg msgs" "length msgs \<le> 2 ^ 53"
  shows "\<exists>stats. parseTCPStats mem msgs = Ok stats \<and> (\<forall>s\<in>{1..11}. map_get stats s =
    (let n = length (filter (\<lambda>d. msg_state d = s) msgs) in if n = 0 then None else Some (Fin (of_nat n))))"
proof -
  obtain stats where s: "fold_res (tcp_msg mem) msgs [] = Ok stats" using parseTCPStats_Ok [OF assms(1)] by blast
  then show ?thesis using parseTCPStats_counts [OF assms(1) s, of _ 0] assms(2)
    by (simp add: parseTCPStats_def counts_def Let_def)
qed

definition demo_msg :: "uint8 \<Rightarrow> uint8 list" where
  "demo_msg s = [2, s] @ replicate 70 0"

theorem parseTCPStats_exact_witness:
  "\<exists>stats. parseTCPStats [] [demo_msg 1, demo_msg 10, demo_msg 1] = Ok stats \<and> map_get stats 1 = Some (Fin 2)"
proof -
  have w: "list_all whole_msg [demo_msg 1, demo_msg 10, demo_msg 1]" by (simp add: whole_msg_def demo_msg_def msg_state_def)
  from parseTCPStats_exact [OF w, of "[]"] obtain stats
    where s: "parseTCPStats [] [demo_msg 1, demo_msg 10, demo_msg 1] = Ok stats"
      and c: "\<forall>s\<in>{1..11}. map_get stats s =
        (let n = length (filter (\<lambda>d. msg_state d = s) [demo_msg 1, demo_msg 10, demo_msg 1]) in if n = 0 then None else Some (Fin (of_nat n)))"
    by auto
  have "map_get stats 1 = Some (Fin 2)" using bspec [OF c, of 1] by (simp add: msg_state_def demo_msg_def)
  with s show ?thesis by blast
qed

text \<open>
  The request is laid out as the kernel's structure: 56 bytes, the family first and the mask
  of states, read back from its place, with all of the states 1 to 11.
\<close>

theorem Serialize_layout:
  "length (Serialize (diag_request f)) = 56 \<and> Serialize (diag_request f) ! 0 = f \<and>
     of_le32 (take 4 (drop 4 (Serialize (diag_request f)))) = 0xFFF \<and> list_all (\<lambda>s. bit (0xFFF :: uint32) s) [1..<12]"
proof -
  have s: "Serialize (diag_request f) = [f, 6, 2, 0] @ le32 0xFFF @ sockid_bytes zeroSockID"
    by (simp add: Serialize_def diag_request_def sizeOfDiagRequest_def sockid_bytes_def zeroSockID_def)
  have "list_all (\<lambda>s. bit (0xFFF :: uint32) s) [1..<12]" by (simp add: eval_nat_numeral)
  moreover have "length (sockid_bytes zeroSockID) = 48" by (simp add: sockid_bytes_def zeroSockID_def)
  ultimately show ?thesis unfolding s by (simp add: le32_roundtrip)
qed

end
