(* ===== verification/Sysctl.thy ===== *)
theory Sysctl
  imports Helpers
begin

text \<open>
  The sysctl collector, \<^verbatim>\<open>sysctl_linux.go\<close>: each flag value names a sysctl, optionally with the names
  of its fields after a colon, and every value of the sysctl becomes a metric. Reading a sysctl is
  done by procfs and is the environment.
\<close>

section \<open>Operations\<close>

record sysctlFlags =
  sysctlInclude :: "string list"
  sysctlIncludeInfo :: "string list"

definition sysctlInfoDesc :: desc where
  "sysctlInfoDesc = NewDesc (BuildFQName namespace ''sysctl'' ''info'') ''sysctl info'' [''name'', ''value'', ''index'']"

record sysctl =
  numeric :: bool
  sc_name :: string
  sc_keys :: "string list"

record sysctlEnv =
  sc_NewFS :: "unit res"
  SysctlInts :: "string \<Rightarrow> goint list res"
  SysctlStrings :: "string \<Rightarrow> string list res"

text \<open>The dynamic type behind the \<^verbatim>\<open>any\<close> of the values.\<close>

datatype sysctlValues = Ints "goint list" | Strings "string list"

fun vlength :: "sysctlValues \<Rightarrow> nat" where
  "vlength (Ints xs) = length xs"
| "vlength (Strings xs) = length xs"

definition newSysctl :: "string \<Rightarrow> bool \<Rightarrow> sysctl" where
  "newSysctl include num =
     (case SplitN2 include '':'' of
        name # keys # _ \<Rightarrow> \<lparr>numeric = num, sc_name = name, sc_keys = Split keys (CHR '','')\<rparr>
      | name # _ \<Rightarrow> \<lparr>numeric = num, sc_name = name, sc_keys = []\<rparr>
      | [] \<Rightarrow> \<lparr>numeric = num, sc_name = [], sc_keys = []\<rparr>)"

definition NewSysctlCollector :: "sysctlEnv \<Rightarrow> sysctlFlags \<Rightarrow> sysctl list res" where
  "NewSysctlCollector env fl =
     bind_res (map_err (Wrapf ''failed to open sysfs: %w'' []) (sc_NewFS env)) (\<lambda>_.
       Ok (map (\<lambda>i. newSysctl i True) (sysctlInclude fl) @ map (\<lambda>i. newSysctl i False) (sysctlIncludeInfo fl)))"

definition metricName :: "sysctl \<Rightarrow> string" where
  "metricName s = SanitizeMetricName (sc_name s)"

definition int_value :: "goint \<Rightarrow> float64" where
  "int_value n = f64_of_int (sint n)"

text \<open>The type assertions panic on values of the other type, and indexing panics on an empty list.\<close>

definition newConstMetric :: "sysctl \<Rightarrow> sysctlValues \<Rightarrow> metric res" where
  "newConstMetric s v =
     (if numeric s
      then (case v of
              Ints (n # _) \<Rightarrow> Ok (MustNewConstMetric
                (NewDesc (BuildFQName namespace ''sysctl'' (metricName s)) (''sysctl '' @ sc_name s) []) UntypedValue (int_value n) [])
            | Ints [] \<Rightarrow> Panic ''index out of range''
            | Strings _ \<Rightarrow> Panic ''interface conversion'')
      else (case v of
              Strings (x # _) \<Rightarrow> Ok (MustNewConstMetric sysctlInfoDesc GaugeValue (Fin 1) [sc_name s, x, ''0''])
            | Strings [] \<Rightarrow> Panic ''index out of range''
            | Ints _ \<Rightarrow> Panic ''interface conversion''))"

definition indexed :: "'a list \<Rightarrow> (nat \<times> 'a) list" where
  "indexed xs = zip [0..<length xs] xs"

definition newIndexedMetrics :: "sysctl \<Rightarrow> sysctlValues \<Rightarrow> metric list" where
  "newIndexedMetrics s v =
     (case v of
        Ints ns \<Rightarrow> map (\<lambda>(i, n). MustNewConstMetric
          (NewDesc (BuildFQName namespace ''sysctl'' (metricName s)) (''sysctl '' @ sc_name s) [''index''])
          UntypedValue (int_value n) [Itoa (int i)]) (indexed ns)
      | Strings xs \<Rightarrow> map (\<lambda>(i, x). MustNewConstMetric sysctlInfoDesc GaugeValue (Fin 1) [sc_name s, x, Itoa (int i)]) (indexed xs))"

fun mapped_metrics :: "sysctl \<Rightarrow> (nat \<times> goint) list \<Rightarrow> metric list res" where
  "mapped_metrics s [] = Ok []"
| "mapped_metrics s ((i, n) # ns) =
     bind_res (idx (sc_keys s) i) (\<lambda>key.
     bind_res (mapped_metrics s ns) (\<lambda>ms.
       Ok (MustNewConstMetric
         (NewDesc (BuildFQName namespace ''sysctl'' (metricName s @ ''_'' @ key)) (''sysctl '' @ sc_name s @ '', field '' @ Itoa (int i)) [])
         UntypedValue (int_value n) [] # ms)))"

definition newMappedMetrics :: "sysctl \<Rightarrow> sysctlValues \<Rightarrow> metric list res" where
  "newMappedMetrics s v =
     (case v of
        Ints ns \<Rightarrow> mapped_metrics s (indexed ns)
      | Strings _ \<Rightarrow> Err (NewError ''mapped sysctl string values not supported''))"

definition sysctl_values :: "sysctlEnv \<Rightarrow> sysctl \<Rightarrow> sysctlValues res" where
  "sysctl_values env s =
     map_err (Wrapf ''error obtaining sysctl info: %w'' [])
       (if numeric s then bind_res (SysctlInts env (sc_name s)) (\<lambda>v. Ok (Ints v))
        else bind_res (SysctlStrings env (sc_name s)) (\<lambda>v. Ok (Strings v)))"

definition show_keys :: "string list \<Rightarrow> string" where
  "show_keys ks = ''['' @ Join ks '' '' @ '']''"

definition newMetrics :: "sysctlEnv \<Rightarrow> sysctl \<Rightarrow> metric list res" where
  "newMetrics env s =
     bind_res (sysctl_values env s) (\<lambda>v.
       let n = vlength v in
       if n = 0 then Err (Errorf ''sysctl %s has no values'' [sc_name s])
       else if n = 1
       then (if sc_keys s \<noteq> [] then Err (Errorf ''sysctl %s has only one value, but expected %v'' [sc_name s, show_keys (sc_keys s)])
             else bind_res (newConstMetric s v) (\<lambda>m. Ok [m]))
       else if sc_keys s = [] then Ok (newIndexedMetrics s v)
       else if n \<noteq> length (sc_keys s)
       then Err (Errorf ''sysctl %s has %d keys but only %d defined in f lag'' [sc_name s, Itoa (int n), Itoa (int (length (sc_keys s)))])
       else newMappedMetrics s v)"

definition sysctl_Update :: "sysctlEnv \<Rightarrow> sysctl list \<Rightarrow> upd" where
  "sysctl_Update env sysctls = foreach (\<lambda>s. with_res (newMetrics env s) emit) sysctls"

section \<open>Lemmas\<close>

lemma length_indexed [simp]: "length (indexed xs) = length xs"
  by (simp add: indexed_def)

lemma nth_indexed [simp]: "i < length xs \<Longrightarrow> indexed xs ! i = (i, xs ! i)"
  by (simp add: indexed_def)

lemma sysctl_values_type: "sysctl_values env s = Ok v \<Longrightarrow> (if numeric s then \<exists>ns. v = Ints ns else \<exists>xs. v = Strings xs)"
  by (auto simp: sysctl_values_def go_simps split: if_splits)

lemma mapped_metrics_Ok:
  "mapped_metrics s ns = Ok ms \<longleftrightarrow> (\<forall>(i, n) \<in> set ns. i < length (sc_keys s)) \<and>
     ms = map (\<lambda>(i, n). MustNewConstMetric
         (NewDesc (BuildFQName namespace ''sysctl'' (metricName s @ ''_'' @ sc_keys s ! i)) (''sysctl '' @ sc_name s @ '', field '' @ Itoa (int i)) [])
         UntypedValue (int_value n) []) ns"
  by (induction s ns arbitrary: ms rule: mapped_metrics.induct) (auto simp: idx_def go_simps)

lemma mapped_metrics_total: "(\<forall>(i, n) \<in> set ns. i < length (sc_keys s)) \<Longrightarrow> \<exists>ms. mapped_metrics s ns = Ok ms"
  by (simp add: mapped_metrics_Ok)

lemma newMappedMetrics_cases:
  assumes "vlength v = length (sc_keys s)"
  shows "(case v of Ints ns \<Rightarrow> \<exists>ms. newMappedMetrics s v = Ok ms | Strings _ \<Rightarrow> \<exists>e. newMappedMetrics s v = Err e)"
proof (cases v)
  case (Ints ns)
  then have "\<exists>ms. mapped_metrics s (indexed ns) = Ok ms"
    using assms by (intro mapped_metrics_total) (auto simp: indexed_def dest: set_zip_leftD)
  then show ?thesis using Ints by (simp add: newMappedMetrics_def)
qed (simp add: newMappedMetrics_def)

lemma newMetrics_no_panic:
  assumes "\<not> panics (SysctlInts env (sc_name s))" "\<not> panics (SysctlStrings env (sc_name s))"
  shows "\<not> panics (newMetrics env s)"
proof (cases "sysctl_values env s")
  case (Ok v)
  have one: "\<not> panics (newConstMetric s v)" if "vlength v = 1"
    using sysctl_values_type [OF Ok] that
    by (cases v) (auto simp: newConstMetric_def split: if_splits list.splits)
  have mapped: "\<not> panics (newMappedMetrics s v)" if "vlength v = length (sc_keys s)"
    using newMappedMetrics_cases [OF that] by (cases v) auto
  show ?thesis using Ok one mapped by (auto simp: newMetrics_def Let_def panics_bind_res)
next
  case (Panic p)
  have "\<not> panics (sysctl_values env s)" using assms by (simp add: sysctl_values_def panics_bind_res)
  with Panic show ?thesis by simp
qed (simp add: newMetrics_def)

lemma newConstMetric_labels: "newConstMetric s v = Ok m \<Longrightarrow> labels_ok m"
  by (auto simp: newConstMetric_def sysctlInfoDesc_def split: if_splits sysctlValues.splits list.splits)

lemma newIndexedMetrics_labels: "list_all labels_ok (newIndexedMetrics s v)"
  by (auto simp: newIndexedMetrics_def list_all_iff sysctlInfoDesc_def split: sysctlValues.splits)

lemma newMappedMetrics_labels: "newMappedMetrics s v = Ok ms \<Longrightarrow> list_all labels_ok ms"
  by (auto simp: newMappedMetrics_def mapped_metrics_Ok list_all_iff split: sysctlValues.splits)

lemma newMetrics_labels: "newMetrics env s = Ok ms \<Longrightarrow> list_all labels_ok ms"
  by (auto simp: newMetrics_def Let_def go_simps newIndexedMetrics_labels dest: newMappedMetrics_labels newConstMetric_labels split: if_splits)

section \<open>The contract\<close>

definition sysctl_pre :: "sysctlEnv \<times> sysctl list \<Rightarrow> bool" where
  "sysctl_pre = (\<lambda>(env, ss). \<forall>n. \<not> panics (SysctlInts env n) \<and> \<not> panics (SysctlStrings env n))"

interpretation sysctl: safe_collector_contract "\<lambda>(env, ss). sysctl_Update env ss" sysctl_pre
proof unfold_locales
  fix e assume pre: "sysctl_pre e"
  obtain env ss where e: "e = (env, ss)" by (cases e)
  show "upd_ok (case e of (env, ss) \<Rightarrow> sysctl_Update env ss)"
    unfolding e prod.case sysctl_Update_def by (intro upd_ok_foreach upd_ok_with_res) (simp add: newMetrics_labels)
  show "\<not> panics (snd (case e of (env, ss) \<Rightarrow> sysctl_Update env ss))"
    using pre newMetrics_no_panic by (fastforce simp: e sysctl_pre_def sysctl_Update_def panics_with_res dest!: panics_foreach)
qed

section \<open>Properties\<close>

text \<open>
  A flag value made of a name and field names is taken apart into exactly these.
\<close>

theorem newSysctl_roundtrip:
  assumes "CHR '':'' \<notin> set name" "keys \<noteq> []" "list_all (\<lambda>k. CHR '','' \<notin> set k) keys"
  shows "newSysctl (name @ '':'' @ Join keys '','') num = \<lparr>numeric = num, sc_name = name, sc_keys = keys\<rparr>"
proof -
  have "Cut (name @ CHR '':'' # r) '':'' = Some (name, r)" for r using assms(1) by (induction name) auto
  then show ?thesis using Join_Split [OF assms(2,3)] by (simp add: newSysctl_def SplitN2_def)
qed

theorem newSysctl_roundtrip_witness:
  "newSysctl (''net.ipv4.tcp_rmem'' @ '':'' @ Join [''min'', ''default'', ''max''] '','') True =
     \<lparr>numeric = True, sc_name = ''net.ipv4.tcp_rmem'', sc_keys = [''min'', ''default'', ''max'']\<rparr>"
  by (rule newSysctl_roundtrip) simp_all

text \<open>
  A numeric sysctl is exported exactly when it has values and the flag names none of its fields,
  or several fields that are as many as its values. It then gives one sample for each value, in
  order and with that value, and no two samples are the same when the field names are different.
\<close>

theorem newMetrics_numeric:
  assumes "numeric s" "SysctlInts env (sc_name s) = Ok ns" "distinct (sc_keys s)"
  shows "(\<exists>ms. newMetrics env s = Ok ms \<and> distinct (map sample_id ms) \<and>
      list_all2 (\<lambda>m n. \<exists>d ls. m = MustNewConstMetric d UntypedValue (int_value n) ls) ms ns) \<longleftrightarrow>
    ns \<noteq> [] \<and> (sc_keys s = [] \<or> 1 < length ns \<and> length (sc_keys s) = length ns)"
proof -
  have v: "sysctl_values env s = Ok (Ints ns)" using assms by (simp add: sysctl_values_def)
  have "\<exists>ms. newMetrics env s = Ok ms \<and> distinct (map sample_id ms) \<and>
      list_all2 (\<lambda>m n. \<exists>d ls. m = MustNewConstMetric d UntypedValue (int_value n) ls) ms ns"
    if ok: "ns \<noteq> []" "sc_keys s = [] \<or> 1 < length ns \<and> length (sc_keys s) = length ns"
  proof (cases "length ns = 1")
    case True
    then obtain n where "ns = [n]" by (cases ns) auto
    then show ?thesis using v ok assms(1) by (auto simp: newMetrics_def newConstMetric_def)
  next
    case False
    show ?thesis
    proof (cases "sc_keys s = []")
      case True
      then show ?thesis using v ok False
        by (auto simp: newMetrics_def newIndexedMetrics_def Let_def list_all2_conv_all_nth distinct_conv_nth sample_id_def Itoa_inj)
    next
      case keys: False
      have all: "\<forall>(i, n) \<in> set (indexed ns). i < length (sc_keys s)"
        using ok keys by (auto simp: indexed_def dest: set_zip_leftD)
      have "newMetrics env s = mapped_metrics s (indexed ns)"
        using v ok keys False by (simp add: newMetrics_def Let_def newMappedMetrics_def)
      then show ?thesis using ok keys assms(3) all
        by (auto simp: mapped_metrics_Ok list_all2_conv_all_nth distinct_conv_nth sample_id_def)
    qed
  qed
  moreover have "ns \<noteq> [] \<and> (sc_keys s = [] \<or> 1 < length ns \<and> length (sc_keys s) = length ns)"
    if "newMetrics env s = Ok ms" for ms
    using that v by (auto simp: newMetrics_def Let_def intro!: Suc_lessI split: if_splits)
  ultimately show ?thesis by blast
qed

theorem newMetrics_numeric_witness:
  "\<exists>ms. newMetrics \<lparr>sc_NewFS = Ok (), SysctlInts = (\<lambda>_. Ok [4096, 131072]), SysctlStrings = (\<lambda>_. Ok [])\<rparr>
      (newSysctl ''net.ipv4.tcp_mem:min,max'' True) = Ok ms \<and> distinct (map sample_id ms) \<and>
      list_all2 (\<lambda>m n. \<exists>d ls. m = MustNewConstMetric d UntypedValue (int_value n) ls) ms [4096, 131072]"
proof -
  have "newSysctl ''net.ipv4.tcp_mem:min,max'' True = \<lparr>numeric = True, sc_name = ''net.ipv4.tcp_mem'', sc_keys = [''min'', ''max'']\<rparr>"
    by code_simp
  then show ?thesis by (subst newMetrics_numeric) simp_all
qed

end
