(* ===== verification/Raid.thy ===== *)
theory Raid
  imports Helpers
begin

text \<open>
  Two collectors of replicated block devices: \<^verbatim>\<open>mdadm_linux.go\<close> on the structures procfs and sysfs
  return, and \<^verbatim>\<open>drbd_linux.go\<close>, which reads the words of \<^verbatim>\<open>/proc/drbd\<close> and attributes every field to
  the device whose number it saw last.
\<close>

section \<open>mdadm\<close>

definition md_state_desc :: "string \<Rightarrow> desc" where
  "md_state_desc st =
     NewDescConst (BuildFQName namespace ''md'' ''state'') ''Indicates the state of md-device.'' [''device''] [(''state'', st)]"

definition activeDesc :: desc where "activeDesc = md_state_desc ''active''"
definition inActiveDesc :: desc where "inActiveDesc = md_state_desc ''inactive''"
definition recoveringDesc :: desc where "recoveringDesc = md_state_desc ''recovering''"
definition resyncDesc :: desc where "resyncDesc = md_state_desc ''resync''"
definition checkDesc :: desc where "checkDesc = md_state_desc ''check''"

definition disksDesc :: desc where
  "disksDesc = NewDesc (BuildFQName namespace ''md'' ''disks'') ''Number of active/failed/spare disks of device.'' [''device'', ''state'']"

definition disksTotalDesc :: desc where
  "disksTotalDesc = NewDesc (BuildFQName namespace ''md'' ''disks_required'') ''Total number of disks of device.'' [''device'']"

definition blocksTotalDesc :: desc where
  "blocksTotalDesc = NewDesc (BuildFQName namespace ''md'' ''blocks'') ''Total number of blocks on device.'' [''device'']"

definition blocksSyncedDesc :: desc where
  "blocksSyncedDesc = NewDesc (BuildFQName namespace ''md'' ''blocks_synced'') ''Number of blocks synced on device.'' [''device'']"

definition mdraidDisks :: desc where
  "mdraidDisks = NewDesc (BuildFQName namespace ''md'' ''raid_disks'') ''Number of raid disks on device.'' [''device'']"

definition mdraidDegradedDisksDesc :: desc where
  "mdraidDegradedDisksDesc = NewDesc (BuildFQName namespace ''md'' ''degraded'') ''Number of degraded disks on device.'' [''device'']"

lemmas md_descs = md_state_desc_def activeDesc_def inActiveDesc_def recoveringDesc_def resyncDesc_def checkDesc_def disksDesc_def
  disksTotalDesc_def blocksTotalDesc_def blocksSyncedDesc_def mdraidDisks_def mdraidDegradedDisksDesc_def

text \<open>What \<^verbatim>\<open>procfs.MDStat\<close> and \<^verbatim>\<open>sysfs.Mdraids\<close> return of an array.\<close>

record MDStat =
  md_Name :: string
  ActivityState :: string
  DisksActive :: "64 word"
  DisksTotal :: "64 word"
  DisksFailed :: "64 word"
  DisksSpare :: "64 word"
  BlocksTotal :: "64 word"
  BlocksSynced :: "64 word"

record Mdraid =
  mr_Device :: string
  mr_Disks :: "uint64 option"
  mr_DegradedDisks :: uint64

record mdEnv =
  md_procNewFS :: "unit res"
  md_MDStat :: "MDStat list res"
  md_sysNewFS :: "unit res"
  md_Mdraids :: "Mdraid list res"

definition md_gauge :: "desc \<Rightarrow> float64 \<Rightarrow> string list \<Rightarrow> metric" where
  "md_gauge d v ls = MustNewConstMetric d GaugeValue v ls"

definition md_int :: "64 word \<Rightarrow> float64" where
  "md_int n = f64_of_int (sint n)"

definition md_metrics :: "MDStat \<Rightarrow> metric list" where
  "md_metrics s =
     (let stateVals = map_put (ActivityState s) (Fin 1) []; val = map_get_z (Fin 0) stateVals; n = md_Name s in
      [md_gauge disksTotalDesc (md_int (DisksTotal s)) [n],
       md_gauge disksDesc (md_int (DisksActive s)) [n, ''active''],
       md_gauge disksDesc (md_int (DisksFailed s)) [n, ''failed''],
       md_gauge disksDesc (md_int (DisksSpare s)) [n, ''spare''],
       md_gauge activeDesc (val ''active'') [n],
       md_gauge inActiveDesc (val ''inactive'') [n],
       md_gauge recoveringDesc (val ''recovering'') [n],
       md_gauge resyncDesc (val ''resyncing'') [n],
       md_gauge checkDesc (val ''checking'') [n],
       md_gauge blocksTotalDesc (md_int (BlocksTotal s)) [n],
       md_gauge blocksSyncedDesc (md_int (BlocksSynced s)) [n]])"

definition mdraid_metrics :: "Mdraid \<Rightarrow> metric list" where
  "mdraid_metrics r =
     (case mr_Disks r of None \<Rightarrow> [] | Some d \<Rightarrow> [md_gauge mdraidDisks (f64_of_nat (unat d)) [mr_Device r]]) @
     [md_gauge mdraidDegradedDisksDesc (f64_of_nat (unat (mr_DegradedDisks r))) [mr_Device r]]"

definition no_data_or :: "string \<Rightarrow> error \<Rightarrow> error" where
  "no_data_or msg e = (if errors_Is e ErrNotExist then ErrNoData else Wrapf msg [] e)"

definition mdadm_Update :: "mdEnv \<Rightarrow> upd" where
  "mdadm_Update env =
     with_res (map_err (Wrapf ''failed to open procfs: %w'' []) (md_procNewFS env)) (\<lambda>_.
     with_res (map_err (no_data_or ''error parsing mdstatus: %w'') (md_MDStat env)) (\<lambda>mdStats.
       seq (emit (concat (map md_metrics mdStats)))
         (with_res (map_err (Wrapf ''failed to open sysfs: %w'' []) (md_sysNewFS env)) (\<lambda>_.
          with_res (map_err (no_data_or ''error parsing mdraids: %w'') (md_Mdraids env)) (\<lambda>mdraids.
            emit (concat (map mdraid_metrics mdraids)))))))"

section \<open>drbd\<close>

record drbdNumericalMetric =
  dn_desc :: desc
  dn_valueType :: valueType
  multiplier :: float64

definition newDRBDNumericalMetric :: "string \<Rightarrow> string \<Rightarrow> valueType \<Rightarrow> float64 \<Rightarrow> drbdNumericalMetric" where
  "newDRBDNumericalMetric name help vt m =
     \<lparr>dn_desc = NewDesc (BuildFQName namespace ''drbd'' name) help [''device''], dn_valueType = vt, multiplier = m\<rparr>"

record drbdStringPairMetric =
  ds_desc :: desc
  valueOK :: string

definition isOkay :: "drbdStringPairMetric \<Rightarrow> string \<Rightarrow> float64" where
  "isOkay m v = (if v = valueOK m then Fin 1 else Fin 0)"

definition newDRBDStringPairMetric :: "string \<Rightarrow> string \<Rightarrow> string \<Rightarrow> drbdStringPairMetric" where
  "newDRBDStringPairMetric name help ok =
     \<lparr>ds_desc = NewDesc (BuildFQName namespace ''drbd'' name) help [''device'', ''node''], valueOK = ok\<rparr>"

definition drbd_numerical :: "(string, drbdNumericalMetric) gomap" where
  "drbd_numerical =
     [(''ns'', newDRBDNumericalMetric ''network_sent_bytes_total'' ''Total number of bytes sent via the network.'' CounterValue (Fin 1024)),
      (''nr'', newDRBDNumericalMetric ''network_received_bytes_total'' ''Total number of bytes received via the network.'' CounterValue (Fin 1)),
      (''dw'', newDRBDNumericalMetric ''disk_written_bytes_total'' ''Net data written on local hard disk; in bytes.'' CounterValue (Fin 1024)),
      (''dr'', newDRBDNumericalMetric ''disk_read_bytes_total'' ''Net data read from local hard disk; in bytes.'' CounterValue (Fin 1024)),
      (''al'', newDRBDNumericalMetric ''activitylog_writes_total'' ''Number of updates of the activity log area of the meta data.'' CounterValue (Fin 1)),
      (''bm'', newDRBDNumericalMetric ''bitmap_writes_total'' ''Number of updates of the bitmap area of the meta data.'' CounterValue (Fin 1)),
      (''lo'', newDRBDNumericalMetric ''local_pending'' ''Number of open requests to the local I/O sub-system.'' GaugeValue (Fin 1)),
      (''pe'', newDRBDNumericalMetric ''remote_pending'' ''Number of requests sent to the peer, but that have not yet been answered by the latter.'' GaugeValue (Fin 1)),
      (''ua'', newDRBDNumericalMetric ''remote_unacknowledged'' ''Number of requests received by the peer via the network connection, but that have not yet been answered.'' GaugeValue (Fin 1)),
      (''ap'', newDRBDNumericalMetric ''application_pending'' ''Number of block I/O requests forwarded to DRBD, but not yet answered by DRBD.'' GaugeValue (Fin 1)),
      (''ep'', newDRBDNumericalMetric ''epochs'' ''Number of Epochs currently on the fly.'' GaugeValue (Fin 1)),
      (''oos'', newDRBDNumericalMetric ''out_of_sync_bytes'' ''Amount of data known to be out of sync; in bytes.'' GaugeValue (Fin 1024))]"

definition drbd_stringPair :: "(string, drbdStringPairMetric) gomap" where
  "drbd_stringPair =
     [(''ro'', newDRBDStringPairMetric ''node_role_is_primary'' ''Whether the role of the node is in the primary state.'' ''Primary''),
      (''ds'', newDRBDStringPairMetric ''disk_state_is_up_to_date'' ''Whether the disk of the node is up to date.'' ''UpToDate'')]"

definition drbd_connected :: desc where
  "drbd_connected = NewDesc (BuildFQName namespace ''drbd'' ''connected'') ''Whether DRBD is connected to the peer.'' [''device'']"

text \<open>A word of the form \<^verbatim>\<open>N:\<close> starts the fields of device \<^verbatim>\<open>drbdN\<close>.\<close>

definition drbd_header :: "string \<Rightarrow> int option" where
  "drbd_header fld =
     (case Split fld (CHR '':'') of
        [k, v] \<Rightarrow> (case ParseUint k 10 64 of Ok n \<Rightarrow> if v = [] then Some n else None | _ \<Rightarrow> None)
      | _ \<Rightarrow> None)"

definition drbd_pair :: "string \<Rightarrow> drbdStringPairMetric \<Rightarrow> string \<Rightarrow> upd" where
  "drbd_pair device m v =
     (let vs = Split v (CHR ''/'') in
      with_res (idx vs 0) (\<lambda>v0.
      seq (emit [MustNewConstMetric (ds_desc m) GaugeValue (isOkay m v0) [device, ''local'']])
        (with_res (idx vs 1) (\<lambda>v1.
         emit [MustNewConstMetric (ds_desc m) GaugeValue (isOkay m v1) [device, ''remote'']]))))"

definition drbd_field :: "string \<Rightarrow> string \<Rightarrow> upd" where
  "drbd_field device fld =
     (case Split fld (CHR '':'') of
        [k, v] \<Rightarrow>
          (case map_get drbd_numerical k of
             Some m \<Rightarrow> with_res (ParseFloat v) (\<lambda>x.
               emit [MustNewConstMetric (dn_desc m) (dn_valueType m) (f64_mul x (multiplier m)) [device]])
           | None \<Rightarrow>
               (case map_get drbd_stringPair k of
                  Some m \<Rightarrow> drbd_pair device m v
                | None \<Rightarrow>
                    if k = ''cs''
                    then emit [MustNewConstMetric drbd_connected GaugeValue (if v = ''Connected'' then Fin 1 else Fin 0) [device]]
                    else emit []))
      | _ \<Rightarrow> emit [])"

definition drbd_device :: "int \<Rightarrow> string" where
  "drbd_device n = ''drbd'' @ Itoa n"

fun drbd_words :: "string \<Rightarrow> string list \<Rightarrow> error option \<Rightarrow> upd" where
  "drbd_words device [] e = with_res (ok_or () e) (\<lambda>_. emit [])"
| "drbd_words device (w # ws) e =
     (case drbd_header w of
        Some n \<Rightarrow> drbd_words (drbd_device n) ws e
      | None \<Rightarrow> seq (drbd_field device w) (drbd_words device ws e))"

definition drbd_Update :: "paths \<Rightarrow> (string \<Rightarrow> string res) \<Rightarrow> upd" where
  "drbd_Update p readFile =
     (case readFile (procFilePath p ''drbd'') of
        Err e \<Rightarrow> fail (if errors_Is e ErrNotExist then ErrNoData else e)
      | Panic q \<Rightarrow> ([], Panic q)
      | Ok s \<Rightarrow> drbd_words ''unknown'' (scan_words s) (scan_words_err s))"

section \<open>The contracts\<close>

lemma md_metrics_labels: "list_all labels_ok (md_metrics s)"
  by (simp add: md_metrics_def Let_def md_gauge_def md_descs)

lemma mdraid_metrics_labels: "list_all labels_ok (mdraid_metrics r)"
  by (simp add: mdraid_metrics_def md_gauge_def md_descs split: option.splits)

lemma list_all_concat_map: "(\<And>x. x \<in> set xs \<Longrightarrow> list_all P (f x)) \<Longrightarrow> list_all P (concat (map f xs))"
  by (induction xs) auto

definition md_pre :: "mdEnv \<Rightarrow> bool" where
  "md_pre env \<longleftrightarrow> \<not> panics (md_procNewFS env) \<and> \<not> panics (md_MDStat env) \<and> \<not> panics (md_sysNewFS env) \<and> \<not> panics (md_Mdraids env)"

interpretation mdadm: safe_collector_contract mdadm_Update md_pre
proof unfold_locales
  fix env
  show "upd_ok (mdadm_Update env)"
    unfolding mdadm_Update_def
    by (intro upd_ok_with_res upd_ok_seq) (simp_all add: list_all_concat_map md_metrics_labels mdraid_metrics_labels)
  assume "md_pre env"
  then show "\<not> panics (snd (mdadm_Update env))"
    by (auto simp: md_pre_def mdadm_Update_def panics_with_res)
qed

lemma drbd_numerical_labels: "map_get drbd_numerical k = Some m \<Longrightarrow> length (desc_labels (dn_desc m)) = 1"
  by (auto simp: drbd_numerical_def newDRBDNumericalMetric_def split: if_splits)

lemma drbd_stringPair_labels: "map_get drbd_stringPair k = Some m \<Longrightarrow> length (desc_labels (ds_desc m)) = 2"
  by (auto simp: drbd_stringPair_def newDRBDStringPairMetric_def split: if_splits)

lemma drbd_field_ok: "upd_ok (drbd_field device fld)"
  unfolding drbd_field_def
  by (auto simp: drbd_pair_def Let_def drbd_connected_def drbd_numerical_labels drbd_stringPair_labels
      intro!: upd_ok_with_res upd_ok_seq split: list.splits option.splits simp del: seq_emit)

lemma drbd_words_ok: "upd_ok (drbd_words device ws e)"
  by (induction device ws e rule: drbd_words.induct) (auto simp: drbd_field_ok split: option.splits)

text \<open>A field with a pair of states has to have both of them.\<close>

definition paired :: "string \<Rightarrow> bool" where
  "paired w \<longleftrightarrow> (\<forall>k v. Split w (CHR '':'') = [k, v] \<longrightarrow> map_get drbd_stringPair k \<noteq> None \<longrightarrow> CHR ''/'' \<in> set v)"

lemma Split_two: "sep \<in> set s \<Longrightarrow> 1 < length (Split s sep)"
  by (induction s) (auto split: list.splits)

lemma drbd_field_no_panic: "paired w \<Longrightarrow> \<not> panics (snd (drbd_field device w))"
  using Split_two [of "CHR ''/''"]
  by (auto simp: paired_def drbd_field_def drbd_pair_def Let_def panics_with_res split: list.splits option.splits)

lemma drbd_words_no_panic: "list_all paired ws \<Longrightarrow> \<not> panics (snd (drbd_words device ws e))"
proof (induction device ws e rule: drbd_words.induct)
  case (1 device e)
  then show ?case by (cases e) auto
next
  case (2 device w ws e)
  then show ?case by (auto simp: drbd_field_no_panic split: option.splits dest!: panics_seq)
qed

definition drbd_pre :: "paths \<times> (string \<Rightarrow> string res) \<Rightarrow> bool" where
  "drbd_pre = (\<lambda>(p, rd). \<not> panics (rd (procFilePath p ''drbd'')) \<and>
     (\<forall>s. rd (procFilePath p ''drbd'') = Ok s \<longrightarrow> list_all paired (scan_words s)))"

interpretation drbd: safe_collector_contract "\<lambda>(p, rd). drbd_Update p rd" drbd_pre
proof unfold_locales
  fix e assume pre: "drbd_pre e"
  obtain p rd where e: "e = (p, rd)" by (cases e)
  show "upd_ok (case e of (p, rd) \<Rightarrow> drbd_Update p rd)"
    using drbd_words_ok by (auto simp: e drbd_Update_def upd_ok_def split: res.splits)
  show "\<not> panics (snd (case e of (p, rd) \<Rightarrow> drbd_Update p rd))"
    using pre by (auto simp: e drbd_pre_def drbd_Update_def drbd_words_no_panic split: res.splits)
qed

section \<open>Properties\<close>

text \<open>
  Of the five states of an array exactly the one it is in is set, and none when it is in
  another one.
\<close>

theorem md_state_onehot:
  "filter (\<lambda>m. desc_fq (metric_desc m) = BuildFQName namespace ''md'' ''state'') (md_metrics s) =
     map (\<lambda>(label, st). md_gauge (md_state_desc label) (if ActivityState s = st then Fin 1 else Fin 0) [md_Name s])
       [(''active'', ''active''), (''inactive'', ''inactive''), (''recovering'', ''recovering''), (''resync'', ''resyncing''), (''check'', ''checking'')]"
  by (simp add: md_metrics_def Let_def md_gauge_def md_descs map_get_z_def)

lemma drbd_header_device: "n < 2 ^ 64 \<Longrightarrow> drbd_header (FormatUint n @ '':'') = Some (int n)"
proof -
  assume n: "n < 2 ^ 64"
  have "CHR '':'' \<notin> set (FormatUint n)" using FormatUint_digits [of "CHR '':''" n] by (auto simp: is_digit_def byte_def)
  then have "Split (FormatUint n @ '':'') (CHR '':'') = [FormatUint n, []]" by (simp add: Split_word)
  then show ?thesis using ParseUint_FormatUint [OF n] by (simp add: drbd_header_def)
qed

lemma drbd_words_fields:
  "list_all (\<lambda>f. drbd_header f = None) fs \<Longrightarrow>
     drbd_words device (fs @ ws) e = seq (foreach (drbd_field device) fs) (drbd_words device ws e)"
  by (induction fs) (simp_all add: seq_assoc)

text \<open>
  Every field of \<^verbatim>\<open>/proc/drbd\<close> is attributed to the device it is listed under: reading the
  sections of a list of devices one word at a time gives what the fields of each device give under
  its own name, one device after the other, up to the first error.
\<close>

theorem drbd_devices:
  assumes "list_all (\<lambda>(n, fs). n < 2 ^ 64 \<and> list_all (\<lambda>f. drbd_header f = None) fs) secs"
  shows "drbd_words device (concat (map (\<lambda>(n, fs). (FormatUint n @ '':'') # fs) secs)) e =
    seq (foreach (\<lambda>(n, fs). foreach (drbd_field (''drbd'' @ FormatUint n)) fs) secs) (with_res (ok_or () e) (\<lambda>_. emit []))"
  using assms
proof (induction secs arbitrary: device)
  case Nil
  show ?case by (cases e) (simp_all add: emit_def)
next
  case (Cons sec secs)
  obtain n fs where s: "sec = (n, fs)" by fastforce
  have h: "drbd_header (FormatUint n @ '':'') = Some (int n)" "drbd_device (int n) = ''drbd'' @ FormatUint n"
    using Cons.prems drbd_header_device by (auto simp: s drbd_device_def Itoa_def)
  show ?case using Cons by (simp add: s h drbd_words_fields seq_assoc)
qed

theorem drbd_devices_witness:
  "drbd_words ''unknown'' [FormatUint 1 @ '':'', ''cs:Connected'', FormatUint 2 @ '':'', ''cs:WFConnection''] None =
     emit [MustNewConstMetric drbd_connected GaugeValue (Fin 1) [''drbd1''], MustNewConstMetric drbd_connected GaugeValue (Fin 0) [''drbd2'']]"
proof -
  have f: "drbd_header ''cs:Connected'' = None" "drbd_header ''cs:WFConnection'' = None"
    "drbd_field (''drbd'' @ FormatUint 1) ''cs:Connected'' = emit [MustNewConstMetric drbd_connected GaugeValue (Fin 1) [''drbd1'']]"
    "drbd_field (''drbd'' @ FormatUint 2) ''cs:WFConnection'' = emit [MustNewConstMetric drbd_connected GaugeValue (Fin 0) [''drbd2'']]"
    by code_simp+
  have "list_all (\<lambda>(n, fs). n < 2 ^ 64 \<and> list_all (\<lambda>f. drbd_header f = None) fs) [(1, [''cs:Connected'']), (2 :: nat, [''cs:WFConnection''])]"
    using f by simp
  from drbd_devices [OF this, of "''unknown''" None] f show ?thesis by (simp add: emit_def)
qed

text \<open>
  The field of the volume received is exported as it is, while the field of the volume sent,
  which the kernel counts in the same unit, is multiplied by 1024.
\<close>

theorem drbd_received_unscaled:
  assumes "CHR '':'' \<notin> set v" "ParseFloat v = Ok x"
  shows "drbd_field device (''nr:'' @ v) = emit [MustNewConstMetric
      (NewDesc (BuildFQName namespace ''drbd'' ''network_received_bytes_total'') ''Total number of bytes received via the network.'' [''device''])
      CounterValue (f64_mul x (Fin 1)) [device]] \<and>
    drbd_field device (''ns:'' @ v) = emit [MustNewConstMetric
      (NewDesc (BuildFQName namespace ''drbd'' ''network_sent_bytes_total'') ''Total number of bytes sent via the network.'' [''device''])
      CounterValue (f64_mul x (Fin 1024)) [device]]"
  using assms by (simp add: drbd_field_def Split_single drbd_numerical_def newDRBDNumericalMetric_def)

theorem drbd_received_unscaled_witness:
  "drbd_field ''drbd1'' (''nr:'' @ FormatUint 8) = emit [MustNewConstMetric
      (NewDesc (BuildFQName namespace ''drbd'' ''network_received_bytes_total'') ''Total number of bytes received via the network.'' [''device''])
      CounterValue (f64_mul (Fin 8) (Fin 1)) [''drbd1'']] \<and>
    drbd_field ''drbd1'' (''ns:'' @ FormatUint 8) = emit [MustNewConstMetric
      (NewDesc (BuildFQName namespace ''drbd'' ''network_sent_bytes_total'') ''Total number of bytes sent via the network.'' [''device''])
      CounterValue (f64_mul (Fin 8) (Fin 1024)) [''drbd1'']]"
proof (rule drbd_received_unscaled)
  show "ParseFloat (FormatUint 8) = Ok (Fin 8)" using f64_of_nat_exact [of 8] by (simp add: ParseFloat_FormatUint)
qed (use FormatUint_digits [of "CHR '':''" 8] in \<open>auto simp: is_digit_def byte_def\<close>)

end
