(* ===== verification/GoNet.thy ===== *)
theory GoNet
  imports Helpers
begin

text \<open>
  The parts of Go's \<^verbatim>\<open>net\<close> the collectors use: reading and printing IP addresses, loopback addresses,
  networks with a prefix length. An address is its bytes, four or sixteen of them.
\<close>

section \<open>Reading addresses\<close>

text \<open>\<^verbatim>\<open>net.ParseIP\<close> as the bytes of the address, four for the dotted form and sixteen otherwise.\<close>

definition octet :: "string \<Rightarrow> nat option" where
  "octet s =
     (if s \<noteq> [] \<and> list_all is_digit s \<and> (length s = 1 \<or> hd s \<noteq> CHR ''0'')
      then (let n = fold (\<lambda>c m. m * 10 + (int (byte c) - 48)) s 0 in if n \<le> 255 then Some (nat n) else None) else None)"

definition parse_ipv4 :: "string \<Rightarrow> nat list option" where
  "parse_ipv4 s =
     (let os = map octet (Split s (CHR ''.''))
      in if length os = 4 \<and> list_all (\<lambda>x. x \<noteq> None) os then Some (map the os) else None)"

definition hex_digit :: "char \<Rightarrow> bool" where
  "hex_digit c \<longleftrightarrow> (case digit_val c of Some d \<Rightarrow> d < 16 | None \<Rightarrow> False)"

definition hex_value :: "string \<Rightarrow> nat" where
  "hex_value s = fold (\<lambda>c n. 16 * n + nat (the (digit_val c))) s 0"

text \<open>
  The loop over the groups of an IPv6 address: the bytes so far, where an ellipsis was seen, the
  rest of the text; the first argument counts the groups that may still come.
\<close>

fun v6_loop :: "nat \<Rightarrow> nat list \<Rightarrow> nat option \<Rightarrow> string \<Rightarrow> (nat list \<times> nat option \<times> string) option" where
  "v6_loop 0 ip ell s = Some (ip, ell, s)"
| "v6_loop (Suc k) ip ell s =
     (let ds = takeWhile hex_digit s; rest = dropWhile hex_digit s in
      if ds = [] \<or> 4 < length ds then None
      else if rest \<noteq> [] \<and> hd rest = CHR ''.''
      then (if (ell = None \<and> length ip \<noteq> 12) \<or> 12 < length ip then None
            else (case parse_ipv4 s of None \<Rightarrow> None | Some b \<Rightarrow> Some (ip @ b, ell, [])))
      else let ip' = ip @ [hex_value ds div 256, hex_value ds mod 256] in
           (case rest of
              [] \<Rightarrow> Some (ip', ell, [])
            | [c] \<Rightarrow> None
            | c # d # s2 \<Rightarrow>
                if c \<noteq> CHR '':'' then None
                else if d = CHR '':''
                then (if ell \<noteq> None then None
                      else if s2 = [] then Some (ip', Some (length ip'), [])
                      else v6_loop k ip' (Some (length ip')) s2)
                else v6_loop k ip' ell (d # s2)))"

definition parse_ipv6 :: "string \<Rightarrow> nat list option" where
  "parse_ipv6 s =
     (let (start, ell) = (if prefix ''::'' s then (drop 2 s, Some 0) else (s, None)) in
      if ell \<noteq> None \<and> start = [] then Some (replicate 16 0)
      else case v6_loop 8 [] ell start of
             None \<Rightarrow> None
           | Some (ip, ell', rest) \<Rightarrow>
               if rest \<noteq> [] then None
               else (case ell' of
                       None \<Rightarrow> if length ip < 16 then None else Some ip
                     | Some p \<Rightarrow> if length ip < 16 then Some (take p ip @ replicate (16 - length ip) 0 @ drop p ip) else None))"

type_synonym IP = "uint8 list"

definition ParseIP :: "string \<Rightarrow> IP option" where
  "ParseIP s =
     map_option (map of_nat)
       (case filter (\<lambda>c. c \<in> {CHR ''.'', CHR '':'', CHR ''%''}) s of
          [] \<Rightarrow> None
        | c # _ \<Rightarrow> if c = CHR ''.'' then parse_ipv4 s
                   else if c = CHR '':'' \<and> CHR ''%'' \<notin> set s then parse_ipv6 s
                   else None)"

definition v4InV6Prefix :: IP where
  "v4InV6Prefix = replicate 10 0 @ [0xff, 0xff]"

definition To4 :: "IP \<Rightarrow> IP option" where
  "To4 ip =
     (if length ip = 4 then Some ip
      else if length ip = 16 \<and> take 12 ip = v4InV6Prefix then Some (drop 12 ip) else None)"

definition IsLoopback :: "IP \<Rightarrow> bool" where
  "IsLoopback ip \<longleftrightarrow> (case To4 ip of Some b \<Rightarrow> b ! 0 = 127 | None \<Rightarrow> ip = replicate 15 0 @ [1])"

section \<open>Printing addresses\<close>

definition hex_char :: "nat \<Rightarrow> char" where
  "hex_char d = (if d < 10 then char_of (48 + d) else char_of (87 + d))"

fun FormatHex :: "nat \<Rightarrow> string" where
  "FormatHex n = (if n < 16 then [hex_char n] else FormatHex (n div 16) @ [hex_char (n mod 16)])"

declare FormatHex.simps [simp del]

definition groups :: "IP \<Rightarrow> nat list" where
  "groups ip = map (\<lambda>i. 256 * unat (ip ! (2 * i)) + unat (ip ! (2 * i + 1))) [0..<8]"

text \<open>The first of the longest runs of two or more zero groups, as its start and end.\<close>

definition zero_run :: "nat list \<Rightarrow> nat \<Rightarrow> nat" where
  "zero_run gs i = length (takeWhile (\<lambda>g. g = 0) (drop i gs))"

definition longest_zeros :: "nat list \<Rightarrow> (nat \<times> nat) option" where
  "longest_zeros gs =
     fold (\<lambda>i best. let l = zero_run gs i in
             if 2 \<le> l \<and> (case best of None \<Rightarrow> True | Some (a, b) \<Rightarrow> b - a < l) then Some (i, i + l) else best) [0..<8] None"

definition IPv4_String :: "IP \<Rightarrow> string" where
  "IPv4_String ip = Join (map (\<lambda>b. FormatUint (unat b)) ip) ''.''"

definition IPv6_String :: "IP \<Rightarrow> string" where
  "IPv6_String ip =
     (let gs = groups ip in
      case longest_zeros gs of
        None \<Rightarrow> Join (map FormatHex gs) '':''
      | Some (a, b) \<Rightarrow> Join (map FormatHex (take a gs)) '':'' @ ''::'' @ Join (map FormatHex (drop b gs)) '':'')"

definition hexString :: "IP \<Rightarrow> string" where
  "hexString ip = concat (map (\<lambda>b. [hex_char (unat b div 16), hex_char (unat b mod 16)]) ip)"

definition IP_String :: "IP \<Rightarrow> string" where
  "IP_String ip =
     (if ip = [] then ''<nil>''
      else if length ip \<noteq> 4 \<and> length ip \<noteq> 16 then ''?'' @ hexString ip
      else case To4 ip of Some b \<Rightarrow> IPv4_String b | None \<Rightarrow> IPv6_String ip)"

text \<open>\<^verbatim>\<open>net.HardwareAddr.String\<close>: two hexadecimal digits for each byte, with colons between them.\<close>

definition HardwareAddr_String :: "nat list \<Rightarrow> string" where
  "HardwareAddr_String a = Join (map (\<lambda>b. [hex_char (b div 16), hex_char (b mod 16)]) a) '':''"

text \<open>
  \<^verbatim>\<open>IPNet.String\<close> for the mask \<^verbatim>\<open>CIDRMask(ones, bits)\<close>, which is nil when there are too many ones. A mask
  of four bytes does not go with an address that has no form of four bytes; the source asks for 32
  bits exactly for the addresses that have one.
\<close>

definition IPNet_String :: "IP \<Rightarrow> nat \<Rightarrow> nat \<Rightarrow> string" where
  "IPNet_String ip ones bits =
     (let nn = (case To4 ip of Some b \<Rightarrow> Some b | None \<Rightarrow> if length ip = 16 then Some ip else None) in
      case nn of
        None \<Rightarrow> ''<nil>''
      | Some n \<Rightarrow>
          if bits < ones \<or> bits \<noteq> 8 * length n then ''<nil>''
          else IP_String n @ ''/'' @ FormatUint ones)"

section \<open>Lemmas\<close>

lemma FormatUint_hd: "0 < n \<Longrightarrow> hd (FormatUint n) \<noteq> CHR ''0''"
proof (induction n rule: FormatUint.induct)
  case (1 n)
  show ?case
  proof (cases "n < 10")
    case True
    have "byte (dec_digit n) \<noteq> 48" using True 1 by (simp add: byte_dec_digit)
    then show ?thesis using True by (subst FormatUint.simps) (auto simp: byte_def)
  next
    case False
    then have "hd (FormatUint (n div 10)) \<noteq> CHR ''0''" using 1 by simp
    then show ?thesis using False by (subst FormatUint.simps) (simp add: hd_append)
  qed
qed

lemma octet_FormatUint: "n < 256 \<Longrightarrow> octet (FormatUint n) = Some n"
proof -
  assume n: "n < 256"
  have "list_all is_digit (FormatUint n)" using FormatUint_digits by (auto simp: list_all_iff)
  moreover have "length (FormatUint n) = 1 \<or> hd (FormatUint n) \<noteq> CHR ''0''"
    using FormatUint_hd [of n] by (cases "n = 0") (auto simp: FormatUint.simps [of 0])
  ultimately show ?thesis using n by (simp add: octet_def fold_FormatUint)
qed

text \<open>An IPv4 address that is printed is read back.\<close>

lemma ParseIP_IPv4_String:
  assumes "length ip = 4"
  shows "ParseIP (IPv4_String ip) = Some ip"
proof -
  let ?ws = "map (\<lambda>b. FormatUint (unat b)) ip"
  have nodot: "list_all (\<lambda>w. CHR ''.'' \<notin> set w) ?ws"
    using FormatUint_digits [of "CHR ''.''"] by (auto simp: list_all_iff is_digit_def byte_def)
  have "ip \<noteq> []" using assms by auto
  then have sp: "Split (IPv4_String ip) (CHR ''.'') = ?ws" unfolding IPv4_String_def by (intro Join_Split nodot) simp
  have "octet (FormatUint (unat b)) = Some (unat b)" for b :: uint8 using unsigned_less [where 'a = nat, of b] by (intro octet_FormatUint) simp
  then have p: "parse_ipv4 (IPv4_String ip) = Some (map unat ip)"
    by (simp add: parse_ipv4_def sp assms list_all_iff comp_def Let_def)
  obtain a b c d where ip: "ip = [a, b, c, d]" using assms by (auto simp: numeral_eq_Suc length_Suc_conv)
  have none: "filter (\<lambda>c. c \<in> {CHR ''.'', CHR '':'', CHR ''%''}) (FormatUint n) = []" for n
    using FormatUint_digits [of "CHR ''.''" n] FormatUint_digits [of "CHR '':''" n] FormatUint_digits [of "CHR ''%''" n]
    by (auto simp: filter_empty_conv is_digit_def byte_def)
  have "filter (\<lambda>c. c \<in> {CHR ''.'', CHR '':'', CHR ''%''}) (IPv4_String ip) = replicate 3 (CHR ''.'')"
    unfolding IPv4_String_def ip using none by (simp add: numeral_eq_Suc)
  then show ?thesis using p by (simp add: ParseIP_def numeral_eq_Suc comp_def)
qed

end
