(* ===== verification/Timesync.thy ===== *)
theory Timesync
  imports GoNet
begin

text \<open>
  The clock collectors: \<^verbatim>\<open>ntp.go\<close>, which asks a local NTP server and judges its answer, and \<^verbatim>\<open>timex.go\<close>
  on the kernel's clock discipline. The NTP library and the system call are the environment. A
  \<^verbatim>\<open>time.Time\<close> is its nanoseconds since the zero time (the beginning of year 1), a duration its
  nanoseconds. The midnight of a leap second is package state that outlives a scrape.
\<close>

unbundle bit_operations_syntax

section \<open>ntp\<close>

definition hour24 :: int where "hour24 = 24 * 3600 * 1000000000"

definition ntp_desc :: "string \<Rightarrow> string \<Rightarrow> typedDesc" where
  "ntp_desc name help = \<lparr>td_desc = NewDesc (BuildFQName namespace ''ntp'' name) help [], td_valueType = GaugeValue\<rparr>"

record ntpFlags =
  ntpServer :: string
  ntpServerPort :: int
  ntpProtocolVersion :: int
  ntpServerIsLocal :: bool
  ntpMaxDistance :: int
  ntpOffsetTolerance :: int

record ntpCollector =
  nc_stratum :: typedDesc
  nc_leap :: typedDesc
  nc_rtt :: typedDesc
  nc_offset :: typedDesc
  nc_reftime :: typedDesc
  nc_rootDelay :: typedDesc
  nc_rootDispersion :: typedDesc
  nc_sanity :: typedDesc

definition NewNtpCollector :: "ntpFlags \<Rightarrow> ntpCollector res" where
  "NewNtpCollector fl =
     (if \<not> ntpServerIsLocal fl \<and> (case ParseIP (ntpServer fl) of None \<Rightarrow> True | Some ip \<Rightarrow> \<not> IsLoopback ip)
      then Err (NewError ''only IP address of local NTP server is valid for --collector.ntp.server'')
      else if ntpProtocolVersion fl < 2 \<or> 4 < ntpProtocolVersion fl
      then Err (Errorf ''invalid NTP protocol version %d; must be 2, 3, or 4'' [Itoa (ntpProtocolVersion fl)])
      else if ntpOffsetTolerance fl < 0
      then Err (NewError ''offset tolerance must be non-negative'')
      else if ntpServerPort fl < 1 \<or> 65535 < ntpServerPort fl
      then Err (Errorf ''invalid NTP port number %d; must be between 1 and 65535 inclusive'' [Itoa (ntpServerPort fl)])
      else Ok \<lparr>nc_stratum = ntp_desc ''stratum'' ''NTPD stratum.'',
               nc_leap = ntp_desc ''leap'' ''NTPD leap second indicator, 2 bits.'',
               nc_rtt = ntp_desc ''rtt_seconds'' ''RTT to NTPD.'',
               nc_offset = ntp_desc ''offset_seconds'' ''ClockOffset between NTP and local clock.'',
               nc_reftime = ntp_desc ''reference_timestamp_seconds'' ''NTPD ReferenceTime, UNIX timestamp.'',
               nc_rootDelay = ntp_desc ''root_delay_seconds'' ''NTPD RootDelay.'',
               nc_rootDispersion = ntp_desc ''root_dispersion_seconds'' ''NTPD RootDispersion.'',
               nc_sanity = ntp_desc ''sanity'' ''NTPD sanity according to RFC5905 heuristics and configured limits.''\<rparr>)"

text \<open>What the NTP library returns for a query; \<open>rs_Valid\<close> is whether \<^verbatim>\<open>Validate\<close> returns nil.\<close>

record ntpResponse =
  rs_Time :: int
  rs_Stratum :: uint8
  rs_Leap :: uint8
  rs_RTT :: int
  rs_ClockOffset :: int
  rs_ReferenceTime :: int
  rs_RootDelay :: int
  rs_RootDispersion :: int
  rs_RootDistance :: int
  rs_MinError :: int
  rs_Valid :: bool

text \<open>The leap indicators of the library's constants.\<close>

record leapCodes =
  LeapAddSecond :: uint8
  LeapDelSecond :: uint8

definition wrap64 :: "int \<Rightarrow> int" where
  "wrap64 i = sint (word_of_int i :: 64 word)"

lemma wrap64_id: "0 \<le> i \<Longrightarrow> i < 2 ^ 63 \<Longrightarrow> wrap64 i = i"
  by (simp add: wrap64_def goint_fits)


definition unixZero :: int where "unixZero = 62135596800 * 1000000000"

definition Unix :: "int \<Rightarrow> int" where "Unix t = (t - unixZero) div 1000000000"
definition UnixNano :: "int \<Rightarrow> int" where "UnixNano t = wrap64 (t - unixZero)"
definition Truncate :: "int \<Rightarrow> int \<Rightarrow> int" where "Truncate t d = t - t mod d"

definition next_leapMidnight :: "leapCodes \<Rightarrow> ntpResponse \<Rightarrow> int \<Rightarrow> int" where
  "next_leapMidnight lc r leapMidnight =
     (if rs_Leap r = LeapAddSecond lc \<or> rs_Leap r = LeapDelSecond lc then Truncate (rs_Time r) hour24 + hour24 else leapMidnight)"

definition ntp_maxerr :: "ntpFlags \<Rightarrow> int \<Rightarrow> ntpResponse \<Rightarrow> int" where
  "ntp_maxerr fl leapMidnight r =
     (if leapMidnight - hour24 < rs_Time r \<and> rs_Time r < leapMidnight + hour24
      then wrap64 (ntpOffsetTolerance fl + 1000000000) else ntpOffsetTolerance fl)"

definition ntp_sane :: "ntpFlags \<Rightarrow> int \<Rightarrow> ntpResponse \<Rightarrow> bool" where
  "ntp_sane fl leapMidnight r \<longleftrightarrow>
     rs_Valid r \<and> rs_RootDistance r \<le> ntpMaxDistance fl \<and> rs_MinError r \<le> ntp_maxerr fl leapMidnight r"

definition ntp_Update :: "ntpFlags \<Rightarrow> leapCodes \<Rightarrow> ntpCollector \<Rightarrow> ntpResponse res \<Rightarrow> int \<Rightarrow> int \<times> upd" where
  "ntp_Update fl lc c query leapMidnight =
     (case query of
        Err e \<Rightarrow> (leapMidnight, fail (Wrapf ''couldn't get SNTP reply: %w'' [] e))
      | Panic p \<Rightarrow> (leapMidnight, ([], Panic p))
      | Ok r \<Rightarrow>
          let lm = next_leapMidnight lc r leapMidnight in
          (lm, emit
            [mustNewConstMetric (nc_stratum c) (f64_of_nat (unat (rs_Stratum r))) [],
             mustNewConstMetric (nc_leap c) (f64_of_nat (unat (rs_Leap r))) [],
             mustNewConstMetric (nc_rtt c) (duration_Seconds (rs_RTT r)) [],
             mustNewConstMetric (nc_offset c) (duration_Seconds (rs_ClockOffset r)) [],
             mustNewConstMetric (nc_reftime c)
               (if 0 < Unix (rs_ReferenceTime r) then f64_div (f64_of_int (UnixNano (rs_ReferenceTime r))) (Fin 1000000000) else Fin 0) [],
             mustNewConstMetric (nc_rootDelay c) (duration_Seconds (rs_RootDelay r)) [],
             mustNewConstMetric (nc_rootDispersion c) (duration_Seconds (rs_RootDispersion r)) [],
             mustNewConstMetric (nc_sanity c) (if ntp_sane fl lm r then Fin 1 else Fin 0) []]))"

section \<open>timex\<close>

definition timeError :: int where "timeError = 5"
definition staNano :: int32 where "staNano = 0x2000"
definition nanoSeconds :: float64 where "nanoSeconds = Fin 1000000000"
definition microSeconds :: float64 where "microSeconds = Fin 1000000"
definition ppm16frac :: float64 where "ppm16frac = Fin (1000000 * 65536)"

definition timex_desc :: "string \<Rightarrow> string \<Rightarrow> valueType \<Rightarrow> typedDesc" where
  "timex_desc name help vt = \<lparr>td_desc = NewDesc (BuildFQName namespace ''timex'' name) help [], td_valueType = vt\<rparr>"

record timexCollector =
  tc_offset :: typedDesc
  tc_freq :: typedDesc
  tc_maxerror :: typedDesc
  tc_esterror :: typedDesc
  tc_status :: typedDesc
  tc_constant :: typedDesc
  tc_tick :: typedDesc
  tc_ppsfreq :: typedDesc
  tc_jitter :: typedDesc
  tc_shift :: typedDesc
  tc_stabil :: typedDesc
  tc_jitcnt :: typedDesc
  tc_calcnt :: typedDesc
  tc_errcnt :: typedDesc
  tc_stbcnt :: typedDesc
  tc_tai :: typedDesc
  tc_syncStatus :: typedDesc

definition NewTimexCollector :: timexCollector where
  "NewTimexCollector =
     \<lparr>tc_offset = timex_desc ''offset_seconds'' ''Time offset in between local system and reference clock.'' GaugeValue,
      tc_freq = timex_desc ''frequency_adjustment_ratio'' ''Local clock frequency adjustment.'' GaugeValue,
      tc_maxerror = timex_desc ''maxerror_seconds'' ''Maximum error in seconds.'' GaugeValue,
      tc_esterror = timex_desc ''estimated_error_seconds'' ''Estimated error in seconds.'' GaugeValue,
      tc_status = timex_desc ''status'' ''Value of the status array bits.'' GaugeValue,
      tc_constant = timex_desc ''loop_time_constant'' ''Phase-locked loop time constant.'' GaugeValue,
      tc_tick = timex_desc ''tick_seconds'' ''Seconds between clock ticks.'' GaugeValue,
      tc_ppsfreq = timex_desc ''pps_frequency_hertz'' ''Pulse per second frequency.'' GaugeValue,
      tc_jitter = timex_desc ''pps_jitter_seconds'' ''Pulse per second jitter.'' GaugeValue,
      tc_shift = timex_desc ''pps_shift_seconds'' ''Pulse per second interval duration.'' GaugeValue,
      tc_stabil = timex_desc ''pps_stability_hertz'' ''Pulse per second stability, average of recent frequency changes.'' GaugeValue,
      tc_jitcnt = timex_desc ''pps_jitter_total'' ''Pulse per second count of jitter limit exceeded events.'' CounterValue,
      tc_calcnt = timex_desc ''pps_calibration_total'' ''Pulse per second count of calibration intervals.'' CounterValue,
      tc_errcnt = timex_desc ''pps_error_total'' ''Pulse per second count of calibration errors.'' CounterValue,
      tc_stbcnt = timex_desc ''pps_stability_exceeded_total'' ''Pulse per second count of stability limit exceeded events.'' CounterValue,
      tc_tai = timex_desc ''tai_offset_seconds'' ''International Atomic Time (TAI) offset.'' GaugeValue,
      tc_syncStatus = timex_desc ''sync_status'' ''Is clock synchronized to a reliable server (1 = yes, 0 = no).'' GaugeValue\<rparr>"

text \<open>The structure of \<^verbatim>\<open>adjtimex\<close> on a 64-bit machine.\<close>

record Timex =
  tx_Offset :: "64 word"
  tx_Freq :: "64 word"
  tx_Maxerror :: "64 word"
  tx_Esterror :: "64 word"
  tx_Status :: int32
  tx_Constant :: "64 word"
  tx_Tick :: "64 word"
  tx_Ppsfreq :: "64 word"
  tx_Jitter :: "64 word"
  tx_Shift :: int32
  tx_Stabil :: "64 word"
  tx_Jitcnt :: "64 word"
  tx_Calcnt :: "64 word"
  tx_Errcnt :: "64 word"
  tx_Stbcnt :: "64 word"
  tx_Tai :: int32

definition w64 :: "64 word \<Rightarrow> float64" where "w64 w = f64_of_int (sint w)"
definition w32 :: "int32 \<Rightarrow> float64" where "w32 w = f64_of_int (sint w)"

definition timex_divisor :: "Timex \<Rightarrow> float64" where
  "timex_divisor t = (if tx_Status t AND staNano \<noteq> 0 then nanoSeconds else microSeconds)"

definition timex_metrics :: "timexCollector \<Rightarrow> int \<Rightarrow> Timex \<Rightarrow> metric list" where
  "timex_metrics c status t =
     [mustNewConstMetric (tc_syncStatus c) (if status = timeError then Fin 0 else Fin 1) [],
      mustNewConstMetric (tc_offset c) (f64_div (w64 (tx_Offset t)) (timex_divisor t)) [],
      mustNewConstMetric (tc_freq c) (f64_add (Fin 1) (f64_div (w64 (tx_Freq t)) ppm16frac)) [],
      mustNewConstMetric (tc_maxerror c) (f64_div (w64 (tx_Maxerror t)) microSeconds) [],
      mustNewConstMetric (tc_esterror c) (f64_div (w64 (tx_Esterror t)) microSeconds) [],
      mustNewConstMetric (tc_status c) (w32 (tx_Status t)) [],
      mustNewConstMetric (tc_constant c) (w64 (tx_Constant t)) [],
      mustNewConstMetric (tc_tick c) (f64_div (w64 (tx_Tick t)) microSeconds) [],
      mustNewConstMetric (tc_ppsfreq c) (f64_div (w64 (tx_Ppsfreq t)) ppm16frac) [],
      mustNewConstMetric (tc_jitter c) (f64_div (w64 (tx_Jitter t)) (timex_divisor t)) [],
      mustNewConstMetric (tc_shift c) (w32 (tx_Shift t)) [],
      mustNewConstMetric (tc_stabil c) (f64_div (w64 (tx_Stabil t)) ppm16frac) [],
      mustNewConstMetric (tc_jitcnt c) (w64 (tx_Jitcnt t)) [],
      mustNewConstMetric (tc_calcnt c) (w64 (tx_Calcnt t)) [],
      mustNewConstMetric (tc_errcnt c) (w64 (tx_Errcnt t)) [],
      mustNewConstMetric (tc_stbcnt c) (w64 (tx_Stbcnt t)) [],
      mustNewConstMetric (tc_tai c) (w32 (tx_Tai t)) []]"

definition timex_Update :: "timexCollector \<Rightarrow> (int \<times> Timex) res \<Rightarrow> upd" where
  "timex_Update c adjtimex =
     with_res (map_err (\<lambda>e. if errors_Is e ErrPermission then ErrNoData
                             else Wrapf ''failed to retrieve adjtimex stats: %w'' [] e) adjtimex)
       (\<lambda>(status, t). emit (timex_metrics c status t))"

section \<open>The contracts\<close>

definition ntp_wf :: "ntpCollector \<Rightarrow> bool" where
  "ntp_wf c \<longleftrightarrow> list_all (\<lambda>f. desc_labels (td_desc (f c)) = [])
     [nc_stratum, nc_leap, nc_rtt, nc_offset, nc_reftime, nc_rootDelay, nc_rootDispersion, nc_sanity]"

lemma NewNtpCollector_wf: "NewNtpCollector fl = Ok c \<Longrightarrow> ntp_wf c"
  by (auto simp: NewNtpCollector_def ntp_wf_def ntp_desc_def split: if_splits)

interpretation ntp: safe_collector_contract "\<lambda>(fl, lc, c, query, lm). snd (ntp_Update fl lc c query lm)"
  "\<lambda>(fl :: ntpFlags, lc :: leapCodes, c, query, lm :: int). ntp_wf c \<and> \<not> panics query"
  by unfold_locales (auto simp: ntp_Update_def ntp_wf_def Let_def split: res.splits)

lemma timex_metrics_labels: "list_all labels_ok (timex_metrics NewTimexCollector status t)"
  by (simp add: timex_metrics_def NewTimexCollector_def timex_desc_def)

interpretation timex: safe_collector_contract "timex_Update NewTimexCollector" "\<lambda>r. \<not> panics r"
  by unfold_locales (auto simp: timex_Update_def panics_with_res timex_metrics_labels intro!: upd_ok_with_res)

section \<open>Properties\<close>

text \<open>
  The NTP collector is only made for a server on the loopback interface (unless the user vouches
  for it), a protocol version from 2 to 4, a tolerance that is not negative and a port that exists.
\<close>

theorem NewNtpCollector_checks:
  "(\<exists>c. NewNtpCollector fl = Ok c) \<longleftrightarrow>
     (ntpServerIsLocal fl \<or> (\<exists>ip. ParseIP (ntpServer fl) = Some ip \<and> IsLoopback ip)) \<and>
     ntpProtocolVersion fl \<in> {2..4} \<and> 0 \<le> ntpOffsetTolerance fl \<and> ntpServerPort fl \<in> {1..65535}"
  by (auto simp: NewNtpCollector_def split: option.splits)

text \<open>The answers of several scrapes in a row, as they change the midnight that is remembered.\<close>

definition leap_state :: "leapCodes \<Rightarrow> ntpResponse list \<Rightarrow> int \<Rightarrow> int" where
  "leap_state lc rs lm = fold (next_leapMidnight lc) rs lm"

lemma leap_state_quiet:
  "list_all (\<lambda>r. rs_Leap r \<noteq> LeapAddSecond lc \<and> rs_Leap r \<noteq> LeapDelSecond lc) rs \<Longrightarrow> leap_state lc rs lm = lm"
  by (induction rs) (simp_all add: leap_state_def next_leapMidnight_def)

text \<open>
  After an answer announced a leap second, the tolerance is one second wider until a day after
  the midnight that follows the announcement, whatever answers without announcement come in
  between: the announcement is not forgotten when the server drops it at midnight.
\<close>

theorem ntp_leap_window:
  assumes "rs_Leap a \<in> {LeapAddSecond lc, LeapDelSecond lc}"
    and "list_all (\<lambda>r. rs_Leap r \<noteq> LeapAddSecond lc \<and> rs_Leap r \<noteq> LeapDelSecond lc) (rs @ [r])"
    and "rs_Time a \<le> rs_Time r" "0 \<le> ntpOffsetTolerance fl" "ntpOffsetTolerance fl + 1000000000 < 2 ^ 63"
  shows "ntp_maxerr fl (leap_state lc (a # rs @ [r]) lm) r =
    ntpOffsetTolerance fl + (if rs_Time r < Truncate (rs_Time a) hour24 + 2 * hour24 \<and> \<not> (rs_Time r = Truncate (rs_Time a) hour24)
      then 1000000000 else 0)"
proof -
  have s: "leap_state lc (a # rs @ [r]) lm = Truncate (rs_Time a) hour24 + hour24"
    using assms(1) leap_state_quiet [OF assms(2), of "next_leapMidnight lc a lm"] by (auto simp: leap_state_def next_leapMidnight_def)
  have "Truncate (rs_Time a) hour24 \<le> rs_Time a" by (simp add: Truncate_def hour24_def)
  moreover have "wrap64 (ntpOffsetTolerance fl + 1000000000) = ntpOffsetTolerance fl + 1000000000"
    using assms(4,5) by (intro wrap64_id) simp_all
  ultimately show ?thesis using assms(3) by (auto simp: ntp_maxerr_def s)
qed

definition demo_resp :: "int \<Rightarrow> uint8 \<Rightarrow> ntpResponse" where
  "demo_resp t l = \<lparr>rs_Time = t, rs_Stratum = 2, rs_Leap = l, rs_RTT = 0, rs_ClockOffset = 0, rs_ReferenceTime = 0, rs_RootDelay = 0,
     rs_RootDispersion = 0, rs_RootDistance = 0, rs_MinError = 0, rs_Valid = True\<rparr>"

definition demo_ntp :: ntpFlags where
  "demo_ntp = \<lparr>ntpServer = ''127.0.0.1'', ntpServerPort = 123, ntpProtocolVersion = 4, ntpServerIsLocal = False,
     ntpMaxDistance = 3466080000, ntpOffsetTolerance = 1000000\<rparr>"

theorem ntp_leap_window_witness:
  "ntp_maxerr demo_ntp (leap_state \<lparr>LeapAddSecond = 1, LeapDelSecond = 2\<rparr>
      (demo_resp (1000 * hour24 + 5) 1 # [demo_resp (1000 * hour24 + 7) 0] @ [demo_resp (1001 * hour24 + 9) 0]) 0)
      (demo_resp (1001 * hour24 + 9) 0) = 1001000000"
  by (subst ntp_leap_window) (simp_all add: demo_resp_def demo_ntp_def hour24_def Truncate_def)

text \<open>
  The clock counts as synchronised exactly when the kernel does not report \<^verbatim>\<open>TIME_ERROR\<close>, and
  offset and jitter are scaled from nanoseconds exactly when bit 13 of the status is set.
\<close>

theorem timex_resolution:
  "timex_divisor t = (if bit (tx_Status t) 13 then Fin 1000000000 else Fin 1000000) \<and>
   timex_Update c (Ok (status, t)) = emit (timex_metrics c status t) \<and>
   hd (timex_metrics c status t) = mustNewConstMetric (tc_syncStatus c) (if status = 5 then Fin 0 else Fin 1) []"
proof -
  have m: "staNano = push_bit 13 1" by (simp add: staNano_def)
  have "(tx_Status t AND staNano \<noteq> 0) = bit (tx_Status t) 13"
    by (metis (no_types, lifting) m and_exp_eq_0_iff_not_bit push_bit_of_1)
  then show ?thesis by (simp add: timex_divisor_def nanoSeconds_def microSeconds_def timex_Update_def timex_metrics_def timeError_def)
qed

end
