(* ===== verification/Netmisc.thy ===== *)
theory Netmisc
  imports GoNet
begin

text \<open>
  The small network collectors: \<^verbatim>\<open>arp_linux.go\<close>, \<^verbatim>\<open>bonding_linux.go\<close>, \<^verbatim>\<open>conntrack_linux.go\<close>,
  \<^verbatim>\<open>network_route_linux.go\<close>, \<^verbatim>\<open>qdisc_linux.go\<close>, \<^verbatim>\<open>softnet_linux.go\<close> and \<^verbatim>\<open>udp_queues_linux.go\<close>. What netlink
  and procfs return is the environment, constants of the kernel interface included.
\<close>

unbundle bit_operations_syntax

section \<open>arp\<close>

record arpFlags =
  arpDeviceInclude :: string
  arpDeviceExclude :: string
  arpNetlink :: bool

definition arpEntries :: desc where
  "arpEntries = NewDesc (BuildFQName namespace ''arp'' ''entries'') ''ARP entries by device'' [''device'']"

record neighbour =
  n_State :: uint16
  n_InterfaceName :: string

record arpEnv =
  arp_NewFS :: "unit res"
  rtnl_Dial :: "unit res"
  rtnl_Neighbours :: "neighbour list res"
  GatherARPEntries :: "string list res"
  NUD_NOARP :: uint16

definition NewARPCollector :: "arpEnv \<Rightarrow> arpFlags \<Rightarrow> deviceFilter res" where
  "NewARPCollector env fl =
     bind_res (map_err (Wrapf ''failed to open procfs: %w'' []) (arp_NewFS env)) (\<lambda>_.
       newDeviceFilter (arpDeviceExclude fl) (arpDeviceInclude fl))"

definition getTotalArpEntries :: "string list \<Rightarrow> (string, uint32) gomap" where
  "getTotalArpEntries deviceEntries = fold map_incr deviceEntries []"

definition getTotalArpEntriesRTNL :: "arpEnv \<Rightarrow> (string, uint32) gomap res" where
  "getTotalArpEntriesRTNL env =
     bind_res (rtnl_Dial env) (\<lambda>_.
     bind_res (rtnl_Neighbours env) (\<lambda>neighbors.
       Ok (fold (\<lambda>n entries. if n_State n AND NUD_NOARP env = 0 then map_incr (n_InterfaceName n) entries else entries) neighbors [])))"

definition arp_entries :: "arpEnv \<Rightarrow> arpFlags \<Rightarrow> (string, uint32) gomap res" where
  "arp_entries env fl =
     map_err (Wrapf ''could not get ARP entries: %w'' [])
       (if arpNetlink fl then getTotalArpEntriesRTNL env
        else bind_res (GatherARPEntries env) (\<lambda>es. Ok (getTotalArpEntries es)))"

definition arp_Update :: "((string \<times> uint32) list \<Rightarrow> (string \<times> uint32) list) \<Rightarrow> arpEnv \<Rightarrow> arpFlags \<Rightarrow> deviceFilter \<Rightarrow> upd" where
  "arp_Update ord env fl f =
     with_res (arp_entries env fl) (\<lambda>enumeratedEntry.
       emit (concat (map (\<lambda>(device, n). if ignored f device then []
         else [MustNewConstMetric arpEntries GaugeValue (f64_of_nat (unat n)) [device]]) (ord enumeratedEntry))))"

section \<open>bonding\<close>

definition bonding_desc :: "string \<Rightarrow> string \<Rightarrow> typedDesc" where
  "bonding_desc name help =
     \<lparr>td_desc = NewDesc (BuildFQName namespace ''bonding'' name) help [''master''], td_valueType = GaugeValue\<rparr>"

definition bond_slaves :: typedDesc where
  "bond_slaves = bonding_desc ''slaves'' ''Number of configured slaves per bonding interface.''"

definition bond_active :: typedDesc where
  "bond_active = bonding_desc ''active'' ''Number of active slaves per bonding interface.''"

definition slave_state :: "(string \<Rightarrow> string res) \<Rightarrow> string \<Rightarrow> string \<Rightarrow> string \<Rightarrow> string res" where
  "slave_state readFile rt master slave =
     (let r = readFile (filepath_Join [rt, master, ''lower_'' @ slave, ''bonding_slave'', ''mii_status'']) in
      case r of
        Err e \<Rightarrow> if errors_Is e ErrNotExist
                 then readFile (filepath_Join [rt, master, ''slave_'' @ slave, ''bonding_slave'', ''mii_status''])
                 else r
      | _ \<Rightarrow> r)"

definition slave_step :: "(string \<Rightarrow> string res) \<Rightarrow> string \<Rightarrow> string \<Rightarrow> string \<Rightarrow> int \<times> int \<Rightarrow> (int \<times> int) res" where
  "slave_step readFile rt master slave = (\<lambda>(n, up).
     bind_res (slave_state readFile rt master slave) (\<lambda>st.
       Ok (n + 1, if TrimSpace st = ''up'' then up + 1 else up)))"

definition master_step :: "(string \<Rightarrow> string res) \<Rightarrow> string \<Rightarrow> string \<Rightarrow> (string, int \<times> int) gomap \<Rightarrow> (string, int \<times> int) gomap res" where
  "master_step readFile rt master status =
     bind_res (readFile (filepath_Join [rt, master, ''bonding'', ''slaves''])) (\<lambda>slaves.
     bind_res (fold_res (slave_step readFile rt master) (Fields slaves) (0, 0)) (\<lambda>sstat.
       Ok (map_put master sstat status)))"

definition readBondingStats :: "(string \<Rightarrow> string res) \<Rightarrow> string \<Rightarrow> (string, int \<times> int) gomap res" where
  "readBondingStats readFile rt =
     bind_res (readFile (filepath_Join [rt, ''bonding_masters''])) (\<lambda>masters.
       fold_res (master_step readFile rt) (Fields masters) [])"

definition bonding_Update :: "((string \<times> int \<times> int) list \<Rightarrow> (string \<times> int \<times> int) list) \<Rightarrow> paths \<Rightarrow> (string \<Rightarrow> string res) \<Rightarrow> upd" where
  "bonding_Update ord p readFile =
     with_res (map_err (\<lambda>e. if errors_Is e ErrNotExist then ErrNoData else e) (readBondingStats readFile (sysFilePath p ''class/net''))) (\<lambda>stats.
       emit (concat (map (\<lambda>(master, s0, s1).
         [mustNewConstMetric bond_slaves (f64_of_int s0) [master], mustNewConstMetric bond_active (f64_of_int s1) [master]]) (ord stats))))"

section \<open>conntrack\<close>

definition conntrack_desc :: "string \<Rightarrow> string \<Rightarrow> desc" where
  "conntrack_desc name help = NewDesc (BuildFQName namespace [] (''nf_conntrack_'' @ name)) help []"

record conntrackStatistics =
  ct_found :: uint64
  ct_invalid :: uint64
  ct_ignore :: uint64
  ct_insert :: uint64
  ct_insertFailed :: uint64
  ct_drop :: uint64
  ct_earlyDrop :: uint64
  ct_searchRestart :: uint64

definition ct_zero :: conntrackStatistics where
  "ct_zero = \<lparr>ct_found = 0, ct_invalid = 0, ct_ignore = 0, ct_insert = 0, ct_insertFailed = 0, ct_drop = 0, ct_earlyDrop = 0, ct_searchRestart = 0\<rparr>"

text \<open>The counters of one CPU are a structure of procfs with the same fields.\<close>

definition ct_add :: "conntrackStatistics \<Rightarrow> conntrackStatistics \<Rightarrow> conntrackStatistics" where
  "ct_add x s =
     \<lparr>ct_found = ct_found s + ct_found x, ct_invalid = ct_invalid s + ct_invalid x, ct_ignore = ct_ignore s + ct_ignore x,
      ct_insert = ct_insert s + ct_insert x, ct_insertFailed = ct_insertFailed s + ct_insertFailed x, ct_drop = ct_drop s + ct_drop x,
      ct_earlyDrop = ct_earlyDrop s + ct_earlyDrop x, ct_searchRestart = ct_searchRestart s + ct_searchRestart x\<rparr>"

record conntrackEnv =
  ct_NewFS :: "unit res"
  ct_ConntrackStat :: "conntrackStatistics list res"

definition getConntrackStatistics :: "conntrackEnv \<Rightarrow> conntrackStatistics res" where
  "getConntrackStatistics env =
     bind_res (map_err (Wrapf ''failed to open procfs: %w'' []) (ct_NewFS env)) (\<lambda>_.
     bind_res (ct_ConntrackStat env) (\<lambda>connStats.
       Ok (fold ct_add connStats ct_zero)))"

definition ct_handleErr :: "error \<Rightarrow> error" where
  "ct_handleErr e = (if errors_Is e ErrNotExist then ErrNoData else Wrapf ''failed to retrieve conntrack stats: %w'' [] e)"

definition ct_metric :: "string \<Rightarrow> string \<Rightarrow> nat \<Rightarrow> metric" where
  "ct_metric name help v = MustNewConstMetric (conntrack_desc name help) GaugeValue (f64_of_nat v) []"

definition conntrack_Update :: "paths \<Rightarrow> (string \<Rightarrow> string res) \<Rightarrow> conntrackEnv \<Rightarrow> upd" where
  "conntrack_Update p readFile env =
     with_res (map_err ct_handleErr (readUintFromFile readFile (procFilePath p ''sys/net/netfilter/nf_conntrack_count''))) (\<lambda>v.
     seq (emit [ct_metric ''entries'' ''Number of currently allocated flow entries for connection tracking.'' (nat v)])
     (with_res (map_err ct_handleErr (readUintFromFile readFile (procFilePath p ''sys/net/netfilter/nf_conntrack_max''))) (\<lambda>v.
      seq (emit [ct_metric ''entries_limit'' ''Maximum size of connection tracking table.'' (nat v)])
      (with_res (map_err ct_handleErr (getConntrackStatistics env)) (\<lambda>s.
       emit [ct_metric ''stat_found'' ''Number of searched entries which were successful.'' (unat (ct_found s)),
             ct_metric ''stat_invalid'' ''Number of packets seen which can not be tracked.'' (unat (ct_invalid s)),
             ct_metric ''stat_ignore'' ''Number of packets seen which are already connected to a conntrack entry.'' (unat (ct_ignore s)),
             ct_metric ''stat_insert'' ''Number of entries inserted into the list.'' (unat (ct_insert s)),
             ct_metric ''stat_insert_failed'' ''Number of entries for which list insertion was attempted but failed.'' (unat (ct_insertFailed s)),
             ct_metric ''stat_drop'' ''Number of packets dropped due to conntrack failure.'' (unat (ct_drop s)),
             ct_metric ''stat_early_drop'' ''Number of dropped conntrack entries to make room for new ones, if maximum table size was reached.'' (unat (ct_earlyDrop s)),
             ct_metric ''stat_search_restart'' ''Number of conntrack table lookups which had to be restarted due to hashtable resizes.'' (unat (ct_searchRestart s))])))))"

section \<open>network routes\<close>

definition routeInfoDesc :: desc where
  "routeInfoDesc = NewDesc (BuildFQName namespace ''network'' ''route_info'') ''network routing table information''
     [''device'', ''src'', ''dest'', ''gw'', ''priority'', ''proto'', ''weight'']"

definition routesDesc :: desc where
  "routesDesc = NewDesc (BuildFQName namespace ''network'' ''routes'') ''network routes by interface'' [''device'']"

text \<open>A link whose attributes are a nil pointer has no name to read.\<close>

record link =
  lk_Index :: uint32
  lk_Name :: "string option"

record nextHop =
  nh_IfIndex :: uint32
  nh_Hops :: uint8
  nh_Gateway :: IP

record route =
  rt_Type :: uint8
  rt_DstLength :: uint8
  rt_Protocol :: uint8
  rt_Src :: IP
  rt_Dst :: IP
  rt_Gateway :: IP
  rt_OutIface :: uint32
  rt_Priority :: uint32
  rt_Multipath :: "nextHop list"

record routeEnv =
  rt_Dial :: "unit res"
  rt_Links :: "link list res"
  rt_Routes :: "route list res"
  RTA_DST :: uint8

definition networkRouteIPWithPrefixToString :: "IP \<Rightarrow> uint8 \<Rightarrow> string" where
  "networkRouteIPWithPrefixToString ip len =
     (if len = 0 then ''default''
      else IPNet_String ip (unat len) (if To4 ip = None then 128 else 32))"

definition networkRouteIPToString :: "IP \<Rightarrow> string" where
  "networkRouteIPToString ip = (if ip = [] then [] else IP_String ip)"

definition routeProtocols :: "(nat \<times> string) list" where
  "routeProtocols =
     [(0, ''unspec''), (1, ''redirect''), (2, ''kernel''), (3, ''boot''), (4, ''static''), (8, ''gated''), (9, ''ra''), (10, ''mrt''),
      (11, ''zebra''), (12, ''bird''), (13, ''dnrouted''), (14, ''xorp''), (15, ''ntk''), (16, ''dhcp''), (17, ''mrouted''), (42, ''babel''),
      (186, ''bgp''), (187, ''isis''), (188, ''ospf''), (189, ''rip''), (192, ''eigrp'')]"

definition networkRouteProtocolToString :: "uint8 \<Rightarrow> string" where
  "networkRouteProtocolToString protocol = map_get_z ''unknown'' routeProtocols (unat protocol)"

definition ifName :: "link list \<Rightarrow> uint32 \<Rightarrow> string res" where
  "ifName links i =
     (case find (\<lambda>l. lk_Index l = i) links of
        None \<Rightarrow> Ok []
      | Some l \<Rightarrow> (case lk_Name l of Some n \<Rightarrow> Ok n | None \<Rightarrow> Panic ''nil pointer dereference''))"

text \<open>The samples of a route, as the interface they go to and the labels after its name.\<close>

definition route_hops :: "routeEnv \<Rightarrow> route \<Rightarrow> (uint32 \<times> string list) list" where
  "route_hops env r =
     (let labels = (\<lambda>gw weight. [networkRouteIPToString (rt_Src r), networkRouteIPWithPrefixToString (rt_Dst r) (rt_DstLength r),
             networkRouteIPToString gw, FormatUint (unat (rt_Priority r)), networkRouteProtocolToString (rt_Protocol r), weight])
      in if rt_Type r \<noteq> RTA_DST env then []
         else if rt_Multipath r \<noteq> []
         then map (\<lambda>h. (nh_IfIndex h, labels (nh_Gateway h) (Itoa (int (unat (nh_Hops h)) + 1)))) (rt_Multipath r)
         else [(rt_OutIface r, labels (rt_Gateway r) [])])"

fun route_loop :: "link list \<Rightarrow> (uint32 \<times> string list) list \<Rightarrow> (string, goint) gomap \<Rightarrow> (string, goint) gomap \<times> upd" where
  "route_loop links [] deviceRoutes = (deviceRoutes, emit [])"
| "route_loop links ((i, labels) # hs) deviceRoutes =
     (case ifName links i of
        Ok n \<Rightarrow> (let (m, u) = route_loop links hs (map_incr n deviceRoutes)
                 in (m, seq (emit [MustNewConstMetric routeInfoDesc GaugeValue (Fin 1) (n # labels)]) u))
      | Err e \<Rightarrow> (deviceRoutes, fail e)
      | Panic p \<Rightarrow> (deviceRoutes, ([], Panic p)))"

definition route_Update :: "((string \<times> goint) list \<Rightarrow> (string \<times> goint) list) \<Rightarrow> routeEnv \<Rightarrow> upd" where
  "route_Update ord env =
     with_res (map_err (Wrapf ''couldn't connect rtnetlink: %w'' []) (rt_Dial env)) (\<lambda>_.
     with_res (map_err (Wrapf ''couldn't get links: %w'' []) (rt_Links env)) (\<lambda>links.
     with_res (map_err (Wrapf ''couldn't get routes: %w'' []) (rt_Routes env)) (\<lambda>routes.
       let (deviceRoutes, u) = route_loop links (concat (map (route_hops env) routes)) [] in
       seq u (emit (map (\<lambda>(dev, total). MustNewConstMetric routesDesc GaugeValue (f64_of_int (sint total)) [dev]) (ord deviceRoutes))))))"

section \<open>qdisc\<close>

record qdiscFlags =
  qdiscFixtures :: string
  qdiscDeviceInclude :: string
  oldQdiskDeviceInclude :: string
  qdiscDeviceExclude :: string
  oldQdiskDeviceExclude :: string

record QdiscInfo =
  q_IfaceName :: string
  q_Kind :: string
  q_Parent :: uint32
  q_Bytes :: uint64
  q_Packets :: uint32
  q_Drops :: uint32
  q_Requeues :: uint32
  q_Overlimits :: uint32
  q_Qlen :: uint32
  q_Backlog :: uint32

definition qdisc_desc :: "string \<Rightarrow> string \<Rightarrow> valueType \<Rightarrow> typedDesc" where
  "qdisc_desc name help vt = \<lparr>td_desc = NewDesc (BuildFQName namespace ''qdisc'' name) help [''device'', ''kind''], td_valueType = vt\<rparr>"

text \<open>A deprecated flag stands in for its successor; the flags are package state and stay changed.\<close>

definition NewQdiscStatCollector :: "qdiscFlags \<Rightarrow> qdiscFlags \<times> deviceFilter res" where
  "NewQdiscStatCollector fl =
     (if oldQdiskDeviceInclude fl \<noteq> [] \<and> qdiscDeviceInclude fl \<noteq> []
      then (fl, Err (NewError ''--collector.qdisk.device-include and --collector.qdisc.device-include are mutually exclusive''))
      else
        let fl1 = (if oldQdiskDeviceInclude fl \<noteq> [] then fl\<lparr>qdiscDeviceInclude := oldQdiskDeviceInclude fl\<rparr> else fl) in
        if oldQdiskDeviceExclude fl1 \<noteq> [] \<and> qdiscDeviceExclude fl1 \<noteq> []
        then (fl1, Err (NewError ''--collector.qdisk.device-exclude and --collector.qdisc.device-exclude are mutually exclusive''))
        else
          let fl2 = (if oldQdiskDeviceExclude fl1 \<noteq> [] then fl1\<lparr>qdiscDeviceExclude := oldQdiskDeviceExclude fl1\<rparr> else fl1) in
          if qdiscDeviceExclude fl2 \<noteq> [] \<and> qdiscDeviceInclude fl2 \<noteq> []
          then (fl2, Err (NewError ''collector.qdisc.device-include and collector.qdisc.device-exclude are mutaly exclusive''))
          else (fl2, newDeviceFilter (qdiscDeviceExclude fl2) (qdiscDeviceInclude fl2)))"

record qdiscEnv =
  qdisc_Get :: "QdiscInfo list res"
  qdisc_readFile :: "string \<Rightarrow> string res"
  json_Unmarshal :: "string \<Rightarrow> QdiscInfo list res"

definition testQdiscGet :: "qdiscEnv \<Rightarrow> string \<Rightarrow> QdiscInfo list res" where
  "testQdiscGet env fixtures = bind_res (qdisc_readFile env (filepath_Join [fixtures, ''results.json''])) (json_Unmarshal env)"

definition qdisc_metrics :: "QdiscInfo \<Rightarrow> metric list" where
  "qdisc_metrics m =
     (let ls = [q_IfaceName m, q_Kind m] in
      [mustNewConstMetric (qdisc_desc ''bytes_total'' ''Number of bytes sent.'' CounterValue) (f64_of_nat (unat (q_Bytes m))) ls,
       mustNewConstMetric (qdisc_desc ''packets_total'' ''Number of packets sent.'' CounterValue) (f64_of_nat (unat (q_Packets m))) ls,
       mustNewConstMetric (qdisc_desc ''drops_total'' ''Number of packets dropped.'' CounterValue) (f64_of_nat (unat (q_Drops m))) ls,
       mustNewConstMetric (qdisc_desc ''requeues_total'' ''Number of packets dequeued, not transmitted, and requeued.'' CounterValue) (f64_of_nat (unat (q_Requeues m))) ls,
       mustNewConstMetric (qdisc_desc ''overlimits_total'' ''Number of overlimit packets.'' CounterValue) (f64_of_nat (unat (q_Overlimits m))) ls,
       mustNewConstMetric (qdisc_desc ''current_queue_length'' ''Number of packets currently in queue to be sent.'' GaugeValue) (f64_of_nat (unat (q_Qlen m))) ls,
       mustNewConstMetric (qdisc_desc ''backlog'' ''Number of bytes currently in queue to be sent.'' GaugeValue) (f64_of_nat (unat (q_Backlog m))) ls])"

definition qdisc_Update :: "qdiscEnv \<Rightarrow> qdiscFlags \<Rightarrow> deviceFilter \<Rightarrow> upd" where
  "qdisc_Update env fl f =
     with_res (if qdiscFixtures fl = [] then qdisc_Get env else testQdiscGet env (qdiscFixtures fl)) (\<lambda>msgs.
       emit (concat (map (\<lambda>m. if q_Parent m \<noteq> 0 \<or> ignored f (q_IfaceName m) then [] else qdisc_metrics m) msgs)))"

section \<open>softnet\<close>

record SoftnetStat =
  sn_Processed :: uint32
  sn_Dropped :: uint32
  sn_TimeSqueezed :: uint32
  sn_CPUCollision :: uint32
  sn_ReceivedRps :: uint32
  sn_FlowLimitCount :: uint32
  sn_SoftnetBacklogLen :: uint32
  sn_Index :: uint32

definition softnet_desc :: "string \<Rightarrow> string \<Rightarrow> desc" where
  "softnet_desc name help = NewDesc (BuildFQName namespace ''softnet'' name) help [''cpu'']"

definition NewSoftnetCollector :: "unit res \<Rightarrow> unit res" where
  "NewSoftnetCollector procfs_NewFS = map_err (Wrapf ''failed to open procfs: %w'' []) procfs_NewFS"

definition softnet_metrics :: "SoftnetStat \<Rightarrow> metric list" where
  "softnet_metrics s =
     (let cpu = FormatUint (unat (sn_Index s)); m = (\<lambda>d t v. MustNewConstMetric d t (f64_of_nat (unat (v :: uint32))) [cpu]) in
      [m (softnet_desc ''processed_total'' ''Number of processed packets'') CounterValue (sn_Processed s),
       m (softnet_desc ''dropped_total'' ''Number of dropped packets'') CounterValue (sn_Dropped s),
       m (softnet_desc ''times_squeezed_total'' ''Number of times processing packets ran out of quota'') CounterValue (sn_TimeSqueezed s),
       m (softnet_desc ''cpu_collision_total'' ''Number of collision occur while obtaining device lock while transmitting'') CounterValue (sn_CPUCollision s),
       m (softnet_desc ''received_rps_total'' ''Number of times cpu woken up received_rps'') CounterValue (sn_ReceivedRps s),
       m (softnet_desc ''flow_limit_count_total'' ''Number of times flow limit has been reached'') CounterValue (sn_FlowLimitCount s),
       m (softnet_desc ''backlog_len'' ''Softnet backlog status'') GaugeValue (sn_SoftnetBacklogLen s)])"

definition softnet_Update :: "SoftnetStat list res \<Rightarrow> upd" where
  "softnet_Update stats =
     with_res (map_err (Wrapf ''could not get softnet statistics: %w'' []) stats) (\<lambda>ss. emit (concat (map softnet_metrics ss)))"

section \<open>udp queues\<close>

record UDPSummary =
  TxQueueLength :: uint64
  RxQueueLength :: uint64

definition udp_desc :: desc where
  "udp_desc = NewDesc (BuildFQName namespace ''udp'' ''queues'')
     ''Number of allocated memory in the kernel for UDP datagrams in bytes.'' [''queue'', ''ip'']"

definition NewUDPqueuesCollector :: "unit res \<Rightarrow> unit res" where
  "NewUDPqueuesCollector procfs_NewFS = map_err (Wrapf ''failed to open procfs: %w'' []) procfs_NewFS"

definition udp_part :: "string \<Rightarrow> string \<Rightarrow> UDPSummary res \<Rightarrow> upd" where
  "udp_part msg ip r =
     (case r of
        Ok s \<Rightarrow> emit [MustNewConstMetric udp_desc GaugeValue (f64_of_nat (unat (TxQueueLength s))) [''tx'', ip],
                     MustNewConstMetric udp_desc GaugeValue (f64_of_nat (unat (RxQueueLength s))) [''rx'', ip]]
      | Err e \<Rightarrow> if errors_Is e ErrNotExist then emit [] else fail (Wrapf msg [] e)
      | Panic p \<Rightarrow> ([], Panic p))"

definition not_exist :: "'a res \<Rightarrow> bool" where
  "not_exist r = (case r of Err e \<Rightarrow> errors_Is e ErrNotExist | _ \<Rightarrow> False)"

definition udp_Update :: "UDPSummary res \<Rightarrow> UDPSummary res \<Rightarrow> upd" where
  "udp_Update s4 s6 =
     seq (udp_part ''couldn't get udp queued bytes: %w'' ''v4'' s4)
     (seq (udp_part ''couldn't get udp6 queued bytes: %w'' ''v6'' s6)
       (if not_exist s4 \<and> not_exist s6 then fail ErrNoData else emit []))"

section \<open>The contracts\<close>

definition arp_pre :: "arpEnv \<times> arpFlags \<times> deviceFilter \<Rightarrow> bool" where
  "arp_pre = (\<lambda>(env, fl, f). \<not> panics (rtnl_Dial env) \<and> \<not> panics (rtnl_Neighbours env) \<and> \<not> panics (GatherARPEntries env))"

interpretation arp: safe_collector_contract "\<lambda>(env, fl, f). arp_Update ord env fl f" arp_pre for ord
  by unfold_locales
    (auto simp: arp_pre_def arp_Update_def arp_entries_def getTotalArpEntriesRTNL_def arpEntries_def list_all_iff panics_with_res panics_bind_res
      intro!: upd_ok_with_res split: if_splits)

lemma slave_state_no_panic:
  assumes "\<And>f. \<not> panics (rd f)"
  shows "\<not> panics (slave_state rd rt m s)"
proof (cases "rd (filepath_Join [rt, m, ''lower_'' @ s, ''bonding_slave'', ''mii_status''])")
  case (Panic q)
  then show ?thesis using assms [of "filepath_Join [rt, m, ''lower_'' @ s, ''bonding_slave'', ''mii_status'']"] by simp
qed (use assms in \<open>simp_all add: slave_state_def Let_def del: filepath_Join.simps\<close>)

lemma readBondingStats_no_panic:
  assumes "\<And>f. \<not> panics (rd f)"
  shows "\<not> panics (readBondingStats rd rt)"
proof -
  have "\<not> panics (slave_step rd rt m s x)" for m s x
    using slave_state_no_panic [of rd rt m s] assms by (cases x) (auto simp: slave_step_def panics_bind_res)
  then have "\<not> panics (master_step rd rt m st)" for m st
    using assms by (auto simp: master_step_def panics_bind_res fold_res_no_panic)
  then show ?thesis using assms by (auto simp: readBondingStats_def panics_bind_res fold_res_no_panic)
qed

interpretation bonding: safe_collector_contract "\<lambda>(p, rd). bonding_Update ord p rd" "\<lambda>(p :: paths, rd). \<forall>f. \<not> panics (rd f)" for ord
  by unfold_locales
    (auto simp: bonding_Update_def bond_slaves_def bond_active_def bonding_desc_def list_all_iff panics_with_res readBondingStats_no_panic
      intro!: upd_ok_with_res)

definition conntrack_pre :: "paths \<times> (string \<Rightarrow> string res) \<times> conntrackEnv \<Rightarrow> bool" where
  "conntrack_pre = (\<lambda>(p, rd, env). (\<forall>f. \<not> panics (rd f)) \<and> \<not> panics (ct_NewFS env) \<and> \<not> panics (ct_ConntrackStat env))"

interpretation conntrack: safe_collector_contract "\<lambda>(p, rd, env). conntrack_Update p rd env" conntrack_pre
proof unfold_locales
  fix e assume pre: "conntrack_pre e"
  obtain p rd env where e: "e = (p, rd, env)" by (cases e)
  show "upd_ok (case e of (p, rd, env) \<Rightarrow> conntrack_Update p rd env)"
    unfolding e prod.case conntrack_Update_def
    by (intro upd_ok_with_res upd_ok_seq) (simp_all add: ct_metric_def conntrack_desc_def)
  show "\<not> panics (snd (case e of (p, rd, env) \<Rightarrow> conntrack_Update p rd env))"
    using pre by (auto simp: e conntrack_pre_def conntrack_Update_def getConntrackStatistics_def panics_with_res panics_bind_res readUintFromFile_no_panic)
qed

lemma route_hops_length: "list_all (\<lambda>(i, ls). length ls = 6) (concat (map (route_hops env) routes))"
  by (induction routes) (auto simp: route_hops_def Let_def list_all_iff split: if_splits)

lemma route_loop_ok: "list_all (\<lambda>(i, ls). length ls = 6) hs \<Longrightarrow> upd_ok (snd (route_loop links hs m))"
proof (induction links hs m rule: route_loop.induct)
  case (2 links i labels hs m)
  show ?case
  proof (cases "ifName links i")
    case (Ok n)
    with 2 show ?thesis by (auto simp: case_prod_beta routeInfoDesc_def upd_ok_def)
  qed (simp_all add: upd_ok_def)
qed (simp add: emit_def upd_ok_def)

lemma route_loop_returns:
  "list_all (\<lambda>l. lk_Name l \<noteq> None) links \<Longrightarrow> snd (snd (route_loop links hs m)) = Ok ()"
proof (induction links hs m rule: route_loop.induct)
  case (2 links i labels hs m)
  have "lk_Name l \<noteq> None" if "find (\<lambda>l. lk_Index l = i) links = Some l" for l
    using that 2(2) by (auto simp: find_Some_iff list_all_length)
  then obtain n where n: "ifName links i = Ok n" by (fastforce simp: ifName_def split: option.splits)
  then show ?case using 2(1) [OF n 2(2)] by (simp add: case_prod_beta)
qed simp

definition route_pre :: "routeEnv \<Rightarrow> bool" where
  "route_pre env \<longleftrightarrow> \<not> panics (rt_Dial env) \<and> \<not> panics (rt_Links env) \<and> \<not> panics (rt_Routes env) \<and>
     (\<forall>links. rt_Links env = Ok links \<longrightarrow> list_all (\<lambda>l. lk_Name l \<noteq> None) links)"

interpretation route: safe_collector_contract "route_Update ord" route_pre for ord
proof unfold_locales
  fix env
  show "upd_ok (route_Update ord env)"
    unfolding route_Update_def using route_loop_ok [OF route_hops_length]
    by (auto simp: routesDesc_def list_all_iff case_prod_beta intro!: upd_ok_with_res upd_ok_seq)
  assume pre: "route_pre env"
  then show "\<not> panics (snd (route_Update ord env))"
    using route_loop_returns by (auto simp: route_pre_def route_Update_def panics_with_res case_prod_beta dest!: panics_seq)
qed

definition qdisc_pre :: "qdiscEnv \<times> qdiscFlags \<times> deviceFilter \<Rightarrow> bool" where
  "qdisc_pre = (\<lambda>(env, fl, f). \<not> panics (qdisc_Get env) \<and> (\<forall>s. \<not> panics (qdisc_readFile env s)) \<and> (\<forall>s. \<not> panics (json_Unmarshal env s)))"

interpretation qdisc: safe_collector_contract "\<lambda>(env, fl, f). qdisc_Update env fl f" qdisc_pre
  by unfold_locales
    (auto simp: qdisc_pre_def qdisc_Update_def testQdiscGet_def qdisc_metrics_def qdisc_desc_def Let_def list_all_iff panics_with_res panics_bind_res
      intro!: upd_ok_with_res split: if_splits)

interpretation softnet: safe_collector_contract softnet_Update "\<lambda>r. \<not> panics r"
  by unfold_locales
    (auto simp: softnet_Update_def softnet_metrics_def softnet_desc_def Let_def list_all_iff panics_with_res intro!: upd_ok_with_res)

lemma udp_part_ok: "upd_ok (udp_part msg ip r)"
  by (cases r) (auto simp: udp_part_def udp_desc_def upd_ok_def)

interpretation udp: safe_collector_contract "\<lambda>(s4, s6). udp_Update s4 s6" "\<lambda>(s4, s6). \<not> panics s4 \<and> \<not> panics s6"
proof unfold_locales
  fix e :: "UDPSummary res \<times> UDPSummary res"
  show "upd_ok (case e of (s4, s6) \<Rightarrow> udp_Update s4 s6)"
    unfolding udp_Update_def by (cases e) (simp, intro conjI impI upd_ok_seq udp_part_ok, simp_all)
  have "\<not> panics r \<Longrightarrow> \<not> panics (snd (udp_part msg ip r))" for msg ip r by (cases r) (auto simp: udp_part_def)
  then show "case e of (s4, s6) \<Rightarrow> \<not> panics s4 \<and> \<not> panics s6 \<Longrightarrow> \<not> panics (snd (case e of (s4, s6) \<Rightarrow> udp_Update s4 s6))"
    by (auto simp: udp_Update_def split: prod.splits if_splits dest!: panics_seq)
qed

section \<open>Properties\<close>

text \<open>What a map of counters built by increments says about the list counted.\<close>

lemma fold_map_incr_filter:
  "map_get (fold map_incr (map f xs) ([] :: ('k, 'v :: semiring_1) gomap)) d =
     (let k = length (filter (\<lambda>x. f x = d) xs) in if k = 0 then None else Some (of_nat k))"
proof -
  have c: "count_list (map f xs) d = length (filter (\<lambda>x. f x = d) xs)" by (induction xs) auto
  have mem: "d \<in> set (map f xs) \<longleftrightarrow> count_list (map f xs) d \<noteq> 0" by (simp only: count_list_0_iff not_not)
  show ?thesis unfolding fold_map_incr_get mem c Let_def by simp
qed
text \<open>
  The number of entries exported for a device is the number of its neighbours that have not the
  state \<^verbatim>\<open>NUD_NOARP\<close>, modulo the width of the counter, and a device without any has no sample.
\<close>

theorem arp_counts:
  assumes "rtnl_Dial env = Ok ()" "rtnl_Neighbours env = Ok ns"
  shows "\<exists>m. getTotalArpEntriesRTNL env = Ok m \<and> wf_map m \<and> (\<forall>d. map_get m d =
    (let k = length (filter (\<lambda>n. n_State n AND NUD_NOARP env = 0 \<and> n_InterfaceName n = d) ns) in if k = 0 then None else Some (of_nat k)))"
proof -
  let ?ks = "map n_InterfaceName (filter (\<lambda>n. n_State n AND NUD_NOARP env = 0) ns)"
  have f: "fold (\<lambda>n entries. if n_State n AND NUD_NOARP env = 0 then map_incr (n_InterfaceName n) entries else entries) ns m = fold map_incr ?ks m" for m
    by (induction ns arbitrary: m) simp_all
  show ?thesis using assms
    by (simp add: getTotalArpEntriesRTNL_def f wf_fold_map_incr fold_map_incr_filter conj_commute)
qed

theorem arp_counts_witness:
  "\<exists>m. getTotalArpEntriesRTNL \<lparr>arp_NewFS = Ok (), rtnl_Dial = Ok (),
      rtnl_Neighbours = Ok [\<lparr>n_State = 2, n_InterfaceName = ''eth0''\<rparr>, \<lparr>n_State = 0x40, n_InterfaceName = ''lo''\<rparr>, \<lparr>n_State = 4, n_InterfaceName = ''eth0''\<rparr>],
      GatherARPEntries = Ok [], NUD_NOARP = 0x40\<rparr> = Ok m \<and> map_get m ''eth0'' = Some 2 \<and> map_get m ''lo'' = None"
  using arp_counts [of "\<lparr>arp_NewFS = Ok (), rtnl_Dial = Ok (),
      rtnl_Neighbours = Ok [\<lparr>n_State = 2, n_InterfaceName = ''eth0''\<rparr>, \<lparr>n_State = 0x40, n_InterfaceName = ''lo''\<rparr>, \<lparr>n_State = 4, n_InterfaceName = ''eth0''\<rparr>],
      GatherARPEntries = Ok [], NUD_NOARP = 0x40\<rparr>"] by auto

text \<open>
  C35: The table of routes and the number of routes by interface agree: when a scrape ends normally,
  it has sent the route samples followed by one count for every interface among their labels, and
  the count is how many of the samples name that interface.
\<close>

theorem route_Update_consistent:
  assumes "snd (route_Update ord env) = Ok ()"
  shows "\<exists>infos m. fst (route_Update ord env) =
      infos @ map (\<lambda>(dev, total). MustNewConstMetric routesDesc GaugeValue (f64_of_int (sint total)) [dev]) (ord m) \<and>
    list_all (\<lambda>i. metric_desc i = routeInfoDesc) infos \<and> wf_map m \<and> (\<forall>dev. map_get m dev =
      (let k = length (filter (\<lambda>i. hd (metric_labels i) = dev) infos) in if k = 0 then None else Some (of_nat k)))"
proof -
  have loop: "m' = fold map_incr (map (\<lambda>i. hd (metric_labels i)) (fst u)) m \<and> list_all (\<lambda>i. metric_desc i = routeInfoDesc) (fst u)"
    if "route_loop links hs m = (m', u)" "snd u = Ok ()" for links hs m m' u
    using that
  proof (induction links hs m arbitrary: m' u rule: route_loop.induct)
    case (2 links i labels hs m)
    show ?case
    proof (cases "ifName links i")
      case (Ok n)
      obtain m2 u2 where r: "route_loop links hs (map_incr n m) = (m2, u2)" by (cases "route_loop links hs (map_incr n m)") auto
      show ?thesis using 2(1) [OF Ok r] 2(2,3) Ok r by auto
    qed (use 2 in auto)
  qed (auto simp: emit_def)
  obtain links routes where lr: "rt_Dial env = Ok ()" "rt_Links env = Ok links" "rt_Routes env = Ok routes"
    using assms by (cases "rt_Dial env"; cases "rt_Links env"; cases "rt_Routes env") (auto simp: route_Update_def)
  obtain m u where mu: "route_loop links (concat (map (route_hops env) routes)) [] = (m, u)"
    by (cases "route_loop links (concat (map (route_hops env) routes)) []") auto
  have ok: "snd u = Ok ()" using assms by (simp add: route_Update_def lr mu)
  let ?ks = "map (\<lambda>i. hd (metric_labels i)) (fst u)"

  have m: "m = fold map_incr ?ks []" "list_all (\<lambda>i. metric_desc i = routeInfoDesc) (fst u)" using loop [OF mu ok] by simp_all
  have "fst (route_Update ord env) = fst u @ map (\<lambda>(dev, total). MustNewConstMetric routesDesc GaugeValue (f64_of_int (sint total)) [dev]) (ord m)"
    using ok by (simp add: route_Update_def lr mu fst_seq_Ok)
  moreover have "map_get m d = (let k = length (filter (\<lambda>i. hd (metric_labels i) = d) (fst u)) in if k = 0 then None else Some (of_nat k))" for d
    unfolding m(1) by (rule fold_map_incr_filter)
  moreover have "wf_map m" unfolding m(1) by (intro wf_fold_map_incr) simp
  ultimately show ?thesis using m(2) by blast
qed

definition demo_route_env :: routeEnv where
  "demo_route_env = \<lparr>rt_Dial = Ok (), rt_Links = Ok [\<lparr>lk_Index = 1, lk_Name = Some ''lo''\<rparr>, \<lparr>lk_Index = 2, lk_Name = Some ''eth0''\<rparr>],
     rt_Routes = Ok [\<lparr>rt_Type = 1, rt_DstLength = 0, rt_Protocol = 16, rt_Src = [], rt_Dst = [], rt_Gateway = [10, 0, 0, 1],
       rt_OutIface = 2, rt_Priority = 100, rt_Multipath = []\<rparr>], RTA_DST = 1\<rparr>"

theorem route_Update_consistent_witness:
  "\<exists>infos (m :: (string, goint) gomap). fst (route_Update (\<lambda>m. m) demo_route_env) =
      infos @ map (\<lambda>(dev, total). MustNewConstMetric routesDesc GaugeValue (f64_of_int (sint total)) [dev]) m \<and>
    list_all (\<lambda>i. metric_desc i = routeInfoDesc) infos \<and> wf_map m \<and> (\<forall>dev. map_get m dev =
      (let k = length (filter (\<lambda>i. hd (metric_labels i) = dev) infos) in if k = 0 then None else Some (of_nat k)))"
proof -
  have "list_all (\<lambda>l. lk_Name l \<noteq> None) [\<lparr>lk_Index = 1, lk_Name = Some ''lo''\<rparr>, \<lparr>lk_Index = 2, lk_Name = Some ''eth0''\<rparr>]" by simp
  from route_loop_returns [OF this] have "snd (route_Update (\<lambda>m. m) demo_route_env) = Ok ()"
    by (simp add: route_Update_def demo_route_env_def case_prod_beta)
  then show ?thesis by (rule route_Update_consistent)
qed

lemma slave_step_Ok:
  "slave_step rd rt m s (n, up) = Ok x \<longleftrightarrow>
     (\<exists>st. slave_state rd rt m s = Ok st \<and> x = (n + 1, if TrimSpace st = ''up'' then up + 1 else up))"
  by (cases "slave_state rd rt m s") (auto simp: slave_step_def)

lemma master_step_Ok:
  "master_step rd rt m st = Ok x \<longleftrightarrow> (\<exists>slaves a b. rd (filepath_Join [rt, m, ''bonding'', ''slaves'']) = Ok slaves \<and>
     fold_res (slave_step rd rt m) (Fields slaves) (0, 0) = Ok (a, b) \<and> x = map_put m (a, b) st)"
  by (auto simp: master_step_def go_simps simp del: filepath_Join.simps)

lemma slave_steps_count:
  assumes "fold_res (slave_step rd rt m) ss (n, up) = Ok (n', up')"
  shows "n' = n + int (length ss) \<and>
    up' = up + int (length (filter (\<lambda>s. \<exists>st. slave_state rd rt m s = Ok st \<and> TrimSpace st = ''up'') ss))"
  using assms
proof (induction ss arbitrary: n up)
  case (Cons s ss)
  obtain st where st: "slave_state rd rt m s = Ok st"
    and r: "fold_res (slave_step rd rt m) ss (n + 1, if TrimSpace st = ''up'' then up + 1 else up) = Ok (n', up')"
    using Cons.prems by (auto simp: slave_step_Ok go_simps)
  from Cons.IH [OF r] st show ?case by simp
qed simp

lemma master_steps_get:
  assumes "fold_res (master_step rd rt) ms st = Ok stats"
    and "\<And>m a b. map_get st m = Some (a, b) \<Longrightarrow> P m a b"
    and "\<And>m slaves a b. rd (filepath_Join [rt, m, ''bonding'', ''slaves'']) = Ok slaves \<Longrightarrow>
        fold_res (slave_step rd rt m) (Fields slaves) (0, 0) = Ok (a, b) \<Longrightarrow> P m a b"
  shows "map_get stats m = Some (a, b) \<Longrightarrow> P m a b"
  using assms(1,2)
proof (induction ms arbitrary: st)
  case (Cons k ms)
  obtain slaves s0 s1 where s: "rd (filepath_Join [rt, k, ''bonding'', ''slaves'']) = Ok slaves"
      "fold_res (slave_step rd rt k) (Fields slaves) (0, 0) = Ok (s0, s1)"
    and r: "fold_res (master_step rd rt) ms (map_put k (s0, s1) st) = Ok stats"
    using Cons.prems(2) by (auto simp: master_step_Ok go_simps simp del: filepath_Join.simps)
  have "P m' a' b'" if "map_get (map_put k (s0, s1) st) m' = Some (a', b')" for m' a' b'
    using that Cons.prems(3) assms(3) [OF s] by (auto split: if_splits)
  from Cons.IH [OF Cons.prems(1) r this] show ?case .
qed auto

text \<open>
  What is exported for a bonding interface is how many slaves its file lists and how many of them
  report the link state \<^verbatim>\<open>up\<close>, so the active ones are never more than the configured ones.
\<close>

theorem readBondingStats_counts:
  assumes "readBondingStats rd rt = Ok stats" "map_get stats master = Some (n, up)"
  shows "\<exists>slaves. rd (filepath_Join [rt, master, ''bonding'', ''slaves'']) = Ok slaves \<and> n = int (length (Fields slaves)) \<and>
    up = int (length (filter (\<lambda>s. \<exists>st. slave_state rd rt master s = Ok st \<and> TrimSpace st = ''up'') (Fields slaves))) \<and> 0 \<le> up \<and> up \<le> n"
proof -
  let ?P = "\<lambda>m a b. \<exists>slaves. rd (filepath_Join [rt, m, ''bonding'', ''slaves'']) = Ok slaves \<and> a = int (length (Fields slaves)) \<and>
      b = int (length (filter (\<lambda>s. \<exists>st. slave_state rd rt m s = Ok st \<and> TrimSpace st = ''up'') (Fields slaves))) \<and> 0 \<le> b \<and> b \<le> a"
  obtain masters where m: "fold_res (master_step rd rt) (Fields masters) [] = Ok stats"
    using assms(1) unfolding readBondingStats_def by (auto simp: go_simps simp del: filepath_Join.simps)
  show ?thesis
  proof (rule master_steps_get [OF m, of ?P])
    fix m slaves a b
    assume "rd (filepath_Join [rt, m, ''bonding'', ''slaves'']) = Ok slaves"
      and s: "fold_res (slave_step rd rt m) (Fields slaves) (0, 0) = Ok (a, b)"
    then show "?P m a b" using slave_steps_count [OF s] by (intro exI [of _ slaves]) simp
  qed (use assms(2) in simp_all)
qed

definition demo_bond_rd :: "string \<Rightarrow> string res" where
  "demo_bond_rd f =
     (if f = ''/sys/class/net/bonding_masters'' then Ok ''bond0''
      else if f = ''/sys/class/net/bond0/bonding/slaves'' then Ok ''eth0 eth1''
      else if f = ''/sys/class/net/bond0/lower_eth0/bonding_slave/mii_status'' then Ok ''up''
      else Err ErrNotExist)"

definition demo_bond_rd2 :: "string \<Rightarrow> string res" where
  "demo_bond_rd2 f = (if f = ''/sys/class/net/bond0/slave_eth1/bonding_slave/mii_status'' then Ok ''down'' else demo_bond_rd f)"

theorem readBondingStats_counts_witness:
  "\<exists>stats n up slaves. readBondingStats demo_bond_rd2 ''/sys/class/net'' = Ok stats \<and> map_get stats ''bond0'' = Some (n, up) \<and>
     n = int (length (Fields slaves)) \<and> up \<le> n"
proof -
  have r: "readBondingStats demo_bond_rd2 ''/sys/class/net'' = Ok [(''bond0'', (2, 1))]" by code_simp
  from readBondingStats_counts [OF this, of "''bond0''" 2 1] r show ?thesis by auto
qed

text \<open>
  The UDP collector reports no data exactly when the kernel has neither protocol, and any other
  failure as an error after what was read before it.
\<close>

theorem udp_no_data:
  assumes "\<not> panics s4" "\<not> panics s6"
  shows "snd (udp_Update s4 s6) = Err ErrNoData \<longleftrightarrow> not_exist s4 \<and> not_exist s6"
  using assms by (cases s4; cases s6) (auto simp: udp_Update_def udp_part_def not_exist_def emit_def fail_def)

theorem udp_no_data_witness: "snd (udp_Update (Err ErrNotExist) (Err (Wrapf ''open %w'' [] ErrNotExist))) = Err ErrNoData"
  using udp_no_data [of "Err ErrNotExist" "Err (Wrapf ''open %w'' [] ErrNotExist)"] by (simp add: not_exist_def)

end
