(* ===== verification/Services.thy ===== *)
theory Services
  imports Helpers Goroutines
begin

text \<open>
  The service manager collectors: \<^verbatim>\<open>systemd_linux.go\<close>, \<^verbatim>\<open>logind_linux.go\<close>, \<^verbatim>\<open>supervisord.go\<close> and
  \<^verbatim>\<open>runit.go\<close>. D-Bus, XML-RPC and the runit library are the environment; a value of dynamic type is
  a \<open>variant\<close>, and a type assertion on one of another type panics. The goroutines of the systemd
  collector send on one channel: the order in which their metrics arrive is an argument that
  interleaves what they send.
\<close>

datatype variant = VString string | VU32 uint32 | VU64 uint64 | VInt goint | VBool bool | VOther

fun as_string :: "variant \<Rightarrow> string res" where
  "as_string (VString s) = Ok s"
| "as_string _ = Panic ''interface conversion''"

fun as_u32 :: "variant \<Rightarrow> uint32 res" where
  "as_u32 (VU32 n) = Ok n"
| "as_u32 _ = Panic ''interface conversion''"

fun as_u64 :: "variant \<Rightarrow> uint64 res" where
  "as_u64 (VU64 n) = Ok n"
| "as_u64 _ = Panic ''interface conversion''"

fun as_int :: "variant \<Rightarrow> goint res" where
  "as_int (VInt n) = Ok n"
| "as_int _ = Panic ''interface conversion''"

section \<open>systemd\<close>

definition minSystemdVersionSystemState :: float64 where
  "minSystemdVersionSystemState = Fin 212"

record systemdFlags =
  systemdUnitIncludeSet :: bool
  systemdUnitInclude :: string
  oldSystemdUnitInclude :: string
  systemdUnitExcludeSet :: bool
  systemdUnitExclude :: string
  oldSystemdUnitExclude :: string
  systemdPrivate :: bool
  enableTaskMetrics :: bool
  enableRestartsMetrics :: bool
  enableStartTimeMetrics :: bool

text \<open>The pattern is written \<^verbatim>\<open>[0-9]{3,}(\.[0-9]+)?\<close> in the source.\<close>

definition systemdVersionRE :: regexp where
  "systemdVersionRE = compiled ''[0-9][0-9][0-9][0-9]*([.][0-9]+)?''"

record systemdCollector =
  sd_include :: regexp
  sd_exclude :: regexp

definition unitStatesName :: "string list" where
  "unitStatesName = [''active'', ''activating'', ''deactivating'', ''inactive'', ''failed'']"

definition sd_desc :: "string \<Rightarrow> string \<Rightarrow> string list \<Rightarrow> desc" where
  "sd_desc name help labels = NewDesc (BuildFQName namespace ''systemd'' name) help labels"

definition unitDesc :: desc where
  "unitDesc = sd_desc ''unit_state'' ''Systemd unit'' [''name'', ''state'', ''type'']"
definition unitStartTimeDesc :: desc where
  "unitStartTimeDesc = sd_desc ''unit_start_time_seconds'' ''Start time of the unit since unix epoch in seconds.'' [''name'']"
definition unitTasksCurrentDesc :: desc where
  "unitTasksCurrentDesc = sd_desc ''unit_tasks_current'' ''Current number of tasks per Systemd unit'' [''name'']"
definition unitTasksMaxDesc :: desc where
  "unitTasksMaxDesc = sd_desc ''unit_tasks_max'' ''Maximum number of tasks per Systemd unit'' [''name'']"
definition systemRunningDesc :: desc where
  "systemRunningDesc = sd_desc ''system_running'' (''Whether the system is operational (see '' @ [CHR 0x27] @ ''systemctl is-system-running'' @ [CHR 0x27] @ '')'') []"
definition summaryDesc :: desc where
  "summaryDesc = sd_desc ''units'' ''Summary of systemd unit states'' [''state'']"
definition nRestartsDesc :: desc where
  "nRestartsDesc = sd_desc ''service_restart_total'' ''Service unit count of Restart triggers'' [''name'']"
definition timerLastTriggerDesc :: desc where
  "timerLastTriggerDesc = sd_desc ''timer_last_trigger_seconds'' ''Seconds since epoch of last trigger.'' [''name'']"
definition socketAcceptedConnectionsDesc :: desc where
  "socketAcceptedConnectionsDesc = sd_desc ''socket_accepted_connections_total'' ''Total number of accepted socket connections'' [''name'']"
definition socketCurrentConnectionsDesc :: desc where
  "socketCurrentConnectionsDesc = sd_desc ''socket_current_connections'' ''Current number of socket connections'' [''name'']"
definition socketRefusedConnectionsDesc :: desc where
  "socketRefusedConnectionsDesc = sd_desc ''socket_refused_connections_total'' ''Total number of refused socket connections'' [''name'']"
definition systemdVersionDesc :: desc where
  "systemdVersionDesc = sd_desc ''version'' ''Detected systemd version'' [''version'']"
definition virtualizationDesc :: desc where
  "virtualizationDesc = sd_desc ''virtualization_info'' ''Detected virtualization technology'' [''virtualization_type'']"

lemmas sd_descs = sd_desc_def unitDesc_def unitStartTimeDesc_def unitTasksCurrentDesc_def unitTasksMaxDesc_def systemRunningDesc_def
  summaryDesc_def nRestartsDesc_def timerLastTriggerDesc_def socketAcceptedConnectionsDesc_def socketCurrentConnectionsDesc_def
  socketRefusedConnectionsDesc_def systemdVersionDesc_def virtualizationDesc_def

text \<open>A deprecated flag replaces its successor for good when the successor was not set.\<close>

definition NewSystemdCollector :: "systemdFlags \<Rightarrow> systemdFlags \<times> systemdCollector res" where
  "NewSystemdCollector fl =
     (if oldSystemdUnitExclude fl \<noteq> [] \<and> systemdUnitExcludeSet fl
      then (fl, Err (NewError ''--collector.systemd.unit-blacklist and --collector.systemd.unit-exclude are mutually exclusive''))
      else
        let fl1 = (if oldSystemdUnitExclude fl \<noteq> [] then fl\<lparr>systemdUnitExclude := oldSystemdUnitExclude fl\<rparr> else fl) in
        if oldSystemdUnitInclude fl1 \<noteq> [] \<and> systemdUnitIncludeSet fl1
        then (fl1, Err (NewError ''--collector.systemd.unit-whitelist and --collector.systemd.unit-include are mutually exclusive''))
        else
          let fl2 = (if oldSystemdUnitInclude fl1 \<noteq> [] then fl1\<lparr>systemdUnitInclude := oldSystemdUnitInclude fl1\<rparr> else fl1) in
          (fl2,
           bind_res (MustCompile (''^(?:'' @ systemdUnitInclude fl2 @ '')$'')) (\<lambda>i.
           bind_res (MustCompile (''^(?:'' @ systemdUnitExclude fl2 @ '')$'')) (\<lambda>x.
           Ok \<lparr>sd_include = i, sd_exclude = x\<rparr>))))"

record unitStatus =
  us_Name :: string
  us_LoadState :: string
  us_ActiveState :: string

record systemdEnv =
  sd_connect :: "bool \<Rightarrow> unit res"
  GetManagerProperty :: "string \<Rightarrow> string res"
  ListUnits :: "unitStatus list res"
  GetUnitTypeProperty :: "string \<Rightarrow> string \<Rightarrow> string \<Rightarrow> variant res"
  GetUnitProperty :: "string \<Rightarrow> string \<Rightarrow> variant res"

text \<open>
  \<^verbatim>\<open>v, err := ...; if err != nil { log } else { ... }\<close>: an error only skips what the value is needed
  for; the function says how to go on.
\<close>

fun on_res :: "'a res \<Rightarrow> upd \<Rightarrow> ('a \<Rightarrow> upd) \<Rightarrow> upd" where
  "on_res (Ok x) u f = f x"
| "on_res (Err e) u f = u"
| "on_res (Panic p) u f = ([], Panic p)"

definition service_type :: "systemdEnv \<Rightarrow> string \<Rightarrow> string res" where
  "service_type env name =
     (let prop = (\<lambda>t. case GetUnitTypeProperty env name t ''Type'' of Ok v \<Rightarrow> as_string v | Err e \<Rightarrow> Ok [] | Panic p \<Rightarrow> Panic p)
      in if HasSuffix name ''.service'' then prop ''Service''
         else if HasSuffix name ''.mount'' then prop ''Mount''
         else Ok [])"

definition unit_states :: "unitStatus \<Rightarrow> string \<Rightarrow> metric list" where
  "unit_states u serviceType =
     map (\<lambda>st. MustNewConstMetric unitDesc GaugeValue (if st = us_ActiveState u then Fin 1 else Fin 0) [us_Name u, st, serviceType]) unitStatesName"

definition collectUnitStatusMetrics :: "systemdEnv \<Rightarrow> systemdFlags \<Rightarrow> unitStatus list \<Rightarrow> upd" where
  "collectUnitStatusMetrics env fl units =
     foreach (\<lambda>u. with_res (service_type env (us_Name u)) (\<lambda>t.
       seq (emit (unit_states u t))
         (if enableRestartsMetrics fl \<and> HasSuffix (us_Name u) ''.service''
          then on_res (GetUnitTypeProperty env (us_Name u) ''Service'' ''NRestarts'') (emit []) (\<lambda>v.
                 with_res (as_u32 v) (\<lambda>n. emit [MustNewConstMetric nRestartsDesc CounterValue (f64_of_nat (unat n)) [us_Name u]]))
          else emit []))) units"

definition socket_metrics :: "systemdEnv \<Rightarrow> string \<Rightarrow> upd" where
  "socket_metrics env name =
     on_res (GetUnitTypeProperty env name ''Socket'' ''NAccepted'') (emit []) (\<lambda>v.
     with_res (as_u32 v) (\<lambda>n.
     seq (emit [MustNewConstMetric socketAcceptedConnectionsDesc CounterValue (f64_of_nat (unat n)) [name]])
     (on_res (GetUnitTypeProperty env name ''Socket'' ''NConnections'') (emit []) (\<lambda>v.
      with_res (as_u32 v) (\<lambda>n.
      seq (emit [MustNewConstMetric socketCurrentConnectionsDesc GaugeValue (f64_of_nat (unat n)) [name]])
      (on_res (GetUnitTypeProperty env name ''Socket'' ''NRefused'') (emit []) (\<lambda>v.
       with_res (as_u32 v) (\<lambda>n.
       emit [MustNewConstMetric socketRefusedConnectionsDesc GaugeValue (f64_of_nat (unat n)) [name]]))))))))"

definition collectSockets :: "systemdEnv \<Rightarrow> unitStatus list \<Rightarrow> upd" where
  "collectSockets env units =
     foreach (\<lambda>u. if HasSuffix (us_Name u) ''.socket'' then socket_metrics env (us_Name u) else emit []) units"

definition usec_seconds :: "uint64 \<Rightarrow> float64" where
  "usec_seconds n = f64_div (f64_of_nat (unat n)) (Fin 1000000)"

definition collectUnitStartTimeMetrics :: "systemdEnv \<Rightarrow> unitStatus list \<Rightarrow> upd" where
  "collectUnitStartTimeMetrics env units =
     foreach (\<lambda>u. let m = (\<lambda>n. emit [MustNewConstMetric unitStartTimeDesc GaugeValue (usec_seconds n) [us_Name u]]) in
       if us_ActiveState u \<noteq> ''active'' then m 0
       else on_res (GetUnitProperty env (us_Name u) ''ActiveEnterTimestamp'') (emit []) (\<lambda>v. with_res (as_u64 v) m)) units"

text \<open>D-Bus reports the largest number for a limit that is not set.\<close>

definition tasks_metric :: "systemdEnv \<Rightarrow> string \<Rightarrow> string \<Rightarrow> desc \<Rightarrow> upd" where
  "tasks_metric env name prop d =
     on_res (GetUnitTypeProperty env name ''Service'' prop) (emit []) (\<lambda>v.
     with_res (as_u64 v) (\<lambda>n.
       emit (if n = - 1 then [] else [MustNewConstMetric d GaugeValue (f64_of_nat (unat n)) [name]])))"

definition collectUnitTasksMetrics :: "systemdEnv \<Rightarrow> unitStatus list \<Rightarrow> upd" where
  "collectUnitTasksMetrics env units =
     foreach (\<lambda>u. if HasSuffix (us_Name u) ''.service''
       then seq (tasks_metric env (us_Name u) ''TasksCurrent'' unitTasksCurrentDesc) (tasks_metric env (us_Name u) ''TasksMax'' unitTasksMaxDesc)
       else emit []) units"

definition collectTimers :: "systemdEnv \<Rightarrow> unitStatus list \<Rightarrow> upd" where
  "collectTimers env units =
     foreach (\<lambda>u. if HasSuffix (us_Name u) ''.timer''
       then on_res (GetUnitTypeProperty env (us_Name u) ''Timer'' ''LastTriggerUSec'') (emit []) (\<lambda>v.
            with_res (as_u64 v) (\<lambda>n. emit [MustNewConstMetric timerLastTriggerDesc GaugeValue (usec_seconds n) [us_Name u]]))
       else emit []) units"

definition collectSummaryMetrics :: "(string \<times> float64) list \<Rightarrow> metric list" where
  "collectSummaryMetrics summary = map (\<lambda>(st, n). MustNewConstMetric summaryDesc GaugeValue n [st]) summary"

definition collectSystemState :: "systemdEnv \<Rightarrow> upd" where
  "collectSystemState env =
     with_res (map_err (Wrapf ''couldn't get system state: %w'' []) (GetManagerProperty env ''SystemState'')) (\<lambda>st.
       emit [MustNewConstMetric systemRunningDesc GaugeValue (if st = ''\"running\"'' then Fin 1 else Fin 0) []])"

definition summarizeUnits :: "unitStatus list \<Rightarrow> (string, float64) gomap" where
  "summarizeUnits units =
     fold float_incr (map us_ActiveState units) (fold (\<lambda>st. map_put st (Fin 0)) unitStatesName [])"

definition filterUnits :: "unitStatus list \<Rightarrow> regexp \<Rightarrow> regexp \<Rightarrow> unitStatus list" where
  "filterUnits units includePattern excludePattern =
     filter (\<lambda>u. MatchString includePattern (us_Name u) \<and> \<not> MatchString excludePattern (us_Name u) \<and> us_LoadState u = ''loaded'') units"

definition getSystemdVersion :: "systemdEnv \<Rightarrow> (float64 \<times> string) res" where
  "getSystemdVersion env =
     (case GetManagerProperty env ''Version'' of
        Err e \<Rightarrow> Ok (Fin 0, [])
      | Panic p \<Rightarrow> Panic p
      | Ok raw \<Rightarrow>
          let version = TrimPrefix (TrimSuffix raw [CHR 0x22]) [CHR 0x22] in
          (case ParseFloat (FindString systemdVersionRE version) of
             Ok v \<Rightarrow> Ok (v, version)
           | _ \<Rightarrow> Ok (Fin 0, [])))"

definition getSystemdVirtualization :: "systemdEnv \<Rightarrow> string res" where
  "getSystemdVirtualization env =
     (case GetManagerProperty env ''Virtualization'' of
        Err e \<Rightarrow> Ok ''unknown''
      | Panic p \<Rightarrow> Panic p
      | Ok virt \<Rightarrow> let virtStr = Trim virt {CHR 0x22} in Ok (if virtStr = [] then ''none'' else virtStr))"

text \<open>
  The goroutines of one update. The deferred \<^verbatim>\<open>wg.Wait\<close> makes it return only after all of them; a panic in any of them ends the
  process.
\<close>

definition systemd_goroutines :: "systemdEnv \<Rightarrow> systemdFlags \<Rightarrow> float64 \<Rightarrow> unitStatus list \<Rightarrow> upd list" where
  "systemd_goroutines env fl version units =
     [collectUnitStatusMetrics env fl units] @
     (if enableStartTimeMetrics fl then [collectUnitStartTimeMetrics env units] else []) @
     (if enableTaskMetrics fl then [collectUnitTasksMetrics env units] else []) @
     (if f64_le minSystemdVersionSystemState version then [collectTimers env units] else []) @
     [collectSockets env units]"

record systemdOrder =
  ord_summary :: "(string \<times> float64) list \<Rightarrow> (string \<times> float64) list"
  ord_sched :: scheduler

text \<open>
  The calling goroutine, which asks for the system state before it gets to the deferred wait, is the last one of the pool.
\<close>

definition systemd_Update :: "systemdOrder \<Rightarrow> systemdEnv \<Rightarrow> systemdFlags \<Rightarrow> systemdCollector \<Rightarrow> upd" where
  "systemd_Update ord env fl c =
     with_res (map_err (Wrapf ''couldn't get dbus connection: %w'' []) (sd_connect env (systemdPrivate fl))) (\<lambda>_.
     with_res (getSystemdVersion env) (\<lambda>(version, versionFull).
     seq (emit [MustNewConstMetric systemdVersionDesc GaugeValue version [versionFull]])
     (with_res (getSystemdVirtualization env) (\<lambda>virt.
      seq (emit [MustNewConstMetric virtualizationDesc GaugeValue (Fin 1) [virt]])
      (with_res (map_err (Wrapf ''couldn't get units: %w'' []) (ListUnits env)) (\<lambda>allUnits.
       seq (emit (collectSummaryMetrics (ord_summary ord (summarizeUnits allUnits))))
       (let units = filterUnits allUnits (sd_include c) (sd_exclude c);
            main = (if f64_le minSystemdVersionSystemState version then collectSystemState env else emit []);
            s = go_wait (ord_sched ord) (go_all (map returns (systemd_goroutines env fl version units @ [main])))
        in (map snd (chan s), if crashed s then Panic ''goroutine'' else snd main))))))))"

section \<open>logind\<close>

definition attrRemoteValues :: "string list" where "attrRemoteValues = [''true'', ''false'']"
definition attrTypeValues :: "string list" where
  "attrTypeValues = [''other'', ''unspecified'', ''tty'', ''x11'', ''wayland'', ''mir'', ''web'']"
definition attrClassValues :: "string list" where
  "attrClassValues = [''other'', ''user'', ''greeter'', ''lock-screen'', ''background'']"

definition sessionsDesc :: desc where
  "sessionsDesc = NewDesc (BuildFQName namespace ''logind'' ''sessions'') ''Number of sessions registered in logind.'' [''seat'', ''remote'', ''type'', ''class'']"

record logindSession =
  seat :: string
  remote :: string
  sessionType :: string
  session_class :: string

record logindSessionEntry =
  SeatID :: string
  SessionObjectPath :: string

text \<open>The bus: connecting, the two list calls with their replies decoded, properties, and the text form of a value.\<close>

record logindEnv =
  SystemBusPrivate :: "unit res"
  bus_Auth :: "unit res"
  bus_Hello :: "unit res"
  ListSeats :: "string list res"
  ListSessions :: "logindSessionEntry list res"
  GetProperty :: "string \<Rightarrow> string \<Rightarrow> variant option"
  variant_String :: "variant \<Rightarrow> string"

definition newDbus :: "logindEnv \<Rightarrow> unit res" where
  "newDbus env = bind_res (SystemBusPrivate env) (\<lambda>_. bind_res (bus_Auth env) (\<lambda>_. bus_Hello env))"

text \<open>The empty seat of remote sessions is always added.\<close>

definition listSeats :: "logindEnv \<Rightarrow> string list res" where
  "listSeats env = bind_res (ListSeats env) (\<lambda>seats. Ok (seats @ [[]]))"

definition knownStringOrOther :: "string \<Rightarrow> string list \<Rightarrow> string" where
  "knownStringOrOther v known = (if v \<in> set known then v else ''other'')"

definition getSession :: "logindEnv \<Rightarrow> logindSessionEntry \<Rightarrow> logindSession option" where
  "getSession env s =
     (let prop = GetProperty env (SessionObjectPath s) in
      case (prop ''Remote'', prop ''Type'', prop ''Class'') of
        (Some r, Some (VString t), Some (VString c)) \<Rightarrow>
          Some \<lparr>seat = SeatID s, remote = variant_String env r, sessionType = knownStringOrOther t attrTypeValues,
                session_class = knownStringOrOther c attrClassValues\<rparr>
      | _ \<Rightarrow> None)"

definition logind_sessions :: "logindEnv \<Rightarrow> logindSessionEntry list \<Rightarrow> (logindSession, float64) gomap" where
  "logind_sessions env sessionList = fold float_incr (List.map_filter (getSession env) sessionList) []"

definition logind_combos :: "string list \<Rightarrow> logindSession list" where
  "logind_combos seats =
     concat (map (\<lambda>r. concat (map (\<lambda>t. concat (map (\<lambda>c. map (\<lambda>s.
       \<lparr>seat = s, remote = r, sessionType = t, session_class = c\<rparr>) seats) attrClassValues)) attrTypeValues)) attrRemoteValues)"

definition collectMetrics :: "logindEnv \<Rightarrow> upd" where
  "collectMetrics env =
     with_res (map_err (Wrapf ''unable to get seats: %w'' []) (listSeats env)) (\<lambda>seats.
     with_res (map_err (Wrapf ''unable to get sessions: %w'' []) (ListSessions env)) (\<lambda>sessionList.
       let sessions = logind_sessions env sessionList in
       emit (map (\<lambda>s. MustNewConstMetric sessionsDesc GaugeValue (map_get_z (Fin 0) sessions s)
         [seat s, remote s, sessionType s, session_class s]) (logind_combos seats))))"

definition logind_Update :: "logindEnv \<Rightarrow> upd" where
  "logind_Update env =
     with_res (map_err (Wrapf ''unable to connect to dbus: %w'' []) (newDbus env)) (\<lambda>_. collectMetrics env)"

section \<open>supervisord\<close>

datatype xmlrpcClient = HttpClient string | UnixClient string

text \<open>A URL is parsed into its scheme and its path; a socket is dialled under a made-up HTTP URL.\<close>

definition supervisord_client :: "(string \<Rightarrow> (string \<times> string) res) \<Rightarrow> string \<Rightarrow> xmlrpcClient" where
  "supervisord_client url_Parse supervisordURL =
     (case url_Parse supervisordURL of
        Ok (scheme, path) \<Rightarrow> if scheme = ''unix'' then UnixClient path else HttpClient supervisordURL
      | _ \<Rightarrow> HttpClient supervisordURL)"

definition sv_desc :: "string \<Rightarrow> string \<Rightarrow> desc" where
  "sv_desc name help = NewDesc (BuildFQName namespace ''supervisord'' name) help [''name'', ''group'']"

definition isRunning :: "int \<Rightarrow> bool" where
  "isRunning st \<longleftrightarrow> st = 10 \<or> st = 20 \<or> st = 40"

record procInfo =
  pi_Name :: string
  pi_Group :: string
  pi_Start :: goint
  pi_Stop :: goint
  pi_Now :: goint
  pi_State :: goint
  pi_StateName :: string
  pi_ExitStatus :: goint
  pi_PID :: goint

definition zeroInfo :: procInfo where
  "zeroInfo = \<lparr>pi_Name = [], pi_Group = [], pi_Start = 0, pi_Stop = 0, pi_Now = 0, pi_State = 0, pi_StateName = [], pi_ExitStatus = 0, pi_PID = 0\<rparr>"

definition info_field :: "string \<times> variant \<Rightarrow> procInfo \<Rightarrow> procInfo res" where
  "info_field = (\<lambda>(k, v) i.
     if k = ''name'' then bind_res (as_string v) (\<lambda>x. Ok (i\<lparr>pi_Name := x\<rparr>))
     else if k = ''group'' then bind_res (as_string v) (\<lambda>x. Ok (i\<lparr>pi_Group := x\<rparr>))
     else if k = ''start'' then bind_res (as_int v) (\<lambda>x. Ok (i\<lparr>pi_Start := x\<rparr>))
     else if k = ''stop'' then bind_res (as_int v) (\<lambda>x. Ok (i\<lparr>pi_Stop := x\<rparr>))
     else if k = ''now'' then bind_res (as_int v) (\<lambda>x. Ok (i\<lparr>pi_Now := x\<rparr>))
     else if k = ''state'' then bind_res (as_int v) (\<lambda>x. Ok (i\<lparr>pi_State := x\<rparr>))
     else if k = ''statename'' then bind_res (as_string v) (\<lambda>x. Ok (i\<lparr>pi_StateName := x\<rparr>))
     else if k = ''exitstatus'' then bind_res (as_int v) (\<lambda>x. Ok (i\<lparr>pi_ExitStatus := x\<rparr>))
     else if k = ''pid'' then bind_res (as_int v) (\<lambda>x. Ok (i\<lparr>pi_PID := x\<rparr>))
     else Ok i)"

definition info_metrics :: "procInfo \<Rightarrow> metric list" where
  "info_metrics i =
     (let ls = [pi_Name i, pi_Group i]; g = (\<lambda>n h t v. MustNewConstMetric (sv_desc n h) t v ls) in
      [g ''state'' ''Process State'' GaugeValue (f64_of_int (sint (pi_State i))),
       g ''exit_status'' ''Process Exit Status'' GaugeValue (f64_of_int (sint (pi_ExitStatus i)))] @
      (if isRunning (sint (pi_State i))
       then [g ''up'' ''Process Up'' GaugeValue (Fin 1), g ''start_time_seconds'' ''Process start time'' CounterValue (f64_of_int (sint (pi_Start i)))]
       else [g ''up'' ''Process Up'' GaugeValue (Fin 0)]))"

text \<open>
  The reply is an array of structures, if it is of those types at all. One variable holds the
  process information for the whole loop.
\<close>

fun supervisord_loop :: "procInfo \<Rightarrow> (string \<times> variant) list option list \<Rightarrow> upd" where
  "supervisord_loop i [] = emit []"
| "supervisord_loop i (None # ps) = ([], Panic ''interface conversion'')"
| "supervisord_loop i (Some p # ps) = with_res (fold_res info_field p i) (\<lambda>i'. seq (emit (info_metrics i')) (supervisord_loop i' ps))"

definition supervisord_Update :: "(string \<times> variant) list option list option res \<Rightarrow> upd" where
  "supervisord_Update call =
     with_res (map_err (Wrapf ''unable to call supervisord: %w'' []) call) (\<lambda>r.
       case r of None \<Rightarrow> ([], Panic ''interface conversion'') | Some ps \<Rightarrow> supervisord_loop zeroInfo ps)"

section \<open>runit\<close>

definition runit_desc :: "string \<Rightarrow> string \<Rightarrow> typedDesc" where
  "runit_desc name help =
     \<lparr>td_desc = NewDescConst (BuildFQName namespace ''service'' name) help [''service''] [(''supervisor'', ''runit'')], td_valueType = GaugeValue\<rparr>"

record runitStatus =
  rn_State :: goint
  rn_Want :: goint
  rn_Timestamp :: int
  rn_NormallyUp :: bool

definition runit_service :: "string \<times> runitStatus res \<Rightarrow> upd" where
  "runit_service = (\<lambda>(name, status).
     case status of
       Err e \<Rightarrow> emit []
     | Panic p \<Rightarrow> ([], Panic p)
     | Ok s \<Rightarrow> emit
         [mustNewConstMetric (runit_desc ''state'' ''State of runit service.'') (f64_of_int (sint (rn_State s))) [name],
          mustNewConstMetric (runit_desc ''desired_state'' ''Desired state of runit service.'') (f64_of_int (sint (rn_Want s))) [name],
          mustNewConstMetric (runit_desc ''state_last_change_timestamp_seconds'' ''Unix timestamp of the last runit service state change.'')
            (f64_of_int (rn_Timestamp s)) [name],
          mustNewConstMetric (runit_desc ''normal_state'' ''Normal state of runit service.'') (if rn_NormallyUp s then Fin 1 else Fin 0) [name]])"

definition runit_Update :: "(string \<times> runitStatus res) list res \<Rightarrow> upd" where
  "runit_Update services = with_res services (foreach runit_service)"

section \<open>The contracts\<close>

lemma upd_ok_on_res [intro]: "upd_ok u \<Longrightarrow> (\<And>x. r = Ok x \<Longrightarrow> upd_ok (f x)) \<Longrightarrow> upd_ok (on_res r u f)"
  by (cases r) (simp_all add: upd_ok_def)

lemma panics_on_res: "panics (snd (on_res r u f)) \<longleftrightarrow>
    (\<exists>p. r = Panic p) \<or> (\<exists>e. r = Err e \<and> panics (snd u)) \<or> (\<exists>x. r = Ok x \<and> panics (snd (f x)))"
  by (cases r) auto

lemma unit_states_labels: "list_all labels_ok (unit_states u t)"
  by (simp add: unit_states_def list_all_iff sd_descs)

lemma systemd_parts_ok:
  "upd_ok (collectUnitStatusMetrics env fl units)" "upd_ok (collectSockets env units)" "upd_ok (collectUnitStartTimeMetrics env units)"
  "upd_ok (collectUnitTasksMetrics env units)" "upd_ok (collectTimers env units)" "upd_ok (collectSystemState env)"
  unfolding collectUnitStatusMetrics_def collectSockets_def collectUnitStartTimeMetrics_def collectUnitTasksMetrics_def
    collectTimers_def collectSystemState_def socket_metrics_def tasks_metric_def Let_def
  by (auto simp: unit_states_labels sd_descs simp del: seq_emit intro!: upd_ok_foreach upd_ok_with_res upd_ok_on_res upd_ok_seq)

lemma systemd_goroutines_ok: "list_all upd_ok (systemd_goroutines env fl version units)"
  by (simp add: systemd_goroutines_def systemd_parts_ok)

text \<open>The types D-Bus documents for the properties that are read.\<close>

definition sd_typed :: "systemdEnv \<Rightarrow> bool" where
  "sd_typed env \<longleftrightarrow>
     (\<forall>n t p. \<not> panics (GetUnitTypeProperty env n t p)) \<and> (\<forall>n p. \<not> panics (GetUnitProperty env n p)) \<and>
     (\<forall>n t p v. GetUnitTypeProperty env n t p = Ok v \<longrightarrow>
        (p = ''Type'' \<longrightarrow> (\<exists>s. v = VString s)) \<and>
        (p \<in> {''NRestarts'', ''NAccepted'', ''NConnections'', ''NRefused''} \<longrightarrow> (\<exists>k. v = VU32 k)) \<and>
        (p \<in> {''TasksCurrent'', ''TasksMax'', ''LastTriggerUSec''} \<longrightarrow> (\<exists>k. v = VU64 k))) \<and>
     (\<forall>n v. GetUnitProperty env n ''ActiveEnterTimestamp'' = Ok v \<longrightarrow> (\<exists>k. v = VU64 k))"

lemma sd_typed_no_panic:
  assumes "sd_typed env"
  shows "\<not> panics (GetUnitTypeProperty env n t p)" "\<not> panics (GetUnitProperty env n p)"
  using assms by (auto simp: sd_typed_def)

lemma sd_typed_as:
  assumes "sd_typed env" "GetUnitTypeProperty env n t p = Ok v"
  shows "p = ''Type'' \<Longrightarrow> \<not> panics (as_string v)"
    and "p \<in> {''NRestarts'', ''NAccepted'', ''NConnections'', ''NRefused''} \<Longrightarrow> \<not> panics (as_u32 v)"
    and "p \<in> {''TasksCurrent'', ''TasksMax'', ''LastTriggerUSec''} \<Longrightarrow> \<not> panics (as_u64 v)"
proof -
  note f = assms(1) [unfolded sd_typed_def, THEN conjunct2, THEN conjunct2, THEN conjunct1, THEN spec, THEN spec, THEN spec, THEN spec, THEN mp, OF assms(2)]
  show "p = ''Type'' \<Longrightarrow> \<not> panics (as_string v)" using f [THEN conjunct1] by auto
  show "p \<in> {''NRestarts'', ''NAccepted'', ''NConnections'', ''NRefused''} \<Longrightarrow> \<not> panics (as_u32 v)"
    by (drule f [THEN conjunct2, THEN conjunct1, THEN mp], elim exE) simp
  show "p \<in> {''TasksCurrent'', ''TasksMax'', ''LastTriggerUSec''} \<Longrightarrow> \<not> panics (as_u64 v)"
    by (drule f [THEN conjunct2, THEN conjunct2, THEN mp], elim exE) simp
qed

lemma u32_prop_no_panic:
  assumes "sd_typed env" "p \<in> {''NRestarts'', ''NAccepted'', ''NConnections'', ''NRefused''}" "\<And>k. \<not> panics (snd (f k))"
  shows "\<not> panics (snd (on_res (GetUnitTypeProperty env n t p) (emit []) (\<lambda>v. with_res (as_u32 v) f)))"
  using sd_typed_no_panic(1) [OF assms(1), of n t p] sd_typed_as(2) [OF assms(1) _ assms(2)] assms(3)
  by (cases "GetUnitTypeProperty env n t p") (auto simp: panics_with_res)

lemma u64_prop_no_panic:
  assumes "sd_typed env" "p \<in> {''TasksCurrent'', ''TasksMax'', ''LastTriggerUSec''}" "\<And>k. \<not> panics (snd (f k))"
  shows "\<not> panics (snd (on_res (GetUnitTypeProperty env n t p) (emit []) (\<lambda>v. with_res (as_u64 v) f)))"
  using sd_typed_no_panic(1) [OF assms(1), of n t p] sd_typed_as(3) [OF assms(1) _ assms(2)] assms(3)
  by (cases "GetUnitTypeProperty env n t p") (auto simp: panics_with_res)

lemma service_type_no_panic:
  assumes "sd_typed env"
  shows "\<not> panics (service_type env n)"
proof -
  have "\<not> panics (case GetUnitTypeProperty env n t ''Type'' of Ok v \<Rightarrow> as_string v | Err e \<Rightarrow> Ok [] | Panic p \<Rightarrow> Panic p)" for t
    using sd_typed_no_panic(1) [OF assms, of n t "''Type''"] sd_typed_as(1) [OF assms, of n t "''Type''"]
    by (cases "GetUnitTypeProperty env n t ''Type''") auto
  then show ?thesis by (simp add: service_type_def Let_def)
qed

lemma socket_metrics_no_panic: "sd_typed env \<Longrightarrow> \<not> panics (snd (socket_metrics env n))"
  unfolding socket_metrics_def by (intro u32_prop_no_panic) (simp_all, (intro u32_prop_no_panic, simp_all)+)

lemma tasks_metric_no_panic: "sd_typed env \<Longrightarrow> p \<in> {''TasksCurrent'', ''TasksMax''} \<Longrightarrow> \<not> panics (snd (tasks_metric env n p d))"
  unfolding tasks_metric_def by (intro u64_prop_no_panic) auto

lemma collectUnitStatusMetrics_no_panic:
  assumes "sd_typed env"
  shows "\<not> panics (snd (collectUnitStatusMetrics env fl units))"
proof -
  have "\<not> panics (snd (on_res (GetUnitTypeProperty env n ''Service'' ''NRestarts'') (emit []) (\<lambda>v.
      with_res (as_u32 v) (\<lambda>k. emit [MustNewConstMetric nRestartsDesc CounterValue (f64_of_nat (unat k)) [n]]))))" for n
    by (intro u32_prop_no_panic assms) simp_all
  then show ?thesis using service_type_no_panic [OF assms]
    by (auto simp: collectUnitStatusMetrics_def panics_with_res dest!: panics_foreach split: if_splits)
qed

lemma collectStartTime_no_panic:
  assumes "sd_typed env"
  shows "\<not> panics (snd (collectUnitStartTimeMetrics env units))"
proof -
  have "\<not> panics (snd (on_res (GetUnitProperty env n ''ActiveEnterTimestamp'') (emit []) (\<lambda>v.
      with_res (as_u64 v) (\<lambda>k. emit [MustNewConstMetric unitStartTimeDesc GaugeValue (usec_seconds k) [n]]))))" for n
  proof (cases "GetUnitProperty env n ''ActiveEnterTimestamp''")
    case (Ok v)
    then obtain k where "v = VU64 k" using assms unfolding sd_typed_def by metis
    then show ?thesis using Ok by simp
  qed (use sd_typed_no_panic(2) [OF assms, of n "''ActiveEnterTimestamp''"] in simp_all)
  then show ?thesis by (auto simp: collectUnitStartTimeMetrics_def Let_def dest!: panics_foreach split: if_splits)
qed

lemma collectTimers_no_panic:
  assumes "sd_typed env"
  shows "\<not> panics (snd (collectTimers env units))"
proof -
  have "\<not> panics (snd (on_res (GetUnitTypeProperty env n ''Timer'' ''LastTriggerUSec'') (emit []) (\<lambda>v.
      with_res (as_u64 v) (\<lambda>k. emit [MustNewConstMetric timerLastTriggerDesc GaugeValue (usec_seconds k) [n]]))))" for n
    by (intro u64_prop_no_panic assms) simp_all
  then show ?thesis by (auto simp: collectTimers_def dest!: panics_foreach split: if_splits)
qed

lemma systemd_goroutines_no_panic:
  assumes "sd_typed env"
  shows "list_all (\<lambda>u. \<not> panics (snd u)) (systemd_goroutines env fl version units)"
  using collectUnitStatusMetrics_no_panic [OF assms] collectStartTime_no_panic [OF assms] collectTimers_no_panic [OF assms]
    socket_metrics_no_panic [OF assms] tasks_metric_no_panic [OF assms]
  by (auto simp: systemd_goroutines_def collectSockets_def collectUnitTasksMetrics_def dest!: panics_foreach panics_seq split: if_splits)

definition sd_pre :: "systemdOrder \<times> systemdEnv \<times> systemdFlags \<times> systemdCollector \<Rightarrow> bool" where
  "sd_pre = (\<lambda>(ord, env, fl, c). sd_typed env \<and> (\<forall>b. \<not> panics (sd_connect env b)) \<and>
     (\<forall>p. \<not> panics (GetManagerProperty env p)) \<and> \<not> panics (ListUnits env))"

text \<open>What comes out of a pool of updates: only metrics of theirs, and a crash only when one of them panics.\<close>

lemma go_wait_updates:
  fixes us :: "upd list" and sched :: scheduler
  defines "s \<equiv> go_wait sched (go_all (map returns us))"
  shows "(i, m) \<in> set (chan s) \<Longrightarrow> \<exists>u \<in> set us. m \<in> set (fst u)"
    and "crashed s \<Longrightarrow> \<exists>u \<in> set us. panics (snd u)"
    and "\<not> crashed s \<Longrightarrow> wg s = 0 \<and> (\<forall>u \<in> set us. \<not> panics (snd u))"
proof -
  have run: "go_step\<^sup>*\<^sup>* (go_all (map returns us)) s" "\<nexists>t. go_step s t"
    using go_wait_run [where s = "go_all (map returns us)"] by (simp_all add: s_def)
  note I = pool_inv_reachable [OF run(1)]
  show "(i, m) \<in> set (chan s) \<Longrightarrow> \<exists>u \<in> set us. m \<in> set (fst u)" using pool_sent [OF I, of i m] nth_mem by fastforce
  show "crashed s \<Longrightarrow> \<exists>u \<in> set us. panics (snd u)" using pool_crash [OF run(1)] by force
  assume n: "\<not> crashed s"
  have "\<not> panics (snd u)" if "u \<in> set us" for u
    using pool_stuck_no_panic [OF I run(2) n, of "returns u"] that by (cases "snd u") auto
  moreover have "filter (\<lambda>r. snd r = None) (map returns us) = []" by (simp add: filter_empty_conv)
  ultimately show "wg s = 0 \<and> (\<forall>u \<in> set us. \<not> panics (snd u))" using pool_stuck [OF I run(2) n] by simp
qed

lemma getSystemdVersion_no_panic: "\<not> panics (GetManagerProperty env ''Version'') \<Longrightarrow> \<exists>x. getSystemdVersion env = Ok x"
  by (cases "GetManagerProperty env ''Version''") (auto simp: getSystemdVersion_def Let_def split: res.splits)

interpretation systemd: safe_collector_contract "\<lambda>(ord, env, fl, c). systemd_Update ord env fl c" sd_pre
proof unfold_locales
  fix e assume pre: "sd_pre e"
  obtain ord env fl c where e: "e = (ord, env, fl, c)" by (cases e)
  have ty: "sd_typed env" and gm: "\<And>p. \<not> panics (GetManagerProperty env p)"
    and lu: "\<not> panics (ListUnits env)" and cn: "\<And>b. \<not> panics (sd_connect env b)"
    using pre by (auto simp: e sd_pre_def)
  have chan: "list_all labels_ok (map snd (chan (go_wait (ord_sched ord) (go_all (map returns (systemd_goroutines env fl v us @ [u]))))))"
    if "upd_ok u" for v us u
    using systemd_goroutines_ok [of env fl v us] that
      go_wait_updates(1) [of _ _ "ord_sched ord" "systemd_goroutines env fl v us @ [u]"]
    by (fastforce simp: list_all_iff upd_ok_def)
  show "upd_ok (case e of (ord, env, fl, c) \<Rightarrow> systemd_Update ord env fl c)"
    unfolding e prod.case systemd_Update_def
  proof (intro upd_ok_with_res, clarify, intro upd_ok_seq upd_ok_with_res)
    fix v vf allUnits virt
    show "upd_ok (let units = filterUnits allUnits (sd_include c) (sd_exclude c);
            main = (if f64_le minSystemdVersionSystemState v then collectSystemState env else emit []);
            s = go_wait (ord_sched ord) (go_all (map returns (systemd_goroutines env fl v units @ [main])))
        in (map snd (chan s), if crashed s then Panic ''goroutine'' else snd main))"
      using chan by (simp add: Let_def upd_ok_def [of "(_, _)"] systemd_parts_ok del: map_append)
  qed (simp_all add: sd_descs collectSummaryMetrics_def list_all_iff case_prod_beta)
  have state: "\<not> panics (snd (collectSystemState env))" by (simp add: collectSystemState_def panics_with_res gm)
  have virt: "\<not> panics (getSystemdVirtualization env)"
    using gm [of "''Virtualization''"] by (cases "GetManagerProperty env ''Virtualization''") (auto simp: getSystemdVirtualization_def Let_def)
  have run: "\<not> crashed (go_wait (ord_sched ord) (go_all (map returns (systemd_goroutines env fl v us @ [u]))))" if "\<not> panics (snd u)" for v us u
    using go_wait_updates(2) [of "ord_sched ord" "systemd_goroutines env fl v us @ [u]"] systemd_goroutines_no_panic [OF ty, of fl v us] that
    by (auto simp: list_all_iff)
  obtain x where "getSystemdVersion env = Ok x" using getSystemdVersion_no_panic gm by blast
  then show "\<not> panics (snd (case e of (ord, env, fl, c) \<Rightarrow> systemd_Update ord env fl c))"
    using cn lu virt state run
    by (auto simp: e systemd_Update_def panics_with_res Let_def case_prod_beta simp del: map_append dest!: panics_seq)
qed

lemma collectMetrics_ok: "upd_ok (collectMetrics env)"
  unfolding collectMetrics_def by (intro upd_ok_with_res) (simp add: Let_def list_all_iff sessionsDesc_def)

definition logind_pre :: "logindEnv \<Rightarrow> bool" where
  "logind_pre env \<longleftrightarrow> \<not> panics (SystemBusPrivate env) \<and> \<not> panics (bus_Auth env) \<and> \<not> panics (bus_Hello env) \<and>
     \<not> panics (ListSeats env) \<and> \<not> panics (ListSessions env)"

interpretation logind: safe_collector_contract logind_Update logind_pre
proof unfold_locales
  fix env
  show "upd_ok (logind_Update env)" unfolding logind_Update_def by (intro upd_ok_with_res collectMetrics_ok)
  show "logind_pre env \<Longrightarrow> \<not> panics (snd (logind_Update env))"
    by (auto simp: logind_pre_def logind_Update_def newDbus_def collectMetrics_def listSeats_def Let_def panics_with_res panics_bind_res)
qed

lemma supervisord_loop_ok: "upd_ok (supervisord_loop i ps)"
  by (induction i ps rule: supervisord_loop.induct)
    (auto simp: info_metrics_def sv_desc_def Let_def upd_ok_def [of "(_, _)"] simp del: seq_emit intro!: upd_ok_with_res upd_ok_seq)

interpretation supervisord: collector_contract supervisord_Update "\<lambda>_. True"
  by unfold_locales (auto simp: supervisord_Update_def supervisord_loop_ok upd_ok_def [of "(_, _)"] intro!: upd_ok_with_res split: option.splits)

interpretation runit: safe_collector_contract runit_Update
  "\<lambda>r. \<not> panics r \<and> (\<forall>ss. r = Ok ss \<longrightarrow> list_all (\<lambda>x. \<not> panics (snd x)) ss)"
  by unfold_locales
    (auto simp: runit_Update_def runit_service_def runit_desc_def panics_with_res list_all_iff upd_ok_def [of "(_, _)"]
      intro!: upd_ok_with_res upd_ok_foreach split: res.splits dest!: panics_foreach bspec)

section \<open>Properties\<close>

lemma count_list_map: "count_list (map f xs) d = length (filter (\<lambda>x. f x = d) xs)"
  by (induction xs) auto

text \<open>
  The summary counts every unit, filtered out or not, in its active state: the five known states
  are always there, another state exactly when a unit is in it.
\<close>

theorem summarizeUnits_counts:
  assumes "length units \<le> 2 ^ 53"
  shows "map_get (summarizeUnits units) st =
    (let n = length (filter (\<lambda>u. us_ActiveState u = st) units) in
     if n = 0 \<and> st \<notin> set unitStatesName then None else Some (Fin (of_nat n)))"
proof -
  let ?m = "fold (\<lambda>st. map_put st (Fin 0)) unitStatesName []" and ?ks = "map us_ActiveState units"
  have z: "map_get_z (Fin 0) ?m k = Fin (of_nat 0)" for k by (simp add: unitStatesName_def map_get_z_def)
  have d: "dom (map_get ?m) = set unitStatesName" by (auto simp: unitStatesName_def)
  have v: "map_get_z (Fin 0) (summarizeUnits units) st = Fin (of_nat (count_list ?ks st))"
    using fold_float_incr [of ?m "\<lambda>_. 0" ?ks st] z assms by (simp add: summarizeUnits_def)
  have "st \<in> dom (map_get (summarizeUnits units)) \<longleftrightarrow> st \<in> set ?ks \<or> st \<in> set unitStatesName"
    unfolding summarizeUnits_def fold_float_incr_dom d by blast
  moreover have "st \<in> set ?ks \<longleftrightarrow> count_list ?ks st \<noteq> 0" by (simp only: count_list_0_iff not_not)
  ultimately have "map_get (summarizeUnits units) st \<noteq> None \<longleftrightarrow> count_list ?ks st \<noteq> 0 \<or> st \<in> set unitStatesName" by (simp only: domIff)
  then show ?thesis using v unfolding count_list_map Let_def map_get_z_def by (auto split: option.splits)
qed

theorem summarizeUnits_counts_witness:
  "map_get (summarizeUnits [\<lparr>us_Name = ''a.service'', us_LoadState = ''loaded'', us_ActiveState = ''active''\<rparr>,
     \<lparr>us_Name = ''b.mount'', us_LoadState = ''not-found'', us_ActiveState = ''reloading''\<rparr>]) ''reloading'' = Some (Fin 1)"
  by (subst summarizeUnits_counts) (simp_all add: Let_def)

text \<open>
  Every session on a listed seat whose remote attribute is a Boolean is counted in exactly one of
  the exported samples, whatever its type and class: the counts are exact and add up to the number
  of these sessions.
\<close>

lemma getSession_known:
  "getSession env e = Some s \<Longrightarrow> sessionType s \<in> set attrTypeValues \<and> session_class s \<in> set attrClassValues"
  by (auto simp: getSession_def Let_def knownStringOrOther_def attrTypeValues_def attrClassValues_def split: option.splits variant.splits if_splits)

lemma set_logind_combos:
  "s \<in> set (logind_combos seats) \<longleftrightarrow> seat s \<in> set seats \<and> remote s \<in> set attrRemoteValues \<and>
     sessionType s \<in> set attrTypeValues \<and> session_class s \<in> set attrClassValues"
  by (cases s) (auto simp: logind_combos_def image_iff)

lemma distinct_concat_map:
  assumes "distinct xs" "\<And>x. x \<in> set xs \<Longrightarrow> distinct (f x)" "\<And>x y z. z \<in> set (f x) \<Longrightarrow> z \<in> set (f y) \<Longrightarrow> x = y"
  shows "distinct (concat (map f xs))"
  using assms(1,2)
proof (induction xs)
  case (Cons x xs)
  then have "set (f x) \<inter> set (concat (map f xs)) = {}" using assms(3) by fastforce
  with Cons show ?case by simp
qed simp

lemma distinct_logind_combos: "distinct seats \<Longrightarrow> distinct (logind_combos seats)"
  unfolding logind_combos_def
  by (intro distinct_concat_map) (auto simp: attrRemoteValues_def attrTypeValues_def attrClassValues_def distinct_map inj_on_def)

lemma sum_count_list:
  assumes "distinct ds"
  shows "sum_list (map (count_list xs) ds) = length (filter (\<lambda>x. x \<in> set ds) xs)"
proof (induction xs)
  case (Cons x xs)
  have "sum_list (map (\<lambda>d. of_bool (x = d)) ds) = (of_bool (x \<in> set ds) :: nat)" using assms by (induction ds) auto
  moreover have "sum_list (map (count_list (x # xs)) ds) = sum_list (map (\<lambda>d. of_bool (x = d) + count_list xs d) ds)"
    by (rule arg_cong [where f = sum_list]) simp
  ultimately have "sum_list (map (count_list (x # xs)) ds) = of_bool (x \<in> set ds) + length (filter (\<lambda>x. x \<in> set ds) xs)"
    using Cons by (simp only: sum_list_addf)
  then show ?case by (simp del: count_list.simps)
qed simp

theorem logind_counts:
  assumes "ListSeats env = Ok seats" "distinct seats" "[] \<notin> set seats" "ListSessions env = Ok es" "length es \<le> 2 ^ 53"
  defines "sessions \<equiv> List.map_filter (getSession env) es"
  shows "collectMetrics env = emit (map (\<lambda>s. MustNewConstMetric sessionsDesc GaugeValue (Fin (of_nat (count_list sessions s)))
      [seat s, remote s, sessionType s, session_class s]) (logind_combos (seats @ [[]]))) \<and>
    sum_list (map (count_list sessions) (logind_combos (seats @ [[]]))) =
      length (filter (\<lambda>s. seat s \<in> set (seats @ [[]]) \<and> remote s \<in> {''true'', ''false''}) sessions)"
proof -
  have "length sessions \<le> length es" by (simp add: sessions_def map_filter_def)
  then have "map_get_z (Fin 0) (logind_sessions env es) s = Fin (of_nat (count_list sessions s))" for s
    using fold_float_incr [of "[]" "\<lambda>_. 0" sessions s] assms(5) by (simp add: logind_sessions_def sessions_def map_get_z_def)
  moreover have "filter (\<lambda>s. s \<in> set (logind_combos (seats @ [[]]))) sessions =
      filter (\<lambda>s. seat s \<in> set (seats @ [[]]) \<and> remote s \<in> {''true'', ''false''}) sessions"
    using getSession_known [of env]
    by (intro filter_cong) (auto simp: set_logind_combos attrRemoteValues_def sessions_def map_filter_def)
  ultimately show ?thesis
    using assms(1-4) sum_count_list [OF distinct_logind_combos, of "seats @ [[]]" sessions]
    by (simp add: collectMetrics_def listSeats_def Let_def)
qed

definition demo_logind :: logindEnv where
  "demo_logind = \<lparr>SystemBusPrivate = Ok (), bus_Auth = Ok (), bus_Hello = Ok (), ListSeats = Ok [''seat0''],
     ListSessions = Ok [\<lparr>SeatID = ''seat0'', SessionObjectPath = ''/1''\<rparr>, \<lparr>SeatID = [], SessionObjectPath = ''/2''\<rparr>],
     GetProperty = (\<lambda>path p. if p = ''Remote'' then Some (VBool (path = ''/2'')) else if p = ''Type'' then Some (VString ''tty'') else Some (VString ''manager'')),
     variant_String = (\<lambda>v. if v = VBool True then ''true'' else ''false'')\<rparr>"

theorem logind_counts_witness:
  "sum_list (map (count_list (List.map_filter (getSession demo_logind) [\<lparr>SeatID = ''seat0'', SessionObjectPath = ''/1''\<rparr>, \<lparr>SeatID = [], SessionObjectPath = ''/2''\<rparr>]))
     (logind_combos [''seat0'', []])) = 2"
proof -
  have l: "ListSeats demo_logind = Ok [''seat0'']"
    "ListSessions demo_logind = Ok [\<lparr>SeatID = ''seat0'', SessionObjectPath = ''/1''\<rparr>, \<lparr>SeatID = [], SessionObjectPath = ''/2''\<rparr>]"
    by (simp_all add: demo_logind_def)
  from logind_counts [OF l(1) _ _ l(2)]
  show ?thesis by (simp add: map_filter_simps getSession_def demo_logind_def Let_def knownStringOrOther_def)
qed

text \<open>
  The process information after the fields seen so far: the last value of each, and zero for one that was not seen.
\<close>

definition last_of :: "(string \<times> variant) list \<Rightarrow> string \<Rightarrow> variant option" where
  "last_of seen n = map_get (rev seen) n"

definition str_of :: "variant option \<Rightarrow> string" where
  "str_of v = (case v of Some (VString s) \<Rightarrow> s | _ \<Rightarrow> [])"

definition int_of :: "variant option \<Rightarrow> goint" where
  "int_of v = (case v of Some (VInt n) \<Rightarrow> n | _ \<Rightarrow> 0)"

definition info_of :: "(string \<times> variant) list \<Rightarrow> procInfo" where
  "info_of seen = \<lparr>pi_Name = str_of (last_of seen ''name''), pi_Group = str_of (last_of seen ''group''),
     pi_Start = int_of (last_of seen ''start''), pi_Stop = int_of (last_of seen ''stop''), pi_Now = int_of (last_of seen ''now''),
     pi_State = int_of (last_of seen ''state''), pi_StateName = str_of (last_of seen ''statename''),
     pi_ExitStatus = int_of (last_of seen ''exitstatus''), pi_PID = int_of (last_of seen ''pid'')\<rparr>"

lemma last_of_snoc [simp]: "last_of (seen @ [(k, v)]) n = (if k = n then Some v else last_of seen n)"
  by (simp add: last_of_def)

lemma as_string_Ok [simp]: "as_string v = Ok s \<longleftrightarrow> v = VString s"
  by (cases v) simp_all

lemma as_int_Ok [simp]: "as_int v = Ok n \<longleftrightarrow> v = VInt n"
  by (cases v) simp_all

lemma info_field_info_of: "info_field (k, v) (info_of seen) = Ok i \<Longrightarrow> i = info_of (seen @ [(k, v)])"
  by (auto simp: info_field_def info_of_def str_of_def int_of_def go_simps split: if_splits)

lemma info_fields_info_of: "fold_res info_field p (info_of seen) = Ok i \<Longrightarrow> i = info_of (seen @ p)"
proof (induction p arbitrary: seen)
  case (Cons f p)
  obtain k v where f: "f = (k, v)" by fastforce
  from Cons.prems obtain i' where i': "info_field f (info_of seen) = Ok i'" "fold_res info_field p i' = Ok i"
    by (auto simp: go_simps)
  then have "i' = info_of (seen @ [f])" using info_field_info_of f by simp
  with Cons.IH [of "seen @ [f]"] i'(2) show ?case by simp
qed simp

lemma supervisord_loop_infos:
  "snd (supervisord_loop (info_of seen) ps) = Ok () \<Longrightarrow>
     fst (supervisord_loop (info_of seen) ps) =
       concat (map (\<lambda>k. info_metrics (info_of (seen @ concat (map the (take (Suc k) ps))))) [0..<length ps])"
proof (induction ps arbitrary: seen)
  case (Cons p ps)
  then obtain fs where p: "p = Some fs" by (cases p) simp_all
  with Cons.prems obtain i where i: "fold_res info_field fs (info_of seen) = Ok i"
    by (cases "fold_res info_field fs (info_of seen)") simp_all
  then have "i = info_of (seen @ fs)" by (rule info_fields_info_of)
  with Cons p i show ?case by (simp add: map_upt_Suc del: upt_Suc)
qed (simp add: emit_def)

text \<open>
  C18: The process information is one variable for all processes of a reply. Each process is exported, in the order of the
  reply, and each field of it has the value given last by its own structure or else by the nearest process before it that has
  the field: a process whose structure lacks a field is exported with the value of another process, and with zero only when none
  had it.
\<close>

theorem supervisord_carries_over:
  assumes "snd (supervisord_Update (Ok (Some ps))) = Ok ()"
  shows "\<exists>infos. length infos = length ps \<and> fst (supervisord_Update (Ok (Some ps))) = concat (map info_metrics infos) \<and>
    (\<forall>k < length ps. let given = last_of (concat (map the (take (Suc k) ps))); i = infos ! k in
       pi_Name i = str_of (given ''name'') \<and> pi_Group i = str_of (given ''group'') \<and> pi_State i = int_of (given ''state'') \<and>
       pi_ExitStatus i = int_of (given ''exitstatus'') \<and> pi_Start i = int_of (given ''start''))"
proof -
  have z: "zeroInfo = info_of []" by (simp add: zeroInfo_def info_of_def last_of_def str_of_def int_of_def)
  let ?infos = "map (\<lambda>k. info_of (concat (map the (take (Suc k) ps)))) [0..<length ps]"
  have "fst (supervisord_Update (Ok (Some ps))) = concat (map info_metrics ?infos)"
    using supervisord_loop_infos [of "[]" ps] assms by (simp add: supervisord_Update_def z comp_def)
  then show ?thesis by (intro exI [of _ ?infos]) (simp add: info_of_def Let_def)
qed

text \<open>The second process has no state: it is exported as running since the start of the first one.\<close>

theorem supervisord_carries_over_witness:
  "fst (supervisord_Update (Ok (Some
     [Some [(''name'', VString ''a''), (''group'', VString ''g''), (''state'', VInt 20), (''start'', VInt 7)],
      Some [(''name'', VString ''b'')]]))) =
   info_metrics (zeroInfo\<lparr>pi_Name := ''a'', pi_Group := ''g'', pi_State := 20, pi_Start := 7\<rparr>) @
   info_metrics (zeroInfo\<lparr>pi_Name := ''b'', pi_Group := ''g'', pi_State := 20, pi_Start := 7\<rparr>)"
proof -
  let ?ps = "[Some [(''name'', VString ''a''), (''group'', VString ''g''), (''state'', VInt 20), (''start'', VInt 7)], Some [(''name'', VString ''b'')]]"
  have "snd (supervisord_Update (Ok (Some ?ps))) = Ok ()" by (simp add: supervisord_Update_def info_field_def zeroInfo_def)
  from supervisord_carries_over [OF this] obtain infos where i: "length infos = length ?ps"
    "fst (supervisord_Update (Ok (Some ?ps))) = concat (map info_metrics infos)"
    and k: "\<forall>k < length ?ps. let given = last_of (concat (map the (take (Suc k) ?ps))); i = infos ! k in
       pi_Name i = str_of (given ''name'') \<and> pi_Group i = str_of (given ''group'') \<and> pi_State i = int_of (given ''state'') \<and>
       pi_ExitStatus i = int_of (given ''exitstatus'') \<and> pi_Start i = int_of (given ''start'')" by blast
  obtain x y where xy: "infos = [x, y]" using i(1) by (auto simp: length_Suc_conv)
  have "info_metrics x = info_metrics (zeroInfo\<lparr>pi_Name := ''a'', pi_Group := ''g'', pi_State := 20, pi_Start := 7\<rparr>)"
    using k [rule_format, of 0] by (simp add: xy info_metrics_def Let_def last_of_def str_of_def int_of_def zeroInfo_def)
  moreover have "info_metrics y = info_metrics (zeroInfo\<lparr>pi_Name := ''b'', pi_Group := ''g'', pi_State := 20, pi_Start := 7\<rparr>)"
    using k [rule_format, of 1] by (simp add: xy info_metrics_def Let_def last_of_def str_of_def int_of_def zeroInfo_def)
  ultimately show ?thesis using i(2) xy by simp
qed

text \<open>The state metrics are collected without an error of their own: what is not known is left out.\<close>

definition no_err :: "upd \<Rightarrow> bool" where
  "no_err u \<longleftrightarrow> (\<forall>e. snd u \<noteq> Err e)"

lemma no_err_emit: "no_err (emit ms)"
  by (simp add: no_err_def)

lemma no_err_seq: "no_err u \<Longrightarrow> no_err v \<Longrightarrow> no_err (seq u v)"
  by (cases u; cases v; cases "snd u") (auto simp: no_err_def)

lemma no_err_with_res: "(\<And>e. r \<noteq> Err e) \<Longrightarrow> (\<And>x. no_err (f x)) \<Longrightarrow> no_err (with_res r f)"
  by (cases r) (auto simp: no_err_def)

lemma no_err_on_res: "no_err u \<Longrightarrow> (\<And>x. no_err (f x)) \<Longrightarrow> no_err (on_res r u f)"
  by (cases r) (auto simp: no_err_def)

lemma no_err_foreach: "(\<And>x. no_err (f x)) \<Longrightarrow> no_err (foreach f xs)"
  by (induction xs) (auto intro: no_err_emit no_err_seq)

lemma as_no_err: "as_string v \<noteq> Err e" "as_u32 v \<noteq> Err e"
  by (cases v; simp)+

lemma collectUnitStatusMetrics_no_err: "no_err (collectUnitStatusMetrics env fl units)"
proof -
  have "service_type env n \<noteq> Err e" for n e
    using as_no_err by (auto simp: service_type_def Let_def split: res.splits)
  then show ?thesis unfolding collectUnitStatusMetrics_def
    by (intro no_err_foreach no_err_with_res no_err_seq no_err_emit)
      (auto simp: as_no_err intro!: no_err_on_res no_err_with_res no_err_emit simp del: fst_emit)
qed

text \<open>A unit whose states were collected has all five of them in a row.\<close>

lemma subseq_concat: "ms \<in> set mss \<Longrightarrow> subseq ms (concat mss)"
  by (induction mss) (auto intro: list_emb_append2 prefix_imp_subseq)

lemma collectUnitStatusMetrics_states:
  assumes "\<not> panics (snd (collectUnitStatusMetrics env fl units))" "u \<in> set units"
  shows "\<exists>t. service_type env (us_Name u) = Ok t \<and> subseq (unit_states u t) (fst (collectUnitStatusMetrics env fl units))"
proof -
  define f where "f = (\<lambda>u. with_res (service_type env (us_Name u)) (\<lambda>t.
       seq (emit (unit_states u t))
         (if enableRestartsMetrics fl \<and> HasSuffix (us_Name u) ''.service''
          then on_res (GetUnitTypeProperty env (us_Name u) ''Service'' ''NRestarts'') (emit []) (\<lambda>v.
                 with_res (as_u32 v) (\<lambda>n. emit [MustNewConstMetric nRestartsDesc CounterValue (f64_of_nat (unat n)) [us_Name u]]))
          else emit [])))"
  have c: "collectUnitStatusMetrics env fl units = foreach f units" unfolding collectUnitStatusMetrics_def f_def ..
  have ok: "snd (foreach f units) = Ok ()"
    using assms(1) collectUnitStatusMetrics_no_err [of env fl units]
    by (cases "snd (foreach f units)") (auto simp: no_err_def c)
  then have "snd (f u) = Ok ()" using assms(2) by (simp add: snd_foreach_Ok_iff)
  then obtain t where t: "service_type env (us_Name u) = Ok t"
    by (cases "service_type env (us_Name u)") (simp_all add: f_def)
  have "subseq (unit_states u t) (fst (f u))" by (simp add: f_def t prefix_imp_subseq)
  moreover have "subseq (fst (f u)) (concat (map (\<lambda>u. fst (f u)) units))" using assms(2) by (intro subseq_concat) simp
  ultimately show ?thesis using t fst_foreach_Ok [OF ok] c subseq_order.order_trans by auto
qed

text \<open>
  C34: Whatever the order in which the goroutines of an update get to the channel: an update that ends normally has sent the
  version, the virtualization and the summary first, and then, each in its own order and nothing else, the states (and restarts)
  of the units that are loaded, included and not excluded, their sockets, their start times and tasks when the flags ask for
  them, and from version 212 on their timers and the system state. Every one of these units has its five states among them.
\<close>

theorem systemd_Update_complete:
  assumes "snd (systemd_Update ord env fl c) = Ok ()"
  shows "\<exists>version versionFull virt allUnits rest. getSystemdVersion env = Ok (version, versionFull) \<and>
    getSystemdVirtualization env = Ok virt \<and> ListUnits env = Ok allUnits \<and>
    fst (systemd_Update ord env fl c) =
      [MustNewConstMetric systemdVersionDesc GaugeValue version [versionFull], MustNewConstMetric virtualizationDesc GaugeValue (Fin 1) [virt]] @
      collectSummaryMetrics (ord_summary ord (summarizeUnits allUnits)) @ rest \<and>
    (let units = filter (\<lambda>u. MatchString (sd_include c) (us_Name u) \<and> \<not> MatchString (sd_exclude c) (us_Name u) \<and> us_LoadState u = ''loaded'') allUnits;
         since = (\<lambda>ms. if f64_le (Fin 212) version then ms else []);
         parts = [fst (collectUnitStatusMetrics env fl units),
           if enableStartTimeMetrics fl then fst (collectUnitStartTimeMetrics env units) else [],
           if enableTaskMetrics fl then fst (collectUnitTasksMetrics env units) else [],
           since (fst (collectTimers env units)), fst (collectSockets env units), since (fst (collectSystemState env))]
     in mset rest = mset (concat parts) \<and> (\<forall>ms \<in> set parts. subseq ms rest) \<and>
        (\<forall>u \<in> set units. \<exists>t. service_type env (us_Name u) = Ok t \<and>
           subseq (map (\<lambda>st. MustNewConstMetric unitDesc GaugeValue (if st = us_ActiveState u then Fin 1 else Fin 0) [us_Name u, st, t])
             [''active'', ''activating'', ''deactivating'', ''inactive'', ''failed'']) rest))"
proof -
  obtain version versionFull where v: "getSystemdVersion env = Ok (version, versionFull)" "sd_connect env (systemdPrivate fl) = Ok ()"
    using assms by (cases "sd_connect env (systemdPrivate fl)"; cases "getSystemdVersion env") (auto simp: systemd_Update_def)
  obtain virt allUnits where u: "getSystemdVirtualization env = Ok virt" "ListUnits env = Ok allUnits"
    using assms v by (cases "getSystemdVirtualization env"; cases "ListUnits env") (auto simp: systemd_Update_def)
  let ?units = "filterUnits allUnits (sd_include c) (sd_exclude c)"
  let ?main = "if f64_le minSystemdVersionSystemState version then collectSystemState env else emit []"
  let ?us = "systemd_goroutines env fl version ?units @ [?main]"
  let ?s = "go_wait (ord_sched ord) (go_all (map returns ?us))"
  have nc: "\<not> crashed ?s" using assms v u by (auto simp: systemd_Update_def Let_def split: if_splits)
  note w = go_wait_updates(3) [OF nc]
  have rest: "mset (map snd (chan ?s)) = mset (concat (map fst ?us))" "\<forall>u \<in> set ?us. subseq (fst u) (map snd (chan ?s))"
    using pool_all_sent [OF pool_inv_reachable [OF conjunct1 [OF go_wait_run]] conjunct1 [OF w]] by (simp_all add: comp_def del: map_append)
  have states: "\<exists>t. service_type env (us_Name x) = Ok t \<and> subseq (unit_states x t) (map snd (chan ?s))" if "x \<in> set ?units" for x
  proof -
    have "collectUnitStatusMetrics env fl ?units \<in> set ?us" by (simp add: systemd_goroutines_def)
    then have "\<not> panics (snd (collectUnitStatusMetrics env fl ?units))" "subseq (fst (collectUnitStatusMetrics env fl ?units)) (map snd (chan ?s))"
      using w rest(2) by blast+
    then show ?thesis using collectUnitStatusMetrics_states [OF _ that] subseq_order.order_trans by blast
  qed
  let ?since = "\<lambda>ms :: metric list. if f64_le (Fin 212) version then ms else []"
  let ?parts = "[fst (collectUnitStatusMetrics env fl ?units),
     if enableStartTimeMetrics fl then fst (collectUnitStartTimeMetrics env ?units) else [],
     if enableTaskMetrics fl then fst (collectUnitTasksMetrics env ?units) else [],
     ?since (fst (collectTimers env ?units)), fst (collectSockets env ?units), ?since (fst (collectSystemState env))]"
  have "concat ?parts = concat (map fst ?us)" by (simp add: systemd_goroutines_def minSystemdVersionSystemState_def)
  then have all: "mset (map snd (chan ?s)) = mset (concat ?parts)" using rest(1) by simp
  have "\<forall>ms \<in> set ?parts. ms = [] \<or> (\<exists>u \<in> set ?us. ms = fst u)" by (simp add: systemd_goroutines_def minSystemdVersionSystemState_def)
  then have each: "\<forall>ms \<in> set ?parts. subseq ms (map snd (chan ?s))" using rest(2) by (metis list_emb_Nil)
  have sent: "fst (systemd_Update ord env fl c) =
      [MustNewConstMetric systemdVersionDesc GaugeValue version [versionFull], MustNewConstMetric virtualizationDesc GaugeValue (Fin 1) [virt]] @
      collectSummaryMetrics (ord_summary ord (summarizeUnits allUnits)) @ map snd (chan ?s)"
    using v u by (simp add: systemd_Update_def Let_def)
  show ?thesis
    unfolding Let_def unit_states_def [symmetric, unfolded unitStatesName_def] filterUnits_def [symmetric]
    using v u all each states sent
    by (intro exI [of _ version] exI [of _ versionFull] exI [of _ virt] exI [of _ allUnits] exI [of _ "map snd (chan ?s)"] conjI) blast+
qed

text \<open>
  An old systemd with a running service and a mount unit that is not loaded, the task metrics on, and a scheduler that always
  takes the second of the goroutines that can move.
\<close>

definition demo_systemd :: systemdEnv where
  "demo_systemd = \<lparr>sd_connect = (\<lambda>_. Ok ()), GetManagerProperty = (\<lambda>_. Err (ExtError ''no such property'')),
     ListUnits = Ok [\<lparr>us_Name = ''a.service'', us_LoadState = ''loaded'', us_ActiveState = ''active''\<rparr>,
       \<lparr>us_Name = ''b.mount'', us_LoadState = ''not-found'', us_ActiveState = ''inactive''\<rparr>],
     GetUnitTypeProperty = (\<lambda>_ _ p. if p = ''Type'' then Ok (VString ''simple'') else if p = ''TasksCurrent'' then Ok (VU64 7)
       else if p = ''TasksMax'' then Ok (VU64 (- 1)) else Err (ExtError ''no such property'')),
     GetUnitProperty = (\<lambda>_ _. Err (ExtError ''no such property''))\<rparr>"

definition demo_systemd_flags :: systemdFlags where
  "demo_systemd_flags = \<lparr>systemdUnitIncludeSet = False, systemdUnitInclude = ''.+'', oldSystemdUnitInclude = [], systemdUnitExcludeSet = False,
     systemdUnitExclude = [], oldSystemdUnitExclude = [], systemdPrivate = False, enableTaskMetrics = True, enableRestartsMetrics = False,
     enableStartTimeMetrics = False\<rparr>"

definition demo_systemd_order :: systemdOrder where
  "demo_systemd_order = \<lparr>ord_summary = (\<lambda>m. m), ord_sched = (\<lambda>_. 1)\<rparr>"

definition demo_systemd_collector :: systemdCollector where
  "demo_systemd_collector = \<lparr>sd_include = RBegin, sd_exclude = RLit ''x''\<rparr>"

lemma demo_systemd_typed: "sd_typed demo_systemd"
  by (simp add: sd_typed_def demo_systemd_def)

lemma demo_systemd_manager:
  "getSystemdVersion demo_systemd = Ok (Fin 0, [])" "getSystemdVirtualization demo_systemd = Ok ''unknown''" "\<not> f64_le (Fin 212) (Fin 0)"
  "sd_connect demo_systemd b = Ok ()" "\<exists>us. ListUnits demo_systemd = Ok us"
  by (simp_all add: getSystemdVersion_def getSystemdVirtualization_def demo_systemd_def)

lemma demo_systemd_ok: "snd (systemd_Update demo_systemd_order demo_systemd demo_systemd_flags demo_systemd_collector) = Ok ()"
proof -
  have "sd_pre (demo_systemd_order, demo_systemd, demo_systemd_flags, demo_systemd_collector)"
    using demo_systemd_typed by (simp add: sd_pre_def) (simp add: demo_systemd_def)
  moreover obtain us where "ListUnits demo_systemd = Ok us" using demo_systemd_manager(5) by blast
  ultimately show ?thesis using systemd.update_no_panic
    by (fastforce simp: systemd_Update_def Let_def minSystemdVersionSystemState_def demo_systemd_manager simp del: map_append split: if_splits)
qed

theorem systemd_Update_complete_witness:
  "\<exists>rest. fst (systemd_Update demo_systemd_order demo_systemd demo_systemd_flags demo_systemd_collector) =
     [MustNewConstMetric systemdVersionDesc GaugeValue (Fin 0) [[]], MustNewConstMetric virtualizationDesc GaugeValue (Fin 1) [''unknown'']] @
     collectSummaryMetrics [(''active'', Fin 1), (''activating'', Fin 0), (''deactivating'', Fin 0), (''inactive'', Fin 1), (''failed'', Fin 0)] @ rest \<and>
     MustNewConstMetric unitDesc GaugeValue (Fin 1) [''a.service'', ''active'', ''simple''] \<in> set rest \<and>
     MustNewConstMetric unitTasksCurrentDesc GaugeValue (Fin 7) [''a.service''] \<in> set rest \<and> length rest = 6"
proof -
  let ?u = "\<lparr>us_Name = ''a.service'', us_LoadState = ''loaded'', us_ActiveState = ''active''\<rparr>"
  let ?all = "[?u, \<lparr>us_Name = ''b.mount'', us_LoadState = ''not-found'', us_ActiveState = ''inactive''\<rparr>]"
  have l: "ListUnits demo_systemd = Ok ?all" by (simp add: demo_systemd_def)
  have f: "filter (\<lambda>u. MatchString (sd_include demo_systemd_collector) (us_Name u) \<and> \<not> MatchString (sd_exclude demo_systemd_collector) (us_Name u) \<and>
      us_LoadState u = ''loaded'') ?all = [?u]"
    by code_simp
  have one: "round64 1 = Fin 1" using f64_of_nat_exact [of 1] by (simp add: f64_of_nat_def f64_of_int_def)
  have s: "ord_summary demo_systemd_order (summarizeUnits ?all) =
      [(''active'', Fin 1), (''activating'', Fin 0), (''deactivating'', Fin 0), (''inactive'', Fin 1), (''failed'', Fin 0)]"
    by (simp add: demo_systemd_order_def summarizeUnits_def unitStatesName_def float_incr_def map_get_z_def one)
  have parts: "fst (collectUnitStatusMetrics demo_systemd demo_systemd_flags [?u]) = unit_states ?u ''simple''"
    "fst (collectUnitTasksMetrics demo_systemd [?u]) = [MustNewConstMetric unitTasksCurrentDesc GaugeValue (Fin 7) [''a.service'']]"
    "fst (collectSockets demo_systemd [?u]) = []"
    by (simp_all add: collectUnitStatusMetrics_def collectUnitTasksMetrics_def collectSockets_def service_type_def tasks_metric_def
        demo_systemd_def demo_systemd_flags_def HasSuffix_def suffix_def emit_def f64_of_nat_exact)
  have fl: "enableTaskMetrics demo_systemd_flags" "\<not> enableStartTimeMetrics demo_systemd_flags" by (simp_all add: demo_systemd_flags_def)
  obtain v vf virt all rest where
    v: "getSystemdVersion demo_systemd = Ok (v, vf)" "getSystemdVirtualization demo_systemd = Ok virt" "ListUnits demo_systemd = Ok all"
    and sent: "fst (systemd_Update demo_systemd_order demo_systemd demo_systemd_flags demo_systemd_collector) =
      [MustNewConstMetric systemdVersionDesc GaugeValue v [vf], MustNewConstMetric virtualizationDesc GaugeValue (Fin 1) [virt]] @
      collectSummaryMetrics (ord_summary demo_systemd_order (summarizeUnits all)) @ rest"
    and rest: "mset rest = mset (concat (let us = filter (\<lambda>u. MatchString (sd_include demo_systemd_collector) (us_Name u) \<and>
          \<not> MatchString (sd_exclude demo_systemd_collector) (us_Name u) \<and> us_LoadState u = ''loaded'') all in
        [fst (collectUnitStatusMetrics demo_systemd demo_systemd_flags us),
         if enableStartTimeMetrics demo_systemd_flags then fst (collectUnitStartTimeMetrics demo_systemd us) else [],
         if enableTaskMetrics demo_systemd_flags then fst (collectUnitTasksMetrics demo_systemd us) else [],
         if f64_le (Fin 212) v then fst (collectTimers demo_systemd us) else [], fst (collectSockets demo_systemd us),
         if f64_le (Fin 212) v then fst (collectSystemState demo_systemd) else []]))"
    using systemd_Update_complete [OF demo_systemd_ok] unfolding Let_def by blast
  have eq: "v = Fin 0" "vf = []" "virt = ''unknown''" "all = ?all" using v l demo_systemd_manager by simp_all
  note sent = sent [unfolded eq]
  have rest: "mset rest = mset (unit_states ?u ''simple'' @ [MustNewConstMetric unitTasksCurrentDesc GaugeValue (Fin 7) [''a.service'']])"
    using rest unfolding eq f Let_def by (simp only: parts fl demo_systemd_manager if_True if_False concat.simps append_Nil append_Nil2)
  have "MustNewConstMetric unitDesc GaugeValue (Fin 1) [''a.service'', ''active'', ''simple''] \<in> set (unit_states ?u ''simple'')"
    by (simp add: unit_states_def unitStatesName_def)
  then show ?thesis using sent mset_eq_setD [OF rest] mset_eq_length [OF rest] unfolding s
    by (intro exI [of _ rest]) (simp add: unit_states_def unitStatesName_def)
qed

end
