(* ===== verification/Energy.thy ===== *)
theory Energy
  imports Helpers
begin

text \<open>
  Frequency, temperature and power: \<^verbatim>\<open>cpufreq_common.go\<close>, \<^verbatim>\<open>cpufreq_linux.go\<close>,
  \<^verbatim>\<open>thermal_zone_linux.go\<close>, \<^verbatim>\<open>powersupplyclass.go\<close>, \<^verbatim>\<open>powersupplyclass_linux.go\<close> and \<^verbatim>\<open>rapl_linux.go\<close>.
  The sysfs library that reads the files is the environment of each collector.
\<close>

section \<open>CPU frequency\<close>

definition cpufreq_subsystem :: "bool \<Rightarrow> string" where
  "cpufreq_subsystem useCPUFreqPrefix = (if useCPUFreqPrefix then ''cpufreq'' else ''cpu'')"

record cpuFreqDescs =
  cf_hertz :: desc
  cf_avgHertz :: desc
  cf_minHertz :: desc
  cf_maxHertz :: desc
  cf_scalingHertz :: desc
  cf_scalingMinHertz :: desc
  cf_scalingMaxHertz :: desc
  cf_scalingGovernor :: desc

definition newCPUFreqDescs :: "bool \<Rightarrow> cpuFreqDescs" where
  "newCPUFreqDescs pre =
     (let d = (\<lambda>name help. NewDesc (BuildFQName namespace (cpufreq_subsystem pre) name) help) in
      \<lparr>cf_hertz = d ''frequency_hertz'' ''Current CPU thread frequency in hertz.'' [''cpu''],
       cf_avgHertz = d ''frequency_avg_hertz'' ''Average CPU thread frequency in hertz.'' [''cpu''],
       cf_minHertz = d ''frequency_min_hertz'' ''Minimum CPU thread frequency in hertz.'' [''cpu''],
       cf_maxHertz = d ''frequency_max_hertz'' ''Maximum CPU thread frequency in hertz.'' [''cpu''],
       cf_scalingHertz = d ''scaling_frequency_hertz'' ''Current scaled CPU thread frequency in hertz.'' [''cpu''],
       cf_scalingMinHertz = d ''scaling_frequency_min_hertz'' ''Minimum scaled CPU thread frequency in hertz.'' [''cpu''],
       cf_scalingMaxHertz = d ''scaling_frequency_max_hertz'' ''Maximum scaled CPU thread frequency in hertz.'' [''cpu''],
       cf_scalingGovernor = d ''scaling_governor'' ''Current enabled CPU frequency governor.'' [''cpu'', ''governor'']\<rparr>)"

record cpufreqStats =
  cs_Name :: string
  CpuinfoCurrentFrequency :: "uint64 option"
  CpuinfoAverageFrequency :: "uint64 option"
  CpuinfoMinimumFrequency :: "uint64 option"
  CpuinfoMaximumFrequency :: "uint64 option"
  ScalingCurrentFrequency :: "uint64 option"
  ScalingMinimumFrequency :: "uint64 option"
  ScalingMaximumFrequency :: "uint64 option"
  Governor :: string
  AvailableGovernors :: string

definition NewCPUFreqCollector :: "unit res \<Rightarrow> bool \<Rightarrow> cpuFreqDescs res" where
  "NewCPUFreqCollector sysfs_NewFS pre =
     bind_res (map_err (Wrapf ''failed to open sysfs: %w'' []) sysfs_NewFS) (\<lambda>_. Ok (newCPUFreqDescs pre))"

definition khz :: "desc \<Rightarrow> string \<Rightarrow> uint64 option \<Rightarrow> metric list" where
  "khz d name v =
     (case v of None \<Rightarrow> []
      | Some f \<Rightarrow> [MustNewConstMetric d GaugeValue (f64_mul (f64_of_nat (unat f)) (Fin 1000)) [name]])"

definition governor_metrics :: "desc \<Rightarrow> cpufreqStats \<Rightarrow> metric list" where
  "governor_metrics d stats =
     (if Governor stats = [] then []
      else map (\<lambda>g. MustNewConstMetric d GaugeValue (f64_of_int (if g = Governor stats then 1 else 0)) [cs_Name stats, g])
             (Split (AvailableGovernors stats) (CHR '' '')))"

definition cpufreq_metrics :: "cpuFreqDescs \<Rightarrow> cpufreqStats \<Rightarrow> metric list" where
  "cpufreq_metrics c stats =
     (let n = cs_Name stats in
      khz (cf_hertz c) n (CpuinfoCurrentFrequency stats) @ khz (cf_avgHertz c) n (CpuinfoAverageFrequency stats) @
      khz (cf_minHertz c) n (CpuinfoMinimumFrequency stats) @ khz (cf_maxHertz c) n (CpuinfoMaximumFrequency stats) @
      khz (cf_scalingHertz c) n (ScalingCurrentFrequency stats) @ khz (cf_scalingMinHertz c) n (ScalingMinimumFrequency stats) @
      khz (cf_scalingMaxHertz c) n (ScalingMaximumFrequency stats) @ governor_metrics (cf_scalingGovernor c) stats)"

definition cpufreq_Update :: "cpuFreqDescs \<Rightarrow> cpufreqStats list res \<Rightarrow> upd" where
  "cpufreq_Update c SystemCpufreq =
     with_res SystemCpufreq (\<lambda>cpuFreqs. foreach (\<lambda>stats. emit (cpufreq_metrics c stats)) cpuFreqs)"

section \<open>Thermal zones\<close>

definition ErrInvalid :: error where "ErrInvalid = NewError ''invalid argument''"
definition EINVAL :: error where "EINVAL = OSError ''invalid argument''"

definition zoneTemp :: desc where
  "zoneTemp = NewDesc (BuildFQName namespace ''thermal_zone'' ''temp'') ''Zone temperature in Celsius'' [''zone'', ''type'']"

definition coolingDeviceCurState :: desc where
  "coolingDeviceCurState = NewDesc (BuildFQName namespace ''cooling_device'' ''cur_state'') ''Current throttle state of the cooling device'' [''name'', ''type'']"

definition coolingDeviceMaxState :: desc where
  "coolingDeviceMaxState = NewDesc (BuildFQName namespace ''cooling_device'' ''max_state'') ''Maximum throttle state of the cooling device'' [''name'', ''type'']"

record thermalZoneStats =
  tz_Name :: string
  tz_Type :: string
  tz_Temp :: "64 word"

record coolingDeviceStats =
  cd_Name :: string
  cd_Type :: string
  cd_MaxState :: "64 word"
  cd_CurState :: "64 word"

record thermalEnv =
  ClassThermalZoneStats :: "thermalZoneStats list res"
  ClassCoolingDeviceStats :: "coolingDeviceStats list res"

definition NewThermalZoneCollector :: "unit res \<Rightarrow> unit res" where
  "NewThermalZoneCollector sysfs_NewFS = map_err (Wrapf ''failed to open sysfs: %w'' []) sysfs_NewFS"

definition thermal_err :: "error \<Rightarrow> error" where
  "thermal_err e = (if errors_Is e ErrNotExist \<or> errors_Is e ErrPermission \<or> errors_Is e ErrInvalid \<or> errors_Is e EINVAL then ErrNoData else e)"

definition zone_metric :: "thermalZoneStats \<Rightarrow> metric" where
  "zone_metric s = MustNewConstMetric zoneTemp GaugeValue (f64_div (f64_of_int (sint (tz_Temp s))) (Fin 1000)) [tz_Name s, tz_Type s]"

definition cooling_metrics :: "coolingDeviceStats \<Rightarrow> metric list" where
  "cooling_metrics s =
     [MustNewConstMetric coolingDeviceCurState GaugeValue (f64_of_int (sint (cd_CurState s))) [cd_Name s, cd_Type s],
      MustNewConstMetric coolingDeviceMaxState GaugeValue (f64_of_int (sint (cd_MaxState s))) [cd_Name s, cd_Type s]]"

definition thermal_Update :: "thermalEnv \<Rightarrow> upd" where
  "thermal_Update env =
     with_res (map_err thermal_err (ClassThermalZoneStats env)) (\<lambda>thermalZones.
       seq (emit (map zone_metric thermalZones))
         (with_res (ClassCoolingDeviceStats env) (\<lambda>coolingDevices.
            emit (concat (map cooling_metrics coolingDevices)))))"

section \<open>Power supplies\<close>

text \<open>
  The structure of a power supply belongs to the sysfs library; its fields are read by their Go names, the
  numeric ones through pointers that are nil for a file that does not exist. The code ranges over map literals from
  metric names to fields; \<open>ord\<close> is the order in which the runtime yields their entries.
\<close>

record powerSupply =
  ps_Name :: string
  ps_int :: "string \<Rightarrow> 64 word option"
  ps_text :: "string \<Rightarrow> string"

record powerEnv =
  pw_NewFS :: "unit res"
  PowerSupplyClass :: "(string, powerSupply) gomap res"

definition NewPowerSupplyClassCollector :: "string \<Rightarrow> regexp res" where
  "NewPowerSupplyClassCollector powerSupplyClassIgnoredPowerSupplies = MustCompile powerSupplyClassIgnoredPowerSupplies"

definition power_units :: "(string, string) gomap" where
  "power_units =
     [(''authentic'', ''Authentic''), (''calibrate'', ''Calibrate''), (''capacity'', ''Capacity''),
      (''capacity_alert_max'', ''CapacityAlertMax''), (''capacity_alert_min'', ''CapacityAlertMin''), (''cyclecount'', ''CycleCount''),
      (''online'', ''Online''), (''present'', ''Present''), (''time_to_empty_seconds'', ''TimeToEmptyNow''),
      (''time_to_full_seconds'', ''TimeToFullNow'')]"

definition power_micro :: "(string, string) gomap" where
  "power_micro =
     [(''current_boot'', ''CurrentBoot''), (''current_max'', ''CurrentMax''), (''current_ampere'', ''CurrentNow''),
      (''energy_empty'', ''EnergyEmpty''), (''energy_empty_design'', ''EnergyEmptyDesign''), (''energy_full'', ''EnergyFull''),
      (''energy_full_design'', ''EnergyFullDesign''), (''energy_watthour'', ''EnergyNow''), (''voltage_boot'', ''VoltageBoot''),
      (''voltage_max'', ''VoltageMax''), (''voltage_max_design'', ''VoltageMaxDesign''), (''voltage_min'', ''VoltageMin''),
      (''voltage_min_design'', ''VoltageMinDesign''), (''voltage_volt'', ''VoltageNow''), (''voltage_ocv'', ''VoltageOCV''),
      (''charge_control_limit'', ''ChargeControlLimit''), (''charge_control_limit_max'', ''ChargeControlLimitMax''),
      (''charge_counter'', ''ChargeCounter''), (''charge_empty'', ''ChargeEmpty''), (''charge_empty_design'', ''ChargeEmptyDesign''),
      (''charge_full'', ''ChargeFull''), (''charge_full_design'', ''ChargeFullDesign''), (''charge_ampere'', ''ChargeNow''),
      (''charge_term_current'', ''ChargeTermCurrent''), (''constant_charge_current'', ''ConstantChargeCurrent''),
      (''constant_charge_current_max'', ''ConstantChargeCurrentMax''), (''constant_charge_voltage'', ''ConstantChargeVoltage''),
      (''constant_charge_voltage_max'', ''ConstantChargeVoltageMax''), (''precharge_current'', ''PrechargeCurrent''),
      (''input_current_limit'', ''InputCurrentLimit''), (''power_watt'', ''PowerNow'')]"

definition power_temps :: "(string, string) gomap" where
  "power_temps =
     [(''temp_celsius'', ''Temp''), (''temp_alert_max_celsius'', ''TempAlertMax''), (''temp_alert_min_celsius'', ''TempAlertMin''),
      (''temp_ambient_celsius'', ''TempAmbient''), (''temp_ambient_max_celsius'', ''TempAmbientMax''),
      (''temp_ambient_min_celsius'', ''TempAmbientMin''), (''temp_max_celsius'', ''TempMax''), (''temp_min_celsius'', ''TempMin'')]"

definition power_info :: "(string, string) gomap" where
  "power_info =
     [(''power_supply'', ''Name''), (''capacity_level'', ''CapacityLevel''), (''charge_type'', ''ChargeType''), (''health'', ''Health''),
      (''manufacturer'', ''Manufacturer''), (''model_name'', ''ModelName''), (''serial_number'', ''SerialNumber''), (''status'', ''Status''),
      (''technology'', ''Technology''), (''type'', ''Type''), (''usb_type'', ''UsbType''), (''scope'', ''Scope'')]"

definition pushPowerSupplyMetric :: "string \<Rightarrow> float64 \<Rightarrow> string \<Rightarrow> valueType \<Rightarrow> metric" where
  "pushPowerSupplyMetric name v powerSupplyName vt =
     MustNewConstMetric (NewDesc (BuildFQName namespace ''power_supply'' name)
       (name @ '' value of /sys/class/power_supply/<power_supply>.'') [''power_supply'']) vt v [powerSupplyName]"

definition power_values :: "(float64 \<Rightarrow> float64) \<Rightarrow> (string, string) gomap \<Rightarrow> powerSupply \<Rightarrow> metric list" where
  "power_values scale entries ps =
     concat (map (\<lambda>(name, f). case ps_int ps f of None \<Rightarrow> []
         | Some v \<Rightarrow> [pushPowerSupplyMetric name (scale (f64_of_int (sint v))) (ps_Name ps) GaugeValue]) entries)"

definition power_text :: "powerSupply \<Rightarrow> string \<Rightarrow> string" where
  "power_text ps f = (if f = ''Name'' then ps_Name ps else ps_text ps f)"

definition power_info_metric :: "(string, string) gomap \<Rightarrow> powerSupply \<Rightarrow> metric" where
  "power_info_metric entries ps =
     (let kept = filter (\<lambda>(name, f). power_text ps f \<noteq> []) entries;
          keys = map fst kept; vals = map (\<lambda>(name, f). ToValidUTF8 (power_text ps f) rune_error) kept
      in MustNewConstMetric (NewDesc (BuildFQName namespace ''power_supply'' ''info'') ''info of /sys/class/power_supply/<power_supply>.'' keys)
           GaugeValue (Fin 1) vals)"

definition power_metrics :: "((string, string) gomap \<Rightarrow> (string, string) gomap) \<Rightarrow> powerSupply \<Rightarrow> metric list" where
  "power_metrics ord ps =
     power_values (\<lambda>x. x) (ord power_units) ps @ power_values (\<lambda>x. f64_div x (Fin 1000000)) (ord power_micro) ps @
     power_values (\<lambda>x. f64_div x (Fin 10)) (ord power_temps) ps @ [power_info_metric (ord power_info) ps]"

definition getPowerSupplyClassInfo :: "powerEnv \<Rightarrow> regexp \<Rightarrow> (string, powerSupply) gomap res" where
  "getPowerSupplyClassInfo env ignore =
     bind_res (pw_NewFS env) (\<lambda>_.
     bind_res (map_err (Wrapf ''error obtaining power_supply class info: %w'' []) (PowerSupplyClass env)) (\<lambda>powerSupplyClass.
       Ok (filter (\<lambda>(device, ps). \<not> MatchString ignore device) powerSupplyClass)))"

definition power_err :: "error \<Rightarrow> error" where
  "power_err e = (if errors_Is e ErrNotExist then ErrNoData else Wrapf ''could not get power_supply class info: %w'' [] e)"

definition power_Update :: "((string, string) gomap \<Rightarrow> (string, string) gomap) \<Rightarrow> powerEnv \<Rightarrow> regexp \<Rightarrow> upd" where
  "power_Update ord env ignore =
     with_res (map_err power_err (getPowerSupplyClassInfo env ignore)) (\<lambda>powerSupplyClass.
       foreach (\<lambda>(device, ps). emit (power_metrics ord ps)) powerSupplyClass)"

section \<open>RAPL\<close>

record raplZone =
  rz_Name :: string
  rz_Index :: goint
  rz_Path :: string

record raplEnv =
  GetRaplZones :: "raplZone list res"
  GetEnergyMicrojoules :: "raplZone \<Rightarrow> uint64 res"

definition joulesMetricDesc :: desc where
  "joulesMetricDesc = NewDesc (BuildFQName namespace ''rapl'' ''joules_total'') ''Current RAPL value in joules'' [''index'', ''path'', ''rapl_zone'']"

definition NewRaplCollector :: "unit res \<Rightarrow> desc res" where
  "NewRaplCollector sysfs_NewFS = bind_res sysfs_NewFS (\<lambda>_. Ok joulesMetricDesc)"

definition joulesMetric :: "raplZone \<Rightarrow> float64 \<Rightarrow> metric" where
  "joulesMetric z v =
     MustNewConstMetric (NewDesc (BuildFQName namespace ''rapl'' (SanitizeMetricName (rz_Name z) @ ''_joules_total''))
       (''Current RAPL '' @ rz_Name z @ '' value in joules'') [''index'', ''path'']) CounterValue v [Itoa (sint (rz_Index z)), rz_Path z]"

definition joulesMetricWithZoneLabel :: "raplZone \<Rightarrow> float64 \<Rightarrow> metric" where
  "joulesMetricWithZoneLabel z v = MustNewConstMetric joulesMetricDesc CounterValue v [Itoa (sint (rz_Index z)), rz_Path z, rz_Name z]"

definition rapl_zones_err :: "error \<Rightarrow> error" where
  "rapl_zones_err e =
     (if errors_Is e ErrNotExist then ErrNoData else if errors_Is e ErrPermission then ErrNoData
      else Wrapf ''failed to retrieve rapl stats: %w'' [] e)"

definition rapl_zone :: "raplEnv \<Rightarrow> bool \<Rightarrow> raplZone \<Rightarrow> upd" where
  "rapl_zone env raplZoneLabel rz =
     with_res (map_err (\<lambda>e. if errors_Is e ErrPermission then ErrNoData else e) (GetEnergyMicrojoules env rz)) (\<lambda>microJoules.
       let joules = f64_div (f64_of_nat (unat microJoules)) (Fin 1000000)
       in emit [if raplZoneLabel then joulesMetricWithZoneLabel rz joules else joulesMetric rz joules])"

definition rapl_Update :: "raplEnv \<Rightarrow> bool \<Rightarrow> upd" where
  "rapl_Update env raplZoneLabel =
     with_res (map_err rapl_zones_err (GetRaplZones env)) (foreach (rapl_zone env raplZoneLabel))"

section \<open>The contract\<close>

lemma cpufreq_metrics_ok: "m \<in> set (cpufreq_metrics (newCPUFreqDescs b) stats) \<Longrightarrow> labels_ok m"
  by (auto simp: cpufreq_metrics_def newCPUFreqDescs_def Let_def khz_def governor_metrics_def split: option.splits if_splits)

interpretation cpufreq: safe_collector_contract "cpufreq_Update (newCPUFreqDescs b)" "\<lambda>r. \<not> panics r" for b
  by (rule safe_contractI) (auto simp: cpufreq_Update_def intro!: sound_intros cpufreq_metrics_ok)

interpretation thermal: safe_collector_contract thermal_Update
  "\<lambda>env. \<not> panics (ClassThermalZoneStats env) \<and> \<not> panics (ClassCoolingDeviceStats env)"
  by (rule safe_contractI)
    (auto simp: thermal_Update_def zone_metric_def zoneTemp_def cooling_metrics_def coolingDeviceCurState_def coolingDeviceMaxState_def
      list_all_iff intro!: sound_intros)

lemma power_metrics_ok: "m \<in> set (power_metrics ord ps) \<Longrightarrow> labels_ok m"
  by (auto simp: power_metrics_def power_values_def power_info_metric_def Let_def pushPowerSupplyMetric_def split: option.splits)

interpretation power: safe_collector_contract "\<lambda>(env, ignore). power_Update ord env ignore"
  "\<lambda>(env, ignore). \<not> panics (pw_NewFS env) \<and> \<not> panics (PowerSupplyClass env)" for ord
  by (rule safe_contractI)
    (auto simp: power_Update_def getPowerSupplyClassInfo_def panics_bind_res intro!: sound_intros power_metrics_ok split: prod.splits)

interpretation rapl: safe_collector_contract "\<lambda>(env, l). rapl_Update env l"
  "\<lambda>(env, l). \<not> panics (GetRaplZones env) \<and> (\<forall>z. \<not> panics (GetEnergyMicrojoules env z))"
  by (rule safe_contractI)
    (auto simp: rapl_Update_def rapl_zone_def Let_def joulesMetric_def joulesMetricWithZoneLabel_def joulesMetricDesc_def intro!: sound_intros)

section \<open>Properties\<close>

text \<open>
  Whatever order the runtime yields the map entries in, the information sample of a power supply pairs every
  label with the text of its own field, has exactly the fields that are not empty, each once, and only
  values that are valid UTF-8.
\<close>

theorem power_info_pairs:
  assumes "range_order ord"
  shows "let m = power_info_metric (ord power_info) ps; ls = desc_labels (metric_desc m) in
    distinct ls \<and>
    set (zip ls (metric_labels m)) =
      {(name, ToValidUTF8 (power_text ps f) rune_error) |name f. (name, f) \<in> set power_info \<and> power_text ps f \<noteq> []} \<and>
    list_all valid_utf8 (metric_labels m)"
proof -
  let ?kept = "filter (\<lambda>(name, f). power_text ps f \<noteq> []) (ord power_info)"
  have "wf_map power_info" by (simp add: power_info_def)
  then have "distinct (map fst ?kept)"
    using assms by (intro distinct_map_filter) (simp add: range_order_keys)
  moreover have "zip (map fst ?kept) (map (\<lambda>(name, f). ToValidUTF8 (power_text ps f) rune_error) ?kept)
      = map (\<lambda>(name, f). (name, ToValidUTF8 (power_text ps f) rune_error)) ?kept"
    by (simp add: zip_map_map zip_same_conv_map case_prod_beta)
  moreover have "valid_utf8 (ToValidUTF8 s rune_error)" for s
    unfolding ToValidUTF8_def by (rule to_valid_go_valid [OF _ valid_rune_error]) (use valid_rune_error [of "[]"] in simp)
  ultimately show ?thesis using assms
    by (auto simp: power_info_metric_def Let_def list_all_iff image_iff)
qed

text \<open>
  When the governor in force is among the available ones, which are distinct, the governor samples of a CPU
  are one per available governor and exactly one of them is set, the one in force.
\<close>

theorem governor_onehot:
  assumes "Governor stats \<in> set (Split (AvailableGovernors stats) (CHR '' ''))" "Governor stats \<noteq> []"
    and "distinct (Split (AvailableGovernors stats) (CHR '' ''))"
  shows "map metric_labels (governor_metrics d stats) = map (\<lambda>g. [cs_Name stats, g]) (Split (AvailableGovernors stats) (CHR '' '')) \<and>
    filter (\<lambda>m. m = MustNewConstMetric d GaugeValue (Fin 1) (metric_labels m)) (governor_metrics d stats) =
      [MustNewConstMetric d GaugeValue (Fin 1) [cs_Name stats, Governor stats]]"
proof -
  have z: "f64_of_int 0 = Fin 0" "f64_of_int 1 = Fin 1" using f64_of_nat_exact [of 0] f64_of_nat_exact [of 1] by (simp_all add: f64_of_nat_def f64_of_int_def)
  have one: "distinct gs \<Longrightarrow> g \<in> set gs \<Longrightarrow> filter (\<lambda>x. x = g) gs = [g]" for g and gs :: "string list"
    by (induction gs) (auto simp: filter_empty_conv)
  let ?m = "\<lambda>g. MustNewConstMetric d GaugeValue (f64_of_int (if g = Governor stats then 1 else 0)) [cs_Name stats, g]"
  have "filter (\<lambda>m. m = MustNewConstMetric d GaugeValue (Fin 1) (metric_labels m)) (map ?m gs) = map ?m (filter (\<lambda>g. g = Governor stats) gs)" for gs
    by (induction gs) (simp_all add: z)
  then show ?thesis using assms by (simp add: governor_metrics_def one z)
qed

theorem governor_onehot_witness:
  "filter (\<lambda>m. m = MustNewConstMetric zoneTemp GaugeValue (Fin 1) (metric_labels m)) (governor_metrics zoneTemp
      \<lparr>cs_Name = ''0'', CpuinfoCurrentFrequency = None, CpuinfoAverageFrequency = None, CpuinfoMinimumFrequency = None,
       CpuinfoMaximumFrequency = None, ScalingCurrentFrequency = None, ScalingMinimumFrequency = None, ScalingMaximumFrequency = None,
       Governor = ''powersave'', AvailableGovernors = ''performance powersave''\<rparr>)
   = [MustNewConstMetric zoneTemp GaugeValue (Fin 1) [''0'', ''powersave'']]"
  using governor_onehot [of "\<lparr>cs_Name = ''0'', CpuinfoCurrentFrequency = None, CpuinfoAverageFrequency = None, CpuinfoMinimumFrequency = None,
       CpuinfoMaximumFrequency = None, ScalingCurrentFrequency = None, ScalingMinimumFrequency = None, ScalingMaximumFrequency = None,
       Governor = ''powersave'', AvailableGovernors = ''performance powersave''\<rparr>" zoneTemp] by simp

text \<open>
  A RAPL zone whose energy may not be read ends the update without data, after the samples of all zones
  before it and without those after it.
\<close>

theorem rapl_partial:
  assumes "GetRaplZones env = Ok (as @ z # bs)" "\<And>a. a \<in> set as \<Longrightarrow> GetEnergyMicrojoules env a = Ok (uj a)"
    and "GetEnergyMicrojoules env z = Err e" "errors_Is e ErrPermission"
  shows "rapl_Update env True =
    (map (\<lambda>a. joulesMetricWithZoneLabel a (f64_div (f64_of_nat (unat (uj a))) (Fin 1000000))) as, Err ErrNoData)"
proof -
  have "foreach (rapl_zone env True) as = emit (map (\<lambda>a. joulesMetricWithZoneLabel a (f64_div (f64_of_nat (unat (uj a))) (Fin 1000000))) as)"
    using assms(2) by (induction as) (simp_all add: rapl_zone_def Let_def emit_def)
  with assms show ?thesis by (simp add: rapl_Update_def foreach_append rapl_zone_def)
qed

theorem rapl_partial_witness:
  "rapl_Update \<lparr>GetRaplZones = Ok [\<lparr>rz_Name = ''core'', rz_Index = 0, rz_Path = ''/a''\<rparr>, \<lparr>rz_Name = ''dram'', rz_Index = 0, rz_Path = ''/b''\<rparr>],
     GetEnergyMicrojoules = (\<lambda>z. if rz_Path z = ''/a'' then Ok 0 else Err ErrPermission)\<rparr> True =
   ([joulesMetricWithZoneLabel \<lparr>rz_Name = ''core'', rz_Index = 0, rz_Path = ''/a''\<rparr> (f64_div (f64_of_nat (unat (0 :: uint64))) (Fin 1000000))], Err ErrNoData)"
  by (rule rapl_partial [where as = "[\<lparr>rz_Name = ''core'', rz_Index = 0, rz_Path = ''/a''\<rparr>]" and uj = "\<lambda>_. 0" and
    z = "\<lparr>rz_Name = ''dram'', rz_Index = 0, rz_Path = ''/b''\<rparr>" and bs = "[]" and e = ErrPermission, unfolded list.map]) simp_all

end
