(* ===== verification/Kernel.thy ===== *)
theory Kernel
  imports Helpers
begin

text \<open>
  Collectors that read one small kernel interface each: \<^verbatim>\<open>ksmd_linux.go\<close>, \<^verbatim>\<open>swap_linux.go\<close>,
  \<^verbatim>\<open>entropy_linux.go\<close>, \<^verbatim>\<open>buddyinfo.go\<close>, \<^verbatim>\<open>schedstat_linux.go\<close>, \<^verbatim>\<open>pressure_linux.go\<close>, \<^verbatim>\<open>slabinfo_linux.go\<close>,
  \<^verbatim>\<open>cgroups_linux.go\<close>, \<^verbatim>\<open>lnstat_linux.go\<close>, \<^verbatim>\<open>selinux_linux.go\<close>, \<^verbatim>\<open>kernel_hung_linux.go\<close>,
  \<^verbatim>\<open>cpu_vulnerabilities_linux.go\<close>, \<^verbatim>\<open>uname.go\<close>, \<^verbatim>\<open>uname_linux.go\<close> and \<^verbatim>\<open>zoneinfo_linux.go\<close>. The structures of the
  procfs and sysfs libraries are the environment; a pointer is an option.
\<close>

definition open_procfs :: "unit res \<Rightarrow> unit res" where
  "open_procfs r = map_err (Wrapf ''failed to open procfs: %w'' []) r"

lemma panics_open_procfs [simp]: "panics (open_procfs r) = panics r"
  by (simp add: open_procfs_def)

section \<open>ksmd\<close>

definition ksmdFiles :: "string list" where
  "ksmdFiles = [''full_scans'', ''general_profit'', ''merge_across_nodes'', ''pages_shared'', ''pages_sharing'', ''pages_to_scan'',
     ''pages_unshared'', ''pages_volatile'', ''run'', ''sleep_millisecs'']"

definition ksmd_desc :: "string \<Rightarrow> string \<Rightarrow> desc" where
  "ksmd_desc name help = NewDesc (BuildFQName namespace ''ksmd'' name) help []"

definition ksmdFullScansDesc :: desc where
  "ksmdFullScansDesc = ksmd_desc ''full_scans_total'' ''How many times all mergeable areas have been scanned.''"
definition ksmdGeneralProfitDesc :: desc where
  "ksmdGeneralProfitDesc = ksmd_desc ''general_profit_bytes'' ''How effective is KSM. ksm_saved_pages * sizeof(page) - (all_rmap_items) * sizeof(rmap_item)''"
definition ksmdMergeAcrossNodesDesc :: desc where
  "ksmdMergeAcrossNodesDesc = ksmd_desc ''merge_across_nodes'' ''Specifies if pages from different NUMA nodes can be merged.''"
definition ksmdPagesSharedDesc :: desc where
  "ksmdPagesSharedDesc = ksmd_desc ''pages_shared'' ''How many shared pages are being used.''"
definition ksmdPagesSharingDesc :: desc where
  "ksmdPagesSharingDesc = ksmd_desc ''pages_sharing'' ''How many more sites are sharing them i.e. how much saved.''"
definition ksmdPagesToScanDesc :: desc where
  "ksmdPagesToScanDesc = ksmd_desc ''pages_to_scan'' ''How many pages to scan before ksmd goes to sleep.''"
definition ksmdPagesUnsharedDesc :: desc where
  "ksmdPagesUnsharedDesc = ksmd_desc ''pages_unshared'' ''How many pages unique but repeatedly checked for merging.''"
definition ksmdPagesVolatileDesc :: desc where
  "ksmdPagesVolatileDesc = ksmd_desc ''pages_volatile'' ''How many pages changing too fast to be placed in a tree.''"
definition ksmdRunDesc :: desc where
  "ksmdRunDesc = ksmd_desc ''run'' ''The status of ksmd. stopped = 0, running = 1''"
definition ksmdSleepSecondsDesc :: desc where
  "ksmdSleepSecondsDesc = ksmd_desc ''sleep_seconds'' ''How many seconds ksmd should sleep before next scan.''"

definition ksmd_metric :: "string \<Rightarrow> float64 \<Rightarrow> metric list" where
  "ksmd_metric n v =
     (if n = ''full_scans'' then [MustNewConstMetric ksmdFullScansDesc CounterValue v []]
      else if n = ''general_profit'' then [MustNewConstMetric ksmdGeneralProfitDesc GaugeValue v []]
      else if n = ''merge_across_nodes'' then [MustNewConstMetric ksmdMergeAcrossNodesDesc GaugeValue v []]
      else if n = ''pages_shared'' then [MustNewConstMetric ksmdPagesSharedDesc GaugeValue v []]
      else if n = ''pages_sharing'' then [MustNewConstMetric ksmdPagesSharingDesc GaugeValue v []]
      else if n = ''pages_to_scan'' then [MustNewConstMetric ksmdPagesToScanDesc GaugeValue v []]
      else if n = ''pages_unshared'' then [MustNewConstMetric ksmdPagesUnsharedDesc GaugeValue v []]
      else if n = ''pages_volatile'' then [MustNewConstMetric ksmdPagesVolatileDesc GaugeValue v []]
      else if n = ''run'' then [MustNewConstMetric ksmdRunDesc GaugeValue v []]
      else if n = ''sleep_millisecs'' then [MustNewConstMetric ksmdSleepSecondsDesc GaugeValue (f64_div v (Fin 1000)) []]
      else [])"

definition ksmd_file :: "paths \<Rightarrow> (string \<Rightarrow> string res) \<Rightarrow> string \<Rightarrow> upd" where
  "ksmd_file p rd n =
     (case readUintFromFile rd (sysFilePath p (filepath_Join [''kernel/mm/ksm'', n])) of
        Err e \<Rightarrow> if errors_Is e ErrNotExist then emit [] else fail e
      | Panic m \<Rightarrow> ([], Panic m)
      | Ok v \<Rightarrow> emit (ksmd_metric n (f64_of_int v)))"

definition ksmd_Update :: "paths \<Rightarrow> (string \<Rightarrow> string res) \<Rightarrow> upd" where
  "ksmd_Update p rd = foreach (ksmd_file p rd) ksmdFiles"

section \<open>swap\<close>

record SwapsEntry =
  sw_Device :: string
  sw_Type :: string
  sw_Priority :: goint
  sw_Size :: goint
  sw_Used :: goint

record swapEnv =
  swap_NewFS :: "unit res"
  Swaps :: "SwapsEntry list res"

definition NewSwapCollector :: "swapEnv \<Rightarrow> unit res" where
  "NewSwapCollector env = open_procfs (swap_NewFS env)"

definition getSwapInfo :: "swapEnv \<Rightarrow> SwapsEntry list res" where
  "getSwapInfo env = map_err (Wrapf ''couldn't get proc/swap information: %w'' []) (Swaps env)"

definition swap_desc :: "string \<Rightarrow> string \<Rightarrow> desc" where
  "swap_desc name help = NewDesc (BuildFQName namespace ''swap'' name) help [''device'', ''swap_type'']"

definition swap_metrics :: "SwapsEntry \<Rightarrow> metric list" where
  "swap_metrics s =
     (let ls = [sw_Device s, sw_Type s] in
      [MustNewConstMetric (swap_desc ''size_bytes'' ''Swap device size in bytes.'') GaugeValue (f64_of_int (sint (sw_Size s * 1024))) ls,
       MustNewConstMetric (swap_desc ''used_bytes'' ''Swap device used in bytes.'') GaugeValue (f64_of_int (sint (sw_Used s * 1024))) ls,
       MustNewConstMetric (swap_desc ''priority'' ''Swap device priority.'') GaugeValue (f64_of_int (sint (sw_Priority s))) ls])"

definition swap_Update :: "swapEnv \<Rightarrow> upd" where
  "swap_Update env =
     with_res (map_err (Wrapf ''couldn't get swap information: %w'' []) (getSwapInfo env)) (\<lambda>swaps.
       emit (concat (map swap_metrics swaps)))"

section \<open>entropy, buddyinfo and schedstat\<close>

definition entropyAvail :: desc where
  "entropyAvail = NewDesc (BuildFQName namespace [] ''entropy_available_bits'') ''Bits of available entropy.'' []"

definition entropyPoolSize :: desc where
  "entropyPoolSize = NewDesc (BuildFQName namespace [] ''entropy_pool_size_bits'') ''Bits of entropy pool.'' []"

record kernelRandom =
  EntropyAvaliable :: "uint64 option"
  PoolSize :: "uint64 option"

definition NewEntropyCollector :: "unit res \<Rightarrow> unit res" where
  "NewEntropyCollector procfs_NewFS = open_procfs procfs_NewFS"

definition entropy_Update :: "kernelRandom res \<Rightarrow> upd" where
  "entropy_Update KernelRandom =
     with_res (map_err (Wrapf ''failed to get kernel random stats: %w'' []) KernelRandom) (\<lambda>stats.
       case EntropyAvaliable stats of
         None \<Rightarrow> fail (Errorf ''couldn't get entropy_avail'' [])
       | Some a \<Rightarrow> seq (emit [MustNewConstMetric entropyAvail GaugeValue (f64_of_nat (unat a)) []])
           (case PoolSize stats of
              None \<Rightarrow> fail (Errorf ''couldn't get entropy poolsize'' [])
            | Some s \<Rightarrow> emit [MustNewConstMetric entropyPoolSize GaugeValue (f64_of_nat (unat s)) []]))"

record buddyEntry =
  bi_Node :: string
  bi_Zone :: string
  bi_Sizes :: "float64 list"

definition buddyinfoBlocks :: desc where
  "buddyinfoBlocks = NewDesc (BuildFQName namespace ''buddyinfo'' ''blocks'') ''Count of free blocks according to size.'' [''node'', ''zone'', ''size'']"

definition NewBuddyinfoCollector :: "unit res \<Rightarrow> unit res" where
  "NewBuddyinfoCollector procfs_NewFS = open_procfs procfs_NewFS"

definition buddy_metrics :: "buddyEntry \<Rightarrow> metric list" where
  "buddy_metrics entry =
     map (\<lambda>(i, v). MustNewConstMetric buddyinfoBlocks GaugeValue v [bi_Node entry, bi_Zone entry, Itoa (int i)])
       (enumerate 0 (bi_Sizes entry))"

definition buddyinfo_Update :: "buddyEntry list res \<Rightarrow> upd" where
  "buddyinfo_Update BuddyInfo =
     with_res (map_err (Wrapf ''couldn't get buddyinfo: %w'' []) BuddyInfo) (\<lambda>buddyInfo.
       emit (concat (map buddy_metrics buddyInfo)))"

definition schedstat_desc :: "string \<Rightarrow> string \<Rightarrow> desc" where
  "schedstat_desc name help = NewDesc (BuildFQName namespace ''schedstat'' name) help [''cpu'']"

definition runningSecondsTotal :: desc where
  "runningSecondsTotal = schedstat_desc ''running_seconds_total'' ''Number of seconds CPU spent running a process.''"
definition waitingSecondsTotal :: desc where
  "waitingSecondsTotal = schedstat_desc ''waiting_seconds_total'' ''Number of seconds spent by processing waiting for this CPU.''"
definition timeslicesTotal :: desc where
  "timeslicesTotal = schedstat_desc ''timeslices_total'' ''Number of timeslices executed by CPU.''"

record schedstatCPU =
  sc_CPUNum :: string
  RunningNanoseconds :: uint64
  WaitingNanoseconds :: uint64
  RunTimeslices :: uint64

definition NewSchedstatCollector :: "unit res \<Rightarrow> unit res" where
  "NewSchedstatCollector procfs_NewFS = open_procfs procfs_NewFS"

definition no_data :: "error \<Rightarrow> error" where
  "no_data e = (if errors_Is e ErrNotExist then ErrNoData else e)"

definition schedstat_metrics :: "schedstatCPU \<Rightarrow> metric list" where
  "schedstat_metrics c =
     [MustNewConstMetric runningSecondsTotal CounterValue (f64_div (f64_of_nat (unat (RunningNanoseconds c))) (Fin 1000000000)) [sc_CPUNum c],
      MustNewConstMetric waitingSecondsTotal CounterValue (f64_div (f64_of_nat (unat (WaitingNanoseconds c))) (Fin 1000000000)) [sc_CPUNum c],
      MustNewConstMetric timeslicesTotal CounterValue (f64_of_nat (unat (RunTimeslices c))) [sc_CPUNum c]]"

definition schedstat_Update :: "schedstatCPU list res \<Rightarrow> upd" where
  "schedstat_Update Schedstat = with_res (map_err no_data Schedstat) (\<lambda>cpus. emit (concat (map schedstat_metrics cpus)))"

section \<open>Pressure stall information\<close>

definition ENOTSUP :: error where "ENOTSUP = OSError ''operation not supported''"

definition psiResources :: "string list" where
  "psiResources = [''cpu'', ''io'', ''memory'', ''irq'']"

definition pressure_desc :: "string \<Rightarrow> string \<Rightarrow> desc" where
  "pressure_desc name help = NewDesc (BuildFQName namespace ''pressure'' name) help []"

definition psi_cpu :: desc where
  "psi_cpu = pressure_desc ''cpu_waiting_seconds_total'' ''Total time in seconds that processes have waited for CPU time''"
definition psi_io :: desc where
  "psi_io = pressure_desc ''io_waiting_seconds_total'' ''Total time in seconds that processes have waited due to IO congestion''"
definition psi_ioFull :: desc where
  "psi_ioFull = pressure_desc ''io_stalled_seconds_total'' ''Total time in seconds no process could make progress due to IO congestion''"
definition psi_mem :: desc where
  "psi_mem = pressure_desc ''memory_waiting_seconds_total'' ''Total time in seconds that processes have waited for memory''"
definition psi_memFull :: desc where
  "psi_memFull = pressure_desc ''memory_stalled_seconds_total'' ''Total time in seconds no process could make progress due to memory congestion''"
definition psi_irqFull :: desc where
  "psi_irqFull = pressure_desc ''irq_stalled_seconds_total'' ''Total time in seconds no process could make progress due to IRQ congestion''"

text \<open>The total of each line of a resource, where the kernel gives the line.\<close>

record psiStats =
  psi_Some :: "uint64 option"
  psi_Full :: "uint64 option"

definition NewPressureStatsCollector :: "unit res \<Rightarrow> unit res" where
  "NewPressureStatsCollector procfs_NewFS = open_procfs procfs_NewFS"

definition psi_metric :: "desc \<Rightarrow> uint64 option \<Rightarrow> upd" where
  "psi_metric d tot =
     (case tot of None \<Rightarrow> ([], Panic ''nil pointer dereference'')
      | Some t \<Rightarrow> emit [MustNewConstMetric d CounterValue (f64_div (f64_div (f64_of_nat (unat t)) (Fin 1000)) (Fin 1000)) []])"

definition psi_resource :: "string \<Rightarrow> psiStats \<Rightarrow> upd" where
  "psi_resource res vals =
     (if res = ''cpu'' then psi_metric psi_cpu (psi_Some vals)
      else if res = ''io'' then seq (psi_metric psi_io (psi_Some vals)) (psi_metric psi_ioFull (psi_Full vals))
      else if res = ''memory'' then seq (psi_metric psi_mem (psi_Some vals)) (psi_metric psi_memFull (psi_Full vals))
      else psi_metric psi_irqFull (psi_Full vals))"

text \<open>
  The loop counts the resources found. Every resource of the list has a case of the switch, so its default
  case is not reached.
\<close>

fun pressure_loop :: "(string \<Rightarrow> psiStats res) \<Rightarrow> string list \<Rightarrow> nat \<Rightarrow> upd" where
  "pressure_loop stats [] found = (if found = 0 then fail ErrNoData else emit [])"
| "pressure_loop stats (res # rs) found =
     (case stats res of
        Err e \<Rightarrow>
          if errors_Is e ErrNotExist then pressure_loop stats rs found
          else if errors_Is e ENOTSUP then fail ErrNoData
          else fail (Wrapf ''failed to retrieve pressure stats: %w'' [] e)
      | Panic m \<Rightarrow> ([], Panic m)
      | Ok vals \<Rightarrow>
          if psi_Some vals = None \<and> res \<noteq> ''irq'' then fail ErrNoData
          else if psi_Full vals = None \<and> res \<noteq> ''cpu'' then fail ErrNoData
          else seq (psi_resource res vals) (pressure_loop stats rs (found + 1)))"

definition pressure_Update :: "(string \<Rightarrow> psiStats res) \<Rightarrow> upd" where
  "pressure_Update stats = pressure_loop stats psiResources 0"

section \<open>slabinfo\<close>

record slabFlags =
  slabNameInclude :: string
  slabNameExclude :: string

record slab =
  sl_Name :: string
  ObjActive :: "64 word"
  ObjNum :: "64 word"
  ObjSize :: "64 word"
  ObjPerSlab :: "64 word"
  PagesPerSlab :: "64 word"

definition NewSlabinfoCollector :: "unit res \<Rightarrow> slabFlags \<Rightarrow> deviceFilter res" where
  "NewSlabinfoCollector procfs_NewFS fl =
     bind_res (open_procfs procfs_NewFS) (\<lambda>_. newDeviceFilter (slabNameExclude fl) (slabNameInclude fl))"

definition slab_metric :: "string \<Rightarrow> string \<Rightarrow> string \<Rightarrow> 64 word \<Rightarrow> metric" where
  "slab_metric name help label v =
     MustNewConstMetric (NewDesc (BuildFQName namespace ''slabinfo'' name) help [''slab'']) GaugeValue (f64_of_int (sint v)) [label]"

definition activeObjects :: "string \<Rightarrow> 64 word \<Rightarrow> metric" where
  "activeObjects = slab_metric ''active_objects'' ''The number of objects that are currently active (i.e., in use).''"
definition slab_objects :: "string \<Rightarrow> 64 word \<Rightarrow> metric" where
  "slab_objects = slab_metric ''objects'' ''The total number of allocated objects (i.e., objects that are both in use and not in use).''"
definition objectSizeBytes :: "string \<Rightarrow> 64 word \<Rightarrow> metric" where
  "objectSizeBytes = slab_metric ''object_size_bytes'' ''The size of objects in this slab, in bytes.''"
definition objectsPerSlab :: "string \<Rightarrow> 64 word \<Rightarrow> metric" where
  "objectsPerSlab = slab_metric ''objects_per_slab'' ''The number of objects stored in each slab.''"
definition pagesPerSlab :: "string \<Rightarrow> 64 word \<Rightarrow> metric" where
  "pagesPerSlab = slab_metric ''pages_per_slab'' ''The number of pages allocated for each slab.''"

definition slabinfo_Update :: "slab list res \<Rightarrow> deviceFilter \<Rightarrow> upd" where
  "slabinfo_Update SlabInfo f =
     with_res (map_err (Wrapf ''couldn't get %s: %w'' [''slabinfo'']) SlabInfo) (\<lambda>slabs.
       emit (concat (map (\<lambda>s. if ignored f (sl_Name s) then []
         else [activeObjects (sl_Name s) (ObjActive s), slab_objects (sl_Name s) (ObjNum s), objectSizeBytes (sl_Name s) (ObjSize s),
               objectsPerSlab (sl_Name s) (ObjPerSlab s), pagesPerSlab (sl_Name s) (PagesPerSlab s)]) slabs)))"

section \<open>cgroups, lnstat, SELinux, hung tasks, CPU vulnerabilities and uname\<close>

definition cgroupsCgroups :: desc where
  "cgroupsCgroups = NewDesc (BuildFQName namespace ''cgroups'' ''cgroups'') ''Current cgroup number of the subsystem.'' [''subsys_name'']"

definition cgroupsEnabled :: desc where
  "cgroupsEnabled = NewDesc (BuildFQName namespace ''cgroups'' ''enabled'') ''Current cgroup number of the subsystem.'' [''subsys_name'']"

record cgroupSummary =
  SubsysName :: string
  Cgroups :: goint
  Enabled :: goint

definition NewCgroupSummaryCollector :: "unit res \<Rightarrow> unit res" where
  "NewCgroupSummaryCollector procfs_NewFS = open_procfs procfs_NewFS"

definition cgroups_Update :: "cgroupSummary list res \<Rightarrow> upd" where
  "cgroups_Update CgroupSummarys =
     with_res CgroupSummarys (\<lambda>css.
       emit (concat (map (\<lambda>cs.
         [MustNewConstMetric cgroupsCgroups GaugeValue (f64_of_int (sint (Cgroups cs))) [SubsysName cs],
          MustNewConstMetric cgroupsEnabled GaugeValue (f64_of_int (sint (Enabled cs))) [SubsysName cs]]) css)))"

record netStatFile =
  ns_Filename :: string
  ns_Stats :: "(string, uint64 list) gomap"

record lnstatEnv =
  ln_NewFS :: "unit res"
  NetStat :: "netStatFile list res"

definition lnstat_metrics :: "netStatFile \<Rightarrow> metric list" where
  "lnstat_metrics f =
     concat (map (\<lambda>(header, stats). map (\<lambda>(cpu, v).
         MustNewConstMetric (NewDesc (BuildFQName namespace ''lnstat'' (header @ ''_total'')) ''linux network cache stats'' [''subsystem'', ''cpu''])
           CounterValue (f64_of_nat (unat v)) [ns_Filename f, Itoa (int cpu)]) (enumerate 0 stats)) (ns_Stats f))"

definition lnstat_Update :: "lnstatEnv \<Rightarrow> upd" where
  "lnstat_Update env =
     with_res (open_procfs (ln_NewFS env)) (\<lambda>_.
     with_res (map_err (Flatf ''lnstat error: %s'' []) (NetStat env)) (\<lambda>netStats.
       emit (concat (map lnstat_metrics netStats))))"

definition selinux_desc :: "string \<Rightarrow> string \<Rightarrow> desc" where
  "selinux_desc name help = NewDesc (BuildFQName namespace ''selinux'' name) help []"

definition selinux_configMode :: desc where
  "selinux_configMode = selinux_desc ''config_mode'' ''Configured SELinux enforcement mode''"
definition selinux_currentMode :: desc where
  "selinux_currentMode = selinux_desc ''current_mode'' ''Current SELinux enforcement mode''"
definition selinux_enabled :: desc where
  "selinux_enabled = selinux_desc ''enabled'' ''SELinux is enabled, 1 is true, 0 is false''"

record selinuxEnv =
  GetEnabled :: bool
  DefaultEnforceMode :: goint
  EnforceMode :: goint

definition selinux_Update :: "selinuxEnv \<Rightarrow> upd" where
  "selinux_Update env =
     (if \<not> GetEnabled env then emit [MustNewConstMetric selinux_enabled GaugeValue (Fin 0) []]
      else emit
        [MustNewConstMetric selinux_enabled GaugeValue (Fin 1) [],
         MustNewConstMetric selinux_configMode GaugeValue (f64_of_int (sint (DefaultEnforceMode env))) [],
         MustNewConstMetric selinux_currentMode GaugeValue (f64_of_int (sint (EnforceMode env))) []])"

definition kernelHungTasks :: desc where
  "kernelHungTasks = NewDesc (BuildFQName namespace ''kernel_hung'' ''tasks_total'')
     ''Total number of tasks that have been detected as hung since the system booted.'' []"

definition NewKernelHungCollector :: "unit res \<Rightarrow> unit res" where
  "NewKernelHungCollector procfs_NewFS = open_procfs procfs_NewFS"

text \<open>The environment gives the field \<^verbatim>\<open>HungTaskDetectCount\<close>, which the code dereferences without a check.\<close>

definition kernel_hung_Update :: "uint64 option res \<Rightarrow> upd" where
  "kernel_hung_Update KernelHung =
     with_res (map_err no_data KernelHung) (\<lambda>c.
       case c of None \<Rightarrow> ([], Panic ''nil pointer dereference'')
       | Some n \<Rightarrow> emit [MustNewConstMetric kernelHungTasks CounterValue (f64_of_nat (unat n)) []])"

definition vulnerabilityDesc :: desc where
  "vulnerabilityDesc = NewDesc (BuildFQName namespace ''cpu_vulnerabilities'' ''info'')
     ''Details of each CPU vulnerability reported by sysfs. The value of the series is an int encoded state of the vulnerability. The same state is stored as a string in the label''
     [''codename'', ''state'', ''mitigation'']"

record vulnerability =
  CodeName :: string
  vu_State :: goint
  Mitigation :: string

record vulnEnv =
  vu_NewFS :: "unit res"
  CPUVulnerabilities :: "vulnerability list res"
  VulnerabilityHumanEncoding :: "(goint, string) gomap"

definition vuln_Update :: "vulnEnv \<Rightarrow> upd" where
  "vuln_Update env =
     with_res (map_err (Wrapf ''failed to open sysfs: %w'' []) (vu_NewFS env)) (\<lambda>_.
     with_res (map_err (Wrapf ''failed to get vulnerabilities: %w'' []) (CPUVulnerabilities env)) (\<lambda>vs.
       emit (map (\<lambda>v. MustNewConstMetric vulnerabilityDesc GaugeValue (Fin 1)
         [CodeName v, map_get_z [] (VulnerabilityHumanEncoding env) (vu_State v), Mitigation v]) vs)))"

definition unameDesc :: desc where
  "unameDesc = NewDesc (BuildFQName namespace ''uname'' ''info'') ''Labeled system information as provided by the uname system call.''
     [''sysname'', ''release'', ''version'', ''machine'', ''nodename'', ''domainname'']"

record uname =
  SysName :: string
  Release :: string
  Version :: string
  Machine :: string
  NodeName :: string
  DomainName :: string

text \<open>
  The system call fills byte arrays (here with the field names of \<open>uname\<close>); \<^verbatim>\<open>unix.ByteSliceToString\<close> stops at
  the first null byte, if there is one.
\<close>

definition ByteSliceToString :: "string \<Rightarrow> string" where
  "ByteSliceToString s = takeWhile (\<lambda>c. c \<noteq> CHR 0x00) s"

definition getUname :: "uname res \<Rightarrow> uname res" where
  "getUname utsname =
     bind_res utsname (\<lambda>u. Ok
       \<lparr>SysName = ByteSliceToString (SysName u), Release = ByteSliceToString (Release u), Version = ByteSliceToString (Version u),
        Machine = ByteSliceToString (Machine u), NodeName = ByteSliceToString (NodeName u), DomainName = ByteSliceToString (DomainName u)\<rparr>)"

definition uname_Update :: "uname res \<Rightarrow> upd" where
  "uname_Update utsname =
     with_res (getUname utsname) (\<lambda>u.
       emit [MustNewConstMetric unameDesc GaugeValue (Fin 1) [SysName u, Release u, Version u, Machine u, NodeName u, DomainName u]])"

section \<open>zoneinfo\<close>

definition zone_desc :: "string \<Rightarrow> string \<Rightarrow> desc" where
  "zone_desc name help = NewDesc (BuildFQName namespace ''zoneinfo'' name) help [''node'', ''zone'']"

definition createGaugeMetricDescriptions :: "(string, desc) gomap" where
  "createGaugeMetricDescriptions =
     [(''NrFreePages'', zone_desc ''nr_free_pages'' ''Total number of free pages in the zone''),
      (''Min'', zone_desc ''min_pages'' ''Zone watermark pages_min''),
      (''Low'', zone_desc ''low_pages'' ''Zone watermark pages_low''),
      (''High'', zone_desc ''high_pages'' ''Zone watermark pages_high''),
      (''Scanned'', zone_desc ''scanned_pages'' ''Pages scanned since last reclaim''),
      (''Spanned'', zone_desc ''spanned_pages'' ''Total pages spanned by the zone, including holes''),
      (''Present'', zone_desc ''present_pages'' ''Physical pages existing within the zone''),
      (''Managed'', zone_desc ''managed_pages'' ''Present pages managed by the buddy system''),
      (''NrActiveAnon'', zone_desc ''nr_active_anon_pages'' ''Number of anonymous pages recently more used''),
      (''NrInactiveAnon'', zone_desc ''nr_inactive_anon_pages'' ''Number of anonymous pages recently less used''),
      (''NrIsolatedAnon'', zone_desc ''nr_isolated_anon_pages'' ''Temporary isolated pages from anon lru''),
      (''NrAnonPages'', zone_desc ''nr_anon_pages'' ''Number of anonymous pages currently used by the system''),
      (''NrAnonTransparentHugepages'', zone_desc ''nr_anon_transparent_hugepages'' ''Number of anonymous transparent huge pages currently used by the system''),
      (''NrActiveFile'', zone_desc ''nr_active_file_pages'' ''Number of active pages with file-backing''),
      (''NrInactiveFile'', zone_desc ''nr_inactive_file_pages'' ''Number of inactive pages with file-backing''),
      (''NrIsolatedFile'', zone_desc ''nr_isolated_file_pages'' ''Temporary isolated pages from file lru''),
      (''NrFilePages'', zone_desc ''nr_file_pages'' ''Number of file pages''),
      (''NrSlabReclaimable'', zone_desc ''nr_slab_reclaimable_pages'' ''Number of reclaimable slab pages''),
      (''NrSlabUnreclaimable'', zone_desc ''nr_slab_unreclaimable_pages'' ''Number of unreclaimable slab pages''),
      (''NrMlockStack'', zone_desc ''nr_mlock_stack_pages'' ''mlock()ed pages found and moved off LRU''),
      (''NrKernelStack'', zone_desc ''nr_kernel_stacks'' ''Number of kernel stacks''),
      (''NrMapped'', zone_desc ''nr_mapped_pages'' ''Number of mapped pages''),
      (''NrDirty'', zone_desc ''nr_dirty_pages'' ''Number of dirty pages''),
      (''NrWriteback'', zone_desc ''nr_writeback_pages'' ''Number of writeback pages''),
      (''NrUnevictable'', zone_desc ''nr_unevictable_pages'' ''Number of unevictable pages''),
      (''NrShmem'', zone_desc ''nr_shmem_pages'' ''Number of shmem pages (included tmpfs/GEM pages)'')]"

definition createCounterMetricDescriptions :: "(string, desc) gomap" where
  "createCounterMetricDescriptions =
     [(''NrDirtied'', zone_desc ''nr_dirtied_total'' ''Page dirtyings since bootup''),
      (''NrWritten'', zone_desc ''nr_written_total'' ''Page writings since bootup''),
      (''NumaHit'', zone_desc ''numa_hit_total'' ''Allocated in intended node''),
      (''NumaMiss'', zone_desc ''numa_miss_total'' ''Allocated in non intended node''),
      (''NumaForeign'', zone_desc ''numa_foreign_total'' ''Was intended here, hit elsewhere''),
      (''NumaInterleave'', zone_desc ''numa_interleave_total'' ''Interleaver preferred this zone''),
      (''NumaLocal'', zone_desc ''numa_local_total'' ''Allocation from local node''),
      (''NumaOther'', zone_desc ''numa_other_total'' ''Allocation from other node'')]"

record zoneinfoCollector =
  gaugeMetricDescs :: "(string, desc) gomap"
  counterMetricDescs :: "(string, desc) gomap"

definition NewZoneinfoCollector :: "unit res \<Rightarrow> zoneinfoCollector res" where
  "NewZoneinfoCollector procfs_NewFS =
     bind_res (open_procfs procfs_NewFS) (\<lambda>_.
       Ok \<lparr>gaugeMetricDescs = createGaugeMetricDescriptions, counterMetricDescs = createCounterMetricDescriptions\<rparr>)"

text \<open>
  The update walks the fields of the structure by reflection: those that are, after following a pointer,
  a 64-bit integer, by their names. \<open>zi_fields\<close> lists the fields in order with the integer they hold, if they
  hold one (a nil pointer, a string or a slice does not). A name in neither table gives a nil descriptor.
\<close>

record zoneinfo =
  zi_Node :: string
  zi_Zone :: string
  zi_fields :: "(string \<times> 64 word option) list"
  zi_Protection :: "64 word option list"

definition zone_field :: "zoneinfoCollector \<Rightarrow> zoneinfo \<Rightarrow> string \<times> 64 word option \<Rightarrow> upd" where
  "zone_field c z = (\<lambda>(name, val).
     (case val of
        None \<Rightarrow> emit []
      | Some v \<Rightarrow>
          (case map_get (gaugeMetricDescs c) name of
             Some d \<Rightarrow> emit [MustNewConstMetric d GaugeValue (f64_of_int (sint v)) [zi_Node z, zi_Zone z]]
           | None \<Rightarrow>
               (case map_get (counterMetricDescs c) name of
                  Some d \<Rightarrow> emit [MustNewConstMetric d CounterValue (f64_of_int (sint v)) [zi_Node z, zi_Zone z]]
                | None \<Rightarrow> ([], Panic ''nil pointer dereference'')))))"

definition protection_name :: "nat \<Rightarrow> string" where
  "protection_name i = ''protection_'' @ Itoa (int i)"

definition protection_desc :: "nat \<Rightarrow> desc" where
  "protection_desc i = zone_desc (protection_name i) (''Protection array '' @ Itoa (int i) @ ''. field'')"

fun zone_protection :: "zoneinfo \<Rightarrow> (nat \<times> 64 word option) list \<Rightarrow> zoneinfoCollector \<Rightarrow> zoneinfoCollector \<times> upd" where
  "zone_protection z [] c = (c, emit [])"
| "zone_protection z ((i, val) # ps) c =
     (let (d, c') = (case map_get (gaugeMetricDescs c) (protection_name i) of
            Some d \<Rightarrow> (d, c)
          | None \<Rightarrow> (protection_desc i, c\<lparr>gaugeMetricDescs := map_put (protection_name i) (protection_desc i) (gaugeMetricDescs c)\<rparr>))
      in case val of
           None \<Rightarrow> (c', ([], Panic ''nil pointer dereference''))
         | Some v \<Rightarrow> (let (c'', u) = zone_protection z ps c'
                      in (c'', seq (emit [MustNewConstMetric d GaugeValue (f64_of_int (sint v)) [zi_Node z, zi_Zone z]]) u)))"

fun zone_loop :: "zoneinfo list \<Rightarrow> zoneinfoCollector \<Rightarrow> zoneinfoCollector \<times> upd" where
  "zone_loop [] c = (c, emit [])"
| "zone_loop (z # zs) c =
     (let u = foreach (zone_field c z) (zi_fields z) in
      if snd u \<noteq> Ok () then (c, u)
      else let (c', v) = zone_protection z (enumerate 0 (zi_Protection z)) c in
           if snd v \<noteq> Ok () then (c', seq u v)
           else let (c'', w) = zone_loop zs c' in (c'', seq u (seq v w)))"

definition zoneinfo_Update :: "zoneinfo list res \<Rightarrow> zoneinfoCollector \<Rightarrow> zoneinfoCollector \<times> upd" where
  "zoneinfo_Update Zoneinfo c =
     (case map_err (Wrapf ''couldn't get zoneinfo: %w'' []) Zoneinfo of
        Ok zs \<Rightarrow> zone_loop zs c
      | Err e \<Rightarrow> (c, fail e)
      | Panic m \<Rightarrow> (c, ([], Panic m)))"


section \<open>The contract\<close>

lemma ksmd_metric_ok: "m \<in> set (ksmd_metric n v) \<Longrightarrow> labels_ok m"
  by (auto simp: ksmd_metric_def ksmd_desc_def ksmdFullScansDesc_def ksmdGeneralProfitDesc_def ksmdMergeAcrossNodesDesc_def
      ksmdPagesSharedDesc_def ksmdPagesSharingDesc_def ksmdPagesToScanDesc_def ksmdPagesUnsharedDesc_def ksmdPagesVolatileDesc_def
      ksmdRunDesc_def ksmdSleepSecondsDesc_def split: if_splits)

lemma ksmd_file_sound: "(\<And>f. \<not> panics (rd f)) \<Longrightarrow> sound (ksmd_file p rd n)"
  using readUintFromFile_no_panic [of rd "sysFilePath p (filepath_Join [''kernel/mm/ksm'', n])"]
  by (auto simp: ksmd_file_def split: res.splits simp del: filepath_Join.simps intro!: sound_emit ksmd_metric_ok)

interpretation ksmd: safe_collector_contract "\<lambda>(p, rd). ksmd_Update p rd" "\<lambda>(p :: paths, rd). \<forall>f. \<not> panics (rd f)"
  by (rule safe_contractI) (auto simp: ksmd_Update_def intro!: sound_foreach ksmd_file_sound)

interpretation swap: safe_collector_contract swap_Update "\<lambda>env. \<not> panics (Swaps env)"
  by (rule safe_contractI)
    (auto simp: swap_Update_def getSwapInfo_def swap_metrics_def swap_desc_def Let_def intro!: sound_intros)

interpretation entropy: safe_collector_contract entropy_Update "\<lambda>r. \<not> panics r"
  by (rule safe_contractI)
    (auto simp: entropy_Update_def entropyAvail_def entropyPoolSize_def intro!: sound_intros split: option.splits)

interpretation buddyinfo: safe_collector_contract buddyinfo_Update "\<lambda>r. \<not> panics r"
  by (rule safe_contractI) (auto simp: buddyinfo_Update_def buddy_metrics_def buddyinfoBlocks_def intro!: sound_intros)

interpretation schedstat: safe_collector_contract schedstat_Update "\<lambda>r. \<not> panics r"
  by (rule safe_contractI)
    (auto simp: schedstat_Update_def schedstat_metrics_def schedstat_desc_def runningSecondsTotal_def waitingSecondsTotal_def
      timeslicesTotal_def intro!: sound_intros)

lemmas psi_descs = psi_cpu_def psi_io_def psi_ioFull_def psi_mem_def psi_memFull_def psi_irqFull_def pressure_desc_def

lemma psi_metric_sound: "desc_labels d = [] \<Longrightarrow> t \<noteq> None \<Longrightarrow> sound (psi_metric d t)"
  by (auto simp: psi_metric_def intro!: sound_emit)

lemma psi_descs_labels [simp]:
  "desc_labels psi_cpu = []" "desc_labels psi_io = []" "desc_labels psi_ioFull = []"
  "desc_labels psi_mem = []" "desc_labels psi_memFull = []" "desc_labels psi_irqFull = []"
  by (simp_all add: psi_descs)

lemma psi_resource_sound:
  assumes "psi_Some vals = None \<longrightarrow> r = ''irq''" "psi_Full vals = None \<longrightarrow> r = ''cpu''" "r \<in> set psiResources"
  shows "sound (psi_resource r vals)"
proof -
  have "r = ''cpu'' \<or> r = ''io'' \<or> r = ''memory'' \<or> r = ''irq''" using assms(3) by (simp add: psiResources_def)
  then show ?thesis using assms(1,2) by (elim disjE) (simp_all add: psi_resource_def sound_seq psi_metric_sound)
qed

lemma pressure_loop_sound:
  "(\<And>r. \<not> panics (stats r)) \<Longrightarrow> set rs \<subseteq> set psiResources \<Longrightarrow> sound (pressure_loop stats rs found)"
proof (induction rs arbitrary: found)
  case (Cons r rs)
  then have np: "\<not> panics (stats r)" and s: "sound (pressure_loop stats rs n)" for n by simp_all
  show ?case
  proof (cases "stats r")
    case (Ok vals)
    then show ?thesis using s Cons.prems(2) by (auto intro!: sound_seq psi_resource_sound)
  qed (use np s in auto)
qed auto

interpretation pressure: safe_collector_contract pressure_Update "\<lambda>stats. \<forall>r. \<not> panics (stats r)"
  by (rule safe_contractI) (auto simp: pressure_Update_def intro!: pressure_loop_sound)

interpretation slabinfo: safe_collector_contract "\<lambda>(r, f). slabinfo_Update r f" "\<lambda>(r, f). \<not> panics r"
  by (rule safe_contractI)
    (auto simp: slabinfo_Update_def activeObjects_def slab_objects_def objectSizeBytes_def objectsPerSlab_def pagesPerSlab_def
      slab_metric_def intro!: sound_intros split: if_splits)

interpretation cgroups: safe_collector_contract cgroups_Update "\<lambda>r. \<not> panics r"
  by (rule safe_contractI) (auto simp: cgroups_Update_def cgroupsCgroups_def cgroupsEnabled_def intro!: sound_intros)

interpretation lnstat: safe_collector_contract lnstat_Update "\<lambda>env. \<not> panics (ln_NewFS env) \<and> \<not> panics (NetStat env)"
  by (rule safe_contractI) (auto simp: lnstat_Update_def lnstat_metrics_def intro!: sound_intros)

interpretation selinux: safe_collector_contract selinux_Update "\<lambda>env. True"
  by (rule safe_contractI)
    (auto simp: selinux_Update_def selinux_desc_def selinux_enabled_def selinux_configMode_def selinux_currentMode_def intro!: sound_intros)

interpretation kernel_hung: safe_collector_contract kernel_hung_Update "\<lambda>r. \<not> panics r \<and> r \<noteq> Ok None"
  by (rule safe_contractI) (auto simp: kernel_hung_Update_def kernelHungTasks_def intro!: sound_intros split: option.splits)

interpretation vuln: safe_collector_contract vuln_Update "\<lambda>env. \<not> panics (vu_NewFS env) \<and> \<not> panics (CPUVulnerabilities env)"
  by (rule safe_contractI) (auto simp: vuln_Update_def vulnerabilityDesc_def intro!: sound_intros)

interpretation uname: safe_collector_contract uname_Update "\<lambda>r. \<not> panics r"
  by (rule safe_contractI) (auto simp: uname_Update_def getUname_def unameDesc_def panics_bind_res intro!: sound_intros)


lemma zoneinfo_table_labels:
  "map_get createGaugeMetricDescriptions n = Some d \<Longrightarrow> length (desc_labels d) = 2"
  "map_get createCounterMetricDescriptions n = Some d \<Longrightarrow> length (desc_labels d) = 2"
proof -
  have "list_all (\<lambda>(n, d). length (desc_labels d) = 2) (createGaugeMetricDescriptions @ createCounterMetricDescriptions)"
    by (simp add: createGaugeMetricDescriptions_def createCounterMetricDescriptions_def zone_desc_def)
  then show "map_get createGaugeMetricDescriptions n = Some d \<Longrightarrow> length (desc_labels d) = 2"
    "map_get createCounterMetricDescriptions n = Some d \<Longrightarrow> length (desc_labels d) = 2"
    by (auto simp: list_all_iff dest!: map_of_SomeD)
qed

text \<open>
  The collector that was built at start has its gauge table extended by the protection fields seen so
  far. The invariant says that nothing else changes, and that a cached descriptor is the one that a
  fresh collector would make.
\<close>

definition zone_cache :: "zoneinfoCollector \<Rightarrow> bool" where
  "zone_cache c \<longleftrightarrow> counterMetricDescs c = createCounterMetricDescriptions \<and>
     (\<forall>n d. map_get (gaugeMetricDescs c) n = Some d \<longrightarrow>
        map_get createGaugeMetricDescriptions n = Some d \<or> (\<exists>i. n = protection_name i \<and> d = protection_desc i)) \<and>
     dom (map_get createGaugeMetricDescriptions) \<subseteq> dom (map_get (gaugeMetricDescs c))"

lemma protection_name_inj: "protection_name i = protection_name j \<longleftrightarrow> i = j"
  by (auto simp: protection_name_def Itoa_inj)

lemma protection_not_table:
  "map_get createGaugeMetricDescriptions (protection_name i) = None" "map_get createCounterMetricDescriptions (protection_name i) = None"
  by (simp_all add: createGaugeMetricDescriptions_def createCounterMetricDescriptions_def protection_name_def)

lemma zone_cacheD:
  "zone_cache c \<Longrightarrow> map_get (gaugeMetricDescs c) n = Some d \<Longrightarrow>
     map_get createGaugeMetricDescriptions n = Some d \<or> (\<exists>i. n = protection_name i \<and> d = protection_desc i)"
  unfolding zone_cache_def by blast

lemma zone_cache_table:
  assumes "zone_cache c" "\<And>i. n \<noteq> protection_name i"
  shows "map_get (gaugeMetricDescs c) n = map_get createGaugeMetricDescriptions n"
proof (cases "map_get (gaugeMetricDescs c) n")
  case None
  then have "n \<notin> dom (map_get createGaugeMetricDescriptions)" using assms(1) by (auto simp: zone_cache_def)
  with None show ?thesis by (simp add: domIff)
qed (use assms zone_cacheD in fastforce)

lemma zone_cache_protection:
  "zone_cache c \<Longrightarrow> map_get (gaugeMetricDescs c) (protection_name i) = Some d \<Longrightarrow> d = protection_desc i"
  using protection_not_table(1) [of i] zone_cacheD [of c "protection_name i" d] by (auto simp: protection_name_inj)

lemma zone_cache_put:
  "zone_cache c \<Longrightarrow> zone_cache (c\<lparr>gaugeMetricDescs := map_put (protection_name i) (protection_desc i) (gaugeMetricDescs c)\<rparr>)"
  by (auto simp: zone_cache_def)

lemma zone_cache_new: "NewZoneinfoCollector r = Ok c \<Longrightarrow> zone_cache c"
  by (auto simp: NewZoneinfoCollector_def zone_cache_def go_simps)

definition zone_known :: "zoneinfo \<Rightarrow> bool" where
  "zone_known z \<longleftrightarrow> list_all (\<lambda>(n, v). v \<noteq> None \<longrightarrow>
     map_get createGaugeMetricDescriptions n \<noteq> None \<or> map_get createCounterMetricDescriptions n \<noteq> None) (zi_fields z)"

lemma zone_field_cached:
  assumes "zone_cache c" "v = None \<or> map_get createGaugeMetricDescriptions n \<noteq> None \<or> map_get createCounterMetricDescriptions n \<noteq> None"
  shows "sound (zone_field c z (n, v)) \<and> snd (zone_field c z (n, v)) = Ok () \<and>
    (zone_cache c' \<longrightarrow> zone_field c' z (n, v) = zone_field c z (n, v))"
proof (cases v)
  case (Some x)
  have np: "n \<noteq> protection_name i" for i using assms(2) Some protection_not_table [of i] by auto
  show ?thesis
    using assms Some zone_cache_table [OF _ np] zoneinfo_table_labels
    by (cases "map_get createGaugeMetricDescriptions n")
      (auto simp: zone_field_def zone_cache_def intro!: sound_emit)
qed (auto simp: zone_field_def intro!: sound_emit)

lemma zone_fields_cached:
  assumes "zone_cache c" "zone_known z"
  shows "sound (foreach (zone_field c z) (zi_fields z))" "snd (foreach (zone_field c z) (zi_fields z)) = Ok ()"
    "zone_cache c' \<Longrightarrow> foreach (zone_field c' z) (zi_fields z) = foreach (zone_field c z) (zi_fields z)"
proof -
  have all: "list_all (\<lambda>x. sound (zone_field c z x) \<and> snd (zone_field c z x) = Ok () \<and> (zone_cache c' \<longrightarrow> zone_field c' z x = zone_field c z x)) (zi_fields z)" for c'
    using assms(2) unfolding zone_known_def
  proof (rule list.pred_mono_strong)
    fix x :: "string \<times> 64 word option"
    assume x: "case x of (n, v) \<Rightarrow> v \<noteq> None \<longrightarrow>
       map_get createGaugeMetricDescriptions n \<noteq> None \<or> map_get createCounterMetricDescriptions n \<noteq> None"
    obtain n v where nv: "x = (n, v)" by (cases x)
    show "sound (zone_field c z x) \<and> snd (zone_field c z x) = Ok () \<and> (zone_cache c' \<longrightarrow> zone_field c' z x = zone_field c z x)"
      unfolding nv by (rule zone_field_cached [OF assms(1)]) (use x nv in auto)
  qed
  show "sound (foreach (zone_field c z) (zi_fields z))" using all by (intro sound_foreach) (simp add: list_all_iff)
  show "snd (foreach (zone_field c z) (zi_fields z)) = Ok ()" using all by (simp add: snd_foreach_Ok_iff list_all_iff)
  have "list_all (\<lambda>x. f x = g x) xs \<Longrightarrow> foreach f xs = foreach g xs" for f g :: "string \<times> 64 word option \<Rightarrow> upd" and xs by (induction xs) simp_all
  then show "zone_cache c' \<Longrightarrow> foreach (zone_field c' z) (zi_fields z) = foreach (zone_field c z) (zi_fields z)"
    using all [of c'] by (simp add: list_all_iff)
qed

text \<open>What the protection loop sends does not depend on the cache.\<close>

fun zone_protection_spec :: "zoneinfo \<Rightarrow> (nat \<times> 64 word option) list \<Rightarrow> upd" where
  "zone_protection_spec z [] = emit []"
| "zone_protection_spec z ((i, None) # ps) = ([], Panic ''nil pointer dereference'')"
| "zone_protection_spec z ((i, Some v) # ps) =
     seq (emit [MustNewConstMetric (protection_desc i) GaugeValue (f64_of_int (sint v)) [zi_Node z, zi_Zone z]]) (zone_protection_spec z ps)"

lemma zone_protection_cached:
  "zone_cache c \<Longrightarrow> zone_cache (fst (zone_protection z ps c)) \<and> snd (zone_protection z ps c) = zone_protection_spec z ps"
proof (induction z ps arbitrary: c rule: zone_protection_spec.induct)
  case (2 z i ps)
  then show ?case using zone_cache_put [of c i] by (auto split: option.splits)
next
  case (3 z i v ps)
  then show ?case
    using "3.IH" zone_cache_put [of c i] zone_cache_protection [of c i]
    by (cases "map_get (gaugeMetricDescs c) (protection_name i)") (auto simp: case_prod_beta)
qed auto

lemma zone_protection_spec_sound:
  "list_all (\<lambda>(i, v). v \<noteq> None) ps \<Longrightarrow> sound (zone_protection_spec z ps) \<and> snd (zone_protection_spec z ps) = Ok ()"
  by (induction z ps rule: zone_protection_spec.induct) (auto simp: protection_desc_def zone_desc_def sound_def upd_ok_def)

lemma zone_loop_cached:
  "zone_cache c \<Longrightarrow> zone_cache c' \<Longrightarrow> list_all zone_known zs \<Longrightarrow>
     zone_cache (fst (zone_loop zs c)) \<and> snd (zone_loop zs c') = snd (zone_loop zs c)"
proof (induction zs arbitrary: c c')
  case (Cons z zs)
  have z: "zone_known z" "list_all zone_known zs" using Cons.prems by simp_all
  note f = zone_fields_cached [OF Cons.prems(1) z(1)]
  note p = zone_protection_cached [OF Cons.prems(1), of z "enumerate 0 (zi_Protection z)"]
    zone_protection_cached [OF Cons.prems(2), of z "enumerate 0 (zi_Protection z)"]
  show ?case
    using f(2) f(3) [OF Cons.prems(2)] p Cons.IH [OF conjunct1 [OF p(1)] conjunct1 [OF p(2)] z(2)]
    by (auto simp: case_prod_beta Let_def)
qed auto

lemma zone_loop_sound:
  "zone_cache c \<Longrightarrow> list_all (\<lambda>z. zone_known z \<and> None \<notin> set (zi_Protection z)) zs \<Longrightarrow> sound (snd (zone_loop zs c))"
proof (induction zs arbitrary: c)
  case (Cons z zs)
  have z: "zone_known z" "None \<notin> set (zi_Protection z)" "list_all (\<lambda>z. zone_known z \<and> None \<notin> set (zi_Protection z)) zs"
    using Cons.prems by simp_all
  note f = zone_fields_cached [OF Cons.prems(1) z(1)]
  note p = zone_protection_cached [OF Cons.prems(1), of z "enumerate 0 (zi_Protection z)"]
  have "list_all (\<lambda>(i, v). v \<noteq> None) (enumerate 0 (zi_Protection z))"
    using z(2) by (auto simp: list_all_length nth_enumerate_eq in_set_conv_nth)
  note s = zone_protection_spec_sound [OF this, of z]
  show ?case using f(1,2) p s Cons.IH [OF conjunct1 [OF p] z(3)] by (auto simp: case_prod_beta Let_def intro!: sound_seq)
qed auto

interpretation zoneinfo: safe_collector_contract "\<lambda>(r, c). snd (zoneinfo_Update r c)"
  "\<lambda>(r, c). zone_cache c \<and> \<not> panics r \<and> (\<forall>zs. r = Ok zs \<longrightarrow> list_all (\<lambda>z. zone_known z \<and> None \<notin> set (zi_Protection z)) zs)"
  by (rule safe_contractI) (auto simp: zoneinfo_Update_def zone_loop_sound split: res.splits)


interpretation zoneinfo_state: stateful_collector zoneinfo_Update
  "\<lambda>r. \<not> panics r \<and> (\<forall>zs. r = Ok zs \<longrightarrow> list_all (\<lambda>z. zone_known z \<and> None \<notin> set (zi_Protection z)) zs)" zone_cache
proof unfold_locales
  fix c r
  assume inv: "zone_cache c"
    and r: "\<not> panics r \<and> (\<forall>zs. r = Ok zs \<longrightarrow> list_all (\<lambda>z. zone_known z \<and> None \<notin> set (zi_Protection z)) zs)"
  show "zone_cache (fst (zoneinfo_Update r c))"
    using inv r zone_loop_cached [OF inv inv] by (cases r) (auto simp: zoneinfo_Update_def list_all_iff)
  show "sound (snd (zoneinfo_Update r c))"
    using zoneinfo.update_labels [of "(r, c)"] zoneinfo.update_no_panic [of "(r, c)"] inv r by (simp add: sound_def)
qed


section \<open>Properties\<close>

text \<open>
  The kernel prints a negative profit of page merging with a minus sign, which is not a number for the
  reader of unsigned numbers: the update fails right there, with the scan count as its only sample.
\<close>

theorem ksmd_negative_profit:
  assumes "rd (sysFilePath p (filepath_Join [''kernel/mm/ksm'', ''full_scans''])) = Ok (FormatUint n @ [nl])" "n < 2 ^ 64"
    and "rd (sysFilePath p (filepath_Join [''kernel/mm/ksm'', ''general_profit''])) = Ok (CHR ''-'' # FormatUint k @ [nl])"
  shows "\<exists>e. ksmd_Update p rd = ([MustNewConstMetric ksmdFullScansDesc CounterValue (f64_of_nat n) []], Err e)"
proof -
  have "ksmd_file p rd ''full_scans'' = emit [MustNewConstMetric ksmdFullScansDesc CounterValue (f64_of_nat n) []]"
    using readUintFromFile_printed [of n rd, OF assms(2,1)] by (simp add: ksmd_file_def ksmd_metric_def f64_of_nat_def del: filepath_Join.simps)
  moreover have "ksmd_file p rd ''general_profit'' = fail (ErrSyntax (CHR ''-'' # FormatUint k))"
    using readUintFromFile_negative [of rd, OF assms(3)] by (simp add: ksmd_file_def del: filepath_Join.simps)
  ultimately show ?thesis by (simp add: ksmd_Update_def ksmdFiles_def) (simp add: fail_def)
qed

theorem ksmd_negative_profit_witness:
  "\<exists>e. ksmd_Update \<lparr>procPath = ''/proc'', sysPath = ''/sys'', rootfsPath = ''/'', udevDataPath = ''/run''\<rparr>
     (\<lambda>f. if f = ''/sys/kernel/mm/ksm/full_scans'' then Ok (FormatUint 7 @ [nl]) else Ok (CHR ''-'' # FormatUint 4096 @ [nl])) =
   ([MustNewConstMetric ksmdFullScansDesc CounterValue (f64_of_nat 7) []], Err e)"
proof (rule ksmd_negative_profit)
  have f: "sysFilePath \<lparr>procPath = ''/proc'', sysPath = ''/sys'', rootfsPath = ''/'', udevDataPath = ''/run''\<rparr>
      (filepath_Join [''kernel/mm/ksm'', ''full_scans'']) = ''/sys/kernel/mm/ksm/full_scans''"
    "sysFilePath \<lparr>procPath = ''/proc'', sysPath = ''/sys'', rootfsPath = ''/'', udevDataPath = ''/run''\<rparr>
      (filepath_Join [''kernel/mm/ksm'', ''general_profit'']) = ''/sys/kernel/mm/ksm/general_profit''"
    by code_simp+
  show "(if sysFilePath \<lparr>procPath = ''/proc'', sysPath = ''/sys'', rootfsPath = ''/'', udevDataPath = ''/run''\<rparr>
      (filepath_Join [''kernel/mm/ksm'', ''full_scans'']) = ''/sys/kernel/mm/ksm/full_scans'' then Ok (FormatUint 7 @ [nl])
      else Ok (CHR ''-'' # FormatUint 4096 @ [nl])) = Ok (FormatUint 7 @ [nl])" unfolding f by simp
  show "(if sysFilePath \<lparr>procPath = ''/proc'', sysPath = ''/sys'', rootfsPath = ''/'', udevDataPath = ''/run''\<rparr>
      (filepath_Join [''kernel/mm/ksm'', ''general_profit'']) = ''/sys/kernel/mm/ksm/full_scans'' then Ok (FormatUint 7 @ [nl])
      else Ok (CHR ''-'' # FormatUint 4096 @ [nl])) = Ok (CHR ''-'' # FormatUint 4096 @ [nl])" unfolding f by simp
qed simp

text \<open>
  Resources that the kernel does not have are left out and the others are all exported: pressure information is
  complete for the resources found, and missing only when there is none at all.
\<close>

theorem pressure_found:
  assumes "\<And>r. r \<in> set psiResources \<Longrightarrow> (\<exists>e. stats r = Err e \<and> errors_Is e ErrNotExist) \<or>
      (\<exists>vals. stats r = Ok vals \<and> psi_Some vals \<noteq> None \<and> psi_Full vals \<noteq> None)"
  shows "let found = filter (\<lambda>r. \<exists>vals. stats r = Ok vals) psiResources in
    fst (pressure_Update stats) = concat (map (\<lambda>r. case stats r of Ok vals \<Rightarrow> fst (psi_resource r vals) | _ \<Rightarrow> []) found) \<and>
    snd (pressure_Update stats) = (if found = [] then Err ErrNoData else Ok ())"
proof -
  have "set rs \<subseteq> set psiResources \<Longrightarrow>
      (let found = filter (\<lambda>r. \<exists>vals. stats r = Ok vals) rs in
       fst (pressure_loop stats rs k) = concat (map (\<lambda>r. case stats r of Ok vals \<Rightarrow> fst (psi_resource r vals) | _ \<Rightarrow> []) found) \<and>
       snd (pressure_loop stats rs k) = (if found = [] \<and> k = 0 then Err ErrNoData else Ok ()))" for rs k
  proof (induction rs arbitrary: k)
    case (Cons r rs)
    then have IH: "let found = filter (\<lambda>r. \<exists>vals. stats r = Ok vals) rs in
       fst (pressure_loop stats rs j) = concat (map (\<lambda>r. case stats r of Ok vals \<Rightarrow> fst (psi_resource r vals) | _ \<Rightarrow> []) found) \<and>
       snd (pressure_loop stats rs j) = (if found = [] \<and> j = 0 then Err ErrNoData else Ok ())" for j
      by simp
    consider (missing) e where "stats r = Err e" "errors_Is e ErrNotExist"
      | (found) vals where "stats r = Ok vals" "psi_Some vals \<noteq> None" "psi_Full vals \<noteq> None"
      using assms [of r] Cons.prems by auto
    then show ?case
    proof cases
      case missing
      then show ?thesis using IH [of k] by simp
    next
      case found
      then have "snd (psi_resource r vals) = Ok ()" by (auto simp: psi_resource_def psi_metric_def)
      then show ?thesis using found IH [of "k + 1"] by (simp add: Let_def fst_seq_Ok)
    qed
  qed simp
  from this [of psiResources 0] show ?thesis by (simp add: pressure_Update_def)
qed

theorem pressure_found_witness:
  "snd (pressure_Update (\<lambda>r. if r = ''irq'' then Err ErrNotExist else Ok \<lparr>psi_Some = Some 0, psi_Full = Some 0\<rparr>)) = Ok () \<and>
   snd (pressure_Update (\<lambda>r. Err ErrNotExist)) = Err ErrNoData"
  using pressure_found [of "\<lambda>r. if r = ''irq'' then Err ErrNotExist else Ok \<lparr>psi_Some = Some 0, psi_Full = Some 0\<rparr>"]
    pressure_found [of "\<lambda>r. Err ErrNotExist"]
  by (simp add: psiResources_def Let_def)

text \<open>
  What a scrape of the memory zones sends does not depend on the descriptors that earlier scrapes left in the
  collector, and the collector keeps its invariant.
\<close>

theorem zoneinfo_cache_transparent:
  assumes "NewZoneinfoCollector (Ok ()) = Ok new" "zone_cache c" "\<And>zs. r = Ok zs \<Longrightarrow> list_all zone_known zs"
  shows "zone_cache (fst (zoneinfo_Update r c)) \<and> snd (zoneinfo_Update r c) = snd (zoneinfo_Update r new)"
  using zone_loop_cached [OF assms(2) zone_cache_new [OF assms(1)] assms(3)] assms(2)
  by (cases r) (simp_all add: zoneinfo_Update_def)

theorem zoneinfo_cache_transparent_witness:
  "snd (zoneinfo_Update (Ok [\<lparr>zi_Node = ''0'', zi_Zone = ''DMA'', zi_fields = [(''Node'', None), (''Min'', Some 5)], zi_Protection = [Some 0]\<rparr>])
      \<lparr>gaugeMetricDescs = map_put (protection_name 0) (protection_desc 0) createGaugeMetricDescriptions,
       counterMetricDescs = createCounterMetricDescriptions\<rparr>) =
   snd (zoneinfo_Update (Ok [\<lparr>zi_Node = ''0'', zi_Zone = ''DMA'', zi_fields = [(''Node'', None), (''Min'', Some 5)], zi_Protection = [Some 0]\<rparr>])
      \<lparr>gaugeMetricDescs = createGaugeMetricDescriptions, counterMetricDescs = createCounterMetricDescriptions\<rparr>)"
proof (rule conjunct2 [OF zoneinfo_cache_transparent])
  show new: "NewZoneinfoCollector (Ok ()) = Ok \<lparr>gaugeMetricDescs = createGaugeMetricDescriptions, counterMetricDescs = createCounterMetricDescriptions\<rparr>"
    by (simp add: NewZoneinfoCollector_def open_procfs_def)
  show "zone_cache \<lparr>gaugeMetricDescs = map_put (protection_name 0) (protection_desc 0) createGaugeMetricDescriptions,
       counterMetricDescs = createCounterMetricDescriptions\<rparr>"
    using zone_cache_put [OF zone_cache_new [OF new], of 0] by simp
qed (auto simp: zone_known_def createGaugeMetricDescriptions_def)

text \<open>Sizes of swap devices are exact as long as they do not exceed 2^53 bytes.\<close>

theorem swap_size_exact:
  assumes "s \<in> set swaps" "0 \<le> sint (sw_Size s)" "sint (sw_Size s) * 1024 \<le> 2 ^ 53"
  shows "MustNewConstMetric (swap_desc ''size_bytes'' ''Swap device size in bytes.'') GaugeValue
     (Fin (of_int (sint (sw_Size s) * 1024))) [sw_Device s, sw_Type s] \<in> set (fst (swap_Update \<lparr>swap_NewFS = Ok (), Swaps = Ok swaps\<rparr>))"
proof -
  let ?i = "sint (sw_Size s) * 1024"
  have "sw_Size s * 1024 = word_of_int ?i" by simp
  moreover have "sint (word_of_int ?i :: goint) = ?i" by (rule goint_fits) (use assms(2,3) in simp_all)
  ultimately have "f64_of_int (sint (sw_Size s * 1024)) = Fin (of_int ?i)"
    using f64_of_int_exact [of ?i] assms(2,3) by simp
  then show ?thesis using assms(1) by (force simp: swap_Update_def getSwapInfo_def swap_metrics_def Let_def)
qed

theorem swap_size_exact_witness:
  "MustNewConstMetric (swap_desc ''size_bytes'' ''Swap device size in bytes.'') GaugeValue (Fin 2048) [''/dev/sda2'', ''partition'']
     \<in> set (fst (swap_Update \<lparr>swap_NewFS = Ok (), Swaps = Ok [\<lparr>sw_Device = ''/dev/sda2'', sw_Type = ''partition'', sw_Priority = -1, sw_Size = 2, sw_Used = 0\<rparr>]\<rparr>))"
  using swap_size_exact [of "\<lparr>sw_Device = ''/dev/sda2'', sw_Type = ''partition'', sw_Priority = -1, sw_Size = 2, sw_Used = 0\<rparr>"] by simp

end
