(* ===== verification/Devices.thy ===== *)
theory Devices
  imports Helpers "HOL-Library.List_Lexorder" "HOL-Library.Char_ord"
begin

text \<open>
  Devices below \<^verbatim>\<open>/sys\<close>: \<^verbatim>\<open>edac_linux.go\<close>, \<^verbatim>\<open>watchdog.go\<close>, \<^verbatim>\<open>tapestats_linux.go\<close>, \<^verbatim>\<open>dmi.go\<close>,
  \<^verbatim>\<open>drm_linux.go\<close>, \<^verbatim>\<open>dmmultipath_linux.go\<close>, \<^verbatim>\<open>nvme_linux.go\<close> and \<^verbatim>\<open>nvmesubsystem_linux.go\<close>. The structures of the
  sysfs and blockdevice libraries are the environment.
\<close>

section \<open>edac\<close>

definition edacMemControllerRE :: regexp where
  "edacMemControllerRE = compiled ''.*devices/system/edac/mc/mc([0-9]*)''"
definition edacMemCsrowRE :: regexp where
  "edacMemCsrowRE = compiled ''.*devices/system/edac/mc/mc[0-9]*/csrow([0-9]*)''"
definition edacMemChannelRE :: regexp where
  "edacMemChannelRE = compiled ''ch([0-9]+)_ce_count''"

definition edac_desc :: "string \<Rightarrow> string \<Rightarrow> string list \<Rightarrow> desc" where
  "edac_desc name help ls = NewDesc (BuildFQName namespace ''edac'' name) help ls"

definition edacCeCount :: desc where
  "edacCeCount = edac_desc ''correctable_errors_total'' ''Total correctable memory errors.'' [''controller'']"
definition edacUeCount :: desc where
  "edacUeCount = edac_desc ''uncorrectable_errors_total'' ''Total uncorrectable memory errors.'' [''controller'']"
definition edacCsRowCECount :: desc where
  "edacCsRowCECount = edac_desc ''csrow_correctable_errors_total'' ''Total correctable memory errors for this csrow.'' [''controller'', ''csrow'']"
definition edacCsRowUECount :: desc where
  "edacCsRowUECount = edac_desc ''csrow_uncorrectable_errors_total'' ''Total uncorrectable memory errors for this csrow.'' [''controller'', ''csrow'']"
definition edacChannelCECount :: desc where
  "edacChannelCECount = edac_desc ''channel_correctable_errors_total'' ''Total correctable memory errors for this channel.''
     [''controller'', ''csrow'', ''channel'', ''dimm_label'']"
definition edacChannelUECount :: desc where
  "edacChannelUECount = edac_desc ''channel_uncorrectable_errors_total'' ''Total uncorrectable memory errors for this channel.''
     [''controller'', ''csrow'', ''channel'', ''dimm_label'']"

record edacEnv =
  ed_Glob :: "string \<Rightarrow> string list res"
  ed_readFile :: "string \<Rightarrow> string res"

definition edacDimmLabel :: "edacEnv \<Rightarrow> string \<Rightarrow> string \<Rightarrow> string" where
  "edacDimmLabel env csrow channel =
     (case ed_readFile env (filepath_Join [csrow, ''ch'' @ channel @ ''_dimm_label'']) of
        Ok labelBytes \<Rightarrow>
          ReplaceAll (ReplaceAll (ReplaceAll (TrimSpace labelBytes) ''#'' []) ''csrow'' ''_csrow'') ''channel'' ''_channel''
      | _ \<Rightarrow> ''unknown'')"

definition edac_counter :: "edacEnv \<Rightarrow> string \<Rightarrow> (error \<Rightarrow> error) \<Rightarrow> desc \<Rightarrow> string list \<Rightarrow> upd" where
  "edac_counter env path wrap d ls =
     with_res (map_err wrap (readUintFromFile (ed_readFile env) path)) (\<lambda>v.
       emit [MustNewConstMetric d CounterValue (f64_of_int v) ls])"

definition edac_channel :: "edacEnv \<Rightarrow> string \<Rightarrow> string \<Rightarrow> string \<Rightarrow> string \<Rightarrow> upd" where
  "edac_channel env cn csrow rn chFile =
     (case FindStringSubmatch edacMemChannelRE (filepath_Base chFile) of
        None \<Rightarrow> emit []
      | Some g \<Rightarrow>
          let ch = submatch g 1; label = edacDimmLabel env csrow ch in
          seq (edac_counter env chFile (Wrapf ''couldn't get ce_count for controller/csrow/channel %s/%s/%s: %w'' [cn, rn, ch])
                 edacChannelCECount [cn, rn, ch, label])
              (case readUintFromFile (ed_readFile env) (filepath_Join [csrow, ''ch'' @ ch @ ''_ue_count'']) of
                 Ok v \<Rightarrow> emit [MustNewConstMetric edacChannelUECount CounterValue (f64_of_int v) [cn, rn, ch, label]]
               | Err e \<Rightarrow> emit []
               | Panic p \<Rightarrow> ([], Panic p)))"

definition edac_csrow :: "edacEnv \<Rightarrow> string \<Rightarrow> string \<Rightarrow> upd" where
  "edac_csrow env cn csrow =
     (case FindStringSubmatch edacMemCsrowRE csrow of
        None \<Rightarrow> fail (Errorf ''csrow string didn't match regexp: %s'' [csrow])
      | Some g \<Rightarrow>
          let rn = submatch g 1 in
          seq (edac_counter env (filepath_Join [csrow, ''ce_count'']) (Wrapf ''couldn't get ce_count for controller/csrow %s/%s: %w'' [cn, rn])
                 edacCsRowCECount [cn, rn])
          (seq (edac_counter env (filepath_Join [csrow, ''ue_count'']) (Wrapf ''couldn't get ue_count for controller/csrow %s/%s: %w'' [cn, rn])
                 edacCsRowUECount [cn, rn])
          (with_res (ed_Glob env (csrow @ ''/ch*_ce_count'')) (foreach (edac_channel env cn csrow rn)))))"

definition edac_controller :: "edacEnv \<Rightarrow> string \<Rightarrow> upd" where
  "edac_controller env controller =
     (case FindStringSubmatch edacMemControllerRE controller of
        None \<Rightarrow> fail (Errorf ''controller string didn't match regexp: %s'' [controller])
      | Some g \<Rightarrow>
          let cn = submatch g 1 in
          seq (edac_counter env (filepath_Join [controller, ''ce_count'']) (Wrapf ''couldn't get ce_count for controller %s: %w'' [cn]) edacCeCount [cn])
          (seq (edac_counter env (filepath_Join [controller, ''ce_noinfo_count'']) (Wrapf ''couldn't get ce_noinfo_count for controller %s: %w'' [cn])
                 edacCsRowCECount [cn, ''unknown''])
          (seq (edac_counter env (filepath_Join [controller, ''ue_count'']) (Wrapf ''couldn't get ue_count for controller %s: %w'' [cn]) edacUeCount [cn])
          (seq (edac_counter env (filepath_Join [controller, ''ue_noinfo_count'']) (Wrapf ''couldn't get ue_noinfo_count for controller %s: %w'' [cn])
                 edacCsRowUECount [cn, ''unknown''])
          (with_res (ed_Glob env (controller @ ''/csrow[0-9]*'')) (foreach (edac_csrow env cn)))))))"

definition edac_Update :: "paths \<Rightarrow> edacEnv \<Rightarrow> upd" where
  "edac_Update p env = with_res (ed_Glob env (sysFilePath p ''devices/system/edac/mc/mc[0-9]*'')) (foreach (edac_controller env))"

section \<open>watchdog\<close>

definition watchdog_desc :: "string \<Rightarrow> desc" where
  "watchdog_desc name = NewDesc (BuildFQName namespace ''watchdog'' name)
     (''Value of /sys/class/watchdog/<watchdog>/'' @ TrimSuffix name ''_seconds'') [''name'']"

definition watchdogBootstatusDesc :: desc where "watchdogBootstatusDesc = watchdog_desc ''bootstatus''"
definition watchdogFwVersionDesc :: desc where "watchdogFwVersionDesc = watchdog_desc ''fw_version''"
definition watchdogNowayoutDesc :: desc where "watchdogNowayoutDesc = watchdog_desc ''nowayout''"
definition watchdogTimeleftDesc :: desc where "watchdogTimeleftDesc = watchdog_desc ''timeleft_seconds''"
definition watchdogTimeoutDesc :: desc where "watchdogTimeoutDesc = watchdog_desc ''timeout_seconds''"
definition watchdogPretimeoutDesc :: desc where "watchdogPretimeoutDesc = watchdog_desc ''pretimeout_seconds''"
definition watchdogAccessCs0Desc :: desc where "watchdogAccessCs0Desc = watchdog_desc ''access_cs0''"
definition watchdogInfoDesc :: desc where
  "watchdogInfoDesc = NewDesc (BuildFQName namespace ''watchdog'' ''info'') ''Info of /sys/class/watchdog/<watchdog>''
     [''name'', ''options'', ''identity'', ''state'', ''status'', ''pretimeout_governor'']"

record watchdogStats =
  wd_Name :: string
  wd_Bootstatus :: "64 word option"
  wd_FwVersion :: "64 word option"
  wd_Nowayout :: "64 word option"
  wd_Timeleft :: "64 word option"
  wd_Timeout :: "64 word option"
  wd_Pretimeout :: "64 word option"
  wd_AccessCs0 :: "64 word option"
  wd_Options :: "string option"
  wd_Identity :: "string option"
  wd_State :: "string option"
  wd_Status :: "string option"
  wd_PretimeoutGovernor :: "string option"

definition NewWatchdogCollector :: "unit res \<Rightarrow> unit res" where
  "NewWatchdogCollector sysfs_NewFS = map_err (Wrapf ''failed to open procfs: %w'' []) sysfs_NewFS"

definition toLabelValue :: "string option \<Rightarrow> string" where
  "toLabelValue ptr = (case ptr of None \<Rightarrow> [] | Some s \<Rightarrow> s)"

definition opt_gauge :: "desc \<Rightarrow> 64 word option \<Rightarrow> string \<Rightarrow> metric list" where
  "opt_gauge d v name = (case v of None \<Rightarrow> [] | Some x \<Rightarrow> [MustNewConstMetric d GaugeValue (f64_of_int (sint x)) [name]])"

definition watchdog_err :: "error \<Rightarrow> error" where
  "watchdog_err e = (if errors_Is e ErrNotExist \<or> errors_Is e ErrPermission \<or> errors_Is e (NewError ''invalid argument'') then ErrNoData else e)"

definition watchdog_metrics :: "watchdogStats \<Rightarrow> metric list" where
  "watchdog_metrics wd =
     (let n = wd_Name wd in
      opt_gauge watchdogBootstatusDesc (wd_Bootstatus wd) n @ opt_gauge watchdogFwVersionDesc (wd_FwVersion wd) n @
      opt_gauge watchdogNowayoutDesc (wd_Nowayout wd) n @ opt_gauge watchdogTimeleftDesc (wd_Timeleft wd) n @
      opt_gauge watchdogTimeoutDesc (wd_Timeout wd) n @ opt_gauge watchdogPretimeoutDesc (wd_Pretimeout wd) n @
      opt_gauge watchdogAccessCs0Desc (wd_AccessCs0 wd) n @
      [MustNewConstMetric watchdogInfoDesc GaugeValue (Fin 1)
         [n, toLabelValue (wd_Options wd), toLabelValue (wd_Identity wd), toLabelValue (wd_State wd), toLabelValue (wd_Status wd),
          toLabelValue (wd_PretimeoutGovernor wd)]])"

definition watchdog_Update :: "watchdogStats list res \<Rightarrow> upd" where
  "watchdog_Update WatchdogClass = with_res (map_err watchdog_err WatchdogClass) (\<lambda>wds. emit (concat (map watchdog_metrics wds)))"

section \<open>Tape devices\<close>

definition nano :: float64 where
  "nano = round64 (1 / 1000000000)"

definition tape_desc :: "string \<Rightarrow> string \<Rightarrow> desc" where
  "tape_desc name help = NewDesc (BuildFQName namespace ''tape'' name) help [''device'']"

definition tape_ioNow :: desc where
  "tape_ioNow = tape_desc ''io_now'' ''The number of I/Os currently outstanding to this device.''"
definition tape_ioTimeSeconds :: desc where
  "tape_ioTimeSeconds = tape_desc ''io_time_seconds_total'' ''The amount of time spent waiting for all I/O to complete (including read and write). This includes tape movement commands such as seeking between file or set marks and implicit tape movement such as when rewind on close tape devices are used.''"
definition tape_othersCompletedTotal :: desc where
  "tape_othersCompletedTotal = tape_desc ''io_others_total'' ''The number of I/Os issued to the tape drive other than read or write commands. The time taken to complete these commands uses the following calculation io_time_seconds_total-read_time_seconds_total-write_time_seconds_total''"
definition tape_readByteTotal :: desc where
  "tape_readByteTotal = tape_desc ''read_bytes_total'' ''The number of bytes read from the tape drive.''"
definition tape_readsCompletedTotal :: desc where
  "tape_readsCompletedTotal = tape_desc ''reads_completed_total'' ''The number of read requests issued to the tape drive.''"
definition tape_readTimeSeconds :: desc where
  "tape_readTimeSeconds = tape_desc ''read_time_seconds_total'' ''The amount of time spent waiting for read requests to complete.''"
definition tape_writtenByteTotal :: desc where
  "tape_writtenByteTotal = tape_desc ''written_bytes_total'' ''The number of bytes written to the tape drive.''"
definition tape_writesCompletedTotal :: desc where
  "tape_writesCompletedTotal = tape_desc ''writes_completed_total'' ''The number of write requests issued to the tape drive.''"
definition tape_writeTimeSeconds :: desc where
  "tape_writeTimeSeconds = tape_desc ''write_time_seconds_total'' ''The amount of time spent waiting for write requests to complete.''"
definition tape_residualTotal :: desc where
  "tape_residualTotal = tape_desc ''residual_total'' ''The number of times during a read or write we found the residual amount to be non-zero. This should mean that a program is issuing a read larger thean the block size on tape. For write not all data made it to tape.''"

record tapeStats =
  tp_Name :: string
  InFlight :: uint64
  IoNs :: uint64
  OtherCnt :: uint64
  ReadByteCnt :: uint64
  ReadCnt :: uint64
  ReadNs :: uint64
  ResidCnt :: uint64
  WriteByteCnt :: uint64
  WriteCnt :: uint64
  WriteNs :: uint64

definition NewTapestatsCollector :: "unit res \<Rightarrow> string \<Rightarrow> regexp res" where
  "NewTapestatsCollector sysfs_NewFS ignoredTapeDevices =
     bind_res (map_err (Wrapf ''failed to open sysfs: %w'' []) sysfs_NewFS) (\<lambda>_. MustCompile ignoredTapeDevices)"

definition tape_metrics :: "tapeStats \<Rightarrow> metric list" where
  "tape_metrics t =
     (let n = tp_Name t; c = (\<lambda>v :: uint64. f64_of_nat (unat v)) in
      [MustNewConstMetric tape_ioNow GaugeValue (c (InFlight t)) [n],
       MustNewConstMetric tape_ioTimeSeconds CounterValue (f64_mul (c (IoNs t)) nano) [n],
       MustNewConstMetric tape_othersCompletedTotal CounterValue (c (OtherCnt t)) [n],
       MustNewConstMetric tape_readByteTotal CounterValue (c (ReadByteCnt t)) [n],
       MustNewConstMetric tape_readsCompletedTotal CounterValue (c (ReadCnt t)) [n],
       MustNewConstMetric tape_readTimeSeconds CounterValue (f64_mul (c (ReadNs t)) nano) [n],
       MustNewConstMetric tape_residualTotal CounterValue (c (ResidCnt t)) [n],
       MustNewConstMetric tape_writtenByteTotal CounterValue (c (WriteByteCnt t)) [n],
       MustNewConstMetric tape_writesCompletedTotal CounterValue (c (WriteCnt t)) [n],
       MustNewConstMetric tape_writeTimeSeconds CounterValue (f64_mul (c (WriteNs t)) nano) [n]])"

definition tape_err :: "error \<Rightarrow> error" where
  "tape_err e = (if os_IsNotExist e then ErrNoData else Flatf ''error obtaining SCSITape class info: %s'' [] e)"

definition tape_Update :: "tapeStats list res \<Rightarrow> regexp \<Rightarrow> upd" where
  "tape_Update SCSITapeClass ignoredDevicesPattern =
     with_res (map_err tape_err SCSITapeClass) (\<lambda>tapes.
       emit (concat (map (\<lambda>t. if MatchString ignoredDevicesPattern (tp_Name t) then [] else tape_metrics t) tapes)))"

section \<open>DMI\<close>

text \<open>The fields of the library's structure are read by their Go names; a file that does not exist is a nil pointer.\<close>

definition dmi_table :: "(string, string) gomap" where
  "dmi_table =
     [(''bios_date'', ''BiosDate''), (''bios_release'', ''BiosRelease''), (''bios_vendor'', ''BiosVendor''), (''bios_version'', ''BiosVersion''),
      (''board_asset_tag'', ''BoardAssetTag''), (''board_name'', ''BoardName''), (''board_serial'', ''BoardSerial''), (''board_vendor'', ''BoardVendor''),
      (''board_version'', ''BoardVersion''), (''chassis_asset_tag'', ''ChassisAssetTag''), (''chassis_serial'', ''ChassisSerial''),
      (''chassis_vendor'', ''ChassisVendor''), (''chassis_version'', ''ChassisVersion''), (''product_family'', ''ProductFamily''),
      (''product_name'', ''ProductName''), (''product_serial'', ''ProductSerial''), (''product_sku'', ''ProductSKU''), (''product_uuid'', ''ProductUUID''),
      (''product_version'', ''ProductVersion''), (''system_vendor'', ''SystemVendor'')]"

record dmiCollector =
  dmi_infoDesc :: desc
  dmi_values :: "string list"

definition dmi_class :: "(string \<Rightarrow> string option) res \<Rightarrow> (string \<Rightarrow> string option) res" where
  "dmi_class DMIClass =
     (case DMIClass of
        Err e \<Rightarrow> if errors_Is e ErrNotExist then Ok (\<lambda>_. None)
                 else Err (Wrapf ''failed to read Desktop Management Interface (DMI) information: %w'' [] e)
      | r \<Rightarrow> r)"

definition dmi_labels :: "(string, string) gomap \<Rightarrow> (string \<Rightarrow> string option) \<Rightarrow> (string \<times> string) list" where
  "dmi_labels entries dmi =
     concat (map (\<lambda>(label, f). case dmi f of None \<Rightarrow> [] | Some v \<Rightarrow> [(label, ToValidUTF8 v rune_error)]) entries)"

definition NewDMICollector :: "((string, string) gomap \<Rightarrow> (string, string) gomap) \<Rightarrow> unit res \<Rightarrow> (string \<Rightarrow> string option) res \<Rightarrow> dmiCollector res" where
  "NewDMICollector ord sysfs_NewFS DMIClass =
     bind_res (map_err (Wrapf ''failed to open sysfs: %w'' []) sysfs_NewFS) (\<lambda>_.
     bind_res (dmi_class DMIClass) (\<lambda>dmi.
       let lvs = dmi_labels (ord dmi_table) dmi in
       Ok \<lparr>dmi_infoDesc = NewDesc (BuildFQName namespace ''dmi'' ''info'')
             ''A metric with a constant '1' value labeled by bios_date, bios_release, bios_vendor, bios_version, board_asset_tag, board_name, board_serial, board_vendor, board_version, chassis_asset_tag, chassis_serial, chassis_vendor, chassis_version, product_family, product_name, product_serial, product_sku, product_uuid, product_version, system_vendor if provided by DMI.''
             (map fst lvs),
           dmi_values = map snd lvs\<rparr>))"

definition dmi_Update :: "dmiCollector \<Rightarrow> upd" where
  "dmi_Update c =
     (if dmi_values c = [] then fail ErrNoData
      else emit [MustNewConstMetric (dmi_infoDesc c) GaugeValue (Fin 1) (dmi_values c)])"

section \<open>Graphics cards\<close>

definition drm_desc :: "string \<Rightarrow> string \<Rightarrow> desc" where
  "drm_desc name help = NewDesc (BuildFQName namespace ''drm'' name) help [''card'']"

definition drmCardInfo :: desc where
  "drmCardInfo = NewDesc (BuildFQName namespace ''drm'' ''card_info'') ''Card information''
     [''card'', ''memory_vendor'', ''power_performance_level'', ''unique_id'', ''chip'', ''vendor'']"
definition drmGPUBusyPercent :: desc where
  "drmGPUBusyPercent = drm_desc ''gpu_busy_percent'' ''How busy the GPU is as a percentage.''"
definition drmMemoryGTTSize :: desc where
  "drmMemoryGTTSize = drm_desc ''memory_gtt_size_bytes'' ''The size of the graphics translation table (GTT) block in bytes.''"
definition drmMemoryGTTUsed :: desc where
  "drmMemoryGTTUsed = drm_desc ''memory_gtt_used_bytes'' ''The used amount of the graphics translation table (GTT) block in bytes.''"
definition drmMemoryVisibleVRAMSize :: desc where
  "drmMemoryVisibleVRAMSize = drm_desc ''memory_vis_vram_size_bytes'' ''The size of visible VRAM in bytes.''"
definition drmMemoryVisibleVRAMUsed :: desc where
  "drmMemoryVisibleVRAMUsed = drm_desc ''memory_vis_vram_used_bytes'' ''The used amount of visible VRAM in bytes.''"
definition drmMemoryVRAMSize :: desc where
  "drmMemoryVRAMSize = drm_desc ''memory_vram_size_bytes'' ''The size of VRAM in bytes.''"
definition drmMemoryVRAMUsed :: desc where
  "drmMemoryVRAMUsed = drm_desc ''memory_vram_used_bytes'' ''The used amount of VRAM in bytes.''"

record amdgpuStats =
  gpu_Name :: string
  gpu_DevName :: string
  gpu_DevType :: string
  MemoryVRAMVendor :: string
  PowerDPMForcePerformanceLevel :: string
  UniqueID :: string
  GPUBusyPercent :: uint64
  MemoryGTTSize :: uint64
  MemoryGTTUsed :: uint64
  MemoryVRAMSize :: uint64
  MemoryVRAMUsed :: uint64
  MemoryVisibleVRAMSize :: uint64
  MemoryVisibleVRAMUsed :: uint64

definition NewDrmCollector :: "unit res \<Rightarrow> unit res" where
  "NewDrmCollector sysfs_NewFS = map_err (Wrapf ''failed to open sysfs: %w'' []) sysfs_NewFS"

definition drm_chipName :: "amdgpuStats \<Rightarrow> string" where
  "drm_chipName s =
     (let cleanDevName = cleanMetricName (gpu_DevName s); cleanDevType = cleanMetricName (gpu_DevType s)
      in if cleanDevType \<noteq> [] \<and> cleanDevName \<noteq> [] then cleanDevType @ ''_'' @ cleanDevName else cleanDevName)"

definition amd_metrics :: "amdgpuStats \<Rightarrow> metric list" where
  "amd_metrics s =
     (let n = gpu_Name s; g = (\<lambda>d (v :: uint64). MustNewConstMetric d GaugeValue (f64_of_nat (unat v)) [n]) in
      [MustNewConstMetric drmCardInfo GaugeValue (Fin 1)
         [n, MemoryVRAMVendor s, PowerDPMForcePerformanceLevel s, UniqueID s, drm_chipName s, ''amd''],
       g drmGPUBusyPercent (GPUBusyPercent s), g drmMemoryGTTSize (MemoryGTTSize s), g drmMemoryGTTUsed (MemoryGTTUsed s),
       g drmMemoryVRAMSize (MemoryVRAMSize s), g drmMemoryVRAMUsed (MemoryVRAMUsed s),
       g drmMemoryVisibleVRAMSize (MemoryVisibleVRAMSize s), g drmMemoryVisibleVRAMUsed (MemoryVisibleVRAMUsed s)])"

definition updateAMDCards :: "amdgpuStats list res \<Rightarrow> upd" where
  "updateAMDCards stats = with_res stats (\<lambda>ss. emit (concat (map amd_metrics ss)))"

definition drm_Update :: "amdgpuStats list res \<Rightarrow> upd" where
  "drm_Update stats = updateAMDCards stats"

section \<open>Device mapper multipath\<close>

definition isPathActive :: "string \<Rightarrow> bool" where
  "isPathActive state \<longleftrightarrow> state = ''running'' \<or> state = ''live''"

definition dmm_desc :: "string \<Rightarrow> string \<Rightarrow> desc" where
  "dmm_desc name help = NewDesc (BuildFQName namespace ''dmmultipath'' name) help [''device'', ''sysfs_name'']"

definition dmmultipathDeviceInfo :: desc where
  "dmmultipathDeviceInfo = NewDesc (BuildFQName namespace ''dmmultipath'' ''device_info'') ''Non-numeric information about a DM-multipath device.''
     [''device'', ''sysfs_name'', ''uuid'']"
definition dmmultipathDeviceActive :: desc where
  "dmmultipathDeviceActive = dmm_desc ''device_active'' ''Whether the multipath device-mapper device is active (1) or suspended (0).''"
definition dmmultipathDeviceSizeBytes :: desc where
  "dmmultipathDeviceSizeBytes = dmm_desc ''device_size_bytes'' ''Size of the multipath device in bytes, read from /sys/block/<dm>/size.''"
definition dmmultipathDevicePaths :: desc where
  "dmmultipathDevicePaths = dmm_desc ''device_paths'' ''Number of paths for a multipath device.''"
definition dmmultipathDevicePathsActive :: desc where
  "dmmultipathDevicePathsActive = dmm_desc ''device_paths_active'' ''Number of paths in active state (SCSI running or NVMe live) for a multipath device.''"
definition dmmultipathDevicePathsFailed :: desc where
  "dmmultipathDevicePathsFailed = dmm_desc ''device_paths_failed'' ''Number of paths not in active state for a multipath device.''"
definition dmmultipathPathState :: desc where
  "dmmultipathPathState = NewDesc (BuildFQName namespace ''dmmultipath'' ''path_state'')
     ''Reports the underlying device state for a multipath path, as read from /sys/block/<dev>/device/state.'' [''device'', ''path'', ''state'']"

record dmPath =
  dp_Device :: string
  dp_State :: string

record dmDevice =
  dm_Name :: string
  dm_SysfsName :: string
  dm_UUID :: string
  dm_Suspended :: bool
  dm_SizeBytes :: uint64
  dm_Paths :: "dmPath list"

definition NewDMMultipathCollector :: "unit res \<Rightarrow> unit res" where
  "NewDMMultipathCollector blockdevice_NewFS = map_err (Wrapf ''failed to open sysfs: %w'' []) blockdevice_NewFS"

definition dmm_err :: "error \<Rightarrow> error" where
  "dmm_err e = (if errors_Is e ErrNotExist \<or> errors_Is e ErrPermission then ErrNoData else Wrapf ''failed to scan DM-multipath devices: %w'' [] e)"

text \<open>The loop over the paths keeps two counts and sends one sample per path.\<close>

definition dmm_path :: "dmDevice \<Rightarrow> dmPath \<Rightarrow> float64 \<times> float64 \<times> metric list \<Rightarrow> float64 \<times> float64 \<times> metric list" where
  "dmm_path dev p = (\<lambda>(activePaths, failedPaths, ms).
     (if isPathActive (dp_State p) then f64_add activePaths (Fin 1) else activePaths,
      if isPathActive (dp_State p) then failedPaths else f64_add failedPaths (Fin 1),
      ms @ [MustNewConstMetric dmmultipathPathState GaugeValue (Fin 1) [dm_Name dev, dp_Device p, dp_State p]]))"

definition dmm_metrics :: "dmDevice \<Rightarrow> metric list" where
  "dmm_metrics dev =
     (let ls = [dm_Name dev, dm_SysfsName dev];
          (activePaths, failedPaths, ms) = fold (dmm_path dev) (dm_Paths dev) (Fin 0, Fin 0, [])
      in [MustNewConstMetric dmmultipathDeviceInfo GaugeValue (Fin 1) [dm_Name dev, dm_SysfsName dev, dm_UUID dev],
          MustNewConstMetric dmmultipathDeviceActive GaugeValue (if \<not> dm_Suspended dev then Fin 1 else Fin 0) ls,
          MustNewConstMetric dmmultipathDeviceSizeBytes GaugeValue (f64_of_nat (unat (dm_SizeBytes dev))) ls] @ ms @
         [MustNewConstMetric dmmultipathDevicePaths GaugeValue (f64_of_nat (length (dm_Paths dev))) ls,
          MustNewConstMetric dmmultipathDevicePathsActive GaugeValue activePaths ls,
          MustNewConstMetric dmmultipathDevicePathsFailed GaugeValue failedPaths ls])"

definition dmm_Update :: "dmDevice list res \<Rightarrow> upd" where
  "dmm_Update DMMultipathDevices = with_res (map_err dmm_err DMMultipathDevices) (\<lambda>devices. emit (concat (map dmm_metrics devices)))"

section \<open>NVMe devices\<close>

definition nvmeInfo :: desc where
  "nvmeInfo = NewDesc (BuildFQName namespace ''nvme'' ''info'') ''Non-numeric data from /sys/class/nvme/<device>, value is always 1.''
     [''device'', ''firmware_revision'', ''model'', ''serial'', ''state'', ''cntlid'']"
definition nvmeNamespaceInfo :: desc where
  "nvmeNamespaceInfo = NewDesc (BuildFQName namespace ''nvme'' ''namespace_info'') ''Information about NVMe namespaces. Value is always 1'' [''device'', ''nsid'', ''ana_state'']"
definition nvmeNamespaceCapacityBytes :: desc where
  "nvmeNamespaceCapacityBytes = NewDesc (BuildFQName namespace ''nvme'' ''namespace_capacity_bytes'')
     ''Capacity of the NVMe namespace in bytes. Computed as namespace_size * namespace_logical_block_size'' [''device'', ''nsid'']"
definition nvmeNamespaceSizeBytes :: desc where
  "nvmeNamespaceSizeBytes = NewDesc (BuildFQName namespace ''nvme'' ''namespace_size_bytes'')
     ''Size of the NVMe namespace in bytes. Available in /sys/class/nvme/<device>/<namespace>/size'' [''device'', ''nsid'']"
definition nvmeNamespaceUsedBytes :: desc where
  "nvmeNamespaceUsedBytes = NewDesc (BuildFQName namespace ''nvme'' ''namespace_used_bytes'')
     ''Used space of the NVMe namespace in bytes. Available in /sys/class/nvme/<device>/<namespace>/nuse'' [''device'', ''nsid'']"
definition nvmeNamespaceLogicalBlockSizeBytes :: desc where
  "nvmeNamespaceLogicalBlockSizeBytes = NewDesc (BuildFQName namespace ''nvme'' ''namespace_logical_block_size_bytes'')
     ''Logical block size of the NVMe namespace in bytes. Usually 4Kb. Available in /sys/class/nvme/<device>/<namespace>/queue/logical_block_size'' [''device'', ''nsid'']"

record nvmeNamespace =
  nn_ID :: string
  nn_ANAState :: string
  nn_CapacityBytes :: uint64
  nn_SizeBytes :: uint64
  nn_UsedBytes :: uint64
  nn_LogicalBlockSize :: uint64

record nvmeDevice =
  nv_Name :: string
  nv_FirmwareRevision :: string
  nv_Model :: string
  nv_Serial :: string
  nv_State :: string
  nv_ControllerID :: string
  nv_Namespaces :: "nvmeNamespace list"

definition NewNVMeCollector :: "unit res \<Rightarrow> unit res" where
  "NewNVMeCollector sysfs_NewFS = map_err (Wrapf ''failed to open sysfs: %w'' []) sysfs_NewFS"

definition nvme_err :: "error \<Rightarrow> error" where
  "nvme_err e = (if errors_Is e ErrNotExist then ErrNoData else Wrapf ''error obtaining NVMe class info: %w'' [] e)"

definition nvme_metrics :: "nvmeDevice \<Rightarrow> metric list" where
  "nvme_metrics d =
     [MustNewConstMetric nvmeInfo GaugeValue (Fin 1) [nv_Name d, nv_FirmwareRevision d, nv_Model d, nv_Serial d, nv_State d, nv_ControllerID d]] @
     concat (map (\<lambda>ns.
       let g = (\<lambda>dsc (v :: uint64). MustNewConstMetric dsc GaugeValue (f64_of_nat (unat v)) [nv_Name d, nn_ID ns]) in
       [MustNewConstMetric nvmeNamespaceInfo GaugeValue (Fin 1) [nv_Name d, nn_ID ns, nn_ANAState ns],
        g nvmeNamespaceCapacityBytes (nn_CapacityBytes ns), g nvmeNamespaceSizeBytes (nn_SizeBytes ns),
        g nvmeNamespaceUsedBytes (nn_UsedBytes ns), g nvmeNamespaceLogicalBlockSizeBytes (nn_LogicalBlockSize ns)]) (nv_Namespaces d))"

definition nvme_Update :: "nvmeDevice list res \<Rightarrow> upd" where
  "nvme_Update NVMeClass = with_res (map_err nvme_err NVMeClass) (\<lambda>devices. emit (concat (map nvme_metrics devices)))"

section \<open>NVMe subsystems\<close>

definition nvmeControllerStateMap :: "(string, string) gomap" where
  "nvmeControllerStateMap =
     [(''live'', ''live''), (''connecting'', ''connecting''), (''resetting'', ''resetting''), (''dead'', ''dead''), (''deleting'', ''deleting''),
      (''deleting (no IO)'', ''deleting''), (''new'', ''new'')]"

text \<open>The states are the keys of a set built from the table, sorted; \<open>ord\<close> is the order the keys are read in.\<close>

definition nvmeMetricStates :: "(string list \<Rightarrow> string list) \<Rightarrow> string list" where
  "nvmeMetricStates ord =
     (let seen = fold (\<lambda>(k, v) m. map_put v () m) nvmeControllerStateMap [(''unknown'', ())]
      in sort (ord (map fst seen)))"

definition normalizeControllerState :: "string \<Rightarrow> string" where
  "normalizeControllerState raw = (case map_get nvmeControllerStateMap raw of Some s \<Rightarrow> s | None \<Rightarrow> ''unknown'')"

definition nvmesubsystemInfo :: desc where
  "nvmesubsystemInfo = NewDesc (BuildFQName namespace ''nvmesubsystem'' ''info'') ''Non-numeric information about an NVMe subsystem.''
     [''subsystem'', ''nqn'', ''model'', ''serial'', ''iopolicy'']"
definition nvmesubsystemNamespaceInfo :: desc where
  "nvmesubsystemNamespaceInfo = NewDesc (BuildFQName namespace ''nvmesubsystem'' ''namespace_info'') ''Maps an NVMe namespace block device to its subsystem.''
     [''subsystem'', ''device'']"
definition nvmesubsystemPaths :: desc where
  "nvmesubsystemPaths = NewDesc (BuildFQName namespace ''nvmesubsystem'' ''paths'') ''Number of controller paths for an NVMe subsystem.'' [''subsystem'']"
definition nvmesubsystemPathsLive :: desc where
  "nvmesubsystemPathsLive = NewDesc (BuildFQName namespace ''nvmesubsystem'' ''paths_live'') ''Number of controller paths in live state for an NVMe subsystem.'' [''subsystem'']"
definition nvmesubsystemPathState :: desc where
  "nvmesubsystemPathState = NewDesc (BuildFQName namespace ''nvmesubsystem'' ''path_state'')
     ''Current NVMe controller path state (1 for the current state, 0 for all others).'' [''subsystem'', ''controller'', ''transport'', ''state'']"

record nvmeController =
  nc_Name :: string
  nc_State :: string
  nc_Transport :: string

record nvmeSubsystem =
  nsy_Name :: string
  nsy_NQN :: string
  nsy_Model :: string
  nsy_Serial :: string
  nsy_IOPolicy :: string
  nsy_Namespaces :: "string list"
  nsy_Controllers :: "nvmeController list"

definition NewNVMeSubsystemCollector :: "unit res \<Rightarrow> unit res" where
  "NewNVMeSubsystemCollector sysfs_NewFS = map_err (Wrapf ''failed to open sysfs: %w'' []) sysfs_NewFS"

definition nvmesub_err :: "error \<Rightarrow> error" where
  "nvmesub_err e = (if errors_Is e ErrNotExist \<or> errors_Is e ErrPermission then ErrNoData else Wrapf ''failed to scan NVMe subsystems: %w'' [] e)"

definition path_states :: "string list \<Rightarrow> string \<Rightarrow> nvmeController \<Rightarrow> metric list" where
  "path_states states subsys ctrl =
     map (\<lambda>s. MustNewConstMetric nvmesubsystemPathState GaugeValue (if s = normalizeControllerState (nc_State ctrl) then Fin 1 else Fin 0)
       [subsys, nc_Name ctrl, nc_Transport ctrl, s]) states"

definition nvmesub_metrics :: "string list \<Rightarrow> nvmeSubsystem \<Rightarrow> metric list" where
  "nvmesub_metrics states s =
     [MustNewConstMetric nvmesubsystemInfo GaugeValue (Fin 1) [nsy_Name s, nsy_NQN s, nsy_Model s, nsy_Serial s, nsy_IOPolicy s]] @
     map (\<lambda>ns. MustNewConstMetric nvmesubsystemNamespaceInfo GaugeValue (Fin 1) [nsy_Name s, ns]) (nsy_Namespaces s) @
     concat (map (path_states states (nsy_Name s)) (nsy_Controllers s)) @
     [MustNewConstMetric nvmesubsystemPaths GaugeValue (f64_of_nat (length (nsy_Controllers s))) [nsy_Name s],
      MustNewConstMetric nvmesubsystemPathsLive GaugeValue
        (fold (\<lambda>c live. if normalizeControllerState (nc_State c) = ''live'' then f64_add live (Fin 1) else live) (nsy_Controllers s) (Fin 0)) [nsy_Name s]]"

definition nvmesub_Update :: "(string list \<Rightarrow> string list) \<Rightarrow> nvmeSubsystem list res \<Rightarrow> upd" where
  "nvmesub_Update ord NVMeSubsystemClass =
     with_res (map_err nvmesub_err NVMeSubsystemClass) (\<lambda>ss. emit (concat (map (nvmesub_metrics (nvmeMetricStates ord)) ss)))"


section \<open>The contract\<close>

lemma edac_counter_sound:
  "(\<And>f. \<not> panics (ed_readFile env f)) \<Longrightarrow> length ls = length (desc_labels d) \<Longrightarrow> sound (edac_counter env path w d ls)"
  by (auto simp: edac_counter_def readUintFromFile_def panics_bind_res ParseUint_no_panic intro!: sound_intros)

lemmas edac_descs = edacCeCount_def edacUeCount_def edacCsRowCECount_def edacCsRowUECount_def edacChannelCECount_def edacChannelUECount_def edac_desc_def

definition edac_pre :: "edacEnv \<Rightarrow> bool" where
  "edac_pre env \<longleftrightarrow> (\<forall>f. \<not> panics (ed_readFile env f)) \<and> (\<forall>g. \<not> panics (ed_Glob env g))"

lemma edac_channel_sound: "edac_pre env \<Longrightarrow> sound (edac_channel env cn csrow rn f)"
proof (cases "FindStringSubmatch edacMemChannelRE (filepath_Base f)")
  case (Some g)
  assume pre: "edac_pre env"
  let ?r = "readUintFromFile (ed_readFile env) (filepath_Join [csrow, ''ch'' @ submatch g 1 @ ''_ue_count''])"
  have "\<not> panics ?r" using pre by (intro readUintFromFile_no_panic) (simp add: edac_pre_def)
  then have "sound (case ?r of Ok v \<Rightarrow> emit [MustNewConstMetric edacChannelUECount CounterValue (f64_of_int v) [cn, rn, submatch g 1, l]]
      | Err e \<Rightarrow> emit [] | Panic p \<Rightarrow> ([], Panic p))" for l
    by (cases ?r) (auto simp: edac_descs intro!: sound_emit)
  then show ?thesis using Some pre unfolding edac_channel_def Let_def
    by (simp del: filepath_Join.simps) (intro sound_seq edac_counter_sound; simp add: edac_pre_def edac_descs)
qed (auto simp: edac_channel_def)

lemma edac_csrow_sound: "edac_pre env \<Longrightarrow> sound (edac_csrow env cn csrow)"
  using edac_channel_sound
  by (auto simp: edac_csrow_def Let_def edac_pre_def edac_descs intro!: sound_intros edac_counter_sound split: option.splits)

lemma edac_controller_sound: "edac_pre env \<Longrightarrow> sound (edac_controller env c)"
  using edac_csrow_sound
  by (auto simp: edac_controller_def Let_def edac_pre_def edac_descs intro!: sound_intros edac_counter_sound split: option.splits)

interpretation edac: safe_collector_contract "\<lambda>(p, env). edac_Update p env" "\<lambda>(p :: paths, env). edac_pre env"
  by (rule safe_contractI) (auto simp: edac_Update_def edac_pre_def intro!: sound_intros edac_controller_sound)

lemma opt_gauge_ok: "m \<in> set (opt_gauge (watchdog_desc s) v n) \<Longrightarrow> labels_ok m"
  by (auto simp: opt_gauge_def watchdog_desc_def split: option.splits)

interpretation watchdog: safe_collector_contract watchdog_Update "\<lambda>r. \<not> panics r"
  by (rule safe_contractI)
    (auto simp: watchdog_Update_def watchdog_metrics_def Let_def watchdogInfoDesc_def watchdogBootstatusDesc_def watchdogFwVersionDesc_def
      watchdogNowayoutDesc_def watchdogTimeleftDesc_def watchdogTimeoutDesc_def watchdogPretimeoutDesc_def watchdogAccessCs0Desc_def
      intro!: sound_intros dest: opt_gauge_ok)

lemma tape_descs [simp]:
  "desc_labels tape_ioNow = [''device'']" "desc_labels tape_ioTimeSeconds = [''device'']" "desc_labels tape_othersCompletedTotal = [''device'']"
  "desc_labels tape_readByteTotal = [''device'']" "desc_labels tape_readsCompletedTotal = [''device'']" "desc_labels tape_readTimeSeconds = [''device'']"
  "desc_labels tape_residualTotal = [''device'']" "desc_labels tape_writtenByteTotal = [''device'']" "desc_labels tape_writesCompletedTotal = [''device'']"
  "desc_labels tape_writeTimeSeconds = [''device'']"
  by (simp_all add: tape_desc_def tape_ioNow_def tape_ioTimeSeconds_def tape_othersCompletedTotal_def tape_readByteTotal_def tape_readsCompletedTotal_def
      tape_readTimeSeconds_def tape_residualTotal_def tape_writtenByteTotal_def tape_writesCompletedTotal_def tape_writeTimeSeconds_def)

interpretation tapestats: safe_collector_contract "\<lambda>(r, re). tape_Update r re" "\<lambda>(r, re). \<not> panics r"
  by (rule safe_contractI) (auto simp: tape_Update_def tape_metrics_def Let_def intro!: sound_intros split: if_splits)

interpretation dmi: safe_collector_contract dmi_Update "\<lambda>c. length (dmi_values c) = length (desc_labels (dmi_infoDesc c))"
  by (rule safe_contractI) (auto simp: dmi_Update_def intro!: sound_intros)

lemma drm_labels [simp]:
  "desc_labels drmGPUBusyPercent = [''card'']" "desc_labels drmMemoryGTTSize = [''card'']" "desc_labels drmMemoryGTTUsed = [''card'']"
  "desc_labels drmMemoryVisibleVRAMSize = [''card'']" "desc_labels drmMemoryVisibleVRAMUsed = [''card'']" "desc_labels drmMemoryVRAMSize = [''card'']"
  "desc_labels drmMemoryVRAMUsed = [''card'']"
  by (simp_all add: drm_desc_def drmGPUBusyPercent_def drmMemoryGTTSize_def drmMemoryGTTUsed_def drmMemoryVisibleVRAMSize_def
      drmMemoryVisibleVRAMUsed_def drmMemoryVRAMSize_def drmMemoryVRAMUsed_def)

interpretation drm: safe_collector_contract drm_Update "\<lambda>r. \<not> panics r"
  by (rule safe_contractI) (auto simp: drm_Update_def updateAMDCards_def amd_metrics_def Let_def drmCardInfo_def intro!: sound_intros)

lemma dmm_paths:
  assumes "length ps \<le> 2 ^ 53"
  shows "fold (dmm_path dev) ps (Fin 0, Fin 0, []) =
    (Fin (of_nat (length (filter (\<lambda>p. isPathActive (dp_State p)) ps))), Fin (of_nat (length (filter (\<lambda>p. \<not> isPathActive (dp_State p)) ps))),
     map (\<lambda>p. MustNewConstMetric dmmultipathPathState GaugeValue (Fin 1) [dm_Name dev, dp_Device p, dp_State p]) ps)"
proof -
  have "a + length ps \<le> 2 ^ 53 \<Longrightarrow> f + length ps \<le> 2 ^ 53 \<Longrightarrow> fold (dmm_path dev) ps (Fin (of_nat a), Fin (of_nat f), ms) =
    (Fin (of_nat (a + length (filter (\<lambda>p. isPathActive (dp_State p)) ps))), Fin (of_nat (f + length (filter (\<lambda>p. \<not> isPathActive (dp_State p)) ps))),
     ms @ map (\<lambda>p. MustNewConstMetric dmmultipathPathState GaugeValue (Fin 1) [dm_Name dev, dp_Device p, dp_State p]) ps)" for a f ms
  proof (induction ps arbitrary: a f ms)
    case (Cons p ps)
    have "f64_add (Fin (of_nat a)) (Fin 1) = Fin (of_nat (Suc a))" "f64_add (Fin (of_nat f)) (Fin 1) = Fin (of_nat (Suc f))"
      using f64_add_nat [of a 1] f64_add_nat [of f 1] Cons.prems by simp_all
    then show ?case using Cons.IH [of "Suc a" f] Cons.IH [of a "Suc f"] Cons.prems
      by (simp add: dmm_path_def del: of_nat_Suc of_nat_add)
  qed simp
  from this [of 0 0 "[]"] assms show ?thesis by simp
qed

lemma dmm_fold_labels:
  "list_all labels_ok ms \<Longrightarrow> list_all labels_ok (snd (snd (fold (dmm_path dev) ps (a, f, ms))))"
  by (induction ps arbitrary: a f ms) (simp_all add: dmm_path_def dmmultipathPathState_def)

lemma dmm_metrics_ok: "list_all labels_ok (dmm_metrics dev)"
  using dmm_fold_labels [of "[]" dev "dm_Paths dev" "Fin 0" "Fin 0"]
  by (simp add: dmm_metrics_def Let_def case_prod_beta dmm_desc_def dmmultipathDeviceInfo_def dmmultipathDeviceActive_def
      dmmultipathDeviceSizeBytes_def dmmultipathDevicePaths_def dmmultipathDevicePathsActive_def dmmultipathDevicePathsFailed_def)

interpretation dmmultipath: safe_collector_contract dmm_Update "\<lambda>r. \<not> panics r"
  using dmm_metrics_ok by (intro safe_contractI) (auto simp: dmm_Update_def list_all_iff intro!: sound_intros)

interpretation nvme: safe_collector_contract nvme_Update "\<lambda>r. \<not> panics r"
  by (rule safe_contractI)
    (auto simp: nvme_Update_def nvme_metrics_def Let_def nvmeInfo_def nvmeNamespaceInfo_def nvmeNamespaceCapacityBytes_def
      nvmeNamespaceSizeBytes_def nvmeNamespaceUsedBytes_def nvmeNamespaceLogicalBlockSizeBytes_def intro!: sound_intros)

interpretation nvmesubsystem: safe_collector_contract "nvmesub_Update ord" "\<lambda>r. \<not> panics r" for ord
  by (rule safe_contractI)
    (auto simp: nvmesub_Update_def nvmesub_metrics_def path_states_def nvmesubsystemInfo_def nvmesubsystemNamespaceInfo_def
      nvmesubsystemPaths_def nvmesubsystemPathsLive_def nvmesubsystemPathState_def intro!: sound_intros)

section \<open>Properties\<close>

text \<open>
  The counts of a multipath device are exact: the paths are those the device has, the active ones are those
  running or live and the failed ones all others.
\<close>

theorem dmm_paths_add_up:
  assumes "length (dm_Paths dev) \<le> 2 ^ 53"
  shows "\<exists>pre active failed. dmm_metrics dev = pre @
      [MustNewConstMetric dmmultipathDevicePaths GaugeValue (Fin (of_nat (active + failed))) [dm_Name dev, dm_SysfsName dev],
       MustNewConstMetric dmmultipathDevicePathsActive GaugeValue (Fin (of_nat active)) [dm_Name dev, dm_SysfsName dev],
       MustNewConstMetric dmmultipathDevicePathsFailed GaugeValue (Fin (of_nat failed)) [dm_Name dev, dm_SysfsName dev]] \<and>
    active = length (filter (\<lambda>p. dp_State p \<in> {''running'', ''live''}) (dm_Paths dev)) \<and> active + failed = length (dm_Paths dev)"
proof -
  define a where "a = length (filter (\<lambda>p. isPathActive (dp_State p)) (dm_Paths dev))"
  define f where "f = length (filter (\<lambda>p. \<not> isPathActive (dp_State p)) (dm_Paths dev))"
  have s: "length (dm_Paths dev) = a + f" unfolding a_def f_def by (rule sum_length_filter_compl [symmetric])
  have l: "f64_of_nat (a + f) = Fin (of_nat (a + f))" using f64_of_nat_exact assms s by metis
  obtain pre where "dmm_metrics dev = pre @
      [MustNewConstMetric dmmultipathDevicePaths GaugeValue (f64_of_nat (a + f)) [dm_Name dev, dm_SysfsName dev],
       MustNewConstMetric dmmultipathDevicePathsActive GaugeValue (Fin (of_nat a)) [dm_Name dev, dm_SysfsName dev],
       MustNewConstMetric dmmultipathDevicePathsFailed GaugeValue (Fin (of_nat f)) [dm_Name dev, dm_SysfsName dev]]"
    using dmm_paths [OF assms, of dev] by (simp add: dmm_metrics_def Let_def s flip: a_def f_def append.append_Cons)
  moreover have "a = length (filter (\<lambda>p. dp_State p \<in> {''running'', ''live''}) (dm_Paths dev))" by (simp add: a_def isPathActive_def)
  ultimately show ?thesis using s l by metis
qed

text \<open>
  Whatever order the set of states is read in, a controller of a subsystem has one sample for each of the seven states,
  in alphabetical order, and exactly the one for its own state is set, \<^verbatim>\<open>unknown\<close> for a state the table does not know.
\<close>

lemma nvmeMetricStates_sorted:
  assumes "range_order ord"
  shows "nvmeMetricStates ord = [''connecting'', ''dead'', ''deleting'', ''live'', ''new'', ''resetting'', ''unknown'']"
proof -
  have "sort (ord xs) = sort xs" for xs :: "string list"
    using range_order_mset [OF assms, of xs] by (metis sorted_list_of_multiset_mset)
  then show ?thesis unfolding nvmeMetricStates_def Let_def by (simp only:) code_simp
qed

theorem nvmesub_onehot:
  assumes "range_order ord"
  shows "map (\<lambda>m. last (metric_labels m)) (path_states (nvmeMetricStates ord) subsys ctrl) =
      [''connecting'', ''dead'', ''deleting'', ''live'', ''new'', ''resetting'', ''unknown''] \<and>
    filter (\<lambda>m. m = MustNewConstMetric nvmesubsystemPathState GaugeValue (Fin 1) (metric_labels m)) (path_states (nvmeMetricStates ord) subsys ctrl) =
      [MustNewConstMetric nvmesubsystemPathState GaugeValue (Fin 1) [subsys, nc_Name ctrl, nc_Transport ctrl, normalizeControllerState (nc_State ctrl)]]"
proof -
  have "normalizeControllerState r \<in> {''connecting'', ''dead'', ''deleting'', ''live'', ''new'', ''resetting'', ''unknown''}" for r
    by (auto simp: normalizeControllerState_def nvmeControllerStateMap_def split: option.splits dest!: map_of_SomeD)
  from this [of "nc_State ctrl"] show ?thesis
    unfolding path_states_def nvmeMetricStates_sorted [OF assms] by (elim insertE) simp_all
qed

theorem nvmesub_onehot_witness:
  "filter (\<lambda>m. m = MustNewConstMetric nvmesubsystemPathState GaugeValue (Fin 1) (metric_labels m))
     (path_states (nvmeMetricStates rev) ''nvme-subsys0'' \<lparr>nc_Name = ''nvme0'', nc_State = ''deleting (no IO)'', nc_Transport = ''tcp''\<rparr>) =
   [MustNewConstMetric nvmesubsystemPathState GaugeValue (Fin 1) [''nvme-subsys0'', ''nvme0'', ''tcp'', ''deleting'']]"
  using nvmesub_onehot [OF range_order_rev, of "''nvme-subsys0''" "\<lparr>nc_Name = ''nvme0'', nc_State = ''deleting (no IO)'', nc_Transport = ''tcp''\<rparr>"]
  by (simp add: normalizeControllerState_def nvmeControllerStateMap_def)

theorem dmm_paths_add_up_witness:
  "\<exists>pre active failed. dmm_metrics \<lparr>dm_Name = ''mpatha'', dm_SysfsName = ''dm-0'', dm_UUID = [], dm_Suspended = False, dm_SizeBytes = 0,
       dm_Paths = [\<lparr>dp_Device = ''sda'', dp_State = ''running''\<rparr>, \<lparr>dp_Device = ''sdb'', dp_State = ''offline''\<rparr>]\<rparr> = pre @
      [MustNewConstMetric dmmultipathDevicePaths GaugeValue (Fin (of_nat (active + failed))) [''mpatha'', ''dm-0''],
       MustNewConstMetric dmmultipathDevicePathsActive GaugeValue (Fin (of_nat active)) [''mpatha'', ''dm-0''],
       MustNewConstMetric dmmultipathDevicePathsFailed GaugeValue (Fin (of_nat failed)) [''mpatha'', ''dm-0'']] \<and>
    active = 1 \<and> active + failed = 2"
  using dmm_paths_add_up [of "\<lparr>dm_Name = ''mpatha'', dm_SysfsName = ''dm-0'', dm_UUID = [], dm_Suspended = False, dm_SizeBytes = 0,
       dm_Paths = [\<lparr>dp_Device = ''sda'', dp_State = ''running''\<rparr>, \<lparr>dp_Device = ''sdb'', dp_State = ''offline''\<rparr>]\<rparr>"] by simp


end
