(* ===== verification/Fabric.thy ===== *)
theory Fabric
  imports GoNet
begin

text \<open>
  Network fabrics and interfaces: \<^verbatim>\<open>fibrechannel_linux.go\<close>, \<^verbatim>\<open>infiniband_linux.go\<close>, \<^verbatim>\<open>netclass_linux.go\<close>
  and \<^verbatim>\<open>netclass_rtnl_linux.go\<close>. The structures of the sysfs, netlink and ethtool libraries are the environment;
  the long lists of counters of a structure are read by their Go field names.
\<close>

unbundle bit_operations_syntax

section \<open>Fibre channel\<close>

definition maxUint64 :: uint64 where
  "maxUint64 = - 1"

definition fc_descriptions :: "(string, string) gomap" where
  "fc_descriptions =
     [(''dumped_frames_total'', ''Number of dumped frames''),
      (''loss_of_signal_total'', ''Number of times signal has been lost''),
      (''loss_of_sync_total'', ''Number of failures on either bit or transmission word boundaries''),
      (''rx_frames_total'', ''Number of frames received''),
      (''error_frames_total'', ''Number of errors in frames''),
      (''invalid_tx_words_total'', ''Number of invalid words transmitted by host port''),
      (''seconds_since_last_reset_total'', ''Number of seconds since last host port reset''),
      (''tx_words_total'', ''Number of words transmitted by host port''),
      (''invalid_crc_total'', ''Invalid Cyclic Redundancy Check count''),
      (''nos_total'', ''Number Not_Operational Primitive Sequence received by host port''),
      (''fcp_packet_aborts_total'', ''Number of aborted packets''),
      (''rx_words_total'', ''Number of words received by host port''),
      (''tx_frames_total'', ''Number of frames transmitted by host port''),
      (''link_failure_total'', ''Number of times the host port link has failed'')]"

definition fc_metricDescs :: "(string, desc) gomap" where
  "fc_metricDescs = map (\<lambda>(name, help). (name, NewDesc (BuildFQName namespace ''fibrechannel'' name) help [''fc_host''])) fc_descriptions"

text \<open>The fields of a host: its name, the other texts in the order of the label names, and the counters.\<close>

record fcHost =
  fc_Name :: "string option"
  fc_texts :: "string option list"
  fc_Counters :: "string \<Rightarrow> uint64 option"

definition NewFibreChannelCollector :: "unit res \<Rightarrow> (string, desc) gomap res" where
  "NewFibreChannelCollector sysfs_NewFS =
     bind_res (map_err (Wrapf ''failed to open sysfs: %w'' []) sysfs_NewFS) (\<lambda>_. Ok fc_metricDescs)"

definition fc_infoDesc :: desc where
  "fc_infoDesc = NewDesc (BuildFQName namespace ''fibrechannel'' ''info'') ''Non-numeric data from /sys/class/fc_host/<host>, value is always 1.''
     [''fc_host'', ''speed'', ''port_state'', ''port_type'', ''port_id'', ''port_name'', ''fabric_name'', ''symbolic_name'',
      ''supported_classes'', ''supported_speeds'', ''dev_loss_tmo'']"

definition fc_pushMetric :: "(string, desc) gomap \<Rightarrow> string \<Rightarrow> uint64 \<Rightarrow> string \<Rightarrow> valueType \<Rightarrow> upd" where
  "fc_pushMetric descs name v host vt =
     (case map_get descs name of
        None \<Rightarrow> ([], Panic ''nil pointer dereference'')
      | Some d \<Rightarrow> emit [MustNewConstMetric d vt (f64_of_nat (unat v)) [host]])"

definition fc_pushCounter :: "(string, desc) gomap \<Rightarrow> string \<Rightarrow> uint64 \<Rightarrow> string \<Rightarrow> upd" where
  "fc_pushCounter descs name v host = (if v \<noteq> maxUint64 then fc_pushMetric descs name v host CounterValue else emit [])"

definition fc_counters :: "(string, string) gomap" where
  "fc_counters =
     [(''dumped_frames_total'', ''DumpedFrames''),
      (''error_frames_total'', ''ErrorFrames''),
      (''invalid_crc_total'', ''InvalidCRCCount''),
      (''rx_frames_total'', ''RXFrames''),
      (''rx_words_total'', ''RXWords''),
      (''tx_frames_total'', ''TXFrames''),
      (''tx_words_total'', ''TXWords''),
      (''seconds_since_last_reset_total'', ''SecondsSinceLastReset''),
      (''invalid_tx_words_total'', ''InvalidTXWordCount''),
      (''link_failure_total'', ''LinkFailureCount''),
      (''loss_of_sync_total'', ''LossOfSyncCount''),
      (''loss_of_signal_total'', ''LossOfSignalCount''),
      (''nos_total'', ''NosCount''),
      (''fcp_packet_aborts_total'', ''FCPPacketAborts'')]"

text \<open>A counter that is missing is replaced by a new one, which is zero.\<close>

definition fc_host :: "(string, desc) gomap \<Rightarrow> fcHost \<Rightarrow> upd" where
  "fc_host descs host =
     seq (emit [MustNewConstMetric fc_infoDesc GaugeValue (Fin 1) (SafeDereference [] (fc_Name host # fc_texts host))])
       (case fc_Name host of
          None \<Rightarrow> ([], Panic ''nil pointer dereference'')
        | Some n \<Rightarrow> foreach (\<lambda>(name, f). fc_pushCounter descs name (case fc_Counters host f of Some v \<Rightarrow> v | None \<Rightarrow> 0) n) fc_counters)"

definition fc_err :: "error \<Rightarrow> error" where
  "fc_err e = (if os_IsNotExist e then ErrNoData else Flatf ''error obtaining FibreChannel class info: %s'' [] e)"

definition fibrechannel_Update :: "(string, desc) gomap \<Rightarrow> (string \<times> fcHost) list res \<Rightarrow> upd" where
  "fibrechannel_Update descs FibreChannelClass =
     with_res (map_err fc_err FibreChannelClass) (\<lambda>hosts. foreach (\<lambda>(k, host). fc_host descs host) hosts)"

section \<open>InfiniBand\<close>

record infinibandFlags =
  infinibandDeviceInclude :: string
  infinibandDeviceExclude :: string

definition ib_descriptions :: "(string, string) gomap" where
  "ib_descriptions =
     [(''legacy_multicast_packets_received_total'', ''Number of multicast packets received''),
      (''legacy_multicast_packets_transmitted_total'', ''Number of multicast packets transmitted''),
      (''legacy_data_received_bytes_total'', ''Number of data octets received on all links''),
      (''legacy_packets_received_total'', ''Number of data packets received on all links''),
      (''legacy_unicast_packets_received_total'', ''Number of unicast packets received''),
      (''legacy_unicast_packets_transmitted_total'', ''Number of unicast packets transmitted''),
      (''legacy_data_transmitted_bytes_total'', ''Number of data octets transmitted on all links''),
      (''legacy_packets_transmitted_total'', ''Number of data packets received on all links''),
      (''excessive_buffer_overrun_errors_total'', ''Number of times that OverrunErrors consecutive flow control update periods occurred, each having at least one overrun error.''),
      (''link_downed_total'', ''Number of times the link failed to recover from an error state and went down''),
      (''link_error_recovery_total'', ''Number of times the link successfully recovered from an error state''),
      (''local_link_integrity_errors_total'', ''Number of times that the count of local physical errors exceeded the threshold specified by LocalPhyErrors.''),
      (''multicast_packets_received_total'', ''Number of multicast packets received (including errors)''),
      (''multicast_packets_transmitted_total'', ''Number of multicast packets transmitted (including errors)''),
      (''physical_state_id'', ''Physical state of the InfiniBand port (0: no change, 1: sleep, 2: polling, 3: disable, 4: shift, 5: link up, 6: link error recover, 7: phytest)''),
      (''port_constraint_errors_received_total'', ''Number of packets received on the switch physical port that are discarded''),
      (''port_constraint_errors_transmitted_total'', ''Number of packets not transmitted from the switch physical port''),
      (''port_data_received_bytes_total'', ''Number of data octets received on all links''),
      (''port_data_transmitted_bytes_total'', ''Number of data octets transmitted on all links''),
      (''port_discards_received_total'', ''Number of inbound packets discarded by the port because the port is down or congested''),
      (''port_discards_transmitted_total'', ''Number of outbound packets discarded by the port because the port is down or congested''),
      (''port_errors_received_total'', ''Number of packets containing an error that were received on this port''),
      (''port_packets_received_total'', ''Number of packets received on all VLs by this port (including errors)''),
      (''port_packets_transmitted_total'', ''Number of packets transmitted on all VLs from this port (including errors)''),
      (''port_transmit_wait_total'', ''Number of ticks during which the port had data to transmit but no data was sent during the entire tick''),
      (''rate_bytes_per_second'', ''Maximum signal transfer rate''),
      (''state_id'', ''State of the InfiniBand port (0: no change, 1: down, 2: init, 3: armed, 4: active, 5: act defer)''),
      (''unicast_packets_received_total'', ''Number of unicast packets received (including errors)''),
      (''unicast_packets_transmitted_total'', ''Number of unicast packets transmitted (including errors)''),
      (''port_receive_remote_physical_errors_total'', ''Number of packets marked with the EBP (End of Bad Packet) delimiter received on the port.''),
      (''port_receive_switch_relay_errors_total'', ''Number of packets that could not be forwarded by the switch.''),
      (''symbol_error_total'', ''Number of minor link errors detected on one or more physical lanes.''),
      (''vl15_dropped_total'', ''Number of incoming VL15 packets dropped due to resource limitations.''),
      (''duplicate_requests_packets_total'', ''The number of received packets. A duplicate request is a request that had been previously executed.''),
      (''implied_nak_seq_errors_total'', ''The number of time the requested decided an ACK. with a PSN larger than the expected PSN for an RDMA read or response.''),
      (''lifespan_seconds'', ''The maximum period in ms which defines the aging of the counter reads. Two consecutive reads within this period might return the same values.''),
      (''local_ack_timeout_errors_total'', ''The number of times QP's ack timer expired for RC, XRC, DCT QPs at the sender side. The QP retry limit was not exceed, therefore it is still recoverable error.''),
      (''np_cnp_packets_sent_total'', ''The number of CNP packets sent by the Notification Point when it noticed congestion experienced in the RoCEv2 IP header (ECN bits). The counters was added in MLNX_OFED 4.1''),
      (''np_ecn_marked_roce_packets_received_total'', ''The number of RoCEv2 packets received by the notification point which were marked for experiencing the congestion (ECN bits where '11' on the ingress RoCE traffic) . The counters was added in MLNX_OFED 4.1''),
      (''out_of_buffer_drops_total'', ''The number of drops occurred due to lack of WQE for the associated QPs.''),
      (''out_of_sequence_packets_received_total'', ''The number of out of sequence packets received.''),
      (''packet_sequence_errors_total'', ''The number of received NAK sequence error packets. The QP retry limit was not exceeded.''),
      (''req_cqes_errors_total'', ''The number of times requester detected CQEs completed with errors. The counters was added in MLNX_OFED 4.1''),
      (''req_cqes_flush_errors_total'', ''The number of times requester detected CQEs completed with flushed errors. The counters was added in MLNX_OFED 4.1''),
      (''req_remote_access_errors_total'', ''The number of times requester detected remote access errors. The counters was added in MLNX_OFED 4.1''),
      (''req_remote_invalid_request_errors_total'', ''The number of times requester detected remote invalid request errors. The counters was added in MLNX_OFED 4.1''),
      (''resp_cqes_errors_total'', ''The number of times responder detected CQEs completed with errors. The counters was added in MLNX_OFED 4.1''),
      (''resp_cqes_flush_errors_total'', ''The number of times responder detected CQEs completed with flushed errors. The counters was added in MLNX_OFED 4.1''),
      (''resp_local_length_errors_total'', ''The number of times responder detected local length errors. The counters was added in MLNX_OFED 4.1''),
      (''resp_remote_access_errors_total'', ''The number of times responder detected remote access errors. The counters was added in MLNX_OFED 4.1''),
      (''rnr_nak_retry_packets_received_total'', ''The number of received RNR NAK packets. The QP retry limit was not exceeded.''),
      (''roce_adp_retransmits_total'', ''The number of adaptive retransmissions for RoCE traffic. The counter was added in MLNX_OFED rev 5.0-1.0.0.0 and kernel v5.6.0''),
      (''roce_adp_retransmits_timeout_total'', ''The number of times RoCE traffic reached timeout due to adaptive retransmission. The counter was added in MLNX_OFED rev 5.0-1.0.0.0 and kernel v5.6.0''),
      (''roce_slow_restart_used_total'', ''The number of times RoCE slow restart was used. The counter was added in MLNX_OFED rev 5.0-1.0.0.0 and kernel v5.6.0''),
      (''roce_slow_restart_cnps_total'', ''The number of times RoCE slow restart generated CNP packets. The counter was added in MLNX_OFED rev 5.0-1.0.0.0 and kernel v5.6.0''),
      (''roce_slow_restart_total'', ''The number of times RoCE slow restart changed state to slow restart. The counter was added in MLNX_OFED rev 5.0-1.0.0.0 and kernel v5.6.0''),
      (''rp_cnp_packets_handled_total'', ''The number of CNP packets handled by the Reaction Point HCA to throttle the transmission rate. The counters was added in MLNX_OFED 4.1''),
      (''rp_cnp_ignored_packets_received_total'', ''The number of CNP packets received and ignored by the Reaction Point HCA. This counter should not raise if RoCE Congestion Control was enabled in the network. If this counter raise, verify that ECN was enabled on the adapter.''),
      (''rx_atomic_requests_total'', ''The number of received ATOMIC request for the associated QPs.''),
      (''rx_dct_connect_requests_total'', ''The number of received connection requests for the associated DCTs.''),
      (''rx_read_requests_total'', ''The number of received READ requests for the associated QPs.''),
      (''rx_write_requests_total'', ''The number of received WRITE requests for the associated QPs.''),
      (''rx_icrc_encapsulated_errors_total'', ''The number of RoCE packets with ICRC errors. This counter was added in MLNX_OFED 4.4 and kernel 4.19'')]"

definition ib_metricDescs :: "(string, desc) gomap" where
  "ib_metricDescs = map (\<lambda>(name, help). (name, NewDesc (BuildFQName namespace ''infiniband'' name) help [''device'', ''port''])) ib_descriptions"

record infinibandCollector =
  ib_descs :: "(string, desc) gomap"
  ib_filter :: deviceFilter

definition NewInfiniBandCollector :: "unit res \<Rightarrow> infinibandFlags \<Rightarrow> infinibandCollector res" where
  "NewInfiniBandCollector sysfs_NewFS fl =
     bind_res (map_err (Wrapf ''failed to open sysfs: %w'' []) sysfs_NewFS) (\<lambda>_.
     bind_res (newDeviceFilter (infinibandDeviceExclude fl) (infinibandDeviceInclude fl)) (\<lambda>f.
       Ok \<lparr>ib_descs = ib_metricDescs, ib_filter = f\<rparr>))"

record ibPort =
  ip_Name :: string
  ip_Port :: goint
  ip_StateID :: goint
  ip_PhysStateID :: goint
  ip_Rate :: uint64
  ip_Lifespan :: "uint64 option"
  ip_counter :: "string \<Rightarrow> uint64 option"

record ibDevice =
  id_Name :: string
  id_BoardID :: string
  id_FirmwareVersion :: string
  id_HCAType :: string
  id_Ports :: "ibPort list"

definition ib_pushMetric :: "infinibandCollector \<Rightarrow> string \<Rightarrow> uint64 \<Rightarrow> string \<Rightarrow> string \<Rightarrow> valueType \<Rightarrow> upd" where
  "ib_pushMetric c name v deviceName port vt =
     (case map_get (ib_descs c) name of
        None \<Rightarrow> ([], Panic ''nil pointer dereference'')
      | Some d \<Rightarrow> emit [MustNewConstMetric d vt (f64_of_nat (unat v)) [deviceName, port]])"

definition ib_pushCounter :: "infinibandCollector \<Rightarrow> string \<Rightarrow> uint64 option \<Rightarrow> string \<Rightarrow> string \<Rightarrow> upd" where
  "ib_pushCounter c name v deviceName port =
     (case v of None \<Rightarrow> emit [] | Some x \<Rightarrow> ib_pushMetric c name x deviceName port CounterValue)"

definition ib_counters :: "(string, string) gomap" where
  "ib_counters =
     [(''legacy_multicast_packets_received_total'', ''Counters.LegacyPortMulticastRcvPackets''),
      (''legacy_multicast_packets_transmitted_total'', ''Counters.LegacyPortMulticastXmitPackets''),
      (''legacy_data_received_bytes_total'', ''Counters.LegacyPortRcvData64''),
      (''legacy_packets_received_total'', ''Counters.LegacyPortRcvPackets64''),
      (''legacy_unicast_packets_received_total'', ''Counters.LegacyPortUnicastRcvPackets''),
      (''legacy_unicast_packets_transmitted_total'', ''Counters.LegacyPortUnicastXmitPackets''),
      (''legacy_data_transmitted_bytes_total'', ''Counters.LegacyPortXmitData64''),
      (''legacy_packets_transmitted_total'', ''Counters.LegacyPortXmitPackets64''),
      (''excessive_buffer_overrun_errors_total'', ''Counters.ExcessiveBufferOverrunErrors''),
      (''link_downed_total'', ''Counters.LinkDowned''),
      (''link_error_recovery_total'', ''Counters.LinkErrorRecovery''),
      (''local_link_integrity_errors_total'', ''Counters.LocalLinkIntegrityErrors''),
      (''multicast_packets_received_total'', ''Counters.MulticastRcvPackets''),
      (''multicast_packets_transmitted_total'', ''Counters.MulticastXmitPackets''),
      (''port_constraint_errors_received_total'', ''Counters.PortRcvConstraintErrors''),
      (''port_constraint_errors_transmitted_total'', ''Counters.PortXmitConstraintErrors''),
      (''port_data_received_bytes_total'', ''Counters.PortRcvData''),
      (''port_data_transmitted_bytes_total'', ''Counters.PortXmitData''),
      (''port_discards_received_total'', ''Counters.PortRcvDiscards''),
      (''port_discards_transmitted_total'', ''Counters.PortXmitDiscards''),
      (''port_errors_received_total'', ''Counters.PortRcvErrors''),
      (''port_packets_received_total'', ''Counters.PortRcvPackets''),
      (''port_packets_transmitted_total'', ''Counters.PortXmitPackets''),
      (''port_transmit_wait_total'', ''Counters.PortXmitWait''),
      (''unicast_packets_received_total'', ''Counters.UnicastRcvPackets''),
      (''unicast_packets_transmitted_total'', ''Counters.UnicastXmitPackets''),
      (''port_receive_remote_physical_errors_total'', ''Counters.PortRcvRemotePhysicalErrors''),
      (''port_receive_switch_relay_errors_total'', ''Counters.PortRcvSwitchRelayErrors''),
      (''symbol_error_total'', ''Counters.SymbolError''),
      (''vl15_dropped_total'', ''Counters.VL15Dropped'')]"

definition ib_hwcounters :: "(string, string) gomap" where
  "ib_hwcounters =
     [(''duplicate_requests_packets_total'', ''HwCounters.DuplicateRequest''),
      (''implied_nak_seq_errors_total'', ''HwCounters.ImpliedNakSeqErr''),
      (''local_ack_timeout_errors_total'', ''HwCounters.LocalAckTimeoutErr''),
      (''np_cnp_packets_sent_total'', ''HwCounters.NpCnpSent''),
      (''np_ecn_marked_roce_packets_received_total'', ''HwCounters.NpEcnMarkedRocePackets''),
      (''out_of_buffer_drops_total'', ''HwCounters.OutOfBuffer''),
      (''out_of_sequence_packets_received_total'', ''HwCounters.OutOfSequence''),
      (''packet_sequence_errors_total'', ''HwCounters.PacketSeqErr''),
      (''req_cqes_errors_total'', ''HwCounters.ReqCqeError''),
      (''req_cqes_flush_errors_total'', ''HwCounters.ReqCqeFlushError''),
      (''req_remote_access_errors_total'', ''HwCounters.ReqRemoteAccessErrors''),
      (''req_remote_invalid_request_errors_total'', ''HwCounters.ReqRemoteInvalidRequest''),
      (''resp_cqes_errors_total'', ''HwCounters.RespCqeError''),
      (''resp_cqes_flush_errors_total'', ''HwCounters.RespCqeFlushError''),
      (''resp_local_length_errors_total'', ''HwCounters.RespLocalLengthError''),
      (''resp_remote_access_errors_total'', ''HwCounters.RespRemoteAccessErrors''),
      (''rnr_nak_retry_packets_received_total'', ''HwCounters.RnrNakRetryErr''),
      (''roce_adp_retransmits_total'', ''HwCounters.RoceAdpRetrans''),
      (''roce_adp_retransmits_timeout_total'', ''HwCounters.RoceAdpRetransTo''),
      (''roce_slow_restart_used_total'', ''HwCounters.RoceSlowRestart''),
      (''roce_slow_restart_cnps_total'', ''HwCounters.RoceSlowRestartCnps''),
      (''roce_slow_restart_total'', ''HwCounters.RoceSlowRestartTrans''),
      (''rp_cnp_packets_handled_total'', ''HwCounters.RpCnpHandled''),
      (''rp_cnp_ignored_packets_received_total'', ''HwCounters.RpCnpIgnored''),
      (''rx_atomic_requests_total'', ''HwCounters.RxAtomicRequests''),
      (''rx_dct_connect_requests_total'', ''HwCounters.RxDctConnect''),
      (''rx_read_requests_total'', ''HwCounters.RxReadRequests''),
      (''rx_write_requests_total'', ''HwCounters.RxWriteRequests''),
      (''rx_icrc_encapsulated_errors_total'', ''HwCounters.RxIcrcEncapsulated'')]"

text \<open>The division of the life span is one of unsigned integers.\<close>

definition ib_port :: "infinibandCollector \<Rightarrow> ibPort \<Rightarrow> upd" where
  "ib_port c port =
     (let n = ip_Name port; portStr = FormatUint (unat (ip_Port port)) in
      seq (ib_pushMetric c ''state_id'' (ip_StateID port) n portStr GaugeValue)
      (seq (ib_pushMetric c ''physical_state_id'' (ip_PhysStateID port) n portStr GaugeValue)
      (seq (ib_pushMetric c ''rate_bytes_per_second'' (ip_Rate port) n portStr GaugeValue)
      (seq (foreach (\<lambda>(name, f). ib_pushCounter c name (ip_counter port f) n portStr) ib_counters)
      (seq (case ip_Lifespan port of None \<Rightarrow> emit []
            | Some v \<Rightarrow> ib_pushMetric c ''lifespan_seconds'' (v div 1000) n portStr GaugeValue)
      (foreach (\<lambda>(name, f). ib_pushCounter c name (ip_counter port f) n portStr) ib_hwcounters))))))"

definition ib_infoDesc :: desc where
  "ib_infoDesc = NewDesc (BuildFQName namespace ''infiniband'' ''info'') ''Non-numeric data from /sys/class/infiniband/<device>, value is always 1.''
     [''device'', ''board_id'', ''firmware_version'', ''hca_type'']"

definition ib_device :: "infinibandCollector \<Rightarrow> ibDevice \<Rightarrow> upd" where
  "ib_device c d =
     (if ignored (ib_filter c) (id_Name d) then emit []
      else seq (emit [MustNewConstMetric ib_infoDesc GaugeValue (Fin 1) [id_Name d, id_BoardID d, id_FirmwareVersion d, id_HCAType d]])
             (foreach (ib_port c) (id_Ports d)))"

definition ib_err :: "error \<Rightarrow> error" where
  "ib_err e = (if errors_Is e ErrNotExist then ErrNoData else Wrapf ''error obtaining InfiniBand class info: %w'' [] e)"

definition infiniband_Update :: "infinibandCollector \<Rightarrow> ibDevice list res \<Rightarrow> upd" where
  "infiniband_Update c InfiniBandClass = with_res (map_err ib_err InfiniBandClass) (foreach (ib_device c))"

section \<open>The fields of a network interface\<close>

record netclassFlags =
  netclassIgnoredDevices :: string
  netclassInvalidSpeed :: bool
  netclassNetlink :: bool
  netclassRTNLWithStats :: bool

definition NewNetClassCollector :: "unit res \<Rightarrow> netclassFlags \<Rightarrow> (regexp \<times> (string, desc) gomap) res" where
  "NewNetClassCollector sysfs_NewFS fl =
     bind_res (map_err (Wrapf ''failed to open sysfs: %w'' []) sysfs_NewFS) (\<lambda>_.
     bind_res (MustCompile (netclassIgnoredDevices fl)) (\<lambda>pat. Ok (pat, [])))"

text \<open>Descriptors are made once and kept in the collector.\<close>

definition netclass_desc :: "string \<Rightarrow> desc" where
  "netclass_desc name = NewDesc (BuildFQName namespace ''network'' name) (''Network device property: '' @ name) [''device'']"

definition getFieldDesc :: "(string, desc) gomap \<Rightarrow> string \<Rightarrow> desc \<times> (string, desc) gomap" where
  "getFieldDesc metricDescs name =
     (case map_get metricDescs name of
        Some d \<Rightarrow> (d, metricDescs)
      | None \<Rightarrow> (netclass_desc name, map_put name (netclass_desc name) metricDescs))"

text \<open>A run of calls \<^verbatim>\<open>pushMetric(ch, c.getFieldDesc(name), value, type, device)\<close>.\<close>

fun push_fields :: "string \<Rightarrow> (string \<times> anyval \<times> valueType) list \<Rightarrow> (string, desc) gomap \<Rightarrow> metric list \<times> (string, desc) gomap" where
  "push_fields dev [] c = ([], c)"
| "push_fields dev ((name, v, vt) # fs) c =
     (let (d, c1) = getFieldDesc c name; (ms, c2) = push_fields dev fs c1
      in (pushMetric d v vt [dev] @ ms, c2))"

section \<open>netclass from sysfs\<close>

record netClassIface =
  if_Name :: string
  if_Address :: string
  if_Broadcast :: string
  if_Duplex :: string
  if_OperState :: string
  if_IfAlias :: string
  if_AddrAssignType :: "64 word option"
  if_Carrier :: "64 word option"
  if_CarrierChanges :: "64 word option"
  if_CarrierUpCount :: "64 word option"
  if_CarrierDownCount :: "64 word option"
  if_DevID :: "64 word option"
  if_Dormant :: "64 word option"
  if_Flags :: "64 word option"
  if_IfIndex :: "64 word option"
  if_IfLink :: "64 word option"
  if_LinkMode :: "64 word option"
  if_MTU :: "64 word option"
  if_NameAssignType :: "64 word option"
  if_NetDevGroup :: "64 word option"
  if_Speed :: "64 word option"
  if_TxQueueLen :: "64 word option"
  if_Type :: "64 word option"

record netclassEnv =
  nc_NetClassDevices :: "string list res"
  NetClassByIface :: "string \<Rightarrow> netClassIface res"

definition getNetClassInfo :: "netclassEnv \<Rightarrow> regexp \<Rightarrow> (string, netClassIface) gomap res" where
  "getNetClassInfo env pat =
     bind_res (nc_NetClassDevices env) (\<lambda>devices.
       fold_res (\<lambda>device netClass.
         if MatchString pat device then Ok netClass
         else bind_res (NetClassByIface env device) (\<lambda>i. Ok (map_put device i netClass))) devices [])"

text \<open>\<^verbatim>\<open>net.FlagUp\<close> is the first bit.\<close>

definition getAdminState :: "64 word option \<Rightarrow> string" where
  "getAdminState flags = (case flags of None \<Rightarrow> ''unknown'' | Some f \<Rightarrow> if f AND 1 = 1 then ''up'' else ''down'')"

definition netclass_upDesc :: desc where
  "netclass_upDesc = NewDesc (BuildFQName namespace ''network'' ''up'') ''Value is 1 if operstate is 'up', 0 otherwise.'' [''device'']"

definition netclass_infoDesc :: desc where
  "netclass_infoDesc = NewDesc (BuildFQName namespace ''network'' ''info'') ''Non-numeric data from /sys/class/net/<iface>, value is always 1.''
     [''device'', ''address'', ''broadcast'', ''duplex'', ''operstate'', ''adminstate'', ''ifalias'']"

definition iface_speed :: "bool \<Rightarrow> 64 word option \<Rightarrow> (string \<times> anyval \<times> valueType) list" where
  "iface_speed invalidSpeed speed =
     (case speed of
        None \<Rightarrow> []
      | Some s \<Rightarrow> if 0 \<le> sint s \<or> \<not> invalidSpeed
                  then [(''speed_bytes'', AnyI64 (word_of_int (go_div (sint (s * 1000 * 1000)) 8)), GaugeValue)] else [])"

definition iface_fields :: "bool \<Rightarrow> netClassIface \<Rightarrow> (string \<times> anyval \<times> valueType) list" where
  "iface_fields invalidSpeed i =
     [(''address_assign_type'', PtrI64 (if_AddrAssignType i), GaugeValue), (''carrier'', PtrI64 (if_Carrier i), GaugeValue),
      (''carrier_changes_total'', PtrI64 (if_CarrierChanges i), CounterValue), (''carrier_up_changes_total'', PtrI64 (if_CarrierUpCount i), CounterValue),
      (''carrier_down_changes_total'', PtrI64 (if_CarrierDownCount i), CounterValue), (''device_id'', PtrI64 (if_DevID i), GaugeValue),
      (''dormant'', PtrI64 (if_Dormant i), GaugeValue), (''flags'', PtrI64 (if_Flags i), GaugeValue), (''iface_id'', PtrI64 (if_IfIndex i), GaugeValue),
      (''iface_link'', PtrI64 (if_IfLink i), GaugeValue), (''iface_link_mode'', PtrI64 (if_LinkMode i), GaugeValue), (''mtu_bytes'', PtrI64 (if_MTU i), GaugeValue),
      (''name_assign_type'', PtrI64 (if_NameAssignType i), GaugeValue), (''net_dev_group'', PtrI64 (if_NetDevGroup i), GaugeValue)] @
     iface_speed invalidSpeed (if_Speed i) @
     [(''transmit_queue_length'', PtrI64 (if_TxQueueLen i), GaugeValue), (''protocol_type'', PtrI64 (if_Type i), GaugeValue)]"

definition iface_head :: "netClassIface \<Rightarrow> metric list" where
  "iface_head i =
     [MustNewConstMetric netclass_upDesc GaugeValue (if if_OperState i = ''up'' then Fin 1 else Fin 0) [if_Name i],
      MustNewConstMetric netclass_infoDesc GaugeValue (Fin 1)
        [if_Name i, if_Address i, if_Broadcast i, if_Duplex i, if_OperState i, getAdminState (if_Flags i), if_IfAlias i]]"

fun iface_loop :: "bool \<Rightarrow> netClassIface list \<Rightarrow> (string, desc) gomap \<Rightarrow> (string, desc) gomap \<times> metric list" where
  "iface_loop invalidSpeed [] c = (c, [])"
| "iface_loop invalidSpeed (i # is) c =
     (let (ms, c1) = push_fields (if_Name i) (iface_fields invalidSpeed i) c; (c2, rest) = iface_loop invalidSpeed is c1
      in (c2, iface_head i @ ms @ rest))"

definition netclass_err :: "error \<Rightarrow> error" where
  "netclass_err e = (if errors_Is e ErrNotExist \<or> errors_Is e ErrPermission then ErrNoData else Wrapf ''could not get net class info: %w'' [] e)"

definition netClassSysfsUpdate :: "((string \<times> netClassIface) list \<Rightarrow> (string \<times> netClassIface) list) \<Rightarrow> netclassEnv \<Rightarrow> netclassFlags \<Rightarrow> regexp \<Rightarrow>
    (string, desc) gomap \<Rightarrow> (string, desc) gomap \<times> upd" where
  "netClassSysfsUpdate ord env fl pat c =
     (case map_err netclass_err (getNetClassInfo env pat) of
        Ok netClass \<Rightarrow> (let (c', ms) = iface_loop (netclassInvalidSpeed fl) (map snd (ord netClass)) c in (c', emit ms))
      | Err e \<Rightarrow> (c, fail e)
      | Panic p \<Rightarrow> (c, ([], Panic p)))"

section \<open>netclass from netlink\<close>

definition operstateStr :: "string list" where
  "operstateStr = [''unknown'', ''notpresent'', ''down'', ''lowerlayerdown'', ''testing'', ''dormant'', ''up'']"

record linkMode =
  lm_Interface :: string
  lm_SpeedMegabits :: goint
  lm_Duplex :: string

text \<open>\<^verbatim>\<open>Stats64\<close> is a pointer; its fields are read by their Go names.\<close>

record linkAttributes =
  la_Name :: string
  la_Address :: "nat list"
  la_Broadcast :: "nat list"
  la_OperationalState :: uint8
  la_Alias :: "string option"
  la_AltNames :: "string list"
  la_Carrier :: "uint8 option"
  la_CarrierChanges :: "uint32 option"
  la_CarrierUpCount :: "uint32 option"
  la_CarrierDownCount :: "uint32 option"
  la_LinkMode :: "uint8 option"
  la_Type :: uint32
  la_MTU :: uint32
  la_NetDevGroup :: "uint32 option"
  la_TxQueueLen :: uint32
  la_Stats64 :: "(string \<Rightarrow> uint64) option"

record linkMessage =
  lk_Attributes :: "linkAttributes option"
  lk_Flags :: uint32
  lk_msgIndex :: uint32
  lk_Type :: uint16

record rtnlEnv =
  rn_Dial :: "unit res"
  rn_LinkList :: "linkMessage list res"
  ethtool_New :: "unit res"
  ethtool_LinkModes :: "linkMode list res"
  ParseNetClassAttribute :: "string \<Rightarrow> string \<Rightarrow> netClassIface \<Rightarrow> netClassIface res"

definition emptyIface :: netClassIface where
  "emptyIface = \<lparr>if_Name = [], if_Address = [], if_Broadcast = [], if_Duplex = [], if_OperState = [], if_IfAlias = [], if_AddrAssignType = None,
     if_Carrier = None, if_CarrierChanges = None, if_CarrierUpCount = None, if_CarrierDownCount = None, if_DevID = None, if_Dormant = None,
     if_Flags = None, if_IfIndex = None, if_IfLink = None, if_LinkMode = None, if_MTU = None, if_NameAssignType = None, if_NetDevGroup = None,
     if_Speed = None, if_TxQueueLen = None, if_Type = None\<rparr>"

definition getNetClassInfoRTNL :: "rtnlEnv \<Rightarrow> linkMessage list res" where
  "getNetClassInfoRTNL env = bind_res (rn_Dial env) (\<lambda>_. rn_LinkList env)"

definition getLinkModes :: "rtnlEnv \<Rightarrow> linkMode list res" where
  "getLinkModes env = bind_res (ethtool_New env) (\<lambda>_. ethtool_LinkModes env)"

definition getSysfsAttributes :: "rtnlEnv \<Rightarrow> linkAttributes list \<Rightarrow> (string, netClassIface) gomap res" where
  "getSysfsAttributes env links =
     fold_res (\<lambda>a netClass.
       let devPath = filepath_Join [''/sys'', ''class'', ''net'', la_Name a] in
       bind_res (fold_res (ParseNetClassAttribute env devPath) [''addr_assign_type'', ''dev_id'', ''name_assign_type''] emptyIface) (\<lambda>i.
         Ok (map_put (la_Name a) i netClass))) links []"

definition relevantLinks :: "regexp \<Rightarrow> linkMessage list \<Rightarrow> (linkMessage \<times> linkAttributes) list res" where
  "relevantLinks pat msgs =
     fold_res (\<lambda>msg acc.
       case lk_Attributes msg of
         None \<Rightarrow> Panic ''nil pointer dereference''
       | Some a \<Rightarrow> Ok (if MatchString pat (la_Name a) then acc else acc @ [(msg, a)])) msgs []"

definition rtnl_speed :: "linkMode \<Rightarrow> (string \<times> anyval \<times> valueType) list" where
  "rtnl_speed lm =
     (if 0 \<le> sint (lm_SpeedMegabits lm)
      then [(''speed_bytes'', AnyU64 (word_of_int (go_div (sint (lm_SpeedMegabits lm * 1000 * 1000)) 8)), GaugeValue)] else [])"

fun rtnl_modes :: "regexp \<Rightarrow> linkMode list \<Rightarrow> (string, linkMode) gomap \<Rightarrow> (string, desc) gomap \<Rightarrow>
    (string, linkMode) gomap \<times> (string, desc) gomap \<times> metric list" where
  "rtnl_modes pat [] modes c = (modes, c, [])"
| "rtnl_modes pat (lm # lms) modes c =
     (if MatchString pat (lm_Interface lm) then rtnl_modes pat lms modes c
      else let (ms, c1) = push_fields (lm_Interface lm) (rtnl_speed lm) c;
               (modes', c2, rest) = rtnl_modes pat lms (map_put (lm_Interface lm) lm modes) c1
           in (modes', c2, ms @ rest))"

definition rtnl_infoDesc :: desc where
  "rtnl_infoDesc = NewDesc (BuildFQName namespace ''network'' ''info'') ''Non-numeric data of <iface>, value is always 1.''
     [''device'', ''address'', ''broadcast'', ''duplex'', ''operstate'', ''ifalias'']"

definition rtnl_altnameDesc :: desc where
  "rtnl_altnameDesc = NewDesc (BuildFQName namespace ''network'' ''altnames_info'') ''Non-numeric data of <iface> altname, value is always 1.''
     [''altname'', ''device'']"

definition rtnl_stats :: "(string, string) gomap" where
  "rtnl_stats =
     [(''receive_packets_total'', ''RXPackets''),
      (''transmit_packets_total'', ''TXPackets''),
      (''receive_bytes_total'', ''RXBytes''),
      (''transmit_bytes_total'', ''TXBytes''),
      (''receive_errors_total'', ''RXErrors''),
      (''transmit_errors_total'', ''TXErrors''),
      (''receive_dropped_total'', ''RXDropped''),
      (''transmit_dropped_total'', ''TXDropped''),
      (''multicast_total'', ''Multicast''),
      (''collisions_total'', ''Collisions''),
      (''receive_length_errors_total'', ''RXLengthErrors''),
      (''receive_over_errors_total'', ''RXOverErrors''),
      (''receive_crc_errors_total'', ''RXCRCErrors''),
      (''receive_frame_errors_total'', ''RXFrameErrors''),
      (''receive_fifo_errors_total'', ''RXFIFOErrors''),
      (''receive_missed_errors_total'', ''RXMissedErrors''),
      (''transmit_aborted_errors_total'', ''TXAbortedErrors''),
      (''transmit_carrier_errors_total'', ''TXCarrierErrors''),
      (''transmit_fifo_errors_total'', ''TXFIFOErrors''),
      (''transmit_heartbeat_errors_total'', ''TXHeartbeatErrors''),
      (''transmit_window_errors_total'', ''TXWindowErrors''),
      (''receive_compressed_total'', ''RXCompressed''),
      (''transmit_compressed_total'', ''TXCompressed''),
      (''receive_nohandler_total'', ''RXNoHandler'')]"

definition rtnl_fields :: "bool \<Rightarrow> linkMessage \<Rightarrow> linkAttributes \<Rightarrow> netClassIface \<Rightarrow> (string \<times> anyval \<times> valueType) list" where
  "rtnl_fields withStats msg a i =
     [(''address_assign_type'', PtrI64 (if_AddrAssignType i), GaugeValue), (''carrier'', PtrU8 (la_Carrier a), GaugeValue),
      (''carrier_changes_total'', PtrU32 (la_CarrierChanges a), CounterValue), (''carrier_up_changes_total'', PtrU32 (la_CarrierUpCount a), CounterValue),
      (''carrier_down_changes_total'', PtrU32 (la_CarrierDownCount a), CounterValue), (''device_id'', PtrI64 (if_DevID i), GaugeValue),
      (''flags'', AnyU32 (lk_Flags msg), GaugeValue), (''iface_id'', AnyU32 (lk_msgIndex msg), GaugeValue),
      (''iface_link_mode'', PtrU8 (la_LinkMode a), GaugeValue), (''dormant'', PtrU8 (la_LinkMode a), GaugeValue),
      (''iface_link'', AnyU32 (if la_Type a \<noteq> 0 then la_Type a else lk_msgIndex msg), GaugeValue), (''mtu_bytes'', AnyU32 (la_MTU a), GaugeValue),
      (''name_assign_type'', PtrI64 (if_NameAssignType i), GaugeValue), (''net_dev_group'', PtrU32 (la_NetDevGroup a), GaugeValue),
      (''transmit_queue_length'', AnyU32 (la_TxQueueLen a), GaugeValue), (''protocol_type'', AnyU16 (lk_Type msg), GaugeValue)] @
     (case la_Stats64 a of
        Some s \<Rightarrow> if withStats then map (\<lambda>(name, f). (name, AnyU64 (s f), GaugeValue)) rtnl_stats else []
      | None \<Rightarrow> [])"

fun rtnl_links :: "bool \<Rightarrow> (string, linkMode) gomap \<Rightarrow> (string, netClassIface) gomap \<Rightarrow> (linkMessage \<times> linkAttributes) list \<Rightarrow>
    (string, desc) gomap \<Rightarrow> (string, desc) gomap \<times> upd" where
  "rtnl_links withStats modes sysfsAttrs [] c = (c, emit [])"
| "rtnl_links withStats modes sysfsAttrs ((msg, a) # links) c =
     (let n = la_Name a;
          up = MustNewConstMetric netclass_upDesc GaugeValue (if la_OperationalState a = 6 then Fin 1 else Fin 0) [n];
          duplex = (case map_get modes n of Some lm \<Rightarrow> lm_Duplex lm | None \<Rightarrow> [])
      in case idx operstateStr (unat (la_OperationalState a)) of
           Ok st \<Rightarrow>
             let info = MustNewConstMetric rtnl_infoDesc GaugeValue (Fin 1)
                   [n, HardwareAddr_String (la_Address a), HardwareAddr_String (la_Broadcast a), duplex, st, case la_Alias a of Some s \<Rightarrow> s | None \<Rightarrow> []];
                 alts = map (\<lambda>alt. MustNewConstMetric rtnl_altnameDesc GaugeValue (Fin 1) [ToValidUTF8 alt rune_error, n]) (filter (\<lambda>alt. alt \<noteq> []) (la_AltNames a));
                 (ms, c1) = push_fields n (rtnl_fields withStats msg a (map_get_z emptyIface sysfsAttrs n)) c;
                 (c2, u) = rtnl_links withStats modes sysfsAttrs links c1
             in (c2, seq (emit ([up, info] @ alts @ ms)) u)
         | Err e \<Rightarrow> (c, ([up], Err e))
         | Panic p \<Rightarrow> (c, ([up], Panic p)))"

text \<open>A missing ethtool interface is no error, if the library wraps the reason once.\<close>

definition link_modes :: "rtnlEnv \<Rightarrow> linkMode list res" where
  "link_modes env =
     (case getLinkModes env of
        Err e \<Rightarrow> (case errors_Unwrap e of
                    Some e' \<Rightarrow> if errors_Is e' ErrNotExist then Ok [] else Err (Wrapf ''could not get link modes: %w'' [] e)
                  | None \<Rightarrow> Err (Wrapf ''could not get link modes: %w'' [] e))
      | r \<Rightarrow> r)"

definition rtnl_gather :: "rtnlEnv \<Rightarrow> regexp \<Rightarrow> ((linkMessage \<times> linkAttributes) list \<times> (string, netClassIface) gomap) res" where
  "rtnl_gather env pat =
     bind_res (map_err (Wrapf ''could not get net class info: %w'' []) (getNetClassInfoRTNL env)) (\<lambda>lMsgs.
     bind_res (relevantLinks pat lMsgs) (\<lambda>links.
     bind_res (map_err (Wrapf ''could not get sysfs device info: %w'' []) (getSysfsAttributes env (map snd links))) (\<lambda>sysfsAttrs.
       Ok (links, sysfsAttrs))))"

definition netClassRTNLUpdate :: "rtnlEnv \<Rightarrow> netclassFlags \<Rightarrow> regexp \<Rightarrow> (string, desc) gomap \<Rightarrow> (string, desc) gomap \<times> upd" where
  "netClassRTNLUpdate env fl pat c =
     (case link_modes env of
        Err e \<Rightarrow> (c, fail e)
      | Panic p \<Rightarrow> (c, ([], Panic p))
      | Ok lms \<Rightarrow>
          let (modes, c1, ms) = rtnl_modes pat lms [] c in
          (case rtnl_gather env pat of
             Err e \<Rightarrow> (c1, (ms, Err e))
           | Panic p \<Rightarrow> (c1, (ms, Panic p))
           | Ok (links, sysfsAttrs) \<Rightarrow>
               let (c2, u) = rtnl_links (netclassRTNLWithStats fl) modes sysfsAttrs links c1 in (c2, seq (emit ms) u)))"

definition netclass_Update :: "((string \<times> netClassIface) list \<Rightarrow> (string \<times> netClassIface) list) \<Rightarrow> netclassEnv \<Rightarrow> rtnlEnv \<Rightarrow> netclassFlags \<Rightarrow>
    regexp \<Rightarrow> (string, desc) gomap \<Rightarrow> (string, desc) gomap \<times> upd" where
  "netclass_Update ord env rt fl pat c =
     (if netclassNetlink fl then netClassRTNLUpdate rt fl pat c else netClassSysfsUpdate ord env fl pat c)"


section \<open>The contract\<close>

text \<open>The names that are pushed are all in the tables of descriptions, at these places.\<close>

lemma fc_table: "set (map fst fc_counters) \<subseteq> set (map fst fc_descriptions)"
  by (rule nth_names [where js = "[0, 4, 8, 3, 11, 12, 7, 6, 5, 13, 2, 1, 9, 10]"]) (simp_all add: fc_counters_def fc_descriptions_def)

lemma ib_table: "set (map fst ib_counters) \<subseteq> set (map fst ib_descriptions)"
  by (rule nth_names [where js = "[0, 1, 2, 3, 4, 5, 6, 7, 8, 9, 10, 11, 12, 13, 15, 16, 17, 18, 19, 20, 21, 22, 23, 24, 27, 28, 29, 30, 31, 32]"]) (simp_all add: ib_counters_def ib_descriptions_def)

lemma ib_hw_table: "set (map fst ib_hwcounters) \<subseteq> set (map fst ib_descriptions)"
  by (rule nth_names [where js = "[33, 34, 36, 37, 38, 39, 40, 41, 42, 43, 44, 45, 46, 47, 48, 49, 50, 51, 52, 53, 54, 55, 56, 57, 58, 59, 60, 61, 62]"]) (simp_all add: ib_hwcounters_def ib_descriptions_def)

lemma ib_own_table:
  "set [''state_id'', ''physical_state_id'', ''rate_bytes_per_second'', ''lifespan_seconds''] \<subseteq> set (map fst ib_descriptions)"
  by (rule nth_names [where js = "[26, 14, 25, 35]"]) (simp_all add: ib_descriptions_def)

lemma fc_push_sound: "name \<in> set (map fst fc_descriptions) \<Longrightarrow> sound (fc_pushCounter fc_metricDescs name v host)"
  using desc_table [of name fc_descriptions "\<lambda>name help. NewDesc (BuildFQName namespace ''fibrechannel'' name) help [''fc_host'']"]
  by (auto simp: fc_pushCounter_def fc_pushMetric_def fc_metricDescs_def intro!: sound_emit)

lemma fc_host_sound: "fc_Name h \<noteq> None \<Longrightarrow> length (fc_texts h) = 10 \<Longrightarrow> sound (fc_host fc_metricDescs h)"
  using fc_table by (force simp: fc_host_def SafeDereference_def fc_infoDesc_def intro!: sound_foreach fc_push_sound)

interpretation fibrechannel: safe_collector_contract "fibrechannel_Update fc_metricDescs"
  "\<lambda>r. \<not> panics r \<and> (\<forall>hs. r = Ok hs \<longrightarrow> list_all (\<lambda>(k, h). fc_Name h \<noteq> None \<and> length (fc_texts h) = 10) hs)"
  by (rule safe_contractI)
    (auto simp: fibrechannel_Update_def list_all_iff intro!: sound_intros fc_host_sound)

lemma ib_push_sound:
  "ib_descs c = ib_metricDescs \<Longrightarrow> name \<in> set (map fst ib_descriptions) \<Longrightarrow> sound (ib_pushMetric c name v dev port vt)"
  using desc_table [of name ib_descriptions "\<lambda>name help. NewDesc (BuildFQName namespace ''infiniband'' name) help [''device'', ''port'']"]
  by (auto simp: ib_pushMetric_def ib_metricDescs_def intro!: sound_emit)

lemma ib_push_Ok:
  "ib_descs c = ib_metricDescs \<Longrightarrow> name \<in> set (map fst ib_descriptions) \<Longrightarrow> snd (ib_pushMetric c name v dev port vt) = Ok ()"
  using desc_table [of name ib_descriptions "\<lambda>name help. NewDesc (BuildFQName namespace ''infiniband'' name) help [''device'', ''port'']"]
  by (auto simp: ib_pushMetric_def ib_metricDescs_def)


lemma ib_port_sound:
  assumes "ib_descs c = ib_metricDescs"
  shows "sound (ib_port c port)"
proof -
  have own: "sound (ib_pushMetric c name v dev prt vt)"
    if "name \<in> {''state_id'', ''physical_state_id'', ''rate_bytes_per_second'', ''lifespan_seconds''}" for name v dev prt vt
    using that ib_own_table by (intro ib_push_sound [OF assms]) auto
  have counters: "sound (foreach (\<lambda>(name, f). ib_pushCounter c name (ip_counter port f) dev prt) tbl)"
    if "set (map fst tbl) \<subseteq> set (map fst ib_descriptions)" for tbl dev prt
    using that by (intro sound_foreach) (force simp: ib_pushCounter_def split: option.splits intro!: ib_push_sound [OF assms])
  show ?thesis unfolding ib_port_def Let_def
    by (intro sound_seq counters [OF ib_table] counters [OF ib_hw_table])
      (use own in \<open>auto split: option.splits\<close>)
qed

interpretation infiniband: safe_collector_contract "\<lambda>(c, r). infiniband_Update c r" "\<lambda>(c, r). ib_descs c = ib_metricDescs \<and> \<not> panics r"
  by (rule safe_contractI)
    (auto simp: infiniband_Update_def ib_device_def ib_infoDesc_def intro!: sound_intros ib_port_sound)

text \<open>The cache of interface descriptors only ever holds the descriptor of the name it is asked for.\<close>

definition netclass_cache :: "(string, desc) gomap \<Rightarrow> bool" where
  "netclass_cache c \<longleftrightarrow> (\<forall>n d. map_get c n = Some d \<longrightarrow> d = netclass_desc n)"

lemma netclass_cache_empty: "netclass_cache []"
  by (simp add: netclass_cache_def)

lemma getFieldDesc_cached: "netclass_cache c \<Longrightarrow> fst (getFieldDesc c n) = netclass_desc n \<and> netclass_cache (snd (getFieldDesc c n))"
  by (auto simp: getFieldDesc_def netclass_cache_def split: option.splits)

definition field_metrics :: "string \<Rightarrow> (string \<times> anyval \<times> valueType) list \<Rightarrow> metric list" where
  "field_metrics dev fs = concat (map (\<lambda>(name, v, vt). pushMetric (netclass_desc name) v vt [dev]) fs)"

lemma field_metrics_ok: "list_all labels_ok (field_metrics dev fs)"
  by (auto simp: field_metrics_def list_all_iff pushMetric_def netclass_desc_def split: option.splits)

lemma push_fields_cached:
  "netclass_cache c \<Longrightarrow> fst (push_fields dev fs c) = field_metrics dev fs \<and>
     netclass_cache (snd (push_fields dev fs c))"
proof (induction fs arbitrary: c)
  case (Cons x fs)
  obtain name v vt where x: "x = (name, v, vt)" by (cases x)
  show ?case using getFieldDesc_cached [OF Cons.prems, of name] Cons.IH [of "snd (getFieldDesc c name)"]
    by (simp add: x case_prod_beta Let_def field_metrics_def)
qed (simp add: field_metrics_def)

lemma iface_loop_cached:
  "netclass_cache c \<Longrightarrow> netclass_cache (fst (iface_loop b js c)) \<and>
     snd (iface_loop b js c) = concat (map (\<lambda>i. iface_head i @ field_metrics (if_Name i) (iface_fields b i)) js)"
proof (induction js arbitrary: c)
  case (Cons i js)
  show ?case using push_fields_cached [OF Cons.prems, of "if_Name i" "iface_fields b i"]
      Cons.IH [of "snd (push_fields (if_Name i) (iface_fields b i) c)"]
    by (simp add: case_prod_beta Let_def)
qed simp

lemma iface_loop_ok: "netclass_cache c \<Longrightarrow> list_all labels_ok (snd (iface_loop b js c))"
  using iface_loop_cached [of c b js] field_metrics_ok by (auto simp: list_all_iff iface_head_def netclass_upDesc_def netclass_infoDesc_def)

lemma rtnl_modes_ok:
  "netclass_cache c \<Longrightarrow> netclass_cache (fst (snd (rtnl_modes pat lms modes c))) \<and> list_all labels_ok (snd (snd (rtnl_modes pat lms modes c)))"
proof (induction lms arbitrary: modes c)
  case (Cons lm lms)
  let ?p = "push_fields (lm_Interface lm) (rtnl_speed lm) c"
  show ?case using push_fields_cached [OF Cons.prems, of "lm_Interface lm" "rtnl_speed lm"] field_metrics_ok
      Cons.IH [OF Cons.prems] Cons.IH [of "snd ?p"]
    by (simp add: case_prod_beta Let_def)
qed simp

lemma rtnl_links_sound:
  "netclass_cache c \<Longrightarrow> list_all (\<lambda>(m, a). unat (la_OperationalState a) < 7) links \<Longrightarrow>
     sound (snd (rtnl_links ws modes sysfsAttrs links c))"
proof (induction links arbitrary: c)
  case (Cons l links)
  obtain m a where l: "l = (m, a)" by (cases l)
  let ?p = "push_fields (la_Name a) (rtnl_fields ws m a (map_get_z emptyIface sysfsAttrs (la_Name a))) c"
  have "idx operstateStr (unat (la_OperationalState a)) = Ok (operstateStr ! unat (la_OperationalState a))"
    using Cons.prems(2) by (intro idx_Ok) (simp add: l operstateStr_def)
  then show ?case using push_fields_cached [OF Cons.prems(1)] field_metrics_ok Cons.IH [of "snd ?p"] Cons.prems(2)
    by (auto simp: l case_prod_beta Let_def netclass_upDesc_def rtnl_infoDesc_def rtnl_altnameDesc_def list_all_iff simp del: seq_emit
        intro!: sound_seq sound_emit)
qed auto

lemma relevantLinks_Ok:
  assumes "list_all (\<lambda>m. \<exists>a. lk_Attributes m = Some a \<and> unat (la_OperationalState a) < 7) msgs"
  shows "\<exists>links. relevantLinks pat msgs = Ok links \<and> list_all (\<lambda>(m, a). unat (la_OperationalState a) < 7) links"
proof -
  let ?f = "\<lambda>msg acc. case lk_Attributes msg of None \<Rightarrow> Panic ''nil pointer dereference''
       | Some a \<Rightarrow> Ok (if MatchString pat (la_Name a) then acc else acc @ [(msg, a)])"
  have "list_all (\<lambda>(m, a). unat (la_OperationalState a) < 7) acc \<Longrightarrow>
      \<exists>links. fold_res ?f msgs acc = Ok links \<and> list_all (\<lambda>(m, a). unat (la_OperationalState a) < 7) links" for acc
    using assms
  proof (induction msgs arbitrary: acc)
    case (Cons m msgs)
    then obtain a where a: "lk_Attributes m = Some a" "unat (la_OperationalState a) < 7" by auto
    with Cons show ?case by simp
  qed simp
  then show ?thesis by (simp add: relevantLinks_def)
qed

definition netclass_pre :: "netclassEnv \<times> rtnlEnv \<times> netclassFlags \<times> regexp \<times> (string, desc) gomap \<Rightarrow> bool" where
  "netclass_pre = (\<lambda>(env, rt, fl, pat, c). netclass_cache c \<and>
     \<not> panics (nc_NetClassDevices env) \<and> (\<forall>d. \<not> panics (NetClassByIface env d)) \<and>
     \<not> panics (rn_Dial rt) \<and> \<not> panics (rn_LinkList rt) \<and> \<not> panics (ethtool_New rt) \<and> \<not> panics (ethtool_LinkModes rt) \<and>
     (\<forall>d s i. \<not> panics (ParseNetClassAttribute rt d s i)) \<and>
     (\<forall>msgs. rn_LinkList rt = Ok msgs \<longrightarrow> list_all (\<lambda>m. \<exists>a. lk_Attributes m = Some a \<and> unat (la_OperationalState a) < 7) msgs))"

lemma netClassSysfsUpdate_sound:
  assumes "netclass_pre (env, rt, fl, pat, c)"
  shows "sound (snd (netClassSysfsUpdate ord env fl pat c))"
proof -
  have "\<not> panics (getNetClassInfo env pat)"
    using assms by (auto simp: getNetClassInfo_def netclass_pre_def panics_bind_res intro!: fold_res_no_panic split: if_splits)
  then show ?thesis using iface_loop_ok assms
    by (cases "getNetClassInfo env pat") (auto simp: netClassSysfsUpdate_def netclass_pre_def case_prod_beta list_all_iff intro!: sound_emit)
qed

lemma rtnl_gather_links:
  assumes "netclass_pre (env, rt, fl, pat, c)"
  shows "\<not> panics (rtnl_gather rt pat) \<and>
    (\<forall>links attrs. rtnl_gather rt pat = Ok (links, attrs) \<longrightarrow> list_all (\<lambda>(m, a). unat (la_OperationalState a) < 7) links)"
proof (cases "getNetClassInfoRTNL rt")
  case (Ok msgs)
  then have "rn_LinkList rt = Ok msgs" by (auto simp: getNetClassInfoRTNL_def go_simps)
  then obtain links where l: "relevantLinks pat msgs = Ok links" "list_all (\<lambda>(m, a). unat (la_OperationalState a) < 7) links"
    using assms relevantLinks_Ok by (force simp: netclass_pre_def)
  have "\<not> panics (getSysfsAttributes rt (map snd links))"
    using assms by (auto simp: getSysfsAttributes_def netclass_pre_def Let_def panics_bind_res intro!: fold_res_no_panic)
  then show ?thesis using Ok l by (cases "getSysfsAttributes rt (map snd links)") (auto simp: rtnl_gather_def)
qed (use assms in \<open>auto simp: rtnl_gather_def getNetClassInfoRTNL_def netclass_pre_def panics_bind_res go_simps\<close>)

lemma link_modes_no_panic: "netclass_pre (env, rt, fl, pat, c) \<Longrightarrow> \<not> panics (link_modes rt)"
  by (auto simp: link_modes_def getLinkModes_def netclass_pre_def go_simps split: res.splits option.splits)

lemma netClassRTNLUpdate_sound:
  assumes "netclass_pre (env, rt, fl, pat, c)"
  shows "sound (snd (netClassRTNLUpdate rt fl pat c))"
proof (cases "link_modes rt")
  case (Ok lms)
  obtain modes c1 ms where m: "rtnl_modes pat lms [] c = (modes, c1, ms)" by (metis prod_cases3)
  have c1: "netclass_cache c1" "list_all labels_ok ms"
    using rtnl_modes_ok [of c pat lms "[]"] assms m by (simp_all add: netclass_pre_def)
  show ?thesis
    using Ok m c1 rtnl_gather_links [OF assms] rtnl_links_sound [OF c1(1)]
    by (cases "rtnl_gather rt pat") (auto simp: netClassRTNLUpdate_def case_prod_beta)
next
  case (Panic p)
  then show ?thesis using link_modes_no_panic [OF assms] by simp
qed (simp add: netClassRTNLUpdate_def)

interpretation netclass: safe_collector_contract "\<lambda>(env, rt, fl, pat, c). snd (netclass_Update ord env rt fl pat c)" netclass_pre for ord
  by (rule safe_contractI)
    (auto simp: netclass_Update_def intro: netClassRTNLUpdate_sound netClassSysfsUpdate_sound)

lemma rtnl_links_cached: "netclass_cache c \<Longrightarrow> netclass_cache (fst (rtnl_links ws modes sysfsAttrs links c))"
proof (induction links arbitrary: c)
  case (Cons l links)
  obtain m a where l: "l = (m, a)" by (cases l)
  let ?p = "push_fields (la_Name a) (rtnl_fields ws m a (map_get_z emptyIface sysfsAttrs (la_Name a))) c"
  have "netclass_cache (snd ?p)" using push_fields_cached [OF Cons.prems] by simp
  then show ?case using Cons.prems Cons.IH [of "snd ?p"] by (simp add: l case_prod_beta Let_def split: res.splits)
qed simp

lemma netclass_Update_cached: "netclass_cache c \<Longrightarrow> netclass_cache (fst (netclass_Update ord env rt fl pat c))"
proof -
  assume c: "netclass_cache c"
  have "netclass_cache (fst (netClassSysfsUpdate ord env fl pat c))"
    using iface_loop_cached [OF c] c by (auto simp: netClassSysfsUpdate_def case_prod_beta Let_def split: res.splits)
  moreover have "netclass_cache (fst (netClassRTNLUpdate rt fl pat c))"
    using rtnl_modes_ok [OF c] rtnl_links_cached c by (auto simp: netClassRTNLUpdate_def case_prod_beta Let_def split: res.splits)
  ultimately show ?thesis by (simp add: netclass_Update_def)
qed

interpretation netclass_state: stateful_collector "\<lambda>(env, rt). netclass_Update ord env rt fl pat"
  "\<lambda>(env, rt). netclass_pre (env, rt, fl, pat, [])" netclass_cache for ord fl pat
proof unfold_locales
  fix c e
  assume inv: "netclass_cache c" and "case e of (env, rt) \<Rightarrow> netclass_pre (env, rt, fl, pat, [])"
  then obtain env rt where e: "e = (env, rt)" and pre: "netclass_pre (env, rt, fl, pat, c)" by (cases e) (auto simp: netclass_pre_def)
  show "netclass_cache (fst ((case e of (env, rt) \<Rightarrow> netclass_Update ord env rt fl pat) c))"
    using netclass_Update_cached [OF inv] by (simp add: e)
  show "sound (snd ((case e of (env, rt) \<Rightarrow> netclass_Update ord env rt fl pat) c))"
    using netclass.update_labels [of "(env, rt, fl, pat, c)"] netclass.update_no_panic [of "(env, rt, fl, pat, c)"] pre
    by (simp add: e sound_def)
qed


section \<open>Properties\<close>

lemma ib_lifespan_help: "map_get ib_descriptions ''lifespan_seconds'' =
    Some ''The maximum period in ms which defines the aging of the counter reads. Two consecutive reads within this period might return the same values.''"
  unfolding ib_descriptions_def by (simp add: map_get_Cons cong: map_get_weak_cong del: map_of.simps)

text \<open>
  The life span that the driver gives in milliseconds is divided as an integer before it is made a number of seconds:
  every span of less than a second is exported as zero.
\<close>

theorem infiniband_lifespan_truncated:
  assumes "ip_Lifespan port = Some v" "unat v < 1000"
  shows "MustNewConstMetric (NewDesc (BuildFQName namespace ''infiniband'' ''lifespan_seconds'')
      ''The maximum period in ms which defines the aging of the counter reads. Two consecutive reads within this period might return the same values.''
      [''device'', ''port'']) GaugeValue (Fin 0) [ip_Name port, FormatUint (unat (ip_Port port))]
    \<in> set (fst (ib_port \<lparr>ib_descs = ib_metricDescs, ib_filter = f\<rparr> port))"
proof -
  let ?c = "\<lparr>ib_descs = ib_metricDescs, ib_filter = f\<rparr>"
  have d: "map_get ib_metricDescs ''lifespan_seconds'' = Some (NewDesc (BuildFQName namespace ''infiniband'' ''lifespan_seconds'')
      ''The maximum period in ms which defines the aging of the counter reads. Two consecutive reads within this period might return the same values.''
      [''device'', ''port''])"
    by (simp add: ib_metricDescs_def map_get_table ib_lifespan_help)
  have z: "f64_of_nat (unat (v div 1000)) = Fin 0"
    using assms(2) f64_of_nat_exact [of 0] by (simp add: unat_div)
  have own: "snd (ib_pushMetric ?c name x dev prt vt) = Ok ()"
    if "name \<in> {''state_id'', ''physical_state_id'', ''rate_bytes_per_second''}" for name x dev prt vt
  proof (rule ib_push_Ok)
    show "name \<in> set (map fst ib_descriptions)" using that by (intro subsetD [OF ib_own_table]) auto
  qed simp
  have tbl: "snd (foreach (\<lambda>(name, f). ib_pushCounter ?c name (ip_counter port f) dev prt) ib_counters) = Ok ()" for dev prt
    using ib_table by (force simp: snd_foreach_Ok_iff ib_pushCounter_def split: option.splits intro!: ib_push_Ok)
  show ?thesis unfolding ib_port_def Let_def assms(1) option.case
    by (simp add: fst_seq_Ok own tbl) (simp add: ib_pushMetric_def d z)
qed

theorem infiniband_lifespan_truncated_witness:
  "MustNewConstMetric (NewDesc (BuildFQName namespace ''infiniband'' ''lifespan_seconds'')
      ''The maximum period in ms which defines the aging of the counter reads. Two consecutive reads within this period might return the same values.''
      [''device'', ''port'']) GaugeValue (Fin 0) [''mlx5_0'', FormatUint 1]
    \<in> set (fst (ib_port \<lparr>ib_descs = ib_metricDescs, ib_filter = \<lparr>ignorePattern = None, acceptPattern = None\<rparr>\<rparr>
        \<lparr>ip_Name = ''mlx5_0'', ip_Port = 1, ip_StateID = 4, ip_PhysStateID = 5, ip_Rate = 0, ip_Lifespan = Some 10, ip_counter = (\<lambda>_. None)\<rparr>))"
  using infiniband_lifespan_truncated [of "\<lparr>ip_Name = ''mlx5_0'', ip_Port = 1, ip_StateID = 4, ip_PhysStateID = 5, ip_Rate = 0, ip_Lifespan = Some 10, ip_counter = (\<lambda>_. None)\<rparr>" 10]
  by simp

text \<open>
  A speed that is known is exported as the same number of bytes per second by both ways of reading the interfaces, one eighth of
  a million for each megabit.
\<close>

theorem netclass_speed_agree:
  assumes "0 \<le> sint s" "sint s < 2 ^ 40"
  shows "map (\<lambda>(n, v, vt). (n, any_float v, vt)) (iface_speed b (Some s)) = [(''speed_bytes'', Some (f64_of_int (sint s * 125000)), GaugeValue)] \<and>
    map (\<lambda>(n, v, vt). (n, any_float v, vt)) (rtnl_speed \<lparr>lm_Interface = i, lm_SpeedMegabits = s, lm_Duplex = d\<rparr>) =
      [(''speed_bytes'', Some (f64_of_int (sint s * 125000)), GaugeValue)]"
proof -
  have "s * 1000 * 1000 = word_of_int (sint s * 1000000)" by simp
  moreover have "sint (word_of_int (sint s * 1000000) :: goint) = sint s * 1000000" by (rule goint_fits) (use assms in simp_all)
  ultimately have q: "go_div (sint (s * 1000 * 1000)) 8 = sint s * 125000"
    using assms by (simp only: go_div_nonneg)
  have "s * 1000 * 1000 = 1000000 * s" by simp
  note q = q [unfolded this]
  have w: "sint (word_of_int (sint s * 125000) :: goint) = sint s * 125000" by (rule goint_fits) (use assms in simp_all)
  have ufits: "0 \<le> k \<Longrightarrow> k < 2 ^ 64 \<Longrightarrow> uint (word_of_int k :: uint64) = k" for k
    by (simp add: uint_word_of_int)
  have "uint (word_of_int (sint s * 125000) :: uint64) = sint s * 125000" by (rule ufits) (use assms in simp_all)
  then have u: "f64_of_nat (unat (word_of_int (sint s * 125000) :: uint64)) = f64_of_int (sint s * 125000)"
    using assms by (simp add: f64_of_nat_def unat_eq_nat_uint)
  have e: "word_of_int (sint s * 125000) = s * 125000" by simp
  show ?thesis using assms(1) w [unfolded e] u [unfolded e] by (simp add: iface_speed_def rtnl_speed_def q)
qed

theorem netclass_speed_agree_witness:
  "map (\<lambda>(n, v, vt). (n, any_float v, vt)) (iface_speed True (Some (10000 :: 64 word))) =
   map (\<lambda>(n, v, vt). (n, any_float v, vt)) (rtnl_speed \<lparr>lm_Interface = ''eth0'', lm_SpeedMegabits = 10000, lm_Duplex = ''full''\<rparr>)"
  using netclass_speed_agree [of "10000 :: 64 word" True] by simp

text \<open>
  What a scrape of the interfaces sends does not depend on the descriptors that earlier scrapes left in the collector, and the
  cache stays as it should be.
\<close>

theorem netclass_sysfs_stateless:
  assumes "netclass_cache c"
  shows "snd (netClassSysfsUpdate ord env fl pat c) = snd (netClassSysfsUpdate ord env fl pat []) \<and>
    netclass_cache (fst (netClassSysfsUpdate ord env fl pat c))"
  using iface_loop_cached [OF assms] iface_loop_cached [OF netclass_cache_empty] assms
  by (cases "getNetClassInfo env pat") (simp_all add: netClassSysfsUpdate_def case_prod_beta)

theorem netclass_sysfs_stateless_witness:
  "snd (netClassSysfsUpdate (\<lambda>m. m) \<lparr>nc_NetClassDevices = Ok [''lo''], NetClassByIface = (\<lambda>d. Ok (emptyIface\<lparr>if_Name := d\<rparr>))\<rparr>
      \<lparr>netclassIgnoredDevices = [], netclassInvalidSpeed = False, netclassNetlink = False, netclassRTNLWithStats = False\<rparr> REmpty [(''carrier'', netclass_desc ''carrier'')]) =
   snd (netClassSysfsUpdate (\<lambda>m. m) \<lparr>nc_NetClassDevices = Ok [''lo''], NetClassByIface = (\<lambda>d. Ok (emptyIface\<lparr>if_Name := d\<rparr>))\<rparr>
      \<lparr>netclassIgnoredDevices = [], netclassInvalidSpeed = False, netclassNetlink = False, netclassRTNLWithStats = False\<rparr> REmpty [])"
  by (rule conjunct1 [OF netclass_sysfs_stateless]) (simp add: netclass_cache_def)


end
