(* ===== verification/Netkern.thy ===== *)
theory Netkern
  imports GoNet Registry Helpers "HOL-Library.List_Lexorder" "HOL-Library.Char_ord"
begin

text \<open>
  Three network subsystems of the kernel: virtual servers (\<^verbatim>\<open>ipvs_linux.go\<close>) with the labels of their back ends, wireless
  interfaces (\<^verbatim>\<open>wifi_linux.go\<close>) and IPsec (\<^verbatim>\<open>xfrm.go\<close>). The structures that procfs and the wifi library fill are parameters.
\<close>

section \<open>ipvs\<close>

definition fullIpvsBackendLabels :: "string list" where
  "fullIpvsBackendLabels = [''local_address'', ''local_port'', ''remote_address'', ''remote_port'', ''proto'', ''local_mark'']"

text \<open>The labels are put into a set; those that are known are taken out of it, and what is left is an error.\<close>

definition parseIpvsLabels :: "((string \<times> bool) list \<Rightarrow> (string \<times> bool) list) \<Rightarrow> string \<Rightarrow> string list res" where
  "parseIpvsLabels ord labelString =
     (let labelSet = fold (\<lambda>label m. if label \<noteq> [] then map_put label True m else m) (Split labelString CHR '','') [];
          results = filter (\<lambda>label. map_get_z False labelSet label) fullIpvsBackendLabels;
          left = fold map_del fullIpvsBackendLabels labelSet
      in if left \<noteq> [] then Err (Errorf ''unknown IPVS backend labels: %q'' [Join (sort (map fst (ord left))) '', ''])
         else Ok results)"

definition ipvs_total :: "string \<Rightarrow> string \<Rightarrow> typedDesc" where
  "ipvs_total name help = \<lparr>td_desc = NewDesc (BuildFQName namespace ''ipvs'' name) help [], td_valueType = CounterValue\<rparr>"

definition ipvs_connections :: typedDesc where
  "ipvs_connections = ipvs_total ''connections_total'' ''The total number of connections made.''"
definition ipvs_incomingPackets :: typedDesc where
  "ipvs_incomingPackets = ipvs_total ''incoming_packets_total'' ''The total number of incoming packets.''"
definition ipvs_outgoingPackets :: typedDesc where
  "ipvs_outgoingPackets = ipvs_total ''outgoing_packets_total'' ''The total number of outgoing packets.''"
definition ipvs_incomingBytes :: typedDesc where
  "ipvs_incomingBytes = ipvs_total ''incoming_bytes_total'' ''The total amount of incoming data.''"
definition ipvs_outgoingBytes :: typedDesc where
  "ipvs_outgoingBytes = ipvs_total ''outgoing_bytes_total'' ''The total amount of outgoing data.''"

definition ipvs_backend :: "string list \<Rightarrow> string \<Rightarrow> string \<Rightarrow> typedDesc" where
  "ipvs_backend labels name help = \<lparr>td_desc = NewDesc (BuildFQName namespace ''ipvs'' name) help labels, td_valueType = GaugeValue\<rparr>"

definition backendConnectionsActive :: "string list \<Rightarrow> typedDesc" where
  "backendConnectionsActive labels = ipvs_backend labels ''backend_connections_active'' ''The current active connections by local and remote address.''"
definition backendConnectionsInact :: "string list \<Rightarrow> typedDesc" where
  "backendConnectionsInact labels = ipvs_backend labels ''backend_connections_inactive'' ''The current inactive connections by local and remote address.''"
definition backendWeight :: "string list \<Rightarrow> typedDesc" where
  "backendWeight labels = ipvs_backend labels ''backend_weight'' ''The current backend weight by local and remote address.''"

text \<open>The collector is its labels; the descriptors follow from them.\<close>

definition newIPVSCollector :: "((string \<times> bool) list \<Rightarrow> (string \<times> bool) list) \<Rightarrow> unit res \<Rightarrow> string \<Rightarrow> string list res" where
  "newIPVSCollector ord procfs_NewFS ipvsLabels =
     bind_res (parseIpvsLabels ord ipvsLabels) (\<lambda>labels.
     bind_res (map_err (Wrapf ''failed to open procfs: %w'' []) procfs_NewFS) (\<lambda>_. Ok labels))"

record IPVSStats =
  st_Connections :: uint64
  st_IncomingPackets :: uint64
  st_OutgoingPackets :: uint64
  st_IncomingBytes :: uint64
  st_OutgoingBytes :: uint64

record IPVSBackendStatus =
  be_LocalAddress :: IP
  be_RemoteAddress :: IP
  be_LocalMark :: string
  be_Proto :: string
  be_LocalPort :: uint16
  be_RemotePort :: uint16
  be_ActiveConn :: uint64
  be_InactConn :: uint64
  be_Weight :: uint64

record ipvsBackendStatus =
  ActiveConn :: uint64
  InactConn :: uint64
  Weight :: uint64

definition ipvs_label :: "IPVSBackendStatus \<Rightarrow> string \<Rightarrow> string" where
  "ipvs_label b label =
     (if label = ''local_address'' then (if IP_String (be_LocalAddress b) \<noteq> ''<nil>'' then IP_String (be_LocalAddress b) else [])
      else if label = ''local_port'' then FormatUint (unat (be_LocalPort b))
      else if label = ''remote_address'' then IP_String (be_RemoteAddress b)
      else if label = ''remote_port'' then FormatUint (unat (be_RemotePort b))
      else if label = ''proto'' then be_Proto b
      else if label = ''local_mark'' then be_LocalMark b
      else [])"

definition ipvs_kv :: "string list \<Rightarrow> IPVSBackendStatus \<Rightarrow> string list" where
  "ipvs_kv labels b = map (ipvs_label b) labels"

type_synonym ipvsSums = "(string, ipvsBackendStatus) gomap \<times> (string, string list) gomap"

definition zeroBackend :: ipvsBackendStatus where
  "zeroBackend = \<lparr>ActiveConn = 0, InactConn = 0, Weight = 0\<rparr>"

definition ipvs_add :: "string list \<Rightarrow> IPVSBackendStatus \<Rightarrow> ipvsSums \<Rightarrow> ipvsSums" where
  "ipvs_add labels b = (\<lambda>(acc, labelValues).
     let kv = ipvs_kv labels b;
         key = Join kv ''-'';
         s = map_get_z zeroBackend acc key
     in (map_put key \<lparr>ActiveConn = ActiveConn s + be_ActiveConn b, InactConn = InactConn s + be_InactConn b, Weight = Weight s + be_Weight b\<rparr> acc,
         map_put key kv labelValues))"

record ipvsEnv =
  get_IPVSStats :: "IPVSStats res"
  get_IPVSBackendStatus :: "IPVSBackendStatus list res"

definition ipvs_totals :: "IPVSStats \<Rightarrow> metric list" where
  "ipvs_totals s =
     [mustNewConstMetric ipvs_connections (f64_of_nat (unat (st_Connections s))) [],
      mustNewConstMetric ipvs_incomingPackets (f64_of_nat (unat (st_IncomingPackets s))) [],
      mustNewConstMetric ipvs_outgoingPackets (f64_of_nat (unat (st_OutgoingPackets s))) [],
      mustNewConstMetric ipvs_incomingBytes (f64_of_nat (unat (st_IncomingBytes s))) [],
      mustNewConstMetric ipvs_outgoingBytes (f64_of_nat (unat (st_OutgoingBytes s))) []]"

definition ipvs_status_metrics :: "string list \<Rightarrow> ipvsBackendStatus \<Rightarrow> string list \<Rightarrow> metric list" where
  "ipvs_status_metrics labels s kv =
     [mustNewConstMetric (backendConnectionsActive labels) (f64_of_nat (unat (ActiveConn s))) kv,
      mustNewConstMetric (backendConnectionsInact labels) (f64_of_nat (unat (InactConn s))) kv,
      mustNewConstMetric (backendWeight labels) (f64_of_nat (unat (Weight s))) kv]"

definition ipvs_err :: "error \<Rightarrow> error" where
  "ipvs_err e = (if errors_Is e ErrNotExist then ErrNoData else Wrapf ''could not get IPVS stats: %w'' [] e)"

definition ipvs_Update :: "((string \<times> ipvsBackendStatus) list \<Rightarrow> (string \<times> ipvsBackendStatus) list) \<Rightarrow> ipvsEnv \<Rightarrow> string list \<Rightarrow> upd" where
  "ipvs_Update ord env labels =
     with_res (map_err ipvs_err (get_IPVSStats env)) (\<lambda>st.
     seq (emit (ipvs_totals st))
     (with_res (map_err (Wrapf ''could not get backend status: %w'' []) (get_IPVSBackendStatus env)) (\<lambda>backendStats.
        let (acc, labelValues) = fold (ipvs_add labels) backendStats ([], [])
        in emit (concat (map (\<lambda>(key, s). ipvs_status_metrics labels s (map_get_z [] labelValues key)) (ord acc))))))"

subsection \<open>Lemmas\<close>

lemma labelSet_get: "map_get (fold (\<lambda>label m. if label \<noteq> [] then map_put label True m else m) ls m) l =
    (if l \<in> set ls \<and> l \<noteq> [] then Some True else map_get m l)"
  by (induction ls arbitrary: m) auto

lemma labelSet_wf: "wf_map m \<Longrightarrow> wf_map (fold (\<lambda>label m. if label \<noteq> [] then map_put label True m else m) ls m)"
  by (induction ls arbitrary: m) auto

lemma fold_map_del_wf: "wf_map m \<Longrightarrow> wf_map (fold map_del ks m)"
  by (induction ks arbitrary: m) auto

lemma fold_map_del_get: "map_get (fold map_del ks m) k = (if k \<in> set ks then None else map_get m k)"
  by (induction ks arbitrary: m) auto

lemma wf_map_keys: "fst ` set m = dom (map_get m)"
  by (simp add: dom_map_of_conv_image_fst)

definition ipvs_sum :: "IPVSBackendStatus list \<Rightarrow> ipvsBackendStatus" where
  "ipvs_sum bs = \<lparr>ActiveConn = sum_list (map be_ActiveConn bs), InactConn = sum_list (map be_InactConn bs), Weight = sum_list (map be_Weight bs)\<rparr>"

abbreviation ipvs_key :: "string list \<Rightarrow> IPVSBackendStatus \<Rightarrow> string" where
  "ipvs_key labels b \<equiv> Join (ipvs_kv labels b) ''-''"

lemma fold_ipvs_add:
  "case fold (ipvs_add labels) bs ([], []) of (acc, lv) \<Rightarrow> wf_map acc \<and>
     map_get acc = (\<lambda>key. if key \<in> ipvs_key labels ` set bs then Some (ipvs_sum (filter (\<lambda>b. ipvs_key labels b = key) bs)) else None) \<and>
     map_get lv = (\<lambda>key. map_option (ipvs_kv labels) (find (\<lambda>b. ipvs_key labels b = key) (rev bs)))"
proof (induction bs rule: rev_induct)
  case (snoc b bs)
  obtain acc lv where f: "fold (ipvs_add labels) bs ([], []) = (acc, lv)" by (cases "fold (ipvs_add labels) bs ([], [])")
  let ?k = "ipvs_key labels b"
  have "ipvs_sum (filter (\<lambda>c. ipvs_key labels c = ?k) bs) = zeroBackend" if "?k \<notin> ipvs_key labels ` set bs"
  proof -
    have "filter (\<lambda>c. ipvs_key labels c = ?k) bs = []" using that by (auto simp: filter_empty_conv image_iff)
    then show ?thesis by (simp add: ipvs_sum_def zeroBackend_def)
  qed
  then have z: "map_get_z zeroBackend acc ?k = ipvs_sum (filter (\<lambda>c. ipvs_key labels c = ?k) bs)"
    using snoc.IH by (simp add: f map_get_z_def)
  have n: "map_get acc = (\<lambda>key. if key \<in> ipvs_key labels ` set bs then Some (ipvs_sum (filter (\<lambda>b. ipvs_key labels b = key) bs)) else None)"
    "map_get lv = (\<lambda>key. map_option (ipvs_kv labels) (find (\<lambda>b. ipvs_key labels b = key) (rev bs)))" "wf_map acc"
    using snoc.IH by (simp_all add: f)
  have "fold (ipvs_add labels) (bs @ [b]) ([], []) = ipvs_add labels b (acc, lv)" by (simp add: f)
  also have "\<dots> = (map_put ?k (ipvs_sum (filter (\<lambda>c. ipvs_key labels c = ?k) (bs @ [b]))) acc, map_put ?k (ipvs_kv labels b) lv)"
    by (simp only: ipvs_add_def Let_def prod.case z) (simp add: ipvs_sum_def)
  finally show ?case using n by (auto simp: fun_eq_iff)
qed simp

lemma ipvs_kv_length [simp]: "length (ipvs_kv labels b) = length labels"
  by (simp add: ipvs_kv_def)

lemma ipvs_status_labels: "length kv = length labels \<Longrightarrow> list_all labels_ok (ipvs_status_metrics labels s kv)"
  by (simp add: ipvs_status_metrics_def backendConnectionsActive_def backendConnectionsInact_def backendWeight_def ipvs_backend_def)

lemma ipvs_totals_labels: "list_all labels_ok (ipvs_totals st)"
  by (simp add: ipvs_totals_def ipvs_connections_def ipvs_incomingPackets_def ipvs_outgoingPackets_def ipvs_incomingBytes_def
      ipvs_outgoingBytes_def ipvs_total_def)

text \<open>The entries of the sums, in whatever order they are iterated in, with the label values kept for their keys.\<close>

lemma ipvs_entries:
  assumes "range_order ord" "fold (ipvs_add labels) bs ([], []) = (acc, lv)"
  shows "distinct (map fst (ord acc))" "fst ` set (ord acc) = ipvs_key labels ` set bs"
    and "(key, s) \<in> set (ord acc) \<Longrightarrow> s = ipvs_sum (filter (\<lambda>b. ipvs_key labels b = key) bs) \<and>
      (\<exists>b \<in> set bs. ipvs_key labels b = key \<and> map_get_z [] lv key = ipvs_kv labels b)"
proof -
  have f: "wf_map acc" "map_get acc = (\<lambda>key. if key \<in> ipvs_key labels ` set bs then Some (ipvs_sum (filter (\<lambda>b. ipvs_key labels b = key) bs)) else None)"
    "map_get lv = (\<lambda>key. map_option (ipvs_kv labels) (find (\<lambda>b. ipvs_key labels b = key) (rev bs)))"
    using fold_ipvs_add [of labels bs] by (simp_all only: assms(2) prod.case)
  show "distinct (map fst (ord acc))"
    using range_order_keys [OF assms(1), of acc] f(1) by simp
  have "fst ` set (ord acc) = dom (map_get acc)" using assms(1) by (simp add: dom_map_of_conv_image_fst)
  then show "fst ` set (ord acc) = ipvs_key labels ` set bs" by (auto simp: f(2) dom_def split: if_splits)
  assume "(key, s) \<in> set (ord acc)"
  then have "map_get acc key = Some s" using assms(1) f(1) by simp
  then have k: "key \<in> ipvs_key labels ` set bs" "s = ipvs_sum (filter (\<lambda>b. ipvs_key labels b = key) bs)"
    by (simp_all add: f(2) split: if_splits)
  have "find (\<lambda>b. ipvs_key labels b = key) (rev bs) \<noteq> None" using k(1) by (auto simp: find_None_iff)
  then obtain b where b: "find (\<lambda>b. ipvs_key labels b = key) (rev bs) = Some b" by blast
  then obtain i where "i < length (rev bs)" "ipvs_key labels (rev bs ! i) = key" "b = rev bs ! i" by (auto simp: find_Some_iff)
  then have "b \<in> set bs" "ipvs_key labels b = key" using nth_mem [of i "rev bs"] by (simp_all only: set_rev)
  moreover have "map_get_z [] lv key = ipvs_kv labels b" by (simp only: f(3) b map_get_z_def option.map option.case)
  ultimately have c: "\<exists>b \<in> set bs. ipvs_key labels b = key \<and> map_get_z [] lv key = ipvs_kv labels b" by blast
  then show "s = ipvs_sum (filter (\<lambda>b. ipvs_key labels b = key) bs) \<and>
      (\<exists>b \<in> set bs. ipvs_key labels b = key \<and> map_get_z [] lv key = ipvs_kv labels b)"
    using k(2) c by blast
qed

text \<open>Values without a dash can be read back from the key they are joined to, so the entries are those of the combinations.\<close>

definition no_dash :: "string list \<Rightarrow> IPVSBackendStatus list \<Rightarrow> bool" where
  "no_dash labels bs \<longleftrightarrow> (\<forall>b \<in> set bs. \<forall>l \<in> set labels. CHR ''-'' \<notin> set (ipvs_label b l))"

lemma ipvs_key_eq:
  assumes "no_dash labels bs" "b \<in> set bs" "c \<in> set bs"
  shows "ipvs_key labels b = ipvs_key labels c \<longleftrightarrow> ipvs_kv labels b = ipvs_kv labels c"
proof (cases "labels = []")
  case False
  have "Split (ipvs_key labels b) CHR ''-'' = ipvs_kv labels b" if "b \<in> set bs" for b
    by (rule Join_Split) (use False that assms(1) in \<open>auto simp: ipvs_kv_def list_all_iff no_dash_def\<close>)
  then show ?thesis using assms(2,3) by metis
qed (simp add: ipvs_kv_def)

lemma ipvs_entry_kv:
  assumes "range_order ord" "fold (ipvs_add labels) bs ([], []) = (acc, lv)" "no_dash labels bs" "(key, s) \<in> set (ord acc)"
  shows "\<exists>b \<in> set bs. ipvs_key labels b = key \<and> map_get_z [] lv key = ipvs_kv labels b \<and>
    s = ipvs_sum (filter (\<lambda>c. ipvs_kv labels c = ipvs_kv labels b) bs)"
proof -
  obtain b where b: "b \<in> set bs" "ipvs_key labels b = key" "map_get_z [] lv key = ipvs_kv labels b"
    and s: "s = ipvs_sum (filter (\<lambda>b. ipvs_key labels b = key) bs)"
    using ipvs_entries(3) [OF assms(1,2,4)] by blast
  have "filter (\<lambda>c. ipvs_key labels c = key) bs = filter (\<lambda>c. ipvs_kv labels c = ipvs_kv labels b) bs"
  proof (rule filter_cong [OF refl])
    fix c assume "c \<in> set bs"
    then show "ipvs_key labels c = key \<longleftrightarrow> ipvs_kv labels c = ipvs_kv labels b" using ipvs_key_eq [OF assms(3) _ b(1)] b(2) by simp
  qed
  with s have "s = ipvs_sum (filter (\<lambda>c. ipvs_kv labels c = ipvs_kv labels b) bs)" by (simp only:)
  then show ?thesis using b by blast
qed

interpretation ipvs: safe_collector_contract "\<lambda>(ord, env, labels). ipvs_Update ord env labels"
  "\<lambda>(ord, env, labels). range_order ord \<and> \<not> panics (get_IPVSStats env) \<and> \<not> panics (get_IPVSBackendStatus env)"
proof (rule safe_contractI, clarify)
  fix ord :: "(string \<times> ipvsBackendStatus) list \<Rightarrow> (string \<times> ipvsBackendStatus) list" and env :: ipvsEnv and labels
  assume o: "range_order ord" and p: "\<not> panics (get_IPVSStats env)" "\<not> panics (get_IPVSBackendStatus env)"
  have "sound (emit (concat (map (\<lambda>(key, s). ipvs_status_metrics labels s (map_get_z [] lv key)) (ord acc))))"
    if "fold (ipvs_add labels) bs ([], []) = (acc, lv)" for bs acc lv
  proof (rule sound_emit)
    fix m assume "m \<in> set (concat (map (\<lambda>(key, s). ipvs_status_metrics labels s (map_get_z [] lv key)) (ord acc)))"
    then obtain key s where k: "(key, s) \<in> set (ord acc)" and m: "m \<in> set (ipvs_status_metrics labels s (map_get_z [] lv key))"
      by auto
    have "length (map_get_z [] lv key) = length labels" using ipvs_entries(3) [OF o that k] by auto
    then show "labels_ok m" using m ipvs_status_labels by (auto simp: list_all_iff)
  qed
  then have "sound (with_res (map_err (Wrapf ''could not get backend status: %w'' []) (get_IPVSBackendStatus env)) (\<lambda>backendStats.
        let (acc, labelValues) = fold (ipvs_add labels) backendStats ([], [])
        in emit (concat (map (\<lambda>(key, s). ipvs_status_metrics labels s (map_get_z [] labelValues key)) (ord acc)))))"
    using p(2) by (intro sound_with_res) (simp_all split: prod.splits)
  then show "sound (ipvs_Update ord env labels)"
    unfolding ipvs_Update_def
    by (intro sound_with_res [of "map_err ipvs_err (get_IPVSStats env)"] sound_seq sound_emit)
      (use p(1) ipvs_totals_labels in \<open>simp_all add: list_all_iff\<close>)
qed



section \<open>wifi\<close>

definition wifiLabels :: "string list" where
  "wifiLabels = [''device'', ''mac_address'']"

definition wifi_desc :: "string \<Rightarrow> string \<Rightarrow> string list \<Rightarrow> desc" where
  "wifi_desc name help labels = NewDesc (BuildFQName namespace ''wifi'' name) help labels"

definition wifiInterfaceFrequencyHertz :: desc where
  "wifiInterfaceFrequencyHertz = wifi_desc ''interface_frequency_hertz'' ''The current frequency a WiFi interface is operating at, in hertz.'' [''device'']"
definition wifiStationInfo :: desc where
  "wifiStationInfo = wifi_desc ''station_info'' ''Labeled WiFi interface station information as provided by the operating system.''
     [''device'', ''bssid'', ''ssid'', ''mode'']"
definition wifiStationConnectedSecondsTotal :: desc where
  "wifiStationConnectedSecondsTotal = wifi_desc ''station_connected_seconds_total'' ''The total number of seconds a station has been connected to an access point.'' wifiLabels"
definition wifiStationInactiveSeconds :: desc where
  "wifiStationInactiveSeconds = wifi_desc ''station_inactive_seconds'' ''The number of seconds since any wireless activity has occurred on a station.'' wifiLabels"
definition wifiStationReceiveBitsPerSecond :: desc where
  "wifiStationReceiveBitsPerSecond = wifi_desc ''station_receive_bits_per_second'' ''The current WiFi receive bitrate of a station, in bits per second.'' wifiLabels"
definition wifiStationTransmitBitsPerSecond :: desc where
  "wifiStationTransmitBitsPerSecond = wifi_desc ''station_transmit_bits_per_second'' ''The current WiFi transmit bitrate of a station, in bits per second.'' wifiLabels"
definition wifiStationReceiveBytesTotal :: desc where
  "wifiStationReceiveBytesTotal = wifi_desc ''station_receive_bytes_total'' ''The total number of bytes received by a WiFi station.'' wifiLabels"
definition wifiStationTransmitBytesTotal :: desc where
  "wifiStationTransmitBytesTotal = wifi_desc ''station_transmit_bytes_total'' ''The total number of bytes transmitted by a WiFi station.'' wifiLabels"
definition wifiStationSignalDBM :: desc where
  "wifiStationSignalDBM = wifi_desc ''station_signal_dbm'' ''The current WiFi signal strength, in decibel-milliwatts (dBm).'' wifiLabels"
definition wifiStationTransmitRetriesTotal :: desc where
  "wifiStationTransmitRetriesTotal = wifi_desc ''station_transmit_retries_total'' ''The total number of times a station has had to retry while sending a packet.'' wifiLabels"
definition wifiStationTransmitFailedTotal :: desc where
  "wifiStationTransmitFailedTotal = wifi_desc ''station_transmit_failed_total'' ''The total number of times a station has failed to send a packet.'' wifiLabels"
definition wifiStationBeaconLossTotal :: desc where
  "wifiStationBeaconLossTotal = wifi_desc ''station_beacon_loss_total'' ''The total number of times a station has detected a beacon loss.'' wifiLabels"
definition wifiStationTransmittedPacketsTotal :: desc where
  "wifiStationTransmittedPacketsTotal = wifi_desc ''station_transmitted_packets_total'' ''The total number of packets transmitted by a station.'' wifiLabels"
definition wifiStationReceivedPacketsTotal :: desc where
  "wifiStationReceivedPacketsTotal = wifi_desc ''station_received_packets_total'' ''The total number of packets received by a station.'' wifiLabels"

record wifiInterface =
  wi_Name :: string
  wi_Frequency :: goint

record wifiBSS =
  BSSID :: "nat list"
  SSID :: string
  bss_Status :: nat

text \<open>Durations in nanoseconds; bit rates and the signal are signed.\<close>

record wifiStation =
  ws_HardwareAddr :: "nat list"
  ws_Connected :: int
  ws_Inactive :: int
  ws_ReceivedBytes :: goint
  ws_TransmittedBytes :: goint
  ws_ReceivedPackets :: goint
  ws_TransmittedPackets :: goint
  ws_ReceiveBitrate :: goint
  ws_TransmitBitrate :: goint
  ws_Signal :: goint
  ws_TransmitRetries :: goint
  ws_TransmitFailed :: goint
  ws_BeaconLoss :: goint

text \<open>The library, or the stand-in that reads its answers from files when \<^verbatim>\<open>--collector.wifi.fixtures\<close> is given.\<close>

record wifiStater =
  wifi_Interfaces :: "wifiInterface list res"
  wifi_BSS :: "wifiInterface \<Rightarrow> wifiBSS res"
  wifi_StationInfo :: "wifiInterface \<Rightarrow> wifiStation list res"

record wifiEnv =
  wifi_New :: "wifiStater res"
  wf_ReadFile :: "string \<Rightarrow> string res"
  json_interfaces :: "string \<Rightarrow> wifiInterface list res"
  json_bss :: "string \<Rightarrow> wifiBSS res"
  json_stations :: "string \<Rightarrow> wifiStation list res"
  BSSStatusAuthenticated :: nat
  BSSStatusAssociated :: nat
  BSSStatusIBSSJoined :: nat

definition unmarshalJSONFile :: "(string \<Rightarrow> string res) \<Rightarrow> string \<Rightarrow> (string \<Rightarrow> 'v res) \<Rightarrow> string \<Rightarrow> 'v res" where
  "unmarshalJSONFile rd fixtures json fname = bind_res (rd (filepath_Join [fixtures, fname])) json"

definition mockWifiStater :: "wifiEnv \<Rightarrow> string \<Rightarrow> wifiStater" where
  "mockWifiStater env fixtures = \<lparr>
     wifi_Interfaces = unmarshalJSONFile (wf_ReadFile env) fixtures (json_interfaces env) ''interfaces.json'',
     wifi_BSS = (\<lambda>ifi. unmarshalJSONFile (wf_ReadFile env) fixtures (json_bss env) (filepath_Join [wi_Name ifi, ''bss.json''])),
     wifi_StationInfo = (\<lambda>ifi. unmarshalJSONFile (wf_ReadFile env) fixtures (json_stations env) (filepath_Join [wi_Name ifi, ''stationinfo.json'']))\<rparr>"

definition newWifiStater :: "wifiEnv \<Rightarrow> string \<Rightarrow> wifiStater res" where
  "newWifiStater env fixtures = (if fixtures \<noteq> [] then Ok (mockWifiStater env fixtures) else wifi_New env)"

definition mHzToHz :: "goint \<Rightarrow> float64" where
  "mHzToHz mHz = f64_mul (f64_mul (f64_of_int (sint mHz)) (Fin 1000)) (Fin 1000)"

definition bssStatusMode :: "wifiEnv \<Rightarrow> nat \<Rightarrow> string" where
  "bssStatusMode env s =
     (if s = BSSStatusAuthenticated env \<or> s = BSSStatusAssociated env then ''client''
      else if s = BSSStatusIBSSJoined env then ''ad-hoc'' else ''unknown'')"

definition updateBSSStats :: "wifiEnv \<Rightarrow> string \<Rightarrow> wifiBSS \<Rightarrow> metric list" where
  "updateBSSStats env device bss =
     [MustNewConstMetric wifiStationInfo GaugeValue (Fin 1) [device, HardwareAddr_String (BSSID bss), SSID bss, bssStatusMode env (bss_Status bss)]]"

definition updateStationStats :: "string \<Rightarrow> wifiStation \<Rightarrow> metric list" where
  "updateStationStats device info =
     (let ls = [device, HardwareAddr_String (ws_HardwareAddr info)] in
      [MustNewConstMetric wifiStationConnectedSecondsTotal CounterValue (duration_Seconds (ws_Connected info)) ls,
       MustNewConstMetric wifiStationInactiveSeconds GaugeValue (duration_Seconds (ws_Inactive info)) ls,
       MustNewConstMetric wifiStationReceiveBitsPerSecond GaugeValue (f64_of_int (sint (ws_ReceiveBitrate info))) ls,
       MustNewConstMetric wifiStationTransmitBitsPerSecond GaugeValue (f64_of_int (sint (ws_TransmitBitrate info))) ls,
       MustNewConstMetric wifiStationReceiveBytesTotal CounterValue (f64_of_int (sint (ws_ReceivedBytes info))) ls,
       MustNewConstMetric wifiStationTransmitBytesTotal CounterValue (f64_of_int (sint (ws_TransmittedBytes info))) ls,
       MustNewConstMetric wifiStationSignalDBM GaugeValue (f64_of_int (sint (ws_Signal info))) ls,
       MustNewConstMetric wifiStationTransmitRetriesTotal CounterValue (f64_of_int (sint (ws_TransmitRetries info))) ls,
       MustNewConstMetric wifiStationTransmitFailedTotal CounterValue (f64_of_int (sint (ws_TransmitFailed info))) ls,
       MustNewConstMetric wifiStationBeaconLossTotal CounterValue (f64_of_int (sint (ws_BeaconLoss info))) ls,
       MustNewConstMetric wifiStationTransmittedPacketsTotal CounterValue (f64_of_int (sint (ws_TransmittedPackets info))) ls,
       MustNewConstMetric wifiStationReceivedPacketsTotal CounterValue (f64_of_int (sint (ws_ReceivedPackets info))) ls])"

text \<open>What an interface does not have is skipped; any other error ends the update.\<close>

definition wifi_part :: "(error \<Rightarrow> error) \<Rightarrow> 'v res \<Rightarrow> ('v \<Rightarrow> metric list) \<Rightarrow> upd" where
  "wifi_part wrap r f =
     (case r of
        Ok v \<Rightarrow> emit (f v)
      | Err e \<Rightarrow> if errors_Is e ErrNotExist then emit [] else fail (wrap e)
      | Panic p \<Rightarrow> ([], Panic p))"

definition wifi_interface :: "wifiEnv \<Rightarrow> wifiStater \<Rightarrow> wifiInterface \<Rightarrow> upd" where
  "wifi_interface env st ifi =
     (if wi_Name ifi = [] then emit []
      else seq (emit [MustNewConstMetric wifiInterfaceFrequencyHertz GaugeValue (mHzToHz (wi_Frequency ifi)) [wi_Name ifi]])
          (seq (wifi_part (Flatf ''failed to retrieve BSS for device %s: %v'' [wi_Name ifi]) (wifi_BSS st ifi) (updateBSSStats env (wi_Name ifi)))
            (wifi_part (Flatf ''failed to retrieve station info for device %q: %v'' [wi_Name ifi]) (wifi_StationInfo st ifi)
              (\<lambda>stations. concat (map (updateStationStats (wi_Name ifi)) stations)))))"

definition wifi_err :: "error \<Rightarrow> error" where
  "wifi_err e = (if errors_Is e ErrNotExist \<or> errors_Is e ErrPermission then ErrNoData else Wrapf ''failed to access wifi data: %w'' [] e)"

definition wifi_Update :: "wifiEnv \<Rightarrow> string \<Rightarrow> upd" where
  "wifi_Update env fixtures =
     with_res (map_err wifi_err (newWifiStater env fixtures)) (\<lambda>st.
     with_res (map_err (Wrapf ''failed to retrieve wifi interfaces: %w'' []) (wifi_Interfaces st)) (\<lambda>ifis.
       foreach (wifi_interface env st) ifis))"

section \<open>xfrm\<close>

text \<open>The names and help texts of the counters with the field of the statistics each of them exports.\<close>

definition xfrm_table :: "(string \<times> string \<times> string) list" where
  "xfrm_table =
     [(''in_error_packets_total'', ''All errors not matched by other'', ''XfrmInError''),
      (''in_buffer_error_packets_total'', ''No buffer is left'', ''XfrmInBufferError''),
      (''in_hdr_error_packets_total'', ''Header error'', ''XfrmInHdrError''),
      (''in_no_states_packets_total'', ''No state is found i.e. Either inbound SPI, address, or IPsec protocol at SA is wrong'', ''XfrmInNoStates''),
      (''in_state_proto_error_packets_total'', ''Transformation protocol specific error e.g. SA key is wrong'', ''XfrmInStateProtoError''),
      (''in_state_mode_error_packets_total'', ''Transformation mode specific error'', ''XfrmInStateModeError''),
      (''in_state_seq_error_packets_total'', ''Sequence error i.e. Sequence number is out of window'', ''XfrmInStateSeqError''),
      (''in_state_expired_packets_total'', ''State is expired'', ''XfrmInStateExpired''),
      (''in_state_mismatch_packets_total'', ''State has mismatch option e.g. UDP encapsulation type is mismatch'', ''XfrmInStateMismatch''),
      (''in_state_invalid_packets_total'', ''State is invalid'', ''XfrmInStateInvalid''),
      (''in_tmpl_mismatch_packets_total'', ''No matching template for states e.g. Inbound SAs are correct but SP rule is wrong'', ''XfrmInTmplMismatch''),
      (''in_no_pols_packets_total'', ''No policy is found for states e.g. Inbound SAs are correct but no SP is found'', ''XfrmInNoPols''),
      (''in_pol_block_packets_total'', ''Policy discards'', ''XfrmInPolBlock''),
      (''in_pol_error_packets_total'', ''Policy error'', ''XfrmInPolError''),
      (''out_error_packets_total'', ''All errors which is not matched others'', ''XfrmOutError''),
      (''out_bundle_gen_error_packets_total'', ''Bundle generation error'', ''XfrmOutBundleGenError''),
      (''out_bundle_check_error_packets_total'', ''Bundle check error'', ''XfrmOutBundleCheckError''),
      (''out_no_states_packets_total'', ''No state is found'', ''XfrmOutNoStates''),
      (''out_state_proto_error_packets_total'', ''Transformation protocol specific error'', ''XfrmOutStateProtoError''),
      (''out_state_mode_error_packets_total'', ''Transformation mode specific error'', ''XfrmOutStateModeError''),
      (''out_state_seq_error_packets_total'', ''Sequence error i.e. Sequence number overflow'', ''XfrmOutStateSeqError''),
      (''out_state_expired_packets_total'', ''State is expired'', ''XfrmOutStateExpired''),
      (''out_pol_block_packets_total'', ''Policy discards'', ''XfrmOutPolBlock''),
      (''out_pol_dead_packets_total'', ''Policy is dead'', ''XfrmOutPolDead''),
      (''out_pol_error_packets_total'', ''Policy error'', ''XfrmOutPolError''),
      (''fwd_hdr_error_packets_total'', ''Forward routing of a packet is not allowed'', ''XfrmFwdHdrError''),
      (''out_state_invalid_packets_total'', ''State is invalid, perhaps expired'', ''XfrmOutStateInvalid''),
      (''acquire_error_packets_total'', ''State hasn'' @ [CHR 0xE2] @ [CHR 0x80] @ [CHR 0x99] @ ''t been fully acquired before use'', ''XfrmAcquireError'')]"
definition NewXfrmCollector :: "unit res \<Rightarrow> unit res" where
  "NewXfrmCollector procfs_NewFS = map_err (Wrapf ''failed to open procfs: %w'' []) procfs_NewFS"

definition xfrm_Update :: "(string \<Rightarrow> goint) res \<Rightarrow> upd" where
  "xfrm_Update NewXfrmStat =
     with_res NewXfrmStat (\<lambda>stat. emit (map (\<lambda>(name, help, fld).
       MustNewConstMetric (NewDesc (BuildFQName namespace ''xfrm'' name) help []) CounterValue (f64_of_int (sint (stat fld))) []) xfrm_table))"

lemma wifi_Update_skips:
  assumes "wifi_New env = Ok st" "wifi_Interfaces st = Ok ifis"
    and "\<And>ifi. ifi \<in> set ifis \<Longrightarrow> wi_Name ifi \<noteq> [] \<Longrightarrow>
      (\<forall>e. wifi_BSS st ifi = Err e \<longrightarrow> errors_Is e ErrNotExist) \<and> \<not> panics (wifi_BSS st ifi) \<and>
      (\<forall>e. wifi_StationInfo st ifi = Err e \<longrightarrow> errors_Is e ErrNotExist) \<and> \<not> panics (wifi_StationInfo st ifi)"
  shows "wifi_Update env [] = emit (concat (map (\<lambda>ifi.
      MustNewConstMetric wifiInterfaceFrequencyHertz GaugeValue (mHzToHz (wi_Frequency ifi)) [wi_Name ifi] #
      (case wifi_BSS st ifi of Ok bss \<Rightarrow> updateBSSStats env (wi_Name ifi) bss | _ \<Rightarrow> []) @
      (case wifi_StationInfo st ifi of Ok infos \<Rightarrow> concat (map (updateStationStats (wi_Name ifi)) infos) | _ \<Rightarrow> []))
      (filter (\<lambda>ifi. wi_Name ifi \<noteq> []) ifis)))"
proof -
  let ?ms = "\<lambda>ifi. if wi_Name ifi = [] then [] else
      MustNewConstMetric wifiInterfaceFrequencyHertz GaugeValue (mHzToHz (wi_Frequency ifi)) [wi_Name ifi] #
      (case wifi_BSS st ifi of Ok bss \<Rightarrow> updateBSSStats env (wi_Name ifi) bss | _ \<Rightarrow> []) @
      (case wifi_StationInfo st ifi of Ok infos \<Rightarrow> concat (map (updateStationStats (wi_Name ifi)) infos) | _ \<Rightarrow> [])"
  have i: "wifi_interface env st ifi = emit (?ms ifi)" if "ifi \<in> set ifis" for ifi
    using assms(3) [OF that]
    by (cases "wi_Name ifi = []"; cases "wifi_BSS st ifi"; cases "wifi_StationInfo st ifi") (simp_all add: wifi_interface_def wifi_part_def emit_def)
  have "wifi_Update env [] = foreach (wifi_interface env st) ifis"
    by (simp add: wifi_Update_def newWifiStater_def assms(1,2))
  also have "\<dots> = emit (concat (map (\<lambda>ifi. fst (wifi_interface env st ifi)) ifis))"
    by (rule foreach_Ok) (simp add: i)
  also have "map (\<lambda>ifi. fst (wifi_interface env st ifi)) ifis = map ?ms ifis" by (simp add: i)
  also have "concat (map ?ms ifis) = concat (map ?ms (filter (\<lambda>ifi. wi_Name ifi \<noteq> []) ifis))" by (induction ifis) simp_all
  also have "map ?ms (filter (\<lambda>ifi. wi_Name ifi \<noteq> []) ifis) = map (\<lambda>ifi.
      MustNewConstMetric wifiInterfaceFrequencyHertz GaugeValue (mHzToHz (wi_Frequency ifi)) [wi_Name ifi] #
      (case wifi_BSS st ifi of Ok bss \<Rightarrow> updateBSSStats env (wi_Name ifi) bss | _ \<Rightarrow> []) @
      (case wifi_StationInfo st ifi of Ok infos \<Rightarrow> concat (map (updateStationStats (wi_Name ifi)) infos) | _ \<Rightarrow> []))
      (filter (\<lambda>ifi. wi_Name ifi \<noteq> []) ifis)" by simp
  finally show ?thesis .
qed

lemmas wifi_descs =
  wifiInterfaceFrequencyHertz_def wifiStationInfo_def wifiStationConnectedSecondsTotal_def wifiStationInactiveSeconds_def
  wifiStationReceiveBitsPerSecond_def wifiStationTransmitBitsPerSecond_def wifiStationReceiveBytesTotal_def
  wifiStationTransmitBytesTotal_def wifiStationSignalDBM_def wifiStationTransmitRetriesTotal_def wifiStationTransmitFailedTotal_def
  wifiStationBeaconLossTotal_def wifiStationTransmittedPacketsTotal_def wifiStationReceivedPacketsTotal_def wifi_desc_def wifiLabels_def

lemma updateBSSStats_labels: "list_all labels_ok (updateBSSStats env device bss)"
  by (simp add: updateBSSStats_def wifi_descs)

lemma updateStationStats_labels: "list_all labels_ok (updateStationStats device info)"
  by (simp add: updateStationStats_def Let_def wifi_descs)

lemma sound_wifi_part: "\<not> panics r \<Longrightarrow> (\<And>v. list_all labels_ok (f v)) \<Longrightarrow> sound (wifi_part wrap r f)"
  by (cases r) (simp_all add: wifi_part_def sound_def upd_ok_emit)

definition wifi_stater_ok :: "wifiStater \<Rightarrow> bool" where
  "wifi_stater_ok st \<longleftrightarrow> \<not> panics (wifi_Interfaces st) \<and> (\<forall>ifi. \<not> panics (wifi_BSS st ifi) \<and> \<not> panics (wifi_StationInfo st ifi))"

definition wifi_pre :: "wifiEnv \<Rightarrow> bool" where
  "wifi_pre env \<longleftrightarrow> \<not> panics (wifi_New env) \<and> (\<forall>st. wifi_New env = Ok st \<longrightarrow> wifi_stater_ok st) \<and>
     (\<forall>p. \<not> panics (wf_ReadFile env p)) \<and> (\<forall>s. \<not> panics (json_interfaces env s) \<and> \<not> panics (json_bss env s) \<and> \<not> panics (json_stations env s))"

lemma unmarshalJSONFile_no_panic: "(\<And>p. \<not> panics (rd p)) \<Longrightarrow> (\<And>s. \<not> panics (json s)) \<Longrightarrow> \<not> panics (unmarshalJSONFile rd d json n)"
  by (simp add: unmarshalJSONFile_def panics_bind_res)

lemma newWifiStater_ok: "wifi_pre env \<Longrightarrow> \<not> panics (newWifiStater env d) \<and> (\<forall>st. newWifiStater env d = Ok st \<longrightarrow> wifi_stater_ok st)"
  by (auto simp: wifi_pre_def newWifiStater_def mockWifiStater_def wifi_stater_ok_def unmarshalJSONFile_no_panic)

interpretation wifi: safe_collector_contract "\<lambda>(env, fixtures). wifi_Update env fixtures" "\<lambda>(env, fixtures). wifi_pre env"
proof (rule safe_contractI, clarify)
  fix env :: wifiEnv and fixtures assume p: "wifi_pre env"
  have "sound (wifi_interface env st ifi)" if "wifi_stater_ok st" for st ifi
  proof -
    have "list_all labels_ok (concat (map (updateStationStats d) infos))" for d infos
      using updateStationStats_labels by (induction infos) simp_all
    then have "sound (wifi_part w (wifi_StationInfo st ifi) (\<lambda>infos. concat (map (updateStationStats d) infos)))"
      "sound (wifi_part w (wifi_BSS st ifi) (updateBSSStats env d))" for w d
      using that updateBSSStats_labels by (auto simp: wifi_stater_ok_def intro!: sound_wifi_part)
    then show ?thesis by (auto simp: wifi_interface_def wifi_descs intro!: sound_seq)
  qed
  then show "sound (wifi_Update env fixtures)"
    using newWifiStater_ok [OF p, of fixtures]
    unfolding wifi_Update_def by (intro sound_with_res sound_foreach) (auto simp: wifi_stater_ok_def)
qed

interpretation xfrm: safe_collector_contract xfrm_Update "\<lambda>r. \<not> panics r"
  by (rule safe_contractI) (auto simp: xfrm_Update_def intro!: sound_with_res sound_emit)

section \<open>Properties\<close>

text \<open>
  The label flag: the known labels are taken in their own order, each at most once, and unknown ones are reported sorted.
\<close>

theorem parseIpvsLabels_known:
  assumes "range_order ord"
  shows "parseIpvsLabels ord flag =
    (let given = set (filter (\<lambda>l. l \<noteq> []) (Split flag CHR '','')) in
     if given \<subseteq> set fullIpvsBackendLabels then Ok (filter (\<lambda>l. l \<in> given) fullIpvsBackendLabels)
     else Err (Errorf ''unknown IPVS backend labels: %q'' [Join (sorted_list_of_set (given - set fullIpvsBackendLabels)) '', '']))"
proof -
  let ?m = "fold (\<lambda>label m. if label \<noteq> [] then map_put label True m else m) (Split flag CHR '','') []"
  let ?left = "fold map_del fullIpvsBackendLabels ?m"
  let ?given = "set (filter (\<lambda>l. l \<noteq> []) (Split flag CHR '',''))"
  have g: "map_get_z False ?m l \<longleftrightarrow> l \<in> ?given" for l by (auto simp: map_get_z_def labelSet_get)
  have w: "wf_map ?left" by (intro fold_map_del_wf labelSet_wf) simp
  have k: "fst ` set ?left = ?given - set fullIpvsBackendLabels"
    by (auto simp: wf_map_keys fold_map_del_get labelSet_get dom_def)
  have s: "sort (map fst (ord ?left)) = sorted_list_of_set (fst ` set ?left)"
  proof (rule sorted_distinct_set_unique)
    show "distinct (sort (map fst (ord ?left)))" using range_order_keys [OF assms, of ?left] w by simp
    show "set (sort (map fst (ord ?left))) = set (sorted_list_of_set (fst ` set ?left))" using assms by simp
  qed simp_all
  have "?left = [] \<longleftrightarrow> fst ` set ?left = {}" by simp
  also have "\<dots> \<longleftrightarrow> ?given \<subseteq> set fullIpvsBackendLabels" unfolding k by blast
  finally have "?left = [] \<longleftrightarrow> ?given \<subseteq> set fullIpvsBackendLabels" .
  then show ?thesis
    unfolding parseIpvsLabels_def Let_def s unfolding g k by simp
qed

theorem parseIpvsLabels_known_witness:
  "parseIpvsLabels rev ''zone,proto,local_port,proto,rack'' = Err (Errorf ''unknown IPVS backend labels: %q'' [''rack, zone'']) \<and>
   parseIpvsLabels rev ''proto,local_port,proto'' = Ok [''local_port'', ''proto'']"
proof -
  have s: "Split ''zone,proto,local_port,proto,rack'' CHR '','' = [''zone'', ''proto'', ''local_port'', ''proto'', ''rack'']"
    "Split ''proto,local_port,proto'' CHR '','' = [''proto'', ''local_port'', ''proto'']" by code_simp+
  have d: "set (filter (\<lambda>l. l \<noteq> []) [''zone'', ''proto'', ''local_port'', ''proto'', ''rack'']) - set fullIpvsBackendLabels = set [''rack'', ''zone'']"
    by code_simp
  have n: "\<not> set (filter (\<lambda>l. l \<noteq> []) [''zone'', ''proto'', ''local_port'', ''proto'', ''rack'']) \<subseteq> set fullIpvsBackendLabels" by code_simp
  have y: "set (filter (\<lambda>l. l \<noteq> []) [''proto'', ''local_port'', ''proto'']) \<subseteq> set fullIpvsBackendLabels" by code_simp
  have t: "filter (\<lambda>l. l \<in> set (filter (\<lambda>l. l \<noteq> []) [''proto'', ''local_port'', ''proto''])) fullIpvsBackendLabels = [''local_port'', ''proto'']" by code_simp
  have r: "sort (remdups [''rack'', ''zone'']) = [''rack'', ''zone'']" by code_simp
  have j: "Join [''rack'', ''zone''] '', '' = ''rack, zone''" by code_simp
  show ?thesis
    unfolding parseIpvsLabels_known [OF range_order_rev] s Let_def d t if_not_P [OF n] if_P [OF y] sorted_list_of_set_sort_remdups r j by simp
qed

text \<open>
  C21: One series per combination of label values: its value is the sum over the back ends that have it, and the dash that joins the
  values into a key does not confuse combinations as long as no value contains one.
\<close>

theorem ipvs_backend_sums:
  assumes "range_order ord" "get_IPVSStats env = Ok st" "get_IPVSBackendStatus env = Ok bs"
    and "no_dash labels bs"
  shows "\<exists>kvs. distinct kvs \<and> set kvs = ipvs_kv labels ` set bs \<and>
    ipvs_Update ord env labels = emit (ipvs_totals st @
      concat (map (\<lambda>kv. ipvs_status_metrics labels (ipvs_sum (filter (\<lambda>b. ipvs_kv labels b = kv) bs)) kv) kvs))"
proof -
  obtain acc lv where f: "fold (ipvs_add labels) bs ([], []) = (acc, lv)" by (cases "fold (ipvs_add labels) bs ([], [])")
  note en = ipvs_entries(1,2) [OF assms(1) f]
  note inj = ipvs_key_eq [OF assms(4)] and e = ipvs_entry_kv [OF assms(1) f assms(4)]
  let ?kvs = "map (\<lambda>(key, s). map_get_z [] lv key) (ord acc)"
  have "distinct ?kvs"
  proof (rule distinct_map [THEN iffD2], intro conjI)
    show "distinct (ord acc)" using en(1) by (simp add: distinct_map)
    show "inj_on (\<lambda>(key, s). map_get_z [] lv key) (set (ord acc))"
    proof (rule inj_onI, clarify)
      fix k s k' s' assume m: "(k, s) \<in> set (ord acc)" "(k', s') \<in> set (ord acc)" and eq: "map_get_z [] lv k = map_get_z [] lv k'"
      obtain b where b: "b \<in> set bs" "ipvs_key labels b = k" "map_get_z [] lv k = ipvs_kv labels b"
        "s = ipvs_sum (filter (\<lambda>c. ipvs_kv labels c = ipvs_kv labels b) bs)" using e [OF m(1)] by blast
      obtain b' where b': "b' \<in> set bs" "ipvs_key labels b' = k'" "map_get_z [] lv k' = ipvs_kv labels b'"
        "s' = ipvs_sum (filter (\<lambda>c. ipvs_kv labels c = ipvs_kv labels b') bs)" using e [OF m(2)] by blast
      have kv: "ipvs_kv labels b = ipvs_kv labels b'" using b(3) b'(3) eq by (simp only:)
      then show "k = k' \<and> s = s'" using b(2,4) b'(2,4) by (simp only: simp_thms)
    qed
  qed
  moreover have "set ?kvs = ipvs_kv labels ` set bs"
  proof (intro equalityI subsetI)
    fix kv assume "kv \<in> set ?kvs"
    then obtain k s where k: "(k, s) \<in> set (ord acc)" "kv = map_get_z [] lv k" by auto
    then show "kv \<in> ipvs_kv labels ` set bs" using e [OF k(1)] by blast
  next
    fix kv assume "kv \<in> ipvs_kv labels ` set bs"
    then obtain b where b: "b \<in> set bs" "kv = ipvs_kv labels b" by blast
    then have "ipvs_key labels b \<in> fst ` set (ord acc)" using en(2) by simp
    then obtain s where k: "(ipvs_key labels b, s) \<in> set (ord acc)" by auto
    obtain c where "c \<in> set bs" "ipvs_key labels c = ipvs_key labels b" "map_get_z [] lv (ipvs_key labels b) = ipvs_kv labels c"
      using e [OF k] by blast
    then have "map_get_z [] lv (ipvs_key labels b) = kv" using inj [of c b] b by (simp only: simp_thms)
    then show "kv \<in> set ?kvs" using k by (force simp only: set_map)
  qed
  moreover have "map (\<lambda>(key, s). ipvs_status_metrics labels s (map_get_z [] lv key)) (ord acc) =
      map (\<lambda>kv. ipvs_status_metrics labels (ipvs_sum (filter (\<lambda>b. ipvs_kv labels b = kv) bs)) kv) ?kvs"
  proof (clarsimp)
    fix k s assume k: "(k, s) \<in> set (ord acc)"
    show "ipvs_status_metrics labels s (map_get_z [] lv k) =
        ipvs_status_metrics labels (ipvs_sum (filter (\<lambda>b. ipvs_kv labels b = map_get_z [] lv k) bs)) (map_get_z [] lv k)"
      using e [OF k] by (elim bexE conjE) (simp only:)
  qed
  ultimately show ?thesis
    by (intro exI [of _ ?kvs]) (simp add: ipvs_Update_def assms(2,3) f emit_def del: map_map map_eq_conv)
qed


theorem ipvs_backend_sums_witness:
  "\<exists>kvs. set kvs = {[''TCP''], [''UDP'']} \<and>
    ipvs_Update rev \<lparr>get_IPVSStats = Ok \<lparr>st_Connections = 4, st_IncomingPackets = 0, st_OutgoingPackets = 0, st_IncomingBytes = 0, st_OutgoingBytes = 0\<rparr>,
        get_IPVSBackendStatus = Ok (map (\<lambda>(p, n). \<lparr>be_LocalAddress = [], be_RemoteAddress = [], be_LocalMark = [], be_Proto = p, be_LocalPort = 80,
          be_RemotePort = 80, be_ActiveConn = n, be_InactConn = 0, be_Weight = 1\<rparr>) [(''TCP'', 5), (''UDP'', 1), (''TCP'', 2)])\<rparr> [''proto''] =
      emit (ipvs_totals \<lparr>st_Connections = 4, st_IncomingPackets = 0, st_OutgoingPackets = 0, st_IncomingBytes = 0, st_OutgoingBytes = 0\<rparr> @
        concat (map (\<lambda>kv. ipvs_status_metrics [''proto'']
          (if kv = [''TCP''] then \<lparr>ActiveConn = 7, InactConn = 0, Weight = 2\<rparr> else \<lparr>ActiveConn = 1, InactConn = 0, Weight = 1\<rparr>) kv) kvs))"
proof -
  let ?st = "\<lparr>st_Connections = 4, st_IncomingPackets = 0, st_OutgoingPackets = 0, st_IncomingBytes = 0, st_OutgoingBytes = 0\<rparr>"
  let ?bs = "map (\<lambda>(p, n). \<lparr>be_LocalAddress = [], be_RemoteAddress = [], be_LocalMark = [], be_Proto = p, be_LocalPort = 80,
          be_RemotePort = 80, be_ActiveConn = n, be_InactConn = 0, be_Weight = 1\<rparr>) [(''TCP'', 5), (''UDP'', 1), (''TCP'', 2)]"
  let ?env = "\<lparr>get_IPVSStats = Ok ?st, get_IPVSBackendStatus = Ok ?bs\<rparr>"
  have n: "no_dash [''proto''] ?bs" by (simp add: no_dash_def ipvs_label_def)
  have s: "ipvs_kv [''proto''] ` set ?bs = {[''TCP''], [''UDP'']}" by (auto simp: ipvs_kv_def ipvs_label_def)
  have e: "ipvs_sum (filter (\<lambda>b. ipvs_kv [''proto''] b = kv) ?bs) =
      (if kv = [''TCP''] then \<lparr>ActiveConn = 7, InactConn = 0, Weight = 2\<rparr> else \<lparr>ActiveConn = 1, InactConn = 0, Weight = 1\<rparr>)"
    if "kv \<in> {[''TCP''], [''UDP'']}" for kv
    using that by (auto simp: ipvs_kv_def ipvs_label_def ipvs_sum_def)
  have "get_IPVSStats ?env = Ok ?st" "get_IPVSBackendStatus ?env = Ok ?bs" by (simp_all only: ipvsEnv.select_convs)
  note r = ipvs_backend_sums [OF range_order_rev this n]
  obtain kvs where k: "set kvs = {[''TCP''], [''UDP'']}" and u: "ipvs_Update rev ?env [''proto''] = emit (ipvs_totals ?st @
      concat (map (\<lambda>kv. ipvs_status_metrics [''proto''] (ipvs_sum (filter (\<lambda>b. ipvs_kv [''proto''] b = kv) ?bs)) kv) kvs))"
    using r [unfolded s] by (elim exE conjE)
  have "map (\<lambda>kv. ipvs_status_metrics [''proto''] (ipvs_sum (filter (\<lambda>b. ipvs_kv [''proto''] b = kv) ?bs)) kv) kvs =
      map (\<lambda>kv. ipvs_status_metrics [''proto'']
        (if kv = [''TCP''] then \<lparr>ActiveConn = 7, InactConn = 0, Weight = 2\<rparr> else \<lparr>ActiveConn = 1, InactConn = 0, Weight = 1\<rparr>) kv) kvs"
    by (rule map_cong [OF refl]) (simp only: e k)
  then show ?thesis
    by (intro exI [of _ kvs] conjI k) (simp only: u)
qed


end
