(* ===== verification/Perf.thy ===== *)
theory Perf
  imports Registry Helpers
begin

text \<open>
  The performance counter collector, from \<^verbatim>\<open>perf_linux.go\<close>. The profilers of the perf library (opening, starting and reading
  one) are parameters: a profiler is a number the library hands out.
\<close>

unbundle bit_operations_syntax

section \<open>The list of CPUs\<close>

text \<open>\<^verbatim>\<open>for i := start; i <= end; i += stride\<close>: \<open>None\<close> is a loop that never ends.\<close>

partial_function (option) stride_loop :: "goint \<Rightarrow> goint \<Rightarrow> goint \<Rightarrow> goint list option" where
  "stride_loop i stop stride =
     (if sint i \<le> sint stop then Option.bind (stride_loop (i + stride) stop stride) (\<lambda>cpus. Some (i # cpus)) else Some [])"

definition goint_of :: "int res \<Rightarrow> goint res" where
  "goint_of r = bind_res r (\<lambda>n. Ok (word_of_int n))"

text \<open>A range with its optional stride.\<close>

definition perf_range :: "string \<Rightarrow> string \<Rightarrow> (goint \<times> goint \<times> goint) res" where
  "perf_range cpuFlag part =
     (let strideSet = Split part CHR '':'' in
      bind_res (if length strideSet = 2 then goint_of (Atoi (strideSet ! 1)) else Ok 1) (\<lambda>stride.
      let rangeSet = Split (strideSet ! 0) CHR ''-'' in
      if length rangeSet \<noteq> 2 then Err (Errorf ''invalid flag value %q'' [cpuFlag])
      else bind_res (goint_of (Atoi (rangeSet ! 0))) (\<lambda>start.
           bind_res (goint_of (Atoi (rangeSet ! 1))) (\<lambda>stop. Ok (start, stop, stride)))))"

text \<open>The loop over the comma-separated parts; an error ends it, and so does a part whose loop does not end.\<close>

fun perf_cpus :: "string \<Rightarrow> string list \<Rightarrow> goint list \<Rightarrow> goint list res option" where
  "perf_cpus cpuFlag [] cpus = Some (Ok cpus)"
| "perf_cpus cpuFlag (part # ss) cpus =
     (if \<not> Contains part ''-'' then
        (case goint_of (Atoi part) of
           Ok cpu \<Rightarrow> perf_cpus cpuFlag ss (cpus @ [cpu])
         | Err e \<Rightarrow> Some (Err e)
         | Panic p \<Rightarrow> Some (Panic p))
      else
        (case perf_range cpuFlag part of
           Ok (start, stop, stride) \<Rightarrow>
             Option.bind (stride_loop start stop stride) (\<lambda>cs. perf_cpus cpuFlag ss (cpus @ cs))
         | Err e \<Rightarrow> Some (Err e)
         | Panic p \<Rightarrow> Some (Panic p)))"

definition perfCPUFlagToCPUs :: "string \<Rightarrow> goint list res option" where
  "perfCPUFlagToCPUs cpuFlag = perf_cpus cpuFlag (Split cpuFlag CHR '','') []"

section \<open>Tracepoints\<close>

record perfTracepoint =
  tp_subsystem :: string
  tp_event :: string

definition tp_label :: "perfTracepoint \<Rightarrow> string" where
  "tp_label t = tp_subsystem t @ ''_'' @ tp_event t"

definition tp_tracepoint :: "perfTracepoint \<Rightarrow> string" where
  "tp_tracepoint t = tp_subsystem t @ '':'' @ tp_event t"

fun perfTracepointFlagToTracepoints :: "string list \<Rightarrow> perfTracepoint list res" where
  "perfTracepointFlagToTracepoints [] = Ok []"
| "perfTracepointFlagToTracepoints (tracepoint # ts) =
     (let sp = Split tracepoint CHR '':'' in
      if length sp \<noteq> 2 then Err (Errorf ''invalid tracepoint config %v'' [tracepoint])
      else bind_res (perfTracepointFlagToTracepoints ts) (\<lambda>rest. Ok (\<lparr>tp_subsystem = sp ! 0, tp_event = sp ! 1\<rparr> # rest)))"

text \<open>
  What the collector uses of the library for one kind of profiler: opening one for a CPU gives a profiler and perhaps an
  error, which is ignored if the profiler has something to profile.
\<close>

record 'v profilerApi =
  NewProfiler :: "goint \<Rightarrow> uint64 \<Rightarrow> nat \<times> error option"
  HasProfilers :: "nat \<Rightarrow> bool"
  StartProfiler :: "nat \<Rightarrow> unit res"
  Profile :: "nat \<Rightarrow> 'v res"

type_synonym counters = "string \<Rightarrow> uint64 option"

record perfEnv =
  NumCPU :: nat
  TracepointEventAttr :: "string \<Rightarrow> string \<Rightarrow> nat res"
  NewGroupProfiler :: "goint \<Rightarrow> nat list \<Rightarrow> nat res"
  GroupStart :: "nat \<Rightarrow> unit res"
  GroupProfile :: "nat \<Rightarrow> uint64 list res"
  hw_api :: "counters profilerApi"
  sw_api :: "counters profilerApi"
  ca_api :: "counters profilerApi"
  profiler_bit :: "string \<Rightarrow> uint64"
  AllHardwareProfilers :: uint64
  AllSoftwareProfilers :: uint64

definition perfSubsystem :: string where
  "perfSubsystem = ''perf''"

record perfTracepointCollector =
  tc_descs :: "(string, (string, desc) gomap) gomap"
  collectionOrder :: "string list"
  tc_profilers :: "(goint, nat) gomap"

definition tp_desc :: "perfTracepoint \<Rightarrow> desc" where
  "tp_desc t = NewDesc (BuildFQName namespace perfSubsystem (tp_label t)) (''Perf tracepoint '' @ tp_tracepoint t) [''cpu'']"

text \<open>The loop over the tracepoints fills the nested map of descriptors.\<close>

definition tp_put :: "perfTracepoint \<Rightarrow> (string, (string, desc) gomap) gomap \<Rightarrow> (string, (string, desc) gomap) gomap" where
  "tp_put t descs = map_put (tp_subsystem t) (map_put (tp_event t) (tp_desc t) (map_get_z [] descs (tp_subsystem t))) descs"

fun tp_attrs :: "perfEnv \<Rightarrow> perfTracepoint list \<Rightarrow> nat list res" where
  "tp_attrs env [] = Ok []"
| "tp_attrs env (t # ts) =
     bind_res (TracepointEventAttr env (tp_subsystem t) (tp_event t)) (\<lambda>a. bind_res (tp_attrs env ts) (\<lambda>rest. Ok (a # rest)))"

fun open_groups :: "perfEnv \<Rightarrow> nat list \<Rightarrow> goint list \<Rightarrow> (goint, nat) gomap \<Rightarrow> (goint, nat) gomap res" where
  "open_groups env attrs [] m = Ok m"
| "open_groups env attrs (cpu # cpus) m =
     bind_res (NewGroupProfiler env cpu attrs) (\<lambda>p. open_groups env attrs cpus (map_put cpu p m))"

fun start_groups :: "perfEnv \<Rightarrow> (goint \<times> nat) list \<Rightarrow> unit res" where
  "start_groups env [] = Ok ()"
| "start_groups env ((cpu, p) # ps) = bind_res (GroupStart env p) (\<lambda>_. start_groups env ps)"

definition newPerfTracepointCollector ::
  "((goint \<times> nat) list \<Rightarrow> (goint \<times> nat) list) \<Rightarrow> perfEnv \<Rightarrow> string list \<Rightarrow> goint list \<Rightarrow> perfTracepointCollector res" where
  "newPerfTracepointCollector ord env flags cpus =
     bind_res (perfTracepointFlagToTracepoints flags) (\<lambda>ts.
     bind_res (tp_attrs env ts) (\<lambda>attrs.
     bind_res (open_groups env attrs cpus []) (\<lambda>profilers.
     bind_res (start_groups env (ord profilers)) (\<lambda>_.
       Ok \<lparr>tc_descs = fold tp_put ts [], collectionOrder = map tp_tracepoint ts, tc_profilers = profilers\<rparr>))))"

text \<open>
  The values of a group are matched with the configured order by their position; a value beyond it, or a name that is not in
  the map of descriptors, would crash.
\<close>

definition tp_lookup :: "perfTracepointCollector \<Rightarrow> string \<Rightarrow> desc res" where
  "tp_lookup c descKey =
     (let descKeySlice = Split descKey CHR '':'' in
      bind_res (idx descKeySlice 0) (\<lambda>s. bind_res (idx descKeySlice 1) (\<lambda>ev.
        case map_get (map_get_z [] (tc_descs c) s) ev of
          Some d \<Rightarrow> Ok d
        | None \<Rightarrow> Panic ''nil descriptor'')))"

definition tp_value :: "perfTracepointCollector \<Rightarrow> string \<Rightarrow> nat \<times> uint64 \<Rightarrow> upd" where
  "tp_value c cpuid = (\<lambda>(i, v).
     with_res (bind_res (idx (collectionOrder c) i) (tp_lookup c)) (\<lambda>d.
       emit [MustNewConstMetric d CounterValue (f64_of_nat (unat v)) [cpuid]]))"

definition tp_updateCPU :: "perfEnv \<Rightarrow> perfTracepointCollector \<Rightarrow> goint \<Rightarrow> upd" where
  "tp_updateCPU env c cpu =
     with_res (case map_get (tc_profilers c) cpu of None \<Rightarrow> Panic ''nil pointer dereference'' | Some p \<Rightarrow> GroupProfile env p) (\<lambda>vs.
       foreach (tp_value c (Itoa (sint cpu))) (enumerate 0 vs))"

definition tp_update :: "((goint \<times> nat) list \<Rightarrow> (goint \<times> nat) list) \<Rightarrow> perfEnv \<Rightarrow> perfTracepointCollector \<Rightarrow> upd" where
  "tp_update ord env c = foreach (\<lambda>(cpu, p). tp_updateCPU env c cpu) (ord (tc_profilers c))"

section \<open>The collector\<close>

text \<open>The names of profilers on the command line and the bits of the library they stand for.\<close>

definition perfHardwareProfilerMap :: "(string \<times> string) list" where
  "perfHardwareProfilerMap =
     [(''CpuCycles'', ''CpuCyclesProfiler''),
      (''CpuInstr'', ''CpuInstrProfiler''),
      (''CacheRef'', ''CacheRefProfiler''),
      (''CacheMisses'', ''CacheMissesProfiler''),
      (''BranchInstr'', ''BranchInstrProfiler''),
      (''BranchMisses'', ''BranchMissesProfiler''),
      (''StalledCyclesBackend'', ''StalledCyclesBackendProfiler''),
      (''StalledCyclesFrontend'', ''StalledCyclesFrontendProfiler''),
      (''RefCpuCycles'', ''RefCpuCyclesProfiler'')]"

definition perfSoftwareProfilerMap :: "(string \<times> string) list" where
  "perfSoftwareProfilerMap =
     [(''PageFault'', ''PageFaultProfiler''),
      (''ContextSwitch'', ''ContextSwitchProfiler''),
      (''CpuMigration'', ''CpuMigrationProfiler''),
      (''MinorFault'', ''MinorFaultProfiler''),
      (''MajorFault'', ''MajorFaultProfiler'')]"

definition perfCacheProfilerMap :: "(string \<times> string) list" where
  "perfCacheProfilerMap =
     [(''L1DataReadHit'', ''L1DataReadHitProfiler''),
      (''L1DataReadMiss'', ''L1DataReadMissProfiler''),
      (''L1DataWriteHit'', ''L1DataWriteHitProfiler''),
      (''L1InstrReadMiss'', ''L1InstrReadMissProfiler''),
      (''LLReadHit'', ''LLReadHitProfiler''),
      (''LLReadMiss'', ''LLReadMissProfiler''),
      (''LLWriteHit'', ''LLWriteHitProfiler''),
      (''LLWriteMiss'', ''LLWriteMissProfiler''),
      (''InstrTLBReadHit'', ''InstrTLBReadHitProfiler''),
      (''InstrTLBReadMiss'', ''InstrTLBReadMissProfiler''),
      (''BPUReadHit'', ''BPUReadHitProfiler''),
      (''BPUReadMiss'', ''BPUReadMissProfiler''),
      (''DataTLBReadHit'', ''DataTLBReadHitProfiler''),
      (''DataTLBReadMiss'', ''DataTLBReadMissProfiler''),
      (''DataTLBWriteHit'', ''DataTLBWriteHitProfiler''),
      (''DataTLBWriteMiss'', ''DataTLBWriteMissProfiler'')]"

definition default_cache_profilers :: "string list" where
  "default_cache_profilers =
     [''L1DataReadHitProfiler'',
      ''L1DataReadMissProfiler'',
      ''L1DataWriteHitProfiler'',
      ''L1InstrReadMissProfiler'',
      ''InstrTLBReadHitProfiler'',
      ''InstrTLBReadMissProfiler'',
      ''DataTLBReadHitProfiler'',
      ''DataTLBReadMissProfiler'',
      ''DataTLBWriteHitProfiler'',
      ''DataTLBWriteMissProfiler'',
      ''LLReadHitProfiler'',
      ''LLReadMissProfiler'',
      ''LLWriteHitProfiler'',
      ''LLWriteMissProfiler'',
      ''BPUReadHitProfiler'',
      ''BPUReadMissProfiler'']"

text \<open>Given names replace the default; an unknown one is only logged.\<close>

definition profiler_mask :: "(string \<Rightarrow> uint64) \<Rightarrow> (string \<times> string) list \<Rightarrow> uint64 \<Rightarrow> string list \<Rightarrow> uint64" where
  "profiler_mask bits names all flags =
     (if flags \<noteq> [] then fold (\<lambda>hf m. case map_get names hf of Some v \<Rightarrow> m OR bits v | None \<Rightarrow> m) flags 0 else all)"

definition default_cache :: "(string \<Rightarrow> uint64) \<Rightarrow> uint64" where
  "default_cache bits = fold (\<lambda>v m. m OR bits v) default_cache_profilers 0"

definition perf_hw_descriptions :: "(string \<times> string) list" where
  "perf_hw_descriptions =
     [(''cpucycles_total'', ''Number of CPU cycles (frequency scaled)''),
      (''instructions_total'', ''Number of CPU instructions''),
      (''branch_instructions_total'', ''Number of CPU branch instructions''),
      (''branch_misses_total'', ''Number of CPU branch misses''),
      (''cache_refs_total'', ''Number of cache references (non frequency scaled)''),
      (''cache_misses_total'', ''Number of cache misses''),
      (''ref_cpucycles_total'', ''Number of CPU cycles''),
      (''stalled_cycles_backend_total'', ''Number of stalled backend CPU cycles''),
      (''stalled_cycles_frontend_total'', ''Number of stalled frontend CPU cycles'')]"

definition perf_sw_descriptions :: "(string \<times> string) list" where
  "perf_sw_descriptions =
     [(''page_faults_total'', ''Number of page faults''),
      (''context_switches_total'', ''Number of context switches''),
      (''cpu_migrations_total'', ''Number of CPU process migrations''),
      (''minor_faults_total'', ''Number of minor page faults''),
      (''major_faults_total'', ''Number of major page faults'')]"

definition perf_ca_descriptions :: "(string \<times> string) list" where
  "perf_ca_descriptions =
     [(''cache_l1d_read_hits_total'', ''Number L1 data cache read hits''),
      (''cache_l1d_read_misses_total'', ''Number L1 data cache read misses''),
      (''cache_l1d_write_hits_total'', ''Number L1 data cache write hits''),
      (''cache_l1_instr_read_misses_total'', ''Number instruction L1 instruction read misses''),
      (''cache_tlb_instr_read_hits_total'', ''Number instruction TLB read hits''),
      (''cache_tlb_instr_read_misses_total'', ''Number instruction TLB read misses''),
      (''cache_tlb_data_read_hits_total'', ''Number of data TLB read hits''),
      (''cache_tlb_data_read_misses_total'', ''Number of data TLB read misses''),
      (''cache_tlb_data_write_hits_total'', ''Number of data TLB write hits''),
      (''cache_tlb_data_write_misses_total'', ''Number of data TLB write misses''),
      (''cache_ll_read_hits_total'', ''Number last level read hits''),
      (''cache_ll_read_misses_total'', ''Number last level read misses''),
      (''cache_ll_write_hits_total'', ''Number last level write hits''),
      (''cache_ll_write_misses_total'', ''Number last level write misses''),
      (''cache_bpu_read_hits_total'', ''Number BPU read hits''),
      (''cache_bpu_read_misses_total'', ''Number BPU read misses'')]"

definition perf_desc :: "(string, desc) gomap" where
  "perf_desc = map (\<lambda>(name, help). (name, NewDesc (BuildFQName namespace perfSubsystem name) help [''cpu'']))
     (perf_hw_descriptions @ perf_sw_descriptions @ perf_ca_descriptions)"

record perfFlags =
  perfCPUs :: string
  perfTracepoint :: "string list"
  perfNoHwProfiler :: bool
  perfHwProfiler :: "string list"
  perfNoSwProfiler :: bool
  perfSwProfiler :: "string list"
  perfNoCaProfiler :: bool
  perfCaProfiler :: "string list"

text \<open>
  A pointer to a profiler is a number of its own, counted by the allocations of its kind, with the profiler it points to. The
  map from CPUs to pointers forgets a profiler whose CPU is given twice; the map from pointers to CPUs does not.
\<close>

type_synonym profilerPtr = "nat \<times> nat"

record profilerMaps =
  cpu_profilers :: "(goint, profilerPtr) gomap"
  profiler_cpu :: "(profilerPtr, goint) gomap"

record perfCollector =
  hw_maps :: profilerMaps
  sw_maps :: profilerMaps
  ca_maps :: profilerMaps
  tracepointCollector :: "perfTracepointCollector option"

definition no_profilers :: profilerMaps where
  "no_profilers = \<lparr>cpu_profilers = [], profiler_cpu = []\<rparr>"

definition open_profiler :: "counters profilerApi \<Rightarrow> bool \<Rightarrow> uint64 \<Rightarrow> goint \<Rightarrow> profilerMaps \<Rightarrow> profilerMaps res" where
  "open_profiler api disabled msk cpu m =
     (if disabled then Ok m
      else let (p, err) = NewProfiler api cpu msk in
        case (if \<not> HasProfilers api p then err else None) of
          Some e \<Rightarrow> Err e
        | None \<Rightarrow> bind_res (StartProfiler api p) (\<lambda>_.
            let ptr = (length (profiler_cpu m), p)
            in Ok \<lparr>cpu_profilers = map_put cpu ptr (cpu_profilers m), profiler_cpu = map_put ptr cpu (profiler_cpu m)\<rparr>))"

fun open_all :: "perfEnv \<Rightarrow> perfFlags \<Rightarrow> uint64 \<times> uint64 \<times> uint64 \<Rightarrow> goint list \<Rightarrow> perfCollector \<Rightarrow> perfCollector res" where
  "open_all env fl masks [] c = Ok c"
| "open_all env fl (hm, sm, cm) (cpu # cpus) c =
     bind_res (open_profiler (hw_api env) (perfNoHwProfiler fl) hm cpu (hw_maps c)) (\<lambda>h.
     bind_res (open_profiler (sw_api env) (perfNoSwProfiler fl) sm cpu (sw_maps c)) (\<lambda>s.
     bind_res (open_profiler (ca_api env) (perfNoCaProfiler fl) cm cpu (ca_maps c)) (\<lambda>a.
       open_all env fl (hm, sm, cm) cpus (c\<lparr>hw_maps := h, sw_maps := s, ca_maps := a\<rparr>))))"

definition perf_masks :: "perfEnv \<Rightarrow> perfFlags \<Rightarrow> uint64 \<times> uint64 \<times> uint64" where
  "perf_masks env fl =
     (profiler_mask (profiler_bit env) perfHardwareProfilerMap (AllHardwareProfilers env) (perfHwProfiler fl),
      profiler_mask (profiler_bit env) perfSoftwareProfilerMap (AllSoftwareProfilers env) (perfSwProfiler fl),
      profiler_mask (profiler_bit env) perfCacheProfilerMap (default_cache (profiler_bit env)) (perfCaProfiler fl))"

definition flag_cpus :: "perfEnv \<Rightarrow> string \<Rightarrow> goint list res option" where
  "flag_cpus env flag = (if flag \<noteq> [] then perfCPUFlagToCPUs flag else Some (Ok (map word_of_nat [0..<NumCPU env])))"

definition NewPerfCollector ::
  "((goint \<times> nat) list \<Rightarrow> (goint \<times> nat) list) \<Rightarrow> perfEnv \<Rightarrow> perfFlags \<Rightarrow> perfCollector res option" where
  "NewPerfCollector ord env fl =
     map_option (\<lambda>r.
       bind_res r (\<lambda>cpus.
       bind_res (if perfTracepoint fl \<noteq> [] then bind_res (newPerfTracepointCollector ord env (perfTracepoint fl) cpus) (\<lambda>c. Ok (Some c)) else Ok None) (\<lambda>tc.
         open_all env fl (perf_masks env fl) cpus
           \<lparr>hw_maps = no_profilers, sw_maps = no_profilers, ca_maps = no_profilers, tracepointCollector = tc\<rparr>)))
       (flag_cpus env (perfCPUs fl))"

section \<open>Update\<close>

text \<open>The counters of a profile in the order of the code, each with the key of its descriptor; a counter that is nil is skipped.\<close>

definition hw_counters :: "(string \<times> string) list" where
  "hw_counters =
     [(''CPUCycles'', ''cpucycles_total''),
      (''Instructions'', ''instructions_total''),
      (''BranchInstr'', ''branch_instructions_total''),
      (''BranchMisses'', ''branch_misses_total''),
      (''CacheRefs'', ''cache_refs_total''),
      (''CacheMisses'', ''cache_misses_total''),
      (''RefCPUCycles'', ''ref_cpucycles_total''),
      (''StalledCyclesBackend'', ''stalled_cycles_backend_total''),
      (''StalledCyclesFrontend'', ''stalled_cycles_frontend_total'')]"

definition sw_counters :: "(string \<times> string) list" where
  "sw_counters =
     [(''PageFaults'', ''page_faults_total''),
      (''ContextSwitches'', ''context_switches_total''),
      (''CPUMigrations'', ''cpu_migrations_total''),
      (''MinorPageFaults'', ''minor_faults_total''),
      (''MajorPageFaults'', ''major_faults_total'')]"

definition ca_counters :: "(string \<times> string) list" where
  "ca_counters =
     [(''L1DataReadHit'', ''cache_l1d_read_hits_total''),
      (''L1DataReadMiss'', ''cache_l1d_read_misses_total''),
      (''L1DataWriteHit'', ''cache_l1d_write_hits_total''),
      (''L1InstrReadMiss'', ''cache_l1_instr_read_misses_total''),
      (''InstrTLBReadHit'', ''cache_tlb_instr_read_hits_total''),
      (''InstrTLBReadMiss'', ''cache_tlb_instr_read_misses_total''),
      (''DataTLBReadHit'', ''cache_tlb_data_read_hits_total''),
      (''DataTLBReadMiss'', ''cache_tlb_data_read_misses_total''),
      (''DataTLBWriteHit'', ''cache_tlb_data_write_hits_total''),
      (''DataTLBWriteMiss'', ''cache_tlb_data_write_misses_total''),
      (''LastLevelReadHit'', ''cache_ll_read_hits_total''),
      (''LastLevelReadMiss'', ''cache_ll_read_misses_total''),
      (''LastLevelWriteHit'', ''cache_ll_write_hits_total''),
      (''LastLevelWriteMiss'', ''cache_ll_write_misses_total''),
      (''BPUReadHit'', ''cache_bpu_read_hits_total''),
      (''BPUReadMiss'', ''cache_bpu_read_misses_total'')]"

definition counter_metric :: "string \<Rightarrow> counters \<Rightarrow> string \<times> string \<Rightarrow> upd" where
  "counter_metric cpuid profile = (\<lambda>(fld, key).
     (case profile fld of
        None \<Rightarrow> emit []
      | Some v \<Rightarrow>
          (case map_get perf_desc key of
             None \<Rightarrow> ([], Panic ''nil descriptor'')
           | Some d \<Rightarrow> emit [MustNewConstMetric d CounterValue (f64_of_nat (unat v)) [cpuid]])))"

definition profiler_metrics :: "counters profilerApi \<Rightarrow> (string \<times> string) list \<Rightarrow> profilerMaps \<Rightarrow> goint \<times> profilerPtr \<Rightarrow> upd" where
  "profiler_metrics api tbl m = (\<lambda>(_, ptr).
     with_res (Profile api (snd ptr)) (\<lambda>profile.
       foreach (counter_metric (Itoa (sint (map_get_z 0 (profiler_cpu m) ptr))) profile) tbl))"

definition profiler_stats :: "((goint \<times> profilerPtr) list \<Rightarrow> (goint \<times> profilerPtr) list) \<Rightarrow> counters profilerApi \<Rightarrow>
    (string \<times> string) list \<Rightarrow> profilerMaps \<Rightarrow> upd" where
  "profiler_stats ord api tbl m = foreach (profiler_metrics api tbl m) (ord (cpu_profilers m))"

definition updateHardwareStats :: "((goint \<times> profilerPtr) list \<Rightarrow> (goint \<times> profilerPtr) list) \<Rightarrow> perfEnv \<Rightarrow> perfCollector \<Rightarrow> upd" where
  "updateHardwareStats ord env c = profiler_stats ord (hw_api env) hw_counters (hw_maps c)"

definition updateSoftwareStats :: "((goint \<times> profilerPtr) list \<Rightarrow> (goint \<times> profilerPtr) list) \<Rightarrow> perfEnv \<Rightarrow> perfCollector \<Rightarrow> upd" where
  "updateSoftwareStats ord env c = profiler_stats ord (sw_api env) sw_counters (sw_maps c)"

definition updateCacheStats :: "((goint \<times> profilerPtr) list \<Rightarrow> (goint \<times> profilerPtr) list) \<Rightarrow> perfEnv \<Rightarrow> perfCollector \<Rightarrow> upd" where
  "updateCacheStats ord env c = profiler_stats ord (ca_api env) ca_counters (ca_maps c)"

record perfOrder =
  ord_profilers :: "(goint \<times> profilerPtr) list \<Rightarrow> (goint \<times> profilerPtr) list"
  ord_groups :: "(goint \<times> nat) list \<Rightarrow> (goint \<times> nat) list"

definition perf_Update :: "perfOrder \<Rightarrow> perfEnv \<Rightarrow> perfCollector \<Rightarrow> upd" where
  "perf_Update ord env c =
     seq (updateHardwareStats (ord_profilers ord) env c)
     (seq (updateSoftwareStats (ord_profilers ord) env c)
     (seq (updateCacheStats (ord_profilers ord) env c)
       (case tracepointCollector c of None \<Rightarrow> emit [] | Some tc \<Rightarrow> tp_update (ord_groups ord) env tc)))"

section \<open>Lemmas\<close>

text \<open>A stride of zero never leaves the loop; a positive one that cannot overflow lists the range.\<close>

lemma stride_loop_ends:
  assumes "stride_loop i stop stride = Some cs"
  shows "stride = 0 \<longrightarrow> sint stop < sint i"
proof (rule stride_loop.raw_induct [OF _ assms, where P = "\<lambda>i stop stride cs. stride = 0 \<longrightarrow> sint stop < sint i"])
  fix f i stop stride y
  assume IH: "\<And>i stop stride y. f i stop stride = Some y \<Longrightarrow> stride = 0 \<longrightarrow> sint stop < sint i"
    and y: "(if sint i \<le> sint stop then Option.bind (f (i + stride) stop stride) (\<lambda>cpus. Some (i # cpus)) else Some []) = Some y"
  show "stride = 0 \<longrightarrow> sint stop < sint i"
    using y IH [of "i + stride" stop stride] by (auto split: if_splits bind_splits)
qed

lemma stride_loop_zero: "sint i \<le> sint stop \<Longrightarrow> stride_loop i stop 0 = None"
  using stride_loop_ends [of i stop 0] by (cases "stride_loop i stop 0") auto

lemma filter_stride:
  assumes "0 < d" "a \<le> b"
  shows "filter (\<lambda>n. d dvd n - a) [a..b] = a # filter (\<lambda>n. d dvd n - (a + d)) [a + d..b]"
proof -
  have skip: "filter (\<lambda>n. d dvd n - a) [a + 1..c] = []" if "c < a + d" for c
  proof -
    have "\<not> d dvd n - a" if "a + 1 \<le> n" "n \<le> c" for n
      using that \<open>c < a + d\<close> zdvd_not_zless [of "n - a" d] by auto
    then show ?thesis by (auto simp: filter_empty_conv)
  qed
  have dv: "d dvd n - a \<longleftrightarrow> d dvd n - (a + d)" for n
    by (metis add_diff_eq diff_add_cancel diff_diff_add dvd_add_right_iff dvd_refl)
  have "[a..b] = a # [a + 1..b]" using assms(2) by (simp add: upto_rec1)
  moreover have "filter (\<lambda>n. d dvd n - a) [a + 1..b] = filter (\<lambda>n. d dvd n - (a + d)) [a + d..b]"
  proof (cases "a + d \<le> b")
    case True
    then have "[a + 1..b] = [a + 1..a + d - 1] @ [a + d..b]" using assms(1) upto_split1 [of "a + 1" "a + d" b] by simp
    then show ?thesis using skip [of "a + d - 1"] dv by simp
  next
    case False
    then show ?thesis using skip [of b] by simp
  qed
  ultimately show ?thesis by simp
qed

lemma stride_loop_list:
  assumes "0 < sint stride" "sint stop + sint stride < 2 ^ 63"
  shows "\<exists>cs. stride_loop i stop stride = Some cs \<and> map sint cs = filter (\<lambda>n. sint stride dvd n - sint i) [sint i..sint stop]"
proof (induction "nat (sint stop - sint i + 1)" arbitrary: i rule: less_induct)
  case less
  show ?case
  proof (cases "sint i \<le> sint stop")
    case True
    have "i + stride = word_of_int (sint i + sint stride)" by simp
    moreover have "- (2 ^ 63) \<le> sint i" using sint_greater_eq [of i] by simp
    ultimately have n: "sint (i + stride) = sint i + sint stride"
      using goint_fits [of "sint i + sint stride"] True assms by simp
    then obtain cs where "stride_loop (i + stride) stop stride = Some cs"
      "map sint cs = filter (\<lambda>n. sint stride dvd n - (sint i + sint stride)) [sint i + sint stride..sint stop]"
      using less [of "i + stride"] True assms(1) by auto
    then show ?thesis using True filter_stride [OF assms(1) True] by (subst stride_loop.simps) simp
  next
    case False
    then show ?thesis by (subst stride_loop.simps) simp
  qed
qed

text \<open>How a range is printed.\<close>

definition print_range :: "nat \<Rightarrow> nat \<Rightarrow> nat \<Rightarrow> string" where
  "print_range a b s = FormatUint a @ CHR ''-'' # FormatUint b @ CHR '':'' # FormatUint s"

lemma FormatUint_no_sep: "\<not> is_digit c \<Longrightarrow> c \<notin> set (FormatUint n)"
  using FormatUint_digits by blast

lemma not_digit [simp]: "\<not> is_digit CHR ''-''" "\<not> is_digit CHR '':''" "\<not> is_digit CHR '',''"
  by (simp_all add: is_digit_def byte_def)

lemma perf_range_printed:
  assumes "a < 2 ^ 63" "b < 2 ^ 63" "s < 2 ^ 63"
  shows "perf_range flag (print_range a b s) = Ok (word_of_nat a, word_of_nat b, word_of_nat s)"
proof -
  have "Split (print_range a b s) CHR '':'' = [FormatUint a @ CHR ''-'' # FormatUint b, FormatUint s]"
    using Split_word [of "CHR '':''" "FormatUint a @ CHR ''-'' # FormatUint b" "FormatUint s"]
    by (simp add: print_range_def FormatUint_no_sep Split_single)
  moreover have "Split (FormatUint a @ CHR ''-'' # FormatUint b) CHR ''-'' = [FormatUint a, FormatUint b]"
    by (simp add: FormatUint_no_sep Split_word Split_single)
  ultimately show ?thesis
    using assms by (simp add: perf_range_def goint_of_def Atoi_FormatUint)
qed

lemma perfCPUFlagToCPUs_range:
  assumes "a < 2 ^ 63" "b < 2 ^ 63" "s < 2 ^ 63"
  shows "perfCPUFlagToCPUs (print_range a b s) = map_option Ok (stride_loop (word_of_nat a) (word_of_nat b) (word_of_nat s))"
proof -
  have "CHR '','' \<notin> set (print_range a b s)" "CHR ''-'' \<in> set (print_range a b s)"
    by (simp_all add: print_range_def FormatUint_no_sep)
  then show ?thesis
    using perf_range_printed [OF assms, of "print_range a b s"]
    by (simp add: perfCPUFlagToCPUs_def Split_single Contains_char split: option.splits bind_splits)
qed

lemma sint_word_of_nat: "n < 2 ^ 63 \<Longrightarrow> sint (word_of_nat n :: goint) = int n"
  using goint_fits [of "int n"] by simp

lemma perf_cpus_list:
  "list_all (\<lambda>n. n < 2 ^ 63) ns \<Longrightarrow> perf_cpus flag (map FormatUint ns) acc = Some (Ok (acc @ map word_of_nat ns))"
  by (induction ns arbitrary: acc) (simp_all add: Contains_char FormatUint_no_sep Atoi_FormatUint goint_of_def)


text \<open>A tracepoint that is printed is taken apart into its two names again.\<close>

lemma tracepoints_split:
  "perfTracepointFlagToTracepoints flags = Ok ts \<Longrightarrow>
     list_all2 (\<lambda>flag t. flag = tp_tracepoint t \<and> CHR '':'' \<notin> set (tp_subsystem t) \<and> CHR '':'' \<notin> set (tp_event t)) flags ts"
proof (induction flags arbitrary: ts)
  case (Cons flag flags)
  obtain a b where ab: "Split flag CHR '':'' = [a, b]"
  proof -
    have "length (Split flag CHR '':'') = 2" using Cons.prems by (auto simp: Let_def split: if_splits)
    then show ?thesis using that by (auto simp: numeral_2_eq_2 length_Suc_conv)
  qed
  have "flag = a @ '':'' @ b" using Split_Join [of flag "CHR '':''"] by (simp add: ab)
  moreover have "CHR '':'' \<notin> set a" "CHR '':'' \<notin> set b" using Split_no_sep [of _ flag "CHR '':''"] by (simp_all add: ab)
  ultimately show ?case using Cons ab by (auto simp: tp_tracepoint_def go_simps)
qed simp

lemma tp_put_get:
  "map_get (map_get_z [] (tp_put t descs) s) e =
     (if s = tp_subsystem t \<and> e = tp_event t then Some (tp_desc t) else map_get (map_get_z [] descs s) e)"
  by (auto simp: tp_put_def map_get_z_def)

lemma tp_put_all_get:
  assumes "t \<in> set ts \<or> map_get (map_get_z [] descs (tp_subsystem t)) (tp_event t) = Some (tp_desc t)"
  shows "map_get (map_get_z [] (fold tp_put ts descs) (tp_subsystem t)) (tp_event t) = Some (tp_desc t)"
  using assms
proof (induction ts arbitrary: descs)
  case (Cons u ts)
  show ?case
  proof (cases "tp_subsystem t = tp_subsystem u \<and> tp_event t = tp_event u")
    case True
    then have "tp_desc t = tp_desc u" by (simp add: tp_desc_def tp_label_def tp_tracepoint_def)
    then have "map_get (map_get_z [] (tp_put u descs) (tp_subsystem t)) (tp_event t) = Some (tp_desc t)"
      using True by (simp add: tp_put_get)
    from Cons.IH [OF disjI2 [OF this]] show ?thesis by simp
  next
    case False
    then show ?thesis using Cons by (auto simp: tp_put_get intro!: Cons.IH)
  qed
qed simp

lemma tp_lookup_printed:
  assumes "CHR '':'' \<notin> set (tp_subsystem t)" "CHR '':'' \<notin> set (tp_event t)" "t \<in> set ts" "tc_descs c = fold tp_put ts []"
  shows "tp_lookup c (tp_tracepoint t) = Ok (tp_desc t)"
proof -
  have "Split (tp_tracepoint t) CHR '':'' = [tp_subsystem t, tp_event t]"
    using assms(1,2) by (simp add: tp_tracepoint_def Split_word Split_single)
  then show ?thesis using tp_put_all_get [of t ts "[]"] assms(3,4) by (simp add: tp_lookup_def)
qed

definition tc_ok :: "perfTracepointCollector \<Rightarrow> bool" where
  "tc_ok c \<longleftrightarrow> list_all (\<lambda>k. \<exists>d. tp_lookup c k = Ok d \<and> length (desc_labels d) = 1) (collectionOrder c)"

lemma newPerfTracepointCollector_Ok:
  assumes "newPerfTracepointCollector ord env flags cpus = Ok c"
  shows "\<exists>ts. perfTracepointFlagToTracepoints flags = Ok ts \<and> collectionOrder c = flags \<and> tc_descs c = fold tp_put ts [] \<and>
    list_all2 (\<lambda>flag t. tp_lookup c flag = Ok (tp_desc t)) flags ts"
proof -
  from assms obtain ts where ts: "perfTracepointFlagToTracepoints flags = Ok ts"
    and c: "tc_descs c = fold tp_put ts []" "collectionOrder c = map tp_tracepoint ts"
    by (auto simp: newPerfTracepointCollector_def go_simps)
  note sp = tracepoints_split [OF ts]
  have "map tp_tracepoint ts = flags" using sp by (auto simp: list_all2_conv_all_nth intro!: nth_equalityI)
  moreover have "list_all2 (\<lambda>flag t. tp_lookup c flag = Ok (tp_desc t)) flags ts"
    using sp by (auto simp: list_all2_conv_all_nth intro!: tp_lookup_printed [OF _ _ _ c(1)])
  ultimately show ?thesis using ts c by auto
qed

lemma newPerfTracepointCollector_tc_ok: "newPerfTracepointCollector ord env flags cpus = Ok c \<Longrightarrow> tc_ok c"
  using newPerfTracepointCollector_Ok [of ord env flags cpus c]
  by (fastforce simp: tc_ok_def list_all_iff list_all2_conv_all_nth in_set_conv_nth tp_desc_def)

text \<open>The pointers lead back to the CPU they were opened for.\<close>

definition maps_ok :: "profilerMaps \<Rightarrow> bool" where
  "maps_ok m \<longleftrightarrow> (\<forall>(cpu, ptr) \<in> set (cpu_profilers m). map_get (profiler_cpu m) ptr = Some cpu \<and> fst ptr < length (profiler_cpu m)) \<and>
     (\<forall>ptr \<in> fst ` set (profiler_cpu m). fst ptr < length (profiler_cpu m))"

lemma length_map_put: "k \<notin> fst ` set m \<Longrightarrow> length (map_put k v m) = Suc (length m)"
  by (induction m) auto

lemma open_profiler_maps: "open_profiler api disabled msk cpu m = Ok m' \<Longrightarrow> maps_ok m \<Longrightarrow> maps_ok m'"
proof -
  assume o: "open_profiler api disabled msk cpu m = Ok m'" and ok: "maps_ok m"
  show "maps_ok m'"
  proof (cases disabled)
    case False
    with o obtain p where m': "m' = \<lparr>cpu_profilers = map_put cpu (length (profiler_cpu m), p) (cpu_profilers m),
        profiler_cpu = map_put (length (profiler_cpu m), p) cpu (profiler_cpu m)\<rparr>"
      by (auto simp: open_profiler_def go_simps Let_def split: prod.splits option.splits)
    have "(length (profiler_cpu m), p) \<notin> fst ` set (profiler_cpu m)" using ok by (auto simp: maps_ok_def)
    then have "length (map_put (length (profiler_cpu m), p) cpu (profiler_cpu m)) = Suc (length (profiler_cpu m))"
      by (rule length_map_put)
    then show ?thesis using ok
      by (auto simp: m' maps_ok_def keys_map_put less_Suc_eq dest!: map_put_mem)
  qed (use o ok in \<open>simp add: open_profiler_def\<close>)
qed

lemma open_all_maps:
  "open_all env fl masks cpus c = Ok c' \<Longrightarrow> maps_ok (hw_maps c) \<Longrightarrow> maps_ok (sw_maps c) \<Longrightarrow> maps_ok (ca_maps c) \<Longrightarrow>
     maps_ok (hw_maps c') \<and> maps_ok (sw_maps c') \<and> maps_ok (ca_maps c') \<and> tracepointCollector c' = tracepointCollector c"
proof (induction env fl masks cpus c rule: open_all.induct)
  case (2 env fl hm sm cm cpu cpus c)
  from 2(2) obtain h s a where
    h: "open_profiler (hw_api env) (perfNoHwProfiler fl) hm cpu (hw_maps c) = Ok h" and
    s: "open_profiler (sw_api env) (perfNoSwProfiler fl) sm cpu (sw_maps c) = Ok s" and
    a: "open_profiler (ca_api env) (perfNoCaProfiler fl) cm cpu (ca_maps c) = Ok a" and
    r: "open_all env fl (hm, sm, cm) cpus (c\<lparr>hw_maps := h, sw_maps := s, ca_maps := a\<rparr>) = Ok c'"
    by (auto simp: go_simps)
  show ?case
    using 2(1) [OF r] open_profiler_maps [OF h 2(3)] open_profiler_maps [OF s 2(4)] open_profiler_maps [OF a 2(5)] by simp
qed simp


section \<open>The contract\<close>

lemma counters_described:
  "set (map snd (hw_counters @ sw_counters @ ca_counters)) \<subseteq> set (map fst (perf_hw_descriptions @ perf_sw_descriptions @ perf_ca_descriptions))"
  by (rule nth_names [where js = "[0..<30]"])
    (simp_all add: upt_rec_numeral upt_conv_Cons hw_counters_def sw_counters_def ca_counters_def perf_hw_descriptions_def perf_sw_descriptions_def perf_ca_descriptions_def)

lemma counter_metric_sound: "x \<in> set (hw_counters @ sw_counters @ ca_counters) \<Longrightarrow> sound (counter_metric cpuid profile x)"
proof -
  assume "x \<in> set (hw_counters @ sw_counters @ ca_counters)"
  then have "snd x \<in> set (map fst (perf_hw_descriptions @ perf_sw_descriptions @ perf_ca_descriptions))"
    using counters_described by (metis image_eqI list.set_map subsetD)
  from desc_table [OF this, of "\<lambda>name help. NewDesc (BuildFQName namespace perfSubsystem name) help [''cpu'']"]
  obtain h where "map_get perf_desc (snd x) = Some (NewDesc (BuildFQName namespace perfSubsystem (snd x)) h [''cpu''])"
    unfolding perf_desc_def by blast
  then show ?thesis by (auto simp: counter_metric_def case_prod_beta split: option.splits intro!: sound_emit)
qed

lemma profiler_stats_sound:
  assumes "set tbl \<subseteq> set (hw_counters @ sw_counters @ ca_counters)" "\<And>p. \<not> panics (Profile api p)"
  shows "sound (profiler_stats ord api tbl m)"
  unfolding profiler_stats_def profiler_metrics_def
  using assms counter_metric_sound by (auto intro!: sound_foreach sound_with_res split: prod.splits)

lemma tp_value_sound:
  assumes "tc_ok c" "i < length (collectionOrder c)"
  shows "sound (tp_value c cpuid (i, v))"
proof -
  obtain d where "tp_lookup c (collectionOrder c ! i) = Ok d" "length (desc_labels d) = 1"
    using assms nth_mem [OF assms(2)] unfolding tc_ok_def list_all_iff by blast
  then show ?thesis using assms(2) by (auto simp: tp_value_def intro!: sound_emit)
qed

definition perf_pre :: "perfEnv \<times> perfCollector \<Rightarrow> bool" where
  "perf_pre = (\<lambda>(env, c).
     (\<forall>p. \<not> panics (Profile (hw_api env) p) \<and> \<not> panics (Profile (sw_api env) p) \<and> \<not> panics (Profile (ca_api env) p)) \<and>
     (\<forall>tc. tracepointCollector c = Some tc \<longrightarrow> tc_ok tc \<and>
        (\<forall>p. \<not> panics (GroupProfile env p) \<and> (\<forall>vs. GroupProfile env p = Ok vs \<longrightarrow> length vs \<le> length (collectionOrder tc)))))"

lemma tp_updateCPU_sound:
  assumes "tc_ok c" "map_get (tc_profilers c) cpu \<noteq> None"
    and "\<And>p. \<not> panics (GroupProfile env p)" "\<And>p vs. GroupProfile env p = Ok vs \<Longrightarrow> length vs \<le> length (collectionOrder c)"
  shows "sound (tp_updateCPU env c cpu)"
  unfolding tp_updateCPU_def
proof (intro sound_with_res sound_foreach)
  show "\<not> panics (case map_get (tc_profilers c) cpu of None \<Rightarrow> Panic ''nil pointer dereference'' | Some p \<Rightarrow> GroupProfile env p)"
    using assms(2,3) by auto
  fix vs x
  assume "(case map_get (tc_profilers c) cpu of None \<Rightarrow> Panic ''nil pointer dereference'' | Some p \<Rightarrow> GroupProfile env p) = Ok vs"
    and x: "x \<in> set (enumerate 0 vs)"
  then have "length vs \<le> length (collectionOrder c)" using assms(4) by (auto split: option.splits)
  moreover have "x = (fst x, snd x)" "fst x < length vs" using x by (simp_all add: in_set_enumerate_eq)
  ultimately show "sound (tp_value c (Itoa (sint cpu)) x)" using tp_value_sound [OF assms(1)] by (metis order_less_le_trans)
qed

interpretation perf: safe_collector_contract "\<lambda>(ord, env, c). perf_Update ord env c"
  "\<lambda>(ord, env, c). range_order (ord_groups ord) \<and> perf_pre (env, c)"
proof (rule safe_contractI)
  fix e :: "perfOrder \<times> perfEnv \<times> perfCollector"
  assume pre: "case e of (ord, env, c) \<Rightarrow> range_order (ord_groups ord) \<and> perf_pre (env, c)"
  then obtain ord env c where e: "e = (ord, env, c)" and o: "range_order (ord_groups ord)" and p: "perf_pre (env, c)" by (cases e) auto
  have "sound (tp_update (ord_groups ord) env tc)" if "tracepointCollector c = Some tc" for tc
    unfolding tp_update_def
  proof (intro sound_foreach)
    fix x assume x: "x \<in> set (ord_groups ord (tc_profilers tc))"
    obtain cpu q where q: "x = (cpu, q)" by (cases x)
    have "(cpu, q) \<in> set (tc_profilers tc)" using x o by (simp add: q)
    then have "map_get (tc_profilers tc) cpu \<noteq> None" by (metis weak_map_of_SomeI option.distinct(1))
    then show "sound (case x of (cpu, p) \<Rightarrow> tp_updateCPU env tc cpu)"
      using p that by (auto simp: q perf_pre_def intro!: tp_updateCPU_sound)
  qed
  moreover have "sound (updateHardwareStats (ord_profilers ord) env c)" "sound (updateSoftwareStats (ord_profilers ord) env c)"
    "sound (updateCacheStats (ord_profilers ord) env c)"
    using p by (auto simp: perf_pre_def updateHardwareStats_def updateSoftwareStats_def updateCacheStats_def intro!: profiler_stats_sound)
  ultimately show "sound (case e of (ord, env, c) \<Rightarrow> perf_Update ord env c)"
    by (auto simp: e perf_Update_def intro!: sound_seq sound_emit split: option.splits)
qed

lemma foreach_cong: "(\<And>x. x \<in> set xs \<Longrightarrow> f x = g x) \<Longrightarrow> foreach f xs = foreach g xs"
  by (induction xs) simp_all

lemma profiler_stats_cpu:
  assumes "maps_ok m" "range_order ord"
  shows "profiler_stats ord api tbl m = foreach (\<lambda>(cpu, ptr). with_res (Profile api (snd ptr)) (\<lambda>profile.
      foreach (counter_metric (Itoa (sint cpu)) profile) tbl)) (ord (cpu_profilers m))"
  unfolding profiler_stats_def
proof (rule foreach_cong)
  fix x assume "x \<in> set (ord (cpu_profilers m))"
  then have "x \<in> set (cpu_profilers m)" using assms(2) by simp
  then have "map_get (profiler_cpu m) (snd x) = Some (fst x)" using assms(1) by (fastforce simp: maps_ok_def)
  then show "profiler_metrics api tbl m x = (case x of (cpu, ptr) \<Rightarrow> with_res (Profile api (snd ptr)) (\<lambda>profile.
      foreach (counter_metric (Itoa (sint cpu)) profile) tbl))"
    by (cases x) (simp add: profiler_metrics_def map_get_z_def)
qed

lemma NewPerfCollector_maps:
  assumes "NewPerfCollector ord env fl = Some (Ok c)"
  shows "maps_ok (hw_maps c) \<and> maps_ok (sw_maps c) \<and> maps_ok (ca_maps c) \<and> (\<forall>tc. tracepointCollector c = Some tc \<longrightarrow> tc_ok tc)"
proof -
  from assms obtain cpus tc where
    tc: "(if perfTracepoint fl \<noteq> [] then bind_res (newPerfTracepointCollector ord env (perfTracepoint fl) cpus) (\<lambda>c. Ok (Some c)) else Ok None) = Ok tc" and
    o: "open_all env fl (perf_masks env fl) cpus
      \<lparr>hw_maps = no_profilers, sw_maps = no_profilers, ca_maps = no_profilers, tracepointCollector = tc\<rparr> = Ok c"
    by (auto simp: NewPerfCollector_def go_simps)
  have "tc_ok t" if "tc = Some t" for t
    using tc that newPerfTracepointCollector_tc_ok [of ord env "perfTracepoint fl" cpus t] by (auto simp: go_simps split: if_splits)
  then show ?thesis using open_all_maps [OF o] by (simp add: no_profilers_def maps_ok_def)
qed


section \<open>Properties\<close>

text \<open>
  C38: What a range of CPUs with a stride means to the code: the numbers of the range that are a multiple of the stride away from its
  start, so that 10-20:5 is 10, 15 and 20 and 1-8:2 is 1, 3, 5 and 7, as the repository's tests expect. The comment above
  the parser and the README say that 1-10:5 gives 1, 5 and 10: the code does not do that, it gives 1 and 6.
\<close>

theorem perf_cpu_range:
  assumes "a < 2 ^ 63" "0 < s" "b + s < 2 ^ 63"
  shows "\<exists>cs. perfCPUFlagToCPUs (print_range a b s) = Some (Ok cs) \<and>
    map sint cs = filter (\<lambda>n. int s dvd n - int a) [int a..int b]"
proof -
  have s: "b < 2 ^ 63" "s < 2 ^ 63" using assms by simp_all
  have "int (b + s) < int (2 ^ 63)" using assms(3) by (simp only: of_nat_less_iff)
  then have "\<exists>cs. stride_loop (word_of_nat a) (word_of_nat b) (word_of_nat s) = Some cs \<and>
      map sint cs = filter (\<lambda>n. int s dvd n - int a) [int a..int b]"
    using stride_loop_list [of "word_of_nat s" "word_of_nat b" "word_of_nat a"] assms s by (simp add: sint_word_of_nat)
  then show ?thesis by (auto simp: perfCPUFlagToCPUs_range [OF assms(1) s])
qed

theorem perf_cpu_range_witness:
  "(\<exists>cs. perfCPUFlagToCPUs ''10-20:5'' = Some (Ok cs) \<and> map sint cs = [10, 15, 20]) \<and>
   (\<exists>cs. perfCPUFlagToCPUs ''1-10:5'' = Some (Ok cs) \<and> map sint cs = [1, 6])"
proof -
  have p: "print_range 10 20 5 = ''10-20:5''" "print_range 1 10 5 = ''1-10:5''" by code_simp+
  have f: "filter (\<lambda>n. int 5 dvd n - int 10) [int 10..int 20] = [10, 15, 20]"
    "filter (\<lambda>n. int 5 dvd n - int 1) [int 1..int 10] = [1, 6]" by code_simp+
  show ?thesis using perf_cpu_range [of 10 5 20] perf_cpu_range [of 1 5 10] unfolding p f by simp
qed

text \<open>
  C17: A stride of zero is not rejected: the loop over the range appends its first CPU for ever and the collector is never created.
\<close>

theorem perf_stride_zero:
  assumes "a \<le> b" "b < 2 ^ 63" "perfCPUs fl = print_range a b 0"
  shows "NewPerfCollector ord env fl = None"
proof -
  have "a < 2 ^ 63" using assms(1,2) by simp
  then have "stride_loop (word_of_nat a) (word_of_nat b) (word_of_nat 0) = None"
    using stride_loop_zero [of "word_of_nat a" "word_of_nat b"] assms(1,2) by (simp add: sint_word_of_nat)
  then show ?thesis
    using perfCPUFlagToCPUs_range [of a b 0] \<open>a < 2 ^ 63\<close> assms(2,3)
    by (simp add: NewPerfCollector_def flag_cpus_def print_range_def)
qed

definition demo_api :: "counters profilerApi" where
  "demo_api = \<lparr>NewProfiler = (\<lambda>cpu m. (0, None)), HasProfilers = (\<lambda>p. True), StartProfiler = (\<lambda>p. Ok ()), Profile = (\<lambda>p. Ok (\<lambda>f. None))\<rparr>"

definition demo_perf :: perfEnv where
  "demo_perf = \<lparr>NumCPU = 1, TracepointEventAttr = (\<lambda>s e. Ok 0), NewGroupProfiler = (\<lambda>cpu attrs. Ok 0), GroupStart = (\<lambda>p. Ok ()),
     GroupProfile = (\<lambda>p. Ok [7, 9]), hw_api = demo_api, sw_api = demo_api, ca_api = demo_api, profiler_bit = (\<lambda>n. 1),
     AllHardwareProfilers = 1, AllSoftwareProfilers = 1\<rparr>"

theorem perf_stride_zero_witness:
  "NewPerfCollector (\<lambda>m. m) demo_perf \<lparr>perfCPUs = ''0-3:0'', perfTracepoint = [], perfNoHwProfiler = True, perfHwProfiler = [], perfNoSwProfiler = True,
     perfSwProfiler = [], perfNoCaProfiler = True, perfCaProfiler = []\<rparr> = None"
proof (rule perf_stride_zero [of 0 3])
  have "print_range 0 3 0 = ''0-3:0''" by code_simp
  then show "perfCPUs \<lparr>perfCPUs = ''0-3:0'', perfTracepoint = [], perfNoHwProfiler = True, perfHwProfiler = [], perfNoSwProfiler = True,
     perfSwProfiler = [], perfNoCaProfiler = True, perfCaProfiler = []\<rparr> = print_range 0 3 0" by simp
qed simp_all

text \<open>
  Every value of a tracepoint group is exported under the name of the tracepoint at its place on the command line, with the
  colon replaced by an underscore.
\<close>

theorem tracepoint_names:
  assumes "newPerfTracepointCollector ord env flags cpus = Ok c" "map_get (tc_profilers c) cpu = Some p"
    and "GroupProfile env p = Ok vs" "length vs \<le> length flags"
  shows "tp_updateCPU env c cpu = emit (map (\<lambda>(flag, v). MustNewConstMetric
      (NewDesc (BuildFQName namespace perfSubsystem (map (\<lambda>ch. if ch = CHR '':'' then CHR ''_'' else ch) flag)) (''Perf tracepoint '' @ flag) [''cpu''])
      CounterValue (f64_of_nat (unat v)) [Itoa (sint cpu)]) (zip flags vs))"
proof -
  obtain ts where ts: "perfTracepointFlagToTracepoints flags = Ok ts" and c: "collectionOrder c = flags"
    and l: "list_all2 (\<lambda>flag t. tp_lookup c flag = Ok (tp_desc t)) flags ts"
    using newPerfTracepointCollector_Ok [OF assms(1)] by blast
  have desc: "tp_desc t = NewDesc (BuildFQName namespace perfSubsystem (map (\<lambda>ch. if ch = CHR '':'' then CHR ''_'' else ch) flag))
      (''Perf tracepoint '' @ flag) [''cpu'']"
    if "flag = tp_tracepoint t" "CHR '':'' \<notin> set (tp_subsystem t)" "CHR '':'' \<notin> set (tp_event t)" for flag t
  proof -
    have "map (\<lambda>ch. if ch = CHR '':'' then CHR ''_'' else ch) s = s" if "CHR '':'' \<notin> set s" for s
      using that by (induction s) auto
    then show ?thesis using that by (simp add: tp_desc_def tp_label_def tp_tracepoint_def)
  qed
  let ?m = "\<lambda>(flag, v). MustNewConstMetric
      (NewDesc (BuildFQName namespace perfSubsystem (map (\<lambda>ch. if ch = CHR '':'' then CHR ''_'' else ch) flag)) (''Perf tracepoint '' @ flag) [''cpu''])
      CounterValue (f64_of_nat (unat v)) [Itoa (sint cpu)]"
  have v: "tp_value c (Itoa (sint cpu)) (i, vs ! i) = emit [?m (flags ! i, vs ! i)]" if "i < length vs" for i
  proof -
    have i: "i < length flags" using that assms(4) by simp
    then have "tp_lookup c (flags ! i) = Ok (tp_desc (ts ! i))" using l by (simp add: list_all2_conv_all_nth)
    moreover have "flags ! i = tp_tracepoint (ts ! i)" "CHR '':'' \<notin> set (tp_subsystem (ts ! i))" "CHR '':'' \<notin> set (tp_event (ts ! i))"
      using tracepoints_split [OF ts] i by (simp_all add: list_all2_conv_all_nth)
    note desc [OF this]
    ultimately show ?thesis using i by (simp add: tp_value_def c)
  qed
  have "tp_updateCPU env c cpu = foreach (tp_value c (Itoa (sint cpu))) (enumerate 0 vs)"
    by (simp add: tp_updateCPU_def assms(2,3))
  also have "\<dots> = emit (concat (map (\<lambda>x. fst (tp_value c (Itoa (sint cpu)) x)) (enumerate 0 vs)))"
    by (rule foreach_Ok) (auto simp: in_set_enumerate_eq v)
  also have "map (\<lambda>x. fst (tp_value c (Itoa (sint cpu)) x)) (enumerate 0 vs) = map (\<lambda>x. [?m x]) (zip flags vs)"
    using assms(4) by (auto simp: nth_enumerate_eq v intro!: nth_equalityI)
  finally show ?thesis by simp
qed


theorem tracepoint_names_witness:
  "\<exists>c. newPerfTracepointCollector (\<lambda>m. m) demo_perf [''sched:sched_switch'', ''net:net_dev_xmit''] [0] = Ok c \<and>
     tp_updateCPU demo_perf c 0 = emit
       [MustNewConstMetric (NewDesc (BuildFQName namespace perfSubsystem ''sched_sched_switch'') ''Perf tracepoint sched:sched_switch'' [''cpu''])
          CounterValue (f64_of_nat 7) [Itoa 0],
        MustNewConstMetric (NewDesc (BuildFQName namespace perfSubsystem ''net_net_dev_xmit'') ''Perf tracepoint net:net_dev_xmit'' [''cpu''])
          CounterValue (f64_of_nat 9) [Itoa 0]]"
proof -
  obtain c where c: "newPerfTracepointCollector (\<lambda>m. m) demo_perf [''sched:sched_switch'', ''net:net_dev_xmit''] [0] = Ok c"
    "map_get (tc_profilers c) 0 = Some 0"
    by (simp add: newPerfTracepointCollector_def demo_perf_def)
  show ?thesis
    using tracepoint_names [OF c, of "[7, 9]"] c(1) by (simp add: demo_perf_def)
qed

text \<open>
  The counters of a profiler are exported under the CPU it was opened for, whatever order the maps are iterated in.
\<close>

theorem perf_samples_by_cpu:
  assumes "NewPerfCollector (ord_groups ord) env fl = Some (Ok c)" "range_order (ord_profilers ord)"
  shows "updateHardwareStats (ord_profilers ord) env c =
    foreach (\<lambda>(cpu, ptr). with_res (Profile (hw_api env) (snd ptr)) (\<lambda>profile.
      foreach (counter_metric (Itoa (sint cpu)) profile) hw_counters)) (ord_profilers ord (cpu_profilers (hw_maps c)))"
  using NewPerfCollector_maps [OF assms(1)] assms(2) by (simp add: updateHardwareStats_def profiler_stats_cpu)


end
