(* ===== verification/Pci.thy ===== *)
theory Pci
  imports GoNet Registry Helpers
begin

text \<open>
  The PCI devices with their names from the database of identifiers, \<^verbatim>\<open>pcidevice_linux.go\<close>. The devices are what the sysfs
  library returns; the parser of the database, the resolution of names and the samples of a device are the source's.
\<close>

section \<open>Descriptors\<close>

definition pciIDsPaths :: "string list" where
  "pciIDsPaths = [''/usr/share/misc/pci.ids'', ''/usr/share/hwdata/pci.ids'']"

definition pcideviceLabelNames :: "string list" where
  "pcideviceLabelNames = [''segment'', ''bus'', ''device'', ''function'']"

definition pci_gauge :: "string \<Rightarrow> string \<Rightarrow> string list \<Rightarrow> typedDesc" where
  "pci_gauge name help labels = \<lparr>td_desc = NewDesc (BuildFQName namespace ''pcidevice'' name) help labels, td_valueType = GaugeValue\<rparr>"

definition pcideviceMaxLinkTSDesc :: typedDesc where
  "pcideviceMaxLinkTSDesc = pci_gauge ''max_link_transfers_per_second'' ''Value of maximum link's transfers per second (T/s)'' pcideviceLabelNames"
definition pcideviceMaxLinkWidthDesc :: typedDesc where
  "pcideviceMaxLinkWidthDesc = pci_gauge ''max_link_width'' ''Value of maximum link's width (number of lanes)'' pcideviceLabelNames"
definition pcideviceCurrentLinkTSDesc :: typedDesc where
  "pcideviceCurrentLinkTSDesc = pci_gauge ''current_link_transfers_per_second'' ''Value of current link's transfers per second (T/s)'' pcideviceLabelNames"
definition pcideviceCurrentLinkWidthDesc :: typedDesc where
  "pcideviceCurrentLinkWidthDesc = pci_gauge ''current_link_width'' ''Value of current link's width (number of lanes)'' pcideviceLabelNames"
definition pcidevicePowerStateDesc :: typedDesc where
  "pcidevicePowerStateDesc = pci_gauge ''power_state'' ''PCIe device power state, one of: D0, D1, D2, D3hot, D3cold, unknown or error.''
     (pcideviceLabelNames @ [''state''])"
definition pcideviceD3coldAllowedDesc :: typedDesc where
  "pcideviceD3coldAllowedDesc = pci_gauge ''d3cold_allowed'' ''Whether the PCIe device supports D3cold power state (0/1).'' pcideviceLabelNames"
definition pcideviceSriovDriversAutoprobeDesc :: typedDesc where
  "pcideviceSriovDriversAutoprobeDesc = pci_gauge ''sriov_drivers_autoprobe'' ''Whether SR-IOV drivers autoprobe is enabled for the device (0/1).'' pcideviceLabelNames"
definition pcideviceSriovNumvfsDesc :: typedDesc where
  "pcideviceSriovNumvfsDesc = pci_gauge ''sriov_numvfs'' ''Number of Virtual Functions (VFs) currently enabled for SR-IOV.'' pcideviceLabelNames"
definition pcideviceSriovTotalvfsDesc :: typedDesc where
  "pcideviceSriovTotalvfsDesc = pci_gauge ''sriov_totalvfs'' ''Total number of Virtual Functions (VFs) supported by the device.'' pcideviceLabelNames"
definition pcideviceSriovVfTotalMsixDesc :: typedDesc where
  "pcideviceSriovVfTotalMsixDesc = pci_gauge ''sriov_vf_total_msix'' ''Total number of MSI-X vectors for Virtual Functions.'' pcideviceLabelNames"
definition pcideviceNumaNodeDesc :: typedDesc where
  "pcideviceNumaNodeDesc = pci_gauge ''numa_node'' ''NUMA node number for the PCI device. -1 indicates unknown or not available.'' pcideviceLabelNames"

section \<open>The database of identifiers\<close>

record pciIds =
  pciVendors :: "(string, string) gomap"
  pciDevices :: "(string, (string, string) gomap) gomap"
  pciSubsystems :: "(string, (string, string) gomap) gomap"
  pciClasses :: "(string, string) gomap"
  pciSubclasses :: "(string, string) gomap"
  pciProgIfs :: "(string, string) gomap"

text \<open>What the scanning loop keeps from line to line.\<close>

record pciScan = pciIds +
  currentVendor :: string
  currentDevice :: string
  currentBaseClass :: string
  currentSubclass :: string
  inClassContext :: bool

definition no_ids :: pciIds where
  "no_ids = \<lparr>pciVendors = [], pciDevices = [], pciSubsystems = [], pciClasses = [], pciSubclasses = [], pciProgIfs = []\<rparr>"

definition start_scan :: pciScan where
  "start_scan = \<lparr>pciVendors = [], pciDevices = [], pciSubsystems = [], pciClasses = [], pciSubclasses = [], pciProgIfs = [],
     currentVendor = [], currentDevice = [], currentBaseClass = [], currentSubclass = [], inClassContext = False\<rparr>"

definition tab :: char where "tab = CHR 0x09"

abbreviation two_spaces :: string where
  "two_spaces \<equiv> ''  ''"

definition class_line :: "string \<Rightarrow> pciScan \<Rightarrow> pciScan" where
  "class_line line c =
     (case SplitN2 line two_spaces of
        [a, b] \<Rightarrow> let classID = TrimSpace (tl a) in
          c\<lparr>pciClasses := map_put classID (TrimSpace b) (pciClasses c), currentBaseClass := classID, inClassContext := True\<rparr>
      | _ \<Rightarrow> c)"

definition subclass_line :: "string \<Rightarrow> pciScan \<Rightarrow> pciScan" where
  "subclass_line line c =
     (case SplitN2 (TrimPrefix line [tab]) two_spaces of
        [a, b] \<Rightarrow>
          if currentBaseClass c \<noteq> [] then
            let fullClassID = currentBaseClass c @ TrimSpace a in
            c\<lparr>pciSubclasses := map_put fullClassID (TrimSpace b) (pciSubclasses c), currentSubclass := fullClassID\<rparr>
          else c
      | _ \<Rightarrow> c)"

definition progif_line :: "string \<Rightarrow> pciScan \<Rightarrow> pciScan" where
  "progif_line line c =
     (case SplitN2 (TrimPrefix line [tab, tab]) two_spaces of
        [a, b] \<Rightarrow>
          if currentSubclass c \<noteq> [] then c\<lparr>pciProgIfs := map_put (currentSubclass c @ TrimSpace a) (TrimSpace b) (pciProgIfs c)\<rparr>
          else c
      | _ \<Rightarrow> c)"

definition vendor_line :: "string \<Rightarrow> pciScan \<Rightarrow> pciScan" where
  "vendor_line line c =
     (case SplitN2 line two_spaces of
        [a, b] \<Rightarrow> c\<lparr>currentVendor := TrimSpace a, pciVendors := map_put (TrimSpace a) (TrimSpace b) (pciVendors c),
                   currentDevice := [], inClassContext := False\<rparr>
      | _ \<Rightarrow> c)"

definition device_line :: "string \<Rightarrow> pciScan \<Rightarrow> pciScan" where
  "device_line line c =
     (case SplitN2 (TrimPrefix line [tab]) two_spaces of
        [a, b] \<Rightarrow>
          if currentVendor c \<noteq> [] then
            c\<lparr>currentDevice := TrimSpace a,
              pciDevices := map_put (currentVendor c) (map_put (TrimSpace a) (TrimSpace b) (map_get_z [] (pciDevices c) (currentVendor c))) (pciDevices c)\<rparr>
          else c
      | _ \<Rightarrow> c)"

definition subsystem_line :: "string \<Rightarrow> pciScan \<Rightarrow> pciScan" where
  "subsystem_line line c =
     (case SplitN2 (TrimPrefix line [tab, tab]) two_spaces of
        [a, b] \<Rightarrow>
          if currentVendor c \<noteq> [] \<and> currentDevice c \<noteq> [] then
            let key = currentVendor c @ '':'' @ currentDevice c;
                known = map_get_z [] (pciSubsystems c) key
            in (case Fields (TrimSpace a) of
                  [sv, sd] \<Rightarrow> c\<lparr>pciSubsystems := map_put key (map_put (sv @ '':'' @ sd) (TrimSpace b) known) (pciSubsystems c)\<rparr>
                | _ \<Rightarrow> c\<lparr>pciSubsystems := map_put key known (pciSubsystems c)\<rparr>)
          else c
      | _ \<Rightarrow> c)"

text \<open>One line of the file, with the conditions in the order of the source.\<close>

definition ids_line :: "string \<Rightarrow> pciScan \<Rightarrow> pciScan" where
  "ids_line line c =
     (if line = [] \<or> HasPrefix line ''#'' then c
      else if HasPrefix line ''C '' then class_line line c
      else if HasPrefix line [tab] \<and> \<not> HasPrefix line [tab, tab] \<and> inClassContext c then subclass_line line c
      else if HasPrefix line [tab, tab] \<and> \<not> HasPrefix line [tab, tab, tab] \<and> inClassContext c then progif_line line c
      else if \<not> HasPrefix line [tab] \<and> \<not> HasPrefix line ''C '' then vendor_line line c
      else if HasPrefix line [tab] \<and> \<not> HasPrefix line [tab, tab] then device_line line c
      else if HasPrefix line [tab, tab] then subsystem_line line c
      else c)"

definition scan_ids :: "string list \<Rightarrow> pciScan" where
  "scan_ids ls = fold ids_line ls start_scan"

text \<open>The flag, or else the first of the usual places that can be opened; without a file the maps stay empty.\<close>

fun open_first :: "(string \<Rightarrow> string res) \<Rightarrow> string list \<Rightarrow> string option" where
  "open_first op [] = None"
| "open_first op (p # ps) = (case op p of Ok s \<Rightarrow> Some s | _ \<Rightarrow> open_first op ps)"

definition loadPCIIds :: "(string \<Rightarrow> string res) \<Rightarrow> string \<Rightarrow> pciIds" where
  "loadPCIIds op pciIDsFile =
     (case (if pciIDsFile \<noteq> [] then open_first op [pciIDsFile] else open_first op pciIDsPaths) of
        None \<Rightarrow> no_ids
      | Some s \<Rightarrow> pciIds.truncate (scan_ids (scan_lines s)))"

section \<open>Names\<close>

text \<open>The identifiers are ASCII, on which lowering a string is lowering its bytes. A collector without names returns them as they are.\<close>

definition norm_id :: "string \<Rightarrow> string" where
  "norm_id s = map lower (TrimPrefix s ''0x'')"

definition getPCIVendorName :: "pciIds option \<Rightarrow> string \<Rightarrow> string" where
  "getPCIVendorName c vendorID =
     (case c of None \<Rightarrow> vendorID
      | Some ids \<Rightarrow> (case map_get (pciVendors ids) (norm_id vendorID) of Some name \<Rightarrow> name | None \<Rightarrow> norm_id vendorID))"

definition getPCIDeviceName :: "pciIds option \<Rightarrow> string \<Rightarrow> string \<Rightarrow> string" where
  "getPCIDeviceName c vendorID deviceID =
     (case c of None \<Rightarrow> deviceID
      | Some ids \<Rightarrow> (case map_get (pciDevices ids) (norm_id vendorID) of
          Some devices \<Rightarrow> (case map_get devices (norm_id deviceID) of Some name \<Rightarrow> name | None \<Rightarrow> norm_id deviceID)
        | None \<Rightarrow> norm_id deviceID))"

definition getPCISubsystemName :: "pciIds option \<Rightarrow> string \<Rightarrow> string \<Rightarrow> string \<Rightarrow> string \<Rightarrow> string" where
  "getPCISubsystemName c vendorID deviceID subsysVendorID subsysDeviceID =
     (case c of None \<Rightarrow> subsysDeviceID
      | Some ids \<Rightarrow>
          let v = TrimPrefix vendorID ''0x''; d = TrimPrefix deviceID ''0x'';
              sv = TrimPrefix subsysVendorID ''0x''; sd = TrimPrefix subsysDeviceID ''0x'' in
          (case map_get (pciSubsystems ids) (v @ '':'' @ d) of
             Some subsystems \<Rightarrow> (case map_get subsystems (sv @ '':'' @ sd) of Some name \<Rightarrow> name | None \<Rightarrow> sd)
           | None \<Rightarrow> sd))"

definition getPCIClassName :: "pciIds option \<Rightarrow> string \<Rightarrow> string" where
  "getPCIClassName c classID =
     (case c of None \<Rightarrow> classID
      | Some ids \<Rightarrow>
          let cls = norm_id classID;
              part = (\<lambda>n m. if length cls \<ge> n then map_get m (take n cls) else None) in
          (case part 6 (pciProgIfs ids) of Some name \<Rightarrow> name
           | None \<Rightarrow> (case part 4 (pciSubclasses ids) of Some name \<Rightarrow> name
             | None \<Rightarrow> (case part 2 (pciClasses ids) of Some name \<Rightarrow> name
               | None \<Rightarrow> ''Unknown class ('' @ cls @ '')''))))"

section \<open>The collector\<close>

text \<open>The location of a device is the list of strings the library makes of it.\<close>

record pciDevice =
  pd_Location :: "string list"
  pd_ParentLocation :: "string list option"
  pd_Class :: uint32
  pd_Vendor :: uint32
  pd_Device :: uint32
  pd_SubsystemVendor :: uint32
  pd_SubsystemDevice :: uint32
  pd_Revision :: uint32
  pd_MaxLinkSpeed :: "float64 option"
  pd_MaxLinkWidth :: "float64 option"
  pd_CurrentLinkSpeed :: "float64 option"
  pd_CurrentLinkWidth :: "float64 option"
  pd_SriovDriversAutoprobe :: "bool option"
  pd_SriovNumvfs :: "uint32 option"
  pd_SriovTotalvfs :: "uint32 option"
  pd_SriovVfTotalMsix :: "uint64 option"
  pd_D3coldAllowed :: "bool option"
  pd_PowerState :: "string option"
  pd_NumaNode :: "int32 option"

text \<open>The collector holds the descriptor of the information sample and, when names are resolved, the maps.\<close>

record pcideviceCollector =
  pci_infoDesc :: typedDesc
  pci_ids :: "pciIds option"

definition info_labels :: "string list" where
  "info_labels = pcideviceLabelNames @ [''parent_segment'', ''parent_bus'', ''parent_device'', ''parent_function'',
     ''class_id'', ''vendor_id'', ''device_id'', ''subsystem_vendor_id'', ''subsystem_device_id'', ''revision'']"

definition name_labels :: "string list" where
  "name_labels = [''vendor_name'', ''device_name'', ''subsystem_vendor_name'', ''subsystem_device_name'', ''class_name'']"

definition NewPcideviceCollector :: "unit res \<Rightarrow> (string \<Rightarrow> string res) \<Rightarrow> bool \<Rightarrow> string \<Rightarrow> pcideviceCollector res" where
  "NewPcideviceCollector sysfs_NewFS op pciNames pciIDsFile =
     bind_res (map_err (Wrapf ''failed to open sysfs: %w'' []) sysfs_NewFS) (\<lambda>_.
     Ok \<lparr>pci_infoDesc = pci_gauge ''info'' ''Non-numeric data from /sys/bus/pci/devices/<location>, value is always 1.''
           (if pciNames then info_labels @ name_labels else info_labels),
         pci_ids = (if pciNames then Some (loadPCIIds op pciIDsFile) else None)\<rparr>)"

definition hex_id :: "nat \<Rightarrow> nat \<Rightarrow> string" where
  "hex_id w n = ''0x'' @ replicate (w - length (FormatHex n)) CHR ''0'' @ FormatHex n"

definition pci_names :: "pciIds option \<Rightarrow> pciDevice \<Rightarrow> string list" where
  "pci_names ids d =
     (let v = hex_id 4 (unat (pd_Vendor d)); dev = hex_id 4 (unat (pd_Device d));
          sv = hex_id 4 (unat (pd_SubsystemVendor d)); sd = hex_id 4 (unat (pd_SubsystemDevice d))
      in [getPCIVendorName ids v, getPCIDeviceName ids v dev, getPCIVendorName ids sv, getPCISubsystemName ids v dev sv sd,
          getPCIClassName ids (hex_id 6 (unat (pd_Class d)))])"

definition info_values :: "pciIds option \<Rightarrow> pciDevice \<Rightarrow> string list" where
  "info_values ids d = pd_Location d @ (case pd_ParentLocation d of Some p \<Rightarrow> p | None \<Rightarrow> [''*'', ''*'', ''*'', ''*'']) @
     [hex_id 6 (unat (pd_Class d)), hex_id 4 (unat (pd_Vendor d)), hex_id 4 (unat (pd_Device d)),
      hex_id 4 (unat (pd_SubsystemVendor d)), hex_id 4 (unat (pd_SubsystemDevice d)), hex_id 2 (unat (pd_Revision d))] @
     (case ids of Some _ \<Rightarrow> pci_names ids d | None \<Rightarrow> [])"

definition or_else :: "float64 \<Rightarrow> ('v \<Rightarrow> float64) \<Rightarrow> 'v option \<Rightarrow> float64" where
  "or_else z f v = (case v of Some x \<Rightarrow> f x | None \<Rightarrow> z)"

definition flag_value :: "bool \<Rightarrow> float64" where
  "flag_value b = (if b then Fin 1 else Fin 0)"

definition giga :: "float64 \<Rightarrow> float64" where
  "giga x = f64_mul x (Fin 1000000000)"

definition powerStates :: "string list" where
  "powerStates = [''D0'', ''D1'', ''D2'', ''D3hot'', ''D3cold'', ''unknown'', ''error'']"

definition power_state_metrics :: "string list \<Rightarrow> string option \<Rightarrow> metric list" where
  "power_state_metrics loc st =
     (case st of None \<Rightarrow> []
      | Some cur \<Rightarrow> map (\<lambda>state. mustNewConstMetric pcidevicePowerStateDesc (if state = cur then Fin 1 else Fin 0) (loc @ [state])) powerStates)"

definition device_metrics :: "pcideviceCollector \<Rightarrow> pciDevice \<Rightarrow> metric list" where
  "device_metrics c d =
     (let loc = pd_Location d; numaNode = or_else (Fin (-1)) (\<lambda>n. f64_of_int (sint n)) (pd_NumaNode d) in
      [mustNewConstMetric (pci_infoDesc c) (Fin 1) (info_values (pci_ids c) d),
       mustNewConstMetric pcideviceMaxLinkTSDesc (or_else (Fin (-1)) giga (pd_MaxLinkSpeed d)) loc,
       mustNewConstMetric pcideviceMaxLinkWidthDesc (or_else (Fin (-1)) (\<lambda>x. x) (pd_MaxLinkWidth d)) loc,
       mustNewConstMetric pcideviceCurrentLinkTSDesc (or_else (Fin (-1)) giga (pd_CurrentLinkSpeed d)) loc,
       mustNewConstMetric pcideviceCurrentLinkWidthDesc (or_else (Fin (-1)) (\<lambda>x. x) (pd_CurrentLinkWidth d)) loc,
       mustNewConstMetric pcideviceD3coldAllowedDesc (or_else (Fin 0) flag_value (pd_D3coldAllowed d)) loc,
       mustNewConstMetric pcideviceSriovDriversAutoprobeDesc (or_else (Fin 0) flag_value (pd_SriovDriversAutoprobe d)) loc,
       mustNewConstMetric pcideviceSriovNumvfsDesc (or_else (Fin 0) (\<lambda>n. f64_of_nat (unat n)) (pd_SriovNumvfs d)) loc,
       mustNewConstMetric pcideviceSriovTotalvfsDesc (or_else (Fin 0) (\<lambda>n. f64_of_nat (unat n)) (pd_SriovTotalvfs d)) loc,
       mustNewConstMetric pcideviceSriovVfTotalMsixDesc (or_else (Fin 0) (\<lambda>n. f64_of_nat (unat n)) (pd_SriovVfTotalMsix d)) loc] @
      power_state_metrics loc (pd_PowerState d) @
      (if numaNode \<noteq> Fin (-1) then [mustNewConstMetric pcideviceNumaNodeDesc numaNode loc] else []))"

definition pci_err :: "error \<Rightarrow> error" where
  "pci_err e = (if errors_Is e ErrNotExist then ErrNoData else Wrapf ''error obtaining PCI device info: %w'' [] e)"

definition pcidevice_Update :: "pciDevice list res \<Rightarrow> pcideviceCollector \<Rightarrow> upd" where
  "pcidevice_Update PciDevices c =
     with_res (map_err pci_err PciDevices) (\<lambda>devices. emit (concat (map (device_metrics c) devices)))"

section \<open>Lemmas\<close>

lemma length_pci_names [simp]: "length (pci_names ids d) = 5"
  by (simp add: pci_names_def Let_def)

lemmas pci_descs =
  pcideviceMaxLinkTSDesc_def pcideviceMaxLinkWidthDesc_def pcideviceCurrentLinkTSDesc_def pcideviceCurrentLinkWidthDesc_def
  pcidevicePowerStateDesc_def pcideviceD3coldAllowedDesc_def pcideviceSriovDriversAutoprobeDesc_def pcideviceSriovNumvfsDesc_def
  pcideviceSriovTotalvfsDesc_def pcideviceSriovVfTotalMsixDesc_def pcideviceNumaNodeDesc_def pci_gauge_def pcideviceLabelNames_def

definition pci_device_ok :: "pciDevice \<Rightarrow> bool" where
  "pci_device_ok d \<longleftrightarrow> length (pd_Location d) = 4 \<and> (\<forall>p. pd_ParentLocation d = Some p \<longrightarrow> length p = 4)"

definition pci_collector_ok :: "pcideviceCollector \<Rightarrow> bool" where
  "pci_collector_ok c \<longleftrightarrow> length (desc_labels (td_desc (pci_infoDesc c))) = (case pci_ids c of None \<Rightarrow> 14 | Some _ \<Rightarrow> 19)"

lemma NewPcideviceCollector_ok: "NewPcideviceCollector r op names ids = Ok c \<Longrightarrow> pci_collector_ok c"
  by (auto simp: NewPcideviceCollector_def pci_collector_ok_def go_simps pci_gauge_def info_labels_def name_labels_def
      pcideviceLabelNames_def split: if_splits)

lemma length_info_values: "pci_device_ok d \<Longrightarrow> length (info_values ids d) = (case ids of None \<Rightarrow> 14 | Some _ \<Rightarrow> 19)"
  by (auto simp: info_values_def pci_device_ok_def split: option.splits)

lemma power_state_metrics_ok: "length loc = 4 \<Longrightarrow> list_all labels_ok (power_state_metrics loc st)"
  by (cases st) (simp_all add: power_state_metrics_def pcidevicePowerStateDesc_def pci_gauge_def pcideviceLabelNames_def powerStates_def)

lemma device_metrics_ok: "pci_collector_ok c \<Longrightarrow> pci_device_ok d \<Longrightarrow> list_all labels_ok (device_metrics c d)"
  by (simp add: device_metrics_def Let_def pci_descs power_state_metrics_ok length_info_values pci_collector_ok_def) (simp add: pci_device_ok_def power_state_metrics_ok)

definition pci_pre :: "pciDevice list res \<times> pcideviceCollector \<Rightarrow> bool" where
  "pci_pre = (\<lambda>(r, c). \<not> panics r \<and> pci_collector_ok c \<and> (\<forall>ds. r = Ok ds \<longrightarrow> list_all pci_device_ok ds))"

interpretation pcidevice: safe_collector_contract "\<lambda>(r, c). pcidevice_Update r c" pci_pre
proof (rule safe_contractI, clarify)
  fix r c assume "pci_pre (r, c)"
  then show "sound (pcidevice_Update r c)"
    using device_metrics_ok by (fastforce simp: pci_pre_def pcidevice_Update_def list_all_iff intro!: sound_with_res sound_emit)
qed

subsection \<open>The database as it is printed\<close>

text \<open>The entries of a database and the lines they are written as: vendors with their devices and those with their subsystems,
  then classes with subclasses and programming interfaces.\<close>

type_synonym dbSubsystem = "(string \<times> string) \<times> string"
type_synonym dbDevice = "string \<times> string \<times> dbSubsystem list"
type_synonym dbVendor = "string \<times> string \<times> dbDevice list"
type_synonym dbSubclass = "string \<times> string \<times> (string \<times> string) list"
type_synonym dbClass = "string \<times> string \<times> dbSubclass list"

definition subsystem_entry :: "dbSubsystem \<Rightarrow> string" where
  "subsystem_entry = (\<lambda>((sv, sd), n). tab # tab # sv @ '' '' @ sd @ two_spaces @ n)"

definition device_entry :: "dbDevice \<Rightarrow> string list" where
  "device_entry = (\<lambda>(d, n, ss). (tab # d @ two_spaces @ n) # map subsystem_entry ss)"

definition vendor_entry :: "dbVendor \<Rightarrow> string list" where
  "vendor_entry = (\<lambda>(v, n, ds). (v @ two_spaces @ n) # concat (map device_entry ds))"

definition progif_entry :: "string \<times> string \<Rightarrow> string" where
  "progif_entry = (\<lambda>(p, n). tab # tab # p @ two_spaces @ n)"

definition subclass_entry :: "dbSubclass \<Rightarrow> string list" where
  "subclass_entry = (\<lambda>(s, n, ps). (tab # s @ two_spaces @ n) # map progif_entry ps)"

definition class_entry :: "dbClass \<Rightarrow> string list" where
  "class_entry = (\<lambda>(c, n, ss). (''C '' @ c @ two_spaces @ n) # concat (map subclass_entry ss))"

definition hex_lower :: "char \<Rightarrow> bool" where
  "hex_lower c \<longleftrightarrow> is_digit c \<or> 97 \<le> byte c \<and> byte c \<le> 102"

definition id_ok :: "string \<Rightarrow> bool" where
  "id_ok s \<longleftrightarrow> s \<noteq> [] \<and> list_all hex_lower s"

definition name_ok :: "string \<Rightarrow> bool" where
  "name_ok n \<longleftrightarrow> TrimSpace n = n"

lemma hex_lower_byte: "hex_lower c \<Longrightarrow> 48 \<le> byte c \<and> byte c \<le> 102"
  by (auto simp: hex_lower_def is_digit_def)

lemma hex_lower_not: "hex_lower c \<Longrightarrow> c \<noteq> CHR '' '' \<and> c \<noteq> tab \<and> c \<noteq> CHR ''#'' \<and> c \<noteq> CHR ''C'' \<and> c \<noteq> CHR '':''"
  by (auto simp: hex_lower_def is_digit_def byte_def tab_def)

lemma hex_lower_space: "hex_lower c \<Longrightarrow> space_width (c # cs) = 0 \<and> last_space_width (c # cs) = 0"
  using hex_lower_byte [of c]
  by (cases "c # cs" rule: space_width.cases; cases "c # cs" rule: last_space_width.cases)
    (auto simp: ascii_space_def space2_def space3_def)

lemma trim_space_id:
  assumes "id_ok s"
  shows "trim_left_space s = s" "trim_rev_space (rev s) = rev s"
proof -
  obtain c cs where s: "s = c # cs" using assms by (cases s) (auto simp: id_ok_def)
  obtain d ds where r: "rev s = d # ds" using assms by (cases "rev s") (auto simp: id_ok_def)
  have "d \<in> set s" using r by (metis list.set_intros(1) set_rev)
  then have "hex_lower c" "hex_lower d" using assms s by (auto simp: id_ok_def list_all_iff)
  then have "trim_left_space (c # cs) = c # cs" "trim_rev_space (d # ds) = d # ds" by (simp_all add: hex_lower_space)
  then show "trim_left_space s = s" "trim_rev_space (rev s) = rev s" using s r by simp_all
qed

lemma TrimSpace_id: "id_ok s \<Longrightarrow> TrimSpace s = s"
  by (simp add: TrimSpace_def trim_space_id)

lemma space_width_space: "space_width (CHR '' '' # s) = 1"
  by (cases "CHR '' '' # s" rule: space_width.cases) (auto simp: ascii_space_def byte_def)

lemma TrimSpace_space_id: "id_ok s \<Longrightarrow> TrimSpace (CHR '' '' # s) = s"
  by (simp add: TrimSpace_def trim_space_id space_width_space)

lemma fields_go_id: "list_all hex_lower a \<Longrightarrow> fields_go cur (a @ s) = fields_go (rev a @ cur) s"
  by (induction a arbitrary: cur) (simp_all add: hex_lower_space)

lemma Fields_ids:
  assumes "id_ok a" "id_ok b"
  shows "Fields (a @ CHR '' '' # b) = [a, b]"
proof -
  have "fields_go [] (b @ []) = [b]" using assms(2) fields_go_id [of b "[]" "[]"] by (simp add: id_ok_def)
  then show ?thesis using assms by (simp add: Fields_def id_ok_def fields_go_id space_width_space)
qed

lemma TrimSpace_ids:
  assumes "id_ok a" "id_ok b"
  shows "TrimSpace (a @ CHR '' '' # b) = a @ CHR '' '' # b"
proof -
  obtain c cs where a: "a = c # cs" "hex_lower c" using assms(1) by (cases a) (auto simp: id_ok_def)
  obtain d ds where b: "rev b = d # ds" using assms(2) by (cases "rev b") (auto simp: id_ok_def)
  have "d \<in> set b" using b by (metis list.set_intros(1) set_rev)
  then have "hex_lower d" using assms(2) by (auto simp: id_ok_def list_all_iff)
  then show ?thesis using b by (simp add: TrimSpace_def a hex_lower_space)
qed

lemma Cut_id: "list_all hex_lower s \<Longrightarrow> Cut (s @ two_spaces @ n) two_spaces = Some (s, n)"
  by (induction s) (auto dest: hex_lower_not)

lemma Cut_ids:
  assumes "list_all hex_lower a" "id_ok b"
  shows "Cut (a @ CHR '' '' # b @ two_spaces @ n) two_spaces = Some (a @ CHR '' '' # b, n)"
proof -
  have "Cut (CHR '' '' # b @ two_spaces @ n) two_spaces = Some (CHR '' '' # b, n)"
    using assms(2) Cut_id [of b n] by (cases b) (auto simp: id_ok_def dest: hex_lower_not)
  then show ?thesis using assms(1) by (induction a) (auto dest: hex_lower_not)
qed

lemma SplitN2_id: "id_ok s \<Longrightarrow> SplitN2 (s @ two_spaces @ n) two_spaces = [s, n]"
  using Cut_id [of s n] by (simp add: SplitN2_def id_ok_def)

lemma id_ok_Cons: "id_ok s \<Longrightarrow> \<exists>c cs. s = c # cs \<and> c \<noteq> CHR '' '' \<and> c \<noteq> tab \<and> c \<noteq> CHR ''#'' \<and> c \<noteq> CHR ''C''"
  by (cases s) (auto simp: id_ok_def dest: hex_lower_not)

lemma ids_line_vendor:
  assumes "id_ok v" "name_ok n"
  shows "ids_line (v @ two_spaces @ n) c =
    c\<lparr>currentVendor := v, pciVendors := map_put v n (pciVendors c), currentDevice := [], inClassContext := False\<rparr>"
proof -
  obtain x xs where "v = x # xs" "x \<noteq> tab" "x \<noteq> CHR ''#''" "x \<noteq> CHR ''C''" using id_ok_Cons [OF assms(1)] by blast
  then have "ids_line (v @ two_spaces @ n) c = vendor_line (v @ two_spaces @ n) c" by (simp add: ids_line_def HasPrefix_def)
  then show ?thesis using assms SplitN2_id [OF assms(1), of n] by (simp add: vendor_line_def TrimSpace_id name_ok_def)
qed

lemma TrimPrefix_tab [simp]: "TrimPrefix (tab # s) [tab] = s" "TrimPrefix (tab # tab # s) [tab, tab] = s"
  by (simp_all add: TrimPrefix_def HasPrefix_def)

lemma tab_not [simp]: "CHR ''#'' \<noteq> tab" "tab \<noteq> CHR ''#''" "CHR ''C'' \<noteq> tab" "tab \<noteq> CHR ''C''"
  by (simp_all add: tab_def)

lemma ids_line_tab:
  assumes "id_ok s" "name_ok n"
  shows "ids_line (tab # s @ two_spaces @ n) c =
    (if inClassContext c then
       if currentBaseClass c \<noteq> [] then
         c\<lparr>pciSubclasses := map_put (currentBaseClass c @ s) n (pciSubclasses c), currentSubclass := currentBaseClass c @ s\<rparr>
       else c
     else if currentVendor c \<noteq> [] then
       c\<lparr>currentDevice := s, pciDevices := map_put (currentVendor c) (map_put s n (map_get_z [] (pciDevices c) (currentVendor c))) (pciDevices c)\<rparr>
     else c)"
proof -
  obtain x xs where "s = x # xs" "x \<noteq> tab" using id_ok_Cons [OF assms(1)] by blast
  then have "ids_line (tab # s @ two_spaces @ n) c =
      (if inClassContext c then subclass_line (tab # s @ two_spaces @ n) c else device_line (tab # s @ two_spaces @ n) c)"
    by (simp add: ids_line_def HasPrefix_def)
  then show ?thesis using assms SplitN2_id [OF assms(1), of n]
    by (simp add: subclass_line_def device_line_def TrimSpace_id name_ok_def Let_def)
qed

lemma ids_line_progif:
  assumes "id_ok s" "name_ok n" "inClassContext c" "currentSubclass c \<noteq> []"
  shows "ids_line (tab # tab # s @ two_spaces @ n) c = c\<lparr>pciProgIfs := map_put (currentSubclass c @ s) n (pciProgIfs c)\<rparr>"
proof -
  obtain x xs where "s = x # xs" "x \<noteq> tab" using id_ok_Cons [OF assms(1)] by blast
  then have "ids_line (tab # tab # s @ two_spaces @ n) c = progif_line (tab # tab # s @ two_spaces @ n) c"
    using assms(3) by (simp add: ids_line_def HasPrefix_def)
  then show ?thesis using assms SplitN2_id [OF assms(1), of n] by (simp add: progif_line_def TrimSpace_id name_ok_def)
qed

lemma ids_line_subsystem:
  assumes "id_ok sv" "id_ok sd" "name_ok n" "\<not> inClassContext c" "currentVendor c \<noteq> []" "currentDevice c \<noteq> []"
  shows "ids_line (tab # tab # sv @ CHR '' '' # sd @ two_spaces @ n) c =
    (let key = currentVendor c @ '':'' @ currentDevice c in
     c\<lparr>pciSubsystems := map_put key (map_put (sv @ '':'' @ sd) n (map_get_z [] (pciSubsystems c) key)) (pciSubsystems c)\<rparr>)"
proof -
  obtain x xs where "sv = x # xs" "x \<noteq> tab" using id_ok_Cons [OF assms(1)] by blast
  then have "ids_line (tab # tab # sv @ CHR '' '' # sd @ two_spaces @ n) c = subsystem_line (tab # tab # sv @ CHR '' '' # sd @ two_spaces @ n) c"
    using assms(4) by (simp add: ids_line_def HasPrefix_def)
  moreover have "SplitN2 (sv @ CHR '' '' # sd @ two_spaces @ n) two_spaces = [sv @ CHR '' '' # sd, n]"
    using Cut_ids [of sv sd n] assms(1,2) by (simp add: SplitN2_def id_ok_def)
  ultimately show ?thesis using assms by (simp add: subsystem_line_def TrimSpace_ids Fields_ids name_ok_def Let_def)
qed

lemma ids_line_class:
  assumes "id_ok s" "name_ok n"
  shows "ids_line (''C '' @ s @ two_spaces @ n) c =
    c\<lparr>pciClasses := map_put s n (pciClasses c), currentBaseClass := s, inClassContext := True\<rparr>"
proof -
  have "SplitN2 (''C '' @ s @ two_spaces @ n) two_spaces = [''C '' @ s, n]"
    using Cut_ids [of "[]" s n] assms(1) by (simp add: SplitN2_def)
  then have "class_line (''C '' @ s @ two_spaces @ n) c = c\<lparr>pciClasses := map_put s n (pciClasses c), currentBaseClass := s, inClassContext := True\<rparr>"
    using assms by (simp add: class_line_def TrimSpace_space_id name_ok_def)
  then show ?thesis by (simp add: ids_line_def HasPrefix_def)
qed

subsection \<open>What the maps hold after the database is read\<close>

definition tbl :: "('k, ('s, 'v) gomap) gomap \<Rightarrow> 'k \<times> 's \<Rightarrow> 'v option" where
  "tbl m = (\<lambda>(k, s). map_get (map_get_z [] m k) s)"

lemma tbl_put: "tbl (map_put k (map_put s x (map_get_z [] m k)) m) = (tbl m)((k, s) \<mapsto> x)"
  by (auto simp: tbl_def fun_eq_iff map_get_z_def split: option.splits)

lemma add_map_of_rev_Cons: "f(k \<mapsto> x) ++ map_of (rev es) = f ++ map_of (rev ((k, x) # es))"
  by (simp add: map_add_def fun_eq_iff split: option.splits)

definition subsystem_ok :: "dbSubsystem \<Rightarrow> bool" where
  "subsystem_ok = (\<lambda>((sv, sd), n). id_ok sv \<and> id_ok sd \<and> name_ok n)"

definition device_ok :: "dbDevice \<Rightarrow> bool" where
  "device_ok = (\<lambda>(d, n, ss). id_ok d \<and> name_ok n \<and> list_all subsystem_ok ss)"

definition vendor_ok :: "dbVendor \<Rightarrow> bool" where
  "vendor_ok = (\<lambda>(v, n, ds). id_ok v \<and> name_ok n \<and> list_all device_ok ds)"

definition subclass_ok :: "dbSubclass \<Rightarrow> bool" where
  "subclass_ok = (\<lambda>(s, n, ps). id_ok s \<and> name_ok n \<and> list_all (\<lambda>(p, n). id_ok p \<and> name_ok n) ps)"

definition class_ok :: "dbClass \<Rightarrow> bool" where
  "class_ok = (\<lambda>(c, n, ss). id_ok c \<and> name_ok n \<and> list_all subclass_ok ss)"

text \<open>The entries under the keys of the maps, in the order of the file.\<close>

definition db_subsystems :: "string \<Rightarrow> dbDevice \<Rightarrow> ((string \<times> string) \<times> string) list" where
  "db_subsystems v = (\<lambda>(d, n, ss). map (\<lambda>((sv, sd), n). ((v @ '':'' @ d, sv @ '':'' @ sd), n)) ss)"

definition db_devices :: "dbVendor \<Rightarrow> ((string \<times> string) \<times> string) list" where
  "db_devices = (\<lambda>(v, n, ds). map (\<lambda>(d, n, ss). ((v, d), n)) ds)"

definition db_vendor_subsystems :: "dbVendor \<Rightarrow> ((string \<times> string) \<times> string) list" where
  "db_vendor_subsystems = (\<lambda>(v, n, ds). concat (map (db_subsystems v) ds))"

definition db_progifs :: "string \<Rightarrow> dbSubclass \<Rightarrow> (string \<times> string) list" where
  "db_progifs c = (\<lambda>(s, n, ps). map (\<lambda>(p, n). (c @ s @ p, n)) ps)"

definition db_subclasses :: "dbClass \<Rightarrow> (string \<times> string) list" where
  "db_subclasses = (\<lambda>(c, n, ss). map (\<lambda>(s, n, ps). (c @ s, n)) ss)"

definition db_class_progifs :: "dbClass \<Rightarrow> (string \<times> string) list" where
  "db_class_progifs = (\<lambda>(c, n, ss). concat (map (db_progifs c) ss))"

lemma fold_subsystems:
  assumes "list_all subsystem_ok ss" "\<not> inClassContext c" "currentVendor c = v" "v \<noteq> []" "currentDevice c = d" "d \<noteq> []"
  shows "\<exists>m. fold ids_line (map subsystem_entry ss) c = c\<lparr>pciSubsystems := m\<rparr> \<and>
    tbl m = tbl (pciSubsystems c) ++ map_of (rev (db_subsystems v (d, n, ss)))"
  using assms
proof (induction ss arbitrary: c)
  case Nil
  then show ?case by (intro exI [of _ "pciSubsystems c"]) (simp add: db_subsystems_def)
next
  case (Cons e ss)
  obtain sv sd x where e: "e = ((sv, sd), x)" by (cases e) auto
  let ?k = "v @ '':'' @ d"
  let ?m = "map_put ?k (map_put (sv @ '':'' @ sd) x (map_get_z [] (pciSubsystems c) ?k)) (pciSubsystems c)"
  have l: "ids_line (subsystem_entry e) c = c\<lparr>pciSubsystems := ?m\<rparr>"
    using Cons.prems ids_line_subsystem [of sv sd x c] by (simp add: e subsystem_entry_def subsystem_ok_def Let_def)
  obtain m where m: "fold ids_line (map subsystem_entry ss) (c\<lparr>pciSubsystems := ?m\<rparr>) = (c\<lparr>pciSubsystems := ?m\<rparr>)\<lparr>pciSubsystems := m\<rparr>"
    "tbl m = tbl ?m ++ map_of (rev (db_subsystems v (d, n, ss)))"
    using Cons.IH [of "c\<lparr>pciSubsystems := ?m\<rparr>"] Cons.prems by auto
  have "tbl m = tbl (pciSubsystems c) ++ map_of (rev (db_subsystems v (d, n, e # ss)))"
    using m(2) by (simp add: tbl_put [simplified] e db_subsystems_def add_map_of_rev_Cons del: map_of_append)
  then show ?case using m(1) l by auto
qed

lemma fold_devices:
  assumes "list_all device_ok ds" "\<not> inClassContext c" "currentVendor c = v" "v \<noteq> []"
  shows "\<exists>md ms cd. fold ids_line (concat (map device_entry ds)) c = c\<lparr>pciDevices := md, pciSubsystems := ms, currentDevice := cd\<rparr> \<and>
    tbl md = tbl (pciDevices c) ++ map_of (rev (db_devices (v, n, ds))) \<and>
    tbl ms = tbl (pciSubsystems c) ++ map_of (rev (db_vendor_subsystems (v, n, ds)))"
  using assms
proof (induction ds arbitrary: c)
  case Nil
  then show ?case
    by (intro exI [of _ "pciDevices c"] exI [of _ "pciSubsystems c"] exI [of _ "currentDevice c"]) (simp add: db_devices_def db_vendor_subsystems_def)
next
  case (Cons e ds)
  obtain d x ss where e: "e = (d, x, ss)" by (cases e) auto
  have ok: "id_ok d" "name_ok x" "list_all subsystem_ok ss" "d \<noteq> []" using Cons.prems(1) by (auto simp: e device_ok_def id_ok_def)
  let ?md = "map_put v (map_put d x (map_get_z [] (pciDevices c) v)) (pciDevices c)"
  let ?c = "c\<lparr>currentDevice := d, pciDevices := ?md\<rparr>"
  have l: "ids_line (tab # d @ two_spaces @ x) c = ?c" using Cons.prems ok ids_line_tab [of d x c] by simp
  obtain ms where ms: "fold ids_line (map subsystem_entry ss) ?c = ?c\<lparr>pciSubsystems := ms\<rparr>"
    "tbl ms = tbl (pciSubsystems c) ++ map_of (rev (db_subsystems v (d, x, ss)))"
    using fold_subsystems [OF ok(3), of ?c v d x] Cons.prems ok(4) by auto
  let ?c' = "?c\<lparr>pciSubsystems := ms\<rparr>"
  obtain md' ms' cd' where r: "fold ids_line (concat (map device_entry ds)) ?c' = ?c'\<lparr>pciDevices := md', pciSubsystems := ms', currentDevice := cd'\<rparr>"
    "tbl md' = tbl ?md ++ map_of (rev (db_devices (v, n, ds)))" "tbl ms' = tbl ms ++ map_of (rev (db_vendor_subsystems (v, n, ds)))"
    using Cons.IH [of ?c'] Cons.prems by auto
  have "fold ids_line (concat (map device_entry (e # ds))) c = c\<lparr>pciDevices := md', pciSubsystems := ms', currentDevice := cd'\<rparr>"
    using l ms(1) r(1) by (simp add: e device_entry_def)
  moreover have "tbl md' = tbl (pciDevices c) ++ map_of (rev (db_devices (v, n, e # ds)))"
    by (simp add: r(2) tbl_put [simplified] add_map_of_rev_Cons e db_devices_def del: map_of_append)
  moreover have "tbl ms' = tbl (pciSubsystems c) ++ map_of (rev (db_vendor_subsystems (v, n, e # ds)))"
    by (simp add: r(3) ms(2) e db_vendor_subsystems_def)
  ultimately show ?case by blast
qed

definition vendor_names :: "dbVendor list \<Rightarrow> (string \<times> string) list" where
  "vendor_names vs = map (\<lambda>(v, n, ds). (v, n)) vs"

definition class_names :: "dbClass list \<Rightarrow> (string \<times> string) list" where
  "class_names cs = map (\<lambda>(c, n, ss). (c, n)) cs"

lemma fold_vendors:
  assumes "list_all vendor_ok vs"
  shows "\<not> inClassContext c \<Longrightarrow> \<exists>mv md ms cv cd. fold ids_line (concat (map vendor_entry vs)) c =
      c\<lparr>pciVendors := mv, pciDevices := md, pciSubsystems := ms, currentVendor := cv, currentDevice := cd\<rparr> \<and>
    map_get mv = map_get (pciVendors c) ++ map_of (rev (vendor_names vs)) \<and>
    tbl md = tbl (pciDevices c) ++ map_of (rev (concat (map db_devices vs))) \<and>
    tbl ms = tbl (pciSubsystems c) ++ map_of (rev (concat (map db_vendor_subsystems vs)))"
  using assms
proof (induction vs arbitrary: c)
  case Nil
  then show ?case
    by (intro exI [of _ "pciVendors c"] exI [of _ "pciDevices c"] exI [of _ "pciSubsystems c"] exI [of _ "currentVendor c"] exI [of _ "currentDevice c"])
      (simp add: vendor_names_def)
next
  case (Cons e vs)
  obtain v x ds where e: "e = (v, x, ds)" by (cases e) auto
  have ok: "id_ok v" "name_ok x" "list_all device_ok ds" "v \<noteq> []" using Cons.prems(2) by (auto simp: e vendor_ok_def id_ok_def)
  let ?c = "c\<lparr>currentVendor := v, pciVendors := map_put v x (pciVendors c), currentDevice := [], inClassContext := False\<rparr>"
  have l: "ids_line (v @ two_spaces @ x) c = ?c" by (rule ids_line_vendor [OF ok(1,2)])
  obtain md ms cd where d: "fold ids_line (concat (map device_entry ds)) ?c = ?c\<lparr>pciDevices := md, pciSubsystems := ms, currentDevice := cd\<rparr>"
    "tbl md = tbl (pciDevices c) ++ map_of (rev (db_devices e))" "tbl ms = tbl (pciSubsystems c) ++ map_of (rev (db_vendor_subsystems e))"
    using fold_devices [OF ok(3), of ?c v x] ok(4) by (auto simp: e)
  let ?c' = "?c\<lparr>pciDevices := md, pciSubsystems := ms, currentDevice := cd\<rparr>"
  obtain mv' md' ms' cv' cd' where r: "fold ids_line (concat (map vendor_entry vs)) ?c' =
      ?c'\<lparr>pciVendors := mv', pciDevices := md', pciSubsystems := ms', currentVendor := cv', currentDevice := cd'\<rparr>"
    "map_get mv' = map_get (pciVendors ?c') ++ map_of (rev (vendor_names vs))"
    "tbl md' = tbl (pciDevices ?c') ++ map_of (rev (concat (map db_devices vs)))"
    "tbl ms' = tbl (pciSubsystems ?c') ++ map_of (rev (concat (map db_vendor_subsystems vs)))"
  proof -
    have "\<not> inClassContext ?c'" "list_all vendor_ok vs" using Cons.prems(2) by simp_all
    from Cons.IH [OF this] show thesis using that by blast
  qed
  have "fold ids_line (concat (map vendor_entry (e # vs))) c =
      c\<lparr>pciVendors := mv', pciDevices := md', pciSubsystems := ms', currentVendor := cv', currentDevice := cd'\<rparr>"
    using l d(1) r(1) Cons.prems(1) by (simp add: e vendor_entry_def)
  moreover have "map_get mv' = map_get (pciVendors c) ++ map_of (rev (vendor_names (e # vs)))"
    by (simp add: r(2) add_map_of_rev_Cons e vendor_names_def del: map_of_append)
  moreover have "tbl md' = tbl (pciDevices c) ++ map_of (rev (concat (map db_devices (e # vs))))" by (simp add: r(3) d(2))
  moreover have "tbl ms' = tbl (pciSubsystems c) ++ map_of (rev (concat (map db_vendor_subsystems (e # vs))))" by (simp add: r(4) d(3))
  ultimately show ?case by blast
qed

lemma fold_progifs:
  assumes "list_all (\<lambda>(p, n). id_ok p \<and> name_ok n) ps"
  shows "inClassContext c \<Longrightarrow> currentSubclass c = b @ s \<Longrightarrow> s \<noteq> [] \<Longrightarrow> \<exists>m. fold ids_line (map progif_entry ps) c = c\<lparr>pciProgIfs := m\<rparr> \<and>
    map_get m = map_get (pciProgIfs c) ++ map_of (rev (db_progifs b (s, n, ps)))"
  using assms
proof (induction ps arbitrary: c)
  case Nil
  then show ?case by (intro exI [of _ "pciProgIfs c"]) (simp add: db_progifs_def)
next
  case (Cons e ps)
  obtain p x where e: "e = (p, x)" by (cases e)
  let ?c = "c\<lparr>pciProgIfs := map_put (b @ s @ p) x (pciProgIfs c)\<rparr>"
  have l: "ids_line (progif_entry e) c = ?c" using Cons.prems ids_line_progif [of p x c] by (simp add: e progif_entry_def)
  obtain m where m: "fold ids_line (map progif_entry ps) ?c = ?c\<lparr>pciProgIfs := m\<rparr>"
    "map_get m = map_get (pciProgIfs ?c) ++ map_of (rev (db_progifs b (s, n, ps)))"
  proof -
    have "inClassContext ?c" "currentSubclass ?c = b @ s" "s \<noteq> []" "list_all (\<lambda>(p, n). id_ok p \<and> name_ok n) ps" using Cons.prems by simp_all
    from Cons.IH [OF this] show thesis using that by blast
  qed
  have "map_get m = map_get (pciProgIfs c) ++ map_of (rev (db_progifs b (s, n, e # ps)))"
    by (simp add: m(2) e db_progifs_def add_map_of_rev_Cons del: map_of_append)
  then show ?case using m(1) l by auto
qed

lemma fold_subclasses:
  assumes "list_all subclass_ok ss"
  shows "inClassContext c \<Longrightarrow> currentBaseClass c = b \<Longrightarrow> b \<noteq> [] \<Longrightarrow> \<exists>mc mp cs. fold ids_line (concat (map subclass_entry ss)) c =
      c\<lparr>pciSubclasses := mc, pciProgIfs := mp, currentSubclass := cs\<rparr> \<and>
    map_get mc = map_get (pciSubclasses c) ++ map_of (rev (db_subclasses (b, n, ss))) \<and>
    map_get mp = map_get (pciProgIfs c) ++ map_of (rev (db_class_progifs (b, n, ss)))"
  using assms
proof (induction ss arbitrary: c)
  case Nil
  then show ?case
    by (intro exI [of _ "pciSubclasses c"] exI [of _ "pciProgIfs c"] exI [of _ "currentSubclass c"]) (simp add: db_subclasses_def db_class_progifs_def)
next
  case (Cons e ss)
  obtain s x ps where e: "e = (s, x, ps)" by (cases e) auto
  have ok: "id_ok s" "name_ok x" "list_all (\<lambda>(p, n). id_ok p \<and> name_ok n) ps" "s \<noteq> []" using Cons.prems(4) by (auto simp: e subclass_ok_def id_ok_def)
  let ?c = "c\<lparr>pciSubclasses := map_put (b @ s) x (pciSubclasses c), currentSubclass := b @ s\<rparr>"
  have l: "ids_line (tab # s @ two_spaces @ x) c = ?c" using Cons.prems ok ids_line_tab [of s x c] by simp
  obtain mp where p: "fold ids_line (map progif_entry ps) ?c = ?c\<lparr>pciProgIfs := mp\<rparr>"
    "map_get mp = map_get (pciProgIfs c) ++ map_of (rev (db_progifs b (s, x, ps)))"
    using fold_progifs [OF ok(3), of ?c b s x] Cons.prems ok(4) by auto
  let ?c' = "?c\<lparr>pciProgIfs := mp\<rparr>"
  obtain mc' mp' cs' where r: "fold ids_line (concat (map subclass_entry ss)) ?c' = ?c'\<lparr>pciSubclasses := mc', pciProgIfs := mp', currentSubclass := cs'\<rparr>"
    "map_get mc' = map_get (pciSubclasses ?c') ++ map_of (rev (db_subclasses (b, n, ss)))"
    "map_get mp' = map_get (pciProgIfs ?c') ++ map_of (rev (db_class_progifs (b, n, ss)))"
  proof -
    have "inClassContext ?c'" "currentBaseClass ?c' = b" "b \<noteq> []" "list_all subclass_ok ss" using Cons.prems by simp_all
    from Cons.IH [OF this] show thesis using that by blast
  qed
  have "fold ids_line (concat (map subclass_entry (e # ss))) c = c\<lparr>pciSubclasses := mc', pciProgIfs := mp', currentSubclass := cs'\<rparr>"
    using l p(1) r(1) by (simp add: e subclass_entry_def)
  moreover have "map_get mc' = map_get (pciSubclasses c) ++ map_of (rev (db_subclasses (b, n, e # ss)))"
    by (simp add: r(2) e db_subclasses_def add_map_of_rev_Cons del: map_of_append)
  moreover have "map_get mp' = map_get (pciProgIfs c) ++ map_of (rev (db_class_progifs (b, n, e # ss)))"
    by (simp add: r(3) p(2) e db_class_progifs_def db_progifs_def)
  ultimately show ?case by blast
qed

lemma fold_classes:
  assumes "list_all class_ok ks"
  shows "\<exists>mk mc mp cb cs ctx. fold ids_line (concat (map class_entry ks)) c =
      c\<lparr>pciClasses := mk, pciSubclasses := mc, pciProgIfs := mp, currentBaseClass := cb, currentSubclass := cs, inClassContext := ctx\<rparr> \<and>
    map_get mk = map_get (pciClasses c) ++ map_of (rev (class_names ks)) \<and>
    map_get mc = map_get (pciSubclasses c) ++ map_of (rev (concat (map db_subclasses ks))) \<and>
    map_get mp = map_get (pciProgIfs c) ++ map_of (rev (concat (map db_class_progifs ks)))"
  using assms
proof (induction ks arbitrary: c)
  case Nil
  then show ?case
    by (intro exI [of _ "pciClasses c"] exI [of _ "pciSubclasses c"] exI [of _ "pciProgIfs c"] exI [of _ "currentBaseClass c"]
        exI [of _ "currentSubclass c"] exI [of _ "inClassContext c"]) (simp add: class_names_def)
next
  case (Cons e ks)
  obtain b x ss where e: "e = (b, x, ss)" by (cases e) auto
  have ok: "id_ok b" "name_ok x" "list_all subclass_ok ss" "b \<noteq> []" using Cons.prems(1) by (auto simp: e class_ok_def id_ok_def)
  let ?c = "c\<lparr>pciClasses := map_put b x (pciClasses c), currentBaseClass := b, inClassContext := True\<rparr>"
  have l: "ids_line (''C '' @ b @ two_spaces @ x) c = ?c" by (rule ids_line_class [OF ok(1,2)])
  obtain mc mp cs where s: "fold ids_line (concat (map subclass_entry ss)) ?c = ?c\<lparr>pciSubclasses := mc, pciProgIfs := mp, currentSubclass := cs\<rparr>"
    "map_get mc = map_get (pciSubclasses c) ++ map_of (rev (db_subclasses e))" "map_get mp = map_get (pciProgIfs c) ++ map_of (rev (db_class_progifs e))"
    using fold_subclasses [OF ok(3), of ?c b x] ok(4) by (auto simp: e)
  let ?c' = "?c\<lparr>pciSubclasses := mc, pciProgIfs := mp, currentSubclass := cs\<rparr>"
  obtain mk' mc' mp' cb' cs' ctx' where r: "fold ids_line (concat (map class_entry ks)) ?c' =
      ?c'\<lparr>pciClasses := mk', pciSubclasses := mc', pciProgIfs := mp', currentBaseClass := cb', currentSubclass := cs', inClassContext := ctx'\<rparr>"
    "map_get mk' = map_get (pciClasses ?c') ++ map_of (rev (class_names ks))"
    "map_get mc' = map_get (pciSubclasses ?c') ++ map_of (rev (concat (map db_subclasses ks)))"
    "map_get mp' = map_get (pciProgIfs ?c') ++ map_of (rev (concat (map db_class_progifs ks)))"
  proof -
    have "list_all class_ok ks" using Cons.prems by simp
    from Cons.IH [OF this, of ?c'] show thesis using that by blast
  qed
  have "fold ids_line (concat (map class_entry (e # ks))) c =
      c\<lparr>pciClasses := mk', pciSubclasses := mc', pciProgIfs := mp', currentBaseClass := cb', currentSubclass := cs', inClassContext := ctx'\<rparr>"
    using l s(1) r(1) by (simp add: e class_entry_def)
  moreover have "map_get mk' = map_get (pciClasses c) ++ map_of (rev (class_names (e # ks)))"
    by (simp add: r(2) add_map_of_rev_Cons e class_names_def del: map_of_append)
  moreover have "map_get mc' = map_get (pciSubclasses c) ++ map_of (rev (concat (map db_subclasses (e # ks))))" by (simp add: r(3) s(2))
  moreover have "map_get mp' = map_get (pciProgIfs c) ++ map_of (rev (concat (map db_class_progifs (e # ks))))" by (simp add: r(4) s(3))
  ultimately show ?case by blast
qed

lemma truncate_ids [simp]:
  "pciVendors (pciIds.truncate c) = pciVendors c" "pciDevices (pciIds.truncate c) = pciDevices c"
  "pciSubsystems (pciIds.truncate c) = pciSubsystems c" "pciClasses (pciIds.truncate c) = pciClasses c"
  "pciSubclasses (pciIds.truncate c) = pciSubclasses c" "pciProgIfs (pciIds.truncate c) = pciProgIfs c"
  by (simp_all add: pciIds.truncate_def)

lemma scan_ids_db:
  assumes "list_all vendor_ok vs" "list_all class_ok ks"
  shows "let c = scan_ids (concat (map vendor_entry vs) @ concat (map class_entry ks)) in
    map_get (pciVendors c) = map_of (rev (vendor_names vs)) \<and>
    tbl (pciDevices c) = map_of (rev (concat (map db_devices vs))) \<and>
    tbl (pciSubsystems c) = map_of (rev (concat (map db_vendor_subsystems vs))) \<and>
    map_get (pciClasses c) = map_of (rev (class_names ks)) \<and>
    map_get (pciSubclasses c) = map_of (rev (concat (map db_subclasses ks))) \<and>
    map_get (pciProgIfs c) = map_of (rev (concat (map db_class_progifs ks)))"
proof -
  have e: "tbl [] = Map.empty" by (simp add: tbl_def map_get_z_def fun_eq_iff)
  obtain mv md ms cv cd where v: "fold ids_line (concat (map vendor_entry vs)) start_scan =
      start_scan\<lparr>pciVendors := mv, pciDevices := md, pciSubsystems := ms, currentVendor := cv, currentDevice := cd\<rparr>"
    "map_get mv = map_of (rev (vendor_names vs))" "tbl md = map_of (rev (concat (map db_devices vs)))"
    "tbl ms = map_of (rev (concat (map db_vendor_subsystems vs)))"
    using fold_vendors [OF assms(1), of start_scan] by (auto simp: start_scan_def e)
  let ?c = "start_scan\<lparr>pciVendors := mv, pciDevices := md, pciSubsystems := ms, currentVendor := cv, currentDevice := cd\<rparr>"
  obtain mk mc mp cb cs ctx where k: "fold ids_line (concat (map class_entry ks)) ?c =
      ?c\<lparr>pciClasses := mk, pciSubclasses := mc, pciProgIfs := mp, currentBaseClass := cb, currentSubclass := cs, inClassContext := ctx\<rparr>"
    "map_get mk = map_get (pciClasses ?c) ++ map_of (rev (class_names ks))"
    "map_get mc = map_get (pciSubclasses ?c) ++ map_of (rev (concat (map db_subclasses ks)))"
    "map_get mp = map_get (pciProgIfs ?c) ++ map_of (rev (concat (map db_class_progifs ks)))"
    using fold_classes [OF assms(2), of ?c] by blast
  have s: "scan_ids (concat (map vendor_entry vs) @ concat (map class_entry ks)) =
      ?c\<lparr>pciClasses := mk, pciSubclasses := mc, pciProgIfs := mp, currentBaseClass := cb, currentSubclass := cs, inClassContext := ctx\<rparr>"
    by (simp only: scan_ids_def fold_append o_apply v(1) k(1))
  show ?thesis unfolding s Let_def using v(2-4) k(2-4) by (simp add: start_scan_def)
qed

section \<open>Properties\<close>

text \<open>
  C22: Reading a database file gives its entries back: whatever the file lists, the maps that names are looked up in hold exactly
  that, the last entry for an identifier winning.
\<close>

theorem pci_ids_roundtrip:
  assumes "list_all vendor_ok vs" "list_all class_ok ks" "idsFile \<noteq> []" "op idsFile = Ok s"
    and "scan_lines s = concat (map vendor_entry vs) @ concat (map class_entry ks)"
  shows "let ids = loadPCIIds op idsFile in
    map_get (pciVendors ids) = map_of (rev (vendor_names vs)) \<and>
    tbl (pciDevices ids) = map_of (rev (concat (map db_devices vs))) \<and>
    tbl (pciSubsystems ids) = map_of (rev (concat (map db_vendor_subsystems vs))) \<and>
    map_get (pciClasses ids) = map_of (rev (class_names ks)) \<and>
    map_get (pciSubclasses ids) = map_of (rev (concat (map db_subclasses ks))) \<and>
    map_get (pciProgIfs ids) = map_of (rev (concat (map db_class_progifs ks)))"
  using scan_ids_db [OF assms(1,2)] by (simp add: loadPCIIds_def assms(3-5) Let_def)

definition demo_vendors :: "dbVendor list" where
  "demo_vendors = [(''8086'', ''Intel Corporation'', [(''1237'', ''440FX'', [((''1af4'', ''1100''), ''Qemu virtual machine'')]), (''7010'', ''PIIX3 IDE'', [])])]"

definition demo_classes :: "dbClass list" where
  "demo_classes = [(''01'', ''Mass storage'', [(''08'', ''NVM controller'', [(''02'', ''NVM Express'')])]), (''02'', ''Network'', [])]"

definition demo_ids :: string where
  "demo_ids = concat (map (\<lambda>l. l @ [nl]) (concat (map vendor_entry demo_vendors) @ concat (map class_entry demo_classes)))"

lemma demo_db:
  "list_all vendor_ok demo_vendors" "list_all class_ok demo_classes"
  "scan_lines demo_ids = concat (map vendor_entry demo_vendors) @ concat (map class_entry demo_classes)"
  by code_simp+

theorem pci_ids_roundtrip_witness:
  "map_get (pciVendors (loadPCIIds (\<lambda>_. Ok demo_ids) ''pci.ids'')) = [''8086'' \<mapsto> ''Intel Corporation''] \<and>
   map_get (pciSubclasses (loadPCIIds (\<lambda>_. Ok demo_ids) ''pci.ids'')) = [''0108'' \<mapsto> ''NVM controller'']"
proof -
  have "rev (vendor_names demo_vendors) = [(''8086'', ''Intel Corporation'')]"
    "rev (concat (map db_subclasses demo_classes)) = [(''0108'', ''NVM controller'')]" by code_simp+
  then show ?thesis
    using pci_ids_roundtrip [OF demo_db(1,2), of "''pci.ids''" "\<lambda>_. Ok demo_ids"] demo_db(3) by (simp add: Let_def)
qed

lemma map_lower_hex: "list_all hex_lower s \<Longrightarrow> map lower s = s"
  by (induction s) (auto simp: hex_lower_def is_digit_def lower_def)

text \<open>
  A device class is named by its programming interface, else by its subclass, else by its base class, whichever is the first
  that the database knows.
\<close>

theorem pci_class_name:
  assumes "list_all vendor_ok vs" "list_all class_ok ks" "idsFile \<noteq> []" "op idsFile = Ok s"
    and "scan_lines s = concat (map vendor_entry vs) @ concat (map class_entry ks)"
    and "length b = 2" "length sc = 2" "length p = 2" "list_all hex_lower (b @ sc @ p)"
  shows "getPCIClassName (Some (loadPCIIds op idsFile)) (''0x'' @ b @ sc @ p) =
    (case map_of (rev (concat (map db_class_progifs ks))) (b @ sc @ p) of Some n \<Rightarrow> n
     | None \<Rightarrow> (case map_of (rev (concat (map db_subclasses ks))) (b @ sc) of Some n \<Rightarrow> n
       | None \<Rightarrow> (case map_of (rev (class_names ks)) b of Some n \<Rightarrow> n
         | None \<Rightarrow> ''Unknown class ('' @ b @ sc @ p @ '')'')))"
proof -
  let ?ids = "pciIds.truncate (scan_ids (scan_lines s))"
  have l: "loadPCIIds op idsFile = ?ids" by (simp add: loadPCIIds_def assms(3,4))
  have m: "map_get (pciClasses ?ids) = map_of (rev (class_names ks))" "map_get (pciSubclasses ?ids) = map_of (rev (concat (map db_subclasses ks)))"
    "map_get (pciProgIfs ?ids) = map_of (rev (concat (map db_class_progifs ks)))"
    using scan_ids_db [OF assms(1,2)] by (simp_all add: assms(5) Let_def)
  have n: "norm_id (''0x'' @ b @ sc @ p) = b @ sc @ p"
    using map_lower_hex [OF assms(9)] by (simp add: norm_id_def TrimPrefix_def HasPrefix_def)
  show ?thesis
    unfolding getPCIClassName_def option.case l n Let_def m using assms(6-8) by (simp add: append_assoc split: option.splits)
qed

theorem pci_class_name_witness:
  "getPCIClassName (Some (loadPCIIds (\<lambda>_. Ok demo_ids) ''pci.ids'')) ''0x010802'' = ''NVM Express'' \<and>
   getPCIClassName (Some (loadPCIIds (\<lambda>_. Ok demo_ids) ''pci.ids'')) ''0x020000'' = ''Network''"
proof -
  note r = pci_class_name [OF demo_db(1,2) _ _ demo_db(3), of "''pci.ids''" "\<lambda>_. Ok demo_ids"]
  have "map_of (rev (concat (map db_class_progifs demo_classes))) ''010802'' = Some ''NVM Express''"
    "map_of (rev (concat (map db_class_progifs demo_classes))) ''020000'' = None"
    "map_of (rev (concat (map db_subclasses demo_classes))) ''0200'' = None"
    "map_of (rev (class_names demo_classes)) ''02'' = Some ''Network''" "list_all hex_lower ''010802''" "list_all hex_lower ''020000''"
    by code_simp+
  then show ?thesis using r [of "''01''" "''08''" "''02''"] r [of "''02''" "''00''" "''00''"] by simp
qed

end
