(* ===== verification/Diskfs.thy ===== *)
theory Diskfs
  imports Filesystem Registry
begin

text \<open>
  Four file systems that export what the kernel knows of them: btrfs (\<^verbatim>\<open>btrfs_linux.go\<close>) with the devices it asks
  the kernel for, bcache (\<^verbatim>\<open>bcache_linux.go\<close>), bcachefs (\<^verbatim>\<open>bcachefs_linux.go\<close>) and XFS (\<^verbatim>\<open>xfs_linux.go\<close>).
  The structures that the sysfs library fills are parameters; where one has many numbers it is a function of their names.
\<close>

section \<open>Samples with extra labels\<close>

text \<open>What \<^verbatim>\<open>btrfs\<close> and \<^verbatim>\<open>bcache\<close> gather before they turn it into metrics.\<close>

record extraMetric =
  em_name :: string
  em_type :: valueType
  em_desc :: string
  em_value :: float64
  em_labels :: "string list"
  em_values :: "string list"

definition send_extra :: "string \<Rightarrow> string \<Rightarrow> extraMetric \<Rightarrow> metric" where
  "send_extra subsystem uuid m =
     MustNewConstMetric (NewDesc (BuildFQName namespace subsystem (em_name m)) (em_desc m) (''uuid'' # em_labels m)) (em_type m) (em_value m)
       (uuid # em_values m)"

lemma send_extra_ok [simp]: "labels_ok (send_extra subsystem uuid m) \<longleftrightarrow> length (em_values m) = length (em_labels m)"
  by (auto simp: send_extra_def)

section \<open>btrfs\<close>

record layoutUsage =
  lu_UsedBytes :: uint64
  lu_TotalBytes :: uint64
  lu_Ratio :: float64

record allocationStats =
  al_ReservedBytes :: uint64
  al_Layouts :: "(string, layoutUsage) gomap"

record btrfsStats =
  bt_UUID :: string
  bt_Label :: string
  bt_GlobalRsvSize :: uint64
  bt_Data :: allocationStats
  bt_Metadata :: allocationStats
  bt_System :: allocationStats
  bt_Devices :: "(string, uint64) gomap"
  bt_Commits :: uint64
  bt_LastCommitMs :: uint64
  bt_MaxCommitMs :: uint64
  bt_TotalCommitMs :: uint64

text \<open>An open file system as the ioctl library sees it: its information, and for a device number the device and its error counters.\<close>

record btrfsInfo =
  bi_FSID :: string
  bi_NumDevices :: uint64
  bi_MaxID :: uint64

record btrfsDevInfo =
  di_Path :: string
  di_UUID :: string
  di_BytesUsed :: uint64
  di_TotalBytes :: uint64

record btrfsDevStats =
  de_WriteErrs :: uint64
  de_ReadErrs :: uint64
  de_FlushErrs :: uint64
  de_CorruptionErrs :: uint64
  de_GenerationErrs :: uint64

record btrfsHandle =
  fs_Info :: "btrfsInfo res"
  fs_GetDevInfo :: "uint64 \<Rightarrow> btrfsDevInfo res"
  fs_GetDevStats :: "uint64 \<Rightarrow> btrfsDevStats res"

record btrfsIoctlFsDevStats =
  bd_path :: string
  bd_uuid :: string
  bytesUsed :: uint64
  totalBytes :: uint64
  writeErrs :: uint64
  readErrs :: uint64
  flushErrs :: uint64
  corruptionErrs :: uint64
  generationErrs :: uint64

record btrfsIoctlFsStats =
  bs_uuid :: string
  bs_devices :: "btrfsIoctlFsDevStats list"

definition ioctl_dev :: "btrfsDevInfo \<Rightarrow> btrfsDevStats \<Rightarrow> btrfsIoctlFsDevStats" where
  "ioctl_dev i s = \<lparr>bd_path = di_Path i, bd_uuid = di_UUID i, bytesUsed = di_BytesUsed i, totalBytes = di_TotalBytes i,
     writeErrs = de_WriteErrs s, readErrs = de_ReadErrs s, flushErrs = de_FlushErrs s, corruptionErrs = de_CorruptionErrs s,
     generationErrs = de_GenerationErrs s\<rparr>"

text \<open>
  The loop over device numbers compares an unsigned counter with the largest number, so it is not obvious that it ends:
  \<open>None\<close> is a run that does not. \<open>enodev\<close> tells the error of a number without a device.
\<close>

partial_function (option) dev_loop ::
  "(error \<Rightarrow> bool) \<Rightarrow> btrfsHandle \<Rightarrow> btrfsInfo \<Rightarrow> uint64 \<Rightarrow> btrfsIoctlFsDevStats list \<Rightarrow> btrfsIoctlFsDevStats list res option" where
  "dev_loop enodev fs info i devices =
     (if i \<le> bi_MaxID info then
        (case fs_GetDevInfo fs i of
           Err e \<Rightarrow> if enodev e then dev_loop enodev fs info (i + 1) devices else Some (Err e)
         | Panic p \<Rightarrow> Some (Panic p)
         | Ok di \<Rightarrow>
             (case fs_GetDevStats fs i of
                Err e \<Rightarrow> Some (Err e)
              | Panic p \<Rightarrow> Some (Panic p)
              | Ok st \<Rightarrow>
                  if of_nat (length (devices @ [ioctl_dev di st])) = bi_NumDevices info then Some (Ok (devices @ [ioctl_dev di st]))
                  else dev_loop enodev fs info (i + 1) (devices @ [ioctl_dev di st])))
      else Some (Ok devices))"

definition getIoctlDeviceStats :: "(error \<Rightarrow> bool) \<Rightarrow> btrfsHandle \<Rightarrow> btrfsInfo \<Rightarrow> btrfsIoctlFsDevStats list res option" where
  "getIoctlDeviceStats enodev fs info = dev_loop enodev fs info 0 []"

record btrfsEnv =
  bt_Stats :: "btrfsStats list res"
  bt_mounts :: "filesystemLabels list res"
  bt_paths :: paths
  bt_Open :: "string \<Rightarrow> btrfsHandle res"
  is_ENODEV :: "error \<Rightarrow> bool"

type_synonym ioctlState = "string set \<times> (string, btrfsIoctlFsStats) gomap"

text \<open>One mount: a file system that cannot be opened or asked is passed over, and left for another of its mounts.\<close>

definition ioctl_mount :: "btrfsEnv \<Rightarrow> filesystemLabels \<Rightarrow> ioctlState \<Rightarrow> ioctlState res option" where
  "ioctl_mount env mount = (\<lambda>(devicesDone, fsStats).
     if fsType mount \<noteq> ''btrfs'' \<or> device mount \<in> devicesDone then Some (Ok (devicesDone, fsStats))
     else case bt_Open env (rootfsFilePath (bt_paths env) (mountPoint mount)) of
       Err e \<Rightarrow> Some (Ok (devicesDone, fsStats))
     | Panic p \<Rightarrow> Some (Panic p)
     | Ok fs \<Rightarrow>
         (case fs_Info fs of
            Err e \<Rightarrow> Some (Ok (devicesDone, fsStats))
          | Panic p \<Rightarrow> Some (Panic p)
          | Ok info \<Rightarrow>
              if map_get fsStats (bi_FSID info) \<noteq> None then Some (Ok (devicesDone, fsStats))
              else Option.bind (getIoctlDeviceStats (is_ENODEV env) fs info) (\<lambda>r.
                case r of
                  Err e \<Rightarrow> Some (Ok (devicesDone, fsStats))
                | Panic p \<Rightarrow> Some (Panic p)
                | Ok ds \<Rightarrow> Some (Ok (insert (device mount) devicesDone,
                    map_put (bi_FSID info) \<lparr>bs_uuid = bi_FSID info, bs_devices = ds\<rparr> fsStats)))))"

fun ioctl_mounts :: "btrfsEnv \<Rightarrow> filesystemLabels list \<Rightarrow> ioctlState \<Rightarrow> ioctlState res option" where
  "ioctl_mounts env [] st = Some (Ok st)"
| "ioctl_mounts env (m # ms) st =
     Option.bind (ioctl_mount env m st) (\<lambda>r. case r of Ok st' \<Rightarrow> ioctl_mounts env ms st' | Err e \<Rightarrow> Some (Err e) | Panic p \<Rightarrow> Some (Panic p))"

definition getIoctlStats :: "btrfsEnv \<Rightarrow> (string, btrfsIoctlFsStats) gomap res option" where
  "getIoctlStats env =
     (case bt_mounts env of
        Err e \<Rightarrow> Some (Err e)
      | Panic p \<Rightarrow> Some (Panic p)
      | Ok ms \<Rightarrow> Option.bind (ioctl_mounts env ms ({}, [])) (\<lambda>r. Some (bind_res r (\<lambda>st. Ok (snd st)))))"

definition btrfsMetric :: "string \<Rightarrow> string \<Rightarrow> valueType \<Rightarrow> float64 \<Rightarrow> string list \<Rightarrow> string list \<Rightarrow> extraMetric" where
  "btrfsMetric name desc ty v ls vs = \<lparr>em_name = name, em_type = ty, em_desc = desc, em_value = v, em_labels = ls, em_values = vs\<rparr>"

definition getLayoutStats :: "string \<Rightarrow> string \<Rightarrow> layoutUsage \<Rightarrow> extraMetric list" where
  "getLayoutStats a l s =
     [btrfsMetric ''used_bytes'' ''Amount of used space by a layout/data type'' GaugeValue (f64_of_nat (unat (lu_UsedBytes s))) [''block_group_type'', ''mode''] [a, l],
      btrfsMetric ''size_bytes'' ''Amount of space allocated for a layout/data type'' GaugeValue (f64_of_nat (unat (lu_TotalBytes s))) [''block_group_type'', ''mode''] [a, l],
      btrfsMetric ''allocation_ratio'' ''Data allocation ratio for a layout/data type'' GaugeValue (lu_Ratio s) [''block_group_type'', ''mode''] [a, l]]"

definition getAllocationStats :: "string \<Rightarrow> allocationStats \<Rightarrow> extraMetric list" where
  "getAllocationStats a s =
     btrfsMetric ''reserved_bytes'' ''Amount of space reserved for a data type'' GaugeValue (f64_of_nat (unat (al_ReservedBytes s))) [''block_group_type''] [a] #
     concat (map (\<lambda>(layout, stats). getLayoutStats a layout stats) (al_Layouts s))"

definition btrfsErrorTypeNames :: "string list" where
  "btrfsErrorTypeNames = [''write'', ''read'', ''flush'', ''corruption'', ''generation'']"

definition btrfs_device_metrics :: "btrfsIoctlFsDevStats \<Rightarrow> extraMetric list" where
  "btrfs_device_metrics dev =
     (let ls = [''device'', ''btrfs_dev_uuid'']; vs = [path_file (bd_path dev), bd_uuid dev] in
      [btrfsMetric ''device_size_bytes'' ''Size of a device that is part of the filesystem.'' GaugeValue (f64_of_nat (unat (totalBytes dev))) ls vs,
       btrfsMetric ''device_unused_bytes'' ''Unused bytes unused on a device that is part of the filesystem.'' GaugeValue
         (f64_of_nat (unat (totalBytes dev - bytesUsed dev))) ls vs] @
      map (\<lambda>(errorType, v). btrfsMetric ''device_errors_total'' ''Errors reported for the device'' CounterValue (f64_of_nat (unat v)) (''type'' # ls) (errorType # vs))
        (zip btrfsErrorTypeNames [writeErrs dev, readErrs dev, flushErrs dev, corruptionErrs dev, generationErrs dev]))"

definition millis :: "uint64 \<Rightarrow> float64" where
  "millis n = f64_div (f64_of_nat (unat n)) (Fin 1000)"

definition getMetrics :: "btrfsStats \<Rightarrow> btrfsIoctlFsStats option \<Rightarrow> extraMetric list" where
  "getMetrics s ioctlStats =
     [btrfsMetric ''info'' ''Filesystem information'' GaugeValue (Fin 1) [''label''] [bt_Label s],
      btrfsMetric ''global_rsv_size_bytes'' ''Size of global reserve.'' GaugeValue (f64_of_nat (unat (bt_GlobalRsvSize s))) [] [],
      btrfsMetric ''commits_total'' ''The total number of commits that have occurred.'' CounterValue (f64_of_nat (unat (bt_Commits s))) [] [],
      btrfsMetric ''last_commit_seconds'' ''Duration of the most recent commit, in seconds.'' GaugeValue (millis (bt_LastCommitMs s)) [] [],
      btrfsMetric ''max_commit_seconds'' ''Duration of the slowest commit, in seconds.'' GaugeValue (millis (bt_MaxCommitMs s)) [] [],
      btrfsMetric ''commit_seconds_total'' ''Sum of the duration of all commits, in seconds.'' CounterValue (millis (bt_TotalCommitMs s)) [] []] @
     getAllocationStats ''data'' (bt_Data s) @ getAllocationStats ''metadata'' (bt_Metadata s) @ getAllocationStats ''system'' (bt_System s) @
     (case ioctlStats of
        None \<Rightarrow> map (\<lambda>(n, sz). btrfsMetric ''device_size_bytes'' ''Size of a device that is part of the filesystem.'' GaugeValue
                  (f64_of_nat (unat sz)) [''device''] [n]) (bt_Devices s)
      | Some st \<Rightarrow> concat (map btrfs_device_metrics (bs_devices st)))"

definition updateBtrfsStats :: "btrfsStats \<Rightarrow> btrfsIoctlFsStats option \<Rightarrow> metric list" where
  "updateBtrfsStats s ioctlStats = map (send_extra ''btrfs'' (bt_UUID s)) (getMetrics s ioctlStats)"

text \<open>The two views of a file system are matched by its UUID without dashes. \<open>None\<close> is a scrape that does not end.\<close>

definition btrfs_Update :: "btrfsEnv \<Rightarrow> upd option" where
  "btrfs_Update env =
     (case map_err (Wrapf ''failed to retrieve Btrfs stats from procfs: %w'' []) (bt_Stats env) of
        Err e \<Rightarrow> Some (fail e)
      | Panic p \<Rightarrow> Some ([], Panic p)
      | Ok stats \<Rightarrow> Option.bind (getIoctlStats env) (\<lambda>r.
          case r of
            Panic p \<Rightarrow> Some ([], Panic p)
          | _ \<Rightarrow> let m = (case r of Ok m \<Rightarrow> m | _ \<Rightarrow> []) in
              Some (emit (concat (map (\<lambda>s. updateBtrfsStats s (map_get m (ReplaceAll (bt_UUID s) ''-'' []))) stats)))))"

text \<open>As a run of the collector: nothing is sent before the devices are scanned, and a scan that does not end never comes back.\<close>

definition btrfs_run :: "btrfsEnv \<Rightarrow> run" where
  "btrfs_run env = (case btrfs_Update env of None \<Rightarrow> ([], None) | Some u \<Rightarrow> returns u)"

section \<open>bcache\<close>

text \<open>A bcache metric has at most one extra label, whose value is left out when it is empty.\<close>

record bcacheMetric =
  bm_name :: string
  bm_desc :: string
  bm_value :: float64
  bm_type :: valueType
  bm_labels :: "string list"
  bm_labelValue :: string

definition bcache_rows :: "(string \<times> string \<times> valueType \<times> string) list \<Rightarrow> (string \<Rightarrow> float64) \<Rightarrow> string list \<Rightarrow> string \<Rightarrow> bcacheMetric list" where
  "bcache_rows tbl f ls v = map (\<lambda>(n, d, t, fld). \<lparr>bm_name = n, bm_desc = d, bm_value = f fld, bm_type = t, bm_labels = ls, bm_labelValue = v\<rparr>) tbl"

text \<open>Name, help text, type and the field of the structure that is exported.\<close>

definition bcache_period_table :: "(string \<times> string \<times> valueType \<times> string) list" where
  "bcache_period_table =
     [(''bypassed_bytes_total'', ''Amount of IO (both reads and writes) that has bypassed the cache.'', CounterValue, ''Bypassed''),
      (''cache_hits_total'', ''Hits counted per individual IO as bcache sees them.'', CounterValue, ''CacheHits''),
      (''cache_misses_total'', ''Misses counted per individual IO as bcache sees them.'', CounterValue, ''CacheMisses''),
      (''cache_bypass_hits_total'', ''Hits for IO intended to skip the cache.'', CounterValue, ''CacheBypassHits''),
      (''cache_bypass_misses_total'', ''Misses for IO intended to skip the cache.'', CounterValue, ''CacheBypassMisses''),
      (''cache_miss_collisions_total'', ''Instances where data insertion from cache miss raced with write (data already present).'', CounterValue, ''CacheMissCollisions'')]"

definition bcache_table :: "(string \<times> string \<times> valueType \<times> string) list" where
  "bcache_table =
     [(''average_key_size_sectors'', ''Average data per key in the btree (sectors).'', GaugeValue, ''Bcache.AverageKeySize''),
      (''btree_cache_size_bytes'', ''Amount of memory currently used by the btree cache.'', GaugeValue, ''Bcache.BtreeCacheSize''),
      (''cache_available_percent'', ''Percentage of cache device without dirty data, usable for writeback (may contain clean cached data).'', GaugeValue, ''Bcache.CacheAvailablePercent''),
      (''congested'', ''Congestion.'', GaugeValue, ''Bcache.Congested''),
      (''root_usage_percent'', ''Percentage of the root btree node in use (tree depth increases if too high).'', GaugeValue, ''Bcache.RootUsagePercent''),
      (''tree_depth'', ''Depth of the btree.'', GaugeValue, ''Bcache.TreeDepth''),
      (''active_journal_entries'', ''Number of journal entries that are newer than the index.'', GaugeValue, ''Bcache.Internal.ActiveJournalEntries''),
      (''btree_nodes'', ''Total nodes in the btree.'', GaugeValue, ''Bcache.Internal.BtreeNodes''),
      (''btree_read_average_duration_seconds'', ''Average btree read duration.'', GaugeValue, ''Bcache.Internal.BtreeReadAverageDurationNanoSeconds''),
      (''cache_read_races_total'', ''Counts instances where while data was being read from the cache, the bucket was reused and invalidated - i.e. where the pointer was stale after the read completed.'', CounterValue, ''Bcache.Internal.CacheReadRaces'')]"

definition bcache_bdev_table :: "(string \<times> string \<times> valueType \<times> string) list" where
  "bcache_bdev_table =
     [(''dirty_data_bytes'', ''Amount of dirty data for this backing device in the cache.'', GaugeValue, ''DirtyData''),
      (''dirty_target_bytes'', ''Current dirty data target threshold for this backing device in bytes.'', GaugeValue, ''WritebackRateDebug.Target''),
      (''writeback_rate'', ''Current writeback rate for this backing device in bytes.'', GaugeValue, ''WritebackRateDebug.Rate''),
      (''writeback_rate_proportional_term'', ''Current result of proportional controller, part of writeback rate'', GaugeValue, ''WritebackRateDebug.Proportional''),
      (''writeback_rate_integral_term'', ''Current result of integral controller, part of writeback rate'', GaugeValue, ''WritebackRateDebug.Integral''),
      (''writeback_change'', ''Last writeback rate change step for this backing device.'', GaugeValue, ''WritebackRateDebug.Change'')]"

definition bcache_cache_table :: "(string \<times> string \<times> valueType \<times> string) list" where
  "bcache_cache_table =
     [(''io_errors'', ''Number of errors that have occurred, decayed by io_error_halflife.'', GaugeValue, ''IOErrors''),
      (''metadata_written_bytes_total'', ''Sum of all non data writes (btree writes and all other metadata).'', CounterValue, ''MetadataWritten''),
      (''written_bytes_total'', ''Sum of all data that has been written to the cache.'', CounterValue, ''Written'')]"

definition bcache_priority_table :: "(string \<times> string \<times> valueType \<times> string) list" where
  "bcache_priority_table =
     [(''priority_stats_unused_percent'', ''The percentage of the cache that doesn't contain any data.'', GaugeValue, ''Priority.UnusedPercent''),
      (''priority_stats_metadata_percent'', ''Bcache's metadata overhead.'', GaugeValue, ''Priority.MetadataPercent'')]"

definition num :: "(string \<Rightarrow> int) \<Rightarrow> string \<Rightarrow> float64" where
  "num f fld = f64_of_int (f fld)"

definition bcachePeriodStatsToMetric :: "(string \<Rightarrow> int) \<Rightarrow> string \<Rightarrow> bcacheMetric list" where
  "bcachePeriodStatsToMetric ps labelValue =
     bcache_rows bcache_period_table (num ps) [''backing_device''] labelValue @
     (if ps ''CacheReadaheads'' \<noteq> 0
      then bcache_rows [(''cache_readaheads_total'', ''Count of times readahead occurred.'', CounterValue, ''CacheReadaheads'')] (num ps) [''backing_device''] labelValue
      else [])"

record bcacheBdev =
  cb_Name :: string
  cb_fields :: "string \<Rightarrow> int"
  cb_Total :: "string \<Rightarrow> int"

record bcacheCache =
  cc_Name :: string
  cc_fields :: "string \<Rightarrow> int"

record bcacheStats =
  bc_Name :: string
  bc_fields :: "string \<Rightarrow> int"
  bc_Bdevs :: "bcacheBdev list"
  bc_Caches :: "bcacheCache list"

text \<open>The one number of the cache set that is converted, from nanoseconds.\<close>

definition bcache_value :: "(string \<Rightarrow> int) \<Rightarrow> string \<Rightarrow> float64" where
  "bcache_value f fld =
     (if fld = ''Bcache.Internal.BtreeReadAverageDurationNanoSeconds'' then f64_mul (num f fld) (round64 (1 / 1000000000)) else num f fld)"

definition bcache_all :: "bool \<Rightarrow> bcacheStats \<Rightarrow> bcacheMetric list" where
  "bcache_all priorityStats s =
     bcache_rows bcache_table (bcache_value (bc_fields s)) [] [] @
     concat (map (\<lambda>bdev. bcache_rows bcache_bdev_table (num (cb_fields bdev)) [''backing_device''] (cb_Name bdev) @
       bcachePeriodStatsToMetric (cb_Total bdev) (cb_Name bdev)) (bc_Bdevs s)) @
     concat (map (\<lambda>cache. bcache_rows bcache_cache_table (num (cc_fields cache)) [''cache_device''] (cc_Name cache) @
       (if priorityStats then bcache_rows bcache_priority_table (num (cc_fields cache)) [''cache_device''] (cc_Name cache) else [])) (bc_Caches s))"

definition bcache_send :: "string \<Rightarrow> bcacheMetric \<Rightarrow> metric" where
  "bcache_send name m =
     MustNewConstMetric (NewDesc (BuildFQName namespace ''bcache'' (bm_name m)) (bm_desc m) (''uuid'' # bm_labels m)) (bm_type m) (bm_value m)
       (name # (if bm_labelValue m \<noteq> [] then [bm_labelValue m] else []))"

definition updateBcacheStats :: "bool \<Rightarrow> bcacheStats \<Rightarrow> metric list" where
  "updateBcacheStats priorityStats s = map (bcache_send (bc_Name s)) (bcache_all priorityStats s)"

record bcacheEnv =
  bc_Stats :: "bcacheStats list res"
  bc_StatsWithoutPriority :: "bcacheStats list res"

definition bcache_Update :: "bcacheEnv \<Rightarrow> bool \<Rightarrow> upd" where
  "bcache_Update env priorityStats =
     with_res (map_err (Wrapf ''failed to retrieve bcache stats: %w'' []) (if priorityStats then bc_Stats env else bc_StatsWithoutPriority env))
       (\<lambda>stats. emit (concat (map (updateBcacheStats priorityStats) stats)))"

section \<open>XFS\<close>

text \<open>Name, help text and the field of the statistics.\<close>

definition xfs_table :: "(string \<times> string \<times> string) list" where
  "xfs_table =
     [(''extent_allocation_extents_allocated_total'', ''Number of extents allocated for a filesystem.'', ''ExtentAllocation.ExtentsAllocated''),
      (''extent_allocation_blocks_allocated_total'', ''Number of blocks allocated for a filesystem.'', ''ExtentAllocation.BlocksAllocated''),
      (''extent_allocation_extents_freed_total'', ''Number of extents freed for a filesystem.'', ''ExtentAllocation.ExtentsFreed''),
      (''extent_allocation_blocks_freed_total'', ''Number of blocks freed for a filesystem.'', ''ExtentAllocation.BlocksFreed''),
      (''allocation_btree_lookups_total'', ''Number of allocation B-tree lookups for a filesystem.'', ''AllocationBTree.Lookups''),
      (''allocation_btree_compares_total'', ''Number of allocation B-tree compares for a filesystem.'', ''AllocationBTree.Compares''),
      (''allocation_btree_records_inserted_total'', ''Number of allocation B-tree records inserted for a filesystem.'', ''AllocationBTree.RecordsInserted''),
      (''allocation_btree_records_deleted_total'', ''Number of allocation B-tree records deleted for a filesystem.'', ''AllocationBTree.RecordsDeleted''),
      (''block_mapping_reads_total'', ''Number of block map for read operations for a filesystem.'', ''BlockMapping.Reads''),
      (''block_mapping_writes_total'', ''Number of block map for write operations for a filesystem.'', ''BlockMapping.Writes''),
      (''block_mapping_unmaps_total'', ''Number of block unmaps (deletes) for a filesystem.'', ''BlockMapping.Unmaps''),
      (''block_mapping_extent_list_insertions_total'', ''Number of extent list insertions for a filesystem.'', ''BlockMapping.ExtentListInsertions''),
      (''block_mapping_extent_list_deletions_total'', ''Number of extent list deletions for a filesystem.'', ''BlockMapping.ExtentListDeletions''),
      (''block_mapping_extent_list_lookups_total'', ''Number of extent list lookups for a filesystem.'', ''BlockMapping.ExtentListLookups''),
      (''block_mapping_extent_list_compares_total'', ''Number of extent list compares for a filesystem.'', ''BlockMapping.ExtentListCompares''),
      (''block_map_btree_lookups_total'', ''Number of block map B-tree lookups for a filesystem.'', ''BlockMapBTree.Lookups''),
      (''block_map_btree_compares_total'', ''Number of block map B-tree compares for a filesystem.'', ''BlockMapBTree.Compares''),
      (''block_map_btree_records_inserted_total'', ''Number of block map B-tree records inserted for a filesystem.'', ''BlockMapBTree.RecordsInserted''),
      (''block_map_btree_records_deleted_total'', ''Number of block map B-tree records deleted for a filesystem.'', ''BlockMapBTree.RecordsDeleted''),
      (''directory_operation_lookup_total'', ''Number of file name directory lookups which miss the operating systems directory name lookup cache.'', ''DirectoryOperation.Lookups''),
      (''directory_operation_create_total'', ''Number of times a new directory entry was created for a filesystem.'', ''DirectoryOperation.Creates''),
      (''directory_operation_remove_total'', ''Number of times an existing directory entry was created for a filesystem.'', ''DirectoryOperation.Removes''),
      (''directory_operation_getdents_total'', ''Number of times the directory getdents operation was performed for a filesystem.'', ''DirectoryOperation.Getdents''),
      (''inode_operation_attempts_total'', ''Number of times the OS looked for an XFS inode in the inode cache.'', ''InodeOperation.Attempts''),
      (''inode_operation_found_total'', ''Number of times the OS looked for and found an XFS inode in the inode cache.'', ''InodeOperation.Found''),
      (''inode_operation_recycled_total'', ''Number of times the OS found an XFS inode in the cache, but could not use it as it was being recycled.'', ''InodeOperation.Recycle''),
      (''inode_operation_missed_total'', ''Number of times the OS looked for an XFS inode in the cache, but did not find it.'', ''InodeOperation.Missed''),
      (''inode_operation_duplicates_total'', ''Number of times the OS tried to add a missing XFS inode to the inode cache, but found it had already been added by another process.'', ''InodeOperation.Duplicate''),
      (''inode_operation_reclaims_total'', ''Number of times the OS reclaimed an XFS inode from the inode cache to free memory for another purpose.'', ''InodeOperation.Reclaims''),
      (''inode_operation_attribute_changes_total'', ''Number of times the OS explicitly changed the attributes of an XFS inode.'', ''InodeOperation.AttributeChange''),
      (''read_calls_total'', ''Number of read(2) system calls made to files in a filesystem.'', ''ReadWrite.Read''),
      (''write_calls_total'', ''Number of write(2) system calls made to files in a filesystem.'', ''ReadWrite.Write''),
      (''vnode_active_total'', ''Number of vnodes not on free lists for a filesystem.'', ''Vnode.Active''),
      (''vnode_allocate_total'', ''Number of times vn_alloc called for a filesystem.'', ''Vnode.Allocate''),
      (''vnode_get_total'', ''Number of times vn_get called for a filesystem.'', ''Vnode.Get''),
      (''vnode_hold_total'', ''Number of times vn_hold called for a filesystem.'', ''Vnode.Hold''),
      (''vnode_release_total'', ''Number of times vn_rele called for a filesystem.'', ''Vnode.Release''),
      (''vnode_reclaim_total'', ''Number of times vn_reclaim called for a filesystem.'', ''Vnode.Reclaim''),
      (''vnode_remove_total'', ''Number of times vn_remove called for a filesystem.'', ''Vnode.Remove'')]"

record xfsStats =
  xs_Name :: string
  xs_fields :: "string \<Rightarrow> nat"

definition updateXFSStats :: "xfsStats \<Rightarrow> metric list" where
  "updateXFSStats s = map (\<lambda>(n, d, fld). MustNewConstMetric (NewDesc (BuildFQName namespace ''xfs'' n) d [''device'']) CounterValue
     (f64_of_nat (xs_fields s fld)) [xs_Name s]) xfs_table"

definition xfs_Update :: "xfsStats list res \<Rightarrow> upd" where
  "xfs_Update SysStats = with_res (map_err (Wrapf ''failed to retrieve XFS stats: %w'' []) SysStats) (\<lambda>stats. emit (concat (map updateXFSStats stats)))"

definition open_sysfs :: "unit res \<Rightarrow> unit res" where
  "open_sysfs r = map_err (Wrapf ''failed to open sysfs: %w'' []) r"

definition NewBtrfsCollector :: "unit res \<Rightarrow> unit res" where "NewBtrfsCollector = open_sysfs"
definition NewBcacheCollector :: "unit res \<Rightarrow> unit res" where "NewBcacheCollector = open_sysfs"
definition NewBcachefsCollector :: "unit res \<Rightarrow> unit res" where "NewBcachefsCollector = open_sysfs"
definition NewXFSCollector :: "unit res \<Rightarrow> unit res" where "NewXFSCollector = open_sysfs"

section \<open>bcachefs\<close>

definition bcachefs_desc :: "string \<Rightarrow> string \<Rightarrow> string list \<Rightarrow> desc" where
  "bcachefs_desc name help ls = NewDesc (BuildFQName namespace ''bcachefs'' name) help (''uuid'' # ls)"

definition bcachefsInfoDesc :: desc where
  "bcachefsInfoDesc = bcachefs_desc ''info'' ''Filesystem information.'' []"
definition bcachefsBtreeCacheSizeBytes :: desc where
  "bcachefsBtreeCacheSizeBytes = bcachefs_desc ''btree_cache_size_bytes'' ''Btree cache memory usage in bytes.'' []"
definition bcachefsCompressionCompressedBytesDesc :: desc where
  "bcachefsCompressionCompressedBytesDesc = bcachefs_desc ''compression_compressed_bytes'' ''Compressed size by algorithm.'' [''algorithm'']"
definition bcachefsCompressionUncompressedBytesDesc :: desc where
  "bcachefsCompressionUncompressedBytesDesc = bcachefs_desc ''compression_uncompressed_bytes'' ''Uncompressed size by algorithm.'' [''algorithm'']"
definition bcachefsErrorsTotalDesc :: desc where
  "bcachefsErrorsTotalDesc = bcachefs_desc ''errors_total'' ''Error count by error type.'' [''error_type'']"
definition bcachefsBtreeWritesTotalDesc :: desc where
  "bcachefsBtreeWritesTotalDesc = bcachefs_desc ''btree_writes_total'' ''Number of btree writes by type.'' [''type'']"
definition bcachefsBtreeWriteAverageSizeBytesDesc :: desc where
  "bcachefsBtreeWriteAverageSizeBytesDesc = bcachefs_desc ''btree_write_average_size_bytes'' ''Average btree write size by type.'' [''type'']"
definition bcachefsDeviceInfoDesc :: desc where
  "bcachefsDeviceInfoDesc = bcachefs_desc ''device_info'' ''Device information.'' [''device'', ''label'', ''state'']"
definition bcachefsDeviceBucketSizeBytesDesc :: desc where
  "bcachefsDeviceBucketSizeBytesDesc = bcachefs_desc ''device_bucket_size_bytes'' ''Bucket size in bytes.'' [''device'']"
definition bcachefsDeviceBucketsDesc :: desc where
  "bcachefsDeviceBucketsDesc = bcachefs_desc ''device_buckets'' ''Total number of buckets.'' [''device'']"
definition bcachefsDeviceDurabilityDesc :: desc where
  "bcachefsDeviceDurabilityDesc = bcachefs_desc ''device_durability'' ''Device durability setting.'' [''device'']"
definition bcachefsDeviceIODoneBytesTotalDesc :: desc where
  "bcachefsDeviceIODoneBytesTotalDesc = bcachefs_desc ''device_io_done_bytes_total'' ''IO bytes by operation type and data type.'' [''device'', ''operation'', ''data_type'']"
definition bcachefsDeviceIOErrorsTotalDesc :: desc where
  "bcachefsDeviceIOErrorsTotalDesc = bcachefs_desc ''device_io_errors_total'' ''IO errors by error type.'' [''device'', ''type'']"

lemmas bcachefs_descs =
  bcachefsInfoDesc_def bcachefsBtreeCacheSizeBytes_def bcachefsCompressionCompressedBytesDesc_def bcachefsCompressionUncompressedBytesDesc_def
  bcachefsErrorsTotalDesc_def bcachefsBtreeWritesTotalDesc_def bcachefsBtreeWriteAverageSizeBytesDesc_def bcachefsDeviceInfoDesc_def
  bcachefsDeviceBucketSizeBytesDesc_def bcachefsDeviceBucketsDesc_def bcachefsDeviceDurabilityDesc_def bcachefsDeviceIODoneBytesTotalDesc_def
  bcachefsDeviceIOErrorsTotalDesc_def bcachefs_desc_def

text \<open>Two numbers of a file system belong to most of its parts; a device may be missing from the map it is listed in.\<close>

record bcachefsDevice =
  bv_Label :: string
  bv_State :: string
  bv_BucketSizeBytes :: uint64
  bv_Buckets :: uint64
  bv_Durability :: uint64
  bv_IODone :: "(string, (string, uint64) gomap) gomap"
  bv_IOErrors :: "(string, uint64) gomap"

record bcachefsStats =
  bf_UUID :: string
  bf_BtreeCacheSizeBytes :: uint64
  bf_Compression :: "(string, uint64 \<times> uint64) gomap"
  bf_Errors :: "(string, uint64) gomap"
  bf_Counters :: "(string, uint64) gomap"
  bf_BtreeWrites :: "(string, uint64 \<times> uint64) gomap"
  bf_Devices :: "(string, bcachefsDevice option) gomap"

definition u64 :: "uint64 \<Rightarrow> float64" where
  "u64 n = f64_of_nat (unat n)"

definition bcachefs_counter_desc :: "string \<Rightarrow> desc" where
  "bcachefs_counter_desc counterName = NewDesc (BuildFQName namespace ''bcachefs'' (SanitizeMetricName counterName @ ''_total''))
     (''Bcachefs counter '' @ counterName @ '' since filesystem creation.'') [''uuid'']"

definition bcachefs_device_metrics :: "string \<Rightarrow> string \<Rightarrow> bcachefsDevice \<Rightarrow> metric list" where
  "bcachefs_device_metrics uuid dev d =
     [MustNewConstMetric bcachefsDeviceInfoDesc GaugeValue (Fin 1) [uuid, dev, bv_Label d, bv_State d],
      MustNewConstMetric bcachefsDeviceBucketSizeBytesDesc GaugeValue (u64 (bv_BucketSizeBytes d)) [uuid, dev],
      MustNewConstMetric bcachefsDeviceBucketsDesc GaugeValue (u64 (bv_Buckets d)) [uuid, dev],
      MustNewConstMetric bcachefsDeviceDurabilityDesc GaugeValue (u64 (bv_Durability d)) [uuid, dev]] @
     concat (map (\<lambda>(op, dataTypes). map (\<lambda>(dataType, v). MustNewConstMetric bcachefsDeviceIODoneBytesTotalDesc CounterValue (u64 v)
       [uuid, dev, op, dataType]) dataTypes) (bv_IODone d)) @
     map (\<lambda>(errorType, v). MustNewConstMetric bcachefsDeviceIOErrorsTotalDesc CounterValue (u64 v) [uuid, dev, errorType]) (bv_IOErrors d)"

definition bcachefs_metrics :: "bcachefsStats \<Rightarrow> metric list" where
  "bcachefs_metrics s =
     (let uuid = bf_UUID s in
      [MustNewConstMetric bcachefsInfoDesc GaugeValue (Fin 1) [uuid],
       MustNewConstMetric bcachefsBtreeCacheSizeBytes GaugeValue (u64 (bf_BtreeCacheSizeBytes s)) [uuid]] @
      concat (map (\<lambda>(algorithm, comp). [MustNewConstMetric bcachefsCompressionCompressedBytesDesc GaugeValue (u64 (fst comp)) [uuid, algorithm],
        MustNewConstMetric bcachefsCompressionUncompressedBytesDesc GaugeValue (u64 (snd comp)) [uuid, algorithm]]) (bf_Compression s)) @
      map (\<lambda>(errorType, n). MustNewConstMetric bcachefsErrorsTotalDesc CounterValue (u64 n) [uuid, errorType]) (bf_Errors s) @
      map (\<lambda>(counterName, n). MustNewConstMetric (bcachefs_counter_desc counterName) CounterValue (u64 n) [uuid]) (bf_Counters s) @
      concat (map (\<lambda>(writeType, w). [MustNewConstMetric bcachefsBtreeWritesTotalDesc CounterValue (u64 (fst w)) [uuid, writeType],
        MustNewConstMetric bcachefsBtreeWriteAverageSizeBytesDesc GaugeValue (u64 (snd w)) [uuid, writeType]]) (bf_BtreeWrites s)) @
      concat (map (\<lambda>(dev, d). case d of None \<Rightarrow> [] | Some d \<Rightarrow> bcachefs_device_metrics uuid dev d) (bf_Devices s)))"

text \<open>A missing directory is told by \<^verbatim>\<open>os.IsNotExist\<close>, which does not see through wrapped errors.\<close>

definition bcachefs_err :: "error \<Rightarrow> error" where
  "bcachefs_err e = (if os_IsNotExist e then ErrNoData else Wrapf ''failed to retrieve bcachefs stats: %w'' [] e)"

definition bcachefs_Update :: "bcachefsStats list res \<Rightarrow> upd" where
  "bcachefs_Update Stats =
     with_res (map_err bcachefs_err Stats) (\<lambda>stats. if stats = [] then fail ErrNoData else emit (concat (map bcachefs_metrics stats)))"

section \<open>Contracts\<close>

lemma getAllocationStats_ok: "m \<in> set (getAllocationStats a s) \<Longrightarrow> length (em_values m) = length (em_labels m)"
  by (auto simp: getAllocationStats_def getLayoutStats_def btrfsMetric_def)

lemma btrfs_device_metrics_ok: "m \<in> set (btrfs_device_metrics dev) \<Longrightarrow> length (em_values m) = length (em_labels m)"
  by (auto simp: btrfs_device_metrics_def btrfsMetric_def Let_def dest: set_zip_leftD)

lemma getMetrics_ok: "m \<in> set (getMetrics s st) \<Longrightarrow> length (em_values m) = length (em_labels m)"
  by (auto simp: getMetrics_def btrfsMetric_def dest: getAllocationStats_ok btrfs_device_metrics_ok split: option.splits)

lemma updateBtrfsStats_ok: "m \<in> set (updateBtrfsStats s st) \<Longrightarrow> labels_ok m"
  by (auto simp: updateBtrfsStats_def dest: getMetrics_ok)

definition btrfs_handle_ok :: "btrfsHandle \<Rightarrow> bool" where
  "btrfs_handle_ok fs \<longleftrightarrow> \<not> panics (fs_Info fs) \<and> (\<forall>i. \<not> panics (fs_GetDevInfo fs i) \<and> \<not> panics (fs_GetDevStats fs i))"

definition btrfs_pre :: "btrfsEnv \<Rightarrow> bool" where
  "btrfs_pre env \<longleftrightarrow> \<not> panics (bt_Stats env) \<and> \<not> panics (bt_mounts env) \<and>
     (\<forall>p. \<not> panics (bt_Open env p) \<and> (\<forall>fs. bt_Open env p = Ok fs \<longrightarrow> btrfs_handle_ok fs))"


lemma dev_loop_no_panic:
  assumes "dev_loop enodev fs info i ds = Some r" "btrfs_handle_ok fs"
  shows "\<not> panics r"
proof -
  have "btrfs_handle_ok fs \<longrightarrow> \<not> panics r"
  proof (rule dev_loop.raw_induct [OF _ assms(1), where P = "\<lambda>enodev fs info i ds r. btrfs_handle_ok fs \<longrightarrow> \<not> panics r"], intro impI)
    fix loop and enodev :: "error \<Rightarrow> bool" and fs :: btrfsHandle and info :: btrfsInfo and i ds r
    assume IH: "\<And>enodev fs info i ds r. loop enodev fs info i ds = Some r \<Longrightarrow> btrfs_handle_ok fs \<longrightarrow> \<not> panics r"
      and r: "(if i \<le> bi_MaxID info then
        (case fs_GetDevInfo fs i of
           Err e \<Rightarrow> if enodev e then loop enodev fs info (i + 1) ds else Some (Err e)
         | Panic p \<Rightarrow> Some (Panic p)
         | Ok di \<Rightarrow>
             (case fs_GetDevStats fs i of
                Err e \<Rightarrow> Some (Err e)
              | Panic p \<Rightarrow> Some (Panic p)
              | Ok st \<Rightarrow>
                  if of_nat (length (ds @ [ioctl_dev di st])) = bi_NumDevices info then Some (Ok (ds @ [ioctl_dev di st]))
                  else loop enodev fs info (i + 1) (ds @ [ioctl_dev di st])))
      else Some (Ok ds)) = Some r" and ok: "btrfs_handle_ok fs"
    have "\<not> panics (fs_GetDevInfo fs i)" "\<not> panics (fs_GetDevStats fs i)" using ok by (simp_all add: btrfs_handle_ok_def)
    then show "\<not> panics r" using r IH ok by (auto split: if_splits res.splits)
  qed
  with assms(2) show ?thesis by simp
qed

lemma ioctl_mount_no_panic:
  assumes "btrfs_pre env" "ioctl_mount env m (dd, ss) = Some q"
  shows "\<not> panics q"
proof (cases "fsType m \<noteq> ''btrfs'' \<or> device m \<in> dd")
  case False
  have no: "\<not> panics (bt_Open env (rootfsFilePath (bt_paths env) (mountPoint m)))" using assms(1) by (simp add: btrfs_pre_def)
  show ?thesis
  proof (cases "bt_Open env (rootfsFilePath (bt_paths env) (mountPoint m))")
    case (Ok fs)
    then have fs: "btrfs_handle_ok fs" using assms(1) by (auto simp: btrfs_pre_def)
    have loop: "\<not> panics r" if "dev_loop (is_ENODEV env) fs info 0 [] = Some r" for info r by (rule dev_loop_no_panic [OF that fs])
    have no: "\<not> panics (fs_Info fs)" using fs by (simp add: btrfs_handle_ok_def)
    show ?thesis
    proof (cases "fs_Info fs")
      case info: (Ok info)
      show ?thesis
      proof (cases "map_get ss (bi_FSID info)")
        case None
        then obtain r where r: "dev_loop (is_ENODEV env) fs info 0 [] = Some r"
          using assms(2) Ok info False by (cases "dev_loop (is_ENODEV env) fs info 0 []") (simp_all add: ioctl_mount_def getIoctlDeviceStats_def)
        then show ?thesis using assms(2) Ok info None False loop [OF r] by (cases r) (auto simp: ioctl_mount_def getIoctlDeviceStats_def)
      qed (use assms(2) Ok info False in \<open>auto simp: ioctl_mount_def\<close>)
    qed (use assms(2) Ok False no in \<open>auto simp: ioctl_mount_def\<close>)
  qed (use assms(2) False no in \<open>auto simp: ioctl_mount_def\<close>)
qed (use assms(2) in \<open>simp add: ioctl_mount_def, auto\<close>)

lemma ioctl_mounts_no_panic: "btrfs_pre env \<Longrightarrow> ioctl_mounts env ms st = Some r \<Longrightarrow> \<not> panics r"
proof (induction env ms st arbitrary: r rule: ioctl_mounts.induct)
  case (2 env m ms st)
  obtain q where q: "ioctl_mount env m st = Some q" using 2(3) by (cases "ioctl_mount env m st") auto
  have "\<not> panics q" using ioctl_mount_no_panic [OF 2(2)] q by (cases st) auto
  then show ?case using 2(1) [OF _ _ 2(2)] 2(3) q by (cases q) auto
qed auto

interpretation btrfs: safe_collector_contract "\<lambda>(env, u). u" "\<lambda>(env, u). btrfs_pre env \<and> btrfs_Update env = Some u"
proof (rule safe_contractI, clarify)
  fix env u assume p: "btrfs_pre env" and u: "btrfs_Update env = Some u"
  have no: "\<not> panics (bt_Stats env)" using p by (simp add: btrfs_pre_def)
  have em: "sound (emit (concat (map (\<lambda>s. updateBtrfsStats s (f s)) stats)))" for f stats
    by (rule sound_emit) (auto dest: updateBtrfsStats_ok)
  have io: "\<not> panics r" if "getIoctlStats env = Some r" for r
    using that p ioctl_mounts_no_panic [OF p]
    by (auto simp: getIoctlStats_def bind_eq_Some_conv panics_bind_res btrfs_pre_def split: res.splits)
  show "sound u"
  proof (cases "bt_Stats env")
    case (Ok stats)
    then obtain r where r: "getIoctlStats env = Some r" using u by (cases "getIoctlStats env") (auto simp: btrfs_Update_def)
    then show ?thesis using u Ok io [OF r] em by (cases r) (auto simp: btrfs_Update_def Let_def)
  qed (use u no in \<open>auto simp: btrfs_Update_def\<close>)
qed

definition bcache_stats_ok :: "bcacheStats \<Rightarrow> bool" where
  "bcache_stats_ok s \<longleftrightarrow> list_all (\<lambda>b. cb_Name b \<noteq> []) (bc_Bdevs s) \<and> list_all (\<lambda>c. cc_Name c \<noteq> []) (bc_Caches s)"

text \<open>An empty device name would leave out the value of a label that the descriptor has.\<close>

lemma bcache_rows_ok: "m \<in> set (bcache_rows tbl f ls v) \<Longrightarrow> length ls = (if v = [] then 0 else 1) \<Longrightarrow> labels_ok (bcache_send name m)"
  by (auto simp: bcache_rows_def bcache_send_def split: if_splits)

lemma bcache_all_ok: "bcache_stats_ok s \<Longrightarrow> list_all labels_ok (updateBcacheStats b s)"
  unfolding updateBcacheStats_def bcache_all_def bcachePeriodStatsToMetric_def bcache_stats_ok_def list_all_iff
  by (auto split: if_splits elim!: bcache_rows_ok)

interpretation bcache: safe_collector_contract "\<lambda>(env, b). bcache_Update env b"
  "\<lambda>(env, b). \<not> panics (bc_Stats env) \<and> \<not> panics (bc_StatsWithoutPriority env) \<and>
     (\<forall>ss. bc_Stats env = Ok ss \<or> bc_StatsWithoutPriority env = Ok ss \<longrightarrow> list_all bcache_stats_ok ss)"
  by (rule safe_contractI) (auto simp: bcache_Update_def list_all_iff [of bcache_stats_ok] intro!: sound_with_res sound_emit_concat bcache_all_ok split: if_splits)

lemma bcachefs_device_metrics_ok: "m \<in> set (bcachefs_device_metrics uuid dev d) \<Longrightarrow> labels_ok m"
  by (auto simp: bcachefs_device_metrics_def bcachefs_descs)

lemma bcachefs_metrics_ok: "list_all labels_ok (bcachefs_metrics s)"
  by (auto simp: list_all_iff bcachefs_metrics_def Let_def bcachefs_descs bcachefs_counter_desc_def dest: bcachefs_device_metrics_ok split: option.splits)

interpretation bcachefs: safe_collector_contract bcachefs_Update "\<lambda>r. \<not> panics r"
  by (rule safe_contractI) (auto simp: bcachefs_Update_def intro!: sound_with_res sound_emit_concat bcachefs_metrics_ok)

interpretation xfs: safe_collector_contract xfs_Update "\<lambda>r. \<not> panics r"
  by (rule safe_contractI) (auto simp: xfs_Update_def updateXFSStats_def intro!: sound_with_res sound_emit)

section \<open>The loop over device numbers\<close>

text \<open>What a device number gives: nothing when there is no device.\<close>

definition dev_at :: "btrfsHandle \<Rightarrow> uint64 \<Rightarrow> btrfsIoctlFsDevStats list" where
  "dev_at fs i = (case (fs_GetDevInfo fs i, fs_GetDevStats fs i) of (Ok di, Ok st) \<Rightarrow> [ioctl_dev di st] | _ \<Rightarrow> [])"

definition dev_readable :: "(error \<Rightarrow> bool) \<Rightarrow> btrfsHandle \<Rightarrow> uint64 \<Rightarrow> bool" where
  "dev_readable enodev fs i \<longleftrightarrow> (case fs_GetDevInfo fs i of Err e \<Rightarrow> enodev e | Panic p \<Rightarrow> False | Ok di \<Rightarrow> (\<exists>st. fs_GetDevStats fs i = Ok st))"

definition first_n :: "nat \<Rightarrow> 'a list \<Rightarrow> 'a list" where
  "first_n n xs = (if n = 0 then xs else take n xs)"

lemma length_concat_le: "(\<And>x. x \<in> set xs \<Longrightarrow> length (f x) \<le> 1) \<Longrightarrow> length (concat (map f xs)) \<le> length xs"
  by (induction xs) (auto, fastforce)

lemma dev_at_le: "length (dev_at fs i) \<le> 1"
  by (simp add: dev_at_def split: res.splits)

lemma unat_word_Suc: "(x :: uint64) \<noteq> - 1 \<Longrightarrow> unat (x + 1) = unat x + 1"
  using unatSuc [of x] by (simp add: add.commute eq_neg_iff_add_eq_0)

lemma dev_loop_from:
  assumes "bi_MaxID info \<noteq> - 1" "\<And>j. j \<le> bi_MaxID info \<Longrightarrow> dev_readable enodev fs j"
  shows "i \<le> bi_MaxID info + 1 \<Longrightarrow> length ds \<le> unat i \<Longrightarrow> (bi_NumDevices info \<noteq> 0 \<Longrightarrow> length ds < unat (bi_NumDevices info)) \<Longrightarrow>
    dev_loop enodev fs info i ds =
      Some (Ok (first_n (unat (bi_NumDevices info)) (ds @ concat (map (\<lambda>k. dev_at fs (of_nat k)) [unat i..<Suc (unat (bi_MaxID info))]))))"
proof (induction "unat (bi_MaxID info) + 1 - unat i" arbitrary: i ds)
  case 0
  have u: "unat (bi_MaxID info + 1) = unat (bi_MaxID info) + 1"
    by (rule unat_word_Suc [OF assms(1)])
  then have "unat i = unat (bi_MaxID info) + 1" using 0 by (simp add: word_le_nat_alt)
  then have "\<not> i \<le> bi_MaxID info" by (simp add: word_le_nat_alt)
  moreover have "first_n (unat (bi_NumDevices info)) ds = ds" using 0(4) by (cases "bi_NumDevices info = 0") (simp_all add: first_n_def)
  ultimately show ?case using \<open>unat i = _\<close> by (subst dev_loop.simps) simp
next
  case (Suc n)
  have u: "unat (bi_MaxID info + 1) = unat (bi_MaxID info) + 1"
    by (rule unat_word_Suc [OF assms(1)])
  have le: "i \<le> bi_MaxID info" using Suc(2) by (simp add: word_le_nat_alt)
  then have i1: "unat (i + 1) = unat i + 1" 
    by (intro unat_word_Suc) (use le assms(1) in \<open>auto simp: word_order.extremum_unique\<close>)
  have le1: "i + 1 \<le> bi_MaxID info + 1" using le u i1 by (simp add: word_le_nat_alt)
  have n: "n = unat (bi_MaxID info) + 1 - unat (i + 1)" using Suc(2) i1 by simp
  have up: "[unat i..<Suc (unat (bi_MaxID info))] = unat i # [unat (i + 1)..<Suc (unat (bi_MaxID info))]"
    using le i1 by (simp add: upt_conv_Cons word_le_nat_alt)
  have "unat (i + 1) < 2 ^ 64" using unsigned_less [of "i + 1"] by simp
  then have len: "length ds + 1 < 2 ^ 64" using Suc(4) i1 by simp
  show ?case
  proof (cases "fs_GetDevInfo fs i")
    case (Err e)
    then have e: "enodev e" "dev_at fs i = []" using assms(2) [OF le] by (simp_all add: dev_readable_def dev_at_def)
    then have "dev_loop enodev fs info i ds = dev_loop enodev fs info (i + 1) ds" using Err le by (subst dev_loop.simps) simp
    then show ?thesis using Suc(1) [OF n le1 _ Suc(5)] Suc(4) i1 e(2) by (simp add: up del: upt_Suc)
  next
    case (Ok di)
    then obtain st where st: "fs_GetDevStats fs i = Ok st" using assms(2) [OF le] by (auto simp: dev_readable_def)
    let ?ds = "ds @ [ioctl_dev di st]"
    have at: "dev_at fs i = [ioctl_dev di st]" using Ok st by (simp add: dev_at_def)
    have eq: "(of_nat (length ?ds) = bi_NumDevices info) = (length ?ds = unat (bi_NumDevices info))"
    proof -
      have "unat (of_nat (length ?ds) :: uint64) = length ?ds"
        by (subst unat_of_nat) (use len in simp)
      then show ?thesis by (simp only: word_unat_eq_iff)
    qed
    show ?thesis
    proof (cases "length ?ds = unat (bi_NumDevices info)")
      case True
      then have "dev_loop enodev fs info i ds = Some (Ok ?ds)" using Ok st le eq by (subst dev_loop.simps) simp
      then show ?thesis by (simp add: up at first_n_def True [symmetric] del: upt_Suc)
    next
      case False
      then have "dev_loop enodev fs info i ds = dev_loop enodev fs info (i + 1) ?ds" using Ok st le eq by (subst dev_loop.simps) simp
      moreover have "bi_NumDevices info \<noteq> 0 \<Longrightarrow> length ?ds < unat (bi_NumDevices info)" using Suc(5) False by simp
      ultimately show ?thesis using Suc(1) [OF n le1, of ?ds] Suc(4) i1 by (simp add: up at del: upt_Suc)
    qed
  qed (use assms(2) [OF le] in \<open>simp add: dev_readable_def\<close>)
qed

lemma dev_loop_forever:
  assumes "bi_MaxID info = - 1" "\<And>j. \<exists>e. fs_GetDevInfo fs j = Err e \<and> enodev e"
  shows "dev_loop enodev fs info i ds = None"
proof (rule ccontr)
  assume "dev_loop enodev fs info i ds \<noteq> None"
  then obtain r where r: "dev_loop enodev fs info i ds = Some r" by auto
  have "\<not> (bi_MaxID info = - 1 \<and> (\<forall>j. \<exists>e. fs_GetDevInfo fs j = Err e \<and> enodev e))"
  proof (rule dev_loop.raw_induct [OF _ r, where P = "\<lambda>enodev fs info i ds r.
      \<not> (bi_MaxID info = - 1 \<and> (\<forall>j. \<exists>e. fs_GetDevInfo fs j = Err e \<and> enodev e))"])
    fix loop and enodev :: "error \<Rightarrow> bool" and fs :: btrfsHandle and info :: btrfsInfo and i ds r
    assume IH: "\<And>enodev fs info i ds r. loop enodev fs info i ds = Some r \<Longrightarrow>
        \<not> (bi_MaxID info = - 1 \<and> (\<forall>j. \<exists>e. fs_GetDevInfo fs j = Err e \<and> enodev e))"
      and r: "(if i \<le> bi_MaxID info then
        (case fs_GetDevInfo fs i of
           Err e \<Rightarrow> if enodev e then loop enodev fs info (i + 1) ds else Some (Err e)
         | Panic p \<Rightarrow> Some (Panic p)
         | Ok di \<Rightarrow>
             (case fs_GetDevStats fs i of
                Err e \<Rightarrow> Some (Err e)
              | Panic p \<Rightarrow> Some (Panic p)
              | Ok st \<Rightarrow>
                  if of_nat (length (ds @ [ioctl_dev di st])) = bi_NumDevices info then Some (Ok (ds @ [ioctl_dev di st]))
                  else loop enodev fs info (i + 1) (ds @ [ioctl_dev di st])))
      else Some (Ok ds)) = Some r"
    show "\<not> (bi_MaxID info = - 1 \<and> (\<forall>j. \<exists>e. fs_GetDevInfo fs j = Err e \<and> enodev e))"
    proof
      assume a: "bi_MaxID info = - 1 \<and> (\<forall>j. \<exists>e. fs_GetDevInfo fs j = Err e \<and> enodev e)"
      then obtain e where "fs_GetDevInfo fs i = Err e" "enodev e" by blast
      then have "loop enodev fs info (i + 1) ds = Some r" using r a by simp
      from IH [OF this] a show False by simp
    qed
  qed
  with assms show False by blast
qed

section \<open>Properties\<close>

text \<open>
  C24: The devices of a file system whose largest device number is not \<open>2^64 - 1\<close> (with that one the loop may
  never end), and each of whose numbers up to the largest one is either that of a device that can be read, with its error
  counters, or answered with \<^verbatim>\<open>ENODEV\<close>: the devices that its numbers from zero to the largest one have, in their order. The
  first ones are taken, as many as the file system says it has, and all of them when it says zero.
\<close>

theorem btrfs_devices_found:
  assumes "bi_MaxID info \<noteq> - 1" "\<And>j. j \<le> bi_MaxID info \<Longrightarrow> dev_readable enodev fs j"
  shows "getIoctlDeviceStats enodev fs info =
    Some (Ok (first_n (unat (bi_NumDevices info)) (concat (map (\<lambda>k. dev_at fs (of_nat k)) [0..<Suc (unat (bi_MaxID info))]))))"
proof -
  have "bi_NumDevices info \<noteq> 0 \<Longrightarrow> 0 < unat (bi_NumDevices info)" by (simp add: unat_gt_0)
  from dev_loop_from [OF assms, of 0 "[]"] this show ?thesis by (simp add: getIoctlDeviceStats_def)
qed

definition demo_handle :: btrfsHandle where
  "demo_handle = \<lparr>fs_Info = Ok \<lparr>bi_FSID = ''a'', bi_NumDevices = 2, bi_MaxID = 3\<rparr>,
     fs_GetDevInfo = (\<lambda>i. if i = 0 \<or> i = 2 then Err (OSError ''no such device'')
       else Ok \<lparr>di_Path = (if i = 1 then ''/dev/sda'' else ''/dev/sdb''), di_UUID = [], di_BytesUsed = 1, di_TotalBytes = 4\<rparr>),
     fs_GetDevStats = (\<lambda>i. Ok \<lparr>de_WriteErrs = 0, de_ReadErrs = 0, de_FlushErrs = 0, de_CorruptionErrs = 0, de_GenerationErrs = 0\<rparr>)\<rparr>"

theorem btrfs_devices_found_witness:
  "\<exists>ds. getIoctlDeviceStats (\<lambda>e. e = OSError ''no such device'') demo_handle \<lparr>bi_FSID = ''a'', bi_NumDevices = 2, bi_MaxID = 3\<rparr> = Some (Ok ds) \<and>
     map bd_path ds = [''/dev/sda'', ''/dev/sdb'']"
proof -
  let ?i = "\<lparr>bi_FSID = ''a'', bi_NumDevices = 2, bi_MaxID = 3\<rparr>"
  have r: "dev_readable (\<lambda>e. e = OSError ''no such device'') demo_handle j" for j by (simp add: dev_readable_def demo_handle_def)
  have l: "[0..<Suc (unat (3 :: uint64))] = [0, 1, 2, 3]" by (simp add: upt_conv_Cons)
  have d: "map bd_path (first_n 2 (concat (map (\<lambda>k. dev_at demo_handle (of_nat k)) [0, 1, 2, 3]))) = [''/dev/sda'', ''/dev/sdb'']"
    by (simp add: dev_at_def demo_handle_def ioctl_dev_def first_n_def)
  show ?thesis using btrfs_devices_found [of ?i, OF _ r] d unfolding btrfsInfo.select_convs l by simp
qed

text \<open>
  A file system whose largest device number is the last one of 64 bits is scanned for ever: the counter wraps around to zero
  and the comparison never fails.
\<close>

theorem btrfs_scan_forever:
  assumes "bi_MaxID info = - 1" "\<And>j. \<exists>e. fs_GetDevInfo fs j = Err e \<and> enodev e"
  shows "getIoctlDeviceStats enodev fs info = None"
  unfolding getIoctlDeviceStats_def by (rule dev_loop_forever [OF assms])

theorem btrfs_scan_forever_witness:
  "getIoctlDeviceStats (\<lambda>e. True) (demo_handle\<lparr>fs_GetDevInfo := (\<lambda>i. Err ErrNotExist)\<rparr>) \<lparr>bi_FSID = ''a'', bi_NumDevices = 1, bi_MaxID = - 1\<rparr> = None"
  by (rule btrfs_scan_forever) simp_all

end
