(* ===== verification/Netfs.thy ===== *)
theory Netfs
  imports Registry Helpers
begin

text \<open>
  The network file system: its mounts (\<^verbatim>\<open>mountstats_linux.go\<close>), the client (\<^verbatim>\<open>nfs_linux.go\<close>) and the server
  (\<^verbatim>\<open>nfsd_linux.go\<close>). The procfs library parses the files; a structure of counters is a function of the names of its fields.
\<close>

section \<open>Mounts\<close>

definition float64Mantissa :: uint64 where
  "float64Mantissa = 9007199254740992"

definition mountLabels :: "string list" where
  "mountLabels = [''export'', ''protocol'', ''mountaddr'']"

definition nfs_mount_desc :: "string list \<Rightarrow> string \<Rightarrow> string \<Rightarrow> desc" where
  "nfs_mount_desc ls name help = NewDesc (BuildFQName namespace ''mountstats_nfs'' name) help (mountLabels @ ls)"

definition NFSAgeSecondsTotal :: desc where
  "NFSAgeSecondsTotal = nfs_mount_desc [] ''age_seconds_total'' ''The age of the NFS mount in seconds.''"

definition NFSMountpointInfo :: desc where
  "NFSMountpointInfo = nfs_mount_desc [''mountpoint''] ''mountpoint_info'' ''Info metric for an NFS mountpoint.''"

text \<open>Names, help texts and fields of the counters of bytes and pages, of transports, of operations and of events.\<close>

definition nfs_byte_table :: "(string \<times> string \<times> string) list" where
  "nfs_byte_table =
     [(''read_bytes_total'', ''Number of bytes read using the read() syscall.'', ''Read''),
      (''write_bytes_total'', ''Number of bytes written using the write() syscall.'', ''Write''),
      (''direct_read_bytes_total'', ''Number of bytes read using the read() syscall in O_DIRECT mode.'', ''DirectRead''),
      (''direct_write_bytes_total'', ''Number of bytes written using the write() syscall in O_DIRECT mode.'', ''DirectWrite''),
      (''total_read_bytes_total'', ''Number of bytes read from the NFS server, in total.'', ''ReadTotal''),
      (''total_write_bytes_total'', ''Number of bytes written to the NFS server, in total.'', ''WriteTotal''),
      (''read_pages_total'', ''Number of pages read directly via mmap()'d files.'', ''ReadPages''),
      (''write_pages_total'', ''Number of pages written directly via mmap()'d files.'', ''WritePages'')]"

definition nfs_transport_table :: "(string \<times> string \<times> string \<times> valueType) list" where
  "nfs_transport_table =
     [(''transport_bind_total'', ''Number of times the client has had to establish a connection from scratch to the NFS server.'', ''Bind'', CounterValue),
      (''transport_connect_total'', ''Number of times the client has made a TCP connection to the NFS server.'', ''Connect'', CounterValue),
      (''transport_idle_time_seconds'', ''Duration since the NFS mount last saw any RPC traffic, in seconds.'', ''IdleTimeSeconds'', GaugeValue),
      (''transport_sends_total'', ''Number of RPC requests for this mount sent to the NFS server.'', ''Sends'', CounterValue),
      (''transport_receives_total'', ''Number of RPC responses for this mount received from the NFS server.'', ''Receives'', CounterValue),
      (''transport_bad_transaction_ids_total'', ''Number of times the NFS server sent a response with a transaction ID unknown to this client.'', ''BadTransactionIDs'', CounterValue),
      (''transport_backlog_queue_total'', ''Total number of items added to the RPC backlog queue.'', ''CumulativeBacklog'', CounterValue),
      (''transport_maximum_rpc_slots'', ''Maximum number of simultaneously active RPC requests ever used.'', ''MaximumRPCSlotsUsed'', GaugeValue),
      (''transport_sending_queue_total'', ''Total number of items added to the RPC transmission sending queue.'', ''CumulativeSendingQueue'', CounterValue),
      (''transport_pending_queue_total'', ''Total number of items added to the RPC transmission pending queue.'', ''CumulativePendingQueue'', CounterValue)]"

definition nfs_op_table :: "(string \<times> string \<times> string) list" where
  "nfs_op_table =
     [(''operations_requests_total'', ''Number of requests performed for a given operation.'', ''Requests''),
      (''operations_transmissions_total'', ''Number of times an actual RPC request has been transmitted for a given operation.'', ''Transmissions''),
      (''operations_major_timeouts_total'', ''Number of times a request has had a major timeout for a given operation.'', ''MajorTimeouts''),
      (''operations_sent_bytes_total'', ''Number of bytes sent for a given operation, including RPC headers and payload.'', ''BytesSent''),
      (''operations_received_bytes_total'', ''Number of bytes received for a given operation, including RPC headers and payload.'', ''BytesReceived''),
      (''operations_queue_time_seconds_total'', ''Duration all requests spent queued for transmission for a given operation before they were sent, in seconds.'', ''CumulativeQueueMilliseconds''),
      (''operations_response_time_seconds_total'', ''Duration all requests took to get a reply back after a request for a given operation was transmitted, in seconds.'', ''CumulativeTotalResponseMilliseconds''),
      (''operations_request_time_seconds_total'', ''Duration all requests took from when a request was enqueued to when it was completely handled for a given operation, in seconds.'', ''CumulativeTotalRequestMilliseconds'')]"

definition nfs_event_table :: "(string \<times> string \<times> string) list" where
  "nfs_event_table =
     [(''event_inode_revalidate_total'', ''Number of times cached inode attributes are re-validated from the server.'', ''InodeRevalidate''),
      (''event_dnode_revalidate_total'', ''Number of times cached dentry nodes are re-validated from the server.'', ''DnodeRevalidate''),
      (''event_data_invalidate_total'', ''Number of times an inode cache is cleared.'', ''DataInvalidate''),
      (''event_attribute_invalidate_total'', ''Number of times cached inode attributes are invalidated.'', ''AttributeInvalidate''),
      (''event_vfs_open_total'', ''Number of times cached inode attributes are invalidated.'', ''VFSOpen''),
      (''event_vfs_lookup_total'', ''Number of times a directory lookup has occurred.'', ''VFSLookup''),
      (''event_vfs_access_total'', ''Number of times permissions have been checked.'', ''VFSAccess''),
      (''event_vfs_update_page_total'', ''Number of updates (and potential writes) to pages.'', ''VFSUpdatePage''),
      (''event_vfs_read_page_total'', ''Number of pages read directly via mmap()'d files.'', ''VFSReadPage''),
      (''event_vfs_read_pages_total'', ''Number of times a group of pages have been read.'', ''VFSReadPages''),
      (''event_vfs_write_page_total'', ''Number of pages written directly via mmap()'d files.'', ''VFSWritePage''),
      (''event_vfs_write_pages_total'', ''Number of times a group of pages have been written.'', ''VFSWritePages''),
      (''event_vfs_getdents_total'', ''Number of times directory entries have been read with getdents().'', ''VFSGetdents''),
      (''event_vfs_setattr_total'', ''Number of times directory entries have been read with getdents().'', ''VFSSetattr''),
      (''event_vfs_flush_total'', ''Number of pending writes that have been forcefully flushed to the server.'', ''VFSFlush''),
      (''event_vfs_fsync_total'', ''Number of times fsync() has been called on directories and files.'', ''VFSFsync''),
      (''event_vfs_lock_total'', ''Number of times locking has been attempted on a file.'', ''VFSLock''),
      (''event_vfs_file_release_total'', ''Number of times files have been closed and released.'', ''VFSFileRelease''),
      (''event_truncation_total'', ''Number of times files have been truncated.'', ''Truncation''),
      (''event_write_extension_total'', ''Number of times a file has been grown due to writes beyond its existing end.'', ''WriteExtension''),
      (''event_silly_rename_total'', ''Number of times a file was removed while still open by another process.'', ''SillyRename''),
      (''event_short_read_total'', ''Number of times the NFS server gave less data than expected while reading.'', ''ShortRead''),
      (''event_short_write_total'', ''Number of times the NFS server wrote less data than expected while writing.'', ''ShortWrite''),
      (''event_jukebox_delay_total'', ''Number of times the NFS server indicated EJUKEBOX; retrieving data from offline storage.'', ''JukeboxDelay''),
      (''event_pnfs_read_total'', ''Number of NFS v4.1+ pNFS reads.'', ''PNFSRead''),
      (''event_pnfs_write_total'', ''Number of NFS v4.1+ pNFS writes.'', ''PNFSWrite'')]"

record nfsTransport =
  tr_Protocol :: string
  tr_fields :: "string \<Rightarrow> uint64"

record nfsOperation =
  op_Operation :: string
  op_fields :: "string \<Rightarrow> uint64"

record mountStatsNFS =
  ms_Age :: int
  ms_Bytes :: "string \<Rightarrow> uint64"
  ms_Transport :: "nfsTransport list"
  ms_Operations :: "nfsOperation list"
  ms_Events :: "string \<Rightarrow> uint64"

text \<open>Only the statistics of NFS mounts are known; those of another kind are \<open>None\<close>.\<close>

record mountEntry =
  mt_Device :: string
  mt_Mount :: string
  mt_Stats :: "mountStatsNFS option"

definition nfs_num :: "uint64 \<Rightarrow> float64" where
  "nfs_num n = f64_of_nat (unat n)"

definition transport_value :: "nfsTransport \<Rightarrow> string \<Rightarrow> float64" where
  "transport_value t fld = (if fld = ''IdleTimeSeconds'' then nfs_num (tr_fields t fld mod float64Mantissa) else nfs_num (tr_fields t fld))"

definition op_value :: "nfsOperation \<Rightarrow> string \<Rightarrow> float64" where
  "op_value op fld =
     (if fld \<in> {''CumulativeQueueMilliseconds'', ''CumulativeTotalResponseMilliseconds'', ''CumulativeTotalRequestMilliseconds''}
      then f64_div (nfs_num (op_fields op fld mod float64Mantissa)) (Fin 1000) else nfs_num (op_fields op fld))"

definition updateNFSMountpointInfo :: "string \<Rightarrow> string \<Rightarrow> string \<Rightarrow> string \<Rightarrow> metric list" where
  "updateNFSMountpointInfo export protocol mountAddress mountPoint =
     [MustNewConstMetric NFSMountpointInfo GaugeValue (Fin 1) [export, protocol, mountAddress, mountPoint]]"

text \<open>The samples of the bytes, of each transport with its number, of each operation with its name, and of the events.\<close>

definition nfs_byte_metrics :: "(string \<Rightarrow> uint64) \<Rightarrow> string list \<Rightarrow> metric list" where
  "nfs_byte_metrics b labelValues =
     map (\<lambda>(n, h, fld). MustNewConstMetric (nfs_mount_desc [] n h) CounterValue (nfs_num (b fld)) labelValues) nfs_byte_table"

definition nfs_transport_metrics :: "nat \<Rightarrow> nfsTransport \<Rightarrow> string list \<Rightarrow> metric list" where
  "nfs_transport_metrics i t labelValues =
     map (\<lambda>(n, h, fld, ty). MustNewConstMetric (nfs_mount_desc [''transport''] n h) ty (transport_value t fld) (labelValues @ [Itoa (int i)])) nfs_transport_table"

definition nfs_op_metrics :: "nfsOperation \<Rightarrow> string list \<Rightarrow> metric list" where
  "nfs_op_metrics op labelValues =
     map (\<lambda>(n, h, fld). MustNewConstMetric (nfs_mount_desc [''operation''] n h) CounterValue (op_value op fld) (labelValues @ [op_Operation op])) nfs_op_table"

definition nfs_event_metrics :: "(string \<Rightarrow> uint64) \<Rightarrow> string list \<Rightarrow> metric list" where
  "nfs_event_metrics e labelValues =
     map (\<lambda>(n, h, fld). MustNewConstMetric (nfs_mount_desc [] n h) CounterValue (nfs_num (e fld)) labelValues) nfs_event_table"

definition updateNFSStats :: "mountStatsNFS \<Rightarrow> string \<Rightarrow> string \<Rightarrow> string \<Rightarrow> metric list" where
  "updateNFSStats s export protocol mountAddress =
     (let labelValues = [export, protocol, mountAddress] in
      MustNewConstMetric NFSAgeSecondsTotal CounterValue (duration_Seconds (ms_Age s)) labelValues #
      nfs_byte_metrics (ms_Bytes s) labelValues @
      concat (map (\<lambda>(i, t). nfs_transport_metrics i t labelValues) (enumerate 0 (ms_Transport s))) @
      concat (map (\<lambda>op. nfs_op_metrics op labelValues) (ms_Operations s)) @
      nfs_event_metrics (ms_Events s) labelValues)"

lemmas nfs_metrics_defs = nfs_byte_metrics_def nfs_transport_metrics_def nfs_op_metrics_def nfs_event_metrics_def

text \<open>
  The transports of a mount in turn, with the mount points and the devices that were exported before. A device that was
  seen ends the loop over the transports.
\<close>

type_synonym nfsSeen = "(string \<times> string \<times> string \<times> string) set \<times> (string \<times> string \<times> string) set"

fun mount_transports :: "mountEntry \<Rightarrow> mountStatsNFS \<Rightarrow> string \<Rightarrow> nfsTransport list \<Rightarrow> nfsSeen \<Rightarrow> nfsSeen \<times> metric list" where
  "mount_transports m stats mountAddress [] seen = (seen, [])"
| "mount_transports m stats mountAddress (t # ts) (mountpointList, deviceList) =
     (let mountpointIdentifier = (mt_Device m, tr_Protocol t, mountAddress, mt_Mount m);
          info = (if mountpointIdentifier \<in> mountpointList then [] else updateNFSMountpointInfo (mt_Device m) (tr_Protocol t) mountAddress (mt_Mount m));
          deviceIdentifier = (mt_Device m, tr_Protocol t, mountAddress)
      in if deviceIdentifier \<in> deviceList then ((insert mountpointIdentifier mountpointList, deviceList), info)
         else let (seen, ms) = mount_transports m stats mountAddress ts (insert mountpointIdentifier mountpointList, insert deviceIdentifier deviceList)
              in (seen, info @ updateNFSStats stats (mt_Device m) (tr_Protocol t) mountAddress @ ms))"

text \<open>The address is taken from the mount of the same number in the other file, and is empty when that has fewer.\<close>

fun mount_loop :: "(string, string) gomap list \<Rightarrow> nat \<Rightarrow> mountEntry list \<Rightarrow> nfsSeen \<Rightarrow> nfsSeen \<times> metric list" where
  "mount_loop mountsInfo k [] seen = (seen, [])"
| "mount_loop mountsInfo k (m # ms) seen =
     (case mt_Stats m of
        None \<Rightarrow> mount_loop mountsInfo (k + 1) ms seen
      | Some stats \<Rightarrow>
          let mountAddress = (if k < length mountsInfo then map_get_z [] (mountsInfo ! k) ''addr'' else []);
              (seen', out) = mount_transports m stats mountAddress (ms_Transport stats) seen;
              (seen'', out') = mount_loop mountsInfo (k + 1) ms seen'
          in (seen'', out @ out'))"

record mountstatsEnv =
  proc_MountStats :: "mountEntry list res"
  proc_MountInfo :: "(string, string) gomap list res"

definition mountstats_Update :: "mountstatsEnv \<Rightarrow> upd" where
  "mountstats_Update env =
     with_res (map_err (Wrapf ''failed to parse mountstats: %w'' []) (proc_MountStats env)) (\<lambda>mounts.
     with_res (map_err (Wrapf ''failed to parse mountinfo: %w'' []) (proc_MountInfo env)) (\<lambda>mountsInfo.
       emit (snd (mount_loop mountsInfo 0 mounts ({}, {})))))"

definition NewMountStatsCollector :: "unit res \<Rightarrow> unit res \<Rightarrow> unit res" where
  "NewMountStatsCollector procfs_NewFS fs_Self =
     bind_res (map_err (Wrapf ''failed to open procfs: %w'' []) procfs_NewFS) (\<lambda>_.
     map_err (Wrapf ''failed to open /proc/self: %w'' []) fs_Self)"

section \<open>The client\<close>

definition nfs_desc :: "string \<Rightarrow> string \<Rightarrow> string list \<Rightarrow> desc" where
  "nfs_desc name help ls = NewDesc (BuildFQName namespace ''nfs'' name) help ls"

definition nfsNetReadsDesc :: desc where
  "nfsNetReadsDesc = nfs_desc ''packets_total'' ''Total NFSd network packets (sent+received) by protocol type.'' [''protocol'']"
definition nfsNetConnectionsDesc :: desc where
  "nfsNetConnectionsDesc = nfs_desc ''connections_total'' ''Total number of NFSd TCP connections.'' []"
definition nfsRPCOperationsDesc :: desc where
  "nfsRPCOperationsDesc = nfs_desc ''rpcs_total'' ''Total number of RPCs performed.'' []"
definition nfsRPCRetransmissionsDesc :: desc where
  "nfsRPCRetransmissionsDesc = nfs_desc ''rpc_retransmissions_total'' ''Number of RPC transmissions performed.'' []"
definition nfsRPCAuthenticationRefreshesDesc :: desc where
  "nfsRPCAuthenticationRefreshesDesc = nfs_desc ''rpc_authentication_refreshes_total'' ''Number of RPC authentication refreshes performed.'' []"
definition nfsProceduresDesc :: desc where
  "nfsProceduresDesc = nfs_desc ''requests_total'' ''Number of NFS procedures invoked.'' [''proto'', ''method'']"

record nfsNetwork =
  nn_UDPCount :: uint64
  nn_TCPCount :: uint64
  nn_TCPConnect :: uint64

record nfsClientRPC =
  cr_RPCCount :: uint64
  cr_Retransmissions :: uint64
  cr_AuthRefreshes :: uint64

text \<open>The counters of the procedures are read by reflection: each field with its name, in the order of the structure.\<close>

record clientRPCStats =
  cs_Network :: nfsNetwork
  cs_ClientRPC :: nfsClientRPC
  cs_V2Stats :: "(string \<times> uint64) list"
  cs_V3Stats :: "(string \<times> uint64) list"
  cs_V4Stats :: "(string \<times> uint64) list"

definition updateNFSNetworkStats :: "nfsNetwork \<Rightarrow> metric list" where
  "updateNFSNetworkStats s =
     [MustNewConstMetric nfsNetReadsDesc CounterValue (nfs_num (nn_UDPCount s)) [''udp''],
      MustNewConstMetric nfsNetReadsDesc CounterValue (nfs_num (nn_TCPCount s)) [''tcp''],
      MustNewConstMetric nfsNetConnectionsDesc CounterValue (nfs_num (nn_TCPConnect s)) []]"

definition updateNFSClientRPCStats :: "nfsClientRPC \<Rightarrow> metric list" where
  "updateNFSClientRPCStats s =
     [MustNewConstMetric nfsRPCOperationsDesc CounterValue (nfs_num (cr_RPCCount s)) [],
      MustNewConstMetric nfsRPCRetransmissionsDesc CounterValue (nfs_num (cr_Retransmissions s)) [],
      MustNewConstMetric nfsRPCAuthenticationRefreshesDesc CounterValue (nfs_num (cr_AuthRefreshes s)) []]"

definition nfs_procedures :: "string \<Rightarrow> (string \<times> uint64) list \<Rightarrow> metric list" where
  "nfs_procedures proto s = map (\<lambda>(name, v). MustNewConstMetric nfsProceduresDesc CounterValue (nfs_num v) [proto, name]) s"

definition nfs_err :: "string \<Rightarrow> error \<Rightarrow> error" where
  "nfs_err msg e = (if errors_Is e ErrNotExist then ErrNoData else Wrapf msg [] e)"

definition nfs_Update :: "clientRPCStats res \<Rightarrow> upd" where
  "nfs_Update ClientRPCStats =
     with_res (map_err (nfs_err ''failed to retrieve nfs stats: %w'') ClientRPCStats) (\<lambda>stats.
       emit (updateNFSNetworkStats (cs_Network stats) @ updateNFSClientRPCStats (cs_ClientRPC stats) @
         nfs_procedures ''2'' (cs_V2Stats stats) @ nfs_procedures ''3'' (cs_V3Stats stats) @ nfs_procedures ''4'' (cs_V4Stats stats)))"

definition NewNfsCollector :: "unit res \<Rightarrow> unit res" where
  "NewNfsCollector nfs_NewFS = map_err (Wrapf ''failed to open procfs: %w'' []) nfs_NewFS"

section \<open>The server\<close>

definition nfsd_desc :: "string \<Rightarrow> string \<Rightarrow> string list \<Rightarrow> desc" where
  "nfsd_desc name help ls = NewDesc (BuildFQName namespace ''nfsd'' name) help ls"

definition requestsDesc :: desc where
  "requestsDesc = nfsd_desc ''requests_total'' ''Total number NFSd Requests by method and protocol.'' [''proto'', ''method'']"

record serverRPCStats =
  sv_ReplyCache :: "string \<Rightarrow> uint64"
  sv_FileHandles :: "string \<Rightarrow> uint64"
  sv_InputOutput :: "string \<Rightarrow> uint64"
  sv_Threads :: "string \<Rightarrow> uint64"
  sv_ReadAheadCache :: "string \<Rightarrow> uint64"
  sv_Network :: nfsNetwork
  sv_ServerRPC :: "string \<Rightarrow> uint64"
  sv_V2Stats :: "string \<Rightarrow> uint64"
  sv_V3Stats :: "string \<Rightarrow> uint64"
  sv_V4Ops :: "string \<Rightarrow> uint64"
  sv_WdelegGetattr :: uint64

definition nfsd_const :: "valueType \<Rightarrow> string \<Rightarrow> string \<Rightarrow> uint64 \<Rightarrow> metric" where
  "nfsd_const ty name help v = MustNewConstMetric (nfsd_desc name help []) ty (nfs_num v) []"

definition updateNFSdReplyCacheStats :: "(string \<Rightarrow> uint64) \<Rightarrow> metric list" where
  "updateNFSdReplyCacheStats s =
     [nfsd_const CounterValue ''reply_cache_hits_total'' ''Total number of NFSd Reply Cache hits (client lost server response).'' (s ''Hits''),
      nfsd_const CounterValue ''reply_cache_misses_total'' ''Total number of NFSd Reply Cache an operation that requires caching (idempotent).'' (s ''Misses''),
      nfsd_const CounterValue ''reply_cache_nocache_total''
        (''Total number of NFSd Reply Cache non-idempotent operations (rename/delete/'' @ [CHR 0xE2, CHR 0x80, CHR 0xA6] @ '').'') (s ''NoCache'')]"

definition updateNFSdFileHandlesStats :: "(string \<Rightarrow> uint64) \<Rightarrow> metric list" where
  "updateNFSdFileHandlesStats s = [nfsd_const CounterValue ''file_handles_stale_total'' ''Total number of NFSd stale file handles'' (s ''Stale'')]"

definition updateNFSdInputOutputStats :: "(string \<Rightarrow> uint64) \<Rightarrow> metric list" where
  "updateNFSdInputOutputStats s =
     [nfsd_const CounterValue ''disk_bytes_read_total'' ''Total NFSd bytes read.'' (s ''Read''),
      nfsd_const CounterValue ''disk_bytes_written_total'' ''Total NFSd bytes written.'' (s ''Write'')]"

definition updateNFSdThreadsStats :: "(string \<Rightarrow> uint64) \<Rightarrow> metric list" where
  "updateNFSdThreadsStats s = [nfsd_const GaugeValue ''server_threads'' ''Total number of NFSd kernel threads that are running.'' (s ''Threads'')]"

definition updateNFSdReadAheadCacheStats :: "(string \<Rightarrow> uint64) \<Rightarrow> metric list" where
  "updateNFSdReadAheadCacheStats s =
     [nfsd_const GaugeValue ''read_ahead_cache_size_blocks'' ''How large the read ahead cache is in blocks.'' (s ''CacheSize''),
      nfsd_const CounterValue ''read_ahead_cache_not_found_total'' ''Total number of NFSd read ahead cache not found.'' (s ''NotFound'')]"

definition updateNFSdNetworkStats :: "nfsNetwork \<Rightarrow> metric list" where
  "updateNFSdNetworkStats s =
     (let packetDesc = nfsd_desc ''packets_total'' ''Total NFSd network packets (sent+received) by protocol type.'' [''proto''] in
      [MustNewConstMetric packetDesc CounterValue (nfs_num (nn_UDPCount s)) [''udp''],
       MustNewConstMetric packetDesc CounterValue (nfs_num (nn_TCPCount s)) [''tcp''],
       nfsd_const CounterValue ''connections_total'' ''Total number of NFSd TCP connections.'' (nn_TCPConnect s)])"

definition updateNFSdServerRPCStats :: "(string \<Rightarrow> uint64) \<Rightarrow> metric list" where
  "updateNFSdServerRPCStats s =
     (let badRPCDesc = nfsd_desc ''rpc_errors_total'' ''Total number of NFSd RPC errors by error type.'' [''error''] in
      [MustNewConstMetric badRPCDesc CounterValue (nfs_num (s ''BadFmt'')) [''fmt''],
       MustNewConstMetric badRPCDesc CounterValue (nfs_num (s ''BadAuth'')) [''auth''],
       MustNewConstMetric badRPCDesc CounterValue (nfs_num (s ''BadcInt'')) [''cInt''],
       nfsd_const CounterValue ''server_rpcs_total'' ''Total number of NFSd RPCs.'' (s ''RPCCount'')])"

definition nfsd_requests :: "string \<Rightarrow> string list \<Rightarrow> (string \<Rightarrow> uint64) \<Rightarrow> metric list" where
  "nfsd_requests proto methods s = map (\<lambda>meth. MustNewConstMetric requestsDesc CounterValue (nfs_num (s meth)) [proto, meth]) methods"

text \<open>The methods are the names of the fields they count.\<close>

definition nfsd_v2_methods :: "string list" where
  "nfsd_v2_methods =
     [''GetAttr'', ''SetAttr'', ''Root'', ''Lookup'', ''ReadLink'', ''Read'', ''WrCache'', ''Write'', ''Create'', ''Remove'',
      ''Rename'', ''Link'', ''SymLink'', ''MkDir'', ''RmDir'', ''ReadDir'', ''FsStat'']"

definition nfsd_v3_methods :: "string list" where
  "nfsd_v3_methods =
     [''GetAttr'', ''SetAttr'', ''Lookup'', ''Access'', ''ReadLink'', ''Read'', ''Write'', ''Create'', ''MkDir'', ''SymLink'',
      ''MkNod'', ''Remove'', ''RmDir'', ''Rename'', ''Link'', ''ReadDir'', ''ReadDirPlus'', ''FsStat'', ''FsInfo'', ''PathConf'',
      ''Commit'']"

definition nfsd_v4_methods :: "string list" where
  "nfsd_v4_methods =
     [''Access'', ''Close'', ''Commit'', ''Create'', ''DelegPurge'', ''DelegReturn'', ''GetAttr'', ''GetFH'', ''Link'',
      ''Lock'', ''Lockt'', ''Locku'', ''Lookup'', ''LookupRoot'', ''Nverify'', ''Open'', ''OpenAttr'', ''OpenConfirm'',
      ''OpenDgrd'', ''PutFH'', ''Read'', ''ReadDir'', ''ReadLink'', ''Remove'', ''Rename'', ''Renew'', ''RestoreFH'',
      ''SaveFH'', ''SecInfo'', ''SetAttr'', ''SetClientID'', ''SetClientIDConfirm'', ''Verify'', ''Write'', ''RelLockOwner''
      ]"

definition nfsd_metrics :: "serverRPCStats \<Rightarrow> metric list" where
  "nfsd_metrics stats =
     updateNFSdReplyCacheStats (sv_ReplyCache stats) @ updateNFSdFileHandlesStats (sv_FileHandles stats) @
     updateNFSdInputOutputStats (sv_InputOutput stats) @ updateNFSdThreadsStats (sv_Threads stats) @
     updateNFSdReadAheadCacheStats (sv_ReadAheadCache stats) @ updateNFSdNetworkStats (sv_Network stats) @
     updateNFSdServerRPCStats (sv_ServerRPC stats) @ nfsd_requests ''2'' nfsd_v2_methods (sv_V2Stats stats) @
     nfsd_requests ''3'' nfsd_v3_methods (sv_V3Stats stats) @ nfsd_requests ''4'' nfsd_v4_methods (sv_V4Ops stats) @
     [MustNewConstMetric requestsDesc CounterValue (nfs_num (sv_WdelegGetattr stats)) [''4'', ''WdelegGetattr'']]"

definition nfsd_Update :: "serverRPCStats res \<Rightarrow> upd" where
  "nfsd_Update ServerRPCStats =
     with_res (map_err (nfs_err ''failed to retrieve nfsd stats: %w'') ServerRPCStats) (\<lambda>stats. emit (nfsd_metrics stats))"

section \<open>Contracts\<close>

lemma updateNFSStats_ok: "list_all labels_ok (updateNFSStats s e p a)"
  by (auto simp: list_all_iff updateNFSStats_def nfs_metrics_defs Let_def nfs_mount_desc_def mountLabels_def NFSAgeSecondsTotal_def)

lemma mount_transports_ok: "list_all labels_ok (snd (mount_transports m s a ts seen))"
  by (induction m s a ts seen rule: mount_transports.induct)
    (auto simp: Let_def updateNFSMountpointInfo_def NFSMountpointInfo_def nfs_mount_desc_def mountLabels_def updateNFSStats_ok split: prod.splits)

lemma mount_loop_ok: "list_all labels_ok (snd (mount_loop mi k ms seen))"
  by (induction ms arbitrary: k seen) (simp_all add: Let_def split_beta mount_transports_ok split: option.splits)

interpretation mountstats: safe_collector_contract mountstats_Update "\<lambda>env. \<not> panics (proc_MountStats env) \<and> \<not> panics (proc_MountInfo env)"
  by (rule safe_contractI, unfold mountstats_Update_def, intro sound_with_res) (auto simp: sound_def mount_loop_ok)

interpretation nfs: safe_collector_contract nfs_Update "\<lambda>r. \<not> panics r"
  by (rule safe_contractI)
    (auto simp: nfs_Update_def updateNFSNetworkStats_def updateNFSClientRPCStats_def nfs_procedures_def nfsNetReadsDesc_def
      nfsNetConnectionsDesc_def nfsRPCOperationsDesc_def nfsRPCRetransmissionsDesc_def nfsRPCAuthenticationRefreshesDesc_def
      nfsProceduresDesc_def nfs_desc_def intro!: sound_with_res sound_emit)

interpretation nfsd: safe_collector_contract nfsd_Update "\<lambda>r. \<not> panics r"
  by (rule safe_contractI)
    (auto simp: nfsd_Update_def nfsd_metrics_def updateNFSdReplyCacheStats_def updateNFSdFileHandlesStats_def updateNFSdInputOutputStats_def
      updateNFSdThreadsStats_def updateNFSdReadAheadCacheStats_def updateNFSdNetworkStats_def updateNFSdServerRPCStats_def nfsd_requests_def
      nfsd_const_def nfsd_desc_def requestsDesc_def Let_def intro!: sound_with_res sound_emit)

section \<open>Samples are sent once\<close>

definition mount_fq :: "string \<Rightarrow> fqname" where
  "mount_fq n = BuildFQName namespace ''mountstats_nfs'' n"

lemma mount_fq_eq [simp]: "mount_fq n = mount_fq n' \<longleftrightarrow> n = n'"
  by (simp add: mount_fq_def)

lemma sample_id_mount [simp]: "sample_id (MustNewConstMetric (nfs_mount_desc ls n h) ty v labels) = (mount_fq n, labels)"
  by (simp add: sample_id_def nfs_mount_desc_def mount_fq_def)

definition nfs_names :: "string list" where
  "nfs_names = ''age_seconds_total'' # map fst nfs_byte_table @ map fst nfs_transport_table @ map fst nfs_op_table @ map fst nfs_event_table"

lemma nfs_names_distinct: "distinct (''mountpoint_info'' # nfs_names)"
  unfolding nfs_names_def nfs_byte_table_def nfs_transport_table_def nfs_op_table_def nfs_event_table_def by code_simp

lemma block_distinct: "distinct ks \<Longrightarrow> distinct ns \<Longrightarrow> distinct (concat (map (\<lambda>k. map (\<lambda>n. (mount_fq n, [e, p, a, k])) ns) ks))"
  by (induction ks) (auto simp: distinct_map inj_on_def)

definition ops_distinct :: "mountStatsNFS \<Rightarrow> bool" where
  "ops_distinct s \<longleftrightarrow> distinct (map op_Operation (ms_Operations s))"

lemma map_concat_enumerate: "concat (map (\<lambda>(i, t). f i) (enumerate n xs)) = concat (map f [n..<n + length xs])"
  by (induction xs arbitrary: n) (simp_all add: upt_conv_Cons del: upt_Suc)

lemma updateNFSStats_ids:
  "map sample_id (updateNFSStats s e p a) =
     (mount_fq ''age_seconds_total'', [e, p, a]) # map (\<lambda>n. (mount_fq n, [e, p, a])) (map fst nfs_byte_table) @
     concat (map (\<lambda>k. map (\<lambda>n. (mount_fq n, [e, p, a, k])) (map fst nfs_transport_table)) (map (\<lambda>i. Itoa (int i)) [0..<length (ms_Transport s)])) @
     concat (map (\<lambda>k. map (\<lambda>n. (mount_fq n, [e, p, a, k])) (map fst nfs_op_table)) (map op_Operation (ms_Operations s))) @
     map (\<lambda>n. (mount_fq n, [e, p, a])) (map fst nfs_event_table)"
proof -
  have t: "map sample_id (map (\<lambda>(n, h, fld, ty). MustNewConstMetric (nfs_mount_desc ls n h) ty (f fld) ks) tbl) =
      map (\<lambda>n. (mount_fq n, ks)) (map fst tbl)" for ls ks f and tbl :: "(string \<times> string \<times> string \<times> valueType) list"
    by (simp add: case_prod_beta)
  have b: "map sample_id (map (\<lambda>(n, h, fld). MustNewConstMetric (nfs_mount_desc ls n h) CounterValue (f fld) ks) tbl) =
      map (\<lambda>n. (mount_fq n, ks)) (map fst tbl)" for ls ks f and tbl :: "(string \<times> string \<times> string) list"
    by (simp add: case_prod_beta)
  have c: "map sample_id (concat (map f xs)) = concat (map (\<lambda>x. map sample_id (f x)) xs)" for f :: "'x \<Rightarrow> metric list" and xs
    by (simp add: map_concat o_def)
  have age: "sample_id (MustNewConstMetric NFSAgeSecondsTotal CounterValue v ks) = (mount_fq ''age_seconds_total'', ks)" for v ks
    by (simp add: NFSAgeSecondsTotal_def)
  have i: "concat (map (\<lambda>x. map (\<lambda>r. (mount_fq (fst r), [e, p, a, Itoa (int (fst x))])) nfs_transport_table) (enumerate 0 (ms_Transport s))) =
      concat (map (\<lambda>x. map (\<lambda>r. (mount_fq (fst r), [e, p, a, Itoa (int x)])) nfs_transport_table) [0..<length (ms_Transport s)])"
    using map_concat_enumerate [of "\<lambda>i. map (\<lambda>r. (mount_fq (fst r), [e, p, a, Itoa (int i)])) nfs_transport_table" 0 "ms_Transport s"]
    by (simp add: case_prod_unfold)
  show ?thesis
    unfolding updateNFSStats_def nfs_metrics_defs Let_def list.map map_append c b age
    by (simp add: case_prod_beta o_def i)
qed

lemma blocks_distinct:
  assumes "distinct (n # B @ T @ P @ E)" "distinct ks" "distinct ops"
  shows "distinct ((mount_fq n, [e, p, a]) # map (\<lambda>n. (mount_fq n, [e, p, a])) B @
    concat (map (\<lambda>k. map (\<lambda>n. (mount_fq n, [e, p, a, k])) T) ks) @ concat (map (\<lambda>k. map (\<lambda>n. (mount_fq n, [e, p, a, k])) P) ops) @
    map (\<lambda>n. (mount_fq n, [e, p, a])) E)"
  using assms block_distinct [of ks T e p a] block_distinct [of ops P e p a] by (auto simp: distinct_map inj_on_def)

lemma updateNFSStats_distinct:
  assumes "ops_distinct s"
  shows "distinct (map sample_id (updateNFSStats s e p a))"
proof -
  have "distinct (map (\<lambda>i. Itoa (int i)) [0..<length (ms_Transport s)])" by (simp add: distinct_map inj_on_def Itoa_inj)
  moreover have "distinct nfs_names" using nfs_names_distinct by simp
  ultimately show ?thesis
    unfolding updateNFSStats_ids using assms by (intro blocks_distinct) (simp_all only: nfs_names_def ops_distinct_def)
qed

text \<open>
  What the samples of a scrape are told apart by: those of a mount point by the mount point, those of a device by the device.
\<close>

definition of_seen :: "nfsSeen \<Rightarrow> nfsSeen \<Rightarrow> metric \<Rightarrow> bool" where
  "of_seen seen seen' m \<longleftrightarrow>
     (\<exists>d p a mp. sample_id m = (mount_fq ''mountpoint_info'', [d, p, a, mp]) \<and> (d, p, a, mp) \<in> fst seen' - fst seen) \<or>
     (\<exists>n d p a xs. n \<noteq> ''mountpoint_info'' \<and> sample_id m = (mount_fq n, d # p # a # xs) \<and> (d, p, a) \<in> snd seen' - snd seen)"

definition fresh :: "nfsSeen \<Rightarrow> nfsSeen \<Rightarrow> metric list \<Rightarrow> bool" where
  "fresh seen seen' ms \<longleftrightarrow> distinct (map sample_id ms) \<and> fst seen \<subseteq> fst seen' \<and> snd seen \<subseteq> snd seen' \<and> (\<forall>m \<in> set ms. of_seen seen seen' m)"

lemma fresh_Nil: "fresh s s []"
  by (simp add: fresh_def)

lemma fresh_append:
  assumes "fresh s t ms" "fresh t u ms'"
  shows "fresh s u (ms @ ms')"
proof -
  have "sample_id m \<noteq> sample_id m'" if "m \<in> set ms" "m' \<in> set ms'" for m m'
    using assms that unfolding fresh_def of_seen_def by fastforce
  then have "set (map sample_id ms) \<inter> set (map sample_id ms') = {}" by fastforce
  moreover have "of_seen s u m" if "m \<in> set ms \<union> set ms'" for m
    using assms that unfolding fresh_def of_seen_def by (elim conjE UnE; fastforce)
  moreover have "fst s \<subseteq> fst u" "snd s \<subseteq> snd u" using assms unfolding fresh_def by blast+
  ultimately show ?thesis using assms unfolding fresh_def by (simp only: map_append distinct_append set_append) blast
qed

lemma fresh_info:
  "(d, p, a, mp) \<notin> mps \<Longrightarrow> fresh (mps, ds) (insert (d, p, a, mp) mps, ds) (updateNFSMountpointInfo d p a mp)"
  by (auto simp: fresh_def of_seen_def updateNFSMountpointInfo_def NFSMountpointInfo_def)

lemma updateNFSStats_names: "m \<in> set (updateNFSStats s e p a) \<Longrightarrow> \<exists>n xs. n \<in> set nfs_names \<and> sample_id m = (mount_fq n, e # p # a # xs)"
proof -
  assume "m \<in> set (updateNFSStats s e p a)"
  then have "sample_id m \<in> set (map sample_id (updateNFSStats s e p a))" by simp
  then show ?thesis unfolding updateNFSStats_ids by (auto simp: nfs_names_def)
qed

lemma fresh_stats:
  assumes "ops_distinct s" "(d, p, a) \<notin> ds"
  shows "fresh (mps, ds) (mps, insert (d, p, a) ds) (updateNFSStats s d p a)"
proof -
  have "''mountpoint_info'' \<notin> set nfs_names" using nfs_names_distinct by simp
  then have "of_seen (mps, ds) (mps, insert (d, p, a) ds) m" if "m \<in> set (updateNFSStats s d p a)" for m
    using updateNFSStats_names [OF that] assms(2) by (auto simp: of_seen_def)
  then show ?thesis using updateNFSStats_distinct [OF assms(1)] by (auto simp: fresh_def)
qed

lemma fresh_seen_again: "(d, p, a, mp) \<in> mps \<Longrightarrow> fresh (mps, ds) (insert (d, p, a, mp) mps, ds) []"
  by (simp add: fresh_def insert_absorb)

lemma mount_transports_fresh:
  assumes "ops_distinct s"
  shows "fresh seen (fst (mount_transports m s a ts seen)) (snd (mount_transports m s a ts seen))"
  using assms
proof (induction m s a ts seen rule: mount_transports.induct)
  case (2 m s a t ts mps ds)
  let ?id = "(mt_Device m, tr_Protocol t, a, mt_Mount m)" and ?d = "(mt_Device m, tr_Protocol t, a)"
  let ?info = "if ?id \<in> mps then [] else updateNFSMountpointInfo (mt_Device m) (tr_Protocol t) a (mt_Mount m)"
  have i: "fresh (mps, ds) (insert ?id mps, ds) ?info" by (simp add: fresh_info fresh_seen_again)
  show ?case
  proof (cases "?d \<in> ds")
    case False
    obtain seen ms where r: "mount_transports m s a ts (insert ?id mps, insert ?d ds) = (seen, ms)"
      by (cases "mount_transports m s a ts (insert ?id mps, insert ?d ds)")
    have "fresh (insert ?id mps, insert ?d ds) seen ms" using 2(1) [OF refl refl refl False 2(2)] by (simp add: r)
    from fresh_append [OF i fresh_append [OF fresh_stats [OF 2(2) False] this]]
    show ?thesis using False r by (simp add: Let_def)
  qed (use i in \<open>simp add: Let_def\<close>)
qed (simp add: fresh_Nil)

lemma mount_loop_fresh:
  assumes "list_all (\<lambda>m. \<forall>s. mt_Stats m = Some s \<longrightarrow> ops_distinct s) ms"
  shows "fresh seen (fst (mount_loop mi k ms seen)) (snd (mount_loop mi k ms seen))"
  using assms
proof (induction ms arbitrary: k seen)
  case (Cons m ms)
  show ?case
  proof (cases "mt_Stats m")
    case (Some s)
    let ?a = "if k < length mi then map_get_z [] (mi ! k) ''addr'' else []"
    have "fresh seen (fst (mount_transports m s ?a (ms_Transport s) seen)) (snd (mount_transports m s ?a (ms_Transport s) seen))"
      using Cons.prems Some by (intro mount_transports_fresh) simp
    then show ?thesis using Cons Some fresh_append by (simp add: Let_def case_prod_unfold)
  qed (use Cons in simp)
qed (simp add: fresh_Nil)

section \<open>Properties\<close>

text \<open>
  C23: Whatever mounts share a device, a scrape sends no sample twice as long as procfs lists no operation twice within one
  mount's statistics: an NFS device is exported once however often it is mounted and whatever transports its mounts have.
\<close>

theorem mountstats_distinct:
  assumes "\<And>ms. proc_MountStats env = Ok ms \<Longrightarrow> list_all (\<lambda>m. \<forall>s. mt_Stats m = Some s \<longrightarrow> ops_distinct s) ms"
  shows "distinct (map sample_id (fst (mountstats_Update env)))"
proof (cases "\<exists>ms mi. proc_MountStats env = Ok ms \<and> proc_MountInfo env = Ok mi")
  case True
  then obtain ms mi where m: "proc_MountStats env = Ok ms" "proc_MountInfo env = Ok mi" by blast
  show ?thesis using mount_loop_fresh [OF assms [OF m(1)], of "({}, {})" mi 0] by (simp add: mountstats_Update_def m fresh_def)
next
  case False
  then show ?thesis by (cases "proc_MountStats env"; cases "proc_MountInfo env") (simp_all add: mountstats_Update_def)
qed

definition demo_nfs :: mountStatsNFS where
  "demo_nfs = \<lparr>ms_Age = 0, ms_Bytes = (\<lambda>_. 0), ms_Transport = [\<lparr>tr_Protocol = ''tcp'', tr_fields = (\<lambda>_. 1)\<rparr>, \<lparr>tr_Protocol = ''udp'', tr_fields = (\<lambda>_. 2)\<rparr>],
     ms_Operations = [\<lparr>op_Operation = ''READ'', op_fields = (\<lambda>_. 0)\<rparr>], ms_Events = (\<lambda>_. 0)\<rparr>"

theorem mountstats_distinct_witness:
  "distinct (map sample_id (fst (mountstats_Update \<lparr>proc_MountStats = Ok [\<lparr>mt_Device = ''srv:/x'', mt_Mount = ''/a'', mt_Stats = Some demo_nfs\<rparr>,
     \<lparr>mt_Device = ''srv:/x'', mt_Mount = ''/b'', mt_Stats = Some demo_nfs\<rparr>], proc_MountInfo = Ok []\<rparr>)))"
  by (rule mountstats_distinct) (auto simp: demo_nfs_def ops_distinct_def)

end
