(* ===== verification/Exporter.thy ===== *)
theory Exporter
  imports Registry Handler Cpu Netdev Filesystem Diskstats Memory ProcFiles Netstat Textfile Irq OsRelease Processes Hwmon Zfs Ethtool
    Tcpstat Sysctl Raid Timesync Netmisc Services Energy Kernel Devices Fabric Netkern Perf Pci
    Diskfs Netfs
begin

text \<open>
  The collectors together. \<open>healthy name u\<close> says that \<open>u\<close> is what the collector registered as \<open>name\<close> does in some
  scrape in which the readers it depends on meet what its contract asks of them. A scrape (\<open>Collect\<close>) of healthy
  collectors takes the process down only for a text that the client library refuses (a label value that is not valid UTF-8, or
  an invalid descriptor), accounts for every collector otherwise, and sends only metrics that fit their descriptors,
  under every interleaving of their goroutines. The collectors that keep something between scrapes stay healthy over any
  sequence of scrapes; \<open>exporterState\<close> holds what they keep.
\<close>

section \<open>One scrape\<close>

inductive healthy :: "string \<Rightarrow> upd \<Rightarrow> bool" where
  "cpu_pre (env, fl, c) \<Longrightarrow> healthy ''cpu'' (snd (cpu_Update env fl c))"
| "netdev_pre (env, fl, c) \<Longrightarrow> healthy ''netdev'' (snd (netdev_Update env fl c))"
| "fs_pre (env, c, stuck) \<Longrightarrow> healthy ''filesystem'' (fs_Update env c stuck)"
| "disk_pre (env, c) \<Longrightarrow> healthy ''diskstats'' (disk_Update env c)"
| "meminfo_pre (ord, m) \<Longrightarrow> healthy ''meminfo'' (meminfo_Update ord m)"
| "file_pre (p, rd) \<Longrightarrow> healthy ''loadavg'' (loadavg_Update p rd)"
| "file_pre (p, rd) \<Longrightarrow> healthy ''filefd'' (filefd_Update ord p rd)"
| "time_pre env \<Longrightarrow> healthy ''time'' (time_Update env)"
| "\<not> panics st \<Longrightarrow> healthy ''stat'' (stat_Update b st)"
| "sockstat_pre env \<Longrightarrow> healthy ''sockstat'' (sockstat_Update env)"
| "tf_pre (ord, env, c) \<and> safe_env env \<Longrightarrow> healthy ''textfile'' (textfile_Update ord env c)"
| "\<not> panics (rd (procFilePath p ''interrupts'')) \<Longrightarrow> healthy ''interrupts'' (interrupts_Update ord c p rd)"
| "\<not> panics r \<Longrightarrow> healthy ''softirqs'' (softirqs_Update r)"
| "os_pre (env, p, c) \<Longrightarrow> healthy ''os'' (snd (os_Update env p c))"
| "proc_pre (ord, env, p) \<Longrightarrow> healthy ''processes'' (proc_Update ord env p)"
| "hwmon_pre (ord, env, p, c) \<Longrightarrow> healthy ''hwmon'' (hwmon_Update ord env p c)"
| "eth_pre (ord, env, c) \<Longrightarrow> healthy ''ethtool'' (snd (eth_Update ord env c))"
| "tcp_pre (ord, env, p) \<Longrightarrow> healthy ''tcpstat'' (tcp_Update ord env p)"
| "sysctl_pre (env, ss) \<Longrightarrow> healthy ''sysctl'' (sysctl_Update env ss)"
| "md_pre env \<Longrightarrow> healthy ''mdadm'' (mdadm_Update env)"
| "drbd_pre (p, rd) \<Longrightarrow> healthy ''drbd'' (drbd_Update p rd)"
| "ntp_wf c \<and> \<not> panics q \<Longrightarrow> healthy ''ntp'' (snd (ntp_Update fl lc c q lm))"
| "\<not> panics r \<Longrightarrow> healthy ''timex'' (timex_Update NewTimexCollector r)"
| "arp_pre (env, fl, f) \<Longrightarrow> healthy ''arp'' (arp_Update ord env fl f)"
| "(\<forall>f. \<not> panics (rd f)) \<Longrightarrow> healthy ''bonding'' (bonding_Update ord p rd)"
| "conntrack_pre (p, rd, env) \<Longrightarrow> healthy ''conntrack'' (conntrack_Update p rd env)"
| "route_pre env \<Longrightarrow> healthy ''network_route'' (route_Update ord env)"
| "qdisc_pre (env, fl, f) \<Longrightarrow> healthy ''qdisc'' (qdisc_Update env fl f)"
| "\<not> panics r \<Longrightarrow> healthy ''softnet'' (softnet_Update r)"
| "\<not> panics s4 \<and> \<not> panics s6 \<Longrightarrow> healthy ''udp_queues'' (udp_Update s4 s6)"
| "sd_pre (ord, env, fl, c) \<Longrightarrow> healthy ''systemd'' (systemd_Update ord env fl c)"
| "logind_pre env \<Longrightarrow> healthy ''logind'' (logind_Update env)"
| "\<not> panics r \<and> (\<forall>ss. r = Ok ss \<longrightarrow> list_all (\<lambda>x. \<not> panics (snd x)) ss) \<Longrightarrow> healthy ''runit'' (runit_Update r)"
| "\<not> panics r \<Longrightarrow> healthy ''cpufreq'' (cpufreq_Update (newCPUFreqDescs b) r)"
| "\<not> panics (ClassThermalZoneStats env) \<and> \<not> panics (ClassCoolingDeviceStats env) \<Longrightarrow> healthy ''thermal_zone'' (thermal_Update env)"
| "\<not> panics (pw_NewFS env) \<and> \<not> panics (PowerSupplyClass env) \<Longrightarrow> healthy ''powersupplyclass'' (power_Update ord env ign)"
| "\<not> panics (GetRaplZones env) \<and> (\<forall>z. \<not> panics (GetEnergyMicrojoules env z)) \<Longrightarrow> healthy ''rapl'' (rapl_Update env l)"
| "(\<forall>f. \<not> panics (rd f)) \<Longrightarrow> healthy ''ksmd'' (ksmd_Update p rd)"
| "\<not> panics (Swaps env) \<Longrightarrow> healthy ''swap'' (swap_Update env)"
| "\<not> panics r \<Longrightarrow> healthy ''entropy'' (entropy_Update r)"
| "\<not> panics r \<Longrightarrow> healthy ''buddyinfo'' (buddyinfo_Update r)"
| "\<not> panics r \<Longrightarrow> healthy ''schedstat'' (schedstat_Update r)"
| "(\<forall>r. \<not> panics (st r)) \<Longrightarrow> healthy ''pressure'' (pressure_Update st)"
| "\<not> panics r \<Longrightarrow> healthy ''slabinfo'' (slabinfo_Update r f)"
| "\<not> panics r \<Longrightarrow> healthy ''cgroups'' (cgroups_Update r)"
| "\<not> panics (ln_NewFS env) \<and> \<not> panics (NetStat env) \<Longrightarrow> healthy ''lnstat'' (lnstat_Update env)"
| "healthy ''selinux'' (selinux_Update env)"
| "\<not> panics r \<and> r \<noteq> Ok None \<Longrightarrow> healthy ''kernel_hung'' (kernel_hung_Update r)"
| "\<not> panics (vu_NewFS env) \<and> \<not> panics (CPUVulnerabilities env) \<Longrightarrow> healthy ''cpu_vulnerabilities'' (vuln_Update env)"
| "\<not> panics r \<Longrightarrow> healthy ''uname'' (uname_Update r)"
| "zone_cache c \<and> \<not> panics r \<and> (\<forall>zs. r = Ok zs \<longrightarrow> list_all (\<lambda>z. zone_known z \<and> None \<notin> set (zi_Protection z)) zs) \<Longrightarrow> healthy ''zoneinfo'' (snd (zoneinfo_Update r c))"
| "edac_pre env \<Longrightarrow> healthy ''edac'' (edac_Update p env)"
| "\<not> panics r \<Longrightarrow> healthy ''watchdog'' (watchdog_Update r)"
| "\<not> panics r \<Longrightarrow> healthy ''tapestats'' (tape_Update r re)"
| "length (dmi_values c) = length (desc_labels (dmi_infoDesc c)) \<Longrightarrow> healthy ''dmi'' (dmi_Update c)"
| "\<not> panics r \<Longrightarrow> healthy ''drm'' (drm_Update r)"
| "\<not> panics r \<Longrightarrow> healthy ''dmmultipath'' (dmm_Update r)"
| "\<not> panics r \<Longrightarrow> healthy ''nvme'' (nvme_Update r)"
| "\<not> panics r \<Longrightarrow> healthy ''nvmesubsystem'' (nvmesub_Update ord r)"
| "\<not> panics r \<and> (\<forall>hs. r = Ok hs \<longrightarrow> list_all (\<lambda>(k, h). fc_Name h \<noteq> None \<and> length (fc_texts h) = 10) hs) \<Longrightarrow> healthy ''fibrechannel'' (fibrechannel_Update fc_metricDescs r)"
| "ib_descs c = ib_metricDescs \<and> \<not> panics r \<Longrightarrow> healthy ''infiniband'' (infiniband_Update c r)"
| "netclass_pre (env, rt, fl, pat, c) \<Longrightarrow> healthy ''netclass'' (snd (netclass_Update ord env rt fl pat c))"
| "range_order (ord_groups ord) \<and> perf_pre (env, c) \<Longrightarrow> healthy ''perf'' (perf_Update ord env c)"
| "range_order ord \<and> \<not> panics (get_IPVSStats env) \<and> \<not> panics (get_IPVSBackendStatus env) \<Longrightarrow> healthy ''ipvs'' (ipvs_Update ord env labels)"
| "wifi_pre env \<Longrightarrow> healthy ''wifi'' (wifi_Update env fixtures)"
| "\<not> panics r \<Longrightarrow> healthy ''xfrm'' (xfrm_Update r)"
| "pci_pre (r, c) \<Longrightarrow> healthy ''pcidevice'' (pcidevice_Update r c)"
| "btrfs_pre env \<and> btrfs_Update env = Some u \<Longrightarrow> healthy ''btrfs'' (u)"
| "\<not> panics (bc_Stats env) \<and> \<not> panics (bc_StatsWithoutPriority env) \<and> (\<forall>ss. bc_Stats env = Ok ss \<or> bc_StatsWithoutPriority env = Ok ss \<longrightarrow> list_all bcache_stats_ok ss) \<Longrightarrow> healthy ''bcache'' (bcache_Update env b)"
| "\<not> panics r \<Longrightarrow> healthy ''bcachefs'' (bcachefs_Update r)"
| "\<not> panics r \<Longrightarrow> healthy ''xfs'' (xfs_Update r)"
| "\<not> panics (proc_MountStats env) \<and> \<not> panics (proc_MountInfo env) \<Longrightarrow> healthy ''mountstats'' (mountstats_Update env)"
| "\<not> panics r \<Longrightarrow> healthy ''nfs'' (nfs_Update r)"
| "\<not> panics r \<Longrightarrow> healthy ''nfsd'' (nfsd_Update r)"

lemmas contracts1 =
  time.safe_collector_contract_axioms sockstat.safe_collector_contract_axioms softirqs.safe_collector_contract_axioms
  mdadm.safe_collector_contract_axioms timex.safe_collector_contract_axioms route.safe_collector_contract_axioms
  softnet.safe_collector_contract_axioms logind.safe_collector_contract_axioms runit.safe_collector_contract_axioms
  cpufreq.safe_collector_contract_axioms thermal.safe_collector_contract_axioms swap.safe_collector_contract_axioms
  entropy.safe_collector_contract_axioms buddyinfo.safe_collector_contract_axioms schedstat.safe_collector_contract_axioms
  pressure.safe_collector_contract_axioms cgroups.safe_collector_contract_axioms lnstat.safe_collector_contract_axioms
  selinux.safe_collector_contract_axioms kernel_hung.safe_collector_contract_axioms vuln.safe_collector_contract_axioms
  uname.safe_collector_contract_axioms watchdog.safe_collector_contract_axioms dmi.safe_collector_contract_axioms
  drm.safe_collector_contract_axioms dmmultipath.safe_collector_contract_axioms nvme.safe_collector_contract_axioms
  nvmesubsystem.safe_collector_contract_axioms fibrechannel.safe_collector_contract_axioms xfrm.safe_collector_contract_axioms
  bcachefs.safe_collector_contract_axioms xfs.safe_collector_contract_axioms mountstats.safe_collector_contract_axioms
  nfs.safe_collector_contract_axioms nfsd.safe_collector_contract_axioms

lemmas contracts2 =
  disk.safe_collector_contract_axioms meminfo.safe_collector_contract_axioms loadavg.safe_collector_contract_axioms
  filefd.safe_collector_contract_axioms stat.safe_collector_contract_axioms sysctl.safe_collector_contract_axioms
  drbd.safe_collector_contract_axioms bonding.safe_collector_contract_axioms udp.safe_collector_contract_axioms
  power.safe_collector_contract_axioms rapl.safe_collector_contract_axioms ksmd.safe_collector_contract_axioms
  slabinfo.safe_collector_contract_axioms zoneinfo.safe_collector_contract_axioms edac.safe_collector_contract_axioms
  tapestats.safe_collector_contract_axioms infiniband.safe_collector_contract_axioms wifi.safe_collector_contract_axioms
  pcidevice.safe_collector_contract_axioms btrfs.safe_collector_contract_axioms bcache.safe_collector_contract_axioms

lemmas contracts3 =
  cpu.safe_collector_contract_axioms netdev.safe_collector_contract_axioms fs.safe_collector_contract_axioms
  textfile_safe.safe_collector_contract_axioms interrupts.safe_collector_contract_axioms os_release.safe_collector_contract_axioms
  processes.safe_collector_contract_axioms ethtool.safe_collector_contract_axioms tcpstat.safe_collector_contract_axioms
  arp.safe_collector_contract_axioms conntrack.safe_collector_contract_axioms qdisc.safe_collector_contract_axioms
  perf.safe_collector_contract_axioms ipvs.safe_collector_contract_axioms

lemmas contracts4 =
  hwmon.safe_collector_contract_axioms systemd.safe_collector_contract_axioms

lemmas contracts5 =
  ntp.safe_collector_contract_axioms netclass.safe_collector_contract_axioms

lemma contract_sound: "safe_collector_contract U pre \<Longrightarrow> pre e \<Longrightarrow> sound (U e)"
  using safe_collector_contract.axioms(1) [of U pre] by (simp add: sound_def collector_contract.update_labels safe_collector_contract.update_no_panic)

text \<open>The same for contracts of two to five arguments.\<close>

lemma contract_sound2: "safe_collector_contract (\<lambda>(a, b). U a b) pre \<Longrightarrow> pre (a, b) \<Longrightarrow> sound (U a b)"
  by (drule contract_sound) auto

lemma contract_sound3: "safe_collector_contract (\<lambda>(a, b, c). U a b c) pre \<Longrightarrow> pre (a, b, c) \<Longrightarrow> sound (U a b c)"
  by (drule contract_sound) auto

lemma contract_sound4: "safe_collector_contract (\<lambda>(a, b, c, d). U a b c d) pre \<Longrightarrow> pre (a, b, c, d) \<Longrightarrow> sound (U a b c d)"
  by (drule contract_sound) auto

lemma contract_sound5: "safe_collector_contract (\<lambda>(a, b, c, d, e). U a b c d e) pre \<Longrightarrow> pre (a, b, c, d, e) \<Longrightarrow> sound (U a b c d e)"
  by (drule contract_sound) auto

lemmas contracts_sound =
  contracts1 [THEN contract_sound] contracts2 [THEN contract_sound2] contracts3 [THEN contract_sound3]
  contracts4 [THEN contract_sound4] contracts5 [THEN contract_sound5]

lemma healthy_sound: "healthy name u \<Longrightarrow> sound u"
  by (induction rule: healthy.induct) (rule contracts_sound; simp)+

text \<open>A collector whose update never comes back keeps the whole scrape from returning, whatever the others do.\<close>

lemma btrfs_hang_blocks_scrape:
  assumes "btrfs_Update env = None" "(''btrfs'', btrfs_run env, d) \<in> set us" "go_step\<^sup>*\<^sup>* (Collect vd us) s"
  shows "wg s \<noteq> 0"
proof
  assume wg: "wg s = 0"
  obtain i where i: "i < length us" "us ! i = (''btrfs'', btrfs_run env, d)" using assms(2) by (auto simp: in_set_conv_nth)
  have "ends_well (snd (execute vd ''btrfs'' (btrfs_run env) d))" using pool_done [OF Collect_inv [OF assms(3)] wg, of i] i by simp
  then show False using execute_None_iff [of vd "''btrfs''" "btrfs_run env" d] assms(1) by (simp add: btrfs_run_def)
qed

text \<open>What a scrape of sound updates does.\<close>

definition all_sound :: "(string \<times> upd \<times> float64) list \<Rightarrow> bool" where
  "all_sound us \<longleftrightarrow> list_all (\<lambda>(name, u, d). sound u) us"

definition returning :: "(string \<times> upd \<times> float64) list \<Rightarrow> (string \<times> run \<times> float64) list" where
  "returning us = map (\<lambda>(name, u, d). (name, returns u, d)) us"

text \<open>The library refuses no text of what the collectors send: neither a descriptor nor a label value.\<close>

definition texts_ok :: "(desc \<Rightarrow> bool) \<Rightarrow> (string \<times> upd \<times> float64) list \<Rightarrow> bool" where
  "texts_ok validDesc us \<longleftrightarrow>
     (\<forall>(name, u, d) \<in> set us. \<forall>m \<in> set (fst u @ scrape_metrics name d (snd u)).
        validDesc (metric_desc m) \<and> list_all valid_utf8 (metric_labels m))"

lemma texts_ok_iff:
  "texts_ok vd us \<longleftrightarrow> list_all (\<lambda>(name, u, d). list_all (text_ok vd) (fst u) \<and> list_all (text_ok vd) (scrape_metrics name d (snd u))) us"
  by (simp add: texts_ok_def text_ok_def list_all_iff case_prod_beta ball_Un)

lemma text_ok_scrape: "list_all (text_ok distinct_labels) (scrape_metrics name d e) \<longleftrightarrow> valid_utf8 name"
  by (simp add: scrape_metrics_def text_ok_def distinct_labels_def scrapeDurationDesc_def scrapeSuccessDesc_def)

text \<open>The scrape has returned, and each collector has sent all its metrics, its duration and its success.\<close>

definition complete :: "(string \<times> upd \<times> float64) list \<Rightarrow> collecting \<Rightarrow> bool" where
  "complete us s \<longleftrightarrow> wg s = 0 \<and> (\<forall>i < length us. case us ! i of (name, u, d) \<Rightarrow>
     sends i s = fst u @ [MustNewConstMetric scrapeDurationDesc GaugeValue d [name],
       MustNewConstMetric scrapeSuccessDesc GaugeValue (if snd u = Ok () then Fin 1 else Fin 0) [name]])"

lemma sound_constructible:
  "sound u \<Longrightarrow> list_all (constructible vd) (fst u @ scrape_metrics name d e) \<longleftrightarrow> list_all (text_ok vd) (fst u @ scrape_metrics name d e)"
  using scrape_metrics_labels [of name d e] by (auto simp: sound_def upd_ok_def list_all_iff constructible_def)

lemma faulty_returns:
  "sound u \<Longrightarrow> faulty vd (name, returns u, d) \<longleftrightarrow> \<not> list_all (text_ok vd) (fst u @ scrape_metrics name d (snd u))"
  using sound_constructible [of u vd name d "snd u"] by (cases "snd u") (auto simp: faulty_def sound_def)

lemma faulty_texts:
  assumes "all_sound us"
  shows "(\<exists>x \<in> set (returning us). faulty vd x) \<longleftrightarrow> \<not> texts_ok vd us"
proof -
  have "faulty vd (name, returns u, d) \<longleftrightarrow> \<not> list_all (text_ok vd) (fst u @ scrape_metrics name d (snd u))" if "(name, u, d) \<in> set us" for name u d
  proof (rule faulty_returns)
    show "sound u" using that assms by (auto simp: all_sound_def list_all_iff)
  qed
  then have "(\<exists>x \<in> set us. faulty vd (case x of (name, u, d) \<Rightarrow> (name, returns u, d))) \<longleftrightarrow>
      (\<exists>(name, u, d) \<in> set us. \<not> list_all (text_ok vd) (fst u @ scrape_metrics name d (snd u)))"
    by (intro bex_cong) auto
  then show ?thesis by (simp add: returning_def texts_ok_def text_ok_def list_all_iff case_prod_beta)
qed

text \<open>
  Whatever was sent could be constructed; a crash is due to a text; and where nothing can move any more, the scrape has
  crashed exactly when there is such a text, and is complete otherwise.
\<close>

lemma Collect_sound:
  assumes "all_sound us" "go_step\<^sup>*\<^sup>* (Collect vd (returning us)) s"
  shows "\<forall>(i, m) \<in> set (chan s). constructible vd m"
    and "crashed s \<Longrightarrow> \<not> texts_ok vd us"
    and "\<nexists>t. go_step s t \<Longrightarrow> (crashed s \<longleftrightarrow> \<not> texts_ok vd us) \<and> (\<not> crashed s \<longrightarrow> complete us s)"
proof -
  let ?x = "\<lambda>(name, r, d). execute vd name r d"
  note I = Collect_inv [OF assms(2)]
  show "\<forall>(i, m) \<in> set (chan s). constructible vd m"
  proof clarify
    fix i m assume "(i, m) \<in> set (chan s)"
    note i = pool_sent [OF I this]
    obtain name r d where f: "returning us ! i = (name, r, d)" by (cases "returning us ! i")
    then have "m \<in> set (fst (execute vd name r d))" using i by simp
    then show "constructible vd m" using execute_constructible [of vd name r d] by (simp add: list_all_iff)
  qed
  show "crashed s \<Longrightarrow> \<not> texts_ok vd us"
  proof -
    assume "crashed s"
    then obtain x where x: "x \<in> set (returning us)" "\<exists>p. snd (?x x) = Some (Panic p)"
      using pool_crash [OF assms(2) [unfolded Collect_def]] by auto
    obtain n r d where f: "x = (n, r, d)" by (cases x)
    have "faulty vd x" using x(2) unfolding f faulty_iff by simp
    with x(1) show ?thesis using faulty_texts [OF assms(1)] by blast
  qed
  assume stuck: "\<nexists>t. go_step s t"
  note st = Collect_stuck [OF assms(2) stuck]
  have "complete us s" if n: "\<not> crashed s"
  proof -
    have "filter (\<lambda>(name, r, d). snd r = None) (returning us) = []" by (auto simp: returning_def filter_empty_conv)
    then have wg: "wg s = 0" using st(2) [OF n] by simp
    have "sends i s = fst u @ scrape_metrics name d (snd u)" if i: "i < length us" "us ! i = (name, u, d)" for i name u d
    proof -
      have "(name, returns u, d) \<in> set (returning us)" using i nth_mem [OF i(1)] by (force simp: returning_def)
      then have nf: "\<not> faulty vd (name, returns u, d)" using st(1) n by blast
      have "sound u" using assms(1) nth_mem [OF i(1)] i(2) by (auto simp: all_sound_def list_all_iff)
      with nf have ok: "list_all (constructible vd) (fst u @ scrape_metrics name d (snd u))" "\<not> panics (snd u)"
        by (simp_all only: faulty_returns sound_constructible not_not) (simp add: sound_def)
      then have "execute vd name (returns u) d = (fst u @ scrape_metrics name d (snd u), Some (Ok ()))"
        by (simp add: returns_def execute_returns construct_id)
      then show ?thesis using pool_done [OF I wg, of i] i by (simp add: returning_def)
    qed
    then show ?thesis using wg by (auto simp: complete_def scrape_metrics_def split: prod.split)
  qed
  then show "(crashed s \<longleftrightarrow> \<not> texts_ok vd us) \<and> (\<not> crashed s \<longrightarrow> complete us s)"
    using st(1) faulty_texts [OF assms(1)] by blast
qed

section \<open>What is kept between scrapes\<close>

text \<open>
  The instances that keep something: the descriptors of network counters, of driver statistics, of memory zones and of
  network interfaces, and the release information. The flags are those of the whole run.
\<close>

record exporterState =
  xs_netdev :: netDevCollector
  xs_ethtool :: ethtoolCollector
  xs_zoneinfo :: zoneinfoCollector
  xs_netclass :: "(string, desc) gomap"
  xs_os :: osReleaseCollector

record exporterFlags =
  xf_netdev :: netdevFlags
  xf_filter :: deviceFilter
  xf_netclass :: netclassFlags
  xf_pattern :: regexp

text \<open>What the readers give to one scrape; \<open>xe_rest\<close> is what the collectors that keep nothing do in it.\<close>

record exporterEnv =
  xe_netdev :: netdevEnv
  xe_ethtool :: "ethtoolOrder \<times> ethtoolEnv"
  xe_zoneinfo :: "zoneinfo list res"
  xe_netclass :: "netclassEnv \<times> rtnlEnv"
  xe_order :: "(string \<times> netClassIface) list \<Rightarrow> (string \<times> netClassIface) list"
  xe_os :: "osEnv \<times> paths"
  xe_rest :: "(string \<times> upd \<times> float64) list"
  xe_took :: "string \<Rightarrow> float64"

definition scrape :: "exporterFlags \<Rightarrow> exporterEnv \<Rightarrow> exporterState \<Rightarrow> exporterState \<times> (string \<times> upd \<times> float64) list" where
  "scrape fl env s =
     (let (s1, u1) = netdev_Update (xe_netdev env) (xf_netdev fl) (xs_netdev s);
          (s2, u2) = eth_Update (fst (xe_ethtool env)) (snd (xe_ethtool env)) (xs_ethtool s);
          (s3, u3) = zoneinfo_Update (xe_zoneinfo env) (xs_zoneinfo s);
          (s4, u4) = netclass_Update (xe_order env) (fst (xe_netclass env)) (snd (xe_netclass env)) (xf_netclass fl) (xf_pattern fl) (xs_netclass s);
          (s5, u5) = os_Update (fst (xe_os env)) (snd (xe_os env)) (xs_os s)
      in (\<lparr>xs_netdev = s1, xs_ethtool = s2, xs_zoneinfo = s3, xs_netclass = s4, xs_os = s5\<rparr>,
          [(''netdev'', u1, xe_took env ''netdev''), (''ethtool'', u2, xe_took env ''ethtool''),
           (''zoneinfo'', u3, xe_took env ''zoneinfo''), (''netclass'', u4, xe_took env ''netclass''),
           (''os'', u5, xe_took env ''os'')] @ xe_rest env))"

primrec scrape_all :: "exporterFlags \<Rightarrow> exporterEnv list \<Rightarrow> exporterState \<Rightarrow> exporterState \<times> (string \<times> upd \<times> float64) list list" where
  "scrape_all fl [] s = (s, [])"
| "scrape_all fl (e # es) s = (let (s1, us) = scrape fl e s; (s2, uss) = scrape_all fl es s1 in (s2, us # uss))"

definition state_inv :: "exporterFlags \<Rightarrow> exporterState \<Rightarrow> bool" where
  "state_inv fl s \<longleftrightarrow> descs_have (label_count (xf_netdev fl)) (xs_netdev s) \<and> nd_filter (xs_netdev s) = xf_filter fl \<and>
     entries_ok (eth_entries (xs_ethtool s)) \<and> zone_cache (xs_zoneinfo s) \<and> netclass_cache (xs_netclass s) \<and>
     osReleaseFilenames (xs_os s) \<noteq> []"

text \<open>What one scrape needs of its readers, whatever the collectors kept so far.\<close>

definition env_good :: "exporterFlags \<Rightarrow> exporterEnv \<Rightarrow> bool" where
  "env_good fl env \<longleftrightarrow>
     (\<forall>c. descs_have (label_count (xf_netdev fl)) c \<longrightarrow> nd_filter c = xf_filter fl \<longrightarrow> netdev_pre (xe_netdev env, xf_netdev fl, c)) \<and>
     (case xe_ethtool env of (ord, ee) \<Rightarrow> \<forall>c. entries_ok (eth_entries c) \<longrightarrow> eth_pre (ord, ee, c)) \<and>
     (\<not> panics (xe_zoneinfo env) \<and>
        (\<forall>zs. xe_zoneinfo env = Ok zs \<longrightarrow> list_all (\<lambda>z. zone_known z \<and> None \<notin> set (zi_Protection z)) zs)) \<and>
     (case xe_netclass env of (ne, rt) \<Rightarrow> netclass_pre (ne, rt, xf_netclass fl, xf_pattern fl, [])) \<and>
     (case xe_os env of (oe, p) \<Rightarrow> os_pre (oe, p, NewOSCollector)) \<and>
     list_all (\<lambda>(n, u, d). healthy n u) (xe_rest env)"

text \<open>One scrape keeps the invariant and does nothing unsound.\<close>

lemma scrape_sound:
  assumes "state_inv fl s" "env_good fl e"
  shows "state_inv fl (fst (scrape fl e s)) \<and> all_sound (snd (scrape fl e s))"
proof -
  obtain ord ee where 2: "xe_ethtool e = (ord, ee)" by fastforce
  obtain ne rt where 4: "xe_netclass e = (ne, rt)" by fastforce
  obtain oe p where 5: "xe_os e = (oe, p)" by fastforce
  have rest: "all_sound (xe_rest e)"
    using assms(2) healthy_sound by (auto simp: env_good_def all_sound_def list_all_iff)
  note nd = netdev_state.step_inv [where s = "xs_netdev s" and e = "xe_netdev e" and fl = "xf_netdev fl" and f = "xf_filter fl"]
    netdev_state.step_sound [where s = "xs_netdev s" and e = "xe_netdev e" and fl = "xf_netdev fl" and f = "xf_filter fl"]
  note et = ethtool_state.step_inv [where s = "xs_ethtool s" and e = "(ord, ee)"] ethtool_state.step_sound [where s = "xs_ethtool s" and e = "(ord, ee)"]
  note zn = zoneinfo_state.step_inv [where s = "xs_zoneinfo s" and e = "xe_zoneinfo e"] zoneinfo_state.step_sound [where s = "xs_zoneinfo s" and e = "xe_zoneinfo e"]
  note nc = netclass_state.step_inv [where s = "xs_netclass s" and e = "(ne, rt)" and fl = "xf_netclass fl" and pat = "xf_pattern fl" and ord = "xe_order e"]
    netclass_state.step_sound [where s = "xs_netclass s" and e = "(ne, rt)" and fl = "xf_netclass fl" and pat = "xf_pattern fl" and ord = "xe_order e"]
  note os = os_state.step_inv [where s = "xs_os s" and e = "(oe, p)"] os_state.step_sound [where s = "xs_os s" and e = "(oe, p)"]
  show ?thesis
    using assms nd et zn nc os rest
    by (simp add: scrape_def state_inv_def env_good_def all_sound_def 2 4 5 case_prod_beta Let_def)
qed

lemma scrape_all_sound:
  "state_inv fl s \<Longrightarrow> list_all (env_good fl) es \<Longrightarrow>
     state_inv fl (fst (scrape_all fl es s)) \<and> list_all all_sound (snd (scrape_all fl es s))"
proof (induction es arbitrary: s)
  case (Cons e es)
  then show ?case using scrape_sound [of fl s e] Cons.IH [of "fst (scrape fl e s)"] by (simp add: case_prod_beta Let_def)
qed simp


section \<open>Properties\<close>





text \<open>
  C6: The collectors that keep descriptors or parsed files between scrapes stay healthy: from the moment they are created,
  through any sequence of scrapes in which their readers do not panic, every device that the alias label is asked for is known to
  sysfs, no driver statistic has the name of one of the exporter's own entries, the memory zones are of known names with
  complete protection values, the links of netlink have attributes and an operational state it documents, the plist of the
  release has a value for each key, and the other collectors are healthy. Every metric that is sent fits its descriptor, also
  the cached ones; a scrape takes the process down only for a text that the library refuses; and when nothing can move any more
  it has done so if there is such a text, and is complete otherwise.
\<close>

theorem scrapes_stay_healthy:
  assumes "NewNetDevCollector nfl = (xf_netdev fl, Ok nd)" "xf_filter fl = nd_filter nd"
    and "makeEthtoolCollector ee efl = Ok ec" "NewZoneinfoCollector procfs = Ok zc"
    and "NewNetClassCollector sysfs (xf_netclass fl) = Ok (xf_pattern fl, nc)"
    and "list_all (env_good fl) es" "i < length es"
    and "us = snd (scrape_all fl es \<lparr>xs_netdev = nd, xs_ethtool = ec, xs_zoneinfo = zc, xs_netclass = nc, xs_os = NewOSCollector\<rparr>) ! i"
    and "go_step\<^sup>*\<^sup>* (Collect vd (returning us)) s"
  shows "(\<forall>(j, m) \<in> set (chan s). constructible vd m) \<and> (crashed s \<longrightarrow> \<not> texts_ok vd us) \<and>
    ((\<nexists>t. go_step s t) \<longrightarrow> (crashed s \<longleftrightarrow> \<not> texts_ok vd us) \<and> (\<not> crashed s \<longrightarrow> complete us s))"
proof -
  let ?s = "\<lparr>xs_netdev = nd, xs_ethtool = ec, xs_zoneinfo = zc, xs_netclass = nc, xs_os = NewOSCollector\<rparr>"
  have "metricDescs nd = []" using assms(1) by (auto simp: NewNetDevCollector_def Let_def go_simps split: res.splits if_splits)
  moreover have "eth_entries ec = ethtool_entries" using assms(3) by (auto simp: makeEthtoolCollector_def go_simps)
  moreover have "nc = []" using assms(5) by (auto simp: NewNetClassCollector_def go_simps)
  ultimately have "state_inv fl ?s"
    using assms(2) zone_cache_new [OF assms(4)]
    by (simp add: state_inv_def descs_have_def entries_ok_initial netclass_cache_empty NewOSCollector_def)
  from scrape_all_sound [OF this assms(6)]
  have sound: "list_all all_sound (snd (scrape_all fl es ?s))" by simp
  have "length (snd (scrape_all fl es s)) = length es" for s
    by (induction es arbitrary: s) (simp_all add: case_prod_beta Let_def)
  then have "all_sound us" using sound assms(7,8) by (simp add: list_all_length)
  from Collect_sound [OF this assms(9)] show ?thesis by blast
qed

definition quiet_flags :: exporterFlags where
  "quiet_flags = \<lparr>xf_netdev = \<lparr>netdevDeviceInclude = [], oldNetdevDeviceInclude = [], netdevDeviceExclude = [], oldNetdevDeviceExclude = [],
      netdevAddressInfo = False, netdevDetailedMetrics = False, netDevNetlink = False, netdevLabelIfAlias = False\<rparr>,
    xf_filter = \<lparr>ignorePattern = None, acceptPattern = None\<rparr>,
    xf_netclass = \<lparr>netclassIgnoredDevices = [], netclassInvalidSpeed = False, netclassNetlink = False, netclassRTNLWithStats = False\<rparr>,
    xf_pattern = REmpty\<rparr>"

text \<open>A host with one network device and none of the other files.\<close>

definition absent_ethtool :: ethtoolEnv where
  "absent_ethtool = \<lparr>eth_sysfs_NewFS = Ok (), eth_NewEthtool = Ok (), NetClassDevices = Err ErrNotExist, LinkInfo = (\<lambda>_. Err ErrNotExist),
     DriverInfo = (\<lambda>_. Err ErrNotExist), eth_Stats = (\<lambda>_. ([], Some ErrNotExist)), mode_bit = (\<lambda>_. 0)\<rparr>"

definition live_device :: NetDevLine where
  "live_device = \<lparr>nd_Name = ''eth0'', RxBytes = 3, RxPackets = 1, RxErrors = 0, RxDropped = 0, RxFIFO = 0, RxFrame = 0, RxCompressed = 0, RxMulticast = 0,
     TxBytes = 2, TxPackets = 1, TxErrors = 0, TxDropped = 0, TxFIFO = 0, TxCollisions = 0, TxCarrier = 0, TxCompressed = 0\<rparr>"

definition live_env :: exporterEnv where
  "live_env = \<lparr>
     xe_netdev = \<lparr>rtnetlink_Links = Err ErrNotExist, nd_procfs_NewFS = Ok (), procfs_NetDev = Ok [live_device], nd_sysfs_NewFS = Ok (),
       sysfs_NetClass = Err ErrNotExist, net_Interfaces = Err ErrNotExist, nd_text = \<lparr>ParseCIDR = (\<lambda>_. Err ErrNotExist), ip_String = (\<lambda>_. [])\<rparr>, ord_devices = (\<lambda>m. m), ord_keys = (\<lambda>m. m)\<rparr>,
     xe_ethtool = (\<lparr>ord_speeds = (\<lambda>m. m), ord_ports = (\<lambda>m. m), ord_ethstats = (\<lambda>m. m), ord_keys = (\<lambda>m. m)\<rparr>, absent_ethtool),
     xe_zoneinfo = Err ErrNotExist,
     xe_netclass = (\<lparr>nc_NetClassDevices = Err ErrNotExist, NetClassByIface = (\<lambda>_. Err ErrNotExist)\<rparr>,
       \<lparr>rn_Dial = Err ErrNotExist, rn_LinkList = Err ErrNotExist, ethtool_New = Err ErrNotExist, ethtool_LinkModes = Err ErrNotExist,
        ParseNetClassAttribute = (\<lambda>_ _ _. Err ErrNotExist)\<rparr>),
     xe_order = (\<lambda>m. m),
     xe_os = (\<lparr>os_readFile = (\<lambda>_. Err ErrNotExist), envparse_Parse = (\<lambda>_. ([], None)), xml_Unmarshal = (\<lambda>_. Err ErrNotExist)\<rparr>,
       \<lparr>procPath = ''/proc'', sysPath = ''/sys'', rootfsPath = ''/'', udevDataPath = ''/run/udev/data''\<rparr>),
     xe_rest = [], xe_took = (\<lambda>_. Fin 1)\<rparr>"

lemma env_good_live: "env_good quiet_flags live_env"
  by (simp add: env_good_def live_env_def quiet_flags_def absent_ethtool_def netdev_pre_def eth_pre_def netclass_pre_def os_pre_def
      NewOSCollector_def range_order_id netclass_cache_empty getNetDevStats_def procNetDevStats_def)

lemma live_netdev:
  assumes "descs_have 1 c" "nd_filter c = \<lparr>ignorePattern = None, acceptPattern = None\<rparr>"
  defines "r \<equiv> netdev_Update (xe_netdev live_env) (xf_netdev quiet_flags) c"
  shows "descs_have 1 (fst r)" "nd_filter (fst r) = \<lparr>ignorePattern = None, acceptPattern = None\<rparr>"
    and "list_all (text_ok distinct_labels) (fst (snd r))" "length (fst (snd r)) = 16"
proof -
  have n: "label_count (xf_netdev quiet_flags) = 1" by (simp add: label_count_def quiet_flags_def)
  have "nd_filter c = xf_filter quiet_flags" using assms(2) by (simp add: quiet_flags_def)
  then have "netdev_pre (xe_netdev live_env, xf_netdev quiet_flags, c)" using env_good_live assms(1) n by (simp add: env_good_def)
  note ok = netdev_Update_ok [OF this, folded r_def, unfolded n]
  then show "descs_have 1 (fst r)" by simp
  have s: "getNetDevStats (xe_netdev live_env) (xf_netdev quiet_flags) (nd_filter c) = Ok [(''eth0'', proc_metrics live_device)]"
    by (simp add: getNetDevStats_def procNetDevStats_def live_env_def quiet_flags_def ignored_def live_device_def assms(2))
  have l: "getNetDevLabels (xe_netdev live_env) (xf_netdev quiet_flags) = Ok []" by (simp add: getNetDevLabels_def quiet_flags_def)
  obtain c' where c': "r = (c', emit (dev_metrics (xe_netdev live_env) (xf_netdev quiet_flags) [] c' (''eth0'', proc_metrics live_device)))" "cache_le c c'"
    using netdev_Update_sends [OF s l] by (auto simp: r_def quiet_flags_def live_env_def)
  then show "nd_filter (fst r) = \<lparr>ignorePattern = None, acceptPattern = None\<rparr>" using assms(2) by (simp add: cache_le_def)
  have ms: "fst (snd r) = map (key_metric c' [''eth0'']) (legacy (proc_metrics live_device))"
    using c'(1) by (simp add: dev_metrics_def dev_stats_def map_get_z_def quiet_flags_def live_env_def)
  then show "length (fst (snd r)) = 16" by (simp add: proc_legacy)
  have v: "valid_utf8 ''eth0''" by code_simp
  have one: "length xs = 1 \<Longrightarrow> distinct xs" for xs :: "string list" by (cases xs) simp_all
  have "text_ok distinct_labels m" if m: "m \<in> set (fst (snd r))" "labels_ok m" for m
  proof -
    obtain k x where kx: "m = key_metric c' [''eth0''] (k, x)" using m(1) unfolding ms by auto
    then have "length (desc_labels (metric_desc m)) = 1" using m(2) by (simp add: labels_ok_def key_metric_def)
    then show ?thesis using kx one by (simp add: text_ok_def distinct_labels_def key_metric_def v del: valid_utf8.simps)
  qed
  then show "list_all (text_ok distinct_labels) (fst (snd r))" using ok by (auto simp: upd_ok_def list_all_iff)
qed

text \<open>The readers that find nothing fail before anything is sent.\<close>

lemma try_files_absent:
  "fs \<noteq> [] \<Longrightarrow> os_readFile env = (\<lambda>_. Err ErrNotExist) \<Longrightarrow> try_files env pre fs c = (c, Err ErrNoData)"
  by (induction fs) (auto simp: UpdateStruct_def)

lemma live_rest:
  "eth_Update ord absent_ethtool c = (c, fail ErrNoData)"
  "fst (snd (zoneinfo_Update (Err e) zc)) = []"
  "nc_NetClassDevices ne = Err e \<Longrightarrow> netclassNetlink nfl = False \<Longrightarrow> fst (snd (netclass_Update ord' ne rt nfl pat nc)) = []"
  "osReleaseFilenames oc \<noteq> [] \<Longrightarrow> os_readFile oe = (\<lambda>_. Err ErrNotExist) \<Longrightarrow> os_Update oe p oc = (oc, fail ErrNoData)"
  by (simp_all add: eth_Update_def zoneinfo_Update_def absent_ethtool_def netclass_Update_def netClassSysfsUpdate_def getNetClassInfo_def
      os_Update_def try_files_absent)

definition live_start :: "ethtoolCollector \<Rightarrow> zoneinfoCollector \<Rightarrow> exporterState" where
  "live_start ec zc = \<lparr>xs_netdev = \<lparr>nd_filter = \<lparr>ignorePattern = None, acceptPattern = None\<rparr>, metricDescs = []\<rparr>, xs_ethtool = ec, xs_zoneinfo = zc,
     xs_netclass = [], xs_os = NewOSCollector\<rparr>"

text \<open>The second scrape of a host: the descriptors are the cached ones, and it runs to its end.\<close>

theorem scrapes_stay_healthy_witness:
  "\<exists>ec zc us s. makeEthtoolCollector absent_ethtool \<lparr>ethtoolDeviceInclude = [], ethtoolDeviceExclude = [], ethtoolIncludedMetrics = ''''\<rparr> = Ok ec \<and>
     NewZoneinfoCollector (Ok ()) = Ok zc \<and> us = snd (scrape_all quiet_flags [live_env, live_env] (live_start ec zc)) ! 1 \<and>
     go_step\<^sup>*\<^sup>* (Collect distinct_labels (returning us)) s \<and> \<not> crashed s \<and> complete us s \<and> wg s = 0 \<and>
     length (sends 0 s) = 18"
proof -
  have 1: "NewNetDevCollector (xf_netdev quiet_flags) =
      (xf_netdev quiet_flags, Ok \<lparr>nd_filter = \<lparr>ignorePattern = None, acceptPattern = None\<rparr>, metricDescs = []\<rparr>)"
    by (simp add: NewNetDevCollector_def quiet_flags_def merge_flag_def newDeviceFilter_def pattern_opt_def)
  obtain ec where 2: "makeEthtoolCollector absent_ethtool \<lparr>ethtoolDeviceInclude = [], ethtoolDeviceExclude = [], ethtoolIncludedMetrics = ''''\<rparr> = Ok ec"
  proof
    show "makeEthtoolCollector absent_ethtool \<lparr>ethtoolDeviceInclude = [], ethtoolDeviceExclude = [], ethtoolIncludedMetrics = ''''\<rparr> =
      Ok \<lparr>eth_entries = ethtool_entries, eth_deviceFilter = \<lparr>ignorePattern = None, acceptPattern = None\<rparr>, metricsPattern = REmpty\<rparr>"
      by (simp add: makeEthtoolCollector_def absent_ethtool_def newDeviceFilter_def pattern_opt_def) (code_simp)
  qed
  obtain zc where 3: "NewZoneinfoCollector (Ok ()) = Ok zc" by (simp add: NewZoneinfoCollector_def open_procfs_def)
  have 4: "NewNetClassCollector (Ok ()) (xf_netclass quiet_flags) = Ok (xf_pattern quiet_flags, [])"
    by (simp add: NewNetClassCollector_def quiet_flags_def) (code_simp)
  have good: "list_all (env_good quiet_flags) [live_env, live_env]" by (simp add: env_good_live)
  let ?us = "snd (scrape_all quiet_flags [live_env, live_env] (live_start ec zc)) ! 1"
  obtain s where s: "go_step\<^sup>*\<^sup>* (Collect distinct_labels (returning ?us)) s" "\<nexists>t. go_step s t" using pool_ends by blast
  have f: "xf_filter quiet_flags = nd_filter \<lparr>nd_filter = \<lparr>ignorePattern = None, acceptPattern = None\<rparr>, metricDescs = []\<rparr>"
    by (simp add: quiet_flags_def)
  from scrapes_stay_healthy [OF 1 f 2 3 4 good _ refl, of 1, folded live_start_def, OF _ s(1)] s(2)
  have c: "crashed s \<longleftrightarrow> \<not> texts_ok distinct_labels ?us" "\<not> crashed s \<longrightarrow> complete ?us s" by simp_all
  let ?nd = "\<lparr>nd_filter = \<lparr>ignorePattern = None, acceptPattern = None\<rparr>, metricDescs = []\<rparr>"
  have d0: "descs_have 1 ?nd" by (simp add: descs_have_def)
  note n1 = live_netdev [of ?nd, OF d0, unfolded netDevCollector.select_convs, OF refl]
  let ?c1 = "fst (netdev_Update (xe_netdev live_env) (xf_netdev quiet_flags) ?nd)"
  note n2 = live_netdev [OF n1(1,2)]
  have us: "map (\<lambda>(n, u, d). (n, fst u)) ?us =
      [(''netdev'', fst (snd (netdev_Update (xe_netdev live_env) (xf_netdev quiet_flags) ?c1))), (''ethtool'', []), (''zoneinfo'', []), (''netclass'', []), (''os'', [])]"
    by (simp add: scrape_def live_start_def case_prod_beta Let_def) (simp add: live_env_def live_rest quiet_flags_def NewOSCollector_def)
  have names: "valid_utf8 ''netdev''" "valid_utf8 ''ethtool''" "valid_utf8 ''zoneinfo''" "valid_utf8 ''netclass''" "valid_utf8 ''os''" by code_simp+
  have "texts_ok distinct_labels us \<longleftrightarrow>
      list_all (\<lambda>(n, ms). list_all (text_ok distinct_labels) ms \<and> valid_utf8 n) (map (\<lambda>(n, u, d). (n, fst u)) us)" for us
    unfolding texts_ok_iff text_ok_scrape by (simp add: list_all_iff case_prod_beta)
  from this [of ?us] have "texts_ok distinct_labels ?us"
    unfolding us using n2(3) names by (simp del: valid_utf8.simps)
  then have fin: "\<not> crashed s" "complete ?us s" using c by blast+
  obtain ms r d rest where u: "?us = (''netdev'', (ms, r), d) # rest" "length ms = 16"
    using us n2(4) by (cases ?us) auto
  have "length (sends 0 s) = 18" using fin(2) unfolding u(1) complete_def by (auto simp: u(2) dest!: spec [of _ 0])
  with 2 3 s(1) fin show ?thesis by (intro exI [of _ ec] exI [of _ zc] exI [of _ ?us] exI [of _ s]) (simp add: complete_def)
qed


end
