(* ===== verification/Bsd.thy ===== *)
theory Bsd
  imports ProcFiles Memory Kernel
begin

text \<open>
  The collectors of the BSD systems that read system controls: \<^verbatim>\<open>sysctl_bsd.go\<close> with the collectors made of tables of
  controls (\<^verbatim>\<open>memory_bsd.go\<close>, \<^verbatim>\<open>exec_bsd.go\<close>, \<^verbatim>\<open>netisr_freebsd.go\<close>, \<^verbatim>\<open>zfs_freebsd.go\<close>), \<^verbatim>\<open>kvm_bsd.go\<close>,
  \<^verbatim>\<open>boot_time_bsd.go\<close>, \<^verbatim>\<open>loadavg_bsd.go\<close>, \<^verbatim>\<open>meminfo_netbsd.go\<close>, \<^verbatim>\<open>uname_bsd.go\<close> and \<^verbatim>\<open>netstat_freebsd.go\<close>. The
  system calls are the environment. Structures that the source casts out of the bytes of a control are read here for a
  little-endian machine with words of 64 bits; a structure longer than the bytes is read on in the memory after them, which is
  part of the environment.
\<close>

section \<open>Raw memory\<close>

definition of_le :: "uint8 list \<Rightarrow> nat" where
  "of_le bs = foldr (\<lambda>b n. unat b + 256 * n) bs 0"

text \<open>The same bytes as a number in two's complement.\<close>

definition of_le_signed :: "uint8 list \<Rightarrow> int" where
  "of_le_signed bs = (let n = int (of_le bs); m = 2 ^ (8 * length bs) in if 2 * n < m then n else n - m)"

text \<open>\<^verbatim>\<open>*(*T)(unsafe.Pointer(&b[off]))\<close> for a type of \<open>n\<close> bytes: the index is checked, the length is not.\<close>

definition unsafe_read :: "(nat \<Rightarrow> uint8) \<Rightarrow> uint8 list \<Rightarrow> nat \<Rightarrow> nat \<Rightarrow> uint8 list res" where
  "unsafe_read mem b off n = bind_res (idx b off) (\<lambda>_. Ok (take n (drop off b @ map mem [0..<n])))"

text \<open>A field of a structure that was read so.\<close>

definition field :: "uint8 list \<Rightarrow> nat \<Rightarrow> nat \<Rightarrow> uint8 list" where
  "field s off n = take n (drop off s)"

section \<open>System controls\<close>

record bsdSysctlEnv =
  SysctlUint32 :: "string \<Rightarrow> uint32 res"
  SysctlUint64 :: "string \<Rightarrow> uint64 res"
  SysctlRaw :: "string \<Rightarrow> int list \<Rightarrow> uint8 list res"
  sc_memory :: "nat \<Rightarrow> uint8"
  sizeof_long :: nat
  sizeof_int :: nat
  kvm_swap_used_pages :: "uint64 option"

datatype bsdSysctlType = bsdSysctlTypeUint32 | bsdSysctlTypeUint64 | bsdSysctlTypeCLong

text \<open>The type of a metric and the conversion may be missing.\<close>

record bsdSysctl =
  bs_name :: string
  bs_description :: string
  bs_valueType :: "valueType option"
  bs_mib :: string
  bs_dataType :: bsdSysctlType
  bs_conversion :: "(float64 \<Rightarrow> float64) option"

abbreviation bsd_sysctl :: "string \<Rightarrow> string \<Rightarrow> string \<Rightarrow> bsdSysctlType \<Rightarrow> valueType option \<Rightarrow> (float64 \<Rightarrow> float64) option \<Rightarrow> bsdSysctl" where
  "bsd_sysctl name description mib dataType valueType conversion \<equiv>
     \<lparr>bs_name = name, bs_description = description, bs_valueType = valueType, bs_mib = mib, bs_dataType = dataType, bs_conversion = conversion\<rparr>"

definition getCLong :: "bsdSysctlEnv \<Rightarrow> bsdSysctl \<Rightarrow> float64 res" where
  "getCLong env b =
     bind_res (SysctlRaw env (bs_mib b) []) (\<lambda>raw.
       if length raw = sizeof_long env then
         bind_res (unsafe_read (sc_memory env) raw 0 (sizeof_long env)) (\<lambda>bs. Ok (f64_of_int (of_le_signed bs)))
       else if length raw = sizeof_int env then
         bind_res (unsafe_read (sc_memory env) raw 0 (sizeof_int env)) (\<lambda>bs. Ok (f64_of_int (of_le_signed bs)))
       else Err (Errorf ''length of bytes received from sysctl (%d) does not match expected bytes (long: %d), (int: %d)''
         [Itoa (int (length raw)), Itoa (int (sizeof_long env)), Itoa (int (sizeof_int env))]))"

definition sysctl_Value :: "bsdSysctlEnv \<Rightarrow> bsdSysctl \<Rightarrow> float64 res" where
  "sysctl_Value env b =
     bind_res
       (case bs_dataType b of
          bsdSysctlTypeUint32 \<Rightarrow> bind_res (SysctlUint32 env (bs_mib b)) (\<lambda>v. Ok (f64_of_nat (unat v)))
        | bsdSysctlTypeUint64 \<Rightarrow> bind_res (SysctlUint64 env (bs_mib b)) (\<lambda>v. Ok (f64_of_nat (unat v)))
        | bsdSysctlTypeCLong \<Rightarrow> getCLong env b)
       (\<lambda>v. Ok (case bs_conversion b of None \<Rightarrow> v | Some f \<Rightarrow> f v))"

text \<open>A metric of no type is refused by the client library with a panic.\<close>

definition typed_metric :: "desc \<Rightarrow> valueType option \<Rightarrow> float64 \<Rightarrow> upd" where
  "typed_metric d t v = (case t of None \<Rightarrow> ([], Panic ''encountered unknown type 0'') | Some t \<Rightarrow> emit [MustNewConstMetric d t v []])"

section \<open>Memory\<close>

record kvm =
  hasErr :: bool

definition SwapUsedPages :: "bsdSysctlEnv \<Rightarrow> kvm \<Rightarrow> kvm \<times> uint64 res" where
  "SwapUsedPages env k =
     (case kvm_swap_used_pages env of
        None \<Rightarrow> (k\<lparr>hasErr := True\<rparr>, Err (Errorf ''couldn't get kvm stats'' []))
      | Some v \<Rightarrow> (k, Ok v))"

record memoryCollector =
  mc_pageSize :: uint64
  mc_sysctls :: "bsdSysctl list"
  mc_kvm :: kvm

definition memory_sysctls :: "(float64 \<Rightarrow> float64) \<Rightarrow> string \<Rightarrow> bsdSysctl list" where
  "memory_sysctls fromPage mibSwapTotal =
     [
      bsd_sysctl ''active_bytes'' ''Recently used by userland''
        ''vm.stats.vm.v_active_count'' bsdSysctlTypeUint32 None (Some fromPage),
      bsd_sysctl ''inactive_bytes'' ''Not recently used by userland''
        ''vm.stats.vm.v_inactive_count'' bsdSysctlTypeUint32 None (Some fromPage),
      bsd_sysctl ''wired_bytes'' ''Locked in memory by kernel, mlock, etc''
        ''vm.stats.vm.v_wire_count'' bsdSysctlTypeUint32 None (Some fromPage),
      bsd_sysctl ''user_wired_bytes'' ''Locked in memory by user, mlock, etc''
        ''vm.stats.vm.v_user_wire_count'' bsdSysctlTypeCLong None (Some fromPage),
      bsd_sysctl ''cache_bytes'' ''Almost free, backed by swap or files, available for re-allocation''
        ''vm.stats.vm.v_cache_count'' bsdSysctlTypeUint32 None (Some fromPage),
      bsd_sysctl ''buffer_bytes'' ''Disk IO Cache entries for non ZFS filesystems, only usable by kernel''
        ''vfs.bufspace'' bsdSysctlTypeCLong None None,
      bsd_sysctl ''free_bytes'' ''Unallocated, available for allocation''
        ''vm.stats.vm.v_free_count'' bsdSysctlTypeUint32 None (Some fromPage),
      bsd_sysctl ''laundry_bytes'' ''Dirty not recently used by userland''
        ''vm.stats.vm.v_laundry_count'' bsdSysctlTypeUint32 None (Some fromPage),
      bsd_sysctl ''size_bytes'' ''Total physical memory size''
        ''vm.stats.vm.v_page_count'' bsdSysctlTypeUint32 None (Some fromPage),
      bsd_sysctl ''swap_size_bytes'' ''Total swap memory size''
        mibSwapTotal bsdSysctlTypeUint64 None None,
      bsd_sysctl ''swap_in_bytes_total'' ''Bytes paged in from swap devices''
        ''vm.stats.vm.v_swappgsin'' bsdSysctlTypeUint32 (Some CounterValue) (Some fromPage),
      bsd_sysctl ''swap_out_bytes_total'' ''Bytes paged out to swap devices''
        ''vm.stats.vm.v_swappgsout'' bsdSysctlTypeUint32 (Some CounterValue) (Some fromPage)]"

definition NewMemoryCollector :: "bsdSysctlEnv \<Rightarrow> memoryCollector res" where
  "NewMemoryCollector env =
     bind_res (map_err (Wrapf ''sysctl(vm.stats.vm.v_page_size) failed: %w'' []) (SysctlUint32 env ''vm.stats.vm.v_page_size'')) (\<lambda>tmp32.
       let mibSwapTotal = (case SysctlUint64 env ''vm.swap_total'' of Err e \<Rightarrow> ''vm.swap_size'' | _ \<Rightarrow> ''vm.swap_total'');
           fromPage = (\<lambda>v. f64_mul v (f64_of_nat (unat tmp32)))
       in Ok \<lparr>mc_pageSize = ucast tmp32, mc_sysctls = memory_sysctls fromPage mibSwapTotal, mc_kvm = \<lparr>hasErr = False\<rparr>\<rparr>)"

definition memory_desc :: "string \<Rightarrow> string \<Rightarrow> desc" where
  "memory_desc name help = NewDesc (BuildFQName namespace ''memory'' name) help []"

definition memory_sysctl :: "bsdSysctlEnv \<Rightarrow> bsdSysctl \<Rightarrow> upd" where
  "memory_sysctl env m =
     with_res (map_err (Wrapf ''couldn't get memory: %w'' []) (sysctl_Value env m)) (\<lambda>v.
       typed_metric (memory_desc (bs_name m) (bs_description m)) (Some (case bs_valueType m of None \<Rightarrow> GaugeValue | Some t \<Rightarrow> t)) v)"

definition swap_used :: "memoryCollector \<Rightarrow> uint64 \<Rightarrow> metric" where
  "swap_used c swapUsed =
     MustNewConstMetric (memory_desc ''swap_used_bytes'' ''Currently allocated swap'') GaugeValue (f64_of_nat (unat (swapUsed * mc_pageSize c))) []"

definition memory_Update :: "bsdSysctlEnv \<Rightarrow> memoryCollector \<Rightarrow> memoryCollector \<times> upd" where
  "memory_Update env c =
     (let sent = foreach (memory_sysctl env) (mc_sysctls c) in
      if snd sent = Ok () then
        let (k, r) = SwapUsedPages env (mc_kvm c)
        in (c\<lparr>mc_kvm := k\<rparr>, seq sent (with_res (map_err (Wrapf ''couldn't get kvm: %w'' []) r) (\<lambda>v. emit [swap_used c v])))
      else (c, sent))"

section \<open>Execution, network interrupts and ZFS\<close>

definition exec_sysctls :: "bsdSysctl list" where
  "exec_sysctls =
     [
      bsd_sysctl ''exec_context_switches_total'' ''Context switches since system boot.  Resets at architecture unsigned integer.''
        ''vm.stats.sys.v_swtch'' bsdSysctlTypeUint32 None None,
      bsd_sysctl ''exec_traps_total'' ''Traps since system boot.  Resets at architecture unsigned integer.''
        ''vm.stats.sys.v_trap'' bsdSysctlTypeUint32 None None,
      bsd_sysctl ''exec_system_calls_total'' ''System calls since system boot.  Resets at architecture unsigned integer.''
        ''vm.stats.sys.v_syscall'' bsdSysctlTypeUint32 None None,
      bsd_sysctl ''exec_device_interrupts_total'' ''Device interrupts since system boot.  Resets at architecture unsigned integer.''
        ''vm.stats.sys.v_intr'' bsdSysctlTypeUint32 None None,
      bsd_sysctl ''exec_software_interrupts_total'' ''Software interrupts since system boot.  Resets at architecture unsigned integer.''
        ''vm.stats.sys.v_soft'' bsdSysctlTypeUint32 None None,
      bsd_sysctl ''exec_forks_total'' ''Number of fork() calls since system boot.  Resets at architecture unsigned integer.''
        ''vm.stats.vm.v_forks'' bsdSysctlTypeUint32 None None]"

definition exec_Update :: "bsdSysctlEnv \<Rightarrow> upd" where
  "exec_Update env =
     foreach (\<lambda>m. with_res (sysctl_Value env m) (\<lambda>v.
       emit [MustNewConstMetric (NewDesc (FQName (namespace @ ''_'' @ bs_name m)) (bs_description m) []) CounterValue v []])) exec_sysctls"

definition netisr_sysctls :: "bsdSysctl list" where
  "netisr_sysctls =
     [
      bsd_sysctl ''numthreads'' ''netisr current thread count''
        ''net.isr.numthreads'' bsdSysctlTypeUint32 (Some GaugeValue) None,
      bsd_sysctl ''maxprot'' ''netisr maximum protocols''
        ''net.isr.maxprot'' bsdSysctlTypeUint32 (Some GaugeValue) None,
      bsd_sysctl ''defaultqlimit'' ''netisr default queue limit''
        ''net.isr.defaultqlimit'' bsdSysctlTypeUint32 (Some GaugeValue) None,
      bsd_sysctl ''maxqlimit'' ''netisr maximum queue limit''
        ''net.isr.maxqlimit'' bsdSysctlTypeUint32 (Some GaugeValue) None,
      bsd_sysctl ''bindthreads'' ''netisr threads bound to CPUs''
        ''net.isr.bindthreads'' bsdSysctlTypeUint32 (Some GaugeValue) None,
      bsd_sysctl ''maxthreads'' ''netisr maximum thread count''
        ''net.isr.maxthreads'' bsdSysctlTypeUint32 (Some GaugeValue) None]"

definition netisr_Update :: "bsdSysctlEnv \<Rightarrow> upd" where
  "netisr_Update env =
     foreach (\<lambda>m. with_res (map_err (Wrapf ''couldn't get sysctl: %w'' []) (sysctl_Value env m)) (\<lambda>v.
       typed_metric (NewDesc (BuildFQName namespace ''netisr'' (bs_name m)) (bs_description m) []) (bs_valueType m) v)) netisr_sysctls"

definition zfs_sysctls :: "bsdSysctl list" where
  "zfs_sysctls =
     [
      bsd_sysctl ''abdstats_linear_count_total'' ''ZFS ARC buffer data linear count''
        ''kstat.zfs.misc.abdstats.linear_cnt'' bsdSysctlTypeUint64 (Some CounterValue) None,
      bsd_sysctl ''abdstats_linear_data_bytes'' ''ZFS ARC buffer data linear data size''
        ''kstat.zfs.misc.abdstats.linear_data_size'' bsdSysctlTypeUint64 (Some GaugeValue) None,
      bsd_sysctl ''abdstats_scatter_chunk_waste_bytes'' ''ZFS ARC buffer data scatter chunk waste''
        ''kstat.zfs.misc.abdstats.scatter_chunk_waste'' bsdSysctlTypeUint64 (Some GaugeValue) None,
      bsd_sysctl ''abdstats_scatter_count_total'' ''ZFS ARC buffer data scatter count''
        ''kstat.zfs.misc.abdstats.scatter_cnt'' bsdSysctlTypeUint64 (Some CounterValue) None,
      bsd_sysctl ''abdstats_scatter_data_bytes'' ''ZFS ARC buffer data scatter data size''
        ''kstat.zfs.misc.abdstats.scatter_data_size'' bsdSysctlTypeUint64 (Some GaugeValue) None,
      bsd_sysctl ''abdstats_struct_bytes'' ''ZFS ARC buffer data struct size''
        ''kstat.zfs.misc.abdstats.struct_size'' bsdSysctlTypeUint64 (Some GaugeValue) None,
      bsd_sysctl ''arcstats_anon_bytes'' ''ZFS ARC anon size''
        ''kstat.zfs.misc.arcstats.anon_size'' bsdSysctlTypeUint64 (Some GaugeValue) None,
      bsd_sysctl ''arcstats_c_bytes'' ''ZFS ARC target size''
        ''kstat.zfs.misc.arcstats.c'' bsdSysctlTypeUint64 (Some GaugeValue) None,
      bsd_sysctl ''arcstats_c_max_bytes'' ''ZFS ARC maximum size''
        ''kstat.zfs.misc.arcstats.c_max'' bsdSysctlTypeUint64 (Some GaugeValue) None,
      bsd_sysctl ''arcstats_c_min_bytes'' ''ZFS ARC minimum size''
        ''kstat.zfs.misc.arcstats.c_min'' bsdSysctlTypeUint64 (Some GaugeValue) None,
      bsd_sysctl ''arcstats_data_bytes'' ''ZFS ARC data size''
        ''kstat.zfs.misc.arcstats.data_size'' bsdSysctlTypeUint64 (Some GaugeValue) None,
      bsd_sysctl ''arcstats_demand_data_hits_total'' ''ZFS ARC demand data hits''
        ''kstat.zfs.misc.arcstats.demand_data_hits'' bsdSysctlTypeUint64 (Some CounterValue) None,
      bsd_sysctl ''arcstats_demand_data_misses_total'' ''ZFS ARC demand data misses''
        ''kstat.zfs.misc.arcstats.demand_data_misses'' bsdSysctlTypeUint64 (Some CounterValue) None,
      bsd_sysctl ''arcstats_demand_metadata_hits_total'' ''ZFS ARC demand metadata hits''
        ''kstat.zfs.misc.arcstats.demand_metadata_hits'' bsdSysctlTypeUint64 (Some CounterValue) None,
      bsd_sysctl ''arcstats_demand_metadata_misses_total'' ''ZFS ARC demand metadata misses''
        ''kstat.zfs.misc.arcstats.demand_metadata_misses'' bsdSysctlTypeUint64 (Some CounterValue) None,
      bsd_sysctl ''arcstats_hdr_bytes'' ''ZFS ARC header size''
        ''kstat.zfs.misc.arcstats.hdr_size'' bsdSysctlTypeUint64 (Some GaugeValue) None,
      bsd_sysctl ''arcstats_hits_total'' ''ZFS ARC hits''
        ''kstat.zfs.misc.arcstats.hits'' bsdSysctlTypeUint64 (Some CounterValue) None,
      bsd_sysctl ''arcstats_misses_total'' ''ZFS ARC misses''
        ''kstat.zfs.misc.arcstats.misses'' bsdSysctlTypeUint64 (Some CounterValue) None,
      bsd_sysctl ''arcstats_mfu_ghost_hits_total'' ''ZFS ARC MFU ghost hits''
        ''kstat.zfs.misc.arcstats.mfu_ghost_hits'' bsdSysctlTypeUint64 (Some CounterValue) None,
      bsd_sysctl ''arcstats_mfu_ghost_size'' ''ZFS ARC MFU ghost size''
        ''kstat.zfs.misc.arcstats.mfu_ghost_size'' bsdSysctlTypeUint64 (Some GaugeValue) None,
      bsd_sysctl ''arcstats_mfu_bytes'' ''ZFS ARC MFU size''
        ''kstat.zfs.misc.arcstats.mfu_size'' bsdSysctlTypeUint64 (Some GaugeValue) None,
      bsd_sysctl ''arcstats_mru_ghost_hits_total'' ''ZFS ARC MRU ghost hits''
        ''kstat.zfs.misc.arcstats.mru_ghost_hits'' bsdSysctlTypeUint64 (Some CounterValue) None,
      bsd_sysctl ''arcstats_mru_ghost_bytes'' ''ZFS ARC MRU ghost size''
        ''kstat.zfs.misc.arcstats.mru_ghost_size'' bsdSysctlTypeUint64 (Some GaugeValue) None,
      bsd_sysctl ''arcstats_mru_bytes'' ''ZFS ARC MRU size''
        ''kstat.zfs.misc.arcstats.mru_size'' bsdSysctlTypeUint64 (Some GaugeValue) None,
      bsd_sysctl ''arcstats_other_bytes'' ''ZFS ARC other size''
        ''kstat.zfs.misc.arcstats.other_size'' bsdSysctlTypeUint64 (Some GaugeValue) None,
      bsd_sysctl ''arcstats_p_bytes'' ''ZFS ARC MRU target size''
        ''kstat.zfs.misc.arcstats.p'' bsdSysctlTypeUint64 (Some GaugeValue) None,
      bsd_sysctl ''arcstats_meta_bytes'' ''ZFS ARC metadata target frac ''
        ''kstat.zfs.misc.arcstats.meta'' bsdSysctlTypeUint64 (Some GaugeValue) None,
      bsd_sysctl ''arcstats_pd_bytes'' ''ZFS ARC data MRU target frac''
        ''kstat.zfs.misc.arcstats.pd'' bsdSysctlTypeUint64 (Some GaugeValue) None,
      bsd_sysctl ''arcstats_pm_bytes'' ''ZFS ARC meta MRU target frac''
        ''kstat.zfs.misc.arcstats.pm'' bsdSysctlTypeUint64 (Some GaugeValue) None,
      bsd_sysctl ''arcstats_size_bytes'' ''ZFS ARC size''
        ''kstat.zfs.misc.arcstats.size'' bsdSysctlTypeUint64 (Some GaugeValue) None,
      bsd_sysctl ''zfetchstats_hits_total'' ''ZFS cache fetch hits''
        ''kstat.zfs.misc.zfetchstats.hits'' bsdSysctlTypeUint64 (Some CounterValue) None,
      bsd_sysctl ''zfetchstats_misses_total'' ''ZFS cache fetch misses''
        ''kstat.zfs.misc.zfetchstats.misses'' bsdSysctlTypeUint64 (Some CounterValue) None]"

text \<open>A control that cannot be read is left out.\<close>

definition zfs_freebsd_Update :: "bsdSysctlEnv \<Rightarrow> upd" where
  "zfs_freebsd_Update env =
     foreach (\<lambda>m.
       case sysctl_Value env m of
         Err e \<Rightarrow> emit []
       | r \<Rightarrow> with_res r (typed_metric (NewDesc (BuildFQName namespace ''zfs'' (bs_name m)) (bs_description m) []) (bs_valueType m))) zfs_sysctls"

section \<open>Boot time, load average, memory of NetBSD and uname\<close>

record timeval =
  tv_sec :: int
  tv_usec :: int

definition boot_time_Update :: "timeval res \<Rightarrow> upd" where
  "boot_time_Update tv_res =
     with_res tv_res (\<lambda>tv.
       emit [MustNewConstMetric (NewDesc (BuildFQName namespace [] ''boot_time_seconds'') ''Unix time of last boot, including microseconds.'' [])
         GaugeValue (f64_add (f64_of_int (tv_sec tv)) (f64_div (f64_of_int (tv_usec tv)) (f64_of_int 1000000))) []])"

text \<open>Three numbers of 32 bits and, after four bytes of padding, the scale.\<close>

definition getLoad_bsd :: "bsdSysctlEnv \<Rightarrow> float64 list res" where
  "getLoad_bsd env =
     bind_res (SysctlRaw env ''vm.loadavg'' []) (\<lambda>b.
     bind_res (unsafe_read (sc_memory env) b 0 24) (\<lambda>s.
       let scale = f64_of_int (of_le_signed (field s 16 8))
       in Ok (map (\<lambda>i. f64_div (f64_of_nat (of_le (field s (4 * i) 4))) scale) [0, 1, 2])))"

text \<open>\<^verbatim>\<open>Update\<close> of \<^verbatim>\<open>loadavg.go\<close> over any \<^verbatim>\<open>getLoad\<close>.\<close>

definition loadavg_with :: "float64 list res \<Rightarrow> upd" where
  "loadavg_with r = with_res (map_err (Wrapf ''couldn't get load: %w'' []) r) (send_loads 0)"

definition loadavg_bsd_Update :: "bsdSysctlEnv \<Rightarrow> upd" where
  "loadavg_bsd_Update env = loadavg_with (getLoad_bsd env)"

record uvmexp =
  Pagesize :: int
  uvm_Active :: int
  uvm_Free :: int
  uvm_Inactive :: int
  Npages :: int
  Swpages :: int
  Swpginuse :: int
  Pgswapin :: int
  Pgswapout :: int
  uvm_Wired :: int

definition pages :: "uvmexp \<Rightarrow> int \<Rightarrow> float64" where
  "pages u n = f64_mul (f64_of_int (Pagesize u)) (f64_of_int n)"

definition getMemInfo_netbsd :: "uvmexp res \<Rightarrow> (string, float64) gomap res" where
  "getMemInfo_netbsd r =
     bind_res r (\<lambda>u. Ok
       [(''active_bytes'', pages u (uvm_Active u)), (''free_bytes'', pages u (uvm_Free u)), (''inactive_bytes'', pages u (uvm_Inactive u)),
        (''size_bytes'', pages u (Npages u)), (''swap_size_bytes'', pages u (Swpages u)), (''swap_used_bytes'', pages u (Swpginuse u)),
        (''swapped_in_pages_bytes_total'', pages u (Pgswapin u)), (''swapped_out_pages_bytes_total'', pages u (Pgswapout u)),
        (''wired_bytes'', pages u (uvm_Wired u))])"

text \<open>\<^verbatim>\<open>Update\<close> of \<^verbatim>\<open>meminfo.go\<close> over any such reader.\<close>

definition meminfo_with :: "((string \<times> float64) list \<Rightarrow> (string \<times> float64) list) \<Rightarrow> (string, float64) gomap res \<Rightarrow> upd" where
  "meminfo_with ord r = with_res (map_err (Wrapf ''couldn't get meminfo: %w'' []) r) (\<lambda>memInfo. emit (map meminfo_metric (ord memInfo)))"

definition parseHostNameAndDomainName :: "uname \<Rightarrow> string \<times> string" where
  "parseHostNameAndDomainName utsname =
     (let split = SplitN2 (ByteSliceToString (NodeName utsname)) ''.''
      in (split ! 0, if length split > 1 then split ! 1 else ''(none)''))"

definition getUname_bsd :: "uname res \<Rightarrow> uname res" where
  "getUname_bsd utsname =
     bind_res utsname (\<lambda>u. let (nodeName, domainName) = parseHostNameAndDomainName u in Ok
       \<lparr>SysName = ByteSliceToString (SysName u), Release = ByteSliceToString (Release u), Version = ByteSliceToString (Version u),
        Machine = ByteSliceToString (Machine u), NodeName = nodeName, DomainName = domainName\<rparr>)"

definition uname_bsd_Update :: "uname res \<Rightarrow> upd" where
  "uname_bsd_Update utsname =
     with_res (getUname_bsd utsname) (\<lambda>u.
       emit [MustNewConstMetric unameDesc GaugeValue (Fin 1) [SysName u, Release u, Version u, Machine u, NodeName u, DomainName u]])"

section \<open>Protocol statistics of FreeBSD\<close>

text \<open>
  The structures of the kernel headers are not part of the repository: \<open>c_sizeof\<close> is the size of one and \<open>c_field\<close> reads a
  field of one from its bytes.
\<close>

record netstatEnv =
  sysctlRaw :: "string \<Rightarrow> uint8 list res"
  ns_memory :: "nat \<Rightarrow> uint8"
  c_sizeof :: "string \<Rightarrow> nat"
  c_field :: "string \<Rightarrow> string \<Rightarrow> uint8 list \<Rightarrow> uint64"

definition tcp_state_names :: "string list" where
  "tcp_state_names =
     [''CLOSED'', ''LISTEN'', ''SYN_SENT'', ''SYN_RCVD'', ''ESTABLISHED'', ''CLOSE_WAIT'', ''FIN_WAIT_1'', ''CLOSING'', ''LAST_ACK'', ''FIN_WAIT_2'', ''TIME_WAIT'']"

definition tcpStatesMetric :: desc where
  "tcpStatesMetric = NewDesc (BuildFQName namespace ''netstat'' ''tcp_connections'') ''Number of TCP connections per state'' [''state'']"

definition bsd_netstat_desc :: "string \<Rightarrow> string \<Rightarrow> desc" where
  "bsd_netstat_desc name help = NewDesc (BuildFQName namespace ''netstat'' name) help []"

definition counterMetrics :: "(string, desc) gomap" where
  "counterMetrics =
     [
      (''bsdNetstatTcpSendPacketsTotal'', bsd_netstat_desc ''tcp_transmit_packets_total'' ''TCP packets sent''),
      (''bsdNetstatTcpRecvPacketsTotal'', bsd_netstat_desc ''tcp_receive_packets_total'' ''TCP packets received''),
      (''bsdNetstatUdpSendPacketsTotal'', bsd_netstat_desc ''udp_transmit_packets_total'' ''UDP packets sent''),
      (''bsdNetstatUdpRecvPacketsTotal'', bsd_netstat_desc ''udp_receive_packets_total'' ''UDP packets received''),
      (''bsdNetstatIPv4SendPacketsTotal'', bsd_netstat_desc ''ip4_transmit_packets_total'' ''IPv4 packets sent from this host''),
      (''bsdNetstatIPv4RawSendPacketsTotal'', bsd_netstat_desc ''ip4_transmit_raw_packets_total'' ''IPv4 raw packets generated''),
      (''bsdNetstatIPv4RecvPacketsTotal'', bsd_netstat_desc ''ip4_receive_packets_total'' ''IPv4 packets received''),
      (''bsdNetstatIPv4RecvFragmentsTotal'', bsd_netstat_desc ''ip4_receive_fragments_total'' ''IPv4 fragments received''),
      (''bsdNetstatIPv4ForwardTotal'', bsd_netstat_desc ''ip4_forward_total'' ''IPv4 packets forwarded''),
      (''bsdNetstatIPv4FastForwardTotal'', bsd_netstat_desc ''ip4_fast_forward_total'' ''IPv4 packets fast forwarded''),
      (''bsdNetstatIPv4DeliveredTotal'', bsd_netstat_desc ''ip4_delivered_total'' ''IPv4 packets delivered to the upper layer (packets for this host)''),
      (''bsdNetstatIPv6SendPacketsTotal'', bsd_netstat_desc ''ip6_transmit_packets_total'' ''IPv6 packets sent from this host''),
      (''bsdNetstatIPv6RawSendPacketsTotal'', bsd_netstat_desc ''ip6_transmit_raw_packets_total'' ''IPv6 raw packets generated''),
      (''bsdNetstatIPv6RecvPacketsTotal'', bsd_netstat_desc ''ip6_receive_packets_total'' ''IPv6 packets received''),
      (''bsdNetstatIPv6RecvFragmentsTotal'', bsd_netstat_desc ''ip6_receive_fragments_total'' ''IPv6 fragments received''),
      (''bsdNetstatIPv6ForwardTotal'', bsd_netstat_desc ''ip6_forward_total'' ''IPv6 packets forwarded''),
      (''bsdNetstatIPv6DeliveredTotal'', bsd_netstat_desc ''ip6_delivered_total'' ''IPv6 packets delivered to the upper layer (packets for this host)'')]"

definition getData :: "netstatEnv \<Rightarrow> string \<Rightarrow> nat \<Rightarrow> uint8 list res" where
  "getData env queryString expectedSize =
     bind_res (sysctlRaw env queryString) (\<lambda>data.
       if length data < expectedSize then Err (NewError ''Data Size mismatch'') else Ok data)"

text \<open>
  \<^verbatim>\<open>GetData\<close> of the four protocols: the control, the structure whose size is checked, the structure that is read, and the
  fields. The size that is checked for version 6 is that of the structure of version 4.
\<close>

record netstatData =
  nd_sysctl :: string
  nd_structSize :: string
  nd_struct :: string
  nd_fields :: "(string \<times> string) list"

definition NewTCPStat :: netstatData where
  "NewTCPStat = \<lparr>nd_sysctl = ''net.inet.tcp.stats'', nd_structSize = ''tcpstat'', nd_struct = ''tcpstat'',
     nd_fields =
       [(''bsdNetstatTcpSendPacketsTotal'', ''tcps_sndtotal''), (''bsdNetstatTcpRecvPacketsTotal'', ''tcps_rcvtotal'')]\<rparr>"

definition NewUDPStat :: netstatData where
  "NewUDPStat = \<lparr>nd_sysctl = ''net.inet.udp.stats'', nd_structSize = ''udpstat'', nd_struct = ''udpstat'',
     nd_fields =
       [(''bsdNetstatUdpSendPacketsTotal'', ''udps_opackets''), (''bsdNetstatUdpRecvPacketsTotal'', ''udps_ipackets'')]\<rparr>"

definition NewIPv4Stat :: netstatData where
  "NewIPv4Stat = \<lparr>nd_sysctl = ''net.inet.ip.stats'', nd_structSize = ''ipstat'', nd_struct = ''ipstat'',
     nd_fields =
       [(''bsdNetstatIPv4SendPacketsTotal'', ''ips_localout''), (''bsdNetstatIPv4RawSendPacketsTotal'', ''ips_rawout''),
        (''bsdNetstatIPv4RecvPacketsTotal'', ''ips_total''), (''bsdNetstatIPv4RecvFragmentsTotal'', ''ips_fragments''),
        (''bsdNetstatIPv4ForwardTotal'', ''ips_forward''), (''bsdNetstatIPv4FastForwardTotal'', ''ips_fastforward''),
        (''bsdNetstatIPv4DeliveredTotal'', ''ips_delivered'')]\<rparr>"

definition NewIPv6Stat :: netstatData where
  "NewIPv6Stat = \<lparr>nd_sysctl = ''net.inet6.ip6.stats'', nd_structSize = ''ipstat'', nd_struct = ''ip6stat'',
     nd_fields =
       [(''bsdNetstatIPv6SendPacketsTotal'', ''ip6s_localout''), (''bsdNetstatIPv6RawSendPacketsTotal'', ''ip6s_rawout''),
        (''bsdNetstatIPv6RecvPacketsTotal'', ''ip6s_total''), (''bsdNetstatIPv6RecvFragmentsTotal'', ''ip6s_fragments''),
        (''bsdNetstatIPv6ForwardTotal'', ''ip6s_forward''), (''bsdNetstatIPv6DeliveredTotal'', ''ip6s_delivered'')]\<rparr>"

definition GetData :: "netstatEnv \<Rightarrow> netstatData \<Rightarrow> (string, float64) gomap res" where
  "GetData env m =
     bind_res (getData env (nd_sysctl m) (c_sizeof env (nd_structSize m))) (\<lambda>data.
     bind_res (unsafe_read (ns_memory env) data 0 (c_sizeof env (nd_struct m))) (\<lambda>s.
       Ok (map (\<lambda>(key, fld). (key, f64_of_nat (unat (c_field env (nd_struct m) fld s)))) (nd_fields m))))"

definition getTCPStates :: "netstatEnv \<Rightarrow> uint64 list res" where
  "getTCPStates env =
     bind_res (sysctlRaw env ''net.inet.tcp.states'') (\<lambda>data.
       if length data div 8 \<noteq> length tcp_state_names
       then Err (Errorf ''invalid TCP states data: expected %d entries, found %d'' [Itoa (int (length tcp_state_names)), Itoa (int (length data div 8))])
       else Ok (map (\<lambda>i. of_nat (of_le (field data (8 * i) 8))) [0..<length tcp_state_names]))"

definition netstat_freebsd_Update :: "((string \<times> desc) list \<Rightarrow> (string \<times> desc) list) \<Rightarrow> netstatEnv \<Rightarrow> upd" where
  "netstat_freebsd_Update ord env =
     with_res (GetData env NewTCPStat) (\<lambda>tcpStats.
     with_res (GetData env NewUDPStat) (\<lambda>udpStats.
     with_res (GetData env NewIPv4Stat) (\<lambda>ipv4Stats.
     with_res (GetData env NewIPv6Stat) (\<lambda>ipv6Stats.
       let allStats = fold (\<lambda>m acc. map_copy acc m) [tcpStats, udpStats, ipv4Stats, ipv6Stats] [] in
       seq (emit (map (\<lambda>(key, d). MustNewConstMetric d CounterValue (map_get_z (Fin 0) allStats key) []) (ord counterMetrics)))
         (with_res (getTCPStates env) (\<lambda>states.
            emit (map (\<lambda>(s, v). MustNewConstMetric tcpStatesMetric GaugeValue (f64_of_nat (unat v)) [s]) (zip tcp_state_names states))))))))"

section \<open>Lemmas\<close>

lemma of_le_simps [simp]: "of_le [] = 0" "of_le (b # bs) = unat b + 256 * of_le bs"
  by (simp_all add: of_le_def)

definition to_le :: "nat \<Rightarrow> nat \<Rightarrow> uint8 list" where
  "to_le k n = map (\<lambda>i. of_nat (n div 256 ^ i)) [0..<k]"

lemma to_le_Suc: "to_le (Suc k) n = of_nat n # to_le k (n div 256)"
proof -
  have "[0..<Suc k] = 0 # map Suc [0..<k]" by (simp add: map_Suc_upt upt_conv_Cons del: upt_Suc)
  then show ?thesis unfolding to_le_def by (simp add: o_def div_mult2_eq del: upt_Suc)
qed

lemma length_to_le [simp]: "length (to_le k n) = k"
  by (simp add: to_le_def)

lemma of_le_to_le: "of_le (to_le k n) = n mod 256 ^ k"
proof (induction k arbitrary: n)
  case (Suc k)
  have "of_le (to_le (Suc k) n) = n mod 256 + 256 * (n div 256 mod 256 ^ k)"
    by (simp add: to_le_Suc Suc.IH unat_of_nat)
  also have "\<dots> = n mod 256 ^ Suc k" by (simp add: mod_mult2_eq algebra_simps)
  finally show ?case .
qed (simp add: to_le_def)

lemma of_le_uint64: "(of_nat (of_le (to_le 8 (unat v))) :: uint64) = v"
proof -
  have "unat v < 256 ^ 8" using unsigned_less [of v] by (simp del: unsigned_less)
  then show ?thesis by (simp add: of_le_to_le)
qed

lemma unsafe_read_inside: "0 < length b \<Longrightarrow> n \<le> length b \<Longrightarrow> unsafe_read mem b 0 n = Ok (take n b)"
  by (simp add: unsafe_read_def)

lemma unsafe_read_panics [simp]: "panics (unsafe_read mem b off n) \<longleftrightarrow> length b \<le> off"
  by (simp add: unsafe_read_def idx_def)

text \<open>A control of the environment that cannot make its reader panic.\<close>

definition sysctl_pre_bsd :: "bsdSysctlEnv \<Rightarrow> bsdSysctl \<Rightarrow> bool" where
  "sysctl_pre_bsd env b \<longleftrightarrow> \<not> panics (SysctlUint32 env (bs_mib b)) \<and> \<not> panics (SysctlUint64 env (bs_mib b)) \<and>
     \<not> panics (SysctlRaw env (bs_mib b) []) \<and> 0 < sizeof_long env \<and> 0 < sizeof_int env"

lemma sysctl_Value_no_panic [simp]: "sysctl_pre_bsd env b \<Longrightarrow> \<not> panics (sysctl_Value env b)"
  by (auto simp: sysctl_Value_def getCLong_def sysctl_pre_bsd_def panics_bind_res go_simps split: bsdSysctlType.splits)

lemma sound_typed_metric: "desc_labels d = [] \<Longrightarrow> t \<noteq> None \<Longrightarrow> sound (typed_metric d t v)"
  by (auto simp: typed_metric_def intro!: sound_intros)

section \<open>Contracts\<close>

lemma memory_sysctl_sound: "sysctl_pre_bsd env m \<Longrightarrow> sound (memory_sysctl env m)"
  unfolding memory_sysctl_def by (rule sound_with_res) (simp_all add: sound_typed_metric memory_desc_def)

interpretation memory: safe_collector_contract "\<lambda>(env, c). snd (memory_Update env c)"
  "\<lambda>(env, c). list_all (sysctl_pre_bsd env) (mc_sysctls c)"
proof (rule safe_contractI, clarify)
  fix env :: bsdSysctlEnv and c :: memoryCollector assume "list_all (sysctl_pre_bsd env) (mc_sysctls c)"
  then have s: "sound (foreach (memory_sysctl env) (mc_sysctls c))" by (auto simp: list_all_iff intro!: sound_foreach memory_sysctl_sound)
  have u: "sound (with_res (map_err f (snd (SwapUsedPages env k))) (\<lambda>v. emit [swap_used c v]))" for f k
    by (rule sound_with_res) (auto simp: SwapUsedPages_def swap_used_def memory_desc_def split: option.splits)
  show "sound (snd (memory_Update env c))" using s u by (auto simp: memory_Update_def Let_def split_beta intro!: sound_seq)
qed

interpretation exec: safe_collector_contract exec_Update "\<lambda>env. list_all (sysctl_pre_bsd env) exec_sysctls"
  by (rule safe_contractI) (auto simp: exec_Update_def list_all_iff intro!: sound_foreach sound_with_res)

lemma netisr_typed: "m \<in> set netisr_sysctls \<Longrightarrow> bs_valueType m \<noteq> None"
  by (auto simp: netisr_sysctls_def)

interpretation netisr: safe_collector_contract netisr_Update "\<lambda>env. list_all (sysctl_pre_bsd env) netisr_sysctls"
proof (rule safe_contractI)
  fix env :: bsdSysctlEnv assume "list_all (sysctl_pre_bsd env) netisr_sysctls"
  then show "sound (netisr_Update env)"
    unfolding netisr_Update_def list_all_iff
    by (intro sound_foreach sound_with_res sound_typed_metric) (simp_all add: netisr_typed del: not_None_eq)
qed

lemma zfs_typed: "m \<in> set zfs_sysctls \<Longrightarrow> bs_valueType m \<noteq> None"
  by (auto simp: zfs_sysctls_def)

interpretation zfs_freebsd: safe_collector_contract zfs_freebsd_Update "\<lambda>env. list_all (sysctl_pre_bsd env) zfs_sysctls"
proof (rule safe_contractI)
  fix env :: bsdSysctlEnv assume pre: "list_all (sysctl_pre_bsd env) zfs_sysctls"
  show "sound (zfs_freebsd_Update env)"
    unfolding zfs_freebsd_Update_def
  proof (rule sound_foreach)
    fix m assume m: "m \<in> set zfs_sysctls"
    then have "\<not> panics (sysctl_Value env m)" using pre by (simp add: list_all_iff)
    moreover have "sound (typed_metric (NewDesc n h []) (bs_valueType m) v)" for n h v
      using zfs_typed [OF m] by (simp add: sound_typed_metric)
    ultimately show "sound (case sysctl_Value env m of Err e \<Rightarrow> emit [] | r \<Rightarrow> with_res r
        (typed_metric (NewDesc (BuildFQName namespace ''zfs'' (bs_name m)) (bs_description m) []) (bs_valueType m)))"
      by (cases "sysctl_Value env m") auto
  qed
qed

interpretation boot_time: safe_collector_contract boot_time_Update "\<lambda>r. \<not> panics r"
  by (rule safe_contractI) (auto simp: boot_time_Update_def intro!: sound_with_res)

lemma loadavg_with_sound:
  assumes "\<not> panics r" "\<And>loads. r = Ok loads \<Longrightarrow> length loads = 3"
  shows "sound (loadavg_with r)"
proof -
  have "sound (send_loads 0 loads)" if "r = Ok loads" for loads
  proof -
    have "send_loads 0 loads = emit (map (\<lambda>(d, v). mustNewConstMetric d v []) (zip loadavg_metric loads))"
      using send_loads_spec [of 0 loads] assms(2) [OF that] by simp
    then show ?thesis by (auto simp: loadavg_labels dest!: set_zip_leftD intro!: sound_emit)
  qed
  then show ?thesis using assms(1) by (auto simp: loadavg_with_def intro!: sound_with_res)
qed

interpretation loadavg_bsd: safe_collector_contract loadavg_bsd_Update
  "\<lambda>env. \<not> panics (SysctlRaw env ''vm.loadavg'' []) \<and> SysctlRaw env ''vm.loadavg'' [] \<noteq> Ok []"
  by (rule safe_contractI) (auto simp: loadavg_bsd_Update_def getLoad_bsd_def panics_bind_res go_simps Let_def intro!: loadavg_with_sound)

text \<open>The memory collector over any reader.\<close>

lemma meminfo_with_sound: "\<not> panics r \<Longrightarrow> sound (meminfo_with ord r)"
  unfolding meminfo_with_def by (rule sound_with_res) (auto simp: meminfo_metric_def meminfo_desc_def intro!: sound_emit)

interpretation meminfo_netbsd: safe_collector_contract "\<lambda>(ord, r). meminfo_with ord (getMemInfo_netbsd r)" "\<lambda>(ord, r). \<not> panics r"
  by (rule safe_contractI) (auto simp: getMemInfo_netbsd_def panics_bind_res intro!: meminfo_with_sound)

interpretation uname_bsd: safe_collector_contract uname_bsd_Update "\<lambda>r. \<not> panics r"
  by (rule safe_contractI)
    (auto simp: uname_bsd_Update_def getUname_bsd_def unameDesc_def panics_bind_res split_beta Let_def intro!: sound_with_res)

lemma GetData_panics: "panics (GetData env m) \<longleftrightarrow> panics (sysctlRaw env (nd_sysctl m)) \<or>
    (c_sizeof env (nd_structSize m) = 0 \<and> sysctlRaw env (nd_sysctl m) = Ok [])"
  by (auto simp: GetData_def getData_def panics_bind_res go_simps)

lemma counterMetrics_labels: "(k, d) \<in> set counterMetrics \<Longrightarrow> desc_labels d = []"
  by (auto simp: counterMetrics_def bsd_netstat_desc_def)

interpretation netstat_freebsd: safe_collector_contract "\<lambda>(ord, env). netstat_freebsd_Update ord env"
  "\<lambda>(ord, env). range_order ord \<and> (\<forall>name. \<not> panics (sysctlRaw env name)) \<and> (\<forall>s. 0 < c_sizeof env s)"
proof (rule safe_contractI, clarify)
  fix ord :: "(string \<times> desc) list \<Rightarrow> (string \<times> desc) list" and env :: netstatEnv
  assume o: "range_order ord" and p: "\<forall>name. \<not> panics (sysctlRaw env name)" and z: "\<forall>s. 0 < c_sizeof env s"
  have g: "\<not> panics (GetData env m)" for m using p z by (simp add: GetData_panics)
  have t: "\<not> panics (getTCPStates env)" using p by (simp add: getTCPStates_def panics_bind_res)
  show "sound (netstat_freebsd_Update ord env)"
    unfolding netstat_freebsd_Update_def Let_def
    by (intro sound_with_res sound_seq g t sound_emit)
      (auto simp: o tcpStatesMetric_def dest: counterMetrics_labels)
qed

section \<open>Properties\<close>

text \<open>
  The TCP states of the kernel, an array of numbers of 64 bits, are read back number by number, up to seven bytes after them
  being ignored; any other length is an error.
\<close>

theorem getTCPStates_roundtrip:
  assumes "sysctlRaw env ''net.inet.tcp.states'' = Ok (concat (map (\<lambda>v. to_le 8 (unat v)) states) @ rest)" "length rest < 8"
  shows "getTCPStates env =
    (if length states = 11 then Ok states
     else Err (Errorf ''invalid TCP states data: expected %d entries, found %d'' [''11'', Itoa (int (length states))]))"
proof -
  let ?data = "concat (map (\<lambda>v. to_le 8 (unat v)) states) @ rest"
  have len: "length (concat (map (\<lambda>v. to_le 8 (unat v)) vs)) = 8 * length vs" for vs :: "uint64 list"
    by (induction vs) simp_all
  have at: "field (concat (map (\<lambda>v. to_le 8 (unat v)) vs) @ r) (8 * i) 8 = to_le 8 (unat (vs ! i))" if "i < length vs" for vs :: "uint64 list" and r i
    using that
  proof (induction vs arbitrary: i)
    case (Cons v vs)
    then show ?case by (cases i) (simp_all add: field_def)
  qed simp
  have "map (\<lambda>i. of_nat (of_le (field ?data (8 * i) 8))) [0..<length states] = states"
    by (rule nth_equalityI) (simp_all add: at of_le_uint64)
  moreover have "length ?data div 8 = length states" using assms(2) by (simp add: len)
  moreover have "length tcp_state_names = 11" by (simp add: tcp_state_names_def)
  moreover have "Itoa 11 = ''11''" by code_simp
  ultimately show ?thesis by (auto simp: getTCPStates_def assms(1))
qed

definition demo_netstat :: netstatEnv where
  "demo_netstat = \<lparr>sysctlRaw = (\<lambda>name. if name = ''net.inet.tcp.states'' then Ok (concat (map (\<lambda>v. to_le 8 (unat v)) [1, 2, 3 :: uint64]))
       else Ok [7]),
     ns_memory = (\<lambda>_. 42), c_sizeof = (\<lambda>s. if s = ''ip6stat'' then 2 else 1), c_field = (\<lambda>_ _ s. ucast (last s))\<rparr>"

theorem getTCPStates_roundtrip_witness: "\<exists>e. getTCPStates demo_netstat = Err e"
  using getTCPStates_roundtrip [of demo_netstat "[1, 2, 3]" "[]"] by (simp add: demo_netstat_def)

text \<open>
  The bytes of the statistics of version 6 are checked for the size of the structure of version 4: shorter ones pass and the
  rest of the structure is read out of the memory after them.
\<close>

theorem netstat_ip6_overread:
  assumes "sysctlRaw env ''net.inet6.ip6.stats'' = Ok data" "data \<noteq> []"
    and "c_sizeof env ''ipstat'' \<le> length data" "length data < c_sizeof env ''ip6stat''"
  shows "GetData env NewIPv6Stat = Ok (map (\<lambda>(key, fld). (key, f64_of_nat (unat (c_field env ''ip6stat'' fld
      (data @ map (ns_memory env) [0..<c_sizeof env ''ip6stat'' - length data]))))) (nd_fields NewIPv6Stat))"
proof -
  have "take (c_sizeof env ''ip6stat'') (data @ map (ns_memory env) [0..<c_sizeof env ''ip6stat'']) =
      data @ map (ns_memory env) [0..<c_sizeof env ''ip6stat'' - length data]"
    using assms(4) by (simp add: take_map)
  then show ?thesis
    using assms by (simp add: GetData_def getData_def unsafe_read_def NewIPv6Stat_def)
qed

theorem netstat_ip6_overread_witness:
  "\<exists>m. GetData demo_netstat NewIPv6Stat = Ok m \<and> map_get m ''bsdNetstatIPv6SendPacketsTotal'' = Some (f64_of_nat 42)"
  using netstat_ip6_overread [of demo_netstat "[7]"] by (simp add: demo_netstat_def NewIPv6Stat_def)

text \<open>
  A fully qualified node name is taken apart at its first dot; a name without a dot is the host name of no domain, like on
  Linux.
\<close>

theorem uname_bsd_names:
  assumes "CHR ''.'' \<notin> set host" "CHR 0x00 \<notin> set host" "CHR 0x00 \<notin> set domain"
  shows "parseHostNameAndDomainName (u\<lparr>NodeName := host @ ''.'' @ domain @ CHR 0x00 # rest\<rparr>) = (host, domain) \<and>
    parseHostNameAndDomainName (u\<lparr>NodeName := host @ CHR 0x00 # rest\<rparr>) = (host, ''(none)'')"
proof
  have 1: "ByteSliceToString (s @ CHR 0x00 # rest) = s" if "CHR 0x00 \<notin> set s" for s
    using that by (induction s) (auto simp: ByteSliceToString_def)
  have 2: "Cut (host @ ''.'' @ domain) ''.'' = Some (host, domain)" using assms(1) by (induction host) auto
  have 3: "Cut host ''.'' = None" using assms(1) by (induction host) auto
  have "CHR 0x00 \<notin> set (host @ ''.'' @ domain)" using assms by auto
  from 1 [OF this] 2 show "parseHostNameAndDomainName (u\<lparr>NodeName := host @ ''.'' @ domain @ CHR 0x00 # rest\<rparr>) = (host, domain)"
    by (simp add: parseHostNameAndDomainName_def SplitN2_def)
  show "parseHostNameAndDomainName (u\<lparr>NodeName := host @ CHR 0x00 # rest\<rparr>) = (host, ''(none)'')"
    using 1 [OF assms(2)] 3 by (simp add: parseHostNameAndDomainName_def SplitN2_def)
qed

theorem uname_bsd_names_witness:
  "parseHostNameAndDomainName \<lparr>SysName = ''FreeBSD'', Release = [], Version = [], Machine = [],
     NodeName = ''www'' @ ''.'' @ ''example.org'' @ CHR 0x00 # [], DomainName = []\<rparr> = (''www'', ''example.org'')"
  using uname_bsd_names [of "''www''" "''example.org''" _ "\<lparr>SysName = ''FreeBSD'', Release = [], Version = [], Machine = [], NodeName = [], DomainName = []\<rparr>"]
  by simp

end
