(* ===== verification/BsdCpu.thy ===== *)
theory BsdCpu
  imports Bsd Cpu "HOL-Library.List_Lexorder" "HOL-Library.Char_ord"
begin

text \<open>
  The CPU collectors of the BSD systems and of Darwin: \<^verbatim>\<open>cpu_freebsd.go\<close>, \<^verbatim>\<open>cpu_netbsd.go\<close>, \<^verbatim>\<open>cpu_openbsd.go\<close>,
  \<^verbatim>\<open>cpu_dragonfly.go\<close> and \<^verbatim>\<open>cpu_darwin.go\<close>. The controls they read are byte arrays of the environment, decoded as in \<open>Bsd\<close>;
  what is written in C in the sources (the calls of kinfo and Mach) is a parameter.
\<close>

section \<open>Times per CPU\<close>

record cputime =
  ct_user :: float64
  ct_nice :: float64
  ct_sys :: float64
  ct_intr :: float64
  ct_idle :: float64

record cpuDescs =
  cd_cpu :: typedDesc
  cd_temp :: typedDesc

definition NewStatCollector_bsd :: cpuDescs where
  "NewStatCollector_bsd = \<lparr>cd_cpu = \<lparr>td_desc = nodeCPUSecondsDesc, td_valueType = CounterValue\<rparr>,
     cd_temp = \<lparr>td_desc = cpu_desc ''temperature_celsius'' ''CPU temperature'' [''cpu''], td_valueType = GaugeValue\<rparr>\<rparr>"

text \<open>
  \<^verbatim>\<open>clockinfo\<close> is five numbers of 32 bits, the first the clock frequency and the fourth the statistics clock frequency.
\<close>

definition clock_freq :: "uint8 list \<Rightarrow> float64" where
  "clock_freq clock =
     (let stathz = of_le_signed (field clock 12 4) in f64_of_int (if 0 < stathz then stathz else of_le_signed (field clock 0 4)))"

function words8 :: "uint8 list \<Rightarrow> uint8 list list" where
  "words8 b = (if length b < 8 then [] else take 8 b # words8 (drop 8 b))"
  by auto
termination by (relation "measure length") auto

declare words8.simps [simp del]

text \<open>
  Five times make a CPU. The last CPU of a list whose length is not a multiple of five has no place in the slice that was made
  for them.
\<close>

fun split_cpus :: "float64 list \<Rightarrow> cputime list res" where
  "split_cpus [] = Ok []"
| "split_cpus (u # n # s # i # d # ts) =
     bind_res (split_cpus ts) (\<lambda>cpus. Ok (\<lparr>ct_user = u, ct_nice = n, ct_sys = s, ct_intr = i, ct_idle = d\<rparr> # cpus))"
| "split_cpus ts = Panic ''index out of range''"

definition time_metrics :: "string \<Rightarrow> cputime \<Rightarrow> metric list" where
  "time_metrics lcpu t =
     map (\<lambda>(v, mode). mustNewConstMetric (cd_cpu NewStatCollector_bsd) v [lcpu, mode])
       [(ct_user t, ''user''), (ct_nice t, ''nice''), (ct_sys t, ''system''), (ct_intr t, ''interrupt''), (ct_idle t, ''idle'')]"

section \<open>FreeBSD\<close>

definition ENOENT :: error where
  "ENOENT = OSError ''no such file or directory''"

definition getCPUTimes_freebsd :: "bsdSysctlEnv \<Rightarrow> cputime list res" where
  "getCPUTimes_freebsd env =
     bind_res (SysctlRaw env ''kern.clockrate'' []) (\<lambda>clockb.
     bind_res (unsafe_read (sc_memory env) clockb 0 20) (\<lambda>clock.
     bind_res (SysctlRaw env ''kern.cp_times'' []) (\<lambda>cpb.
       split_cpus (map (\<lambda>w. f64_div (f64_of_int (of_le_signed w)) (clock_freq clock)) (words8 cpb)))))"

text \<open>A temperature is a signed number of 32 bits, in tenths of a degree Kelvin.\<close>

definition deci_celsius :: "uint32 \<Rightarrow> float64" where
  "deci_celsius temp = f64_div (f64_of_int (sint (temp - 2732))) (Fin 10)"

definition temp_freebsd :: "bsdSysctlEnv \<Rightarrow> nat \<Rightarrow> upd" where
  "temp_freebsd env cpu =
     (let lcpu = Itoa (int cpu) in
      case SysctlUint32 env (''dev.cpu.'' @ lcpu @ ''.temperature'') of
        Err e \<Rightarrow> if e = ENOENT then emit [] else emit [mustNewConstMetric (cd_temp NewStatCollector_bsd) NaN [lcpu]]
      | Panic p \<Rightarrow> ([], Panic p)
      | Ok temp \<Rightarrow> emit [mustNewConstMetric (cd_temp NewStatCollector_bsd) (deci_celsius temp) [lcpu]])"

definition cpu_freebsd_Update :: "bsdSysctlEnv \<Rightarrow> upd" where
  "cpu_freebsd_Update env =
     with_res (getCPUTimes_freebsd env) (\<lambda>cpuTimes.
       foreach (\<lambda>(cpu, t). seq (emit (time_metrics (Itoa (int cpu)) t)) (temp_freebsd env cpu)) (enumerate 0 cpuTimes))"

section \<open>NetBSD\<close>

text \<open>The request number of an ioctl, bit by bit.\<close>

definition IOC :: "uint64 \<Rightarrow> uint8 \<Rightarrow> uint64 \<Rightarrow> uint64 \<Rightarrow> uint64" where
  "IOC inout grp num len =
     or (or (or inout (push_bit 16 (and len 0x1fff))) (push_bit 8 (ucast grp))) num"

definition IOWR :: "uint8 \<Rightarrow> uint64 \<Rightarrow> uint64 \<Rightarrow> uint64" where
  "IOWR grp num len = IOC (or 0x80000000 0x40000000) grp num len"

record sysmonValues =
  CurValue :: goint
  Description :: string
  State :: string
  sv_Type :: string

type_synonym sysmonProperties = "(string, sysmonValues list) gomap"

text \<open>Opening the device, the ioctl on it (by its request number) and decoding the property list are one reader.\<close>

record netbsdEnv =
  sysmon_ioctl :: "string \<Rightarrow> uint64 \<Rightarrow> sysmonProperties res"
  ord_props :: "(string \<times> sysmonValues list) list \<Rightarrow> (string \<times> sysmonValues list) list"

definition readSysmonProperties :: "netbsdEnv \<Rightarrow> paths \<Rightarrow> sysmonProperties res" where
  "readSysmonProperties env p = sysmon_ioctl env (rootfsFilePath p ''/dev/sysmon'') (IOWR 69 0 16)"

definition sortFilterSysmonProperties :: "netbsdEnv \<Rightarrow> sysmonProperties \<Rightarrow> string \<Rightarrow> string list" where
  "sortFilterSysmonProperties env props pre = sort (filter (\<lambda>key. HasPrefix key pre) (map fst (ord_props env props)))"

definition temperatureRE :: regexp where
  "temperatureRE = compiled ''^cpu([0-9]+) temperature$''"

text \<open>\<^verbatim>\<open>strconv.Atoi\<close> with its error ignored: a number that is too large is the largest one.\<close>

definition atoi_clamped :: "string \<Rightarrow> int" where
  "atoi_clamped s = (case Atoi s of Ok n \<Rightarrow> n | Err (ErrRange _) \<Rightarrow> 2 ^ 63 - 1 | _ \<Rightarrow> 0)"

definition convertTemperature :: "sysmonValues \<Rightarrow> (int, float64) gomap \<Rightarrow> (int, float64) gomap res" where
  "convertTemperature val m =
     (if State val = ''invalid'' \<or> State val = ''unknown'' \<or> State val = [] then Ok m
      else case FindStringSubmatch temperatureRE (Description val) of
             None \<Rightarrow> Panic ''index out of range''
           | Some g \<Rightarrow> Ok (map_put (atoi_clamped (submatch g 1))
               (f64_sub (f64_div (f64_of_nat (unat (CurValue val))) (Fin 1000000)) (round64 (27315 / 100))) m))"

definition getCPUTemperatures :: "netbsdEnv \<Rightarrow> paths \<Rightarrow> (int, float64) gomap res" where
  "getCPUTemperatures env p =
     bind_res (readSysmonProperties env p) (\<lambda>props.
       fold_res (\<lambda>key. fold_res convertTemperature (map_get_z [] props key)) (sortFilterSysmonProperties env props ''coretemp'') [])"

definition getCPUTimes_netbsd :: "bsdSysctlEnv \<Rightarrow> cputime list res" where
  "getCPUTimes_netbsd env =
     bind_res (SysctlRaw env ''kern.clockrate'' []) (\<lambda>clockb.
     bind_res (unsafe_read (sc_memory env) clockb 0 20) (\<lambda>clock.
     bind_res (SysctlRaw env ''hw.ncpu'' []) (\<lambda>ncpusb.
     bind_res (unsafe_read (sc_memory env) ncpusb 0 4) (\<lambda>n.
       let ncpus = of_le n in
       if ncpus < 1 then Err (NewError ''Invalid cpu number'')
       else bind_res (fold_res (\<lambda>ncpu ts. bind_res (SysctlRaw env ''kern.cp_time'' [int ncpu]) (\<lambda>cpb.
                Ok (ts @ map (\<lambda>w. f64_div (f64_of_nat (of_le w)) (clock_freq clock)) (words8 cpb)))) [0..<ncpus] []) split_cpus))))"

definition cpu_netbsd_Update :: "bsdSysctlEnv \<Rightarrow> netbsdEnv \<Rightarrow> paths \<Rightarrow> upd" where
  "cpu_netbsd_Update env nenv p =
     with_res (getCPUTimes_netbsd env) (\<lambda>cpuTimes.
     with_res (getCPUTemperatures nenv p) (\<lambda>cpuTemperatures.
       emit (concat (map (\<lambda>(cpu, t).
         time_metrics (Itoa (int cpu)) t @
         [mustNewConstMetric (cd_temp NewStatCollector_bsd)
            (case map_get cpuTemperatures (int cpu) of Some temp \<Rightarrow> temp | None \<Rightarrow> NaN) [Itoa (int cpu)]]) (enumerate 0 cpuTimes)))))"

section \<open>OpenBSD\<close>

definition ENODEV :: error where
  "ENODEV = OSError ''operation not supported by device''"

text \<open>
  Six states; versions up to 6.3 had five, without \<open>CP_SPIN\<close> (3). \<^verbatim>\<open>copy\<close> moves the two states after it up.
\<close>

definition openbsd_times :: "(nat \<Rightarrow> uint8) \<Rightarrow> uint8 list \<Rightarrow> uint64 list res" where
  "openbsd_times mem cpb =
     bind_res
       (fold_res (\<lambda>k ts.
          bind_res (unsafe_read mem cpb (8 * k) 8) (\<lambda>w.
            if k < 6 then Ok (ts[k := of_nat (of_le w)]) else Panic ''index out of range''))
          [0..<(length cpb + 7) div 8] (replicate 6 0))
       (\<lambda>ts. Ok (if length cpb div 8 = 5 then (take 4 ts @ take 2 (drop 3 ts))[3 := 0] else ts))"

record openbsdCpuEnv =
  Clockinfo_Stathz :: "uint8 list \<Rightarrow> int32"
  sizeof_Clockinfo :: nat

definition openbsd_cpu :: "bsdSysctlEnv \<Rightarrow> nat \<Rightarrow> uint64 list list \<Rightarrow> uint64 list list res" where
  "openbsd_cpu env i cpTime =
     (case SysctlRaw env ''kern.cp_time2'' [int i] of
        Err e \<Rightarrow> if e \<noteq> ENODEV then Err e else Ok cpTime
      | Panic p \<Rightarrow> Panic p
      | Ok cpb \<Rightarrow> bind_res (openbsd_times (sc_memory env) cpb) (\<lambda>ts. Ok (cpTime @ [ts])))"

definition openbsd_modes :: "string list" where
  "openbsd_modes = [''user'', ''nice'', ''system'', ''spin'', ''interrupt'', ''idle'']"

definition openbsd_metrics :: "float64 \<Rightarrow> nat \<times> uint64 list \<Rightarrow> metric list" where
  "openbsd_metrics hz = (\<lambda>(cpu, time).
     map (\<lambda>(v, mode). mustNewConstMetric (cd_cpu NewStatCollector_bsd) (f64_div (f64_of_nat (unat v)) hz) [Itoa (int cpu), mode])
       (zip time openbsd_modes))"

definition cpu_openbsd_Update :: "bsdSysctlEnv \<Rightarrow> openbsdCpuEnv \<Rightarrow> upd" where
  "cpu_openbsd_Update env oenv =
     with_res (SysctlRaw env ''kern.clockrate'' []) (\<lambda>clockb.
     with_res (unsafe_read (sc_memory env) clockb 0 (sizeof_Clockinfo oenv)) (\<lambda>clock.
       let hz = f64_of_int (sint (Clockinfo_Stathz oenv clock)) in
       with_res (SysctlUint32 env ''hw.ncpu'') (\<lambda>ncpus.
       with_res (fold_res (openbsd_cpu env) [0..<unat ncpus] []) (\<lambda>cpTime.
         emit (concat (map (openbsd_metrics hz) (enumerate 0 cpTime)))))))"

section \<open>DragonFly BSD\<close>

text \<open>
  The C part gives the times of all CPUs in microseconds, five a CPU, or fails. The slice of the array in Go has room for
  \<open>maxCPUTimesLen\<close> of them.
\<close>

definition getDragonFlyCPUTimes :: "nat \<Rightarrow> uint64 list option \<Rightarrow> float64 list res" where
  "getDragonFlyCPUTimes maxCPUTimesLen cputime =
     (case cputime of
        None \<Rightarrow> Err (NewError ''could not retrieve CPU times'')
      | Some ts \<Rightarrow>
          if length ts > maxCPUTimesLen then Panic ''slice bounds out of range''
          else Ok (map (\<lambda>v. f64_div (f64_of_nat (unat v)) (Fin 1000000)) ts))"

definition dragonfly_fields :: "string list" where
  "dragonfly_fields = [''user'', ''nice'', ''sys'', ''interrupt'', ''idle'']"

definition cpu_dragonfly_Update :: "nat \<Rightarrow> uint64 list option \<Rightarrow> upd" where
  "cpu_dragonfly_Update maxCPUTimesLen cputime =
     with_res (getDragonFlyCPUTimes maxCPUTimesLen cputime) (\<lambda>cpuTimes.
       emit (map (\<lambda>(i, v). MustNewConstMetric nodeCPUSecondsDesc CounterValue v
         [Itoa (int (i div 5)), dragonfly_fields ! (i mod 5)]) (enumerate 0 cpuTimes)))"

section \<open>Darwin\<close>

text \<open>What Mach returns: the status, the number of CPUs and the memory with their ticks; and the constants of its headers.\<close>

record machEnv =
  host_processor_info :: "int \<times> nat \<times> (nat \<Rightarrow> uint8)"
  KERN_SUCCESS :: int
  CPU_STATE_MAX :: nat
  CPU_STATE_USER :: nat
  CPU_STATE_SYSTEM :: nat
  CPU_STATE_NICE :: nat
  CPU_STATE_IDLE :: nat
  ClocksPerSec :: float64
  ord_states :: "nat \<Rightarrow> (string \<times> nat) list \<Rightarrow> (string \<times> nat) list"

definition cpu_states :: "machEnv \<Rightarrow> (string, nat) gomap" where
  "cpu_states env = [(''user'', CPU_STATE_USER env), (''system'', CPU_STATE_SYSTEM env), (''nice'', CPU_STATE_NICE env), (''idle'', CPU_STATE_IDLE env)]"

text \<open>The numbers of 32 bits of one CPU, read from the buffer one CPU after the other.\<close>

definition cpu_ticks :: "machEnv \<Rightarrow> (nat \<Rightarrow> uint8) \<Rightarrow> nat \<Rightarrow> nat list" where
  "cpu_ticks env mem i =
     map (\<lambda>k. of_le (map (\<lambda>j. mem (4 * (CPU_STATE_MAX env * i + k) + j)) [0..<4])) [0..<CPU_STATE_MAX env]"

definition cpu_darwin_Update :: "machEnv \<Rightarrow> upd" where
  "cpu_darwin_Update env =
     (let (status, ncpu, mem) = host_processor_info env in
      if status \<noteq> KERN_SUCCESS env then fail (Errorf ''host_processor_info error=%d'' [Itoa status])
      else if ncpu * (4 * CPU_STATE_MAX env) > 2 ^ 30 then ([], Panic ''slice bounds out of range'')
      else foreach (\<lambda>i.
             foreach (\<lambda>(k, v). with_res (idx (cpu_ticks env mem i) v) (\<lambda>t.
               emit [MustNewConstMetric nodeCPUSecondsDesc CounterValue (f64_div (f64_of_nat t) (ClocksPerSec env)) [Itoa (int i), k]]))
               (ord_states env i (cpu_states env))) [0..<ncpu])"

section \<open>Lemmas\<close>

lemma split_cpus_panics: "panics (split_cpus ts) \<longleftrightarrow> length ts mod 5 \<noteq> 0"
proof (induction ts rule: split_cpus.induct)
  case (2 u n s i d ts)
  have "length (u # n # s # i # d # ts) = length ts + 5" by simp
  then have "length (u # n # s # i # d # ts) mod 5 = length ts mod 5" by (simp only: mod_add_self2)
  then show ?case using 2 by (simp add: panics_bind_res)
qed simp_all

lemma words8_append: "length w = 8 \<Longrightarrow> words8 (w @ b) = w # words8 b"
  by (subst words8.simps) simp

lemma words8_short: "length b < 8 \<Longrightarrow> words8 b = []"
  by (subst words8.simps) simp

lemma length_words8 [simp]: "length (words8 b) = length b div 8"
proof (induction b rule: words8.induct)
  case (1 b)
  then show ?case by (subst words8.simps) (auto simp: le_div_geq)
qed

lemma words8_encoded: "length r < 8 \<Longrightarrow> words8 (concat (map (\<lambda>v. to_le 8 (unat v)) vs) @ r) = map (\<lambda>v. to_le 8 (unat v)) vs"
  by (induction vs) (simp_all add: words8_append words8_short)

lemma time_metrics_labels: "m \<in> set (time_metrics lcpu t) \<Longrightarrow> labels_ok m"
  by (auto simp: time_metrics_def NewStatCollector_bsd_def cpu_desc_defs)

lemma time_metrics_ok [simp]: "list_all labels_ok (time_metrics lcpu t)"
  by (simp add: list_all_iff time_metrics_labels)

lemma temp_labels [simp]: "length (desc_labels (td_desc (cd_temp NewStatCollector_bsd))) = 1"
  by (simp add: NewStatCollector_bsd_def cpu_desc_def)

section \<open>Contracts\<close>

interpretation cpu_freebsd: safe_collector_contract cpu_freebsd_Update
  "\<lambda>env. (\<forall>n xs. \<not> panics (SysctlRaw env n xs)) \<and> (\<forall>n. \<not> panics (SysctlUint32 env n)) \<and> SysctlRaw env ''kern.clockrate'' [] \<noteq> Ok [] \<and>
     (\<forall>b. SysctlRaw env ''kern.cp_times'' [] = Ok b \<longrightarrow> length b div 8 mod 5 = 0)"
proof (rule safe_contractI, elim conjE)
  fix env :: bsdSysctlEnv
  assume p: "\<forall>n xs. \<not> panics (SysctlRaw env n xs)" "\<forall>n. \<not> panics (SysctlUint32 env n)" "SysctlRaw env ''kern.clockrate'' [] \<noteq> Ok []"
    "\<forall>b. SysctlRaw env ''kern.cp_times'' [] = Ok b \<longrightarrow> length b div 8 mod 5 = 0"
  have "\<not> panics (getCPUTimes_freebsd env)" using p by (auto simp: getCPUTimes_freebsd_def panics_bind_res split_cpus_panics)
  moreover have "sound (temp_freebsd env i)" for i
  proof -
    have "\<not> panics (SysctlUint32 env (''dev.cpu.'' @ Itoa (int i) @ ''.temperature''))" using p(2) by blast
    then show ?thesis unfolding temp_freebsd_def Let_def
      by (cases "SysctlUint32 env (''dev.cpu.'' @ Itoa (int i) @ ''.temperature'')") (auto intro!: sound_emit)
  qed
  ultimately show "sound (cpu_freebsd_Update env)"
    unfolding cpu_freebsd_Update_def
    by (intro sound_with_res sound_foreach) (auto intro!: sound_seq dest: time_metrics_labels)
qed

text \<open>A sensor that counts must be described as the temperature of a CPU.\<close>

definition sensor_ok :: "sysmonValues \<Rightarrow> bool" where
  "sensor_ok v \<longleftrightarrow> State v \<in> {''invalid'', ''unknown'', []} \<or> FindStringSubmatch temperatureRE (Description v) \<noteq> None"

lemma convertTemperature_panics: "panics (convertTemperature v m) \<longleftrightarrow> \<not> sensor_ok v"
  by (auto simp: convertTemperature_def sensor_ok_def split: option.splits)

lemma convertTemperature_no_err: "convertTemperature v m \<noteq> Err e"
  by (auto simp: convertTemperature_def split: option.splits)

lemma fold_convert_panics: "panics (fold_res convertTemperature vs m) \<longleftrightarrow> \<not> list_all sensor_ok vs"
proof (induction vs arbitrary: m)
  case (Cons v vs)
  then show ?case using convertTemperature_panics [of v m] convertTemperature_no_err [of v m] by (cases "convertTemperature v m") auto
qed simp

lemma fold_convert_no_err: "fold_res convertTemperature vs m \<noteq> Err e"
proof (induction vs arbitrary: m)
  case (Cons v vs)
  then show ?case using convertTemperature_no_err [of v m] by (cases "convertTemperature v m") auto
qed simp

lemma fold_sensors_panics:
  "panics (fold_res (\<lambda>key. fold_res convertTemperature (f key)) ks m) \<longleftrightarrow> \<not> list_all (\<lambda>key. list_all sensor_ok (f key)) ks"
proof (induction ks arbitrary: m)
  case (Cons k ks)
  then show ?case
    using fold_convert_panics [of "f k" m] fold_convert_no_err [of "f k" m] by (cases "fold_res convertTemperature (f k) m") auto
qed simp

lemma getCPUTemperatures_panics:
  assumes "range_order (ord_props env)" "readSysmonProperties env p = Ok props"
  shows "panics (getCPUTemperatures env p) \<longleftrightarrow>
    (\<exists>key \<in> fst ` set props. HasPrefix key ''coretemp'' \<and> \<not> list_all sensor_ok (map_get_z [] props key))"
  by (auto simp: getCPUTemperatures_def assms fold_sensors_panics sortFilterSysmonProperties_def list_all_iff)

lemma netbsd_times_length:
  assumes "\<forall>i b. f i = Ok b \<longrightarrow> length b div 8 mod 5 = 0"
    and "fold_res (\<lambda>i ts. bind_res (f i) (\<lambda>b. Ok (ts @ map g (words8 b)))) is ts = Ok r" "length ts mod 5 = 0"
  shows "length r mod 5 = 0"
  by (rule fold_res_invariant [of _ "\<lambda>ts. length ts mod 5 = 0", OF _ assms(3,2)]) (auto simp: go_simps assms(1) mod_add_eq [symmetric])

interpretation cpu_netbsd: safe_collector_contract "\<lambda>(env, nenv, p). cpu_netbsd_Update env nenv p"
  "\<lambda>(env, nenv, p). range_order (ord_props nenv) \<and> (\<forall>n xs. \<not> panics (SysctlRaw env n xs)) \<and> SysctlRaw env ''kern.clockrate'' [] \<noteq> Ok [] \<and>
     SysctlRaw env ''hw.ncpu'' [] \<noteq> Ok [] \<and> (\<forall>i b. SysctlRaw env ''kern.cp_time'' [int i] = Ok b \<longrightarrow> length b div 8 mod 5 = 0) \<and>
     \<not> panics (readSysmonProperties nenv p) \<and> (\<forall>props. readSysmonProperties nenv p = Ok props \<longrightarrow>
       (\<forall>key \<in> fst ` set props. HasPrefix key ''coretemp'' \<longrightarrow> list_all sensor_ok (map_get_z [] props key)))"
proof (rule safe_contractI, clarify)
  fix env :: bsdSysctlEnv and nenv :: netbsdEnv and p :: paths
  assume o: "range_order (ord_props nenv)" and p: "\<forall>n xs. \<not> panics (SysctlRaw env n xs)" "SysctlRaw env ''kern.clockrate'' [] \<noteq> Ok []"
    "SysctlRaw env ''hw.ncpu'' [] \<noteq> Ok []" "\<forall>i b. SysctlRaw env ''kern.cp_time'' [int i] = Ok b \<longrightarrow> length b div 8 mod 5 = 0"
    and t: "\<not> panics (readSysmonProperties nenv p)" "\<forall>props. readSysmonProperties nenv p = Ok props \<longrightarrow>
       (\<forall>key \<in> fst ` set props. HasPrefix key ''coretemp'' \<longrightarrow> list_all sensor_ok (map_get_z [] props key))"
  have "\<not> panics (getCPUTemperatures nenv p)"
  proof (cases "readSysmonProperties nenv p")
    case (Ok props)
    then show ?thesis using getCPUTemperatures_panics [OF o Ok] t(2) by blast
  qed (use t(1) in \<open>simp_all add: getCPUTemperatures_def\<close>)
  moreover have "\<not> panics (getCPUTimes_netbsd env)"
    using p by (auto simp: getCPUTimes_netbsd_def Let_def panics_bind_res split_cpus_panics intro!: fold_res_no_panic dest!: netbsd_times_length [OF p(4)])
  ultimately show "sound (cpu_netbsd_Update env nenv p)"
    unfolding cpu_netbsd_Update_def by (intro sound_with_res sound_emit) (auto dest: time_metrics_labels)
qed

text \<open>The bytes of one OpenBSD CPU.\<close>

lemma openbsd_fold:
  fixes vs :: "uint64 list"
  assumes "k \<le> length vs" "length vs \<le> 6" "b = concat (map (\<lambda>v. to_le 8 (unat v)) vs)"
  shows "fold_res (\<lambda>k ts. bind_res (unsafe_read mem b (8 * k) 8) (\<lambda>w.
      if k < 6 then Ok (ts[k := of_nat (of_le w)]) else Panic ''index out of range'')) [0..<k] (replicate 6 0) = Ok (take k vs @ replicate (6 - k) 0)"
  using assms(1)
proof (induction k)
  case (Suc k)
  have len: "length (concat (map (\<lambda>v. to_le 8 (unat v)) vs)) = 8 * length vs" for vs :: "uint64 list" by (induction vs) simp_all
  have at: "take 8 (drop (8 * i) (concat (map (\<lambda>v. to_le 8 (unat v)) vs))) = to_le 8 (unat (vs ! i))" if "i < length vs" for vs :: "uint64 list" and i
    using that
  proof (induction vs arbitrary: i)
    case (Cons v vs)
    then show ?case by (cases i) simp_all
  qed simp
  have "unsafe_read mem b (8 * k) 8 = Ok (to_le 8 (unat (vs ! k)))"
    using Suc.prems by (simp add: unsafe_read_def idx_def len assms(3) at)
  moreover have "(take k vs @ replicate (6 - k) 0)[k := vs ! k] = take (Suc k) vs @ replicate (6 - Suc k) 0"
    using Suc.prems assms(2) by (simp add: list_update_append take_Suc_conv_app_nth Suc_diff_Suc [symmetric])
  ultimately show ?case using Suc assms(2) by (simp add: fold_res_append of_le_uint64)
qed simp

lemma openbsd_times_encoded:
  fixes vs :: "uint64 list"
  assumes "length vs = 5 \<or> length vs = 6"
  shows "openbsd_times mem (concat (map (\<lambda>v. to_le 8 (unat v)) vs)) =
    Ok (if length vs = 5 then [vs ! 0, vs ! 1, vs ! 2, 0, vs ! 3, vs ! 4] else vs)"
proof -
  let ?b = "concat (map (\<lambda>v. to_le 8 (unat v)) vs)"
  have len: "length (concat (map (\<lambda>v. to_le 8 (unat v)) vs)) = 8 * length vs" for vs :: "uint64 list" by (induction vs) simp_all
  have n: "(8 * length vs + 7) div 8 = length vs" by simp
  have f: "openbsd_times mem ?b = Ok (let ts = vs @ replicate (6 - length vs) 0 in if length vs = 5 then (take 4 ts @ take 2 (drop 3 ts))[3 := 0] else ts)"
    using openbsd_fold [of "length vs" vs ?b mem] assms unfolding openbsd_times_def len n Let_def by auto
  show ?thesis
  proof (cases "length vs = 5")
    case True
    then obtain a b c d e where "vs = [a, b, c, d, e]" by (auto simp: length_Suc_conv numeral_eq_Suc)
    then show ?thesis unfolding f by simp
  qed (use assms f in simp)
qed

section \<open>Properties\<close>

text \<open>
  The two states after the one that OpenBSD 6.4 introduced are told apart by the number of states a CPU answers with: six are
  taken as they are, five get a zero for the new one.
\<close>

theorem openbsd_times_states:
  assumes "length vs = 5 \<or> length vs = 6"
  shows "openbsd_times mem (concat (map (\<lambda>v. to_le 8 (unat v)) vs)) =
    Ok (if length vs = 5 then [vs ! 0, vs ! 1, vs ! 2, 0, vs ! 3, vs ! 4] else vs)"
  by (rule openbsd_times_encoded [OF assms])

theorem openbsd_times_states_witness:
  "openbsd_times (\<lambda>_. 0) (concat (map (\<lambda>v. to_le 8 (unat v)) [10, 20, 30, 40, 50 :: uint64])) = Ok [10, 20, 30, 0, 40, 50]"
  using openbsd_times_states [of "[10, 20, 30, 40, 50]" "\<lambda>_. 0"] by simp

lemma openbsd_cpus:
  assumes "\<And>i. i \<in> set is \<Longrightarrow> SysctlRaw env ''kern.cp_time2'' [int i] =
      (if on i then Ok (concat (map (\<lambda>v. to_le 8 (unat v)) (f i))) else Err ENODEV)"
    and "\<And>i. i \<in> set is \<Longrightarrow> length (f i) = 6"
  shows "fold_res (openbsd_cpu env) is acc = Ok (acc @ map f (filter on is))"
  using assms
proof (induction "is" arbitrary: acc)
  case (Cons i "is")
  have "openbsd_cpu env i acc = Ok (if on i then acc @ [f i] else acc)"
    using Cons.prems [of i] openbsd_times_encoded [of "f i" "sc_memory env"] by (simp add: openbsd_cpu_def)
  with Cons show ?case by simp
qed simp

text \<open>
  The samples of OpenBSD are labelled with the place of a CPU among those that are there, not with its number: with CPU 1
  switched off the times of CPU 2 are exported as those of CPU 1.
\<close>

theorem cpu_openbsd_positions:
  assumes "SysctlRaw env ''kern.clockrate'' [] = Ok clockb" "clockb \<noteq> []" "SysctlUint32 env ''hw.ncpu'' = Ok ncpus"
    and "\<And>i. i < unat ncpus \<Longrightarrow> SysctlRaw env ''kern.cp_time2'' [int i] =
      (if on i then Ok (concat (map (\<lambda>v. to_le 8 (unat v)) (f i))) else Err ENODEV)"
    and "\<And>i. i < unat ncpus \<Longrightarrow> length (f i) = 6"
  shows "\<exists>hz. cpu_openbsd_Update env oenv =
    emit (concat (map (\<lambda>(place, cpu). openbsd_metrics hz (place, f cpu)) (enumerate 0 (filter on [0..<unat ncpus]))))"
proof -
  have "fold_res (openbsd_cpu env) [0..<unat ncpus] [] = Ok (map f (filter on [0..<unat ncpus]))"
    using openbsd_cpus [of "[0..<unat ncpus]" env on f "[]"] assms(4,5) by simp
  moreover have "enumerate 0 (map f xs) = map (\<lambda>(place, cpu). (place, f cpu)) (enumerate 0 xs)" for xs :: "nat list"
    by (simp add: enumerate_map_upt enumerate_eq_zip zip_map2 split_def)
  ultimately show ?thesis
    using assms(1-3) by (auto simp: cpu_openbsd_Update_def unsafe_read_def Let_def o_def split_def)
qed

definition demo_openbsd :: bsdSysctlEnv where
  "demo_openbsd = \<lparr>SysctlUint32 = (\<lambda>_. Ok 3), SysctlUint64 = (\<lambda>_. Err ENOENT),
     SysctlRaw = (\<lambda>n xs. if n = ''kern.clockrate'' then Ok [0]
       else if xs = [1] then Err ENODEV else Ok (concat (map (\<lambda>v. to_le 8 (unat v)) (replicate 6 (word_of_int (hd xs) :: uint64))))),
     sc_memory = (\<lambda>_. 0), sizeof_long = 8, sizeof_int = 4, kvm_swap_used_pages = None\<rparr>"

theorem cpu_openbsd_positions_witness:
  "\<exists>hz. cpu_openbsd_Update demo_openbsd oenv = emit (openbsd_metrics hz (0, replicate 6 0) @ openbsd_metrics hz (1, replicate 6 2))"
proof -
  have "\<exists>hz. cpu_openbsd_Update demo_openbsd oenv =
    emit (concat (map (\<lambda>(place, cpu). openbsd_metrics hz (place, replicate 6 (of_nat cpu)))
      (enumerate 0 (filter (\<lambda>i. i \<noteq> 1) [0..<unat (3 :: uint32)]))))"
    by (rule cpu_openbsd_positions [of _ "[0]"]) (auto simp: demo_openbsd_def)
  moreover have "[0..<unat (3 :: uint32)] = [0, 1, 2]" by (simp add: upt_conv_Cons)
  ultimately show ?thesis by simp
qed

text \<open>
  A sensor with a valid reading that is not described as the temperature of a CPU takes the exporter down on NetBSD, whatever
  the order of the sensors.
\<close>

theorem netbsd_sensor_panics:
  assumes "range_order (ord_props nenv)" "wf_map props" "readSysmonProperties nenv p = Ok props" "getCPUTimes_netbsd env = Ok cpus"
    and "(key, vs) \<in> set props" "HasPrefix key ''coretemp''" "v \<in> set vs" "State v = ''valid''"
    and "FindStringSubmatch temperatureRE (Description v) = None"
  shows "panics (snd (cpu_netbsd_Update env nenv p))"
proof -
  have "map_get_z [] props key = vs" using assms(2,5) by (simp add: map_get_z_def)
  moreover have "\<not> sensor_ok v" using assms(8,9) by (simp add: sensor_ok_def)
  ultimately have "panics (getCPUTemperatures nenv p)"
    using getCPUTemperatures_panics [OF assms(1,3)] assms(5-7) by (force simp: list_all_iff)
  then show ?thesis by (simp add: cpu_netbsd_Update_def assms(4) panics_with_res)
qed

definition demo_sensor :: sysmonValues where
  "demo_sensor = \<lparr>CurValue = 300000000, Description = ''package temperature'', State = ''valid'', sv_Type = ''Temperature''\<rparr>"

definition demo_netbsd :: netbsdEnv where
  "demo_netbsd = \<lparr>sysmon_ioctl = (\<lambda>_ _. Ok [(''coretemp0'', [demo_sensor])]),
     ord_props = (\<lambda>m. m)\<rparr>"

definition demo_netbsd_sysctl :: bsdSysctlEnv where
  "demo_netbsd_sysctl = \<lparr>SysctlUint32 = (\<lambda>_. Err ENOENT), SysctlUint64 = (\<lambda>_. Err ENOENT),
     SysctlRaw = (\<lambda>n xs. if n = ''kern.cp_time'' then Ok [] else Ok [1, 0, 0, 0]), sc_memory = (\<lambda>_. 0), sizeof_long = 8, sizeof_int = 4,
     kvm_swap_used_pages = None\<rparr>"

theorem netbsd_sensor_panics_witness: "panics (snd (cpu_netbsd_Update demo_netbsd_sysctl demo_netbsd default_paths))"
proof (rule netbsd_sensor_panics)
  show "readSysmonProperties demo_netbsd default_paths = Ok [(''coretemp0'', [demo_sensor])]"
    by (simp add: demo_netbsd_def readSysmonProperties_def)
  show "getCPUTimes_netbsd demo_netbsd_sysctl = Ok []"
    by (simp add: getCPUTimes_netbsd_def demo_netbsd_sysctl_def unsafe_read_def of_le_def words8_short upt_conv_Cons)
  show "(''coretemp0'', [demo_sensor]) \<in> set [(''coretemp0'', [demo_sensor])]" "demo_sensor \<in> set [demo_sensor]" by simp_all
  show "FindStringSubmatch temperatureRE (Description demo_sensor) = None" by code_simp
qed (simp_all add: demo_netbsd_def demo_sensor_def HasPrefix_def)

end
