(* ===== verification/OpenBsd.thy ===== *)
theory OpenBsd
  imports Bsd Irq Netdev Diskstats
begin

text \<open>
  The collectors of OpenBSD: \<^verbatim>\<open>sysctl_openbsd_amd64.go\<close>, \<^verbatim>\<open>meminfo_openbsd.go\<close>, \<^verbatim>\<open>diskstats_openbsd.go\<close>,
  \<^verbatim>\<open>interrupts_openbsd.go\<close> and \<^verbatim>\<open>netdev_openbsd.go\<close>, each with its variant for amd64 that makes the system calls itself. The
  bytes the kernel answers with are the environment. What the variants for other machines call in C is a parameter: the answers
  it gives. A call that may never return is an option, \<open>None\<close> for a call that does not.
\<close>

section \<open>Calls that may not return\<close>

fun bind_run :: "'a res option \<Rightarrow> ('a \<Rightarrow> 'b res option) \<Rightarrow> 'b res option" where
  "bind_run None f = None"
| "bind_run (Some (Ok x)) f = f x"
| "bind_run (Some (Err e)) f = Some (Err e)"
| "bind_run (Some (Panic p)) f = Some (Panic p)"

fun fold_run :: "('a \<Rightarrow> 's \<Rightarrow> 's res option) \<Rightarrow> 'a list \<Rightarrow> 's \<Rightarrow> 's res option" where
  "fold_run f [] s = Some (Ok s)"
| "fold_run f (x # xs) s = bind_run (f x s) (fold_run f xs)"

section \<open>System controls\<close>

definition EINTR :: error where
  "EINTR = OSError ''interrupted system call''"

text \<open>
  The loop around the system call: \<open>calls k\<close> is how its \<open>k\<close>-th attempt ends. The error is only ever assigned, never cleared.
\<close>

partial_function (option) sysctl_attempts :: "(nat \<Rightarrow> error option) \<Rightarrow> nat \<Rightarrow> error option \<Rightarrow> error option option" where
  "sysctl_attempts calls k err =
     (let err' = (case calls k of None \<Rightarrow> err | Some e \<Rightarrow> Some e)
      in if err' \<noteq> Some EINTR then Some err' else sysctl_attempts calls (Suc k) err')"

text \<open>
  The first call asks for the size, the second fills a buffer of that size; \<open>ob_calls\<close> tells the two by their flag.
\<close>

record openbsdEnv =
  ob_calls :: "int list \<Rightarrow> bool \<Rightarrow> nat \<Rightarrow> error option"
  ob_size :: "int list \<Rightarrow> nat"
  ob_data :: "int list \<Rightarrow> uint8 list"
  ob_memory :: "nat \<Rightarrow> uint8"
  ob_SysctlRaw :: "string \<Rightarrow> uint8 list res"

definition raw_sysctl :: "openbsdEnv \<Rightarrow> int list \<Rightarrow> bool \<Rightarrow> unit res option" where
  "raw_sysctl env mib fill =
     map_option (\<lambda>err. case err of None \<Rightarrow> Ok () | Some e \<Rightarrow> Err e) (sysctl_attempts (ob_calls env mib fill) 0 None)"

definition sysctl_openbsd :: "openbsdEnv \<Rightarrow> int list \<Rightarrow> uint8 list res option" where
  "sysctl_openbsd env mib =
     bind_run (raw_sysctl env mib False) (\<lambda>_.
       if ob_size env mib = 0 then Some (Ok [])
       else bind_run (raw_sysctl env mib True) (\<lambda>_.
         Some (if length (ob_data env mib) \<le> ob_size env mib then Ok (ob_data env mib) else Panic ''slice bounds out of range'')))"

text \<open>Bytes up to the first that is zero.\<close>

definition int8ToString :: "uint8 list \<Rightarrow> string" where
  "int8ToString a = map (\<lambda>b. char_of (unat b)) (takeWhile (\<lambda>b. b \<noteq> 0) a)"

section \<open>Memory\<close>

definition uvm_meminfo :: "uvmexp \<Rightarrow> int \<Rightarrow> (string, float64) gomap" where
  "uvm_meminfo u numbufpages =
     [(''active_bytes'', pages u (uvm_Active u)), (''cache_bytes'', pages u numbufpages), (''free_bytes'', pages u (uvm_Free u)),
      (''inactive_bytes'', pages u (uvm_Inactive u)), (''size_bytes'', pages u (Npages u)), (''swap_size_bytes'', pages u (Swpages u)),
      (''swap_used_bytes'', pages u (Swpginuse u)), (''swapped_in_pages_bytes_total'', pages u (Pgswapin u)),
      (''swapped_out_pages_bytes_total'', pages u (Pgswapout u)), (''wired_bytes'', pages u (uvm_Wired u))]"

definition getMemInfo_openbsd :: "uvmexp res \<Rightarrow> int res \<Rightarrow> (string, float64) gomap res" where
  "getMemInfo_openbsd sysctl_uvmexp sysctl_bcstats =
     bind_res (map_err (Wrapf ''sysctl CTL_VM VM_UVMEXP failed: %w'' []) sysctl_uvmexp) (\<lambda>u.
     bind_res (map_err (Wrapf ''sysctl CTL_VFS VFS_GENERIC VFS_BCACHESTAT failed: %w'' []) sysctl_bcstats) (\<lambda>numbufpages.
       Ok (uvm_meminfo u numbufpages)))"

text \<open>
  On amd64 the structure of the buffer cache is laid out in the source: eighteen numbers of 64 bits, the second of which is used.
  The other structure is one of the library: \<open>Uvmexp\<close> takes it out of its bytes.
\<close>

definition bcstats_mib :: "int list" where
  "bcstats_mib = [10, 0, 3]"

definition getMemInfo_openbsd_amd64 :: "nat \<Rightarrow> (uint8 list \<Rightarrow> uvmexp) \<Rightarrow> openbsdEnv \<Rightarrow> (string, float64) gomap res option" where
  "getMemInfo_openbsd_amd64 sizeof_Uvmexp Uvmexp env =
     bind_run (Some (ob_SysctlRaw env ''vm.uvmexp'')) (\<lambda>uvmexpb.
     bind_run (sysctl_openbsd env bcstats_mib) (\<lambda>bcstatsb.
     bind_run (Some (unsafe_read (ob_memory env) uvmexpb 0 sizeof_Uvmexp)) (\<lambda>u.
     bind_run (Some (unsafe_read (ob_memory env) bcstatsb 0 144)) (\<lambda>bcstats.
       Some (Ok (uvm_meminfo (Uvmexp u) (of_le_signed (field bcstats 8 8))))))))"

section \<open>Disks\<close>

text \<open>The descriptors of \<^verbatim>\<open>diskstats_common.go\<close> by their names.\<close>

definition readsCompletedDesc :: typedDesc where
  "readsCompletedDesc = disk_desc ''reads_completed_total'' ''The total number of reads completed successfully.'' [''device''] CounterValue"

definition readBytesDesc :: typedDesc where
  "readBytesDesc = disk_desc ''read_bytes_total'' ''The total number of bytes read successfully.'' [''device''] CounterValue"

definition writesCompletedDesc :: typedDesc where
  "writesCompletedDesc = disk_desc ''writes_completed_total'' ''The total number of writes completed successfully.'' [''device''] CounterValue"

definition writtenBytesDesc :: typedDesc where
  "writtenBytesDesc = disk_desc ''written_bytes_total'' ''The total number of bytes written successfully.'' [''device''] CounterValue"

definition ioTimeSecondsDesc :: typedDesc where
  "ioTimeSecondsDesc = disk_desc ''io_time_seconds_total'' ''Total seconds spent doing I/Os.'' [''device''] CounterValue"

definition readTimeSecondsDesc :: typedDesc where
  "readTimeSecondsDesc = disk_desc ''read_time_seconds_total'' ''The total number of seconds spent by all reads.'' [''device''] CounterValue"

definition writeTimeSecondsDesc :: typedDesc where
  "writeTimeSecondsDesc = disk_desc ''write_time_seconds_total'' ''This is the total number of seconds spent by all writes.'' [''device''] CounterValue"

record openbsdDisk =
  od_Name :: string
  od_Rxfer :: uint64
  od_Wxfer :: uint64
  od_Rbytes :: uint64
  od_Wbytes :: uint64
  od_Time :: timeval

definition NewDiskstatsCollector_openbsd :: "diskstatsFlags \<Rightarrow> diskstatsFlags \<times> deviceFilter res" where
  "NewDiskstatsCollector_openbsd fl =
     (let (fl', r) = newDiskstatsDeviceFilter fl in (fl', map_err (Wrapf ''failed to parse device filter flags: %w'' []) r))"

definition openbsd_disk_metrics :: "deviceFilter \<Rightarrow> openbsdDisk \<Rightarrow> metric list" where
  "openbsd_disk_metrics f d =
     (if ignored f (od_Name d) then []
      else map (\<lambda>(td, v). mustNewConstMetric td v [od_Name d])
        [(readsCompletedDesc, f64_of_nat (unat (od_Rxfer d))), (readBytesDesc, f64_of_nat (unat (od_Rbytes d))),
         (writesCompletedDesc, f64_of_nat (unat (od_Wxfer d))), (writtenBytesDesc, f64_of_nat (unat (od_Wbytes d))),
         (ioTimeSecondsDesc, f64_add (f64_of_int (tv_sec (od_Time d))) (f64_div (f64_of_int (tv_usec (od_Time d))) (Fin 1000000)))])"

text \<open>Elsewhere than on amd64 the size of the structure and its fields come from the headers of the system.\<close>

definition diskstats_openbsd_Update :: "nat \<Rightarrow> (uint8 list \<Rightarrow> openbsdDisk) \<Rightarrow> openbsdEnv \<Rightarrow> deviceFilter \<Rightarrow> upd" where
  "diskstats_openbsd_Update sizeof_struct_diskstats read_disk env f =
     with_res (ob_SysctlRaw env ''hw.diskstats'') (\<lambda>b.
       emit (concat (map (\<lambda>i. openbsd_disk_metrics f (read_disk (field b (sizeof_struct_diskstats * i) sizeof_struct_diskstats)))
         [0..<length b div sizeof_struct_diskstats])))"

text \<open>
  On amd64 the structure is laid out in the source: a name of 16 bytes, a number of 32 bits with its padding, five numbers of 64
  bits and three times of two numbers of 64 bits each.
\<close>

definition DiskStats_size :: nat where
  "DiskStats_size = 112"

definition DiskStats :: "uint8 list \<Rightarrow> openbsdDisk" where
  "DiskStats s =
     (let w = (\<lambda>off. of_nat (of_le (field s off 8)) :: uint64) in
      \<lparr>od_Name = int8ToString (field s 0 16), od_Rxfer = w 24, od_Wxfer = w 32, od_Rbytes = w 48, od_Wbytes = w 56,
       od_Time = \<lparr>tv_sec = of_le_signed (field s 96 8), tv_usec = of_le_signed (field s 104 8)\<rparr>\<rparr>)"

definition diskstats_openbsd_amd64_Update :: "openbsdEnv \<Rightarrow> deviceFilter \<Rightarrow> upd" where
  "diskstats_openbsd_amd64_Update env f =
     with_res (ob_SysctlRaw env ''hw.diskstats'') (\<lambda>b.
       emit (concat (map (\<lambda>i. openbsd_disk_metrics f (DiskStats (field b (DiskStats_size * i) DiskStats_size)))
         [0..<length b div DiskStats_size])))"

section \<open>Interrupts\<close>

record openbsdInterrupt =
  vector :: int
  oi_device :: string
  oi_values :: "float64 list"

definition interrupts_openbsd_desc :: typedDesc where
  "interrupts_openbsd_desc =
     \<lparr>td_desc = NewDesc (FQName (namespace @ ''_interrupts_total'')) ''Interrupt details.'' [''cpu'', ''type'', ''devices''],
      td_valueType = CounterValue\<rparr>"

text \<open>The answers of the C functions: the number of interrupts, and each of them or an error.\<close>

definition getInterrupts_openbsd :: "int \<Rightarrow> (nat \<Rightarrow> (string \<times> int \<times> uint64) res) \<Rightarrow> (string, openbsdInterrupt) gomap res" where
  "getInterrupts_openbsd sysctl_nintr sysctl_intr =
     fold_res (\<lambda>i interrupts. bind_res (sysctl_intr i) (\<lambda>(dev, vec, count).
       Ok (map_put dev \<lparr>vector = vec, oi_device = dev, oi_values = [f64_of_nat (unat count)]\<rparr> interrupts))) [0..<nat sysctl_nintr] []"

definition openbsd_interrupt_value :: "interruptsCollector \<Rightarrow> string \<Rightarrow> openbsdInterrupt \<Rightarrow> nat \<times> float64 \<Rightarrow> metric list" where
  "openbsd_interrupt_value c dev i = (\<lambda>(cpuNo, v).
     let interruptType = Itoa (vector i) in
     if ignored (nameFilter c) (interruptType @ '';'' @ dev) then []
     else if \<not> includeZeros c \<and> v \<in> {Fin 0, NegZero} then []
     else [mustNewConstMetric interrupts_openbsd_desc v [Itoa (int cpuNo), interruptType, dev]])"

definition send_interrupts ::
  "((string \<times> openbsdInterrupt) list \<Rightarrow> (string \<times> openbsdInterrupt) list) \<Rightarrow> interruptsCollector \<Rightarrow> (string, openbsdInterrupt) gomap \<Rightarrow> metric list" where
  "send_interrupts ord c interrupts =
     concat (map (\<lambda>(dev, i). concat (map (openbsd_interrupt_value c dev i) (enumerate 0 (oi_values i)))) (ord interrupts))"

definition interrupts_openbsd_Update ::
  "((string \<times> openbsdInterrupt) list \<Rightarrow> (string \<times> openbsdInterrupt) list) \<Rightarrow> interruptsCollector \<Rightarrow> int \<Rightarrow>
     (nat \<Rightarrow> (string \<times> int \<times> uint64) res) \<Rightarrow> upd" where
  "interrupts_openbsd_Update ord c sysctl_nintr sysctl_intr =
     with_res (map_err (Wrapf ''couldn't get interrupts: %w'' []) (getInterrupts_openbsd sysctl_nintr sysctl_intr)) (\<lambda>m.
       emit (send_interrupts ord c m))"

text \<open>On amd64: the number of interrupts, zero when it cannot be read, and one interrupt read with three controls.\<close>

definition intrcnt :: "int list \<Rightarrow> int list" where
  "intrcnt rest = [1, 63] @ rest"

definition nintr :: "openbsdEnv \<Rightarrow> int res option" where
  "nintr env =
     (case sysctl_openbsd env (intrcnt [1]) of
        None \<Rightarrow> None
      | Some (Err e) \<Rightarrow> Some (Ok 0)
      | Some (Panic p) \<Rightarrow> Some (Panic p)
      | Some (Ok buf) \<Rightarrow> Some (bind_res (unsafe_read (ob_memory env) buf 0 4) (\<lambda>s. Ok (of_le_signed s))))"

definition intr :: "openbsdEnv \<Rightarrow> nat \<Rightarrow> openbsdInterrupt res option" where
  "intr env i =
     bind_run (sysctl_openbsd env (intrcnt [3, int i])) (\<lambda>buf.
     bind_run (Some (unsafe_read (ob_memory env) buf 0 128)) (\<lambda>dev.
     bind_run (sysctl_openbsd env (intrcnt [4, int i])) (\<lambda>buf.
     bind_run (Some (unsafe_read (ob_memory env) buf 0 8)) (\<lambda>vec.
     bind_run (sysctl_openbsd env (intrcnt [2, int i])) (\<lambda>buf.
     bind_run (Some (unsafe_read (ob_memory env) buf 0 8)) (\<lambda>count.
       Some (Ok \<lparr>vector = of_le_signed vec, oi_device = SafeBytesToString (map (\<lambda>b. char_of (unat b)) dev),
         oi_values = [f64_of_nat (of_le count)]\<rparr>)))))))"

definition getInterrupts_openbsd_amd64 :: "openbsdEnv \<Rightarrow> (string, openbsdInterrupt) gomap res option" where
  "getInterrupts_openbsd_amd64 env =
     bind_run (nintr env) (\<lambda>n.
       fold_run (\<lambda>i interrupts. bind_run (intr env i) (\<lambda>itr. Some (Ok (map_put (oi_device itr) itr interrupts)))) [0..<nat n] [])"

definition interrupts_openbsd_amd64_Update ::
  "((string \<times> openbsdInterrupt) list \<Rightarrow> (string \<times> openbsdInterrupt) list) \<Rightarrow> interruptsCollector \<Rightarrow> openbsdEnv \<Rightarrow> upd option" where
  "interrupts_openbsd_amd64_Update ord c env =
     map_option (\<lambda>r. with_res (map_err (Flatf ''couldn't get interrupts: %s'' []) r) (\<lambda>m. emit (send_interrupts ord c m)))
       (getInterrupts_openbsd_amd64 env)"

section \<open>Network devices\<close>

record if_data =
  Ipackets :: uint64
  Opackets :: uint64
  Ibytes :: uint64
  Obytes :: uint64
  Ierrors :: uint64
  Oerrors :: uint64
  Iqdrops :: uint64
  Oqdrops :: uint64
  Imcasts :: uint64
  Omcasts :: uint64
  if_Collisions :: uint64
  Noproto :: uint64

definition openbsd_dev_stats :: "if_data \<Rightarrow> devStats" where
  "openbsd_dev_stats d =
     [(''receive_packets'', Ipackets d), (''transmit_packets'', Opackets d), (''receive_bytes'', Ibytes d), (''transmit_bytes'', Obytes d),
      (''receive_errors'', Ierrors d), (''transmit_errors'', Oerrors d), (''receive_dropped'', Iqdrops d), (''transmit_dropped'', Oqdrops d),
      (''receive_multicast'', Imcasts d), (''transmit_multicast'', Omcasts d), (''collisions'', if_Collisions d), (''noproto'', Noproto d)]"

text \<open>
  The list that \<^verbatim>\<open>getifaddrs\<close> makes: the family of the address, if there is one, the name and the data of each element.
\<close>

record ifaddrs =
  sa_family :: "int option"
  ifa_name :: string
  ifa_data :: if_data

definition getifaddrs_stats :: "int \<Rightarrow> (if_data \<Rightarrow> devStats) \<Rightarrow> ifaddrs list option \<Rightarrow> deviceFilter \<Rightarrow> netDevStats res" where
  "getifaddrs_stats AF_LINK stats ifap f =
     (case ifap of
        None \<Rightarrow> Err (NewError ''getifaddrs() failed'')
      | Some ifs \<Rightarrow>
          fold_res (\<lambda>ifa netDev.
            case sa_family ifa of
              None \<Rightarrow> Panic ''nil pointer dereference''
            | Some family \<Rightarrow>
                Ok (if family \<noteq> AF_LINK \<or> ignored f (ifa_name ifa) then netDev else map_put (ifa_name ifa) (stats (ifa_data ifa)) netDev)) ifs [])"

definition getNetDevStats_openbsd :: "int \<Rightarrow> ifaddrs list option \<Rightarrow> deviceFilter \<Rightarrow> netDevStats res" where
  "getNetDevStats_openbsd AF_LINK ifap f = getifaddrs_stats AF_LINK openbsd_dev_stats ifap f"

text \<open>FreeBSD and DragonFly (\<^verbatim>\<open>netdev_bsd.go\<close>) have all but the last two.\<close>

definition bsd_dev_stats :: "if_data \<Rightarrow> devStats" where
  "bsd_dev_stats d =
     [(''receive_packets'', Ipackets d), (''transmit_packets'', Opackets d), (''receive_bytes'', Ibytes d), (''transmit_bytes'', Obytes d),
      (''receive_errors'', Ierrors d), (''transmit_errors'', Oerrors d), (''receive_dropped'', Iqdrops d), (''transmit_dropped'', Oqdrops d),
      (''receive_multicast'', Imcasts d), (''transmit_multicast'', Omcasts d)]"

definition getNetDevStats_bsd :: "int \<Rightarrow> ifaddrs list option \<Rightarrow> deviceFilter \<Rightarrow> netDevStats res" where
  "getNetDevStats_bsd AF_LINK ifap f = getifaddrs_stats AF_LINK bsd_dev_stats ifap f"

text \<open>
  On amd64 the routing messages are walked by hand. The structures of the library are read at their place in the memory that
  starts with the buffer.
\<close>

record rtMsg =
  rm_Msglen :: uint16
  rm_interface :: bool
  rm_Hdrlen :: uint16
  rm_has_ifp :: bool
  rm_data :: if_data

record rawSockaddr =
  dl_link :: bool
  dl_Data :: "uint8 list"
  dl_Nlen :: uint8

record rtLayout =
  rt_msg :: "(nat \<Rightarrow> uint8) \<Rightarrow> nat \<Rightarrow> rtMsg"
  rt_datalink :: "(nat \<Rightarrow> uint8) \<Rightarrow> nat \<Rightarrow> rawSockaddr"

definition rt_message :: "rtLayout \<Rightarrow> (nat \<Rightarrow> uint8) \<Rightarrow> deviceFilter \<Rightarrow> nat \<Rightarrow> netDevStats \<Rightarrow> netDevStats res" where
  "rt_message lay mem f next netDev =
     (let rtm = rt_msg lay mem next in
      if \<not> rm_interface rtm \<or> \<not> rm_has_ifp rtm then Ok netDev
      else let dl = rt_datalink lay mem (next + unat (rm_Hdrlen rtm)) in
           if \<not> dl_link dl then Ok netDev
           else if unat (dl_Nlen dl) > length (dl_Data dl) then Panic ''slice bounds out of range''
           else let dev = int8ToString (take (unat (dl_Nlen dl)) (dl_Data dl)) in
                Ok (if ignored f dev then netDev else map_put dev (openbsd_dev_stats (rm_data rtm)) netDev))"

partial_function (option) rt_walk :: "rtLayout \<Rightarrow> (nat \<Rightarrow> uint8) \<Rightarrow> deviceFilter \<Rightarrow> nat \<Rightarrow> nat \<Rightarrow> netDevStats \<Rightarrow> netDevStats res option" where
  "rt_walk lay mem f n next netDev =
     (if next < n then
        (case rt_message lay mem f next netDev of
           Err e \<Rightarrow> Some (Err e)
         | Panic p \<Rightarrow> Some (Panic p)
         | Ok netDev' \<Rightarrow> rt_walk lay mem f n (next + unat (rm_Msglen (rt_msg lay mem next))) netDev')
      else Some (Ok netDev))"

text \<open>The control of the routing table: \<^verbatim>\<open>CTL_NET\<close>, \<^verbatim>\<open>AF_ROUTE\<close>, and \<^verbatim>\<open>NET_RT_IFLIST\<close>.\<close>

definition iflist_mib :: "int list" where
  "iflist_mib = [4, 17, 0, 0, 3, 0]"

definition getNetDevStats_openbsd_amd64 :: "rtLayout \<Rightarrow> openbsdEnv \<Rightarrow> deviceFilter \<Rightarrow> netDevStats res option" where
  "getNetDevStats_openbsd_amd64 lay env f =
     bind_run (sysctl_openbsd env iflist_mib) (\<lambda>buf.
     bind_run (Some (idx buf 0)) (\<lambda>_.
       rt_walk lay (\<lambda>i. if i < length buf then buf ! i else ob_memory env (i - length buf)) f (length buf) 0 []))"

text \<open>The network device collector of these systems, which have no labels of their own.\<close>

definition netdev_with :: "netdevEnv \<Rightarrow> netdevFlags \<Rightarrow> netDevStats res \<Rightarrow> netDevCollector \<Rightarrow> netDevCollector \<times> upd" where
  "netdev_with env fl r c =
     (case map_err (Wrapf ''couldn't get netstats: %w'' []) r of
        Err e \<Rightarrow> (c, fail e)
      | Panic p \<Rightarrow> (c, ([], Panic p))
      | Ok netDev \<Rightarrow>
          let (c', ms) = send_devices env fl [] (ord_devices env netDev) c
          in (c', seq (emit ms) (netdev_addresses env fl c)))"

section \<open>Lemmas\<close>

text \<open>An attempt that was not interrupted ends the loop; after an interruption only an error of another kind does.\<close>

lemma sysctl_attempts_first:
  "calls k \<noteq> Some EINTR \<Longrightarrow> sysctl_attempts calls k None = Some (calls k)"
  by (subst sysctl_attempts.simps) (auto split: option.splits)

lemma sysctl_attempts_stuck:
  assumes "\<And>j. k \<le> j \<Longrightarrow> calls j = None \<or> calls j = Some EINTR"
  shows "sysctl_attempts calls k (Some EINTR) = None"
proof (rule ccontr)
  assume "sysctl_attempts calls k (Some EINTR) \<noteq> None"
  then obtain r where r: "sysctl_attempts calls k (Some EINTR) = Some r" by auto
  have "\<not> ((Some EINTR) = Some EINTR \<and> (\<forall>j \<ge> k. calls j = None \<or> calls j = Some EINTR))"
  proof (rule sysctl_attempts.raw_induct [OF _ r, where P = "\<lambda>calls k err r.
      \<not> (err = Some EINTR \<and> (\<forall>j \<ge> k. calls j = None \<or> calls j = Some EINTR))"])
    fix loop and calls :: "nat \<Rightarrow> error option" and k err r
    assume IH: "\<And>calls k err r. loop calls k err = Some r \<Longrightarrow>
        \<not> (err = Some EINTR \<and> (\<forall>j \<ge> k. calls j = None \<or> calls j = Some EINTR))"
      and r: "(let err' = (case calls k of None \<Rightarrow> err | Some e \<Rightarrow> Some e)
        in if err' \<noteq> Some EINTR then Some err' else loop calls (Suc k) err') = Some r"
    show "\<not> (err = Some EINTR \<and> (\<forall>j \<ge> k. calls j = None \<or> calls j = Some EINTR))"
    proof
      assume a: "err = Some EINTR \<and> (\<forall>j \<ge> k. calls j = None \<or> calls j = Some EINTR)"
      then have "calls k = None \<or> calls k = Some EINTR" by simp
      then have "loop calls (Suc k) (Some EINTR) = Some r" using r a by (auto simp: Let_def)
      moreover have "\<forall>j \<ge> Suc k. calls j = None \<or> calls j = Some EINTR" using a Suc_leD by blast
      ultimately show False using IH by blast
    qed
  qed
  with assms show False by blast
qed

lemma raw_sysctl_first: "ob_calls env mib fill 0 \<noteq> Some EINTR \<Longrightarrow>
    raw_sysctl env mib fill = Some (case ob_calls env mib fill 0 of None \<Rightarrow> Ok () | Some e \<Rightarrow> Err e)"
  by (simp add: raw_sysctl_def sysctl_attempts_first)

text \<open>A walk over messages of positive length ends.\<close>

lemma rt_walk_ends:
  assumes "\<And>i. i < n \<Longrightarrow> rm_Msglen (rt_msg lay mem i) \<noteq> 0"
  shows "\<exists>r. rt_walk lay mem f n next netDev = Some r"
proof (induction "n - next" arbitrary: "next" netDev rule: less_induct)
  case less
  show ?case
  proof (cases "next < n")
    case True
    then have "0 < unat (rm_Msglen (rt_msg lay mem next))" using assms by (simp add: unat_gt_0)
    with True have "n - (next + unat (rm_Msglen (rt_msg lay mem next))) < n - next" by linarith
    then have "\<exists>r. rt_walk lay mem f n (next + unat (rm_Msglen (rt_msg lay mem next))) m = Some r" for m by (rule less)
    then show ?thesis using True by (subst rt_walk.simps) (auto split: res.splits)
  qed (subst rt_walk.simps, simp)
qed

lemma rt_walk_stuck:
  assumes "next < n" "rm_Msglen (rt_msg lay mem next) = 0" "\<And>m. \<exists>m'. rt_message lay mem f next m = Ok m'"
  shows "rt_walk lay mem f n next netDev = None"
proof (rule ccontr)
  assume "rt_walk lay mem f n next netDev \<noteq> None"
  then obtain r where r: "rt_walk lay mem f n next netDev = Some r" by auto
  have "\<not> (next < n \<and> rm_Msglen (rt_msg lay mem next) = 0 \<and> (\<forall>m. \<exists>m'. rt_message lay mem f next m = Ok m'))"
  proof (rule rt_walk.raw_induct [OF _ r, where P = "\<lambda>lay mem f n next netDev r.
      \<not> (next < n \<and> rm_Msglen (rt_msg lay mem next) = 0 \<and> (\<forall>m. \<exists>m'. rt_message lay mem f next m = Ok m'))"])
    fix loop and lay :: rtLayout and mem f n "next" netDev r
    assume IH: "\<And>lay mem f n next netDev r. loop lay mem f n next netDev = Some r \<Longrightarrow>
        \<not> (next < n \<and> rm_Msglen (rt_msg lay mem next) = 0 \<and> (\<forall>m. \<exists>m'. rt_message lay mem f next m = Ok m'))"
      and r: "(if next < n then
        (case rt_message lay mem f next netDev of
           Err e \<Rightarrow> Some (Err e)
         | Panic p \<Rightarrow> Some (Panic p)
         | Ok netDev' \<Rightarrow> loop lay mem f n (next + unat (rm_Msglen (rt_msg lay mem next))) netDev')
      else Some (Ok netDev)) = Some r"
    show "\<not> (next < n \<and> rm_Msglen (rt_msg lay mem next) = 0 \<and> (\<forall>m. \<exists>m'. rt_message lay mem f next m = Ok m'))"
    proof
      assume a: "next < n \<and> rm_Msglen (rt_msg lay mem next) = 0 \<and> (\<forall>m. \<exists>m'. rt_message lay mem f next m = Ok m')"
      then obtain m' where "rt_message lay mem f next netDev = Ok m'" by blast
      then have "loop lay mem f n next m' = Some r" using r a by simp
      with IH a show False by blast
    qed
  qed
  with assms show False by blast
qed

lemma of_le_signed_to_le:
  assumes "- (2 ^ 63) \<le> k" "k < 2 ^ 63"
  shows "of_le_signed (to_le 8 (nat (k mod 2 ^ 64))) = k"
proof -
  have "nat (k mod 2 ^ 64) < 256 ^ 8" by (simp add: nat_less_iff)
  then have "of_le (to_le 8 (nat (k mod 2 ^ 64))) = nat (k mod 2 ^ 64)" by (simp add: of_le_to_le)
  moreover have "k mod 2 ^ 64 = (if k < 0 then k + 2 ^ 64 else k)"
  proof (cases "k < 0")
    case True
    then have "(k + 2 ^ 64) mod 2 ^ 64 = k + 2 ^ 64" using assms by (intro mod_pos_pos_trivial) simp_all
    then show ?thesis using True by (simp only: mod_add_self2 if_True)
  next
    case False
    then have "k mod 2 ^ 64 = k" using assms by (intro mod_pos_pos_trivial) simp_all
    then show ?thesis using False by simp
  qed
  ultimately show ?thesis using assms by (simp add: of_le_signed_def Let_def split: if_splits)
qed

section \<open>Contracts\<close>

interpretation meminfo_openbsd: safe_collector_contract "\<lambda>(ord, u, b). meminfo_with ord (getMemInfo_openbsd u b)"
  "\<lambda>(ord, u, b). \<not> panics u \<and> \<not> panics b"
  by (rule safe_contractI) (auto simp: getMemInfo_openbsd_def panics_bind_res intro!: meminfo_with_sound)

text \<open>\<open>runs_safe\<close> says that a call, if it returns at all, does not panic.\<close>

definition runs_safe :: "'a res option \<Rightarrow> bool" where
  "runs_safe r \<longleftrightarrow> (\<forall>x. r = Some x \<longrightarrow> \<not> panics x)"

lemma runs_safe_Some [simp]: "runs_safe (Some r) \<longleftrightarrow> \<not> panics r"
  by (simp add: runs_safe_def)

lemma runs_safe_bind: "runs_safe r \<Longrightarrow> (\<And>x. r = Some (Ok x) \<Longrightarrow> runs_safe (f x)) \<Longrightarrow> runs_safe (bind_run r f)"
  by (cases "(r, f)" rule: bind_run.cases) (auto simp: runs_safe_def)

lemma runs_safe_fold: "(\<And>x s. x \<in> set xs \<Longrightarrow> runs_safe (f x s)) \<Longrightarrow> runs_safe (fold_run f xs s)"
  by (induction xs arbitrary: s) (auto intro!: runs_safe_bind)

lemma bind_run_Ok_iff: "bind_run r f = Some (Ok y) \<longleftrightarrow> (\<exists>x. r = Some (Ok x) \<and> f x = Some (Ok y))"
  by (cases "(r, f)" rule: bind_run.cases) auto

text \<open>What the controls must be for that: the kernel fills no more than it said, and no answer is empty.\<close>

definition openbsd_safe :: "openbsdEnv \<Rightarrow> bool" where
  "openbsd_safe env \<longleftrightarrow> (\<forall>mib. length (ob_data env mib) \<le> ob_size env mib \<and> ob_data env mib \<noteq> []) \<and>
     (\<forall>n. \<not> panics (ob_SysctlRaw env n) \<and> ob_SysctlRaw env n \<noteq> Ok [])"

lemma raw_sysctl_safe [simp]: "runs_safe (raw_sysctl env mib fill)"
  by (auto simp: raw_sysctl_def runs_safe_def split: option.splits)

lemma sysctl_openbsd_safe:
  assumes "openbsd_safe env"
  shows "runs_safe (sysctl_openbsd env mib)"
  unfolding sysctl_openbsd_def by (intro runs_safe_bind) (use assms in \<open>auto simp: openbsd_safe_def intro!: runs_safe_bind\<close>)

lemma sysctl_openbsd_filled:
  assumes "openbsd_safe env" "sysctl_openbsd env mib = Some (Ok b)"
  shows "b \<noteq> []"
proof -
  have f: "length (ob_data env mib) \<le> ob_size env mib" "ob_data env mib \<noteq> []" using assms(1) by (auto simp: openbsd_safe_def)
  then have "ob_size env mib \<noteq> 0" by (metis le_zero_eq length_0_conv)
  with assms(2) f show ?thesis by (auto simp: sysctl_openbsd_def bind_run_Ok_iff)
qed

lemma unsafe_read_filled: "openbsd_safe env \<Longrightarrow> sysctl_openbsd env mib = Some (Ok b) \<Longrightarrow> \<not> panics (unsafe_read mem b 0 n)"
  by (simp add: sysctl_openbsd_filled)

text \<open>Updates that return are described by their results.\<close>

interpretation meminfo_openbsd_amd64: safe_collector_contract "\<lambda>(ord, sz, read, env, r). meminfo_with ord r"
  "\<lambda>(ord, sz, read, env, r). openbsd_safe env \<and> getMemInfo_openbsd_amd64 sz read env = Some r"
proof (rule safe_contractI, clarify)
  fix ord :: "(string \<times> float64) list \<Rightarrow> (string \<times> float64) list" and sz :: nat and read :: "uint8 list \<Rightarrow> uvmexp" and env :: openbsdEnv and r
  assume env: "openbsd_safe env" and r: "getMemInfo_openbsd_amd64 sz read env = Some r"
  have "runs_safe (getMemInfo_openbsd_amd64 sz read env)"
    unfolding getMemInfo_openbsd_amd64_def using env env [unfolded openbsd_safe_def]
    by (intro runs_safe_bind sysctl_openbsd_safe) (auto dest: sysctl_openbsd_filled [OF env])
  then show "sound (meminfo_with ord r)" using r by (intro meminfo_with_sound) (simp add: runs_safe_def)
qed

lemma disk_desc_labels [simp]: "desc_labels (td_desc (disk_desc name help labels vt)) = labels"
  by (simp add: disk_desc_def)

lemmas common_disk_descs = readsCompletedDesc_def readBytesDesc_def writesCompletedDesc_def writtenBytesDesc_def ioTimeSecondsDesc_def
  readTimeSecondsDesc_def writeTimeSecondsDesc_def

text \<open>They are those of the table that the Linux collector uses.\<close>

lemma common_disk_descs_table:
  "set [readsCompletedDesc, readBytesDesc, writesCompletedDesc, writtenBytesDesc, ioTimeSecondsDesc, readTimeSecondsDesc, writeTimeSecondsDesc]
     \<subseteq> set disk_descs"
  by (simp add: common_disk_descs disk_descs_def)

lemma openbsd_disk_ok: "list_all labels_ok (openbsd_disk_metrics f d)"
  by (simp add: openbsd_disk_metrics_def common_disk_descs)

interpretation diskstats_openbsd: safe_collector_contract "\<lambda>(sz, read, env, f). diskstats_openbsd_Update sz read env f"
  "\<lambda>(sz, read, env, f). \<not> panics (ob_SysctlRaw env ''hw.diskstats'')"
  by (rule safe_contractI) (auto simp: diskstats_openbsd_Update_def openbsd_disk_ok intro!: sound_with_res sound_emit_concat)

interpretation diskstats_openbsd_amd64: safe_collector_contract "\<lambda>(env, f). diskstats_openbsd_amd64_Update env f"
  "\<lambda>(env, f). \<not> panics (ob_SysctlRaw env ''hw.diskstats'')"
  by (rule safe_contractI) (auto simp: diskstats_openbsd_amd64_Update_def openbsd_disk_ok intro!: sound_with_res sound_emit_concat)

lemma send_interrupts_ok: "m \<in> set (send_interrupts ord c interrupts) \<Longrightarrow> labels_ok m"
  by (auto simp: send_interrupts_def openbsd_interrupt_value_def interrupts_openbsd_desc_def Let_def split: if_splits)

lemma getInterrupts_openbsd_no_panic: "\<forall>i. \<not> panics (g i) \<Longrightarrow> \<not> panics (getInterrupts_openbsd n g)"
  unfolding getInterrupts_openbsd_def by (rule fold_res_no_panic) (auto simp: panics_bind_res)

interpretation interrupts_openbsd: safe_collector_contract "\<lambda>(ord, c, n, g). interrupts_openbsd_Update ord c n g"
  "\<lambda>(ord, c, n, g). \<forall>i. \<not> panics (g i)"
  by (rule safe_contractI)
    (auto simp: interrupts_openbsd_Update_def getInterrupts_openbsd_no_panic dest: send_interrupts_ok intro!: sound_with_res sound_emit)

interpretation interrupts_openbsd_amd64: safe_collector_contract "\<lambda>(ord, c, env, u). u"
  "\<lambda>(ord, c, env, u). openbsd_safe env \<and> interrupts_openbsd_amd64_Update ord c env = Some u"
proof (rule safe_contractI, clarify)
  fix ord c env u assume env: "openbsd_safe env" and u: "interrupts_openbsd_amd64_Update ord c env = Some u"
  have "runs_safe (intr env i)" for i
    unfolding intr_def using env by (intro runs_safe_bind sysctl_openbsd_safe) (auto dest: sysctl_openbsd_filled)
  moreover have "runs_safe (nintr env)"
    using sysctl_openbsd_safe [OF env, of "intrcnt [1]"] sysctl_openbsd_filled [OF env, of "intrcnt [1]"]
    by (auto simp: nintr_def runs_safe_def panics_bind_res split: option.splits res.splits)
  ultimately have "runs_safe (getInterrupts_openbsd_amd64 env)"
    unfolding getInterrupts_openbsd_amd64_def by (intro runs_safe_bind runs_safe_fold) (auto intro: runs_safe_bind)
  then show "sound u"
    using u by (auto simp: interrupts_openbsd_amd64_Update_def runs_safe_def dest: send_interrupts_ok intro!: sound_with_res sound_emit)
qed

text \<open>The network device collector with labels of one name: the descriptors it keeps stay so.\<close>

lemma netdev_with_sound:
  assumes "descs_have 1 c" "\<not> panics r" "\<not> panics (net_Interfaces env)"
  shows "descs_have 1 (fst (netdev_with env fl r c)) \<and> sound (snd (netdev_with env fl r c))"
proof -
  have a: "sound (netdev_addresses env fl c)"
    using assms(3) by (auto simp: netdev_addresses_def netAddressDesc_def intro!: sound_with_res sound_emit)
  show ?thesis
  proof (cases r)
    case (Ok netDev)
    obtain c' ms where s: "send_devices env fl [] (ord_devices env netDev) c = (c', ms)" by fastforce
    from send_devices_labels [OF this assms(1)] have "descs_have 1 c' \<and> list_all labels_ok ms" by (simp add: map_get_z_def)
    with s a show ?thesis by (simp add: netdev_with_def Ok)
  qed (use assms in \<open>simp_all add: netdev_with_def\<close>)
qed

lemma getifaddrs_panics:
  "panics (getifaddrs_stats AF stats ifap f) \<longleftrightarrow> (\<exists>ifs. ifap = Some ifs \<and> \<not> list_all (\<lambda>i. sa_family i \<noteq> None) ifs)"
proof (cases ifap)
  case (Some ifs)
  have "panics (fold_res (\<lambda>ifa netDev. case sa_family ifa of None \<Rightarrow> Panic ''nil pointer dereference''
      | Some family \<Rightarrow> Ok (if family \<noteq> AF \<or> ignored f (ifa_name ifa) then netDev else map_put (ifa_name ifa) (stats (ifa_data ifa)) netDev)) ifs m)
      \<longleftrightarrow> \<not> list_all (\<lambda>i. sa_family i \<noteq> None) ifs" for m
    by (induction ifs arbitrary: m) (auto split: option.splits)
  then show ?thesis by (simp add: getifaddrs_stats_def Some)
qed (simp add: getifaddrs_stats_def)

interpretation netdev_openbsd: safe_collector_contract "\<lambda>(AF, ifap, env, fl, c). snd (netdev_with env fl (getNetDevStats_openbsd AF ifap (nd_filter c)) c)"
  "\<lambda>(AF, ifap, env, fl, c). descs_have 1 c \<and> \<not> panics (net_Interfaces env) \<and> (\<forall>ifs. ifap = Some ifs \<longrightarrow> list_all (\<lambda>i. sa_family i \<noteq> None) ifs)"
  by (rule safe_contractI) (auto simp: getNetDevStats_openbsd_def getifaddrs_panics intro!: netdev_with_sound [THEN conjunct2])

interpretation netdev_bsd: safe_collector_contract "\<lambda>(AF, ifap, env, fl, c). snd (netdev_with env fl (getNetDevStats_bsd AF ifap (nd_filter c)) c)"
  "\<lambda>(AF, ifap, env, fl, c). descs_have 1 c \<and> \<not> panics (net_Interfaces env) \<and> (\<forall>ifs. ifap = Some ifs \<longrightarrow> list_all (\<lambda>i. sa_family i \<noteq> None) ifs)"
  by (rule safe_contractI) (auto simp: getNetDevStats_bsd_def getifaddrs_panics intro!: netdev_with_sound [THEN conjunct2])

section \<open>Properties\<close>

text \<open>
  C26: A system call that is interrupted once never comes back, however its repetitions end short of another error: its success does
  not clear the error of the first attempt.
\<close>

theorem sysctl_interrupted_forever:
  assumes "ob_calls env mib False 0 = Some EINTR" "\<And>k. ob_calls env mib False (Suc k) = None"
  shows "sysctl_openbsd env mib = None"
proof -
  have "sysctl_attempts (ob_calls env mib False) 1 (Some EINTR) = None"
    using assms(2) by (intro sysctl_attempts_stuck) (metis One_nat_def Suc_le_D)
  then have "sysctl_attempts (ob_calls env mib False) 0 None = None"
    using assms(1) by (subst sysctl_attempts.simps) simp
  then show ?thesis by (simp add: sysctl_openbsd_def raw_sysctl_def)
qed

definition demo_openbsd_env :: openbsdEnv where
  "demo_openbsd_env = \<lparr>ob_calls = (\<lambda>mib fill k. if k = 0 then Some EINTR else None), ob_size = (\<lambda>_. 1), ob_data = (\<lambda>_. [7]), ob_memory = (\<lambda>_. 0),
     ob_SysctlRaw = (\<lambda>_. Err EINTR)\<rparr>"

theorem sysctl_interrupted_forever_witness: "sysctl_openbsd demo_openbsd_env bcstats_mib = None"
  by (rule sysctl_interrupted_forever) (simp_all add: demo_openbsd_env_def)

text \<open>
  The walk over the routing messages of a buffer ends when every place in it would be read as a message of positive length, and
  never ends at a message of length zero.
\<close>

theorem rt_walk_length_zero:
  shows "((\<forall>i < n. rm_Msglen (rt_msg lay mem i) \<noteq> 0) \<longrightarrow> (\<exists>r. rt_walk lay mem f n 0 netDev = Some r)) \<and>
    (0 < n \<and> rm_Msglen (rt_msg lay mem 0) = 0 \<and> \<not> rm_interface (rt_msg lay mem 0) \<longrightarrow> rt_walk lay mem f n 0 netDev = None)"
proof (intro conjI impI)
  assume "\<forall>i < n. rm_Msglen (rt_msg lay mem i) \<noteq> 0"
  then show "\<exists>r. rt_walk lay mem f n 0 netDev = Some r" by (intro rt_walk_ends) simp
next
  assume "0 < n \<and> rm_Msglen (rt_msg lay mem 0) = 0 \<and> \<not> rm_interface (rt_msg lay mem 0)"
  then show "rt_walk lay mem f n 0 netDev = None" by (intro rt_walk_stuck) (simp_all add: rt_message_def Let_def)
qed

definition demo_layout :: rtLayout where
  "demo_layout = \<lparr>rt_msg = (\<lambda>mem i. \<lparr>rm_Msglen = ucast (mem i), rm_interface = False, rm_Hdrlen = 0, rm_has_ifp = False,
       rm_data = \<lparr>Ipackets = 0, Opackets = 0, Ibytes = 0, Obytes = 0, Ierrors = 0, Oerrors = 0, Iqdrops = 0, Oqdrops = 0, Imcasts = 0, Omcasts = 0,
         if_Collisions = 0, Noproto = 0\<rparr>\<rparr>),
     rt_datalink = (\<lambda>mem i. \<lparr>dl_link = False, dl_Data = [], dl_Nlen = 0\<rparr>)\<rparr>"

theorem rt_walk_length_zero_witness: "rt_walk demo_layout (\<lambda>_. 0) f 4 0 [] = None"
  using rt_walk_length_zero [of 4 demo_layout "\<lambda>_. 0" f "[]"] by (simp add: demo_layout_def)

text \<open>The bytes the kernel lays out for a disk, with what the collector does not look at.\<close>

definition DiskStats_bytes :: "openbsdDisk \<times> uint8 list \<times> uint64 \<times> uint8 list \<Rightarrow> uint8 list" where
  "DiskStats_bytes = (\<lambda>(d, busy, seek, stamps).
     map (\<lambda>c. of_nat (of_char c)) (od_Name d) @ replicate (16 - length (od_Name d)) 0 @ busy @
     to_le 8 (unat (od_Rxfer d)) @ to_le 8 (unat (od_Wxfer d)) @ to_le 8 (unat seek) @
     to_le 8 (unat (od_Rbytes d)) @ to_le 8 (unat (od_Wbytes d)) @ stamps @
     to_le 8 (nat (tv_sec (od_Time d) mod 2 ^ 64)) @ to_le 8 (nat (tv_usec (od_Time d) mod 2 ^ 64)))"

definition disk_ok :: "openbsdDisk \<times> uint8 list \<times> uint64 \<times> uint8 list \<Rightarrow> bool" where
  "disk_ok = (\<lambda>(d, busy, seek, stamps). length (od_Name d) \<le> 16 \<and> CHR 0x00 \<notin> set (od_Name d) \<and> length busy = 8 \<and> length stamps = 32 \<and>
     - (2 ^ 63) \<le> tv_sec (od_Time d) \<and> tv_sec (od_Time d) < 2 ^ 63 \<and> - (2 ^ 63) \<le> tv_usec (od_Time d) \<and> tv_usec (od_Time d) < 2 ^ 63)"

lemma DiskStats_bytes_length: "disk_ok d \<Longrightarrow> length (DiskStats_bytes d) = DiskStats_size"
  by (auto simp: disk_ok_def DiskStats_bytes_def DiskStats_size_def split: prod.splits)

lemma int8ToString_name:
  assumes "CHR 0x00 \<notin> set s"
  shows "int8ToString (map (\<lambda>c. of_nat (of_char c)) s @ replicate n 0) = s"
proof -
  have c: "of_char c < (256 :: nat)" for c :: char by simp
  have z: "(of_nat (of_char c) :: uint8) \<noteq> 0" if "c \<in> set s" for c
  proof
    assume "(of_nat (of_char c) :: uint8) = 0"
    then have "256 dvd (of_char c :: nat)" by (simp add: word_of_nat_eq_0_iff)
    then have "(of_char c :: nat) = 0" using c [of c] nat_dvd_not_less [of "of_char c" 256] by blast
    then have "char_of (of_char c :: nat) = char_of (0 :: nat)" by (simp only:)
    moreover have "char_of (0 :: nat) = CHR 0x00" by (simp add: char_of_def)
    ultimately have "c = CHR 0x00" by (simp only: char_of_char)
    with that assms show False by blast
  qed
  have "takeWhile (\<lambda>b. b \<noteq> 0) (map (\<lambda>c. of_nat (of_char c)) s @ replicate n 0) = (map (\<lambda>c. of_nat (of_char c)) s :: uint8 list)"
    using z by (subst takeWhile_append2) (auto simp: takeWhile_replicate)
  then show ?thesis by (simp add: int8ToString_def unat_of_nat o_def)
qed


text \<open>The fields of the structure, each at its place.\<close>

lemma DiskStats_decode:
  assumes "disk_ok (d, busy, seek, stamps)"
  shows "DiskStats (DiskStats_bytes (d, busy, seek, stamps)) = d"
proof -
  let ?n = "map (\<lambda>c. of_nat (of_char c)) (od_Name d) @ replicate (16 - length (od_Name d)) 0 :: uint8 list"
  let ?s = "DiskStats_bytes (d, busy, seek, stamps)"
  have l: "length ?n = 16" "length busy = 8" "length stamps = 32" using assms by (simp_all add: disk_ok_def)
  have s: "?s = ?n @ busy @ to_le 8 (unat (od_Rxfer d)) @ to_le 8 (unat (od_Wxfer d)) @ to_le 8 (unat seek) @
     to_le 8 (unat (od_Rbytes d)) @ to_le 8 (unat (od_Wbytes d)) @ stamps @
     to_le 8 (nat (tv_sec (od_Time d) mod 2 ^ 64)) @ to_le 8 (nat (tv_usec (od_Time d) mod 2 ^ 64))"
    by (simp only: DiskStats_bytes_def prod.case append_assoc)
  have "field ?s 0 16 = ?n" using l unfolding s field_def by simp
  moreover have "field ?s 24 8 = to_le 8 (unat (od_Rxfer d))" using l unfolding s field_def by simp
  moreover have "field ?s 32 8 = to_le 8 (unat (od_Wxfer d))" using l unfolding s field_def by simp
  moreover have "field ?s 48 8 = to_le 8 (unat (od_Rbytes d))" using l unfolding s field_def by simp
  moreover have "field ?s 56 8 = to_le 8 (unat (od_Wbytes d))" using l unfolding s field_def by simp
  moreover have "field ?s 96 8 = to_le 8 (nat (tv_sec (od_Time d) mod 2 ^ 64))" using l unfolding s field_def by simp
  moreover have "field ?s 104 8 = to_le 8 (nat (tv_usec (od_Time d) mod 2 ^ 64))" using l unfolding s field_def by simp
  moreover have "int8ToString ?n = od_Name d" using assms by (intro int8ToString_name) (simp add: disk_ok_def)
  moreover have "of_le_signed (to_le 8 (nat (tv_sec (od_Time d) mod 2 ^ 64))) = tv_sec (od_Time d)"
    "of_le_signed (to_le 8 (nat (tv_usec (od_Time d) mod 2 ^ 64))) = tv_usec (od_Time d)"
    using assms by (auto simp only: disk_ok_def prod.case intro!: of_le_signed_to_le)
  ultimately show ?thesis by (simp only: DiskStats_def Let_def of_le_uint64) simp
qed

text \<open>
  C25: The disks of OpenBSD on amd64, read field by field out of the bytes that the kernel lays out, are the disks it described; bytes
  after the last whole one are ignored.
\<close>

theorem diskstats_openbsd_exact:
  assumes "ob_SysctlRaw env ''hw.diskstats'' = Ok (concat (map DiskStats_bytes ds) @ rest)" "list_all disk_ok ds" "length rest < DiskStats_size"
  shows "diskstats_openbsd_amd64_Update env f = emit (concat (map (\<lambda>d. openbsd_disk_metrics f (fst d)) ds))"
proof -
  let ?b = "concat (map DiskStats_bytes ds) @ rest"
  have len: "list_all disk_ok ds \<Longrightarrow> length (concat (map DiskStats_bytes ds)) = DiskStats_size * length ds" for ds
    by (induction ds) (simp_all add: DiskStats_bytes_length)
  have at: "field (concat (map DiskStats_bytes ds) @ r) (DiskStats_size * i) DiskStats_size = DiskStats_bytes (ds ! i)"
    if "i < length ds" "list_all disk_ok ds" for ds r i
    using that
  proof (induction ds arbitrary: i)
    case (Cons d ds)
    then show ?case by (cases i) (simp_all add: field_def DiskStats_bytes_length)
  qed simp
  have n: "length ?b div DiskStats_size = length ds" using assms(3) by (simp add: len [OF assms(2)])
  have d: "DiskStats (DiskStats_bytes (ds ! i)) = fst (ds ! i)" if "i < length ds" for i
  proof -
    have "disk_ok (ds ! i)" using assms(2) that by (simp add: list_all_length)
    then show ?thesis by (cases "ds ! i") (simp add: DiskStats_decode)
  qed
  have "map (\<lambda>i. openbsd_disk_metrics f (DiskStats (field ?b (DiskStats_size * i) DiskStats_size))) [0..<length ds] =
      map (\<lambda>d. openbsd_disk_metrics f (fst d)) ds"
    by (rule nth_equalityI) (simp_all add: at [OF _ assms(2)] d)
  then show ?thesis by (simp only: diskstats_openbsd_amd64_Update_def assms(1) n with_res.simps)
qed

definition demo_openbsd_disk :: openbsdDisk where
  "demo_openbsd_disk = \<lparr>od_Name = ''sd0'', od_Rxfer = 1, od_Wxfer = 2, od_Rbytes = 512, od_Wbytes = 1024, od_Time = \<lparr>tv_sec = 3, tv_usec = 4\<rparr>\<rparr>"

theorem diskstats_openbsd_exact_witness:
  "diskstats_openbsd_amd64_Update (demo_openbsd_env\<lparr>ob_SysctlRaw := (\<lambda>_. Ok (DiskStats_bytes (demo_openbsd_disk, replicate 8 0, 5, replicate 32 0)))\<rparr>)
     \<lparr>ignorePattern = None, acceptPattern = None\<rparr> = emit (openbsd_disk_metrics \<lparr>ignorePattern = None, acceptPattern = None\<rparr> demo_openbsd_disk)"
  using diskstats_openbsd_exact [of "demo_openbsd_env\<lparr>ob_SysctlRaw := (\<lambda>_. Ok (DiskStats_bytes (demo_openbsd_disk, replicate 8 0, 5, replicate 32 0)))\<rparr>"
    "[(demo_openbsd_disk, replicate 8 0, 5, replicate 32 0)]" "[]"]
  by (simp add: disk_ok_def demo_openbsd_disk_def DiskStats_size_def)

end
