(* ===== verification/BsdFs.thy ===== *)
theory BsdFs
  imports OpenBsd Filesystem
begin

text \<open>
  File systems and block devices of the BSD systems and of Darwin: \<^verbatim>\<open>GetStats\<close> of \<^verbatim>\<open>filesystem_freebsd.go\<close>,
  \<^verbatim>\<open>filesystem_openbsd.go\<close>, \<^verbatim>\<open>filesystem_netbsd.go\<close>, \<^verbatim>\<open>filesystem_bsd.go\<close> (DragonFly) and \<^verbatim>\<open>filesystem_macos.go\<close>, and
  the collectors of \<^verbatim>\<open>devstat_freebsd.go\<close>, \<^verbatim>\<open>devstat_dragonfly.go\<close>, \<^verbatim>\<open>diskstats_darwin.go\<close> and \<^verbatim>\<open>netdev_darwin.go\<close>. What
  the system calls and the C functions fill in is the environment.
\<close>

section \<open>File systems\<close>

text \<open>One entry of the mount table: byte arrays for the names, flags, and numbers of whatever width by their values.\<close>

record mountStat =
  mn_onname :: string
  mn_fromname :: string
  mn_typename :: string
  mn_flags :: uint64
  mn_bsize :: int
  mn_blocks :: int
  mn_bfree :: int
  mn_bavail :: int
  mn_files :: int
  mn_ffree :: int

definition zero_mount :: mountStat where
  "zero_mount = \<lparr>mn_onname = [], mn_fromname = [], mn_typename = [], mn_flags = 0, mn_bsize = 0, mn_blocks = 0, mn_bfree = 0, mn_bavail = 0,
     mn_files = 0, mn_ffree = 0\<rparr>"

definition bsd_labels :: "string \<Rightarrow> string \<Rightarrow> string \<Rightarrow> filesystemLabels" where
  "bsd_labels dev mountpoint fstype = \<lparr>device = dev, mountPoint = mountpoint, fsType = fstype, mountOptions = [], superOptions = [],
     l_deviceError = [], major = [], minor = []\<rparr>"

text \<open>The statistics of an entry; \<open>strip\<close> is what becomes of the mount point, \<open>rdonly\<close> the flag of read-only mounts.\<close>

definition bsd_stats :: "(string \<Rightarrow> string) \<Rightarrow> uint64 \<Rightarrow> mountStat \<Rightarrow> filesystemStats" where
  "bsd_stats strip rdonly fs =
     (let times_bsize = (\<lambda>n. f64_mul (f64_of_int n) (f64_of_int (mn_bsize fs)))
      in (zeroStats (bsd_labels (ByteSliceToString (mn_fromname fs)) (strip (ByteSliceToString (mn_onname fs))) (ByteSliceToString (mn_typename fs))))
           \<lparr>fs_size := times_bsize (mn_blocks fs), fs_free := times_bsize (mn_bfree fs), fs_avail := times_bsize (mn_bavail fs),
            fs_files := f64_of_int (mn_files fs), filesFree := f64_of_int (mn_ffree fs),
            fs_ro := (if and (mn_flags fs) rdonly \<noteq> 0 then Fin 1 else Fin 0)\<rparr>)"

text \<open>The entries that the filters and the flags in \<open>ignore\<close> let through.\<close>

definition bsd_passes :: "filesystemCollector \<Rightarrow> uint64 \<Rightarrow> mountStat \<Rightarrow> bool" where
  "bsd_passes c ignore fs \<longleftrightarrow> \<not> ignored (mountPointFilter c) (ByteSliceToString (mn_onname fs)) \<and>
     \<not> ignored (fsTypeFilter c) (ByteSliceToString (mn_typename fs)) \<and> and (mn_flags fs) ignore = 0"

text \<open>
  FreeBSD and OpenBSD ask for the number of entries first and then fill a buffer of that length; how many entries the second
  call filled in is not looked at.
\<close>

record fsstatEnv =
  Getfsstat_count :: "nat res"
  Getfsstat :: "nat \<Rightarrow> mountStat list res"
  MNT_RDONLY :: uint64
  MNT_IGNORE :: uint64

definition fsstat_buffer :: "fsstatEnv \<Rightarrow> mountStat list res" where
  "fsstat_buffer env =
     bind_res (Getfsstat_count env) (\<lambda>n.
     bind_res (Getfsstat env n) (\<lambda>filled. Ok (take n (filled @ replicate n zero_mount))))"

definition GetStats_freebsd :: "fsstatEnv \<Rightarrow> paths \<Rightarrow> filesystemCollector \<Rightarrow> filesystemStats list res" where
  "GetStats_freebsd env p c =
     bind_res (fsstat_buffer env) (\<lambda>buf.
       Ok (map (bsd_stats (rootfsStripPrefix p) (MNT_RDONLY env)) (filter (bsd_passes c (MNT_IGNORE env)) buf)))"

definition GetStats_openbsd :: "fsstatEnv \<Rightarrow> filesystemCollector \<Rightarrow> filesystemStats list res" where
  "GetStats_openbsd env c =
     bind_res (fsstat_buffer env) (\<lambda>mnt. Ok (map (bsd_stats (\<lambda>m. m) (MNT_RDONLY env)) (filter (bsd_passes c 0) mnt)))"

text \<open>
  NetBSD repeats both calls until the second finds as many entries as the first: \<open>tries k\<close> is what the \<open>k\<close>-th round gives, the
  two numbers and the entries, or the number of an error. \<^verbatim>\<open>string(errno)\<close> is the character of that number.
\<close>

definition rune_string :: "nat \<Rightarrow> string" where
  "rune_string n = [char_of n]"

partial_function (option) getvfsstat :: "(nat \<Rightarrow> nat + nat \<times> (nat + nat \<times> mountStat list)) \<Rightarrow> nat \<Rightarrow> mountStat list res option" where
  "getvfsstat tries k =
     (case tries k of
        Inl errno \<Rightarrow> Some (Err (Errorf ''getvfsstat: %s'' [rune_string errno]))
      | Inr (r1, second) \<Rightarrow>
          if r1 = 0 then Some (Panic ''index out of range'')
          else case second of
                 Inl errno \<Rightarrow> Some (Err (Errorf ''getvfsstat: %s'' [rune_string errno]))
               | Inr (r2, mnt) \<Rightarrow> if r1 = r2 then Some (Ok (take r1 (mnt @ replicate r1 zero_mount))) else getvfsstat tries (Suc k))"

definition GetStats_netbsd :: "bool \<Rightarrow> (nat \<Rightarrow> nat + nat \<times> (nat + nat \<times> mountStat list)) \<Rightarrow> uint64 \<Rightarrow> filesystemCollector \<Rightarrow> filesystemStats list res option" where
  "GetStats_netbsd abi tries rdonly c =
     (if \<not> abi then Some (Err (Errorf ''getvfsstat: ABI mismatch'' []))
      else map_option (\<lambda>r. bind_res r (\<lambda>mnt. Ok (map (bsd_stats (\<lambda>m. m) rdonly) (filter (bsd_passes c 0) mnt)))) (getvfsstat tries 0))"

text \<open>
  DragonFly and Darwin let the C library make the table, none of which is no entries; it is seen through an array of \<open>2 ^ 20\<close>
  entries.
\<close>

definition getmntinfo :: "mountStat list \<Rightarrow> mountStat list res" where
  "getmntinfo mntbuf =
     (if mntbuf = [] then Err (NewError ''getmntinfo() failed'')
      else if length mntbuf > 2 ^ 20 then Panic ''index out of range'' else Ok mntbuf)"

definition GetStats_dragonfly :: "mountStat list \<Rightarrow> paths \<Rightarrow> filesystemCollector \<Rightarrow> filesystemStats list res" where
  "GetStats_dragonfly mntbuf p c =
     bind_res (getmntinfo mntbuf) (\<lambda>mnt. Ok (map (bsd_stats (rootfsStripPrefix p) 1) (filter (bsd_passes c 0) mnt)))"

definition GetStats_macos :: "(string \<Rightarrow> float64) \<Rightarrow> mountStat list \<Rightarrow> paths \<Rightarrow> filesystemCollector \<Rightarrow> filesystemStats list res" where
  "GetStats_macos C_purgeable mntbuf p c =
     bind_res (getmntinfo mntbuf) (\<lambda>mnt. Ok (map (\<lambda>fs. (bsd_stats (rootfsStripPrefix p) 1 fs)\<lparr>purgeable := C_purgeable (ByteSliceToString (mn_onname fs))\<rparr>)
       (filter (bsd_passes c 0) mnt)))"

text \<open>\<^verbatim>\<open>Update\<close> of \<^verbatim>\<open>filesystem_common.go\<close> over any \<^verbatim>\<open>GetStats\<close>.\<close>

definition fs_with :: "filesystemStats list res \<Rightarrow> upd" where
  "fs_with r = with_res r (\<lambda>stats. emit (send_stats [] stats))"

section \<open>Device statistics\<close>

definition devstat_desc :: "string \<Rightarrow> string \<Rightarrow> string list \<Rightarrow> typedDesc" where
  "devstat_desc name help labels = \<lparr>td_desc = NewDesc (BuildFQName namespace ''devstat'' name) help labels, td_valueType = CounterValue\<rparr>"

record devstat =
  dv_device :: string
  dv_unit :: int
  bytes_read :: uint64
  bytes_write :: uint64
  transfers_other :: uint64
  transfers_read :: uint64
  transfers_write :: uint64
  duration_other :: float64
  duration_read :: float64
  duration_write :: float64
  dv_busyTime :: float64
  dv_blocks :: uint64

definition devstat_freebsd_metrics :: "devstat \<Rightarrow> metric list" where
  "devstat_freebsd_metrics s =
     (let dev = dv_device s @ Itoa (dv_unit s);
          bytes = devstat_desc ''bytes_total'' ''The total number of bytes in transactions.'' [''device'', ''type''];
          transfers = devstat_desc ''transfers_total'' ''The total number of transactions.'' [''device'', ''type''];
          duration = devstat_desc ''duration_seconds_total'' ''The total duration of transactions in seconds.'' [''device'', ''type''];
          u = (\<lambda>v :: uint64. f64_of_nat (unat v))
      in [mustNewConstMetric bytes (u (bytes_read s)) [dev, ''read''], mustNewConstMetric bytes (u (bytes_write s)) [dev, ''write''],
          mustNewConstMetric transfers (u (transfers_other s)) [dev, ''other''], mustNewConstMetric transfers (u (transfers_read s)) [dev, ''read''],
          mustNewConstMetric transfers (u (transfers_write s)) [dev, ''write''],
          mustNewConstMetric duration (duration_other s) [dev, ''other''], mustNewConstMetric duration (duration_read s) [dev, ''read''],
          mustNewConstMetric duration (duration_write s) [dev, ''write''],
          mustNewConstMetric (devstat_desc ''busy_time_seconds_total''
            ''Total time the device had one or more transactions outstanding in seconds.'' [''device'']) (dv_busyTime s) [dev],
          mustNewConstMetric (devstat_desc ''blocks_transferred_total'' ''The total number of blocks transferred.'' [''device'']) (u (dv_blocks s)) [dev]])"

text \<open>\<open>None\<close>: the C function returned -1.\<close>

definition devstat_freebsd_Update :: "devstat list option \<Rightarrow> upd" where
  "devstat_freebsd_Update get_stats =
     (case get_stats of
        None \<Rightarrow> fail (NewError ''devstat_getdevs failed'')
      | Some stats \<Rightarrow> emit (concat (map devstat_freebsd_metrics stats)))"

record dragonflyStat =
  df_device :: string
  df_unit :: int
  df_bytes :: uint64
  df_transfers :: uint64
  df_blocks :: uint64

definition devstat_dragonfly_metrics :: "dragonflyStat \<Rightarrow> metric list" where
  "devstat_dragonfly_metrics s =
     (let dev = df_device s @ Itoa (df_unit s); u = (\<lambda>v :: uint64. f64_of_nat (unat v)) in
      [mustNewConstMetric (devstat_desc ''bytes_total'' ''The total number of bytes transferred for reads and writes on the device.'' [''device''])
         (u (df_bytes s)) [dev],
       mustNewConstMetric (devstat_desc ''transfers_total'' ''The total number of transactions completed.'' [''device'']) (u (df_transfers s)) [dev],
       mustNewConstMetric (devstat_desc ''blocks_total'' ''The total number of bytes given in terms of the devices blocksize.'' [''device''])
         (u (df_blocks s)) [dev]])"

definition devstat_dragonfly_Update :: "int \<Rightarrow> (nat \<Rightarrow> dragonflyStat) \<Rightarrow> upd" where
  "devstat_dragonfly_Update get_ndevs get_stats =
     (if get_ndevs = - 1 then fail (NewError ''getdevs() failed'')
      else if get_ndevs = - 2 then fail (NewError ''calloc() failed'')
      else emit (concat (map (\<lambda>i. devstat_dragonfly_metrics (get_stats i)) [0..<nat get_ndevs])))"

section \<open>Disks of Darwin\<close>

record driveStats =
  drv_Name :: string
  NumRead :: goint
  NumWrite :: goint
  BlockSize :: goint
  TotalReadTime :: int
  TotalWriteTime :: int
  BytesRead :: goint
  BytesWritten :: goint
  ReadErrors :: goint
  WriteErrors :: goint
  ReadRetries :: goint
  WriteRetries :: goint

definition darwin_disk_descs :: "(typedDesc \<times> (driveStats \<Rightarrow> float64)) list" where
  "darwin_disk_descs =
     (let d = (\<lambda>name help. disk_desc name help [''device''] CounterValue); f = (\<lambda>v :: goint. f64_of_int (sint v)) in
      [(readsCompletedDesc, \<lambda>s. f (NumRead s)),
       (d ''read_sectors_total'' ''The total number of sectors read successfully.'', \<lambda>s. f64_div (f (NumRead s)) (f (BlockSize s))),
       (readTimeSecondsDesc, \<lambda>s. duration_Seconds (TotalReadTime s)),
       (writesCompletedDesc, \<lambda>s. f (NumWrite s)),
       (d ''written_sectors_total'' ''The total number of sectors written successfully.'', \<lambda>s. f64_div (f (NumWrite s)) (f (BlockSize s))),
       (writeTimeSecondsDesc, \<lambda>s. duration_Seconds (TotalWriteTime s)),
       (readBytesDesc, \<lambda>s. f (BytesRead s)),
       (writtenBytesDesc, \<lambda>s. f (BytesWritten s)),
       (d ''read_errors_total'' ''The total number of read errors.'', \<lambda>s. f (ReadErrors s)),
       (d ''write_errors_total'' ''The total number of write errors.'', \<lambda>s. f (WriteErrors s)),
       (d ''read_retries_total'' ''The total number of read retries.'', \<lambda>s. f (ReadRetries s)),
       (d ''write_retries_total'' ''The total number of write retries.'', \<lambda>s. f (WriteRetries s))])"

definition diskstats_darwin_Update :: "driveStats list res \<Rightarrow> deviceFilter \<Rightarrow> upd" where
  "diskstats_darwin_Update ReadDriveStats f =
     with_res (map_err (Wrapf ''couldn't get diskstats: %w'' []) ReadDriveStats) (\<lambda>diskStats.
       emit (concat (map (\<lambda>s. map (\<lambda>(td, v). mustNewConstMetric td (v s) [drv_Name s]) darwin_disk_descs)
         (filter (\<lambda>s. \<not> ignored f (drv_Name s)) diskStats))))"

section \<open>Network devices of Darwin\<close>

text \<open>
  The message about an interface is 160 bytes, of which the last 128 are its data; the second call gives 180 bytes, of which the
  last 128 are the data again. \<^verbatim>\<open>binary.Read\<close> wants all of them.
\<close>

record darwinEnv =
  dn_Interfaces :: "(string \<times> int) list res"
  dn_SysctlRaw :: "int \<Rightarrow> uint8 list res"
  dn_sysctl_mib :: "int32 \<Rightarrow> uint8 list option"

definition ErrUnexpectedEOF :: error where "ErrUnexpectedEOF = NewError ''unexpected EOF''"
definition EOF_error :: error where "EOF_error = NewError ''EOF''"

definition binary_Read :: "nat \<Rightarrow> uint8 list \<Rightarrow> uint8 list res" where
  "binary_Read n b = (if b = [] then Err EOF_error else if length b < n then Err ErrUnexpectedEOF else Ok (take n b))"

definition ifData64 :: "uint8 list \<Rightarrow> if_data" where
  "ifData64 s =
     (let w = (\<lambda>off. of_nat (of_le (field s off 8)) :: uint64) in
      \<lparr>Ipackets = w 24, Opackets = w 40, Ibytes = w 64, Obytes = w 72, Ierrors = w 32, Oerrors = w 48, Iqdrops = w 96, Oqdrops = 0,
       Imcasts = w 80, Omcasts = w 88, if_Collisions = w 56, Noproto = w 104\<rparr>)"

text \<open>When the second call fails, the first data are returned as they are: the error that is returned is the one of before.\<close>

definition getIfaceData :: "darwinEnv \<Rightarrow> int \<Rightarrow> if_data res" where
  "getIfaceData env ifindex =
     bind_res (dn_SysctlRaw env ifindex) (\<lambda>rawData.
     bind_res (binary_Read 160 rawData) (\<lambda>msg.
       let dat = ifData64 (field msg 32 128) in
       case dn_sysctl_mib env (word_of_int ifindex) of
         None \<Rightarrow> Ok dat
       | Some mibData \<Rightarrow>
           bind_res (binary_Read 128 (field mibData 52 128)) (\<lambda>s.
             let ifdata = ifData64 s in Ok (dat\<lparr>Ibytes := Ibytes ifdata, Obytes := Obytes ifdata\<rparr>))))"

definition darwin_dev_stats :: "if_data \<Rightarrow> devStats" where
  "darwin_dev_stats d =
     [(''receive_packets'', Ipackets d), (''transmit_packets'', Opackets d), (''receive_bytes'', Ibytes d), (''transmit_bytes'', Obytes d),
      (''receive_errors'', Ierrors d), (''transmit_errors'', Oerrors d), (''receive_dropped'', Iqdrops d), (''receive_multicast'', Imcasts d),
      (''transmit_multicast'', Omcasts d), (''collisions'', if_Collisions d), (''noproto'', Noproto d)]"

definition getNetDevStats_darwin :: "darwinEnv \<Rightarrow> deviceFilter \<Rightarrow> netDevStats res" where
  "getNetDevStats_darwin env f =
     bind_res (map_err (Wrapf ''net.Interfaces() failed: %w'' []) (dn_Interfaces env)) (\<lambda>ifs.
       fold_res (\<lambda>(name, ifindex) netDev.
         if ignored f name then Ok netDev
         else case getIfaceData env ifindex of
                Err e \<Rightarrow> Ok netDev
              | Panic p \<Rightarrow> Panic p
              | Ok d \<Rightarrow> Ok (map_put name (darwin_dev_stats d) netDev)) ifs [])"

section \<open>Contracts\<close>

lemma fs_with_sound: "\<not> panics r \<Longrightarrow> sound (fs_with r)"
proof -
  have "list_all labels_ok (send_stats [] stats)" for stats
    using send_stats_subset [of _ "[]" stats] fs_metrics_ok by (auto simp: list_all_iff)
  then show "\<not> panics r \<Longrightarrow> sound (fs_with r)" unfolding fs_with_def by (intro sound_with_res) (auto simp: sound_def)
qed

lemma fsstat_buffer_panics: "panics (fsstat_buffer env) \<longleftrightarrow> panics (Getfsstat_count env) \<or> (\<exists>n. Getfsstat_count env = Ok n \<and> panics (Getfsstat env n))"
  by (auto simp: fsstat_buffer_def panics_bind_res)

interpretation fs_freebsd: safe_collector_contract "\<lambda>(env, p, c). fs_with (GetStats_freebsd env p c)"
  "\<lambda>(env, p, c). \<not> panics (Getfsstat_count env) \<and> (\<forall>n. \<not> panics (Getfsstat env n))"
  by (rule safe_contractI) (auto simp: GetStats_freebsd_def panics_bind_res fsstat_buffer_panics intro!: fs_with_sound)

interpretation fs_openbsd: safe_collector_contract "\<lambda>(env, c). fs_with (GetStats_openbsd env c)"
  "\<lambda>(env, c). \<not> panics (Getfsstat_count env) \<and> (\<forall>n. \<not> panics (Getfsstat env n))"
  by (rule safe_contractI) (auto simp: GetStats_openbsd_def panics_bind_res fsstat_buffer_panics intro!: fs_with_sound)

lemma getmntinfo_no_panic [simp]: "length mnt \<le> 2 ^ 20 \<Longrightarrow> \<not> panics (getmntinfo mnt)"
  unfolding getmntinfo_def by (simp only: not_less [symmetric] if_False if_True panics.simps not_False_eq_True split: if_split) simp

interpretation fs_dragonfly: safe_collector_contract "\<lambda>(mnt, p, c). fs_with (GetStats_dragonfly mnt p c)" "\<lambda>(mnt, p, c). length mnt \<le> 2 ^ 20"
  unfolding GetStats_dragonfly_def
  by (rule safe_contractI) (auto simp: panics_bind_res simp del: power_numeral dest: getmntinfo_no_panic intro!: fs_with_sound)

interpretation fs_macos: safe_collector_contract "\<lambda>(pg, mnt, p, c). fs_with (GetStats_macos pg mnt p c)" "\<lambda>(pg, mnt, p, c). length mnt \<le> 2 ^ 20"
  unfolding GetStats_macos_def
  by (rule safe_contractI) (auto simp: panics_bind_res simp del: power_numeral dest: getmntinfo_no_panic intro!: fs_with_sound)

interpretation devstat_freebsd: safe_collector_contract devstat_freebsd_Update "\<lambda>_. True"
  by (rule safe_contractI)
    (auto simp: devstat_freebsd_Update_def devstat_freebsd_metrics_def devstat_desc_def Let_def intro!: sound_emit_concat split: option.splits)

interpretation devstat_dragonfly: safe_collector_contract "\<lambda>(n, get). devstat_dragonfly_Update n get" "\<lambda>_. True"
  by (rule safe_contractI)
    (auto simp: devstat_dragonfly_Update_def devstat_dragonfly_metrics_def devstat_desc_def Let_def intro!: sound_emit_concat)

lemma darwin_disk_labels: "(td, v) \<in> set darwin_disk_descs \<Longrightarrow> desc_labels (td_desc td) = [''device'']"
  by (auto simp: darwin_disk_descs_def Let_def common_disk_descs)

lemma darwin_disk_metrics_ok [simp]: "list_all labels_ok (map (\<lambda>(td, v). mustNewConstMetric td (v s) [drv_Name s]) darwin_disk_descs)"
  by (auto simp: list_all_iff dest!: darwin_disk_labels)

interpretation diskstats_darwin: safe_collector_contract "\<lambda>(r, f). diskstats_darwin_Update r f" "\<lambda>(r, f). \<not> panics r"
  by (rule safe_contractI)
    (auto simp: diskstats_darwin_Update_def intro!: sound_with_res sound_emit_concat)

lemma binary_Read_no_panic [simp]: "\<not> panics (binary_Read n b)"
  by (simp add: binary_Read_def)

lemma getNetDevStats_darwin_panics:
  assumes "\<not> panics (dn_Interfaces env)" "\<forall>i. \<not> panics (dn_SysctlRaw env i)"
  shows "\<not> panics (getNetDevStats_darwin env f)"
proof -
  have "\<not> panics (getIfaceData env i)" for i using assms(2) by (auto simp: getIfaceData_def panics_bind_res Let_def split: option.splits)
  then have "getIfaceData env i \<noteq> Panic q" for i q by (metis panics.simps(1))
  then show ?thesis using assms(1)
    by (auto simp: getNetDevStats_darwin_def panics_bind_res intro!: fold_res_no_panic split: res.splits if_splits)
qed

interpretation netdev_darwin: safe_collector_contract "\<lambda>(denv, env, fl, c). snd (netdev_with env fl (getNetDevStats_darwin denv (nd_filter c)) c)"
  "\<lambda>(denv, env, fl, c). descs_have 1 c \<and> \<not> panics (net_Interfaces env) \<and> \<not> panics (dn_Interfaces denv) \<and> (\<forall>i. \<not> panics (dn_SysctlRaw denv i))"
  by (rule safe_contractI) (auto intro!: netdev_with_sound [THEN conjunct2] simp: getNetDevStats_darwin_panics)

section \<open>Properties\<close>

text \<open>
  When a file system is unmounted between the two calls of FreeBSD, an entry without a name, a device and a type is exported in its
  place, unless a filter happens to match the empty name or type.
\<close>

theorem freebsd_ghost_mounts:
  assumes "Getfsstat_count env = Ok n" "Getfsstat env n = Ok ms" "length ms \<le> n" "bsd_passes c (MNT_IGNORE env) zero_mount"
  shows "GetStats_freebsd env p c = Ok (map (bsd_stats (rootfsStripPrefix p) (MNT_RDONLY env)) (filter (bsd_passes c (MNT_IGNORE env)) ms) @
    replicate (n - length ms) (bsd_stats (rootfsStripPrefix p) (MNT_RDONLY env) zero_mount))"
  using assms by (simp add: GetStats_freebsd_def fsstat_buffer_def)

definition demo_fsstat :: fsstatEnv where
  "demo_fsstat = \<lparr>Getfsstat_count = Ok 1, Getfsstat = (\<lambda>n. Ok []), MNT_RDONLY = 1, MNT_IGNORE = 0x800000\<rparr>"

theorem freebsd_ghost_mounts_witness:
  "\<exists>s. GetStats_freebsd demo_fsstat default_paths
     \<lparr>mountPointFilter = \<lparr>ignorePattern = None, acceptPattern = None\<rparr>, fsTypeFilter = \<lparr>ignorePattern = None, acceptPattern = None\<rparr>\<rparr> = Ok [s] \<and>
     device (fs_labels s) = ''''"
  using freebsd_ghost_mounts [of demo_fsstat 1 "[]"
    "\<lparr>mountPointFilter = \<lparr>ignorePattern = None, acceptPattern = None\<rparr>, fsTypeFilter = \<lparr>ignorePattern = None, acceptPattern = None\<rparr>\<rparr>" default_paths]
  by (simp add: demo_fsstat_def bsd_passes_def ignored_def zero_mount_def bsd_stats_def zeroStats_def bsd_labels_def ByteSliceToString_def)

text \<open>
  C28: NetBSD retries instead: what it exports are the entries of the first round whose two calls agree on their number, however many
  rounds it took.
\<close>

theorem netbsd_mounts_consistent:
  assumes "\<And>i. i < k \<Longrightarrow> \<exists>r1 r2 ms. tries i = Inr (r1, Inr (r2, ms)) \<and> r1 \<noteq> 0 \<and> r1 \<noteq> r2"
    and "tries k = Inr (length ms, Inr (length ms, ms))" "ms \<noteq> []"
  shows "GetStats_netbsd True tries rdonly c = Some (Ok (map (bsd_stats (\<lambda>m. m) rdonly) (filter (bsd_passes c 0) ms)))"
proof -
  have "getvfsstat tries j = Some (Ok ms)" if "j \<le> k" for j
    using that
  proof (induction j rule: inc_induct)
    case base
    show ?case using assms(2,3) by (subst getvfsstat.simps) simp
  next
    case (step j)
    then obtain r1 r2 m where "tries j = Inr (r1, Inr (r2, m))" "r1 \<noteq> 0" "r1 \<noteq> r2" using assms(1) by blast
    with step.IH show ?case by (subst getvfsstat.simps) simp
  qed
  from this [of 0] show ?thesis by (simp add: GetStats_netbsd_def)
qed

theorem netbsd_mounts_consistent_witness:
  "\<forall>c. GetStats_netbsd True (\<lambda>i. if i = 0 then Inr (2, Inr (1, [zero_mount])) else Inr (1, Inr (1, [zero_mount]))) 1 c =
     Some (Ok (map (bsd_stats (\<lambda>m. m) 1) (filter (bsd_passes c 0) [zero_mount])))"
  by (intro allI netbsd_mounts_consistent [of 1]) auto

text \<open>
  On Darwin the bytes of an interface come from the second call when it works and silently from the first, which the kernel
  truncates, when it does not; all else comes from the first.
\<close>

theorem darwin_bytes_source:
  assumes "dn_SysctlRaw env i = Ok raw" "160 \<le> length raw" "dn_sysctl_mib env (word_of_int i) = m" "\<And>b. m = Some b \<Longrightarrow> length b = 180"
  shows "getIfaceData env i = Ok (let d = ifData64 (field raw 32 128) in
    case m of None \<Rightarrow> d | Some b \<Rightarrow> d\<lparr>Ibytes := of_nat (of_le (field b 116 8)), Obytes := of_nat (of_le (field b 124 8))\<rparr>)"
proof -
  have r: "binary_Read 160 raw = Ok (take 160 raw)" using assms(2) by (auto simp: binary_Read_def)
  have f: "field (take 160 raw) 32 128 = field raw 32 128" by (simp add: field_def drop_take)
  show ?thesis
  proof (cases m)
    case (Some b)
    then have b: "length b = 180" using assms(4) by simp
    then have l: "length (field b 52 128) = 128" by (simp add: field_def)
    then have "binary_Read 128 (field b 52 128) = Ok (field b 52 128)" by (auto simp: binary_Read_def)
    moreover have "field (field b 52 128) 64 8 = field b 116 8" "field (field b 52 128) 72 8 = field b 124 8"
      by (simp_all add: field_def drop_take add.commute)
    ultimately show ?thesis using assms(1,3) Some by (simp add: getIfaceData_def r f Let_def ifData64_def)
  qed (use assms(1,3) in \<open>simp add: getIfaceData_def r f Let_def\<close>)
qed

definition demo_darwin :: darwinEnv where
  "demo_darwin = \<lparr>dn_Interfaces = Ok [(''en0'', 1)], dn_SysctlRaw = (\<lambda>_. Ok (replicate 160 1)), dn_sysctl_mib = (\<lambda>_. Some (replicate 180 2))\<rparr>"

lemma field_replicate [simp]: "off + n \<le> k \<Longrightarrow> field (replicate k b) off n = replicate n b"
  by (simp add: field_def min_absorb1)

theorem darwin_bytes_source_witness:
  "\<exists>d. getIfaceData demo_darwin 1 = Ok d \<and> Ipackets d = of_nat (of_le (replicate 8 1)) \<and> Ibytes d = of_nat (of_le (replicate 8 2))"
  using darwin_bytes_source [of demo_darwin 1 "replicate 160 1" "Some (replicate 180 2)"] by (simp add: Let_def ifData64_def demo_darwin_def)

end
