(* ===== verification/SolarisAix.thy ===== *)
theory SolarisAix
  imports BsdFs BsdCpu Energy
begin

text \<open>
  The collectors of Solaris (\<^verbatim>\<open>boot_time_solaris.go\<close>, \<^verbatim>\<open>cpu_solaris.go\<close>, \<^verbatim>\<open>cpufreq_solaris.go\<close>, \<^verbatim>\<open>loadavg_solaris.go\<close>,
  \<^verbatim>\<open>zfs_solaris.go\<close>) and of AIX (\<^verbatim>\<open>cpu_aix.go\<close>, \<^verbatim>\<open>diskstats_aix.go\<close>, \<^verbatim>\<open>filesystem_aix.go\<close>, \<^verbatim>\<open>loadavg_aix.go\<close>,
  \<^verbatim>\<open>meminfo_aix.go\<close>, \<^verbatim>\<open>netdev_aix.go\<close>, \<^verbatim>\<open>netinterface_aix.go\<close>, \<^verbatim>\<open>partition_aix.go\<close>). The packages \<^verbatim>\<open>go-kstat\<close> and
  \<^verbatim>\<open>perfstat\<close> they read from are the environment.
\<close>

section \<open>Kernel statistics of Solaris\<close>

text \<open>\<open>Lookup\<close> gives a statistic by module, instance and name; a statistic gives its named values.\<close>

record kstatNamed =
  UintVal :: uint64
  IntVal :: goint

type_synonym kstat = "string \<Rightarrow> kstatNamed res"

record kstatEnv =
  kstat_Open :: "unit res"
  Lookup :: "string \<Rightarrow> int \<Rightarrow> string \<Rightarrow> kstat res"

definition kstat_Lookup :: "kstatEnv \<Rightarrow> string \<Rightarrow> int \<Rightarrow> string \<Rightarrow> kstat res" where
  "kstat_Lookup env modl inst name = bind_res (kstat_Open env) (\<lambda>_. Lookup env modl inst name)"

definition f64_u :: "uint64 \<Rightarrow> float64" where "f64_u v = f64_of_nat (unat v)"
definition f64_i :: "goint \<Rightarrow> float64" where "f64_i v = f64_of_int (sint v)"

definition boot_time_solaris_Update :: "kstatEnv \<Rightarrow> upd" where
  "boot_time_solaris_Update env =
     with_res (kstat_Lookup env ''unix'' 0 ''system_misc'') (\<lambda>ks.
     with_res (ks ''boot_time'') (\<lambda>v.
       emit [MustNewConstMetric (NewDesc (BuildFQName namespace [] ''boot_time_seconds'') ''Unix time of last boot, including microseconds.'' [])
         GaugeValue (f64_u (UintVal v)) []]))"

text \<open>\<open>ord\<close> is the order in which a CPU's modes are iterated.\<close>

definition solaris_modes :: "(string, string) gomap" where
  "solaris_modes = [(''idle'', ''cpu_nsec_idle''), (''kernel'', ''cpu_nsec_kernel''), (''user'', ''cpu_nsec_user''), (''wait'', ''cpu_nsec_wait'')]"

definition cpu_solaris_Update :: "(nat \<Rightarrow> (string, string) gomap \<Rightarrow> (string, string) gomap) \<Rightarrow> int \<Rightarrow> kstatEnv \<Rightarrow> upd" where
  "cpu_solaris_Update ord ncpus env =
     with_res (kstat_Open env) (\<lambda>_.
       foreach (\<lambda>cpu. with_res (Lookup env ''cpu'' (int cpu) ''sys'') (\<lambda>ksCPU.
         foreach (\<lambda>(k, v). with_res (ksCPU v) (\<lambda>kstatValue.
           emit [MustNewConstMetric nodeCPUSecondsDesc CounterValue (f64_div (f64_u (UintVal kstatValue)) (Fin 1000000000)) [Itoa (int cpu), k]]))
           (ord cpu solaris_modes))) [0..<nat ncpus])"

definition cpufreq_solaris_Update :: "bool \<Rightarrow> int \<Rightarrow> kstatEnv \<Rightarrow> upd" where
  "cpufreq_solaris_Update pre ncpus env =
     with_res (kstat_Open env) (\<lambda>_.
       foreach (\<lambda>cpu.
         with_res (Lookup env ''cpu_info'' (int cpu) (''cpu_info'' @ Itoa (int cpu))) (\<lambda>ksCPUInfo.
         with_res (ksCPUInfo ''current_clock_Hz'') (\<lambda>cpuFreqV.
         with_res (ksCPUInfo ''clock_MHz'') (\<lambda>cpuFreqMaxV.
           emit [MustNewConstMetric (cf_hertz (newCPUFreqDescs pre)) GaugeValue (f64_u (UintVal cpuFreqV)) [Itoa (int cpu)],
                 MustNewConstMetric (cf_maxHertz (newCPUFreqDescs pre)) GaugeValue (f64_mul (f64_i (IntVal cpuFreqMaxV)) (Fin 1000000))
                   [Itoa (int cpu)]])))) [0..<nat ncpus])"

text \<open>
  The load is printed with two decimals and parsed again. Every error on the way is a panic, so that what follows
  \<^verbatim>\<open>getLoad\<close> in \<^verbatim>\<open>loadavg.go\<close> never sees one.
\<close>

definition Sprintf_2f :: "float64 \<Rightarrow> string" where
  "Sprintf_2f x =
     (case x of
        NaN \<Rightarrow> ''NaN''
      | Inf neg \<Rightarrow> if neg then ''-Inf'' else ''+Inf''
      | NegZero \<Rightarrow> ''-0.00''
      | Fin r \<Rightarrow> let k = nat (round_half_even (\<bar>r\<bar> * 100)) in
          (if r < 0 then ''-'' else []) @ FormatUint (k div 100) @ ''.'' @ FormatUint (k mod 100 div 10) @ FormatUint (k mod 10))"

definition or_panic :: "'a res \<Rightarrow> 'a res" where
  "or_panic r = (case r of Err e \<Rightarrow> Panic ''error'' | _ \<Rightarrow> r)"

definition kstatToFloat :: "float64 \<Rightarrow> kstat \<Rightarrow> string \<Rightarrow> float64 res" where
  "kstatToFloat FSCALE ks kstatKey =
     bind_res (or_panic (ks kstatKey)) (\<lambda>kstatValue. or_panic (ParseFloat (Sprintf_2f (f64_div (f64_u (UintVal kstatValue)) FSCALE))))"

definition getLoad_solaris :: "float64 \<Rightarrow> kstatEnv \<Rightarrow> float64 list res" where
  "getLoad_solaris FSCALE env =
     bind_res (or_panic (kstat_Lookup env ''unix'' 0 ''system_misc'')) (\<lambda>ks.
     bind_res (kstatToFloat FSCALE ks ''avenrun_1min'') (\<lambda>l1.
     bind_res (kstatToFloat FSCALE ks ''avenrun_5min'') (\<lambda>l5.
     bind_res (kstatToFloat FSCALE ks ''avenrun_15min'') (\<lambda>l15. Ok [l1, l5, l15]))))"

section \<open>ZFS of Solaris\<close>

definition zfs_solaris_desc :: "string \<Rightarrow> string \<Rightarrow> desc" where
  "zfs_solaris_desc name help = NewDesc (BuildFQName namespace ''zfs'' name) help []"

definition abd_table :: "(string, desc) gomap" where
  "abd_table =
     [(''linear_cnt'', zfs_solaris_desc ''abdstats_linear_count_total'' ''ZFS ARC buffer data linear count''),
      (''linear_data_size'', zfs_solaris_desc ''abdstats_linear_data_bytes'' ''ZFS ARC buffer data linear data size''),
      (''scatter_chunk_waste'', zfs_solaris_desc ''abdstats_scatter_chunk_waste_bytes'' ''ZFS ARC buffer data scatter chunk waste''),
      (''scatter_cnt'', zfs_solaris_desc ''abdstats_scatter_count_total'' ''ZFS ARC buffer data scatter count''),
      (''scatter_data_size'', zfs_solaris_desc ''abdstats_scatter_data_bytes'' ''ZFS ARC buffer data scatter data size''),
      (''struct_size'', zfs_solaris_desc ''abdstats_struct_bytes'' ''ZFS ARC buffer data struct size'')]"

definition arc_table :: "(string, desc) gomap" where
  "arc_table =
     [(''anon_size'', zfs_solaris_desc ''arcstats_anon_bytes'' ''ZFS ARC anon size''),
      (''c'', zfs_solaris_desc ''arcstats_c_bytes'' ''ZFS ARC target size''),
      (''c_max'', zfs_solaris_desc ''arcstats_c_max_bytes'' ''ZFS ARC maximum size''),
      (''c_min'', zfs_solaris_desc ''arcstats_c_min_bytes'' ''ZFS ARC minimum size''),
      (''data_size'', zfs_solaris_desc ''arcstats_data_bytes'' ''ZFS ARC data size''),
      (''demand_data_hits'', zfs_solaris_desc ''arcstats_demand_data_hits_total'' ''ZFS ARC demand data hits''),
      (''demand_data_misses'', zfs_solaris_desc ''arcstats_demand_data_misses_total'' ''ZFS ARC demand data misses''),
      (''demand_metadata_hits'', zfs_solaris_desc ''arcstats_demand_metadata_hits_total'' ''ZFS ARC demand metadata hits''),
      (''demand_metadata_misses'', zfs_solaris_desc ''arcstats_demand_metadata_misses_total'' ''ZFS ARC demand metadata misses''),
      (''hdr_size'', zfs_solaris_desc ''arcstats_hdr_bytes'' ''ZFS ARC header size''),
      (''hits'', zfs_solaris_desc ''arcstats_hits_total'' ''ZFS ARC hits''),
      (''misses'', zfs_solaris_desc ''arcstats_misses_total'' ''ZFS ARC misses''),
      (''mfu_ghost_hits'', zfs_solaris_desc ''arcstats_mfu_ghost_hits_total'' ''ZFS ARC MFU ghost hits''),
      (''mfu_ghost_size'', zfs_solaris_desc ''arcstats_mfu_ghost_size'' ''ZFS ARC MFU ghost size''),
      (''mfu_size'', zfs_solaris_desc ''arcstats_mfu_bytes'' ''ZFS ARC MFU size''),
      (''mru_ghost_hits'', zfs_solaris_desc ''arcstats_mru_ghost_hits_total'' ''ZFS ARC MRU ghost hits''),
      (''mru_ghost_size'', zfs_solaris_desc ''arcstats_mru_ghost_bytes'' ''ZFS ARC MRU ghost size''),
      (''mru_size'', zfs_solaris_desc ''arcstats_mru_bytes'' ''ZFS ARC MRU size''),
      (''other_size'', zfs_solaris_desc ''arcstats_other_bytes'' ''ZFS ARC other size''),
      (''p'', zfs_solaris_desc ''arcstats_p_bytes'' ''ZFS ARC MRU target size''),
      (''size'', zfs_solaris_desc ''arcstats_size_bytes'' ''ZFS ARC size'')]"

definition fetch_table :: "(string, desc) gomap" where
  "fetch_table =
     [(''hits'', zfs_solaris_desc ''zfetchstats_hits_total'' ''ZFS cache fetch hits''),
      (''misses'', zfs_solaris_desc ''zfetchstats_misses_total'' ''ZFS cache fetch misses'')]"

text \<open>One of the three parts: every named value of its table, with a type that depends on the name.\<close>

definition zfs_solaris_part ::
  "((string, desc) gomap \<Rightarrow> (string, desc) gomap) \<Rightarrow> kstatEnv \<Rightarrow> string \<Rightarrow> (string, desc) gomap \<Rightarrow> (string \<Rightarrow> bool) \<Rightarrow> upd" where
  "zfs_solaris_part ord env name tbl is_counter =
     with_res (kstat_Lookup env ''zfs'' 0 name) (\<lambda>ksZFSInfo.
       foreach (\<lambda>(k, d). with_res (ksZFSInfo k) (\<lambda>v.
         emit [MustNewConstMetric d (if is_counter k then CounterValue else GaugeValue) (f64_u (UintVal v)) []])) (ord tbl))"

definition updateZfsAbdStats :: "((string, desc) gomap \<Rightarrow> (string, desc) gomap) \<Rightarrow> kstatEnv \<Rightarrow> upd" where
  "updateZfsAbdStats ord env = zfs_solaris_part ord env ''abdstats'' abd_table (\<lambda>k. HasSuffix k ''_cnt'')"

definition updateZfsArcStats :: "((string, desc) gomap \<Rightarrow> (string, desc) gomap) \<Rightarrow> kstatEnv \<Rightarrow> upd" where
  "updateZfsArcStats ord env = zfs_solaris_part ord env ''arcstats'' arc_table (\<lambda>k. HasSuffix k ''_hits'' \<or> HasSuffix k ''_misses'')"

definition updateZfsFetchStats :: "((string, desc) gomap \<Rightarrow> (string, desc) gomap) \<Rightarrow> kstatEnv \<Rightarrow> upd" where
  "updateZfsFetchStats ord env = zfs_solaris_part ord env ''zfetchstats'' fetch_table (\<lambda>k. True)"

definition zfs_solaris_Update :: "((string, desc) gomap \<Rightarrow> (string, desc) gomap) \<Rightarrow> kstatEnv \<Rightarrow> upd" where
  "zfs_solaris_Update ord env = seq (updateZfsAbdStats ord env) (seq (updateZfsArcStats ord env) (updateZfsFetchStats ord env))"

section \<open>CPUs of AIX\<close>

record aixCpu =
  ac_User :: goint
  ac_Sys :: goint
  ac_Idle :: goint
  ac_Wait :: goint
  ac_PIdle :: goint
  ac_PUser :: goint
  ac_PSys :: goint
  ac_PWait :: goint
  ac_RunQueue :: goint
  ac_SpurrFlag :: int
  ac_CSwitches :: goint

record cpuCollector_aix =
  tickPerSecond :: float64
  purrTicksPerSecond :: float64

text \<open>\<^verbatim>\<open>sysconf\<close> returns a number and an errno, which is not 0 when it failed.\<close>

definition get_tickPerSecond :: "int \<times> error option \<Rightarrow> float64 res" where
  "get_tickPerSecond = (\<lambda>(ticks, err).
     case err of
       Some e \<Rightarrow> Err (Flatf ''failed to get clock ticks per second: %v'' [] e)
     | None \<Rightarrow> if ticks = - 1 then Err (Errorf ''failed to get clock ticks per second: %v'' [''<nil>'']) else Ok (f64_of_int ticks))"

definition NewCpuCollector_aix :: "int \<times> error option \<Rightarrow> float64 res \<Rightarrow> cpuCollector_aix res" where
  "NewCpuCollector_aix sysconf ProcessorMhz =
     bind_res (get_tickPerSecond sysconf) (\<lambda>ticks.
     bind_res ProcessorMhz (\<lambda>mhz. Ok \<lparr>tickPerSecond = ticks, purrTicksPerSecond = f64_mul mhz (Fin 1000000)\<rparr>))"

definition nodeCPUPhysicalSecondsDesc :: desc where
  "nodeCPUPhysicalSecondsDesc = cpu_desc ''physical_seconds_total'' ''Seconds the physical CPUs spent in each mode.'' [''cpu'', ''mode'']"

definition nodeCPUSRunQueueDesc :: desc where
  "nodeCPUSRunQueueDesc = cpu_desc ''runqueue'' ''Length of the run queue.'' [''cpu'']"

definition nodeCPUFlagsDesc :: desc where
  "nodeCPUFlagsDesc = cpu_desc ''flags'' ''CPU flags.'' [''cpu'', ''flag'']"

definition nodeCPUContextSwitchDesc :: desc where
  "nodeCPUContextSwitchDesc = cpu_desc ''context_switches_total'' ''Number of context switches.'' [''cpu'']"

definition aix_cpu_metrics :: "cpuCollector_aix \<Rightarrow> nat \<times> aixCpu \<Rightarrow> metric list" where
  "aix_cpu_metrics c = (\<lambda>(n, stat).
     let i = Itoa (int n);
         cpu = (\<lambda>v mode. MustNewConstMetric nodeCPUSecondsDesc CounterValue (f64_div (f64_i v) (tickPerSecond c)) [i, mode]);
         phys = (\<lambda>v mode. MustNewConstMetric nodeCPUPhysicalSecondsDesc CounterValue (f64_div (f64_i v) (purrTicksPerSecond c)) [i, mode])
     in [cpu (ac_User stat) ''user'', cpu (ac_Sys stat) ''system'', cpu (ac_Idle stat) ''idle'', cpu (ac_Wait stat) ''wait'',
         phys (ac_PIdle stat) ''pidle'', phys (ac_PUser stat) ''puser'', phys (ac_PSys stat) ''psys'', phys (ac_PWait stat) ''pwait'',
         MustNewConstMetric nodeCPUSRunQueueDesc GaugeValue (f64_i (ac_RunQueue stat)) [i],
         MustNewConstMetric nodeCPUFlagsDesc GaugeValue (f64_of_int (ac_SpurrFlag stat)) [i, ''spurr''],
         MustNewConstMetric nodeCPUContextSwitchDesc CounterValue (f64_i (ac_CSwitches stat)) [i]])"

definition cpu_aix_Update :: "aixCpu list res \<Rightarrow> cpuCollector_aix \<Rightarrow> upd" where
  "cpu_aix_Update CpuStat c = with_res CpuStat (\<lambda>stats. emit (concat (map (aix_cpu_metrics c) (enumerate 0 stats))))"

section \<open>Disks, file systems, memory and load of AIX\<close>

record aixDisk =
  ad_Name :: string
  ad_Rblks :: goint
  ad_Wblks :: goint
  ad_Time :: goint
  ad_BSize :: goint
  ad_QDepth :: goint
  ad_Rserv :: goint
  ad_Wserv :: goint
  ad_Xfers :: goint
  ad_XRate :: goint

definition NewDiskstatsCollector_aix :: "int \<times> error option \<Rightarrow> diskstatsFlags \<Rightarrow> diskstatsFlags \<times> (float64 \<times> deviceFilter) res" where
  "NewDiskstatsCollector_aix sysconf fl =
     (case get_tickPerSecond sysconf of
        Err e \<Rightarrow> (fl, Err e)
      | Panic p \<Rightarrow> (fl, Panic p)
      | Ok ticks \<Rightarrow>
          let (fl', r) = newDiskstatsDeviceFilter fl
          in (fl', bind_res (map_err (Wrapf ''failed to parse device filter flags: %w'' []) r) (\<lambda>f. Ok (ticks, f))))"

text \<open>The blocks are multiplied as integers of 64 bits.\<close>

definition aix_disk_metrics :: "float64 \<Rightarrow> aixDisk \<Rightarrow> metric list" where
  "aix_disk_metrics ticks s =
     (let g = (\<lambda>name help. disk_desc name help [''device''] GaugeValue); c = (\<lambda>name help. disk_desc name help [''device''] CounterValue) in
      map (\<lambda>(td, v). mustNewConstMetric td v [ad_Name s])
        [(readBytesDesc, f64_i (ad_Rblks s * 512)),
         (writtenBytesDesc, f64_i (ad_Wblks s * 512)),
         (ioTimeSecondsDesc, f64_div (f64_i (ad_Time s)) ticks),
         (g ''block_size_bytes'' ''Size of the block device in bytes.'', f64_i (ad_BSize s)),
         (g ''queue_depth'' ''Number of requests in the queue.'', f64_i (ad_QDepth s)),
         (c ''read_time_seconds_total'' ''The total time spent servicing read requests.'', f64_div (f64_i (ad_Rserv s)) (Fin 1000000000)),
         (c ''write_time_seconds_total'' ''The total time spent servicing write requests.'', f64_div (f64_i (ad_Wserv s)) (Fin 1000000000)),
         (c ''transfers_total'' ''The total number of transfers to/from disk.'', f64_i (ad_Xfers s)),
         (c ''transfers_to_disk_total'' ''The total number of transfers from disk.'', f64_i (ad_XRate s))])"

definition diskstats_aix_Update :: "aixDisk list res \<Rightarrow> float64 \<Rightarrow> deviceFilter \<Rightarrow> upd" where
  "diskstats_aix_Update DiskStat ticks f =
     with_res DiskStat (\<lambda>stats. emit (concat (map (aix_disk_metrics ticks) (filter (\<lambda>s. \<not> ignored f (ad_Name s)) stats))))"

record aixFs =
  af_Device :: string
  af_MountPoint :: string
  af_TypeString :: string
  af_Flags :: uint32
  TotalBlocks :: goint
  FreeBlocks :: goint
  TotalInodes :: goint
  FreeInodes :: goint

definition aix_fs_stats :: "uint32 \<Rightarrow> aixFs \<Rightarrow> filesystemStats" where
  "aix_fs_stats VFS_READONLY s =
     (zeroStats (bsd_labels (af_Device s) (af_MountPoint s) (af_TypeString s)))
       \<lparr>fs_size := f64_i (TotalBlocks s * 512), fs_free := f64_i (FreeBlocks s * 512), fs_avail := f64_i (FreeBlocks s * 512),
        fs_files := f64_i (TotalInodes s), filesFree := f64_i (FreeInodes s),
        fs_ro := (if and (af_Flags s) VFS_READONLY \<noteq> 0 then Fin 1 else Fin 0)\<rparr>"

definition GetStats_aix :: "uint32 \<Rightarrow> aixFs list res \<Rightarrow> filesystemCollector \<Rightarrow> filesystemStats list res" where
  "GetStats_aix VFS_READONLY FileSystemStat c =
     bind_res FileSystemStat (\<lambda>fsStat. Ok (map (aix_fs_stats VFS_READONLY)
       (filter (\<lambda>s. \<not> ignored (mountPointFilter c) (af_MountPoint s) \<and> \<not> ignored (fsTypeFilter c) (af_TypeString s)) fsStat)))"

definition getLoad_aix :: "(float64 \<times> float64 \<times> float64) res \<Rightarrow> float64 list res" where
  "getLoad_aix CpuTotalStat = bind_res CpuTotalStat (\<lambda>(l1, l5, l15). Ok [l1, l5, l15])"

record aixMemory =
  RealTotal :: goint
  RealFree :: goint
  RealAvailable :: goint
  RealProcess :: goint
  PgSpTotal :: goint
  PgSpFree :: goint
  Scans :: goint

definition getMemInfo_aix :: "aixMemory res \<Rightarrow> (string, float64) gomap res" where
  "getMemInfo_aix MemoryTotalStat =
     bind_res MemoryTotalStat (\<lambda>s. Ok
       [(''total_bytes'', f64_i (RealTotal s * 4096)), (''free_bytes'', f64_i (RealFree s * 4096)),
        (''available_bytes'', f64_i (RealAvailable s * 4096)), (''process_bytes'', f64_i (RealProcess s * 4096)),
        (''paging_space_total_bytes'', f64_i (PgSpTotal s * 4096)), (''paging_space_free_bytes'', f64_i (PgSpFree s * 4096)),
        (''page_scans_total'', f64_i (Scans s))])"

section \<open>Networks and the partition of AIX\<close>

text \<open>The adapters are not filtered; the conversions to \<^verbatim>\<open>uint64\<close> keep the bits.\<close>

definition aix_adapter_fields :: "string list" where
  "aix_adapter_fields =
     [''receive_bytes'', ''receive_dropped'', ''receive_errors'', ''receive_multicast'', ''receive_packets'', ''receive_collision_errors'',
      ''transmit_bytes'', ''transmit_dropped'', ''transmit_errors'', ''transmit_multicast'', ''transmit_packets'', ''transmit_queue_overflow'',
      ''transmit_collision_single_errors'', ''transmit_collision_multiple_errors'']"

record aixAdapter =
  aa_Name :: string
  RxBytes :: goint
  RxPacketsDropped :: goint
  RxErrors :: goint
  RxMulticastPackets :: goint
  RxPackets :: goint
  RxCollisionErrors :: goint
  TxBytes :: goint
  TxPacketsDropped :: goint
  TxErrors :: goint
  TxMulticastPackets :: goint
  TxPackets :: goint
  TxQueueOverflow :: goint
  TxSingleCollisionCount :: goint
  TxMultipleCollisionCount :: goint

definition aix_dev_stats :: "aixAdapter \<Rightarrow> devStats" where
  "aix_dev_stats s =
     zip aix_adapter_fields
       [RxBytes s, RxPacketsDropped s, RxErrors s, RxMulticastPackets s, RxPackets s, RxCollisionErrors s, TxBytes s, TxPacketsDropped s,
        TxErrors s, TxMulticastPackets s, TxPackets s, TxQueueOverflow s, TxSingleCollisionCount s, TxMultipleCollisionCount s]"

definition getNetDevStats_aix :: "aixAdapter list res \<Rightarrow> deviceFilter \<Rightarrow> netDevStats res" where
  "getNetDevStats_aix NetAdapterStat f =
     bind_res NetAdapterStat (\<lambda>stats. Ok (fold (\<lambda>s netDev. map_put (aa_Name s) (aix_dev_stats s) netDev) stats []))"

record aixIface =
  ai_Name :: string
  ai_Collisions :: goint
  ai_IBytes :: goint
  ai_IPackets :: goint
  ai_OBytes :: goint
  ai_OPackets :: goint

definition netinterface_desc :: "string \<Rightarrow> string \<Rightarrow> desc" where
  "netinterface_desc name help = NewDesc (BuildFQName namespace ''netinterface'' name) help [''interface'']"

definition aix_iface_metrics :: "aixIface \<Rightarrow> metric list" where
  "aix_iface_metrics s =
     map (\<lambda>(d, v). MustNewConstMetric d CounterValue (f64_i v) [ai_Name s])
       [(netinterface_desc ''collisions_total'' ''Total number of CSMA collisions on the interface.'', ai_Collisions s),
        (netinterface_desc ''receive_bytes_total'' ''Total number of bytes received on the interface.'', ai_IBytes s),
        (netinterface_desc ''receive_packets_total'' ''Total number of packets received on the interface.'', ai_IPackets s),
        (netinterface_desc ''transmit_bytes_total'' ''Total number of bytes transmitted on the interface.'', ai_OBytes s),
        (netinterface_desc ''transmit_packets_total'' ''Total number of packets transmitted on the interface.'', ai_OPackets s)]"

definition netinterface_aix_Update :: "aixIface list res \<Rightarrow> upd" where
  "netinterface_aix_Update NetIfaceStat = with_res NetIfaceStat (\<lambda>stats. emit (concat (map aix_iface_metrics stats)))"

record aixPartition =
  EntCapacity :: goint
  Mem_Max :: goint
  Mem_Online :: goint
  VCpus_Online :: goint
  NumProcessors_Online :: goint
  ActiveCpusInPool :: goint
  Conf_PowerSave :: bool
  SmtThreads :: goint

definition partition_metrics :: "aixPartition \<Rightarrow> metric list" where
  "partition_metrics s =
     (let mb = (\<lambda>v. f64_mul (f64_mul (f64_i v) (Fin 1024)) (Fin 1024)) in
      map (\<lambda>(name, help, v). MustNewConstMetric (NewDesc (BuildFQName namespace ''partition'' name) help []) GaugeValue v [])
        [(''entitled_capacity'', ''Entitled processor capacity of the partition in CPU units (e.g. 1.0 = one core).'', f64_div (f64_i (EntCapacity s)) (Fin 100)),
         (''memory_max'', ''Maximum memory of the partition in bytes.'', mb (Mem_Max s)),
         (''memory_online'', ''Online memory of the partition in bytes.'', mb (Mem_Online s)),
         (''cpus_online'', ''Number of online CPUs in the partition.'', f64_i (VCpus_Online s)),
         (''cpus_sys'', ''Number of physical CPUs in the system.'', f64_i (NumProcessors_Online s)),
         (''cpus_pool'', ''Number of physical CPUs in the pool.'', f64_i (ActiveCpusInPool s)),
         (''power_save_mode'', ''Power save mode of the partition (1 for enabled, 0 for disabled).'', if Conf_PowerSave s then Fin 1 else Fin 0),
         (''smt_threads'', ''Number of SMT threads per core.'', f64_i (SmtThreads s))])"

definition partition_aix_Update :: "aixPartition res \<Rightarrow> upd" where
  "partition_aix_Update PartitionStat = with_res PartitionStat (\<lambda>stats. emit (partition_metrics stats))"

section \<open>Contracts\<close>

text \<open>No statistic panics: the package returns errors.\<close>

definition kstat_pre :: "kstatEnv \<Rightarrow> bool" where
  "kstat_pre env \<longleftrightarrow> \<not> panics (kstat_Open env) \<and>
     (\<forall>m i n. \<not> panics (Lookup env m i n) \<and> (\<forall>ks. Lookup env m i n = Ok ks \<longrightarrow> (\<forall>v. \<not> panics (ks v))))"

lemma kstat_Lookup_pre:
  assumes "kstat_pre env"
  shows "\<not> panics (kstat_Lookup env m i n)" "kstat_Lookup env m i n = Ok ks \<Longrightarrow> \<not> panics (ks v)"
  using assms by (auto simp: kstat_Lookup_def kstat_pre_def panics_bind_res bind_res_Ok_iff)

lemma kstat_open_pre: "kstat_pre env \<Longrightarrow> \<not> panics (kstat_Open env)" "kstat_pre env \<Longrightarrow> \<not> panics (Lookup env m i n)"
  "kstat_pre env \<Longrightarrow> Lookup env m i n = Ok ks \<Longrightarrow> \<not> panics (ks v)"
  by (auto simp: kstat_pre_def)

interpretation boot_time_solaris: safe_collector_contract boot_time_solaris_Update kstat_pre
  by (rule safe_contractI) (auto simp: boot_time_solaris_Update_def kstat_Lookup_pre intro!: sound_with_res)

interpretation cpu_solaris: safe_collector_contract "\<lambda>(ord, n, env). cpu_solaris_Update ord n env" "\<lambda>(ord, n, env). kstat_pre env"
  by (rule safe_contractI)
    (auto simp: cpu_solaris_Update_def kstat_open_pre cpu_desc_defs intro!: sound_with_res sound_foreach)

lemma cpufreq_labels: "desc_labels (cf_hertz (newCPUFreqDescs pre)) = [''cpu'']" "desc_labels (cf_maxHertz (newCPUFreqDescs pre)) = [''cpu'']"
  by (simp_all add: newCPUFreqDescs_def Let_def)

interpretation cpufreq_solaris: safe_collector_contract "\<lambda>(pre, n, env). cpufreq_solaris_Update pre n env" "\<lambda>(pre, n, env). kstat_pre env"
  by (rule safe_contractI)
    (auto simp: cpufreq_solaris_Update_def kstat_open_pre cpufreq_labels intro!: sound_with_res sound_foreach sound_emit)

lemma zfs_solaris_tables: "list_all (\<lambda>(k, d). desc_labels d = []) (abd_table @ arc_table @ fetch_table)"
  by (simp add: abd_table_def arc_table_def fetch_table_def zfs_solaris_desc_def)

lemma zfs_solaris_part_sound:
  assumes "kstat_pre env" "list_all (\<lambda>(k, d). desc_labels d = []) tbl" "\<And>xs. set (ord xs) = set xs"
  shows "sound (zfs_solaris_part ord env name tbl P)"
proof -
  have "desc_labels d = []" if "(k, d) \<in> set (ord tbl)" for k d using that assms(2,3) by (auto simp: list_all_iff)
  then show ?thesis using assms(1) unfolding zfs_solaris_part_def
    by (intro sound_with_res sound_foreach) (auto simp: kstat_Lookup_pre intro!: sound_with_res sound_emit)
qed

interpretation zfs_solaris: safe_collector_contract "\<lambda>(ord, env). zfs_solaris_Update ord env" "\<lambda>(ord, env). kstat_pre env \<and> (\<forall>xs. set (ord xs) = set xs)"
  using zfs_solaris_tables
  by (intro safe_contractI)
    (auto simp: zfs_solaris_Update_def updateZfsAbdStats_def updateZfsArcStats_def updateZfsFetchStats_def intro!: sound_seq zfs_solaris_part_sound)

interpretation loadavg_solaris: safe_collector_contract "\<lambda>(FSCALE, env). loadavg_with (getLoad_solaris FSCALE env)"
  "\<lambda>(FSCALE, env). \<not> panics (getLoad_solaris FSCALE env)"
  by (rule safe_contractI) (auto simp: getLoad_solaris_def bind_res_Ok_iff intro!: loadavg_with_sound)

lemmas aix_cpu_descs = nodeCPUPhysicalSecondsDesc_def nodeCPUSRunQueueDesc_def nodeCPUFlagsDesc_def nodeCPUContextSwitchDesc_def cpu_desc_defs

lemma aix_cpu_metrics_ok [simp]: "list_all labels_ok (aix_cpu_metrics c x)"
  by (cases x) (simp add: aix_cpu_metrics_def Let_def aix_cpu_descs)

interpretation cpu_aix: safe_collector_contract "\<lambda>(r, c). cpu_aix_Update r c" "\<lambda>(r, c). \<not> panics r"
  by (rule safe_contractI) (auto simp: cpu_aix_Update_def intro!: sound_with_res sound_emit_concat)

lemma aix_disk_metrics_ok [simp]: "list_all labels_ok (aix_disk_metrics ticks s)"
  by (simp add: aix_disk_metrics_def Let_def common_disk_descs)

interpretation diskstats_aix: safe_collector_contract "\<lambda>(r, ticks, f). diskstats_aix_Update r ticks f" "\<lambda>(r, ticks, f). \<not> panics r"
  by (rule safe_contractI) (auto simp: diskstats_aix_Update_def intro!: sound_with_res sound_emit_concat)

interpretation fs_aix: safe_collector_contract "\<lambda>(ro, r, c). fs_with (GetStats_aix ro r c)" "\<lambda>(ro, r, c). \<not> panics r"
  by (rule safe_contractI) (auto simp: GetStats_aix_def panics_bind_res intro!: fs_with_sound)

interpretation loadavg_aix: safe_collector_contract "\<lambda>r. loadavg_with (getLoad_aix r)" "\<lambda>r. \<not> panics r"
  by (rule safe_contractI) (auto simp: getLoad_aix_def panics_bind_res bind_res_Ok_iff split: prod.splits intro!: loadavg_with_sound)

interpretation meminfo_aix: safe_collector_contract "\<lambda>(ord, r). meminfo_with ord (getMemInfo_aix r)" "\<lambda>(ord, r). \<not> panics r"
  by (rule safe_contractI) (auto simp: getMemInfo_aix_def panics_bind_res intro!: meminfo_with_sound)

interpretation netdev_aix: safe_collector_contract "\<lambda>(r, env, fl, c). snd (netdev_with env fl (getNetDevStats_aix r (nd_filter c)) c)"
  "\<lambda>(r, env, fl, c). descs_have 1 c \<and> \<not> panics (net_Interfaces env) \<and> \<not> panics r"
  by (rule safe_contractI) (auto simp: getNetDevStats_aix_def panics_bind_res intro!: netdev_with_sound [THEN conjunct2])

interpretation netinterface_aix: safe_collector_contract netinterface_aix_Update "\<lambda>r. \<not> panics r"
  by (rule safe_contractI)
    (auto simp: netinterface_aix_Update_def aix_iface_metrics_def netinterface_desc_def intro!: sound_with_res sound_emit_concat)

interpretation partition_aix: safe_collector_contract partition_aix_Update "\<lambda>r. \<not> panics r"
  by (rule safe_contractI) (auto simp: partition_aix_Update_def partition_metrics_def Let_def intro!: sound_with_res sound_emit)

section \<open>Numbers with two decimals\<close>

text \<open>Decimal digits with a point are read as the float nearest to the fraction they stand for.\<close>

lemma mant_loop_fraction:
  "list_all is_digit xs \<Longrightarrow> mant_loop False True saw m k xs =
     (saw \<or> xs \<noteq> [], fold (\<lambda>c n. n * 10 + (int (byte c) - 48)) xs m, k + length xs, [])"
proof (induction xs arbitrary: saw m k)
  case (Cons c xs)
  then have "is_digit c" by simp
  then have "c \<noteq> CHR ''_''" "c \<noteq> CHR ''.''" "digit_val c = Some (int (byte c) - 48)" by (auto simp: is_digit_def byte_def digit_val_def)
  then show ?case using Cons by simp
qed simp

lemma round_pos_le: "round_pos a \<le> a + pow2 (ulp_exp a)"
proof -
  have "of_int (round_half_even (a / pow2 (ulp_exp a))) \<le> a / pow2 (ulp_exp a) + 1"
  proof -
    have "of_int (round_half_even x) \<le> (of_int (\<lfloor>x\<rfloor> + 1) :: rat)" for x using round_half_even_bounds [of x] by (simp only: of_int_le_iff)
    moreover have "of_int (\<lfloor>x\<rfloor> + 1) \<le> x + 1" for x :: rat using of_int_floor_le [of x] by simp
    ultimately show ?thesis by (rule order_trans)
  qed
  then have "round_pos a \<le> (a / pow2 (ulp_exp a) + 1) * pow2 (ulp_exp a)" unfolding round_pos_def
    by (rule mult_right_mono) (rule less_imp_le, rule pow2_pos)
  then show ?thesis by (simp add: distrib_right)
qed

lemma round64_finite:
  assumes "0 < a" "a < pow2 64"
  obtains r where "round64 a = Fin r"
proof -
  have "pow2 (floor_log2 a) < pow2 64" using floor_log2_bounds [OF assms(1)] assms(2) by linarith
  then have "ulp_exp a \<le> 64" by (simp add: ulp_exp_def)
  then have "pow2 (ulp_exp a) \<le> pow2 64" by (simp only: pow2_le_iff)
  then have "round_pos a < pow2 64 + pow2 64" using round_pos_le [of a] assms(2) by linarith
  also have "pow2 64 + pow2 64 = pow2 65" by (simp add: pow2_def)
  also have "pow2 65 < pow2 1024" by simp
  finally have "\<not> pow2 1024 \<le> round_pos a" by simp
  then show ?thesis using that [of 0] that [of "round_pos a"] assms(1) by (cases "round_pos a = 0") (simp_all add: round64_def Let_def)
qed

lemma ParseFloat_hundredths:
  assumes "k < 2 ^ 64"
  shows "ParseFloat (FormatUint (k div 100) @ CHR ''.'' # FormatUint (k mod 100 div 10) @ FormatUint (k mod 10)) = Ok (round64 (of_nat k / 100))"
proof -
  define i where "i = FormatUint (k div 100)"
  define f where "f = FormatUint (k mod 100 div 10) @ FormatUint (k mod 10)"
  define s where "s = i @ CHR ''.'' # f"
  have di: "list_all is_digit i" and df: "list_all is_digit f" using FormatUint_digits by (auto simp: list_all_iff i_def f_def)
  have one: "length (FormatUint d) = 1" if "d < 10" for d using that by (subst FormatUint.simps) simp
  have lf: "length f = 2" by (simp add: f_def one)
  obtain c cs where i: "i = c # cs" by (cases i) (auto simp: i_def)
  have c: "is_digit c" "lower c = c" "c \<notin> {CHR ''n'', CHR ''i'', CHR ''+'', CHR ''-''}" using di by (auto simp: i is_digit_def lower_def byte_def)
  have sp: "special_float s = None" using c by (auto simp: special_float_def s_def i strip_sign_def)
  have st: "strip_sign s = s" "(hd s = CHR ''-'') = False" using c by (simp_all add: s_def i strip_sign_def)
  have "lower (s ! 1) \<noteq> CHR ''x''"
  proof (cases cs)
    case (Cons d ds)
    then have "is_digit d" using di i by simp
    then show ?thesis using i Cons by (auto simp: s_def is_digit_def lower_def byte_def)
  qed (simp add: s_def i lower_def byte_def)
  then have hex: "(2 < length s \<and> s ! 0 = CHR ''0'' \<and> lower (s ! 1) = CHR ''x'') = False" by blast
  have digit: "fold (\<lambda>c n. n * 10 + (int (byte c) - 48)) (FormatUint d) m = m * 10 + int d" if "d < 10" for d m
    using that by (subst FormatUint.simps) (simp add: byte_dec_digit)
  have gen: "d * 100 + m = j \<Longrightarrow> m = a * 10 + b \<Longrightarrow> j = (d * 10 + a) * 10 + b" for d m j a b :: nat by simp
  have "k mod 100 = k mod 100 div 10 * 10 + k mod 10" using div_mult_mod_eq [of "k mod 100" 10] by (simp add: mod_mod_cancel)
  then have "k = (k div 100 * 10 + k mod 100 div 10) * 10 + k mod 10" using gen [OF div_mult_mod_eq [of k 100]] by blast
  then have "int k = int ((k div 100 * 10 + k mod 100 div 10) * 10 + k mod 10)" by (rule arg_cong)
  then have "int k = (int (k div 100) * 10 + int (k mod 100 div 10)) * 10 + int (k mod 10)" by (simp only: of_nat_add of_nat_mult of_nat_numeral)
  moreover have "k mod 100 div 10 < 10" "k mod 10 < 10" by (simp_all add: less_mult_imp_div_less)
  ultimately have v: "fold (\<lambda>c n. n * 10 + (int (byte c) - 48)) f (int (k div 100)) = int k" unfolding f_def fold_append o_apply by (simp only: digit)
  have "mant_loop False False False 0 0 s = mant_loop False False True (int (k div 100)) 0 (CHR ''.'' # f)"
    unfolding s_def mant_loop_digits [OF di] using fold_FormatUint [of "k div 100"] by (simp add: i_def del: mant_loop.simps)
  then have m: "mant_loop False False False 0 0 s = (True, int k, 2, [])"
    using mant_loop_fraction [OF df, of True "int (k div 100)" 0] v lf by (simp del: FormatUint.simps)
  have u: "(CHR ''_'' \<in> set s) = False" using di df by (auto simp: s_def list_all_iff is_digit_def byte_def)
  have fv: "float_value False False (int k) 2 0 = round64 (of_nat k / 100)"
    by (simp add: float_value_def scale_pow_def f64_zero_def Let_def)
  obtain r where r: "round64 (of_nat k / 100) = Fin r"
  proof (cases "k = 0")
    case False
    have "of_nat k / 100 \<le> (of_nat k :: rat)" by (simp add: divide_simps)
    also have "\<dots> < of_nat (2 ^ 64)" using assms by (simp only: of_nat_less_iff)
    also have "\<dots> = pow2 64" by (simp add: pow2_def)
    finally show ?thesis using round64_finite [of "of_nat k / 100"] False that by auto
  qed (use that [of 0] in simp)
  have "ParseFloat s = Ok (round64 (of_nat k / 100))"
    unfolding ParseFloat_def Let_def sp st hex option.case simp_thms if_False m prod.case read_exp_def list.case u fv r float64.case ..
  then show ?thesis by (simp add: s_def i_def f_def)
qed

text \<open>A number below \<open>2 ^ 53\<close> over 256 is a float.\<close>

lemma f64_256ths: "n < 2 ^ 53 \<Longrightarrow> f64_div (f64_of_nat n) (Fin 256) = Fin (of_nat n / 256)"
proof (cases "n = 0")
  case False
  assume n: "n < 2 ^ 53"
  let ?a = "of_nat n / 256 :: rat" and ?e = "floor_log2 (of_nat n / 256)"
  have a: "0 < ?a" using False by simp
  have "of_nat n < (of_nat (2 ^ 53) :: rat)" using n by (simp only: of_nat_less_iff)
  then have "?a < pow2 45" by (simp add: pow2_def)
  then have "pow2 ?e < pow2 45" using floor_log2_bounds [OF a] by linarith
  then have e: "?e \<le> 44" by simp
  have "1 / 256 \<le> ?a" using False by (simp add: divide_simps)
  moreover have "pow2 (- 8) = 1 / 256" by (simp add: pow2_def)
  ultimately have "pow2 (- 8) < pow2 (?e + 1)" using floor_log2_bounds [OF a] by linarith
  then have e': "- 8 \<le> ?e" by simp
  have u: "ulp_exp ?a = ?e - 52" using e' by (simp add: ulp_exp_def)
  have "?a / pow2 (?e - 52) = of_nat n * (pow2 (- 8) / pow2 (?e - 52))" by (simp add: pow2_def)
  also have "\<dots> = of_nat n * pow2 (44 - ?e)" by (simp add: pow2_divide)
  also have "\<dots> = of_int (int n * 2 ^ nat (44 - ?e))" using e by (simp add: pow2_nat)
  finally have "round_pos ?a = ?a" using round_pos_exact [of ?a] u by metis
  moreover have "\<not> pow2 1024 \<le> ?a"
  proof -
    have "pow2 45 < pow2 1024" by simp
    then show ?thesis using \<open>?a < pow2 45\<close> by linarith
  qed
  ultimately have "round64 ?a = Fin ?a" using a by (simp add: round64_def Let_def)
  then show ?thesis using f64_of_nat_exact [of n] n False by (simp add: f64_div_def)
qed (simp add: f64_of_nat_def f64_of_int_def f64_div_def f64_zero_def)

section \<open>Properties\<close>

text \<open>
  C27: A load of Solaris is the number of 256ths in the kernel's statistic, rounded to hundredths as a decimal number, halves to even, and
  then to the nearest float; the detour over a string neither fails nor loses more than that.
\<close>

theorem kstatToFloat_hundredths:
  assumes "ks key = Ok v" "unat (UintVal v) < 2 ^ 53"
  shows "kstatToFloat (Fin 256) ks key = Ok (round64 (of_int (round_half_even (of_nat (unat (UintVal v)) / 256 * 100)) / 100))"
proof -
  define n where "n = unat (UintVal v)"
  let ?r = "of_nat n / 256 :: rat"
  have n: "n < 2 ^ 53" using assms(2) by (simp add: n_def)
  have r: "f64_div (f64_u (UintVal v)) (Fin 256) = Fin ?r" using f64_256ths [OF n] by (simp only: f64_u_def n_def)
  have "0 \<le> ?r * 100" by simp
  then have "0 \<le> \<lfloor>?r * 100\<rfloor>" by (simp only: zero_le_floor)
  then have k0: "0 \<le> round_half_even (?r * 100)" using round_half_even_bounds [of "?r * 100"] by linarith
  have "of_nat n < (of_nat (2 ^ 53) :: rat)" using n by (simp only: of_nat_less_iff)
  then have "?r * 100 < of_int (2 ^ 53)" by simp
  then have "\<lfloor>?r * 100\<rfloor> < 2 ^ 53" by (simp only: floor_less_iff)
  moreover have "a < 2 ^ 53 \<Longrightarrow> a \<le> b \<and> b \<le> a + 1 \<Longrightarrow> b < 2 ^ 64" for a b :: int by simp
  ultimately have "round_half_even (?r * 100) < 2 ^ 64" using round_half_even_bounds by blast
  then have "int (nat (round_half_even (?r * 100))) < int (2 ^ 64)" using k0 by simp
  then have "nat (round_half_even (?r * 100)) < 2 ^ 64" by (simp only: of_nat_less_iff)
  from ParseFloat_hundredths [OF this] k0 show ?thesis
    unfolding kstatToFloat_def assms(1) or_panic_def res.case bind_res.simps r n_def [symmetric] by (simp add: Sprintf_2f_def Let_def)
qed

theorem kstatToFloat_hundredths_witness:
  "kstatToFloat (Fin 256) (\<lambda>_. Ok \<lparr>UintVal = 300, IntVal = 0\<rparr>) ''avenrun_1min'' = Ok (round64 (117 / 100))"
  using kstatToFloat_hundredths [of "\<lambda>_. Ok \<lparr>UintVal = 300, IntVal = 0\<rparr>" "''avenrun_1min''" "\<lparr>UintVal = 300, IntVal = 0\<rparr>"]
  by (simp add: round_half_even_def Let_def floor_eq_iff [where a = 117, THEN iffD2])

text \<open>
  No error of Solaris' statistics is ever returned by \<^verbatim>\<open>getLoad\<close>: one that occurs ends the exporter.
\<close>

theorem getLoad_solaris_no_error:
  "getLoad_solaris FSCALE env \<noteq> Err e \<and> (kstat_Lookup env ''unix'' 0 ''system_misc'' = Err e' \<longrightarrow> panics (snd (loadavg_with (getLoad_solaris FSCALE env))))"
proof -
  have b: "bind_res r f \<noteq> Err e" if "r \<noteq> Err e" "\<And>x. f x \<noteq> Err e" for r :: "'x res" and f :: "'x \<Rightarrow> 'y res" and e using that by (cases r) auto
  have n: "or_panic r \<noteq> Err e" for r :: "'x res" and e by (cases r) (simp_all add: or_panic_def)
  have b2: "bind_res (or_panic r) f \<noteq> Err e" if "\<And>x. f x \<noteq> Err e" for r :: "kstat res" and f :: "kstat \<Rightarrow> float64 list res" and e
    using that by (cases r) (simp_all add: or_panic_def)
  have k: "kstatToFloat FSCALE ks k \<noteq> Err e" for ks k e
    by (cases "ks k"; cases "ParseFloat (Sprintf_2f (f64_div (f64_u (UintVal (case ks k of Ok v \<Rightarrow> v))) FSCALE))") (simp_all add: kstatToFloat_def or_panic_def)
  have "getLoad_solaris FSCALE env \<noteq> Err e" unfolding getLoad_solaris_def by (intro b2 b k) simp
  then show ?thesis by (auto simp: getLoad_solaris_def or_panic_def loadavg_with_def)
qed

theorem getLoad_solaris_no_error_witness:
  "panics (snd (loadavg_with (getLoad_solaris (Fin 256) \<lparr>kstat_Open = Err ErrPermission, Lookup = (\<lambda>_ _ _. Err ErrNotExist)\<rparr>)))"
  using getLoad_solaris_no_error [of "Fin 256" "\<lparr>kstat_Open = Err ErrPermission, Lookup = (\<lambda>_ _ _. Err ErrNotExist)\<rparr>" ErrNoData ErrPermission]
  by (simp add: kstat_Lookup_def)

text \<open>
  The bytes of an AIX disk are 512 times its blocks up to \<open>2 ^ 54\<close> of them, and wrap around beyond: at \<open>2 ^ 54\<close> blocks the counter is
  negative.
\<close>

lemma blocks_to_bytes:
  fixes b :: goint
  assumes "\<bar>sint b\<bar> < 2 ^ 54"
  shows "sint (b * 512) = 512 * sint b"
proof -
  have "b * 512 = word_of_int (sint b * 512)" by simp
  moreover have "signed_take_bit 63 (sint b * 512) = sint b * 512" using assms by (intro signed_take_bit_int_eq_self) auto
  moreover have "sint (word_of_int x :: goint) = signed_take_bit 63 x" for x by (simp add: sint_sbintrunc')
  ultimately show ?thesis by (metis mult.commute)
qed

theorem aix_disk_bytes:
  assumes "\<bar>sint (ad_Rblks s)\<bar> < 2 ^ 54" "\<bar>sint (ad_Wblks s)\<bar> < 2 ^ 54"
  shows "take 2 (aix_disk_metrics ticks s) =
    [mustNewConstMetric readBytesDesc (f64_of_int (512 * sint (ad_Rblks s))) [ad_Name s],
     mustNewConstMetric writtenBytesDesc (f64_of_int (512 * sint (ad_Wblks s))) [ad_Name s]]"
  using blocks_to_bytes [OF assms(1)] blocks_to_bytes [OF assms(2)] by (simp add: aix_disk_metrics_def f64_i_def)

end
