(* ===== verification/Darwin.thy ===== *)
theory Darwin
  imports Bsd Energy GoNet
begin

text \<open>
  Collectors of Darwin over the C interfaces of the system: \<^verbatim>\<open>meminfo_darwin.go\<close>, \<^verbatim>\<open>powersupplyclass_darwin.go\<close> with the C
  functions in it, and \<^verbatim>\<open>thermal_darwin.go\<close> with its two variants for processors; also \<^verbatim>\<open>time_other.go\<close>. Core Foundation, IOKit and Mach are the
  environment: what their calls return is a parameter.
\<close>

section \<open>Memory\<close>

record vmStatistics64 =
  active_count :: int
  compressor_page_count :: int
  inactive_count :: int
  wire_count :: int
  free_count :: int
  pageins :: int
  pageouts :: int
  internal_page_count :: int
  purgeable_count :: int

record machMemEnv =
  host_statistics64 :: "int \<times> vmStatistics64"
  MK_SUCCESS :: int
  Sysctl_memsize :: "uint8 list res"
  SysctlRaw_swapusage :: "uint8 list res"
  mm_memory :: "nat \<Rightarrow> uint8"
  sizeof_xsw_usage :: nat
  xsu_used :: "uint8 list \<Rightarrow> uint64"
  xsu_total :: "uint8 list \<Rightarrow> uint64"
  page_size :: nat

text \<open>\<^verbatim>\<open>binary.LittleEndian.Uint64\<close> looks at the eighth byte first.\<close>

definition LittleEndian_Uint64 :: "uint8 list \<Rightarrow> uint64 res" where
  "LittleEndian_Uint64 b = (if length b < 8 then Panic ''index out of range'' else Ok (of_nat (of_le (take 8 b))))"

definition getMemInfo_darwin :: "machMemEnv \<Rightarrow> (string, float64) gomap res" where
  "getMemInfo_darwin env =
     (let (ret, vmstat) = host_statistics64 env in
      if ret \<noteq> MK_SUCCESS env then Err (Errorf ''couldn't get memory statistics, host_statistics returned %d'' [Itoa ret])
      else
        bind_res (Sysctl_memsize env) (\<lambda>totalb.
        bind_res (SysctlRaw_swapusage env) (\<lambda>swapraw.
        bind_res (unsafe_read (mm_memory env) swapraw 0 (sizeof_xsw_usage env)) (\<lambda>swap.
        bind_res (LittleEndian_Uint64 (totalb @ [0])) (\<lambda>memsize.
          let ps = (\<lambda>n. f64_mul (f64_of_nat (page_size env)) (f64_of_int n)) in
          Ok [(''active_bytes'', ps (active_count vmstat)), (''compressed_bytes'', ps (compressor_page_count vmstat)),
              (''inactive_bytes'', ps (inactive_count vmstat)), (''wired_bytes'', ps (wire_count vmstat)), (''free_bytes'', ps (free_count vmstat)),
              (''swapped_in_bytes_total'', ps (pageins vmstat)), (''swapped_out_bytes_total'', ps (pageouts vmstat)),
              (''internal_bytes'', ps (internal_page_count vmstat)), (''purgeable_bytes'', ps (purgeable_count vmstat)),
              (''total_bytes'', f64_of_nat (unat memsize)),
              (''swap_used_bytes'', f64_of_nat (unat (xsu_used env swap))), (''swap_total_bytes'', f64_of_nat (unat (xsu_total env swap)))])))))"

section \<open>Power supplies\<close>

text \<open>
  A description of a power source: its numbers (\<open>None\<close> inside when the number does not fit an \<^verbatim>\<open>int\<close>), booleans, and strings,
  which have a length in units of UTF-16 and their bytes in UTF-8. Keys are named as in the headers of IOKit.
\<close>

record cfDictionary =
  cf_number :: "string \<Rightarrow> int option option"
  cf_boolean :: "string \<Rightarrow> bool option"
  cf_string :: "string \<Rightarrow> (nat \<times> string) option"

definition CFDictionaryGetInt :: "cfDictionary \<Rightarrow> string \<Rightarrow> int option" where
  "CFDictionaryGetInt theDict key = (case cf_number theDict key of None \<Rightarrow> None | Some v \<Rightarrow> v)"

definition CFDictionaryGetBoolean :: "cfDictionary \<Rightarrow> string \<Rightarrow> int option" where
  "CFDictionaryGetBoolean theDict key = (case cf_boolean theDict key of None \<Rightarrow> None | Some b \<Rightarrow> Some (if b then 1 else 0))"

text \<open>The buffer has room for as many bytes as the string has units, and a null byte; \<^verbatim>\<open>CFStringGetCString\<close> fails when that is too little.\<close>

definition CFDictionaryGetSring :: "cfDictionary \<Rightarrow> string \<Rightarrow> string option" where
  "CFDictionaryGetSring theDict key =
     (case cf_string theDict key of
        None \<Rightarrow> None
      | Some (len, utf8) \<Rightarrow> let bufsize = len + 1 in if length utf8 + 1 \<le> bufsize then Some utf8 else None)"

record macos_powersupply =
  mp_Name :: "string option"
  mp_PowerSourceState :: "string option"
  mp_Type :: "string option"
  mp_TransportType :: "string option"
  mp_BatteryHealth :: "string option"
  mp_HardwareSerialNumber :: "string option"
  mp_PowerSourceID :: "int option"
  mp_CurrentCapacity :: "int option"
  mp_MaxCapacity :: "int option"
  mp_DesignCapacity :: "int option"
  mp_NominalCapacity :: "int option"
  mp_TimeToEmpty :: "int option"
  mp_TimeToFullCharge :: "int option"
  mp_Voltage :: "int option"
  mp_Current :: "int option"
  mp_Temperature :: "int option"
  mp_IsCharged :: "int option"
  mp_IsCharging :: "int option"
  mp_InternalFailure :: "int option"
  mp_IsPresent :: "int option"

definition getPowerSupplyInfo :: "cfDictionary option \<Rightarrow> macos_powersupply option" where
  "getPowerSupplyInfo powerSourceInformation =
     map_option (\<lambda>d.
       \<lparr>mp_Name = CFDictionaryGetSring d ''kIOPSNameKey'', mp_PowerSourceState = CFDictionaryGetSring d ''kIOPSPowerSourceStateKey'',
        mp_Type = CFDictionaryGetSring d ''kIOPSTypeKey'', mp_TransportType = CFDictionaryGetSring d ''kIOPSTransportTypeKey'',
        mp_BatteryHealth = CFDictionaryGetSring d ''kIOPSBatteryHealthKey'',
        mp_HardwareSerialNumber = CFDictionaryGetSring d ''kIOPSHardwareSerialNumberKey'',
        mp_PowerSourceID = CFDictionaryGetInt d ''kIOPSPowerSourceIDKey'', mp_CurrentCapacity = CFDictionaryGetInt d ''kIOPSCurrentCapacityKey'',
        mp_MaxCapacity = CFDictionaryGetInt d ''kIOPSMaxCapacityKey'', mp_DesignCapacity = CFDictionaryGetInt d ''kIOPSDesignCapacityKey'',
        mp_NominalCapacity = CFDictionaryGetInt d ''kIOPSNominalCapacityKey'', mp_TimeToEmpty = CFDictionaryGetInt d ''kIOPSTimeToEmptyKey'',
        mp_TimeToFullCharge = CFDictionaryGetInt d ''kIOPSTimeToFullChargeKey'', mp_Voltage = CFDictionaryGetInt d ''kIOPSVoltageKey'',
        mp_Current = CFDictionaryGetInt d ''kIOPSCurrentKey'', mp_Temperature = CFDictionaryGetInt d ''kIOPSTemperatureKey'',
        mp_IsCharged = CFDictionaryGetBoolean d ''kIOPSIsChargedKey'', mp_IsCharging = CFDictionaryGetBoolean d ''kIOPSIsChargingKey'',
        mp_InternalFailure = CFDictionaryGetBoolean d ''kIOPSInternalFailureKey'', mp_IsPresent = CFDictionaryGetBoolean d ''kIOPSIsPresentKey''\<rparr>)
     powerSourceInformation"

text \<open>The calls of IOKit, each with the error of its errno; no list is \<open>None\<close>, no description \<open>None\<close>.\<close>

record iokitEnv =
  IOPSCopyPowerSourcesInfo :: "unit res"
  IOPSCopyPowerSourcesList :: "unit option res"
  CFArrayGetCount :: "nat res"
  CFArrayGetValueAtIndex :: "nat \<Rightarrow> nat res"
  IOPSGetPowerSourceDescription :: "nat \<Rightarrow> cfDictionary option res"

definition getPowerSourceList :: "iokitEnv \<Rightarrow> macos_powersupply option list res" where
  "getPowerSourceList env =
     bind_res (IOPSCopyPowerSourcesInfo env) (\<lambda>_.
     bind_res (IOPSCopyPowerSourcesList env) (\<lambda>psList.
       case psList of
         None \<Rightarrow> Ok []
       | Some _ \<Rightarrow>
           bind_res (CFArrayGetCount env) (\<lambda>n.
             fold_res (\<lambda>i ret.
               bind_res (CFArrayGetValueAtIndex env i) (\<lambda>ps.
               bind_res (IOPSGetPowerSourceDescription env ps) (\<lambda>d. Ok (ret @ [getPowerSupplyInfo d])))) [0..<n] [])))"

definition convertValue :: "int option \<Rightarrow> float64 option" where
  "convertValue = map_option f64_of_int"

definition scaleValue :: "int option \<Rightarrow> float64 \<Rightarrow> float64 option" where
  "scaleValue v scale = map_option (\<lambda>x. f64_div x scale) (convertValue v)"

definition minutesToSeconds :: "int option \<Rightarrow> float64 option" where
  "minutesToSeconds minutes = map_option (\<lambda>x. if f64_lt (Fin 0) x then f64_mul x (Fin 60) else x) (convertValue minutes)"

definition getPowerSourceDescriptorMap :: "macos_powersupply \<Rightarrow> (string, float64 option) gomap" where
  "getPowerSourceDescriptorMap info =
     [(''current_capacity'', convertValue (mp_CurrentCapacity info)), (''max_capacity'', convertValue (mp_MaxCapacity info)),
      (''design_capacity'', convertValue (mp_DesignCapacity info)), (''nominal_capacity'', convertValue (mp_NominalCapacity info)),
      (''time_to_empty_seconds'', minutesToSeconds (mp_TimeToEmpty info)), (''time_to_full_seconds'', minutesToSeconds (mp_TimeToFullCharge info)),
      (''voltage_volt'', scaleValue (mp_Voltage info) (Fin 1000)), (''current_ampere'', scaleValue (mp_Current info) (Fin 1000)),
      (''temp_celsius'', convertValue (mp_Temperature info)), (''present'', convertValue (mp_IsPresent info)),
      (''charging'', convertValue (mp_IsCharging info)), (''charged'', convertValue (mp_IsCharged info)),
      (''internal_failure'', convertValue (mp_InternalFailure info))]"

text \<open>\<^verbatim>\<open>C.GoString\<close> of a null pointer is the empty string; dereferencing the pointer to the ID is a panic when it is null.\<close>

definition GoString :: "string option \<Rightarrow> string" where
  "GoString p = (case p of None \<Rightarrow> [] | Some s \<Rightarrow> s)"

definition getPowerSourceDescriptorLabels :: "macos_powersupply option \<Rightarrow> (string, string) gomap res" where
  "getPowerSourceDescriptorLabels p =
     (case p of
        None \<Rightarrow> Panic ''nil pointer dereference''
      | Some info \<Rightarrow>
          (case mp_PowerSourceID info of
             None \<Rightarrow> Panic ''nil pointer dereference''
           | Some i \<Rightarrow> Ok
               [(''id'', Itoa i), (''power_supply'', GoString (mp_Name info)), (''type'', GoString (mp_Type info)),
                (''transport_type'', GoString (mp_TransportType info)), (''serial_number'', GoString (mp_HardwareSerialNumber info))]))"

definition getPowerSourceDescriptorState :: "macos_powersupply \<Rightarrow> (string, float64) gomap" where
  "getPowerSourceDescriptorState info =
     map_put (GoString (mp_PowerSourceState info)) (Fin 1) [(''Off Line'', Fin 0), (''AC Power'', Fin 0), (''Battery Power'', Fin 0)]"

definition getPowerSourceDescriptorBatteryHealth :: "macos_powersupply \<Rightarrow> (string, float64) gomap" where
  "getPowerSourceDescriptorBatteryHealth info =
     (case mp_BatteryHealth info of
        None \<Rightarrow> []
      | Some h \<Rightarrow> map_put h (Fin 1) [(''Good'', Fin 0), (''Fair'', Fin 0), (''Poor'', Fin 0)])"

definition power_field_desc :: "string \<Rightarrow> string list \<Rightarrow> desc" where
  "power_field_desc name = NewDesc (BuildFQName namespace ''power_supply'' name)
     (''IOKit Power Source information field '' @ name @ '' for <power_supply>.'')"

definition pushEnumMetric :: "(string, float64) gomap \<Rightarrow> string \<Rightarrow> string \<Rightarrow> metric list" where
  "pushEnumMetric vs name powerSupplyName =
     map (\<lambda>(state, v). MustNewConstMetric (power_field_desc name [''power_supply'', ''state'']) GaugeValue v [powerSupplyName, state]) vs"

text \<open>The orders in which the maps of a source are iterated.\<close>

record powerOrd =
  po_fields :: "(string \<times> float64 option) list \<Rightarrow> (string \<times> float64 option) list"
  po_states :: "(string \<times> float64) list \<Rightarrow> (string \<times> float64) list"
  po_labels :: "(string \<times> string) list \<Rightarrow> (string \<times> string) list"

definition darwin_power_metrics :: "powerOrd \<Rightarrow> (string, string) gomap \<Rightarrow> macos_powersupply \<Rightarrow> metric list" where
  "darwin_power_metrics ord labels info =
     (let name = map_get_z [] labels ''power_supply''; kept = filter (\<lambda>(k, v). v \<noteq> []) (po_labels ord labels) in
      concat (map (\<lambda>(k, v). case v of None \<Rightarrow> [] | Some x \<Rightarrow> [MustNewConstMetric (power_field_desc k [''power_supply'']) GaugeValue x [name]])
        (po_fields ord (getPowerSourceDescriptorMap info))) @
      pushEnumMetric (po_states ord (getPowerSourceDescriptorState info)) ''power_source_state'' name @
      pushEnumMetric (po_states ord (getPowerSourceDescriptorBatteryHealth info)) ''battery_health'' name @
      [MustNewConstMetric (NewDesc (BuildFQName namespace ''power_supply'' ''info'') ''IOKit Power Source information for <power_supply>.'' (map fst kept))
         GaugeValue (Fin 1) (map snd kept)])"

text \<open>
  The metrics of the sources and, first, the sources that \<^verbatim>\<open>releasePowerSupply\<close> has freed.
\<close>

fun power_sources :: "powerOrd \<Rightarrow> regexp \<Rightarrow> macos_powersupply option list \<Rightarrow> macos_powersupply list \<times> upd" where
  "power_sources ord ignoredPattern [] = ([], emit [])"
| "power_sources ord ignoredPattern (p # psList) =
     (case (getPowerSourceDescriptorLabels p, p) of
        (Ok labels, Some info) \<Rightarrow>
          if MatchString ignoredPattern (map_get_z [] labels ''power_supply'') then power_sources ord ignoredPattern psList
          else let (released, u) = power_sources ord ignoredPattern psList
               in (info # released, seq (emit (darwin_power_metrics ord labels info)) u)
      | _ \<Rightarrow> ([], ([], Panic ''nil pointer dereference'')))"

definition power_darwin_Update :: "powerOrd \<Rightarrow> iokitEnv \<Rightarrow> regexp \<Rightarrow> macos_powersupply list \<times> upd" where
  "power_darwin_Update ord env ignoredPattern =
     (case map_err (Wrapf ''couldn't get IOPPowerSourcesList: %w'' []) (getPowerSourceList env) of
        Err e \<Rightarrow> ([], fail e)
      | Panic q \<Rightarrow> ([], ([], Panic q))
      | Ok psList \<Rightarrow> power_sources ord ignoredPattern psList)"

section \<open>Thermal limits\<close>

text \<open>
  A string of Core Foundation: the pointer to its bytes when there is one; its length; the size of a buffer for it, which is
  negative when there is none; and what \<^verbatim>\<open>CFStringGetBytes\<close> writes into a buffer of a size.
\<close>

record cfString =
  cf_CStringPtr :: "string option"
  cf_Length :: int
  cf_MaximumSize :: int
  cf_GetBytes :: "nat \<Rightarrow> string"

text \<open>The bytes are those of the first bytes of the buffer that were used.\<close>

definition mappingCFStringToString :: "cfString \<Rightarrow> string res" where
  "mappingCFStringToString s =
     (case cf_CStringPtr s of
        Some p \<Rightarrow> Ok p
      | None \<Rightarrow>
          if cf_Length s = 0 \<or> cf_MaximumSize s = 0 then Ok []
          else if cf_MaximumSize s < 0 then Panic ''makeslice: len out of range''
          else Ok (SafeBytesToString (cf_GetBytes s (nat (cf_MaximumSize s)))))"

definition cfStringToString :: "cfString \<Rightarrow> string" where
  "cfStringToString s =
     (case cf_CStringPtr s of
        Some p \<Rightarrow> p
      | None \<Rightarrow>
          if cf_Length s \<le> 0 \<or> cf_MaximumSize s \<le> 0 then []
          else SafeBytesToString (cf_GetBytes s (nat (min 4096 (cf_MaximumSize s)))))"

record thermEnv =
  th_ret :: int
  th_dict :: "(cfString \<times> int) list"
  kIOReturnNotFound :: int
  kIOReturnSuccess :: int
  kSchedulerTimeKey :: string
  kProcessorCountKey :: string
  kProcessorSpeedKey :: string

text \<open>The dictionary as a map, a later key of the same string taking the place of an earlier one.\<close>

definition mappingCFDictToMap :: "(cfString \<times> int) list \<Rightarrow> (string, int) gomap res" where
  "mappingCFDictToMap d = fold_res (\<lambda>(k, v) m. bind_res (mappingCFStringToString k) (\<lambda>s. Ok (map_put s v m))) d []"

definition pad_zeros :: "nat \<Rightarrow> string \<Rightarrow> string" where
  "pad_zeros n s = replicate (n - length s) CHR ''0'' @ s"

definition hex08 :: "int \<Rightarrow> string" where
  "hex08 n = (if n < 0 then CHR ''-'' # pad_zeros 7 (FormatHex (nat (- n))) else pad_zeros 8 (FormatHex (nat n)))"

definition fetchCPUPowerStatus :: "thermEnv \<Rightarrow> (string, int) gomap res" where
  "fetchCPUPowerStatus env =
     (if th_ret env = kIOReturnNotFound env then Err (NewError ''no CPU power status has been recorded'')
      else if th_ret env \<noteq> kIOReturnSuccess env then Err (Errorf ''no CPU power status with error code 0x%08x'' [hex08 (th_ret env)])
      else mappingCFDictToMap (th_dict env))"

definition therm_desc :: "string \<Rightarrow> string \<Rightarrow> string list \<Rightarrow> typedDesc" where
  "therm_desc name help labels = \<lparr>td_desc = NewDesc (BuildFQName namespace ''thermal'' name) help labels, td_valueType = GaugeValue\<rparr>"

definition cpuSchedulerLimit :: typedDesc where
  "cpuSchedulerLimit = therm_desc ''cpu_scheduler_limit_ratio'' ''Represents the percentage (0-100) of CPU time available. 100% at normal operation. The OS may limit this time for a percentage less than 100%.'' []"

definition cpuAvailableCPU :: typedDesc where
  "cpuAvailableCPU = therm_desc ''cpu_available_cpu'' ''Reflects how many, if any, CPUs have been taken offline. Represented as an integer number of CPUs (0 - Max CPUs).'' []"

definition cpuSpeedLimit :: typedDesc where
  "cpuSpeedLimit = therm_desc ''cpu_speed_limit_ratio'' ''Defines the speed & voltage limits placed on the CPU. Represented as a percentage (0-100) of maximum CPU speed.'' []"

definition therm_temperature :: typedDesc where
  "therm_temperature = therm_desc ''temperature_celsius'' ''Temperature of the thermal sensor in Celsius.'' [''sensor'']"

definition thermal_limits :: "thermEnv \<Rightarrow> (string, int) gomap \<Rightarrow> metric list" where
  "thermal_limits env status =
     concat (map (\<lambda>(key, td, f). case map_get status key of None \<Rightarrow> [] | Some v \<Rightarrow> [mustNewConstMetric td (f (f64_of_int v)) []])
       [(kSchedulerTimeKey env, cpuSchedulerLimit, \<lambda>x. f64_div x (Fin 100)),
        (kProcessorCountKey env, cpuAvailableCPU, \<lambda>x. x),
        (kProcessorSpeedKey env, cpuSpeedLimit, \<lambda>x. f64_div x (Fin 100))])"

text \<open>\<^verbatim>\<open>update\<close> of \<^verbatim>\<open>time_other.go\<close>, and \<^verbatim>\<open>updateTemperatures\<close> of amd64, have nothing to add. \<^verbatim>\<open>updateTemperatures\<close> is that of the processor.\<close>

definition therm_Update :: "thermEnv \<Rightarrow> upd \<Rightarrow> upd" where
  "therm_Update env updateTemperatures =
     with_res (fetchCPUPowerStatus env) (\<lambda>cpuPowerStatus. seq (emit (thermal_limits env cpuPowerStatus)) updateTemperatures)"

definition time_other_update :: upd where
  "time_other_update = emit []"

definition updateTemperatures_amd64 :: upd where
  "updateTemperatures_amd64 = emit []"

text \<open>A sensor: its temperature when there is an event, and its product name. No client or no services is \<open>None\<close>.\<close>

definition absoluteZeroCelsius :: float64 where
  "absoluteZeroCelsius = round64 (- 27315 / 100)"

definition sensor_metric :: "float64 option \<times> cfString option \<Rightarrow> metric list" where
  "sensor_metric = (\<lambda>(event, nameRef).
     case event of
       None \<Rightarrow> []
     | Some temp \<Rightarrow>
         if f64_lt temp absoluteZeroCelsius then []
         else [mustNewConstMetric therm_temperature temp [case nameRef of None \<Rightarrow> ''Unknown'' | Some s \<Rightarrow> cfStringToString s]])"

definition updateTemperatures_arm64 :: "(float64 option \<times> cfString option) list option \<Rightarrow> upd" where
  "updateTemperatures_arm64 services = (case services of None \<Rightarrow> emit [] | Some ss \<Rightarrow> emit (concat (map sensor_metric ss)))"

section \<open>Contracts\<close>

interpretation meminfo_darwin: safe_collector_contract "\<lambda>(ord, env). meminfo_with ord (getMemInfo_darwin env)"
  "\<lambda>(ord, env). \<not> panics (Sysctl_memsize env) \<and> (\<forall>b. Sysctl_memsize env = Ok b \<longrightarrow> 7 \<le> length b) \<and>
     \<not> panics (SysctlRaw_swapusage env) \<and> SysctlRaw_swapusage env \<noteq> Ok []"
  by (rule safe_contractI)
    (auto simp: getMemInfo_darwin_def LittleEndian_Uint64_def Let_def panics_bind_res split: prod.splits intro!: meminfo_with_sound)

definition powerSource_ok :: "macos_powersupply option \<Rightarrow> bool" where
  "powerSource_ok p \<longleftrightarrow> (\<exists>info. p = Some info \<and> mp_PowerSourceID info \<noteq> None)"

lemma pushEnumMetric_ok [simp]: "list_all labels_ok (pushEnumMetric vs name p)"
  by (auto simp: pushEnumMetric_def list_all_iff power_field_desc_def)

lemma darwin_power_metrics_ok: "list_all labels_ok (darwin_power_metrics ord labels info)"
  by (simp add: darwin_power_metrics_def Let_def) (auto simp: list_all_iff power_field_desc_def split: option.splits)

lemma power_sources_sound: "list_all powerSource_ok ps \<Longrightarrow> sound (snd (power_sources ord pat ps))"
proof (induction ps)
  case (Cons p ps)
  then obtain info i where "p = Some info" "mp_PowerSourceID info = Some i" by (auto simp: powerSource_ok_def)
  with Cons show ?case
    using darwin_power_metrics_ok [of ord _ info]
    by (auto simp: getPowerSourceDescriptorLabels_def list_all_iff split: prod.splits intro!: sound_seq sound_emit)
qed (auto intro: sound_emit)

interpretation power_darwin: safe_collector_contract "\<lambda>(ord, env, pat). snd (power_darwin_Update ord env pat)"
  "\<lambda>(ord, env, pat). \<not> panics (getPowerSourceList env) \<and> (\<forall>ps. getPowerSourceList env = Ok ps \<longrightarrow> list_all powerSource_ok ps)"
proof (rule safe_contractI)
  fix e :: "powerOrd \<times> iokitEnv \<times> regexp"
  assume "case e of (ord, env, pat) \<Rightarrow> \<not> panics (getPowerSourceList env) \<and> (\<forall>ps. getPowerSourceList env = Ok ps \<longrightarrow> list_all powerSource_ok ps)"
  then show "sound (case e of (ord, env, pat) \<Rightarrow> snd (power_darwin_Update ord env pat))"
    by (cases e; cases "getPowerSourceList (fst (snd e))") (auto simp: power_darwin_Update_def intro: power_sources_sound)
qed

lemma sensor_metric_ok [simp]: "list_all labels_ok (sensor_metric x)"
  by (auto simp: sensor_metric_def therm_temperature_def therm_desc_def split: prod.splits option.splits)

lemma updateTemperatures_arm64_sound: "sound (updateTemperatures_arm64 services)"
  by (cases services) (auto simp: updateTemperatures_arm64_def intro!: sound_emit_concat)

lemma mappingCFDictToMap_panics:
  "list_all (\<lambda>(k, v). \<not> panics (mappingCFStringToString k)) d \<Longrightarrow> \<not> panics (mappingCFDictToMap d)"
  unfolding mappingCFDictToMap_def by (rule fold_res_no_panic) (auto simp: list_all_iff panics_bind_res)

lemma therm_Update_sound:
  assumes "list_all (\<lambda>(k, v). \<not> panics (mappingCFStringToString k)) (th_dict env)" "sound u"
  shows "sound (therm_Update env u)"
proof -
  have "labels_ok m" if "m \<in> set (thermal_limits env st)" for m st
    using that by (auto simp: thermal_limits_def cpuSchedulerLimit_def cpuAvailableCPU_def cpuSpeedLimit_def therm_desc_def split: option.splits)
  moreover have "\<not> panics (fetchCPUPowerStatus env)" using mappingCFDictToMap_panics [OF assms(1)] by (simp add: fetchCPUPowerStatus_def)
  ultimately show ?thesis using assms(2) by (auto simp: therm_Update_def list_all_iff intro!: sound_with_res sound_seq sound_emit)
qed

interpretation thermal_arm64: safe_collector_contract "\<lambda>(env, services). therm_Update env (updateTemperatures_arm64 services)"
  "\<lambda>(env, services). list_all (\<lambda>(k, v). \<not> panics (mappingCFStringToString k)) (th_dict env)"
  by (rule safe_contractI) (auto intro!: therm_Update_sound updateTemperatures_arm64_sound)

interpretation thermal_amd64: safe_collector_contract "\<lambda>env. therm_Update env updateTemperatures_amd64"
  "\<lambda>env. list_all (\<lambda>(k, v). \<not> panics (mappingCFStringToString k)) (th_dict env)"
  by (rule safe_contractI) (auto simp: updateTemperatures_amd64_def intro!: therm_Update_sound)

section \<open>Properties\<close>

text \<open>
  The state of a power source is exported one-hot: the series of the three known states and of the actual one, if it is another, of
  which exactly the actual one is 1.
\<close>

theorem power_state_one_hot:
  "filter (\<lambda>(s, v). v = Fin 1) (getPowerSourceDescriptorState info) = [(GoString (mp_PowerSourceState info), Fin 1)] \<and>
   wf_map (getPowerSourceDescriptorState info) \<and>
   set (map snd (getPowerSourceDescriptorState info)) \<subseteq> {Fin 0, Fin 1} \<and>
   {''Off Line'', ''AC Power'', ''Battery Power''} \<subseteq> fst ` set (getPowerSourceDescriptorState info)"
  by (auto simp: getPowerSourceDescriptorState_def dest: sym)

text \<open>
  C29: Exactly the sources that the pattern does not match are freed: the structures of those that are ignored are lost at every scrape.
\<close>

theorem power_sources_released:
  assumes "list_all powerSource_ok ps"
  shows "fst (power_sources ord pat ps) = filter (\<lambda>info. \<not> MatchString pat (GoString (mp_Name info))) (map the ps)"
  using assms
proof (induction ps)
  case (Cons p ps)
  then obtain info i where "p = Some info" "mp_PowerSourceID info = Some i" by (auto simp: powerSource_ok_def)
  with Cons show ?case by (auto simp: getPowerSourceDescriptorLabels_def map_get_z_def split: prod.splits)
qed simp

definition demo_supply :: macos_powersupply where
  "demo_supply = \<lparr>mp_Name = Some ''InternalBattery-0'', mp_PowerSourceState = Some ''AC Power'', mp_Type = None, mp_TransportType = None,
     mp_BatteryHealth = None, mp_HardwareSerialNumber = None, mp_PowerSourceID = Some 7, mp_CurrentCapacity = Some 80, mp_MaxCapacity = None,
     mp_DesignCapacity = None, mp_NominalCapacity = None, mp_TimeToEmpty = Some (- 1), mp_TimeToFullCharge = None, mp_Voltage = None,
     mp_Current = None, mp_Temperature = None, mp_IsCharged = None, mp_IsCharging = None, mp_InternalFailure = None, mp_IsPresent = None\<rparr>"

theorem power_sources_released_witness:
  "\<forall>ord. fst (power_sources ord (compiled ''^Internal'') [Some demo_supply]) = []"
  using power_sources_released [of "[Some demo_supply]" _ "compiled ''^Internal''"]
  by (simp add: powerSource_ok_def demo_supply_def GoString_def) code_simp

text \<open>
  A string that needs more bytes in UTF-8 than it has units in UTF-16, as any with a letter that is not ASCII does, is taken for
  missing; a source with such a name is exported under the empty name.
\<close>

theorem cf_string_lost:
  assumes "cf_string d ''kIOPSNameKey'' = Some (len, utf8)" "cf_number d ''kIOPSPowerSourceIDKey'' = Some (Some i)" "len < length utf8"
  shows "\<exists>labels. getPowerSourceDescriptorLabels (getPowerSupplyInfo (Some d)) = Ok labels \<and> map_get labels ''power_supply'' = Some []"
  using assms by (simp add: getPowerSourceDescriptorLabels_def getPowerSupplyInfo_def CFDictionaryGetSring_def CFDictionaryGetInt_def GoString_def)

text \<open>
  The two conversions of strings agree wherever the first does not panic on a string without a size and the buffer of the second is
  large enough.
\<close>

theorem cf_conversions_agree:
  assumes "0 \<le> cf_Length s" "0 \<le> cf_MaximumSize s" "cf_MaximumSize s \<le> 4096"
  shows "mappingCFStringToString s = Ok (cfStringToString s)"
  using assms by (auto simp: mappingCFStringToString_def cfStringToString_def min_def split: option.splits)

lemma SafeBytesToString_CPU: "SafeBytesToString ''CPU'' = ''CPU''" by code_simp

theorem cf_conversions_agree_witness:
  "mappingCFStringToString \<lparr>cf_CStringPtr = None, cf_Length = 2, cf_MaximumSize = 6, cf_GetBytes = (\<lambda>n. take n ''CPU'')\<rparr> = Ok ''CPU''"
  using cf_conversions_agree [of "\<lparr>cf_CStringPtr = None, cf_Length = 2, cf_MaximumSize = 6, cf_GetBytes = (\<lambda>n. take n ''CPU'')\<rparr>"]
  by (simp add: cfStringToString_def SafeBytesToString_CPU)

end
