(* ===== verification/Spec2Isabelle.thy ===== *)
theory Spec2Isabelle
  imports Handler Cpu Netdev Filesystem Diskstats Memory ProcFiles Netstat Textfile Irq OsRelease Processes Hwmon Zfs Ethtool Tcpstat Sysctl Raid Timesync Netmisc Services Energy Kernel Devices Fabric
    Netkern Perf Pci Diskfs Netfs Exporter Bsd BsdCpu OpenBsd BsdFs SolarisAix Darwin
begin

text \<open>
  A verification development of node_exporter as the repository has it (\<^verbatim>\<open>src/upstream\<close>): the program that serves the
  metrics of a machine over HTTP, with its registry of collectors, the collectors of Linux and those of the BSD systems, Darwin,
  Solaris and AIX. File names below are relative to \<^verbatim>\<open>src/upstream/collector\<close> unless they say otherwise.

  \<^bold>\<open>The program.\<close> Every collector registers a factory and a flag in package-level maps when the program starts
  (\<^verbatim>\<open>collector.go\<close>). A request (\<^verbatim>\<open>node_exporter.go\<close>) names collectors to take or to leave out; the handler turns the names
  into filters and makes a \<^verbatim>\<open>NodeCollector\<close> of the collectors that are enabled and pass, creating each at most once for the life
  of the process. A scrape (\<^verbatim>\<open>Collect\<close>) runs one goroutine per collector; each calls the collector's \<^verbatim>\<open>Update\<close>, which sends
  metrics into a shared channel, and then sends its duration and whether it succeeded. An \<^verbatim>\<open>Update\<close> reads what the kernel shows
  of one subsystem, converts it and sends it; some collectors keep state between scrapes.

  \<^bold>\<open>How it is modelled.\<close> Results are values of the type \<open>res\<close>: \<open>Ok\<close>, \<open>Err\<close> with
  a value of \<open>error\<close>, or \<open>Panic\<close>. An \<^verbatim>\<open>Update\<close> is a value of the type \<open>upd\<close>: the metrics it sent, in
  order, and its result; \<open>emit\<close>, \<open>seq\<close>, \<open>with_res\<close> and \<open>foreach\<close> are the statements it
  is made of. A collector with state is a function from its state to the next and an \<open>upd\<close>. What a goroutine of a scrape runs
  is a value of the type \<open>run\<close>, where the result may be missing: an \<^verbatim>\<open>Update\<close> that sends some metrics and never returns
  (\<open>btrfs_run\<close> is one). \<^verbatim>\<open>MustNewConstMetric\<close> panics when the number of labels is wrong, when a label is not valid
  UTF-8 or when the client library refuses the descriptor; \<open>construct\<close> cuts a run there, and what the library refuses in a
  descriptor is a parameter (\<open>validDesc\<close>). Machine integers are words of
  their width, \<^verbatim>\<open>float64\<close> is binary64 with its rounding (\<open>GoFloat\<close>), strings are lists of bytes, maps are association
  lists. The order in which a map is iterated is unspecified in Go and is a function argument (\<open>ord\<close>) here, so that what is
  proved holds for every order. Files, system calls, C functions and libraries that are not in the repository (procfs, sysfs,
  netlink, D-Bus, go-kstat, perfstat, the parsers of the text format and of property lists) are arguments or fields of an
  environment record of the component that uses them.

  \<^bold>\<open>The theories.\<close>
  \<^item> What Go provides: \<open>GoPrelude\<close> (results, errors, maps), \<open>GoFloat\<close>, \<open>GoStrings\<close>,
    \<open>GoNet\<close>, \<open>GoRegexp\<close> (a matcher proved against the declarative meaning of patterns); \<open>Helpers\<close> has
    the package's own helpers, path functions and device filters.
  \<^item> The frame: \<open>Metrics\<close> (metrics, descriptors, \<^verbatim>\<open>execute\<close>, and the locales \<open>collector_contract\<close> and
    \<open>safe_collector_contract\<close>, the promise a collector makes to the scrape), \<open>Goroutines\<close> (a pool of goroutines that
    send into one channel and count down a wait group, as the step relation \<open>go_step\<close>; \<open>go_wait\<close> runs a pool under a
    scheduler up to \<^verbatim>\<open>wg.Wait\<close>), \<open>Registry\<close> (registration, \<^verbatim>\<open>NewNodeCollector\<close>, and \<^verbatim>\<open>Collect\<close>
    as such a pool, with one goroutine for each collector),
    \<open>Handler\<close> (requests, one after the other, with the handler and the registry as state).
  \<^item> Linux collectors: \<open>Cpu\<close>, \<open>Netdev\<close>, \<open>Filesystem\<close> (with the watcher of hanging mounts as the step
    relation \<open>mount_step\<close>), \<open>Diskstats\<close>, \<open>Memory\<close>, \<open>ProcFiles\<close>, \<open>Netstat\<close>,
    \<open>Textfile\<close>, \<open>Irq\<close>, \<open>OsRelease\<close>, \<open>Processes\<close>, \<open>Hwmon\<close>, \<open>Zfs\<close>,
    \<open>Ethtool\<close>, \<open>Tcpstat\<close>, \<open>Sysctl\<close>, \<open>Raid\<close>, \<open>Timesync\<close>, \<open>Netmisc\<close>,
    \<open>Services\<close>, \<open>Energy\<close>, \<open>Kernel\<close>, \<open>Devices\<close>, \<open>Fabric\<close>, \<open>Netkern\<close>,
    \<open>Perf\<close>, \<open>Pci\<close>, \<open>Diskfs\<close> and \<open>Netfs\<close>; the text at the top of each names its source files.
  \<^item> Collectors of other systems: \<open>Bsd\<close> (system controls as raw bytes, and what is built on them), \<open>BsdCpu\<close>,
    \<open>OpenBsd\<close>, \<open>BsdFs\<close>, \<open>SolarisAix\<close> and \<open>Darwin\<close>. Only one system's collectors are part of a
    build; definitions that differ between systems carry the system in their name.
  \<^item> \<open>Exporter\<close> puts the Linux collectors together: \<open>healthy\<close> says what a collector may do in a scrape on
    data it can read, \<open>exporterState\<close> is what the collectors keep between scrapes.

  Definitions are named as in the source; an \<^verbatim>\<open>Update\<close> method carries the collector's name in front. \<open>PROJECT.json\<close> maps
  each to its lines.

  \<^bold>\<open>What is proved.\<close> The properties have the numbers C1, C2, and so on in the text before them.
  \<^item> The frame. \<^verbatim>\<open>NewNodeCollector\<close> makes exactly the collectors that are enabled and selected, and rejects an unknown or disabled
    filter without a change; \<^verbatim>\<open>Collect\<close> makes a bounded number of steps, after which every goroutine is done or the process
    is down or some \<^verbatim>\<open>Update\<close> hangs and the scrape waits for ever; under every interleaving each goroutine's metrics arrive
    complete and in its order; the list of enabled collectors that the handler keeps is right after any requests; a request gets what it asks for,
    but excluding everything gets everything.
  \<^item> The composition. The collectors are interpretations of a contract: on data they can read they never panic and every
    metric fits its descriptor. From them follows that a scrape, or any scrape of a sequence for those with state, ends with everything
    sent, and that the only thing which can take the process down is a text the client library refuses: a label that is not
    valid UTF-8, or a name or label name that came out malformed. Both outcomes are shown to happen.
  \<^item> The collectors. Functional behaviour on every branch where it matters: counters that never run backwards, sums and counts over
    maps whatever their order, no sample sent twice, parsing as the inverse of printing (protocol statistics, PCI identifiers,
    netlink messages, raw disk statistics), agreement with reference definitions (legacy names, the list of devices), bounds kept under
    rounding, error paths.
  \<^item> Behaviour that is not what the code means, as theorems about the code as it is: loops that do not end, panics on readable
    input, errors that are lost, structures that leak. The manifest lists them as findings.

  The lemma bundles \<open>go_simps\<close> and \<open>sound_intros\<close> and the introduction rules of \<open>Metrics\<close> carry most proofs
  of contracts; \<open>fold_res\<close> lemmas those of loops with early returns.

  \<^bold>\<open>Loops, bounds and fuel.\<close> Loops over data are recursion over it. Loops that need not end are partial functions into
  options, where \<open>None\<close> is not returning: the strides of \<^verbatim>\<open>perf_linux.go\<close>, the device numbers of \<^verbatim>\<open>btrfs_linux.go\<close>, the
  repeated system calls of OpenBSD and NetBSD and the walk over routing messages. For each it is proved where it returns, and for
  all but the NetBSD one an input on which it never does. Fuel is used for the regular expressions only: the matcher gets the length
  of the text, which is proved to be enough, and the parser of patterns twice the length of the pattern and three, which covers the
  depth of its calls. Concurrency (the goroutines of a scrape, of systemd and of the mount watcher) is explicit steps in any order;
  \<^verbatim>\<open>Update\<close> of systemd is a function of the scheduler that chose the order.

  \<^bold>\<open>Not modelled.\<close>
  \<^item> In \<^verbatim>\<open>node_exporter.go\<close>: parsing of the command line, TLS, the landing page, profiling, the user check, and the registry of the
    client library behind the handler, with its encoding and its check for samples that are exported twice.
  \<^item> Log messages (an error that is only logged is modelled as dropped); the timing of scrapes; the race in the worker pool of \<^verbatim>\<open>filesystem_linux.go\<close>, whose workers are run as one of their orders.
  \<^item> The C functions in \<^verbatim>\<open>kvm_bsd.go\<close>, \<^verbatim>\<open>cpu_dragonfly.go\<close>, the device statistics, \<^verbatim>\<open>interrupts_openbsd.go\<close> and
    \<^verbatim>\<open>filesystem_macos.go\<close>, which call system libraries; those of \<^verbatim>\<open>powersupplyclass_darwin.go\<close> that convert are modelled. What
    memory outside of a byte array holds when the code reads beyond its end is a parameter.
  \<^item> \<^verbatim>\<open>tools/main.go\<close>, which calls the build library, and \<^verbatim>\<open>getFreeBSDDataMock\<close>, which only tests use.
\<close>

end
